(* ===== verification/Prelude.thy ===== *)
theory Prelude
  imports Main "HOL-Library.AList" "HOL-Library.Sublist"
begin

text \<open>
  Shared vocabulary of the development.

  \<^item> The values of TypeScript that the gateway's code is written over: strings are lists of
    characters, optional fields are options, times are milliseconds in \<open>int\<close>, a
    \<open>Map\<close> is an association list in insertion order (\<open>AList.update\<close> replaces in
    place or appends, as \<open>Map.prototype.set\<close> does).
  \<^item> The string and array methods the sources call (\<open>startsWith\<close>, \<open>endsWith\<close>,
    \<open>split\<close>, \<open>join\<close>, \<open>indexOf\<close>, \<open>slice\<close>, \<open>toLowerCase\<close>,
    \<open>trim\<close>, the duplicate-free copy \<open>[...new Set(xs)]\<close>).
  \<^item> The lemma collections that carry the component proofs, and the generic lemmas on
    lists, options and maps they share.
\<close>

section \<open>Collections\<close>

named_theorems js_map_simps \<open>lookups in insertion-ordered maps after set and delete\<close>
named_theorems conn_defs \<open>definitions of the connection store and lifecycle\<close>
named_theorems broker_defs \<open>definitions of the authorization broker\<close>

section \<open>Basic types\<close>

type_synonym time_ms = int
type_synonym ('k, 'v) jsmap = "('k \<times> 'v) list"

abbreviation js_get :: "('k, 'v) jsmap \<Rightarrow> 'k \<Rightarrow> 'v option" where
  "js_get m k \<equiv> map_of m k"

abbreviation js_set :: "'k \<Rightarrow> 'v \<Rightarrow> ('k, 'v) jsmap \<Rightarrow> ('k, 'v) jsmap" where
  "js_set k v m \<equiv> AList.update k v m"

abbreviation js_del :: "'k \<Rightarrow> ('k, 'v) jsmap \<Rightarrow> ('k, 'v) jsmap" where
  "js_del k m \<equiv> AList.delete k m"

text \<open>Truthiness of an optional string: \<open>undefined\<close> and the empty string are falsy.\<close>

definition truthy :: "string option \<Rightarrow> bool" where
  "truthy x = (case x of None \<Rightarrow> False | Some s \<Rightarrow> s \<noteq> [])"

lemma truthy_simps [simp]:
  "\<not> truthy None"
  "truthy (Some s) \<longleftrightarrow> s \<noteq> []"
  by (simp_all add: truthy_def)

lemma truthyE: "truthy x \<Longrightarrow> (\<And>s. x = Some s \<Longrightarrow> s \<noteq> [] \<Longrightarrow> P) \<Longrightarrow> P"
  by (cases x) auto

text \<open>The operator \<open>a ?? b\<close>.\<close>

definition coalesce :: "'a option \<Rightarrow> 'a \<Rightarrow> 'a" where
  "coalesce x d = (case x of None \<Rightarrow> d | Some v \<Rightarrow> v)"

lemma coalesce_simps [simp]: "coalesce None d = d" "coalesce (Some v) d = v"
  by (simp_all add: coalesce_def)

definition orelse :: "'a option \<Rightarrow> 'a option \<Rightarrow> 'a option" where
  "orelse x y = (case x of None \<Rightarrow> y | Some v \<Rightarrow> Some v)"

lemma orelse_simps [simp]: "orelse None y = y" "orelse (Some v) y = Some v"
  by (simp_all add: orelse_def)

section \<open>Arrays\<close>

text \<open>\<open>[...new Set(xs)]\<close>: first occurrences, in order.\<close>

fun js_unique_from :: "'a list \<Rightarrow> 'a list \<Rightarrow> 'a list" where
  "js_unique_from seen [] = []"
| "js_unique_from seen (x # xs) =
     (if x \<in> set seen then js_unique_from seen xs else x # js_unique_from (x # seen) xs)"

definition js_unique :: "'a list \<Rightarrow> 'a list" where
  "js_unique xs = js_unique_from [] xs"

lemma set_js_unique_from: "set (js_unique_from seen xs) = set xs - set seen"
  by (induction seen xs rule: js_unique_from.induct) auto

lemma distinct_js_unique_from: "distinct (js_unique_from seen xs)"
  by (induction seen xs rule: js_unique_from.induct) (auto simp: set_js_unique_from)

lemma set_js_unique [simp]: "set (js_unique xs) = set xs"
  by (simp add: js_unique_def set_js_unique_from)

lemma distinct_js_unique [simp]: "distinct (js_unique xs)"
  by (simp add: js_unique_def distinct_js_unique_from)

lemma js_unique_from_id:
  "distinct xs \<Longrightarrow> set xs \<inter> set seen = {} \<Longrightarrow> js_unique_from seen xs = xs"
  by (induction seen xs rule: js_unique_from.induct) auto

lemma js_unique_id: "distinct xs \<Longrightarrow> js_unique xs = xs"
  by (simp add: js_unique_def js_unique_from_id)

lemma js_unique_eq_Nil [simp]: "js_unique xs = [] \<longleftrightarrow> xs = []"
  by (metis set_js_unique set_empty)

text \<open>\<open>new Set(xs).size !== xs.length\<close> is the duplicate test the sources write.\<close>

lemma length_js_unique_from:
  "length (js_unique_from seen xs) \<le> length xs"
  by (induction seen xs rule: js_unique_from.induct) auto

lemma js_unique_length_iff: "length (js_unique xs) = length xs \<longleftrightarrow> distinct xs"
  by (metis card_distinct distinct_card distinct_js_unique js_unique_id set_js_unique)

text \<open>\<open>array.find\<close>.\<close>

lemma find_SomeD: "List.find P xs = Some x \<Longrightarrow> P x \<and> x \<in> set xs"
  by (auto simp: find_Some_iff)

text \<open>\<open>array.sort\<close> by a time stamp followed by \<open>slice(0, limit)\<close>; the sort is stable.\<close>

definition oldest :: "('a \<Rightarrow> time_ms) \<Rightarrow> nat \<Rightarrow> 'a list \<Rightarrow> 'a list" where
  "oldest ts limit xs = take limit (sort_key ts xs)"

lemma set_oldest: "set (oldest ts limit xs) \<subseteq> set xs"
  unfolding oldest_def by (metis set_take_subset set_sort)

lemma length_oldest: "length (oldest ts limit xs) = min limit (length xs)"
  by (simp add: oldest_def)

lemma sorted_oldest: "sorted (map ts (oldest ts limit xs))"
  unfolding oldest_def by (metis sorted_sort_key sorted_wrt_take take_map)

section \<open>Insertion-ordered maps\<close>

lemma js_get_set [js_map_simps]: "js_get (js_set k v m) k' = (if k' = k then Some v else js_get m k')"
  by (simp add: update_conv')

lemma js_get_del [js_map_simps]: "js_get (js_del k m) k' = (if k' = k then None else js_get m k')"
  by (simp add: delete_conv')

lemma keys_js_set: "fst ` set (js_set k v m) = insert k (fst ` set m)"
  by (simp add: dom_update image_image flip: dom_map_of_conv_image_fst) (simp add: update_conv')

lemma distinct_js_set [simp]: "distinct (map fst m) \<Longrightarrow> distinct (map fst (js_set k v m))"
  by (rule distinct_update)

lemma distinct_js_del [simp]: "distinct (map fst m) \<Longrightarrow> distinct (map fst (js_del k m))"
  by (rule distinct_delete)

lemma length_js_set:
  "length (js_set k v m) = (if k \<in> fst ` set m then length m else Suc (length m))"
  by (induction m) auto

lemma mem_js_set:
  "distinct (map fst m) \<Longrightarrow>
   (k', v') \<in> set (js_set k v m) \<longleftrightarrow> (if k' = k then v' = v else (k', v') \<in> set m)"
  using js_get_set [of k v m k']
  by (metis distinct_js_set map_of_eq_Some_iff option.inject)

section \<open>Strings\<close>

definition newline :: char where "newline = CHR 0x0A"

text \<open>\<open>s.split(c)\<close> for a one-character separator.\<close>

fun split_on :: "char \<Rightarrow> string \<Rightarrow> string list" where
  "split_on c [] = [[]]"
| "split_on c (x # xs) =
     (if x = c then [] # split_on c xs
      else (case split_on c xs of [] \<Rightarrow> [[x]] | w # ws \<Rightarrow> (x # w) # ws))"

text \<open>\<open>parts.join(sep)\<close>.\<close>

fun join_with :: "string \<Rightarrow> string list \<Rightarrow> string" where
  "join_with sep [] = []"
| "join_with sep [w] = w"
| "join_with sep (w # ws) = w @ sep @ join_with sep ws"

lemma split_on_nonempty [simp]: "split_on c s \<noteq> []"
  by (induction c s rule: split_on.induct) (auto split: list.splits)

lemma join_with_Cons: "ws \<noteq> [] \<Longrightarrow> join_with sep (w # ws) = w @ sep @ join_with sep ws"
  by (cases ws) simp_all

lemma join_with_head: "join_with sep ((x # w) # ws) = x # join_with sep (w # ws)"
  by (cases ws) simp_all

lemma join_split_on [simp]: "join_with [c] (split_on c s) = s"
proof (induction c s rule: split_on.induct)
  case (2 c x xs)
  show ?case
  proof (cases "x = c")
    case True
    with 2 show ?thesis by (simp add: join_with_Cons)
  next
    case False
    obtain w ws where "split_on c xs = w # ws"
      by (cases "split_on c xs") auto
    with 2 False show ?thesis by (simp add: join_with_head)
  qed
qed simp

lemma split_on_no_sep: "w \<in> set (split_on c s) \<Longrightarrow> c \<notin> set w"
proof (induction c s arbitrary: w rule: split_on.induct)
  case (2 c x xs)
  then show ?case by (auto split: if_splits list.splits)
qed simp

lemma split_on_single: "c \<notin> set s \<Longrightarrow> split_on c s = [s]"
  by (induction c s rule: split_on.induct) auto

lemma split_on_append:
  "c \<notin> set w \<Longrightarrow> split_on c (w @ c # s) = w # split_on c s"
  by (induction w) auto

lemma split_join_on: "list_all (\<lambda>w. c \<notin> set w) ws \<Longrightarrow> ws \<noteq> [] \<Longrightarrow> split_on c (join_with [c] ws) = ws"
proof (induction ws)
  case (Cons w ws)
  then show ?case by (cases "ws = []") (auto simp: split_on_single join_with_Cons split_on_append)
qed simp

text \<open>\<open>toLowerCase\<close> on the ASCII letters.\<close>

definition to_lower :: "char \<Rightarrow> char" where
  "to_lower c = (if of_char c \<ge> (65::nat) \<and> of_char c \<le> (90::nat)
                 then char_of (of_char c + (32::nat)) else c)"

definition to_lower_case :: "string \<Rightarrow> string" where
  "to_lower_case s = map to_lower s"

definition is_space :: "char \<Rightarrow> bool" where
  "is_space c \<longleftrightarrow> c \<in> {CHR '' '', CHR 0x09, CHR 0x0A, CHR 0x0B, CHR 0x0C, CHR 0x0D, CHR 0xA0}"

definition trim :: "string \<Rightarrow> string" where
  "trim s = rev (dropWhile is_space (rev (dropWhile is_space s)))"

text \<open>\<open>s.indexOf(c)\<close> for one character; \<open>None\<close> is the result \<open>-1\<close>.\<close>

fun index_of :: "'a \<Rightarrow> 'a list \<Rightarrow> nat option" where
  "index_of c [] = None"
| "index_of c (x # xs) = (if x = c then Some 0 else map_option Suc (index_of c xs))"

lemma index_of_None [simp]: "index_of c s = None \<longleftrightarrow> c \<notin> set s"
  by (induction s) auto

lemma index_of_SomeD: "index_of c s = Some i \<Longrightarrow> i < length s \<and> s ! i = c \<and> c \<notin> set (take i s)"
  by (induction s arbitrary: i) (auto split: if_splits)

lemma index_of_append:
  "c \<notin> set w \<Longrightarrow> index_of c (w @ c # s) = Some (length w)"
  by (induction w) auto

text \<open>Character classes of the regular expressions in the sources.\<close>

definition is_lower_alpha :: "char \<Rightarrow> bool" where
  "is_lower_alpha c \<longleftrightarrow> of_char c \<ge> (97::nat) \<and> of_char c \<le> (122::nat)"

definition is_upper_alpha :: "char \<Rightarrow> bool" where
  "is_upper_alpha c \<longleftrightarrow> of_char c \<ge> (65::nat) \<and> of_char c \<le> (90::nat)"

definition is_digit :: "char \<Rightarrow> bool" where
  "is_digit c \<longleftrightarrow> of_char c \<ge> (48::nat) \<and> of_char c \<le> (57::nat)"

lemmas char_class_defs = is_lower_alpha_def is_upper_alpha_def is_digit_def

section \<open>Decimal numerals\<close>

text \<open>\<open>String(n)\<close> for a natural number.\<close>

fun nat_str :: "nat \<Rightarrow> string" where
  "nat_str n = (if n < 10 then [char_of (48 + n)] else nat_str (n div 10) @ [char_of (48 + n mod 10)])"

declare nat_str.simps [simp del]

section \<open>Inductive invariants\<close>

text \<open>A state machine with an invariant that holds initially and is kept by every step.\<close>

locale inductive_invariant =
  fixes init :: 's and step :: "'s \<Rightarrow> 's \<Rightarrow> bool" and inv :: "'s \<Rightarrow> bool"
  assumes inv_init: "inv init"
    and inv_step: "inv s \<Longrightarrow> step s s' \<Longrightarrow> inv s'"
begin

lemma inv_reachable: "step\<^sup>*\<^sup>* init s \<Longrightarrow> inv s"
  by (induction rule: rtranclp_induct) (auto intro: inv_init inv_step)

lemma inv_steps: "step\<^sup>*\<^sup>* s s' \<Longrightarrow> inv s \<Longrightarrow> inv s'"
  by (induction rule: rtranclp_induct) (auto intro: inv_step)

end

end
