(* ===== verification/Secret_Crypto.thy ===== *)
theory Secret_Crypto
  imports Prelude
begin

text \<open>
  \<open>shared/oauth/crypto.ts\<close>: the envelope format in which provider credentials are stored,
  \<open>v1.<iv>.<tag>.<ciphertext>\<close> with base64 fields.

  AES-256-GCM and the base64 codec belong to the runtime: they are the fields of
  \<open>crypto_lib\<close>, and \<open>crypto_laws\<close> names what their documentation promises. Bytes
  are characters. The random initialisation vector is an argument.
\<close>

section \<open>The runtime's cipher\<close>

record crypto_lib =
  aes_gcm_encrypt :: "string \<Rightarrow> string \<Rightarrow> string \<Rightarrow> string \<times> string"
    \<comment> \<open>key, iv, plaintext to ciphertext and tag\<close>
  aes_gcm_decrypt :: "string \<Rightarrow> string \<Rightarrow> string \<Rightarrow> string \<Rightarrow> string option"
    \<comment> \<open>key, iv, tag, ciphertext; \<open>None\<close> when authentication fails\<close>
  base64_encode :: "string \<Rightarrow> string"
  base64_decode :: "string \<Rightarrow> string"

definition aead_laws :: "crypto_lib \<Rightarrow> bool" where
  "aead_laws lib \<longleftrightarrow>
     (\<forall>k iv p. aes_gcm_decrypt lib k iv (snd (aes_gcm_encrypt lib k iv p))
                 (fst (aes_gcm_encrypt lib k iv p)) = Some p) \<and>
     (\<forall>k iv p. length (fst (aes_gcm_encrypt lib k iv p)) = length p) \<and>
     (\<forall>k iv p. length (snd (aes_gcm_encrypt lib k iv p)) = 16)"

definition base64_laws :: "crypto_lib \<Rightarrow> bool" where
  "base64_laws lib \<longleftrightarrow>
     (\<forall>b. base64_decode lib (base64_encode lib b) = b) \<and>
     (\<forall>b. CHR ''.'' \<notin> set (base64_encode lib b)) \<and>
     (\<forall>b. base64_encode lib b = [] \<longleftrightarrow> b = [])"

section \<open>The functions of the module\<close>

datatype crypto_error = InvalidKeyLength | UnsupportedFormat | AuthenticationFailed

definition decodeKey :: "crypto_lib \<Rightarrow> string \<Rightarrow> crypto_error + string" where
  "decodeKey lib keyBase64 =
     (let key = base64_decode lib keyBase64 in
      if length key \<noteq> 32 then Inl InvalidKeyLength else Inr key)"

definition encryptSecret :: "crypto_lib \<Rightarrow> string \<Rightarrow> string \<Rightarrow> string \<Rightarrow> crypto_error + string" where
  "encryptSecret lib iv plaintext keyBase64 =
     (case decodeKey lib keyBase64 of
        Inl e \<Rightarrow> Inl e
      | Inr key \<Rightarrow>
          (let (ciphertext, tag) = aes_gcm_encrypt lib key iv plaintext in
           Inr (join_with ''.''
             [''v1'', base64_encode lib iv, base64_encode lib tag, base64_encode lib ciphertext])))"

text \<open>A destructured array element that is missing is \<open>undefined\<close>.\<close>

definition nth_field :: "string list \<Rightarrow> nat \<Rightarrow> string option" where
  "nth_field parts i = (if i < length parts then Some (parts ! i) else None)"

definition decryptSecret :: "crypto_lib \<Rightarrow> string \<Rightarrow> string \<Rightarrow> crypto_error + string" where
  "decryptSecret lib encrypted keyBase64 =
     (let parts = split_on (CHR ''.'') encrypted in
      if nth_field parts 0 \<noteq> Some ''v1'' \<or> \<not> truthy (nth_field parts 1) \<or>
         \<not> truthy (nth_field parts 2) \<or> \<not> truthy (nth_field parts 3)
      then Inl UnsupportedFormat
      else case decodeKey lib keyBase64 of
          Inl e \<Rightarrow> Inl e
        | Inr key \<Rightarrow>
            (case aes_gcm_decrypt lib key (base64_decode lib (parts ! 1))
                    (base64_decode lib (parts ! 2)) (base64_decode lib (parts ! 3)) of
               None \<Rightarrow> Inl AuthenticationFailed
             | Some plaintext \<Rightarrow> Inr plaintext))"

section \<open>The format round trips\<close>

lemma split_encrypted:
  assumes "base64_laws lib"
  shows "split_on (CHR ''.'') (join_with ''.''
           [''v1'', base64_encode lib a, base64_encode lib b, base64_encode lib c])
         = [''v1'', base64_encode lib a, base64_encode lib b, base64_encode lib c]"
proof -
  have nd: "CHR ''.'' \<notin> set (base64_encode lib x)" for x
    using assms by (simp add: base64_laws_def)
  have "CHR ''.'' \<notin> set ''v1''" by simp
  with nd show ?thesis
    by (simp add: split_on_append split_on_single del: split_on.simps)
       (simp add: split_on_append split_on_single)
qed

text \<open>
  C14. Decrypting an encrypted secret under the same 32-byte key gives the secret back. The one
  plaintext for which the round trip fails is the empty string: its ciphertext field is empty and
  \<open>decryptSecret\<close> refuses the format.
\<close>

theorem encrypt_decrypt_roundtrip:
  assumes "aead_laws lib" and "base64_laws lib"
    and "decodeKey lib keyBase64 = Inr key" and "iv \<noteq> []"
  shows "\<exists>c. encryptSecret lib iv plaintext keyBase64 = Inr c \<and>
             decryptSecret lib c keyBase64 =
               (if plaintext = [] then Inl UnsupportedFormat else Inr plaintext)"
proof -
  obtain ct tag where enc: "aes_gcm_encrypt lib key iv plaintext = (ct, tag)" by fastforce
  have "length ct = length plaintext" and "length tag = 16"
    and dec: "aes_gcm_decrypt lib key iv tag ct = Some plaintext"
    using assms(1) enc unfolding aead_laws_def by (metis fst_conv snd_conv)+
  then have ct: "ct = [] \<longleftrightarrow> plaintext = []" and tag: "tag \<noteq> []" by auto
  have b64: "base64_decode lib (base64_encode lib b) = b"
    and ne: "base64_encode lib b = [] \<longleftrightarrow> b = []" for b
    using assms(2) by (simp_all add: base64_laws_def)
  show ?thesis
    using assms(3,4) enc dec ct tag
    by (auto simp: encryptSecret_def decryptSecret_def split_encrypted [OF assms(2)]
        nth_field_def b64 ne Let_def simp del: join_with.simps)
qed

section \<open>An instance of the laws\<close>

text \<open>The identity cipher with a fixed tag, and a codec that writes each byte as two letters.\<close>

definition toy_tag :: string where "toy_tag = replicate 16 CHR ''t''"

definition nibble_char :: "nat \<Rightarrow> char" where
  "nibble_char n = char_of (65 + n)"

fun toy_encode :: "string \<Rightarrow> string" where
  "toy_encode [] = []"
| "toy_encode (c # cs) = nibble_char (of_char c div 16) # nibble_char (of_char c mod 16) # toy_encode cs"

fun toy_decode :: "string \<Rightarrow> string" where
  "toy_decode (a # b # cs) = char_of ((of_char a - 65) * 16 + (of_char b - (65::nat))) # toy_decode cs"
| "toy_decode _ = []"

definition toy_crypto :: crypto_lib where
  "toy_crypto = \<lparr>aes_gcm_encrypt = (\<lambda>k iv p. (p, toy_tag)),
                 aes_gcm_decrypt = (\<lambda>k iv t c. if t = toy_tag then Some c else None),
                 base64_encode = toy_encode, base64_decode = toy_decode\<rparr>"

lemma of_char_lt: "(of_char (c :: char) :: nat) < 256"
  by (metis of_char_mod_256 mod_less_divisor zero_less_numeral)

lemma of_nibble_char: "n < 16 \<Longrightarrow> of_char (nibble_char n) = 65 + n"
  by (simp add: nibble_char_def of_char_of)

lemma toy_decode_encode: "toy_decode (toy_encode s) = s"
proof (induction s)
  case (Cons c cs)
  have "(of_char c :: nat) div 16 < 16" using of_char_lt [of c] by (intro less_mult_imp_div_less) simp
  then show ?case using Cons by (simp add: of_nibble_char)
qed simp

lemma toy_encode_no_dot: "CHR ''.'' \<notin> set (toy_encode s)"
proof (induction s)
  case (Cons c cs)
  have "n < 16 \<Longrightarrow> nibble_char n \<noteq> CHR ''.''" for n
    using of_nibble_char [of n] by auto
  moreover have "(of_char c :: nat) div 16 < 16" using of_char_lt [of c] by (intro less_mult_imp_div_less) simp
  ultimately show ?case using Cons by (auto simp: eq_commute [of "CHR ''.''"])
qed simp

lemma toy_laws: "aead_laws toy_crypto" "base64_laws toy_crypto"
proof -
  have "toy_encode b = [] \<longleftrightarrow> b = []" for b by (cases b) simp_all
  then show "base64_laws toy_crypto"
    by (simp add: base64_laws_def toy_crypto_def toy_decode_encode toy_encode_no_dot)
qed (simp add: aead_laws_def toy_crypto_def toy_tag_def)

definition toy_key :: string where "toy_key = toy_encode (replicate 32 CHR ''k'')"

lemma toy_key_ok: "decodeKey toy_crypto toy_key = Inr (replicate 32 CHR ''k'')"
  by (simp add: decodeKey_def toy_crypto_def toy_key_def toy_decode_encode)

theorem encrypt_decrypt_roundtrip_witness:
  "\<exists>c. encryptSecret toy_crypto ''iv'' ''secret'' toy_key = Inr c \<and>
       decryptSecret toy_crypto c toy_key = Inr ''secret''"
  using encrypt_decrypt_roundtrip [OF toy_laws toy_key_ok, of "''iv''" "''secret''"] by simp

end
