(* ===== verification/Connection_Types.thy ===== *)
theory Connection_Types
  imports Prelude
begin

text \<open>
  The data model of provider connections: \<open>shared/oauth/connection-types.ts\<close> and the record
  types of \<open>shared/oauth/store.ts\<close>. Interfaces are records, string unions are datatypes,
  optional fields are options, \<open>Date\<close>s are milliseconds.
\<close>

section \<open>Enumerations\<close>

datatype ConnectionPhase =
    Ph_disconnected | Ph_authorizing | Ph_connected | Ph_renewing
  | Ph_reauthorization_required | Ph_revocation_pending
  | Ph_disconnected_with_provider_cleanup_pending | Ph_unavailable

datatype LifecycleErrorCategory =
    transient_provider_failure | invalid_active_credential | invalid_renewal_credential
  | renewal_expired | authorization_denied | identity_mismatch | insufficient_scope
  | provider_configuration_error | malformed_provider_response | persistence_failure
  | generation_conflict

datatype ProviderRevocationResult =
    Res_revoked | Res_already_absent | Res_not_supported | Res_retryable_failure
  | Res_permanent_failure

datatype RevocationState = Rev_none | Rev_pending | Rev_complete | Rev_permanent_failure

datatype CredentialGenerationState =
    G_candidate | G_active | G_cleanup_pending | G_cleanup_complete
  | G_cleanup_permanent_failure | G_retired

datatype RefreshResult =
  refreshed | already_fresh | refresh_not_supported | reauthorization_required

text \<open>A scope requirement is a flat list (all of them) or a conjunction of any-of groups.\<close>

datatype ScopeRequirementInput = FlatScopes "string list" | AllOf "string list list"

section \<open>Errors\<close>

text \<open>\<open>ProviderLifecycleError\<close> carries its category; \<open>ProviderToolScopeError\<close> has the
  fixed category \<open>insufficient_scope\<close>; any other thrown value is \<open>OtherError\<close>.\<close>

datatype lifecycle_error =
  ProviderLifecycleError LifecycleErrorCategory | ProviderToolScopeError | OtherError

fun lifecycleCategory :: "lifecycle_error \<Rightarrow> LifecycleErrorCategory option" where
  "lifecycleCategory (ProviderLifecycleError c) = Some c"
| "lifecycleCategory ProviderToolScopeError = Some insufficient_scope"
| "lifecycleCategory OtherError = None"

fun lifecycleErrorRequiresReauthorization :: "lifecycle_error \<Rightarrow> bool" where
  "lifecycleErrorRequiresReauthorization (ProviderLifecycleError c) =
     (c \<in> {invalid_active_credential, invalid_renewal_credential, renewal_expired,
           identity_mismatch, insufficient_scope})"
| "lifecycleErrorRequiresReauthorization _ = False"

section \<open>Credentials\<close>

record ProviderCredentialEnvelope =
  activeCredential :: "string option"
  renewalCredential :: "string option"
  providerFields :: "(string, string) jsmap"

record ProviderConnectionCapabilities =
  interactiveAuthorization :: bool
  activeCredentialExpiry :: bool
  automaticRenewal :: bool
  manualRenewal :: bool
  rotatingRenewalCredential :: bool
  providerValidation :: bool
  providerRevocation :: bool
  scopeReporting :: bool
  identityVerification :: bool
  accountIdentityReporting :: bool
  authorizationRequiresRenewalCredential :: bool

record ProviderAccountIdentity =
  pa_id :: string
  pa_login :: "string option"

record ValidatedProviderIdentity =
  vi_displayAccountIdentity :: string
  vi_providerAccount :: "ProviderAccountIdentity option"

record DecryptedCredentialGeneration =
  dg_provider :: string
  dg_generation :: nat
  dg_credential :: ProviderCredentialEnvelope
  dg_activeCredentialExpiresAt :: "time_ms option"
  dg_renewalCredentialExpiresAt :: "time_ms option"
  dg_grantedScopes :: "string list"

record IssuedCredentialGeneration =
  ig_credential :: ProviderCredentialEnvelope
  ig_displayAccountIdentity :: string
  ig_grantedScopes :: "string list"
  ig_activeCredentialExpiresAt :: "time_ms option"
  ig_renewalCredentialExpiresAt :: "time_ms option"
  ig_validatedAt :: "time_ms option"
  ig_providerAccount :: "ProviderAccountIdentity option"

record RenewedCredentialGeneration =
  rg_credential :: ProviderCredentialEnvelope
  rg_grantedScopes :: "string list option"
  rg_activeCredentialExpiresAt :: "time_ms option"
  rg_renewalCredentialExpiresAt :: "time_ms option"
  rg_validatedAt :: "time_ms option"
  rg_providerAccount :: "ProviderAccountIdentity option"

section \<open>Stored records\<close>

record CredentialGenerationRecord =
  cg_id :: string
  cg_provider :: string
  cg_hop1Issuer :: string
  cg_hop1Subject :: string
  cg_displayAccountIdentity :: string
  cg_encryptedCredentialEnvelope :: "string option"
  cg_encryptedLegacyCredential :: "string option"
  cg_credentialSchemaVersion :: nat
  cg_generation :: nat
  cg_state :: CredentialGenerationState
  cg_grantedScopes :: "string list"
  cg_activeCredentialExpiresAt :: "time_ms option"
  cg_renewalCredentialExpiresAt :: "time_ms option"
  cg_cleanupAttempts :: nat
  cg_nextCleanupAttemptAt :: "time_ms option"
  cg_lastCleanupErrorCategory :: "LifecycleErrorCategory option"
  cg_createdAt :: time_ms
  cg_updatedAt :: time_ms

record ConnectionRecord =
  cr_provider :: string
  cr_hop1Issuer :: string
  cr_hop1Subject :: string
  cr_displayAccountIdentity :: string
  cr_providerAccountId :: "string option"
  cr_providerAccountLogin :: "string option"
  cr_encryptedCredentialEnvelope :: "string option"
  cr_credentialSchemaVersion :: "nat option"
  cr_credentialGenerationId :: "string option"
  cr_generation :: nat
  cr_requiredScopes :: "string list"
  cr_grantedScopes :: "string list"
  cr_activeCredentialPresent :: bool
  cr_renewalCredentialPresent :: bool
  cr_activeCredentialExpiresAt :: "time_ms option"
  cr_renewalCredentialExpiresAt :: "time_ms option"
  cr_lastAuthorizedAt :: "time_ms option"
  cr_lastRenewedAt :: "time_ms option"
  cr_lastValidatedAt :: "time_ms option"
  cr_localDisabledAt :: "time_ms option"
  cr_phase :: ConnectionPhase
  cr_revocationState :: RevocationState
  cr_revocationStartedAt :: "time_ms option"
  cr_revocationCompletedAt :: "time_ms option"
  cr_lifecycleErrorCategory :: "LifecycleErrorCategory option"
  cr_createdAt :: time_ms
  cr_updatedAt :: time_ms
  cr_encryptedLegacyCredential :: string

record PendingCredentialCleanupRecord =
  pc_id :: string
  pc_provider :: string
  pc_hop1Issuer :: string
  pc_hop1Subject :: string
  pc_displayAccountIdentity :: string
  pc_encryptedCredentialEnvelope :: string
  pc_credentialSchemaVersion :: nat
  pc_generation :: nat
  pc_grantedScopes :: "string list"
  pc_activeCredentialExpiresAt :: "time_ms option"
  pc_renewalCredentialExpiresAt :: "time_ms option"
  pc_createdAt :: time_ms
  pc_updatedAt :: time_ms

record OAuthAccountRecord =
  ac_provider :: string
  ac_hop1Issuer :: string
  ac_hop1Subject :: string
  ac_email :: string
  ac_providerAccountId :: "string option"
  ac_providerAccountLogin :: "string option"
  ac_scopesGranted :: "string list"
  ac_encryptedRefreshToken :: string
  ac_createdAt :: time_ms
  ac_updatedAt :: time_ms
  ac_revokedAt :: "time_ms option"

record OAuthStateRecord =
  os_provider :: "string option"
  os_stateHash :: string
  os_hop1Issuer :: string
  os_hop1Subject :: string
  os_email :: string
  os_requestedScopes :: "string list"
  os_redirectAfter :: "string option"
  os_expiresAt :: time_ms
  os_consumedAt :: "time_ms option"
  os_connectionGeneration :: "nat option"
  os_connectionLocallyDisabled :: "bool option"
  os_connectionUpdatedAt :: "time_ms option"

record Hop1Identity =
  hi_profile :: string
  hi_issuer :: string
  hi_subject :: string
  hi_email :: string

section \<open>Status documents\<close>

record StatusAccount =
  sa_provider :: string
  sa_displayName :: "string option"
  sa_id :: "string option"
  sa_login :: "string option"

record ConnectionStatusV2 =
  st_provider :: string
  st_phase :: ConnectionPhase
  st_connected :: bool
  st_account :: "StatusAccount option"
  st_requiredScopes :: "string list"
  st_grantedScopes :: "string list"
  st_missingScopes :: "string list"
  st_activeCredentialPresent :: bool
  st_renewalCredentialPresent :: bool
  st_activeCredentialExpiresAt :: "time_ms option"
  st_renewalCredentialExpiresAt :: "time_ms option"
  st_lastAuthorizedAt :: "time_ms option"
  st_lastRenewedAt :: "time_ms option"
  st_lastValidatedAt :: "time_ms option"
  st_statusUpdatedAt :: "time_ms option"
  st_capabilities :: ProviderConnectionCapabilities
  st_actions :: "string list option"
  st_errorCategory :: "LifecycleErrorCategory option"

section \<open>Write guards\<close>

record ConnectionWriteGuard =
  wg_exists :: bool
  wg_generation :: "nat option"
  wg_updatedAt :: "time_ms option"
  wg_revokedAt :: "time_ms option"

text \<open>The row a pending authorization is read as when nothing else is stored.\<close>

definition syntheticAuthorization :: "ConnectionRecord \<Rightarrow> bool" where
  "syntheticAuthorization r \<longleftrightarrow>
     cr_phase r = Ph_authorizing \<and> cr_generation r = 0 \<and> \<not> cr_activeCredentialPresent r \<and>
     \<not> cr_renewalCredentialPresent r \<and> cr_localDisabledAt r = None \<and>
     cr_displayAccountIdentity r = []"

definition connectionWriteGuard :: "ConnectionRecord option \<Rightarrow> ConnectionWriteGuard" where
  "connectionWriteGuard record =
     (case record of
        Some r \<Rightarrow>
          (if syntheticAuthorization r
           then \<lparr>wg_exists = False, wg_generation = None, wg_updatedAt = None, wg_revokedAt = None\<rparr>
           else \<lparr>wg_exists = True, wg_generation = Some (cr_generation r),
                 wg_updatedAt = Some (cr_updatedAt r), wg_revokedAt = cr_localDisabledAt r\<rparr>)
      | None \<Rightarrow>
          \<lparr>wg_exists = False, wg_generation = None, wg_updatedAt = None, wg_revokedAt = None\<rparr>)"

record AuthorizationActivationGuard =
  ag_generation :: "nat option"
  ag_locallyDisabled :: "bool option"
  ag_updatedAt :: "time_ms option"

definition isCompleteAuthorizationActivationGuard :: "AuthorizationActivationGuard \<Rightarrow> bool" where
  "isCompleteAuthorizationActivationGuard g \<longleftrightarrow>
     ag_generation g \<noteq> None \<and> ag_locallyDisabled g \<noteq> None \<and>
     (ag_updatedAt g \<noteq> None \<or> (ag_generation g = Some 0 \<and> ag_locallyDisabled g = Some False))"

definition snapshotAuthorizationGuard :: "ConnectionRecord option \<Rightarrow> AuthorizationActivationGuard" where
  "snapshotAuthorizationGuard record =
     (case record of
        None \<Rightarrow> \<lparr>ag_generation = Some 0, ag_locallyDisabled = Some False, ag_updatedAt = None\<rparr>
      | Some r \<Rightarrow>
          (if syntheticAuthorization r
           then \<lparr>ag_generation = Some 0, ag_locallyDisabled = Some False, ag_updatedAt = None\<rparr>
           else \<lparr>ag_generation = Some (cr_generation r),
                 ag_locallyDisabled = Some (cr_localDisabledAt r \<noteq> None),
                 ag_updatedAt = Some (cr_updatedAt r)\<rparr>))"

lemma snapshot_complete: "isCompleteAuthorizationActivationGuard (snapshotAuthorizationGuard r)"
  by (auto simp: isCompleteAuthorizationActivationGuard_def snapshotAuthorizationGuard_def
      split: option.splits)

end
