(* ===== verification/Connection_Store.thy ===== *)
theory Connection_Store
  imports Connection_Types
begin

text \<open>
  \<open>shared/oauth/memory-store.ts\<close>: the store of connections, credential generations, queued
  cleanups and authorization markers (\<open>InMemoryOAuthTokenStore\<close>) and the one-time OAuth state
  store (\<open>InMemoryOAuthStateStore\<close>). One field of the record per private \<open>Map\<close>. Every
  method runs without suspending, so each is one function from store to store; \<open>Date.now()\<close> is
  the argument \<open>clk\<close>. A lock section (\<open>withConnectionLock\<close>) runs a sequence of them with no
  other section of the same principal in between.

  The interface \<open>OAuthConnectionStore\<close> that the lifecycle relies on is the locale
  \<open>connection_store\<close>; the interpretation \<open>mem\<close> discharges its laws for the store.
\<close>

section \<open>State\<close>

record Authorization =
  au_requiredScopes :: "string list"
  au_expiresAt :: time_ms
  au_updatedAt :: time_ms

record mem_store =
  accounts :: "(string, OAuthAccountRecord) jsmap"
  connections :: "(string, ConnectionRecord) jsmap"
  pendingCredentialCleanups :: "(string, PendingCredentialCleanupRecord) jsmap"
  credentialGenerations :: "(string, CredentialGenerationRecord) jsmap"
  authorizations :: "(string, Authorization) jsmap"

definition empty_store :: mem_store where
  "empty_store = \<lparr>accounts = [], connections = [], pendingCredentialCleanups = [],
                  credentialGenerations = [], authorizations = []\<rparr>"

definition accountKey :: "string \<Rightarrow> string \<Rightarrow> string \<Rightarrow> string" where
  "accountKey provider hop1Issuer hop1Subject =
     provider @ [newline] @ hop1Issuer @ [newline] @ hop1Subject"

abbreviation conn_key :: "ConnectionRecord \<Rightarrow> string" where
  "conn_key r \<equiv> accountKey (cr_provider r) (cr_hop1Issuer r) (cr_hop1Subject r)"

text \<open>Keys are unambiguous as long as provider and issuer hold no line break.\<close>

lemma accountKey_inject:
  assumes "newline \<notin> set p" "newline \<notin> set p'" "newline \<notin> set i" "newline \<notin> set i'"
  shows "accountKey p i s = accountKey p' i' s' \<longleftrightarrow> p = p' \<and> i = i' \<and> s = s'"
proof
  assume eq: "accountKey p i s = accountKey p' i' s'"
  then have "split_on newline (accountKey p i s) = split_on newline (accountKey p' i' s')" by simp
  then have "p = p' \<and> i = i'"
    using assms by (simp add: accountKey_def split_on_append)
  with eq show "p = p' \<and> i = i' \<and> s = s'" by (simp add: accountKey_def)
qed simp

section \<open>Accounts and connections\<close>

definition connectionFromLegacy :: "OAuthAccountRecord \<Rightarrow> ConnectionRecord" where
  "connectionFromLegacy legacy =
     \<lparr>cr_provider = ac_provider legacy, cr_hop1Issuer = ac_hop1Issuer legacy,
      cr_hop1Subject = ac_hop1Subject legacy, cr_displayAccountIdentity = ac_email legacy,
      cr_providerAccountId = ac_providerAccountId legacy,
      cr_providerAccountLogin = ac_providerAccountLogin legacy,
      cr_encryptedCredentialEnvelope = None, cr_credentialSchemaVersion = None,
      cr_credentialGenerationId = None, cr_generation = 1, cr_requiredScopes = [],
      cr_grantedScopes = ac_scopesGranted legacy,
      cr_activeCredentialPresent = (ac_provider legacy = ''github''),
      cr_renewalCredentialPresent = (ac_provider legacy = ''google''),
      cr_activeCredentialExpiresAt = None, cr_renewalCredentialExpiresAt = None,
      cr_lastAuthorizedAt = Some (ac_createdAt legacy), cr_lastRenewedAt = None,
      cr_lastValidatedAt = None, cr_localDisabledAt = ac_revokedAt legacy,
      cr_phase = (if ac_revokedAt legacy \<noteq> None then Ph_disconnected else Ph_connected),
      cr_revocationState = (if ac_revokedAt legacy \<noteq> None then Rev_complete else Rev_none),
      cr_revocationStartedAt = None, cr_revocationCompletedAt = ac_revokedAt legacy,
      cr_lifecycleErrorCategory = None, cr_createdAt = ac_createdAt legacy,
      cr_updatedAt = ac_updatedAt legacy,
      cr_encryptedLegacyCredential = ac_encryptedRefreshToken legacy\<rparr>"

definition saveAccount :: "OAuthAccountRecord \<Rightarrow> mem_store \<Rightarrow> mem_store" where
  "saveAccount record s =
     (let key = accountKey (ac_provider record) (ac_hop1Issuer record) (ac_hop1Subject record);
          existing = js_get (accounts s) key;
          s1 = s\<lparr>accounts := js_set key
                 (record\<lparr>ac_providerAccountId := orelse (ac_providerAccountId record)
                           (Option.bind existing ac_providerAccountId),
                         ac_providerAccountLogin := orelse (ac_providerAccountLogin record)
                           (Option.bind existing ac_providerAccountLogin)\<rparr>) (accounts s)\<rparr>
      in case js_get (connections s) key of
           None \<Rightarrow> s1
         | Some connection \<Rightarrow> s1\<lparr>connections := js_set key
             (connection\<lparr>cr_displayAccountIdentity := ac_email record,
                cr_providerAccountId := orelse (ac_providerAccountId record) (cr_providerAccountId connection),
                cr_providerAccountLogin := orelse (ac_providerAccountLogin record) (cr_providerAccountLogin connection),
                cr_grantedScopes := ac_scopesGranted record,
                cr_encryptedLegacyCredential := ac_encryptedRefreshToken record,
                cr_encryptedCredentialEnvelope := None, cr_credentialSchemaVersion := None,
                cr_activeCredentialPresent := (ac_provider record = ''github''),
                cr_renewalCredentialPresent := (ac_provider record = ''google''),
                cr_activeCredentialExpiresAt := None, cr_renewalCredentialExpiresAt := None,
                cr_localDisabledAt := ac_revokedAt record,
                cr_lastAuthorizedAt := Some (ac_updatedAt record), cr_lastRenewedAt := None,
                cr_lastValidatedAt := None,
                cr_phase := (if ac_revokedAt record \<noteq> None then Ph_disconnected else Ph_connected),
                cr_revocationState := (if ac_revokedAt record \<noteq> None then Rev_complete else Rev_none),
                cr_revocationStartedAt := None, cr_revocationCompletedAt := ac_revokedAt record,
                cr_lifecycleErrorCategory := None, cr_updatedAt := ac_updatedAt record\<rparr>)
             (connections s)\<rparr>)"

definition getAccount :: "mem_store \<Rightarrow> string \<Rightarrow> string \<Rightarrow> string \<Rightarrow> OAuthAccountRecord option" where
  "getAccount s hop1Issuer hop1Subject provider =
     js_get (accounts s) (accountKey provider hop1Issuer hop1Subject)"

definition markRevoked :: "string \<Rightarrow> string \<Rightarrow> time_ms \<Rightarrow> string \<Rightarrow> mem_store \<Rightarrow> mem_store" where
  "markRevoked hop1Issuer hop1Subject revokedAt provider s =
     (let key = accountKey provider hop1Issuer hop1Subject in
      case js_get (accounts s) key of
        None \<Rightarrow> s
      | Some record \<Rightarrow>
          (let s1 = s\<lparr>accounts := js_set key
                 (record\<lparr>ac_revokedAt := Some revokedAt, ac_updatedAt := revokedAt\<rparr>) (accounts s)\<rparr>
           in case js_get (connections s) key of
                None \<Rightarrow> s1
              | Some connection \<Rightarrow> s1\<lparr>connections := js_set key
                  (connection\<lparr>cr_localDisabledAt := Some revokedAt, cr_phase := Ph_disconnected,
                     cr_revocationState := Rev_complete,
                     cr_revocationCompletedAt := Some revokedAt, cr_updatedAt := revokedAt\<rparr>)
                  (connections s)\<rparr>))"

text \<open>The row read for a principal with only a live authorization marker.\<close>

definition authorizingRow :: "string \<Rightarrow> string \<Rightarrow> string \<Rightarrow> Authorization \<Rightarrow> ConnectionRecord" where
  "authorizingRow provider hop1Issuer hop1Subject au =
     \<lparr>cr_provider = provider, cr_hop1Issuer = hop1Issuer, cr_hop1Subject = hop1Subject,
      cr_displayAccountIdentity = [], cr_providerAccountId = None, cr_providerAccountLogin = None,
      cr_encryptedCredentialEnvelope = None, cr_credentialSchemaVersion = None,
      cr_credentialGenerationId = None, cr_generation = 0,
      cr_requiredScopes = au_requiredScopes au, cr_grantedScopes = [],
      cr_activeCredentialPresent = False, cr_renewalCredentialPresent = False,
      cr_activeCredentialExpiresAt = None, cr_renewalCredentialExpiresAt = None,
      cr_lastAuthorizedAt = None, cr_lastRenewedAt = None, cr_lastValidatedAt = None,
      cr_localDisabledAt = None, cr_phase = Ph_authorizing, cr_revocationState = Rev_none,
      cr_revocationStartedAt = None, cr_revocationCompletedAt = None,
      cr_lifecycleErrorCategory = None, cr_createdAt = au_updatedAt au,
      cr_updatedAt = au_updatedAt au, cr_encryptedLegacyCredential = []\<rparr>"

definition getConnection ::
  "mem_store \<Rightarrow> time_ms \<Rightarrow> string \<Rightarrow> string \<Rightarrow> string \<Rightarrow> ConnectionRecord option" where
  "getConnection s clk provider hop1Issuer hop1Subject =
     (let key = accountKey provider hop1Issuer hop1Subject;
          connection = js_get (connections s) key;
          legacy = js_get (accounts s) key;
          underlying = orelse connection (map_option connectionFromLegacy legacy) in
      case (connection, legacy) of
        (Some c, _) \<Rightarrow>
          (if cr_localDisabledAt c = None \<and> cr_phase c = Ph_connected then Some c
           else case js_get (authorizations s) key of
               Some au \<Rightarrow>
                 (if au_expiresAt au > clk
                  then Some (c\<lparr>cr_requiredScopes := au_requiredScopes au, cr_phase := Ph_authorizing\<rparr>)
                  else underlying)
             | None \<Rightarrow> underlying)
      | (None, Some l) \<Rightarrow>
          (if ac_revokedAt l = None then Some (connectionFromLegacy l)
           else case js_get (authorizations s) key of
               Some au \<Rightarrow>
                 (if au_expiresAt au > clk
                  then Some ((connectionFromLegacy l)\<lparr>cr_requiredScopes := au_requiredScopes au,
                               cr_phase := Ph_authorizing\<rparr>)
                  else underlying)
             | None \<Rightarrow> underlying)
      | (None, None) \<Rightarrow>
          (case js_get (authorizations s) key of
             Some au \<Rightarrow>
               (if au_expiresAt au > clk
                then Some (authorizingRow provider hop1Issuer hop1Subject au) else None)
           | None \<Rightarrow> None))"

definition accountOfConnection :: "ConnectionRecord \<Rightarrow> OAuthAccountRecord" where
  "accountOfConnection record =
     \<lparr>ac_provider = cr_provider record, ac_hop1Issuer = cr_hop1Issuer record,
      ac_hop1Subject = cr_hop1Subject record, ac_email = cr_displayAccountIdentity record,
      ac_providerAccountId = cr_providerAccountId record,
      ac_providerAccountLogin = cr_providerAccountLogin record,
      ac_scopesGranted = cr_grantedScopes record,
      ac_encryptedRefreshToken = cr_encryptedLegacyCredential record,
      ac_createdAt = cr_createdAt record, ac_updatedAt = cr_updatedAt record,
      ac_revokedAt = cr_localDisabledAt record\<rparr>"

text \<open>Whether the stored row is the one the guard was taken from.\<close>

definition guardMatches :: "mem_store \<Rightarrow> string \<Rightarrow> ConnectionWriteGuard \<Rightarrow> bool" where
  "guardMatches s key guard =
     (let current = js_get (connections s) key;
          legacy = js_get (accounts s) key;
          exists = (legacy \<noteq> None);
          currentGeneration =
            orelse (map_option cr_generation current) (if exists then Some 1 else None) in
      \<not> (wg_exists guard \<noteq> exists \<or>
         (wg_exists guard \<and>
          (currentGeneration \<noteq> wg_generation guard \<or>
           map_option ac_updatedAt legacy \<noteq> wg_updatedAt guard \<or>
           Option.bind legacy ac_revokedAt \<noteq> wg_revokedAt guard))))"

definition saveConnection ::
  "ConnectionRecord \<Rightarrow> ConnectionWriteGuard \<Rightarrow> mem_store \<Rightarrow> bool \<times> mem_store" where
  "saveConnection record guard s =
     (let key = conn_key record in
      if \<not> guardMatches s key guard then (False, s)
      else (True, s\<lparr>connections := js_set key record (connections s),
                    accounts := js_set key (accountOfConnection record) (accounts s)\<rparr>))"

definition listConnectionsPendingRevocation :: "mem_store \<Rightarrow> string \<Rightarrow> nat \<Rightarrow> ConnectionRecord list" where
  "listConnectionsPendingRevocation s provider limit =
     oldest cr_updatedAt limit
       (filter (\<lambda>r. cr_provider r = provider \<and> cr_revocationState r = Rev_pending \<and>
                    \<not> truthy (cr_credentialGenerationId r))
         (map snd (connections s)))"

section \<open>Queued cleanups, credential generations, markers\<close>

definition savePendingCredentialCleanup ::
  "PendingCredentialCleanupRecord \<Rightarrow> mem_store \<Rightarrow> mem_store" where
  "savePendingCredentialCleanup record s =
     s\<lparr>pendingCredentialCleanups := js_set (pc_id record) record (pendingCredentialCleanups s)\<rparr>"

definition listPendingCredentialCleanups ::
  "mem_store \<Rightarrow> string \<Rightarrow> nat \<Rightarrow> PendingCredentialCleanupRecord list" where
  "listPendingCredentialCleanups s provider limit =
     oldest pc_updatedAt limit
       (filter (\<lambda>r. pc_provider r = provider) (map snd (pendingCredentialCleanups s)))"

definition deletePendingCredentialCleanup :: "string \<Rightarrow> mem_store \<Rightarrow> mem_store" where
  "deletePendingCredentialCleanup i s =
     s\<lparr>pendingCredentialCleanups := js_del i (pendingCredentialCleanups s)\<rparr>"

definition saveCredentialGeneration :: "CredentialGenerationRecord \<Rightarrow> mem_store \<Rightarrow> mem_store" where
  "saveCredentialGeneration record s =
     (if js_get (credentialGenerations s) (cg_id record) = None
      then s\<lparr>credentialGenerations := js_set (cg_id record) record (credentialGenerations s)\<rparr>
      else s)"

definition saveCredentialGenerationDurably :: "CredentialGenerationRecord \<Rightarrow> mem_store \<Rightarrow> mem_store" where
  "saveCredentialGenerationDurably record s = saveCredentialGeneration record s"

definition updateCredentialGeneration ::
  "CredentialGenerationRecord \<Rightarrow> CredentialGenerationState \<Rightarrow> nat \<Rightarrow> mem_store \<Rightarrow> bool \<times> mem_store" where
  "updateCredentialGeneration record expectedState expectedCleanupAttempts s =
     (case js_get (credentialGenerations s) (cg_id record) of
        None \<Rightarrow> (False, s)
      | Some current \<Rightarrow>
          (if cg_state current \<noteq> expectedState \<or> cg_cleanupAttempts current \<noteq> expectedCleanupAttempts
           then (False, s)
           else (True, s\<lparr>credentialGenerations :=
                         js_set (cg_id record) record (credentialGenerations s)\<rparr>)))"

definition of_principal :: "string \<Rightarrow> string \<Rightarrow> string \<Rightarrow> CredentialGenerationRecord \<Rightarrow> bool" where
  "of_principal provider hop1Issuer hop1Subject r \<longleftrightarrow>
     cg_provider r = provider \<and> cg_hop1Issuer r = hop1Issuer \<and> cg_hop1Subject r = hop1Subject"

definition listPrincipalCredentialGenerations ::
  "mem_store \<Rightarrow> string \<Rightarrow> string \<Rightarrow> string \<Rightarrow> CredentialGenerationRecord list" where
  "listPrincipalCredentialGenerations s provider hop1Issuer hop1Subject =
     filter (of_principal provider hop1Issuer hop1Subject) (map snd (credentialGenerations s))"

definition due_for_cleanup :: "time_ms \<Rightarrow> CredentialGenerationRecord \<Rightarrow> bool" where
  "due_for_cleanup now r \<longleftrightarrow>
     (cg_state r = G_cleanup_pending \<and>
        (case cg_nextCleanupAttemptAt r of None \<Rightarrow> True | Some t \<Rightarrow> t \<le> now)) \<or>
     (cg_state r = G_candidate \<and> cg_updatedAt r \<le> now - 10 * 60 * 1000)"

definition listCredentialGenerationsForCleanup ::
  "mem_store \<Rightarrow> string \<Rightarrow> nat \<Rightarrow> time_ms \<Rightarrow> CredentialGenerationRecord list" where
  "listCredentialGenerationsForCleanup s provider limit now =
     oldest cg_updatedAt limit
       (filter (\<lambda>r. cg_provider r = provider \<and> due_for_cleanup now r)
         (map snd (credentialGenerations s)))"

definition markAuthorizing ::
  "time_ms \<Rightarrow> string \<Rightarrow> string \<Rightarrow> string \<Rightarrow> string list \<Rightarrow> time_ms \<Rightarrow> mem_store \<Rightarrow> mem_store" where
  "markAuthorizing clk provider hop1Issuer hop1Subject requiredScopes expiresAt s =
     s\<lparr>authorizations := js_set (accountKey provider hop1Issuer hop1Subject)
         \<lparr>au_requiredScopes = requiredScopes, au_expiresAt = expiresAt, au_updatedAt = clk\<rparr>
         (authorizations s)\<rparr>"

definition clearAuthorizing :: "string \<Rightarrow> string \<Rightarrow> string \<Rightarrow> mem_store \<Rightarrow> mem_store" where
  "clearAuthorizing provider hop1Issuer hop1Subject s =
     s\<lparr>authorizations := js_del (accountKey provider hop1Issuer hop1Subject) (authorizations s)\<rparr>"

section \<open>Consistency\<close>

text \<open>
  The connection map and the legacy account map describe the same rows: the write guard compares
  the account's time stamps, so they have to follow the connection's. A stored row is never taken
  for the synthetic row of a pending authorization (\<open>rowlike\<close>).
\<close>

definition rowlike :: "ConnectionRecord \<Rightarrow> bool" where
  "rowlike c \<longleftrightarrow>
     (cr_generation c = 0 \<and> cr_localDisabledAt c = None \<longrightarrow>
        cr_activeCredentialPresent c \<or> cr_renewalCredentialPresent c \<or>
        cr_displayAccountIdentity c \<noteq> [])"

definition mirrored :: "mem_store \<Rightarrow> bool" where
  "mirrored s \<longleftrightarrow>
     (\<forall>k c. js_get (connections s) k = Some c \<longrightarrow>
        conn_key c = k \<and>
        (\<exists>a. js_get (accounts s) k = Some a \<and> ac_updatedAt a = cr_updatedAt c \<and>
             ac_revokedAt a = cr_localDisabledAt c)) \<and>
     (\<forall>k a. js_get (accounts s) k = Some a \<longrightarrow>
        accountKey (ac_provider a) (ac_hop1Issuer a) (ac_hop1Subject a) = k)"

definition store_consistent :: "mem_store \<Rightarrow> bool" where
  "store_consistent s \<longleftrightarrow>
     mirrored s \<and> (\<forall>k c. js_get (connections s) k = Some c \<longrightarrow> rowlike c)"

text \<open>Custody records are filed once, under their own id.\<close>

definition custody_keyed :: "mem_store \<Rightarrow> bool" where
  "custody_keyed s \<longleftrightarrow>
     distinct (map fst (credentialGenerations s)) \<and>
     list_all (\<lambda>(i, r). cg_id r = i) (credentialGenerations s)"

text \<open>The row of a key, a legacy account read as a connection; markers are left out.\<close>

definition effective_row :: "mem_store \<Rightarrow> string \<Rightarrow> ConnectionRecord option" where
  "effective_row s k =
     orelse (js_get (connections s) k) (map_option connectionFromLegacy (js_get (accounts s) k))"

lemma store_consistent_mirrored: "store_consistent s \<Longrightarrow> mirrored s"
  by (simp add: store_consistent_def)

lemma store_consistent_empty: "store_consistent empty_store"
  by (simp add: store_consistent_def mirrored_def empty_store_def)

lemma syntheticAuthorization_rowlike: "rowlike c \<Longrightarrow> \<not> syntheticAuthorization (c\<lparr>cr_requiredScopes := x, cr_phase := y\<rparr>)"
  by (auto simp: rowlike_def syntheticAuthorization_def)

lemma syntheticAuthorization_rowlike': "rowlike c \<Longrightarrow> \<not> syntheticAuthorization c"
  by (auto simp: rowlike_def syntheticAuthorization_def)

lemma rowlike_legacy: "rowlike (connectionFromLegacy l)"
  by (simp add: rowlike_def connectionFromLegacy_def)

lemma legacy_sel [simp]:
  "cr_generation (connectionFromLegacy l) = 1"
  "cr_localDisabledAt (connectionFromLegacy l) = ac_revokedAt l"
  "cr_updatedAt (connectionFromLegacy l) = ac_updatedAt l"
  "conn_key (connectionFromLegacy l) =
     accountKey (ac_provider l) (ac_hop1Issuer l) (ac_hop1Subject l)"
  by (simp_all add: connectionFromLegacy_def)

lemma getConnection_cases:
  assumes "getConnection s clk p i u = Some c"
  obtains (row) c0 where "js_get (connections s) (accountKey p i u) = Some c0"
      "c = c0 \<or> (\<exists>x. c = c0\<lparr>cr_requiredScopes := x, cr_phase := Ph_authorizing\<rparr> \<and>
         \<not> (cr_localDisabledAt c0 = None \<and> cr_phase c0 = Ph_connected))"
  | (legacy) l where "js_get (connections s) (accountKey p i u) = None"
      "js_get (accounts s) (accountKey p i u) = Some l"
      "c = connectionFromLegacy l \<or>
       (\<exists>x. c = (connectionFromLegacy l)\<lparr>cr_requiredScopes := x, cr_phase := Ph_authorizing\<rparr>)"
  | (marker) au where "js_get (connections s) (accountKey p i u) = None"
      "js_get (accounts s) (accountKey p i u) = None" "c = authorizingRow p i u au"
proof (cases "js_get (connections s) (accountKey p i u)")
  case (Some c0)
  with assms have "c = c0 \<or> (\<exists>x. c = c0\<lparr>cr_requiredScopes := x, cr_phase := Ph_authorizing\<rparr> \<and>
         \<not> (cr_localDisabledAt c0 = None \<and> cr_phase c0 = Ph_connected))"
    by (auto simp: getConnection_def Let_def split: if_splits option.splits)
  with Some show ?thesis by (rule row)
next
  case None
  show ?thesis
  proof (cases "js_get (accounts s) (accountKey p i u)")
    case (Some l)
    with None assms show ?thesis
      by (auto simp: getConnection_def Let_def split: if_splits option.splits intro!: legacy)
  next
    case None': None
    with None assms show ?thesis
      by (auto simp: getConnection_def Let_def split: if_splits option.splits intro!: marker)
  qed
qed


section \<open>Guards\<close>

lemma guard_of_read:
  assumes "store_consistent s" and "getConnection s clk p i u = c"
  shows "guardMatches s (accountKey p i u) (connectionWriteGuard c)"
proof (cases c)
  case None
  with assms(2) have "js_get (accounts s) (accountKey p i u) = None"
    by (auto simp: getConnection_def Let_def split: if_splits option.splits)
  with None show ?thesis
    by (simp add: guardMatches_def connectionWriteGuard_def)
next
  case (Some r)
  with assms(2) have "getConnection s clk p i u = Some r" by simp
  then show ?thesis
  proof (cases rule: getConnection_cases)
    case (row c0)
    with assms(1) obtain a where a: "js_get (accounts s) (accountKey p i u) = Some a"
      "ac_updatedAt a = cr_updatedAt c0" "ac_revokedAt a = cr_localDisabledAt c0" "rowlike c0"
      unfolding store_consistent_def mirrored_def by blast
    from row(2) a(4) have "\<not> syntheticAuthorization r"
      by (auto simp: syntheticAuthorization_rowlike syntheticAuthorization_rowlike')
    with Some row a show ?thesis
      by (auto simp: guardMatches_def connectionWriteGuard_def Let_def)
  next
    case (legacy l)
    then have "\<not> syntheticAuthorization r"
      by (auto simp: syntheticAuthorization_def)
    with Some legacy show ?thesis
      by (auto simp: guardMatches_def connectionWriteGuard_def Let_def)
  next
    case (marker au)
    then have "syntheticAuthorization r"
      by (simp add: syntheticAuthorization_def authorizingRow_def)
    with Some marker show ?thesis
      by (simp add: guardMatches_def connectionWriteGuard_def)
  qed
qed

lemma getConnection_key:
  assumes "mirrored s" and "getConnection s clk p i u = Some c"
  shows "conn_key c = accountKey p i u"
  using assms(2)
proof (cases rule: getConnection_cases)
  case (row c0)
  with assms(1) have "conn_key c0 = accountKey p i u"
    unfolding mirrored_def by blast
  with row(2) show ?thesis by auto
next
  case (legacy l)
  with assms(1) have "accountKey (ac_provider l) (ac_hop1Issuer l) (ac_hop1Subject l) = accountKey p i u"
    unfolding mirrored_def by blast
  with legacy(3) show ?thesis by (auto simp: connectionFromLegacy_def)
next
  case (marker au)
  then show ?thesis by (simp add: authorizingRow_def)
qed

lemma getConnection_stored:
  assumes "getConnection s clk p i u = Some c" "js_get (connections s) (accountKey p i u) = Some c0"
  shows "cr_localDisabledAt c = cr_localDisabledAt c0" "cr_generation c = cr_generation c0"
    "cr_updatedAt c = cr_updatedAt c0" "cr_credentialGenerationId c = cr_credentialGenerationId c0"
    "cr_revocationState c = cr_revocationState c0" "rowlike c = rowlike c0"
  using assms by (auto elim!: getConnection_cases simp: rowlike_def)

lemma getConnection_rowlike:
  assumes "store_consistent s" and "getConnection s clk p i u = Some c"
    and "\<not> syntheticAuthorization c"
  shows "rowlike c"
  using assms(2)
proof (cases rule: getConnection_cases)
  case (row c0)
  with assms(1) have "rowlike c0" unfolding store_consistent_def by blast
  with row(2) show ?thesis by (auto simp: rowlike_def)
next
  case (legacy l)
  then show ?thesis by (auto simp: rowlike_def)
next
  case (marker au)
  with assms(3) show ?thesis by (simp add: syntheticAuthorization_def authorizingRow_def)
qed

lemma getConnection_effective:
  assumes "effective_row s (accountKey p i u) = Some c0"
  obtains c where "getConnection s clk p i u = Some c"
    "c = c0 \<or> (\<exists>x. c = c0\<lparr>cr_requiredScopes := x, cr_phase := Ph_authorizing\<rparr>)"
proof -
  have "\<exists>c. getConnection s clk p i u = Some c \<and>
      (c = c0 \<or> (\<exists>x. c = c0\<lparr>cr_requiredScopes := x, cr_phase := Ph_authorizing\<rparr>))"
    using assms
    by (cases "js_get (connections s) (accountKey p i u)"; cases "js_get (accounts s) (accountKey p i u)")
      (auto simp: effective_row_def getConnection_def Let_def split: if_splits option.splits)
  with that show ?thesis by blast
qed

lemma getConnection_no_row:
  assumes "getConnection s clk p i u = Some c" "effective_row s (accountKey p i u) = None"
  shows "\<exists>au. c = authorizingRow p i u au"
  using assms(1)
  by (cases rule: getConnection_cases) (use assms(2) in \<open>auto simp: effective_row_def\<close>)

section \<open>The interface the lifecycle relies on\<close>

locale connection_store =
  fixes get :: "'s \<Rightarrow> time_ms \<Rightarrow> string \<Rightarrow> string \<Rightarrow> string \<Rightarrow> ConnectionRecord option"
    and row :: "'s \<Rightarrow> string \<Rightarrow> ConnectionRecord option"
    and save :: "ConnectionRecord \<Rightarrow> ConnectionWriteGuard \<Rightarrow> 's \<Rightarrow> bool \<times> 's"
    and gen :: "'s \<Rightarrow> string \<Rightarrow> CredentialGenerationRecord option"
    and put :: "CredentialGenerationRecord \<Rightarrow> 's \<Rightarrow> 's"
    and cas :: "CredentialGenerationRecord \<Rightarrow> CredentialGenerationState \<Rightarrow> nat \<Rightarrow> 's \<Rightarrow> bool \<times> 's"
    and invar :: "'s \<Rightarrow> bool"
  assumes save_refused: "save r g s = (False, s') \<Longrightarrow> s' = s"
    and save_row: "save r g s = (True, s') \<Longrightarrow> row s' k = (if k = conn_key r then Some r else row s k)"
    and save_gen: "save r g s = (ok, s') \<Longrightarrow> gen s' = gen s"
    and save_read: "invar s \<Longrightarrow> get s clk p i u = seen \<Longrightarrow> conn_key r = accountKey p i u \<Longrightarrow>
           fst (save r (connectionWriteGuard seen) s)"
    and save_invar: "invar s \<Longrightarrow> rowlike r \<Longrightarrow> invar (snd (save r g s))"
    and get_connected: "row s (accountKey p i u) = Some c \<Longrightarrow> cr_localDisabledAt c = None \<Longrightarrow>
           cr_phase c = Ph_connected \<Longrightarrow> get s clk p i u = Some c"
    and get_row: "row s (accountKey p i u) = Some c \<Longrightarrow>
           \<exists>c'. get s clk p i u = Some c' \<and> cr_localDisabledAt c' = cr_localDisabledAt c \<and>
                cr_generation c' = cr_generation c"
    and get_key: "invar s \<Longrightarrow> get s clk p i u = Some c \<Longrightarrow> conn_key c = accountKey p i u"
    and cas_refused: "cas q e n s = (False, s') \<Longrightarrow> s' = s"
    and cas_gen: "cas q e n s = (True, s') \<Longrightarrow>
           (\<exists>old. gen s (cg_id q) = Some old \<and> cg_state old = e \<and> cg_cleanupAttempts old = n) \<and>
           gen s' = (gen s)(cg_id q \<mapsto> q)"
    and cas_applies: "gen s (cg_id q) = Some old \<Longrightarrow> cg_state old = e \<Longrightarrow>
           cg_cleanupAttempts old = n \<Longrightarrow> fst (cas q e n s)"
    and cas_row: "cas q e n s = (ok, s') \<Longrightarrow> row s' = row s"
    and cas_invar: "invar s \<Longrightarrow> invar (snd (cas q e n s))"
    and put_gen: "gen (put q s) = (if gen s (cg_id q) = None then (gen s)(cg_id q \<mapsto> q) else gen s)"
    and put_row: "row (put q s) = row s"
    and put_invar: "invar s \<Longrightarrow> invar (put q s)"
begin

text \<open>A section that writes the row it read is never refused.\<close>

lemma save_own_read:
  assumes "invar s" "get s clk p i u = Some c" "conn_key r = conn_key c"
  obtains s' where "save r (connectionWriteGuard (Some c)) s = (True, s')"
    "row s' (accountKey p i u) = Some r"
proof -
  have key: "conn_key r = accountKey p i u" using assms get_key by metis
  with save_read [OF assms(1,2)] obtain s' where s': "save r (connectionWriteGuard (Some c)) s = (True, s')"
    by (metis prod.collapse)
  with save_row key have "row s' (accountKey p i u) = Some r" by simp
  with s' show ?thesis by (rule that)
qed

text \<open>A compare-and-set that changes the state or the attempt count excludes a second one against
  the same version of the record.\<close>

lemma cas_twice:
  assumes "cas r e n s = (True, s1)" "cg_state r \<noteq> e \<or> cg_cleanupAttempts r \<noteq> n" "cg_id r2 = cg_id r"
  shows "cas r2 e n s1 = (False, s1)"
proof (cases "cas r2 e n s1")
  case (Pair ok s2)
  have "gen s1 (cg_id r2) = Some r" using cas_gen [OF assms(1)] assms(3) by simp
  with assms(2) Pair have "\<not> ok" by (cases ok) (auto dest: cas_gen)
  with Pair cas_refused show ?thesis by simp
qed

end

lemma saveConnection_rowD:
  assumes "saveConnection r g s = (True, s')"
  shows "js_get (connections s') k = (if k = conn_key r then Some r else js_get (connections s) k)"
    "js_get (accounts s') k = (if k = conn_key r then Some (accountOfConnection r) else js_get (accounts s) k)"
    "credentialGenerations s' = credentialGenerations s" "authorizations s' = authorizations s"
    "pendingCredentialCleanups s' = pendingCredentialCleanups s"
  using assms by (auto simp: saveConnection_def Let_def js_map_simps split: if_splits)

lemma saveConnection_refused: "saveConnection r g s = (False, s') \<Longrightarrow> s' = s"
  by (auto simp: saveConnection_def Let_def split: if_splits)

lemma saveConnection_consistent:
  assumes "store_consistent s" "rowlike r"
  shows "store_consistent (snd (saveConnection r g s))"
proof (cases "saveConnection r g s")
  case (Pair ok s')
  show ?thesis
  proof (cases ok)
    case True
    with Pair have sv: "saveConnection r g s = (True, s')" by simp
    show ?thesis
      using assms Pair unfolding store_consistent_def mirrored_def
      by (simp add: saveConnection_rowD(1,2) [OF sv] accountOfConnection_def)
  next
    case False
    with Pair assms(1) show ?thesis by (auto dest: saveConnection_refused)
  qed
qed

lemma updateCredentialGeneration_True:
  "updateCredentialGeneration r e n s = (True, s') \<longleftrightarrow>
     (\<exists>old. js_get (credentialGenerations s) (cg_id r) = Some old \<and> cg_state old = e \<and>
            cg_cleanupAttempts old = n) \<and>
     s' = s\<lparr>credentialGenerations := js_set (cg_id r) r (credentialGenerations s)\<rparr>"
  by (auto simp: updateCredentialGeneration_def split: option.splits)

lemma updateCredentialGeneration_False:
  "updateCredentialGeneration r e n s = (False, s') \<Longrightarrow> s' = s"
  by (auto simp: updateCredentialGeneration_def split: option.splits if_splits)

interpretation mem: connection_store getConnection "\<lambda>s. js_get (connections s)" saveConnection
  "\<lambda>s. js_get (credentialGenerations s)" saveCredentialGeneration updateCredentialGeneration
  store_consistent
proof (unfold_locales, goal_cases)
  case (4 s clk p i u c r)
  then show ?case using guard_of_read [of s clk p i u c]
    by (simp add: saveConnection_def Let_def)
next
  case (7 s p i u c clk)
  then show ?case
    by (auto simp: getConnection_def Let_def split: option.splits)
next
  case (11 s q old e n)
  then show ?case by (auto simp: updateCredentialGeneration_def)
next
  case (12 q e n s ok s')
  then show ?case by (auto simp: updateCredentialGeneration_def split: option.splits if_splits)
next
  case (13 s q e n)
  then show ?case
    by (auto simp: updateCredentialGeneration_def store_consistent_def mirrored_def split: option.splits)
next
  case (3 r g s ok s')
  then show ?case by (cases ok) (auto dest: saveConnection_refused simp: saveConnection_rowD)
next
  case (16 s q)
  then show ?case by (simp add: saveCredentialGeneration_def store_consistent_def mirrored_def)
qed (auto simp: saveConnection_rowD saveConnection_consistent
    getConnection_key [OF store_consistent_mirrored]
    updateCredentialGeneration_True js_map_simps fun_eq_iff saveCredentialGeneration_def
    getConnection_def Let_def
    dest: saveConnection_refused updateCredentialGeneration_False)

end
