(* ===== verification/Lifecycle_Core.thy ===== *)
theory Lifecycle_Core
  imports Connection_Store
begin

text \<open>
  The pure part of \<open>shared/oauth/connection-lifecycle.ts\<close>: the options and the provider
  adapter, scope checks, credential envelopes, the cleanup backoff, the transient-failure retry
  and the status document.

  The provider adapter calls services outside the repository; its methods are fields of
  \<open>adapter\<close> (absent methods are \<open>None\<close>), and a thrown error is the left summand. A
  renewal is asked again after a transient failure, so its outcome may depend on the attempt.
  Encryption under the configured key and the JSON codec are fields of \<open>options\<close>; the theory
  \<open>Secret_Crypto\<close> has the module that provides the former.
\<close>

section \<open>Options and adapter\<close>

record adapter =
  providerId :: string
  capabilities :: ProviderConnectionCapabilities
  statusActions :: "string list option"
  hasRequiredScopes :: "(string list \<Rightarrow> string list \<Rightarrow> bool) option"
  ad_renew :: "(DecryptedCredentialGeneration \<Rightarrow> nat \<Rightarrow> lifecycle_error + RenewedCredentialGeneration) option"
  ad_validateIdentity ::
    "(DecryptedCredentialGeneration \<Rightarrow> Hop1Identity \<Rightarrow> lifecycle_error + ValidatedProviderIdentity) option"
  ad_revoke :: "(DecryptedCredentialGeneration \<Rightarrow> lifecycle_error + ProviderRevocationResult) option"

record options =
  op_adapter :: adapter
  op_encrypt :: "string \<Rightarrow> string"
  op_decrypt :: "string \<Rightarrow> string option"
  op_stringify :: "ProviderCredentialEnvelope \<Rightarrow> string"
  op_parse :: "string \<Rightarrow> ProviderCredentialEnvelope option"
  consentScopes :: "string list option"
  renewalSafetyWindowMs :: time_ms
  transientRetries :: nat
  accountIdentityBackfillRetryMs :: time_ms
  op_uuid :: "nat \<Rightarrow> string"

abbreviation caps :: "options \<Rightarrow> ProviderConnectionCapabilities" where
  "caps opt \<equiv> capabilities (op_adapter opt)"

abbreviation op_provider :: "options \<Rightarrow> string" where
  "op_provider opt \<equiv> providerId (op_adapter opt)"

definition CREDENTIAL_SCHEMA_VERSION :: nat where "CREDENTIAL_SCHEMA_VERSION = 1"

text \<open>What the configured key and the JSON codec promise: a sealed text opens to itself, a
  serialized envelope parses back, and a ciphertext is never empty.\<close>

definition sealing_laws :: "options \<Rightarrow> bool" where
  "sealing_laws opt \<longleftrightarrow>
     (\<forall>p. p \<noteq> [] \<longrightarrow> op_decrypt opt (op_encrypt opt p) = Some p) \<and> (\<forall>p. op_encrypt opt p \<noteq> []) \<and>
     (\<forall>e. op_parse opt (op_stringify opt e) = Some e) \<and> (\<forall>e. op_stringify opt e \<noteq> [])"

section \<open>Errors\<close>

abbreviation reauthorizationRequired :: lifecycle_error where
  "reauthorizationRequired \<equiv> ProviderLifecycleError invalid_active_credential"

abbreviation generationConflict :: lifecycle_error where
  "generationConflict \<equiv> ProviderLifecycleError generation_conflict"

definition isPermanentRenewalFailure :: "LifecycleErrorCategory option \<Rightarrow> bool" where
  "isPermanentRenewalFailure c \<longleftrightarrow>
     c \<in> {Some invalid_renewal_credential, Some renewal_expired, Some identity_mismatch,
          Some insufficient_scope}"

section \<open>Scopes\<close>

definition scopesSatisfied :: "adapter \<Rightarrow> string list \<Rightarrow> string list \<Rightarrow> bool" where
  "scopesSatisfied a granted required =
     (case hasRequiredScopes a of
        Some f \<Rightarrow> f granted required
      | None \<Rightarrow> list_all (\<lambda>scope. scope \<in> set granted) required)"

fun scopeRequirementSatisfied :: "adapter \<Rightarrow> string list \<Rightarrow> ScopeRequirementInput \<Rightarrow> bool" where
  "scopeRequirementSatisfied a granted (FlatScopes required) = scopesSatisfied a granted required"
| "scopeRequirementSatisfied a granted (AllOf groups) =
     list_all (\<lambda>g. g \<noteq> [] \<and> list_ex (\<lambda>scope. scopesSatisfied a granted [scope]) g) groups"

definition requireScopes :: "adapter \<Rightarrow> string list \<Rightarrow> string list \<Rightarrow> lifecycle_error option" where
  "requireScopes a granted required =
     (if scopesSatisfied a granted required then None
      else Some (ProviderLifecycleError insufficient_scope))"

definition requireToolScopes ::
  "adapter \<Rightarrow> string list \<Rightarrow> ScopeRequirementInput \<Rightarrow> lifecycle_error option" where
  "requireToolScopes a granted required =
     (if scopeRequirementSatisfied a granted required then None else Some ProviderToolScopeError)"

definition requireScopeRequirement ::
  "adapter \<Rightarrow> string list \<Rightarrow> ScopeRequirementInput \<Rightarrow> lifecycle_error option" where
  "requireScopeRequirement a granted required =
     (if scopeRequirementSatisfied a granted required then None
      else Some (ProviderLifecycleError insufficient_scope))"

definition requireUnchangedGrant :: "string list \<Rightarrow> string list option \<Rightarrow> lifecycle_error option" where
  "requireUnchangedGrant actual expected =
     (case expected of
        None \<Rightarrow> None
      | Some e \<Rightarrow>
          (if length actual \<noteq> length e \<or> list_ex (\<lambda>scope. scope \<notin> set e) actual
           then Some generationConflict else None))"

section \<open>Envelopes\<close>

definition encryptEnvelope :: "options \<Rightarrow> ProviderCredentialEnvelope \<Rightarrow> string" where
  "encryptEnvelope opt credential = op_encrypt opt (op_stringify opt credential)"

definition legacyCredential :: "options \<Rightarrow> string \<Rightarrow> ProviderCredentialEnvelope \<Rightarrow> string" where
  "legacyCredential opt provider credential =
     (let v = (if provider = ''google'' then renewalCredential credential
               else if provider = ''github'' then activeCredential credential
               else orelse (activeCredential credential) (renewalCredential credential))
      in op_encrypt opt (coalesce v ''credential-unavailable''))"

definition destroyCredentials :: "options \<Rightarrow> ConnectionRecord \<Rightarrow> ConnectionRecord" where
  "destroyCredentials opt r =
     r\<lparr>cr_encryptedCredentialEnvelope := None, cr_credentialSchemaVersion := None,
       cr_activeCredentialPresent := False, cr_renewalCredentialPresent := False,
       cr_encryptedLegacyCredential := op_encrypt opt ''credential-destroyed''\<rparr>"

text \<open>Object spread: the replacement's fields win; an inherited renewal credential is kept.\<close>

definition mergeRotatedCredential ::
  "ProviderCredentialEnvelope \<Rightarrow> ProviderCredentialEnvelope \<Rightarrow> ProviderCredentialEnvelope" where
  "mergeRotatedCredential previous replacement =
     \<lparr>activeCredential = orelse (activeCredential replacement) (activeCredential previous),
      renewalCredential = orelse (renewalCredential replacement) (renewalCredential previous),
      providerFields = fold (\<lambda>(k, v) m. js_set k v m) (providerFields replacement)
                         (providerFields previous)\<rparr>"

text \<open>The envelope a one-release-old row is read as.\<close>

definition legacyEnvelope :: "string \<Rightarrow> string \<Rightarrow> ProviderCredentialEnvelope" where
  "legacyEnvelope provider legacy =
     (if provider = ''google''
      then \<lparr>activeCredential = None, renewalCredential = Some legacy,
            providerFields = [(''legacyRepresentation'', ''google_refresh_token'')]\<rparr>
      else \<lparr>activeCredential = Some legacy, renewalCredential = None,
            providerFields = [(''legacyRepresentation'', ''github_access_token'')]\<rparr>)"

definition openEnvelope :: "options \<Rightarrow> string \<Rightarrow> ProviderCredentialEnvelope option" where
  "openEnvelope opt c = Option.bind (op_decrypt opt c) (op_parse opt)"

definition connectionCredential ::
  "options \<Rightarrow> ConnectionRecord \<Rightarrow> lifecycle_error + ProviderCredentialEnvelope" where
  "connectionCredential opt r =
     (case cr_encryptedCredentialEnvelope r of
        Some (c # cs) \<Rightarrow>
          (if cr_credentialSchemaVersion r \<noteq> Some CREDENTIAL_SCHEMA_VERSION
           then Inl (ProviderLifecycleError provider_configuration_error)
           else case openEnvelope opt (c # cs) of
               None \<Rightarrow> Inl (ProviderLifecycleError provider_configuration_error)
             | Some e \<Rightarrow> Inr e)
      | _ \<Rightarrow>
          (case op_decrypt opt (cr_encryptedLegacyCredential r) of
             None \<Rightarrow> Inl OtherError
           | Some legacy \<Rightarrow> Inr (legacyEnvelope (cr_provider r) legacy)))"

definition decryptGeneration ::
  "options \<Rightarrow> ConnectionRecord \<Rightarrow> lifecycle_error + DecryptedCredentialGeneration" where
  "decryptGeneration opt r =
     map_sum id (\<lambda>credential.
       \<lparr>dg_provider = cr_provider r, dg_generation = cr_generation r, dg_credential = credential,
        dg_activeCredentialExpiresAt = cr_activeCredentialExpiresAt r,
        dg_renewalCredentialExpiresAt = cr_renewalCredentialExpiresAt r,
        dg_grantedScopes = cr_grantedScopes r\<rparr>) (connectionCredential opt r)"

definition custodyCredential ::
  "options \<Rightarrow> CredentialGenerationRecord \<Rightarrow> ProviderCredentialEnvelope option" where
  "custodyCredential opt r =
     (if truthy (cg_encryptedCredentialEnvelope r)
      then openEnvelope opt (the (cg_encryptedCredentialEnvelope r))
      else if truthy (cg_encryptedLegacyCredential r)
      then map_option (legacyEnvelope (cg_provider r))
             (op_decrypt opt (the (cg_encryptedLegacyCredential r)))
      else None)"

definition decryptCredentialCustody ::
  "options \<Rightarrow> CredentialGenerationRecord \<Rightarrow> lifecycle_error + DecryptedCredentialGeneration" where
  "decryptCredentialCustody opt r =
     (if cg_credentialSchemaVersion r \<noteq> CREDENTIAL_SCHEMA_VERSION
      then Inl (ProviderLifecycleError provider_configuration_error)
      else case custodyCredential opt r of
          None \<Rightarrow> Inl (ProviderLifecycleError provider_configuration_error)
        | Some credential \<Rightarrow>
            Inr \<lparr>dg_provider = cg_provider r, dg_generation = cg_generation r,
                 dg_credential = credential,
                 dg_activeCredentialExpiresAt = cg_activeCredentialExpiresAt r,
                 dg_renewalCredentialExpiresAt = cg_renewalCredentialExpiresAt r,
                 dg_grantedScopes = cg_grantedScopes r\<rparr>)"

section \<open>Backoff and retry\<close>

text \<open>\<open>Math.min(3600000, 5000 * 2 ** Math.min(attempts - 1, 10))\<close>. The callers pass the
  incremented attempt count, at least 1.\<close>

definition cleanupBackoffMs :: "nat \<Rightarrow> time_ms" where
  "cleanupBackoffMs attempts = min (60 * 60 * 1000) (5000 * 2 ^ min (attempts - 1) 10)"

text \<open>\<open>operation attempt\<close> is the outcome of the call number \<open>attempt\<close>; the delay between
  attempts is not modelled.\<close>

function retryTransient ::
  "(nat \<Rightarrow> lifecycle_error + 'a) \<Rightarrow> nat \<Rightarrow> nat \<Rightarrow> lifecycle_error + 'a" where
  "retryTransient operation retries attempt =
     (case operation attempt of
        Inr v \<Rightarrow> Inr v
      | Inl e \<Rightarrow>
          (if lifecycleCategory e \<noteq> Some transient_provider_failure \<or> attempt \<ge> retries then Inl e
           else retryTransient operation retries (Suc attempt)))"
  by pat_completeness auto
termination by (relation "measure (\<lambda>(f, r, a). r - a)") auto

declare retryTransient.simps [simp del]

section \<open>Status\<close>

definition expired :: "time_ms option \<Rightarrow> time_ms \<Rightarrow> bool" where
  "expired t now = (case t of None \<Rightarrow> False | Some e \<Rightarrow> e \<le> now)"

definition disconnectedStatus :: "adapter \<Rightarrow> string list \<Rightarrow> ConnectionStatusV2" where
  "disconnectedStatus a requiredScopes =
     \<lparr>st_provider = providerId a, st_phase = Ph_disconnected, st_connected = False,
      st_account = None, st_requiredScopes = requiredScopes, st_grantedScopes = [],
      st_missingScopes = requiredScopes, st_activeCredentialPresent = False,
      st_renewalCredentialPresent = False, st_activeCredentialExpiresAt = None,
      st_renewalCredentialExpiresAt = None, st_lastAuthorizedAt = None, st_lastRenewedAt = None,
      st_lastValidatedAt = None, st_statusUpdatedAt = None, st_capabilities = capabilities a,
      st_actions = statusActions a,
      st_errorCategory = None\<rparr>"

text \<open>The credential is neither usable nor renewable any more.\<close>

definition credentialLapsed :: "adapter \<Rightarrow> time_ms \<Rightarrow> ConnectionRecord \<Rightarrow> bool" where
  "credentialLapsed a now r \<longleftrightarrow>
     (\<not> cr_activeCredentialPresent r \<and> \<not> cr_renewalCredentialPresent r) \<or>
     (\<not> cr_activeCredentialPresent r \<and>
        (\<not> automaticRenewal (capabilities a) \<or> expired (cr_renewalCredentialExpiresAt r) now)) \<or>
     (expired (cr_activeCredentialExpiresAt r) now \<and>
        (\<not> automaticRenewal (capabilities a) \<or> \<not> cr_renewalCredentialPresent r \<or>
         expired (cr_renewalCredentialExpiresAt r) now))"

definition missingScopesOf :: "adapter \<Rightarrow> ConnectionRecord \<Rightarrow> string list \<Rightarrow> string list" where
  "missingScopesOf a r requiredScopes =
     filter (\<lambda>scope. \<not> scopesSatisfied a (cr_grantedScopes r) [scope]) requiredScopes"

definition statusPhase ::
  "adapter \<Rightarrow> time_ms \<Rightarrow> string list \<Rightarrow> ConnectionRecord \<Rightarrow>
   ConnectionPhase \<times> LifecycleErrorCategory option" where
  "statusPhase a now requiredScopes r =
     (if cr_phase r = Ph_authorizing then (Ph_authorizing, cr_lifecycleErrorCategory r)
      else if cr_localDisabledAt r \<noteq> None
      then ((case cr_revocationState r of
               Rev_pending \<Rightarrow> cr_phase r
             | Rev_permanent_failure \<Rightarrow> Ph_unavailable
             | _ \<Rightarrow> Ph_disconnected), cr_lifecycleErrorCategory r)
      else if missingScopesOf a r requiredScopes \<noteq> []
      then (Ph_reauthorization_required, Some insufficient_scope)
      else if credentialLapsed a now r
      then (Ph_reauthorization_required,
            if expired (cr_renewalCredentialExpiresAt r) now then Some renewal_expired
            else Some invalid_active_credential)
      else (cr_phase r, cr_lifecycleErrorCategory r))"

definition nonEmpty :: "string \<Rightarrow> string option" where
  "nonEmpty s = (if s = [] then None else Some s)"

definition statusAccount :: "ConnectionRecord \<Rightarrow> StatusAccount option" where
  "statusAccount r =
     (if cr_displayAccountIdentity r \<noteq> [] \<or> truthy (cr_providerAccountId r) \<or>
         truthy (cr_providerAccountLogin r)
      then Some \<lparr>sa_provider = cr_provider r, sa_displayName = nonEmpty (cr_displayAccountIdentity r),
                 sa_id = Option.bind (cr_providerAccountId r) nonEmpty,
                 sa_login = Option.bind (cr_providerAccountLogin r) nonEmpty\<rparr>
      else None)"

definition statusFromRecord ::
  "adapter \<Rightarrow> time_ms \<Rightarrow> string list \<Rightarrow> ConnectionRecord option \<Rightarrow> ConnectionStatusV2" where
  "statusFromRecord a now requiredScopes record =
     (case record of
        None \<Rightarrow> disconnectedStatus a requiredScopes
      | Some r \<Rightarrow>
          (let (phase, errorCategory) = statusPhase a now requiredScopes r;
               missing = missingScopesOf a r requiredScopes in
           \<lparr>st_provider = providerId a, st_phase = phase,
            st_connected = (cr_localDisabledAt r = None \<and> phase = Ph_connected \<and> missing = []),
            st_account = statusAccount r, st_requiredScopes = requiredScopes,
            st_grantedScopes = cr_grantedScopes r, st_missingScopes = missing,
            st_activeCredentialPresent = cr_activeCredentialPresent r,
            st_renewalCredentialPresent = cr_renewalCredentialPresent r,
            st_activeCredentialExpiresAt = cr_activeCredentialExpiresAt r,
            st_renewalCredentialExpiresAt = cr_renewalCredentialExpiresAt r,
            st_lastAuthorizedAt = cr_lastAuthorizedAt r, st_lastRenewedAt = cr_lastRenewedAt r,
            st_lastValidatedAt = cr_lastValidatedAt r, st_statusUpdatedAt = Some (cr_updatedAt r),
            st_capabilities = capabilities a, st_actions = statusActions a,
            st_errorCategory = errorCategory\<rparr>))"

end
