(* ===== verification/Lifecycle.thy ===== *)
theory Lifecycle
  imports Lifecycle_Core
begin

text \<open>
  The stateful part of \<open>shared/oauth/connection-lifecycle.ts\<close>, over the store of
  \<open>Connection_Store\<close>: activation of an authorized credential, renewal, disconnect and the
  durable revocation of credentials that are no longer attached to a connection.

  A section under \<open>withConnectionLock\<close> or \<open>withConnectionIssuanceLock\<close> is one function
  (\<open>...Section\<close>): the lock serializes the sections of a principal, and nothing of another section
  is seen inside one. An operation is the composition of its sections. \<open>now\<close> is the clock as
  read in a section (\<open>this.now()\<close> and the store's \<open>Date.now()\<close>); an operation of several
  sections takes one reading per section, \<open>t 0\<close>, \<open>t 1\<close>, \<dots>. A thrown error is the left
  summand of the result; the state is returned with it, since the in-memory store does not roll
  back. Metrics are not modelled; audit events are.
\<close>

section \<open>State\<close>

record audit_event =
  ae_ts :: time_ms
  ae_principal :: string
  ae_event :: string
  ae_status :: string
  ae_error :: "LifecycleErrorCategory option"

record lstate =
  store :: mem_store
  auditLog :: "audit_event list"
  uuidsDrawn :: nat
  backfillRetryAt :: "(string, time_ms) jsmap"

type_synonym 'a res = "lifecycle_error + 'a"

definition emit ::
  "options \<Rightarrow> time_ms \<Rightarrow> Hop1Identity \<Rightarrow> string \<Rightarrow> string \<Rightarrow> LifecycleErrorCategory option \<Rightarrow>
   lstate \<Rightarrow> lstate" where
  "emit opt now identity action status err st =
     st\<lparr>auditLog := auditLog st @
          [\<lparr>ae_ts = now, ae_principal = hi_email identity,
            ae_event = op_provider opt @ ''.'' @ action, ae_status = status, ae_error = err\<rparr>]\<rparr>"

definition randomUUID :: "options \<Rightarrow> lstate \<Rightarrow> string \<times> lstate" where
  "randomUUID opt st = (op_uuid opt (uuidsDrawn st), st\<lparr>uuidsDrawn := Suc (uuidsDrawn st)\<rparr>)"

definition with_store :: "(mem_store \<Rightarrow> mem_store) \<Rightarrow> lstate \<Rightarrow> lstate" where
  "with_store f st = st\<lparr>store := f (store st)\<rparr>"

definition get_conn :: "options \<Rightarrow> time_ms \<Rightarrow> Hop1Identity \<Rightarrow> lstate \<Rightarrow> ConnectionRecord option" where
  "get_conn opt now identity st =
     getConnection (store st) now (op_provider opt) (hi_issuer identity) (hi_subject identity)"

definition save_conn :: "ConnectionRecord \<Rightarrow> ConnectionWriteGuard \<Rightarrow> lstate \<Rightarrow> bool \<times> lstate" where
  "save_conn r g st = (let (ok, s) = saveConnection r g (store st) in (ok, st\<lparr>store := s\<rparr>))"

definition update_gen ::
  "CredentialGenerationRecord \<Rightarrow> CredentialGenerationState \<Rightarrow> nat \<Rightarrow> lstate \<Rightarrow> bool \<times> lstate" where
  "update_gen r expected attempts st =
     (let (ok, s) = updateCredentialGeneration r expected attempts (store st) in (ok, st\<lparr>store := s\<rparr>))"

definition save_gen :: "CredentialGenerationRecord \<Rightarrow> lstate \<Rightarrow> lstate" where
  "save_gen r st = with_store (saveCredentialGeneration r) st"

definition list_gens :: "options \<Rightarrow> Hop1Identity \<Rightarrow> lstate \<Rightarrow> CredentialGenerationRecord list" where
  "list_gens opt identity st =
     listPrincipalCredentialGenerations (store st) (op_provider opt) (hi_issuer identity)
       (hi_subject identity)"

definition unresolved :: "CredentialGenerationRecord \<Rightarrow> bool" where
  "unresolved r \<longleftrightarrow> cg_state r = G_cleanup_pending \<or> cg_state r = G_cleanup_permanent_failure"

section \<open>Markers\<close>

definition markAuthorizationStarted ::
  "options \<Rightarrow> time_ms \<Rightarrow> Hop1Identity \<Rightarrow> string list \<Rightarrow> time_ms \<Rightarrow> lstate \<Rightarrow> lstate" where
  "markAuthorizationStarted opt now identity requiredScopes expiresAt =
     with_store (markAuthorizing now (op_provider opt) (hi_issuer identity) (hi_subject identity)
                   requiredScopes expiresAt)"

definition clearAuthorization :: "options \<Rightarrow> Hop1Identity \<Rightarrow> lstate \<Rightarrow> lstate" where
  "clearAuthorization opt identity =
     with_store (clearAuthorizing (op_provider opt) (hi_issuer identity) (hi_subject identity))"

section \<open>Custody records\<close>

definition credentialCustodyRecord ::
  "options \<Rightarrow> time_ms \<Rightarrow> Hop1Identity \<Rightarrow> DecryptedCredentialGeneration \<Rightarrow> string \<Rightarrow>
   CredentialGenerationRecord" where
  "credentialCustodyRecord opt now identity g i =
     \<lparr>cg_id = i, cg_provider = dg_provider g, cg_hop1Issuer = hi_issuer identity,
      cg_hop1Subject = hi_subject identity, cg_displayAccountIdentity = hi_email identity,
      cg_encryptedCredentialEnvelope = Some (encryptEnvelope opt (dg_credential g)),
      cg_encryptedLegacyCredential = None,
      cg_credentialSchemaVersion = CREDENTIAL_SCHEMA_VERSION, cg_generation = dg_generation g,
      cg_state = G_candidate, cg_grantedScopes = dg_grantedScopes g,
      cg_activeCredentialExpiresAt = dg_activeCredentialExpiresAt g,
      cg_renewalCredentialExpiresAt = dg_renewalCredentialExpiresAt g, cg_cleanupAttempts = 0,
      cg_nextCleanupAttemptAt = None, cg_lastCleanupErrorCategory = None, cg_createdAt = now,
      cg_updatedAt = now\<rparr>"

definition connectionCredentialCustodyRecord ::
  "time_ms \<Rightarrow> ConnectionRecord \<Rightarrow> CredentialGenerationState \<Rightarrow> string \<Rightarrow> CredentialGenerationRecord" where
  "connectionCredentialCustodyRecord now c state i =
     \<lparr>cg_id = i, cg_provider = cr_provider c, cg_hop1Issuer = cr_hop1Issuer c,
      cg_hop1Subject = cr_hop1Subject c, cg_displayAccountIdentity = cr_displayAccountIdentity c,
      cg_encryptedCredentialEnvelope = cr_encryptedCredentialEnvelope c,
      cg_encryptedLegacyCredential = Some (cr_encryptedLegacyCredential c),
      cg_credentialSchemaVersion = coalesce (cr_credentialSchemaVersion c) CREDENTIAL_SCHEMA_VERSION,
      cg_generation = cr_generation c, cg_state = state, cg_grantedScopes = cr_grantedScopes c,
      cg_activeCredentialExpiresAt = cr_activeCredentialExpiresAt c,
      cg_renewalCredentialExpiresAt = cr_renewalCredentialExpiresAt c, cg_cleanupAttempts = 0,
      cg_nextCleanupAttemptAt = None, cg_lastCleanupErrorCategory = None, cg_createdAt = now,
      cg_updatedAt = now\<rparr>"

section \<open>Provider revocation and its result\<close>

definition revoke :: "options \<Rightarrow> DecryptedCredentialGeneration \<Rightarrow> ProviderRevocationResult" where
  "revoke opt g =
     (case ad_revoke (op_adapter opt) of
        None \<Rightarrow> Res_not_supported
      | Some f \<Rightarrow>
          (case f g of
             Inr r \<Rightarrow> r
           | Inl e \<Rightarrow> (if lifecycleCategory e = Some transient_provider_failure
                       then Res_retryable_failure else Res_permanent_failure)))"

definition complete :: "ProviderRevocationResult \<Rightarrow> bool" where
  "complete r \<longleftrightarrow> r = Res_revoked \<or> r = Res_already_absent \<or> r = Res_not_supported"

definition failureCategory :: "ProviderRevocationResult \<Rightarrow> LifecycleErrorCategory option" where
  "failureCategory r =
     (if r = Res_retryable_failure then Some transient_provider_failure
      else if r = Res_permanent_failure then Some provider_configuration_error else None)"

definition revokedConnection ::
  "options \<Rightarrow> time_ms \<Rightarrow> ProviderRevocationResult \<Rightarrow> ConnectionRecord \<Rightarrow> ConnectionRecord" where
  "revokedConnection opt now result current =
     (let next = current\<lparr>
            cr_phase := (if complete result then Ph_disconnected
                         else if result = Res_retryable_failure
                         then Ph_disconnected_with_provider_cleanup_pending else Ph_unavailable),
            cr_revocationState := (if complete result then Rev_complete
                         else if result = Res_retryable_failure then Rev_pending
                         else Rev_permanent_failure),
            cr_revocationCompletedAt := (if complete result then Some now else None),
            cr_lifecycleErrorCategory := failureCategory result,
            cr_updatedAt := now\<rparr>
      in if complete result then destroyCredentials opt next else next)"

definition finalizeRevocationInStore ::
  "options \<Rightarrow> time_ms \<Rightarrow> Hop1Identity \<Rightarrow> nat \<Rightarrow> ProviderRevocationResult \<Rightarrow> string option \<Rightarrow>
   lstate \<Rightarrow> unit res \<times> lstate" where
  "finalizeRevocationInStore opt now identity generation result gid st =
     (case get_conn opt now identity st of
        None \<Rightarrow> (Inr (), st)
      | Some current \<Rightarrow>
          (if cr_generation current \<noteq> generation \<or> cr_localDisabledAt current = None \<or>
              cr_revocationState current \<noteq> Rev_pending \<or>
              (gid \<noteq> None \<and> cr_credentialGenerationId current \<noteq> gid)
           then (Inr (), st)
           else let (saved, st1) = save_conn (revokedConnection opt now result current)
                                     (connectionWriteGuard (Some current)) st
                in if saved then (Inr (), st1) else (Inl generationConflict, st1)))"

definition cleanedGeneration ::
  "time_ms \<Rightarrow> ProviderRevocationResult \<Rightarrow> CredentialGenerationRecord \<Rightarrow> CredentialGenerationRecord" where
  "cleanedGeneration now result record =
     (let attempts = Suc (cg_cleanupAttempts record) in
      record\<lparr>cg_state := (if complete result then G_cleanup_complete
                          else if result = Res_permanent_failure then G_cleanup_permanent_failure
                          else G_cleanup_pending),
             cg_encryptedCredentialEnvelope :=
               (if complete result then None else cg_encryptedCredentialEnvelope record),
             cg_encryptedLegacyCredential :=
               (if complete result then None else cg_encryptedLegacyCredential record),
             cg_cleanupAttempts := attempts,
             cg_nextCleanupAttemptAt :=
               (if result = Res_retryable_failure then Some (now + cleanupBackoffMs attempts) else None),
             cg_lastCleanupErrorCategory := failureCategory result,
             cg_updatedAt := now\<rparr>)"

text \<open>One section: compare-and-set the custody record, then settle the connection.\<close>

definition finalizeCredentialCleanup ::
  "options \<Rightarrow> time_ms \<Rightarrow> Hop1Identity \<Rightarrow> CredentialGenerationRecord \<Rightarrow> ProviderRevocationResult \<Rightarrow>
   lstate \<Rightarrow> bool res \<times> lstate" where
  "finalizeCredentialCleanup opt now identity record result st =
     (let (ok, st1) = update_gen (cleanedGeneration now result record) G_cleanup_pending
                        (cg_cleanupAttempts record) st
      in if \<not> ok then (Inr False, st1)
         else case finalizeRevocationInStore opt now identity (cg_generation record) result
                     (Some (cg_id record)) st1 of
             (Inl e, st2) \<Rightarrow> (Inl e, st2)
           | (Inr _, st2) \<Rightarrow> (Inr True, st2))"

definition workerIdentity :: "string \<Rightarrow> string \<Rightarrow> string \<Rightarrow> Hop1Identity" where
  "workerIdentity issuer subject email =
     \<lparr>hi_profile = ''provider-cleanup-worker'', hi_issuer = issuer, hi_subject = subject,
      hi_email = email\<rparr>"

text \<open>The record to clean: a stale candidate is first claimed for cleanup.\<close>

definition claimCandidate ::
  "time_ms \<Rightarrow> CredentialGenerationRecord \<Rightarrow> lstate \<Rightarrow> CredentialGenerationRecord option \<times> lstate" where
  "claimCandidate now record st =
     (if cg_state record = G_candidate
      then let pending = record\<lparr>cg_state := G_cleanup_pending, cg_updatedAt := now\<rparr>;
               (ok, st1) = update_gen pending G_candidate (cg_cleanupAttempts record) st
           in (if ok then Some pending else None, st1)
      else (Some record, st))"

definition retryCredentialGenerationCleanup ::
  "options \<Rightarrow> time_ms \<Rightarrow> CredentialGenerationRecord \<Rightarrow> lstate \<Rightarrow> lstate" where
  "retryCredentialGenerationCleanup opt now record0 st =
     (let identity = workerIdentity (cg_hop1Issuer record0) (cg_hop1Subject record0)
                       (cg_displayAccountIdentity record0) in
      case claimCandidate now record0 st of
        (None, st1) \<Rightarrow> st1
      | (Some record, st1) \<Rightarrow>
          (case decryptCredentialCustody opt record of
             Inl e \<Rightarrow>
               emit opt now identity ''issued_credential_cleanup_retry'' ''error''
                 (orelse (lifecycleCategory e) (Some provider_configuration_error))
                 (snd (finalizeCredentialCleanup opt now identity record Res_permanent_failure st1))
           | Inr g \<Rightarrow>
               (let result = revoke opt g in
                case finalizeCredentialCleanup opt now identity record result st1 of
                  (Inl e, st2) \<Rightarrow>
                    emit opt now identity ''issued_credential_cleanup_retry'' ''error''
                      (orelse (lifecycleCategory e) (Some persistence_failure)) st2
                | (Inr False, st2) \<Rightarrow> st2
                | (Inr True, st2) \<Rightarrow>
                    (if failureCategory result \<noteq> None
                     then emit opt now identity ''issued_credential_cleanup_retry'' ''error''
                            (failureCategory result) st2
                     else st2))))"

definition cleanupCustodiedGeneration ::
  "options \<Rightarrow> time_ms \<Rightarrow> Hop1Identity \<Rightarrow> CredentialGenerationRecord \<Rightarrow> lstate \<Rightarrow> unit res \<times> lstate" where
  "cleanupCustodiedGeneration opt now identity candidate st =
     (let pending = candidate\<lparr>cg_state := G_cleanup_pending, cg_updatedAt := now\<rparr>;
          (ok1, st1) = update_gen pending G_candidate (cg_cleanupAttempts candidate) st;
          (queued, st2) = (if ok1 then (True, st1)
                           else update_gen pending G_active (cg_cleanupAttempts candidate) st1)
      in if \<not> queued then (Inr (), st2)
         else case decryptCredentialCustody opt pending of
             Inl e \<Rightarrow> (Inl e, st2)
           | Inr g \<Rightarrow>
               (let result = revoke opt g in
                case finalizeCredentialCleanup opt now identity pending result st2 of
                  (Inl e, st3) \<Rightarrow> (Inl e, st3)
                | (Inr _, st3) \<Rightarrow>
                    (Inr (), if failureCategory result \<noteq> None
                             then emit opt now identity ''issued_credential_cleanup'' ''error''
                                    (failureCategory result) st3
                             else st3)))"

section \<open>Status\<close>

text \<open>The section of \<open>performProviderAccountIdentityBackfill\<close>: the row afterwards and whether it
  was filled in.\<close>

definition backfillSection ::
  "options \<Rightarrow> time_ms \<Rightarrow> Hop1Identity \<Rightarrow> ConnectionRecord \<Rightarrow> ValidatedProviderIdentity \<Rightarrow>
   ProviderAccountIdentity \<Rightarrow> lstate \<Rightarrow> (ConnectionRecord option \<times> bool) \<times> lstate" where
  "backfillSection opt now identity initial validated account st =
     (case get_conn opt now identity st of
        None \<Rightarrow> ((None, False), st)
      | Some current \<Rightarrow>
          (if truthy (cr_providerAccountId current) \<or> cr_localDisabledAt current \<noteq> None
           then ((Some current, False), st)
           else if cr_generation current \<noteq> cr_generation initial \<or>
                   cr_updatedAt current \<noteq> cr_updatedAt initial
           then ((Some current, False), st)
           else let next = current\<lparr>cr_displayAccountIdentity := vi_displayAccountIdentity validated,
                             cr_providerAccountId := Some (pa_id account),
                             cr_providerAccountLogin := pa_login account,
                             cr_lastValidatedAt := Some now\<rparr>;
                    (saved, st1) = save_conn next (connectionWriteGuard (Some current)) st
                in if saved then ((Some next, True), st1)
                   else ((get_conn opt now identity st1, False), st1)))"

fun performProviderAccountIdentityBackfill ::
  "options \<Rightarrow> time_ms \<Rightarrow> Hop1Identity \<Rightarrow> ConnectionRecord \<Rightarrow> nat \<Rightarrow> lstate \<Rightarrow>
   ConnectionRecord option res \<times> lstate" where
  "performProviderAccountIdentityBackfill opt now identity initial retries st =
     (case ad_validateIdentity (op_adapter opt) of
        None \<Rightarrow> (Inl (ProviderLifecycleError provider_configuration_error), st)
      | Some validate \<Rightarrow>
          (case decryptGeneration opt initial of
             Inl e \<Rightarrow> (Inl e, st)
           | Inr g \<Rightarrow>
               (case validate g identity of
                  Inl e \<Rightarrow> (Inl e, st)
                | Inr validated \<Rightarrow>
                    (case vi_providerAccount validated of
                       None \<Rightarrow> (Inl (ProviderLifecycleError malformed_provider_response), st)
                     | Some account \<Rightarrow>
                         (case backfillSection opt now identity initial validated account st of
                            ((resolved, backfilled), st1) \<Rightarrow>
                              (let st2 = (if backfilled
                                     then emit opt now identity ''account_identity_backfilled'' ''allow'' None st1
                                     else st1) in
                               case resolved of
                                 Some r \<Rightarrow>
                                   (if \<not> truthy (cr_providerAccountId r)
                                    then case retries of
                                           Suc n \<Rightarrow> performProviderAccountIdentityBackfill opt now identity r n st2
                                         | 0 \<Rightarrow> (Inr resolved, st2)
                                    else (Inr resolved, st2))
                               | None \<Rightarrow> (Inr resolved, st2)))))))"

declare performProviderAccountIdentityBackfill.simps [simp del]

definition backfillKey :: "options \<Rightarrow> Hop1Identity \<Rightarrow> string" where
  "backfillKey opt identity =
     op_provider opt @ [CHR 0x00] @ hi_issuer identity @ [CHR 0x00] @ hi_subject identity"

text \<open>One retry of a backfill that lost a race (\<open>attempt === 0\<close>); the map of backfills in flight
  only shares a running promise and is not modelled.\<close>

definition backfillProviderAccountIdentity ::
  "options \<Rightarrow> time_ms \<Rightarrow> Hop1Identity \<Rightarrow> ConnectionRecord option \<Rightarrow> lstate \<Rightarrow>
   ConnectionRecord option \<times> lstate" where
  "backfillProviderAccountIdentity opt now identity initial st =
     (case initial of
        None \<Rightarrow> (None, st)
      | Some r \<Rightarrow>
          (if \<not> accountIdentityReporting (caps opt) \<or> truthy (cr_providerAccountId r) \<or>
              cr_localDisabledAt r \<noteq> None \<or> cr_phase r = Ph_authorizing \<or>
              \<not> cr_activeCredentialPresent r \<or> expired (cr_activeCredentialExpiresAt r) now
           then (Some r, st)
           else if coalesce (js_get (backfillRetryAt st) (backfillKey opt identity)) 0 > now
           then (Some r, st)
           else case performProviderAccountIdentityBackfill opt now identity r 1 st of
               (Inr record, st1) \<Rightarrow>
                 (record, st1\<lparr>backfillRetryAt := js_del (backfillKey opt identity) (backfillRetryAt st1)\<rparr>)
             | (Inl e, st1) \<Rightarrow>
                 (Some r, emit opt now identity ''account_identity_backfill_failed'' ''error''
                    (orelse (lifecycleCategory e) (Some persistence_failure))
                    (st1\<lparr>backfillRetryAt := js_set (backfillKey opt identity)
                           (now + accountIdentityBackfillRetryMs opt) (backfillRetryAt st1)\<rparr>))))"

definition status ::
  "options \<Rightarrow> time_ms \<Rightarrow> Hop1Identity \<Rightarrow> string list \<Rightarrow> lstate \<Rightarrow> ConnectionStatusV2 \<times> lstate" where
  "status opt now identity requiredScopes st =
     (let (record, st1) = backfillProviderAccountIdentity opt now identity
                            (get_conn opt now identity st) st
      in (statusFromRecord (op_adapter opt) now requiredScopes record, st1))"

end
