(* ===== verification/Lifecycle_Ops.thy ===== *)
theory Lifecycle_Ops
  imports Lifecycle
begin

text \<open>
  The operations of \<open>ConnectionLifecycle\<close> that move a connection between generations:
  \<open>activateAuthorizedGeneration\<close>, \<open>disconnect\<close> with the revocation worker, and
  \<open>renew\<close> with the operations built on it (\<open>getActiveCredential\<close>, \<open>refresh\<close>,
  \<open>recoverFromProviderAuthenticationFailure\<close>, \<open>repairLegacyScopePoison\<close>).
\<close>

section \<open>Activating an authorized generation\<close>

text \<open>What the activation records about the provider account.\<close>

record attestation =
  at_display :: string
  at_account :: "ProviderAccountIdentity option"
  at_validatedAt :: "time_ms option"

definition acquireCredentialCustody :: "CredentialGenerationRecord \<Rightarrow> lstate \<Rightarrow> lstate" where
  "acquireCredentialCustody candidate = with_store (saveCredentialGenerationDurably candidate)"

definition validateIssuedGeneration ::
  "options \<Rightarrow> time_ms \<Rightarrow> Hop1Identity \<Rightarrow> string list \<Rightarrow> IssuedCredentialGeneration \<Rightarrow>
   CredentialGenerationRecord \<Rightarrow> attestation res" where
  "validateIssuedGeneration opt now identity requiredScopes issued candidate =
     (if \<not> truthy (activeCredential (ig_credential issued))
      then Inl (ProviderLifecycleError malformed_provider_response)
      else if authorizationRequiresRenewalCredential (caps opt) \<and>
              \<not> truthy (renewalCredential (ig_credential issued))
      then Inl (ProviderLifecycleError malformed_provider_response)
      else case requireScopes (op_adapter opt) (ig_grantedScopes issued) requiredScopes of
          Some e \<Rightarrow> Inl e
        | None \<Rightarrow>
            (let attested =
               (if (identityVerification (caps opt) \<and> ig_validatedAt issued = None) \<or>
                   (accountIdentityReporting (caps opt) \<and> ig_providerAccount issued = None)
                then case ad_validateIdentity (op_adapter opt) of
                    Some validate \<Rightarrow>
                      (case decryptCredentialCustody opt candidate of
                         Inl e \<Rightarrow> Inl e
                       | Inr g \<Rightarrow>
                           (case validate g identity of
                              Inl e \<Rightarrow> Inl e
                            | Inr v \<Rightarrow> Inr \<lparr>at_display = vi_displayAccountIdentity v,
                                            at_account = vi_providerAccount v,
                                            at_validatedAt = Some now\<rparr>))
                  | None \<Rightarrow>
                      Inl (ProviderLifecycleError
                        (if accountIdentityReporting (caps opt) then provider_configuration_error
                         else identity_mismatch))
                else Inr \<lparr>at_display = ig_displayAccountIdentity issued,
                          at_account = ig_providerAccount issued,
                          at_validatedAt = ig_validatedAt issued\<rparr>)
             in case attested of
                  Inl e \<Rightarrow> Inl e
                | Inr a \<Rightarrow>
                    (if accountIdentityReporting (caps opt) \<and> at_account a = None
                     then Inl (ProviderLifecycleError malformed_provider_response) else Inr a)))"

definition activationGuardOk ::
  "AuthorizationActivationGuard option \<Rightarrow> ConnectionRecord option \<Rightarrow> bool" where
  "activationGuardOk guard current =
     (case guard of
        None \<Rightarrow> True
      | Some g \<Rightarrow>
          isCompleteAuthorizationActivationGuard g \<and>
          ag_generation g = Some (coalesce (map_option cr_generation current) 0) \<and>
          ag_locallyDisabled g = Some (Option.bind current cr_localDisabledAt \<noteq> None) \<and>
          (ag_updatedAt g = None \<or> map_option cr_updatedAt current = ag_updatedAt g))"

definition rebound :: "ConnectionRecord option \<Rightarrow> ProviderAccountIdentity option \<Rightarrow> bool" where
  "rebound current account =
     (case (Option.bind current cr_providerAccountId, account) of
        (Some i, Some a) \<Rightarrow> i \<noteq> [] \<and> pa_id a \<noteq> [] \<and> i \<noteq> pa_id a
      | _ \<Rightarrow> False)"

definition activatedConnection ::
  "options \<Rightarrow> time_ms \<Rightarrow> Hop1Identity \<Rightarrow> string list \<Rightarrow> IssuedCredentialGeneration \<Rightarrow>
   attestation \<Rightarrow> string \<Rightarrow> ConnectionRecord option \<Rightarrow> ConnectionRecord" where
  "activatedConnection opt now identity requiredScopes issued a gid current =
     \<lparr>cr_provider = op_provider opt, cr_hop1Issuer = hi_issuer identity,
      cr_hop1Subject = hi_subject identity, cr_displayAccountIdentity = at_display a,
      cr_providerAccountId = orelse (map_option pa_id (at_account a))
                               (Option.bind current cr_providerAccountId),
      cr_providerAccountLogin = orelse (Option.bind (at_account a) pa_login)
                                  (Option.bind current cr_providerAccountLogin),
      cr_encryptedCredentialEnvelope = Some (encryptEnvelope opt (ig_credential issued)),
      cr_credentialSchemaVersion = Some CREDENTIAL_SCHEMA_VERSION,
      cr_credentialGenerationId = Some gid,
      cr_generation = coalesce (map_option cr_generation current) 0 + 1,
      cr_requiredScopes = requiredScopes, cr_grantedScopes = ig_grantedScopes issued,
      cr_activeCredentialPresent = truthy (activeCredential (ig_credential issued)),
      cr_renewalCredentialPresent = truthy (renewalCredential (ig_credential issued)),
      cr_activeCredentialExpiresAt = ig_activeCredentialExpiresAt issued,
      cr_renewalCredentialExpiresAt = ig_renewalCredentialExpiresAt issued,
      cr_lastAuthorizedAt = Some now, cr_lastRenewedAt = None,
      cr_lastValidatedAt = at_validatedAt a, cr_localDisabledAt = None, cr_phase = Ph_connected,
      cr_revocationState = Rev_none, cr_revocationStartedAt = None,
      cr_revocationCompletedAt = None, cr_lifecycleErrorCategory = None,
      cr_createdAt = coalesce (map_option cr_createdAt current) now, cr_updatedAt = now,
      cr_encryptedLegacyCredential = legacyCredential opt (op_provider opt) (ig_credential issued)\<rparr>"

text \<open>The locked section: the guard of the authorization request, unresolved cleanups, the
  candidate made active, the connection replaced.\<close>

definition activateAuthorizedSection ::
  "options \<Rightarrow> time_ms \<Rightarrow> Hop1Identity \<Rightarrow> string list \<Rightarrow> IssuedCredentialGeneration \<Rightarrow>
   AuthorizationActivationGuard option \<Rightarrow> CredentialGenerationRecord \<Rightarrow> attestation \<Rightarrow>
   lstate \<Rightarrow> bool res \<times> lstate" where
  "activateAuthorizedSection opt now identity requiredScopes issued guard candidate a st =
     (let current = get_conn opt now identity st in
      if \<not> activationGuardOk guard current then (Inl generationConflict, st)
      else if map_option cr_revocationState current \<in> {Some Rev_pending, Some Rev_permanent_failure}
      then (Inl generationConflict, st)
      else if list_ex (\<lambda>r. cg_id r \<noteq> cg_id candidate \<and> unresolved r) (list_gens opt identity st)
      then (Inl generationConflict, st)
      else let activeCandidate = candidate\<lparr>
                   cg_generation := coalesce (map_option cr_generation current) 0 + 1,
                   cg_state := G_active, cg_displayAccountIdentity := at_display a,
                   cg_updatedAt := now\<rparr>;
               (ok, st1) = update_gen activeCandidate G_candidate 0 st
           in if \<not> ok then (Inl generationConflict, st1)
              else let (saved, st2) = save_conn
                         (activatedConnection opt now identity requiredScopes issued a
                            (cg_id candidate) current)
                         (connectionWriteGuard current) st1
                   in if \<not> saved then (Inl generationConflict, st2)
                      else (Inr (rebound current (at_account a)), st2))"

text \<open>After a failed section: a candidate that is not the connection's credential is revoked.\<close>

definition activationFailure ::
  "options \<Rightarrow> time_ms \<Rightarrow> Hop1Identity \<Rightarrow> CredentialGenerationRecord \<Rightarrow> lifecycle_error \<Rightarrow>
   lstate \<Rightarrow> bool res \<times> lstate" where
  "activationFailure opt now identity candidate err st =
     (let current = get_conn opt now identity st in
      if Option.bind current cr_credentialGenerationId \<noteq> Some (cg_id candidate)
      then case cleanupCustodiedGeneration opt now identity candidate st of
          (Inl e, st1) \<Rightarrow> (Inl e, st1)
        | (Inr _, st1) \<Rightarrow> (Inl err, st1)
      else if Option.bind current cr_localDisabledAt \<noteq> None then (Inl generationConflict, st)
      else (Inr False, st))"

definition activateAuthorizedGeneration ::
  "options \<Rightarrow> (nat \<Rightarrow> time_ms) \<Rightarrow> Hop1Identity \<Rightarrow> string list \<Rightarrow> IssuedCredentialGeneration \<Rightarrow>
   AuthorizationActivationGuard option \<Rightarrow> lstate \<Rightarrow> ConnectionStatusV2 res \<times> lstate" where
  "activateAuthorizedGeneration opt t identity requiredScopes issued guard st0 =
     (let (i, st1) = randomUUID opt st0;
          candidate = credentialCustodyRecord opt (t 0) identity
            \<lparr>dg_provider = op_provider opt,
             dg_generation = coalesce (Option.bind guard ag_generation) 0 + 1,
             dg_credential = ig_credential issued,
             dg_activeCredentialExpiresAt = ig_activeCredentialExpiresAt issued,
             dg_renewalCredentialExpiresAt = ig_renewalCredentialExpiresAt issued,
             dg_grantedScopes = ig_grantedScopes issued\<rparr> i;
          st2 = acquireCredentialCustody candidate st1
      in case validateIssuedGeneration opt (t 1) identity requiredScopes issued candidate of
           Inl e \<Rightarrow>
             (case cleanupCustodiedGeneration opt (t 2) identity candidate st2 of
                (Inl e', st3) \<Rightarrow> (Inl e', st3)
              | (Inr _, st3) \<Rightarrow> (Inl e, st3))
         | Inr a \<Rightarrow>
             (case (case activateAuthorizedSection opt (t 2) identity requiredScopes issued guard
                           candidate a st2 of
                      (Inl e, st3) \<Rightarrow> activationFailure opt (t 3) identity candidate e st3
                    | (Inr b, st3) \<Rightarrow> (Inr b, st3)) of
                (Inl e, st4) \<Rightarrow> (Inl e, st4)
              | (Inr accountRebound, st4) \<Rightarrow>
                  (let st5 = (if accountRebound
                              then emit opt (t 4) identity ''account_rebound'' ''allow'' None st4
                              else st4);
                       st6 = clearAuthorization opt identity st5;
                       st7 = emit opt (t 4) identity ''authorize'' ''allow'' None st6;
                       (s, st8) = status opt (t 4) identity requiredScopes st7
                   in (Inr s, st8))))"

section \<open>Disconnect\<close>

fun handoffRecords ::
  "time_ms \<Rightarrow> CredentialGenerationRecord list \<Rightarrow> lstate \<Rightarrow> CredentialGenerationRecord list \<times> lstate" where
  "handoffRecords now [] st = ([], st)"
| "handoffRecords now (r # rs) st =
     (if cg_state r \<noteq> G_active \<and> cg_state r \<noteq> G_candidate then handoffRecords now rs st
      else let pending = r\<lparr>cg_state := G_cleanup_pending, cg_updatedAt := now\<rparr>;
               (ok, st1) = update_gen pending (cg_state r) (cg_cleanupAttempts r) st;
               (out, st2) = handoffRecords now rs st1
           in (if ok then pending # out else out, st2))"

definition handoffPrincipalCredentialGenerations ::
  "options \<Rightarrow> time_ms \<Rightarrow> Hop1Identity \<Rightarrow> lstate \<Rightarrow> CredentialGenerationRecord list \<times> lstate" where
  "handoffPrincipalCredentialGenerations opt now identity st =
     handoffRecords now (list_gens opt identity st) st"

definition tombstone ::
  "options \<Rightarrow> time_ms \<Rightarrow> Hop1Identity \<Rightarrow> string list \<Rightarrow> ConnectionRecord" where
  "tombstone opt now identity requiredScopes =
     \<lparr>cr_provider = op_provider opt, cr_hop1Issuer = hi_issuer identity,
      cr_hop1Subject = hi_subject identity, cr_displayAccountIdentity = hi_email identity,
      cr_providerAccountId = None, cr_providerAccountLogin = None,
      cr_encryptedCredentialEnvelope = None, cr_credentialSchemaVersion = None,
      cr_credentialGenerationId = None, cr_generation = 0, cr_requiredScopes = requiredScopes,
      cr_grantedScopes = [], cr_activeCredentialPresent = False,
      cr_renewalCredentialPresent = False, cr_activeCredentialExpiresAt = None,
      cr_renewalCredentialExpiresAt = None, cr_lastAuthorizedAt = None, cr_lastRenewedAt = None,
      cr_lastValidatedAt = None, cr_localDisabledAt = Some now, cr_phase = Ph_disconnected,
      cr_revocationState = Rev_complete, cr_revocationStartedAt = None,
      cr_revocationCompletedAt = Some now, cr_lifecycleErrorCategory = None, cr_createdAt = now,
      cr_updatedAt = now, cr_encryptedLegacyCredential = op_encrypt opt ''credential-destroyed''\<rparr>"

text \<open>What the locked section hands to the revocation that follows it.\<close>

record disabling =
  di_disabled :: "DecryptedCredentialGeneration option"
  di_custodyId :: "string option"
  di_detached :: "CredentialGenerationRecord list"

definition disabledAgain :: "time_ms \<Rightarrow> ConnectionRecord \<Rightarrow> ConnectionRecord" where
  "disabledAgain now current =
     current\<lparr>cr_phase := (case cr_revocationState current of
                Rev_pending \<Rightarrow> Ph_disconnected_with_provider_cleanup_pending
              | Rev_permanent_failure \<Rightarrow> Ph_unavailable
              | _ \<Rightarrow> Ph_disconnected),
             cr_updatedAt := now\<rparr>"

definition disabledConnection ::
  "options \<Rightarrow> time_ms \<Rightarrow> bool \<Rightarrow> string option \<Rightarrow> ConnectionRecord \<Rightarrow> ConnectionRecord" where
  "disabledConnection opt now pending gid current =
     (let next = current\<lparr>cr_credentialGenerationId := gid, cr_localDisabledAt := Some now,
            cr_phase := (if pending then Ph_revocation_pending else Ph_disconnected),
            cr_revocationState := (if pending then Rev_pending else Rev_complete),
            cr_revocationStartedAt := (if pending then Some now else None),
            cr_revocationCompletedAt := (if pending then None else Some now),
            cr_updatedAt := now\<rparr>
      in if pending then next else destroyCredentials opt next)"

definition disconnectSection ::
  "options \<Rightarrow> time_ms \<Rightarrow> Hop1Identity \<Rightarrow> string list \<Rightarrow> lstate \<Rightarrow> disabling res \<times> lstate" where
  "disconnectSection opt now identity requiredScopes st0 =
     (let current = get_conn opt now identity st0;
          st1 = clearAuthorization opt identity st0 in
      case current of
        None \<Rightarrow>
          (let (saved, st2) = save_conn (tombstone opt now identity requiredScopes)
                                (connectionWriteGuard None) st1
           in if \<not> saved then (Inl generationConflict, st2)
              else let (out, st3) = handoffPrincipalCredentialGenerations opt now identity st2
                   in (Inr \<lparr>di_disabled = None, di_custodyId = None, di_detached = out\<rparr>, st3))
      | Some c \<Rightarrow>
          (if cr_localDisabledAt c \<noteq> None
           then let (saved, st2) = save_conn (disabledAgain now c) (connectionWriteGuard (Some c)) st1
                in if \<not> saved then (Inl generationConflict, st2)
                   else let (out, st3) = handoffPrincipalCredentialGenerations opt now identity st2
                        in (Inr \<lparr>di_disabled = None, di_custodyId = None, di_detached = out\<rparr>, st3)
           else let pending = (providerRevocation (caps opt) \<and>
                      (cr_activeCredentialPresent c \<or> cr_renewalCredentialPresent c));
                    (adopted, gid, st2) =
                      (if pending \<and> \<not> truthy (cr_credentialGenerationId c)
                       then let (i, sa) = randomUUID opt st1;
                                adoptee = connectionCredentialCustodyRecord now c G_cleanup_pending i
                            in ([adoptee], Some i, save_gen adoptee sa)
                       else ([], cr_credentialGenerationId c, st1));
                    (saved, st3) = save_conn (disabledConnection opt now pending gid c)
                                     (connectionWriteGuard (Some c)) st2
                in if \<not> saved then (Inl generationConflict, st3)
                   else let (out, st4) = handoffPrincipalCredentialGenerations opt now identity st3
                        in if pending
                           then (case decryptGeneration opt c of
                                   Inl e \<Rightarrow> (Inl e, st4)
                                 | Inr g \<Rightarrow> (Inr \<lparr>di_disabled = Some g, di_custodyId = gid,
                                                  di_detached = adopted @ out\<rparr>, st4))
                           else (Inr \<lparr>di_disabled = None, di_custodyId = gid,
                                      di_detached = adopted @ out\<rparr>, st4)))"

fun retryAll :: "options \<Rightarrow> time_ms \<Rightarrow> CredentialGenerationRecord list \<Rightarrow> lstate \<Rightarrow> lstate" where
  "retryAll opt now [] st = st"
| "retryAll opt now (r # rs) st = retryAll opt now rs (retryCredentialGenerationCleanup opt now r st)"

text \<open>The revocation of the credential the connection held, and its result made durable.\<close>

definition settleDisabled ::
  "options \<Rightarrow> time_ms \<Rightarrow> Hop1Identity \<Rightarrow> disabling \<Rightarrow> lstate \<Rightarrow> unit res \<times> lstate" where
  "settleDisabled opt now identity d st =
     (case di_disabled d of
        None \<Rightarrow> (Inr (), st)
      | Some g \<Rightarrow>
          (let result = revoke opt g;
               (r, st1) = (case List.find (\<lambda>r. Some (cg_id r) = di_custodyId d) (di_detached d) of
                   Some custody \<Rightarrow>
                     map_prod (map_sum id (\<lambda>_. ())) id
                       (finalizeCredentialCleanup opt now identity custody result st)
                 | None \<Rightarrow> finalizeRevocationInStore opt now identity (dg_generation g) result None st)
           in case r of
                Inl (ProviderLifecycleError c) \<Rightarrow> (Inl (ProviderLifecycleError c), st1)
              | Inl _ \<Rightarrow> (Inl (ProviderLifecycleError persistence_failure),
                           emit opt now identity ''disconnect'' ''error'' None st1)
              | Inr _ \<Rightarrow>
                  (Inr (), if failureCategory result \<noteq> None
                           then emit opt now identity ''disconnect_cleanup'' ''error''
                                  (failureCategory result) st1
                           else st1)))"

definition disconnect ::
  "options \<Rightarrow> (nat \<Rightarrow> time_ms) \<Rightarrow> Hop1Identity \<Rightarrow> string list \<Rightarrow> lstate \<Rightarrow>
   ConnectionStatusV2 res \<times> lstate" where
  "disconnect opt t identity requiredScopes st0 =
     (case disconnectSection opt (t 0) identity requiredScopes st0 of
        (Inl (ProviderLifecycleError c), st1) \<Rightarrow> (Inl (ProviderLifecycleError c), st1)
      | (Inl _, st1) \<Rightarrow> (Inl (ProviderLifecycleError persistence_failure),
                        emit opt (t 0) identity ''disconnect'' ''error'' None st1)
      | (Inr d, st1) \<Rightarrow>
          (case settleDisabled opt (t 1) identity d st1 of
             (Inl e, st2) \<Rightarrow> (Inl e, st2)
           | (Inr _, st2) \<Rightarrow>
               (let st3 = retryAll opt (t 2)
                            (filter (\<lambda>r. Some (cg_id r) \<noteq> di_custodyId d) (di_detached d)) st2;
                    st4 = emit opt (t 2) identity ''disconnect'' ''allow'' None st3;
                    (s, st5) = status opt (t 2) identity requiredScopes st4
                in (Inr s, st5))))"

section \<open>The revocation worker\<close>

definition adoptPendingConnectionCleanup ::
  "options \<Rightarrow> time_ms \<Rightarrow> Hop1Identity \<Rightarrow> lstate \<Rightarrow>
   CredentialGenerationRecord option res \<times> lstate" where
  "adoptPendingConnectionCleanup opt now identity st =
     (case get_conn opt now identity st of
        None \<Rightarrow> (Inr None, st)
      | Some current \<Rightarrow>
          (if cr_revocationState current \<noteq> Rev_pending \<or> cr_localDisabledAt current = None
           then (Inr None, st)
           else if truthy (cr_credentialGenerationId current)
           then (Inr (List.find (\<lambda>g. Some (cg_id g) = cr_credentialGenerationId current)
                        (list_gens opt identity st)), st)
           else let (i, st1) = randomUUID opt st;
                    custody = connectionCredentialCustodyRecord now current G_cleanup_pending i;
                    (saved, st2) = save_conn
                        (current\<lparr>cr_credentialGenerationId := Some i, cr_updatedAt := now\<rparr>)
                        (connectionWriteGuard (Some current)) (save_gen custody st1)
                in if saved then (Inr (Some custody), st2) else (Inl generationConflict, st2)))"

definition retryPendingRevocation ::
  "options \<Rightarrow> (nat \<Rightarrow> time_ms) \<Rightarrow> Hop1Identity \<Rightarrow> lstate \<Rightarrow> unit res \<times> lstate" where
  "retryPendingRevocation opt t identity st =
     (case get_conn opt (t 0) identity st of
        None \<Rightarrow> (Inr (), st)
      | Some record \<Rightarrow>
          (if cr_revocationState record \<noteq> Rev_pending \<or> cr_localDisabledAt record = None
           then (Inr (), st)
           else let (found, st1) =
                  (if \<not> truthy (cr_credentialGenerationId record)
                   then adoptPendingConnectionCleanup opt (t 1) identity st
                   else (Inr (List.find (\<lambda>g. Some (cg_id g) = cr_credentialGenerationId record)
                                (list_gens opt identity st)), st))
                in case found of
                     Inl e \<Rightarrow> (Inl e, st1)
                   | Inr None \<Rightarrow> (Inr (), st1)
                   | Inr (Some custody) \<Rightarrow>
                       (if cg_state custody \<noteq> G_cleanup_pending \<or>
                           coalesce (cg_nextCleanupAttemptAt custody) 0 > t 2
                        then (Inr (), st1)
                        else (Inr (), retryCredentialGenerationCleanup opt (t 2) custody st1))))"

definition retryPendingCredentialCleanup ::
  "options \<Rightarrow> time_ms \<Rightarrow> PendingCredentialCleanupRecord \<Rightarrow> lstate \<Rightarrow> lstate" where
  "retryPendingCredentialCleanup opt now record st =
     (let generation =
        \<lparr>cg_id = pc_id record, cg_provider = pc_provider record,
         cg_hop1Issuer = pc_hop1Issuer record, cg_hop1Subject = pc_hop1Subject record,
         cg_displayAccountIdentity = pc_displayAccountIdentity record,
         cg_encryptedCredentialEnvelope = Some (pc_encryptedCredentialEnvelope record),
         cg_encryptedLegacyCredential = None,
         cg_credentialSchemaVersion = pc_credentialSchemaVersion record,
         cg_generation = pc_generation record, cg_state = G_cleanup_pending,
         cg_grantedScopes = pc_grantedScopes record,
         cg_activeCredentialExpiresAt = pc_activeCredentialExpiresAt record,
         cg_renewalCredentialExpiresAt = pc_renewalCredentialExpiresAt record,
         cg_cleanupAttempts = 0, cg_nextCleanupAttemptAt = None,
         cg_lastCleanupErrorCategory = None, cg_createdAt = pc_createdAt record,
         cg_updatedAt = pc_updatedAt record\<rparr>
      in retryCredentialGenerationCleanup opt now generation
           (with_store (deletePendingCredentialCleanup (pc_id record)) (save_gen generation st)))"

fun retryRows ::
  "options \<Rightarrow> (nat \<Rightarrow> time_ms) \<Rightarrow> ConnectionRecord list \<Rightarrow> lstate \<Rightarrow> lstate" where
  "retryRows opt t [] st = st"
| "retryRows opt t (r # rs) st =
     (let identity = workerIdentity (cr_hop1Issuer r) (cr_hop1Subject r) (cr_displayAccountIdentity r) in
      retryRows opt t rs
        (case retryPendingRevocation opt t identity st of
           (Inr _, st1) \<Rightarrow> st1
         | (Inl e, st1) \<Rightarrow>
             emit opt (t 2) identity ''disconnect_cleanup_retry'' ''error''
               (orelse (lifecycleCategory e) (Some persistence_failure)) st1))"

fun retryQueued ::
  "options \<Rightarrow> time_ms \<Rightarrow> PendingCredentialCleanupRecord list \<Rightarrow> lstate \<Rightarrow> lstate" where
  "retryQueued opt now [] st = st"
| "retryQueued opt now (r # rs) st = retryQueued opt now rs (retryPendingCredentialCleanup opt now r st)"

definition retryPendingRevocations ::
  "options \<Rightarrow> (nat \<Rightarrow> time_ms) \<Rightarrow> nat \<Rightarrow> lstate \<Rightarrow> nat \<times> lstate" where
  "retryPendingRevocations opt t limit st =
     (let pending = listConnectionsPendingRevocation (store st) (op_provider opt) limit;
          st1 = retryRows opt t pending st;
          queued = listPendingCredentialCleanups (store st1) (op_provider opt) limit;
          st2 = retryQueued opt (t 3) queued st1;
          generations = listCredentialGenerationsForCleanup (store st2) (op_provider opt) limit (t 4);
          st3 = retryAll opt (t 4) generations st2
      in (length pending + length queued + length generations, st3))"

end
