(* ===== verification/Lifecycle_Renew.thy ===== *)
theory Lifecycle_Renew
  imports Lifecycle_Ops
begin

text \<open>
  Renewal (\<open>renew\<close> of \<open>shared/oauth/connection-lifecycle.ts\<close> and the private methods it is made
  of) and the credential lookups built on it.

  \<open>renew\<close> asks the provider for a new generation inside the issuance lock, keeps it as a
  candidate in custody, validates it outside the lock and activates it in a second section if the
  connection is still the one it started from. A caller that finds a candidate already in custody
  polls the store; the states it sees at its polls before the 20 s deadline are the argument
  \<open>polls\<close>.
\<close>

section \<open>Preparation\<close>

record preparation =
  pr_current :: ConnectionRecord
  pr_decrypted :: DecryptedCredentialGeneration
  pr_renewed :: RenewedCredentialGeneration
  pr_candidate :: CredentialGenerationRecord
  pr_fresh :: bool
  pr_validatedIdentity :: "ValidatedProviderIdentity option"

datatype RenewalPreparation =
  PrepResult RefreshResult | PrepWait nat string | PrepCandidate preparation

definition persistReauthorizationRequired ::
  "time_ms \<Rightarrow> ConnectionRecord \<Rightarrow> LifecycleErrorCategory \<Rightarrow> lstate \<Rightarrow> unit res \<times> lstate" where
  "persistReauthorizationRequired now current category st =
     (let (saved, st1) = save_conn
            (current\<lparr>cr_phase := Ph_reauthorization_required,
                     cr_lifecycleErrorCategory := Some category, cr_updatedAt := now\<rparr>)
            (connectionWriteGuard (Some current)) st
      in if saved then (Inr (), st1) else (Inl generationConflict, st1))"

definition giveUp ::
  "time_ms \<Rightarrow> ConnectionRecord \<Rightarrow> LifecycleErrorCategory \<Rightarrow> lstate \<Rightarrow>
   RenewalPreparation res \<times> lstate" where
  "giveUp now current category st =
     (case persistReauthorizationRequired now current category st of
        (Inl e, st1) \<Rightarrow> (Inl e, st1)
      | (Inr _, st1) \<Rightarrow> (Inr (PrepResult reauthorization_required), st1))"

definition isFresh :: "options \<Rightarrow> time_ms \<Rightarrow> DecryptedCredentialGeneration \<Rightarrow> bool" where
  "isFresh opt now g \<longleftrightarrow>
     activeCredential (dg_credential g) \<noteq> None \<and>
     (case dg_activeCredentialExpiresAt g of
        None \<Rightarrow> True | Some e \<Rightarrow> e > now + renewalSafetyWindowMs opt)"

text \<open>The renewal call failed.\<close>

definition renewalRefused ::
  "time_ms \<Rightarrow> ConnectionRecord \<Rightarrow> bool \<Rightarrow> lifecycle_error \<Rightarrow> lstate \<Rightarrow>
   RenewalPreparation res \<times> lstate" where
  "renewalRefused now current fresh err st =
     (let category = lifecycleCategory err in
      if isPermanentRenewalFailure category then giveUp now current (the category) st
      else if \<not> fresh \<and> category \<noteq> None \<and> category \<noteq> Some persistence_failure
      then let (saved, st1) = save_conn
                 (current\<lparr>cr_phase := Ph_unavailable, cr_lifecycleErrorCategory := category,
                          cr_updatedAt := now\<rparr>) (connectionWriteGuard (Some current)) st
           in (Inl (if saved then err else generationConflict), st1)
      else (Inl err, st))"

text \<open>Custody blocks a renewal, or another caller's candidate is waited for, or the provider is
  asked and its answer is taken into custody.\<close>

definition issueCandidate ::
  "options \<Rightarrow> time_ms \<Rightarrow> Hop1Identity \<Rightarrow> ConnectionRecord \<Rightarrow> DecryptedCredentialGeneration \<Rightarrow>
   (DecryptedCredentialGeneration \<Rightarrow> nat \<Rightarrow> RenewedCredentialGeneration res) \<Rightarrow> bool \<Rightarrow> lstate \<Rightarrow>
   RenewalPreparation res \<times> lstate" where
  "issueCandidate opt now identity current decrypted renew fresh st =
     (let generations = list_gens opt identity st in
      if list_ex unresolved generations then (Inl generationConflict, st)
      else case List.find (\<lambda>r. cg_state r = G_candidate \<and> cg_generation r = cr_generation current + 1)
                  generations of
          Some existing \<Rightarrow> (Inr (PrepWait (cr_generation current) (cg_id existing)), st)
        | None \<Rightarrow>
            (case retryTransient (renew decrypted)
                    (if rotatingRenewalCredential (caps opt) then 0 else transientRetries opt) 0 of
               Inl e \<Rightarrow> renewalRefused now current fresh e st
             | Inr renewed \<Rightarrow>
                 (let (i, st1) = randomUUID opt st;
                      candidate = credentialCustodyRecord opt now identity
                        \<lparr>dg_provider = op_provider opt, dg_generation = cr_generation current + 1,
                         dg_credential = rg_credential renewed,
                         dg_activeCredentialExpiresAt = rg_activeCredentialExpiresAt renewed,
                         dg_renewalCredentialExpiresAt = rg_renewalCredentialExpiresAt renewed,
                         dg_grantedScopes = coalesce (rg_grantedScopes renewed)
                                              (cr_grantedScopes current)\<rparr> i
                  in (Inr (PrepCandidate \<lparr>pr_current = current, pr_decrypted = decrypted,
                        pr_renewed = renewed, pr_candidate = candidate, pr_fresh = fresh,
                        pr_validatedIdentity = None\<rparr>), save_gen candidate st1))))"

definition prepareRenewalSection ::
  "options \<Rightarrow> time_ms \<Rightarrow> Hop1Identity \<Rightarrow> ScopeRequirementInput \<Rightarrow> bool \<Rightarrow> bool \<Rightarrow> nat option \<Rightarrow>
   lstate \<Rightarrow> RenewalPreparation res \<times> lstate" where
  "prepareRenewalSection opt now identity requiredScopes manual knownInvalid observed st =
     (case get_conn opt now identity st of
        None \<Rightarrow> (Inr (PrepResult reauthorization_required), st)
      | Some current \<Rightarrow>
          (if cr_localDisabledAt current \<noteq> None
           then (Inr (PrepResult reauthorization_required), st)
           else if \<not> scopeRequirementSatisfied (op_adapter opt) (cr_grantedScopes current) requiredScopes
           then (if \<not> manual then (Inl ProviderToolScopeError, st)
                 else giveUp now current insufficient_scope st)
           else if observed \<noteq> None \<and> observed \<noteq> Some (cr_generation current)
           then (Inr (PrepResult already_fresh), st)
           else case decryptGeneration opt current of
               Inl e \<Rightarrow> (Inl e, st)
             | Inr decrypted \<Rightarrow>
                 (let fresh = (\<not> knownInvalid \<and> isFresh opt now decrypted);
                      supported = (if manual then manualRenewal (caps opt)
                                   else automaticRenewal (caps opt)) in
                  if \<not> manual \<and> fresh then (Inr (PrepResult already_fresh), st)
                  else if manual \<and> fresh \<and> \<not> truthy (renewalCredential (dg_credential decrypted))
                  then (Inr (PrepResult refresh_not_supported), st)
                  else case (if supported then ad_renew (op_adapter opt) else None) of
                      None \<Rightarrow>
                        (if manual then (Inr (PrepResult refresh_not_supported), st)
                         else if \<not> fresh then giveUp now current invalid_active_credential st
                         else (Inr (PrepResult refresh_not_supported), st))
                    | Some renew \<Rightarrow>
                        (if expired (dg_renewalCredentialExpiresAt decrypted) now
                         then giveUp now current renewal_expired st
                         else issueCandidate opt now identity current decrypted renew fresh st))))"

section \<open>Validation and activation\<close>

definition validateRenewedGeneration ::
  "options \<Rightarrow> time_ms \<Rightarrow> Hop1Identity \<Rightarrow> preparation \<Rightarrow> ScopeRequirementInput \<Rightarrow> bool \<Rightarrow>
   preparation res" where
  "validateRenewedGeneration opt now identity p requiredScopes manual =
     (let renewed = pr_renewed p;
          granted = coalesce (rg_grantedScopes renewed) (cr_grantedScopes (pr_current p)) in
      if \<not> truthy (activeCredential (rg_credential renewed))
      then Inl (ProviderLifecycleError malformed_provider_response)
      else if rotatingRenewalCredential (caps opt) \<and> \<not> truthy (renewalCredential (rg_credential renewed))
      then Inl (ProviderLifecycleError malformed_provider_response)
      else if manual \<and> \<not> scopeRequirementSatisfied (op_adapter opt) granted requiredScopes
      then Inl (ProviderLifecycleError insufficient_scope)
      else if \<not> accountIdentityReporting (caps opt) then Inr p
      else case ad_validateIdentity (op_adapter opt) of
          None \<Rightarrow> Inl (ProviderLifecycleError provider_configuration_error)
        | Some validate \<Rightarrow>
            (case validate
               \<lparr>dg_provider = op_provider opt, dg_generation = cr_generation (pr_current p) + 1,
                dg_credential = mergeRotatedCredential (dg_credential (pr_decrypted p))
                                  (rg_credential renewed),
                dg_activeCredentialExpiresAt = rg_activeCredentialExpiresAt renewed,
                dg_renewalCredentialExpiresAt = orelse (rg_renewalCredentialExpiresAt renewed)
                  (dg_renewalCredentialExpiresAt (pr_decrypted p)),
                dg_grantedScopes = granted\<rparr> identity of
               Inl e \<Rightarrow> Inl e
             | Inr v \<Rightarrow>
                 (if vi_providerAccount v = None
                  then Inl (ProviderLifecycleError malformed_provider_response)
                  else Inr (p\<lparr>pr_validatedIdentity := Some v,
                              pr_renewed := renewed\<lparr>rg_validatedAt := Some now\<rparr>\<rparr>))))"

definition renewedConnection ::
  "options \<Rightarrow> time_ms \<Rightarrow> preparation \<Rightarrow> ConnectionRecord \<Rightarrow> ConnectionRecord" where
  "renewedConnection opt now p current =
     (let renewed = pr_renewed p;
          nextCredential = mergeRotatedCredential (dg_credential (pr_decrypted p)) (rg_credential renewed);
          account = Option.bind (pr_validatedIdentity p) vi_providerAccount in
      current\<lparr>
        cr_displayAccountIdentity :=
          coalesce (map_option vi_displayAccountIdentity (pr_validatedIdentity p))
            (cr_displayAccountIdentity current),
        cr_providerAccountId := orelse (map_option pa_id account) (cr_providerAccountId current),
        cr_providerAccountLogin := orelse (Option.bind account pa_login) (cr_providerAccountLogin current),
        cr_encryptedCredentialEnvelope := Some (encryptEnvelope opt nextCredential),
        cr_credentialSchemaVersion := Some CREDENTIAL_SCHEMA_VERSION,
        cr_credentialGenerationId := Some (cg_id (pr_candidate p)),
        cr_generation := cr_generation current + 1,
        cr_grantedScopes := coalesce (rg_grantedScopes renewed) (cr_grantedScopes current),
        cr_activeCredentialPresent := truthy (activeCredential nextCredential),
        cr_renewalCredentialPresent := truthy (renewalCredential nextCredential),
        cr_activeCredentialExpiresAt := rg_activeCredentialExpiresAt renewed,
        cr_renewalCredentialExpiresAt := orelse (rg_renewalCredentialExpiresAt renewed)
          (cr_renewalCredentialExpiresAt current),
        cr_lastRenewedAt := Some now,
        cr_lastValidatedAt := orelse (rg_validatedAt renewed) (cr_lastValidatedAt current),
        cr_phase := Ph_connected, cr_lifecycleErrorCategory := None, cr_updatedAt := now,
        cr_encryptedLegacyCredential := legacyCredential opt (cr_provider current) nextCredential\<rparr>)"

definition retiredGeneration :: "time_ms \<Rightarrow> CredentialGenerationRecord \<Rightarrow> CredentialGenerationRecord" where
  "retiredGeneration now r =
     r\<lparr>cg_encryptedCredentialEnvelope := None, cg_encryptedLegacyCredential := None,
       cg_state := G_retired, cg_nextCleanupAttemptAt := None, cg_lastCleanupErrorCategory := None,
       cg_updatedAt := now\<rparr>"

text \<open>The generation the renewal replaces, if custody has one: \<open>Inl\<close> when it is not active.\<close>

definition supersededGeneration ::
  "options \<Rightarrow> Hop1Identity \<Rightarrow> preparation \<Rightarrow> ConnectionRecord \<Rightarrow> lstate \<Rightarrow>
   CredentialGenerationRecord option res" where
  "supersededGeneration opt identity p current st =
     (if truthy (cr_credentialGenerationId current) \<and>
         cr_credentialGenerationId current \<noteq> Some (cg_id (pr_candidate p))
      then case List.find (\<lambda>r. Some (cg_id r) = cr_credentialGenerationId current)
                  (list_gens opt identity st) of
          Some r \<Rightarrow> (if cg_state r = G_active then Inr (Some r) else Inl generationConflict)
        | None \<Rightarrow> Inl generationConflict
      else Inr None)"

definition activateRenewedGeneration ::
  "options \<Rightarrow> time_ms \<Rightarrow> Hop1Identity \<Rightarrow> preparation \<Rightarrow> lstate \<Rightarrow>
   (RefreshResult \<times> bool) res \<times> lstate" where
  "activateRenewedGeneration opt now identity p st =
     (case get_conn opt now identity st of
        None \<Rightarrow> (Inr (already_fresh, False), st)
      | Some current \<Rightarrow>
          (if cr_generation current \<noteq> cr_generation (pr_current p)
           then (Inr (already_fresh, False), st)
           else if cr_localDisabledAt current \<noteq> None \<or>
                   cr_updatedAt current \<noteq> cr_updatedAt (pr_current p)
           then (Inl generationConflict, st)
           else case supersededGeneration opt identity p current st of
               Inl e \<Rightarrow> (Inl e, st)
             | Inr superseded \<Rightarrow>
                 (let activeCustody = (pr_candidate p)\<lparr>
                        cg_encryptedCredentialEnvelope := Some (encryptEnvelope opt
                          (mergeRotatedCredential (dg_credential (pr_decrypted p))
                             (rg_credential (pr_renewed p)))),
                        cg_state := G_active, cg_updatedAt := now\<rparr>;
                      (ok, st1) = update_gen activeCustody G_candidate 0 st in
                  if \<not> ok then (Inl generationConflict, st1)
                  else let (saved, st2) = save_conn (renewedConnection opt now p current)
                                            (connectionWriteGuard (Some (pr_current p))) st1
                       in if \<not> saved then (Inl generationConflict, st2)
                          else let result = (refreshed, rebound (Some current)
                                    (Option.bind (pr_validatedIdentity p) vi_providerAccount))
                               in case superseded of
                                    None \<Rightarrow> (Inr result, st2)
                                  | Some r \<Rightarrow>
                                      (let (ok2, st3) = update_gen (retiredGeneration now r) G_active
                                                          (cg_cleanupAttempts r) st2
                                       in if ok2 then (Inr result, st3)
                                          else (Inl generationConflict, st3)))))"

section \<open>Rejection\<close>

definition rejectSection ::
  "options \<Rightarrow> time_ms \<Rightarrow> Hop1Identity \<Rightarrow> preparation \<Rightarrow> lifecycle_error \<Rightarrow>
   CredentialGenerationRecord \<Rightarrow> lstate \<Rightarrow> bool res \<times> lstate" where
  "rejectSection opt now identity p err pending st =
     (let current = get_conn opt now identity st;
          category = lifecycleCategory err in
      if Option.bind current cr_credentialGenerationId = Some (cg_id (pr_candidate p))
      then (Inr False, st)
      else let (ok1, st1) = update_gen pending G_candidate 0 st;
               (ok, st2) = (if ok1 then (True, st1) else update_gen pending G_active 0 st1)
           in if \<not> ok then (Inr False, st2)
              else case current of
                  None \<Rightarrow> (Inr True, st2)
                | Some c \<Rightarrow>
                    (if cr_generation c = cr_generation (pr_current p) \<and> cr_localDisabledAt c = None \<and>
                        cr_updatedAt c = cr_updatedAt (pr_current p) \<and> category \<noteq> None \<and>
                        category \<noteq> Some persistence_failure \<and> category \<noteq> Some generation_conflict \<and>
                        (\<not> pr_fresh p \<or> isPermanentRenewalFailure category)
                     then let (saved, st3) = save_conn
                                (c\<lparr>cr_phase := (if isPermanentRenewalFailure category
                                                 then Ph_reauthorization_required else Ph_unavailable),
                                   cr_lifecycleErrorCategory := category, cr_updatedAt := now\<rparr>)
                                (connectionWriteGuard (Some c)) st2
                          in if saved then (Inr True, st3) else (Inl generationConflict, st3)
                     else (Inr True, st2)))"

definition rejectRenewedGeneration ::
  "options \<Rightarrow> time_ms \<Rightarrow> Hop1Identity \<Rightarrow> preparation \<Rightarrow> lifecycle_error \<Rightarrow> lstate \<Rightarrow>
   unit res \<times> lstate" where
  "rejectRenewedGeneration opt now identity p err st =
     (let pending = (pr_candidate p)\<lparr>cg_state := G_cleanup_pending, cg_updatedAt := now\<rparr> in
      case rejectSection opt now identity p err pending st of
        (Inl e, st1) \<Rightarrow> (Inl e, st1)
      | (Inr queued, st1) \<Rightarrow>
          (Inr (), if queued then retryCredentialGenerationCleanup opt now pending st1 else st1))"

section \<open>Waiting for another caller's renewal\<close>

fun awaitConcurrentRenewal ::
  "options \<Rightarrow> Hop1Identity \<Rightarrow> nat \<Rightarrow> string \<Rightarrow> ScopeRequirementInput \<Rightarrow> bool \<Rightarrow>
   (time_ms \<times> lstate) list \<Rightarrow> RefreshResult res" where
  "awaitConcurrentRenewal opt identity generation candidateId requiredScopes manual [] =
     Inl (ProviderLifecycleError transient_provider_failure)"
| "awaitConcurrentRenewal opt identity generation candidateId requiredScopes manual ((now, st) # polls) =
     (case get_conn opt now identity st of
        None \<Rightarrow> Inr reauthorization_required
      | Some current \<Rightarrow>
          (if cr_localDisabledAt current \<noteq> None then Inr reauthorization_required
           else if cr_generation current \<noteq> generation
           then (if scopeRequirementSatisfied (op_adapter opt) (cr_grantedScopes current) requiredScopes
                 then Inr already_fresh
                 else if \<not> manual then Inl ProviderToolScopeError
                 else Inr reauthorization_required)
           else if map_option cg_state (List.find (\<lambda>r. cg_id r = candidateId) (list_gens opt identity st))
                   \<noteq> Some G_candidate
           then Inl (case cr_lifecycleErrorCategory current of
                       Some c \<Rightarrow> ProviderLifecycleError c | None \<Rightarrow> generationConflict)
           else awaitConcurrentRenewal opt identity generation candidateId requiredScopes manual polls))"

section \<open>renew\<close>

definition operationName :: "bool \<Rightarrow> string" where
  "operationName manual = ''renewal.'' @ (if manual then ''manual'' else ''automatic'')"

definition renewalDone ::
  "options \<Rightarrow> time_ms \<Rightarrow> Hop1Identity \<Rightarrow> bool \<Rightarrow> RefreshResult \<Rightarrow> bool \<Rightarrow> lstate \<Rightarrow>
   RefreshResult res \<times> lstate" where
  "renewalDone opt now identity manual result accountRebound st =
     (let st1 = (if result = reauthorization_required
                 then emit opt now identity ''reauthorization_required'' ''deny'' None st else st);
          st2 = (if accountRebound then emit opt now identity ''account_rebound'' ''allow'' None st1
                 else st1);
          st3 = emit opt now identity (operationName manual)
                  (if result = reauthorization_required then ''deny'' else ''allow'') None st2
      in (Inr result, st3))"

definition renewalFailed ::
  "options \<Rightarrow> time_ms \<Rightarrow> Hop1Identity \<Rightarrow> bool \<Rightarrow> lifecycle_error \<Rightarrow> lstate \<Rightarrow>
   RefreshResult res \<times> lstate" where
  "renewalFailed opt now identity manual err st =
     (Inl err, emit opt now identity (operationName manual) ''error''
        (orelse (lifecycleCategory err) (Some provider_configuration_error)) st)"

text \<open>The catch block, for a generation that was issued and not yet settled.\<close>

definition rejectIssued ::
  "options \<Rightarrow> time_ms \<Rightarrow> Hop1Identity \<Rightarrow> bool \<Rightarrow> preparation \<Rightarrow> lifecycle_error \<Rightarrow> lstate \<Rightarrow>
   RefreshResult res \<times> lstate" where
  "rejectIssued opt now identity manual p err st =
     (let current = get_conn opt now identity st in
      if Option.bind current cr_credentialGenerationId \<noteq> Some (cg_id (pr_candidate p))
      then let st1 = (if list_ex (\<lambda>g. cg_id g = cg_id (pr_candidate p)) (list_gens opt identity st)
                      then st else acquireCredentialCustody (pr_candidate p) st)
           in case rejectRenewedGeneration opt now identity p err st1 of
                (Inl e, st2) \<Rightarrow> (Inl e, st2)
              | (Inr _, st2) \<Rightarrow> renewalFailed opt now identity manual err st2
      else renewalFailed opt now identity manual err st)"

definition settleCandidate ::
  "options \<Rightarrow> (nat \<Rightarrow> time_ms) \<Rightarrow> Hop1Identity \<Rightarrow> ScopeRequirementInput \<Rightarrow> bool \<Rightarrow> preparation \<Rightarrow>
   lstate \<Rightarrow> RefreshResult res \<times> lstate" where
  "settleCandidate opt t identity requiredScopes manual p0 st =
     (case validateRenewedGeneration opt (t 1) identity p0 requiredScopes manual of
        Inl e \<Rightarrow> rejectIssued opt (t 3) identity manual p0 e st
      | Inr p \<Rightarrow>
          (case activateRenewedGeneration opt (t 2) identity p st of
             (Inl e, st1) \<Rightarrow> rejectIssued opt (t 3) identity manual p e st1
           | (Inr (result, accountRebound), st1) \<Rightarrow>
               (if result = refreshed
                then renewalDone opt (t 3) identity manual result accountRebound st1
                else case rejectRenewedGeneration opt (t 3) identity p generationConflict st1 of
                    (Inl e, st2) \<Rightarrow> rejectIssued opt (t 4) identity manual p e st2
                  | (Inr _, st2) \<Rightarrow> renewalDone opt (t 4) identity manual result accountRebound st2)))"

definition renew ::
  "options \<Rightarrow> (nat \<Rightarrow> time_ms) \<Rightarrow> (time_ms \<times> lstate) list \<Rightarrow> Hop1Identity \<Rightarrow>
   ScopeRequirementInput \<Rightarrow> bool \<Rightarrow> bool \<Rightarrow> nat option \<Rightarrow> lstate \<Rightarrow> RefreshResult res \<times> lstate" where
  "renew opt t polls identity requiredScopes manual knownInvalid observed st =
     (case prepareRenewalSection opt (t 0) identity requiredScopes manual knownInvalid observed st of
        (Inl e, st1) \<Rightarrow> renewalFailed opt (t 1) identity manual e st1
      | (Inr (PrepResult result), st1) \<Rightarrow> renewalDone opt (t 1) identity manual result False st1
      | (Inr (PrepWait generation candidateId), st1) \<Rightarrow>
          (case awaitConcurrentRenewal opt identity generation candidateId requiredScopes manual polls of
             Inl e \<Rightarrow> renewalFailed opt (t 1) identity manual e st1
           | Inr result \<Rightarrow> renewalDone opt (t 1) identity manual result False st1)
      | (Inr (PrepCandidate p), st1) \<Rightarrow> settleCandidate opt t identity requiredScopes manual p st1)"

section \<open>Reading the active credential\<close>

definition repairLegacyScopePoison ::
  "options \<Rightarrow> time_ms \<Rightarrow> Hop1Identity \<Rightarrow> lstate \<Rightarrow> ConnectionRecord option res \<times> lstate" where
  "repairLegacyScopePoison opt now identity st =
     (let current = get_conn opt now identity st in
      case (consentScopes opt, current) of
        (Some (scope # scopes), Some c) \<Rightarrow>
          (if cr_localDisabledAt c \<noteq> None \<or> cr_phase c \<noteq> Ph_reauthorization_required \<or>
              cr_lifecycleErrorCategory c \<noteq> Some insufficient_scope \<or>
              \<not> scopesSatisfied (op_adapter opt) (cr_grantedScopes c) (scope # scopes)
           then (Inr current, st)
           else case decryptGeneration opt c of
               Inl e \<Rightarrow> (Inl e, st)
             | Inr g \<Rightarrow>
                 (let activeUsable = (truthy (activeCredential (dg_credential g)) \<and>
                                      \<not> expired (dg_activeCredentialExpiresAt g) now);
                      renewalUsable = (automaticRenewal (caps opt) \<and>
                                       truthy (renewalCredential (dg_credential g)) \<and>
                                       \<not> expired (dg_renewalCredentialExpiresAt g) now) in
                  if \<not> activeUsable \<and> \<not> renewalUsable then (Inr current, st)
                  else let repaired = c\<lparr>cr_phase := Ph_connected, cr_lifecycleErrorCategory := None,
                                        cr_updatedAt := max now (cr_updatedAt c + 1)\<rparr>;
                           (saved, st1) = save_conn repaired (connectionWriteGuard (Some c)) st
                       in (Inr (if saved then Some repaired else get_conn opt now identity st1), st1)))
      | _ \<Rightarrow> (Inr current, st))"

text \<open>The checks after a renewal: the row as it now is, its grant, its scopes, its credential.\<close>

definition activeAfterRenewal ::
  "options \<Rightarrow> time_ms \<Rightarrow> Hop1Identity \<Rightarrow> ScopeRequirementInput \<Rightarrow> string list option \<Rightarrow> lstate \<Rightarrow>
   string res" where
  "activeAfterRenewal opt now identity requiredScopes expectedGrant st =
     (case get_conn opt now identity st of
        None \<Rightarrow> Inl reauthorizationRequired
      | Some renewed \<Rightarrow>
          (if cr_localDisabledAt renewed \<noteq> None then Inl reauthorizationRequired
           else case requireUnchangedGrant (cr_grantedScopes renewed) expectedGrant of
               Some e \<Rightarrow> Inl e
             | None \<Rightarrow>
                 (case requireToolScopes (op_adapter opt) (cr_grantedScopes renewed) requiredScopes of
                    Some e \<Rightarrow> Inl e
                  | None \<Rightarrow>
                      (case decryptGeneration opt renewed of
                         Inl e \<Rightarrow> Inl e
                       | Inr g \<Rightarrow>
                           (case activeCredential (dg_credential g) of
                              Some (c # cs) \<Rightarrow> Inr (c # cs)
                            | _ \<Rightarrow> Inl reauthorizationRequired)))))"

definition getActiveCredential ::
  "options \<Rightarrow> (nat \<Rightarrow> time_ms) \<Rightarrow> (time_ms \<times> lstate) list \<Rightarrow> Hop1Identity \<Rightarrow>
   ScopeRequirementInput \<Rightarrow> string list option \<Rightarrow> lstate \<Rightarrow> string res \<times> lstate" where
  "getActiveCredential opt t polls identity requiredScopes expectedGrant st =
     (let record0 = get_conn opt (t 0) identity st;
          (repaired, st1) =
            (if map_option cr_phase record0 = Some Ph_reauthorization_required \<and>
                Option.bind record0 cr_lifecycleErrorCategory = Some insufficient_scope
             then repairLegacyScopePoison opt (t 0) identity st else (Inr record0, st)) in
      case repaired of
        Inl e \<Rightarrow> (Inl e, st1)
      | Inr None \<Rightarrow> (Inl reauthorizationRequired, st1)
      | Inr (Some r) \<Rightarrow>
          (if cr_localDisabledAt r \<noteq> None then (Inl reauthorizationRequired, st1)
           else case requireUnchangedGrant (cr_grantedScopes r) expectedGrant of
               Some e \<Rightarrow> (Inl e, st1)
             | None \<Rightarrow>
                 (if cr_phase r = Ph_reauthorization_required
                  then (Inl (ProviderLifecycleError
                          (coalesce (cr_lifecycleErrorCategory r) invalid_active_credential)), st1)
                  else case requireToolScopes (op_adapter opt) (cr_grantedScopes r) requiredScopes of
                      Some e \<Rightarrow> (Inl e, st1)
                    | None \<Rightarrow>
                        (case decryptGeneration opt r of
                           Inl e \<Rightarrow> (Inl e, st1)
                         | Inr g \<Rightarrow>
                             (if truthy (activeCredential (dg_credential g)) \<and> isFresh opt (t 0) g
                              then (Inr (the (activeCredential (dg_credential g))), st1)
                              else case renew opt (\<lambda>i. t (i + 1)) polls identity requiredScopes
                                          False False None st1 of
                                  (Inl e, st2) \<Rightarrow> (Inl e, st2)
                                | (Inr result, st2) \<Rightarrow>
                                    (if result = reauthorization_required
                                     then (Inl reauthorizationRequired, st2)
                                     else (activeAfterRenewal opt (t 6) identity requiredScopes
                                             expectedGrant st2, st2)))))))"

definition refresh ::
  "options \<Rightarrow> (nat \<Rightarrow> time_ms) \<Rightarrow> (time_ms \<times> lstate) list \<Rightarrow> Hop1Identity \<Rightarrow> string list \<Rightarrow>
   lstate \<Rightarrow> (RefreshResult \<times> ConnectionStatusV2) res \<times> lstate" where
  "refresh opt t polls identity requiredScopes st =
     (let observed = map_option cr_generation (get_conn opt (t 0) identity st) in
      case renew opt (\<lambda>i. t (i + 1)) polls identity (FlatScopes requiredScopes) True False observed st of
        (Inl e, st1) \<Rightarrow> (Inl e, st1)
      | (Inr result, st1) \<Rightarrow>
          (let (s, st2) = status opt (t 6) identity requiredScopes st1 in (Inr (result, s), st2)))"

definition recoverFromProviderAuthenticationFailure ::
  "options \<Rightarrow> (nat \<Rightarrow> time_ms) \<Rightarrow> (time_ms \<times> lstate) list \<Rightarrow> Hop1Identity \<Rightarrow> string list \<Rightarrow>
   string option \<Rightarrow> lstate \<Rightarrow> string option res \<times> lstate" where
  "recoverFromProviderAuthenticationFailure opt t polls identity requiredScopes rejected st =
     (case get_conn opt (t 0) identity st of
        None \<Rightarrow> (Inr None, st)
      | Some observed \<Rightarrow>
          (if cr_localDisabledAt observed \<noteq> None then (Inr None, st)
           else let known =
                  (if truthy rejected
                   then map_sum id (\<lambda>g. activeCredential (dg_credential g)) (decryptGeneration opt observed)
                   else Inr None)
                in case known of
                     Inl e \<Rightarrow> (Inl e, st)
                   | Inr observedActive \<Rightarrow>
                       (if truthy observedActive \<and> observedActive \<noteq> rejected \<and>
                           scopesSatisfied (op_adapter opt) (cr_grantedScopes observed) requiredScopes
                        then (Inr observedActive, st)
                        else case renew opt (\<lambda>i. t (i + 1)) polls identity (FlatScopes requiredScopes)
                                    False True (Some (cr_generation observed)) st of
                            (Inl ProviderToolScopeError, st1) \<Rightarrow> (Inr None, st1)
                          | (Inl e, st1) \<Rightarrow> (Inl e, st1)
                          | (Inr result, st1) \<Rightarrow>
                              (if result \<noteq> refreshed \<and> result \<noteq> already_fresh then (Inr None, st1)
                               else case get_conn opt (t 6) identity st1 of
                                   None \<Rightarrow> (Inr None, st1)
                                 | Some c \<Rightarrow>
                                     (if cr_localDisabledAt c \<noteq> None \<or>
                                         requireScopes (op_adapter opt) (cr_grantedScopes c) requiredScopes \<noteq> None
                                      then (Inr None, st1)
                                      else case decryptGeneration opt c of
                                          Inl e \<Rightarrow> (Inl e, st1)
                                        | Inr g \<Rightarrow> (Inr (activeCredential (dg_credential g)), st1))))))"

end
