(* ===== verification/Custody.thy ===== *)
theory Custody
  imports Lifecycle_Renew
begin

text \<open>
  What no operation of the lifecycle ever does to a credential in custody.

  The states of a credential generation form a small machine (\<open>custody_step\<close>); the states
  \<open>cleanup_complete\<close>, \<open>cleanup_permanent_failure\<close> and \<open>retired\<close> have no way out. The
  preorder \<open>evolves\<close> says that one custody map came from another along that machine, with no
  record lost and no settled record touched, and \<open>erased\<close> that settled records hold no secret.
  Every section of the lifecycle moves along \<open>evolves\<close> and keeps \<open>erased\<close>; the facts are
  proved for the store's compare-and-set and carried upwards.
\<close>

section \<open>The custody machine\<close>

inductive custody_step :: "CredentialGenerationState \<Rightarrow> CredentialGenerationState \<Rightarrow> bool" where
  activate: "custody_step G_candidate G_active"
| reject: "custody_step G_candidate G_cleanup_pending"
| handoff: "custody_step G_active G_cleanup_pending"
| retire: "custody_step G_active G_retired"
| again: "custody_step G_cleanup_pending G_cleanup_pending"
| cleaned: "custody_step G_cleanup_pending G_cleanup_complete"
| refused: "custody_step G_cleanup_pending G_cleanup_permanent_failure"

inductive_simps custody_step_simps [simp]: "custody_step a b"

definition settled :: "CredentialGenerationState \<Rightarrow> bool" where
  "settled g \<longleftrightarrow> g \<in> {G_cleanup_complete, G_cleanup_permanent_failure, G_retired}"

lemma settled_no_step: "settled a \<Longrightarrow> \<not> custody_step a b"
  by (auto simp: settled_def)

lemma settled_rtranclp: "custody_step\<^sup>*\<^sup>* a b \<Longrightarrow> settled a \<Longrightarrow> b = a"
  by (induction rule: converse_rtranclp_induct) (auto dest: settled_no_step)

type_synonym custody = "string \<Rightarrow> CredentialGenerationRecord option"

definition evolves :: "custody \<Rightarrow> custody \<Rightarrow> bool" where
  "evolves G G' \<longleftrightarrow>
     (\<forall>i r. G i = Some r \<longrightarrow>
        (\<exists>r'. G' i = Some r' \<and> custody_step\<^sup>*\<^sup>* (cg_state r) (cg_state r') \<and>
              (settled (cg_state r) \<longrightarrow> r' = r) \<and> cg_cleanupAttempts r \<le> cg_cleanupAttempts r'))"

lemma evolves_refl [simp, intro]: "evolves G G"
  by (simp add: evolves_def)

lemma evolves_trans [trans]:
  assumes "evolves G G'" "evolves G' G''"
  shows "evolves G G''"
  unfolding evolves_def
proof (intro allI impI)
  fix i r assume "G i = Some r"
  then obtain r' where r': "G' i = Some r'" "custody_step\<^sup>*\<^sup>* (cg_state r) (cg_state r')"
      "settled (cg_state r) \<longrightarrow> r' = r" "cg_cleanupAttempts r \<le> cg_cleanupAttempts r'"
    using assms(1) unfolding evolves_def by blast
  then obtain r'' where "G'' i = Some r''" "custody_step\<^sup>*\<^sup>* (cg_state r') (cg_state r'')"
      "settled (cg_state r') \<longrightarrow> r'' = r'" "cg_cleanupAttempts r' \<le> cg_cleanupAttempts r''"
    using assms(2) unfolding evolves_def by blast
  with r' show "\<exists>r''. G'' i = Some r'' \<and> custody_step\<^sup>*\<^sup>* (cg_state r) (cg_state r'') \<and>
      (settled (cg_state r) \<longrightarrow> r'' = r) \<and> cg_cleanupAttempts r \<le> cg_cleanupAttempts r''"
    by (intro exI [of _ r''] conjI) (auto intro: rtranclp_trans)
qed

definition no_material :: "CredentialGenerationRecord \<Rightarrow> bool" where
  "no_material r \<longleftrightarrow> cg_encryptedCredentialEnvelope r = None \<and> cg_encryptedLegacyCredential r = None"

definition erased :: "custody \<Rightarrow> bool" where
  "erased G \<longleftrightarrow>
     (\<forall>i r. G i = Some r \<longrightarrow> cg_state r \<in> {G_cleanup_complete, G_retired} \<longrightarrow> no_material r)"

section \<open>The rows\<close>

text \<open>
  The sections of the lifecycle are of five kinds. \<open>row_ok K\<close> says what a sequence of sections of
  the kinds \<open>K\<close> may do to a row: the generation never falls, only an authorization or a renewal
  raises it, only an authorization enables a disabled row, and raises the generation then, only a
  disconnect disables one.
\<close>

datatype section_kind = Authorizing | Renewing | Disconnecting | Cleaning | Bookkeeping

definition row_step :: "section_kind set \<Rightarrow> ConnectionRecord \<Rightarrow> ConnectionRecord \<Rightarrow> bool" where
  "row_step K c c' \<longleftrightarrow>
     cr_generation c \<le> cr_generation c' \<and>
     (Authorizing \<notin> K \<and> Renewing \<notin> K \<longrightarrow> cr_generation c' = cr_generation c) \<and>
     (Authorizing \<notin> K \<and> cr_localDisabledAt c \<noteq> None \<longrightarrow>
        cr_localDisabledAt c' \<noteq> None \<and> cr_generation c' = cr_generation c) \<and>
     (Disconnecting \<notin> K \<and> cr_localDisabledAt c = None \<longrightarrow> cr_localDisabledAt c' = None) \<and>
     (cr_localDisabledAt c' = None \<longrightarrow> cr_localDisabledAt c \<noteq> None \<longrightarrow> cr_generation c < cr_generation c')"

definition row_ok :: "section_kind set \<Rightarrow> ConnectionRecord option \<Rightarrow> ConnectionRecord option \<Rightarrow> bool" where
  "row_ok K a a' \<longleftrightarrow> (\<forall>c. a = Some c \<longrightarrow> (\<exists>c'. a' = Some c' \<and> row_step K c c'))"

lemma row_step_refl [simp]: "row_step K c c"
  by (simp add: row_step_def)

lemma row_step_trans:
  assumes "row_step K a b" "row_step K b c"
  shows "row_step K a c"
proof -
  have "cr_generation a < cr_generation c" if "cr_localDisabledAt c = None" "cr_localDisabledAt a \<noteq> None"
    using assms that unfolding row_step_def by (cases "cr_localDisabledAt b = None") auto
  moreover have "cr_generation a \<le> cr_generation c"
    using assms unfolding row_step_def by linarith
  ultimately show ?thesis using assms unfolding row_step_def by metis
qed

lemma row_ok_refl [simp]: "row_ok K a a"
  by (simp add: row_ok_def)

lemma row_ok_None [simp]: "row_ok K None a"
  by (simp add: row_ok_def)

lemma row_ok_trans: "row_ok K a b \<Longrightarrow> row_ok K b c \<Longrightarrow> row_ok K a c"
  unfolding row_ok_def by (metis row_step_trans)

lemma row_step_mono: "row_step K a b \<Longrightarrow> K \<subseteq> L \<Longrightarrow> row_step L a b"
  unfolding row_step_def by blast

lemma row_ok_mono: "row_ok K a b \<Longrightarrow> K \<subseteq> L \<Longrightarrow> row_ok L a b"
  unfolding row_ok_def by (metis row_step_mono)

section \<open>Moves\<close>

text \<open>What every section respects: custody, the filing of custody records, and the rows.\<close>

abbreviation gens :: "lstate \<Rightarrow> custody" where
  "gens st \<equiv> js_get (credentialGenerations (store st))"

definition custody_ok :: "lstate \<Rightarrow> lstate \<Rightarrow> bool" where
  "custody_ok st st' \<longleftrightarrow>
     evolves (gens st) (gens st') \<and> (erased (gens st) \<longrightarrow> erased (gens st')) \<and>
     (custody_keyed (store st) \<longrightarrow> custody_keyed (store st'))"

definition rows_ok :: "section_kind set \<Rightarrow> lstate \<Rightarrow> lstate \<Rightarrow> bool" where
  "rows_ok K st st' \<longleftrightarrow>
     (mirrored (store st) \<longrightarrow>
        mirrored (store st') \<and>
        (\<forall>k. row_ok K (effective_row (store st) k) (effective_row (store st') k)))"

definition moves :: "section_kind set \<Rightarrow> lstate \<Rightarrow> lstate \<Rightarrow> bool" where
  "moves K st st' \<longleftrightarrow> custody_ok st st' \<and> rows_ok K st st'"

lemma moves_refl [simp, intro]: "moves K st st"
  by (simp add: moves_def custody_ok_def rows_ok_def)

lemma moves_trans [trans]: "moves K a b \<Longrightarrow> moves K b c \<Longrightarrow> moves K a c"
  unfolding moves_def custody_ok_def rows_ok_def by (meson evolves_trans row_ok_trans)

lemma moves_mono: "moves K a b \<Longrightarrow> K \<subseteq> L \<Longrightarrow> moves L a b"
  unfolding moves_def rows_ok_def by (meson row_ok_mono)

section \<open>The store's writes\<close>

definition same_rows :: "lstate \<Rightarrow> lstate \<Rightarrow> bool" where
  "same_rows st st' \<longleftrightarrow>
     connections (store st') = connections (store st) \<and> accounts (store st') = accounts (store st)"

definition same_custody :: "lstate \<Rightarrow> lstate \<Rightarrow> bool" where
  "same_custody st st' \<longleftrightarrow> credentialGenerations (store st') = credentialGenerations (store st)"

lemma same_rows_refl [simp]: "same_rows st st"
  by (simp add: same_rows_def)

lemma same_rows_trans: "same_rows a b \<Longrightarrow> same_rows b c \<Longrightarrow> same_rows a c"
  by (simp add: same_rows_def)

lemma mirrored_same: "same_rows st st' \<Longrightarrow> mirrored (store st') = mirrored (store st)"
  by (simp add: same_rows_def mirrored_def)

lemma effective_row_same: "same_rows st st' \<Longrightarrow> effective_row (store st') = effective_row (store st)"
  by (simp add: same_rows_def effective_row_def fun_eq_iff)

lemma same_rows_ok: "same_rows st st' \<Longrightarrow> rows_ok K st st'"
  by (simp add: same_rows_def rows_ok_def mirrored_def effective_row_def)

lemma same_custody_ok: "same_custody st st' \<Longrightarrow> custody_ok st st'"
  by (simp add: same_custody_def custody_ok_def custody_keyed_def)

lemma moves_same: "same_rows st st' \<Longrightarrow> same_custody st st' \<Longrightarrow> moves K st st'"
  by (simp add: moves_def same_rows_ok same_custody_ok)

lemma emit_same: "same_rows st (emit opt now identity action s e st)"
  "same_custody st (emit opt now identity action s e st)"
  by (simp_all add: emit_def same_rows_def same_custody_def)

lemma randomUUID_same:
  "randomUUID opt st = (i, st') \<Longrightarrow> same_rows st st' \<and> same_custody st st'"
  by (auto simp: randomUUID_def same_rows_def same_custody_def)

lemma clearAuthorization_same: "same_rows st (clearAuthorization opt identity st)"
  "same_custody st (clearAuthorization opt identity st)"
  by (simp_all add: clearAuthorization_def with_store_def clearAuthorizing_def same_rows_def same_custody_def)

lemma save_conn_same: "save_conn r g st = (ok, st') \<Longrightarrow> same_custody st st'"
  by (cases ok) (auto simp: save_conn_def same_custody_def split: prod.splits
      dest: saveConnection_rowD saveConnection_refused)

lemma update_gen_same: "update_gen r e n st = (ok, st') \<Longrightarrow> same_rows st st'"
  by (cases ok) (auto simp: update_gen_def same_rows_def updateCredentialGeneration_True split: prod.splits
      dest: updateCredentialGeneration_False)

lemma save_gen_same: "same_rows st (save_gen r st)"
  by (simp add: save_gen_def with_store_def saveCredentialGeneration_def same_rows_def)

lemma evolves_update:
  assumes "G i = Some old" "custody_step (cg_state old) (cg_state r)"
    "cg_cleanupAttempts old \<le> cg_cleanupAttempts r"
  shows "evolves G (G(i \<mapsto> r))"
  using assms settled_no_step unfolding evolves_def by auto

lemma set_js_set: "set (js_set k v m) \<subseteq> insert (k, v) (set m)"
  by (induction m) auto

lemma custody_keyed_set:
  "custody_keyed s \<Longrightarrow> custody_keyed (s\<lparr>credentialGenerations := js_set (cg_id r) r (credentialGenerations s)\<rparr>)"
  unfolding custody_keyed_def list_all_iff
  by (auto simp: distinct_update dest: subsetD [OF set_js_set])

lemma update_gen_custody:
  assumes "update_gen r e n st = (ok, st')" "custody_step e (cg_state r)" "n \<le> cg_cleanupAttempts r"
    "cg_state r \<in> {G_cleanup_complete, G_retired} \<Longrightarrow> no_material r"
  shows "custody_ok st st'"
proof (cases ok)
  case True
  with assms(1) have upd: "updateCredentialGeneration r e n (store st) = (True, store st')"
    by (auto simp: update_gen_def split: prod.splits)
  from mem.cas_gen [OF this]
  have "\<exists>old. gens st (cg_id r) = Some old \<and> cg_state old = e \<and> cg_cleanupAttempts old = n"
    and G: "gens st' = (gens st)(cg_id r \<mapsto> r)" by (blast, blast)
  then have "evolves (gens st) (gens st')"
    unfolding G using assms(2,3) by (auto intro: evolves_update)
  moreover have "erased (gens st')" if "erased (gens st)"
    using that assms(4) unfolding G erased_def by auto
  moreover have "custody_keyed (store st')" if "custody_keyed (store st)"
    using custody_keyed_set [OF that] upd by (simp add: updateCredentialGeneration_True)
  ultimately show ?thesis by (simp add: custody_ok_def)
next
  case False
  with assms(1) have "st' = st"
    by (auto simp: update_gen_def split: prod.splits dest: updateCredentialGeneration_False)
  then show ?thesis by (simp add: custody_ok_def)
qed

lemma save_gen_custody:
  assumes "cg_state r \<notin> {G_cleanup_complete, G_retired}"
  shows "custody_ok st (save_gen r st)"
proof (cases "gens st (cg_id r)")
  case None
  have "evolves (gens st) ((gens st)(cg_id r \<mapsto> r))"
    using None by (auto simp: evolves_def)
  moreover have "erased ((gens st)(cg_id r \<mapsto> r))" if "erased (gens st)"
    using that assms unfolding erased_def by auto
  ultimately show ?thesis
    using None custody_keyed_set [of "store st" r] mem.put_gen [of r "store st"]
    by (simp add: custody_ok_def save_gen_def with_store_def saveCredentialGeneration_def js_map_simps)
next
  case (Some a)
  then show ?thesis
    by (simp add: custody_ok_def save_gen_def with_store_def saveCredentialGeneration_def)
qed

lemma update_gen_moves:
  assumes "update_gen r e n st = (ok, st')" "custody_step e (cg_state r)" "n \<le> cg_cleanupAttempts r"
    "cg_state r \<in> {G_cleanup_complete, G_retired} \<Longrightarrow> no_material r"
  shows "moves K st st'"
  unfolding moves_def
  using update_gen_custody [OF assms] same_rows_ok [OF update_gen_same [OF assms(1)]] by blast

lemma save_gen_moves: "cg_state r \<notin> {G_cleanup_complete, G_retired} \<Longrightarrow> moves K st (save_gen r st)"
  unfolding moves_def using save_gen_custody same_rows_ok [OF save_gen_same] by blast

text \<open>A section that writes the row of the key it read, at the generation it read or above.\<close>

lemma saveConnection_mirrored:
  "saveConnection r g s = (True, s') \<Longrightarrow> mirrored s \<Longrightarrow> mirrored s'"
  by (simp add: mirrored_def saveConnection_rowD accountOfConnection_def)

lemma saveConnection_effective:
  "saveConnection r g s = (True, s') \<Longrightarrow>
   effective_row s' k = (if k = conn_key r then Some r else effective_row s k)"
  by (simp add: effective_row_def saveConnection_rowD)

lemma save_conn_moves:
  assumes "save_conn r g st = (ok, st')" "row_ok K (effective_row (store st) (conn_key r)) (Some r)"
  shows "moves K st st'"
proof -
  have "rows_ok K st st'"
  proof (cases ok)
    case True
    with assms(1) have "saveConnection r g (store st) = (True, store st')"
      by (auto simp: save_conn_def split: prod.splits)
    then show ?thesis
      using assms(2) by (auto simp: rows_ok_def saveConnection_effective dest: saveConnection_mirrored)
  next
    case False
    with assms(1) have "store st' = store st"
      by (auto simp: save_conn_def split: prod.splits dest: saveConnection_refused)
    then show ?thesis by (simp add: rows_ok_def)
  qed
  then show ?thesis
    using save_conn_same [OF assms(1)] by (simp add: moves_def same_custody_ok)
qed

lemma get_conn_row:
  assumes "get_conn opt now identity st = Some c" "mirrored (store st)" "row_step K c r"
    "conn_key r = conn_key c"
  shows "row_ok K (effective_row (store st) (conn_key r)) (Some r)"
proof (cases "effective_row (store st) (conn_key r)")
  case (Some c0)
  have key: "conn_key c = accountKey (op_provider opt) (hi_issuer identity) (hi_subject identity)"
    using getConnection_key [OF assms(2)] assms(1) by (simp add: get_conn_def)
  with Some assms(4) obtain c1 where
    "getConnection (store st) now (op_provider opt) (hi_issuer identity) (hi_subject identity) = Some c1"
    "c1 = c0 \<or> (\<exists>x. c1 = c0\<lparr>cr_requiredScopes := x, cr_phase := Ph_authorizing\<rparr>)"
    using getConnection_effective by metis
  with assms(1) have "row_step K c0 c" by (auto simp: get_conn_def row_step_def)
  with assms(3) Some show ?thesis by (auto simp: row_ok_def intro: row_step_trans)
qed simp

lemma get_conn_None:
  assumes "get_conn opt now identity st = None"
  shows "effective_row (store st) (accountKey (op_provider opt) (hi_issuer identity) (hi_subject identity)) = None"
proof (rule ccontr)
  assume "\<not> ?thesis"
  then obtain c0 where
    "effective_row (store st) (accountKey (op_provider opt) (hi_issuer identity) (hi_subject identity)) = Some c0"
    by blast
  then obtain c where
    "getConnection (store st) now (op_provider opt) (hi_issuer identity) (hi_subject identity) = Some c"
    by (rule getConnection_effective)
  with assms show False by (simp add: get_conn_def)
qed

lemma save_read_moves:
  assumes "save_conn r g st1 = (ok, st')" "get_conn opt now identity st = Some c"
    "same_rows st st1" "row_step K c r" "conn_key r = conn_key c"
  shows "moves K st1 st'"
proof (cases "mirrored (store st1)")
  case True
  with assms(3) have "mirrored (store st)" by (simp add: same_rows_def mirrored_def)
  from get_conn_row [OF assms(2) this assms(4,5)] assms(3)
  have "row_ok K (effective_row (store st1) (conn_key r)) (Some r)"
    by (simp add: same_rows_def effective_row_def)
  with assms(1) show ?thesis by (rule save_conn_moves)
next
  case False
  then show ?thesis
    using save_conn_same [OF assms(1)] by (simp add: moves_def same_custody_ok rows_ok_def)
qed

end
