(* ===== verification/Lifecycle_Steps.thy ===== *)
theory Lifecycle_Steps
  imports Custody
begin

text \<open>
  The lifecycle as a transition system. Every section of the code that runs under the connection
  lock, and every store call outside it, is one step (\<open>lifecycle_step\<close>); a run is any sequence of
  steps, so it covers every interleaving of the operations of any number of callers and of the
  cleanup worker. The arguments a section takes from an earlier section of the same operation are
  arbitrary, so nothing is assumed about what happened in between.

  \<open>lifecycle_step_moves\<close> shows that every step respects custody and the rows (\<open>moves\<close>); the
  lemmas \<open>..._run\<close> show that every operation is a run of the kinds it is made of.
\<close>

section \<open>Sections respect custody and rows\<close>

lemma emit_moves: "moves K st (emit opt now identity action s e st)"
  by (rule moves_same) (rule emit_same)+

lemma randomUUID_moves: "randomUUID opt st = (i, st') \<Longrightarrow> moves K st st'"
  by (blast intro: moves_same dest: randomUUID_same)

lemma clear_moves: "moves K st (clearAuthorization opt identity st)"
  by (rule moves_same) (rule clearAuthorization_same)+

lemma acquire_is_save: "acquireCredentialCustody r = save_gen r"
  by (simp add: fun_eq_iff acquireCredentialCustody_def save_gen_def with_store_def
      saveCredentialGenerationDurably_def)

lemma claimCandidate_moves: "claimCandidate now r st = (out, st') \<Longrightarrow> moves K st st'"
  by (auto simp: claimCandidate_def Let_def split: if_splits prod.splits intro: update_gen_moves)

lemma revokedConnection_sel [simp]:
  "conn_key (revokedConnection opt now result c) = conn_key c"
  "cr_generation (revokedConnection opt now result c) = cr_generation c"
  "cr_localDisabledAt (revokedConnection opt now result c) = cr_localDisabledAt c"
  by (simp_all add: revokedConnection_def destroyCredentials_def Let_def)

lemma row_step_same:
  "cr_generation c' = cr_generation c \<Longrightarrow> cr_localDisabledAt c' = cr_localDisabledAt c \<Longrightarrow>
   row_step K c c'"
  by (simp add: row_step_def)

lemma save_same_moves:
  assumes "save_conn r g st1 = (ok, st')" "get_conn opt now identity st = Some c" "same_rows st st1"
    "cr_generation r = cr_generation c" "cr_localDisabledAt r = cr_localDisabledAt c"
    "conn_key r = conn_key c"
  shows "moves K st1 st'"
  by (rule save_read_moves [OF assms(1,2,3) row_step_same [OF assms(4,5)] assms(6)])

lemma finalizeRevocationInStore_moves:
  "finalizeRevocationInStore opt now identity generation result gid st = (res, st') \<Longrightarrow> moves K st st'"
  by (auto simp: finalizeRevocationInStore_def split: option.splits if_splits prod.splits
      elim!: save_same_moves)

lemma cleanedGeneration_sel [simp]:
  "cg_cleanupAttempts (cleanedGeneration now result r) = Suc (cg_cleanupAttempts r)"
  "cg_id (cleanedGeneration now result r) = cg_id r"
  by (simp_all add: cleanedGeneration_def Let_def)

lemma cleanedGeneration_custody:
  "custody_step G_cleanup_pending (cg_state (cleanedGeneration now result r))"
  "cg_state (cleanedGeneration now result r) \<in> {G_cleanup_complete, G_retired} \<Longrightarrow>
   no_material (cleanedGeneration now result r)"
  by (auto simp: cleanedGeneration_def Let_def no_material_def split: if_splits)

lemma finalizeCredentialCleanup_moves:
  assumes "finalizeCredentialCleanup opt now identity r result st = (res, st')"
  shows "moves K st st'"
proof -
  obtain ok st1 where u: "update_gen (cleanedGeneration now result r) G_cleanup_pending
      (cg_cleanupAttempts r) st = (ok, st1)" by fastforce
  have "moves K st st1"
    by (rule update_gen_moves [OF u]) (use cleanedGeneration_custody in auto)
  moreover have "moves K st1 st'"
    using assms u finalizeRevocationInStore_moves
    by (auto simp: finalizeCredentialCleanup_def split: if_splits prod.splits sum.splits)
  ultimately show ?thesis by (rule moves_trans)
qed

lemma backfillSection_moves:
  "backfillSection opt now identity initial v account st = (res, st') \<Longrightarrow> moves K st st'"
  by (auto simp: backfillSection_def Let_def split: option.splits if_splits prod.splits
      elim!: save_same_moves)

lemma repairLegacyScopePoison_moves:
  "repairLegacyScopePoison opt now identity st = (res, st') \<Longrightarrow> moves K st st'"
  by (auto simp: repairLegacyScopePoison_def Let_def
      split: option.splits list.splits if_splits prod.splits sum.splits elim!: save_same_moves)

lemma giveUp_moves:
  assumes "giveUp now c category st = (res, st')" "get_conn opt clk identity st = Some c"
  shows "moves K st st'"
  using assms
  by (auto simp: giveUp_def persistReauthorizationRequired_def split: if_splits prod.splits
      elim!: save_same_moves)

lemma renewalRefused_moves:
  assumes "renewalRefused now c fresh e st = (res, st')" "get_conn opt clk identity st = Some c"
  shows "moves K st st'"
  using assms giveUp_moves [OF _ assms(2)]
  by (auto simp: renewalRefused_def Let_def split: if_splits prod.splits elim!: save_same_moves)

lemma candidate_state [simp]: "cg_state (credentialCustodyRecord opt now identity g i) = G_candidate"
  by (simp add: credentialCustodyRecord_def)

lemma save_candidate_moves:
  assumes "randomUUID opt st = (i, st1)" "cg_state r = G_candidate"
  shows "moves K st (save_gen r st1)"
  using randomUUID_moves [OF assms(1)] save_gen_moves [of r K st1] assms(2)
  by (auto intro: moves_trans)

lemma issueCandidate_moves:
  assumes "issueCandidate opt now identity c d rn fresh st = (res, st')"
    "get_conn opt clk identity st = Some c"
  shows "moves K st st'"
  using assms renewalRefused_moves [OF _ assms(2)]
  by (auto simp: issueCandidate_def Let_def split: if_splits option.splits sum.splits prod.splits
      intro: save_candidate_moves)

lemma prepareRenewalSection_moves:
  assumes "prepareRenewalSection opt now identity scopes manual ki obs st = (res, st')"
  shows "moves K st st'"
proof (cases "get_conn opt now identity st")
  case None
  with assms show ?thesis by (simp add: prepareRenewalSection_def)
next
  case (Some c)
  with assms giveUp_moves [OF _ Some] issueCandidate_moves [OF _ Some] show ?thesis
    by (auto simp: prepareRenewalSection_def Let_def split: if_splits option.splits sum.splits)
qed

lemma retiredGeneration_sel [simp]:
  "cg_state (retiredGeneration now r) = G_retired"
  "cg_cleanupAttempts (retiredGeneration now r) = cg_cleanupAttempts r"
  "cg_id (retiredGeneration now r) = cg_id r" "no_material (retiredGeneration now r)"
  by (simp_all add: retiredGeneration_def no_material_def)

lemma renewedConnection_sel [simp]:
  "conn_key (renewedConnection opt now p c) = conn_key c"
  "cr_generation (renewedConnection opt now p c) = Suc (cr_generation c)"
  "cr_localDisabledAt (renewedConnection opt now p c) = cr_localDisabledAt c"
  by (simp_all add: renewedConnection_def Let_def)

text \<open>The activation in three writes.\<close>

lemma activateRenewedGeneration_cases:
  assumes "activateRenewedGeneration opt now identity p st = (res, st')"
  obtains (nothing) "st' = st" "\<And>b. res \<noteq> Inr (refreshed, b)"
  | (writes) c superseded ac ok1 st1 where
      "get_conn opt now identity st = Some c" "cr_generation c = cr_generation (pr_current p)"
      "cr_localDisabledAt c = None" "cr_updatedAt c = cr_updatedAt (pr_current p)"
      "supersededGeneration opt identity p c st = Inr superseded"
      "cg_state ac = G_active" "cg_id ac = cg_id (pr_candidate p)"
      "update_gen ac G_candidate 0 st = (ok1, st1)"
      "\<not> ok1 \<Longrightarrow> st' = st1 \<and> res = Inl generationConflict"
      "ok1 \<Longrightarrow> \<exists>ok2 st2. save_conn (renewedConnection opt now p c)
           (connectionWriteGuard (Some (pr_current p))) st1 = (ok2, st2) \<and>
           (\<not> ok2 \<longrightarrow> st' = st2 \<and> res = Inl generationConflict) \<and>
           (ok2 \<longrightarrow> (case superseded of
              None \<Rightarrow> st' = st2 \<and> (\<exists>b. res = Inr (refreshed, b))
            | Some r \<Rightarrow> \<exists>ok3. update_gen (retiredGeneration now r) G_active (cg_cleanupAttempts r) st2 = (ok3, st') \<and>
                 ((\<exists>b. res = Inr (refreshed, b)) = ok3)))"
proof (cases "get_conn opt now identity st")
  case None
  show ?thesis by (rule nothing) (use assms None in \<open>auto simp: activateRenewedGeneration_def\<close>)
next
  case (Some c)
  show ?thesis
  proof (cases "cr_generation c \<noteq> cr_generation (pr_current p) \<or> cr_localDisabledAt c \<noteq> None \<or>
      cr_updatedAt c \<noteq> cr_updatedAt (pr_current p) \<or>
      (\<exists>e. supersededGeneration opt identity p c st = Inl e)")
    case True
    show ?thesis
      by (rule nothing) (use assms Some True in
          \<open>auto simp: activateRenewedGeneration_def split: if_splits sum.splits\<close>)
  next
    case False
    then obtain superseded where sup: "supersededGeneration opt identity p c st = Inr superseded"
      by (cases "supersededGeneration opt identity p c st") auto
    define ac where "ac = (pr_candidate p)\<lparr>
        cg_encryptedCredentialEnvelope := Some (encryptEnvelope opt
          (mergeRotatedCredential (dg_credential (pr_decrypted p)) (rg_credential (pr_renewed p)))),
        cg_state := G_active, cg_updatedAt := now\<rparr>"
    obtain ok1 st1 where u: "update_gen ac G_candidate 0 st = (ok1, st1)" by fastforce
    obtain ok2 st2 where s: "save_conn (renewedConnection opt now p c)
        (connectionWriteGuard (Some (pr_current p))) st1 = (ok2, st2)" by fastforce
    note run = assms [unfolded activateRenewedGeneration_def Some, simplified, folded ac_def]
    show ?thesis
    proof (rule writes [OF Some _ _ _ sup _ _ u])
      show "cr_generation c = cr_generation (pr_current p)" "cr_localDisabledAt c = None"
        "cr_updatedAt c = cr_updatedAt (pr_current p)" using False by auto
      show "cg_state ac = G_active" "cg_id ac = cg_id (pr_candidate p)" by (simp_all add: ac_def)
      show "st' = st1 \<and> res = Inl generationConflict" if "\<not> ok1"
        using run False sup u that by simp
    qed (use run False sup u s in \<open>auto split: if_splits option.splits prod.splits\<close>)
  qed
qed

lemma activateRenewedGeneration_moves:
  assumes "activateRenewedGeneration opt now identity p st = (res, st')" "Renewing \<in> K"
  shows "moves K st st'"
  using assms(1)
proof (cases rule: activateRenewedGeneration_cases)
  case nothing
  then show ?thesis by simp
next
  case (writes c superseded ac ok1 st1)
  have m1: "moves K st st1" by (rule update_gen_moves [OF writes(8)]) (simp_all add: writes(6))
  show ?thesis
  proof (cases ok1)
    case False
    with m1 writes(9) show ?thesis by simp
  next
    case True
    from writes(10) [OF this] obtain ok2 st2 where s: "save_conn (renewedConnection opt now p c)
        (connectionWriteGuard (Some (pr_current p))) st1 = (ok2, st2)"
      and r: "\<not> ok2 \<longrightarrow> st' = st2 \<and> res = Inl generationConflict" "ok2 \<longrightarrow> (case superseded of
          None \<Rightarrow> st' = st2 \<and> (\<exists>b. res = Inr (refreshed, b))
        | Some r \<Rightarrow> \<exists>ok3. update_gen (retiredGeneration now r) G_active (cg_cleanupAttempts r) st2 = (ok3, st') \<and>
             ((\<exists>b. res = Inr (refreshed, b)) = ok3))"
      by blast
    have "moves K st1 st2"
      by (rule save_read_moves [OF s writes(1) update_gen_same [OF writes(8)]])
        (use assms(2) writes(3) in \<open>simp_all add: row_step_def\<close>)
    moreover have "moves K st2 st'"
      using r by (cases ok2; cases superseded) (auto intro: update_gen_moves)
    ultimately show ?thesis using m1 by (blast intro: moves_trans)
  qed
qed

lemma rejectSection_moves:
  assumes "rejectSection opt now identity p e pending st = (res, st')"
    "cg_state pending = G_cleanup_pending"
  shows "moves K st st'"
proof -
  obtain ok1 st1 where u1: "update_gen pending G_candidate 0 st = (ok1, st1)" by fastforce
  obtain ok2 st2 where u2: "(if ok1 then (True, st1) else update_gen pending G_active 0 st1) = (ok2, st2)"
    by fastforce
  have m: "moves K st st1" "moves K st1 st2"
    using u1 u2 assms(2) by (auto split: if_splits intro: update_gen_moves)
  have same: "same_rows st st2"
    using u1 u2 by (auto split: if_splits dest!: update_gen_same intro: same_rows_trans)
  have "moves K st2 st'" if "st' \<noteq> st"
    using that assms(1) u1 u2 same
    by (auto simp: rejectSection_def Let_def split: if_splits option.splits prod.splits
        elim!: save_same_moves)
  with m show ?thesis by (cases "st' = st") (auto intro: moves_trans)
qed

lemma activatedConnection_sel [simp]:
  "conn_key (activatedConnection opt now identity scopes issued a gid current) =
     accountKey (op_provider opt) (hi_issuer identity) (hi_subject identity)"
  "cr_generation (activatedConnection opt now identity scopes issued a gid current) =
     Suc (coalesce (map_option cr_generation current) 0)"
  "cr_localDisabledAt (activatedConnection opt now identity scopes issued a gid current) = None"
  by (simp_all add: activatedConnection_def)

lemma activateAuthorizedSection_moves:
  assumes "activateAuthorizedSection opt now identity scopes issued guard candidate a st = (res, st')"
    "Authorizing \<in> K"
  shows "moves K st st'"
proof -
  define cur where "cur = get_conn opt now identity st"
  define ac where "ac = candidate\<lparr>cg_generation := coalesce (map_option cr_generation cur) 0 + 1,
      cg_state := G_active, cg_displayAccountIdentity := at_display a, cg_updatedAt := now\<rparr>"
  define r where "r = activatedConnection opt now identity scopes issued a (cg_id candidate) cur"
  obtain ok1 st1 where u: "update_gen ac G_candidate 0 st = (ok1, st1)" by fastforce
  obtain ok2 st2 where s: "save_conn r (connectionWriteGuard cur) st1 = (ok2, st2)" by fastforce
  have m1: "moves K st st1" by (rule update_gen_moves [OF u]) (simp_all add: ac_def)
  have "moves K st1 st2"
  proof (cases cur)
    case (Some c)
    show ?thesis
    proof (cases "mirrored (store st)")
      case True
      with Some have "conn_key c = conn_key r"
        using getConnection_key [OF True] by (auto simp: cur_def get_conn_def r_def)
      with Some show ?thesis
        by (intro save_read_moves [OF s _ update_gen_same [OF u]])
          (use assms(2) in \<open>auto simp: cur_def r_def row_step_def\<close>)
    next
      case False
      with mirrored_same [OF update_gen_same [OF u]] save_conn_same [OF s] show ?thesis
        by (simp add: moves_def rows_ok_def same_custody_ok)
    qed
  next
    case None
    then have "effective_row (store st1) (conn_key r) = None"
      using get_conn_None [of opt now identity st] effective_row_same [OF update_gen_same [OF u]]
      by (simp add: cur_def r_def)
    then show ?thesis by (intro save_conn_moves [OF s]) simp
  qed
  with m1 have "moves K st st2" by (rule moves_trans)
  moreover have "st' \<in> {st, st1, st2}"
    using assms(1) u s unfolding activateAuthorizedSection_def Let_def
      cur_def [symmetric] ac_def [symmetric] r_def [symmetric]
    by (auto split: if_splits prod.splits)
  ultimately show ?thesis using m1 by auto
qed

lemma handoffRecords_moves: "handoffRecords now rs st = (out, st') \<Longrightarrow> moves K st st'"
proof (induction rs arbitrary: st out)
  case (Cons r rs)
  show ?case
  proof (cases "cg_state r \<noteq> G_active \<and> cg_state r \<noteq> G_candidate")
    case False
    obtain ok st1 where u: "update_gen (r\<lparr>cg_state := G_cleanup_pending, cg_updatedAt := now\<rparr>)
        (cg_state r) (cg_cleanupAttempts r) st = (ok, st1)" by fastforce
    have "moves K st st1" by (rule update_gen_moves [OF u]) (use False in auto)
    moreover have "moves K st1 st'"
      using Cons False u by (auto split: prod.splits)
    ultimately show ?thesis by (rule moves_trans)
  qed (use Cons in auto)
qed simp

lemma disabledConnection_sel [simp]:
  "conn_key (disabledConnection opt now pending gid c) = conn_key c"
  "cr_generation (disabledConnection opt now pending gid c) = cr_generation c"
  "cr_localDisabledAt (disabledConnection opt now pending gid c) = Some now"
  by (simp_all add: disabledConnection_def destroyCredentials_def Let_def)

lemma disabledAgain_sel [simp]:
  "conn_key (disabledAgain now c) = conn_key c" "cr_generation (disabledAgain now c) = cr_generation c"
  "cr_localDisabledAt (disabledAgain now c) = cr_localDisabledAt c"
  by (simp_all add: disabledAgain_def)

lemma tombstone_sel [simp]:
  "conn_key (tombstone opt now identity scopes) =
     accountKey (op_provider opt) (hi_issuer identity) (hi_subject identity)"
  "cr_localDisabledAt (tombstone opt now identity scopes) = Some now"
  "cr_generation (tombstone opt now identity scopes) = 0"
  by (simp_all add: tombstone_def)

text \<open>The disconnect section: a state with the same rows, the write of a disabled row, the
  handoff.\<close>

lemma disconnectSection_cases:
  assumes "disconnectSection opt now identity scopes st = (res, st')"
  obtains st1 r g saved st2 out st3 where
    "moves K st st1" "same_rows st st1" "save_conn r g st1 = (saved, st2)"
    "g = connectionWriteGuard (get_conn opt now identity st)"
    "get_conn opt now identity st = None \<and> r = tombstone opt now identity scopes \<or>
     (\<exists>c. get_conn opt now identity st = Some c \<and> conn_key r = conn_key c \<and>
          cr_generation r = cr_generation c \<and> cr_localDisabledAt r \<noteq> None)"
    "\<not> saved \<Longrightarrow> st' = st2 \<and> res = Inl generationConflict"
    "handoffPrincipalCredentialGenerations opt now identity st2 = (out, st3)" "saved \<Longrightarrow> st' = st3"
    "saved \<Longrightarrow> (\<exists>d. res = Inr d) \<or>
       (\<exists>c e. get_conn opt now identity st = Some c \<and> decryptGeneration opt c = Inl e \<and> res = Inl e \<and>
          (cr_activeCredentialPresent c \<or> cr_renewalCredentialPresent c))"
proof (cases "get_conn opt now identity st")
  case None
  obtain saved st2 where s: "save_conn (tombstone opt now identity scopes) (connectionWriteGuard None)
      (clearAuthorization opt identity st) = (saved, st2)" by fastforce
  obtain out st3 where h: "handoffPrincipalCredentialGenerations opt now identity st2 = (out, st3)"
    by fastforce
  show ?thesis
    by (rule that [OF clear_moves clearAuthorization_same(1) s _ _ _ h])
      (use assms None s h in \<open>auto simp: disconnectSection_def\<close>)
next
  case (Some c)
  show ?thesis
  proof (cases "cr_localDisabledAt c = None")
    case False
    obtain saved st2 where s: "save_conn (disabledAgain now c) (connectionWriteGuard (Some c))
        (clearAuthorization opt identity st) = (saved, st2)" by fastforce
    obtain out st3 where h: "handoffPrincipalCredentialGenerations opt now identity st2 = (out, st3)"
      by fastforce
    show ?thesis
      by (rule that [OF clear_moves clearAuthorization_same(1) s _ _ _ h])
        (use assms Some s h False in \<open>auto simp: disconnectSection_def\<close>)
  next
    case True
    define pending where "pending = (providerRevocation (caps opt) \<and>
      (cr_activeCredentialPresent c \<or> cr_renewalCredentialPresent c))"
    define A where "A = (if pending \<and> \<not> truthy (cr_credentialGenerationId c)
      then let (i, sa) = randomUUID opt (clearAuthorization opt identity st);
               adoptee = connectionCredentialCustodyRecord now c G_cleanup_pending i
           in ([adoptee], Some i, save_gen adoptee sa)
      else ([], cr_credentialGenerationId c, clearAuthorization opt identity st))"
    obtain adopted gid st1 where a: "A = (adopted, gid, st1)" by (cases A) auto
    obtain saved st2 where s: "save_conn (disabledConnection opt now pending gid c)
      (connectionWriteGuard (Some c)) st1 = (saved, st2)" by fastforce
    obtain out st3 where h: "handoffPrincipalCredentialGenerations opt now identity st2 = (out, st3)"
      by fastforce
    have "moves K (clearAuthorization opt identity st) st1 \<and> same_rows (clearAuthorization opt identity st) st1"
    proof (cases "pending \<and> \<not> truthy (cr_credentialGenerationId c)")
      case True
      obtain i sa where i: "randomUUID opt (clearAuthorization opt identity st) = (i, sa)" by fastforce
      with a True have st1: "st1 = save_gen (connectionCredentialCustodyRecord now c G_cleanup_pending i) sa"
        by (simp add: A_def Let_def)
      have "moves K sa st1"
        unfolding st1 by (rule save_gen_moves) (simp add: connectionCredentialCustodyRecord_def)
      moreover have "same_rows sa st1" unfolding st1 by (rule save_gen_same)
      ultimately show ?thesis
        using randomUUID_moves [OF i] randomUUID_same [OF i] by (blast intro: moves_trans same_rows_trans)
    qed (use a in \<open>auto simp: A_def split: if_splits\<close>)
    then have m: "moves K st st1" "same_rows st st1"
      by (auto intro: moves_trans [OF clear_moves] same_rows_trans [OF clearAuthorization_same(1)])
    have run: "st' = (if saved then st3 else st2)" "\<not> saved \<Longrightarrow> res = Inl generationConflict"
      "saved \<Longrightarrow> (\<exists>d. res = Inr d) \<or> (\<exists>e. decryptGeneration opt c = Inl e \<and> res = Inl e \<and> pending)"
      using assms s h unfolding disconnectSection_def Some
      by (auto simp: True a [unfolded A_def] pending_def [symmetric] Let_def [of pending]
          split: if_splits sum.splits simp del: Let_def)
    show ?thesis
      by (rule that [OF m s _ _ _ h]) (use run Some in \<open>auto simp: pending_def\<close>)
  qed
qed

lemma disconnectSection_moves:
  assumes "disconnectSection opt now identity scopes st = (res, st')" "Disconnecting \<in> K"
  shows "moves K st st'"
  using assms(1)
proof (cases rule: disconnectSection_cases [where K = K])
  case (1 st1 r g saved st2 out st3)
  from 1(5) have "moves K st1 st2"
  proof (elim disjE exE conjE)
    assume "get_conn opt now identity st = None" "r = tombstone opt now identity scopes"
    then have "effective_row (store st1) (conn_key r) = None"
      using get_conn_None effective_row_same [OF 1(2)] by simp
    then show ?thesis by (intro save_conn_moves [OF 1(3)]) simp
  next
    fix c assume c: "get_conn opt now identity st = Some c" "conn_key r = conn_key c"
      "cr_generation r = cr_generation c" "cr_localDisabledAt r \<noteq> None"
    show ?thesis
      by (rule save_read_moves [OF 1(3) c(1) 1(2)])
        (use c assms(2) in \<open>auto simp: row_step_def\<close>)
  qed
  moreover have "moves K st2 st3"
    using 1(7) by (auto simp: handoffPrincipalCredentialGenerations_def intro: handoffRecords_moves)
  ultimately show ?thesis
    using 1(1,6,8) by (cases saved) (auto intro: moves_trans)
qed

lemma adoptPendingConnectionCleanup_moves:
  assumes "adoptPendingConnectionCleanup opt now identity st = (res, st')"
  shows "moves K st st'"
proof (cases "\<exists>c. get_conn opt now identity st = Some c \<and> cr_revocationState c = Rev_pending \<and>
    cr_localDisabledAt c \<noteq> None \<and> \<not> truthy (cr_credentialGenerationId c)")
  case False
  with assms show ?thesis
    by (auto simp: adoptPendingConnectionCleanup_def split: option.splits if_splits)
next
  case True
  then obtain c where c: "get_conn opt now identity st = Some c" "cr_revocationState c = Rev_pending"
    "cr_localDisabledAt c \<noteq> None" "\<not> truthy (cr_credentialGenerationId c)" by blast
  obtain i st1 where i: "randomUUID opt st = (i, st1)" by fastforce
  define q where "q = connectionCredentialCustodyRecord now c G_cleanup_pending i"
  obtain ok st2 where s: "save_conn (c\<lparr>cr_credentialGenerationId := Some i, cr_updatedAt := now\<rparr>)
      (connectionWriteGuard (Some c)) (save_gen q st1) = (ok, st2)" by fastforce
  have "same_rows st (save_gen q st1)"
    using randomUUID_same [OF i] save_gen_same by (blast intro: same_rows_trans)
  with s c have "moves K (save_gen q st1) st2" by (auto intro: save_same_moves)
  moreover have "moves K st1 (save_gen q st1)"
    by (rule save_gen_moves) (simp add: q_def connectionCredentialCustodyRecord_def)
  moreover have "st' = st2"
    using assms c i s by (auto simp: adoptPendingConnectionCleanup_def q_def split: if_splits)
  ultimately show ?thesis using randomUUID_moves [OF i] by (blast intro: moves_trans)
qed

section \<open>Steps and runs\<close>

inductive lifecycle_step :: "options \<Rightarrow> section_kind \<Rightarrow> lstate \<Rightarrow> lstate \<Rightarrow> bool" for opt where
  authorize: "activateAuthorizedSection opt now identity scopes issued guard candidate a st = (res, st')
     \<Longrightarrow> lifecycle_step opt Authorizing st st'"
| prepare: "prepareRenewalSection opt now identity req manual ki obs st = (res1, st')
     \<Longrightarrow> lifecycle_step opt Renewing st st'"
| activate_renewed: "activateRenewedGeneration opt now identity p st = (res2, st')
     \<Longrightarrow> lifecycle_step opt Renewing st st'"
| reject_renewed: "rejectSection opt now identity p e pending st = (res, st')
     \<Longrightarrow> cg_state pending = G_cleanup_pending \<Longrightarrow> lifecycle_step opt Renewing st st'"
| repair: "repairLegacyScopePoison opt now identity st = (res3, st')
     \<Longrightarrow> lifecycle_step opt Renewing st st'"
| disconnect: "disconnectSection opt now identity scopes st = (res4, st')
     \<Longrightarrow> lifecycle_step opt Disconnecting st st'"
| claim: "claimCandidate now r st = (out, st') \<Longrightarrow> lifecycle_step opt Cleaning st st'"
| queue: "e \<in> {G_candidate, G_active}
     \<Longrightarrow> update_gen (r\<lparr>cg_state := G_cleanup_pending, cg_updatedAt := now\<rparr>) e (cg_cleanupAttempts r) st = (ok, st')
     \<Longrightarrow> lifecycle_step opt Cleaning st st'"
| finalize: "finalizeCredentialCleanup opt now identity r result st = (res5, st')
     \<Longrightarrow> lifecycle_step opt Cleaning st st'"
| finalize_row: "finalizeRevocationInStore opt now identity n result gid st = (res6, st')
     \<Longrightarrow> lifecycle_step opt Cleaning st st'"
| adopt: "adoptPendingConnectionCleanup opt now identity st = (res7, st')
     \<Longrightarrow> lifecycle_step opt Cleaning st st'"
| take_over: "cg_state r = G_cleanup_pending
     \<Longrightarrow> lifecycle_step opt Cleaning st (with_store (deletePendingCredentialCleanup i) (save_gen r st))"
| acquire: "cg_state r = G_candidate
     \<Longrightarrow> lifecycle_step opt Bookkeeping st (acquireCredentialCustody r st)"
| backfill: "backfillSection opt now identity initial v account st = (res8, st')
     \<Longrightarrow> lifecycle_step opt Bookkeeping st st'"
| backfill_delay: "lifecycle_step opt Bookkeeping st (st\<lparr>backfillRetryAt := m\<rparr>)"
| mark: "lifecycle_step opt Bookkeeping st (markAuthorizationStarted opt now identity scopes expiresAt st)"
| clear: "lifecycle_step opt Bookkeeping st (clearAuthorization opt identity st)"
| audit: "lifecycle_step opt Bookkeeping st (emit opt now identity action s err st)"
| uuid: "randomUUID opt st = (i, st') \<Longrightarrow> lifecycle_step opt Bookkeeping st st'"

lemma take_over_moves:
  assumes "cg_state r = G_cleanup_pending"
  shows "moves K st (with_store (deletePendingCredentialCleanup i) (save_gen r st))"
proof -
  have "moves K st (save_gen r st)" by (rule save_gen_moves) (simp add: assms)
  moreover have "moves K (save_gen r st) (with_store (deletePendingCredentialCleanup i) (save_gen r st))"
    by (rule moves_same) (simp_all add: with_store_def deletePendingCredentialCleanup_def same_rows_def same_custody_def)
  ultimately show ?thesis by (rule moves_trans)
qed

theorem lifecycle_step_moves: "lifecycle_step opt k st st' \<Longrightarrow> moves {k} st st'"
proof (induction rule: lifecycle_step.induct)
  case (queue e r now st ok st')
  then show ?case by (auto intro!: update_gen_moves)
next
  case (acquire r st)
  then show ?case by (simp add: acquire_is_save save_gen_moves)
next
  case (backfill_delay st m)
  show ?case by (rule moves_same) (simp_all add: same_rows_def same_custody_def)
next
  case (mark st now identity scopes expiresAt)
  show ?case by (rule moves_same)
      (simp_all add: same_rows_def same_custody_def markAuthorizationStarted_def with_store_def markAuthorizing_def)
qed (auto intro: activateAuthorizedSection_moves prepareRenewalSection_moves
    activateRenewedGeneration_moves rejectSection_moves repairLegacyScopePoison_moves
    disconnectSection_moves claimCandidate_moves finalizeCredentialCleanup_moves
    finalizeRevocationInStore_moves adoptPendingConnectionCleanup_moves take_over_moves
    backfillSection_moves clear_moves emit_moves randomUUID_moves)

definition lifecycle_run :: "options \<Rightarrow> section_kind set \<Rightarrow> lstate \<Rightarrow> lstate \<Rightarrow> bool" where
  "lifecycle_run opt K = (\<lambda>st st'. \<exists>k \<in> K. lifecycle_step opt k st st')\<^sup>*\<^sup>*"

lemma run_refl [simp, intro]: "lifecycle_run opt K st st"
  by (simp add: lifecycle_run_def)

lemma run_trans [trans]: "lifecycle_run opt K a b \<Longrightarrow> lifecycle_run opt K b c \<Longrightarrow> lifecycle_run opt K a c"
  unfolding lifecycle_run_def by (rule rtranclp_trans)

lemma run_step: "lifecycle_step opt k st st' \<Longrightarrow> k \<in> K \<Longrightarrow> lifecycle_run opt K st st'"
  unfolding lifecycle_run_def by blast

lemma run_mono: "lifecycle_run opt K a b \<Longrightarrow> K \<subseteq> L \<Longrightarrow> lifecycle_run opt L a b"
  unfolding lifecycle_run_def by (erule rtranclp_mono [THEN predicate2D, rotated]) blast

lemma lifecycle_run_moves: "lifecycle_run opt K st st' \<Longrightarrow> moves K st st'"
  unfolding lifecycle_run_def
proof (induction rule: rtranclp_induct)
  case (step b c)
  then obtain k where "k \<in> K" "moves {k} b c" by (blast dest: lifecycle_step_moves)
  then have "moves K b c" by (blast intro: moves_mono)
  with step.IH show ?case by (rule moves_trans)
qed simp

end
