(* ===== verification/Lifecycle_Runs.thy ===== *)
theory Lifecycle_Runs
  imports Lifecycle_Steps
begin

text \<open>
  Every operation of \<open>ConnectionLifecycle\<close> is a run of the sections it is made of, so what holds
  along runs holds for the operations, alone or interleaved.
\<close>

lemmas run_sections =
  run_step [OF authorize] run_step [OF prepare] run_step [OF activate_renewed]
  run_step [OF reject_renewed] run_step [OF repair] run_step [OF disconnect] run_step [OF claim]
  run_step [OF queue] run_step [OF finalize] run_step [OF finalize_row] run_step [OF adopt]
  run_step [OF take_over] run_step [OF acquire] run_step [OF backfill]
  run_step [OF backfill_delay] run_step [OF mark] run_step [OF clear] run_step [OF audit]
  run_step [OF uuid]

text \<open>A run extended by one section.\<close>

lemmas run_then = run_sections [THEN run_trans [rotated]]

lemma run_emit [intro]:
  "lifecycle_run opt K a b \<Longrightarrow> Bookkeeping \<in> K \<Longrightarrow>
   lifecycle_run opt K a (emit opt now identity action s e b)"
  by (rule run_trans) (auto intro: run_sections)

section \<open>Cleanup\<close>

lemma retryCredentialGenerationCleanup_run:
  assumes "{Cleaning, Bookkeeping} \<subseteq> K"
  shows "lifecycle_run opt K st (retryCredentialGenerationCleanup opt now r st)"
proof -
  define identity where "identity = workerIdentity (cg_hop1Issuer r) (cg_hop1Subject r)
                       (cg_displayAccountIdentity r)"
  obtain out st1 where c: "claimCandidate now r st = (out, st1)" by fastforce
  have r1: "lifecycle_run opt K st st1" using c assms by (auto intro: run_sections)
  show ?thesis
  proof (cases out)
    case None
    with c r1 show ?thesis by (simp add: retryCredentialGenerationCleanup_def)
  next
    case (Some q)
    have "lifecycle_run opt K st (snd (finalizeCredentialCleanup opt now identity q result st1))" for result
      using r1 assms by (cases "finalizeCredentialCleanup opt now identity q result st1")
        (auto intro: run_then)
    note fin = this
    show ?thesis
      using c Some assms fin [of Res_permanent_failure] fin [of "revoke opt (projr (decryptCredentialCustody opt q))"]
      by (auto simp: retryCredentialGenerationCleanup_def identity_def [symmetric] Let_def
          split: sum.splits prod.splits bool.splits)
  qed
qed

lemma retryAll_run:
  "{Cleaning, Bookkeeping} \<subseteq> K \<Longrightarrow> lifecycle_run opt K st (retryAll opt now rs st)"
proof (induction rs arbitrary: st)
  case (Cons r rs)
  show ?case unfolding retryAll.simps
    by (rule run_trans [OF retryCredentialGenerationCleanup_run [OF Cons.prems] Cons.IH [OF Cons.prems]])
qed simp

lemma cleanupCustodiedGeneration_run:
  assumes "cleanupCustodiedGeneration opt now identity q st = (res, st')" "{Cleaning, Bookkeeping} \<subseteq> K"
  shows "lifecycle_run opt K st st'"
proof -
  define pending where "pending = q\<lparr>cg_state := G_cleanup_pending, cg_updatedAt := now\<rparr>"
  obtain ok1 st1 where u1: "update_gen pending G_candidate (cg_cleanupAttempts q) st = (ok1, st1)"
    by fastforce
  obtain ok2 st2 where u2: "(if ok1 then (True, st1)
      else update_gen pending G_active (cg_cleanupAttempts q) st1) = (ok2, st2)" by fastforce
  have "lifecycle_run opt K st st1" "lifecycle_run opt K st1 st2"
    using u1 u2 assms(2) unfolding pending_def by (auto split: if_splits intro: run_sections)
  then have r2: "lifecycle_run opt K st st2" by (rule run_trans)
  have fin: "lifecycle_run opt K st (snd (finalizeCredentialCleanup opt now identity pending result st2))"
    for result
    using r2 assms(2) by (cases "finalizeCredentialCleanup opt now identity pending result st2")
      (auto intro: run_then)
  show ?thesis
    using assms r2 fin [of "revoke opt (projr (decryptCredentialCustody opt pending))"] u1 u2
    unfolding cleanupCustodiedGeneration_def pending_def [symmetric] Let_def
    by (auto split: if_splits sum.splits prod.splits)
qed

section \<open>Status\<close>

lemma performProviderAccountIdentityBackfill_run:
  "performProviderAccountIdentityBackfill opt now identity initial n st = (res, st') \<Longrightarrow>
   Bookkeeping \<in> K \<Longrightarrow> lifecycle_run opt K st st'"
proof (induction n arbitrary: initial st)
  case (0 initial st)
  then show ?case
    by (subst (asm) performProviderAccountIdentityBackfill.simps)
      (auto simp: Let_def split: option.splits sum.splits prod.splits if_splits intro: run_sections)
next
  case (Suc n initial st)
  note run = Suc.prems(1) [unfolded
      performProviderAccountIdentityBackfill.simps [of opt now identity initial "Suc n"] Let_def]
  from run Suc.prems(2) show ?case
    by (auto split: option.splits sum.splits prod.splits if_splits
        intro: run_emit run_sections Suc.IH [THEN run_trans [rotated]])
qed

lemma backfillProviderAccountIdentity_run:
  assumes "backfillProviderAccountIdentity opt now identity initial st = (res, st')" "Bookkeeping \<in> K"
  shows "lifecycle_run opt K st st'"
proof (cases "\<exists>r out st1 m. performProviderAccountIdentityBackfill opt now identity r 1 st = (out, st1) \<and>
    (st' = st1\<lparr>backfillRetryAt := m\<rparr> \<or>
     (\<exists>e. st' = emit opt now identity ''account_identity_backfill_failed'' ''error'' e (st1\<lparr>backfillRetryAt := m\<rparr>)))")
  case True
  then show ?thesis
    using assms(2) by (elim exE conjE disjE)
      (auto intro: performProviderAccountIdentityBackfill_run run_then)
next
  case False
  with assms(1) have "st' = st"
    by (fastforce simp: backfillProviderAccountIdentity_def
        split: option.splits if_splits prod.splits sum.splits)
  then show ?thesis by simp
qed

lemma status_run:
  "status opt now identity scopes st = (s, st') \<Longrightarrow> Bookkeeping \<in> K \<Longrightarrow> lifecycle_run opt K st st'"
  by (auto simp: status_def Let_def split: prod.splits intro: backfillProviderAccountIdentity_run)

section \<open>Authorization\<close>

lemma activationFailure_run:
  "activationFailure opt now identity q e st = (res, st') \<Longrightarrow> {Cleaning, Bookkeeping} \<subseteq> K \<Longrightarrow>
   lifecycle_run opt K st st'"
  by (auto simp: activationFailure_def Let_def split: if_splits prod.splits sum.splits
      intro: cleanupCustodiedGeneration_run)

theorem activateAuthorizedGeneration_run:
  assumes "activateAuthorizedGeneration opt t identity scopes issued guard st = (res, st')"
    "{Authorizing, Cleaning, Bookkeeping} \<subseteq> K"
  shows "lifecycle_run opt K st st'"
proof -
  obtain i st1 where i: "randomUUID opt st = (i, st1)" by fastforce
  define q where "q = credentialCustodyRecord opt (t 0) identity
            \<lparr>dg_provider = op_provider opt,
             dg_generation = coalesce (Option.bind guard ag_generation) 0 + 1,
             dg_credential = ig_credential issued,
             dg_activeCredentialExpiresAt = ig_activeCredentialExpiresAt issued,
             dg_renewalCredentialExpiresAt = ig_renewalCredentialExpiresAt issued,
             dg_grantedScopes = ig_grantedScopes issued\<rparr> i"
  define st2 where "st2 = acquireCredentialCustody q st1"
  have "lifecycle_run opt K st1 st2" unfolding st2_def
    using assms(2) by (auto simp: q_def intro: run_sections)
  moreover have "lifecycle_run opt K st st1" using i assms(2) by (auto intro: run_sections)
  ultimately have r2: "lifecycle_run opt K st st2" by (rule run_trans [rotated])
  note run = assms(1) [unfolded activateAuthorizedGeneration_def i Let_def prod.case, folded q_def st2_def]
  show ?thesis
  proof (cases "validateIssuedGeneration opt (t 1) identity scopes issued q")
    case (Inl e)
    obtain res1 st3 where "cleanupCustodiedGeneration opt (t 2) identity q st2 = (res1, st3)" by fastforce
    with run Inl r2 assms(2) show ?thesis
      by (auto split: sum.splits intro: cleanupCustodiedGeneration_run [THEN run_trans [rotated]])
  next
    case (Inr a)
    obtain res1 st3 where s: "activateAuthorizedSection opt (t 2) identity scopes issued guard q a st2 = (res1, st3)"
      by fastforce
    with r2 assms(2) have r3: "lifecycle_run opt K st st3" by (blast intro: run_then)
    obtain res2 st4 where f: "(case res1 of Inl e \<Rightarrow> activationFailure opt (t 3) identity q e st3
        | Inr b \<Rightarrow> (Inr b, st3)) = (res2, st4)" by fastforce
    with r3 assms(2) have r4: "lifecycle_run opt K st st4"
      by (auto split: sum.splits intro: activationFailure_run [THEN run_trans [rotated]])
    have split: "(case (res1, st3) of (Inl e, st3) \<Rightarrow> activationFailure opt (t 3) identity q e st3
        | (Inr b, st3) \<Rightarrow> (Inr b, st3)) = (res2, st4)"
      using f by (auto split: sum.splits)
    show ?thesis
    proof (cases res2)
      case (Inl e)
      with run Inr s split r4 show ?thesis by simp
    next
      case (Inr b)
      define st7 where "st7 = emit opt (t 4) identity ''authorize'' ''allow'' None
        (clearAuthorization opt identity
          (if b then emit opt (t 4) identity ''account_rebound'' ''allow'' None st4 else st4))"
      have "lifecycle_run opt K st4 st7"
        unfolding st7_def using assms(2) by (auto intro!: run_emit intro: run_then)
      moreover have "lifecycle_run opt K st7 st'"
        using run \<open>validateIssuedGeneration _ _ _ _ _ _ = Inr a\<close> s split Inr assms(2)
        by (auto simp: st7_def [symmetric] split: prod.splits intro: status_run)
      ultimately show ?thesis using r4 by (blast intro: run_trans)
    qed
  qed
qed

section \<open>Disconnect and the worker\<close>

lemma settleDisabled_run:
  assumes "settleDisabled opt now identity d st = (res, st')" "{Cleaning, Bookkeeping} \<subseteq> K"
  shows "lifecycle_run opt K st st'"
proof (cases "di_disabled d")
  case None
  with assms(1) show ?thesis by (simp add: settleDisabled_def)
next
  case (Some g)
  define F where "F = (case List.find (\<lambda>r. Some (cg_id r) = di_custodyId d) (di_detached d) of
       Some custody \<Rightarrow> map_prod (map_sum id (\<lambda>_. ())) id
         (finalizeCredentialCleanup opt now identity custody (revoke opt g) st)
     | None \<Rightarrow> finalizeRevocationInStore opt now identity (dg_generation g) (revoke opt g) None st)"
  obtain r st1 where f: "F = (r, st1)" by fastforce
  then have r1: "lifecycle_run opt K st st1"
    using assms(2) unfolding F_def
    by (auto split: option.splits intro: run_sections simp: map_prod_def split: prod.splits)
  have "st' = st1 \<or> (\<exists>a s e. st' = emit opt now identity a s e st1)"
    using assms(1) Some f unfolding settleDisabled_def F_def Let_def
    by (auto split: sum.splits lifecycle_error.splits if_splits)
  with r1 assms(2) show ?thesis by auto
qed

theorem disconnect_run:
  assumes "disconnect opt t identity scopes st = (res, st')" "{Disconnecting, Cleaning, Bookkeeping} \<subseteq> K"
  shows "lifecycle_run opt K st st'"
proof -
  obtain d st1 where s: "disconnectSection opt (t 0) identity scopes st = (d, st1)" by fastforce
  have r1: "lifecycle_run opt K st st1" using s assms(2) by (auto intro: run_sections)
  show ?thesis
  proof (cases d)
    case (Inl e)
    with assms s r1 show ?thesis
      by (cases e) (auto simp: disconnect_def)
  next
    case (Inr d')
    obtain r2 st2 where f: "settleDisabled opt (t 1) identity d' st1 = (r2, st2)" by fastforce
    then have "lifecycle_run opt K st1 st2" using assms(2) by (auto intro: settleDisabled_run)
    with r1 have r2: "lifecycle_run opt K st st2" by (rule run_trans)
    show ?thesis
    proof (cases r2)
      case (Inl e)
      with assms(1) s Inr f r2 show ?thesis by (simp add: disconnect_def)
    next
      case (Inr u)
      define st4 where "st4 = emit opt (t 2) identity ''disconnect'' ''allow'' None (retryAll opt (t 2)
        (filter (\<lambda>r. Some (cg_id r) \<noteq> di_custodyId d') (di_detached d')) st2)"
      have "lifecycle_run opt K st2 st4"
        unfolding st4_def using assms(2) by (auto intro!: run_emit retryAll_run)
      moreover have "lifecycle_run opt K st4 st'"
        using assms s f Inr \<open>d = Inr d'\<close>
        by (auto simp: disconnect_def Let_def st4_def [symmetric] split: prod.splits intro: status_run)
      ultimately show ?thesis using r2 by (blast intro: run_trans)
    qed
  qed
qed

lemma retryPendingRevocation_run:
  assumes "retryPendingRevocation opt t identity st = (res, st')" "{Cleaning, Bookkeeping} \<subseteq> K"
  shows "lifecycle_run opt K st st'"
proof (cases "\<exists>rw. get_conn opt (t 0) identity st = Some rw \<and>
    cr_revocationState rw = Rev_pending \<and> cr_localDisabledAt rw \<noteq> None")
  case False
  with assms(1) show ?thesis
    by (auto simp: retryPendingRevocation_def split: option.splits if_splits)
next
  case True
  then obtain rw where r: "get_conn opt (t 0) identity st = Some rw"
    "cr_revocationState rw = Rev_pending" "cr_localDisabledAt rw \<noteq> None" by blast
  define F where "F = (if \<not> truthy (cr_credentialGenerationId rw)
       then adoptPendingConnectionCleanup opt (t 1) identity st
       else (Inr (List.find (\<lambda>g. Some (cg_id g) = cr_credentialGenerationId rw)
                    (list_gens opt identity st)), st))"
  obtain found st1 where f: "F = (found, st1)" by fastforce
  have r1: "lifecycle_run opt K st st1"
    using f assms(2) unfolding F_def by (auto split: if_splits intro: run_sections)
  have "st' = st1 \<or> (\<exists>q. st' = retryCredentialGenerationCleanup opt (t 2) q st1)"
    using assms(1) r f unfolding retryPendingRevocation_def F_def Let_def
    by (auto split: sum.splits option.splits if_splits)
  with r1 assms(2) show ?thesis
    by (auto intro: run_trans [OF _ retryCredentialGenerationCleanup_run])
qed

lemma retryPendingCredentialCleanup_run:
  assumes "{Cleaning, Bookkeeping} \<subseteq> K"
  shows "lifecycle_run opt K st (retryPendingCredentialCleanup opt now r st)"
  unfolding retryPendingCredentialCleanup_def Let_def
  by (rule run_trans [OF run_step [OF take_over] retryCredentialGenerationCleanup_run])
    (use assms in auto)

lemma retryRows_run:
  assumes "{Cleaning, Bookkeeping} \<subseteq> K"
  shows "lifecycle_run opt K st (retryRows opt t rs st)"
proof (induction rs arbitrary: st)
  case (Cons r rs)
  define identity where
    "identity = workerIdentity (cr_hop1Issuer r) (cr_hop1Subject r) (cr_displayAccountIdentity r)"
  obtain res st1 where p: "retryPendingRevocation opt t identity st = (res, st1)" by fastforce
  have "lifecycle_run opt K st st1" using p assms by (rule retryPendingRevocation_run)
  then have "lifecycle_run opt K st (case res of Inr _ \<Rightarrow> st1 | Inl e \<Rightarrow>
      emit opt (t 2) identity ''disconnect_cleanup_retry'' ''error''
        (orelse (lifecycleCategory e) (Some persistence_failure)) st1)"
    using assms by (auto split: sum.splits)
  from run_trans [OF this Cons.IH] show ?case
    using p by (auto simp: Let_def identity_def split: sum.splits)
qed simp

lemma retryQueued_run:
  assumes "{Cleaning, Bookkeeping} \<subseteq> K"
  shows "lifecycle_run opt K st (retryQueued opt now rs st)"
proof (induction rs arbitrary: st)
  case (Cons r rs)
  show ?case unfolding retryQueued.simps
    by (rule run_trans [OF retryPendingCredentialCleanup_run [OF assms] Cons.IH])
qed simp

theorem retryPendingRevocations_run:
  assumes "retryPendingRevocations opt t limit st = (n, st')" "{Cleaning, Bookkeeping} \<subseteq> K"
  shows "lifecycle_run opt K st st'"
  using assms(1) unfolding retryPendingRevocations_def Let_def
  by (auto intro: run_trans [OF run_trans [OF retryRows_run [OF assms(2)] retryQueued_run [OF assms(2)]]
        retryAll_run [OF assms(2)]])

section \<open>Renewal\<close>

lemma renewalDone_run:
  "renewalDone opt now identity manual result b st = (res, st') \<Longrightarrow> Bookkeeping \<in> K \<Longrightarrow>
   lifecycle_run opt K st st'"
  by (auto simp: renewalDone_def Let_def intro!: run_emit)

lemma renewalFailed_run:
  "renewalFailed opt now identity manual e st = (res, st') \<Longrightarrow> Bookkeeping \<in> K \<Longrightarrow>
   lifecycle_run opt K st st'"
  by (auto simp: renewalFailed_def intro!: run_emit)

lemma rejectRenewedGeneration_run:
  assumes "rejectRenewedGeneration opt now identity p e st = (res, st')"
    "{Renewing, Cleaning, Bookkeeping} \<subseteq> K"
  shows "lifecycle_run opt K st st'"
proof -
  define pending where "pending = (pr_candidate p)\<lparr>cg_state := G_cleanup_pending, cg_updatedAt := now\<rparr>"
  obtain r st1 where s: "rejectSection opt now identity p e pending st = (r, st1)" by fastforce
  have r1: "lifecycle_run opt K st st1"
    using s assms(2) by (auto simp: pending_def intro: run_sections)
  have "st' = st1 \<or> st' = retryCredentialGenerationCleanup opt now pending st1"
    using assms(1) s unfolding rejectRenewedGeneration_def pending_def [symmetric] Let_def
    by (auto split: sum.splits if_splits)
  with r1 assms(2) show ?thesis
    by (auto intro: run_trans [OF _ retryCredentialGenerationCleanup_run])
qed

lemma rejectIssued_run:
  assumes "rejectIssued opt now identity manual p e st = (res, st')"
    "{Renewing, Cleaning, Bookkeeping} \<subseteq> K" "cg_state (pr_candidate p) = G_candidate"
  shows "lifecycle_run opt K st st'"
proof -
  define st1 where "st1 = (if list_ex (\<lambda>g. cg_id g = cg_id (pr_candidate p)) (list_gens opt identity st)
      then st else acquireCredentialCustody (pr_candidate p) st)"
  have r1: "lifecycle_run opt K st st1"
    using assms(2,3) unfolding st1_def by (auto intro: run_sections)
  obtain r st2 where j: "rejectRenewedGeneration opt now identity p e st1 = (r, st2)" by fastforce
  have "lifecycle_run opt K st1 st2" using j assms(2) by (rule rejectRenewedGeneration_run)
  with r1 have r2: "lifecycle_run opt K st st2" by (rule run_trans)
  have "st' = st2 \<or> renewalFailed opt now identity manual e st2 = (res, st') \<or>
      renewalFailed opt now identity manual e st = (res, st')"
    using assms(1) j unfolding rejectIssued_def st1_def [symmetric] Let_def
    by (auto split: if_splits sum.splits)
  with r2 assms(2) show ?thesis
    by (auto intro: renewalFailed_run run_trans [OF r2 renewalFailed_run])
qed

lemma issueCandidate_state:
  "issueCandidate opt now identity c d rn fresh st = (Inr (PrepCandidate p), st') \<Longrightarrow>
   cg_state (pr_candidate p) = G_candidate"
  by (auto simp: issueCandidate_def Let_def renewalRefused_def giveUp_def split: if_splits option.splits
      sum.splits prod.splits)

lemma prepareRenewalSection_state:
  "prepareRenewalSection opt now identity scopes manual ki obs st = (Inr (PrepCandidate p), st') \<Longrightarrow>
   cg_state (pr_candidate p) = G_candidate"
  by (auto simp: prepareRenewalSection_def Let_def giveUp_def intro: issueCandidate_state
      split: if_splits option.splits sum.splits prod.splits)

lemma validateRenewedGeneration_candidate:
  "validateRenewedGeneration opt now identity p scopes manual = Inr p' \<Longrightarrow>
   pr_candidate p' = pr_candidate p \<and> pr_current p' = pr_current p \<and> pr_decrypted p' = pr_decrypted p"
  by (auto simp: validateRenewedGeneration_def Let_def split: if_splits option.splits sum.splits)

lemma settleCandidate_run:
  assumes "settleCandidate opt t identity scopes manual p0 st = (res, st')"
    "{Renewing, Cleaning, Bookkeeping} \<subseteq> K" "cg_state (pr_candidate p0) = G_candidate"
  shows "lifecycle_run opt K st st'"
proof (cases "validateRenewedGeneration opt (t 1) identity p0 scopes manual")
  case (Inl e)
  with assms show ?thesis by (auto simp: settleCandidate_def intro: rejectIssued_run)
next
  case (Inr p)
  with assms(3) have cand: "cg_state (pr_candidate p) = G_candidate"
    by (auto dest: validateRenewedGeneration_candidate)
  obtain r st1 where a: "activateRenewedGeneration opt (t 2) identity p st = (r, st1)" by fastforce
  have r1: "lifecycle_run opt K st st1" using a assms(2) by (auto intro: run_sections)
  obtain r2 st2 where j: "rejectRenewedGeneration opt (t 3) identity p generationConflict st1 = (r2, st2)"
    by fastforce
  have r2: "lifecycle_run opt K st1 st2" using j assms(2) by (rule rejectRenewedGeneration_run)
  have "lifecycle_run opt K st1 st'"
    using assms(1,2) Inr a j cand unfolding settleCandidate_def
    by (auto split: sum.splits if_splits prod.splits
        intro: rejectIssued_run renewalDone_run run_trans [OF r2 rejectIssued_run]
          run_trans [OF r2 renewalDone_run])
  with r1 show ?thesis by (rule run_trans)
qed

theorem renew_run:
  assumes "renew opt t polls identity scopes manual ki obs st = (res, st')"
    "{Renewing, Cleaning, Bookkeeping} \<subseteq> K"
  shows "lifecycle_run opt K st st'"
proof -
  obtain r st1 where s: "prepareRenewalSection opt (t 0) identity scopes manual ki obs st = (r, st1)"
    by fastforce
  have r1: "lifecycle_run opt K st st1" using s assms(2) by (auto intro: run_sections)
  have "lifecycle_run opt K st1 st'"
    using assms s prepareRenewalSection_state [of opt "t 0" identity scopes manual ki obs st _ st1]
    by (auto simp: renew_def split: sum.splits RenewalPreparation.splits
        intro: renewalFailed_run renewalDone_run settleCandidate_run)
  with r1 show ?thesis by (rule run_trans)
qed

theorem getActiveCredential_run:
  assumes "getActiveCredential opt t polls identity scopes grant st = (res, st')"
    "{Renewing, Cleaning, Bookkeeping} \<subseteq> K"
  shows "lifecycle_run opt K st st'"
proof -
  define F where "F = (if map_option cr_phase (get_conn opt (t 0) identity st) = Some Ph_reauthorization_required \<and>
                Option.bind (get_conn opt (t 0) identity st) cr_lifecycleErrorCategory = Some insufficient_scope
             then repairLegacyScopePoison opt (t 0) identity st else (Inr (get_conn opt (t 0) identity st), st))"
  obtain r st1 where f: "F = (r, st1)" by fastforce
  have r1: "lifecycle_run opt K st st1"
    using f assms(2) unfolding F_def by (auto split: if_splits intro: run_sections)
  have "st' = st1 \<or> (\<exists>t' out. renew opt t' polls identity scopes False False None st1 = (out, st'))"
    using assms(1) f unfolding getActiveCredential_def F_def [symmetric] Let_def
    by (auto split: sum.splits option.splits if_splits prod.splits)
  with r1 assms(2) show ?thesis by (auto intro: run_trans renew_run)
qed

theorem refresh_run:
  assumes "refresh opt t polls identity scopes st = (res, st')"
    "{Renewing, Cleaning, Bookkeeping} \<subseteq> K"
  shows "lifecycle_run opt K st st'"
  using assms unfolding refresh_def Let_def
  by (auto split: sum.splits prod.splits intro: renew_run run_trans [OF renew_run status_run])

theorem recoverFromProviderAuthenticationFailure_run:
  assumes "recoverFromProviderAuthenticationFailure opt t polls identity scopes rejected st = (res, st')"
    "{Renewing, Cleaning, Bookkeeping} \<subseteq> K"
  shows "lifecycle_run opt K st st'"
proof -
  have "st' = st \<or> (\<exists>t' s ki obs out. renew opt t' polls identity s False ki obs st = (out, st'))"
    using assms(1) unfolding recoverFromProviderAuthenticationFailure_def Let_def
    by (auto split: option.splits if_splits sum.splits prod.splits lifecycle_error.splits)
  with assms(2) show ?thesis by (auto intro: renew_run)
qed

end
