(* ===== verification/Lifecycle_Fixture.thy ===== *)
theory Lifecycle_Fixture
  imports Lifecycle_Runs
begin

text \<open>
  A concrete instance of the lifecycle's parameters, on which the properties with hypotheses are
  applied: a provider that renews and revokes, a reversible codec and sealing, and the state after
  one authorization in an empty store.
\<close>

section \<open>A codec for credential envelopes\<close>

fun put_str :: "string \<Rightarrow> string" where
  "put_str [] = ''.''"
| "put_str (c # cs) = CHR ''c'' # c # put_str cs"

fun get_str :: "string \<Rightarrow> (string \<times> string) option" where
  "get_str (x # c # rest) =
     (if x = CHR ''c'' then map_option (map_prod (Cons c) id) (get_str rest)
      else if x = CHR ''.'' then Some ([], c # rest) else None)"
| "get_str [x] = (if x = CHR ''.'' then Some ([], []) else None)"
| "get_str [] = None"

lemma get_put_str [simp]: "get_str (put_str s @ rest) = Some (s, rest)"
proof (induction s)
  case Nil
  then show ?case by (cases rest) auto
qed simp

definition put_opt :: "string option \<Rightarrow> string" where
  "put_opt x = (case x of None \<Rightarrow> ''n'' | Some s \<Rightarrow> ''s'' @ put_str s)"

fun get_opt :: "string \<Rightarrow> (string option \<times> string) option" where
  "get_opt [] = None"
| "get_opt (x # rest) =
     (if x = CHR ''n'' then Some (None, rest)
      else if x = CHR ''s'' then map_option (map_prod Some id) (get_str rest) else None)"

lemma get_put_opt [simp]: "get_opt (put_opt x @ rest) = Some (x, rest)"
  by (cases x) (simp_all add: put_opt_def)

fun put_fields :: "(string, string) jsmap \<Rightarrow> string" where
  "put_fields [] = ''n''"
| "put_fields ((k, v) # m) = ''f'' @ put_str k @ put_str v @ put_fields m"

fun get_fields :: "nat \<Rightarrow> string \<Rightarrow> (string, string) jsmap option" where
  "get_fields 0 s = None"
| "get_fields (Suc n) [] = None"
| "get_fields (Suc n) (x # rest) =
     (if x = CHR ''n'' then Some []
      else Option.bind (get_str rest) (\<lambda>(k, rest1). Option.bind (get_str rest1) (\<lambda>(v, rest2).
             map_option (Cons (k, v)) (get_fields n rest2))))"

lemma get_put_fields: "length (put_fields m) \<le> n \<Longrightarrow> get_fields n (put_fields m) = Some m"
proof (induction m arbitrary: n)
  case Nil
  then show ?case by (cases n) auto
next
  case (Cons kv m)
  obtain k v where kv: "kv = (k, v)" by fastforce
  from Cons.prems kv obtain n' where n: "n = Suc n'" "length (put_fields m) \<le> n'"
    by (cases n) auto
  show ?case by (simp add: n(1) kv Cons.IH [OF n(2)])
qed

definition demo_stringify :: "ProviderCredentialEnvelope \<Rightarrow> string" where
  "demo_stringify e = put_opt (activeCredential e) @ put_opt (renewalCredential e) @ put_fields (providerFields e)"

definition demo_parse :: "string \<Rightarrow> ProviderCredentialEnvelope option" where
  "demo_parse s =
     Option.bind (get_opt s) (\<lambda>(a, s1). Option.bind (get_opt s1) (\<lambda>(r, s2).
       map_option (\<lambda>f. \<lparr>activeCredential = a, renewalCredential = r, providerFields = f\<rparr>)
         (get_fields (length s2) s2)))"

lemma demo_codec: "demo_parse (demo_stringify e) = Some e" "demo_stringify e \<noteq> []"
  by (simp_all add: demo_parse_def demo_stringify_def get_put_fields put_opt_def split: option.splits)

section \<open>The provider and the options\<close>

definition demo_caps :: ProviderConnectionCapabilities where
  "demo_caps =
     \<lparr>interactiveAuthorization = True, activeCredentialExpiry = True, automaticRenewal = True,
      manualRenewal = True, rotatingRenewalCredential = False, providerValidation = False,
      providerRevocation = True, scopeReporting = True, identityVerification = False,
      accountIdentityReporting = False, authorizationRequiresRenewalCredential = False\<rparr>"

definition demo_issue :: "string \<Rightarrow> ProviderCredentialEnvelope" where
  "demo_issue a = \<lparr>activeCredential = Some a, renewalCredential = Some ''r'', providerFields = []\<rparr>"

definition demo_adapter :: adapter where
  "demo_adapter =
     \<lparr>providerId = ''p'', capabilities = demo_caps, statusActions = None, hasRequiredScopes = None,
      ad_renew = Some (\<lambda>g attempt. Inr
        \<lparr>rg_credential = demo_issue ''a2'', rg_grantedScopes = None,
         rg_activeCredentialExpiresAt = Some 20000000, rg_renewalCredentialExpiresAt = None,
         rg_validatedAt = None, rg_providerAccount = None\<rparr>),
      ad_validateIdentity = None, ad_revoke = Some (\<lambda>g. Inr Res_revoked)\<rparr>"

definition demo_uuid :: "nat \<Rightarrow> string" where
  "demo_uuid n = CHR ''g'' # replicate n (CHR ''0'')"

definition demo_options :: options where
  "demo_options =
     \<lparr>op_adapter = demo_adapter, op_encrypt = Cons (CHR ''e''),
      op_decrypt = (\<lambda>s. case s of x # p \<Rightarrow> if x = CHR ''e'' then Some p else None | [] \<Rightarrow> None),
      op_stringify = demo_stringify, op_parse = demo_parse, consentScopes = None,
      renewalSafetyWindowMs = 60000, transientRetries = 2, accountIdentityBackfillRetryMs = 60000,
      op_uuid = demo_uuid\<rparr>"

lemma demo_sealing: "sealing_laws demo_options"
  by (simp add: sealing_laws_def demo_options_def demo_codec)

definition alice :: Hop1Identity where
  "alice = \<lparr>hi_profile = ''x'', hi_issuer = ''i'', hi_subject = ''s'', hi_email = ''m''\<rparr>"

definition demo_issued :: IssuedCredentialGeneration where
  "demo_issued =
     \<lparr>ig_credential = demo_issue ''a1'', ig_displayAccountIdentity = ''m'', ig_grantedScopes = [''read''],
      ig_activeCredentialExpiresAt = Some 10000000, ig_renewalCredentialExpiresAt = None,
      ig_validatedAt = None, ig_providerAccount = None\<rparr>"

section \<open>States\<close>

definition empty_state :: lstate where
  "empty_state = \<lparr>store = empty_store, auditLog = [], uuidsDrawn = 0, backfillRetryAt = []\<rparr>"

definition demo_connected :: lstate where
  "demo_connected =
     snd (activateAuthorizedGeneration demo_options (\<lambda>i. 1000 + int i) alice [''read''] demo_issued
            (Some (snapshotAuthorizationGuard None)) empty_state)"

lemma demo_connected_run: "lifecycle_run demo_options UNIV empty_state demo_connected"
  unfolding demo_connected_def
  by (rule activateAuthorizedGeneration_run [OF prod.collapse [symmetric]]) simp

lemma demo_connected_mirrored: "mirrored (store demo_connected)"
  using lifecycle_run_moves [OF demo_connected_run] store_consistent_mirrored [OF store_consistent_empty]
  by (auto simp: moves_def rows_ok_def empty_state_def)

lemma demo_connected_custody: "erased (js_get (credentialGenerations (store demo_connected)))"
  "custody_keyed (store demo_connected)"
proof -
  have "erased (js_get (credentialGenerations (store empty_state)))" "custody_keyed (store empty_state)"
    by (simp_all add: erased_def custody_keyed_def empty_state_def empty_store_def)
  then show "erased (js_get (credentialGenerations (store demo_connected)))"
    "custody_keyed (store demo_connected)"
    using lifecycle_run_moves [OF demo_connected_run] by (simp_all add: moves_def custody_ok_def)
qed

definition demo_disconnected :: lstate where
  "demo_disconnected = snd (disconnect demo_options (\<lambda>i. 2000 + int i) alice [''read''] demo_connected)"

lemma demo_disconnects:
  "disconnect demo_options (\<lambda>i. 2000 + int i) alice [''read''] demo_connected =
     (Inr (projr (fst (disconnect demo_options (\<lambda>i. 2000 + int i) alice [''read''] demo_connected))),
      demo_disconnected)"
proof -
  have "fst (disconnect demo_options (\<lambda>i. 2000 + int i) alice [''read''] demo_connected) =
      Inr (projr (fst (disconnect demo_options (\<lambda>i. 2000 + int i) alice [''read''] demo_connected)))"
    by code_simp
  then show ?thesis by (simp add: demo_disconnected_def prod_eq_iff)
qed

end
