(* ===== verification/Lifecycle_Safety.thy ===== *)
theory Lifecycle_Safety
  imports Lifecycle_Fixture
begin

text \<open>
  Safety of the connection lifecycle under every interleaving: credentials in custody, disabled
  connections, stale renewals and stale authorizations.
\<close>

section \<open>Rows along runs\<close>

abbreviation key_of :: "options \<Rightarrow> Hop1Identity \<Rightarrow> string" where
  "key_of opt identity \<equiv> accountKey (op_provider opt) (hi_issuer identity) (hi_subject identity)"

abbreviation row_of :: "options \<Rightarrow> Hop1Identity \<Rightarrow> lstate \<Rightarrow> ConnectionRecord option" where
  "row_of opt identity st \<equiv> effective_row (store st) (key_of opt identity)"

definition disabled_in :: "options \<Rightarrow> Hop1Identity \<Rightarrow> lstate \<Rightarrow> bool" where
  "disabled_in opt identity st \<longleftrightarrow>
     (case row_of opt identity st of None \<Rightarrow> False | Some c \<Rightarrow> cr_localDisabledAt c \<noteq> None)"

lemma run_rows:
  assumes "lifecycle_run opt K st st'" "mirrored (store st)"
  shows "mirrored (store st')" "row_ok K (effective_row (store st) k) (effective_row (store st') k)"
  using lifecycle_run_moves [OF assms(1)] assms(2) by (auto simp: moves_def rows_ok_def)

lemma run_custody: "lifecycle_run opt K st st' \<Longrightarrow> custody_ok st st'"
  by (drule lifecycle_run_moves) (simp add: moves_def)

lemma run_evolves: "lifecycle_run opt K st st' \<Longrightarrow> evolves (gens st) (gens st')"
  by (drule run_custody) (simp add: custody_ok_def)

lemma run_disabled:
  assumes "lifecycle_run opt K st st'" "mirrored (store st)" "Authorizing \<notin> K"
    "disabled_in opt' identity st"
  shows "disabled_in opt' identity st'"
  using run_rows(2) [OF assms(1,2), of "key_of opt' identity"] assms(3,4)
  by (auto simp: disabled_in_def row_ok_def row_step_def split: option.splits)

lemma get_conn_of_row:
  assumes "row_of opt identity st = Some c0"
  obtains c where "get_conn opt now identity st = Some c" "cr_localDisabledAt c = cr_localDisabledAt c0"
    "cr_generation c = cr_generation c0" "cr_updatedAt c = cr_updatedAt c0"
    "cr_revocationState c = cr_revocationState c0"
    "cr_credentialGenerationId c = cr_credentialGenerationId c0"
proof -
  from assms obtain c where "get_conn opt now identity st = Some c"
    "c = c0 \<or> (\<exists>x. c = c0\<lparr>cr_requiredScopes := x, cr_phase := Ph_authorizing\<rparr>)"
    unfolding get_conn_def by (rule getConnection_effective)
  then show ?thesis by (intro that [of c]) auto
qed

lemma get_conn_disabled:
  assumes "disabled_in opt identity st"
  obtains c where "get_conn opt now identity st = Some c" "cr_localDisabledAt c \<noteq> None"
proof -
  from assms obtain c0 where "row_of opt identity st = Some c0" "cr_localDisabledAt c0 \<noteq> None"
    by (auto simp: disabled_in_def split: option.splits)
  then show ?thesis by (metis get_conn_of_row that)
qed

section \<open>A disabled connection yields no credential\<close>

lemma getActiveCredential_disabled:
  assumes "disabled_in opt identity st"
  shows "getActiveCredential opt t polls identity scopes grant st = (Inl reauthorizationRequired, st)"
proof -
  obtain c where c: "get_conn opt (t 0) identity st = Some c" "cr_localDisabledAt c \<noteq> None"
    using get_conn_disabled [OF assms] by metis
  then have "repairLegacyScopePoison opt (t 0) identity st = (Inr (Some c), st)"
    by (auto simp: repairLegacyScopePoison_def Let_def split: option.splits list.splits)
  with c show ?thesis by (auto simp: getActiveCredential_def)
qed

text \<open>What the locked section of a disconnect leaves behind.\<close>

lemma save_conn_True:
  assumes "save_conn r g st = (True, st')"
  shows "effective_row (store st') (conn_key r) = Some r"
  using assms by (auto simp: save_conn_def saveConnection_effective split: prod.splits)

lemma handoff_same_rows: "handoffRecords now rs st = (out, st') \<Longrightarrow> same_rows st st'"
proof (induction rs arbitrary: st out)
  case (Cons r rs)
  then show ?case
    by (auto simp: Let_def split: if_splits prod.splits)
      (meson same_rows_trans update_gen_same)+
qed simp

lemma disconnectSection_disables:
  assumes "disconnectSection opt now identity scopes st = (res, st')" "mirrored (store st)"
    "res \<noteq> Inl generationConflict"
  shows "disabled_in opt identity st'"
  using assms(1)
proof (cases rule: disconnectSection_cases [where K = UNIV])
  case (1 st1 r g saved st2 out st3)
  with assms(3) have saved: "saved" "st' = st3" by auto
  from 1(5) have r: "conn_key r = key_of opt identity" "cr_localDisabledAt r \<noteq> None"
    using getConnection_key [OF assms(2)] by (auto simp: get_conn_def)
  have "row_of opt identity st2 = Some r"
    using save_conn_True 1(3) saved r(1) by metis
  moreover have "same_rows st2 st3"
    using 1(7) by (auto simp: handoffPrincipalCredentialGenerations_def dest: handoff_same_rows)
  ultimately show ?thesis
    using r(2) saved(2) by (simp add: disabled_in_def effective_row_same)
qed

lemma disconnect_disables:
  assumes "disconnect opt t identity scopes st = (Inr s, st')" "mirrored (store st)"
  shows "disabled_in opt identity st'" "mirrored (store st')"
proof -
  obtain r st1 where s: "disconnectSection opt (t 0) identity scopes st = (r, st1)" by fastforce
  with assms(1) obtain d where d: "r = Inr d"
    by (cases r) (auto simp: disconnect_def split: lifecycle_error.splits)
  with s have dis: "disabled_in opt identity st1"
    using disconnectSection_disables [OF s assms(2)] by simp
  have run1: "lifecycle_run opt {Disconnecting} st st1"
    using s by (auto intro: run_sections)
  have run2: "lifecycle_run opt {Cleaning, Bookkeeping} st1 st'"
  proof -
    obtain r2 st2 where f: "settleDisabled opt (t 1) identity d st1 = (r2, st2)" by fastforce
    then have "lifecycle_run opt {Cleaning, Bookkeeping} st1 st2" by (rule settleDisabled_run) simp
    moreover have "lifecycle_run opt {Cleaning, Bookkeeping} st2 st'"
      using assms(1) s d f unfolding disconnect_def Let_def
      by (auto split: sum.splits prod.splits
          intro: run_trans [OF run_trans [OF retryAll_run run_step [OF audit]] status_run])
    ultimately show ?thesis by (rule run_trans)
  qed
  show "disabled_in opt identity st'"
    by (rule run_disabled [OF run2 _ _ dis]) (use run_rows(1) [OF run1 assms(2)] in auto)
  show "mirrored (store st')" using run_rows(1) [OF run2 run_rows(1) [OF run1 assms(2)]] .
qed

text \<open>C1: once \<open>disconnect\<close> has returned, no sequence of sections other than a new authorization
  (renewals in flight, cleanups, status reads, of this and any other caller) lets
  \<open>getActiveCredential\<close> hand out a credential of the principal again: it answers that
  reauthorization is required.\<close>

theorem disconnected_stays_disconnected:
  assumes "disconnect opt t identity scopes st = (Inr s, st1)" "mirrored (store st)"
    "lifecycle_run opt K st1 st2" "Authorizing \<notin> K"
  shows "getActiveCredential opt t' polls identity req grant st2 = (Inl reauthorizationRequired, st2)"
  using disconnect_disables [OF assms(1,2)] run_disabled [OF assms(3) _ assms(4)]
  by (auto intro: getActiveCredential_disabled)

theorem disconnected_stays_disconnected_witness:
  "getActiveCredential demo_options (\<lambda>i. 3000 + int i) [] alice (FlatScopes []) None demo_disconnected =
     (Inl reauthorizationRequired, demo_disconnected)"
  by (rule disconnected_stays_disconnected [OF demo_disconnects demo_connected_mirrored run_refl, of "{}"])
    simp

text \<open>C2: along every interleaving of sections, no record of a credential in custody is lost, its
  state only moves forward through the custody machine, its count of cleanup attempts never falls,
  and a record that reached a final state (cleaned up, permanently failed, retired) is never
  written again.\<close>

theorem custody_moves_forward:
  assumes "lifecycle_run opt K st st'" "js_get (credentialGenerations (store st)) i = Some r"
  shows "\<exists>r'. js_get (credentialGenerations (store st')) i = Some r' \<and>
     custody_step\<^sup>*\<^sup>* (cg_state r) (cg_state r') \<and> cg_cleanupAttempts r \<le> cg_cleanupAttempts r' \<and>
     (settled (cg_state r) \<longrightarrow> r' = r)"
  using run_evolves [OF assms(1)] assms(2) unfolding evolves_def by blast

theorem custody_moves_forward_witness:
  "\<exists>r'. js_get (credentialGenerations (store demo_disconnected)) ''g'' = Some r' \<and>
     custody_step\<^sup>*\<^sup>* G_active (cg_state r')"
proof -
  have run: "lifecycle_run demo_options UNIV demo_connected demo_disconnected"
    by (rule disconnect_run [OF demo_disconnects]) simp
  have "map_option cg_state (js_get (credentialGenerations (store demo_connected)) ''g'') = Some G_active"
    by code_simp
  then obtain r where "js_get (credentialGenerations (store demo_connected)) ''g'' = Some r"
    "cg_state r = G_active" by blast
  with custody_moves_forward [OF run this(1)] show ?thesis by auto
qed

text \<open>C5: from a store in which it holds, every interleaving keeps the credential material of
  cleaned-up and retired generations erased: neither ciphertext is left in the record.\<close>

theorem finished_custody_is_erased:
  assumes "lifecycle_run opt K st st'" "erased (gens st)"
    "js_get (credentialGenerations (store st')) i = Some r"
    "cg_state r \<in> {G_cleanup_complete, G_retired}"
  shows "cg_encryptedCredentialEnvelope r = None \<and> cg_encryptedLegacyCredential r = None"
  using run_custody [OF assms(1)] assms(2-) unfolding custody_ok_def erased_def no_material_def by blast

theorem finished_custody_is_erased_witness:
  "map_option cg_encryptedCredentialEnvelope
     (js_get (credentialGenerations (store demo_disconnected)) ''g'') = Some None"
proof -
  have run: "lifecycle_run demo_options UNIV demo_connected demo_disconnected"
    by (rule disconnect_run [OF demo_disconnects]) simp
  have "map_option cg_state (js_get (credentialGenerations (store demo_disconnected)) ''g'') =
      Some G_cleanup_complete"
    by code_simp
  then obtain r where r: "js_get (credentialGenerations (store demo_disconnected)) ''g'' = Some r"
    "cg_state r = G_cleanup_complete" by blast
  with finished_custody_is_erased [OF run demo_connected_custody(1) r(1)] show ?thesis by simp
qed

text \<open>Along every interleaving the generation of a connection never falls; it changes only by
  an authorization or a renewal, and never while the connection is disabled, except by an
  authorization.\<close>

lemma generation_monotone:
  assumes "lifecycle_run opt K st st'" "mirrored (store st)" "row_of opt identity st = Some c"
  shows "\<exists>c'. row_of opt identity st' = Some c' \<and> cr_generation c \<le> cr_generation c' \<and>
     (Authorizing \<notin> K \<and> Renewing \<notin> K \<longrightarrow> cr_generation c' = cr_generation c) \<and>
     (Authorizing \<notin> K \<and> cr_localDisabledAt c \<noteq> None \<longrightarrow>
        cr_localDisabledAt c' \<noteq> None \<and> cr_generation c' = cr_generation c) \<and>
     (Disconnecting \<notin> K \<and> cr_localDisabledAt c = None \<longrightarrow> cr_localDisabledAt c' = None)"
  using run_rows(2) [OF assms(1,2), of "key_of opt identity"] assms(3)
  unfolding row_ok_def row_step_def by blast

lemma generation_monotone_example:
  "\<exists>c'. row_of demo_options alice demo_disconnected = Some c' \<and> 1 \<le> cr_generation c'"
proof -
  have run: "lifecycle_run demo_options UNIV demo_connected demo_disconnected"
    by (rule disconnect_run [OF demo_disconnects]) simp
  have "map_option cr_generation (row_of demo_options alice demo_connected) = Some 1" by code_simp
  then obtain c where "row_of demo_options alice demo_connected = Some c" "cr_generation c = 1" by blast
  with generation_monotone [OF run demo_connected_mirrored this(1)] show ?thesis by auto
qed

section \<open>Stale authorizations\<close>

text \<open>The row no longer matches what the request saw: another generation, or the other flag.\<close>

definition row_changed :: "AuthorizationActivationGuard \<Rightarrow> ConnectionRecord \<Rightarrow> bool" where
  "row_changed g c \<longleftrightarrow>
     ag_generation g \<noteq> Some (cr_generation c) \<or> ag_locallyDisabled g \<noteq> Some (cr_localDisabledAt c \<noteq> None)"

lemma activationGuard_row_changed:
  assumes "row_of opt identity st = Some c" "row_changed g c"
  shows "\<not> activationGuardOk (Some g) (get_conn opt now identity st)"
proof -
  obtain c' where "get_conn opt now identity st = Some c'" "cr_generation c' = cr_generation c"
    "cr_localDisabledAt c' = cr_localDisabledAt c"
    using get_conn_of_row [OF assms(1)] by metis
  with assms(2) show ?thesis by (auto simp: activationGuardOk_def row_changed_def)
qed

lemma activateAuthorizedGeneration_refused:
  assumes "activateAuthorizedGeneration opt t identity scopes issued (Some g) st = (res, st')"
    "mirrored (store st)" "row_of opt identity st = Some c" "row_changed g c"
    "cr_credentialGenerationId c \<noteq> Some (op_uuid opt (uuidsDrawn st))"
  shows "(\<exists>e. res = Inl e) \<and> (disabled_in opt identity st \<longrightarrow> disabled_in opt identity st')"
proof -
  obtain i st1 where i: "randomUUID opt st = (i, st1)" by fastforce
  define q where "q = credentialCustodyRecord opt (t 0) identity
            \<lparr>dg_provider = op_provider opt,
             dg_generation = coalesce (Option.bind (Some g) ag_generation) 0 + 1,
             dg_credential = ig_credential issued,
             dg_activeCredentialExpiresAt = ig_activeCredentialExpiresAt issued,
             dg_renewalCredentialExpiresAt = ig_renewalCredentialExpiresAt issued,
             dg_grantedScopes = ig_grantedScopes issued\<rparr> i"
  define st2 where "st2 = acquireCredentialCustody q st1"
  have q: "cg_id q = op_uuid opt (uuidsDrawn st)"
    using i by (simp add: q_def credentialCustodyRecord_def randomUUID_def)
  have same: "same_rows st st2"
    unfolding st2_def acquire_is_save
    using randomUUID_same [OF i] save_gen_same by (blast intro: same_rows_trans)
  note run = assms(1) [unfolded activateAuthorizedGeneration_def i Let_def prod.case, folded q_def st2_def]
  have mir: "mirrored (store st2)" and row2: "row_of opt identity st2 = Some c"
    and dis: "disabled_in opt identity st \<Longrightarrow> disabled_in opt identity st2"
    using same assms(2,3) by (simp_all add: mirrored_same effective_row_same disabled_in_def)
  have clean: "disabled_in opt identity st \<longrightarrow> disabled_in opt identity st3"
    if "cleanupCustodiedGeneration opt now identity q st2 = (r, st3)" for now r st3
    using cleanupCustodiedGeneration_run [OF that, of "{Cleaning, Bookkeeping}"] mir dis
    by (auto intro: run_disabled)
  show ?thesis
  proof (cases "validateIssuedGeneration opt (t 1) identity scopes issued q")
    case (Inl e)
    with run clean show ?thesis by (auto split: prod.splits sum.splits)
  next
    case (Inr a)
    have sec: "activateAuthorizedSection opt (t 2) identity scopes issued (Some g) q a st2 =
        (Inl generationConflict, st2)"
      using activationGuard_row_changed [OF row2 assms(4)]
      by (simp add: activateAuthorizedSection_def Let_def)
    obtain c2 where "get_conn opt (t 3) identity st2 = Some c2"
      "cr_credentialGenerationId c2 = cr_credentialGenerationId c"
      using get_conn_of_row [OF row2] by metis
    with q assms(5) have "activationFailure opt (t 3) identity q generationConflict st2 =
        (case cleanupCustodiedGeneration opt (t 3) identity q st2 of
           (Inl e, st1) \<Rightarrow> (Inl e, st1) | (Inr _, st1) \<Rightarrow> (Inl generationConflict, st1))"
      by (simp add: activationFailure_def)
    with run Inr sec clean show ?thesis by (auto split: prod.splits sum.splits)
  qed
qed

text \<open>What a snapshot of an absent or enabled connection records.\<close>

lemma snapshot_enabled:
  assumes "Option.bind (get_conn opt now identity st) cr_localDisabledAt = None"
  obtains n where
    "ag_generation (snapshotAuthorizationGuard (get_conn opt now identity st)) = Some n"
    "ag_locallyDisabled (snapshotAuthorizationGuard (get_conn opt now identity st)) = Some False"
    "row_of opt identity st = None \<Longrightarrow> n = 0"
    "\<And>c. row_of opt identity st = Some c \<Longrightarrow> n = cr_generation c"
proof (cases "row_of opt identity st")
  case None
  then have "coalesce (map_option cr_generation (get_conn opt now identity st)) 0 = 0"
    using getConnection_no_row [of "store st" now "op_provider opt" "hi_issuer identity" "hi_subject identity"]
    by (cases "get_conn opt now identity st") (auto simp: get_conn_def authorizingRow_def)
  with None assms show ?thesis
    by (intro that [of 0]) (auto simp: snapshotAuthorizationGuard_def split: option.splits)
next
  case (Some c)
  then obtain c1 where "get_conn opt now identity st = Some c1" "cr_generation c1 = cr_generation c"
    using get_conn_of_row by metis
  with Some assms show ?thesis
    by (intro that [of "cr_generation c"])
      (auto simp: snapshotAuthorizationGuard_def syntheticAuthorization_def)
qed

text \<open>A row that was disabled after the snapshot never matches it again: it is disabled, or a later
  authorization has moved it to a higher generation.\<close>

lemma disconnect_outdates_snapshot:
  assumes "Option.bind (get_conn opt now0 identity s0) cr_localDisabledAt = None" "mirrored (store s0)"
    "lifecycle_run opt K0 s0 st0" "disconnect opt t identity scopes st0 = (Inr s, st1)"
    "lifecycle_run opt K st1 st2"
  obtains c where "row_of opt identity st2 = Some c"
    "row_changed (snapshotAuthorizationGuard (get_conn opt now0 identity s0)) c"
proof -
  obtain n where n: "ag_generation (snapshotAuthorizationGuard (get_conn opt now0 identity s0)) = Some n"
    "ag_locallyDisabled (snapshotAuthorizationGuard (get_conn opt now0 identity s0)) = Some False"
    "row_of opt identity s0 = None \<Longrightarrow> n = 0" "\<And>c. row_of opt identity s0 = Some c \<Longrightarrow> n = cr_generation c"
    using snapshot_enabled [OF assms(1)] by blast
  have mir: "mirrored (store st0)" by (rule run_rows(1) [OF assms(3,2)])
  have dis: "disabled_in opt identity st1" and mir1: "mirrored (store st1)"
    using disconnect_disables [OF assms(4) mir] by auto
  then obtain c1 where c1: "row_of opt identity st1 = Some c1" "cr_localDisabledAt c1 \<noteq> None"
    by (auto simp: disabled_in_def split: option.splits)
  have "n \<le> cr_generation c1"
  proof (cases "row_of opt identity s0")
    case (Some c)
    have "lifecycle_run opt (K0 \<union> UNIV) s0 st1"
      using run_trans [OF run_mono [OF assms(3)] disconnect_run [OF assms(4)]] by simp
    from run_rows(2) [OF this assms(2), of "key_of opt identity"] Some c1(1) n(4) show ?thesis
      by (auto simp: row_ok_def row_step_def)
  qed (simp add: n(3))
  moreover obtain c2 where c2: "row_of opt identity st2 = Some c2" "row_step K c1 c2"
    using run_rows(2) [OF assms(5) mir1, of "key_of opt identity"] c1(1) by (auto simp: row_ok_def)
  ultimately have "row_changed (snapshotAuthorizationGuard (get_conn opt now0 identity s0)) c2"
    using n(1,2) c1(2) by (auto simp: row_changed_def row_step_def)
  with c2(1) show ?thesis by (rule that)
qed

text \<open>C3: an authorization that was started while the principal had no connection, or an enabled
  one, cannot complete once the connection has been disconnected in the meantime. The request
  carries the snapshot of what it started from; anything may run between the start and the
  disconnect and anything between the disconnect and the callback, other authorizations that
  complete included: the activation is refused. Where no other authorization ran after the
  disconnect, the connection also stays without a credential. The identifier drawn for the
  candidate is assumed not to be the one already on the row. An authorization started on a connection that
  was already disabled carries another snapshot and is not the subject of this statement.\<close>

theorem stale_authorization_refused:
  assumes "Option.bind (get_conn opt now0 identity s0) cr_localDisabledAt = None" "mirrored (store s0)"
    "lifecycle_run opt K0 s0 st0" "disconnect opt t identity scopes st0 = (Inr s, st1)"
    "lifecycle_run opt K st1 st2"
    "map_option cr_credentialGenerationId (row_of opt identity st2) \<noteq> Some (Some (op_uuid opt (uuidsDrawn st2)))"
    "activateAuthorizedGeneration opt t' identity scopes' issued
       (Some (snapshotAuthorizationGuard (get_conn opt now0 identity s0))) st2 = (res, st3)"
  shows "(\<exists>e. res = Inl e) \<and>
     (Authorizing \<notin> K \<longrightarrow>
        getActiveCredential opt t'' polls identity req grant st3 = (Inl reauthorizationRequired, st3))"
proof -
  obtain c where c: "row_of opt identity st2 = Some c"
    "row_changed (snapshotAuthorizationGuard (get_conn opt now0 identity s0)) c"
    using disconnect_outdates_snapshot [OF assms(1-5)] .
  have dis: "disabled_in opt identity st1" and mir1: "mirrored (store st1)"
    using disconnect_disables [OF assms(4) run_rows(1) [OF assms(3,2)]] by auto
  have refused: "(\<exists>e. res = Inl e) \<and> (disabled_in opt identity st2 \<longrightarrow> disabled_in opt identity st3)"
    using activateAuthorizedGeneration_refused [OF assms(7) run_rows(1) [OF assms(5) mir1] c] assms(6) c(1)
    by simp
  moreover have "disabled_in opt identity st2" if "Authorizing \<notin> K"
    by (rule run_disabled [OF assms(5) mir1 that dis])
  ultimately show ?thesis by (auto intro: getActiveCredential_disabled)
qed

theorem stale_authorization_refused_witness:
  "getActiveCredential demo_options (\<lambda>i. 4000) [] alice (FlatScopes []) None
     (snd (activateAuthorizedGeneration demo_options (\<lambda>i. 3000 + int i) alice [''read''] demo_issued
       (Some (snapshotAuthorizationGuard (get_conn demo_options 1500 alice demo_connected)))
       demo_disconnected)) =
   (Inl reauthorizationRequired,
    snd (activateAuthorizedGeneration demo_options (\<lambda>i. 3000 + int i) alice [''read''] demo_issued
       (Some (snapshotAuthorizationGuard (get_conn demo_options 1500 alice demo_connected)))
       demo_disconnected))"
proof -
  have "Option.bind (get_conn demo_options 1500 alice demo_connected) cr_localDisabledAt = None"
    by code_simp
  moreover have "map_option cr_credentialGenerationId (row_of demo_options alice demo_disconnected) \<noteq>
      Some (Some (op_uuid demo_options (uuidsDrawn demo_disconnected)))" by code_simp
  ultimately show ?thesis
    using stale_authorization_refused [where K = "{}" and ?now0.0 = 1500,
        OF _ demo_connected_mirrored run_refl demo_disconnects run_refl _ prod.collapse [symmetric]]
    by blast
qed

section \<open>Stale renewals\<close>

lemma update_gen_True:
  assumes "update_gen r state n st = (True, st')"
  shows "gens st' i = (if i = cg_id r then Some r else gens st i)"
  using assms by (auto simp: update_gen_def updateCredentialGeneration_True js_map_simps split: prod.splits)

text \<open>The writes of a successful activation, in order.\<close>

lemma activateRenewedGeneration_refreshed:
  assumes "activateRenewedGeneration opt now identity p st = (Inr (refreshed, b), st')"
  obtains c superseded ac st1 st2 where
    "get_conn opt now identity st = Some c" "cr_generation c = cr_generation (pr_current p)"
    "cr_localDisabledAt c = None" "cr_updatedAt c = cr_updatedAt (pr_current p)"
    "supersededGeneration opt identity p c st = Inr superseded"
    "cg_state ac = G_active" "cg_id ac = cg_id (pr_candidate p)" "update_gen ac G_candidate 0 st = (True, st1)"
    "save_conn (renewedConnection opt now p c) (connectionWriteGuard (Some (pr_current p))) st1 = (True, st2)"
    "case superseded of None \<Rightarrow> st' = st2
      | Some r \<Rightarrow> update_gen (retiredGeneration now r) G_active (cg_cleanupAttempts r) st2 = (True, st')"
  using assms
proof (cases rule: activateRenewedGeneration_cases)
  case (writes c superseded ac ok1 st1)
  then have ok1 by blast
  with writes(10) obtain st2 where s: "save_conn (renewedConnection opt now p c)
      (connectionWriteGuard (Some (pr_current p))) st1 = (True, st2)"
    "case superseded of None \<Rightarrow> st' = st2
      | Some r \<Rightarrow> update_gen (retiredGeneration now r) G_active (cg_cleanupAttempts r) st2 = (True, st')"
    by (cases superseded) auto
  show thesis by (rule that [OF writes(1-7) _ s]) (use writes(8) \<open>ok1\<close> in simp)
qed blast

lemma superseded_id:
  assumes "supersededGeneration opt identity p c st = Inr superseded"
  shows "superseded = Some q \<Longrightarrow> cg_id q \<noteq> cg_id (pr_candidate p)"
    "cr_credentialGenerationId c = Some old \<Longrightarrow> old \<noteq> [] \<Longrightarrow> old \<noteq> cg_id (pr_candidate p) \<Longrightarrow>
     \<exists>q. superseded = Some q \<and> cg_id q = old"
  using assms
  by (auto simp: supersededGeneration_def find_Some_iff truthy_def split: if_splits option.splits)

text \<open>C4: a renewed credential becomes the connection's credential only if the connection is still
  the one the renewal started from (same generation, same version, not disabled). Then the
  generation is raised by one, the row points to the renewed generation, which is active in custody, and
  the generation it replaces is retired without its material.\<close>

theorem renewal_activates_only_current:
  assumes "activateRenewedGeneration opt now identity p st = (Inr (refreshed, b), st')"
    "mirrored (store st)"
  shows "\<exists>c. get_conn opt now identity st = Some c \<and>
     cr_generation c = cr_generation (pr_current p) \<and> cr_updatedAt c = cr_updatedAt (pr_current p) \<and>
     cr_localDisabledAt c = None \<and>
     row_of opt identity st' = Some (renewedConnection opt now p c) \<and>
     (\<exists>r. js_get (credentialGenerations (store st')) (cg_id (pr_candidate p)) = Some r \<and>
          cg_state r = G_active) \<and>
     (\<forall>old. cr_credentialGenerationId c = Some old \<and> old \<noteq> [] \<and> old \<noteq> cg_id (pr_candidate p) \<longrightarrow>
        (\<exists>r. js_get (credentialGenerations (store st')) old = Some r \<and> cg_state r = G_retired \<and>
             no_material r))"
  using assms(1)
proof (cases rule: activateRenewedGeneration_refreshed)
  case (1 c superseded ac st1 st2)
  have key: "conn_key c = key_of opt identity"
    using getConnection_key [OF assms(2)] 1(1) by (simp add: get_conn_def)
  have "row_of opt identity st2 = Some (renewedConnection opt now p c)"
    using save_conn_True [of "renewedConnection opt now p c"] 1(9) key by simp
  moreover have "same_rows st2 st'" using 1(10) by (auto split: option.splits dest: update_gen_same)
  ultimately have row: "row_of opt identity st' = Some (renewedConnection opt now p c)"
    by (simp add: effective_row_same)
  have "gens st2 (cg_id (pr_candidate p)) = Some ac"
    using update_gen_True [OF 1(8)] save_conn_same [OF 1(9)] 1(7) by (simp add: same_custody_def)
  then have "gens st' (cg_id (pr_candidate p)) = Some ac"
    using 1(10) superseded_id(1) [OF 1(5)] by (auto simp: update_gen_True split: option.splits)
  moreover have "\<exists>r. gens st' old = Some r \<and> cg_state r = G_retired \<and> no_material r"
    if "cr_credentialGenerationId c = Some old" "old \<noteq> []" "old \<noteq> cg_id (pr_candidate p)" for old
    using superseded_id(2) [OF 1(5) that] 1(10) by (auto dest!: update_gen_True [of _ _ _ _ _ old])
  ultimately show ?thesis using 1 row by blast
qed

definition demo_prepared :: "preparation \<times> lstate" where
  "demo_prepared =
     (case prepareRenewalSection demo_options 5000 alice (FlatScopes [''read'']) True False None demo_connected of
        (Inr (PrepCandidate p), st) \<Rightarrow> (p, st))"

lemma demo_prepared_mirrored: "mirrored (store (snd demo_prepared))"
proof -
  obtain r st where s: "prepareRenewalSection demo_options 5000 alice (FlatScopes [''read'']) True False None
      demo_connected = (r, st)" by fastforce
  have "(case fst (prepareRenewalSection demo_options 5000 alice (FlatScopes [''read'']) True False None
      demo_connected) of Inr (PrepCandidate p) \<Rightarrow> True | _ \<Rightarrow> False)" by code_simp
  with s have "snd demo_prepared = st"
    by (auto simp: demo_prepared_def split: sum.splits RenewalPreparation.splits)
  moreover have "lifecycle_run demo_options {Renewing} demo_connected st"
    using s by (auto intro: run_sections)
  ultimately show ?thesis using run_rows(1) demo_connected_mirrored by blast
qed

theorem renewal_activates_only_current_witness:
  "\<exists>r. js_get (credentialGenerations (store (snd (activateRenewedGeneration demo_options 6000 alice
          (fst demo_prepared) (snd demo_prepared))))) ''g'' = Some r \<and>
       cg_state r = G_retired \<and> no_material r"
proof -
  let ?run = "activateRenewedGeneration demo_options 6000 alice (fst demo_prepared) (snd demo_prepared)"
  have "fst ?run = Inr (refreshed, False)" by code_simp
  then have run: "?run = (Inr (refreshed, False), snd ?run)" by (simp add: prod_eq_iff)
  have "map_option cr_credentialGenerationId (get_conn demo_options 6000 alice (snd demo_prepared)) = Some (Some ''g'')"
    "cg_id (pr_candidate (fst demo_prepared)) \<noteq> ''g''"
    by code_simp+
  with renewal_activates_only_current [OF run demo_prepared_mirrored] show ?thesis by auto
qed

end
