(* ===== verification/Lifecycle_Progress.thy ===== *)
theory Lifecycle_Progress
  imports Lifecycle_Safety
begin

text \<open>
  What the operations of the lifecycle achieve: a disconnect hands over every credential of the
  principal and always goes through, a lapsed credential is renewed, \<open>getActiveCredential\<close>
  answers only with a credential that serves the request, a cleanup result is recorded once.
\<close>

section \<open>Handing credentials over to cleanup\<close>

lemma list_gens_iff:
  assumes "custody_keyed (store st)"
  shows "r \<in> set (list_gens opt identity st) \<longleftrightarrow>
     gens st (cg_id r) = Some r \<and> of_principal (op_provider opt) (hi_issuer identity) (hi_subject identity) r"
proof -
  let ?al = "credentialGenerations (store st)"
  have "r \<in> set (map snd ?al) \<longleftrightarrow> (\<exists>i. (i, r) \<in> set ?al)" by force
  also have "\<dots> \<longleftrightarrow> (cg_id r, r) \<in> set ?al"
    using assms by (auto simp: custody_keyed_def list_all_iff)
  also have "\<dots> \<longleftrightarrow> gens st (cg_id r) = Some r"
    using assms by (simp add: custody_keyed_def)
  finally show ?thesis
    by (simp add: list_gens_def listPrincipalCredentialGenerations_def conj_commute)
qed

lemma list_gens_distinct:
  assumes "custody_keyed (store st)"
  shows "distinct (map cg_id (list_gens opt identity st))"
proof -
  have "map cg_id (map snd (credentialGenerations (store st))) = map fst (credentialGenerations (store st))"
    using assms by (auto simp: custody_keyed_def list_all_iff)
  then have "distinct (map cg_id (map snd (credentialGenerations (store st))))"
    using assms by (simp add: custody_keyed_def del: map_map)
  then show ?thesis
    unfolding list_gens_def listPrincipalCredentialGenerations_def by (rule distinct_map_filter)
qed

lemma update_gen_applies:
  assumes "gens st (cg_id r) = Some old" "update_gen r (cg_state old) (cg_cleanupAttempts old) st = (ok, st')"
  shows "ok" "gens st' = (gens st)(cg_id r \<mapsto> r)"
proof -
  obtain s where u: "updateCredentialGeneration r (cg_state old) (cg_cleanupAttempts old) (store st) = (ok, s)"
    "st' = st\<lparr>store := s\<rparr>" using assms(2) by (auto simp: update_gen_def split: prod.splits)
  from mem.cas_applies [OF assms(1) refl refl] u(1) show ok by simp
  with u mem.cas_gen [of r "cg_state old" "cg_cleanupAttempts old" "store st" s]
  show "gens st' = (gens st)(cg_id r \<mapsto> r)" by (simp add: fun_eq_iff)
qed

lemma handoffRecords_done:
  assumes "handoffRecords now rs st = (out, st')" "distinct (map cg_id rs)"
    "\<And>r. r \<in> set rs \<Longrightarrow> gens st (cg_id r) = Some r"
  shows "(\<forall>r \<in> set rs. gens st' (cg_id r) =
            Some (if cg_state r \<in> {G_active, G_candidate}
                  then r\<lparr>cg_state := G_cleanup_pending, cg_updatedAt := now\<rparr> else r)) \<and>
     (\<forall>i. i \<notin> cg_id ` set rs \<longrightarrow> gens st' i = gens st i)"
  using assms
proof (induction rs arbitrary: st out)
  case (Cons r rs)
  show ?case
  proof (cases "cg_state r \<in> {G_active, G_candidate}")
    case True
    define pending where "pending = r\<lparr>cg_state := G_cleanup_pending, cg_updatedAt := now\<rparr>"
    obtain ok st1 where u: "update_gen pending (cg_state r) (cg_cleanupAttempts r) st = (ok, st1)" by fastforce
    have g1: "gens st1 = (gens st)(cg_id r \<mapsto> pending)"
      using update_gen_applies(2) [of st pending r ok st1] u Cons.prems(3) [of r]
      by (simp add: pending_def fun_eq_iff)
    obtain out1 where h: "handoffRecords now rs st1 = (out1, st')"
      using Cons.prems(1) True u by (auto simp: pending_def [symmetric] split: prod.splits)
    have "\<And>q. q \<in> set rs \<Longrightarrow> gens st1 (cg_id q) = Some q"
      using Cons.prems(2,3) g1 by (auto simp: image_iff)
    with Cons.IH [OF h] Cons.prems(2) g1 True show ?thesis by (auto simp: pending_def image_iff)
  next
    case False
    with Cons.prems(1) have "handoffRecords now rs st = (out, st')" by auto
    from Cons.IH [OF this] Cons.prems(2,3) False show ?thesis by (auto simp: image_iff)
  qed
qed simp

text \<open>C6: after the locked section of a disconnect no credential of the principal is left that a
  caller could use or activate: every custody record of the principal is out of the states
  \<open>active\<close> and \<open>candidate\<close>.\<close>

theorem disconnect_hands_over_everything:
  assumes "disconnectSection opt now identity scopes st = (res, st')" "res \<noteq> Inl generationConflict"
    "custody_keyed (store st)" "r \<in> set (list_gens opt identity st')"
  shows "cg_state r \<noteq> G_active \<and> cg_state r \<noteq> G_candidate"
  using assms(1)
proof (cases rule: disconnectSection_cases [where K = UNIV])
  case (1 st1 q g saved st2 out st3)
  with assms(2) have saved: "saved" "st' = st3" by auto
  have h: "handoffRecords now (list_gens opt identity st2) st2 = (out, st')"
    using 1(7) saved by (simp add: handoffPrincipalCredentialGenerations_def)
  have k2: "custody_keyed (store st2)"
    using 1(1) save_conn_same [OF 1(3)] assms(3)
    by (simp add: moves_def custody_ok_def same_custody_def custody_keyed_def)
  have "custody_keyed (store st')"
    using handoffRecords_moves [OF h, of UNIV] k2 by (simp add: moves_def custody_ok_def)
  with assms(4) have r: "gens st' (cg_id r) = Some r"
    "of_principal (op_provider opt) (hi_issuer identity) (hi_subject identity) r"
    by (simp_all add: list_gens_iff)
  have handed: "(\<forall>r \<in> set (list_gens opt identity st2). gens st' (cg_id r) =
            Some (if cg_state r \<in> {G_active, G_candidate}
                  then r\<lparr>cg_state := G_cleanup_pending, cg_updatedAt := now\<rparr> else r)) \<and>
     (\<forall>i. i \<notin> cg_id ` set (list_gens opt identity st2) \<longrightarrow> gens st' i = gens st2 i)"
    by (rule handoffRecords_done [OF h list_gens_distinct [OF k2]]) (simp add: list_gens_iff [OF k2])
  show ?thesis
  proof (cases "cg_id r \<in> cg_id ` set (list_gens opt identity st2)")
    case True
    then obtain x where "x \<in> set (list_gens opt identity st2)" "cg_id r = cg_id x" by blast
    with handed r(1) have "r = (if cg_state x \<in> {G_active, G_candidate}
        then x\<lparr>cg_state := G_cleanup_pending, cg_updatedAt := now\<rparr> else x)" by fastforce
    then show ?thesis by (auto split: if_splits)
  next
    case False
    with handed r(1) have "gens st2 (cg_id r) = Some r" by auto
    with r(2) have "r \<in> set (list_gens opt identity st2)" by (simp add: list_gens_iff [OF k2])
    with False show ?thesis by blast
  qed
qed

theorem disconnect_hands_over_everything_witness:
  "list_gens demo_options alice (snd (disconnectSection demo_options 2000 alice [] demo_connected)) \<noteq> [] \<and>
   cg_state (hd (list_gens demo_options alice
     (snd (disconnectSection demo_options 2000 alice [] demo_connected)))) \<noteq> G_active"
proof -
  let ?run = "disconnectSection demo_options 2000 alice [] demo_connected"
  have "fst ?run \<noteq> Inl generationConflict" "list_gens demo_options alice (snd ?run) \<noteq> []"
    by code_simp+
  with disconnect_hands_over_everything [OF prod.collapse [symmetric] _ demo_connected_custody(2) hd_in_set]
  show ?thesis by blast
qed

section \<open>Cleanup results\<close>

lemma finalizeRevocationInStore_same:
  "finalizeRevocationInStore opt now identity n result gid st = (res, st') \<Longrightarrow> same_custody st st'"
  by (auto simp: finalizeRevocationInStore_def same_custody_def split: option.splits if_splits prod.splits
      dest: save_conn_same [unfolded same_custody_def])

lemma finalizeCredentialCleanup_True:
  assumes "finalizeCredentialCleanup opt now identity r result st = (Inr True, st')"
  shows "gens st' (cg_id r) = Some (cleanedGeneration now result r)"
proof -
  obtain ok st1 where u: "update_gen (cleanedGeneration now result r) G_cleanup_pending
      (cg_cleanupAttempts r) st = (ok, st1)" by fastforce
  with assms have ok: "ok" by (auto simp: finalizeCredentialCleanup_def split: if_splits)
  then have "gens st1 (cg_id r) = Some (cleanedGeneration now result r)"
    using u by (auto simp: update_gen_def updateCredentialGeneration_True js_map_simps split: prod.splits)
  moreover have "same_custody st1 st'"
    using assms u ok finalizeRevocationInStore_same
    by (auto simp: finalizeCredentialCleanup_def split: prod.splits sum.splits)
  ultimately show ?thesis by (simp add: same_custody_def)
qed

lemma finalizeCredentialCleanup_stale:
  assumes "gens st (cg_id r) = Some old" "cg_cleanupAttempts r < cg_cleanupAttempts old"
  shows "finalizeCredentialCleanup opt now identity r result st = (Inr False, st)"
  using assms
  by (simp add: finalizeCredentialCleanup_def update_gen_def updateCredentialGeneration_def)

text \<open>The result of a provider revocation is recorded at most once per attempt. Two workers that
  read the same version of a custody record both call the provider, but once one of them has
  recorded its result, the other's is dropped, whatever else runs in between.\<close>

lemma cleanup_recorded_once:
  assumes "finalizeCredentialCleanup opt now identity r result st = (Inr True, st1)"
    "lifecycle_run opt K st1 st2" "cg_id r' = cg_id r" "cg_cleanupAttempts r' = cg_cleanupAttempts r"
  shows "finalizeCredentialCleanup opt now' identity' r' result' st2 = (Inr False, st2)"
proof -
  obtain old where "gens st2 (cg_id r) = Some old"
    "cg_cleanupAttempts (cleanedGeneration now result r) \<le> cg_cleanupAttempts old"
    using run_evolves [OF assms(2)] finalizeCredentialCleanup_True [OF assms(1)]
    unfolding evolves_def by blast
  with assms(3,4) show ?thesis by (intro finalizeCredentialCleanup_stale [of _ _ old]) auto
qed

definition demo_handed :: "disabling \<times> lstate" where
  "demo_handed =
     (case disconnectSection demo_options 2000 alice [] demo_connected of (r, st) \<Rightarrow> (projr r, st))"

lemma cleanup_recorded_once_example:
  "fst (finalizeCredentialCleanup demo_options 2200 alice (hd (di_detached (fst demo_handed))) Res_revoked
     (snd (finalizeCredentialCleanup demo_options 2100 alice (hd (di_detached (fst demo_handed)))
        Res_retryable_failure (snd demo_handed)))) = Inr False"
proof -
  let ?run = "finalizeCredentialCleanup demo_options 2100 alice (hd (di_detached (fst demo_handed)))
        Res_retryable_failure (snd demo_handed)"
  have "fst ?run = Inr True" by code_simp
  then have "?run = (Inr True, snd ?run)" by (simp add: prod_eq_iff)
  from cleanup_recorded_once [OF this run_refl [of demo_options "{}"] refl refl] show ?thesis by simp
qed

section \<open>A disconnect goes through\<close>

lemma save_conn_consistent:
  assumes "save_conn r g st = (ok, st')" "store_consistent (store st)" "rowlike r"
  shows "store_consistent (store st')"
  using mem.save_invar [OF assms(2,3), of g] assms(1) by (auto simp: save_conn_def split: prod.splits)

lemma rowlike_disabled: "cr_localDisabledAt r \<noteq> None \<Longrightarrow> rowlike r"
  by (auto simp: rowlike_def)

lemma store_consistent_same: "same_rows st st' \<Longrightarrow> store_consistent (store st') = store_consistent (store st)"
  by (simp add: same_rows_def store_consistent_def mirrored_def)

lemma save_read_succeeds:
  assumes "store_consistent (store st)" "get_conn opt now identity st = c" "same_rows st st1"
    "conn_key r = key_of opt identity" "save_conn r (connectionWriteGuard c) st1 = (ok, st')"
  shows ok
proof -
  have "guardMatches (store st) (key_of opt identity) (connectionWriteGuard c)"
    by (rule guard_of_read [OF assms(1)]) (use assms(2) in \<open>simp add: get_conn_def\<close>)
  with assms(3) have "guardMatches (store st1) (conn_key r) (connectionWriteGuard c)"
    by (simp add: guardMatches_def same_rows_def assms(4))
  with assms(5) show ok
    by (auto simp: save_conn_def saveConnection_def Let_def split: prod.splits if_splits)
qed

definition readable :: "options \<Rightarrow> ConnectionRecord option \<Rightarrow> bool" where
  "readable opt c \<longleftrightarrow>
     (case c of None \<Rightarrow> True
      | Some r \<Rightarrow> cr_activeCredentialPresent r \<or> cr_renewalCredentialPresent r \<longrightarrow>
                 \<not> isl (decryptGeneration opt r))"

lemma disconnectSection_succeeds:
  assumes "disconnectSection opt now identity scopes st = (res, st')" "store_consistent (store st)"
    "readable opt (get_conn opt now identity st)"
  shows "(\<exists>d. res = Inr d) \<and> store_consistent (store st')"
  using assms(1)
proof (cases rule: disconnectSection_cases [where K = UNIV])
  case (1 st1 r g saved st2 out st3)
  have r: "conn_key r = key_of opt identity" "cr_localDisabledAt r \<noteq> None"
    using 1(5) getConnection_key [OF store_consistent_mirrored [OF assms(2)]]
    by (auto simp: get_conn_def)
  have saved: saved
    by (rule save_read_succeeds [OF assms(2) refl 1(2) r(1) 1(3) [unfolded 1(4)]])
  have "store_consistent (store st2)"
    using save_conn_consistent [OF 1(3) _ rowlike_disabled [OF r(2)]] assms(2)
    by (simp add: store_consistent_same [OF 1(2)])
  moreover have "same_rows st2 st3"
    using 1(7) by (auto simp: handoffPrincipalCredentialGenerations_def dest: handoff_same_rows)
  ultimately have "store_consistent (store st')"
    using 1(8) saved by (simp add: store_consistent_same)
  then show ?thesis
    using 1(9) [OF saved] assms(3) by (auto simp: readable_def)
qed

lemma finalizeRevocationInStore_succeeds:
  assumes "finalizeRevocationInStore opt now identity n result gid st = (res, st')"
    "store_consistent (store st)"
  shows "res = Inr ()"
proof (rule ccontr)
  assume "res \<noteq> Inr ()"
  with assms(1) obtain c st1 where c: "get_conn opt now identity st = Some c"
    "save_conn (revokedConnection opt now result c) (connectionWriteGuard (Some c)) st = (False, st1)"
    by (auto simp: finalizeRevocationInStore_def split: option.splits if_splits prod.splits)
  have "conn_key c = key_of opt identity"
    using getConnection_key [OF store_consistent_mirrored [OF assms(2)]] c(1) by (simp add: get_conn_def)
  with save_read_succeeds [OF assms(2) c(1) same_rows_refl _ c(2)] show False by simp
qed

lemma finalizeCredentialCleanup_succeeds:
  assumes "finalizeCredentialCleanup opt now identity r result st = (res, st')" "store_consistent (store st)"
  shows "\<exists>b. res = Inr b"
proof -
  obtain ok st1 where u: "update_gen (cleanedGeneration now result r) G_cleanup_pending
      (cg_cleanupAttempts r) st = (ok, st1)" by fastforce
  have "store_consistent (store st1)"
    using assms(2) by (simp add: store_consistent_same [OF update_gen_same [OF u]])
  with assms(1) u finalizeRevocationInStore_succeeds show ?thesis
    by (fastforce simp: finalizeCredentialCleanup_def split: if_splits prod.splits sum.splits)
qed

lemma settleDisabled_succeeds:
  assumes "settleDisabled opt now identity d st = (res, st')" "store_consistent (store st)"
  shows "res = Inr ()"
proof (cases "di_disabled d")
  case None
  with assms(1) show ?thesis by (simp add: settleDisabled_def)
next
  case (Some g)
  define F where "F = (case List.find (\<lambda>r. Some (cg_id r) = di_custodyId d) (di_detached d) of
       Some custody \<Rightarrow> map_prod (map_sum id (\<lambda>_. ())) id
         (finalizeCredentialCleanup opt now identity custody (revoke opt g) st)
     | None \<Rightarrow> finalizeRevocationInStore opt now identity (dg_generation g) (revoke opt g) None st)"
  obtain r st1 where f: "F = (r, st1)" by fastforce
  then have "r = Inr ()"
    using assms(2) finalizeRevocationInStore_succeeds finalizeCredentialCleanup_succeeds unfolding F_def
    by (fastforce simp: map_prod_def split: option.splits prod.splits)
  with assms(1) Some f show ?thesis
    unfolding settleDisabled_def F_def Let_def by (auto split: if_splits)
qed

lemma status_disabled:
  assumes "disabled_in opt identity st"
  shows "\<not> st_connected (fst (status opt now identity scopes st))"
proof -
  obtain c where "get_conn opt now identity st = Some c" "cr_localDisabledAt c \<noteq> None"
    using get_conn_disabled [OF assms] by metis
  then show ?thesis
    by (auto simp: status_def backfillProviderAccountIdentity_def statusFromRecord_def split: prod.splits)
qed

text \<open>C7: on a consistent store, and if a credential that is present can be decrypted, a disconnect is
  never refused by a conflicting write: it returns, and the status it reports is not connected.
  The outcome of the provider's revocation does not matter.\<close>

theorem disconnect_goes_through:
  assumes "store_consistent (store st)" "readable opt (get_conn opt (t 0) identity st)"
  shows "\<exists>s. fst (disconnect opt t identity scopes st) = Inr s \<and> \<not> st_connected s"
proof -
  obtain r st1 where s: "disconnectSection opt (t 0) identity scopes st = (r, st1)" by fastforce
  from disconnectSection_succeeds [OF s assms] obtain d where d: "r = Inr d" "store_consistent (store st1)"
    by blast
  obtain r2 st2 where f: "settleDisabled opt (t 1) identity d st1 = (r2, st2)" by fastforce
  with d have r2: "r2 = Inr ()" by (blast dest: settleDisabled_succeeds)
  define st4 where "st4 = emit opt (t 2) identity ''disconnect'' ''allow'' None (retryAll opt (t 2)
        (filter (\<lambda>r. Some (cg_id r) \<noteq> di_custodyId d) (di_detached d)) st2)"
  have run: "lifecycle_run opt {Cleaning, Bookkeeping} st1 st4"
    unfolding st4_def using settleDisabled_run [OF f, of "{Cleaning, Bookkeeping}"]
    by (auto intro!: run_emit run_trans [OF _ retryAll_run])
  have "disabled_in opt identity st1"
    by (rule disconnectSection_disables [OF s]) (use assms(1) d in \<open>auto dest: store_consistent_mirrored\<close>)
  then have "disabled_in opt identity st4"
    using run_disabled [OF run] d(2) store_consistent_mirrored by blast
  moreover have "fst (disconnect opt t identity scopes st) = Inr (fst (status opt (t 2) identity scopes st4))"
    using s d f r2 by (simp add: disconnect_def Let_def st4_def split: prod.splits)
  ultimately show ?thesis using status_disabled by blast
qed

lemma demo_connected_consistent: "store_consistent (store demo_connected)"
proof -
  have "list_all (\<lambda>(k, c). rowlike c) (connections (store demo_connected))" by code_simp
  then show ?thesis
    using demo_connected_mirrored by (auto simp: store_consistent_def list_all_iff dest: map_of_SomeD)
qed

theorem disconnect_goes_through_witness:
  "\<exists>s. fst (disconnect demo_options (\<lambda>i. 2000 + int i) alice [] demo_connected) = Inr s \<and> \<not> st_connected s"
proof -
  have "readable demo_options (get_conn demo_options (2000 + int 0) alice demo_connected)" by code_simp
  from disconnect_goes_through [of _ _ "\<lambda>i. 2000 + int i", OF demo_connected_consistent this]
  show ?thesis .
qed

section \<open>Reading the active credential\<close>

lemma get_conn_connected:
  assumes "row_of opt identity st = Some c" "cr_localDisabledAt c = None" "cr_phase c = Ph_connected"
    "js_get (connections (store st)) (key_of opt identity) \<noteq> None"
  shows "get_conn opt now identity st = Some c"
  using assms mem.get_connected by (auto simp: get_conn_def effective_row_def)

lemma save_conn_connected:
  assumes "save_conn r g st = (True, st')" "cr_localDisabledAt r = None" "cr_phase r = Ph_connected"
    "conn_key r = key_of opt identity"
  shows "get_conn opt now identity st' = Some r"
proof -
  have "js_get (connections (store st')) (key_of opt identity) = Some r"
    using assms(1,4) by (auto simp: save_conn_def saveConnection_rowD split: prod.splits)
  then show ?thesis using assms(2,3) mem.get_connected by (auto simp: get_conn_def)
qed






section \<open>A lapsed credential is renewed\<close>

lemma find_gen:
  assumes "custody_keyed (store st)" "gens st i = Some r"
    "of_principal (op_provider opt) (hi_issuer identity) (hi_subject identity) r"
  shows "List.find (\<lambda>g. cg_id g = i) (list_gens opt identity st) = Some r"
proof -
  have i: "cg_id r = i"
    using assms(1,2) by (auto simp: custody_keyed_def list_all_iff dest: map_of_SomeD)
  with assms have mem: "r \<in> set (list_gens opt identity st)" by (simp add: list_gens_iff)
  then obtain q where q: "List.find (\<lambda>g. cg_id g = i) (list_gens opt identity st) = Some q"
    using i by (cases "List.find (\<lambda>g. cg_id g = i) (list_gens opt identity st)") (auto simp: find_None_iff)
  then have "q \<in> set (list_gens opt identity st)" "cg_id q = i"
    by (auto simp: find_Some_iff)
  with assms(1,2) have "q = r" by (simp add: list_gens_iff)
  with q show ?thesis by simp
qed

text \<open>The circumstances under which a renewal succeeds: an enabled, connected row whose credential
  can be read, a provider that renews it and, where it reports account identities, attests the
  account of the new credential, a grant the caller expected before and after, nothing unresolved
  in custody, the credential's own custody record in place, a fresh identifier.\<close>

record renewable =
  rn_row :: ConnectionRecord
  rn_old :: DecryptedCredentialGeneration
  rn_new :: RenewedCredentialGeneration
  rn_identity :: "ValidatedProviderIdentity option"

definition grantAfter :: "renewable \<Rightarrow> string list" where
  "grantAfter w = coalesce (rg_grantedScopes (rn_new w)) (cr_grantedScopes (rn_row w))"

text \<open>The generation the provider is asked to attest.\<close>

definition attestedGeneration :: "options \<Rightarrow> renewable \<Rightarrow> DecryptedCredentialGeneration" where
  "attestedGeneration opt w =
     \<lparr>dg_provider = op_provider opt, dg_generation = cr_generation (rn_row w) + 1,
      dg_credential = mergeRotatedCredential (dg_credential (rn_old w)) (rg_credential (rn_new w)),
      dg_activeCredentialExpiresAt = rg_activeCredentialExpiresAt (rn_new w),
      dg_renewalCredentialExpiresAt = orelse (rg_renewalCredentialExpiresAt (rn_new w))
        (dg_renewalCredentialExpiresAt (rn_old w)),
      dg_grantedScopes = grantAfter w\<rparr>"

definition accountAttested :: "options \<Rightarrow> Hop1Identity \<Rightarrow> renewable \<Rightarrow> bool" where
  "accountAttested opt identity w \<longleftrightarrow>
     (case (ad_validateIdentity (op_adapter opt), rn_identity w) of
        (Some validate, Some v) \<Rightarrow>
          validate (attestedGeneration opt w) identity = Inr v \<and> vi_providerAccount v \<noteq> None
      | _ \<Rightarrow> False)"

definition renewalReady ::
  "options \<Rightarrow> time_ms \<Rightarrow> Hop1Identity \<Rightarrow> ScopeRequirementInput \<Rightarrow> string list option \<Rightarrow> lstate \<Rightarrow>
   renewable \<Rightarrow> bool" where
  "renewalReady opt now identity req grant st w \<longleftrightarrow>
     store_consistent (store st) \<and> custody_keyed (store st) \<and>
     js_get (connections (store st)) (key_of opt identity) = Some (rn_row w) \<and>
     cr_localDisabledAt (rn_row w) = None \<and> cr_phase (rn_row w) = Ph_connected \<and>
     scopeRequirementSatisfied (op_adapter opt) (cr_grantedScopes (rn_row w)) req \<and>
     decryptGeneration opt (rn_row w) = Inr (rn_old w) \<and>
     \<not> expired (dg_renewalCredentialExpiresAt (rn_old w)) now \<and>
     automaticRenewal (caps opt) \<and>
     (accountIdentityReporting (caps opt) \<longrightarrow> accountAttested opt identity w) \<and>
     (case ad_renew (op_adapter opt) of None \<Rightarrow> False | Some f \<Rightarrow>
        retryTransient (f (rn_old w))
          (if rotatingRenewalCredential (caps opt) then 0 else transientRetries opt) 0 = Inr (rn_new w)) \<and>
     truthy (activeCredential (rg_credential (rn_new w))) \<and>
     (rotatingRenewalCredential (caps opt) \<longrightarrow> truthy (renewalCredential (rg_credential (rn_new w)))) \<and>
     scopeRequirementSatisfied (op_adapter opt) (grantAfter w) req \<and>
     requireUnchangedGrant (cr_grantedScopes (rn_row w)) grant = None \<and>
     requireUnchangedGrant (grantAfter w) grant = None \<and>
     list_all (\<lambda>r. \<not> unresolved r \<and> cg_state r \<noteq> G_candidate) (list_gens opt identity st) \<and>
     (case cr_credentialGenerationId (rn_row w) of None \<Rightarrow> True | Some i \<Rightarrow> i \<noteq> [] \<and>
        (case js_get (credentialGenerations (store st)) i of None \<Rightarrow> False
         | Some r \<Rightarrow> of_principal (op_provider opt) (hi_issuer identity) (hi_subject identity) r \<and>
                    cg_state r = G_active)) \<and>
     js_get (credentialGenerations (store st)) (op_uuid opt (uuidsDrawn st)) = None"

definition renewalCandidate :: "options \<Rightarrow> time_ms \<Rightarrow> Hop1Identity \<Rightarrow> lstate \<Rightarrow> renewable \<Rightarrow> preparation" where
  "renewalCandidate opt now identity st w =
     \<lparr>pr_current = rn_row w, pr_decrypted = rn_old w, pr_renewed = rn_new w,
      pr_candidate = credentialCustodyRecord opt now identity
        \<lparr>dg_provider = op_provider opt, dg_generation = cr_generation (rn_row w) + 1,
         dg_credential = rg_credential (rn_new w),
         dg_activeCredentialExpiresAt = rg_activeCredentialExpiresAt (rn_new w),
         dg_renewalCredentialExpiresAt = rg_renewalCredentialExpiresAt (rn_new w),
         dg_grantedScopes = coalesce (rg_grantedScopes (rn_new w)) (cr_grantedScopes (rn_row w))\<rparr>
        (op_uuid opt (uuidsDrawn st)),
      pr_fresh = False, pr_validatedIdentity = None\<rparr>"

text \<open>The candidate after its validation at a given time.\<close>

definition validatedCandidate ::
  "options \<Rightarrow> time_ms \<Rightarrow> time_ms \<Rightarrow> Hop1Identity \<Rightarrow> lstate \<Rightarrow> renewable \<Rightarrow> preparation" where
  "validatedCandidate opt now clk identity st w =
     (let p = renewalCandidate opt now identity st w in
      if accountIdentityReporting (caps opt)
      then p\<lparr>pr_validatedIdentity := rn_identity w, pr_renewed := (rn_new w)\<lparr>rg_validatedAt := Some clk\<rparr>\<rparr>
      else p)"

lemma validatedCandidate_sel [simp]:
  "pr_current (validatedCandidate opt now clk identity st w) = rn_row w"
  "pr_decrypted (validatedCandidate opt now clk identity st w) = rn_old w"
  "pr_candidate (validatedCandidate opt now clk identity st w) = pr_candidate (renewalCandidate opt now identity st w)"
  "rg_credential (pr_renewed (validatedCandidate opt now clk identity st w)) = rg_credential (rn_new w)"
  "rg_grantedScopes (pr_renewed (validatedCandidate opt now clk identity st w)) = rg_grantedScopes (rn_new w)"
  by (simp_all add: validatedCandidate_def renewalCandidate_def Let_def)

lemma getConnection_cong:
  assumes "connections s' = connections s" "accounts s' = accounts s" "authorizations s' = authorizations s"
  shows "getConnection s' = getConnection s"
  unfolding fun_eq_iff getConnection_def assms by simp

lemma get_conn_stored:
  "js_get (connections (store st)) (key_of opt identity) = Some c \<Longrightarrow> cr_localDisabledAt c = None \<Longrightarrow>
   cr_phase c = Ph_connected \<Longrightarrow> get_conn opt now identity st = Some c"
  by (simp add: get_conn_def mem.get_connected)

lemma renewalReady_token:
  assumes "renewalReady opt now identity req grant st w"
  shows "\<exists>x xs. activeCredential (rg_credential (rn_new w)) = Some (x # xs)"
proof -
  have "truthy (activeCredential (rg_credential (rn_new w)))" using assms unfolding renewalReady_def by blast
  then show ?thesis
    by (cases "activeCredential (rg_credential (rn_new w))") (auto simp: truthy_def neq_Nil_conv)
qed

lemma prepare_renewalReady:
  assumes "renewalReady opt now identity req grant st w" "\<not> isFresh opt now (rn_old w)"
  shows "prepareRenewalSection opt now identity req False False None st =
     (Inr (PrepCandidate (renewalCandidate opt now identity st w)),
      save_gen (pr_candidate (renewalCandidate opt now identity st w)) (st\<lparr>uuidsDrawn := Suc (uuidsDrawn st)\<rparr>))"
proof -
  have "get_conn opt now identity st = Some (rn_row w)"
    using assms(1) by (auto simp: renewalReady_def intro: get_conn_stored)
  moreover have "\<not> list_ex unresolved (list_gens opt identity st)"
    "List.find (\<lambda>r. cg_state r = G_candidate \<and> cg_generation r = Suc (cr_generation (rn_row w)))
       (list_gens opt identity st) = None"
    using assms(1) by (auto simp: renewalReady_def list_all_iff list_ex_iff find_None_iff)
  ultimately show ?thesis
    using assms
    by (auto simp: prepareRenewalSection_def renewalReady_def issueCandidate_def randomUUID_def
        renewalCandidate_def Let_def split: option.splits)
qed

lemma validate_renewalReady:
  assumes "renewalReady opt now identity req grant st w"
  shows "validateRenewedGeneration opt clk identity (renewalCandidate opt now identity st w) req False =
    Inr (validatedCandidate opt now clk identity st w)"
proof (cases "accountIdentityReporting (caps opt)")
  case True
  then obtain validate v where v: "ad_validateIdentity (op_adapter opt) = Some validate" "rn_identity w = Some v"
    "validate (attestedGeneration opt w) identity = Inr v" "vi_providerAccount v \<noteq> None"
    using assms by (auto simp: renewalReady_def accountAttested_def split: option.splits)
  with True assms show ?thesis
    by (simp add: validateRenewedGeneration_def renewalReady_def renewalCandidate_def
        validatedCandidate_def attestedGeneration_def grantAfter_def Let_def)
next
  case False
  with assms show ?thesis
    by (simp add: validateRenewedGeneration_def renewalReady_def renewalCandidate_def
        validatedCandidate_def Let_def)
qed

lemma superseded_renewalReady:
  assumes "renewalReady opt now identity req grant st w" "custody_keyed (store st1)"
    "\<And>i r. gens st i = Some r \<Longrightarrow> gens st1 i = Some r"
  obtains superseded where
    "supersededGeneration opt identity (validatedCandidate opt now clk identity st w) (rn_row w) st1 = Inr superseded"
    "\<And>r. superseded = Some r \<Longrightarrow> gens st1 (cg_id r) = Some r \<and> cg_state r = G_active \<and>
       cg_id r \<noteq> op_uuid opt (uuidsDrawn st)"
proof (cases "cr_credentialGenerationId (rn_row w)")
  case None
  then have "supersededGeneration opt identity (validatedCandidate opt now clk identity st w) (rn_row w) st1 = Inr None"
    by (simp add: supersededGeneration_def truthy_def)
  then show ?thesis by (rule that) simp
next
  case (Some i)
  with assms(1) obtain r where r: "i \<noteq> []" "gens st i = Some r"
    "of_principal (op_provider opt) (hi_issuer identity) (hi_subject identity) r" "cg_state r = G_active"
    by (auto simp: renewalReady_def split: option.splits)
  have new: "i \<noteq> op_uuid opt (uuidsDrawn st)" using assms(1) r(2) by (auto simp: renewalReady_def)
  from assms(3) [OF r(2)] have g: "gens st1 i = Some r" .
  have id: "cg_id r = i"
    using g assms(2) by (auto simp: custody_keyed_def list_all_iff dest: map_of_SomeD)
  have "supersededGeneration opt identity (validatedCandidate opt now clk identity st w) (rn_row w) st1 = Inr (Some r)"
    using find_gen [OF assms(2) g r(3)] r(1,4) Some new
    by (simp add: supersededGeneration_def renewalCandidate_def credentialCustodyRecord_def truthy_def)
  then show ?thesis by (rule that) (use g r new id in auto)
qed

lemma activate_renewalReady:
  fixes opt now clk0 identity st w
  defines "p \<equiv> validatedCandidate opt now clk0 identity st w"
  defines "st1 \<equiv> save_gen (pr_candidate p) (st\<lparr>uuidsDrawn := Suc (uuidsDrawn st)\<rparr>)"
  assumes "renewalReady opt now identity req grant st w"
  shows "\<exists>b st'. activateRenewedGeneration opt clk identity p st1 = (Inr (refreshed, b), st') \<and>
     get_conn opt clk' identity st' = Some (renewedConnection opt clk p (rn_row w))"
proof -
  let ?u = "op_uuid opt (uuidsDrawn st)"
  note ready = assms(3) [unfolded renewalReady_def]
  have pc: "cg_id (pr_candidate p) = ?u" "cg_state (pr_candidate p) = G_candidate"
    "cg_cleanupAttempts (pr_candidate p) = 0" "pr_current p = rn_row w"
    by (simp_all add: p_def renewalCandidate_def credentialCustodyRecord_def)
  have g1: "gens st1 = (gens st)(?u \<mapsto> pr_candidate p)"
    using ready mem.put_gen [of "pr_candidate p" "store st"]
    by (simp add: st1_def save_gen_def with_store_def pc fun_eq_iff)
  have same: "same_rows st st1"
    by (simp add: st1_def save_gen_def with_store_def saveCredentialGeneration_def same_rows_def)
  have k1: "custody_keyed (store st1)"
    unfolding st1_def using save_gen_custody [of "pr_candidate p"] ready pc(2)
    by (auto simp: custody_ok_def)
  have row1: "js_get (connections (store st1)) (key_of opt identity) = Some (rn_row w)"
    "store_consistent (store st1)"
    using ready same by (simp_all add: same_rows_def store_consistent_same [OF same])
  then have read1: "get_conn opt clk identity st1 = Some (rn_row w)" using ready get_conn_stored by blast
  obtain superseded where sup: "supersededGeneration opt identity p (rn_row w) st1 = Inr superseded"
    "\<And>r. superseded = Some r \<Longrightarrow> gens st1 (cg_id r) = Some r \<and> cg_state r = G_active \<and> cg_id r \<noteq> ?u"
    using superseded_renewalReady [OF assms(3) k1] g1 ready unfolding p_def
    by (metis (no_types, lifting) fun_upd_apply option.distinct(1))
  define ac where "ac = (pr_candidate p)\<lparr>cg_encryptedCredentialEnvelope := Some (encryptEnvelope opt
        (mergeRotatedCredential (dg_credential (pr_decrypted p)) (rg_credential (pr_renewed p)))),
        cg_state := G_active, cg_updatedAt := clk\<rparr>"
  obtain ok1 st2 where u1: "update_gen ac G_candidate 0 st1 = (ok1, st2)" by fastforce
  have ac: "gens st1 (cg_id ac) = Some (pr_candidate p)" "cg_id ac = ?u"
    using g1 pc(1) by (simp_all add: ac_def)
  have ok1: ok1 "gens st2 = (gens st1)(?u \<mapsto> ac)"
    using update_gen_applies [OF ac(1)] u1 pc ac(2) by (simp_all add: fun_eq_iff)
  let ?new = "renewedConnection opt clk p (rn_row w)"
  obtain ok2 st3 where s: "save_conn ?new (connectionWriteGuard (Some (rn_row w))) st2 = (ok2, st3)" by fastforce
  have key: "conn_key (rn_row w) = key_of opt identity"
    using getConnection_key [OF store_consistent_mirrored [OF row1(2)]] read1 by (simp add: get_conn_def)
  have ok2: ok2
    by (rule save_read_succeeds [OF row1(2) read1 update_gen_same [OF u1] _ s]) (simp add: key)
  have read3: "get_conn opt clk' identity st3 = Some ?new"
    by (rule save_conn_connected [OF s [unfolded eqTrueI [OF ok2]]])
      (use ready key in \<open>simp_all add: renewedConnection_def Let_def\<close>)
  show ?thesis
  proof (cases superseded)
    case None
    with read1 ready pc sup(1) u1 ok1(1) s ok2 read3 show ?thesis
      by (simp add: activateRenewedGeneration_def ac_def [symmetric] Let_def)
  next
    case (Some r)
    obtain ok3 st4 where u3: "update_gen (retiredGeneration clk r) G_active (cg_cleanupAttempts r) st3 = (ok3, st4)"
      by fastforce
    have g3: "gens st3 (cg_id r) = Some r"
      using sup(2) [OF Some] ok1(2) save_conn_same [OF s] by (simp add: same_custody_def)
    have ok3: ok3
      using update_gen_applies(1) [of st3 "retiredGeneration clk r" r ok3 st4] g3 u3 sup(2) [OF Some] by simp
    have "same_rows st3 st4" and "authorizations (store st4) = authorizations (store st3)"
      using u3 update_gen_same ok3
      by (auto simp: update_gen_def updateCredentialGeneration_True split: prod.splits)
    then have "connections (store st4) = connections (store st3)"
      "accounts (store st4) = accounts (store st3)" "authorizations (store st4) = authorizations (store st3)"
      by (simp_all add: same_rows_def)
    then have "getConnection (store st4) = getConnection (store st3)"
      by (rule getConnection_cong)
    with read3 have "get_conn opt clk' identity st4 = Some ?new" by (simp add: get_conn_def)
    with Some read1 ready pc sup(1) u1 ok1(1) s ok2 u3 ok3 show ?thesis
      by (simp add: activateRenewedGeneration_def ac_def [symmetric] Let_def)
  qed
qed

lemma renewed_decrypts:
  assumes "sealing_laws opt"
  shows "\<exists>g. decryptGeneration opt (renewedConnection opt now p c) = Inr g \<and>
     dg_credential g = mergeRotatedCredential (dg_credential (pr_decrypted p)) (rg_credential (pr_renewed p))"
proof -
  let ?e = "mergeRotatedCredential (dg_credential (pr_decrypted p)) (rg_credential (pr_renewed p))"
  have opens: "openEnvelope opt (encryptEnvelope opt ?e) = Some ?e" and "encryptEnvelope opt ?e \<noteq> []"
    using assms by (simp_all add: sealing_laws_def openEnvelope_def encryptEnvelope_def)
  then obtain x xs where "encryptEnvelope opt ?e = x # xs" by (cases "encryptEnvelope opt ?e") auto
  with opens show ?thesis
    by (auto simp: decryptGeneration_def connectionCredential_def renewedConnection_def Let_def)
qed

text \<open>C8: an enabled, connected connection whose active credential has lapsed is renewed on the
  way: the lookup returns exactly the credential the provider answers with, and the connection is
  stored one generation further. The circumstances are those of \<open>renewalReady\<close>: a consistent
  store in which custody records are filed under their identifiers; a row whose credential can be
  decrypted, with a renewal credential not past its expiry; an adapter that renews automatically and
  answers (within its retries) with an active credential, and with a renewal credential where it
  rotates them; an adapter that reports account identities attests the account of the new
  credential; the granted scopes satisfy the tool and the expected grant, before and after; custody
  holds no unresolved or candidate generation, and the row's own generation, if it names one, is
  active; and the identifier drawn is new. \<open>sealing_laws\<close> is what encryption and the JSON codec promise.\<close>

theorem lapsed_credential_is_renewed:
  assumes "sealing_laws opt" "renewalReady opt (t 1) identity req grant st w"
    "\<not> isFresh opt (t 0) (rn_old w)" "\<not> isFresh opt (t 1) (rn_old w)"
  shows "\<exists>st' c. getActiveCredential opt t polls identity req grant st =
       (Inr (the (activeCredential (rg_credential (rn_new w)))), st') \<and>
     get_conn opt (t 6) identity st' = Some c \<and> cr_generation c = Suc (cr_generation (rn_row w))"
proof -
  note ready = assms(2) [unfolded renewalReady_def]
  define p where "p = validatedCandidate opt (t 1) (t 2) identity st w"
  define st1 where "st1 = save_gen (pr_candidate p) (st\<lparr>uuidsDrawn := Suc (uuidsDrawn st)\<rparr>)"
  from activate_renewalReady [OF assms(2), of "t 3" "t 2" "t 6"] obtain b st2 where
    a: "activateRenewedGeneration opt (t 3) identity p st1 = (Inr (refreshed, b), st2)"
    "get_conn opt (t 6) identity st2 = Some (renewedConnection opt (t 3) p (rn_row w))"
    unfolding p_def st1_def by blast
  obtain st3 where d: "renewalDone opt (t 4) identity False refreshed b st2 = (Inr refreshed, st3)"
    "store st3 = store st2" by (simp add: renewalDone_def emit_def Let_def)
  have ren: "renew opt (\<lambda>i. t (i + 1)) polls identity req False False None st = (Inr refreshed, st3)"
    using prepare_renewalReady [OF assms(2,4)] validate_renewalReady [OF assms(2), of "t 2"] a(1) d(1)
    by (simp add: renew_def settleCandidate_def p_def st1_def numeral_eq_Suc)
  have read: "get_conn opt (t 0) identity st = Some (rn_row w)" using ready get_conn_stored by blast
  have read3: "get_conn opt (t 6) identity st3 = Some (renewedConnection opt (t 3) p (rn_row w))"
    using a(2) d(2) by (simp add: get_conn_def)
  obtain g where g: "decryptGeneration opt (renewedConnection opt (t 3) p (rn_row w)) = Inr g"
    "dg_credential g = mergeRotatedCredential (dg_credential (pr_decrypted p)) (rg_credential (pr_renewed p))"
    using renewed_decrypts [OF assms(1)] by blast
  obtain x xs where tok: "activeCredential (rg_credential (rn_new w)) = Some (x # xs)"
    using renewalReady_token [OF assms(2)] by blast
  have "activeAfterRenewal opt (t 6) identity req grant st3 = Inr (x # xs)"
    using read3 g ready tok
    by (simp add: activeAfterRenewal_def requireToolScopes_def grantAfter_def
        renewedConnection_def Let_def p_def mergeRotatedCredential_def)
  with read ready ren assms(3) tok read3 show ?thesis
    by (simp add: getActiveCredential_def requireToolScopes_def)
qed

text \<open>The demo provider as one that reports account identities.\<close>

definition demo_account :: ValidatedProviderIdentity where
  "demo_account = \<lparr>vi_displayAccountIdentity = ''m'',
     vi_providerAccount = Some \<lparr>pa_id = ''7'', pa_login = Some ''octo''\<rparr>\<rparr>"

definition reporting_options :: options where
  "reporting_options = demo_options\<lparr>op_adapter := demo_adapter\<lparr>
     capabilities := demo_caps\<lparr>accountIdentityReporting := True\<rparr>,
     ad_validateIdentity := Some (\<lambda>g i. Inr demo_account)\<rparr>\<rparr>"

definition demo_renewable :: renewable where
  "demo_renewable =
     (let c = the (get_conn reporting_options 9990000 alice demo_connected) in
      \<lparr>rn_row = c, rn_old = projr (decryptGeneration reporting_options c),
       rn_new = projr (the (ad_renew demo_adapter) (projr (decryptGeneration reporting_options c)) 0),
       rn_identity = Some demo_account\<rparr>)"

theorem lapsed_credential_is_renewed_witness:
  "fst (getActiveCredential reporting_options (\<lambda>i. 9990000) [] alice (FlatScopes [''read''])
     (Some [''read'']) demo_connected) = Inr ''a2''"
proof -
  have sealing: "sealing_laws reporting_options"
    using demo_sealing by (simp add: sealing_laws_def reporting_options_def)
  have "renewalReady reporting_options 9990000 alice (FlatScopes [''read'']) (Some [''read''])
      demo_connected demo_renewable"
    unfolding renewalReady_def
    by (intro conjI demo_connected_consistent demo_connected_custody(2)) code_simp+
  moreover have "\<not> isFresh reporting_options 9990000 (rn_old demo_renewable)"
    "the (activeCredential (rg_credential (rn_new demo_renewable))) = ''a2''" by code_simp+
  ultimately show ?thesis
    using lapsed_credential_is_renewed [OF sealing, of "\<lambda>i. 9990000" alice "FlatScopes [''read'']"
        "Some [''read'']" demo_connected demo_renewable "[]"] by auto
qed

end
