(* ===== verification/Lifecycle_Reports.thy ===== *)
theory Lifecycle_Reports
  imports Lifecycle_Progress
begin

text \<open>
  The status document, the cleanup backoff, the transient-failure retry, and two sequences of
  operations after which a connection cannot be authorized.
\<close>

section \<open>Status\<close>

text \<open>The status document of a stored connection says \<open>connected\<close> exactly if the connection is
  not disabled, is in the phase \<open>connected\<close>, lacks none of the required scopes, and its
  credential is present and valid or can still be renewed.\<close>

lemma status_connected_iff:
  "st_connected (statusFromRecord a now requiredScopes (Some r)) \<longleftrightarrow>
     cr_localDisabledAt r = None \<and> cr_phase r = Ph_connected \<and>
     (\<forall>scope. scope \<in> set requiredScopes \<longrightarrow> scopesSatisfied a (cr_grantedScopes r) [scope]) \<and>
     (if cr_activeCredentialPresent r \<and> \<not> expired (cr_activeCredentialExpiresAt r) now then True
      else automaticRenewal (capabilities a) \<and> cr_renewalCredentialPresent r \<and>
           \<not> expired (cr_renewalCredentialExpiresAt r) now)"
  by (auto simp: statusFromRecord_def statusPhase_def missingScopesOf_def credentialLapsed_def
      filter_empty_conv split: if_splits RevocationState.splits)

lemma status_connected_iff_example:
  "st_connected (statusFromRecord demo_adapter 3000 [''read'']
     (get_conn demo_options 3000 alice demo_connected))"
proof -
  obtain r where r: "get_conn demo_options 3000 alice demo_connected = Some r"
    "cr_localDisabledAt r = None" "cr_phase r = Ph_connected"
    "scopesSatisfied demo_adapter (cr_grantedScopes r) [''read'']"
    "cr_activeCredentialPresent r" "\<not> expired (cr_activeCredentialExpiresAt r) 3000"
  proof -
    have "case get_conn demo_options 3000 alice demo_connected of None \<Rightarrow> False | Some r \<Rightarrow>
      cr_localDisabledAt r = None \<and> cr_phase r = Ph_connected \<and>
      scopesSatisfied demo_adapter (cr_grantedScopes r) [''read''] \<and>
      cr_activeCredentialPresent r \<and> \<not> expired (cr_activeCredentialExpiresAt r) 3000" by code_simp
    then show ?thesis by (auto split: option.splits intro: that)
  qed
  with status_connected_iff [of demo_adapter 3000 "[''read'']" r] show ?thesis by simp
qed

section \<open>Backoff and retry\<close>

text \<open>The delay before the next cleanup attempt doubles from five seconds and is capped at one
  hour from the eleventh attempt on.\<close>

theorem cleanupBackoff_closed_form:
  "cleanupBackoffMs (Suc n) = (if n \<le> 9 then 5000 * 2 ^ n else 3600000)"
proof (cases "n \<le> 9")
  case True
  have "(2::int) ^ n \<le> 2 ^ 9" using True by (intro power_increasing) simp_all
  then show ?thesis using True by (simp add: cleanupBackoffMs_def)
next
  case False
  then have "min n 10 = 10" by simp
  then show ?thesis using False by (simp add: cleanupBackoffMs_def)
qed

fun transient :: "lifecycle_error + 'a \<Rightarrow> bool" where
  "transient (Inl e) = (lifecycleCategory e = Some transient_provider_failure)"
| "transient (Inr _) = False"

lemma retryTransient_from:
  assumes "a \<le> n"
  shows "\<exists>k. a \<le> k \<and> k \<le> n \<and> retryTransient f n a = f k \<and>
     (\<forall>j. a \<le> j \<and> j < k \<longrightarrow> transient (f j)) \<and> (k < n \<longrightarrow> \<not> transient (f k))"
  using assms
proof (induction f n a rule: retryTransient.induct)
  case (1 f n a)
  show ?case
  proof (cases "transient (f a) \<and> a < n")
    case True
    then obtain e where e: "f a = Inl e" "lifecycleCategory e = Some transient_provider_failure"
      by (cases "f a") auto
    with True 1 obtain k where k: "Suc a \<le> k" "k \<le> n" "retryTransient f n (Suc a) = f k"
      "\<forall>j. Suc a \<le> j \<and> j < k \<longrightarrow> transient (f j)" "k < n \<longrightarrow> \<not> transient (f k)"
      by (metis Suc_leI leD)
    moreover have "retryTransient f n a = retryTransient f n (Suc a)"
      using e True by (subst retryTransient.simps) simp
    moreover have "transient (f j)" if "a \<le> j" "j < k" for j
      using that k(4) True by (cases "j = a") auto
    ultimately show ?thesis by (intro exI [of _ k]) auto
  next
    case False
    then have "retryTransient f n a = f a"
      by (subst retryTransient.simps) (auto split: sum.splits)
    with False 1(2) show ?thesis by (intro exI [of _ a]) auto
  qed
qed

text \<open>A provider call is repeated at most \<open>retries\<close> times, only after transient failures, and
  the outcome is that of the last call made: the first that is not a transient failure, or the
  last allowed one.\<close>

lemma retryTransient_outcome:
  "\<exists>k \<le> retries. retryTransient operation retries 0 = operation k \<and>
     (\<forall>j < k. transient (operation j)) \<and> (k < retries \<longrightarrow> \<not> transient (operation k))"
  using retryTransient_from [of 0 retries operation] by auto

lemma retryTransient_outcome_example:
  "\<exists>k \<le> 2. retryTransient (\<lambda>n. if n < 1 then Inl (ProviderLifecycleError transient_provider_failure)
     else Inr n) 2 0 = (if k < 1 then Inl (ProviderLifecycleError transient_provider_failure) else Inr k)"
  using retryTransient_outcome [of 2 "\<lambda>n. if n < 1 then Inl (ProviderLifecycleError transient_provider_failure)
     else Inr n"] by blast

section \<open>Two dead ends\<close>

definition demo_authorizing :: lstate where
  "demo_authorizing = markAuthorizationStarted demo_options 1000 alice [''read''] 600000 empty_state"

definition demo_refreshed :: lstate where
  "demo_refreshed = snd (refresh demo_options (\<lambda>i. 2000 + int i) [] alice [''read''] demo_authorizing)"

definition demo_callback :: "time_ms \<Rightarrow> lstate \<Rightarrow> ConnectionStatusV2 res" where
  "demo_callback now st =
     fst (activateAuthorizedGeneration demo_options (\<lambda>i. now + int i) alice [''read''] demo_issued
            (Some (snapshotAuthorizationGuard (get_conn demo_options now alice st))) st)"

text \<open>For a principal without a connection, a manual refresh while the first authorization is
  pending makes that authorization and every later one fail: the refresh stores the synthetic
  row of the pending authorization as a real row, and while an authorization marker is live that row
  is again taken for a synthetic one, so that the activation's write expects no row to exist. Without the
  refresh the same callback succeeds; starting the authorization again does not help.\<close>

lemma refresh_while_authorizing_blocks:
  "\<not> isl (demo_callback 3000 demo_authorizing) \<and>
   demo_callback 3000 demo_refreshed = Inl generationConflict \<and>
   demo_callback 9000 (markAuthorizationStarted demo_options 8000 alice [''read''] 600000 demo_refreshed) =
     Inl generationConflict"
  by code_simp

definition demo_unrevocable :: options where
  "demo_unrevocable = demo_options\<lparr>op_adapter := demo_adapter\<lparr>capabilities :=
     demo_caps\<lparr>providerRevocation := False\<rparr>, ad_revoke := None\<rparr>\<rparr>"

definition demo_reconnect :: "time_ms \<Rightarrow> lstate \<Rightarrow> ConnectionStatusV2 res \<times> lstate" where
  "demo_reconnect now st =
     activateAuthorizedGeneration demo_unrevocable (\<lambda>i. now + int i) alice [''read''] demo_issued
       (Some (snapshotAuthorizationGuard (get_conn demo_unrevocable now alice st))) st"

definition demo_left :: lstate where
  "demo_left = snd (disconnect demo_unrevocable (\<lambda>i. 2000 + int i) alice [''read'']
     (snd (demo_reconnect 1000 empty_state)))"

text \<open>With a provider that has no revocation endpoint, a disconnect queues the connection's own
  custody record for cleanup and skips it: its encrypted credential stays stored, and an
  authorization right after the disconnect is refused until the cleanup worker has run.\<close>

theorem disconnect_without_revocation_blocks:
  "map_option cg_state (js_get (credentialGenerations (store demo_left)) ''g'') = Some G_cleanup_pending \<and>
   map_option (\<lambda>r. cg_encryptedCredentialEnvelope r \<noteq> None)
     (js_get (credentialGenerations (store demo_left)) ''g'') = Some True \<and>
   fst (demo_reconnect 3000 demo_left) = Inl generationConflict \<and>
   \<not> isl (fst (demo_reconnect 9000 (snd (retryPendingRevocations demo_unrevocable (\<lambda>i. 5000 + int i) 25
      demo_left))))"
  by code_simp

end
