(* ===== verification/Json.thy ===== *)
theory Json
  imports Complex_Main Prelude
begin

text \<open>
  JSON values as the sources receive them from a parser (\<open>unknown\<close>, \<open>Record<string, unknown>\<close>), the
  tests they make on them, and the string tests of the policy, registration and command code:
  \<open>startsWith\<close>, \<open>endsWith\<close> and \<open>includes\<close> are \<open>prefix\<close>, \<open>suffix\<close> and \<open>sublist\<close>. A
  property that is absent is \<open>None\<close>, the value \<open>undefined\<close> of JavaScript.

  Characters are single bytes: the regular expressions of the sources test ASCII classes, and
  where a source counts or cuts bytes the text is taken to be ASCII.
\<close>

datatype json =
  JNull | JBool bool | JNum rat | JStr string | JArr "json list" | JObj "(string \<times> json) list"

text \<open>\<open>isRecord\<close> / \<open>record\<close>: an object that is neither \<open>null\<close> nor an array.\<close>

fun as_record :: "json \<Rightarrow> (string \<times> json) list option" where
  "as_record (JObj fs) = Some fs"
| "as_record _ = None"

fun as_string :: "json \<Rightarrow> string option" where
  "as_string (JStr s) = Some s"
| "as_string _ = None"

fun as_array :: "json \<Rightarrow> json list option" where
  "as_array (JArr xs) = Some xs"
| "as_array _ = None"

lemma as_record_Some [simp]: "as_record j = Some fs \<longleftrightarrow> j = JObj fs" by (cases j) auto
lemma as_string_Some [simp]: "as_string j = Some s \<longleftrightarrow> j = JStr s" by (cases j) auto
lemma as_array_Some [simp]: "as_array j = Some xs \<longleftrightarrow> j = JArr xs" by (cases j) auto

text \<open>All elements, if each of them passes.\<close>

fun sequence_opt :: "'a option list \<Rightarrow> 'a list option" where
  "sequence_opt [] = Some []"
| "sequence_opt (x # xs) = (case x of None \<Rightarrow> None | Some v \<Rightarrow> map_option ((#) v) (sequence_opt xs))"

lemma sequence_opt_Some: "sequence_opt xs = Some vs \<longleftrightarrow> xs = map Some vs"
  by (induction xs arbitrary: vs) (auto split: option.splits)

lemma length_sequence_opt: "sequence_opt xs = Some vs \<Longrightarrow> length vs = length xs"
  by (simp add: sequence_opt_Some)

lemma sequence_opt_map_Some:
  "sequence_opt (map f xs) = Some vs \<longleftrightarrow> list_all2 (\<lambda>x v. f x = Some v) xs vs"
  by (induction xs arbitrary: vs) (auto simp: list_all2_Cons1 split: option.splits)

text \<open>\<open>Array.isArray(value) && value.every((item) => typeof item === "string")\<close>.\<close>

definition as_string_array :: "json \<Rightarrow> string list option" where
  "as_string_array j = (case as_array j of None \<Rightarrow> None | Some xs \<Rightarrow> sequence_opt (map as_string xs))"

lemma as_string_array_Some [simp]: "as_string_array j = Some ss \<longleftrightarrow> j = JArr (map JStr ss)"
  by (cases j) (auto simp: as_string_array_def sequence_opt_map_Some list_all2_conv_all_nth
      intro!: nth_equalityI)

lemma map_JStr_inj [simp]: "map JStr xs = map JStr ys \<longleftrightarrow> xs = ys"
  by (simp add: inj_def inj_map_eq_map)

lemma as_string_array_JArr [simp]: "as_string_array (JArr (map JStr ss)) = Some ss" by simp

text \<open>\<open>typeof value === "string" && value.trim().length > 0\<close>.\<close>

definition nonblank :: "json option \<Rightarrow> string option" where
  "nonblank j = (case j of Some (JStr s) \<Rightarrow> if trim s \<noteq> [] then Some s else None | _ \<Rightarrow> None)"

lemma nonblank_Some: "nonblank j = Some s \<longleftrightarrow> j = Some (JStr s) \<and> trim s \<noteq> []"
  by (auto simp: nonblank_def split: option.splits json.splits)

text \<open>Every pair of a key and a value in a value, at any depth.\<close>

fun json_fields :: "json \<Rightarrow> (string \<times> json) list" where
  "json_fields (JArr xs) = concat (map json_fields xs)"
| "json_fields (JObj fs) = fs @ concat (map (\<lambda>f. json_fields (snd f)) fs)"
| "json_fields _ = []"

section \<open>String tests\<close>

text \<open>The first occurrence of a text, as \<open>indexOf\<close> and \<open>split\<close> find it.\<close>

fun find_text :: "string \<Rightarrow> string \<Rightarrow> nat option" where
  "find_text t [] = (if t = [] then Some 0 else None)"
| "find_text t (x # xs) = (if prefix t (x # xs) then Some 0 else map_option Suc (find_text t xs))"

lemma find_text_None: "find_text t s = None \<longleftrightarrow> \<not> sublist t s"
  by (induction s) (auto simp: sublist_Cons_right)

lemma find_text_SomeD:
  "find_text t s = Some i \<Longrightarrow> i + length t \<le> length s \<and> take (length t) (drop i s) = t"
proof (induction s arbitrary: i)
  case (Cons x xs)
  show ?case
  proof (cases "prefix t (x # xs)")
    case True
    with Cons.prems show ?thesis
      using prefix_length_le [OF True] by (auto simp: prefix_def)
  next
    case False
    with Cons.prems obtain j where "find_text t xs = Some j" "i = Suc j" by auto
    with Cons.IH show ?thesis by fastforce
  qed
qed (auto split: if_splits)

lemma find_text_decomp:
  "find_text t s = Some i \<Longrightarrow> s = take i s @ t @ drop (i + length t) s"
  using find_text_SomeD [of t s i] by (metis add.commute append_take_drop_id drop_drop)

lemma find_text_least: "prefix t (drop j s) \<Longrightarrow> j \<le> length s \<Longrightarrow> \<exists>i \<le> j. find_text t s = Some i"
proof (induction s arbitrary: j)
  case (Cons x xs)
  show ?case
  proof (cases "prefix t (x # xs)")
    case False
    with Cons.prems obtain k where "j = Suc k" by (cases j) auto
    with Cons.IH [of k] Cons.prems obtain i where "i \<le> k" "find_text t xs = Some i" by auto
    with False \<open>j = Suc k\<close> show ?thesis by auto
  qed auto
qed auto

end
