(* ===== verification/Audit_Log.thy ===== *)
theory Audit_Log
  imports Json
begin

text \<open>
  \<open>shared/audit/audit.ts\<close>: the redaction of tool arguments before they reach the audit log or an
  external policy engine, and the in-memory sink.
\<close>

definition sensitiveKey :: "string \<Rightarrow> bool" where
  "sensitiveKey key \<longleftrightarrow>
     list_ex (\<lambda>w. sublist w (to_lower_case key)) [''token'', ''secret'', ''password'', ''authorization'']"

definition redacted_marker :: json where "redacted_marker = JStr ''[redacted]''"

fun redactValue :: "json \<Rightarrow> json" where
  "redactValue (JArr xs) = JArr (map redactValue xs)"
| "redactValue (JObj fs) =
     JObj (map (\<lambda>f. (fst f, if sensitiveKey (fst f) then redacted_marker else redactValue (snd f))) fs)"
| "redactValue v = v"

record AuditEvent =
  ae_ts :: string
  ae_category :: string
  ae_principal :: string
  ae_status :: string
  ae_event :: "string option"
  ae_tool :: "string option"
  ae_argDigest :: "string option"
  ae_latencyMs :: "int option"
  ae_resultSize :: "int option"
  ae_error :: "string option"

text \<open>\<open>InMemoryAuditSink.emit\<close>.\<close>

definition sink_emit :: "AuditEvent \<Rightarrow> AuditEvent list \<Rightarrow> AuditEvent list" where
  "sink_emit event events = events @ [event]"

lemma redactValue_marker [simp]: "redactValue redacted_marker = redacted_marker"
  by (simp add: redacted_marker_def)

lemma redactValue_idem: "redactValue (redactValue j) = redactValue j"
  by (induction j rule: redactValue.induct) auto

text \<open>The members that are not redacted keep their names, in order.\<close>

lemma redactValue_keys: "redactValue (JObj fs) = JObj gs \<Longrightarrow> map fst gs = map fst fs"
  by (auto simp: comp_def)

lemma json_fields_marker [simp]: "json_fields redacted_marker = []"
  by (simp add: redacted_marker_def)

text \<open>Whatever the arguments are and however deeply they nest, no member with a sensitive name
  keeps its value: in the redacted arguments it holds the marker. Redacting again changes nothing.\<close>

lemma redaction_hides_secrets:
  assumes "(key, v) \<in> set (json_fields (redactValue j))" "sensitiveKey key"
  shows "v = JStr ''[redacted]'' \<and> redactValue (redactValue j) = redactValue j"
proof -
  have "v = redacted_marker" using assms(1)
  proof (induction j rule: redactValue.induct)
    case (2 fs)
    then show ?case using assms(2) by (auto split: if_splits)
  qed auto
  then show ?thesis by (simp add: redacted_marker_def redactValue_idem)
qed

lemma redaction_hides_secrets_example:
  "redactValue (JObj [(''a'', JArr [JObj [(''apiToken'', JObj [(''x'', JStr ''s'')])]])]) =
     JObj [(''a'', JArr [JObj [(''apiToken'', JStr ''[redacted]'')]])]"
proof -
  let ?j = "JObj [(''a'', JArr [JObj [(''apiToken'', JObj [(''x'', JStr ''s'')])]])]"
  have s: "sensitiveKey ''apiToken''" "\<not> sensitiveKey ''a''" by code_simp+
  have "(''apiToken'', redacted_marker) \<in> set (json_fields (redactValue ?j))" using s by simp
  from redaction_hides_secrets [OF this s(1)] show ?thesis using s by simp
qed

end
