(* ===== verification/Outbound_Email.thy ===== *)
theory Outbound_Email
  imports Json
begin

text \<open>
  \<open>shared/policy/outbound-email.ts\<close>: the recipient domains of an outgoing message, from an address
  list and from a raw message. The two runtime functions that need Unicode tables, Node's
  \<open>domainToASCII\<close> and the fatal UTF-8 decoder, are the fields of \<open>text_lib\<close>; \<open>None\<close> is a thrown
  error. The value \<open>undefined\<close>, recipients that cannot be established, is \<open>None\<close>.
\<close>

record text_lib =
  domainToASCII :: "string \<Rightarrow> string option"
  utf8Decode :: "string \<Rightarrow> string option"

section \<open>Domains\<close>

definition is_alnum :: "char \<Rightarrow> bool" where
  "is_alnum c \<longleftrightarrow> is_lower_alpha c \<or> is_digit c"

text \<open>\<open>/^[a-z0-9](?:[a-z0-9-]{0,61}[a-z0-9])?$/\<close>.\<close>

definition domain_label :: "string \<Rightarrow> bool" where
  "domain_label s \<longleftrightarrow> s \<noteq> [] \<and> length s \<le> 63 \<and> is_alnum (hd s) \<and> is_alnum (last s) \<and>
     list_all (\<lambda>c. is_alnum c \<or> c = CHR ''-'') s"

definition canonicalRecipientDomain :: "text_lib \<Rightarrow> string \<Rightarrow> string option" where
  "canonicalRecipientDomain lib v =
     (if v = [] \<or> last v = CHR ''.'' \<or> CHR '':'' \<in> set v then None
      else case domainToASCII lib v of
          None \<Rightarrow> None
        | Some a \<Rightarrow>
            (let ascii = to_lower_case a in
             if length ascii > 253 \<or> ascii = [] then None
             else if list_ex (\<lambda>label. \<not> domain_label label) (split_on (CHR ''.'') ascii) then None
             else Some ascii))"

definition canonicalPolicyDomain :: "text_lib \<Rightarrow> string \<Rightarrow> string option" where
  "canonicalPolicyDomain lib v =
     (case canonicalRecipientDomain lib v of
        None \<Rightarrow> None
      | Some canonical \<Rightarrow>
          (let topLevel = last (split_on (CHR ''.'') canonical) in
           if canonical = v \<and> CHR ''.'' \<in> set canonical \<and> list_ex is_lower_alpha topLevel
           then Some canonical else None))"

definition domainIsAllowed :: "string \<Rightarrow> string \<Rightarrow> bool" where
  "domainIsAllowed recipient allowed \<longleftrightarrow> recipient = allowed \<or> suffix (CHR ''.'' # allowed) recipient"

section \<open>Address lists\<close>

text \<open>The loop of \<open>splitMailboxes\<close>: the parts before the current one, the current one, and the
  three flags.\<close>

fun splitMailboxes_from ::
  "string list \<Rightarrow> string \<Rightarrow> bool \<Rightarrow> bool \<Rightarrow> bool \<Rightarrow> string \<Rightarrow> string list option" where
  "splitMailboxes_from parts cur quoted escaped angle [] =
     (if quoted \<or> escaped \<or> angle then None
      else let all = parts @ [cur] in if list_ex (\<lambda>p. trim p = []) all then None else Some all)"
| "splitMailboxes_from parts cur quoted escaped angle (c # cs) =
     (if escaped then splitMailboxes_from parts (cur @ [c]) quoted False angle cs
      else if c = CHR 0x5C \<and> quoted then splitMailboxes_from parts (cur @ [c]) quoted True angle cs
      else if c = CHR 0x22 then splitMailboxes_from parts (cur @ [c]) (\<not> quoted) False angle cs
      else if \<not> quoted \<and> c = CHR ''<'' then
        (if angle then None else splitMailboxes_from parts (cur @ [c]) quoted False True cs)
      else if \<not> quoted \<and> c = CHR ''>'' then
        (if \<not> angle then None else splitMailboxes_from parts (cur @ [c]) quoted False False cs)
      else if \<not> quoted \<and> \<not> angle \<and> c = CHR '','' then
        splitMailboxes_from (parts @ [cur]) [] quoted False angle cs
      else splitMailboxes_from parts (cur @ [c]) quoted False angle cs)"

definition splitMailboxes :: "string \<Rightarrow> string list option" where
  "splitMailboxes v = splitMailboxes_from [] [] False False False v"

definition address_char :: "char \<Rightarrow> bool" where
  "address_char c \<longleftrightarrow> \<not> is_space c \<and> c \<notin> set ''<>(),;:@'' \<and> c \<noteq> CHR 0x22 \<and> c \<noteq> CHR 0x5C"

text \<open>The local part and the domain of \<open>/^[^\s<>(),;:@"\\]+@[^\s<>(),;:@"\\]+$/\<close>.\<close>

definition split_address :: "string \<Rightarrow> (string \<times> string) option" where
  "split_address a =
     (case split_on (CHR ''@'') a of
        [localPart, domain] \<Rightarrow>
          (if localPart \<noteq> [] \<and> domain \<noteq> [] \<and> list_all address_char localPart \<and> list_all address_char domain
           then Some (localPart, domain) else None)
      | _ \<Rightarrow> None)"

text \<open>The address of a mailbox: the text itself, or what stands between angle brackets at its end.\<close>

definition mailboxAddress :: "string \<Rightarrow> string option" where
  "mailboxAddress mailbox =
     (let trimmed = trim mailbox in
      case index_of (CHR ''<'') trimmed of
        None \<Rightarrow> Some trimmed
      | Some firstAngle \<Rightarrow>
          (if CHR ''<'' \<in> set (drop (firstAngle + 1) trimmed) \<or>
              index_of (CHR ''>'') trimmed \<noteq> Some (length trimmed - 1) \<or> firstAngle = 0
           then None
           else Some (butlast (drop (firstAngle + 1) trimmed))))"

definition mailboxDomain :: "text_lib \<Rightarrow> string \<Rightarrow> string option" where
  "mailboxDomain lib mailbox =
     Option.bind (mailboxAddress mailbox)
       (\<lambda>a. Option.bind (split_address a) (\<lambda>(l, d). canonicalRecipientDomain lib d))"

definition recipientDomainsFromAddressList :: "text_lib \<Rightarrow> string \<Rightarrow> string list option" where
  "recipientDomainsFromAddressList lib v =
     (if v = [] \<or> list_ex (\<lambda>c. c \<in> {CHR 0x0D, CHR 0x0A, CHR 0x00}) v then None
      else case splitMailboxes v of
          None \<Rightarrow> None
        | Some mailboxes \<Rightarrow> map_option js_unique (sequence_opt (map (mailboxDomain lib) mailboxes)))"

section \<open>Raw messages\<close>

definition MAX_RAW_MESSAGE_BYTES :: nat where "MAX_RAW_MESSAGE_BYTES = 10 * 1024 * 1024"
definition MAX_HEADER_BYTES :: nat where "MAX_HEADER_BYTES = 64 * 1024"
definition RECIPIENT_HEADERS :: "string list" where "RECIPIENT_HEADERS = [''to'', ''cc'', ''bcc'']"

text \<open>Base64 with the URL alphabet: \<open>Buffer.from(..., "base64")\<close> and \<open>toString("base64url")\<close>.\<close>

definition base64_value :: "char \<Rightarrow> nat option" where
  "base64_value c =
     (if is_upper_alpha c then Some (of_char c - 65)
      else if is_lower_alpha c then Some (of_char c - 71)
      else if is_digit c then Some (of_char c + 4)
      else if c = CHR ''-'' then Some 62
      else if c = CHR ''_'' then Some 63 else None)"

definition base64_char :: "nat \<Rightarrow> char" where
  "base64_char n =
     (if n < 26 then char_of (n + 65) else if n < 52 then char_of (n + 71)
      else if n < 62 then char_of (n - 4) else if n = 62 then CHR ''-'' else CHR ''_'')"

fun base64_bytes :: "nat list \<Rightarrow> string" where
  "base64_bytes (a # b # c # d # ns) =
     char_of (a * 4 + b div 16) # char_of ((b mod 16) * 16 + c div 4) # char_of ((c mod 4) * 64 + d) #
       base64_bytes ns"
| "base64_bytes [a, b, c] = [char_of (a * 4 + b div 16), char_of ((b mod 16) * 16 + c div 4)]"
| "base64_bytes [a, b] = [char_of (a * 4 + b div 16)]"
| "base64_bytes _ = []"

fun base64_encode :: "string \<Rightarrow> string" where
  "base64_encode (x # y # z # s) =
     (let a = of_char x; b = of_char y; c = of_char z in
      base64_char (a div 4) # base64_char ((a mod 4) * 16 + b div 16) #
        base64_char ((b mod 16) * 4 + c div 64) # base64_char (c mod 64) # base64_encode s)"
| "base64_encode [x, y] =
     (let a = of_char x; b = of_char y in
      [base64_char (a div 4), base64_char ((a mod 4) * 16 + b div 16), base64_char ((b mod 16) * 4)])"
| "base64_encode [x] = (let a = of_char x in [base64_char (a div 4), base64_char ((a mod 4) * 16)])"
| "base64_encode [] = []"

text \<open>The bytes of a raw message, if it is canonical base64url, padded or not.\<close>

definition decodeRaw :: "string \<Rightarrow> string option" where
  "decodeRaw raw =
     (let unpadded = takeWhile (\<lambda>c. c \<noteq> CHR ''='') raw;
          padding = drop (length unpadded) raw;
          padded = unpadded @ replicate ((4 - length unpadded mod 4) mod 4) (CHR ''='') in
      case sequence_opt (map base64_value unpadded) of
        None \<Rightarrow> None
      | Some values \<Rightarrow>
          (if unpadded = [] \<or> \<not> list_all (\<lambda>c. c = CHR ''='') padding \<or> length padding > 2 \<or>
              length raw mod 4 = 1
           then None
           else if length raw * 3 div 4 > MAX_RAW_MESSAGE_BYTES then None
           else if raw \<noteq> unpadded \<and> raw \<noteq> padded then None
           else if base64_encode (base64_bytes values) \<noteq> unpadded then None
           else Some (base64_bytes values)))"

definition CRLF :: string where "CRLF = [CHR 0x0D, CHR 0x0A]"

text \<open>\<open>/\r(?!\n)|\0/\<close>.\<close>

fun has_bare_cr_or_nul :: "string \<Rightarrow> bool" where
  "has_bare_cr_or_nul [] = False"
| "has_bare_cr_or_nul (c # cs) =
     (c = CHR 0x00 \<or> (c = CHR 0x0D \<and> (cs = [] \<or> hd cs \<noteq> CHR 0x0A)) \<or> has_bare_cr_or_nul cs)"

fun crlf_to_lf :: "string \<Rightarrow> string" where
  "crlf_to_lf (c # d # cs) =
     (if c = CHR 0x0D \<and> d = CHR 0x0A then d # crlf_to_lf cs else c # crlf_to_lf (d # cs))"
| "crlf_to_lf cs = cs"

definition header_name_char :: "char \<Rightarrow> bool" where
  "header_name_char c \<longleftrightarrow> is_lower_alpha c \<or> is_digit c \<or> c = CHR ''-''"

text \<open>The header lines, with folded continuation lines joined to the field before them.\<close>

fun headerFields ::
  "(string, string) jsmap \<Rightarrow> string option \<Rightarrow> string list \<Rightarrow> (string, string) jsmap option" where
  "headerFields hdrs lastName [] = Some hdrs"
| "headerFields hdrs lastName (line # rest) =
     (if line \<noteq> [] \<and> (hd line = CHR '' '' \<or> hd line = CHR 0x09)
      then case lastName of
             None \<Rightarrow> None
           | Some n \<Rightarrow>
               headerFields (js_set n (coalesce (js_get hdrs n) [] @ '' '' @ trim line) hdrs) lastName rest
      else case index_of (CHR '':'') line of
             None \<Rightarrow> None
           | Some colon \<Rightarrow>
               (let name = to_lower_case (take colon line) in
                if colon = 0 \<or> \<not> list_all header_name_char name \<or> prefix ''resent-'' name then None
                else if name \<in> set RECIPIENT_HEADERS \<and> js_get hdrs name \<noteq> None then None
                else headerFields (js_set name (trim (drop (colon + 1) line)) hdrs) (Some name) rest))"

fun headerDomains ::
  "text_lib \<Rightarrow> (string, string) jsmap \<Rightarrow> string list \<Rightarrow> string list option" where
  "headerDomains lib hdrs [] = Some []"
| "headerDomains lib hdrs (name # names) =
     (case js_get hdrs name of
        Some (c # cs) \<Rightarrow>
          (case recipientDomainsFromAddressList lib (c # cs) of
             None \<Rightarrow> None
           | Some parsed \<Rightarrow> map_option ((@) parsed) (headerDomains lib hdrs names))
      | _ \<Rightarrow> headerDomains lib hdrs names)"

definition recipientDomainsFromRawMessage :: "text_lib \<Rightarrow> string \<Rightarrow> string list option" where
  "recipientDomainsFromRawMessage lib raw =
     (case decodeRaw raw of
        None \<Rightarrow> None
      | Some bytes \<Rightarrow>
          (case orelse (find_text (CRLF @ CRLF) bytes) (find_text [newline, newline] bytes) of
             None \<Rightarrow> None
           | Some headerEnd \<Rightarrow>
               (if headerEnd > MAX_HEADER_BYTES then None
                else case utf8Decode lib (take headerEnd bytes) of
                    None \<Rightarrow> None
                  | Some headerText \<Rightarrow>
                      (if has_bare_cr_or_nul headerText then None
                       else case headerFields [] None (split_on newline (crlf_to_lf headerText)) of
                           None \<Rightarrow> None
                         | Some hdrs \<Rightarrow>
                             (case headerDomains lib hdrs RECIPIENT_HEADERS of
                                None \<Rightarrow> None
                              | Some domains \<Rightarrow>
                                  (if domains \<noteq> [] then Some (js_unique domains) else None))))))"

section \<open>Nothing of an address list is lost\<close>

lemma splitMailboxes_from_join:
  "splitMailboxes_from parts cur q e a v = Some out \<Longrightarrow>
   join_with '','' out = join_with '','' (parts @ [cur @ v])"
proof (induction parts cur q e a v arbitrary: out rule: splitMailboxes_from.induct)
  case (2 parts cur q e a c cs)
  have snoc: "join_with '','' (parts @ [cur, cs]) = join_with '','' (parts @ [cur @ CHR '','' # cs])"
    by (induction parts) (auto simp: join_with_Cons)
  show ?case using 2 snoc by (auto split: if_splits)
qed (auto split: if_splits simp: Let_def)

text \<open>The mailboxes of an accepted list, put together again with commas, are the list.\<close>

lemma splitMailboxes_join: "splitMailboxes v = Some ms \<Longrightarrow> join_with '','' ms = v"
  unfolding splitMailboxes_def by (drule splitMailboxes_from_join) simp

lemma splitMailboxes_from_nonblank:
  "splitMailboxes_from parts cur q e a v = Some out \<Longrightarrow> m \<in> set out \<Longrightarrow> trim m \<noteq> []"
  by (induction parts cur q e a v arbitrary: out rule: splitMailboxes_from.induct)
    (auto split: if_splits simp: Let_def list_ex_iff)

lemma recipientDomainsFromAddressList_Some:
  assumes "recipientDomainsFromAddressList lib v = Some ds"
  obtains ms where "splitMailboxes v = Some ms" "join_with '','' ms = v" "ms \<noteq> []"
    "\<And>m. m \<in> set ms \<Longrightarrow> \<exists>d \<in> set ds. mailboxDomain lib m = Some d"
    "\<And>d. d \<in> set ds \<Longrightarrow> \<exists>m \<in> set ms. mailboxDomain lib m = Some d"
proof -
  from assms obtain ms xs where ms: "splitMailboxes v = Some ms"
    "sequence_opt (map (mailboxDomain lib) ms) = Some xs" "ds = js_unique xs" "v \<noteq> []"
    by (auto simp: recipientDomainsFromAddressList_def split: if_splits option.splits)
  then have "map (mailboxDomain lib) ms = map Some xs" by (simp add: sequence_opt_Some)
  then have all: "mailboxDomain lib ` set ms = Some ` set xs" by (metis list.set_map)
  have "ms \<noteq> []" using splitMailboxes_join [OF ms(1)] ms(4) by auto
  have "\<exists>d \<in> set ds. mailboxDomain lib m = Some d" if "m \<in> set ms" for m
    using all ms(3) that by (auto dest!: equalityD1)
  moreover have "\<exists>m \<in> set ms. mailboxDomain lib m = Some d" if "d \<in> set ds" for d
  proof -
    have "Some d \<in> mailboxDomain lib ` set ms" using all ms(3) that by simp
    then show ?thesis by (auto simp: eq_commute)
  qed
  ultimately show thesis
    using that [OF ms(1) splitMailboxes_join [OF ms(1)] \<open>ms \<noteq> []\<close>] by blast
qed

lemma canonicalRecipientDomain_label:
  "canonicalRecipientDomain lib v = Some d \<Longrightarrow>
   d \<noteq> [] \<and> length d \<le> 253 \<and> (\<forall>l \<in> set (split_on (CHR ''.'') d). domain_label l)"
  by (auto simp: canonicalRecipientDomain_def Let_def list_ex_iff split: if_splits option.splits)

end
