(* ===== verification/Policy.thy ===== *)
theory Policy
  imports Audit_Log Outbound_Email
begin

text \<open>
  \<open>shared/policy/policy.ts\<close>: tool policies. A policy answers an input with a decision; \<open>None\<close> is a
  rejected promise (an external policy engine that cannot be asked). The YAML parser, the policy
  engine behind \<open>OpaPolicyAdapter\<close> and HTTP are parameters. A message of a thrown configuration
  error is the left summand.
\<close>

section \<open>Inputs and decisions\<close>

record ToolPolicyInput =
  ti_principal :: string
  ti_tokenClaims :: json
  ti_tool :: string
  ti_operation :: "string option"
  ti_service :: string
  ti_actionClass :: string
  ti_scopes :: "string list"
  ti_scopeRequirement :: "string list list option"
  ti_outboundEmail :: "string list option"
  ti_args :: json

datatype PolicyDecision =
  Allow | Deny string "string option" | ApprovalRequired string "string option"

record ToolPolicy =
  tp_hardGuardrails :: bool
  tp_decide :: "ToolPolicyInput \<Rightarrow> PolicyDecision option"

definition AllowAllPolicy :: ToolPolicy where
  "AllowAllPolicy = \<lparr>tp_hardGuardrails = False, tp_decide = (\<lambda>input. Some Allow)\<rparr>"

text \<open>The loop of \<open>CompositePolicy.decide\<close>; the last approval is remembered.\<close>

fun composite_from ::
  "PolicyDecision option \<Rightarrow> ToolPolicy list \<Rightarrow> ToolPolicyInput \<Rightarrow> PolicyDecision option" where
  "composite_from approval [] input = Some (coalesce approval Allow)"
| "composite_from approval (p # ps) input =
     (case tp_decide p input of
        None \<Rightarrow> None
      | Some (Deny reason rule) \<Rightarrow> Some (Deny reason rule)
      | Some (ApprovalRequired reason rule) \<Rightarrow>
          composite_from (Some (ApprovalRequired reason rule)) ps input
      | Some Allow \<Rightarrow> composite_from approval ps input)"

definition CompositePolicy :: "ToolPolicy list \<Rightarrow> ToolPolicy" where
  "CompositePolicy policies =
     \<lparr>tp_hardGuardrails = list_ex tp_hardGuardrails policies,
      tp_decide = composite_from None policies\<rparr>"

section \<open>YAML policies\<close>

datatype YamlPolicyEffect = E_allow | E_deny | E_approval_required

fun effectName :: "YamlPolicyEffect \<Rightarrow> string" where
  "effectName E_allow = ''allow''"
| "effectName E_deny = ''deny''"
| "effectName E_approval_required = ''approval_required''"

text \<open>A field of type \<open>string | string[]\<close>.\<close>

datatype one_or_many = One string | Many "string list"

record YamlPolicyMatch =
  ym_principal :: "one_or_many option"
  ym_principals :: "string list option"
  ym_tool :: "one_or_many option"
  ym_tools :: "string list option"
  ym_service :: "one_or_many option"
  ym_services :: "string list option"
  ym_operation :: "one_or_many option"
  ym_operations :: "string list option"
  ym_actionClass :: "one_or_many option"
  ym_actionClasses :: "string list option"
  ym_scope :: "one_or_many option"
  ym_scopes :: "string list option"

record YamlPolicyRule =
  yr_id :: "string option"
  yr_effect :: YamlPolicyEffect
  yr_reason :: "string option"
  yr_match :: "YamlPolicyMatch option"

record YamlGuardrails =
  gr_deniedOperations :: "string list option"
  gr_allowedRecipientDomains :: "string list option"

text \<open>\<open>default\<close> is a string until the constructor validates it.\<close>

record YamlPolicyConfig =
  yc_default :: "string option"
  yc_rules :: "YamlPolicyRule list option"
  yc_guardrails :: "YamlGuardrails option"

record YamlPolicy =
  yp_defaultEffect :: YamlPolicyEffect
  yp_rules :: "YamlPolicyRule list"
  yp_deniedOperations :: "string list"
  yp_allowedRecipientDomains :: "string list"

definition yp_hardGuardrails :: "YamlPolicy \<Rightarrow> bool" where
  "yp_hardGuardrails yp \<longleftrightarrow> yp_deniedOperations yp \<noteq> [] \<or> yp_allowedRecipientDomains yp \<noteq> []"

section \<open>Validation\<close>

definition sum_bind :: "'e + 'a \<Rightarrow> ('a \<Rightarrow> 'e + 'b) \<Rightarrow> 'e + 'b" where
  "sum_bind r f = (case r of Inl e \<Rightarrow> Inl e | Inr v \<Rightarrow> f v)"

lemma sum_bind_Inr [simp]: "sum_bind r f = Inr v \<longleftrightarrow> (\<exists>u. r = Inr u \<and> f u = Inr v)"
  by (cases r) (auto simp: sum_bind_def)

lemma sum_bind_simps [simp]: "sum_bind (Inl e) f = Inl e" "sum_bind (Inr u) f = f u"
  by (simp_all add: sum_bind_def)

text \<open>Map over a list, with the position, stopping at the first error.\<close>

fun sum_map_from :: "nat \<Rightarrow> (nat \<Rightarrow> 'a \<Rightarrow> 'e + 'b) \<Rightarrow> 'a list \<Rightarrow> 'e + 'b list" where
  "sum_map_from i f [] = Inr []"
| "sum_map_from i f (x # xs) =
     sum_bind (f i x) (\<lambda>y. sum_bind (sum_map_from (Suc i) f xs) (\<lambda>ys. Inr (y # ys)))"

lemma sum_map_from_Inr:
  "sum_map_from i f xs = Inr ys \<Longrightarrow> y \<in> set ys \<Longrightarrow> \<exists>j x. x \<in> set xs \<and> f j x = Inr y"
proof (induction i f xs arbitrary: ys rule: sum_map_from.induct)
  case (2 i f x xs)
  then obtain z zs where z: "f i x = Inr z" "sum_map_from (Suc i) f xs = Inr zs" "ys = z # zs" by auto
  show ?case
  proof (cases "y = z")
    case True
    with z show ?thesis by auto
  next
    case False
    with z "2.prems" "2.IH" [of zs] show ?thesis by auto
  qed
qed auto

definition validateYamlPolicyEffect :: "string option \<Rightarrow> string \<Rightarrow> string + YamlPolicyEffect" where
  "validateYamlPolicyEffect effect path =
     (if effect = Some ''allow'' then Inr E_allow
      else if effect = Some ''deny'' then Inr E_deny
      else if effect = Some ''approval_required'' then Inr E_approval_required
      else Inl (path @ '' must be allow, deny, or approval_required''))"

definition validateActionClass :: "string \<Rightarrow> string \<Rightarrow> string + string" where
  "validateActionClass c path =
     (if c \<in> {''read'', ''secret-read'', ''write'', ''destructive''} then Inr c
      else Inl (path @ '' must be read, secret-read, write, or destructive''))"

definition optionalString :: "json option \<Rightarrow> string \<Rightarrow> string + string option" where
  "optionalString v path =
     (case v of
        None \<Rightarrow> Inr None
      | Some (JStr s) \<Rightarrow> Inr (Some s)
      | _ \<Rightarrow> Inl (path @ '' must be a string''))"

definition requiredString :: "json option \<Rightarrow> string \<Rightarrow> string + string" where
  "requiredString v path =
     sum_bind (optionalString v path)
       (\<lambda>r. case r of None \<Rightarrow> Inl (path @ '' must be a string'') | Some s \<Rightarrow> Inr s)"

definition optionalStringArray :: "json option \<Rightarrow> string \<Rightarrow> string + string list option" where
  "optionalStringArray v path =
     (case v of
        None \<Rightarrow> Inr None
      | Some j \<Rightarrow>
          (case as_string_array j of
             None \<Rightarrow> Inl (path @ '' must be a string array'') | Some ss \<Rightarrow> Inr (Some ss)))"

definition optionalStringOrStringArray :: "json option \<Rightarrow> string \<Rightarrow> string + one_or_many option" where
  "optionalStringOrStringArray v path =
     (case v of
        None \<Rightarrow> Inr None
      | Some (JStr s) \<Rightarrow> Inr (Some (One s))
      | _ \<Rightarrow> map_sum id (map_option Many) (optionalStringArray v path))"

definition optionalActionClassArray :: "json option \<Rightarrow> string \<Rightarrow> string + string list option" where
  "optionalActionClassArray v path =
     sum_bind (optionalStringArray v path)
       (\<lambda>r. case r of
          None \<Rightarrow> Inr None
        | Some ss \<Rightarrow> map_sum id Some (sum_map_from 0 (\<lambda>i c. validateActionClass c path) ss))"

definition optionalActionClassOrArray :: "json option \<Rightarrow> string \<Rightarrow> string + one_or_many option" where
  "optionalActionClassOrArray v path =
     (case v of
        None \<Rightarrow> Inr None
      | Some (JStr s) \<Rightarrow> sum_bind (validateActionClass s path) (\<lambda>c. Inr (Some (One c)))
      | _ \<Rightarrow> map_sum id (map_option Many) (optionalActionClassArray v path))"

definition rulePath :: "nat \<Rightarrow> string \<Rightarrow> string" where
  "rulePath i name = ''rules['' @ nat_str i @ '']'' @ name"

definition parseYamlPolicyMatch :: "json option \<Rightarrow> nat \<Rightarrow> string + YamlPolicyMatch option" where
  "parseYamlPolicyMatch v i =
     (case v of
        None \<Rightarrow> Inr None
      | Some j \<Rightarrow>
          (case as_record j of
             None \<Rightarrow> Inl (rulePath i ''.match must be an object'')
           | Some fs \<Rightarrow>
               (let one = (\<lambda>k. optionalStringOrStringArray (js_get fs k) (rulePath i (''.match.'' @ k)));
                    many = (\<lambda>k. optionalStringArray (js_get fs k) (rulePath i (''.match.'' @ k))) in
                sum_bind (one ''principal'') (\<lambda>a. sum_bind (many ''principals'') (\<lambda>b.
                sum_bind (one ''tool'') (\<lambda>c. sum_bind (many ''tools'') (\<lambda>d.
                sum_bind (one ''service'') (\<lambda>e. sum_bind (many ''services'') (\<lambda>f.
                sum_bind (one ''operation'') (\<lambda>g. sum_bind (many ''operations'') (\<lambda>h.
                sum_bind (optionalActionClassOrArray (js_get fs ''actionClass'')
                            (rulePath i ''.match.actionClass'')) (\<lambda>k.
                sum_bind (optionalActionClassArray (js_get fs ''actionClasses'')
                            (rulePath i ''.match.actionClasses'')) (\<lambda>l.
                sum_bind (one ''scope'') (\<lambda>m. sum_bind (many ''scopes'') (\<lambda>n.
                Inr (Some
                  \<lparr>ym_principal = a, ym_principals = b, ym_tool = c, ym_tools = d, ym_service = e,
                   ym_services = f, ym_operation = g, ym_operations = h, ym_actionClass = k,
                   ym_actionClasses = l, ym_scope = m, ym_scopes = n\<rparr>))))))))))))))))"

definition parseYamlPolicyRule :: "nat \<Rightarrow> json \<Rightarrow> string + YamlPolicyRule" where
  "parseYamlPolicyRule i v =
     (case as_record v of
        None \<Rightarrow> Inl (''YAML policy rule '' @ nat_str i @ '' must be an object'')
      | Some fs \<Rightarrow>
          sum_bind (requiredString (js_get fs ''effect'') (rulePath i ''.effect'')) (\<lambda>s.
          sum_bind (validateYamlPolicyEffect (Some s) (rulePath i ''.effect'')) (\<lambda>effect.
          sum_bind (optionalString (js_get fs ''id'') (rulePath i ''.id'')) (\<lambda>rid.
          sum_bind (optionalString (js_get fs ''reason'') (rulePath i ''.reason'')) (\<lambda>reason.
          sum_bind (parseYamlPolicyMatch (js_get fs ''match'') i) (\<lambda>match.
          Inr \<lparr>yr_id = rid, yr_effect = effect, yr_reason = reason, yr_match = match\<rparr>))))))"

text \<open>\<open>/^[a-z][a-z0-9]*(?:\.\+?[a-z][a-zA-Z0-9]*){1,5}$/\<close>.\<close>

definition operationPattern :: "string \<Rightarrow> bool" where
  "operationPattern op =
     (case split_on (CHR ''.'') op of
        [] \<Rightarrow> False
      | s # segments \<Rightarrow>
          s \<noteq> [] \<and> is_lower_alpha (hd s) \<and> list_all (\<lambda>c. is_lower_alpha c \<or> is_digit c) s \<and>
          1 \<le> length segments \<and> length segments \<le> 5 \<and>
          list_all (\<lambda>seg. let w = (if seg \<noteq> [] \<and> hd seg = CHR ''+'' then tl seg else seg) in
             w \<noteq> [] \<and> is_lower_alpha (hd w) \<and>
             list_all (\<lambda>c. is_lower_alpha c \<or> is_upper_alpha c \<or> is_digit c) w) segments)"

definition parseOutboundEmail :: "text_lib \<Rightarrow> json option \<Rightarrow> string + string list option" where
  "parseOutboundEmail lib v =
     (case v of
        None \<Rightarrow> Inr None
      | Some j \<Rightarrow>
          (case as_record j of
             None \<Rightarrow> Inl ''guardrails.outboundEmail must be an object''
           | Some fs \<Rightarrow>
               (case List.find (\<lambda>k. k \<noteq> ''allowedRecipientDomains'') (map fst fs) of
                  Some k \<Rightarrow> Inl (''Unsupported guardrails.outboundEmail field: '' @ k)
                | None \<Rightarrow>
                    sum_bind (optionalStringArray (js_get fs ''allowedRecipientDomains'')
                        ''guardrails.outboundEmail.allowedRecipientDomains'') (\<lambda>domains.
                      if coalesce domains [] = [] \<or>
                         list_ex (\<lambda>d. canonicalPolicyDomain lib d = None) (coalesce domains [])
                      then Inl ''guardrails.outboundEmail.allowedRecipientDomains must contain canonical domains''
                      else Inr domains))))"

definition parseYamlGuardrails :: "text_lib \<Rightarrow> json option \<Rightarrow> string + YamlGuardrails option" where
  "parseYamlGuardrails lib v =
     (case v of
        None \<Rightarrow> Inr None
      | Some j \<Rightarrow>
          (case as_record j of
             None \<Rightarrow> Inl ''guardrails must be an object''
           | Some fs \<Rightarrow>
               (case List.find (\<lambda>k. k \<noteq> ''deniedOperations'' \<and> k \<noteq> ''outboundEmail'') (map fst fs) of
                  Some k \<Rightarrow> Inl (''Unsupported guardrails field: '' @ k)
                | None \<Rightarrow>
                    sum_bind (optionalStringArray (js_get fs ''deniedOperations'')
                        ''guardrails.deniedOperations'') (\<lambda>denied.
                      if list_ex (\<lambda>op. \<not> operationPattern op) (coalesce denied [])
                      then Inl ''guardrails.deniedOperations contains an invalid operation''
                      else sum_bind (parseOutboundEmail lib (js_get fs ''outboundEmail'')) (\<lambda>domains.
                        Inr (Some \<lparr>gr_deniedOperations = denied, gr_allowedRecipientDomains = domains\<rparr>))))))"

definition parseYamlPolicyConfig :: "text_lib \<Rightarrow> (string \<times> json) list \<Rightarrow> string + YamlPolicyConfig" where
  "parseYamlPolicyConfig lib fs =
     sum_bind (optionalString (js_get fs ''default'') ''default'') (\<lambda>d.
       case js_get fs ''rules'' of
         None \<Rightarrow>
           sum_bind (parseYamlGuardrails lib (js_get fs ''guardrails''))
             (\<lambda>g. Inr \<lparr>yc_default = d, yc_rules = None, yc_guardrails = g\<rparr>)
       | Some j \<Rightarrow>
           (case as_array j of
              None \<Rightarrow> Inl ''rules must be an array''
            | Some vs \<Rightarrow>
                sum_bind (sum_map_from 0 parseYamlPolicyRule vs) (\<lambda>rules.
                sum_bind (parseYamlGuardrails lib (js_get fs ''guardrails''))
                  (\<lambda>g. Inr \<lparr>yc_default = d, yc_rules = Some rules, yc_guardrails = g\<rparr>))))"

text \<open>\<open>/^[a-z][a-z0-9_.-]{0,63}$/\<close>.\<close>

definition ruleIdPattern :: "string \<Rightarrow> bool" where
  "ruleIdPattern s \<longleftrightarrow> s \<noteq> [] \<and> length s \<le> 64 \<and> is_lower_alpha (hd s) \<and>
     list_all (\<lambda>c. is_lower_alpha c \<or> is_digit c \<or> c \<in> {CHR ''_'', CHR ''.'', CHR ''-''}) s"

definition validateYamlPolicyRule :: "nat \<Rightarrow> YamlPolicyRule \<Rightarrow> string + YamlPolicyRule" where
  "validateYamlPolicyRule i rule =
     (if truthy (yr_id rule) \<and> \<not> ruleIdPattern (coalesce (yr_id rule) [])
      then Inl (rulePath i ''.id must be a stable low-cardinality identifier'') else Inr rule)"

text \<open>The constructor. The two sets are kept as lists without repetition.\<close>

definition makeYamlPolicy :: "YamlPolicyConfig \<Rightarrow> string + YamlPolicy" where
  "makeYamlPolicy config =
     sum_bind (validateYamlPolicyEffect (Some (coalesce (yc_default config) ''allow'')) ''default'') (\<lambda>d.
     sum_bind (sum_map_from 0 validateYamlPolicyRule (coalesce (yc_rules config) [])) (\<lambda>rules.
     Inr \<lparr>yp_defaultEffect = d, yp_rules = rules,
          yp_deniedOperations = js_unique (coalesce (Option.bind (yc_guardrails config) gr_deniedOperations) []),
          yp_allowedRecipientDomains =
            js_unique (coalesce (Option.bind (yc_guardrails config) gr_allowedRecipientDomains) [])\<rparr>))"

section \<open>Decisions\<close>

definition OPAQUE_MAIL_OPERATIONS :: "string list" where
  "OPAQUE_MAIL_OPERATIONS =
     [''script.scripts.run'', ''gmail.users.settings.forwardingAddresses.create'',
      ''gmail.users.settings.updateAutoForwarding'', ''gmail.users.settings.filters.create'',
      ''gmail.users.settings.updateVacation'', ''gmail.users.settings.sendAs.create'',
      ''gmail.users.settings.sendAs.verify'']"

definition SEND_OPERATIONS :: "string list" where
  "SEND_OPERATIONS =
     [''gmail.users.messages.send'', ''gmail.users.drafts.send'', ''gmail.+send'', ''gmail.+reply'',
      ''gmail.+reply-all'', ''gmail.+forward''] @ OPAQUE_MAIL_OPERATIONS"

definition one_or_many_values :: "one_or_many option \<Rightarrow> string list" where
  "one_or_many_values v = (case v of None \<Rightarrow> [] | Some (One s) \<Rightarrow> [s] | Some (Many ss) \<Rightarrow> ss)"

definition matchesAny :: "string \<Rightarrow> string list \<Rightarrow> bool" where
  "matchesAny actual allowed \<longleftrightarrow> allowed = [] \<or> actual \<in> set allowed"

definition matchesScopes :: "string list \<Rightarrow> string list \<Rightarrow> YamlPolicyEffect \<Rightarrow> bool" where
  "matchesScopes actual matched effect =
     (if matched = [] then True
      else if actual = [] then False
      else if effect = E_allow then list_all (\<lambda>s. s \<in> set matched) actual
      else list_ex (\<lambda>s. s \<in> set matched) actual)"

text \<open>The values of \<open>match.x\<close> and \<open>match.xs\<close> together.\<close>

definition both :: "one_or_many option \<Rightarrow> string list option \<Rightarrow> string list" where
  "both x xs = one_or_many_values x @ coalesce xs []"

definition matchesRule :: "YamlPolicyRule \<Rightarrow> ToolPolicyInput \<Rightarrow> bool" where
  "matchesRule rule input =
     (case yr_match rule of
        None \<Rightarrow> True
      | Some m \<Rightarrow>
          matchesAny (ti_principal input) (both (ym_principal m) (ym_principals m)) \<and>
          matchesAny (ti_tool input) (both (ym_tool m) (ym_tools m)) \<and>
          matchesAny (ti_service input) (both (ym_service m) (ym_services m)) \<and>
          matchesAny (coalesce (ti_operation input) []) (both (ym_operation m) (ym_operations m)) \<and>
          matchesAny (ti_actionClass input) (both (ym_actionClass m) (ym_actionClasses m)) \<and>
          matchesScopes
            (case ti_scopeRequirement input of
               Some groups \<Rightarrow> (if yr_effect rule = E_allow then ti_scopes input else concat groups)
             | None \<Rightarrow> ti_scopes input)
            (both (ym_scope m) (ym_scopes m)) (yr_effect rule))"

definition decisionForEffect ::
  "YamlPolicyEffect \<Rightarrow> string option \<Rightarrow> string option \<Rightarrow> PolicyDecision" where
  "decisionForEffect effect reason ruleId =
     (let r = coalesce reason (''YAML policy '' @ effectName effect);
          i = (if truthy ruleId then ruleId else None) in
      case effect of E_allow \<Rightarrow> Allow | E_deny \<Rightarrow> Deny r i | E_approval_required \<Rightarrow> ApprovalRequired r i)"

fun firstRule ::
  "nat \<Rightarrow> YamlPolicyRule list \<Rightarrow> ToolPolicyInput \<Rightarrow> PolicyDecision option" where
  "firstRule i [] input = None"
| "firstRule i (rule # rules) input =
     (if matchesRule rule input
      then Some (decisionForEffect (yr_effect rule) (yr_reason rule)
             (orelse (yr_id rule) (Some (''yaml.rule.'' @ nat_str (i + 1)))))
      else firstRule (Suc i) rules input)"

text \<open>The guardrails: \<open>Some\<close> is the denial.\<close>

definition guardrailDenial :: "YamlPolicy \<Rightarrow> ToolPolicyInput \<Rightarrow> PolicyDecision option" where
  "guardrailDenial yp input =
     (if yp_hardGuardrails yp \<and> \<not> truthy (ti_operation input)
      then Some (Deny ''Operation cannot be classified under global policy''
             (Some ''guardrails.unclassified_operation''))
      else if truthy (ti_operation input) \<and> the (ti_operation input) \<in> set (yp_deniedOperations yp)
      then Some (Deny ''Operation disabled by global policy'' (Some ''guardrails.denied_operations''))
      else if yp_allowedRecipientDomains yp \<noteq> [] \<and> truthy (ti_operation input) \<and>
              the (ti_operation input) \<in> set SEND_OPERATIONS
      then (if coalesce (ti_outboundEmail input) [] = []
            then Some (Deny ''Outbound email recipients cannot be verified''
                   (Some ''guardrails.outbound_email_opaque''))
            else if list_ex (\<lambda>r. \<not> list_ex (domainIsAllowed r) (yp_allowedRecipientDomains yp))
                      (coalesce (ti_outboundEmail input) [])
            then Some (Deny ''Outbound email recipient domain is not allowed''
                   (Some ''guardrails.outbound_email_domain''))
            else None)
      else None)"

definition yamlDecide :: "YamlPolicy \<Rightarrow> ToolPolicyInput \<Rightarrow> PolicyDecision" where
  "yamlDecide yp input =
     (case guardrailDenial yp input of
        Some d \<Rightarrow> d
      | None \<Rightarrow>
          (case firstRule 0 (yp_rules yp) input of
             Some d \<Rightarrow> d
           | None \<Rightarrow> decisionForEffect (yp_defaultEffect yp)
               (Some (''YAML policy default '' @ effectName (yp_defaultEffect yp))) (Some ''yaml.default'')))"

definition yamlToolPolicy :: "YamlPolicy \<Rightarrow> ToolPolicy" where
  "yamlToolPolicy yp =
     \<lparr>tp_hardGuardrails = yp_hardGuardrails yp, tp_decide = (\<lambda>input. Some (yamlDecide yp input))\<rparr>"

definition createYamlPolicyFromString ::
  "text_lib \<Rightarrow> (string \<Rightarrow> string + json) \<Rightarrow> string \<Rightarrow> string list option \<Rightarrow> string + ToolPolicy" where
  "createYamlPolicyFromString lib parseYaml content knownOperations =
     sum_bind (parseYaml content) (\<lambda>parsed. case as_record parsed of
        None \<Rightarrow> Inl ''YAML policy must be an object''
      | Some fs \<Rightarrow>
          sum_bind (parseYamlPolicyConfig lib fs) (\<lambda>config.
            case (case knownOperations of
                    None \<Rightarrow> None
                  | Some known \<Rightarrow> List.find (\<lambda>op. op \<notin> set known)
                      (coalesce (Option.bind (yc_guardrails config) gr_deniedOperations) [])) of
              Some op \<Rightarrow> Inl (''Unknown guardrail operation: '' @ op)
            | None \<Rightarrow> sum_bind (makeYamlPolicy config) (\<lambda>yp. Inr (yamlToolPolicy yp))))"

section \<open>External policy engine\<close>

record OpaPolicyResult =
  or_allow :: "bool option"
  or_approval_required :: "bool option"
  or_reason :: "string option"

definition opaRequest :: "ToolPolicyInput \<Rightarrow> ToolPolicyInput" where
  "opaRequest input =
     input\<lparr>ti_args := (if truthy (ti_operation input) \<and> the (ti_operation input) \<in> set SEND_OPERATIONS
                       then JObj [] else redactValue (ti_args input))\<rparr>"

definition OpaPolicyAdapter ::
  "(ToolPolicyInput \<Rightarrow> OpaPolicyResult option option) \<Rightarrow> ToolPolicy" where
  "OpaPolicyAdapter evaluate =
     \<lparr>tp_hardGuardrails = False,
      tp_decide = (\<lambda>input.
        case evaluate (opaRequest input) of
          None \<Rightarrow> None
        | Some result \<Rightarrow>
            (if Option.bind result or_allow = Some True then Some Allow
             else let reason = coalesce (Option.bind result or_reason) ''policy denied'' in
               if Option.bind result or_approval_required = Some True
               then Some (ApprovalRequired reason None) else Some (Deny reason None)))\<rparr>"

text \<open>\<open>fetch\<close> answers with the status code, whether it is a success, and the parsed body.\<close>

definition createOpaPolicyFromUrl ::
  "(string \<Rightarrow> ToolPolicyInput \<Rightarrow> (nat \<times> bool \<times> OpaPolicyResult option option) option) \<Rightarrow> string \<Rightarrow>
   ToolPolicy" where
  "createOpaPolicyFromUrl fetch url =
     OpaPolicyAdapter (\<lambda>request.
       case fetch url request of
         None \<Rightarrow> None
       | Some (code, ok, body) \<Rightarrow>
           (if \<not> ok
            then Some (Some \<lparr>or_allow = Some False, or_approval_required = None,
                        or_reason = Some (''OPA policy request failed: '' @ nat_str code)\<rparr>)
            else body))"

end
