(* ===== verification/Operation_Resolver.thy ===== *)
theory Operation_Resolver
  imports Policy
begin

text \<open>
  The Google Workspace wrapper's reading of a tool call: \<open>catalog/types.ts\<close> and the tools built from
  the generated tables (\<open>catalog/gws-generated.ts\<close>), \<open>catalog/gws-action-classification.ts\<close>, the
  scope exclusions of \<open>catalog/google-workspace.ts\<close>, and \<open>operation-resolver.ts\<close>, which resolves a
  call to the operation, scopes and outgoing recipients that the policy decides on. The tables of the
  catalog are arguments.
\<close>

section \<open>Tools\<close>

record CatalogParam =
  cp_name :: string
  cp_required :: bool

record WorkspaceToolDefinition =
  wt_name :: string
  wt_service :: string
  wt_actionClass :: string
  wt_command :: "string list"
  wt_scopes :: "string list"
  wt_scopeRequirement :: "string list list option"
  wt_params :: "CatalogParam list"
  wt_bodyParams :: "CatalogParam list"
  wt_defaultParams :: "(string \<times> json) list"
  wt_supportsUpload :: bool
  wt_dynamicScopesParam :: "string option"
  wt_rawArgvParam :: "string option"
  wt_paramsJsonParam :: "string option"
  wt_bodyJsonParam :: "string option"
  wt_extraArgsParam :: "string option"
  wt_resultMode :: string

text \<open>The entries of the generated tables.\<close>

record generated_method =
  gm_alias :: string
  gm_path :: "string list"
  gm_command :: "string list"
  gm_scopes :: "string list"
  gm_httpMethod :: string
  gm_hasRequest :: bool
  gm_supportsMediaUpload :: bool

record generated_helper =
  gh_alias :: string
  gh_command :: string
  gh_actionClass :: string
  gh_scopes :: "string list"

definition actionClassForHttpMethod :: "string \<Rightarrow> string" where
  "actionClassForHttpMethod m =
     (if m = ''GET'' then ''read'' else if m = ''DELETE'' then ''destructive'' else ''write'')"

text \<open>\<open>snakeCase\<close>: an underscore between a lower case letter or digit and an upper case letter, every
  run of other characters as one underscore, none at the ends, in lower case.\<close>

definition is_word_char :: "char \<Rightarrow> bool" where
  "is_word_char c \<longleftrightarrow> is_lower_alpha c \<or> is_upper_alpha c \<or> is_digit c"

fun camel_breaks :: "string \<Rightarrow> string" where
  "camel_breaks (a # b # s) =
     (if (is_lower_alpha a \<or> is_digit a) \<and> is_upper_alpha b
      then a # CHR ''_'' # camel_breaks (b # s) else a # camel_breaks (b # s))"
| "camel_breaks s = s"

fun word_runs :: "bool \<Rightarrow> string \<Rightarrow> string" where
  "word_runs inRun [] = []"
| "word_runs inRun (c # s) =
     (if is_word_char c then c # word_runs False s
      else if inRun then word_runs True s else CHR ''_'' # word_runs True s)"

definition snakeCase :: "string \<Rightarrow> string" where
  "snakeCase v =
     (let w = word_runs False (camel_breaks v);
          l = dropWhile (\<lambda>c. c = CHR ''_'') w in
      to_lower_case (rev (dropWhile (\<lambda>c. c = CHR ''_'') (rev l))))"

definition toolName :: "string list \<Rightarrow> string" where
  "toolName parts = join_with ''_'' (map snakeCase parts)"

definition optionalParam :: "string \<Rightarrow> CatalogParam" where
  "optionalParam name = \<lparr>cp_name = name, cp_required = False\<rparr>"

definition generatedMethodTool :: "generated_method \<Rightarrow> WorkspaceToolDefinition" where
  "generatedMethodTool m =
     \<lparr>wt_name = toolName ([''gws'', gm_alias m] @ gm_path m), wt_service = gm_alias m,
      wt_actionClass = actionClassForHttpMethod (gm_httpMethod m), wt_command = gm_command m,
      wt_scopes = gm_scopes m,
      wt_scopeRequirement = Some (if gm_scopes m \<noteq> [] then [gm_scopes m] else []),
      wt_params = map optionalParam
        ([''params'', ''format'', ''dryRun'', ''sanitize'', ''output'', ''pageAll'', ''pageLimit'',
          ''pageDelay'', ''extraArgs''] @
         (if gm_supportsMediaUpload m then [''upload'', ''uploadBase64'', ''uploadContentType''] else [])),
      wt_bodyParams = (if gm_hasRequest m then [optionalParam ''json''] else []),
      wt_defaultParams = [], wt_supportsUpload = False, wt_dynamicScopesParam = None,
      wt_rawArgvParam = None, wt_paramsJsonParam = Some ''params'',
      wt_bodyJsonParam = (if gm_hasRequest m then Some ''json'' else None),
      wt_extraArgsParam = Some ''extraArgs'', wt_resultMode = ''text''\<rparr>"

definition generatedHelperTool :: "generated_helper \<Rightarrow> WorkspaceToolDefinition" where
  "generatedHelperTool h =
     \<lparr>wt_name = toolName [''gws'', gh_alias h, drop 1 (gh_command h)], wt_service = gh_alias h,
      wt_actionClass = gh_actionClass h, wt_command = [gh_alias h, gh_command h],
      wt_scopes = gh_scopes h, wt_scopeRequirement = Some (map (\<lambda>s. [s]) (gh_scopes h)),
      wt_params = [optionalParam ''args''], wt_bodyParams = [], wt_defaultParams = [],
      wt_supportsUpload = False, wt_dynamicScopesParam = None, wt_rawArgvParam = None,
      wt_paramsJsonParam = None, wt_bodyJsonParam = None, wt_extraArgsParam = Some ''args'',
      wt_resultMode = ''text''\<rparr>"

definition GWS_GENERATED_TOOLS ::
  "generated_method list \<Rightarrow> generated_helper list \<Rightarrow> WorkspaceToolDefinition list" where
  "GWS_GENERATED_TOOLS methods helpers = map generatedMethodTool methods @ map generatedHelperTool helpers"

section \<open>Classification and excluded scopes\<close>

definition GWS_SECRET_READ_METHOD_OVERRIDES :: "string list" where
  "GWS_SECRET_READ_METHOD_OVERRIDES =
     [''drive:files.download'', ''drive:files.export'', ''drive:files.get'', ''drive:revisions.get'',
      ''gmail:users.drafts.get'', ''gmail:users.messages.get'', ''gmail:users.messages.attachments.get'',
      ''gmail:users.threads.get'']"

definition GWS_DESTRUCTIVE_METHOD_OVERRIDES :: "string list" where
  "GWS_DESTRUCTIVE_METHOD_OVERRIDES =
     [''calendar:calendars.clear'', ''calendar:calendars.transferOwnership'', ''calendar:channels.stop'',
      ''docs:documents.batchUpdate'', ''drive:accessproposals.resolve'', ''drive:approvals.cancel'',
      ''drive:approvals.decline'', ''drive:channels.stop'', ''gmail:users.messages.batchDelete'',
      ''gmail:users.messages.trash'', ''gmail:users.settings.cse.keypairs.disable'',
      ''gmail:users.settings.cse.keypairs.obliterate'', ''gmail:users.stop'', ''gmail:users.threads.trash'',
      ''meet:spaces.endActiveConference'', ''sheets:spreadsheets.batchUpdate'',
      ''sheets:spreadsheets.values.batchClear'', ''sheets:spreadsheets.values.batchClearByDataFilter'',
      ''sheets:spreadsheets.values.clear'', ''slides:presentations.batchUpdate'', ''tasks:tasks.clear'']"

definition classifyGwsDiscoveryMethod :: "string \<Rightarrow> string list \<Rightarrow> string \<Rightarrow> string" where
  "classifyGwsDiscoveryMethod alias path httpMethod =
     (if alias @ '':'' @ join_with ''.'' path \<in> set GWS_DESTRUCTIVE_METHOD_OVERRIDES then ''destructive''
      else if httpMethod = ''GET'' then ''read''
      else if httpMethod = ''DELETE'' then ''destructive'' else ''write'')"

definition classifyGovernedGwsToolAction :: "string \<Rightarrow> string \<Rightarrow> string \<Rightarrow> string" where
  "classifyGovernedGwsToolAction alias commandPath legacyActionClass =
     (let key = alias @ '':'' @ commandPath in
      if key \<in> set GWS_DESTRUCTIVE_METHOD_OVERRIDES then ''destructive''
      else if key \<in> set GWS_SECRET_READ_METHOD_OVERRIDES then ''secret-read'' else legacyActionClass)"

definition googleScope :: "string \<Rightarrow> string" where
  "googleScope s = ''https://www.googleapis.com/auth/'' @ s"

definition EXCLUDED_GENERATED_SCOPE_PREFIXES :: "string list" where
  "EXCLUDED_GENERATED_SCOPE_PREFIXES =
     map googleScope [''admin.'', ''chat'', ''classroom.'', ''cloud-platform'', ''contacts'', ''directory.'',
       ''forms'', ''groups'', ''keep'', ''script.'', ''user.'']"

definition EXCLUDED_GENERATED_SCOPES :: "string list" where
  "EXCLUDED_GENERATED_SCOPES = map googleScope [''drive.scripts'', ''userinfo.profile'']"

definition EXCLUDED_GENERATED_SERVICE_ALIASES :: "string list" where
  "EXCLUDED_GENERATED_SERVICE_ALIASES =
     [''admin_reports'', ''chat'', ''classroom'', ''events'', ''forms'', ''keep'', ''modelarmor'',
      ''people'', ''script'']"

definition isExcludedGoogleWorkspaceScope :: "string \<Rightarrow> bool" where
  "isExcludedGoogleWorkspaceScope scope \<longleftrightarrow>
     scope \<in> set EXCLUDED_GENERATED_SCOPES \<or> list_ex (\<lambda>p. prefix p scope) EXCLUDED_GENERATED_SCOPE_PREFIXES"

definition MAX_REMOTE_CONNECTOR_TOOL_NAME_LENGTH :: nat where
  "MAX_REMOTE_CONNECTOR_TOOL_NAME_LENGTH = 64"

definition filterExcludedScopeAlternatives :: "WorkspaceToolDefinition \<Rightarrow> WorkspaceToolDefinition" where
  "filterExcludedScopeAlternatives tool =
     (case wt_scopeRequirement tool of
        None \<Rightarrow> tool
      | Some groups \<Rightarrow>
          tool\<lparr>wt_scopes := filter (\<lambda>s. \<not> isExcludedGoogleWorkspaceScope s) (wt_scopes tool),
               wt_scopeRequirement := Some (map (filter (\<lambda>s. \<not> isExcludedGoogleWorkspaceScope s)) groups)\<rparr>)"

definition isVisibleGeneratedTool :: "WorkspaceToolDefinition \<Rightarrow> bool" where
  "isVisibleGeneratedTool tool =
     (if length (wt_name tool) > MAX_REMOTE_CONNECTOR_TOOL_NAME_LENGTH then False
      else if wt_service tool \<in> set EXCLUDED_GENERATED_SERVICE_ALIASES then False
      else case wt_scopeRequirement tool of
          Some groups \<Rightarrow> list_all (\<lambda>g. g \<noteq> []) groups
        | None \<Rightarrow> \<not> list_ex isExcludedGoogleWorkspaceScope (wt_scopes tool))"

text \<open>The three catalogs of \<open>listGoogleWorkspaceTools\<close>, by the governance catalog that is configured.\<close>

datatype GoogleWorkspaceCatalogId = Actions_v1 | Actions_v2

definition LEGACY_GOOGLE_WORKSPACE_TOOLS ::
  "WorkspaceToolDefinition list \<Rightarrow> WorkspaceToolDefinition list \<Rightarrow> WorkspaceToolDefinition list" where
  "LEGACY_GOOGLE_WORKSPACE_TOOLS handwritten generated =
     handwritten @ filter isVisibleGeneratedTool (map filterExcludedScopeAlternatives generated)"

definition secretReadTool :: "WorkspaceToolDefinition \<Rightarrow> WorkspaceToolDefinition" where
  "secretReadTool tool =
     tool\<lparr>wt_actionClass := classifyGovernedGwsToolAction (wt_service tool)
            (join_with ''.'' (drop 1 (wt_command tool))) (wt_actionClass tool)\<rparr>"

definition governedTool :: "WorkspaceToolDefinition \<Rightarrow> WorkspaceToolDefinition" where
  "governedTool tool =
     (if wt_actionClass tool = ''secret-read'' then tool\<lparr>wt_actionClass := ''read''\<rparr> else tool)"

definition listGoogleWorkspaceTools ::
  "WorkspaceToolDefinition list \<Rightarrow> GoogleWorkspaceCatalogId option \<Rightarrow> WorkspaceToolDefinition list" where
  "listGoogleWorkspaceTools legacy catalogId =
     (case catalogId of
        Some Actions_v2 \<Rightarrow> map secretReadTool legacy
      | Some Actions_v1 \<Rightarrow> map (\<lambda>t. governedTool (secretReadTool t)) legacy
      | None \<Rightarrow> legacy)"

text \<open>A \<open>Map\<close> by name: of several tools with one name the last is found.\<close>

definition getGoogleWorkspaceTool ::
  "WorkspaceToolDefinition list \<Rightarrow> string \<Rightarrow> GoogleWorkspaceCatalogId option \<Rightarrow>
   string + WorkspaceToolDefinition" where
  "getGoogleWorkspaceTool legacy name catalogId =
     (case List.find (\<lambda>t. wt_name t = name) (rev (listGoogleWorkspaceTools legacy catalogId)) of
        None \<Rightarrow> Inl (''Unknown Google Workspace tool: '' @ name)
      | Some t \<Rightarrow> Inr t)"

section \<open>Flags\<close>

datatype flag_value = FVal string | FTrue

fun parseFlagValues_from ::
  "(string, flag_value) jsmap \<Rightarrow> string list \<Rightarrow> string list \<Rightarrow> string list \<Rightarrow> string list \<Rightarrow>
   (string, flag_value) jsmap option" where
  "parseFlagValues_from flags valueFlags booleanFlags repeatableFlags [] = Some flags"
| "parseFlagValues_from flags valueFlags booleanFlags repeatableFlags (flag # tail) =
     (if flag = [] \<or> (js_get flags flag \<noteq> None \<and> flag \<notin> set repeatableFlags) then None
      else if flag \<in> set booleanFlags
      then parseFlagValues_from (js_set flag FTrue flags) valueFlags booleanFlags repeatableFlags tail
      else if flag \<notin> set valueFlags then None
      else case tail of
          [] \<Rightarrow> None
        | v # rest \<Rightarrow>
            parseFlagValues_from (js_set flag (FVal v) flags) valueFlags booleanFlags repeatableFlags rest)"

definition parseFlagValues ::
  "string list \<Rightarrow> string list \<Rightarrow> string list \<Rightarrow> string list \<Rightarrow> (string, flag_value) jsmap option" where
  "parseFlagValues tail valueFlags booleanFlags repeatableFlags =
     parseFlagValues_from [] valueFlags booleanFlags repeatableFlags tail"

definition VALUE_FLAGS :: "string list" where
  "VALUE_FLAGS = [''--params'', ''--json'', ''--format'', ''--sanitize'', ''--output'', ''--upload'',
     ''--upload-content-type'', ''--page-limit'', ''--page-delay'']"

definition BOOLEAN_FLAGS :: "string list" where "BOOLEAN_FLAGS = [''--dry-run'', ''--page-all'']"

text \<open>\<open>None\<close> is acceptance, \<open>Some\<close> the error.\<close>

fun validateMethodTail_from :: "string list \<Rightarrow> string list \<Rightarrow> string option" where
  "validateMethodTail_from seen [] = None"
| "validateMethodTail_from seen (flag # tail) =
     (if flag = [] \<or> flag \<in> set seen then Some ''Raw gws flags are ambiguous''
      else if flag \<in> set BOOLEAN_FLAGS then validateMethodTail_from (flag # seen) tail
      else if flag \<notin> set VALUE_FLAGS
      then Some ''Raw gws command contains an unsupported flag or positional argument''
      else case tail of
          [] \<Rightarrow> Some ''Raw gws command contains an unsupported flag or positional argument''
        | v # rest \<Rightarrow> validateMethodTail_from (flag # seen) rest)"

definition validateMethodTail :: "string list \<Rightarrow> string option" where
  "validateMethodTail tail = validateMethodTail_from [] tail"

section \<open>Recipients of an outgoing message\<close>

type_synonym tool_args = "(string \<times> json) list"

text \<open>\<open>JSON\<close> and \<open>String\<close> of the runtime, beside the text functions.\<close>

record js_lib =
  lib_text :: text_lib
  jsonParse :: "string \<Rightarrow> json option"
  jsonStringify :: "json \<Rightarrow> string"
  numberString :: "rat \<Rightarrow> string"

text \<open>The message body and the parameters of \<open>gmail.users.messages.send\<close>; the outer \<open>None\<close> is an
  early return.\<close>

definition rawMessageBody ::
  "js_lib \<Rightarrow> tool_args \<Rightarrow> string list option \<Rightarrow> (json option \<times> json option) option" where
  "rawMessageBody lib args rawTail =
     (case rawTail of
        Some tail \<Rightarrow>
          (case parseFlagValues tail [''--json'', ''--params'', ''--format''] [''--dry-run''] [] of
             None \<Rightarrow> None
           | Some flags \<Rightarrow>
               (case js_get flags ''--json'' of
                  Some (FVal j) \<Rightarrow>
                    (case jsonParse lib j of
                       None \<Rightarrow> None
                     | Some body \<Rightarrow>
                         (case js_get flags ''--params'' of
                            Some (FVal p) \<Rightarrow>
                              (case jsonParse lib p of None \<Rightarrow> None | Some ps \<Rightarrow> Some (Some body, Some ps))
                          | _ \<Rightarrow> Some (Some body, None)))
                | _ \<Rightarrow> None))
      | None \<Rightarrow>
          (if list_ex (\<lambda>k. k \<notin> {''json'', ''params'', ''format'', ''dryRun'', ''extraArgs''}) (map fst args)
           then None
           else if (case js_get args ''extraArgs'' of Some (JArr (x # xs)) \<Rightarrow> True | _ \<Rightarrow> False) then None
           else Some (js_get args ''json'', js_get args ''params'')))"

definition assessRawMessageSend ::
  "js_lib \<Rightarrow> tool_args \<Rightarrow> string list option \<Rightarrow> string list option" where
  "assessRawMessageSend lib args rawTail =
     (case rawMessageBody lib args rawTail of
        None \<Rightarrow> None
      | Some (body, params) \<Rightarrow>
          (case Option.bind body as_record of
             None \<Rightarrow> None
           | Some fs \<Rightarrow>
               (if list_ex (\<lambda>k. k \<noteq> ''raw'' \<and> k \<noteq> ''threadId'') (map fst fs) then None
                else if (case params of
                           None \<Rightarrow> False
                         | Some p \<Rightarrow> (case as_record p of
                             None \<Rightarrow> True | Some ps \<Rightarrow> list_ex (\<lambda>k. k \<noteq> ''userId'') (map fst ps)))
                then None
                else case js_get fs ''raw'' of
                    Some (JStr raw) \<Rightarrow> recipientDomainsFromRawMessage (lib_text lib) raw
                  | _ \<Rightarrow> None)))"

definition SEND_VALUE_FLAGS :: "string list" where
  "SEND_VALUE_FLAGS =
     [''--to'', ''--cc'', ''--bcc'', ''--subject'', ''--body'', ''--from'', ''--attach'', ''-a'']"

definition parseSendFlags :: "string list \<Rightarrow> (string, flag_value) jsmap option" where
  "parseSendFlags tail =
     parseFlagValues tail SEND_VALUE_FLAGS [''--html'', ''--dry-run'', ''--draft''] [''--attach'', ''-a'']"

text \<open>The loop over the recipient flags.\<close>

fun flagDomains ::
  "text_lib \<Rightarrow> (string, flag_value) jsmap \<Rightarrow> string list \<Rightarrow> string list option" where
  "flagDomains lib flags [] = Some []"
| "flagDomains lib flags (name # names) =
     (case js_get flags name of
        None \<Rightarrow> flagDomains lib flags names
      | Some FTrue \<Rightarrow> None
      | Some (FVal v) \<Rightarrow>
          (case recipientDomainsFromAddressList lib v of
             None \<Rightarrow> None
           | Some parsed \<Rightarrow> map_option ((@) parsed) (flagDomains lib flags names)))"

definition assessSendHelper :: "js_lib \<Rightarrow> tool_args \<Rightarrow> string list option \<Rightarrow> string list option" where
  "assessSendHelper lib args rawTail =
     (if rawTail = None \<and> list_ex (\<lambda>k. k \<noteq> ''args'') (map fst args) then None
      else case orelse rawTail (Option.bind (js_get args ''args'') as_string_array) of
          None \<Rightarrow> None
        | Some tail \<Rightarrow>
            (case parseSendFlags tail of
               None \<Rightarrow> None
             | Some flags \<Rightarrow>
                 (case js_get flags ''--to'' of
                    Some (FVal v) \<Rightarrow>
                      (case flagDomains (lib_text lib) flags [''--to'', ''--cc'', ''--bcc''] of
                         None \<Rightarrow> None
                       | Some domains \<Rightarrow> (if domains \<noteq> [] then Some (js_unique domains) else None))
                  | _ \<Rightarrow> None)))"

definition assessOutboundEmail ::
  "js_lib \<Rightarrow> string \<Rightarrow> tool_args \<Rightarrow> string list option \<Rightarrow> string list option" where
  "assessOutboundEmail lib op args rawTail =
     (if op \<notin> set SEND_OPERATIONS then None
      else if op \<noteq> ''gmail.users.messages.send'' \<and> op \<noteq> ''gmail.+send'' then None
      else case (if op = ''gmail.users.messages.send'' then assessRawMessageSend lib args rawTail
                 else assessSendHelper lib args rawTail) of
          Some (d # ds) \<Rightarrow> Some (d # ds)
        | _ \<Rightarrow> None)"

section \<open>Resolution\<close>

record ResolvedWorkspaceOperation =
  rw_operation :: string
  rw_service :: string
  rw_actionClass :: string
  rw_scopeRequirement :: "string list list"
  rw_outboundEmail :: "string list option"
  rw_args :: tool_args

definition singletonGroups :: "string list \<Rightarrow> string list list" where
  "singletonGroups scopes = map (\<lambda>s. [s]) scopes"

definition commandKey :: "string list \<Rightarrow> string" where
  "commandKey command = join_with [CHR 0x00] command"

definition COMMANDS :: "WorkspaceToolDefinition list \<Rightarrow> (string, WorkspaceToolDefinition) jsmap" where
  "COMMANDS tools =
     foldl (\<lambda>m t. js_set (commandKey (wt_command t)) t m) [] (filter (\<lambda>t. wt_command t \<noteq> []) tools)"

definition PINNED_GWS_OPERATIONS :: "WorkspaceToolDefinition list \<Rightarrow> string list" where
  "PINNED_GWS_OPERATIONS tools =
     map (\<lambda>(k, t). join_with ''.'' (wt_command t)) (COMMANDS tools) @ [''google.oauth.start'']"

text \<open>The longest prefix of the arguments that is a command.\<close>

fun matchCommand ::
  "(string, WorkspaceToolDefinition) jsmap \<Rightarrow> string list \<Rightarrow> nat \<Rightarrow> WorkspaceToolDefinition option" where
  "matchCommand commands argv 0 = None"
| "matchCommand commands argv (Suc n) =
     (case js_get commands (commandKey (take (Suc n) argv)) of
        Some t \<Rightarrow> Some t
      | None \<Rightarrow> matchCommand commands argv n)"

definition isHelper :: "WorkspaceToolDefinition \<Rightarrow> bool" where
  "isHelper tool = list_ex (prefix ''+'') (wt_command tool)"

definition resolveRawCommand ::
  "js_lib \<Rightarrow> (string, WorkspaceToolDefinition) jsmap \<Rightarrow> string list \<Rightarrow> tool_args \<Rightarrow>
   string + ResolvedWorkspaceOperation" where
  "resolveRawCommand lib commands argv args =
     (case matchCommand commands argv (min (length argv) 6) of
        None \<Rightarrow> Inl ''The raw gws command is not in the pinned command catalog''
      | Some matched \<Rightarrow>
          (let tail = drop (length (wt_command matched)) argv;
               original = coalesce (wt_scopeRequirement matched) (singletonGroups (wt_scopes matched));
               filtered = map (filter (\<lambda>s. \<not> isExcludedGoogleWorkspaceScope s)) original in
           case (if isHelper matched then None else validateMethodTail tail) of
             Some e \<Rightarrow> Inl e
           | None \<Rightarrow>
               (if list_ex (\<lambda>g. g = []) filtered
                then Inl ''The raw gws command requires an unsupported OAuth scope''
                else Inr \<lparr>rw_operation = join_with ''.'' (wt_command matched), rw_service = wt_service matched,
                  rw_actionClass = classifyGovernedGwsToolAction (wt_service matched)
                    (join_with ''.'' (drop 1 (wt_command matched))) (wt_actionClass matched),
                  rw_scopeRequirement = filtered,
                  rw_outboundEmail = assessOutboundEmail lib (join_with ''.'' (wt_command matched)) args (Some tail),
                  rw_args = args\<rparr>)))"

definition resolveWorkspaceOperation ::
  "js_lib \<Rightarrow> (string, WorkspaceToolDefinition) jsmap \<Rightarrow> WorkspaceToolDefinition \<Rightarrow> tool_args \<Rightarrow> bool \<Rightarrow>
   string + ResolvedWorkspaceOperation" where
  "resolveWorkspaceOperation lib commands tool args hardGuardrails =
     (if \<not> truthy (wt_rawArgvParam tool)
      then (if hardGuardrails \<and> \<not> isHelper tool \<and> truthy (wt_extraArgsParam tool) \<and>
               (case js_get args (the (wt_extraArgsParam tool)) of Some (JArr (x # xs)) \<Rightarrow> True | _ \<Rightarrow> False)
            then Inl ''Extra command arguments are unavailable under hard guardrails''
            else Inr \<lparr>rw_operation = join_with ''.'' (wt_command tool), rw_service = wt_service tool,
              rw_actionClass = wt_actionClass tool,
              rw_scopeRequirement = coalesce (wt_scopeRequirement tool) (singletonGroups (wt_scopes tool)),
              rw_outboundEmail = assessOutboundEmail lib (join_with ''.'' (wt_command tool)) args None,
              rw_args = args\<rparr>)
      else case Option.bind (js_get args (the (wt_rawArgvParam tool))) as_string_array of
          None \<Rightarrow> Inl ''argv must be an array of strings''
        | Some argv \<Rightarrow>
            (case (if truthy (wt_dynamicScopesParam tool)
                   then Option.bind (js_get args (the (wt_dynamicScopesParam tool))) as_string_array
                   else None) of
               None \<Rightarrow> Inl ''scopes must be an array of strings''
             | Some callerScopes \<Rightarrow>
                 (if list_ex isExcludedGoogleWorkspaceScope callerScopes
                  then Inl ''scopes contains an unsupported Google Workspace scope''
                  else resolveRawCommand lib commands argv args)))"

end
