(* ===== verification/Task_Authorization.thy ===== *)
theory Task_Authorization
  imports Json
begin

text \<open>
  \<open>packages/wrapper-kit/src/task-tool-authorization.ts\<close>: the tools a task token may call. The
  authority claim of the token lists grants; the key of a grant in the set of allowed grants is its
  serialization as a JSON array, which is modelled with its escapes.
\<close>

section \<open>JSON strings\<close>

definition hex_digit :: "nat \<Rightarrow> char" where
  "hex_digit n = (if n < 10 then char_of (48 + n) else char_of (87 + n))"

text \<open>\<open>JSON.stringify\<close> of a character of a string.\<close>

definition json_escape :: "char \<Rightarrow> string" where
  "json_escape c =
     (if c = CHR 0x22 then [CHR 0x5C, CHR 0x22]
      else if c = CHR 0x5C then [CHR 0x5C, CHR 0x5C]
      else if c = CHR 0x08 then [CHR 0x5C, CHR ''b'']
      else if c = CHR 0x0C then [CHR 0x5C, CHR ''f'']
      else if c = CHR 0x0A then [CHR 0x5C, CHR ''n'']
      else if c = CHR 0x0D then [CHR 0x5C, CHR ''r'']
      else if c = CHR 0x09 then [CHR 0x5C, CHR ''t'']
      else if of_char c < (32::nat)
      then [CHR 0x5C, CHR ''u'', CHR ''0'', CHR ''0'', hex_digit (of_char c div 16), hex_digit (of_char c mod 16)]
      else [c])"

definition json_string :: "string \<Rightarrow> string" where
  "json_string s = CHR 0x22 # concat (map json_escape s) @ [CHR 0x22]"

text \<open>\<open>JSON.stringify\<close> of an array of strings.\<close>

definition json_string_array :: "string list \<Rightarrow> string" where
  "json_string_array ss = ''['' @ join_with '','' (map json_string ss) @ '']''"

section \<open>Grants\<close>

record TaskToolGrant =
  tg_provider :: string
  tg_resource :: string
  tg_action :: string

definition grantKey :: "TaskToolGrant \<Rightarrow> string" where
  "grantKey g = json_string_array [tg_provider g, tg_resource g, tg_action g]"

record TaskToolAuthorization =
  ta_restricted :: bool
  ta_allowsConnectionHelpers :: bool
  ta_allows :: "TaskToolGrant \<Rightarrow> bool"
  ta_allowsAny :: "TaskToolGrant list \<Rightarrow> bool"

definition UNRESTRICTED :: TaskToolAuthorization where
  "UNRESTRICTED =
     \<lparr>ta_restricted = False, ta_allowsConnectionHelpers = True, ta_allows = (\<lambda>g. True),
      ta_allowsAny = (\<lambda>gs. True)\<rparr>"

definition restrictedAuthorization :: "TaskToolGrant list \<Rightarrow> bool \<Rightarrow> TaskToolAuthorization" where
  "restrictedAuthorization grants allowsConnectionHelpers =
     (let allowed = js_unique (map grantKey grants) in
      \<lparr>ta_restricted = True, ta_allowsConnectionHelpers = allowsConnectionHelpers,
       ta_allows = (\<lambda>g. grantKey g \<in> set allowed),
       ta_allowsAny = list_ex (\<lambda>g. grantKey g \<in> set allowed)\<rparr>)"

definition parseGrant :: "json \<Rightarrow> TaskToolGrant option" where
  "parseGrant v =
     (case as_record v of
        None \<Rightarrow> None
      | Some fs \<Rightarrow>
          (if list_ex (\<lambda>k. k \<notin> {''provider'', ''resource'', ''action''}) (map fst fs) then None
           else case (nonblank (js_get fs ''provider''), nonblank (js_get fs ''resource''),
                      nonblank (js_get fs ''action'')) of
               (Some p, Some r, Some a) \<Rightarrow> Some \<lparr>tg_provider = p, tg_resource = r, tg_action = a\<rparr>
             | _ \<Rightarrow> None))"

section \<open>Authority claims\<close>

definition TASK_AUTHORITY_CLAIM :: string where "TASK_AUTHORITY_CLAIM = ''steward''"
definition CONTROL_PLANE_SERVICE :: string where "CONTROL_PLANE_SERVICE = ''steward-apiserver''"
definition CURRENT_TASK_AUTHORITY_CLAIMS_VERSION :: rat where
  "CURRENT_TASK_AUTHORITY_CLAIMS_VERSION = 3"
definition CONNECTION_STATUS_PURPOSE :: string where
  "CONNECTION_STATUS_PURPOSE = ''provider_connection_status''"

text \<open>\<open>authority?.key\<close>, where the authority may not be an object.\<close>

definition claim :: "(string \<times> json) list option \<Rightarrow> string \<Rightarrow> json option" where
  "claim authority key = Option.bind authority (\<lambda>fs. js_get fs key)"

definition isLegacyTaskMarker :: "(string \<times> json) list option \<Rightarrow> bool" where
  "isLegacyTaskMarker authority =
     (case claim authority ''version'' of
        Some (JNum n) \<Rightarrow>
          (if n \<notin> \<int> \<or> n < 1 \<or> nonblank (claim authority ''runtime_uid'') = None \<or>
              claim authority ''purpose'' \<noteq> None
           then False
           else if claim authority ''acting_as'' = Some (JStr ''user'')
           then claim authority ''service'' = None
           else if claim authority ''acting_as'' = Some (JStr ''service'') \<or>
                   claim authority ''acting_as'' = Some (JStr ''service_for_user'')
           then nonblank (claim authority ''service'') \<noteq> None
           else False)
      | _ \<Rightarrow> False)"

definition isCurrentTaskMarker :: "(string \<times> json) list option \<Rightarrow> bool" where
  "isCurrentTaskMarker authority \<longleftrightarrow>
     claim authority ''version'' = Some (JNum CURRENT_TASK_AUTHORITY_CLAIMS_VERSION) \<and>
     isLegacyTaskMarker authority"

definition connectionStatusAuthorityGrant :: "(string \<times> json) list option \<Rightarrow> TaskToolGrant option" where
  "connectionStatusAuthorityGrant authority =
     (case claim authority ''tools'' of
        Some (JArr [t]) \<Rightarrow>
          (case parseGrant t of
             None \<Rightarrow> None
           | Some g \<Rightarrow>
               (if claim authority ''acting_as'' = Some (JStr ''service_for_user'') \<and>
                   claim authority ''service'' = Some (JStr CONTROL_PLANE_SERVICE) \<and>
                   claim authority ''purpose'' = Some (JStr CONNECTION_STATUS_PURPOSE) \<and>
                   claim authority ''runtime_uid'' = None \<and>
                   claim authority ''version'' = Some (JNum CURRENT_TASK_AUTHORITY_CLAIMS_VERSION) \<and>
                   tg_resource g = ''provider-control'' \<and> tg_action g = ''status''
                then Some g else None))
      | _ \<Rightarrow> None)"

text \<open>The loop over the tools: one that cannot be parsed rejects them all.\<close>

definition parseGrants :: "json list \<Rightarrow> TaskToolGrant list option" where
  "parseGrants tools = sequence_opt (map parseGrant tools)"

definition parseTaskToolAuthorization :: "(string \<times> json) list \<Rightarrow> bool \<Rightarrow> TaskToolAuthorization" where
  "parseTaskToolAuthorization claims allowLegacyUnscopedTaskTokens =
     (case js_get claims TASK_AUTHORITY_CLAIM of
        None \<Rightarrow> UNRESTRICTED
      | Some v \<Rightarrow>
          (let authority = as_record v in
           case connectionStatusAuthorityGrant authority of
             Some g \<Rightarrow> restrictedAuthorization [g] False
           | None \<Rightarrow>
               (if isLegacyTaskMarker authority \<and> claim authority ''tools'' = None \<and>
                   allowLegacyUnscopedTaskTokens
                then UNRESTRICTED
                else case (isCurrentTaskMarker authority, claim authority ''tools'') of
                    (True, Some (JArr tools)) \<Rightarrow>
                      (case parseGrants tools of
                         None \<Rightarrow> restrictedAuthorization [] True
                       | Some grants \<Rightarrow> restrictedAuthorization grants True)
                  | _ \<Rightarrow> restrictedAuthorization [] True)))"

definition LEGACY_OPT_OUT_ENV :: string where
  "LEGACY_OPT_OUT_ENV = ''MCP_GW_ALLOW_LEGACY_UNSCOPED_TASK_TOKENS''"

text \<open>The result is the option \<open>allowLegacyUnscopedTaskTokens\<close>.\<close>

definition readTaskToolAuthorizationOptions :: "(string \<Rightarrow> string option) \<Rightarrow> string + bool" where
  "readTaskToolAuthorizationOptions env =
     (let raw = map_option trim (env LEGACY_OPT_OUT_ENV) in
      if raw = None \<or> raw = Some '''' \<or> raw = Some ''false'' then Inr False
      else if raw = Some ''true'' then Inr True
      else Inl (LEGACY_OPT_OUT_ENV @ '' must be true or false''))"

section \<open>The key of a grant determines it\<close>

text \<open>Reading a JSON string back: the characters up to the closing quote, and what follows it.\<close>

fun hex_value :: "char \<Rightarrow> nat" where
  "hex_value c = (if of_char c < (58::nat) then of_char c - 48 else of_char c - 87)"

fun json_unescape :: "string \<Rightarrow> (string \<times> string) option" where
  "json_unescape [] = None"
| "json_unescape (c # cs) =
     (if c = CHR 0x22 then Some ([], cs)
      else if c \<noteq> CHR 0x5C then map_option (apfst ((#) c)) (json_unescape cs)
      else case cs of
          [] \<Rightarrow> None
        | d # ds \<Rightarrow>
            (if d = CHR ''u''
             then case ds of
                 a # b # h # l # rest \<Rightarrow>
                   map_option (apfst ((#) (char_of (hex_value h * 16 + hex_value l)))) (json_unescape rest)
               | _ \<Rightarrow> None
             else map_option (apfst ((#)
               (if d = CHR ''b'' then CHR 0x08 else if d = CHR ''f'' then CHR 0x0C
                else if d = CHR ''n'' then CHR 0x0A else if d = CHR ''r'' then CHR 0x0D
                else if d = CHR ''t'' then CHR 0x09 else d))) (json_unescape ds)))"

lemma hex_value_digit: "k < 16 \<Longrightarrow> hex_value (hex_digit k) = k"
  by (simp add: hex_digit_def)

lemma hex_round: "n < 32 \<Longrightarrow> hex_value (hex_digit (n div 16)) * 16 + hex_value (hex_digit (n mod 16)) = n"
  by (subst (1 2) hex_value_digit) simp_all

lemma json_unescape_escape: "json_unescape (json_escape c @ r) = map_option (apfst ((#) c)) (json_unescape r)"
proof (cases "of_char c < (32::nat)")
  case True
  have "char_of (hex_value (hex_digit (of_char c div 16)) * 16 + hex_value (hex_digit (of_char c mod 16))) = c"
    by (simp only: hex_round [OF True] char_of_char)
  then show ?thesis using True by (simp add: json_escape_def del: hex_value.simps)
next
  case False
  then show ?thesis by (auto simp: json_escape_def)
qed

lemma json_unescape_string: "json_unescape (concat (map json_escape s) @ CHR 0x22 # r) = Some (s, r)"
  by (induction s) (simp_all add: json_unescape_escape del: json_unescape.simps(2),
      simp add: json_unescape.simps(2))

lemma json_string_append_inj: "json_string s @ r = json_string s' @ r' \<longleftrightarrow> s = s' \<and> r = r'"
proof
  assume "json_string s @ r = json_string s' @ r'"
  then have "concat (map json_escape s) @ CHR 0x22 # r = concat (map json_escape s') @ CHR 0x22 # r'"
    by (simp add: json_string_def)
  then show "s = s' \<and> r = r'" by (metis json_unescape_string option.inject prod.inject)
qed simp

lemma json_string_inj [simp]: "json_string s = json_string s' \<longleftrightarrow> s = s'"
  using json_string_append_inj [of s "[]" s' "[]"] by simp

text \<open>Two grants with the same key are the same grant.\<close>

lemma grantKey_inj [simp]: "grantKey g = grantKey h \<longleftrightarrow> g = h"
  by (cases g; cases h) (auto simp: grantKey_def json_string_array_def json_string_append_inj)

lemma restrictedAuthorization_allows [simp]:
  "ta_allows (restrictedAuthorization gs b) g \<longleftrightarrow> g \<in> set gs"
  "ta_allowsAny (restrictedAuthorization gs b) hs \<longleftrightarrow> (\<exists>h \<in> set hs. h \<in> set gs)"
  "ta_restricted (restrictedAuthorization gs b)"
  "ta_allowsConnectionHelpers (restrictedAuthorization gs b) = b"
  by (auto simp: restrictedAuthorization_def Let_def list_ex_iff inj_image_mem_iff inj_def)

lemma connectionStatusAuthorityGrant_tools:
  "connectionStatusAuthorityGrant authority = Some g \<Longrightarrow>
   \<exists>t. claim authority ''tools'' = Some (JArr [t]) \<and> parseGrant t = Some g"
  by (auto simp: connectionStatusAuthorityGrant_def split: option.splits json.splits list.splits if_splits)

lemma connectionStatusAuthorityGrant_not_task:
  "connectionStatusAuthorityGrant authority = Some g \<Longrightarrow> \<not> isLegacyTaskMarker authority"
  by (auto simp: connectionStatusAuthorityGrant_def isLegacyTaskMarker_def nonblank_def
      split: option.splits json.splits list.splits if_splits)

section \<open>What a task token may call\<close>

text \<open>C20: a token that carries the authority claim allows exactly the grants its claim spells out. A
  tool is allowed if and only if the claim is a current task marker, or the control plane's claim for
  connection status, its tools are an array every element of which is a grant, and the grant of the
  tool is one of them; anything malformed allows nothing. The one exception, set aside by the second
  assumption, is a legacy marker without tools where the operator has opted out. The connection
  helpers are closed only to the control plane's claim.\<close>

theorem task_grants_exact:
  assumes "js_get claims ''steward'' = Some v"
    and "\<not> (allowLegacy \<and> isLegacyTaskMarker (as_record v) \<and> claim (as_record v) ''tools'' = None)"
  shows "(ta_allows (parseTaskToolAuthorization claims allowLegacy) g \<longleftrightarrow>
      (\<exists>tools gs. claim (as_record v) ''tools'' = Some (JArr tools) \<and>
         list_all2 (\<lambda>t h. parseGrant t = Some h) tools gs \<and> g \<in> set gs \<and>
         (isCurrentTaskMarker (as_record v) \<or> connectionStatusAuthorityGrant (as_record v) = Some g))) \<and>
    ta_restricted (parseTaskToolAuthorization claims allowLegacy) \<and>
    (ta_allowsConnectionHelpers (parseTaskToolAuthorization claims allowLegacy) \<longleftrightarrow>
      connectionStatusAuthorityGrant (as_record v) = None)"
proof -
  let ?a = "as_record v" and ?p = "parseTaskToolAuthorization claims allowLegacy"
  have p: "?p = (case connectionStatusAuthorityGrant ?a of
             Some g \<Rightarrow> restrictedAuthorization [g] False
           | None \<Rightarrow> (case (isCurrentTaskMarker ?a, claim ?a ''tools'') of
                    (True, Some (JArr tools)) \<Rightarrow>
                      (case parseGrants tools of
                         None \<Rightarrow> restrictedAuthorization [] True
                       | Some grants \<Rightarrow> restrictedAuthorization grants True)
                  | _ \<Rightarrow> restrictedAuthorization [] True))"
    using assms by (auto simp: parseTaskToolAuthorization_def TASK_AUTHORITY_CLAIM_def Let_def split: option.splits)
  have l: "list_all2 (\<lambda>t h. parseGrant t = Some h) tools gs \<longleftrightarrow> parseGrants tools = Some gs" for tools gs
    by (simp add: parseGrants_def sequence_opt_map_Some)
  have "ta_allows ?p g \<longleftrightarrow> (\<exists>tools gs. claim ?a ''tools'' = Some (JArr tools) \<and>
         list_all2 (\<lambda>t h. parseGrant t = Some h) tools gs \<and> g \<in> set gs \<and>
         (isCurrentTaskMarker ?a \<or> connectionStatusAuthorityGrant ?a = Some g))"
  proof (cases "connectionStatusAuthorityGrant ?a")
    case None
    then show ?thesis unfolding l by (auto simp: p split: option.splits json.splits bool.splits)
  next
    case (Some h)
    then have "\<not> isCurrentTaskMarker ?a"
      using connectionStatusAuthorityGrant_not_task by (auto simp: isCurrentTaskMarker_def)
    with Some connectionStatusAuthorityGrant_tools [OF Some] show ?thesis by (auto simp: p list_all2_Cons1)
  qed
  moreover have "ta_restricted ?p" "ta_allowsConnectionHelpers ?p \<longleftrightarrow> connectionStatusAuthorityGrant ?a = None"
    by (auto simp: p split: option.splits json.splits bool.splits)
  ultimately show ?thesis by blast
qed

definition example_claims :: "(string \<times> json) list" where
  "example_claims =
     [(''sub'', JStr ''u''), (''steward'', JObj
        [(''version'', JNum 3), (''runtime_uid'', JStr ''r''), (''acting_as'', JStr ''user''),
         (''tools'', JArr [JObj [(''provider'', JStr ''gmail''), (''resource'', JStr ''send''),
                                 (''action'', JStr ''write'')]])])]"

theorem task_grants_exact_witness:
  "ta_allows (parseTaskToolAuthorization example_claims True)
     \<lparr>tg_provider = ''gmail'', tg_resource = ''send'', tg_action = ''write''\<rparr>"
proof -
  let ?v = "the (js_get example_claims ''steward'')"
  let ?g = "\<lparr>tg_provider = ''gmail'', tg_resource = ''send'', tg_action = ''write''\<rparr>"
  let ?t = "JObj [(''provider'', JStr ''gmail''), (''resource'', JStr ''send''), (''action'', JStr ''write'')]"
  have v: "js_get example_claims ''steward'' = Some ?v" by (simp add: example_claims_def)
  have m: "isCurrentTaskMarker (as_record ?v)"
    by (simp add: example_claims_def isCurrentTaskMarker_def isLegacyTaskMarker_def claim_def
        CURRENT_TASK_AUTHORITY_CLAIMS_VERSION_def nonblank_def trim_def is_space_def)
  have g: "parseGrant ?t = Some ?g" by (simp add: parseGrant_def nonblank_def trim_def is_space_def)
  have t: "claim (as_record ?v) ''tools'' = Some (JArr [?t])" by (simp add: example_claims_def claim_def)
  have "\<not> (True \<and> isLegacyTaskMarker (as_record ?v) \<and> claim (as_record ?v) ''tools'' = None)" using t by simp
  note eq = task_grants_exact [OF v this, of ?g, THEN conjunct1]
  show ?thesis unfolding eq by (rule exI [of _ "[?t]"], rule exI [of _ "[?g]"]) (use t m g in simp)
qed

end
