(* ===== verification/Workspace_Registry.thy ===== *)
theory Workspace_Registry
  imports Operation_Resolver Task_Authorization
begin

text \<open>
  The Google Workspace wrapper around the resolver: \<open>executor/gws.ts\<close>, which builds the command
  line and the environment of the child process, \<open>effectiveGoogleScopes\<close> of
  \<open>shared/oauth/provider-adapters.ts\<close>, and the tool registry of \<open>google-workspace/registry.ts\<close>. A call
  of a tool returns its result, or the message of the error it throws, and the list of what it did to
  the outside, in order. The token broker, the executor and the clock are parameters; the audit sink
  accepts every event, as the in-memory sink does.
\<close>

section \<open>Command lines\<close>

definition stringArrayArg :: "tool_args \<Rightarrow> string \<Rightarrow> string + string list" where
  "stringArrayArg args name =
     (case Option.bind (js_get args name) as_string_array of
        None \<Rightarrow> Inl (name @ '' must be an array of strings'') | Some ss \<Rightarrow> Inr ss)"

definition appendOptionalJsonFlag ::
  "js_lib \<Rightarrow> string \<Rightarrow> tool_args \<Rightarrow> string option \<Rightarrow> string list \<Rightarrow> string + string list" where
  "appendOptionalJsonFlag lib flag args name commandArgs =
     (if \<not> truthy name then Inr commandArgs
      else case js_get args (the name) of
          None \<Rightarrow> Inr commandArgs
        | Some j \<Rightarrow>
            (case as_record j of
               None \<Rightarrow> Inl (the name @ '' must be an object'')
             | Some fs \<Rightarrow> Inr (commandArgs @ [flag, jsonStringify lib j])))"

definition appendOptionalStringFlag ::
  "string \<Rightarrow> tool_args \<Rightarrow> string \<Rightarrow> string list \<Rightarrow> string + string list" where
  "appendOptionalStringFlag flag args name commandArgs =
     (case js_get args name of
        None \<Rightarrow> Inr commandArgs
      | Some (JStr s) \<Rightarrow> Inr (commandArgs @ [flag, s])
      | _ \<Rightarrow> Inl (name @ '' must be a string''))"

definition appendOptionalNumberFlag ::
  "js_lib \<Rightarrow> string \<Rightarrow> tool_args \<Rightarrow> string \<Rightarrow> string list \<Rightarrow> string + string list" where
  "appendOptionalNumberFlag lib flag args name commandArgs =
     (case js_get args name of
        None \<Rightarrow> Inr commandArgs
      | Some (JNum n) \<Rightarrow> Inr (commandArgs @ [flag, numberString lib n])
      | _ \<Rightarrow> Inl (name @ '' must be a number''))"

definition appendGeneratedGwsFlags ::
  "js_lib \<Rightarrow> WorkspaceToolDefinition \<Rightarrow> tool_args \<Rightarrow> string list \<Rightarrow> string + string list" where
  "appendGeneratedGwsFlags lib tool args commandArgs =
     sum_bind (appendOptionalJsonFlag lib ''--params'' args (wt_paramsJsonParam tool) commandArgs) (\<lambda>c.
     sum_bind (appendOptionalJsonFlag lib ''--json'' args (wt_bodyJsonParam tool) c) (\<lambda>c.
     sum_bind (appendOptionalStringFlag ''--format'' args ''format'' c) (\<lambda>c.
     sum_bind (appendOptionalStringFlag ''--sanitize'' args ''sanitize'' c) (\<lambda>c.
     sum_bind (appendOptionalStringFlag ''--output'' args ''output'' c) (\<lambda>c.
     sum_bind (appendOptionalStringFlag ''--upload'' args ''upload'' c) (\<lambda>c.
     sum_bind (appendOptionalStringFlag ''--upload-content-type'' args ''uploadContentType'' c) (\<lambda>c.
     sum_bind (appendOptionalNumberFlag lib ''--page-limit'' args ''pageLimit'' c) (\<lambda>c.
     sum_bind (appendOptionalNumberFlag lib ''--page-delay'' args ''pageDelay'' c) (\<lambda>c.
       let c = (if js_get args ''dryRun'' = Some (JBool True) then c @ [''--dry-run''] else c);
           c = (if js_get args ''pageAll'' = Some (JBool True) then c @ [''--page-all''] else c) in
       if truthy (wt_extraArgsParam tool) \<and> js_get args (the (wt_extraArgsParam tool)) \<noteq> None
       then sum_bind (stringArrayArg args (the (wt_extraArgsParam tool))) (\<lambda>extra. Inr (c @ extra))
       else Inr c)))))))))"

definition collectValues :: "CatalogParam list \<Rightarrow> tool_args \<Rightarrow> tool_args \<Rightarrow> tool_args" where
  "collectValues params args defaults =
     foldl (\<lambda>vs p. case js_get args (cp_name p) of None \<Rightarrow> vs | Some v \<Rightarrow> js_set (cp_name p) v vs)
       defaults params"

definition buildGwsArgs ::
  "js_lib \<Rightarrow> WorkspaceToolDefinition \<Rightarrow> tool_args \<Rightarrow> string + string list" where
  "buildGwsArgs lib tool args =
     (if truthy (wt_rawArgvParam tool) then stringArrayArg args (the (wt_rawArgvParam tool))
      else if truthy (wt_paramsJsonParam tool) \<or> truthy (wt_bodyJsonParam tool) \<or> truthy (wt_extraArgsParam tool)
      then appendGeneratedGwsFlags lib tool args (wt_command tool)
      else
        (let params = collectValues (wt_params tool) args (wt_defaultParams tool);
             body = collectValues (wt_bodyParams tool) args [];
             c = wt_command tool @ (if params \<noteq> [] then [''--params'', jsonStringify lib (JObj params)] else []) @
                 (if body \<noteq> [] then [''--json'', jsonStringify lib (JObj body)] else []) in
         sum_bind (if wt_supportsUpload tool then
             sum_bind (appendOptionalStringFlag ''--upload'' args ''upload'' c)
               (appendOptionalStringFlag ''--upload-content-type'' args ''uploadContentType'')
           else Inr c)
         (\<lambda>c. Inr (c @ [''--format'', ''json'']))))"

section \<open>Inline uploads and the environment of the child\<close>

definition MAX_INLINE_UPLOAD_BYTES :: nat where "MAX_INLINE_UPLOAD_BYTES = 10 * 1024 * 1024"

text \<open>The alphabet of \<open>base64_value\<close> is the URL alphabet; the source first brings both to the other.\<close>

definition url_alphabet :: "char \<Rightarrow> char" where
  "url_alphabet c = (if c = CHR ''+'' then CHR ''-'' else if c = CHR ''/'' then CHR ''_'' else c)"

definition decodeBase64 :: "string \<Rightarrow> string + string" where
  "decodeBase64 v =
     (let normalized = map url_alphabet (trim v);
          unpadded = rev (dropWhile (\<lambda>c. c = CHR ''='') (rev normalized));
          padding = length normalized - length unpadded in
      case sequence_opt (map base64_value unpadded) of
        None \<Rightarrow> Inl ''uploadBase64 must contain valid base64 data''
      | Some values \<Rightarrow>
          (if length unpadded mod 4 = 1 \<or> padding > 2
           then Inl ''uploadBase64 must contain valid base64 data''
           else if length unpadded * 3 div 4 > MAX_INLINE_UPLOAD_BYTES
           then Inl (''uploadBase64 exceeds the '' @ nat_str MAX_INLINE_UPLOAD_BYTES @ '' byte limit'')
           else if base64_encode (base64_bytes values) \<noteq> unpadded
           then Inl ''uploadBase64 must contain valid base64 data''
           else Inr (base64_bytes values)))"

text \<open>The arguments with the upload replaced by a file, and the contents of that file.\<close>

definition prepareInlineUpload :: "tool_args \<Rightarrow> string + (tool_args \<times> string option)" where
  "prepareInlineUpload args =
     (case js_get args ''uploadBase64'' of
        None \<Rightarrow> Inr (args, None)
      | Some v \<Rightarrow>
          (if js_get args ''upload'' \<noteq> None then Inl ''upload and uploadBase64 cannot be used together''
           else case v of
               JStr s \<Rightarrow>
                 sum_bind (decodeBase64 s) (\<lambda>contents.
                   if length contents > MAX_INLINE_UPLOAD_BYTES
                   then Inl (''uploadBase64 exceeds the '' @ nat_str MAX_INLINE_UPLOAD_BYTES @ '' byte limit'')
                   else Inr (js_del ''uploadBase64'' (js_set ''upload'' (JStr ''upload.bin'') args),
                             Some contents))
             | _ \<Rightarrow> Inl ''uploadBase64 must be a string''))"

definition childEnv :: "(string, string) jsmap \<Rightarrow> string \<Rightarrow> string \<Rightarrow> (string, string) jsmap" where
  "childEnv parentEnv homeDir configDir =
     js_set ''GOOGLE_WORKSPACE_CLI_CONFIG_DIR'' configDir (js_set ''HOME'' homeDir
       (filter (\<lambda>(k, v). to_lower_case k \<noteq> ''authorization'' \<and> k \<noteq> ''GOOGLE_WORKSPACE_CLI_TOKEN'') parentEnv))"

text \<open>The environment \<open>executeCli\<close> starts the child with: the credential is added last.\<close>

definition spawnEnv :: "(string, string) jsmap \<Rightarrow> string \<Rightarrow> string \<Rightarrow> string \<Rightarrow> (string, string) jsmap" where
  "spawnEnv parentEnv homeDir configDir accessToken =
     js_set ''GOOGLE_WORKSPACE_CLI_TOKEN'' accessToken (childEnv parentEnv homeDir configDir)"

section \<open>Scopes reported to the policy\<close>

definition googleScopeImplies :: "string \<Rightarrow> string \<Rightarrow> bool" where
  "googleScopeImplies granted required =
     (if granted = googleScope ''drive''
      then required \<in> set (map googleScope [''drive.readonly'', ''drive.metadata'', ''drive.metadata.readonly''])
      else if granted = googleScope ''gmail.modify''
      then required \<in> set (map googleScope [''gmail.readonly'', ''gmail.compose'', ''gmail.send'',
             ''gmail.insert'', ''gmail.labels'', ''gmail.metadata'']) \<or>
           prefix (googleScope ''gmail.addons.'') required
      else if granted = googleScope ''calendar''
      then prefix (googleScope ''calendar.'') required \<or> required = googleScope ''calendar.readonly'' \<or>
           required = googleScope ''calendar.freebusy''
      else list_ex (\<lambda>service. granted = googleScope service \<and> required = googleScope service @ ''.readonly'')
             [''documents'', ''spreadsheets'', ''presentations'', ''tasks''])"

definition effectiveGoogleScopes :: "string list \<Rightarrow> string list list \<Rightarrow> string list" where
  "effectiveGoogleScopes grantedScopes groups =
     filter (\<lambda>g. list_ex (\<lambda>a. g = a \<or> googleScopeImplies g a) (concat groups)) (js_unique grantedScopes)"

section \<open>The registry\<close>

record ToolResult =
  tr_isError :: bool
  tr_text :: string
  tr_structured :: "(string \<times> string) list"

text \<open>An error of the broker or the executor: the code \<open>formatToolError\<close> finds for it, if any, and its
  message.\<close>

record tool_error =
  te_scopeError :: bool
  te_code :: "string option"
  te_message :: string

record GoogleOAuthStatus =
  go_connected :: bool
  go_scopesRequired :: "string list"
  go_missingScopes :: "string list"
  go_phase :: "string option"
  go_errorCategory :: "string option"

datatype gw_effect =
    AskGrantedScopes
  | AskAccessToken "string list list" "string list"
  | Execute WorkspaceToolDefinition tool_args string
  | StartOAuth "string option"
  | Audited AuditEvent
  | PolicyDeniedMetric string "string option"
  | ToolScopeDeniedMetric string

record registry_options =
  ro_email :: string
  ro_claims :: "(string \<times> json) list"
  ro_normalizedClaims :: json
  ro_policy :: "ToolPolicy option"
  ro_allowLegacy :: bool
  ro_tools :: "WorkspaceToolDefinition list"
  ro_catalogId :: "GoogleWorkspaceCatalogId option"
  ro_commands :: "(string, WorkspaceToolDefinition) jsmap"
  ro_oauth :: "GoogleOAuthStatus option"
  ro_statusText :: string
  ro_startOAuth :: "string option \<Rightarrow> tool_error + string"
  ro_getGrantedScopes :: "tool_error + string list"
  ro_getAccessToken :: "string list list \<Rightarrow> string list \<Rightarrow> tool_error + string"
  ro_executor :: "WorkspaceToolDefinition \<Rightarrow> tool_args \<Rightarrow> string \<Rightarrow> tool_error + json"
  ro_lib :: js_lib
  ro_errorText :: "tool_error \<Rightarrow> string"
  ro_prettyStringify :: "json \<Rightarrow> string"
  ro_digestArgs :: "tool_args \<Rightarrow> string"
  ro_diagnosticId :: string
  ro_ts :: string
  ro_latencyMs :: int

type_synonym call_outcome = "gw_effect list \<times> (string + ToolResult)"

definition policyOf :: "registry_options \<Rightarrow> ToolPolicy" where
  "policyOf ro = coalesce (ro_policy ro) AllowAllPolicy"

definition taskAuthorizationOf :: "registry_options \<Rightarrow> TaskToolAuthorization" where
  "taskAuthorizationOf ro = parseTaskToolAuthorization (ro_claims ro) (ro_allowLegacy ro)"

definition toolGrant :: "WorkspaceToolDefinition \<Rightarrow> TaskToolGrant" where
  "toolGrant tool = \<lparr>tg_provider = wt_service tool, tg_resource = wt_name tool, tg_action = wt_actionClass tool\<rparr>"

definition GOOGLE_OAUTH_TOOLS :: "string list" where
  "GOOGLE_OAUTH_TOOLS = [''google_oauth_status'', ''google_oauth_start'']"

text \<open>\<open>listTools\<close> and \<open>supportsTool\<close>, by the names of the tools.\<close>

definition listTools :: "registry_options \<Rightarrow> string list" where
  "listTools ro =
     (if ro_oauth ro \<noteq> None \<and> ta_allowsConnectionHelpers (taskAuthorizationOf ro) then GOOGLE_OAUTH_TOOLS else []) @
     map wt_name (filter (\<lambda>t. ta_allows (taskAuthorizationOf ro) (toolGrant t))
       (listGoogleWorkspaceTools (ro_tools ro) (ro_catalogId ro)))"

definition supportsTool :: "registry_options \<Rightarrow> string \<Rightarrow> bool" where
  "supportsTool ro name \<longleftrightarrow>
     (ro_oauth ro \<noteq> None \<and> name \<in> set GOOGLE_OAUTH_TOOLS) \<or>
     name \<in> wt_name ` set (listGoogleWorkspaceTools (ro_tools ro) (ro_catalogId ro))"

definition taskToolDeniedResult :: ToolResult where
  "taskToolDeniedResult =
     \<lparr>tr_isError = True, tr_text = ''Tool is not approved for this Task'',
      tr_structured = [(''error'', ''task_tool_not_approved'')]\<rparr>"

definition providerOAuthRequiredResult :: ToolResult where
  "providerOAuthRequiredResult =
     \<lparr>tr_isError = True,
      tr_text = ''Google Workspace authorization is required. Call google_oauth_start to connect the provider.'',
      tr_structured = [(''error'', ''provider_oauth_required''), (''provider'', ''google_workspace''),
        (''connectionHelper'', ''google_oauth_start'')]\<rparr>"

definition auditEvent ::
  "registry_options \<Rightarrow> string \<Rightarrow> string \<Rightarrow> tool_args \<Rightarrow> string option \<Rightarrow> int option \<Rightarrow> string option \<Rightarrow> AuditEvent" where
  "auditEvent ro status tool args event bytes err =
     \<lparr>ae_ts = ro_ts ro, ae_category = ''tool_call'', ae_principal = ro_email ro, ae_status = status,
      ae_event = event, ae_tool = Some tool, ae_argDigest = Some (ro_digestArgs ro args),
      ae_latencyMs = Some (ro_latencyMs ro), ae_resultSize = bytes, ae_error = err\<rparr>"

text \<open>\<open>enforcePolicyDecision\<close>: the effects, and the error if the decision is not to allow.\<close>

definition enforcePolicyDecision ::
  "registry_options \<Rightarrow> PolicyDecision \<Rightarrow> string \<Rightarrow> string \<Rightarrow> tool_args \<Rightarrow> gw_effect list \<times> string option" where
  "enforcePolicyDecision ro decision toolname op args =
     (case decision of
        Allow \<Rightarrow> ([], None)
      | ApprovalRequired reason ruleId \<Rightarrow>
          ([PolicyDeniedMetric op (if truthy ruleId then ruleId else None),
            Audited (auditEvent ro ''deny'' toolname args (Some ''approval_required'') None (Some reason))],
           Some (''Policy requires approval for '' @ toolname @ '': '' @ reason))
      | Deny reason ruleId \<Rightarrow>
          ([PolicyDeniedMetric op (if truthy ruleId then ruleId else None),
            Audited (auditEvent ro ''deny'' toolname args (Some ''deny'') None (Some reason))],
           Some (''Policy denied '' @ toolname @ '': '' @ reason)))"

definition validateRequiredArgs :: "WorkspaceToolDefinition \<Rightarrow> tool_args \<Rightarrow> string option" where
  "validateRequiredArgs tool args =
     (let missing = map cp_name (filter (\<lambda>p. cp_required p \<and> js_get args (cp_name p) = None)
                      (wt_params tool @ wt_bodyParams tool)) in
      if missing \<noteq> []
      then Some (''Missing required arguments for '' @ wt_name tool @ '': '' @ join_with '', '' missing)
      else None)"

definition safeBrokerageMessage :: "string \<Rightarrow> string" where
  "safeBrokerageMessage code =
     (if code = ''insufficient_scope'' then ''This tool needs an additional Google Workspace scope''
      else if code \<in> {''reauth_required'', ''invalid_active_credential'', ''invalid_renewal_credential'',
                      ''renewal_expired''}
      then ''Google Workspace must be reconnected''
      else if code = ''transient_provider_failure'' then ''Google Workspace is temporarily unavailable''
      else if code = ''persistence_failure'' then ''Credential storage is temporarily unavailable''
      else ''Google Workspace tool execution failed'')"

text \<open>\<open>formatToolError\<close>; for an error without a code \<open>ro_errorText\<close> is its serialization.\<close>

definition formatToolError :: "registry_options \<Rightarrow> tool_error \<Rightarrow> ToolResult" where
  "formatToolError ro e =
     (case te_code e of
        Some code \<Rightarrow>
          \<lparr>tr_isError = True,
           tr_text = ro_prettyStringify ro (JObj [(''error'', JStr (safeBrokerageMessage code)),
             (''code'', JStr code), (''diagnosticId'', JStr (ro_diagnosticId ro))]),
           tr_structured = [(''error'', code), (''diagnosticId'', ro_diagnosticId ro)]\<rparr>
      | None \<Rightarrow> \<lparr>tr_isError = True, tr_text = ro_errorText ro e, tr_structured = []\<rparr>)"

definition reportToolError ::
  "registry_options \<Rightarrow> tool_error \<Rightarrow> string \<Rightarrow> tool_args \<Rightarrow> gw_effect list \<times> ToolResult" where
  "reportToolError ro e toolname args =
     ((if te_scopeError e then [ToolScopeDeniedMetric toolname] else []) @
      [Audited (auditEvent ro ''error'' toolname args None None (Some (te_message e)))],
      formatToolError ro e)"

definition formatToolResult :: "registry_options \<Rightarrow> json \<Rightarrow> ToolResult" where
  "formatToolResult ro result =
     \<lparr>tr_isError = False, tr_text = (case result of JStr s \<Rightarrow> s | _ \<Rightarrow> ro_prettyStringify ro result),
      tr_structured = []\<rparr>"

definition resultSize :: "registry_options \<Rightarrow> json \<Rightarrow> int" where
  "resultSize ro result =
     int (case result of JStr s \<Rightarrow> length s | _ \<Rightarrow> length (jsonStringify (ro_lib ro) result))"

definition policyInput ::
  "registry_options \<Rightarrow> WorkspaceToolDefinition \<Rightarrow> ResolvedWorkspaceOperation \<Rightarrow> string list \<Rightarrow> ToolPolicyInput" where
  "policyInput ro tool rw granted =
     \<lparr>ti_principal = ro_email ro, ti_tokenClaims = ro_normalizedClaims ro, ti_tool = wt_name tool,
      ti_operation = Some (rw_operation rw), ti_service = rw_service rw, ti_actionClass = rw_actionClass rw,
      ti_scopes = effectiveGoogleScopes granted (rw_scopeRequirement rw),
      ti_scopeRequirement = Some (rw_scopeRequirement rw), ti_outboundEmail = rw_outboundEmail rw,
      ti_args = JObj (rw_args rw)\<rparr>"

text \<open>The part of \<open>callTool\<close> after the policy has been asked and has allowed the call.\<close>

definition runTool ::
  "registry_options \<Rightarrow> WorkspaceToolDefinition \<Rightarrow> ResolvedWorkspaceOperation \<Rightarrow> string list \<Rightarrow>
   gw_effect list \<times> ToolResult" where
  "runTool ro tool rw granted =
     (let ask = AskAccessToken (rw_scopeRequirement rw) granted in
      case ro_getAccessToken ro (rw_scopeRequirement rw) granted of
        Inl e \<Rightarrow> apfst ((#) ask) (reportToolError ro e (wt_name tool) (rw_args rw))
      | Inr accessToken \<Rightarrow>
          (let run = Execute tool (rw_args rw) accessToken in
           case ro_executor ro tool (rw_args rw) accessToken of
             Inl e \<Rightarrow> apfst (\<lambda>es. ask # run # es) (reportToolError ro e (wt_name tool) (rw_args rw))
           | Inr result \<Rightarrow>
               ([ask, run, Audited (auditEvent ro ''allow'' (wt_name tool) (rw_args rw) None
                              (Some (resultSize ro result)) None)],
                formatToolResult ro result)))"

text \<open>The part of \<open>callTool\<close> for a tool of the catalog. A policy that cannot be asked makes the call
  throw; what its rejection says is not modelled.\<close>

definition callCatalogTool :: "registry_options \<Rightarrow> WorkspaceToolDefinition \<Rightarrow> tool_args \<Rightarrow> call_outcome" where
  "callCatalogTool ro tool args =
     (case validateRequiredArgs tool args of
        Some e \<Rightarrow> ([], Inl e)
      | None \<Rightarrow>
          (case resolveWorkspaceOperation (ro_lib ro) (ro_commands ro) tool args
                  (tp_hardGuardrails (policyOf ro)) of
             Inl e \<Rightarrow> ([], Inl e)
           | Inr rw \<Rightarrow>
               (case ro_getGrantedScopes ro of
                  Inl e \<Rightarrow> apsnd Inr (apfst ((#) AskGrantedScopes) (reportToolError ro e (wt_name tool) (rw_args rw)))
                | Inr granted \<Rightarrow>
                    (case tp_decide (policyOf ro) (policyInput ro tool rw granted) of
                       None \<Rightarrow> ([AskGrantedScopes], Inl ''policy evaluation failed'')
                     | Some decision \<Rightarrow>
                         (case enforcePolicyDecision ro decision (wt_name tool) (rw_operation rw) (rw_args rw) of
                            (es, Some e) \<Rightarrow> (AskGrantedScopes # es, Inl e)
                          | (es, None) \<Rightarrow>
                              apsnd Inr (apfst (\<lambda>fs. AskGrantedScopes # es @ fs) (runTool ro tool rw granted)))))))"

definition compactResult :: "string \<Rightarrow> ToolResult" where
  "compactResult t = \<lparr>tr_isError = False, tr_text = t, tr_structured = []\<rparr>"

definition startInput :: "registry_options \<Rightarrow> GoogleOAuthStatus \<Rightarrow> tool_args \<Rightarrow> ToolPolicyInput" where
  "startInput ro oauth args =
     \<lparr>ti_principal = ro_email ro, ti_tokenClaims = ro_normalizedClaims ro, ti_tool = ''google_oauth_start'',
      ti_operation = Some ''google.oauth.start'', ti_service = ''google'', ti_actionClass = ''write'',
      ti_scopes = go_scopesRequired oauth, ti_scopeRequirement = None, ti_outboundEmail = None,
      ti_args = JObj args\<rparr>"

text \<open>\<open>google_oauth_start\<close>: the policy, then the start of the authorization.\<close>

definition startOAuthTool :: "registry_options \<Rightarrow> GoogleOAuthStatus \<Rightarrow> tool_args \<Rightarrow> call_outcome" where
  "startOAuthTool ro oauth args =
     (case tp_decide (policyOf ro) (startInput ro oauth args) of
        None \<Rightarrow> ([], Inl ''policy evaluation failed'')
      | Some decision \<Rightarrow>
          (case enforcePolicyDecision ro decision ''google_oauth_start'' ''google.oauth.start'' args of
             (es, Some e) \<Rightarrow> (es, Inl e)
           | (es, None) \<Rightarrow>
               (let redirectAfter = (case js_get args ''redirectAfter'' of
                      Some (JStr s) \<Rightarrow> if s \<noteq> [] then Some s else None | _ \<Rightarrow> None) in
                case ro_startOAuth ro redirectAfter of
                  Inl e \<Rightarrow> (es @ [StartOAuth redirectAfter], Inl (te_message e))
                | Inr t \<Rightarrow> (es @ [StartOAuth redirectAfter], Inr (compactResult t)))))"

definition connectionUsable :: "GoogleOAuthStatus \<Rightarrow> bool" where
  "connectionUsable oauth \<longleftrightarrow>
     go_connected oauth \<or>
     (go_phase oauth = Some ''reauthorization_required'' \<and>
      go_errorCategory oauth = Some ''insufficient_scope'' \<and> go_missingScopes oauth = [])"

definition callTool :: "registry_options \<Rightarrow> string \<Rightarrow> tool_args \<Rightarrow> call_outcome" where
  "callTool ro name args =
     (if name \<in> set GOOGLE_OAUTH_TOOLS \<and> \<not> ta_allowsConnectionHelpers (taskAuthorizationOf ro)
      then ([], Inr taskToolDeniedResult)
      else case (ro_oauth ro, name = ''google_oauth_status'', name = ''google_oauth_start'') of
          (Some oauth, True, _) \<Rightarrow> ([], Inr (compactResult (ro_statusText ro)))
        | (Some oauth, _, True) \<Rightarrow> startOAuthTool ro oauth args
        | _ \<Rightarrow>
            (case getGoogleWorkspaceTool (ro_tools ro) name (ro_catalogId ro) of
               Inl e \<Rightarrow> ([], Inl e)
             | Inr tool \<Rightarrow>
                 (if \<not> ta_allows (taskAuthorizationOf ro) (toolGrant tool) then ([], Inr taskToolDeniedResult)
                  else if (case ro_oauth ro of Some oauth \<Rightarrow> \<not> connectionUsable oauth | None \<Rightarrow> False)
                  then ([], Inr providerOAuthRequiredResult)
                  else callCatalogTool ro tool args)))"

end
