(* ===== verification/Policy_Props.thy ===== *)
theory Policy_Props
  imports Policy
begin

text \<open>
  What the tool policies guarantee: how a composition of policies decides, and that the guardrails of
  a policy document hold for every call that any composition with it lets through.
\<close>

section \<open>Composition\<close>

fun is_deny :: "PolicyDecision \<Rightarrow> bool" where
  "is_deny (Deny r i) = True"
| "is_deny _ = False"

fun is_approval :: "PolicyDecision \<Rightarrow> bool" where
  "is_approval (ApprovalRequired r i) = True"
| "is_approval _ = False"

text \<open>The decision on a list of answers: the first denial or failure, else the last demand for
  approval, else to allow.\<close>

definition strictest :: "PolicyDecision option list \<Rightarrow> PolicyDecision option" where
  "strictest answers =
     (case List.find (\<lambda>a. case a of None \<Rightarrow> True | Some d \<Rightarrow> is_deny d) answers of
        Some a \<Rightarrow> a
      | None \<Rightarrow> Some (coalesce (List.find is_approval (rev (map the answers))) Allow))"

lemma find_append: "List.find P (xs @ ys) = orelse (List.find P xs) (List.find P ys)"
  by (induction xs) (auto simp: orelse_def)

lemma composite_from_strictest:
  "composite_from approval ps input =
     (let answers = map (\<lambda>p. tp_decide p input) ps in
      case List.find (\<lambda>a. case a of None \<Rightarrow> True | Some d \<Rightarrow> is_deny d) answers of
        Some a \<Rightarrow> a
      | None \<Rightarrow> Some (coalesce (orelse (List.find is_approval (rev (map the answers))) approval) Allow))"
proof (induction approval ps input rule: composite_from.induct)
  case (2 approval p ps input)
  show ?case
  proof (cases "tp_decide p input")
    case (Some d)
    then show ?thesis using 2 by (cases d) (auto simp: Let_def find_append orelse_def split: option.splits)
  qed simp
qed simp

text \<open>A composition of policies decides as its specification says: the first policy that denies,
  or cannot be asked, settles the answer; otherwise the last one that requires approval; the call is
  allowed only when every policy allows it.\<close>

lemma composite_decision:
  "tp_decide (CompositePolicy ps) input = strictest (map (\<lambda>p. tp_decide p input) ps)"
  by (simp add: CompositePolicy_def composite_from_strictest strictest_def Let_def comp_def orelse_def
      split: option.splits)

lemma composite_not_deny:
  assumes "tp_decide (CompositePolicy ps) input = Some d" "\<not> is_deny d" "p \<in> set ps"
  obtains e where "tp_decide p input = Some e" "\<not> is_deny e"
proof -
  let ?bad = "\<lambda>a. case a of None \<Rightarrow> True | Some d \<Rightarrow> is_deny d"
  have "List.find ?bad (map (\<lambda>p. tp_decide p input) ps) = None"
  proof (rule ccontr)
    assume "List.find ?bad (map (\<lambda>p. tp_decide p input) ps) \<noteq> None"
    then obtain a where a: "List.find ?bad (map (\<lambda>p. tp_decide p input) ps) = Some a" by auto
    from find_SomeD [OF this] have "?bad a" by simp
    with a assms(1,2) show False
      by (simp add: CompositePolicy_def composite_from_strictest Let_def comp_def split: option.splits)
  qed
  then have "\<not> ?bad (tp_decide p input)" using assms(3) by (auto simp: find_None_iff)
  then show thesis using that by (auto split: option.splits)
qed

lemma composite_allow:
  assumes "tp_decide (CompositePolicy ps) input = Some Allow" "p \<in> set ps"
  shows "tp_decide p input = Some Allow"
proof -
  obtain e where e: "tp_decide p input = Some e" "\<not> is_deny e"
    using composite_not_deny [OF assms(1) _ assms(2)] by auto
  have "List.find is_approval (rev (map the (map (\<lambda>p. tp_decide p input) ps))) = None"
  proof (rule ccontr)
    assume "List.find is_approval (rev (map the (map (\<lambda>p. tp_decide p input) ps))) \<noteq> None"
    then obtain a where a: "List.find is_approval (rev (map the (map (\<lambda>p. tp_decide p input) ps))) = Some a"
      by auto
    from find_SomeD [OF this] have "is_approval a" by simp
    with a assms(1) show False
      by (auto simp: CompositePolicy_def composite_from_strictest Let_def comp_def split: option.splits
          dest: find_SomeD)
  qed
  then have "\<not> is_approval (the (tp_decide p input))" using assms(2) by (auto simp: find_None_iff)
  with e show ?thesis by (cases e) auto
qed

section \<open>Guardrails\<close>

text \<open>An operation of the helper commands with a hyphen in its name, such as \<open>gmail.+reply-all\<close>, one of
  the operations that send mail, cannot be denied by a document: the pattern for the operations to
  deny rejects the name, and with it the document.\<close>

lemma reply_all_not_deniable:
  assumes "''gmail.+reply-all'' \<in> set ops"
  shows "''gmail.+reply-all'' \<in> set SEND_OPERATIONS \<and>
    parseYamlGuardrails lib (Some (JObj [(''deniedOperations'', JArr (map JStr ops))])) =
      Inl ''guardrails.deniedOperations contains an invalid operation''"
proof -
  have "\<not> operationPattern ''gmail.+reply-all''" "''gmail.+reply-all'' \<in> set SEND_OPERATIONS" by code_simp+
  with assms show ?thesis
    by (auto simp: parseYamlGuardrails_def optionalStringArray_def list_ex_iff)
qed

lemma yamlDecide_not_deny: "\<not> is_deny (yamlDecide yp input) \<Longrightarrow> guardrailDenial yp input = None"
  by (auto simp: yamlDecide_def guardrailDenial_def split: if_splits option.splits)

lemma guardrailDenial_None:
  assumes "guardrailDenial yp input = None" "yp_hardGuardrails yp"
  obtains op where "ti_operation input = Some op" "op \<noteq> []" "op \<notin> set (yp_deniedOperations yp)"
    "yp_allowedRecipientDomains yp \<noteq> [] \<Longrightarrow> op \<in> set SEND_OPERATIONS \<Longrightarrow>
       \<exists>ds. ti_outboundEmail input = Some ds \<and> ds \<noteq> [] \<and>
            (\<forall>d \<in> set ds. \<exists>a \<in> set (yp_allowedRecipientDomains yp). domainIsAllowed d a)"
proof -
  from assms have "truthy (ti_operation input)" by (auto simp: guardrailDenial_def split: if_splits)
  then obtain op where op: "ti_operation input = Some op" "op \<noteq> []" by (rule truthyE)
  show thesis
  proof (rule that [OF op])
    show "op \<notin> set (yp_deniedOperations yp)"
      using assms op by (auto simp: guardrailDenial_def split: if_splits)
    assume send: "yp_allowedRecipientDomains yp \<noteq> []" "op \<in> set SEND_OPERATIONS"
    then show "\<exists>ds. ti_outboundEmail input = Some ds \<and> ds \<noteq> [] \<and>
            (\<forall>d \<in> set ds. \<exists>a \<in> set (yp_allowedRecipientDomains yp). domainIsAllowed d a)"
      using assms op by (cases "ti_outboundEmail input")
        (auto simp: guardrailDenial_def list_ex_iff split: if_splits)
  qed
qed

text \<open>What the constructor and the parser take from a document.\<close>

lemma makeYamlPolicy_guardrails:
  assumes "makeYamlPolicy config = Inr yp"
  shows "set (yp_deniedOperations yp) =
           set (coalesce (Option.bind (yc_guardrails config) gr_deniedOperations) [])"
    and "set (yp_allowedRecipientDomains yp) =
           set (coalesce (Option.bind (yc_guardrails config) gr_allowedRecipientDomains) [])"
  using assms by (auto simp: makeYamlPolicy_def)

lemma optionalStringArray_Inr:
  "optionalStringArray v path = Inr r \<Longrightarrow> v = map_option (\<lambda>ss. JArr (map JStr ss)) r"
  by (auto simp: optionalStringArray_def split: option.splits)

lemma parseOutboundEmail_Inr:
  assumes "parseOutboundEmail lib v = Inr r"
  shows "(v = None \<and> r = None) \<or>
    (\<exists>es ds. v = Some (JObj es) \<and> js_get es ''allowedRecipientDomains'' = Some (JArr (map JStr ds)) \<and>
       r = Some ds \<and> ds \<noteq> [] \<and> (\<forall>d \<in> set ds. canonicalPolicyDomain lib d \<noteq> None))"
proof (cases v)
  case None
  with assms show ?thesis by (simp add: parseOutboundEmail_def)
next
  case (Some j)
  with assms obtain es where es: "j = JObj es" by (cases j) (auto simp: parseOutboundEmail_def)
  with assms Some have "\<exists>ds. optionalStringArray (js_get es ''allowedRecipientDomains'')
      ''guardrails.outboundEmail.allowedRecipientDomains'' = Inr ds \<and> r = ds \<and> coalesce ds [] \<noteq> [] \<and>
      (\<forall>d \<in> set (coalesce ds []). canonicalPolicyDomain lib d \<noteq> None)"
    by (auto simp: parseOutboundEmail_def list_ex_iff split: option.splits if_splits)
  then obtain ds where ds: "optionalStringArray (js_get es ''allowedRecipientDomains'')
      ''guardrails.outboundEmail.allowedRecipientDomains'' = Inr ds" "r = ds" "coalesce ds [] \<noteq> []"
      "\<forall>d \<in> set (coalesce ds []). canonicalPolicyDomain lib d \<noteq> None" by blast
  then obtain xs where "ds = Some xs" by (cases ds) auto
  with ds optionalStringArray_Inr [OF ds(1)] show ?thesis using Some es by auto
qed

text \<open>The guardrails a document states: the operations it denies and the domains it allows.\<close>

definition documentGuardrails :: "json \<Rightarrow> string list \<Rightarrow> string list \<Rightarrow> bool" where
  "documentGuardrails doc ops domains \<longleftrightarrow>
     (\<exists>fs gs. doc = JObj fs \<and> js_get fs ''guardrails'' = Some (JObj gs) \<and>
        (js_get gs ''deniedOperations'' = Some (JArr (map JStr ops)) \<or>
         js_get gs ''deniedOperations'' = None \<and> ops = []) \<and>
        ((\<exists>es. js_get gs ''outboundEmail'' = Some (JObj es) \<and>
            js_get es ''allowedRecipientDomains'' = Some (JArr (map JStr domains))) \<or>
         js_get gs ''outboundEmail'' = None \<and> domains = []))"

lemma parseYamlGuardrails_Inr:
  assumes "parseYamlGuardrails lib (Some (JObj gs)) = Inr g"
  obtains denied domains where
    "g = Some \<lparr>gr_deniedOperations = denied, gr_allowedRecipientDomains = domains\<rparr>"
    "optionalStringArray (js_get gs ''deniedOperations'') ''guardrails.deniedOperations'' = Inr denied"
    "parseOutboundEmail lib (js_get gs ''outboundEmail'') = Inr domains"
  using assms by (auto simp: parseYamlGuardrails_def split: option.splits if_splits)

lemma parseYamlGuardrails_document:
  assumes "parseYamlGuardrails lib (js_get fs ''guardrails'') = Inr g"
    and "documentGuardrails (JObj fs) ops domains"
  shows "coalesce (Option.bind g gr_deniedOperations) [] = ops"
    and "coalesce (Option.bind g gr_allowedRecipientDomains) [] = domains"
proof -
  from assms(2) obtain gs where gs: "js_get fs ''guardrails'' = Some (JObj gs)"
    "js_get gs ''deniedOperations'' = Some (JArr (map JStr ops)) \<or>
       js_get gs ''deniedOperations'' = None \<and> ops = []"
    "(\<exists>es. js_get gs ''outboundEmail'' = Some (JObj es) \<and>
        js_get es ''allowedRecipientDomains'' = Some (JArr (map JStr domains))) \<or>
       js_get gs ''outboundEmail'' = None \<and> domains = []"
    by (auto simp: documentGuardrails_def)
  from assms(1) gs(1) obtain denied emails where g:
    "g = Some \<lparr>gr_deniedOperations = denied, gr_allowedRecipientDomains = emails\<rparr>"
    "optionalStringArray (js_get gs ''deniedOperations'') ''guardrails.deniedOperations'' = Inr denied"
    "parseOutboundEmail lib (js_get gs ''outboundEmail'') = Inr emails"
    using parseYamlGuardrails_Inr by metis
  show "coalesce (Option.bind g gr_deniedOperations) [] = ops"
    using optionalStringArray_Inr [OF g(2)] gs(2) g(1) by (cases denied) auto
  show "coalesce (Option.bind g gr_allowedRecipientDomains) [] = domains"
    using parseOutboundEmail_Inr [OF g(3)] gs(3) g(1) by auto
qed

lemma createYamlPolicyFromString_Inr:
  assumes "createYamlPolicyFromString lib parseYaml content known = Inr p"
    and "parseYaml content = Inr doc" "documentGuardrails doc ops domains"
  obtains yp where "p = yamlToolPolicy yp" "set (yp_deniedOperations yp) = set ops"
    "set (yp_allowedRecipientDomains yp) = set domains"
proof -
  from assms obtain fs where fs: "doc = JObj fs" by (auto simp: documentGuardrails_def)
  with assms(1,2) obtain config yp where c: "parseYamlPolicyConfig lib fs = Inr config"
    "makeYamlPolicy config = Inr yp" "p = yamlToolPolicy yp"
    by (auto simp: createYamlPolicyFromString_def split: option.splits)
  from c(1) have g: "parseYamlGuardrails lib (js_get fs ''guardrails'') = Inr (yc_guardrails config)"
    by (cases "js_get fs ''rules''") (auto simp: parseYamlPolicyConfig_def split: option.split_asm)
  show thesis
    using that [OF c(3)] makeYamlPolicy_guardrails [OF c(2)] parseYamlGuardrails_document [OF g] assms(3) fs
    by simp
qed

lemma document_guardrails_hold:
  assumes "createYamlPolicyFromString lib parseYaml content known = Inr p"
    and "parseYaml content = Inr doc" "documentGuardrails doc ops domains" "ops \<noteq> [] \<or> domains \<noteq> []"
    and "p \<in> set policies" "tp_decide (CompositePolicy policies) input = Some d" "\<not> is_deny d"
  obtains op where "ti_operation input = Some op" "op \<noteq> []" "op \<notin> set ops"
    "domains \<noteq> [] \<Longrightarrow> op \<in> set SEND_OPERATIONS \<Longrightarrow>
       \<exists>recipients. ti_outboundEmail input = Some recipients \<and> recipients \<noteq> [] \<and>
         (\<forall>r \<in> set recipients. \<exists>a \<in> set domains. domainIsAllowed r a)"
    "tp_hardGuardrails (CompositePolicy policies)"
proof -
  obtain yp where yp: "p = yamlToolPolicy yp" "set (yp_deniedOperations yp) = set ops"
    "set (yp_allowedRecipientDomains yp) = set domains"
    using createYamlPolicyFromString_Inr [OF assms(1-3)] by blast
  have ne: "yp_allowedRecipientDomains yp \<noteq> [] \<longleftrightarrow> domains \<noteq> []" using yp(3) by (metis set_empty)
  have hard: "yp_hardGuardrails yp" using assms(4) yp(2,3) by (auto simp: yp_hardGuardrails_def)
  obtain e where "tp_decide p input = Some e" "\<not> is_deny e"
    by (rule composite_not_deny [OF assms(6,7,5)])
  then have "guardrailDenial yp input = None" using yp(1) by (auto simp: yamlToolPolicy_def yamlDecide_not_deny)
  from guardrailDenial_None [OF this hard] obtain op where op: "ti_operation input = Some op" "op \<noteq> []"
    "op \<notin> set ops"
    "domains \<noteq> [] \<Longrightarrow> op \<in> set SEND_OPERATIONS \<Longrightarrow> \<exists>ds. ti_outboundEmail input = Some ds \<and> ds \<noteq> [] \<and>
            (\<forall>d \<in> set ds. \<exists>a \<in> set domains. domainIsAllowed d a)"
    unfolding yp(2,3) ne by blast
  have "tp_hardGuardrails (CompositePolicy policies)"
    using hard yp(1) by (auto simp: CompositePolicy_def list_ex_iff yamlToolPolicy_def intro: bexI [OF _ assms(5)])
  with op that show thesis by blast
qed

text \<open>C19: the guardrails of a policy document cannot be talked around. Whatever other policies it is
  combined with, and whatever its own rules say, a call that is not denied has a classified operation,
  that is none of the operations the document denies; and where the document lists recipient domains
  and the operation can produce outgoing mail, the recipients were established, there is at least one,
  and each of them is in a listed domain or below it.\<close>

theorem guardrails_fail_closed:
  assumes "createYamlPolicyFromString lib parseYaml content known = Inr p"
    and "parseYaml content = Inr doc" "documentGuardrails doc ops domains" "ops \<noteq> [] \<or> domains \<noteq> []"
    and "p \<in> set policies" "tp_decide (CompositePolicy policies) input = Some d" "\<not> is_deny d"
  shows "tp_hardGuardrails (CompositePolicy policies) \<and>
    (\<exists>op. ti_operation input = Some op \<and> op \<noteq> [] \<and> op \<notin> set ops \<and>
       (domains \<noteq> [] \<and> op \<in> set SEND_OPERATIONS \<longrightarrow>
          (\<exists>recipients. ti_outboundEmail input = Some recipients \<and> recipients \<noteq> [] \<and>
             (\<forall>r \<in> set recipients. \<exists>a \<in> set domains. r = a \<or> suffix (CHR ''.'' # a) r))))"
  by (rule document_guardrails_hold [OF assms]) (auto simp: domainIsAllowed_def)

text \<open>A document, a library and a call for the examples.\<close>

definition ascii_lib :: text_lib where
  "ascii_lib = \<lparr>domainToASCII = Some, utf8Decode = Some\<rparr>"

definition example_document :: json where
  "example_document =
     JObj [(''guardrails'', JObj
        [(''deniedOperations'', JArr [JStr ''drive.files.delete'']),
         (''outboundEmail'', JObj [(''allowedRecipientDomains'', JArr [JStr ''a.io''])])])]"

definition example_policy :: ToolPolicy where
  "example_policy = projr (createYamlPolicyFromString ascii_lib (\<lambda>c. Inr example_document) [] None)"

definition example_input :: ToolPolicyInput where
  "example_input =
     \<lparr>ti_principal = ''u@a.io'', ti_tokenClaims = JObj [], ti_tool = ''gws_gmail_send'',
      ti_operation = Some ''gmail.+send'', ti_service = ''gmail'', ti_actionClass = ''write'',
      ti_scopes = [], ti_scopeRequirement = None, ti_outboundEmail = Some [''mail.a.io''], ti_args = JObj []\<rparr>"

lemma example_policy_created:
  "createYamlPolicyFromString ascii_lib (\<lambda>c. Inr example_document) [] None = Inr example_policy"
proof -
  have "\<not> isl (createYamlPolicyFromString ascii_lib (\<lambda>c. Inr example_document) [] None)" by code_simp
  then show ?thesis unfolding example_policy_def by (simp add: sum.collapse(2))
qed

lemma example_document_guardrails: "documentGuardrails example_document [''drive.files.delete''] [''a.io'']"
  by (simp add: documentGuardrails_def example_document_def)

lemma example_decision: "tp_decide (CompositePolicy [AllowAllPolicy, example_policy]) example_input = Some Allow"
  by code_simp

theorem guardrails_fail_closed_witness:
  "\<exists>op. ti_operation example_input = Some op \<and> op \<in> set SEND_OPERATIONS \<and> op \<noteq> ''drive.files.delete'' \<and>
     (\<exists>recipients. ti_outboundEmail example_input = Some recipients \<and>
        (\<forall>r \<in> set recipients. r = ''a.io'' \<or> suffix ''.a.io'' r))"
proof -
  have "''gmail.+send'' \<in> set SEND_OPERATIONS" by code_simp
  with guardrails_fail_closed [OF example_policy_created refl example_document_guardrails _ _ example_decision]
  show ?thesis by (auto simp: example_input_def)
qed

end
