(* ===== verification/Workspace_Props.thy ===== *)
theory Workspace_Props
  imports Workspace_Registry Policy_Props
begin

text \<open>
  What a call of a Google Workspace tool guarantees: a command runs only after every check has passed
  on the very operation and arguments that are run, and under a recipient guardrail no command line
  that sends mail has a recipient outside the allowed domains.
\<close>

section \<open>What precedes an execution\<close>

lemma reportToolError_no_Execute [simp]: "Execute t a k \<notin> set (fst (reportToolError ro e n args))"
  by (auto simp: reportToolError_def)

lemma enforcePolicyDecision_no_Execute:
  "enforcePolicyDecision ro d n op args = (es, r) \<Longrightarrow> Execute t a k \<notin> set es"
  by (auto simp: enforcePolicyDecision_def split: PolicyDecision.splits)

lemma enforcePolicyDecision_None: "enforcePolicyDecision ro d n op args = (es, None) \<longleftrightarrow> d = Allow \<and> es = []"
  by (auto simp: enforcePolicyDecision_def split: PolicyDecision.splits)

lemma runTool_Execute:
  "Execute t a k \<in> set (fst (runTool ro tool rw granted)) \<Longrightarrow>
   t = tool \<and> a = rw_args rw \<and> ro_getAccessToken ro (rw_scopeRequirement rw) granted = Inr k"
  by (auto simp: runTool_def Let_def split: sum.splits)

lemma callCatalogTool_Execute:
  assumes "Execute t a k \<in> set (fst (callCatalogTool ro tool args))"
  obtains rw granted where "t = tool" "a = rw_args rw" "validateRequiredArgs tool args = None"
    "resolveWorkspaceOperation (ro_lib ro) (ro_commands ro) tool args (tp_hardGuardrails (policyOf ro)) = Inr rw"
    "ro_getGrantedScopes ro = Inr granted"
    "tp_decide (policyOf ro) (policyInput ro tool rw granted) = Some Allow"
    "ro_getAccessToken ro (rw_scopeRequirement rw) granted = Inr k"
proof -
  note split = option.split_asm sum.split_asm prod.split_asm
  from assms obtain rw granted where rw: "validateRequiredArgs tool args = None"
    "resolveWorkspaceOperation (ro_lib ro) (ro_commands ro) tool args (tp_hardGuardrails (policyOf ro)) = Inr rw"
    "ro_getGrantedScopes ro = Inr granted"
    by (auto simp: callCatalogTool_def split: split)
  with assms obtain d where d: "tp_decide (policyOf ro) (policyInput ro tool rw granted) = Some d"
    by (auto simp: callCatalogTool_def split: split)
  obtain es r where e: "enforcePolicyDecision ro d (wt_name tool) (rw_operation rw) (rw_args rw) = (es, r)"
    by fastforce
  have "r = None"
    using assms rw d e enforcePolicyDecision_no_Execute [OF e] by (auto simp: callCatalogTool_def split: split)
  then have "d = Allow" "es = []" using e by (auto simp: enforcePolicyDecision_None)
  with assms rw d e \<open>r = None\<close> have "Execute t a k \<in> set (fst (runTool ro tool rw granted))"
    by (auto simp: callCatalogTool_def)
  from runTool_Execute [OF this] show thesis using that rw d \<open>d = Allow\<close> by blast
qed

lemma startOAuthTool_no_Execute: "Execute t a k \<notin> set (fst (startOAuthTool ro oauth args))"
proof (cases "tp_decide (policyOf ro) (startInput ro oauth args)")
  case (Some d)
  obtain es r where e: "enforcePolicyDecision ro d ''google_oauth_start'' ''google.oauth.start'' args = (es, r)"
    by fastforce
  from enforcePolicyDecision_no_Execute [OF e] Some e show ?thesis
    by (auto simp: startOAuthTool_def Let_def split: option.splits sum.splits)
qed (simp add: startOAuthTool_def)

lemma callTool_Execute:
  assumes "Execute t a k \<in> set (fst (callTool ro name args))"
  obtains tool where "getGoogleWorkspaceTool (ro_tools ro) name (ro_catalogId ro) = Inr tool"
    "ta_allows (taskAuthorizationOf ro) (toolGrant tool)"
    "\<And>oauth. ro_oauth ro = Some oauth \<Longrightarrow> connectionUsable oauth"
    "Execute t a k \<in> set (fst (callCatalogTool ro tool args))"
  using assms startOAuthTool_no_Execute
  by (auto simp: callTool_def split: if_split_asm option.split_asm sum.split_asm bool.split_asm)

lemma resolve_args: "resolveWorkspaceOperation lib cs tool args h = Inr rw \<Longrightarrow> rw_args rw = args"
  by (auto simp: resolveWorkspaceOperation_def resolveRawCommand_def Let_def
      split: if_split_asm option.split_asm)

text \<open>C17: whenever the registry runs a command, the tool is one the task token allows, the connection is
  usable, the policy has allowed exactly the operation, service, scopes and recipients that resolving
  these arguments gives, the arguments that run are the ones that were resolved and decided on, and the
  access token was issued for the scope requirement of that operation.\<close>

theorem tool_execution_authorized:
  assumes "Execute tool args' token \<in> set (fst (callTool ro name args))"
  shows "getGoogleWorkspaceTool (ro_tools ro) name (ro_catalogId ro) = Inr tool \<and> args' = args \<and>
    ta_allows (parseTaskToolAuthorization (ro_claims ro) (ro_allowLegacy ro)) (toolGrant tool) \<and>
    (\<forall>oauth. ro_oauth ro = Some oauth \<longrightarrow> connectionUsable oauth) \<and>
    (\<exists>rw granted.
       resolveWorkspaceOperation (ro_lib ro) (ro_commands ro) tool args (tp_hardGuardrails (policyOf ro)) = Inr rw \<and>
       ro_getGrantedScopes ro = Inr granted \<and>
       tp_decide (policyOf ro) (policyInput ro tool rw granted) = Some Allow \<and>
       ro_getAccessToken ro (rw_scopeRequirement rw) granted = Inr token)"
proof -
  from assms obtain t where t: "getGoogleWorkspaceTool (ro_tools ro) name (ro_catalogId ro) = Inr t"
    "ta_allows (taskAuthorizationOf ro) (toolGrant t)"
    "\<And>oauth. ro_oauth ro = Some oauth \<Longrightarrow> connectionUsable oauth"
    "Execute tool args' token \<in> set (fst (callCatalogTool ro t args))"
    using callTool_Execute [OF assms] by metis
  from t(4) show ?thesis
  proof (rule callCatalogTool_Execute)
    fix rw granted
    assume rw: "tool = t" "args' = rw_args rw"
      "resolveWorkspaceOperation (ro_lib ro) (ro_commands ro) t args (tp_hardGuardrails (policyOf ro)) = Inr rw"
      "ro_getGrantedScopes ro = Inr granted"
      "tp_decide (policyOf ro) (policyInput ro t rw granted) = Some Allow"
      "ro_getAccessToken ro (rw_scopeRequirement rw) granted = Inr token"
    with t resolve_args [OF rw(3)] show ?thesis by (auto simp: taskAuthorizationOf_def)
  qed
qed

section \<open>Command lines and commands\<close>

lemma sum_bind_prefix:
  "sum_bind (r :: string + string list) f = Inr argv \<Longrightarrow> (\<And>c. r = Inr c \<Longrightarrow> prefix cmd c) \<Longrightarrow>
   (\<And>c d. f c = Inr d \<Longrightarrow> prefix c d) \<Longrightarrow> prefix cmd argv"
  by (metis prefix_order.order_trans sum_bind_Inr)

lemma append_flag_prefix:
  "appendOptionalJsonFlag lib flag args name c = Inr d \<Longrightarrow> prefix c d"
  "appendOptionalStringFlag flag args n c = Inr d \<Longrightarrow> prefix c d"
  "appendOptionalNumberFlag lib flag args n c = Inr d \<Longrightarrow> prefix c d"
  by (auto simp: appendOptionalJsonFlag_def appendOptionalStringFlag_def appendOptionalNumberFlag_def
      split: option.splits json.splits if_splits)

lemma appendGeneratedGwsFlags_prefix:
  "appendGeneratedGwsFlags lib tool args cmd = Inr argv \<Longrightarrow> prefix cmd argv"
  unfolding appendGeneratedGwsFlags_def Let_def
  by (auto split: if_splits dest!: append_flag_prefix)

lemma buildGwsArgs_prefix:
  "buildGwsArgs lib tool args = Inr argv \<Longrightarrow> \<not> truthy (wt_rawArgvParam tool) \<Longrightarrow> prefix (wt_command tool) argv"
  by (auto simp: buildGwsArgs_def Let_def split: if_splits
      dest!: append_flag_prefix appendGeneratedGwsFlags_prefix dest: append_prefixD)

definition nul_free :: "string list \<Rightarrow> bool" where
  "nul_free ws = list_all (\<lambda>w. CHR 0x00 \<notin> set w) ws"

lemma commandKey_inj: "commandKey c = commandKey d \<Longrightarrow> nul_free c \<Longrightarrow> nul_free d \<Longrightarrow> c \<noteq> [] \<Longrightarrow> d \<noteq> [] \<Longrightarrow> c = d"
  by (metis commandKey_def nul_free_def split_join_on)

lemma COMMANDS_SomeD:
  assumes "js_get (COMMANDS tools) k = Some t"
  shows "t \<in> set tools \<and> wt_command t \<noteq> [] \<and> commandKey (wt_command t) = k"
proof -
  have "js_get (foldl (\<lambda>m t. js_set (commandKey (wt_command t)) t m) [] ts) k = Some t \<Longrightarrow>
      t \<in> set ts \<and> commandKey (wt_command t) = k" for ts
    by (induction ts rule: rev_induct) (auto simp: js_map_simps split: if_splits)
  from this [of "filter (\<lambda>t. wt_command t \<noteq> []) tools"] assms show ?thesis by (auto simp: COMMANDS_def)
qed

lemma matchCommand_SomeD:
  "matchCommand commands argv n = Some t \<Longrightarrow> \<exists>m. 0 < m \<and> js_get commands (commandKey (take m argv)) = Some t"
  by (induction n) (auto split: option.splits)

text \<open>The tool that a raw command line names: its command is how the command line begins.\<close>

lemma matchCommand_prefix:
  assumes "matchCommand (COMMANDS tools) argv n = Some t" "nul_free argv" "argv \<noteq> []"
    and "\<And>u. u \<in> set tools \<Longrightarrow> nul_free (wt_command u)"
  shows "t \<in> set tools \<and> wt_command t \<noteq> [] \<and> prefix (wt_command t) argv"
proof -
  obtain m where m: "0 < m" "js_get (COMMANDS tools) (commandKey (take m argv)) = Some t"
    using matchCommand_SomeD [OF assms(1)] by blast
  from COMMANDS_SomeD [OF m(2)] have t: "t \<in> set tools" "wt_command t \<noteq> []"
    "commandKey (wt_command t) = commandKey (take m argv)" by auto
  have "nul_free (take m argv)" using assms(2) by (auto simp: nul_free_def list_all_iff dest: in_set_takeD)
  with t assms(3,4) m(1) have "wt_command t = take m argv" by (intro commandKey_inj) auto
  then show ?thesis using t by (metis take_is_prefix)
qed

section \<open>Recipients of a command line that sends mail\<close>

text \<open>Every mailbox of an address list is in an allowed domain or below one.\<close>

definition mailboxesConfined :: "text_lib \<Rightarrow> string list \<Rightarrow> string \<Rightarrow> bool" where
  "mailboxesConfined lib domains v \<longleftrightarrow>
     (\<exists>ms. splitMailboxes v = Some ms \<and> ms \<noteq> [] \<and> join_with '','' ms = v \<and>
        (\<forall>m \<in> set ms. \<exists>d a. mailboxDomain lib m = Some d \<and> a \<in> set domains \<and>
           (d = a \<or> suffix (CHR ''.'' # a) d)))"

lemma flagDomains_Some:
  "flagDomains lib flags names = Some ds \<Longrightarrow> n \<in> set names \<Longrightarrow> js_get flags n = Some fv \<Longrightarrow>
   \<exists>v ps. fv = FVal v \<and> recipientDomainsFromAddressList lib v = Some ps \<and> set ps \<subseteq> set ds"
proof (induction names arbitrary: ds)
  case (Cons name names)
  show ?case
  proof (cases "n = name")
    case True
    with Cons.prems show ?thesis by (auto split: option.splits flag_value.splits)
  next
    case False
    with Cons.prems obtain ys where "flagDomains lib flags names = Some ys" "set ys \<subseteq> set ds"
      by (auto split: option.splits flag_value.splits)
    with Cons.IH [of ys] Cons.prems False show ?thesis by fastforce
  qed
qed simp

lemma address_list_confined:
  assumes "recipientDomainsFromAddressList lib v = Some ps"
    and "\<forall>r \<in> set ps. \<exists>a \<in> set domains. domainIsAllowed r a"
  shows "mailboxesConfined lib domains v"
proof -
  from assms(1) obtain ms where "splitMailboxes v = Some ms" "join_with '','' ms = v" "ms \<noteq> []"
    "\<And>m. m \<in> set ms \<Longrightarrow> \<exists>d \<in> set ps. mailboxDomain lib m = Some d"
    by (rule recipientDomainsFromAddressList_Some) blast
  with assms(2) show ?thesis unfolding mailboxesConfined_def domainIsAllowed_def by metis
qed

text \<open>What the assessment of \<open>gmail +send\<close> establishes about the arguments after the command.\<close>

definition sendTailConfined :: "text_lib \<Rightarrow> string list \<Rightarrow> string list \<Rightarrow> bool" where
  "sendTailConfined lib domains tail \<longleftrightarrow>
     (\<exists>flags. parseSendFlags tail = Some flags \<and> js_get flags ''--to'' \<noteq> None \<and>
        (\<forall>name \<in> {''--to'', ''--cc'', ''--bcc''}. \<forall>fv. js_get flags name = Some fv \<longrightarrow>
           (\<exists>v. fv = FVal v \<and> mailboxesConfined lib domains v)))"

lemma assessSendHelper_tail:
  assumes "assessSendHelper lib args rawTail = Some ds"
  obtains tail where "rawTail = Some tail \<or>
      rawTail = None \<and> js_get args ''args'' = Some (JArr (map JStr tail)) \<and> fst ` set args \<subseteq> {''args''}"
    "(\<forall>r \<in> set ds. \<exists>a \<in> set domains. domainIsAllowed r a) \<Longrightarrow> sendTailConfined (lib_text lib) domains tail"
proof -
  from assms obtain tail where tail: "orelse rawTail (Option.bind (js_get args ''args'') as_string_array) = Some tail"
    and keys: "rawTail = None \<longrightarrow> fst ` set args \<subseteq> {''args''}"
    by (auto simp: assessSendHelper_def list_ex_iff split: if_splits option.splits)
  with assms obtain flags v xs where f: "parseSendFlags tail = Some flags" "js_get flags ''--to'' = Some (FVal v)"
    "flagDomains (lib_text lib) flags [''--to'', ''--cc'', ''--bcc''] = Some xs" "ds = js_unique xs"
    by (auto simp: assessSendHelper_def split: if_splits option.splits flag_value.splits)
  have "sendTailConfined (lib_text lib) domains tail"
    if ok: "\<forall>r \<in> set ds. \<exists>a \<in> set domains. domainIsAllowed r a"
  proof -
    have "\<exists>v. fv = FVal v \<and> mailboxesConfined (lib_text lib) domains v"
      if n: "name \<in> {''--to'', ''--cc'', ''--bcc''}" "js_get flags name = Some fv" for name fv
    proof -
      from flagDomains_Some [OF f(3) _ n(2)] n(1) obtain w ps where w: "fv = FVal w"
        "recipientDomainsFromAddressList (lib_text lib) w = Some ps" "set ps \<subseteq> set xs" by auto
      then have "\<forall>r \<in> set ps. \<exists>a \<in> set domains. domainIsAllowed r a" using ok f(4) by auto
      with w address_list_confined show ?thesis by blast
    qed
    then show ?thesis unfolding sendTailConfined_def using f(1,2) by auto
  qed
  moreover have "rawTail = Some tail \<or>
      rawTail = None \<and> js_get args ''args'' = Some (JArr (map JStr tail)) \<and> fst ` set args \<subseteq> {''args''}"
    using tail keys by (cases rawTail; cases "js_get args ''args''") auto
  ultimately show thesis using that by blast
qed

text \<open>A raw message all of whose recipients are confined: it decodes, its header is read to the end, it names
  a recipient, and what it has in \<open>To\<close>, \<open>Cc\<close> and \<open>Bcc\<close> are lists of mailboxes in allowed domains.\<close>

definition rawMessageConfined :: "text_lib \<Rightarrow> string list \<Rightarrow> string \<Rightarrow> bool" where
  "rawMessageConfined lib domains raw \<longleftrightarrow>
     (\<exists>bytes headerEnd headerText hdrs. decodeRaw raw = Some bytes \<and>
        orelse (find_text (CRLF @ CRLF) bytes) (find_text [newline, newline] bytes) = Some headerEnd \<and>
        utf8Decode lib (take headerEnd bytes) = Some headerText \<and> \<not> has_bare_cr_or_nul headerText \<and>
        headerFields [] None (split_on newline (crlf_to_lf headerText)) = Some hdrs \<and>
        (\<exists>name \<in> {''to'', ''cc'', ''bcc''}. truthy (js_get hdrs name)) \<and>
        (\<forall>name \<in> {''to'', ''cc'', ''bcc''}. \<forall>v. js_get hdrs name = Some v \<and> v \<noteq> [] \<longrightarrow> mailboxesConfined lib domains v))"

lemma headerDomains_Some:
  "headerDomains lib hdrs names = Some ds \<Longrightarrow> n \<in> set names \<Longrightarrow> js_get hdrs n = Some v \<Longrightarrow> v \<noteq> [] \<Longrightarrow>
   \<exists>ps. recipientDomainsFromAddressList lib v = Some ps \<and> set ps \<subseteq> set ds"
proof (induction names arbitrary: ds)
  case (Cons name names)
  show ?case
  proof (cases "n = name")
    case True
    with Cons.prems show ?thesis by (cases v) (auto split: option.splits)
  next
    case False
    with Cons.prems obtain ys where "headerDomains lib hdrs names = Some ys" "set ys \<subseteq> set ds"
      by (auto split: option.splits list.splits)
    with Cons.IH [of ys] Cons.prems False show ?thesis by fastforce
  qed
qed simp

lemma headerDomains_named: "headerDomains lib hdrs names = Some ds \<Longrightarrow> ds \<noteq> [] \<Longrightarrow> \<exists>n \<in> set names. truthy (js_get hdrs n)"
  by (induction names arbitrary: ds) (auto split: option.splits list.splits)

lemma raw_message_confined:
  assumes "recipientDomainsFromRawMessage lib raw = Some ds" "\<forall>r \<in> set ds. \<exists>a \<in> set domains. domainIsAllowed r a"
  shows "rawMessageConfined lib domains raw"
proof -
  from assms(1) obtain bytes headerEnd headerText hdrs xs where h: "decodeRaw raw = Some bytes"
    "orelse (find_text (CRLF @ CRLF) bytes) (find_text [newline, newline] bytes) = Some headerEnd"
    "utf8Decode lib (take headerEnd bytes) = Some headerText" "\<not> has_bare_cr_or_nul headerText"
    "headerFields [] None (split_on newline (crlf_to_lf headerText)) = Some hdrs"
    "headerDomains lib hdrs RECIPIENT_HEADERS = Some xs" "xs \<noteq> []" "ds = js_unique xs"
    by (auto simp: recipientDomainsFromRawMessage_def split: option.splits if_splits)
  have "mailboxesConfined lib domains v" if "name \<in> {''to'', ''cc'', ''bcc''}" "js_get hdrs name = Some v" "v \<noteq> []" for name v
  proof -
    from headerDomains_Some [OF h(6) _ that(2,3)] that(1) obtain ps where
      "recipientDomainsFromAddressList lib v = Some ps" "set ps \<subseteq> set xs" by (auto simp: RECIPIENT_HEADERS_def)
    with assms(2) h(8) address_list_confined show ?thesis by (metis set_js_unique subsetD)
  qed
  moreover have "\<exists>name \<in> {''to'', ''cc'', ''bcc''}. truthy (js_get hdrs name)"
    using headerDomains_named [OF h(6,7)] by (simp add: RECIPIENT_HEADERS_def)
  ultimately show ?thesis using h(1-5) unfolding rawMessageConfined_def by metis
qed

text \<open>The arguments after \<open>gmail users messages send\<close>: the body is an object with a raw message, and it is the
  only source of recipients. The body is the object that its text reads as, or was written from.\<close>

definition bodyText :: "js_lib \<Rightarrow> string \<Rightarrow> (string \<times> json) list \<Rightarrow> bool" where
  "bodyText lib j fs \<longleftrightarrow> jsonParse lib j = Some (JObj fs) \<or> j = jsonStringify lib (JObj fs)"

definition messageTailConfined :: "js_lib \<Rightarrow> string list \<Rightarrow> string list \<Rightarrow> bool" where
  "messageTailConfined lib domains tail \<longleftrightarrow>
     (\<exists>flags j fs raw. parseFlagValues tail [''--json'', ''--params'', ''--format''] [''--dry-run''] [] = Some flags \<and>
        js_get flags ''--json'' = Some (FVal j) \<and> bodyText lib j fs \<and> fst ` set fs \<subseteq> {''raw'', ''threadId''} \<and>
        js_get fs ''raw'' = Some (JStr raw) \<and> rawMessageConfined (lib_text lib) domains raw)"

lemma assessRawMessageSend_body:
  assumes "assessRawMessageSend lib args rawTail = Some ds"
  obtains fs raw params where "rawMessageBody lib args rawTail = Some (Some (JObj fs), params)" "fst ` set fs \<subseteq> {''raw'', ''threadId''}"
    "js_get fs ''raw'' = Some (JStr raw)" "recipientDomainsFromRawMessage (lib_text lib) raw = Some ds"
proof -
  from assms obtain body params fs where r: "rawMessageBody lib args rawTail = Some (body, params)" "Option.bind body as_record = Some fs"
    "\<not> list_ex (\<lambda>k. k \<noteq> ''raw'' \<and> k \<noteq> ''threadId'') (map fst fs)"
    and d: "(case js_get fs ''raw'' of Some (JStr raw) \<Rightarrow> recipientDomainsFromRawMessage (lib_text lib) raw | _ \<Rightarrow> None) = Some ds"
    unfolding assessRawMessageSend_def by (auto simp: Let_def split: option.split_asm prod.split_asm if_split_asm)
  from r(2) have b: "body = Some (JObj fs)" by (cases body) auto
  from d obtain raw where "js_get fs ''raw'' = Some (JStr raw)" "recipientDomainsFromRawMessage (lib_text lib) raw = Some ds"
    by (auto split: option.split_asm json.split_asm)
  moreover have "fst ` set fs \<subseteq> {''raw'', ''threadId''}" using r(3) by (auto simp: list_ex_iff)
  ultimately show thesis using that r(1) b by blast
qed

section \<open>The tables of the catalog\<close>

definition GMAIL_SEND :: "string list" where "GMAIL_SEND = [''gmail'', ''+send'']"

definition GMAIL_MESSAGES_SEND :: "string list" where "GMAIL_MESSAGES_SEND = [''gmail'', ''users'', ''messages'', ''send'']"

text \<open>The commands that can send mail, or can make the mailbox send it.\<close>

definition SEND_COMMANDS :: "string list list" where
  "SEND_COMMANDS = map (split_on CHR ''.'') SEND_OPERATIONS"

definition comparable :: "string list \<Rightarrow> string list \<Rightarrow> bool" where
  "comparable c d \<longleftrightarrow> prefix c d \<or> prefix d c"

text \<open>What the tables hold as far as these commands are concerned: the raw tool takes its command line from
  \<open>argv\<close>; no hand-written tool begins like one of them, and of the others only the tool of the command
  itself; \<open>gmail +send\<close> is a helper, and \<open>gmail users messages send\<close> has a body; and no command has a null
  character.\<close>

definition sendTables :: "WorkspaceToolDefinition list \<Rightarrow> generated_method list \<Rightarrow> generated_helper list \<Rightarrow> bool" where
  "sendTables handwritten methods helpers \<longleftrightarrow>
     list_all (\<lambda>t. nul_free (wt_command t) \<and>
       (if truthy (wt_rawArgvParam t) then wt_rawArgvParam t = Some ''argv'' \<and> wt_command t = []
        else list_all (\<lambda>c. \<not> comparable (wt_command t) c) SEND_COMMANDS)) handwritten \<and>
     list_all (\<lambda>m. nul_free (gm_command m) \<and>
       list_all (\<lambda>c. comparable (gm_command m) c \<longrightarrow>
         gm_command m = c \<and> c \<noteq> GMAIL_SEND \<and> (c = GMAIL_MESSAGES_SEND \<longrightarrow> gm_hasRequest m)) SEND_COMMANDS) methods \<and>
     list_all (\<lambda>h. nul_free [gh_alias h, gh_command h] \<and>
       list_all (\<lambda>c. comparable [gh_alias h, gh_command h] c \<longrightarrow> [gh_alias h, gh_command h] = c) SEND_COMMANDS) helpers"

lemma prefix_comparable: "prefix c argv \<Longrightarrow> prefix d argv \<Longrightarrow> comparable c d"
  unfolding comparable_def by (rule prefix_same_cases)

lemma catalog_command:
  assumes "sendTables handwritten methods helpers" "t \<in> set (handwritten @ GWS_GENERATED_TOOLS methods helpers)"
    and "command \<in> set SEND_COMMANDS" "comparable (wt_command t) command"
  shows "wt_rawArgvParam t = Some ''argv'' \<and> wt_command t = [] \<or>
    (\<exists>m. t = generatedMethodTool m \<and> wt_command t = command \<and> command \<noteq> GMAIL_SEND \<and> (command = GMAIL_MESSAGES_SEND \<longrightarrow> gm_hasRequest m)) \<or>
    (\<exists>h. t = generatedHelperTool h \<and> wt_command t = command)"
proof -
  consider (h) "t \<in> set handwritten" | (m) m where "m \<in> set methods" "t = generatedMethodTool m"
    | (g) h where "h \<in> set helpers" "t = generatedHelperTool h"
    using assms(2) by (auto simp: GWS_GENERATED_TOOLS_def)
  then show ?thesis
  proof cases
    case h
    with assms(1,3,4) show ?thesis by (auto simp: sendTables_def list_all_iff split: if_splits)
  next
    case (m m)
    with assms(1) have "list_all (\<lambda>c. comparable (gm_command m) c \<longrightarrow>
         gm_command m = c \<and> c \<noteq> GMAIL_SEND \<and> (c = GMAIL_MESSAGES_SEND \<longrightarrow> gm_hasRequest m)) SEND_COMMANDS"
      by (simp add: sendTables_def list_all_iff)
    with assms(3,4) m have "wt_command t = command \<and> command \<noteq> GMAIL_SEND \<and> (command = GMAIL_MESSAGES_SEND \<longrightarrow> gm_hasRequest m)"
      by (auto simp: list_all_iff generatedMethodTool_def)
    with m show ?thesis by blast
  next
    case (g h)
    with assms(1) have "list_all (\<lambda>c. comparable [gh_alias h, gh_command h] c \<longrightarrow> [gh_alias h, gh_command h] = c) SEND_COMMANDS"
      by (simp add: sendTables_def list_all_iff)
    with assms(3,4) g have "wt_command t = command" by (auto simp: list_all_iff generatedHelperTool_def)
    with g show ?thesis by blast
  qed
qed

lemma catalog_nul_free:
  "sendTables handwritten methods helpers \<Longrightarrow> t \<in> set (handwritten @ GWS_GENERATED_TOOLS methods helpers) \<Longrightarrow>
   nul_free (wt_command t)"
  by (auto simp: sendTables_def list_all_iff GWS_GENERATED_TOOLS_def generatedMethodTool_def generatedHelperTool_def)

text \<open>The catalogs that are listed differ from the tables in the classes and scopes only.\<close>

lemma listed_tool:
  assumes "tool \<in> set (listGoogleWorkspaceTools (LEGACY_GOOGLE_WORKSPACE_TOOLS handwritten generated) catalogId)"
  obtains t where "t \<in> set (handwritten @ generated)" "wt_command tool = wt_command t"
    "wt_rawArgvParam tool = wt_rawArgvParam t" "wt_paramsJsonParam tool = wt_paramsJsonParam t"
    "wt_bodyJsonParam tool = wt_bodyJsonParam t" "wt_extraArgsParam tool = wt_extraArgsParam t"
proof -
  have leg: "\<exists>t \<in> set (handwritten @ generated). wt_command u = wt_command t \<and>
    wt_rawArgvParam u = wt_rawArgvParam t \<and> wt_paramsJsonParam u = wt_paramsJsonParam t \<and>
    wt_bodyJsonParam u = wt_bodyJsonParam t \<and> wt_extraArgsParam u = wt_extraArgsParam t"
    if "u \<in> set (LEGACY_GOOGLE_WORKSPACE_TOOLS handwritten generated)" for u
    using that by (fastforce simp: LEGACY_GOOGLE_WORKSPACE_TOOLS_def filterExcludedScopeAlternatives_def
        split: option.splits)
  have "\<exists>u \<in> set (LEGACY_GOOGLE_WORKSPACE_TOOLS handwritten generated). wt_command tool = wt_command u \<and>
    wt_rawArgvParam tool = wt_rawArgvParam u \<and> wt_paramsJsonParam tool = wt_paramsJsonParam u \<and>
    wt_bodyJsonParam tool = wt_bodyJsonParam u \<and> wt_extraArgsParam tool = wt_extraArgsParam u"
    using assms by (auto simp: listGoogleWorkspaceTools_def secretReadTool_def governedTool_def
        split: option.splits GoogleWorkspaceCatalogId.splits)
  with leg that show thesis by metis
qed

lemma getGoogleWorkspaceTool_listed:
  "getGoogleWorkspaceTool legacy name c = Inr tool \<Longrightarrow> tool \<in> set (listGoogleWorkspaceTools legacy c)"
  by (auto simp: getGoogleWorkspaceTool_def split: option.splits dest: find_SomeD)

section \<open>Confinement of outgoing mail\<close>

text \<open>The arguments of the child process.\<close>

definition childArgs :: "js_lib \<Rightarrow> WorkspaceToolDefinition \<Rightarrow> tool_args \<Rightarrow> string + string list" where
  "childArgs lib tool args = sum_bind (prepareInlineUpload args) (\<lambda>prepared. buildGwsArgs lib tool (fst prepared))"

lemma childArgs_raw:
  assumes "childArgs lib tool args = Inr argv" "wt_rawArgvParam tool = Some ''argv''"
  shows "js_get args ''argv'' = Some (JArr (map JStr argv))"
  using assms by (auto simp: childArgs_def prepareInlineUpload_def buildGwsArgs_def stringArrayArg_def js_map_simps
      bind_eq_Some_conv split: option.splits json.splits if_splits)

lemma childArgs_helper:
  assumes "childArgs lib tool args = Inr argv" "fst ` set args \<subseteq> {''args''}"
    and "js_get args ''args'' = Some (JArr (map JStr tail))"
    and "\<not> truthy (wt_rawArgvParam tool)" "wt_paramsJsonParam tool = None" "wt_bodyJsonParam tool = None"
    "wt_extraArgsParam tool = Some ''args''"
  shows "argv = wt_command tool @ tail"
proof -
  have none: "js_get args k = None" if "k \<noteq> ''args''" for k
    using assms(2) that by (auto simp: map_of_eq_None_iff)
  show ?thesis
    using assms(1,3-) by (auto simp: childArgs_def prepareInlineUpload_def buildGwsArgs_def
        appendGeneratedGwsFlags_def appendOptionalJsonFlag_def appendOptionalStringFlag_def
        appendOptionalNumberFlag_def stringArrayArg_def none Let_def)
qed

lemma childArgs_message:
  assumes "childArgs lib tool args = Inr argv" "\<not> list_ex (\<lambda>k. k \<notin> {''json'', ''params'', ''format'', ''dryRun'', ''extraArgs''}) (map fst args)"
    and "\<not> (case js_get args ''extraArgs'' of Some (JArr (x # xs)) \<Rightarrow> True | _ \<Rightarrow> False)"
    and "\<not> truthy (wt_rawArgvParam tool)" "wt_paramsJsonParam tool = Some ''params''" "wt_bodyJsonParam tool = Some ''json''"
    "wt_extraArgsParam tool = Some ''extraArgs''" "js_get args ''json'' = Some (JObj fs)"
  shows "\<exists>flags. argv = wt_command tool @ drop (length (wt_command tool)) argv \<and>
    parseFlagValues (drop (length (wt_command tool)) argv) [''--json'', ''--params'', ''--format''] [''--dry-run''] [] = Some flags \<and>
    js_get flags ''--json'' = Some (FVal (jsonStringify lib (JObj fs)))"
proof -
  have none: "js_get args k = None" if "k \<notin> {''json'', ''params'', ''format'', ''dryRun'', ''extraArgs''}" for k
    using assms(2) that by (auto simp: map_of_eq_None_iff list_ex_iff)
  let ?params = "js_get args ''params''" and ?format = "js_get args ''format''"
  let ?p = "case ?params of None \<Rightarrow> [] | Some j \<Rightarrow> [''--params'', jsonStringify lib j]"
  let ?f = "case ?format of Some (JStr s) \<Rightarrow> [''--format'', s] | _ \<Rightarrow> []"
  let ?d = "if js_get args ''dryRun'' = Some (JBool True) then [''--dry-run''] else []"
  have extra: "stringArrayArg args ''extraArgs'' = Inr x \<Longrightarrow> x = []" for x
    using assms(3) by (auto simp: stringArrayArg_def bind_eq_Some_conv split: option.splits json.splits list.splits)
  have argv: "argv = wt_command tool @ ?p @ [''--json'', jsonStringify lib (JObj fs)] @ ?f @ ?d"
    using assms(1,4-8) extra
    by (auto simp: childArgs_def prepareInlineUpload_def buildGwsArgs_def appendGeneratedGwsFlags_def appendOptionalJsonFlag_def
        appendOptionalStringFlag_def appendOptionalNumberFlag_def none Let_def split: option.splits json.splits if_splits)
  have "\<exists>flags. parseFlagValues (?p @ [''--json'', jsonStringify lib (JObj fs)] @ ?f @ ?d)
      [''--json'', ''--params'', ''--format''] [''--dry-run''] [] = Some flags \<and>
    js_get flags ''--json'' = Some (FVal (jsonStringify lib (JObj fs)))"
    by (cases ?params; cases ?format; cases "js_get args ''dryRun'' = Some (JBool True)")
      (simp_all add: parseFlagValues_def split: json.split)
  then show ?thesis unfolding argv by simp
qed

text \<open>The recipients of a resolved call are allowed, if it can send mail.\<close>

definition recipientsAllowed :: "string list \<Rightarrow> ResolvedWorkspaceOperation \<Rightarrow> bool" where
  "recipientsAllowed domains rw \<longleftrightarrow>
     (rw_operation rw \<in> set SEND_OPERATIONS \<longrightarrow>
        (\<exists>ds. rw_outboundEmail rw = Some ds \<and> (\<forall>r \<in> set ds. \<exists>a \<in> set domains. domainIsAllowed r a)))"

text \<open>The arguments after a command that can send mail. Only two of these commands are ever run.\<close>

definition mailConfined :: "js_lib \<Rightarrow> string list \<Rightarrow> string list \<Rightarrow> string list \<Rightarrow> bool" where
  "mailConfined lib domains command tail \<longleftrightarrow>
     command = GMAIL_SEND \<and> sendTailConfined (lib_text lib) domains tail \<or>
     command = GMAIL_MESSAGES_SEND \<and> messageTailConfined lib domains tail"

lemma send_command_names:
  "list_all (\<lambda>c. join_with ''.'' c \<in> set SEND_OPERATIONS \<and> c \<noteq> [] \<and>
     (join_with ''.'' c = ''gmail.users.messages.send'' \<longrightarrow> c = GMAIL_MESSAGES_SEND) \<and>
     (join_with ''.'' c = ''gmail.+send'' \<longrightarrow> c = GMAIL_SEND)) SEND_COMMANDS"
  by code_simp

lemma send_command:
  assumes "command \<in> set SEND_COMMANDS"
  shows "join_with ''.'' command \<in> set SEND_OPERATIONS" "command \<noteq> []"
    "join_with ''.'' command = ''gmail.users.messages.send'' \<Longrightarrow> command = GMAIL_MESSAGES_SEND"
    "join_with ''.'' command = ''gmail.+send'' \<Longrightarrow> command = GMAIL_SEND"
  using send_command_names assms unfolding list_all_iff by blast+

text \<open>Which assessment established the recipients of a command that can send mail.\<close>

lemma assessed_command:
  assumes "command \<in> set SEND_COMMANDS" "assessOutboundEmail lib (join_with ''.'' command) args rawTail = Some ds"
  shows "command = GMAIL_MESSAGES_SEND \<and> assessRawMessageSend lib args rawTail = Some ds \<or>
    command = GMAIL_SEND \<and> assessSendHelper lib args rawTail = Some ds"
  using assms(2) send_command [OF assms(1)]
  by (auto simp: assessOutboundEmail_def split: if_splits option.splits list.splits)

lemma assessed_tail:
  assumes "command \<in> set SEND_COMMANDS" "assessOutboundEmail lib (join_with ''.'' command) args (Some tail) = Some ds"
    "\<forall>r \<in> set ds. \<exists>a \<in> set domains. domainIsAllowed r a"
  shows "mailConfined lib domains command tail"
  using assessed_command [OF assms(1,2)]
proof (elim disjE conjE)
  assume c: "command = GMAIL_SEND" "assessSendHelper lib args (Some tail) = Some ds"
  from c(2) have "sendTailConfined (lib_text lib) domains tail" by (rule assessSendHelper_tail) (use assms(3) in auto)
  with c(1) show ?thesis by (simp add: mailConfined_def)
next
  assume c: "command = GMAIL_MESSAGES_SEND" "assessRawMessageSend lib args (Some tail) = Some ds"
  from c(2) show ?thesis
  proof (rule assessRawMessageSend_body)
    fix fs raw params
    assume m: "rawMessageBody lib args (Some tail) = Some (Some (JObj fs), params)" "fst ` set fs \<subseteq> {''raw'', ''threadId''}"
      "js_get fs ''raw'' = Some (JStr raw)" "recipientDomainsFromRawMessage (lib_text lib) raw = Some ds"
    from m(1) obtain flags j where "parseFlagValues tail [''--json'', ''--params'', ''--format''] [''--dry-run''] [] = Some flags"
      "js_get flags ''--json'' = Some (FVal j)" "jsonParse lib j = Some (JObj fs)"
      by (auto simp: rawMessageBody_def split: option.split_asm flag_value.split_asm)
    with m(2,3) raw_message_confined [OF m(4) assms(3)] have "messageTailConfined lib domains tail"
      unfolding messageTailConfined_def bodyText_def by blast
    with c(1) show ?thesis by (simp add: mailConfined_def)
  qed
qed

lemma raw_send_confined:
  assumes "\<And>u. u \<in> set tools \<Longrightarrow> nul_free (wt_command u)"
    and "\<And>u. u \<in> set tools \<Longrightarrow> wt_command u \<noteq> [] \<Longrightarrow> comparable (wt_command u) command \<Longrightarrow> wt_command u = command"
    and "resolveRawCommand lib (COMMANDS tools) (command @ tail) args = Inr rw"
    and "recipientsAllowed domains rw" "nul_free (command @ tail)" "command \<in> set SEND_COMMANDS"
  shows "mailConfined lib domains command tail"
proof -
  let ?argv = "command @ tail"
  from assms(3) obtain u where u: "matchCommand (COMMANDS tools) ?argv (min (length ?argv) 6) = Some u"
    "rw_operation rw = join_with ''.'' (wt_command u)"
    "rw_outboundEmail rw = assessOutboundEmail lib (join_with ''.'' (wt_command u)) args
       (Some (drop (length (wt_command u)) ?argv))"
    by (auto simp: resolveRawCommand_def Let_def split: option.split_asm if_split_asm)
  have m: "u \<in> set tools" "wt_command u \<noteq> []" "prefix (wt_command u) ?argv"
    using matchCommand_prefix [OF u(1) assms(5)] assms(1) send_command(2) [OF assms(6)] by auto
  then have c: "wt_command u = command"
    using assms(2) prefix_comparable [OF m(3), of command] by simp
  with u assms(4) send_command(1) [OF assms(6)] obtain ds
    where ds: "assessOutboundEmail lib (join_with ''.'' command) args (Some tail) = Some ds"
      "\<forall>r \<in> set ds. \<exists>a \<in> set domains. domainIsAllowed r a" by (auto simp: recipientsAllowed_def)
  show ?thesis by (rule assessed_tail [OF assms(6) ds])
qed

lemma typed_send_assessed:
  assumes "resolveWorkspaceOperation lib cs tool args hard = Inr rw" "recipientsAllowed domains rw"
    and "wt_command tool = command" "wt_rawArgvParam tool = None" "command \<in> set SEND_COMMANDS"
  obtains ds where "assessOutboundEmail lib (join_with ''.'' command) args None = Some ds"
    "\<forall>r \<in> set ds. \<exists>a \<in> set domains. domainIsAllowed r a"
proof -
  have "rw_operation rw = join_with ''.'' command" "rw_outboundEmail rw = assessOutboundEmail lib (join_with ''.'' command) args None"
    using assms(1,3,4) by (auto simp: resolveWorkspaceOperation_def split: if_split_asm)
  with assms(2) send_command(1) [OF assms(5)] that show thesis by (auto simp: recipientsAllowed_def)
qed

lemma helper_send_confined:
  assumes "resolveWorkspaceOperation lib cs tool args hard = Inr rw" "recipientsAllowed domains rw"
    and "childArgs lib tool args = Inr (command @ tail)" "wt_command tool = command" "command \<in> set SEND_COMMANDS"
    and "command \<noteq> GMAIL_MESSAGES_SEND"
    and "wt_rawArgvParam tool = None" "wt_paramsJsonParam tool = None" "wt_bodyJsonParam tool = None"
      "wt_extraArgsParam tool = Some ''args''"
  shows "mailConfined lib domains command tail"
  using assms(1,2,4,7,5)
proof (rule typed_send_assessed)
  fix ds
  assume ds: "assessOutboundEmail lib (join_with ''.'' command) args None = Some ds"
    "\<forall>r \<in> set ds. \<exists>a \<in> set domains. domainIsAllowed r a"
  then have c: "command = GMAIL_SEND" "assessSendHelper lib args None = Some ds"
    using assessed_command [OF assms(5) ds(1)] assms(6) by auto
  from c(2) show ?thesis
  proof (rule assessSendHelper_tail)
    fix tl assume tl: "None = Some tl \<or> None = None \<and> js_get args ''args'' = Some (JArr (map JStr tl)) \<and>
      fst ` set args \<subseteq> {''args''}"
      and k: "(\<forall>r \<in> set ds. \<exists>a \<in> set domains. domainIsAllowed r a) \<Longrightarrow> sendTailConfined (lib_text lib) domains tl"
    then have "command @ tail = wt_command tool @ tl"
      using childArgs_helper [OF assms(3), of tl] assms(7-) by auto
    with k ds(2) assms(4) c(1) show ?thesis by (simp add: mailConfined_def)
  qed
qed

lemma message_send_confined:
  assumes "resolveWorkspaceOperation lib cs tool args hard = Inr rw" "recipientsAllowed domains rw"
    and "childArgs lib tool args = Inr (command @ tail)" "wt_command tool = command" "command \<in> set SEND_COMMANDS"
    and "command \<noteq> GMAIL_SEND"
    and "wt_rawArgvParam tool = None" "wt_paramsJsonParam tool = Some ''params''"
      "command = GMAIL_MESSAGES_SEND \<longrightarrow> wt_bodyJsonParam tool = Some ''json''" "wt_extraArgsParam tool = Some ''extraArgs''"
  shows "mailConfined lib domains command tail"
  using assms(1,2,4,7,5)
proof (rule typed_send_assessed)
  fix ds
  assume ds: "assessOutboundEmail lib (join_with ''.'' command) args None = Some ds"
    "\<forall>r \<in> set ds. \<exists>a \<in> set domains. domainIsAllowed r a"
  then have c: "command = GMAIL_MESSAGES_SEND" "assessRawMessageSend lib args None = Some ds"
    using assessed_command [OF assms(5) ds(1)] assms(6) by auto
  from c(2) show ?thesis
  proof (rule assessRawMessageSend_body)
    fix fs raw params
    assume m: "rawMessageBody lib args None = Some (Some (JObj fs), params)" "fst ` set fs \<subseteq> {''raw'', ''threadId''}"
      "js_get fs ''raw'' = Some (JStr raw)" "recipientDomainsFromRawMessage (lib_text lib) raw = Some ds"
    from m(1) have b: "\<not> list_ex (\<lambda>k. k \<notin> {''json'', ''params'', ''format'', ''dryRun'', ''extraArgs''}) (map fst args)"
      "\<not> (case js_get args ''extraArgs'' of Some (JArr (x # xs)) \<Rightarrow> True | _ \<Rightarrow> False)" "js_get args ''json'' = Some (JObj fs)"
      unfolding rawMessageBody_def by (simp_all only: option.case if_split_eq1 split: if_split_asm) simp_all
    from childArgs_message [OF assms(3) b(1,2) _ assms(8) _ assms(10) b(3)] assms(4,7,9) c(1) obtain flags where
      "parseFlagValues tail [''--json'', ''--params'', ''--format''] [''--dry-run''] [] = Some flags"
      "js_get flags ''--json'' = Some (FVal (jsonStringify lib (JObj fs)))" by auto
    with m(2,3) raw_message_confined [OF m(4) ds(2)] have "messageTailConfined lib domains tail"
      unfolding messageTailConfined_def bodyText_def by blast
    with c(1) show ?thesis by (simp add: mailConfined_def)
  qed
qed

text \<open>An allowed call whose command line begins with a command that can send mail has confined recipients.\<close>

lemma allowed_send_confined:
  assumes tables: "sendTables handwritten methods helpers" "tools = handwritten @ GWS_GENERATED_TOOLS methods helpers"
    and tool: "t \<in> set tools" "wt_command tool = wt_command t" "wt_rawArgvParam tool = wt_rawArgvParam t"
      "wt_paramsJsonParam tool = wt_paramsJsonParam t" "wt_bodyJsonParam tool = wt_bodyJsonParam t"
      "wt_extraArgsParam tool = wt_extraArgsParam t"
    and rw: "resolveWorkspaceOperation lib (COMMANDS tools) tool args hard = Inr rw" "recipientsAllowed domains rw"
    and argv: "childArgs lib tool args = Inr (command @ tail)" "nul_free (command @ tail)"
    and command: "command \<in> set SEND_COMMANDS"
  shows "mailConfined lib domains command tail"
proof -
  note cmd = catalog_command [OF tables(1) _ command, folded tables(2)]
  have nul: "nul_free (wt_command u)" if "u \<in> set tools" for u
    using catalog_nul_free [OF tables(1)] that tables(2) by simp
  show ?thesis
  proof (cases "truthy (wt_rawArgvParam tool)")
    case True
    then have raw: "wt_rawArgvParam tool = Some ''argv''"
      using tables(1) tool(1,3) tables(2) by (auto simp: sendTables_def list_all_iff GWS_GENERATED_TOOLS_def
          generatedMethodTool_def generatedHelperTool_def)
    with childArgs_raw argv(1) have "js_get args ''argv'' = Some (JArr (map JStr (command @ tail)))" by blast
    with rw(1) raw have "resolveRawCommand lib (COMMANDS tools) (command @ tail) args = Inr rw"
      by (auto simp: resolveWorkspaceOperation_def simp del: map_append split: option.split_asm if_split_asm)
    from raw_send_confined [OF nul _ this rw(2) argv(2) command] cmd show ?thesis by blast
  next
    case False
    have "prefix (wt_command tool) (command @ tail)"
      using argv(1) False by (auto simp: childArgs_def dest: buildGwsArgs_prefix)
    then have "comparable (wt_command t) command" using prefix_comparable tool(2) prefixI by metis
    from cmd [OF tool(1) this] False tool(3) consider
      m where "t = generatedMethodTool m" "wt_command t = command" "command \<noteq> GMAIL_SEND" "command = GMAIL_MESSAGES_SEND \<longrightarrow> gm_hasRequest m"
      | h where "t = generatedHelperTool h" "wt_command t = command" by auto
    then show ?thesis
    proof cases
      case (1 m)
      with tool show ?thesis
        by (intro message_send_confined [OF rw argv(1) _ command]) (auto simp: generatedMethodTool_def)
    next
      case (2 h)
      then have "command \<noteq> GMAIL_MESSAGES_SEND" by (auto simp: generatedHelperTool_def GMAIL_MESSAGES_SEND_def)
      with 2 tool show ?thesis
        by (intro helper_send_confined [OF rw argv(1) _ command]) (auto simp: generatedHelperTool_def)
    qed
  qed
qed

text \<open>C18: outgoing mail is confined to the domains of the policy document. Take any catalog built from
  tables as the repository has them, any composition of policies that contains a policy document with a
  list of recipient domains, and any call of any tool, typed or raw. If the registry runs a command
  whose arguments begin with one of the commands that can send mail, then it is \<open>gmail +send\<close> or
  \<open>gmail users messages send\<close>: drafts, replies, forwards, filters and the settings that forward mail are
  never run. After \<open>gmail +send\<close> the remaining arguments are flags with a recipient, and the values of
  \<open>--to\<close>, \<open>--cc\<close> and \<open>--bcc\<close> are lists of mailboxes all of which are in an allowed domain or below one.
  After \<open>gmail users messages send\<close> the body is an object with a raw message and at most a thread, no
  upload and no other flag that could carry a message; the raw message decodes, names a recipient, and
  its fields \<open>To\<close>, \<open>Cc\<close> and \<open>Bcc\<close> are such lists. (A process cannot be started with a null character in
  an argument.)\<close>

theorem mail_send_confined:
  assumes "sendTables handwritten methods helpers"
    and "ro_tools ro = LEGACY_GOOGLE_WORKSPACE_TOOLS handwritten (GWS_GENERATED_TOOLS methods helpers)"
    and "ro_commands ro = COMMANDS (handwritten @ GWS_GENERATED_TOOLS methods helpers)"
    and "createYamlPolicyFromString (lib_text (ro_lib ro)) parseYaml content known = Inr p"
    and "parseYaml content = Inr doc" "documentGuardrails doc ops domains" "domains \<noteq> []"
    and "p \<in> set policies" "ro_policy ro = Some (CompositePolicy policies)"
    and "Execute tool args' token \<in> set (fst (callTool ro name args))"
    and "command \<in> set SEND_COMMANDS" "childArgs (ro_lib ro) tool args' = Inr (command @ tail)" "nul_free (command @ tail)"
  shows "command = [''gmail'', ''+send''] \<and> sendTailConfined (lib_text (ro_lib ro)) domains tail \<or>
    command = [''gmail'', ''users'', ''messages'', ''send''] \<and> messageTailConfined (ro_lib ro) domains tail"
proof -
  obtain u where u: "getGoogleWorkspaceTool (ro_tools ro) name (ro_catalogId ro) = Inr u"
    "Execute tool args' token \<in> set (fst (callCatalogTool ro u args))"
    using callTool_Execute [OF assms(10)] by metis
  obtain rw granted where rw: "tool = u" "args' = rw_args rw"
    "resolveWorkspaceOperation (ro_lib ro) (ro_commands ro) u args (tp_hardGuardrails (policyOf ro)) = Inr rw"
    "tp_decide (policyOf ro) (policyInput ro u rw granted) = Some Allow"
    using callCatalogTool_Execute [OF u(2)] by metis
  have "recipientsAllowed domains rw"
    by (rule document_guardrails_hold [OF assms(4-6) _ assms(8), of "policyInput ro u rw granted" Allow])
      (use assms(7,9) rw(4) in \<open>auto simp: recipientsAllowed_def policyOf_def policyInput_def\<close>)
  moreover have "args' = args" using resolve_args [OF rw(3)] rw(2) by simp
  moreover obtain t where "t \<in> set (handwritten @ GWS_GENERATED_TOOLS methods helpers)" "wt_command tool = wt_command t"
    "wt_rawArgvParam tool = wt_rawArgvParam t" "wt_paramsJsonParam tool = wt_paramsJsonParam t"
    "wt_bodyJsonParam tool = wt_bodyJsonParam t" "wt_extraArgsParam tool = wt_extraArgsParam t"
    using listed_tool getGoogleWorkspaceTool_listed [OF u(1)] assms(2) rw(1) by metis
  ultimately have "mailConfined (ro_lib ro) domains command tail"
    using allowed_send_confined [OF assms(1) refl] rw(1,3) assms(3,11-13) by metis
  then show ?thesis unfolding mailConfined_def GMAIL_SEND_def GMAIL_MESSAGES_SEND_def .
qed

section \<open>An example\<close>

definition example_helper :: generated_helper where
  "example_helper = \<lparr>gh_alias = ''gmail'', gh_command = ''+send'', gh_actionClass = ''write'',
     gh_scopes = [googleScope ''gmail.send'']\<rparr>"

definition example_tools :: "WorkspaceToolDefinition list" where
  "example_tools = GWS_GENERATED_TOOLS [] [example_helper]"

definition example_registry :: registry_options where
  "example_registry =
     \<lparr>ro_email = ''u@a.io'', ro_claims = [], ro_normalizedClaims = JObj [],
      ro_policy = Some (CompositePolicy [AllowAllPolicy, example_policy]), ro_allowLegacy = False,
      ro_tools = LEGACY_GOOGLE_WORKSPACE_TOOLS [] example_tools, ro_catalogId = Some Actions_v2,
      ro_commands = COMMANDS ([] @ example_tools), ro_oauth = None, ro_statusText = [],
      ro_startOAuth = (\<lambda>r. Inr []), ro_getGrantedScopes = Inr [googleScope ''gmail.modify''],
      ro_getAccessToken = (\<lambda>r g. Inr ''token''), ro_executor = (\<lambda>t a k. Inr (JStr ''sent'')),
      ro_lib = \<lparr>lib_text = ascii_lib, jsonParse = (\<lambda>s. None), jsonStringify = (\<lambda>j. []), numberString = (\<lambda>n. [])\<rparr>,
      ro_errorText = te_message, ro_prettyStringify = (\<lambda>j. []), ro_digestArgs = (\<lambda>a. []),
      ro_diagnosticId = ''d'', ro_ts = ''t'', ro_latencyMs = 1\<rparr>"

definition example_args :: tool_args where
  "example_args = [(''args'', JArr [JStr ''--to'', JStr ''x@a.io,Y <y@m.a.io>''])]"

definition example_tool :: WorkspaceToolDefinition where
  "example_tool = secretReadTool (filterExcludedScopeAlternatives (generatedHelperTool example_helper))"

lemma example_executes:
  "Execute example_tool example_args ''token'' \<in> set (fst (callTool example_registry ''gws_gmail_send'' example_args))"
  by code_simp

theorem tool_execution_authorized_witness:
  "\<exists>rw granted. ro_getGrantedScopes example_registry = Inr granted \<and>
     tp_decide (policyOf example_registry) (policyInput example_registry example_tool rw granted) = Some Allow"
  using tool_execution_authorized [OF example_executes] by blast

theorem mail_send_confined_witness:
  "sendTailConfined ascii_lib [''a.io''] [''--to'', ''x@a.io,Y <y@m.a.io>'']"
proof -
  have t: "sendTables [] [] [example_helper]" by code_simp
  have s: "[''gmail'', ''+send''] \<in> set SEND_COMMANDS" by code_simp
  have n: "nul_free ([''gmail'', ''+send''] @ [''--to'', ''x@a.io,Y <y@m.a.io>''])" by code_simp
  have c: "childArgs (ro_lib example_registry) example_tool example_args =
      Inr ([''gmail'', ''+send''] @ [''--to'', ''x@a.io,Y <y@m.a.io>''])" by code_simp
  have l: "lib_text (ro_lib example_registry) = ascii_lib" by (simp add: example_registry_def)
  have p: "ro_policy example_registry = Some (CompositePolicy [AllowAllPolicy, example_policy])"
    by (simp add: example_registry_def)
  show ?thesis
    using mail_send_confined [OF t, of example_registry "\<lambda>c. Inr example_document" "[]" None example_policy,
        unfolded l, OF _ _ example_policy_created refl example_document_guardrails _ _ p example_executes s c n]
    by (simp add: example_registry_def example_tools_def)
qed

end
