(* ===== verification/Broker_Store.thy ===== *)
theory Broker_Store
  imports Prelude
begin

text \<open>
  The persistence of the OAuth authorization broker (\<open>shared/oauth/authorization-broker.ts\<close>): the
  records and \<open>InMemoryAuthorizationBrokerStore\<close>. One field per private \<open>Map\<close>; every method
  runs without suspending and is one function.

  The interface \<open>AuthorizationBrokerStore\<close>, as the broker relies on it, is the locale
  \<open>one_time_store\<close> (transactions and authorization codes are handed out once); the refresh-token
  rules are proved along the steps of the store.
\<close>

section \<open>Records\<close>

record BrokerClient =
  bc_clientId :: string
  bc_redirectUris :: "string list"
  bc_grantTypes :: "string list"
  bc_scopes :: "string list"
  bc_expiresAtMs :: "time_ms option"
  bc_clientName :: "string option"
  bc_clientUri :: "string option"

text \<open>The field \<open>emailVerified\<close> has the type \<open>true\<close> and carries nothing.\<close>

record GoogleIdentity =
  gi_issuer :: string
  gi_subject :: string
  gi_email :: string

record AuthorizationTransactionRecord =
  tr_stateHash :: string
  tr_clientId :: string
  tr_redirectUri :: string
  tr_resource :: string
  tr_scopes :: "string list"
  tr_clientState :: "string option"
  tr_codeChallenge :: string
  tr_googleNonce :: string
  tr_googleCodeVerifier :: string
  tr_expiresAt :: time_ms

record BrokerAuthorizationCodeRecord =
  co_codeHash :: string
  co_clientId :: string
  co_redirectUri :: string
  co_resource :: string
  co_scopes :: "string list"
  co_codeChallenge :: string
  co_identity :: GoogleIdentity
  co_expiresAt :: time_ms

record BrokerRefreshTokenRecord =
  rt_tokenHash :: string
  rt_familyId :: string
  rt_clientId :: string
  rt_resource :: string
  rt_scopes :: "string list"
  rt_identity :: GoogleIdentity
  rt_expiresAt :: time_ms

text \<open>A stored refresh token: the record with \<open>consumedAt\<close> and \<open>revokedAt\<close>.\<close>

record StoredRefreshToken =
  rs_token :: BrokerRefreshTokenRecord
  rs_consumedAt :: "time_ms option"
  rs_revokedAt :: "time_ms option"

record RotateBrokerRefreshTokenRequest =
  rq_tokenHash :: string
  rq_replacementTokenHash :: string
  rq_clientId :: string
  rq_resource :: string
  rq_scopes :: "string list option"
  rq_now :: time_ms

datatype RotateBrokerRefreshTokenResult =
  Rotated BrokerRefreshTokenRecord | RotInvalid | RotInvalidScope | RotReplayed

section \<open>The in-memory store\<close>

record broker_mem =
  transactions :: "(string, AuthorizationTransactionRecord) jsmap"
  authorizationCodes :: "(string, BrokerAuthorizationCodeRecord) jsmap"
  refreshTokens :: "(string, StoredRefreshToken) jsmap"

definition empty_broker_mem :: broker_mem where
  "empty_broker_mem = \<lparr>transactions = [], authorizationCodes = [], refreshTokens = []\<rparr>"

definition saveTransaction :: "AuthorizationTransactionRecord \<Rightarrow> broker_mem \<Rightarrow> broker_mem" where
  "saveTransaction r s = s\<lparr>transactions := js_set (tr_stateHash r) r (transactions s)\<rparr>"

definition consumeTransaction ::
  "string \<Rightarrow> broker_mem \<Rightarrow> AuthorizationTransactionRecord option \<times> broker_mem" where
  "consumeTransaction h s =
     (js_get (transactions s) h, s\<lparr>transactions := js_del h (transactions s)\<rparr>)"

definition saveAuthorizationCode :: "BrokerAuthorizationCodeRecord \<Rightarrow> broker_mem \<Rightarrow> broker_mem" where
  "saveAuthorizationCode r s = s\<lparr>authorizationCodes := js_set (co_codeHash r) r (authorizationCodes s)\<rparr>"

definition consumeAuthorizationCode ::
  "string \<Rightarrow> broker_mem \<Rightarrow> BrokerAuthorizationCodeRecord option \<times> broker_mem" where
  "consumeAuthorizationCode h s =
     (js_get (authorizationCodes s) h, s\<lparr>authorizationCodes := js_del h (authorizationCodes s)\<rparr>)"

definition saveRefreshToken :: "BrokerRefreshTokenRecord \<Rightarrow> broker_mem \<Rightarrow> broker_mem" where
  "saveRefreshToken r s =
     s\<lparr>refreshTokens := js_set (rt_tokenHash r)
         \<lparr>rs_token = r, rs_consumedAt = None, rs_revokedAt = None\<rparr> (refreshTokens s)\<rparr>"

definition revokeFamily :: "string \<Rightarrow> time_ms \<Rightarrow> broker_mem \<Rightarrow> broker_mem" where
  "revokeFamily family now s =
     s\<lparr>refreshTokens := map (\<lambda>(h, e). (h, if rt_familyId (rs_token e) = family
                                          then e\<lparr>rs_revokedAt := Some now\<rparr> else e))
                          (refreshTokens s)\<rparr>"

definition rotateRefreshToken ::
  "RotateBrokerRefreshTokenRequest \<Rightarrow> broker_mem \<Rightarrow> RotateBrokerRefreshTokenResult \<times> broker_mem" where
  "rotateRefreshToken rq s =
     (case js_get (refreshTokens s) (rq_tokenHash rq) of
        None \<Rightarrow> (RotInvalid, s)
      | Some e \<Rightarrow>
          (let r = rs_token e; scopes = coalesce (rq_scopes rq) (rt_scopes r) in
           if rs_consumedAt e \<noteq> None
           then (RotReplayed, revokeFamily (rt_familyId r) (rq_now rq) s)
           else if length (js_unique scopes) \<noteq> length scopes \<or> length scopes = 0 \<or>
                   list_ex (\<lambda>scope. scope \<notin> set (rt_scopes r)) scopes
           then (RotInvalidScope, s)
           else if rs_revokedAt e \<noteq> None \<or> rt_expiresAt r \<le> rq_now rq \<or>
                   rt_clientId r \<noteq> rq_clientId rq \<or> rt_resource r \<noteq> rq_resource rq
           then (RotInvalid, s)
           else (Rotated r,
                 s\<lparr>refreshTokens := js_set (rq_replacementTokenHash rq)
                      \<lparr>rs_token = r\<lparr>rt_tokenHash := rq_replacementTokenHash rq, rt_scopes := scopes\<rparr>,
                       rs_consumedAt = None, rs_revokedAt = None\<rparr>
                      (js_set (rq_tokenHash rq) (e\<lparr>rs_consumedAt := Some (rq_now rq)\<rparr>)
                         (refreshTokens s))\<rparr>)))"

section \<open>One-time records\<close>

text \<open>The contract of transactions and authorization codes: what is saved is handed out once.\<close>

locale one_time_store =
  fixes put :: "'r \<Rightarrow> 's \<Rightarrow> 's" and take :: "string \<Rightarrow> 's \<Rightarrow> 'r option \<times> 's"
    and key :: "'r \<Rightarrow> string" and peek :: "'s \<Rightarrow> string \<Rightarrow> 'r option"
  assumes peek_put: "peek (put r s) h = (if h = key r then Some r else peek s h)"
    and take_result: "fst (take h s) = peek s h"
    and peek_take: "peek (snd (take h s)) h' = (if h' = h then None else peek s h')"
begin

lemma take_put: "fst (take (key r) (put r s)) = Some r"
  by (simp add: take_result peek_put)

lemma take_twice: "fst (take h (snd (take h s))) = None"
  by (simp add: take_result peek_take)

text \<open>Whatever else is saved and consumed in between, a consumed record stays consumed as long as
  nothing is saved under its key.\<close>

inductive quiet :: "string \<Rightarrow> 's \<Rightarrow> 's \<Rightarrow> bool" for h where
  refl: "quiet h s s"
| put: "quiet h s t \<Longrightarrow> key r \<noteq> h \<Longrightarrow> quiet h s (put r t)"
| take: "quiet h s t \<Longrightarrow> quiet h s (snd (take h' t))"

lemma quiet_gone: "quiet h s t \<Longrightarrow> peek s h = None \<Longrightarrow> peek t h = None"
  by (induction rule: quiet.induct) (auto simp: peek_put peek_take)

lemma never_again:
  assumes "quiet h (snd (take h s)) t"
  shows "fst (take h t) = None"
  using quiet_gone [OF assms] by (simp add: take_result peek_take)

end

interpretation trans: one_time_store saveTransaction consumeTransaction tr_stateHash
  "\<lambda>s. js_get (transactions s)"
  by unfold_locales (simp_all add: saveTransaction_def consumeTransaction_def js_map_simps)

interpretation codes: one_time_store saveAuthorizationCode consumeAuthorizationCode co_codeHash
  "\<lambda>s. js_get (authorizationCodes s)"
  by unfold_locales (simp_all add: saveAuthorizationCode_def consumeAuthorizationCode_def js_map_simps)

section \<open>Refresh tokens\<close>

text \<open>
  The steps of the store. Hashes and family identifiers are those of fresh 256-bit secrets: a new
  token is stored under a hash, and starts a family, that the store does not hold yet.
\<close>

definition fresh_hash :: "string \<Rightarrow> broker_mem \<Rightarrow> bool" where
  "fresh_hash h s \<longleftrightarrow> js_get (refreshTokens s) h = None"

definition fresh_family :: "string \<Rightarrow> broker_mem \<Rightarrow> bool" where
  "fresh_family f s \<longleftrightarrow> (\<forall>h e. js_get (refreshTokens s) h = Some e \<longrightarrow> rt_familyId (rs_token e) \<noteq> f)"

inductive broker_step :: "broker_mem \<Rightarrow> broker_mem \<Rightarrow> bool" where
  save_transaction: "broker_step s (saveTransaction r1 s)"
| consume_transaction: "broker_step s (snd (consumeTransaction h s))"
| save_code: "broker_step s (saveAuthorizationCode r2 s)"
| consume_code: "broker_step s (snd (consumeAuthorizationCode h s))"
| save_refresh: "fresh_hash (rt_tokenHash r) s \<Longrightarrow> fresh_family (rt_familyId r) s \<Longrightarrow>
     broker_step s (saveRefreshToken r s)"
| rotate: "fresh_hash (rq_replacementTokenHash rq) s \<Longrightarrow> broker_step s (snd (rotateRefreshToken rq s))"

abbreviation broker_run :: "broker_mem \<Rightarrow> broker_mem \<Rightarrow> bool" where
  "broker_run \<equiv> broker_step\<^sup>*\<^sup>*"

abbreviation token_at :: "broker_mem \<Rightarrow> string \<Rightarrow> StoredRefreshToken option" where
  "token_at s h \<equiv> js_get (refreshTokens s) h"

lemma token_at_revokeFamily:
  "token_at (revokeFamily f now s) h =
     map_option (\<lambda>e. if rt_familyId (rs_token e) = f then e\<lparr>rs_revokedAt := Some now\<rparr> else e) (token_at s h)"
  by (simp add: revokeFamily_def map_of_map)

lemma rotate_cases:
  obtains (unchanged) "snd (rotateRefreshToken rq s) = s" "\<And>r. fst (rotateRefreshToken rq s) \<noteq> Rotated r"
      "fst (rotateRefreshToken rq s) \<noteq> RotReplayed"
  | (replayed) e where "token_at s (rq_tokenHash rq) = Some e" "rs_consumedAt e \<noteq> None"
      "rotateRefreshToken rq s = (RotReplayed, revokeFamily (rt_familyId (rs_token e)) (rq_now rq) s)"
  | (rotated) e scopes where "token_at s (rq_tokenHash rq) = Some e" "rs_consumedAt e = None"
      "rs_revokedAt e = None" "rq_now rq < rt_expiresAt (rs_token e)"
      "rt_clientId (rs_token e) = rq_clientId rq" "rt_resource (rs_token e) = rq_resource rq"
      "scopes = coalesce (rq_scopes rq) (rt_scopes (rs_token e))"
      "set scopes \<subseteq> set (rt_scopes (rs_token e))" "distinct scopes" "scopes \<noteq> []"
      "fst (rotateRefreshToken rq s) = Rotated (rs_token e)"
      "\<And>h. token_at (snd (rotateRefreshToken rq s)) h =
         (if h = rq_replacementTokenHash rq
          then Some \<lparr>rs_token = (rs_token e)\<lparr>rt_tokenHash := rq_replacementTokenHash rq, rt_scopes := scopes\<rparr>,
                     rs_consumedAt = None, rs_revokedAt = None\<rparr>
          else if h = rq_tokenHash rq then Some (e\<lparr>rs_consumedAt := Some (rq_now rq)\<rparr>)
          else token_at s h)"
proof (cases "token_at s (rq_tokenHash rq)")
  case None
  show ?thesis by (rule unchanged) (simp_all add: rotateRefreshToken_def None)
next
  case (Some e)
  let ?scopes = "coalesce (rq_scopes rq) (rt_scopes (rs_token e))"
  consider "rs_consumedAt e \<noteq> None"
    | "rs_consumedAt e = None"
      "\<not> (distinct ?scopes \<and> ?scopes \<noteq> [] \<and> set ?scopes \<subseteq> set (rt_scopes (rs_token e))) \<or>
       rs_revokedAt e \<noteq> None \<or> rt_expiresAt (rs_token e) \<le> rq_now rq \<or>
       rt_clientId (rs_token e) \<noteq> rq_clientId rq \<or> rt_resource (rs_token e) \<noteq> rq_resource rq"
    | "rs_consumedAt e = None" "distinct ?scopes" "?scopes \<noteq> []" "set ?scopes \<subseteq> set (rt_scopes (rs_token e))"
      "rs_revokedAt e = None" "rq_now rq < rt_expiresAt (rs_token e)"
      "rt_clientId (rs_token e) = rq_clientId rq" "rt_resource (rs_token e) = rq_resource rq"
    by fastforce
  then show ?thesis
  proof cases
    case 1
    show ?thesis by (rule replayed [OF Some 1]) (use Some 1 in \<open>simp add: rotateRefreshToken_def\<close>)
  next
    case 2
    show ?thesis
      by (rule unchanged) (use Some 2 in
          \<open>auto simp: rotateRefreshToken_def Let_def js_unique_length_iff list_ex_iff\<close>)
  next
    case 3
    then have ok: "length (js_unique ?scopes) = length ?scopes" "\<not> list_ex (\<lambda>x. x \<notin> set (rt_scopes (rs_token e))) ?scopes"
      by (auto simp: js_unique_length_iff list_ex_iff)
    show ?thesis
      by (rule rotated [OF Some 3(1,5,6,7,8) refl 3(4,2,3)])
        (use Some 3 ok in \<open>auto simp: rotateRefreshToken_def Let_def js_map_simps\<close>)
  qed
qed

section \<open>Along the steps of the store\<close>

text \<open>A stored token stays stored; once consumed it stays consumed, once revoked it stays revoked.\<close>

definition ages :: "StoredRefreshToken \<Rightarrow> StoredRefreshToken \<Rightarrow> bool" where
  "ages e e' \<longleftrightarrow> rs_token e' = rs_token e \<and> (rs_consumedAt e \<noteq> None \<longrightarrow> rs_consumedAt e' \<noteq> None) \<and>
     (rs_revokedAt e \<noteq> None \<longrightarrow> rs_revokedAt e' \<noteq> None)"

lemma ages_refl [simp]: "ages e e" by (simp add: ages_def)

lemma ages_trans: "ages a b \<Longrightarrow> ages b c \<Longrightarrow> ages a c" by (auto simp: ages_def)

lemma broker_step_ages:
  assumes "broker_step s s'" "token_at s h = Some e"
  shows "\<exists>e'. token_at s' h = Some e' \<and> ages e e'"
  using assms
proof (induction rule: broker_step.induct)
  case (save_refresh r s)
  then show ?case by (auto simp: saveRefreshToken_def fresh_hash_def js_map_simps)
next
  case (rotate rq s)
  show ?case
  proof (cases rule: rotate_cases [of rq s])
    case unchanged
    with rotate show ?thesis by simp
  next
    case (replayed e0)
    with rotate show ?thesis by (simp add: token_at_revokeFamily ages_def)
  next
    case (rotated e0 scopes)
    with rotate show ?thesis by (auto simp: rotated(12) fresh_hash_def ages_def)
  qed
qed (auto simp: saveTransaction_def consumeTransaction_def saveAuthorizationCode_def consumeAuthorizationCode_def)

lemma broker_run_ages:
  assumes "broker_run s s'" "token_at s h = Some e"
  shows "\<exists>e'. token_at s' h = Some e' \<and> ages e e'"
  using assms
proof (induction rule: rtranclp_induct)
  case (step t u)
  then show ?case using broker_step_ages ages_trans by metis
qed auto

text \<open>A property of the tokens of a family that rotation hands on is kept by every run.\<close>

lemma broker_run_family:
  assumes "broker_run s s'" "\<not> fresh_family f s"
    "\<And>h e. token_at s h = Some e \<Longrightarrow> rt_familyId (rs_token e) = f \<Longrightarrow> P e"
    and rotated: "\<And>e h scopes now. P e \<Longrightarrow> rs_revokedAt e = None \<Longrightarrow> set scopes \<subseteq> set (rt_scopes (rs_token e)) \<Longrightarrow>
      P (e\<lparr>rs_consumedAt := Some now\<rparr>) \<and>
      P \<lparr>rs_token = (rs_token e)\<lparr>rt_tokenHash := h, rt_scopes := scopes\<rparr>, rs_consumedAt = None, rs_revokedAt = None\<rparr>"
    and revoked: "\<And>e now. P e \<Longrightarrow> P (e\<lparr>rs_revokedAt := Some now\<rparr>)"
  shows "\<not> fresh_family f s' \<and> (\<forall>h e. token_at s' h = Some e \<longrightarrow> rt_familyId (rs_token e) = f \<longrightarrow> P e)"
  using assms(1)
proof (induction rule: rtranclp_induct)
  case base
  then show ?case using assms(2,3) by blast
next
  case (step t u)
  from step(2) have "\<not> fresh_family f u"
    using step(3) broker_step_ages unfolding fresh_family_def ages_def by metis
  moreover have "\<forall>h e. token_at u h = Some e \<longrightarrow> rt_familyId (rs_token e) = f \<longrightarrow> P e"
    using step(2,3)
  proof (induction rule: broker_step.induct)
    case (save_refresh r s)
    then have "rt_familyId r \<noteq> f" by blast
    with save_refresh show ?case by (auto simp: saveRefreshToken_def js_map_simps split: if_splits)
  next
    case (rotate rq s)
    show ?case
    proof (cases rule: rotate_cases [of rq s])
      case unchanged
      with rotate show ?thesis by simp
    next
      case (replayed e0)
      with rotate revoked show ?thesis by (auto simp: token_at_revokeFamily)
    next
      case (rotated e0 scopes)
      have "P e0" if "rt_familyId (rs_token e0) = f" using that rotate rotated(1) by blast
      with rotate assms(4) [of e0 scopes] rotated(3,8) show ?thesis
        by (auto simp: rotated(12) split: if_splits)
    qed
  qed (auto simp: saveTransaction_def consumeTransaction_def saveAuthorizationCode_def consumeAuthorizationCode_def)
  ultimately show ?case by blast
qed

section \<open>What the refresh tokens guarantee\<close>

text \<open>A refresh token is exchanged at most once. After it has been rotated, presenting it again is
  recognised as a replay, whatever the store has done in between.\<close>

lemma refresh_token_single_use:
  assumes "fst (rotateRefreshToken rq s) = Rotated r" "fresh_hash (rq_replacementTokenHash rq) s"
    "broker_run (snd (rotateRefreshToken rq s)) s2" "rq_tokenHash rq2 = rq_tokenHash rq"
  shows "fst (rotateRefreshToken rq2 s2) = RotReplayed"
proof (cases rule: rotate_cases [of rq s])
  case (rotated e scopes)
  have "rq_tokenHash rq \<noteq> rq_replacementTokenHash rq"
    using rotated(1) assms(2) by (auto simp: fresh_hash_def)
  then have "token_at (snd (rotateRefreshToken rq s)) (rq_tokenHash rq) =
      Some (e\<lparr>rs_consumedAt := Some (rq_now rq)\<rparr>)" by (simp add: rotated(12))
  from broker_run_ages [OF assms(3) this] obtain e2 where
    "token_at s2 (rq_tokenHash rq2) = Some e2" "rs_consumedAt e2 \<noteq> None"
    using assms(4) by (auto simp: ages_def)
  then show ?thesis by (simp add: rotateRefreshToken_def)
qed (use assms(1) in auto)

text \<open>C9: a replay ends the whole family. Once a consumed token has been presented again, no token
  descending from the same sign-in is ever rotated, whatever else the store does.\<close>

theorem replay_revokes_family:
  assumes "fst (rotateRefreshToken rq s) = RotReplayed" "token_at s (rq_tokenHash rq) = Some e"
    "broker_run (snd (rotateRefreshToken rq s)) s2" "token_at s2 (rq_tokenHash rq2) = Some e2"
    "rt_familyId (rs_token e2) = rt_familyId (rs_token e)"
  shows "fst (rotateRefreshToken rq2 s2) \<noteq> Rotated r"
proof (cases rule: rotate_cases [of rq s])
  case (replayed e0)
  let ?f = "rt_familyId (rs_token e)" and ?s1 = "snd (rotateRefreshToken rq s)"
  have s1: "?s1 = revokeFamily ?f (rq_now rq) s" using replayed assms(2) by simp
  have "\<not> fresh_family ?f s2 \<and>
      (\<forall>h d. token_at s2 h = Some d \<longrightarrow> rt_familyId (rs_token d) = ?f \<longrightarrow> rs_revokedAt d \<noteq> None)"
  proof (rule broker_run_family [OF assms(3)])
    show "\<not> fresh_family ?f ?s1"
      using assms(2) by (auto simp: s1 fresh_family_def token_at_revokeFamily intro!: exI [of _ "rq_tokenHash rq"])
    show "rs_revokedAt d \<noteq> None" if d: "token_at ?s1 h = Some d" "rt_familyId (rs_token d) = ?f" for h d
    proof -
      from d(1) obtain d0 where "d = (if rt_familyId (rs_token d0) = ?f
          then d0\<lparr>rs_revokedAt := Some (rq_now rq)\<rparr> else d0)" by (auto simp: s1 token_at_revokeFamily)
      with d(2) show ?thesis by (cases "rt_familyId (rs_token d0) = ?f") simp_all
    qed
  qed auto
  with assms(4,5) have "rs_revokedAt e2 \<noteq> None" by blast
  with assms(4) show ?thesis by (cases rule: rotate_cases [of rq2 s2]) auto
qed (use assms(1) in auto)

text \<open>C16: every token of a family carries the client, resource, identity and expiry of the sign-in
  that started it, and no scope the sign-in did not grant: rotation never widens or extends
  a grant.\<close>

theorem family_never_widens:
  assumes "fresh_hash (rt_tokenHash r) s" "fresh_family (rt_familyId r) s"
    "broker_run (saveRefreshToken r s) s2" "token_at s2 h = Some e"
    "rt_familyId (rs_token e) = rt_familyId r"
  shows "rt_clientId (rs_token e) = rt_clientId r \<and> rt_resource (rs_token e) = rt_resource r \<and>
     rt_identity (rs_token e) = rt_identity r \<and> rt_expiresAt (rs_token e) = rt_expiresAt r \<and>
     set (rt_scopes (rs_token e)) \<subseteq> set (rt_scopes r)"
proof -
  let ?P = "\<lambda>e. rt_clientId (rs_token e) = rt_clientId r \<and> rt_resource (rs_token e) = rt_resource r \<and>
     rt_identity (rs_token e) = rt_identity r \<and> rt_expiresAt (rs_token e) = rt_expiresAt r \<and>
     set (rt_scopes (rs_token e)) \<subseteq> set (rt_scopes r)"
  have at: "token_at (saveRefreshToken r s) h = (if h = rt_tokenHash r
      then Some \<lparr>rs_token = r, rs_consumedAt = None, rs_revokedAt = None\<rparr> else token_at s h)" for h
    by (simp add: saveRefreshToken_def js_map_simps)
  have "\<not> fresh_family (rt_familyId r) s2 \<and>
      (\<forall>h d. token_at s2 h = Some d \<longrightarrow> rt_familyId (rs_token d) = rt_familyId r \<longrightarrow> ?P d)"
  proof (rule broker_run_family [OF assms(3)])
    show "\<not> fresh_family (rt_familyId r) (saveRefreshToken r s)"
      by (auto simp: fresh_family_def at intro!: exI [of _ "rt_tokenHash r"])
    show "?P d" if "token_at (saveRefreshToken r s) h = Some d" "rt_familyId (rs_token d) = rt_familyId r" for h d
      using that assms(2) by (auto simp: at fresh_family_def split: if_splits)
  qed auto
  with assms(4,5) show ?thesis by blast
qed

section \<open>An instance\<close>

definition demo_identity :: GoogleIdentity where
  "demo_identity = \<lparr>gi_issuer = ''g'', gi_subject = ''s'', gi_email = ''m''\<rparr>"

definition demo_token :: BrokerRefreshTokenRecord where
  "demo_token = \<lparr>rt_tokenHash = ''h1'', rt_familyId = ''f'', rt_clientId = ''c'', rt_resource = ''r'',
     rt_scopes = [''read'', ''write''], rt_identity = demo_identity, rt_expiresAt = 1000\<rparr>"

definition demo_rotation :: "string \<Rightarrow> string \<Rightarrow> RotateBrokerRefreshTokenRequest" where
  "demo_rotation h h' = \<lparr>rq_tokenHash = h, rq_replacementTokenHash = h', rq_clientId = ''c'',
     rq_resource = ''r'', rq_scopes = Some [''read''], rq_now = 10\<rparr>"

definition demo_issued_token :: broker_mem where
  "demo_issued_token = saveRefreshToken demo_token empty_broker_mem"

definition demo_rotated :: broker_mem where
  "demo_rotated = snd (rotateRefreshToken (demo_rotation ''h1'' ''h2'') demo_issued_token)"

lemma demo_steps:
  "fresh_hash ''h1'' empty_broker_mem" "fresh_family ''f'' empty_broker_mem"
  "fresh_hash ''h2'' demo_issued_token"
  by (simp_all add: fresh_hash_def fresh_family_def empty_broker_mem_def demo_issued_token_def
      saveRefreshToken_def demo_token_def)

lemma demo_rotates: "fst (rotateRefreshToken (demo_rotation ''h1'' ''h2'') demo_issued_token) = Rotated demo_token"
  by code_simp

lemma demo_rotation_run: "broker_run demo_issued_token demo_rotated"
  unfolding demo_rotated_def
  by (rule r_into_rtranclp, rule broker_step.rotate) (simp add: demo_rotation_def demo_steps)

lemma refresh_token_single_use_example:
  "fst (rotateRefreshToken (demo_rotation ''h1'' ''h3'') demo_rotated) = RotReplayed"
  using refresh_token_single_use [OF demo_rotates, of demo_rotated "demo_rotation ''h1'' ''h3''"] demo_steps
  by (simp add: demo_rotated_def demo_rotation_def)

theorem replay_revokes_family_witness:
  "fst (rotateRefreshToken (demo_rotation ''h2'' ''h4'')
     (snd (rotateRefreshToken (demo_rotation ''h1'' ''h3'') demo_rotated))) \<noteq> Rotated demo_token"
proof -
  let ?s = "snd (rotateRefreshToken (demo_rotation ''h1'' ''h3'') demo_rotated)"
  have "fst (rotateRefreshToken (demo_rotation ''h1'' ''h3'') demo_rotated) = RotReplayed" by code_simp
  moreover have "map_option (\<lambda>e. rt_familyId (rs_token e))
      (token_at demo_rotated (rq_tokenHash (demo_rotation ''h1'' ''h3''))) = Some ''f''"
    "map_option (\<lambda>e. rt_familyId (rs_token e)) (token_at ?s (rq_tokenHash (demo_rotation ''h2'' ''h4''))) = Some ''f''"
    by code_simp+
  then obtain e e2 where "token_at demo_rotated (rq_tokenHash (demo_rotation ''h1'' ''h3'')) = Some e"
    "token_at ?s (rq_tokenHash (demo_rotation ''h2'' ''h4'')) = Some e2"
    "rt_familyId (rs_token e2) = rt_familyId (rs_token e)" by auto
  ultimately show ?thesis by (intro replay_revokes_family [OF _ _ rtranclp.rtrancl_refl])
qed

theorem family_never_widens_witness:
  "\<exists>e. token_at demo_rotated ''h2'' = Some e \<and> rt_expiresAt (rs_token e) = 1000 \<and>
     set (rt_scopes (rs_token e)) \<subseteq> {''read'', ''write''}"
proof -
  have "map_option (\<lambda>e. rt_familyId (rs_token e)) (token_at demo_rotated ''h2'') = Some ''f''" by code_simp
  then obtain e where e: "token_at demo_rotated ''h2'' = Some e" "rt_familyId (rs_token e) = ''f''" by blast
  have "fresh_hash (rt_tokenHash demo_token) empty_broker_mem" "fresh_family (rt_familyId demo_token) empty_broker_mem"
    using demo_steps by (simp_all add: demo_token_def)
  from family_never_widens [OF this demo_rotation_run [unfolded demo_issued_token_def] e(1)] e
  show ?thesis by (simp add: demo_token_def)
qed

end
