(* ===== verification/Broker.thy ===== *)
theory Broker
  imports Broker_Store Complex_Main
begin

text \<open>
  \<open>OAuthBroker\<close> (\<open>shared/oauth/authorization-broker.ts\<close>) over the store of \<open>Broker_Store\<close>:
  the authorization request, the callback from Google, the exchange of codes and refresh tokens,
  the verification of the identity assertion, the published keys.

  Outside the repository, and therefore fields of \<open>broker_options\<close>: the client registry, Google's
  token endpoint, the JWT library (\<open>bo_jwtVerify\<close>, \<open>bo_sign\<close>), SHA-256 in base64url
  (\<open>bo_sha256\<close>) and the random source (\<open>bo_random n\<close> is the n-th secret drawn). A redirect is
  kept as its target and the parameters set on it. Every check of a request is a branch; a thrown
  \<open>OAuthBrokerError\<close> is the left summand. \<open>now\<close> is the clock at the call.
\<close>

section \<open>Errors, requests, configuration\<close>

datatype OAuthBrokerErrorCode =
    invalid_client | invalid_grant | invalid_request | invalid_scope | invalid_target | server_error
  | unsupported_grant_type | unsupported_response_type

record redirect =
  rd_uri :: string
  rd_parameters :: "(string \<times> string) list"

record OAuthBrokerError =
  be_code :: OAuthBrokerErrorCode
  be_message :: string
  be_redirectUrl :: "redirect option"

type_synonym 'a bres = "OAuthBrokerError + 'a"

abbreviation brokerError :: "OAuthBrokerErrorCode \<Rightarrow> string \<Rightarrow> OAuthBrokerError" where
  "brokerError c m \<equiv> \<lparr>be_code = c, be_message = m, be_redirectUrl = None\<rparr>"

record BeginAuthorizationRequest =
  ba_responseType :: string
  ba_clientId :: string
  ba_redirectUri :: string
  ba_resource :: string
  ba_scope :: string
  ba_codeChallenge :: string
  ba_codeChallengeMethod :: string
  ba_state :: "string option"

record ExchangeAuthorizationCodeRequest =
  xc_grantType :: string
  xc_code :: string
  xc_clientId :: string
  xc_redirectUri :: string
  xc_resource :: string
  xc_codeVerifier :: string

record ExchangeRefreshTokenRequest =
  xr_grantType :: string
  xr_refreshToken :: string
  xr_clientId :: string
  xr_resource :: string
  xr_scope :: "string option"

record access_token_claims =
  ct_issuer :: string
  ct_audience :: string
  ct_subject :: string
  ct_email :: string
  ct_scope :: string
  ct_issuedAt :: int
  ct_expirationTime :: int
  ct_jti :: string
  ct_keyId :: string

record BrokerTokenResponse =
  bt_accessToken :: string
  bt_expiresIn :: int
  bt_scope :: string
  bt_refreshToken :: "string option"

text \<open>The claims of a verified JWT; \<open>jp_iat\<close> is \<open>None\<close> unless it is a finite number.\<close>

record JWTPayload =
  jp_iss :: string
  jp_sub :: "string option"
  jp_aud :: "string list"
  jp_audIsArray :: bool
  jp_azp :: "string option"
  jp_exp :: "rat option"
  jp_iat :: "rat option"
  jp_nonce :: "string option"
  jp_email :: "string option"
  jp_emailVerified :: "bool option"

datatype jwk_value = JwkString string | JwkList "string list"

type_synonym JWK = "(string, jwk_value) jsmap"

record GoogleTokenExchangeInput =
  gx_code :: string
  gx_codeVerifier :: string
  gx_redirectUri :: string

record broker_options =
  bo_issuer :: string
  bo_resource :: string
  bo_authorizationEndpoint :: string
  bo_tokenEndpoint :: string
  bo_jwksUri :: string
  bo_scopesSupported :: "string list"
  bo_googleClientId :: string
  bo_googleAuthorizationEndpoint :: string
  bo_googleCallbackUri :: string
  bo_keyId :: string
  bo_publicJwk :: JWK
  bo_verificationJwks :: "JWK list option"
  bo_transactionTtlSeconds :: "int option"
  bo_authorizationCodeTtlSeconds :: "int option"
  bo_accessTokenTtlSeconds :: "int option"
  bo_refreshTokenTtlSeconds :: "int option"
  bo_clients :: "string \<Rightarrow> BrokerClient option"
  bo_exchangeGoogleCode :: "GoogleTokenExchangeInput \<Rightarrow> string option"
  bo_jwtVerify :: "string \<Rightarrow> string \<Rightarrow> string \<Rightarrow> time_ms \<Rightarrow> JWTPayload option"
  bo_sign :: "access_token_claims \<Rightarrow> string"
  bo_sha256 :: "string \<Rightarrow> string"
  bo_random :: "nat \<Rightarrow> string"

record broker_state =
  bs_store :: broker_mem
  bs_drawn :: nat

section \<open>Constants and helpers\<close>

definition GOOGLE_ISSUER :: string where "GOOGLE_ISSUER = ''https://accounts.google.com''"
definition GOOGLE_ID_TOKEN_CLOCK_SKEW_SECONDS :: rat where "GOOGLE_ID_TOKEN_CLOCK_SKEW_SECONDS = 300"
definition GOOGLE_ID_TOKEN_MAX_AGE_SECONDS :: rat where "GOOGLE_ID_TOKEN_MAX_AGE_SECONDS = 3600"
definition MAX_CLIENT_ID_LENGTH :: nat where "MAX_CLIENT_ID_LENGTH = 256"
definition MAX_URI_LENGTH :: nat where "MAX_URI_LENGTH = 2048"
definition MAX_SCOPE_LENGTH :: nat where "MAX_SCOPE_LENGTH = 1024"
definition MAX_CLIENT_STATE_LENGTH :: nat where "MAX_CLIENT_STATE_LENGTH = 1024"
definition MAX_AUTHORIZATION_CODE_LENGTH :: nat where "MAX_AUTHORIZATION_CODE_LENGTH = 4096"
definition MAX_REFRESH_TOKEN_LENGTH :: nat where "MAX_REFRESH_TOKEN_LENGTH = 512"

lemmas broker_limits = MAX_CLIENT_ID_LENGTH_def MAX_URI_LENGTH_def MAX_SCOPE_LENGTH_def
  MAX_CLIENT_STATE_LENGTH_def MAX_AUTHORIZATION_CODE_LENGTH_def MAX_REFRESH_TOKEN_LENGTH_def

definition is_url_char :: "char \<Rightarrow> bool" where
  "is_url_char c \<longleftrightarrow> is_lower_alpha c \<or> is_upper_alpha c \<or> is_digit c \<or> c = CHR ''_'' \<or> c = CHR ''-''"

definition PKCE_CHALLENGE_PATTERN :: "string \<Rightarrow> bool" where
  "PKCE_CHALLENGE_PATTERN s \<longleftrightarrow> length s = 43 \<and> list_all is_url_char s"

definition PKCE_VERIFIER_PATTERN :: "string \<Rightarrow> bool" where
  "PKCE_VERIFIER_PATTERN s \<longleftrightarrow> 43 \<le> length s \<and> length s \<le> 128 \<and>
     list_all (\<lambda>c. is_url_char c \<or> c = CHR ''.'' \<or> c = CHR ''~'') s"

text \<open>\<open>Some e\<close> is the error thrown.\<close>

definition requireBoundedString ::
  "string option \<Rightarrow> string \<Rightarrow> nat \<Rightarrow> OAuthBrokerErrorCode \<Rightarrow> OAuthBrokerError option" where
  "requireBoundedString v name maximumLength code =
     (let e = brokerError code
                (name @ '' must be between 1 and '' @ nat_str maximumLength @ '' characters'') in
      case v of
        Some s \<Rightarrow> (if length s = 0 \<or> length s > maximumLength then Some e else None)
      | None \<Rightarrow> Some e)"

text \<open>The first error of a sequence of checks.\<close>

fun first_error :: "OAuthBrokerError option list \<Rightarrow> OAuthBrokerError option" where
  "first_error [] = None"
| "first_error (Some e # cs) = Some e"
| "first_error (None # cs) = first_error cs"

lemma first_error_None [simp]: "first_error cs = None \<longleftrightarrow> (\<forall>c \<in> set cs. c = None)"
  by (induction cs rule: first_error.induct) auto

text \<open>\<open>scope.split(/\s+/).filter(Boolean)\<close>.\<close>

fun words_from :: "string \<Rightarrow> string \<Rightarrow> string list" where
  "words_from w [] = (if w = [] then [] else [rev w])"
| "words_from w (c # cs) =
     (if is_space c then (if w = [] then words_from [] cs else rev w # words_from [] cs)
      else words_from (c # w) cs)"

definition parseAndValidateScopes :: "string \<Rightarrow> string list \<Rightarrow> string list bres" where
  "parseAndValidateScopes scope allowedScopes =
     (let scopes = words_from [] scope in
      if scopes = [] \<or> list_ex (\<lambda>s. s \<notin> set allowedScopes) scopes
      then Inl (brokerError invalid_scope ''Requested OAuth scope is not permitted'')
      else Inr (js_unique scopes))"

definition validPkceVerifier :: "broker_options \<Rightarrow> string \<Rightarrow> string \<Rightarrow> bool" where
  "validPkceVerifier bo verifier expectedChallenge \<longleftrightarrow>
     PKCE_VERIFIER_PATTERN verifier \<and> bo_sha256 bo verifier = expectedChallenge"

text \<open>\<open>pkceChallenge\<close> and \<open>hashSecret\<close> are the same digest.\<close>

definition hashSecret :: "broker_options \<Rightarrow> string \<Rightarrow> string" where
  "hashSecret bo secret = bo_sha256 bo secret"

definition randomSecret :: "broker_options \<Rightarrow> broker_state \<Rightarrow> string \<times> broker_state" where
  "randomSecret bo st = (bo_random bo (bs_drawn st), st\<lparr>bs_drawn := Suc (bs_drawn st)\<rparr>)"

definition clientRedirect ::
  "string \<Rightarrow> string option \<Rightarrow> string option \<Rightarrow> string option \<Rightarrow> string option \<Rightarrow> redirect" where
  "clientRedirect uri code err description state =
     \<lparr>rd_uri = uri,
      rd_parameters = concat (map (\<lambda>(name, v). case v of None \<Rightarrow> [] | Some x \<Rightarrow> [(name, x)])
        [(''code'', code), (''error'', err), (''error_description'', description), (''state'', state)])\<rparr>"

definition authorizationErrorCode :: "OAuthBrokerErrorCode \<Rightarrow> OAuthBrokerErrorCode" where
  "authorizationErrorCode c = (if c = invalid_grant \<or> c = unsupported_grant_type then server_error else c)"

definition boundedClientState :: "string option \<Rightarrow> string option" where
  "boundedClientState s =
     (case s of Some x \<Rightarrow> (if x \<noteq> [] \<and> length x \<le> MAX_CLIENT_STATE_LENGTH then s else None) | None \<Rightarrow> None)"

fun errorCodeName :: "OAuthBrokerErrorCode \<Rightarrow> string" where
  "errorCodeName invalid_client = ''invalid_client''"
| "errorCodeName invalid_grant = ''invalid_grant''"
| "errorCodeName invalid_request = ''invalid_request''"
| "errorCodeName invalid_scope = ''invalid_scope''"
| "errorCodeName invalid_target = ''invalid_target''"
| "errorCodeName server_error = ''server_error''"
| "errorCodeName unsupported_grant_type = ''unsupported_grant_type''"
| "errorCodeName unsupported_response_type = ''unsupported_response_type''"

section \<open>Lifetimes\<close>

text \<open>The bound check of the constructor; \<open>None\<close> is the thrown configuration error.\<close>

definition boundedTtl :: "int \<Rightarrow> int \<Rightarrow> int \<Rightarrow> int option" where
  "boundedTtl v minimum maximum = (if v < minimum \<or> v > maximum then None else Some v)"

record broker_ttls =
  transactionTtl :: int
  authorizationCodeTtl :: int
  accessTokenTtl :: int
  refreshTokenTtl :: int

definition configuredTtls :: "broker_options \<Rightarrow> broker_ttls option" where
  "configuredTtls bo =
     Option.bind (boundedTtl (coalesce (bo_transactionTtlSeconds bo) 600) 30 900) (\<lambda>a.
     Option.bind (boundedTtl (coalesce (bo_authorizationCodeTtlSeconds bo) 120) 30 300) (\<lambda>b.
     Option.bind (boundedTtl (coalesce (bo_accessTokenTtlSeconds bo) 300) 60 600) (\<lambda>c.
     Option.bind (boundedTtl (coalesce (bo_refreshTokenTtlSeconds bo) (30 * 24 * 60 * 60))
                    3600 (90 * 24 * 60 * 60)) (\<lambda>d.
     Some \<lparr>transactionTtl = a, authorizationCodeTtl = b, accessTokenTtl = c, refreshTokenTtl = d\<rparr>))))"

section \<open>The authorization request\<close>

definition allowedScopesOf :: "broker_options \<Rightarrow> BrokerClient \<Rightarrow> string list" where
  "allowedScopesOf bo client = js_unique (filter (\<lambda>s. s \<in> set (bo_scopesSupported bo)) (bc_scopes client))"

definition checkAuthorizationRequest ::
  "broker_options \<Rightarrow> BrokerClient \<Rightarrow> BeginAuthorizationRequest \<Rightarrow> string list bres" where
  "checkAuthorizationRequest bo client rq =
     (case first_error
        [requireBoundedString (ba_state rq) ''state'' MAX_CLIENT_STATE_LENGTH invalid_request,
         requireBoundedString (Some (ba_resource rq)) ''resource'' MAX_URI_LENGTH invalid_request,
         requireBoundedString (Some (ba_scope rq)) ''scope'' MAX_SCOPE_LENGTH invalid_request,
         requireBoundedString (Some (ba_responseType rq)) ''response_type'' 32 invalid_request,
         requireBoundedString (Some (ba_codeChallenge rq)) ''code_challenge'' 128 invalid_request,
         requireBoundedString (Some (ba_codeChallengeMethod rq)) ''code_challenge_method'' 16 invalid_request,
         (if ba_responseType rq \<noteq> ''code''
          then Some (brokerError unsupported_response_type
                       ''Only the authorization code response type is supported'') else None),
         (if ba_resource rq \<noteq> bo_resource bo
          then Some (brokerError invalid_target ''resource does not identify this MCP server'') else None),
         (if ba_codeChallengeMethod rq \<noteq> ''S256'' \<or> \<not> PKCE_CHALLENGE_PATTERN (ba_codeChallenge rq)
          then Some (brokerError invalid_request ''PKCE S256 is required'') else None)] of
        Some e \<Rightarrow> Inl e
      | None \<Rightarrow> parseAndValidateScopes (ba_scope rq) (allowedScopesOf bo client))"

record google_authorization_url =
  gu_endpoint :: string
  gu_parameters :: "(string \<times> string) list"

definition beginAuthorization ::
  "broker_options \<Rightarrow> broker_ttls \<Rightarrow> time_ms \<Rightarrow> BeginAuthorizationRequest \<Rightarrow> broker_state \<Rightarrow>
   (google_authorization_url \<times> BrokerClient) bres \<times> broker_state" where
  "beginAuthorization bo ttl now rq st =
     (case first_error
        [requireBoundedString (Some (ba_clientId rq)) ''client_id'' MAX_CLIENT_ID_LENGTH invalid_request,
         requireBoundedString (Some (ba_redirectUri rq)) ''redirect_uri'' MAX_URI_LENGTH invalid_request] of
        Some e \<Rightarrow> (Inl e, st)
      | None \<Rightarrow>
          (case bo_clients bo (ba_clientId rq) of
             None \<Rightarrow> (Inl (brokerError invalid_client ''Unknown OAuth client''), st)
           | Some client \<Rightarrow>
               (if bc_clientId client \<noteq> ba_clientId rq
                then (Inl (brokerError invalid_client ''Unknown OAuth client''), st)
                else if ba_redirectUri rq \<notin> set (bc_redirectUris client)
                then (Inl (brokerError invalid_request ''redirect_uri is not registered''), st)
                else case checkAuthorizationRequest bo client rq of
                    Inl e \<Rightarrow>
                      (let c = authorizationErrorCode (be_code e) in
                       (Inl \<lparr>be_code = c, be_message = be_message e,
                             be_redirectUrl = Some (clientRedirect (ba_redirectUri rq) None
                               (Some (errorCodeName c)) (Some (be_message e))
                               (boundedClientState (ba_state rq)))\<rparr>, st))
                  | Inr scopes \<Rightarrow>
                      (let (transactionState, st1) = randomSecret bo st;
                           (googleNonce, st2) = randomSecret bo st1;
                           (googleCodeVerifier, st3) = randomSecret bo st2;
                           tr = \<lparr>tr_stateHash = hashSecret bo transactionState,
                                 tr_clientId = ba_clientId rq, tr_redirectUri = ba_redirectUri rq,
                                 tr_resource = ba_resource rq, tr_scopes = scopes,
                                 tr_clientState = ba_state rq, tr_codeChallenge = ba_codeChallenge rq,
                                 tr_googleNonce = googleNonce,
                                 tr_googleCodeVerifier = googleCodeVerifier,
                                 tr_expiresAt = now + transactionTtl ttl * 1000\<rparr>;
                           url = \<lparr>gu_endpoint = bo_googleAuthorizationEndpoint bo,
                                  gu_parameters =
                                    [(''client_id'', bo_googleClientId bo),
                                     (''redirect_uri'', bo_googleCallbackUri bo),
                                     (''response_type'', ''code''), (''scope'', ''openid email''),
                                     (''state'', transactionState), (''nonce'', googleNonce),
                                     (''code_challenge'', hashSecret bo googleCodeVerifier),
                                     (''code_challenge_method'', ''S256'')]\<rparr>
                       in (Inr (url, client), st3\<lparr>bs_store := saveTransaction tr (bs_store st3)\<rparr>)))))"

section \<open>The identity assertion\<close>

definition googleIdentityFromPayload ::
  "string \<Rightarrow> string \<Rightarrow> time_ms \<Rightarrow> JWTPayload \<Rightarrow> GoogleIdentity bres" where
  "googleIdentityFromPayload clientId expectedNonce now p =
     (let nowSeconds = of_int now / 1000 in
      case jp_exp p of
        None \<Rightarrow> Inl (brokerError invalid_grant ''Google ID token is missing expiration'')
      | Some _ \<Rightarrow>
      case jp_iat p of
        None \<Rightarrow> Inl (brokerError invalid_grant ''Google ID token is missing a numeric issued-at time'')
      | Some iat \<Rightarrow>
          (if iat > nowSeconds + GOOGLE_ID_TOKEN_CLOCK_SKEW_SECONDS
           then Inl (brokerError invalid_grant ''Google ID token was issued in the future'')
           else if iat < nowSeconds - GOOGLE_ID_TOKEN_MAX_AGE_SECONDS - GOOGLE_ID_TOKEN_CLOCK_SKEW_SECONDS
           then Inl (brokerError invalid_grant ''Google ID token issuance is too old'')
           else if jp_nonce p \<noteq> Some expectedNonce
           then Inl (brokerError invalid_grant ''Google ID token nonce does not match'')
           else if \<not> truthy (jp_sub p)
           then Inl (brokerError invalid_grant ''Google ID token is missing a stable subject'')
           else if \<not> truthy (jp_email p)
           then Inl (brokerError invalid_grant ''Google ID token is missing email'')
           else if jp_emailVerified p \<noteq> Some True
           then Inl (brokerError invalid_grant ''Google ID token email is not verified'')
           else if jp_azp p \<noteq> None \<and> jp_azp p \<noteq> Some clientId
           then Inl (brokerError invalid_grant ''Google ID token authorized party does not match'')
           else if jp_audIsArray p \<and> length (jp_aud p) > 1 \<and> jp_azp p \<noteq> Some clientId
           then Inl (brokerError invalid_grant ''Google ID token is missing its authorized party'')
           else Inr \<lparr>gi_issuer = jp_iss p, gi_subject = the (jp_sub p), gi_email = the (jp_email p)\<rparr>))"

definition verifyGoogleIdentityToken ::
  "broker_options \<Rightarrow> string \<Rightarrow> string \<Rightarrow> time_ms \<Rightarrow> GoogleIdentity bres" where
  "verifyGoogleIdentityToken bo idToken expectedNonce now =
     (case bo_jwtVerify bo idToken GOOGLE_ISSUER (bo_googleClientId bo) now of
        None \<Rightarrow> Inl (brokerError invalid_grant ''Google ID token verification failed'')
      | Some p \<Rightarrow> googleIdentityFromPayload (bo_googleClientId bo) expectedNonce now p)"

section \<open>The callback from Google\<close>

definition consumeLiveTransaction ::
  "broker_options \<Rightarrow> time_ms \<Rightarrow> string \<Rightarrow> broker_state \<Rightarrow>
   AuthorizationTransactionRecord bres \<times> broker_state" where
  "consumeLiveTransaction bo now transactionState st =
     (if transactionState = []
      then (Inl (brokerError invalid_request ''Authorization transaction state is required''), st)
      else let (r, m) = consumeTransaction (hashSecret bo transactionState) (bs_store st);
               st1 = st\<lparr>bs_store := m\<rparr>
           in case r of
                None \<Rightarrow> (Inl (brokerError invalid_request ''Authorization transaction is invalid or expired''), st1)
              | Some tr \<Rightarrow>
                  (if tr_expiresAt tr \<le> now
                   then (Inl (brokerError invalid_request ''Authorization transaction is invalid or expired''), st1)
                   else (Inr tr, st1)))"

definition upstreamFailure :: "AuthorizationTransactionRecord \<Rightarrow> OAuthBrokerError" where
  "upstreamFailure tr =
     \<lparr>be_code = server_error, be_message = ''Upstream identity verification failed'',
      be_redirectUrl = Some (clientRedirect (tr_redirectUri tr) None (Some ''server_error'')
        (Some ''Upstream identity verification failed'') (tr_clientState tr))\<rparr>"

definition completeGoogleAuthorization ::
  "broker_options \<Rightarrow> broker_ttls \<Rightarrow> time_ms \<Rightarrow> string \<Rightarrow> string \<Rightarrow> broker_state \<Rightarrow>
   (string \<times> redirect) bres \<times> broker_state" where
  "completeGoogleAuthorization bo ttl now transactionState googleCode st =
     (case requireBoundedString (Some transactionState) ''state'' 256 invalid_request of
        Some e \<Rightarrow> (Inl e, st)
      | None \<Rightarrow>
          (case consumeLiveTransaction bo now transactionState st of
             (Inl e, st1) \<Rightarrow> (Inl e, st1)
           | (Inr tr, st1) \<Rightarrow>
               (if requireBoundedString (Some googleCode) ''code'' MAX_AUTHORIZATION_CODE_LENGTH invalid_request \<noteq> None
                then (Inl (upstreamFailure tr), st1)
                else case bo_exchangeGoogleCode bo
                       \<lparr>gx_code = googleCode, gx_codeVerifier = tr_googleCodeVerifier tr,
                        gx_redirectUri = bo_googleCallbackUri bo\<rparr> of
                    None \<Rightarrow> (Inl (upstreamFailure tr), st1)
                  | Some idToken \<Rightarrow>
                      (case verifyGoogleIdentityToken bo idToken (tr_googleNonce tr) now of
                         Inl _ \<Rightarrow> (Inl (upstreamFailure tr), st1)
                       | Inr identity \<Rightarrow>
                           (let (code, st2) = randomSecret bo st1;
                                co = \<lparr>co_codeHash = hashSecret bo code, co_clientId = tr_clientId tr,
                                      co_redirectUri = tr_redirectUri tr, co_resource = tr_resource tr,
                                      co_scopes = tr_scopes tr, co_codeChallenge = tr_codeChallenge tr,
                                      co_identity = identity,
                                      co_expiresAt = now + authorizationCodeTtl ttl * 1000\<rparr>
                            in (Inr (code, clientRedirect (tr_redirectUri tr) (Some code) None None
                                             (tr_clientState tr)),
                                st2\<lparr>bs_store := saveAuthorizationCode co (bs_store st2)\<rparr>))))))"

definition denyGoogleAuthorization ::
  "broker_options \<Rightarrow> time_ms \<Rightarrow> string \<Rightarrow> string \<Rightarrow> broker_state \<Rightarrow> redirect bres \<times> broker_state" where
  "denyGoogleAuthorization bo now transactionState err st =
     (case requireBoundedString (Some transactionState) ''state'' 256 invalid_request of
        Some e \<Rightarrow> (Inl e, st)
      | None \<Rightarrow>
          (case consumeLiveTransaction bo now transactionState st of
             (Inl e, st1) \<Rightarrow> (Inl e, st1)
           | (Inr tr, st1) \<Rightarrow>
               (Inr (clientRedirect (tr_redirectUri tr) None
                  (Some (if err = ''access_denied'' then ''access_denied'' else ''server_error''))
                  (Some (if err = ''access_denied'' then ''The resource owner denied the authorization request''
                         else ''Upstream authorization failed''))
                  (tr_clientState tr)), st1)))"

section \<open>Tokens\<close>

definition issueAccessToken ::
  "broker_options \<Rightarrow> broker_ttls \<Rightarrow> time_ms \<Rightarrow> GoogleIdentity \<Rightarrow> string \<Rightarrow> string list \<Rightarrow> broker_state \<Rightarrow>
   string \<times> broker_state" where
  "issueAccessToken bo ttl now identity resource scopes st =
     (let issuedAt = now div 1000;
          (jti, st1) = randomSecret bo st
      in (bo_sign bo \<lparr>ct_issuer = bo_issuer bo, ct_audience = resource,
            ct_subject = gi_subject identity, ct_email = gi_email identity,
            ct_scope = join_with '' '' scopes, ct_issuedAt = issuedAt,
            ct_expirationTime = issuedAt + accessTokenTtl ttl, ct_jti = jti, ct_keyId = bo_keyId bo\<rparr>, st1))"

definition codeBindingOk ::
  "broker_options \<Rightarrow> ExchangeAuthorizationCodeRequest \<Rightarrow> BrokerAuthorizationCodeRecord \<Rightarrow> bool" where
  "codeBindingOk bo rq r \<longleftrightarrow>
     xc_clientId rq = co_clientId r \<and> xc_redirectUri rq = co_redirectUri r \<and>
     validPkceVerifier bo (xc_codeVerifier rq) (co_codeChallenge r)"

text \<open>The client of a code is still the one the code was issued to.\<close>

definition codeClient :: "broker_options \<Rightarrow> BrokerAuthorizationCodeRecord \<Rightarrow> BrokerClient option" where
  "codeClient bo r =
     (case bo_clients bo (co_clientId r) of
        None \<Rightarrow> None
      | Some client \<Rightarrow>
          (if bc_clientId client \<noteq> co_clientId r \<or> co_redirectUri r \<notin> set (bc_redirectUris client) \<or>
              list_ex (\<lambda>s. s \<notin> set (bc_scopes client)) (co_scopes r)
           then None else Some client))"

definition issueForCode ::
  "broker_options \<Rightarrow> broker_ttls \<Rightarrow> time_ms \<Rightarrow> BrokerAuthorizationCodeRecord \<Rightarrow> BrokerClient \<Rightarrow>
   broker_state \<Rightarrow> BrokerTokenResponse \<times> broker_state" where
  "issueForCode bo ttl now r client st =
     (let (token, st1) = issueAccessToken bo ttl now (co_identity r) (co_resource r) (co_scopes r) st;
          response = \<lparr>bt_accessToken = token, bt_expiresIn = accessTokenTtl ttl,
                      bt_scope = join_with '' '' (co_scopes r), bt_refreshToken = None\<rparr>
      in if ''refresh_token'' \<in> set (bc_grantTypes client)
         then let (refreshToken, st2) = randomSecret bo st1;
                  (family, st3) = randomSecret bo st2;
                  expiresAt = (let e = now + refreshTokenTtl ttl * 1000 in
                               case bc_expiresAtMs client of None \<Rightarrow> e | Some m \<Rightarrow> min e m);
                  rt = \<lparr>rt_tokenHash = hashSecret bo refreshToken, rt_familyId = family,
                        rt_clientId = co_clientId r, rt_resource = co_resource r,
                        rt_scopes = co_scopes r, rt_identity = co_identity r,
                        rt_expiresAt = expiresAt\<rparr>
              in (response\<lparr>bt_refreshToken := Some refreshToken\<rparr>,
                  st3\<lparr>bs_store := saveRefreshToken rt (bs_store st3)\<rparr>)
         else (response, st1))"

definition checkCodeExchange :: "ExchangeAuthorizationCodeRequest \<Rightarrow> OAuthBrokerError option" where
  "checkCodeExchange rq =
     first_error
        [requireBoundedString (Some (xc_grantType rq)) ''grant_type'' 64 invalid_request,
         (if xc_grantType rq \<noteq> ''authorization_code''
          then Some (brokerError unsupported_grant_type ''Only supported grants may be used'') else None),
         requireBoundedString (Some (xc_code rq)) ''code'' 256 invalid_grant,
         requireBoundedString (Some (xc_clientId rq)) ''client_id'' MAX_CLIENT_ID_LENGTH invalid_request,
         requireBoundedString (Some (xc_redirectUri rq)) ''redirect_uri'' MAX_URI_LENGTH invalid_request,
         requireBoundedString (Some (xc_resource rq)) ''resource'' MAX_URI_LENGTH invalid_request,
         requireBoundedString (Some (xc_codeVerifier rq)) ''code_verifier'' 128 invalid_grant]"

definition exchangeAuthorizationCode ::
  "broker_options \<Rightarrow> broker_ttls \<Rightarrow> time_ms \<Rightarrow> ExchangeAuthorizationCodeRequest \<Rightarrow> broker_state \<Rightarrow>
   BrokerTokenResponse bres \<times> broker_state" where
  "exchangeAuthorizationCode bo ttl now rq st =
     (case checkCodeExchange rq of
        Some e \<Rightarrow> (Inl e, st)
      | None \<Rightarrow>
          (let (found, m) = consumeAuthorizationCode (hashSecret bo (xc_code rq)) (bs_store st);
               st1 = st\<lparr>bs_store := m\<rparr>
           in case found of
                None \<Rightarrow> (Inl (brokerError invalid_grant ''Authorization code is invalid or expired''), st1)
              | Some r \<Rightarrow>
                  (if co_expiresAt r \<le> now
                   then (Inl (brokerError invalid_grant ''Authorization code is invalid or expired''), st1)
                   else if xc_resource rq \<noteq> bo_resource bo \<or> xc_resource rq \<noteq> co_resource r
                   then (Inl (brokerError invalid_target ''resource does not identify this MCP server''), st1)
                   else if \<not> codeBindingOk bo rq r
                   then (Inl (brokerError invalid_grant ''Authorization code binding is invalid''), st1)
                   else case codeClient bo r of
                       None \<Rightarrow> (Inl (brokerError invalid_grant ''OAuth client is no longer active''), st1)
                     | Some client \<Rightarrow>
                         (let (response, st2) = issueForCode bo ttl now r client st1 in (Inr response, st2)))))"

definition checkRefreshExchange ::
  "broker_options \<Rightarrow> ExchangeRefreshTokenRequest \<Rightarrow> OAuthBrokerError option" where
  "checkRefreshExchange bo rq =
     first_error
        [requireBoundedString (Some (xr_grantType rq)) ''grant_type'' 64 invalid_request,
         requireBoundedString (Some (xr_refreshToken rq)) ''refresh_token'' MAX_REFRESH_TOKEN_LENGTH invalid_grant,
         requireBoundedString (Some (xr_clientId rq)) ''client_id'' MAX_CLIENT_ID_LENGTH invalid_request,
         requireBoundedString (Some (xr_resource rq)) ''resource'' MAX_URI_LENGTH invalid_request,
         (if xr_grantType rq \<noteq> ''refresh_token''
          then Some (brokerError unsupported_grant_type ''Only supported grants may be used'') else None),
         (if xr_resource rq \<noteq> bo_resource bo
          then Some (brokerError invalid_target ''resource does not identify this MCP server'') else None)]"

text \<open>The scopes asked for, if any.\<close>

definition refreshScopes ::
  "broker_options \<Rightarrow> BrokerClient \<Rightarrow> ExchangeRefreshTokenRequest \<Rightarrow> string list option bres" where
  "refreshScopes bo client rq =
     (case xr_scope rq of
        None \<Rightarrow> Inr None
      | Some scope \<Rightarrow> map_sum id Some (parseAndValidateScopes scope (allowedScopesOf bo client)))"

definition exchangeRefreshToken ::
  "broker_options \<Rightarrow> broker_ttls \<Rightarrow> time_ms \<Rightarrow> ExchangeRefreshTokenRequest \<Rightarrow> broker_state \<Rightarrow>
   BrokerTokenResponse bres \<times> broker_state" where
  "exchangeRefreshToken bo ttl now rq st =
     (case checkRefreshExchange bo rq of
        Some e \<Rightarrow> (Inl e, st)
      | None \<Rightarrow>
          (case bo_clients bo (xr_clientId rq) of
             None \<Rightarrow> (Inl (brokerError invalid_grant ''Refresh token is invalid or expired''), st)
           | Some client \<Rightarrow>
               (if bc_clientId client \<noteq> xr_clientId rq \<or> ''refresh_token'' \<notin> set (bc_grantTypes client)
                then (Inl (brokerError invalid_grant ''Refresh token is invalid or expired''), st)
                else case refreshScopes bo client rq of
                    Inl e \<Rightarrow> (Inl e, st)
                  | Inr scopes \<Rightarrow>
                      (let (replacement, st1) = randomSecret bo st;
                           (rotated, m) = rotateRefreshToken
                             \<lparr>rq_tokenHash = hashSecret bo (xr_refreshToken rq),
                              rq_replacementTokenHash = hashSecret bo replacement,
                              rq_clientId = xr_clientId rq, rq_resource = xr_resource rq,
                              rq_scopes = scopes, rq_now = now\<rparr> (bs_store st1);
                           st2 = st1\<lparr>bs_store := m\<rparr>
                       in case rotated of
                            RotInvalidScope \<Rightarrow>
                              (Inl (brokerError invalid_scope ''Requested OAuth scope is not permitted''), st2)
                          | RotInvalid \<Rightarrow>
                              (Inl (brokerError invalid_grant ''Refresh token is invalid or expired''), st2)
                          | RotReplayed \<Rightarrow>
                              (Inl (brokerError invalid_grant ''Refresh token is invalid or expired''), st2)
                          | Rotated r \<Rightarrow>
                              (let effective = coalesce scopes (rt_scopes r);
                                   (token, st3) = issueAccessToken bo ttl now (rt_identity r)
                                                    (rt_resource r) effective st2
                               in (Inr \<lparr>bt_accessToken = token, bt_expiresIn = accessTokenTtl ttl,
                                        bt_scope = join_with '' '' effective,
                                        bt_refreshToken = Some replacement\<rparr>, st3))))))"

section \<open>Published keys\<close>

definition PRIVATE_JWK_MEMBERS :: "string list" where
  "PRIVATE_JWK_MEMBERS = [''d'', ''p'', ''q'', ''dp'', ''dq'', ''qi'', ''oth'', ''k'']"

text \<open>Object spread over the public entries; the four members after it win.\<close>

definition publicSigningJwk :: "JWK \<Rightarrow> string option \<Rightarrow> JWK" where
  "publicSigningJwk jwk active =
     (let public = filter (\<lambda>(name, v). name \<notin> set PRIVATE_JWK_MEMBERS) jwk;
          kid = (case active of Some k \<Rightarrow> Some (JwkString k) | None \<Rightarrow> js_get jwk ''kid'') in
      js_set ''key_ops'' (JwkList [''verify''])
        (js_set ''use'' (JwkString ''sig'')
          (js_set ''alg'' (JwkString ''RS256'')
            (case kid of Some k \<Rightarrow> js_set ''kid'' k public | None \<Rightarrow> js_del ''kid'' public))))"

fun unseenKeys :: "jwk_value option list \<Rightarrow> JWK list \<Rightarrow> JWK list" where
  "unseenKeys seen [] = []"
| "unseenKeys seen (j # js) =
     (if js_get j ''kid'' \<in> set seen then unseenKeys seen js
      else j # unseenKeys (js_get j ''kid'' # seen) js)"

definition jwks :: "broker_options \<Rightarrow> JWK list" where
  "jwks bo =
     (let active = publicSigningJwk (bo_publicJwk bo) (Some (bo_keyId bo)) in
      active # unseenKeys [js_get active ''kid'']
        (map (\<lambda>j. publicSigningJwk j None) (coalesce (bo_verificationJwks bo) [])))"

end
