(* ===== verification/Broker_Props.thy ===== *)
theory Broker_Props
  imports Broker
begin

text \<open>
  What the authorization broker guarantees: which requests are answered with a token and to whom,
  that codes and transactions are used once, which identity assertions are accepted, what the key
  set publishes, and that a well-formed flow ends with a token.
\<close>

section \<open>Which exchanges succeed\<close>

lemma requireBoundedString_None [simp]:
  "requireBoundedString (Some s) name n c = None \<longleftrightarrow> s \<noteq> [] \<and> length s \<le> n"
  by (auto simp: requireBoundedString_def Let_def)

lemma requireBoundedString_ok [simp]:
  "s \<noteq> [] \<Longrightarrow> length s \<le> n \<Longrightarrow> requireBoundedString (Some s) name n c = None"
  by simp

lemma parseAndValidateScopes_Inr:
  "parseAndValidateScopes scope allowed = Inr scopes \<longleftrightarrow>
     words_from [] scope \<noteq> [] \<and> set (words_from [] scope) \<subseteq> set allowed \<and>
     scopes = js_unique (words_from [] scope)"
  by (auto simp: parseAndValidateScopes_def Let_def list_ex_iff)

definition claims_for ::
  "broker_options \<Rightarrow> broker_ttls \<Rightarrow> time_ms \<Rightarrow> GoogleIdentity \<Rightarrow> string list \<Rightarrow> string \<Rightarrow> access_token_claims" where
  "claims_for bo ttl now identity scopes jti =
     \<lparr>ct_issuer = bo_issuer bo, ct_audience = bo_resource bo, ct_subject = gi_subject identity,
      ct_email = gi_email identity, ct_scope = join_with '' '' scopes, ct_issuedAt = now div 1000,
      ct_expirationTime = now div 1000 + accessTokenTtl ttl, ct_jti = jti, ct_keyId = bo_keyId bo\<rparr>"

text \<open>C10: an authorization code is exchanged only for the request it was issued to. If the exchange
  answers with a token, the store held a live code under the presented secret, the request comes
  from the same client, redirect target and resource, its verifier hashes to the PKCE challenge
  of the authorization request, the client still has the code's redirect target and scopes, and the token
  is signed for the identity and scopes of the code, for this resource.\<close>

theorem code_exchange_sound:
  assumes "exchangeAuthorizationCode bo ttl now rq st = (Inr resp, st')"
  shows "\<exists>r client jti. js_get (authorizationCodes (bs_store st)) (bo_sha256 bo (xc_code rq)) = Some r \<and>
     now < co_expiresAt r \<and> xc_clientId rq = co_clientId r \<and> xc_redirectUri rq = co_redirectUri r \<and>
     xc_resource rq = co_resource r \<and> xc_resource rq = bo_resource bo \<and>
     bo_sha256 bo (xc_codeVerifier rq) = co_codeChallenge r \<and>
     bo_clients bo (xc_clientId rq) = Some client \<and> set (co_scopes r) \<subseteq> set (bc_scopes client) \<and>
     co_redirectUri r \<in> set (bc_redirectUris client) \<and>
     bt_accessToken resp = bo_sign bo (claims_for bo ttl now (co_identity r) (co_scopes r) jti) \<and>
     bt_scope resp = join_with '' '' (co_scopes r)"
  using assms
  by (auto simp: exchangeAuthorizationCode_def consumeAuthorizationCode_def codeBindingOk_def
      validPkceVerifier_def hashSecret_def codeClient_def issueForCode_def issueAccessToken_def
      randomSecret_def claims_for_def Let_def list_ex_iff simp del: first_error.simps
      split: option.splits if_splits)

text \<open>The rotation a refresh exchange asks the store for.\<close>

definition rotation_of ::
  "broker_options \<Rightarrow> time_ms \<Rightarrow> ExchangeRefreshTokenRequest \<Rightarrow> string list option \<Rightarrow> broker_state \<Rightarrow>
   RotateBrokerRefreshTokenRequest" where
  "rotation_of bo now rq scopes st =
     \<lparr>rq_tokenHash = bo_sha256 bo (xr_refreshToken rq),
      rq_replacementTokenHash = bo_sha256 bo (bo_random bo (bs_drawn st)),
      rq_clientId = xr_clientId rq, rq_resource = xr_resource rq, rq_scopes = scopes, rq_now = now\<rparr>"

lemma rotation_of_sel [simp]:
  "rq_tokenHash (rotation_of bo now rq scopes st) = bo_sha256 bo (xr_refreshToken rq)"
  "rq_replacementTokenHash (rotation_of bo now rq scopes st) = bo_sha256 bo (bo_random bo (bs_drawn st))"
  "rq_clientId (rotation_of bo now rq scopes st) = xr_clientId rq"
  "rq_resource (rotation_of bo now rq scopes st) = xr_resource rq"
  "rq_scopes (rotation_of bo now rq scopes st) = scopes" "rq_now (rotation_of bo now rq scopes st) = now"
  by (simp_all add: rotation_of_def)

lemma exchangeRefreshToken_Inr:
  assumes "exchangeRefreshToken bo ttl now rq st = (Inr resp, st')"
  obtains scopes r jti where
    "rotateRefreshToken (rotation_of bo now rq scopes st) (bs_store st) = (Rotated r, bs_store st')"
    "xr_resource rq = bo_resource bo" "bt_scope resp = join_with '' '' (coalesce scopes (rt_scopes r))"
    "bt_accessToken resp = bo_sign bo ((claims_for bo ttl now (rt_identity r)
       (coalesce scopes (rt_scopes r)) jti)\<lparr>ct_audience := rt_resource r\<rparr>)"
proof -
  have "xr_resource rq = bo_resource bo"
    using assms by (auto simp: exchangeRefreshToken_def checkRefreshExchange_def split: option.splits if_splits)
  moreover obtain client scopes where "bo_clients bo (xr_clientId rq) = Some client"
    "refreshScopes bo client rq = Inr scopes"
    using assms by (auto simp: exchangeRefreshToken_def split: option.splits if_splits sum.splits)
  ultimately show thesis using assms that [of scopes]
    by (auto simp: rotation_of_def exchangeRefreshToken_def hashSecret_def randomSecret_def
        issueAccessToken_def claims_for_def Let_def
        split: option.splits if_splits prod.splits RotateBrokerRefreshTokenResult.splits)
qed

text \<open>C11: a refresh token is exchanged only while it is stored, unused, unrevoked and unexpired, and
  only for the client and resource it was issued to. The new access token is for the identity of the
  sign-in, with scopes the presented token has, and the presented token is then marked used.\<close>

theorem refresh_exchange_sound:
  assumes "exchangeRefreshToken bo ttl now rq st = (Inr resp, st')"
    "fresh_hash (bo_sha256 bo (bo_random bo (bs_drawn st))) (bs_store st)"
  shows "\<exists>e e' scopes jti. token_at (bs_store st) (bo_sha256 bo (xr_refreshToken rq)) = Some e \<and>
     rs_consumedAt e = None \<and> rs_revokedAt e = None \<and> now < rt_expiresAt (rs_token e) \<and>
     rt_clientId (rs_token e) = xr_clientId rq \<and> rt_resource (rs_token e) = bo_resource bo \<and>
     scopes \<noteq> [] \<and> set scopes \<subseteq> set (rt_scopes (rs_token e)) \<and>
     bt_accessToken resp = bo_sign bo (claims_for bo ttl now (rt_identity (rs_token e)) scopes jti) \<and>
     bt_scope resp = join_with '' '' scopes \<and>
     token_at (bs_store st') (bo_sha256 bo (xr_refreshToken rq)) = Some e' \<and> rs_consumedAt e' = Some now"
proof -
  from assms(1) obtain scopes r jti where
    rot: "rotateRefreshToken (rotation_of bo now rq scopes st) (bs_store st) = (Rotated r, bs_store st')"
    and res: "xr_resource rq = bo_resource bo" "bt_scope resp = join_with '' '' (coalesce scopes (rt_scopes r))"
      "bt_accessToken resp = bo_sign bo ((claims_for bo ttl now (rt_identity r)
         (coalesce scopes (rt_scopes r)) jti)\<lparr>ct_audience := rt_resource r\<rparr>)"
    by (rule exchangeRefreshToken_Inr)
  show ?thesis
  proof (cases rule: rotate_cases [of "rotation_of bo now rq scopes st" "bs_store st"])
    case unchanged
    with rot unchanged(2) [of r] show ?thesis by simp
  next
    case (rotated e sc)
    have r: "r = rs_token e" using rotated(11) rot by simp
    have "bo_sha256 bo (xr_refreshToken rq) \<noteq> bo_sha256 bo (bo_random bo (bs_drawn st))"
      using rotated(1) assms(2) by (auto simp: fresh_hash_def)
    then have "token_at (bs_store st') (bo_sha256 bo (xr_refreshToken rq)) = Some (e\<lparr>rs_consumedAt := Some now\<rparr>)"
      using rotated(12) [of "bo_sha256 bo (xr_refreshToken rq)"] rot by simp
    with rotated res r show ?thesis by (auto simp: claims_for_def)
  qed (use rot in auto)
qed

section \<open>Which identity assertions are accepted\<close>

text \<open>An identity assertion (already verified for signature, issuer and audience) is accepted
  exactly if it expires, was issued between 65 minutes ago and five minutes from now, carries the
  nonce of the transaction, a subject, a verified email address, and names this client as its authorized
  party whenever it names one or has several audiences.\<close>

lemma identity_assertion_accepted_iff:
  "googleIdentityFromPayload clientId nonce now p = Inr i \<longleftrightarrow>
     jp_exp p \<noteq> None \<and>
     (\<exists>iat. jp_iat p = Some iat \<and> of_int now / 1000 - 3900 \<le> iat \<and> iat \<le> of_int now / 1000 + 300) \<and>
     jp_nonce p = Some nonce \<and> jp_emailVerified p = Some True \<and>
     jp_sub p = Some (gi_subject i) \<and> gi_subject i \<noteq> [] \<and>
     jp_email p = Some (gi_email i) \<and> gi_email i \<noteq> [] \<and> gi_issuer i = jp_iss p \<and>
     jp_azp p \<in> {None, Some clientId} \<and>
     (jp_audIsArray p \<and> 1 < length (jp_aud p) \<longrightarrow> jp_azp p = Some clientId)"
proof -
  have window: "(\<not> of_int now / 1000 + 300 < iat \<and> \<not> iat < of_int now / 1000 - 3600 - 300) \<longleftrightarrow>
      of_int now / 1000 - 3900 \<le> iat \<and> iat \<le> of_int now / 1000 + (300 :: rat)" for iat
    by auto
  show ?thesis
    unfolding googleIdentityFromPayload_def Let_def GOOGLE_ID_TOKEN_CLOCK_SKEW_SECONDS_def
      GOOGLE_ID_TOKEN_MAX_AGE_SECONDS_def
    using window
    by (cases i) (auto split: option.splits elim!: truthyE)
qed

section \<open>Codes and transactions are used once\<close>

text \<open>
  Calls of the broker by any number of clients. A newly drawn code is assumed not to hash to the
  digest \<open>h\<close> in question (it is a fresh 256-bit secret).
\<close>

inductive broker_calls :: "broker_options \<Rightarrow> broker_ttls \<Rightarrow> string \<Rightarrow> broker_state \<Rightarrow> broker_state \<Rightarrow> bool"
  for bo ttl h where
  none: "broker_calls bo ttl h st st"
| begins: "broker_calls bo ttl h st0 st \<Longrightarrow> bo_sha256 bo (bo_random bo (bs_drawn st)) \<noteq> h \<Longrightarrow>
     broker_calls bo ttl h st0 (snd (beginAuthorization bo ttl now ba st))"
| completes: "broker_calls bo ttl h st0 st \<Longrightarrow> bo_sha256 bo (bo_random bo (bs_drawn st)) \<noteq> h \<Longrightarrow>
     broker_calls bo ttl h st0 (snd (completeGoogleAuthorization bo ttl now ts gc st))"
| denies: "broker_calls bo ttl h st0 st \<Longrightarrow>
     broker_calls bo ttl h st0 (snd (denyGoogleAuthorization bo now ts err st))"
| exchanges: "broker_calls bo ttl h st0 st \<Longrightarrow>
     broker_calls bo ttl h st0 (snd (exchangeAuthorizationCode bo ttl now xc st))"
| refreshes: "broker_calls bo ttl h st0 st \<Longrightarrow>
     broker_calls bo ttl h st0 (snd (exchangeRefreshToken bo ttl now xr st))"

text \<open>What the operations do to the two one-time maps.\<close>

abbreviation code_at :: "broker_state \<Rightarrow> string \<Rightarrow> BrokerAuthorizationCodeRecord option" where
  "code_at st h \<equiv> js_get (authorizationCodes (bs_store st)) h"

abbreviation transaction_at :: "broker_state \<Rightarrow> string \<Rightarrow> AuthorizationTransactionRecord option" where
  "transaction_at st h \<equiv> js_get (transactions (bs_store st)) h"

definition forgets :: "string \<Rightarrow> broker_state \<Rightarrow> broker_state \<Rightarrow> bool" where
  "forgets h st st' \<longleftrightarrow> (code_at st h = None \<longrightarrow> code_at st' h = None) \<and>
     (transaction_at st h = None \<longrightarrow> transaction_at st' h = None)"

lemma rotate_keeps_one_time [simp]:
  "authorizationCodes (snd (rotateRefreshToken rq m)) = authorizationCodes m"
  "transactions (snd (rotateRefreshToken rq m)) = transactions m"
  by (auto simp: rotateRefreshToken_def revokeFamily_def Let_def split: option.splits if_splits)

lemma beginAuthorization_forgets:
  "bo_sha256 bo (bo_random bo (bs_drawn st)) \<noteq> h \<Longrightarrow> forgets h st (snd (beginAuthorization bo ttl now ba st))"
  by (auto simp: forgets_def beginAuthorization_def randomSecret_def saveTransaction_def hashSecret_def
      js_map_simps Let_def simp del: first_error.simps split: option.splits sum.splits)

lemma consumeLive_store:
  "consumeLiveTransaction bo now ts st = (r, st') \<Longrightarrow> bs_drawn st' = bs_drawn st \<and>
     authorizationCodes (bs_store st') = authorizationCodes (bs_store st) \<and>
     (ts \<noteq> [] \<longrightarrow> (\<forall>h. transaction_at st' h = (if h = bo_sha256 bo ts then None else transaction_at st h))) \<and>
     (ts = [] \<longrightarrow> st' = st)"
  by (auto simp: consumeLiveTransaction_def consumeTransaction_def hashSecret_def js_map_simps Let_def
      split: option.splits if_splits)

lemma consumeLive_forgets: "consumeLiveTransaction bo now ts st = (r, st') \<Longrightarrow> forgets h st st'"
  by (cases "ts = []") (auto simp: forgets_def dest!: consumeLive_store)

lemma completeGoogleAuthorization_cases:
  assumes "completeGoogleAuthorization bo ttl now ts gc st = (r, st')"
  obtains "st' = st" "ts = [] \<or> 256 < length ts" "\<exists>e. r = Inl e"
  | r1 st1 where "ts \<noteq> []" "consumeLiveTransaction bo now ts st = (r1, st1)"
      "\<And>h. h \<noteq> bo_sha256 bo (bo_random bo (bs_drawn st1)) \<Longrightarrow> code_at st' h = code_at st1 h"
      "transactions (bs_store st') = transactions (bs_store st1)" "isl r1 \<Longrightarrow> r = Inl (projl r1)"
proof (cases "ts = [] \<or> 256 < length ts")
  case True
  show ?thesis
    by (rule that(1)) (use assms True in \<open>auto simp: completeGoogleAuthorization_def requireBoundedString_def
        Let_def split: if_splits\<close>)
next
  case False
  obtain r1 st1 where c: "consumeLiveTransaction bo now ts st = (r1, st1)" by fastforce
  show ?thesis
    by (rule that(2) [OF _ c]) (use assms False c in \<open>auto simp: completeGoogleAuthorization_def
        requireBoundedString_def Let_def randomSecret_def hashSecret_def saveAuthorizationCode_def js_map_simps
        split: if_splits option.splits sum.splits prod.splits\<close>)
qed

lemma completeGoogleAuthorization_forgets:
  assumes "bo_sha256 bo (bo_random bo (bs_drawn st)) \<noteq> h"
  shows "forgets h st (snd (completeGoogleAuthorization bo ttl now ts gc st))"
proof -
  obtain r st' where run: "completeGoogleAuthorization bo ttl now ts gc st = (r, st')" by fastforce
  then show ?thesis
  proof (cases rule: completeGoogleAuthorization_cases)
    case 1
    with run show ?thesis by (simp add: forgets_def)
  next
    case (2 r1 st1)
    from consumeLive_forgets [OF 2(2), of h] consumeLive_store [OF 2(2)] 2(3) [of h] 2(4) run assms show ?thesis
      by (auto simp: forgets_def)
  qed
qed

lemma exchangeAuthorizationCode_forgets: "forgets h st (snd (exchangeAuthorizationCode bo ttl now xc st))"
  by (auto simp: forgets_def exchangeAuthorizationCode_def consumeAuthorizationCode_def issueForCode_def
      issueAccessToken_def randomSecret_def saveRefreshToken_def js_map_simps Let_def
      split: option.splits if_splits)

lemma exchangeRefreshToken_forgets: "forgets h st (snd (exchangeRefreshToken bo ttl now xr st))"
  by (auto simp: forgets_def exchangeRefreshToken_def issueAccessToken_def randomSecret_def Let_def split_def
     
      split: option.splits if_splits sum.splits RotateBrokerRefreshTokenResult.splits)

lemma denyGoogleAuthorization_forgets: "forgets h st (snd (denyGoogleAuthorization bo now ts err st))"
  by (auto simp: denyGoogleAuthorization_def forgets_def dest: consumeLive_forgets [of _ _ _ _ _ _ h, unfolded forgets_def]
      split: option.splits sum.splits prod.splits)

lemma forgets_trans: "forgets h a b \<Longrightarrow> forgets h b c \<Longrightarrow> forgets h a c"
  by (simp add: forgets_def)

lemma broker_calls_forgets: "broker_calls bo ttl h st st' \<Longrightarrow> forgets h st st'"
proof (induction rule: broker_calls.induct)
  case none
  then show ?case by (simp add: forgets_def)
qed (rule forgets_trans, assumption, simp add: beginAuthorization_forgets completeGoogleAuthorization_forgets
    denyGoogleAuthorization_forgets exchangeAuthorizationCode_forgets exchangeRefreshToken_forgets)+

lemma exchange_without_code:
  assumes "code_at st (bo_sha256 bo (xc_code rq)) = None"
  shows "\<exists>e. fst (exchangeAuthorizationCode bo ttl now rq st) = Inl e"
  using assms by (auto simp: exchangeAuthorizationCode_def consumeAuthorizationCode_def hashSecret_def Let_def
      simp del: first_error.simps split: option.splits)

text \<open>C12: an authorization code buys at most one token response. After a successful exchange every
  further exchange of the same code fails, whatever calls the broker has served in between.\<close>

theorem code_single_use:
  assumes "exchangeAuthorizationCode bo ttl now rq st = (Inr resp, st1)"
    "broker_calls bo ttl (bo_sha256 bo (xc_code rq)) st1 st2" "xc_code rq2 = xc_code rq"
  shows "\<exists>e. fst (exchangeAuthorizationCode bo ttl now2 rq2 st2) = Inl e"
proof -
  have "code_at st1 (bo_sha256 bo (xc_code rq)) = None"
    using assms(1)
    by (auto simp: exchangeAuthorizationCode_def consumeAuthorizationCode_def issueForCode_def hashSecret_def
        issueAccessToken_def randomSecret_def saveRefreshToken_def js_map_simps Let_def simp del: first_error.simps
        split: option.splits if_splits)
  with broker_calls_forgets [OF assms(2)] assms(3) show ?thesis
    by (intro exchange_without_code) (simp add: forgets_def)
qed

text \<open>A callback from Google is accepted at most once per authorization request: once the
  transaction of a state value has been consumed, successfully or not, completing it again fails.\<close>

theorem callback_single_use:
  assumes "completeGoogleAuthorization bo ttl now ts gc st = (r, st1)" "ts \<noteq> []" "length ts \<le> 256"
    "bo_sha256 bo (bo_random bo (bs_drawn st)) \<noteq> bo_sha256 bo ts"
    "broker_calls bo ttl (bo_sha256 bo ts) st1 st2"
  shows "\<exists>e. fst (completeGoogleAuthorization bo ttl now2 ts gc2 st2) = Inl e"
proof -
  from assms(1) have "transaction_at st1 (bo_sha256 bo ts) = None"
  proof (cases rule: completeGoogleAuthorization_cases)
    case 1
    with assms(2,3) show ?thesis by simp
  next
    case (2 r1 st')
    from consumeLive_store [OF 2(2)] 2(1,4) show ?thesis by simp
  qed
  with broker_calls_forgets [OF assms(5)] have gone: "transaction_at st2 (bo_sha256 bo ts) = None"
    by (simp add: forgets_def)
  show ?thesis
  proof (cases rule: completeGoogleAuthorization_cases [OF prod.collapse [symmetric],
        of bo ttl now2 ts gc2 st2])
    case (2 r1 st')
    with gone have "isl r1"
      by (auto simp: consumeLiveTransaction_def consumeTransaction_def hashSecret_def Let_def split: option.splits)
    with 2(5) show ?thesis by auto
  qed auto
qed

section \<open>Published keys and lifetimes\<close>

lemma unseenKeys_kids:
  "set (map (\<lambda>j. js_get j ''kid'') (unseenKeys seen js)) \<inter> set seen = {} \<and>
   distinct (map (\<lambda>j. js_get j ''kid'') (unseenKeys seen js)) \<and> set (unseenKeys seen js) \<subseteq> set js"
  by (induction seen js rule: unseenKeys.induct) auto

lemma publicSigningJwk_members:
  assumes "name \<in> set PRIVATE_JWK_MEMBERS"
  shows "js_get (publicSigningJwk jwk active) name = None"
proof -
  have "js_get (filter (\<lambda>(n, v). n \<notin> set PRIVATE_JWK_MEMBERS) jwk) name = None"
    using assms by (auto simp: map_of_eq_None_iff)
  with assms show ?thesis
    by (auto simp: publicSigningJwk_def PRIVATE_JWK_MEMBERS_def js_map_simps Let_def split: option.splits)
qed

text \<open>The published key set has no private member of any key, no two keys with the same key id, and
  starts with the active signing key.\<close>

theorem jwks_public_and_unambiguous:
  "(\<forall>j \<in> set (jwks bo). \<forall>name \<in> set PRIVATE_JWK_MEMBERS. js_get j name = None) \<and>
   distinct (map (\<lambda>j. js_get j ''kid'') (jwks bo)) \<and>
   js_get (hd (jwks bo)) ''kid'' = Some (JwkString (bo_keyId bo))"
proof -
  let ?prev = "map (\<lambda>j. publicSigningJwk j None) (coalesce (bo_verificationJwks bo) [])"
  let ?active = "publicSigningJwk (bo_publicJwk bo) (Some (bo_keyId bo))"
  have "set (jwks bo) \<subseteq> insert ?active (set ?prev)"
    using unseenKeys_kids [of "[js_get ?active ''kid'']" ?prev] by (auto simp: jwks_def Let_def)
  moreover have "\<forall>j \<in> insert ?active (set ?prev). \<forall>name \<in> set PRIVATE_JWK_MEMBERS. js_get j name = None"
    using publicSigningJwk_members by auto
  moreover have "distinct (map (\<lambda>j. js_get j ''kid'') (jwks bo))"
    using unseenKeys_kids [of "[js_get ?active ''kid'']" ?prev] by (auto simp: jwks_def Let_def)
  moreover have "js_get (hd (jwks bo)) ''kid'' = Some (JwkString (bo_keyId bo))"
    by (simp add: jwks_def publicSigningJwk_def js_map_simps Let_def)
  ultimately show ?thesis by blast
qed

text \<open>A broker that starts has its lifetimes within the bounds the code sets, whatever it was
  configured with: transactions at most 15 minutes, codes at most 5, access tokens at most 10,
  refresh tokens at most 90 days, and none of them zero.\<close>

theorem ttls_within_bounds:
  assumes "configuredTtls bo = Some ttl"
  shows "30 \<le> transactionTtl ttl \<and> transactionTtl ttl \<le> 900 \<and>
     30 \<le> authorizationCodeTtl ttl \<and> authorizationCodeTtl ttl \<le> 300 \<and>
     60 \<le> accessTokenTtl ttl \<and> accessTokenTtl ttl \<le> 600 \<and>
     3600 \<le> refreshTokenTtl ttl \<and> refreshTokenTtl ttl \<le> 90 * 24 * 60 * 60"
  using assms by (auto simp: configuredTtls_def boundedTtl_def split: bind_splits if_splits)

section \<open>A complete flow\<close>

lemma checkCodeExchange_None:
  "checkCodeExchange rq = None \<longleftrightarrow> xc_grantType rq = ''authorization_code'' \<and>
     xc_code rq \<noteq> [] \<and> length (xc_code rq) \<le> 256 \<and>
     xc_clientId rq \<noteq> [] \<and> length (xc_clientId rq) \<le> MAX_CLIENT_ID_LENGTH \<and>
     xc_redirectUri rq \<noteq> [] \<and> length (xc_redirectUri rq) \<le> MAX_URI_LENGTH \<and>
     xc_resource rq \<noteq> [] \<and> length (xc_resource rq) \<le> MAX_URI_LENGTH \<and>
     xc_codeVerifier rq \<noteq> [] \<and> length (xc_codeVerifier rq) \<le> 128"
  by (auto simp: checkCodeExchange_def)

text \<open>What it takes for a flow to go through: a registered client asking with a valid challenge for
  scopes it may have, secrets of the right size, and Google vouching for the user in time.\<close>

definition flow_ok ::
  "broker_options \<Rightarrow> time_ms \<Rightarrow> BeginAuthorizationRequest \<Rightarrow> BrokerClient \<Rightarrow> string \<Rightarrow> string \<Rightarrow>
   GoogleIdentity \<Rightarrow> broker_state \<Rightarrow> bool" where
  "flow_ok bo t2 ba client verifier gc identity st \<longleftrightarrow>
     ba_clientId ba \<noteq> [] \<and> length (ba_clientId ba) \<le> MAX_CLIENT_ID_LENGTH \<and>
     ba_redirectUri ba \<noteq> [] \<and> length (ba_redirectUri ba) \<le> MAX_URI_LENGTH \<and>
     bo_clients bo (ba_clientId ba) = Some client \<and> bc_clientId client = ba_clientId ba \<and>
     ba_redirectUri ba \<in> set (bc_redirectUris client) \<and>
     \<not> isl (checkAuthorizationRequest bo client ba) \<and>
     PKCE_VERIFIER_PATTERN verifier \<and> ba_codeChallenge ba = bo_sha256 bo verifier \<and>
     list_all (\<lambda>n. bo_random bo n \<noteq> [] \<and> length (bo_random bo n) \<le> 256)
       [bs_drawn st, bs_drawn st + 3] \<and>
     gc \<noteq> [] \<and> length gc \<le> MAX_AUTHORIZATION_CODE_LENGTH \<and>
     (case bo_exchangeGoogleCode bo \<lparr>gx_code = gc, gx_codeVerifier = bo_random bo (bs_drawn st + 2),
             gx_redirectUri = bo_googleCallbackUri bo\<rparr> of
        None \<Rightarrow> False
      | Some idToken \<Rightarrow> verifyGoogleIdentityToken bo idToken (bo_random bo (bs_drawn st + 1)) t2 = Inr identity)"

definition flow_exchange ::
  "BeginAuthorizationRequest \<Rightarrow> string \<Rightarrow> string \<Rightarrow> ExchangeAuthorizationCodeRequest" where
  "flow_exchange ba code verifier =
     \<lparr>xc_grantType = ''authorization_code'', xc_code = code, xc_clientId = ba_clientId ba,
      xc_redirectUri = ba_redirectUri ba, xc_resource = ba_resource ba, xc_codeVerifier = verifier\<rparr>"

lemma flow_exchange_sel [simp]:
  "xc_grantType (flow_exchange ba code v) = ''authorization_code''" "xc_code (flow_exchange ba code v) = code"
  "xc_clientId (flow_exchange ba code v) = ba_clientId ba"
  "xc_redirectUri (flow_exchange ba code v) = ba_redirectUri ba"
  "xc_resource (flow_exchange ba code v) = ba_resource ba" "xc_codeVerifier (flow_exchange ba code v) = v"
  by (simp_all add: flow_exchange_def)

lemma checkAuthorizationRequest_Inr:
  assumes "checkAuthorizationRequest bo client ba = Inr scopes"
  shows "ba_resource ba = bo_resource bo" "ba_resource ba \<noteq> []" "length (ba_resource ba) \<le> MAX_URI_LENGTH"
    "scopes = js_unique (words_from [] (ba_scope ba))" "set scopes \<subseteq> set (bc_scopes client)" "scopes \<noteq> []"
  using assms
  by (auto simp: checkAuthorizationRequest_def parseAndValidateScopes_Inr allowedScopesOf_def
      split: option.splits if_splits)

definition flow_transaction ::
  "broker_options \<Rightarrow> broker_ttls \<Rightarrow> time_ms \<Rightarrow> BeginAuthorizationRequest \<Rightarrow> string list \<Rightarrow> broker_state \<Rightarrow>
   AuthorizationTransactionRecord" where
  "flow_transaction bo ttl t1 ba scopes st =
     \<lparr>tr_stateHash = bo_sha256 bo (bo_random bo (bs_drawn st)), tr_clientId = ba_clientId ba,
      tr_redirectUri = ba_redirectUri ba, tr_resource = ba_resource ba, tr_scopes = scopes,
      tr_clientState = ba_state ba, tr_codeChallenge = ba_codeChallenge ba,
      tr_googleNonce = bo_random bo (bs_drawn st + 1), tr_googleCodeVerifier = bo_random bo (bs_drawn st + 2),
      tr_expiresAt = t1 + transactionTtl ttl * 1000\<rparr>"

definition flow_code ::
  "broker_options \<Rightarrow> broker_ttls \<Rightarrow> time_ms \<Rightarrow> BeginAuthorizationRequest \<Rightarrow> string list \<Rightarrow> GoogleIdentity \<Rightarrow>
   string \<Rightarrow> BrokerAuthorizationCodeRecord" where
  "flow_code bo ttl t2 ba scopes identity code =
     \<lparr>co_codeHash = bo_sha256 bo code, co_clientId = ba_clientId ba, co_redirectUri = ba_redirectUri ba,
      co_resource = ba_resource ba, co_scopes = scopes, co_codeChallenge = ba_codeChallenge ba,
      co_identity = identity, co_expiresAt = t2 + authorizationCodeTtl ttl * 1000\<rparr>"

lemma flow_begins:
  assumes "flow_ok bo t2 ba client verifier gc identity st" "checkAuthorizationRequest bo client ba = Inr scopes"
    "beginAuthorization bo ttl t1 ba st = (r1, st1)"
  shows "\<exists>url. r1 = Inr (url, client) \<and> (''state'', bo_random bo (bs_drawn st)) \<in> set (gu_parameters url)"
    "bs_drawn st1 = bs_drawn st + 3"
    "transaction_at st1 (bo_sha256 bo (bo_random bo (bs_drawn st))) = Some (flow_transaction bo ttl t1 ba scopes st)"
  using assms(3) assms(1) [unfolded flow_ok_def] assms(2)
  by (auto simp: beginAuthorization_def randomSecret_def hashSecret_def saveTransaction_def flow_transaction_def
      js_map_simps Let_def eval_nat_numeral)

lemma flow_completes:
  assumes ok: "flow_ok bo t2 ba client verifier gc identity st" "t2 < t1 + transactionTtl ttl * 1000"
    and tr: "transaction_at st1 (bo_sha256 bo (bo_random bo (bs_drawn st))) =
        Some (flow_transaction bo ttl t1 ba scopes st)" "bs_drawn st1 = bs_drawn st + 3"
    and run: "completeGoogleAuthorization bo ttl t2 (bo_random bo (bs_drawn st)) gc st1 = (r2, st2)"
  shows "\<exists>rd. r2 = Inr (bo_random bo (bs_drawn st + 3), rd) \<and> rd_uri rd = ba_redirectUri ba"
    "code_at st2 (bo_sha256 bo (bo_random bo (bs_drawn st + 3))) =
       Some (flow_code bo ttl t2 ba scopes identity (bo_random bo (bs_drawn st + 3)))"
proof -
  note ok' = ok(1) [unfolded flow_ok_def]
  obtain idToken where id: "bo_exchangeGoogleCode bo \<lparr>gx_code = gc, gx_codeVerifier = bo_random bo (bs_drawn st + 2),
             gx_redirectUri = bo_googleCallbackUri bo\<rparr> = Some idToken"
    "verifyGoogleIdentityToken bo idToken (bo_random bo (bs_drawn st + 1)) t2 = Inr identity"
    using ok' by (auto split: option.splits)
  show "\<exists>rd. r2 = Inr (bo_random bo (bs_drawn st + 3), rd) \<and> rd_uri rd = ba_redirectUri ba"
    "code_at st2 (bo_sha256 bo (bo_random bo (bs_drawn st + 3))) =
       Some (flow_code bo ttl t2 ba scopes identity (bo_random bo (bs_drawn st + 3)))"
    using ok(2) run ok' tr id
    by (auto simp: completeGoogleAuthorization_def consumeLiveTransaction_def consumeTransaction_def
        hashSecret_def randomSecret_def saveAuthorizationCode_def clientRedirect_def flow_transaction_def
        flow_code_def js_map_simps Let_def)
qed

lemma flow_exchanges:
  assumes ok: "flow_ok bo t2 ba client verifier gc identity st" "checkAuthorizationRequest bo client ba = Inr scopes"
    and live: "code_at st2 (bo_sha256 bo code) = Some (flow_code bo ttl t2 ba scopes identity code)"
      "t3 < t2 + authorizationCodeTtl ttl * 1000" "code = bo_random bo (bs_drawn st + 3)"
    and run: "exchangeAuthorizationCode bo ttl t3 (flow_exchange ba code verifier) st2 = (r3, st3)"
  shows "\<exists>resp jti. r3 = Inr resp \<and> bt_accessToken resp = bo_sign bo (claims_for bo ttl t3 identity scopes jti)"
proof -
  note ok' = ok(1) [unfolded flow_ok_def] and ck = checkAuthorizationRequest_Inr [OF ok(2)]
  have pv: "verifier \<noteq> []" "length verifier \<le> 128" using ok' by (auto simp: PKCE_VERIFIER_PATTERN_def)
  have "checkCodeExchange (flow_exchange ba code verifier) = None"
    using ok' ck pv live(3) by (simp add: checkCodeExchange_None)
  then show ?thesis
    using run live ok' ck pv
    by (auto simp: exchangeAuthorizationCode_def consumeAuthorizationCode_def flow_code_def
        hashSecret_def codeBindingOk_def validPkceVerifier_def codeClient_def list_ex_iff issueForCode_def
        issueAccessToken_def randomSecret_def claims_for_def Let_def split: option.splits if_splits)
qed

text \<open>C13: a well-formed sign-in ends with a token. The client's authorization request, the callback
  from Google with the state handed out, and the exchange of the code handed out, each made within the
  lifetimes, answer with an access token for the identity Google vouched for and the requested scopes.\<close>

theorem flow_ends_with_token:
  assumes "configuredTtls bo = Some ttl" "flow_ok bo t2 ba client verifier gc identity st"
    "t2 < t1 + transactionTtl ttl * 1000" "t3 < t2 + authorizationCodeTtl ttl * 1000"
    "beginAuthorization bo ttl t1 ba st = (r1, st1)"
    "completeGoogleAuthorization bo ttl t2 (bo_random bo (bs_drawn st)) gc st1 = (r2, st2)"
    "exchangeAuthorizationCode bo ttl t3 (flow_exchange ba (bo_random bo (bs_drawn st + 3)) verifier) st2 = (r3, st3)"
  shows "(\<exists>url. r1 = Inr (url, client) \<and> (''state'', bo_random bo (bs_drawn st)) \<in> set (gu_parameters url)) \<and>
     (\<exists>rd. r2 = Inr (bo_random bo (bs_drawn st + 3), rd) \<and> rd_uri rd = ba_redirectUri ba) \<and>
     (\<exists>resp jti. r3 = Inr resp \<and> bt_accessToken resp =
        bo_sign bo (claims_for bo ttl t3 identity (js_unique (words_from [] (ba_scope ba))) jti))"
proof -
  obtain scopes where scopes: "checkAuthorizationRequest bo client ba = Inr scopes"
    using assms(2) [unfolded flow_ok_def] by (metis isl_def sum.collapse(2))
  note sc = checkAuthorizationRequest_Inr(4) [OF scopes]
  note b = flow_begins [OF assms(2) scopes assms(5)]
  note c = flow_completes [OF assms(2,3) b(3,2) assms(6)]
  from flow_exchanges [OF assms(2) scopes c(2) assms(4) refl assms(7)] b(1) c(1) sc show ?thesis by blast
qed

section \<open>An instance\<close>

definition demo_client :: BrokerClient where
  "demo_client = \<lparr>bc_clientId = ''c'', bc_redirectUris = [''u''],
     bc_grantTypes = [''authorization_code'', ''refresh_token''], bc_scopes = [''mcp'', ''extra''],
     bc_expiresAtMs = None, bc_clientName = None, bc_clientUri = None\<rparr>"

definition demo_payload :: JWTPayload where
  "demo_payload = \<lparr>jp_iss = GOOGLE_ISSUER, jp_sub = Some ''s'', jp_aud = [''gc''], jp_audIsArray = False,
     jp_azp = None, jp_exp = Some 2000, jp_iat = Some 1, jp_nonce = Some ''n0'', jp_email = Some ''m'',
     jp_emailVerified = Some True\<rparr>"

definition demo_broker :: broker_options where
  "demo_broker =
     \<lparr>bo_issuer = ''iss'', bo_resource = ''r'', bo_authorizationEndpoint = ''a'', bo_tokenEndpoint = ''t'',
      bo_jwksUri = ''j'', bo_scopesSupported = [''mcp''], bo_googleClientId = ''gc'',
      bo_googleAuthorizationEndpoint = ''ga'', bo_googleCallbackUri = ''cb'', bo_keyId = ''k1'',
      bo_publicJwk = [(''kty'', JwkString ''RSA''), (''d'', JwkString ''x'')], bo_verificationJwks = None,
      bo_transactionTtlSeconds = None, bo_authorizationCodeTtlSeconds = None,
      bo_accessTokenTtlSeconds = None, bo_refreshTokenTtlSeconds = None,
      bo_clients = (\<lambda>i. if i = ''c'' then Some demo_client else None),
      bo_exchangeGoogleCode = (\<lambda>x. Some ''idtoken''),
      bo_jwtVerify = (\<lambda>token iss aud now. Some demo_payload), bo_sign = ct_subject, bo_sha256 = id,
      bo_random = (\<lambda>n. CHR ''n'' # replicate n (CHR ''0''))\<rparr>"

definition demo_ttls :: broker_ttls where
  "demo_ttls = \<lparr>transactionTtl = 600, authorizationCodeTtl = 120, accessTokenTtl = 300, refreshTokenTtl = 2592000\<rparr>"

lemma demo_ttls: "configuredTtls demo_broker = Some demo_ttls"
  by code_simp

definition demo_verifier :: string where "demo_verifier = replicate 43 (CHR ''v'')"

definition demo_begin :: BeginAuthorizationRequest where
  "demo_begin = \<lparr>ba_responseType = ''code'', ba_clientId = ''c'', ba_redirectUri = ''u'', ba_resource = ''r'',
     ba_scope = ''mcp'', ba_codeChallenge = demo_verifier, ba_codeChallengeMethod = ''S256'', ba_state = Some ''x''\<rparr>"

definition demo_start :: broker_state where
  "demo_start = \<lparr>bs_store = empty_broker_mem, bs_drawn = 0\<rparr>"

definition demo_begun :: broker_state where
  "demo_begun = snd (beginAuthorization demo_broker demo_ttls 0 demo_begin demo_start)"

definition demo_completed :: broker_state where
  "demo_completed = snd (completeGoogleAuthorization demo_broker demo_ttls 1000 ''n'' ''code'' demo_begun)"

definition demo_exchange :: ExchangeAuthorizationCodeRequest where
  "demo_exchange = flow_exchange demo_begin ''n000'' demo_verifier"

lemma demo_flow_ok:
  "flow_ok demo_broker 1000 demo_begin demo_client demo_verifier ''code''
     \<lparr>gi_issuer = GOOGLE_ISSUER, gi_subject = ''s'', gi_email = ''m''\<rparr> demo_start"
  by code_simp

lemma demo_exchanges:
  "exchangeAuthorizationCode demo_broker demo_ttls 2000 demo_exchange demo_completed =
     (Inr (projr (fst (exchangeAuthorizationCode demo_broker demo_ttls 2000 demo_exchange demo_completed))),
      snd (exchangeAuthorizationCode demo_broker demo_ttls 2000 demo_exchange demo_completed))"
proof -
  have "\<not> isl (fst (exchangeAuthorizationCode demo_broker demo_ttls 2000 demo_exchange demo_completed))"
    by code_simp
  then show ?thesis by (simp add: prod_eq_iff)
qed

theorem flow_ends_with_token_witness:
  "\<exists>resp. fst (exchangeAuthorizationCode demo_broker demo_ttls 2000 demo_exchange demo_completed) = Inr resp \<and>
     bt_accessToken resp = ''s''"
proof -
  have "bo_random demo_broker (bs_drawn demo_start) = ''n''"
    "bo_random demo_broker (bs_drawn demo_start + 3) = ''n000''" by code_simp+
  note r = this
  have sel: "bo_sign demo_broker = ct_subject" "transactionTtl demo_ttls = 600"
    "authorizationCodeTtl demo_ttls = 120" by (simp_all add: demo_broker_def demo_ttls_def)
  from flow_ends_with_token [OF demo_ttls demo_flow_ok _ _ prod.collapse [symmetric]
      prod.collapse [symmetric] prod.collapse [symmetric], of 0 2000] show ?thesis
    unfolding r sel demo_begun_def [symmetric] demo_completed_def [symmetric] demo_exchange_def [symmetric]
    by (auto simp: claims_for_def)
qed

theorem code_exchange_sound_witness:
  "\<exists>r. js_get (authorizationCodes (bs_store demo_completed)) (bo_sha256 demo_broker ''n000'') = Some r \<and>
     co_clientId r = ''c''"
proof -
  have x: "xc_code demo_exchange = ''n000''" "xc_clientId demo_exchange = ''c''" by code_simp+
  from code_exchange_sound [OF demo_exchanges] show ?thesis unfolding x by auto
qed

theorem code_single_use_witness:
  "\<exists>e. fst (exchangeAuthorizationCode demo_broker demo_ttls 3000 demo_exchange
     (snd (exchangeAuthorizationCode demo_broker demo_ttls 2000 demo_exchange demo_completed))) = Inl e"
  by (rule code_single_use [OF demo_exchanges broker_calls.none refl])

theorem callback_single_use_witness:
  "\<exists>e. fst (completeGoogleAuthorization demo_broker demo_ttls 3000 ''n'' ''again'' demo_completed) = Inl e"
proof -
  have "bo_sha256 demo_broker (bo_random demo_broker (bs_drawn demo_begun)) \<noteq> bo_sha256 demo_broker ''n''"
    by code_simp
  from callback_single_use [OF prod.collapse [symmetric] _ _ this broker_calls.none] show ?thesis
    unfolding demo_completed_def by simp
qed

definition demo_refresh :: ExchangeRefreshTokenRequest where
  "demo_refresh = \<lparr>xr_grantType = ''refresh_token'', xr_refreshToken = ''h1'', xr_clientId = ''c'',
     xr_resource = ''r'', xr_scope = None\<rparr>"

definition demo_signed_in :: broker_state where
  "demo_signed_in = \<lparr>bs_store = demo_issued_token, bs_drawn = 0\<rparr>"

theorem refresh_exchange_sound_witness:
  "\<exists>e'. token_at (bs_store (snd (exchangeRefreshToken demo_broker demo_ttls 900 demo_refresh demo_signed_in)))
     (bo_sha256 demo_broker ''h1'') = Some e' \<and> rs_consumedAt e' = Some 900"
proof -
  let ?run = "exchangeRefreshToken demo_broker demo_ttls 900 demo_refresh demo_signed_in"
  have "\<not> isl (fst ?run)" by code_simp
  then have run: "?run = (Inr (projr (fst ?run)), snd ?run)" by (simp add: prod_eq_iff)
  have "Option.is_none (token_at (bs_store demo_signed_in)
      (bo_sha256 demo_broker (bo_random demo_broker (bs_drawn demo_signed_in))))" by code_simp
  then have fresh: "fresh_hash (bo_sha256 demo_broker (bo_random demo_broker (bs_drawn demo_signed_in)))
      (bs_store demo_signed_in)" by (simp add: fresh_hash_def Option.is_none_def)
  have x: "xr_refreshToken demo_refresh = ''h1''" by code_simp
  from refresh_exchange_sound [OF run fresh] show ?thesis unfolding x by blast
qed

lemma identity_assertion_accepted_iff_example:
  "googleIdentityFromPayload ''gc'' ''n0'' 1000 demo_payload =
     Inr \<lparr>gi_issuer = GOOGLE_ISSUER, gi_subject = ''s'', gi_email = ''m''\<rparr>"
  unfolding identity_assertion_accepted_iff by (simp add: demo_payload_def)

theorem jwks_public_and_unambiguous_witness:
  "js_get (hd (jwks demo_broker)) ''d'' = None"
proof -
  have "hd (jwks demo_broker) \<in> set (jwks demo_broker)" by (simp add: jwks_def Let_def)
  with jwks_public_and_unambiguous [of demo_broker] show ?thesis by (auto simp: PRIVATE_JWK_MEMBERS_def)
qed

theorem ttls_within_bounds_witness: "transactionTtl demo_ttls \<le> 900"
  using ttls_within_bounds [OF demo_ttls] by blast

end
