(* ===== verification/Dcr.thy ===== *)
theory Dcr
  imports Policy
begin

text \<open>
  \<open>shared/oauth/dcr.ts\<close> and \<open>shared/oauth/public-host.ts\<close>: dynamic registration of OAuth clients with
  constrained metadata. The URL parser, the IP address test and the size of a JSON text are the fields
  of \<open>web_lib\<close>. A thrown \<open>ConstrainedDcrError\<close> is its code, with its message and status; a \<open>TypeError\<close>
  of a misconfiguration has the code \<open>DcrTypeError\<close>.
\<close>

record web_url =
  url_protocol :: string
  url_hostname :: string
  url_username :: string
  url_password :: string
  url_hash :: string
  url_href :: string

record web_lib =
  parseURL :: "string \<Rightarrow> web_url option"
  isIP :: "string \<Rightarrow> nat"
  jsonBytes :: "json \<Rightarrow> nat"

datatype ConstrainedDcrErrorCode =
    invalid_client | invalid_client_metadata | invalid_pkce | invalid_redirect_uri | invalid_request
  | invalid_scope | rate_limited | registry_full | DcrTypeError

record ConstrainedDcrError =
  de_message :: string
  de_code :: ConstrainedDcrErrorCode
  de_httpStatus :: nat

definition dcrError :: "string \<Rightarrow> ConstrainedDcrErrorCode \<Rightarrow> ConstrainedDcrError" where
  "dcrError message code = \<lparr>de_message = message, de_code = code, de_httpStatus = 400\<rparr>"

definition invalidMetadata :: "string \<Rightarrow> ConstrainedDcrError" where
  "invalidMetadata message = dcrError message invalid_client_metadata"

definition typeError :: "string \<Rightarrow> ConstrainedDcrError" where
  "typeError message = dcrError message DcrTypeError"

record DcrRegistrationResponse =
  rg_client_id :: string
  rg_client_id_issued_at :: int
  rg_redirect_uris :: "string list"
  rg_grant_types :: "string list"
  rg_response_types :: "string list"
  rg_token_endpoint_auth_method :: string
  rg_application_type :: "string option"
  rg_client_name :: "string option"
  rg_client_uri :: "string option"
  rg_contacts :: "string list option"
  rg_logo_uri :: "string option"
  rg_policy_uri :: "string option"
  rg_scope :: "string option"
  rg_software_id :: "string option"
  rg_software_version :: "string option"
  rg_tos_uri :: "string option"

record StoredDynamicDcrClient =
  sc_registration :: DcrRegistrationResponse
  sc_expiresAtMs :: "time_ms option"

record RateWindow =
  rw_count :: nat
  rw_expiresAtMs :: time_ms

record DcrStoreRateLimitPolicy =
  rp_maxAttempts :: nat
  rp_maxKeys :: nat
  rp_nowMs :: time_ms
  rp_windowMs :: time_ms

datatype DcrStoreRegistrationResult = Saved | Duplicate | Full

section \<open>The in-memory store\<close>

record dcr_store =
  ds_clients :: "(string, StoredDynamicDcrClient) jsmap"
  ds_rateWindows :: "(string, RateWindow) jsmap"

definition client_alive :: "time_ms \<Rightarrow> StoredDynamicDcrClient \<Rightarrow> bool" where
  "client_alive nowMs c = (case sc_expiresAtMs c of None \<Rightarrow> True | Some e \<Rightarrow> nowMs < e)"

definition window_alive :: "time_ms \<Rightarrow> RateWindow \<Rightarrow> bool" where
  "window_alive nowMs w \<longleftrightarrow> nowMs < rw_expiresAtMs w"

definition pruneClients :: "time_ms \<Rightarrow> dcr_store \<Rightarrow> dcr_store" where
  "pruneClients nowMs st = st\<lparr>ds_clients := filter (\<lambda>(k, c). client_alive nowMs c) (ds_clients st)\<rparr>"

definition pruneRateWindows :: "time_ms \<Rightarrow> dcr_store \<Rightarrow> dcr_store" where
  "pruneRateWindows nowMs st = st\<lparr>ds_rateWindows := filter (\<lambda>(k, w). window_alive nowMs w) (ds_rateWindows st)\<rparr>"

text \<open>\<open>True\<close> is the result \<open>"allowed"\<close>.\<close>

definition consumeRegistrationAttempt ::
  "string \<Rightarrow> DcrStoreRateLimitPolicy \<Rightarrow> dcr_store \<Rightarrow> bool \<times> dcr_store" where
  "consumeRegistrationAttempt key policy st0 =
     (let st = pruneRateWindows (rp_nowMs policy) st0 in
      case js_get (ds_rateWindows st) key of
        Some current \<Rightarrow>
          (if rw_count current \<ge> rp_maxAttempts policy then (False, st)
           else (True, st\<lparr>ds_rateWindows :=
                   js_set key (current\<lparr>rw_count := rw_count current + 1\<rparr>) (ds_rateWindows st)\<rparr>))
      | None \<Rightarrow>
          (if length (ds_rateWindows st) \<ge> rp_maxKeys policy then (False, st)
           else (True, st\<lparr>ds_rateWindows :=
                   js_set key \<lparr>rw_count = 1, rw_expiresAtMs = rp_nowMs policy + rp_windowMs policy\<rparr>
                     (ds_rateWindows st)\<rparr>)))"

definition getDynamicClient ::
  "string \<Rightarrow> time_ms \<Rightarrow> dcr_store \<Rightarrow> StoredDynamicDcrClient option \<times> dcr_store" where
  "getDynamicClient clientId nowMs st =
     (case js_get (ds_clients st) clientId of
        None \<Rightarrow> (None, st)
      | Some c \<Rightarrow>
          (if \<not> client_alive nowMs c then (None, st\<lparr>ds_clients := js_del clientId (ds_clients st)\<rparr>)
           else (Some c, st)))"

definition saveDynamicClient ::
  "StoredDynamicDcrClient \<Rightarrow> nat \<Rightarrow> time_ms \<Rightarrow> dcr_store \<Rightarrow> DcrStoreRegistrationResult \<times> dcr_store" where
  "saveDynamicClient client maxDynamicClients nowMs st0 =
     (let st = pruneClients nowMs st0;
          cid = rg_client_id (sc_registration client) in
      if js_get (ds_clients st) cid \<noteq> None then (Duplicate, st)
      else if length (ds_clients st) \<ge> maxDynamicClients then (Full, st)
      else (Saved, st\<lparr>ds_clients := js_set cid client (ds_clients st)\<rparr>))"

section \<open>Hosts\<close>

text \<open>\<open>Number\<close> of a part of a dotted IPv4 address, which consists of digits.\<close>

fun digits_value :: "nat \<Rightarrow> string \<Rightarrow> nat option" where
  "digits_value acc [] = Some acc"
| "digits_value acc (c # cs) = (if is_digit c then digits_value (acc * 10 + (of_char c - 48)) cs else None)"

definition isSpecialUseIpv4 :: "string \<Rightarrow> bool" where
  "isSpecialUseIpv4 ip =
     (case map (digits_value 0) (split_on (CHR ''.'') ip) of
        [Some a, Some b, Some c, Some d] \<Rightarrow>
          a > 255 \<or> b > 255 \<or> c > 255 \<or> d > 255 \<or>
          a = 0 \<or> a = 10 \<or> a = 127 \<or> (a = 100 \<and> b \<ge> 64 \<and> b \<le> 127) \<or> (a = 169 \<and> b = 254) \<or>
          (a = 172 \<and> b \<ge> 16 \<and> b \<le> 31) \<or> (a = 192 \<and> b = 0) \<or> (a = 192 \<and> b = 31 \<and> c = 196) \<or>
          (a = 192 \<and> b = 52 \<and> c = 193) \<or> (a = 192 \<and> b = 88 \<and> c = 99) \<or> (a = 192 \<and> b = 168) \<or>
          (a = 192 \<and> b = 175 \<and> c = 48) \<or>
          (a = 198 \<and> (b = 18 \<or> b = 19 \<or> (b = 51 \<and> c = 100))) \<or> (a = 203 \<and> b = 0 \<and> c = 113) \<or> a \<ge> 224
      | _ \<Rightarrow> True)"

text \<open>\<open>/^\d{1,3}(?:\.\d{1,3}){3}$/\<close>.\<close>

definition dotted_decimal :: "string \<Rightarrow> bool" where
  "dotted_decimal h \<longleftrightarrow> length (split_on (CHR ''.'') h) = 4 \<and>
     list_all (\<lambda>p. p \<noteq> [] \<and> length p \<le> 3 \<and> list_all is_digit p) (split_on (CHR ''.'') h)"

text \<open>\<open>s.replace(/:\d+$/, "")\<close>.\<close>

definition drop_port :: "string \<Rightarrow> string" where
  "drop_port s =
     (let digits = takeWhile is_digit (rev s); rest = dropWhile is_digit (rev s) in
      if digits \<noteq> [] \<and> rest \<noteq> [] \<and> hd rest = CHR '':'' then rev (tl rest) else s)"

text \<open>\<open>authority.slice(authority.lastIndexOf("@") + 1)\<close>.\<close>

definition after_at :: "string \<Rightarrow> string" where
  "after_at s = last (split_on (CHR ''@'') s)"

definition hasCanonicalIpv4Hostname :: "string \<Rightarrow> web_url \<Rightarrow> bool" where
  "hasCanonicalIpv4Hostname v parsed =
     (if \<not> dotted_decimal (url_hostname parsed) then True
      else case find_text ''://'' v of
          None \<Rightarrow> False
        | Some schemeEnd \<Rightarrow>
            (let authority = takeWhile (\<lambda>c. c \<notin> set ''/?#'') (drop (schemeEnd + 3) v) in
             to_lower_case (drop_port (after_at authority)) = url_hostname parsed))"

definition strip_brackets :: "string \<Rightarrow> string" where
  "strip_brackets h =
     (if length h \<ge> 2 \<and> hd h = CHR ''['' \<and> last h = CHR '']'' then butlast (tl h) else h)"

definition normalizedHostname :: "string \<Rightarrow> string" where
  "normalizedHostname h =
     (let s = strip_brackets (to_lower_case h) in
      if s \<noteq> [] \<and> last s = CHR ''.'' then butlast s else s)"

definition isLoopbackHostname :: "string \<Rightarrow> bool" where
  "isLoopbackHostname hostname =
     (let n = normalizedHostname hostname in
      n = ''localhost'' \<or> suffix ''.localhost'' n \<or> n = ''::1'' \<or> prefix ''127.'' n)"

definition isPrivateHostname :: "web_lib \<Rightarrow> string \<Rightarrow> bool" where
  "isPrivateHostname lib hostname =
     (let n = normalizedHostname hostname in
      if isLoopbackHostname n \<or> suffix ''.local'' n \<or> suffix ''.internal'' n \<or> suffix ''.home.arpa'' n then True
      else if isIP lib n = 4 then isSpecialUseIpv4 n
      else if isIP lib n = 6
      then n = ''::'' \<or> n = ''::1'' \<or> prefix ''::ffff:'' n \<or> prefix ''fc'' n \<or> prefix ''fd'' n \<or>
           (prefix ''fe'' n \<and> length n > 2 \<and> n ! 2 \<in> set ''89abcdef'')
      else n = [] \<or> CHR ''.'' \<notin> set n)"

section \<open>Metadata\<close>

definition validateBoundedString :: "json option \<Rightarrow> string \<Rightarrow> nat \<Rightarrow> ConstrainedDcrError + string" where
  "validateBoundedString v field maxLength =
     (case v of
        Some (JStr s) \<Rightarrow>
          (if s = [] \<or> length s > maxLength
           then Inl (invalidMetadata (field @ '' must be a non-empty string of at most '' @ nat_str maxLength @ '' characters''))
           else Inr s)
      | _ \<Rightarrow> Inl (invalidMetadata (field @ '' must be a non-empty string of at most '' @ nat_str maxLength @ '' characters'')))"

definition scope_char :: "char \<Rightarrow> bool" where
  "scope_char c \<longleftrightarrow>
     (let n = (of_char c :: nat) in n = 0x21 \<or> (0x23 \<le> n \<and> n \<le> 0x5b) \<or> (0x5d \<le> n \<and> n \<le> 0x7e))"

definition isValidScopeToken :: "string \<Rightarrow> bool" where
  "isValidScopeToken scope \<longleftrightarrow> scope \<noteq> [] \<and> list_all scope_char scope"

definition validateConfiguredScopes :: "string list \<Rightarrow> ConstrainedDcrError + string list" where
  "validateConfiguredScopes scopes =
     (if scopes = [] \<or> length (js_unique scopes) \<noteq> length scopes \<or> list_ex (\<lambda>s. \<not> isValidScopeToken s) scopes
      then Inl (typeError ''Configured scopes must be unique valid OAuth scope tokens'') else Inr scopes)"

definition validateStaticScopes :: "string list \<Rightarrow> string list \<Rightarrow> ConstrainedDcrError + string list" where
  "validateStaticScopes scopes allowedScopes =
     sum_bind (validateConfiguredScopes scopes) (\<lambda>scopes.
       if list_ex (\<lambda>s. s \<notin> set allowedScopes) scopes
       then Inl (typeError ''Static client scopes must be a subset of allowedScopes'') else Inr scopes)"

definition validateScopeSyntax :: "json option \<Rightarrow> ConstrainedDcrError + string" where
  "validateScopeSyntax v =
     sum_bind (validateBoundedString v ''scope'' 1024) (\<lambda>scope.
       if list_ex (\<lambda>p. \<not> isValidScopeToken p) (split_on (CHR '' '') scope)
       then Inl (invalidMetadata ''scope is invalid'') else Inr scope)"

definition validateRequestedScope ::
  "json option \<Rightarrow> string list \<Rightarrow> string list \<Rightarrow> ConstrainedDcrError + string" where
  "validateRequestedScope v allowedScopes defaultScopes =
     sum_bind (if v = None then Inr defaultScopes
               else sum_bind (validateScopeSyntax v) (\<lambda>s. Inr (split_on (CHR '' '') s))) (\<lambda>scopes.
       if length (js_unique scopes) \<noteq> length scopes \<or> list_ex (\<lambda>s. s \<notin> set allowedScopes) scopes
       then Inl (invalidMetadata ''scope contains an unapproved value'')
       else Inr (join_with '' '' scopes))"

definition MAX_REDIRECT_URIS :: nat where "MAX_REDIRECT_URIS = 10"
definition MAX_URI_LENGTH :: nat where "MAX_URI_LENGTH = 2048"
definition MAX_METADATA_BYTES :: nat where "MAX_METADATA_BYTES = 16 * 1024"
definition CLIENT_ID_ATTEMPTS :: nat where "CLIENT_ID_ATTEMPTS = 5"

definition redirectError :: "string \<Rightarrow> ConstrainedDcrError" where
  "redirectError message = dcrError message invalid_redirect_uri"

text \<open>One entry of \<open>redirect_uris\<close>; the set of those before it is the second argument.\<close>

definition validateRedirectUri ::
  "web_lib \<Rightarrow> bool \<Rightarrow> string list \<Rightarrow> json \<Rightarrow> ConstrainedDcrError + string" where
  "validateRedirectUri lib allowLoopback unique j =
     (case as_string j of
        None \<Rightarrow> Inl (redirectError ''Redirect URI is invalid'')
      | Some v \<Rightarrow>
          (if v = [] \<or> length v > MAX_URI_LENGTH then Inl (redirectError ''Redirect URI is invalid'')
           else case parseURL lib v of
               None \<Rightarrow> Inl (redirectError ''Redirect URI is invalid'')
             | Some url \<Rightarrow>
                 (if url_hash url \<noteq> [] \<or> url_username url \<noteq> [] \<or> url_password url \<noteq> [] \<or>
                     \<not> hasCanonicalIpv4Hostname v url \<or> url_href url \<noteq> v
                  then Inl (redirectError ''Redirect URI must be an exact canonical URI without credentials or fragment'')
                  else if \<not> (url_protocol url = ''https:'' \<and> \<not> isPrivateHostname lib (url_hostname url)) \<and>
                          \<not> (allowLoopback \<and> url_protocol url = ''http:'' \<and> isLoopbackHostname (url_hostname url))
                  then Inl (redirectError ''Redirect URI must use public HTTPS or an enabled HTTP loopback address'')
                  else if v \<in> set unique then Inl (redirectError ''Redirect URIs must be unique'')
                  else Inr v)))"

fun validateRedirectUris_from ::
  "web_lib \<Rightarrow> bool \<Rightarrow> string list \<Rightarrow> json list \<Rightarrow> ConstrainedDcrError + string list" where
  "validateRedirectUris_from lib allowLoopback unique [] = Inr unique"
| "validateRedirectUris_from lib allowLoopback unique (j # js) =
     sum_bind (validateRedirectUri lib allowLoopback unique j)
       (\<lambda>v. validateRedirectUris_from lib allowLoopback (unique @ [v]) js)"

definition validateRedirectUris ::
  "web_lib \<Rightarrow> json option \<Rightarrow> bool \<Rightarrow> ConstrainedDcrError + string list" where
  "validateRedirectUris lib v allowLoopback =
     (case Option.bind v as_array of
        None \<Rightarrow> Inl (redirectError ''redirect_uris must contain between 1 and 10 entries'')
      | Some js \<Rightarrow>
          (if js = [] \<or> length js > MAX_REDIRECT_URIS
           then Inl (redirectError ''redirect_uris must contain between 1 and 10 entries'')
           else validateRedirectUris_from lib allowLoopback [] js))"

definition grantTypesMessage :: string where
  "grantTypesMessage =
     ''grant_types must be [\"authorization_code\"] or [\"authorization_code\",\"refresh_token\"]''"

definition validateGrantTypes :: "json \<Rightarrow> ConstrainedDcrError + string list" where
  "validateGrantTypes j =
     (case as_string_array j of
        None \<Rightarrow> Inl (invalidMetadata grantTypesMessage)
      | Some values \<Rightarrow>
          (if length (js_unique values) \<noteq> length values \<or> ''authorization_code'' \<notin> set values \<or>
              list_ex (\<lambda>v. v \<noteq> ''authorization_code'' \<and> v \<noteq> ''refresh_token'') values
           then Inl (invalidMetadata grantTypesMessage)
           else Inr (if ''refresh_token'' \<in> set values then [''authorization_code'', ''refresh_token'']
                     else [''authorization_code''])))"

definition validatePublicMetadataUrl :: "web_lib \<Rightarrow> json option \<Rightarrow> string \<Rightarrow> ConstrainedDcrError + string" where
  "validatePublicMetadataUrl lib v field =
     (let bad = Inl (invalidMetadata (field @ '' must be a public HTTPS URL'')) in
      case Option.bind v as_string of
        None \<Rightarrow> bad
      | Some s \<Rightarrow>
          (if s = [] \<or> length s > MAX_URI_LENGTH then bad
           else case parseURL lib s of
               None \<Rightarrow> bad
             | Some url \<Rightarrow>
                 (if url_protocol url \<noteq> ''https:'' \<or> url_username url \<noteq> [] \<or> url_password url \<noteq> [] \<or>
                     url_hash url \<noteq> [] \<or> \<not> hasCanonicalIpv4Hostname s url \<or> isPrivateHostname lib (url_hostname url)
                  then bad else Inr (url_href url))))"

definition validateApplicationType :: "json option \<Rightarrow> ConstrainedDcrError + string" where
  "validateApplicationType v =
     (if v = Some (JStr ''native'') then Inr ''native''
      else if v = Some (JStr ''web'') then Inr ''web''
      else Inl (invalidMetadata ''application_type must be native or web''))"

text \<open>\<open>/^[^\s@]+@[^\s@]+\.[^\s@]+$/\<close>.\<close>

definition emailPattern :: "string \<Rightarrow> bool" where
  "emailPattern s =
     (case split_on (CHR ''@'') s of
        [l, d] \<Rightarrow> l \<noteq> [] \<and> d \<noteq> [] \<and> \<not> list_ex is_space s \<and> CHR ''.'' \<in> set (butlast (tl d))
      | _ \<Rightarrow> False)"

definition validateContacts :: "json \<Rightarrow> ConstrainedDcrError + string list" where
  "validateContacts j =
     (case as_array j of
        None \<Rightarrow> Inl (invalidMetadata ''contacts must be a non-empty array of email addresses'')
      | Some xs \<Rightarrow>
          (if xs = [] \<or> length xs > 10
           then Inl (invalidMetadata ''contacts must be a non-empty array of email addresses'')
           else sum_map_from 0 (\<lambda>i contact.
             sum_bind (validateBoundedString (Some contact) ''contacts'' 254) (\<lambda>v.
               if \<not> emailPattern v then Inl (invalidMetadata ''contacts must contain valid email addresses'')
               else Inr v)) xs))"

definition ALLOWED_METADATA_KEYS :: "string list" where
  "ALLOWED_METADATA_KEYS =
     [''application_type'', ''client_name'', ''client_uri'', ''contacts'', ''logo_uri'', ''policy_uri'',
      ''scope'', ''software_id'', ''software_version'', ''tos_uri'', ''grant_types'', ''redirect_uris'',
      ''response_types'', ''token_endpoint_auth_method'']"

definition optionally ::
  "json option \<Rightarrow> ConstrainedDcrError + 'a \<Rightarrow> ConstrainedDcrError + 'a option" where
  "optionally v r = (if v = None then Inr None else map_sum id Some r)"

text \<open>The identifier and the time of issue are filled in by \<open>register\<close>.\<close>

definition validateClientMetadata ::
  "web_lib \<Rightarrow> json \<Rightarrow> bool \<Rightarrow> string list \<Rightarrow> string list \<Rightarrow> ConstrainedDcrError + DcrRegistrationResponse" where
  "validateClientMetadata lib j allowLoopback allowedScopes defaultScopes =
     (case as_record j of
        None \<Rightarrow> Inl (invalidMetadata ''Registration metadata must be a JSON object'')
      | Some fs \<Rightarrow>
          (if jsonBytes lib j > MAX_METADATA_BYTES then Inl (invalidMetadata ''Registration metadata is too large'')
           else case List.find (\<lambda>k. k \<notin> set ALLOWED_METADATA_KEYS) (map fst fs) of
               Some k \<Rightarrow> Inl (invalidMetadata (''Unsupported client metadata: '' @ k))
             | None \<Rightarrow>
                 (let get = js_get fs; text = (\<lambda>k n. optionally (get k) (validateBoundedString (get k) k n));
                      link = (\<lambda>k. optionally (get k) (validatePublicMetadataUrl lib (get k) k)) in
                  sum_bind (case get ''grant_types'' of None \<Rightarrow> Inr [''authorization_code''] | Some g \<Rightarrow> validateGrantTypes g)
                    (\<lambda>grantTypes.
                  sum_bind (if get ''response_types'' = None \<or> get ''response_types'' = Some (JArr [JStr ''code''])
                            then Inr () else Inl (invalidMetadata ''response_types must be [\"code\"]'')) (\<lambda>_.
                  sum_bind (if get ''token_endpoint_auth_method'' = Some (JStr ''none'') then Inr ()
                            else Inl (invalidMetadata ''token_endpoint_auth_method must be none'')) (\<lambda>_.
                  sum_bind (validateRedirectUris lib (get ''redirect_uris'') allowLoopback) (\<lambda>uris.
                  sum_bind (optionally (get ''application_type'') (validateApplicationType (get ''application_type''))) (\<lambda>app.
                  sum_bind (text ''client_name'' 128) (\<lambda>name.
                  sum_bind (optionally (get ''contacts'') (validateContacts (the (get ''contacts'')))) (\<lambda>contacts.
                  sum_bind (validateRequestedScope (get ''scope'') allowedScopes defaultScopes) (\<lambda>scope.
                  sum_bind (link ''client_uri'') (\<lambda>clientUri. sum_bind (link ''logo_uri'') (\<lambda>logo.
                  sum_bind (link ''policy_uri'') (\<lambda>policy. sum_bind (link ''tos_uri'') (\<lambda>tos.
                  sum_bind (text ''software_id'' 128) (\<lambda>softwareId. sum_bind (text ''software_version'' 128) (\<lambda>softwareVersion.
                  Inr \<lparr>rg_client_id = [], rg_client_id_issued_at = 0, rg_redirect_uris = uris,
                       rg_grant_types = grantTypes, rg_response_types = [''code''],
                       rg_token_endpoint_auth_method = ''none'', rg_application_type = app, rg_client_name = name,
                       rg_client_uri = clientUri, rg_contacts = contacts, rg_logo_uri = logo, rg_policy_uri = policy,
                       rg_scope = Some scope, rg_software_id = softwareId, rg_software_version = softwareVersion,
                       rg_tos_uri = tos\<rparr>)))))))))))))))))"

section \<open>The registry\<close>

record dcr_registry =
  dr_allowedScopes :: "string list"
  dr_allowLoopbackRedirects :: bool
  dr_dynamicClientTtlMs :: "time_ms option"
  dr_defaultScopes :: "string list"
  dr_maxDynamicClients :: nat
  dr_maxRateLimitKeys :: nat
  dr_maxRegistrationsPerWindow :: nat
  dr_rateLimitWindowMs :: time_ms
  dr_staticClients :: "(string, DcrRegistrationResponse) jsmap"

record StaticDcrClient =
  st_clientId :: string
  st_redirectUris :: "string list"
  st_applicationType :: "string option"
  st_clientName :: "string option"
  st_clientUri :: "string option"
  st_scopes :: "string list option"

definition client_id_char :: "char \<Rightarrow> bool" where
  "client_id_char c \<longleftrightarrow> is_lower_alpha c \<or> is_upper_alpha c \<or> is_digit c \<or> c \<in> set ''._~-''"

text \<open>\<open>/^[A-Za-z0-9._~-]{8,200}$/\<close>.\<close>

definition clientIdPattern :: "string \<Rightarrow> bool" where
  "clientIdPattern s \<longleftrightarrow> 8 \<le> length s \<and> length s \<le> 200 \<and> list_all client_id_char s"

definition validateGeneratedClientId :: "string \<Rightarrow> ConstrainedDcrError option" where
  "validateGeneratedClientId clientId =
     (if clientIdPattern clientId then None else Some (typeError ''Generated/static client id is invalid''))"

definition positiveInteger :: "rat \<Rightarrow> string \<Rightarrow> ConstrainedDcrError + int" where
  "positiveInteger v name =
     (if v \<in> \<int> \<and> 0 < v \<and> v \<le> 9007199254740991 then Inr \<lfloor>v\<rfloor>
      else Inl (typeError (name @ '' must be a positive integer'')))"

definition staticRegistration ::
  "StaticDcrClient \<Rightarrow> string list \<Rightarrow> string list \<Rightarrow> string option \<Rightarrow> string option \<Rightarrow> string option \<Rightarrow>
   DcrRegistrationResponse" where
  "staticRegistration client uris scopes app name uri =
     \<lparr>rg_client_id = st_clientId client, rg_client_id_issued_at = 0, rg_redirect_uris = uris,
      rg_grant_types = [''authorization_code''], rg_response_types = [''code''],
      rg_token_endpoint_auth_method = ''none'', rg_application_type = app, rg_client_name = name,
      rg_client_uri = uri, rg_contacts = None, rg_logo_uri = None, rg_policy_uri = None,
      rg_scope = Some (join_with '' '' scopes), rg_software_id = None, rg_software_version = None,
      rg_tos_uri = None\<rparr>"

definition addStaticClient ::
  "web_lib \<Rightarrow> StaticDcrClient \<Rightarrow> dcr_registry \<Rightarrow> ConstrainedDcrError + dcr_registry" where
  "addStaticClient lib client reg =
     (case validateGeneratedClientId (st_clientId client) of
        Some e \<Rightarrow> Inl e
      | None \<Rightarrow>
          (if js_get (dr_staticClients reg) (st_clientId client) \<noteq> None
           then Inl (typeError (''Duplicate static client id: '' @ st_clientId client))
           else
             sum_bind (validateRedirectUris lib (Some (JArr (map JStr (st_redirectUris client))))
                         (dr_allowLoopbackRedirects reg)) (\<lambda>uris.
             sum_bind (validateStaticScopes (coalesce (st_scopes client) (dr_defaultScopes reg))
                         (dr_allowedScopes reg)) (\<lambda>scopes.
             sum_bind (if truthy (st_applicationType client)
                       then map_sum id Some (validateApplicationType (map_option JStr (st_applicationType client)))
                       else Inr None) (\<lambda>app.
             sum_bind (if truthy (st_clientName client)
                       then map_sum id Some (validateBoundedString (map_option JStr (st_clientName client)) ''client_name'' 128)
                       else Inr None) (\<lambda>name.
             sum_bind (if truthy (st_clientUri client)
                       then map_sum id Some (validatePublicMetadataUrl lib (map_option JStr (st_clientUri client)) ''client_uri'')
                       else Inr None) (\<lambda>uri.
             Inr (reg\<lparr>dr_staticClients := js_set (st_clientId client)
                (staticRegistration client uris scopes app name uri) (dr_staticClients reg)\<rparr>))))))))"

record ConstrainedDcrRegistryOptions =
  do_allowedScopes :: "string list option"
  do_allowLoopbackRedirects :: "bool option"
  do_dynamicClientTtlMs :: "rat option"
  do_defaultScopes :: "string list option"
  do_maxDynamicClients :: "rat option"
  do_maxRateLimitKeys :: "rat option"
  do_maxRegistrationsPerWindow :: "rat option"
  do_rateLimitWindowMs :: "rat option"
  do_staticClients :: "StaticDcrClient list"

fun addStaticClients ::
  "web_lib \<Rightarrow> StaticDcrClient list \<Rightarrow> dcr_registry \<Rightarrow> ConstrainedDcrError + dcr_registry" where
  "addStaticClients lib [] reg = Inr reg"
| "addStaticClients lib (c # cs) reg = sum_bind (addStaticClient lib c reg) (addStaticClients lib cs)"

text \<open>The constructor of \<open>ConstrainedDcrRegistry\<close>.\<close>

definition makeDcrRegistry ::
  "web_lib \<Rightarrow> ConstrainedDcrRegistryOptions \<Rightarrow> ConstrainedDcrError + dcr_registry" where
  "makeDcrRegistry lib options =
     sum_bind (validateConfiguredScopes (coalesce (do_allowedScopes options) [''mcp''])) (\<lambda>allowed.
     sum_bind (validateConfiguredScopes (coalesce (do_defaultScopes options) [''mcp''])) (\<lambda>defaults.
     sum_bind (if list_ex (\<lambda>s. s \<notin> set allowed) defaults
               then Inl (typeError ''defaultScopes must be a subset of allowedScopes'') else Inr ()) (\<lambda>_.
     sum_bind (case do_dynamicClientTtlMs options of
                 None \<Rightarrow> Inr None
               | Some v \<Rightarrow> map_sum id Some (positiveInteger v ''dynamicClientTtlMs'')) (\<lambda>ttl.
     sum_bind (positiveInteger (coalesce (do_maxDynamicClients options) 10000) ''maxDynamicClients'') (\<lambda>maxClients.
     sum_bind (positiveInteger (coalesce (do_maxRateLimitKeys options) 10000) ''maxRateLimitKeys'') (\<lambda>maxKeys.
     sum_bind (positiveInteger (coalesce (do_maxRegistrationsPerWindow options) 10) ''maxRegistrationsPerWindow'') (\<lambda>perWindow.
     sum_bind (positiveInteger (coalesce (do_rateLimitWindowMs options) 60000) ''rateLimitWindowMs'') (\<lambda>window.
     addStaticClients lib (do_staticClients options)
       \<lparr>dr_allowedScopes = allowed, dr_allowLoopbackRedirects = coalesce (do_allowLoopbackRedirects options) False,
        dr_dynamicClientTtlMs = ttl, dr_defaultScopes = defaults, dr_maxDynamicClients = nat maxClients,
        dr_maxRateLimitKeys = nat maxKeys, dr_maxRegistrationsPerWindow = nat perWindow,
        dr_rateLimitWindowMs = window, dr_staticClients = []\<rparr>))))))))"

definition validateRateLimitKey :: "string \<Rightarrow> ConstrainedDcrError option" where
  "validateRateLimitKey key =
     (if key = [] \<or> length key > 256 then Some (dcrError ''A trusted rate-limit key is required'' invalid_request)
      else None)"

definition rateLimitPolicy :: "dcr_registry \<Rightarrow> time_ms \<Rightarrow> DcrStoreRateLimitPolicy" where
  "rateLimitPolicy reg nowMs =
     \<lparr>rp_maxAttempts = dr_maxRegistrationsPerWindow reg, rp_maxKeys = dr_maxRateLimitKeys reg,
      rp_nowMs = nowMs, rp_windowMs = dr_rateLimitWindowMs reg\<rparr>"

definition fullError :: "string \<Rightarrow> ConstrainedDcrError" where
  "fullError message = \<lparr>de_message = message, de_code = registry_full, de_httpStatus = 503\<rparr>"

definition dynamicClient ::
  "dcr_registry \<Rightarrow> DcrRegistrationResponse \<Rightarrow> string \<Rightarrow> time_ms \<Rightarrow> StoredDynamicDcrClient" where
  "dynamicClient reg validated clientId nowMs =
     \<lparr>sc_registration = validated\<lparr>rg_client_id := clientId, rg_client_id_issued_at := nowMs div 1000\<rparr>,
      sc_expiresAtMs = map_option ((+) nowMs) (dr_dynamicClientTtlMs reg)\<rparr>"

text \<open>The loop over identifiers: the list holds the values of \<open>generateClientId\<close> for the attempts left.\<close>

fun allocate ::
  "dcr_registry \<Rightarrow> DcrRegistrationResponse \<Rightarrow> time_ms \<Rightarrow> string list \<Rightarrow> dcr_store \<Rightarrow>
   (ConstrainedDcrError + DcrRegistrationResponse) \<times> dcr_store" where
  "allocate reg validated nowMs [] st = (Inl (fullError ''Unable to allocate a client identifier''), st)"
| "allocate reg validated nowMs (clientId # ids) st =
     (case validateGeneratedClientId clientId of
        Some e \<Rightarrow> (Inl e, st)
      | None \<Rightarrow>
          (if js_get (dr_staticClients reg) clientId \<noteq> None then allocate reg validated nowMs ids st
           else
             (let client = dynamicClient reg validated clientId nowMs in
              case saveDynamicClient client (dr_maxDynamicClients reg) nowMs st of
                (Saved, st') \<Rightarrow> (Inr (sc_registration client), st')
              | (Full, st') \<Rightarrow> (Inl (fullError ''Dynamic client registry capacity exceeded''), st')
              | (Duplicate, st') \<Rightarrow> allocate reg validated nowMs ids st')))"

text \<open>\<open>now1\<close> and \<open>now2\<close> are the two readings of the clock.\<close>

definition register ::
  "web_lib \<Rightarrow> dcr_registry \<Rightarrow> json \<Rightarrow> string \<Rightarrow> time_ms \<Rightarrow> time_ms \<Rightarrow> (nat \<Rightarrow> string) \<Rightarrow> dcr_store \<Rightarrow>
   (ConstrainedDcrError + DcrRegistrationResponse) \<times> dcr_store" where
  "register lib reg metadata rateLimitKey now1 now2 generateClientId st =
     (case validateRateLimitKey rateLimitKey of
        Some e \<Rightarrow> (Inl e, st)
      | None \<Rightarrow>
          (case consumeRegistrationAttempt rateLimitKey (rateLimitPolicy reg now1) st of
             (False, st1) \<Rightarrow>
               (Inl \<lparr>de_message = ''Registration rate limit exceeded'', de_code = rate_limited, de_httpStatus = 429\<rparr>, st1)
           | (True, st1) \<Rightarrow>
               (case validateClientMetadata lib metadata (dr_allowLoopbackRedirects reg) (dr_allowedScopes reg)
                       (dr_defaultScopes reg) of
                  Inl e \<Rightarrow> (Inl e, st1)
                | Inr validated \<Rightarrow>
                    allocate reg validated now2 (map generateClientId [0..<CLIENT_ID_ATTEMPTS]) st1)))"

text \<open>The flag is \<open>registrationType = "static"\<close>.\<close>

record ResolvedDcrClient =
  rd_registration :: DcrRegistrationResponse
  rd_expiresAtMs :: "time_ms option"
  rd_static :: bool

definition getClient ::
  "dcr_registry \<Rightarrow> string \<Rightarrow> time_ms \<Rightarrow> dcr_store \<Rightarrow> ResolvedDcrClient option \<times> dcr_store" where
  "getClient reg clientId nowMs st =
     (case js_get (dr_staticClients reg) clientId of
        Some r \<Rightarrow> (Some \<lparr>rd_registration = r, rd_expiresAtMs = None, rd_static = True\<rparr>, st)
      | None \<Rightarrow>
          (case getDynamicClient clientId nowMs st of
             (None, st') \<Rightarrow> (None, st')
           | (Some c, st') \<Rightarrow>
               (Some \<lparr>rd_registration = sc_registration c, rd_expiresAtMs = sc_expiresAtMs c, rd_static = False\<rparr>, st')))"

record DcrAuthorizationRequest =
  da_clientId :: string
  da_codeChallenge :: string
  da_codeChallengeMethod :: string
  da_redirectUri :: string
  da_requestedScopes :: "string list option"

definition challengePattern :: "string \<Rightarrow> bool" where
  "challengePattern s \<longleftrightarrow> length s = 43 \<and>
     list_all (\<lambda>c. is_lower_alpha c \<or> is_upper_alpha c \<or> is_digit c \<or> c = CHR ''_'' \<or> c = CHR ''-'') s"

definition checkAuthorization ::
  "ResolvedDcrClient \<Rightarrow> DcrAuthorizationRequest \<Rightarrow> ConstrainedDcrError option" where
  "checkAuthorization client request =
     (let registered = (case rg_scope (rd_registration client) of
            None \<Rightarrow> [] | Some s \<Rightarrow> js_unique (split_on (CHR '' '') s));
          requested = coalesce (da_requestedScopes request) registered in
      if da_redirectUri request \<notin> set (rg_redirect_uris (rd_registration client))
      then Some (redirectError ''Redirect URI does not exactly match the registered URI'')
      else if da_codeChallengeMethod request \<noteq> ''S256'' \<or> \<not> challengePattern (da_codeChallenge request)
      then Some (dcrError ''A valid S256 PKCE challenge is required'' invalid_pkce)
      else if requested = [] \<or> length (js_unique requested) \<noteq> length requested \<or>
              list_ex (\<lambda>s. \<not> isValidScopeToken s \<or> s \<notin> set registered) requested
      then Some (dcrError ''Requested scope is not registered for this client'' invalid_scope)
      else None)"

definition validateAuthorizationRequest ::
  "dcr_registry \<Rightarrow> DcrAuthorizationRequest \<Rightarrow> time_ms \<Rightarrow> dcr_store \<Rightarrow>
   (ConstrainedDcrError + ResolvedDcrClient) \<times> dcr_store" where
  "validateAuthorizationRequest reg request nowMs st =
     (case getClient reg (da_clientId request) nowMs st of
        (None, st') \<Rightarrow> (Inl (dcrError ''Unknown or expired client'' invalid_client), st')
      | (Some client, st') \<Rightarrow>
          (case checkAuthorization client request of
             Some e \<Rightarrow> (Inl e, st')
           | None \<Rightarrow> (Inr client, st')))"

end
