(* ===== verification/Dcr_Props.thy ===== *)
theory Dcr_Props
  imports Dcr
begin

text \<open>
  What dynamic registration guarantees. The store deletes expired entries when it happens to look at
  them; against an abstract store, in which an entry is there until it expires, those deletions cannot
  be observed. Its bounds hold in every reachable state, and so does the form of the clients in it.
\<close>

section \<open>Maps whose entries expire\<close>

definition live_entries :: "(time_ms \<Rightarrow> 'v \<Rightarrow> bool) \<Rightarrow> time_ms \<Rightarrow> (string, 'v) jsmap \<Rightarrow> string \<Rightarrow> 'v option" where
  "live_entries alive t m k = (case js_get m k of Some v \<Rightarrow> if alive t v then Some v else None | None \<Rightarrow> None)"

definition expire :: "(time_ms \<Rightarrow> 'v \<Rightarrow> bool) \<Rightarrow> time_ms \<Rightarrow> (string \<Rightarrow> 'v option) \<Rightarrow> string \<Rightarrow> 'v option" where
  "expire alive t A k = (case A k of Some v \<Rightarrow> if alive t v then Some v else None | None \<Rightarrow> None)"

lemma js_get_filter:
  "distinct (map fst m) \<Longrightarrow>
   js_get (filter (\<lambda>(k, v). P v) m) k = (case js_get m k of Some v \<Rightarrow> if P v then Some v else None | None \<Rightarrow> None)"
proof (induction m)
  case (Cons p m)
  then have "js_get m (fst p) = None" by (simp add: map_of_eq_None_iff)
  with Cons show ?case by (cases p) auto
qed simp

lemma distinct_filter_keys: "distinct (map fst m) \<Longrightarrow> distinct (map fst (filter P m))"
  by (induction m) auto

locale expiring =
  fixes alive :: "time_ms \<Rightarrow> 'v \<Rightarrow> bool"
  assumes alive_earlier: "now \<le> t \<Longrightarrow> alive t v \<Longrightarrow> alive now v"
begin

lemma live_later: "now \<le> t \<Longrightarrow> live_entries alive t m = expire alive t (live_entries alive now m)"
  by (rule ext) (auto simp: live_entries_def expire_def dest: alive_earlier split: option.splits)

lemma get_pruned: "distinct (map fst m) \<Longrightarrow> js_get (filter (\<lambda>(k, v). alive now v) m) = live_entries alive now m"
  by (rule ext) (simp add: js_get_filter live_entries_def)

lemma live_pruned:
  assumes "distinct (map fst m)" "now \<le> t"
  shows "live_entries alive t (filter (\<lambda>(k, v). alive now v) m) = live_entries alive t m"
  by (rule ext) (use assms in \<open>auto simp: live_entries_def js_get_filter dest: alive_earlier split: option.splits\<close>)

lemma length_pruned:
  assumes "distinct (map fst m)"
  shows "length (filter (\<lambda>(k, v). alive now v) m) = card (dom (live_entries alive now m))"
proof -
  let ?m = "filter (\<lambda>(k, v). alive now v) m"
  have "dom (live_entries alive now m) = set (map fst ?m)"
    unfolding get_pruned [OF assms, symmetric] by (simp add: dom_map_of_conv_image_fst)
  then show ?thesis using distinct_card [OF distinct_filter_keys [OF assms, of "\<lambda>(k, v). alive now v"]] by simp
qed

lemma live_set:
  "live_entries alive t (js_set k v m) = expire alive t ((live_entries alive t m)(k \<mapsto> v))"
  by (rule ext) (simp add: live_entries_def expire_def js_map_simps split: option.splits)

lemma live_deleted:
  assumes "js_get m k = Some v" "\<not> alive now v" "now \<le> t"
  shows "live_entries alive t (js_del k m) = live_entries alive t m"
  by (rule ext) (use assms in \<open>auto simp: live_entries_def js_map_simps dest: alive_earlier\<close>)

lemma expire_update_later:
  "now \<le> t \<Longrightarrow> expire alive t ((expire alive t A)(k \<mapsto> v)) = expire alive t (A(k \<mapsto> v))"
  by (rule ext) (auto simp: expire_def split: option.splits)

text \<open>Pruning at one time and setting an entry, as it is seen at a later time.\<close>

lemma live_pruned_set:
  assumes "distinct (map fst m)" "now \<le> t"
  shows "live_entries alive t (js_set k v (filter (\<lambda>(k, v). alive now v) m)) =
    expire alive t ((live_entries alive now m)(k \<mapsto> v))"
  by (simp add: live_set live_pruned [OF assms] live_later [OF assms(2), of m] expire_update_later [OF assms(2)])

end

interpretation clients: expiring client_alive
  by unfold_locales (auto simp: client_alive_def split: option.splits)

interpretation windows: expiring window_alive
  by unfold_locales (auto simp: window_alive_def)

section \<open>Refinement of the abstract store\<close>

abbreviation live_clients :: "time_ms \<Rightarrow> dcr_store \<Rightarrow> string \<Rightarrow> StoredDynamicDcrClient option" where
  "live_clients t st \<equiv> live_entries client_alive t (ds_clients st)"

abbreviation live_windows :: "time_ms \<Rightarrow> dcr_store \<Rightarrow> string \<Rightarrow> RateWindow option" where
  "live_windows t st \<equiv> live_entries window_alive t (ds_rateWindows st)"

definition store_wf :: "dcr_store \<Rightarrow> bool" where
  "store_wf st \<longleftrightarrow> distinct (map fst (ds_clients st)) \<and> distinct (map fst (ds_rateWindows st))"

text \<open>The operations on the clients and the windows that are alive.\<close>

definition spec_save ::
  "StoredDynamicDcrClient \<Rightarrow> nat \<Rightarrow> (string \<Rightarrow> StoredDynamicDcrClient option) \<Rightarrow>
   DcrStoreRegistrationResult \<times> (string \<Rightarrow> StoredDynamicDcrClient option)" where
  "spec_save c maxClients A =
     (let cid = rg_client_id (sc_registration c) in
      if cid \<in> dom A then (Duplicate, A)
      else if card (dom A) \<ge> maxClients then (Full, A) else (Saved, A(cid \<mapsto> c)))"

definition spec_consume ::
  "string \<Rightarrow> DcrStoreRateLimitPolicy \<Rightarrow> (string \<Rightarrow> RateWindow option) \<Rightarrow> bool \<times> (string \<Rightarrow> RateWindow option)" where
  "spec_consume key policy W =
     (case W key of
        Some w \<Rightarrow>
          (if rw_count w \<ge> rp_maxAttempts policy then (False, W)
           else (True, W(key \<mapsto> w\<lparr>rw_count := rw_count w + 1\<rparr>)))
      | None \<Rightarrow>
          (if card (dom W) \<ge> rp_maxKeys policy then (False, W)
           else (True, W(key \<mapsto> \<lparr>rw_count = 1, rw_expiresAtMs = rp_nowMs policy + rp_windowMs policy\<rparr>))))"

lemma save_refines:
  assumes "store_wf st" "nowMs \<le> t"
  shows "fst (saveDynamicClient c n nowMs st) = fst (spec_save c n (live_clients nowMs st)) \<and>
    live_clients t (snd (saveDynamicClient c n nowMs st)) =
      expire client_alive t (snd (spec_save c n (live_clients nowMs st)))"
proof -
  have d: "distinct (map fst (ds_clients st))" using assms(1) by (simp add: store_wf_def)
  show ?thesis
    using clients.get_pruned [OF d, of nowMs] clients.length_pruned [OF d, of nowMs]
      clients.live_pruned_set [OF d assms(2)] clients.live_pruned [OF d assms(2)]
      clients.live_later [OF assms(2), of "ds_clients st"]
    by (auto simp: saveDynamicClient_def spec_save_def pruneClients_def Let_def dom_def)
qed

lemma consume_refines:
  assumes "store_wf st" "rp_nowMs p \<le> t"
  shows "fst (consumeRegistrationAttempt k p st) = fst (spec_consume k p (live_windows (rp_nowMs p) st)) \<and>
    live_windows t (snd (consumeRegistrationAttempt k p st)) =
      expire window_alive t (snd (spec_consume k p (live_windows (rp_nowMs p) st)))"
proof -
  have d: "distinct (map fst (ds_rateWindows st))" using assms(1) by (simp add: store_wf_def)
  show ?thesis
    using windows.get_pruned [OF d, of "rp_nowMs p"] windows.length_pruned [OF d, of "rp_nowMs p"]
      windows.live_pruned_set [OF d assms(2)] windows.live_pruned [OF d assms(2)]
      windows.live_later [OF assms(2), of "ds_rateWindows st"]
    by (auto simp: consumeRegistrationAttempt_def spec_consume_def pruneRateWindows_def Let_def split: option.splits)
qed

lemma get_refines:
  assumes "nowMs \<le> t"
  shows "fst (getDynamicClient k nowMs st) = live_clients nowMs st k \<and>
    live_clients t (snd (getDynamicClient k nowMs st)) = live_clients t st"
  using clients.live_deleted [OF _ _ assms]
  by (auto simp: getDynamicClient_def live_entries_def [of _ nowMs] split: option.splits)

text \<open>C30: the in-memory store refines the abstract one. At the time of an operation its answer is the
  abstract operation's answer on the entries that are alive, and at every later time the entries alive
  in the new state are those of the abstract result that have not expired by then; reading a client
  changes nothing, and neither kind of operation touches the other kind's entries.\<close>

theorem dcr_store_refines:
  assumes "store_wf st" "nowMs \<le> t" "rp_nowMs p = nowMs"
  shows "fst (saveDynamicClient c n nowMs st) = fst (spec_save c n (live_clients nowMs st)) \<and>
    live_clients t (snd (saveDynamicClient c n nowMs st)) =
      expire client_alive t (snd (spec_save c n (live_clients nowMs st))) \<and>
    live_windows t (snd (saveDynamicClient c n nowMs st)) = live_windows t st \<and>
    fst (consumeRegistrationAttempt k p st) = fst (spec_consume k p (live_windows nowMs st)) \<and>
    live_windows t (snd (consumeRegistrationAttempt k p st)) =
      expire window_alive t (snd (spec_consume k p (live_windows nowMs st))) \<and>
    live_clients t (snd (consumeRegistrationAttempt k p st)) = live_clients t st \<and>
    fst (getDynamicClient k nowMs st) = live_clients nowMs st k \<and>
    live_clients t (snd (getDynamicClient k nowMs st)) = live_clients t st"
proof -
  have "live_windows t (snd (saveDynamicClient c n nowMs st)) = live_windows t st"
    by (simp add: saveDynamicClient_def pruneClients_def Let_def)
  moreover have "live_clients t (snd (consumeRegistrationAttempt k p st)) = live_clients t st"
    by (simp add: consumeRegistrationAttempt_def pruneRateWindows_def Let_def split: option.split)
  ultimately show ?thesis
    using save_refines [OF assms(1,2)] consume_refines [OF assms(1), of p t k] get_refines [OF assms(2)] assms(2,3)
    by simp
qed

section \<open>Well-formed registrations\<close>

text \<open>A redirect URI that may be registered: canonical, without credentials or fragment, to a public host
  over HTTPS or, where enabled, to a loopback host.\<close>

definition redirect_ok :: "web_lib \<Rightarrow> bool \<Rightarrow> string \<Rightarrow> bool" where
  "redirect_ok lib allowLoopback v \<longleftrightarrow>
     (\<exists>url. parseURL lib v = Some url \<and> url_href url = v \<and> url_hash url = [] \<and> url_username url = [] \<and>
        url_password url = [] \<and>
        (url_protocol url = ''https:'' \<and> \<not> isPrivateHostname lib (url_hostname url) \<or>
         allowLoopback \<and> url_protocol url = ''http:'' \<and> isLoopbackHostname (url_hostname url)))"

definition scopes_ok :: "string list \<Rightarrow> string option \<Rightarrow> bool" where
  "scopes_ok allowed scope \<longleftrightarrow>
     (\<exists>scopes. scope = Some (join_with '' '' scopes) \<and> scopes \<noteq> [] \<and> distinct scopes \<and> set scopes \<subseteq> set allowed)"

definition registration_ok :: "web_lib \<Rightarrow> dcr_registry \<Rightarrow> DcrRegistrationResponse \<Rightarrow> bool" where
  "registration_ok lib reg r \<longleftrightarrow>
     clientIdPattern (rg_client_id r) \<and>
     rg_redirect_uris r \<noteq> [] \<and> length (rg_redirect_uris r) \<le> MAX_REDIRECT_URIS \<and> distinct (rg_redirect_uris r) \<and>
     list_all (redirect_ok lib (dr_allowLoopbackRedirects reg)) (rg_redirect_uris r) \<and>
     rg_grant_types r \<in> {[''authorization_code''], [''authorization_code'', ''refresh_token'']} \<and>
     rg_response_types r = [''code''] \<and> rg_token_endpoint_auth_method r = ''none'' \<and>
     scopes_ok (dr_allowedScopes reg) (rg_scope r)"

lemma validateRedirectUri_Inr:
  "validateRedirectUri lib allow unique j = Inr v \<Longrightarrow> redirect_ok lib allow v \<and> v \<notin> set unique"
  by (auto simp: validateRedirectUri_def redirect_ok_def split: option.splits if_splits)

lemma validateRedirectUris_from_Inr:
  "validateRedirectUris_from lib allow unique js = Inr vs \<Longrightarrow> distinct unique \<Longrightarrow>
   list_all (redirect_ok lib allow) unique \<Longrightarrow>
   distinct vs \<and> length vs = length unique + length js \<and> list_all (redirect_ok lib allow) vs"
proof (induction lib allow unique js rule: validateRedirectUris_from.induct)
  case (2 lib allow unique j js)
  then obtain v where v: "validateRedirectUri lib allow unique j = Inr v"
    "validateRedirectUris_from lib allow (unique @ [v]) js = Inr vs" by auto
  from "2.IH" [OF v(2)] validateRedirectUri_Inr [OF v(1)] "2.prems" show ?case by simp
qed simp

lemma validateRedirectUris_Inr:
  assumes "validateRedirectUris lib v allow = Inr vs"
  shows "vs \<noteq> [] \<and> length vs \<le> MAX_REDIRECT_URIS \<and> distinct vs \<and> list_all (redirect_ok lib allow) vs"
proof -
  from assms obtain js where js: "js \<noteq> []" "length js \<le> MAX_REDIRECT_URIS"
    "validateRedirectUris_from lib allow [] js = Inr vs"
    by (auto simp: validateRedirectUris_def split: option.splits if_splits)
  from validateRedirectUris_from_Inr [OF js(3)] js(1,2) show ?thesis by auto
qed

lemma validateConfiguredScopes_Inr:
  "validateConfiguredScopes ss = Inr ts \<Longrightarrow> ts = ss \<and> ss \<noteq> [] \<and> distinct ss \<and> list_all isValidScopeToken ss"
  by (auto simp: validateConfiguredScopes_def js_unique_length_iff list_ex_iff list_all_iff split: if_splits)

lemma validateStaticScopes_Inr:
  "validateStaticScopes ss allowed = Inr ts \<Longrightarrow> scopes_ok allowed (Some (join_with '' '' ts))"
  by (auto simp: validateStaticScopes_def scopes_ok_def list_ex_iff split: if_splits
      dest!: validateConfiguredScopes_Inr)

lemma validateRequestedScope_Inr:
  assumes "validateRequestedScope v allowed defaults = Inr s" "defaults \<noteq> []"
  shows "scopes_ok allowed (Some s)"
proof (cases v)
  case None
  with assms show ?thesis
    by (auto simp: validateRequestedScope_def js_unique_length_iff list_ex_iff scopes_ok_def split: if_splits)
next
  case (Some j)
  with assms(1) show ?thesis
    by (auto simp: validateRequestedScope_def js_unique_length_iff list_ex_iff scopes_ok_def split: if_splits
        intro!: exI [of _ "split_on (CHR '' '') s"])
qed

lemma validateGrantTypes_Inr:
  "validateGrantTypes j = Inr g \<Longrightarrow> g \<in> {[''authorization_code''], [''authorization_code'', ''refresh_token'']}"
  by (auto simp: validateGrantTypes_def split: option.splits if_splits)

text \<open>The registry was built with valid scopes, and its static clients are well-formed.\<close>

definition registry_ok :: "web_lib \<Rightarrow> dcr_registry \<Rightarrow> bool" where
  "registry_ok lib reg \<longleftrightarrow> dr_defaultScopes reg \<noteq> [] \<and> list_all isValidScopeToken (dr_allowedScopes reg) \<and>
     0 < dr_maxRegistrationsPerWindow reg \<and>
     (\<forall>k r. js_get (dr_staticClients reg) k = Some r \<longrightarrow> rg_client_id r = k \<and> registration_ok lib reg r)"

lemma validateClientMetadata_ok:
  assumes "validateClientMetadata lib j (dr_allowLoopbackRedirects reg) (dr_allowedScopes reg) (dr_defaultScopes reg) = Inr v"
    and "dr_defaultScopes reg \<noteq> []" "clientIdPattern cid"
  shows "registration_ok lib reg (v\<lparr>rg_client_id := cid, rg_client_id_issued_at := n\<rparr>)"
proof -
  from assms(1) obtain fs where fs: "j = JObj fs"
    "validateRedirectUris lib (js_get fs ''redirect_uris'') (dr_allowLoopbackRedirects reg) = Inr (rg_redirect_uris v)"
    "(case js_get fs ''grant_types'' of None \<Rightarrow> Inr [''authorization_code''] | Some g \<Rightarrow> validateGrantTypes g)
       = Inr (rg_grant_types v)"
    "rg_response_types v = [''code'']" "rg_token_endpoint_auth_method v = ''none''"
    "\<exists>s. validateRequestedScope (js_get fs ''scope'') (dr_allowedScopes reg) (dr_defaultScopes reg) = Inr s \<and>
       rg_scope v = Some s"
    by (cases j) (auto simp: validateClientMetadata_def Let_def split: option.split_asm if_split_asm)
  have "rg_grant_types v \<in> {[''authorization_code''], [''authorization_code'', ''refresh_token'']}"
    using fs(3) validateGrantTypes_Inr by (cases "js_get fs ''grant_types''") auto
  with fs validateRedirectUris_Inr [OF fs(2)] validateRequestedScope_Inr [OF _ assms(2)] assms(3)
  show ?thesis by (auto simp: registration_ok_def)
qed

lemma addStaticClient_ok:
  assumes "addStaticClient lib c reg = Inr reg'" "registry_ok lib reg"
  shows "registry_ok lib reg' \<and> reg' = reg\<lparr>dr_staticClients := dr_staticClients reg'\<rparr>"
proof -
  from assms(1) obtain uris scopes app name uri where r:
    "reg' = reg\<lparr>dr_staticClients := js_set (st_clientId c)
       (staticRegistration c uris scopes app name uri) (dr_staticClients reg)\<rparr>"
    "clientIdPattern (st_clientId c)"
    "validateRedirectUris lib (Some (JArr (map JStr (st_redirectUris c)))) (dr_allowLoopbackRedirects reg) = Inr uris"
    "validateStaticScopes (coalesce (st_scopes c) (dr_defaultScopes reg)) (dr_allowedScopes reg) = Inr scopes"
    by (auto simp: addStaticClient_def validateGeneratedClientId_def split: if_split_asm option.split_asm)
  then have "registration_ok lib reg (staticRegistration c uris scopes app name uri)"
    using validateRedirectUris_Inr [OF r(3)] validateStaticScopes_Inr [OF r(4)]
    by (simp add: registration_ok_def staticRegistration_def)
  then show ?thesis using assms(2) r(1)
    by (auto simp: registry_ok_def registration_ok_def js_map_simps staticRegistration_def split: if_splits)
qed

lemma addStaticClients_ok: "addStaticClients lib cs reg = Inr reg' \<Longrightarrow> registry_ok lib reg \<Longrightarrow> registry_ok lib reg'"
  by (induction cs arbitrary: reg) (auto dest: addStaticClient_ok)

lemma positiveInteger_Inr: "positiveInteger v n = Inr i \<Longrightarrow> 0 < i"
  by (auto simp: positiveInteger_def split: if_splits elim: Ints_cases)

lemma makeDcrRegistry_ok: "makeDcrRegistry lib options = Inr reg \<Longrightarrow> registry_ok lib reg"
  by (auto simp: makeDcrRegistry_def dest!: addStaticClients_ok validateConfiguredScopes_Inr positiveInteger_Inr)
    (auto simp: registry_ok_def)

section \<open>Reachable stores\<close>

text \<open>The store changes by one atomic operation at a time, in any interleaving of the requests that are
  under way: an attempt is counted, a validated registration is saved, a client is read.\<close>

inductive dcr_step :: "web_lib \<Rightarrow> dcr_registry \<Rightarrow> dcr_store \<Rightarrow> dcr_store \<Rightarrow> bool"
  for lib reg where
  attempt: "dcr_step lib reg st (snd (consumeRegistrationAttempt key (rateLimitPolicy reg nowMs) st))"
| save: "validateClientMetadata lib metadata (dr_allowLoopbackRedirects reg) (dr_allowedScopes reg)
           (dr_defaultScopes reg) = Inr validated \<Longrightarrow>
         validateGeneratedClientId clientId = None \<Longrightarrow> js_get (dr_staticClients reg) clientId = None \<Longrightarrow>
         dcr_step lib reg st
           (snd (saveDynamicClient (dynamicClient reg validated clientId nowMs) (dr_maxDynamicClients reg) nowMs st))"
| read: "dcr_step lib reg st (snd (getDynamicClient clientId nowMs st))"

abbreviation dcr_steps :: "web_lib \<Rightarrow> dcr_registry \<Rightarrow> dcr_store \<Rightarrow> dcr_store \<Rightarrow> bool" where
  "dcr_steps lib reg \<equiv> (dcr_step lib reg)\<^sup>*\<^sup>*"

definition empty_dcr_store :: dcr_store where
  "empty_dcr_store = \<lparr>ds_clients = [], ds_rateWindows = []\<rparr>"

lemma allocate_steps:
  assumes "validateClientMetadata lib metadata (dr_allowLoopbackRedirects reg) (dr_allowedScopes reg)
    (dr_defaultScopes reg) = Inr validated"
  shows "dcr_steps lib reg st (snd (allocate reg validated nowMs ids st))"
proof (induction ids arbitrary: st)
  case (Cons cid ids)
  let ?save = "saveDynamicClient (dynamicClient reg validated cid nowMs) (dr_maxDynamicClients reg) nowMs st"
  show ?case
  proof (cases "validateGeneratedClientId cid = None \<and> js_get (dr_staticClients reg) cid = None")
    case True
    then have "dcr_step lib reg st (snd ?save)" using dcr_step.save [OF assms] by blast
    with Cons.IH [of "snd ?save"] True show ?thesis
      by (auto simp: Let_def split: prod.splits DcrStoreRegistrationResult.splits
          intro: converse_rtranclp_into_rtranclp)
  next
    case False
    with Cons.IH show ?thesis by (auto split: option.splits)
  qed
qed simp

text \<open>Every operation of the registry is a sequence of such steps.\<close>

lemma register_steps: "dcr_steps lib reg st (snd (register lib reg metadata key now1 now2 gen st))"
proof (cases "validateRateLimitKey key")
  case None
  let ?c = "consumeRegistrationAttempt key (rateLimitPolicy reg now1) st"
  have first: "dcr_step lib reg st (snd ?c)" by (rule dcr_step.attempt)
  show ?thesis
  proof (cases "fst ?c")
    case True
    show ?thesis
    proof (cases "validateClientMetadata lib metadata (dr_allowLoopbackRedirects reg) (dr_allowedScopes reg)
        (dr_defaultScopes reg)")
      case (Inr v)
      from allocate_steps [OF this, of "snd ?c"] first True None Inr show ?thesis
        by (auto simp: register_def split: prod.splits intro: converse_rtranclp_into_rtranclp)
    qed (use first True None in \<open>auto simp: register_def split: prod.splits\<close>)
  qed (use first None in \<open>auto simp: register_def split: prod.splits\<close>)
qed (simp add: register_def)

lemma getClient_steps: "dcr_steps lib reg st (snd (getClient reg cid nowMs st))"
  using dcr_step.read [of lib reg st cid nowMs]
  by (auto simp: getClient_def split: option.splits prod.splits)

lemma validateAuthorizationRequest_steps:
  "dcr_steps lib reg st (snd (validateAuthorizationRequest reg request nowMs st))"
  using getClient_steps [of lib reg st "da_clientId request" nowMs]
  by (auto simp: validateAuthorizationRequest_def split: option.splits prod.splits)

section \<open>The invariant of the store\<close>

definition dcr_inv :: "web_lib \<Rightarrow> dcr_registry \<Rightarrow> dcr_store \<Rightarrow> bool" where
  "dcr_inv lib reg st \<longleftrightarrow>
     store_wf st \<and> length (ds_clients st) \<le> dr_maxDynamicClients reg \<and>
     length (ds_rateWindows st) \<le> dr_maxRateLimitKeys reg \<and>
     (\<forall>(k, w) \<in> set (ds_rateWindows st). 1 \<le> rw_count w \<and> rw_count w \<le> dr_maxRegistrationsPerWindow reg) \<and>
     (\<forall>(k, c) \<in> set (ds_clients st). rg_client_id (sc_registration c) = k \<and>
        js_get (dr_staticClients reg) k = None \<and> registration_ok lib reg (sc_registration c))"

lemma dcr_inv_consume:
  assumes "dcr_inv lib reg st" "0 < dr_maxRegistrationsPerWindow reg"
  shows "dcr_inv lib reg (snd (consumeRegistrationAttempt key (rateLimitPolicy reg nowMs) st))"
proof -
  let ?m = "filter (\<lambda>(k, w). window_alive nowMs w) (ds_rateWindows st)"
  have d: "distinct (map fst ?m)" using assms(1) by (simp add: dcr_inv_def store_wf_def distinct_filter_keys)
  have len: "length ?m \<le> dr_maxRateLimitKeys reg"
    using assms(1) length_filter_le le_trans unfolding dcr_inv_def by blast
  have cnt: "1 \<le> rw_count w \<and> rw_count w \<le> dr_maxRegistrationsPerWindow reg" if "(k, w) \<in> set ?m" for k w
    using assms(1) that by (auto simp: dcr_inv_def)
  have upd: "dcr_inv lib reg (st\<lparr>ds_rateWindows := js_set key w ?m\<rparr>)"
    if "1 \<le> rw_count w" "rw_count w \<le> dr_maxRegistrationsPerWindow reg"
      "key \<in> fst ` set ?m \<or> length ?m < dr_maxRateLimitKeys reg" for w
    using assms(1) d len cnt that
    by (auto simp: dcr_inv_def store_wf_def length_js_set mem_js_set simp del: set_filter split: if_splits)
  have keep: "dcr_inv lib reg (st\<lparr>ds_rateWindows := ?m\<rparr>)"
    using assms(1) d len cnt by (auto simp: dcr_inv_def store_wf_def)
  show ?thesis
  proof (cases "js_get ?m key")
    case None
    with upd [of "\<lparr>rw_count = 1, rw_expiresAtMs = nowMs + dr_rateLimitWindowMs reg\<rparr>"] keep assms(2) show ?thesis
      by (simp add: consumeRegistrationAttempt_def rateLimitPolicy_def pruneRateWindows_def Let_def)
  next
    case (Some w)
    then have "(key, w) \<in> set ?m" by (rule map_of_SomeD)
    then have "key \<in> fst ` set ?m" by force
    with upd [of "w\<lparr>rw_count := rw_count w + 1\<rparr>"] keep Some show ?thesis
      by (simp add: consumeRegistrationAttempt_def rateLimitPolicy_def pruneRateWindows_def Let_def)
  qed
qed

lemma dcr_inv_save:
  assumes "dcr_inv lib reg st" "registration_ok lib reg (sc_registration c)"
    and "js_get (dr_staticClients reg) (rg_client_id (sc_registration c)) = None"
  shows "dcr_inv lib reg (snd (saveDynamicClient c (dr_maxDynamicClients reg) nowMs st))"
proof -
  let ?m = "filter (\<lambda>(k, c). client_alive nowMs c) (ds_clients st)"
  have d: "distinct (map fst ?m)" using assms(1) by (simp add: dcr_inv_def store_wf_def distinct_filter_keys)
  have len: "length ?m \<le> dr_maxDynamicClients reg"
    using assms(1) length_filter_le le_trans unfolding dcr_inv_def by blast
  have ok: "rg_client_id (sc_registration c') = k \<and> js_get (dr_staticClients reg) k = None \<and>
      registration_ok lib reg (sc_registration c')" if "(k, c') \<in> set ?m" for k c'
    using assms(1) that by (auto simp: dcr_inv_def)
  have "dcr_inv lib reg (st\<lparr>ds_clients := js_set (rg_client_id (sc_registration c)) c ?m\<rparr>)"
    if "length ?m < dr_maxDynamicClients reg"
    using assms d that ok
    by (auto simp: dcr_inv_def store_wf_def length_js_set mem_js_set simp del: set_filter split: if_splits)
  moreover have "dcr_inv lib reg (st\<lparr>ds_clients := ?m\<rparr>)"
    using assms(1) d len ok by (auto simp: dcr_inv_def store_wf_def)
  ultimately show ?thesis by (simp add: saveDynamicClient_def pruneClients_def Let_def)
qed

lemma set_js_del: "p \<in> set (js_del k m) \<Longrightarrow> p \<in> set m"
  by (induction m) (auto split: if_splits)

lemma dcr_inv_get:
  assumes "dcr_inv lib reg st"
  shows "dcr_inv lib reg (snd (getDynamicClient cid nowMs st))"
proof -
  have "dcr_inv lib reg (st\<lparr>ds_clients := js_del cid (ds_clients st)\<rparr>)"
    using assms length_delete_le [of cid "ds_clients st"]
    by (fastforce simp: dcr_inv_def store_wf_def dest: set_js_del)
  with assms show ?thesis by (simp add: getDynamicClient_def split: option.split)
qed

lemma dcr_inv_step: "dcr_step lib reg st st' \<Longrightarrow> registry_ok lib reg \<Longrightarrow> dcr_inv lib reg st \<Longrightarrow> dcr_inv lib reg st'"
proof (induction rule: dcr_step.induct)
  case (attempt st key nowMs)
  then show ?case by (intro dcr_inv_consume) (auto simp: registry_ok_def)
next
  case (save metadata validated clientId st nowMs)
  have p: "clientIdPattern clientId"
    using save(2) by (simp add: validateGeneratedClientId_def split: if_splits)
  show ?case
    using validateClientMetadata_ok [OF save(1) _ p, of "nowMs div 1000"] save
    by (intro dcr_inv_save) (auto simp: dynamicClient_def registry_ok_def)
next
  case (read st cid nowMs)
  then show ?case by (intro dcr_inv_get)
qed

lemma dcr_inv_reachable:
  assumes "makeDcrRegistry lib options = Inr reg" "dcr_steps lib reg empty_dcr_store st"
  shows "dcr_inv lib reg st"
  using assms(2)
proof (induction rule: rtranclp_induct)
  case base
  show ?case by (simp add: dcr_inv_def empty_dcr_store_def store_wf_def)
next
  case (step st st')
  then show ?case using dcr_inv_step makeDcrRegistry_ok [OF assms(1)] by blast
qed

text \<open>However registration requests and lookups interleave, the store never holds more dynamic
  clients than configured, never tracks more callers than configured, and no caller has been let
  through more often in its current window than configured.\<close>

lemma dcr_store_bounded:
  assumes "makeDcrRegistry lib options = Inr reg" "dcr_steps lib reg empty_dcr_store st"
  shows "length (ds_clients st) \<le> dr_maxDynamicClients reg \<and>
    length (ds_rateWindows st) \<le> dr_maxRateLimitKeys reg \<and>
    (\<forall>key w. js_get (ds_rateWindows st) key = Some w \<longrightarrow> rw_count w \<le> dr_maxRegistrationsPerWindow reg)"
  using dcr_inv_reachable [OF assms] by (auto simp: dcr_inv_def dest: map_of_SomeD)

section \<open>Authorization requests\<close>

lemma getClient_ok:
  assumes "getClient reg cid nowMs st = (Some client, st')" "dcr_inv lib reg st" "registry_ok lib reg"
  shows "rg_client_id (rd_registration client) = cid \<and> registration_ok lib reg (rd_registration client)"
proof (cases "js_get (dr_staticClients reg) cid")
  case None
  with assms(1) obtain c where "js_get (ds_clients st) cid = Some c" "rd_registration client = sc_registration c"
    by (auto simp: getClient_def getDynamicClient_def split: option.split_asm if_split_asm)
  with assms(2) show ?thesis by (auto simp: dcr_inv_def dest: map_of_SomeD)
next
  case (Some r)
  with assms(1,3) show ?thesis by (auto simp: getClient_def registry_ok_def)
qed

lemma valid_scope_no_space: "isValidScopeToken s \<Longrightarrow> CHR '' '' \<notin> set s"
  by (auto simp: isValidScopeToken_def scope_char_def list_all_iff Let_def)

lemma scopes_ok_split:
  assumes "scopes_ok allowed scope" "list_all isValidScopeToken allowed" "scope = Some s"
  shows "set (split_on (CHR '' '') s) \<subseteq> set allowed"
proof -
  from assms obtain ss where ss: "s = join_with '' '' ss" "ss \<noteq> []" "set ss \<subseteq> set allowed"
    by (auto simp: scopes_ok_def)
  then have "list_all (\<lambda>w. CHR '' '' \<notin> set w) ss"
    using assms(2) valid_scope_no_space by (auto simp: list_all_iff)
  from split_join_on [OF this ss(2)] ss show ?thesis by simp
qed

text \<open>In every state that registrations and lookups can reach, an authorization request that is
  accepted names a client whose registration is well-formed: it asks for its own identifier, its
  redirect URI is one of the registered ones and is a canonical URI to a public HTTPS host or to an
  enabled loopback host, it carries an S256 challenge of 43 characters, and the scopes it asks for are
  not empty, distinct and among those the server allows.\<close>

lemma authorization_request_wellformed:
  assumes "makeDcrRegistry lib options = Inr reg" "dcr_steps lib reg empty_dcr_store st"
    and "validateAuthorizationRequest reg request nowMs st = (Inr client, st')"
  shows "rg_client_id (rd_registration client) = da_clientId request \<and>
    registration_ok lib reg (rd_registration client) \<and>
    da_redirectUri request \<in> set (rg_redirect_uris (rd_registration client)) \<and>
    redirect_ok lib (dr_allowLoopbackRedirects reg) (da_redirectUri request) \<and>
    da_codeChallengeMethod request = ''S256'' \<and> length (da_codeChallenge request) = 43 \<and>
    (\<forall>scopes. da_requestedScopes request = Some scopes \<longrightarrow>
       scopes \<noteq> [] \<and> distinct scopes \<and> set scopes \<subseteq> set (dr_allowedScopes reg))"
proof -
  have reg: "registry_ok lib reg" using makeDcrRegistry_ok [OF assms(1)] .
  from assms(3) have g: "getClient reg (da_clientId request) nowMs st = (Some client, st')"
    "checkAuthorization client request = None"
    by (auto simp: validateAuthorizationRequest_def split: prod.split_asm option.split_asm)
  have ok: "rg_client_id (rd_registration client) = da_clientId request"
    "registration_ok lib reg (rd_registration client)"
    using getClient_ok [OF g(1) dcr_inv_reachable [OF assms(1,2)] reg] by auto
  then have sc: "scopes_ok (dr_allowedScopes reg) (rg_scope (rd_registration client))"
    by (simp add: registration_ok_def)
  then obtain s where "rg_scope (rd_registration client) = Some s" by (auto simp: scopes_ok_def)
  with scopes_ok_split [OF sc] reg have s: "rg_scope (rd_registration client) = Some s"
    "set (split_on (CHR '' '') s) \<subseteq> set (dr_allowedScopes reg)" by (auto simp: registry_ok_def)
  have c: "da_redirectUri request \<in> set (rg_redirect_uris (rd_registration client))"
    "da_codeChallengeMethod request = ''S256''" "challengePattern (da_codeChallenge request)"
    "\<And>scopes. da_requestedScopes request = Some scopes \<Longrightarrow> scopes \<noteq> [] \<and> distinct scopes \<and>
       set scopes \<subseteq> set (split_on (CHR '' '') s)"
    using g(2) s(1) by (auto simp: checkAuthorization_def Let_def js_unique_length_iff list_ex_iff split: if_split_asm)
  have "redirect_ok lib (dr_allowLoopbackRedirects reg) (da_redirectUri request)"
    using ok(2) c(1) by (auto simp: registration_ok_def list_all_iff)
  with ok c s(2) show ?thesis by (fastforce simp: challengePattern_def)
qed

text \<open>The loopback test looks only at how the name begins, so a public domain name whose first label is
  \<open>127\<close> counts as a loopback host: with loopback redirects enabled it can be registered over plain HTTP.\<close>

lemma loopback_prefix_accepts_public_name:
  assumes "parseURL lib ''http://127.example.com/'' =
    Some \<lparr>url_protocol = ''http:'', url_hostname = ''127.example.com'', url_username = [], url_password = [],
          url_hash = [], url_href = ''http://127.example.com/''\<rparr>"
  shows "validateRedirectUris lib (Some (JArr [JStr ''http://127.example.com/''])) True =
    Inr [''http://127.example.com/'']"
proof -
  have "isLoopbackHostname ''127.example.com''" "\<not> dotted_decimal ''127.example.com''" by code_simp+
  with assms show ?thesis
    by (simp add: validateRedirectUris_def MAX_REDIRECT_URIS_def MAX_URI_LENGTH_def validateRedirectUri_def
        hasCanonicalIpv4Hostname_def)
qed

section \<open>An example\<close>

definition example_web :: web_lib where
  "example_web =
     \<lparr>parseURL = (\<lambda>v. Some \<lparr>url_protocol = ''https:'', url_hostname = ''a.io'', url_username = [], url_password = [],
        url_hash = [], url_href = v\<rparr>), isIP = (\<lambda>h. 0), jsonBytes = (\<lambda>j. 100)\<rparr>"

definition example_dcr_options :: ConstrainedDcrRegistryOptions where
  "example_dcr_options =
     \<lparr>do_allowedScopes = None, do_allowLoopbackRedirects = None, do_dynamicClientTtlMs = None,
      do_defaultScopes = None, do_maxDynamicClients = None, do_maxRateLimitKeys = None,
      do_maxRegistrationsPerWindow = None, do_rateLimitWindowMs = None, do_staticClients = []\<rparr>"

definition example_dcr :: dcr_registry where
  "example_dcr =
     \<lparr>dr_allowedScopes = [''mcp''], dr_allowLoopbackRedirects = False, dr_dynamicClientTtlMs = None,
      dr_defaultScopes = [''mcp''], dr_maxDynamicClients = 10000, dr_maxRateLimitKeys = 10000,
      dr_maxRegistrationsPerWindow = 10, dr_rateLimitWindowMs = 60000, dr_staticClients = []\<rparr>"

definition example_metadata :: json where
  "example_metadata =
     JObj [(''redirect_uris'', JArr [JStr ''https://a.io/cb'']), (''token_endpoint_auth_method'', JStr ''none'')]"

definition example_dcr_store :: dcr_store where
  "example_dcr_store = snd (register example_web example_dcr example_metadata ''ip'' 0 0 (\<lambda>i. ''client-1'') empty_dcr_store)"

definition example_dcr_request :: DcrAuthorizationRequest where
  "example_dcr_request =
     \<lparr>da_clientId = ''client-1'', da_codeChallenge = replicate 43 (CHR ''A''), da_codeChallengeMethod = ''S256'',
      da_redirectUri = ''https://a.io/cb'', da_requestedScopes = Some [''mcp'']\<rparr>"

lemma example_dcr_made: "makeDcrRegistry example_web example_dcr_options = Inr example_dcr"
proof -
  have "validateConfiguredScopes [''mcp''] = Inr [''mcp'']" by code_simp
  then show ?thesis
    by (simp add: makeDcrRegistry_def example_dcr_options_def example_dcr_def positiveInteger_def)
qed

lemma example_dcr_reachable: "dcr_steps example_web example_dcr empty_dcr_store example_dcr_store"
  unfolding example_dcr_store_def by (rule register_steps)

lemma dcr_store_bounded_example:
  "length (ds_clients example_dcr_store) = 1 \<and> length (ds_clients example_dcr_store) \<le> dr_maxDynamicClients example_dcr"
proof -
  have "length (ds_clients example_dcr_store) = 1" by code_simp
  with dcr_store_bounded [OF example_dcr_made example_dcr_reachable] show ?thesis by blast
qed

lemma authorization_request_wellformed_example:
  "\<exists>client :: ResolvedDcrClient. rg_client_id (rd_registration client) = ''client-1'' \<and>
     registration_ok example_web example_dcr (rd_registration client) \<and> redirect_ok example_web False ''https://a.io/cb''"
proof -
  let ?r = "validateAuthorizationRequest example_dcr example_dcr_request 5 example_dcr_store"
  have "\<not> isl (fst ?r)" by code_simp
  then obtain client st' where "?r = (Inr client, st')" by (metis prod.collapse sum.collapse(2))
  from authorization_request_wellformed [OF example_dcr_made example_dcr_reachable this]
  have "rg_client_id (rd_registration client) = ''client-1''" "registration_ok example_web example_dcr (rd_registration client)"
    "redirect_ok example_web False ''https://a.io/cb''"
    by (simp_all add: example_dcr_request_def example_dcr_def)
  then show ?thesis by blast
qed

theorem dcr_store_refines_witness:
  "store_wf example_dcr_store \<and>
   fst (getDynamicClient ''client-1'' 5 example_dcr_store) = live_clients 5 example_dcr_store ''client-1''"
proof -
  have wf: "store_wf example_dcr_store" by code_simp
  have "rp_nowMs (rateLimitPolicy example_dcr 5) = 5" by code_simp
  from dcr_store_refines [OF wf order_refl this] wf show ?thesis by blast
qed

end
