(* ===== verification/Broker_Runtime.thy ===== *)
theory Broker_Runtime
  imports Broker_Props Dcr_Props
begin

text \<open>
  \<open>broker-runtime.ts\<close> of the Google Workspace wrapper: the authorization broker over the registry of
  dynamic and static clients, and the admission of unauthenticated callers.
\<close>

section \<open>Admission\<close>

definition normalizedIp :: "web_lib \<Rightarrow> string option \<Rightarrow> string option" where
  "normalizedIp lib v =
     (case map_option trim v of
        None \<Rightarrow> None
      | Some candidate \<Rightarrow>
          (if candidate = [] \<or> length candidate > 64 \<or> CHR '','' \<in> set candidate \<or> isIP lib candidate = 0 then None
           else Some (to_lower_case candidate)))"

record trusted_proxy =
  px_headerName :: string
  px_trustedAddresses :: "string list"

definition headerNamePattern :: "string \<Rightarrow> bool" where
  "headerNamePattern s \<longleftrightarrow> 1 \<le> length s \<and> length s \<le> 64 \<and>
     list_all (\<lambda>c. is_lower_alpha c \<or> is_digit c \<or> c = CHR ''-'') s"

definition validateTrustedProxyConfig :: "web_lib \<Rightarrow> trusted_proxy option \<Rightarrow> string option" where
  "validateTrustedProxyConfig lib config =
     (case config of
        None \<Rightarrow> None
      | Some px \<Rightarrow>
          (if \<not> headerNamePattern (px_headerName px)
           then Some ''DCR trusted proxy header must be a normalized HTTP header name''
           else if px_trustedAddresses px = [] \<or>
                   list_ex (\<lambda>a. normalizedIp lib (Some a) \<noteq> Some a) (px_trustedAddresses px)
           then Some ''DCR trusted proxy addresses must contain normalized IP addresses''
           else None))"

text \<open>The headers of the request are a function from names.\<close>

definition registrationAdmissionKey ::
  "web_lib \<Rightarrow> (string \<Rightarrow> string option) \<Rightarrow> string option \<Rightarrow> trusted_proxy option \<Rightarrow> ConstrainedDcrError + string" where
  "registrationAdmissionKey lib headers remote trustedProxy =
     (case normalizedIp lib remote of
        None \<Rightarrow> Inl (fullError ''Registration admission identity is unavailable'')
      | Some remoteAddress \<Rightarrow>
          (case trustedProxy of
             Some px \<Rightarrow>
               (if remoteAddress \<in> set (px_trustedAddresses px)
                then (case normalizedIp lib (headers (px_headerName px)) of
                        None \<Rightarrow> Inl (fullError ''Trusted proxy did not supply one valid client address'')
                      | Some forwardedAddress \<Rightarrow> Inr (''ip:'' @ forwardedAddress))
                else Inr (''ip:'' @ remoteAddress))
           | None \<Rightarrow> Inr (''ip:'' @ remoteAddress)))"

definition authorizationAttemptPolicy :: "time_ms \<Rightarrow> DcrStoreRateLimitPolicy" where
  "authorizationAttemptPolicy nowMs =
     \<lparr>rp_maxAttempts = 30, rp_maxKeys = 10000, rp_nowMs = nowMs, rp_windowMs = 60000\<rparr>"

definition consumeAuthorizationAttempt :: "string \<Rightarrow> time_ms \<Rightarrow> dcr_store \<Rightarrow> bool \<times> dcr_store" where
  "consumeAuthorizationAttempt key nowMs st =
     consumeRegistrationAttempt (''authorize:'' @ key) (authorizationAttemptPolicy nowMs) st"

section \<open>Clients and keys of the broker\<close>

definition canonicalAuthorizationBrokerIssuer :: "string \<Rightarrow> string" where
  "canonicalAuthorizationBrokerIssuer issuer =
     (if issuer \<noteq> [] \<and> last issuer = CHR ''/'' then butlast issuer else issuer)"

definition brokerClient :: "ResolvedDcrClient \<Rightarrow> BrokerClient" where
  "brokerClient client =
     (let r = rd_registration client in
      \<lparr>bc_clientId = rg_client_id r, bc_redirectUris = rg_redirect_uris r, bc_grantTypes = rg_grant_types r,
       bc_scopes = (case rg_scope r of None \<Rightarrow> [] | Some s \<Rightarrow> filter (\<lambda>w. w \<noteq> []) (split_on (CHR '' '') s)),
       bc_expiresAtMs = rd_expiresAtMs client, bc_clientName = rg_client_name r, bc_clientUri = rg_client_uri r\<rparr>)"

text \<open>\<open>clients.get\<close>, as the broker sees it in a state of the registration store.\<close>

definition brokerClients :: "dcr_registry \<Rightarrow> time_ms \<Rightarrow> dcr_store \<Rightarrow> string \<Rightarrow> BrokerClient option" where
  "brokerClients reg nowMs st clientId = map_option brokerClient (fst (getClient reg clientId nowMs st))"

definition publicJwk :: "JWK \<Rightarrow> JWK" where
  "publicJwk key =
     js_del ''qi'' (js_del ''q'' (js_del ''p'' (js_del ''dq'' (js_del ''dp'' (js_del ''d'' key)))))"

lemma publicJwk_no_private: "k \<in> {''d'', ''dp'', ''dq'', ''p'', ''q'', ''qi''} \<Longrightarrow> js_get (publicJwk key) k = None"
  by (auto simp: publicJwk_def js_map_simps)

section \<open>Redirects\<close>

lemma brokerClients_ok:
  assumes "brokerClients reg nowMs st cid = Some client" "dcr_inv lib reg st" "registry_ok lib reg"
  shows "bc_clientId client = cid \<and> (\<forall>u \<in> set (bc_redirectUris client). redirect_ok lib (dr_allowLoopbackRedirects reg) u) \<and>
    set (bc_scopes client) \<subseteq> set (dr_allowedScopes reg)"
proof -
  from assms(1) obtain c st' where c: "getClient reg cid nowMs st = (Some c, st')" "client = brokerClient c"
    by (cases "getClient reg cid nowMs st") (auto simp: brokerClients_def)
  have ok: "rg_client_id (rd_registration c) = cid" "registration_ok lib reg (rd_registration c)"
    using getClient_ok [OF c(1) assms(2,3)] by auto
  then have sc: "scopes_ok (dr_allowedScopes reg) (rg_scope (rd_registration c))"
    by (simp add: registration_ok_def)
  with scopes_ok_split [OF sc] assms(3) have "set (bc_scopes client) \<subseteq> set (dr_allowedScopes reg)"
    by (auto simp: c(2) brokerClient_def Let_def registry_ok_def scopes_ok_def)
  with ok c(2) show ?thesis by (auto simp: brokerClient_def Let_def registration_ok_def list_all_iff)
qed

lemma first_error_SomeD: "first_error cs = Some e \<Longrightarrow> Some e \<in> set cs"
  by (induction cs rule: first_error.induct) auto

lemma requireBoundedString_no_redirect: "Some e = requireBoundedString v n m c \<Longrightarrow> be_redirectUrl e = None"
  by (auto simp: requireBoundedString_def Let_def split: option.splits if_splits)

text \<open>A request that is let through, or sent back to the client with an error, named a registered URI.\<close>

lemma beginAuthorization_client:
  assumes "beginAuthorization bo ttl now rq st = (r, st')"
    and "case r of Inr ok \<Rightarrow> True | Inl e \<Rightarrow> be_redirectUrl e \<noteq> None"
  shows "\<exists>client. bo_clients bo (ba_clientId rq) = Some client \<and> ba_redirectUri rq \<in> set (bc_redirectUris client) \<and>
    (\<forall>e u. r = Inl e \<and> be_redirectUrl e = Some u \<longrightarrow> rd_uri u = ba_redirectUri rq)"
proof (cases "bo_clients bo (ba_clientId rq)")
  case None
  with assms show ?thesis
    by (auto simp: beginAuthorization_def requireBoundedString_no_redirect
        split: option.split_asm dest!: first_error_SomeD)
next
  case (Some client)
  have "ba_redirectUri rq \<in> set (bc_redirectUris client)"
    using assms Some by (auto simp: beginAuthorization_def requireBoundedString_no_redirect
        split: option.split_asm if_split_asm dest!: first_error_SomeD)
  moreover have "rd_uri u = ba_redirectUri rq" if "r = Inl e" "be_redirectUrl e = Some u" for e u
    using assms(1) Some that by (auto simp: beginAuthorization_def requireBoundedString_no_redirect
        clientRedirect_def Let_def split: option.split_asm if_split_asm sum.split_asm prod.split_asm
        dest!: first_error_SomeD)
  ultimately show ?thesis using Some by blast
qed

text \<open>The broker is no open redirector. Over any state of the client registry that registrations can
  reach, when an authorization request is accepted, or is refused by sending the browser back to the
  client, the redirect URI it named is registered for that client and is a canonical URI to a public
  HTTPS host or to an enabled loopback host; and the URI the browser is sent to is that one.\<close>

lemma broker_redirects_only_registered:
  assumes "makeDcrRegistry lib options = Inr reg" "dcr_steps lib reg empty_dcr_store rst"
    and "bo_clients bo = brokerClients reg now rst"
    and "beginAuthorization bo ttl now rq st = (r, st')"
    and "case r of Inr ok \<Rightarrow> True | Inl e \<Rightarrow> be_redirectUrl e \<noteq> None"
  shows "redirect_ok lib (dr_allowLoopbackRedirects reg) (ba_redirectUri rq) \<and>
    (\<forall>e u. r = Inl e \<and> be_redirectUrl e = Some u \<longrightarrow> rd_uri u = ba_redirectUri rq)"
proof -
  obtain client where "brokerClients reg now rst (ba_clientId rq) = Some client"
    "ba_redirectUri rq \<in> set (bc_redirectUris client)"
    "\<forall>e u. r = Inl e \<and> be_redirectUrl e = Some u \<longrightarrow> rd_uri u = ba_redirectUri rq"
    using beginAuthorization_client [OF assms(4,5)] assms(3) by auto
  with brokerClients_ok [OF _ dcr_inv_reachable [OF assms(1,2)] makeDcrRegistry_ok [OF assms(1)]] show ?thesis
    by blast
qed

text \<open>The two rate limits share the capacity of one table, whatever the prefix of their keys: once
  as many callers are tracked as the table may hold, a new caller is refused registration, even if all
  of them only ever asked for authorization.\<close>

lemma rate_limits_share_capacity:
  assumes "store_wf st" "live_windows now st key = None" "dr_maxRateLimitKeys reg \<le> card (dom (live_windows now st))"
  shows "fst (consumeRegistrationAttempt key (rateLimitPolicy reg now) st) = False"
  using consume_refines [OF assms(1), of "rateLimitPolicy reg now" now key] assms(2,3)
  by (simp add: spec_consume_def rateLimitPolicy_def)

end
