(* ===== verification/Command_Execution.thy ===== *)
theory Command_Execution
  imports Policy
begin

text \<open>
  \<open>shared/cli/command-execution.ts\<close>: running a command with secrets removed from its output. The
  child process is the source of events that a run answers one after the other; text is taken to be
  ASCII, so that a byte is a character. A limit of \<open>None\<close> is \<open>Number.POSITIVE_INFINITY\<close>.
\<close>

section \<open>Redaction of captured output\<close>

definition REDACTED :: string where "REDACTED = ''[redacted]''"

text \<open>\<open>text.split(secret).join("[redacted]")\<close>; splitting at an empty text does not arise, as empty values
  are filtered out.\<close>

function replaceAll :: "string \<Rightarrow> string \<Rightarrow> string" where
  "replaceAll secret v =
     (case find_text secret v of
        None \<Rightarrow> v
      | Some i \<Rightarrow>
          (if secret = [] then v
           else take i v @ REDACTED @ replaceAll secret (drop (i + length secret) v)))"
  by pat_completeness auto
termination
proof (relation "measure (\<lambda>(secret, v). length v)")
  fix secret v :: string and i
  assume "find_text secret v = Some i" "secret \<noteq> []"
  then show "((secret, drop (i + length secret) v), secret, v) \<in> measure (\<lambda>(secret, v). length v)"
    using find_text_SomeD [of secret v i] by (cases secret) auto
qed simp

declare replaceAll.simps [simp del]

definition redact :: "string \<Rightarrow> string list \<Rightarrow> string" where
  "redact v secrets = foldl (\<lambda>result secret. replaceAll secret result) v secrets"

definition take_limit :: "nat option \<Rightarrow> 'a list \<Rightarrow> 'a list" where
  "take_limit limit xs = (case limit of None \<Rightarrow> xs | Some n \<Rightarrow> take n xs)"

definition over_limit :: "nat \<Rightarrow> nat option \<Rightarrow> bool" where
  "over_limit n limit = (case limit of None \<Rightarrow> False | Some m \<Rightarrow> n > m)"

definition appendBounded :: "string \<Rightarrow> string \<Rightarrow> nat option \<Rightarrow> string" where
  "appendBounded current chunk limit =
     (case limit of
        None \<Rightarrow> current @ chunk
      | Some n \<Rightarrow> (if length current \<ge> n then current else current @ take (n - length current) chunk))"

definition boundOutput ::
  "string \<Rightarrow> nat \<Rightarrow> nat option \<Rightarrow> string list \<Rightarrow> bool \<Rightarrow> string \<times> bool" where
  "boundOutput v originalBytes limit redactions shouldRedact =
     (let safe = (if shouldRedact then redact v redactions else v) in
      (take_limit limit safe, over_limit originalBytes limit \<or> over_limit (length safe) limit))"

section \<open>Redaction of streamed output\<close>

text \<open>The leftmost secret, and of several that start there the longest.\<close>

definition earliestStep :: "string \<Rightarrow> (nat \<times> string) option \<Rightarrow> string \<Rightarrow> (nat \<times> string) option" where
  "earliestStep v match secret =
     (case find_text secret v of
        None \<Rightarrow> match
      | Some i \<Rightarrow>
          (case match of
             None \<Rightarrow> Some (i, secret)
           | Some (j, s) \<Rightarrow>
               (if i < j \<or> (i = j \<and> length secret > length s) then Some (i, secret) else match)))"

definition earliestSecret :: "string \<Rightarrow> string list \<Rightarrow> (nat \<times> string) option" where
  "earliestSecret v secrets = foldl (earliestStep v) None secrets"

text \<open>The inner loop of \<open>longestSecretPrefixSuffix\<close>: from a length downwards, above the longest so far.\<close>

fun prefixSuffixFrom :: "string \<Rightarrow> string \<Rightarrow> nat \<Rightarrow> nat \<Rightarrow> nat" where
  "prefixSuffixFrom v secret longest 0 = longest"
| "prefixSuffixFrom v secret longest (Suc n) =
     (if Suc n \<le> longest then longest
      else if prefix (drop (length v - Suc n) v) secret then Suc n
      else prefixSuffixFrom v secret longest n)"

definition longestSecretPrefixSuffix :: "string \<Rightarrow> string list \<Rightarrow> nat" where
  "longestSecretPrefixSuffix v secrets =
     foldl (\<lambda>longest secret. prefixSuffixFrom v secret longest (min (length v) (length secret - 1))) 0 secrets"

record RedactedOutputStream =
  os_limit :: "nat option"
  os_secrets :: "string list"
  os_pending :: string
  os_emittedBytes :: nat
  os_flushed :: bool
  os_emitted :: "string list"

definition newStream :: "nat option \<Rightarrow> string list \<Rightarrow> RedactedOutputStream" where
  "newStream limit secrets =
     \<lparr>os_limit = limit, os_secrets = secrets, os_pending = [], os_emittedBytes = 0, os_flushed = False,
      os_emitted = []\<rparr>"

definition emitBounded :: "string \<Rightarrow> RedactedOutputStream \<Rightarrow> RedactedOutputStream" where
  "emitBounded v os =
     (if v = [] \<or> (case os_limit os of None \<Rightarrow> False | Some n \<Rightarrow> n \<le> os_emittedBytes os) then os
      else let bounded = take_limit (map_option (\<lambda>n. n - os_emittedBytes os) (os_limit os)) v in
        os\<lparr>os_emittedBytes := os_emittedBytes os + length bounded,
           os_emitted := (if bounded \<noteq> [] then os_emitted os @ [bounded] else os_emitted os)\<rparr>)"

text \<open>The loop \<open>drain\<close>. \<open>None\<close> is a loop that does not end, as it would with an empty secret.\<close>

partial_function (option) drain :: "bool \<Rightarrow> RedactedOutputStream \<Rightarrow> RedactedOutputStream option" where
  "drain final os =
     (if os_pending os = [] then Some os
      else case earliestSecret (os_pending os) (os_secrets os) of
          Some m \<Rightarrow>
            drain final (emitBounded REDACTED (emitBounded (take (fst m) (os_pending os)) os)
              \<lparr>os_pending := drop (fst m + length (snd m)) (os_pending os)\<rparr>)
        | None \<Rightarrow>
            (if \<not> final
             then let n = length (os_pending os) - longestSecretPrefixSuffix (os_pending os) (os_secrets os) in
               Some ((emitBounded (take n (os_pending os)) os)\<lparr>os_pending := drop n (os_pending os)\<rparr>)
             else drain final ((emitBounded (os_pending os) os)\<lparr>os_pending := []\<rparr>)))"

declare drain.simps [code]

definition push :: "string \<Rightarrow> RedactedOutputStream \<Rightarrow> RedactedOutputStream option" where
  "push chunk os =
     (if os_flushed os then Some os else drain False (os\<lparr>os_pending := os_pending os @ chunk\<rparr>))"

definition flush :: "RedactedOutputStream \<Rightarrow> RedactedOutputStream option" where
  "flush os = (if os_flushed os then Some os else drain True (os\<lparr>os_flushed := True\<rparr>))"

fun pushAll :: "string list \<Rightarrow> RedactedOutputStream \<Rightarrow> RedactedOutputStream option" where
  "pushAll [] os = Some os"
| "pushAll (c # cs) os = Option.bind (push c os) (pushAll cs)"

definition emittedText :: "RedactedOutputStream \<Rightarrow> string" where
  "emittedText os = concat (os_emitted os)"

section \<open>Searching\<close>

lemma find_text_matches: "find_text t s = Some i \<Longrightarrow> prefix t (drop i s)"
  using find_text_SomeD [of t s i] by (metis take_is_prefix)

lemma find_text_None_iff: "find_text t s = None \<longleftrightarrow> (\<forall>j \<le> length s. \<not> prefix t (drop j s))"
proof
  assume "find_text t s = None"
  then show "\<forall>j \<le> length s. \<not> prefix t (drop j s)" using find_text_least by fastforce
next
  assume *: "\<forall>j \<le> length s. \<not> prefix t (drop j s)"
  show "find_text t s = None"
  proof (cases "find_text t s")
    case (Some i)
    with * find_text_matches [OF Some] find_text_SomeD [OF Some] show ?thesis by auto
  qed
qed

text \<open>The invariant of the search: the match so far is a match, none of the secrets seen so far matches
  before it, and none that matches there is longer.\<close>

definition best_match :: "string \<Rightarrow> string list \<Rightarrow> (nat \<times> string) option \<Rightarrow> bool" where
  "best_match v secrets m \<longleftrightarrow>
     (case m of
        None \<Rightarrow> \<forall>s \<in> set secrets. \<forall>j \<le> length v. \<not> prefix s (drop j v)
      | Some (i, s) \<Rightarrow> s \<in> set secrets \<and> i \<le> length v \<and> prefix s (drop i v) \<and>
          (\<forall>t \<in> set secrets. \<forall>j < i. \<not> prefix t (drop j v)) \<and>
          (\<forall>t \<in> set secrets. prefix t (drop i v) \<longrightarrow> length t \<le> length s))"

lemma best_match_step:
  assumes "best_match v ss m"
  shows "best_match v (ss @ [s]) (earliestStep v m s)"
proof (cases "find_text s v")
  case None
  then have no: "\<not> prefix s (drop j v)" if "j \<le> length v" for j using that by (simp add: find_text_None_iff)
  have e: "earliestStep v m s = m" using None by (simp add: earliestStep_def)
  show ?thesis
  proof (cases m)
    case None
    with assms no show ?thesis unfolding e by (simp add: best_match_def)
  next
    case (Some p)
    obtain k t where p: "p = (k, t)" by fastforce
    with assms Some have "k \<le> length v" by (simp add: best_match_def)
    then have "\<not> prefix s (drop j v)" if "j \<le> k" for j using no that by simp
    with assms Some p show ?thesis unfolding e by (simp add: best_match_def)
  qed
next
  case (Some i)
  have i: "prefix s (drop i v)" "i \<le> length v"
    using find_text_matches [OF Some] find_text_SomeD [OF Some] by auto
  have least: "\<not> prefix s (drop j v)" if "j < i" for j
    using find_text_least [of s j v] Some i(2) that by auto
  show ?thesis
  proof (cases m)
    case None
    with Some assms i least show ?thesis by (auto simp: best_match_def earliestStep_def)
  next
    case (Some p)
    obtain k t where p: "m = Some (k, t)" using Some by (cases p) auto
    then have k: "t \<in> set ss" "k \<le> length v" "prefix t (drop k v)"
      "\<And>u j. u \<in> set ss \<Longrightarrow> j < k \<Longrightarrow> \<not> prefix u (drop j v)"
      "\<And>u. u \<in> set ss \<Longrightarrow> prefix u (drop k v) \<Longrightarrow> length u \<le> length t"
      using assms by (auto simp: best_match_def)
    consider "i < k" | "i = k" "length s > length t" | "i = k" "length s \<le> length t" | "k < i" by linarith
    then show ?thesis
      using p \<open>find_text s v = Some i\<close> i least k
      by cases (auto simp: best_match_def earliestStep_def dest: less_trans; fastforce)+
  qed
qed

lemma earliestSecret_best: "best_match v secrets (earliestSecret v secrets)"
proof (induction secrets rule: rev_induct)
  case Nil
  show ?case by (simp add: best_match_def earliestSecret_def)
next
  case (snoc s ss)
  then show ?case using best_match_step by (simp add: earliestSecret_def)
qed

lemma prefixSuffixFrom_ge: "longest \<le> prefixSuffixFrom v secret longest n"
  by (induction n) auto

lemma prefixSuffixFrom_le: "prefixSuffixFrom v secret longest n \<le> max longest n"
  by (induction n) auto

lemma prefixSuffixFrom_greatest:
  "l \<le> n \<Longrightarrow> prefix (drop (length v - l) v) secret \<Longrightarrow> l \<le> prefixSuffixFrom v secret longest n"
proof (induction n)
  case (Suc n)
  then show ?case by (cases "l = Suc n") auto
qed simp

text \<open>What is retained reaches back to every place where a secret may have begun.\<close>

lemma longestSecretPrefixSuffix_greatest:
  assumes "s \<in> set secrets" "l \<le> length v" "l < length s" "prefix (drop (length v - l) v) s"
  shows "l \<le> longestSecretPrefixSuffix v secrets"
  using assms(1)
proof (induction secrets rule: rev_induct)
  case (snoc t ss)
  let ?k = "longestSecretPrefixSuffix v ss"
  have eq: "longestSecretPrefixSuffix v (ss @ [t]) = prefixSuffixFrom v t ?k (min (length v) (length t - 1))"
    by (simp add: longestSecretPrefixSuffix_def)
  show ?case
  proof (cases "s = t")
    case True
    with assms show ?thesis unfolding eq by (intro prefixSuffixFrom_greatest) auto
  next
    case False
    with snoc have "l \<le> ?k" by simp
    also have "\<dots> \<le> prefixSuffixFrom v t ?k (min (length v) (length t - 1))" by (rule prefixSuffixFrom_ge)
    finally show ?thesis unfolding eq .
  qed
qed simp

lemma longestSecretPrefixSuffix_le: "longestSecretPrefixSuffix v secrets \<le> length v"
proof (induction secrets rule: rev_induct)
  case (snoc t ss)
  then show ?case
    using prefixSuffixFrom_le [of v t "longestSecretPrefixSuffix v ss" "min (length v) (length t - 1)"]
    by (simp add: longestSecretPrefixSuffix_def)
qed (simp add: longestSecretPrefixSuffix_def)

section \<open>The reference: one pass over the whole text\<close>

text \<open>At every position the longest secret that starts there is replaced, any other character is kept.\<close>

definition longestAt :: "string list \<Rightarrow> string \<Rightarrow> nat" where
  "longestAt secrets v = foldr max (map length (filter (\<lambda>s. prefix s v) secrets)) 0"

function scan :: "string list \<Rightarrow> string \<Rightarrow> string" where
  "scan secrets [] = []"
| "scan secrets (c # cs) =
     (let n = longestAt secrets (c # cs) in
      if n = 0 then c # scan secrets cs else REDACTED @ scan secrets (drop n (c # cs)))"
  by pat_completeness auto
termination by (relation "measure (\<lambda>(secrets, v). length v)") auto

lemma longestAt_ge: "s \<in> set secrets \<Longrightarrow> prefix s v \<Longrightarrow> length s \<le> longestAt secrets v"
  by (induction secrets) (auto simp: longestAt_def max_def)

lemma longestAt_le: "(\<And>s. s \<in> set secrets \<Longrightarrow> prefix s v \<Longrightarrow> length s \<le> n) \<Longrightarrow> longestAt secrets v \<le> n"
  by (induction secrets) (auto simp: longestAt_def)

lemma scan_match:
  assumes "s \<in> set secrets" "prefix s v" "s \<noteq> []"
    and "\<And>t. t \<in> set secrets \<Longrightarrow> prefix t v \<Longrightarrow> length t \<le> length s"
  shows "scan secrets v = REDACTED @ scan secrets (drop (length s) v)"
proof -
  have "longestAt secrets v = length s"
    using longestAt_ge [OF assms(1,2)] longestAt_le [OF assms(4)] by (simp add: le_antisym)
  moreover obtain c cs where "v = c # cs" using assms(2,3) by (cases v) auto
  ultimately show ?thesis using assms(3) by simp
qed

lemma scan_skip:
  assumes "n \<le> length v" "\<And>s j. s \<in> set secrets \<Longrightarrow> j < n \<Longrightarrow> \<not> prefix s (drop j v)"
  shows "scan secrets v = take n v @ scan secrets (drop n v)"
  using assms
proof (induction n arbitrary: v)
  case (Suc n)
  then obtain c cs where v: "v = c # cs" by (cases v) auto
  have "longestAt secrets v \<le> 0" using Suc.prems(2) [of _ 0] by (intro longestAt_le) auto
  moreover have "scan secrets cs = take n cs @ scan secrets (drop n cs)"
  proof (rule Suc.IH)
    show "n \<le> length cs" using Suc.prems(1) v by simp
    show "\<not> prefix s (drop j cs)" if "s \<in> set secrets" "j < n" for s j
      using Suc.prems(2) [of s "Suc j"] that v by simp
  qed
  ultimately show ?case using v by simp
qed simp

section \<open>Streaming agrees with the reference\<close>

text \<open>Secrets none of which occurs in another one short of its end: a secret that is complete is never
  the inside of one that is still incoming.\<close>

definition separable :: "string list \<Rightarrow> bool" where
  "separable secrets \<longleftrightarrow> (\<forall>s \<in> set secrets. s \<noteq> [] \<and> (\<forall>t \<in> set secrets. \<not> sublist s (butlast t)))"

text \<open>What a stream has emitted is the beginning of what it would emit without a limit.\<close>

definition emits :: "RedactedOutputStream \<Rightarrow> string \<Rightarrow> bool" where
  "emits os v \<longleftrightarrow> emittedText os = take_limit (os_limit os) v \<and> os_emittedBytes os = length (emittedText os)"

lemma emitBounded_emits:
  assumes "emits os v"
  shows "emits (emitBounded w os) (v @ w)"
  using assms unfolding emits_def emitBounded_def emittedText_def
  by (cases "os_limit os") (auto simp: take_limit_def Let_def)

lemma emitBounded_simps [simp]:
  "os_pending (emitBounded w os) = os_pending os" "os_secrets (emitBounded w os) = os_secrets os"
  "os_flushed (emitBounded w os) = os_flushed os" "os_limit (emitBounded w os) = os_limit os"
  by (simp_all add: emitBounded_def Let_def)

lemma emits_update [simp]:
  "emits (os\<lparr>os_pending := p\<rparr>) v = emits os v" "emits (os\<lparr>os_flushed := f\<rparr>) v = emits os v"
  by (simp_all add: emits_def emittedText_def)

text \<open>A match found in what has arrived is one of the reference, whatever arrives later.\<close>

lemma inner_secret:
  assumes "prefix s (drop i p)" "prefix t (drop j (p @ r))" "j \<le> i" "i + length s < j + length t" "i \<le> length p"
  shows "sublist s (butlast t)"
proof -
  have ls: "i + length s \<le> length p" using assms(1,5) prefix_length_le by fastforce
  have "s = take (length s) (drop i (p @ r))"
    using assms(1) ls by (metis append_eq_conv_conj drop_append prefix_def take_append take_take min.idem
        append_take_drop_id append.assoc le_add_diff_inverse2 diff_is_0_eq drop_0 assms(5))
  also have "\<dots> = take (length s) (drop (i - j) (drop j (p @ r)))"
    using assms(3) by (simp del: drop_append)
  also have "\<dots> = take (length s) (drop (i - j) t)"
  proof -
    obtain u where "drop j (p @ r) = t @ u" using assms(2) by (auto simp: prefix_def)
    then show ?thesis using assms(3,4) by simp
  qed
  also have "\<dots> = take (length s) (drop (i - j) (butlast t))"
    using assms(3,4) by (simp add: butlast_conv_take drop_take min_def)
  finally show ?thesis by (metis sublist_drop sublist_order.order_trans sublist_take)
qed

lemma scan_found:
  assumes "separable secrets" "earliestSecret p secrets = Some (i, s)"
  shows "s \<noteq> []" "i + length s \<le> length p"
    and "scan secrets (p @ r) = take i p @ REDACTED @ scan secrets (drop (i + length s) p @ r)"
proof -
  have b: "s \<in> set secrets" "i \<le> length p" "prefix s (drop i p)"
    "\<And>t j. t \<in> set secrets \<Longrightarrow> j < i \<Longrightarrow> \<not> prefix t (drop j p)"
    "\<And>t. t \<in> set secrets \<Longrightarrow> prefix t (drop i p) \<Longrightarrow> length t \<le> length s"
    using earliestSecret_best [of p secrets] assms(2) by (auto simp: best_match_def)
  show s: "s \<noteq> []" using assms(1) b(1) by (auto simp: separable_def)
  show len: "i + length s \<le> length p" using b(2) prefix_length_le [OF b(3)] by simp
  have whole: "prefix t (drop j p)" if "prefix t (drop j (p @ r))" "j + length t \<le> length p" for t j
    using that by (auto simp: prefix_def) (metis append_eq_append_conv_if drop_append length_drop
        le_diff_conv2 add.commute le_add2 le_trans append_take_drop_id)
  have late: "j + length t \<le> i + length s"
    if "t \<in> set secrets" "prefix t (drop j (p @ r))" "j \<le> i" for t j
    using inner_secret [OF b(3) that(2,3) _ b(2)] assms(1) b(1) that(1) by (force simp: separable_def)
  have "scan secrets (p @ r) = take i (p @ r) @ scan secrets (drop i (p @ r))"
  proof (rule scan_skip)
    show "\<not> prefix t (drop j (p @ r))" if "t \<in> set secrets" "j < i" for t j
      using b(4) [OF that] whole [of t j] late [OF that(1), of j] that(2) len by force
  qed (use b(2) in simp)
  also have "scan secrets (drop i (p @ r)) = REDACTED @ scan secrets (drop (length s) (drop i (p @ r)))"
  proof (rule scan_match [OF b(1) _ s])
    show "prefix s (drop i (p @ r))" using b(3) by simp
    show "length t \<le> length s" if "t \<in> set secrets" "prefix t (drop i (p @ r))" for t
      using late [OF that] by simp
  qed
  finally show "scan secrets (p @ r) = take i p @ REDACTED @ scan secrets (drop (i + length s) p @ r)"
    using b(2) len by (simp add: add.commute)
qed

lemma scan_retained:
  assumes "earliestSecret p secrets = None" "n = length p - longestSecretPrefixSuffix p secrets"
  shows "scan secrets (p @ r) = take n p @ scan secrets (drop n p @ r)"
proof -
  have no: "\<not> prefix t (drop j p)" if "t \<in> set secrets" "j \<le> length p" for t j
    using earliestSecret_best [of p secrets] assms(1) that by (simp add: best_match_def)
  have "scan secrets (p @ r) = take n (p @ r) @ scan secrets (drop n (p @ r))"
  proof (rule scan_skip)
    fix t j assume t: "t \<in> set secrets" "j < n"
    show "\<not> prefix t (drop j (p @ r))"
    proof
      assume m: "prefix t (drop j (p @ r))"
      have j: "j < length p" using t(2) assms(2) by simp
      from m j no [OF t(1), of j] have pre: "prefix (drop j p) t" "drop j p \<noteq> t"
        by (auto simp: prefix_def append_eq_append_conv2)
      then have "length p - j \<le> longestSecretPrefixSuffix p secrets"
        using j by (intro longestSecretPrefixSuffix_greatest [OF t(1)])
          (auto simp: prefix_length_less strict_prefix_def dest!: prefix_length_less [OF strict_prefixI])
      with t(2) j assms(2) show False by linarith
    qed
  qed (use assms(2) in simp)
  then show ?thesis using assms(2) by simp
qed

lemma scan_no_secret: "earliestSecret p secrets = None \<Longrightarrow> scan secrets p = p"
  using scan_skip [of "length p" p secrets] earliestSecret_best [of p secrets]
  by (simp add: best_match_def)

text \<open>The loop ends, and what it emits and keeps is what the reference makes of the pending text, whatever
  comes after it.\<close>

lemma drain_push:
  assumes "separable (os_secrets os)" "emits os v"
  shows "\<exists>os' e. drain False os = Some os' \<and> emits os' (v @ e) \<and> os_secrets os' = os_secrets os \<and>
    os_limit os' = os_limit os \<and> os_flushed os' = os_flushed os \<and>
    (\<forall>r. scan (os_secrets os) (os_pending os @ r) = e @ scan (os_secrets os) (os_pending os' @ r))"
  using assms
proof (induction "length (os_pending os)" arbitrary: os v rule: less_induct)
  case less
  let ?p = "os_pending os" and ?ss = "os_secrets os"
  show ?case
  proof (cases "?p = []")
    case True
    with less.prems show ?thesis by (subst drain.simps) (auto intro: exI [of _ "[]"])
  next
    case False
    show ?thesis
    proof (cases "earliestSecret ?p ?ss")
      case None
      define n where "n = length ?p - longestSecretPrefixSuffix ?p ?ss"
      have "drain False os = Some ((emitBounded (take n ?p) os)\<lparr>os_pending := drop n ?p\<rparr>)"
        using False None by (subst drain.simps) (simp add: n_def Let_def)
      then show ?thesis
        using emitBounded_emits [OF less.prems(2), of "take n ?p"] scan_retained [OF None n_def] by auto
    next
      case (Some m)
      obtain i s where m: "m = (i, s)" by fastforce
      let ?os = "emitBounded REDACTED (emitBounded (take i ?p) os)\<lparr>os_pending := drop (i + length s) ?p\<rparr>"
      note f = scan_found [OF less.prems(1) Some [unfolded m]]
      have "drain False os = drain False ?os" using False Some m by (subst drain.simps) simp
      moreover have "length (os_pending ?os) < length ?p" using f(1,2) False by (cases s) auto
      moreover have "emits ?os (v @ take i ?p @ REDACTED)"
        using emitBounded_emits [OF emitBounded_emits [OF less.prems(2)]] by simp
      ultimately obtain os' e where "drain False os = Some os'" "emits os' ((v @ take i ?p @ REDACTED) @ e)"
        "os_secrets os' = ?ss" "os_limit os' = os_limit os" "os_flushed os' = os_flushed os"
        "\<forall>r. scan ?ss (drop (i + length s) ?p @ r) = e @ scan ?ss (os_pending os' @ r)"
        using less.hyps [of ?os "v @ take i ?p @ REDACTED"] less.prems(1) by auto
      then show ?thesis using f(3) by (intro exI [of _ os'] exI [of _ "take i ?p @ REDACTED @ e"]) simp
    qed
  qed
qed

lemma drain_flush:
  assumes "separable (os_secrets os)" "emits os v"
  shows "\<exists>os'. drain True os = Some os' \<and> emits os' (v @ scan (os_secrets os) (os_pending os)) \<and>
    os_limit os' = os_limit os"
  using assms
proof (induction "length (os_pending os)" arbitrary: os v rule: less_induct)
  case less
  let ?p = "os_pending os" and ?ss = "os_secrets os"
  show ?case
  proof (cases "?p = []")
    case True
    with less.prems show ?thesis by (subst drain.simps) simp
  next
    case False
    show ?thesis
    proof (cases "earliestSecret ?p ?ss")
      case None
      have "drain True os = Some ((emitBounded ?p os)\<lparr>os_pending := []\<rparr>)"
        using False None by (subst drain.simps) (simp add: drain.simps [of True "emitBounded ?p os\<lparr>os_pending := []\<rparr>"])
      then show ?thesis using emitBounded_emits [OF less.prems(2), of ?p] scan_no_secret [OF None] by simp
    next
      case (Some m)
      obtain i s where m: "m = (i, s)" by fastforce
      let ?os = "emitBounded REDACTED (emitBounded (take i ?p) os)\<lparr>os_pending := drop (i + length s) ?p\<rparr>"
      note f = scan_found [OF less.prems(1) Some [unfolded m]]
      have "drain True os = drain True ?os" using False Some m by (subst drain.simps) simp
      moreover have "length (os_pending ?os) < length ?p" using f(1,2) False by (cases s) auto
      moreover have "emits ?os (v @ take i ?p @ REDACTED)"
        using emitBounded_emits [OF emitBounded_emits [OF less.prems(2)]] by simp
      ultimately show ?thesis
        using less.hyps [of ?os "v @ take i ?p @ REDACTED"] less.prems(1) f(3) [of "[]"] by auto
    qed
  qed
qed

lemma pushAll_spec:
  assumes "separable (os_secrets os)" "emits os v" "\<not> os_flushed os"
  shows "\<exists>os' e. pushAll chunks os = Some os' \<and> emits os' (v @ e) \<and> os_secrets os' = os_secrets os \<and>
    os_limit os' = os_limit os \<and> \<not> os_flushed os' \<and>
    scan (os_secrets os) (os_pending os @ concat chunks) = e @ scan (os_secrets os) (os_pending os')"
  using assms
proof (induction chunks arbitrary: os v)
  case (Cons c cs)
  let ?os = "os\<lparr>os_pending := os_pending os @ c\<rparr>"
  obtain os1 e1 where os1: "push c os = Some os1" "emits os1 (v @ e1)" "os_secrets os1 = os_secrets os"
    "os_limit os1 = os_limit os" "\<not> os_flushed os1"
    "\<And>r. scan (os_secrets os) ((os_pending os @ c) @ r) = e1 @ scan (os_secrets os) (os_pending os1 @ r)"
    using drain_push [of ?os v] Cons.prems by (auto simp: push_def)
  obtain os2 e2 where "pushAll cs os1 = Some os2" "emits os2 ((v @ e1) @ e2)" "os_secrets os2 = os_secrets os1"
    "os_limit os2 = os_limit os1" "\<not> os_flushed os2"
    "scan (os_secrets os1) (os_pending os1 @ concat cs) = e2 @ scan (os_secrets os1) (os_pending os2)"
    using Cons.IH [of os1 "v @ e1"] os1 Cons.prems by auto
  with os1 os1(6) [of "concat cs"] show ?case by (intro exI [of _ os2] exI [of _ "e1 @ e2"]) simp
qed (auto intro: exI [of _ "[]"])

text \<open>Outside the markers nothing of the result is a secret.\<close>

lemma scan_pieces:
  assumes "\<forall>s \<in> set secrets. s \<noteq> []"
  shows "\<exists>w ws. scan secrets v = join_with REDACTED (w # ws) \<and> prefix w v \<and>
    (\<forall>u \<in> set (w # ws). \<forall>s \<in> set secrets. \<not> sublist s u)"
  using assms
proof (induction secrets v rule: scan.induct)
  case (1 secrets)
  then show ?case by (intro exI [of _ "[]"]) auto
next
  case (2 secrets c cs)
  let ?n = "longestAt secrets (c # cs)"
  show ?case
  proof (cases "?n = 0")
    case True
    with 2 obtain w ws where w: "scan secrets cs = join_with REDACTED (w # ws)" "prefix w cs"
      "\<forall>u \<in> set (w # ws). \<forall>s \<in> set secrets. \<not> sublist s u" by metis
    have "\<not> sublist s (c # w)" if "s \<in> set secrets" for s
    proof
      assume "sublist s (c # w)"
      with w(3) that have "prefix s (c # w)" by (simp add: sublist_Cons_right)
      with w(2) have "prefix s (c # cs)" by (metis Cons_prefix_Cons prefix_order.order_trans)
      with longestAt_ge [OF that, of "c # cs"] True "2.prems" that show False by auto
    qed
    with w True show ?thesis by (intro exI [of _ "c # w"] exI [of _ ws]) (auto simp: join_with_head)
  next
    case False
    with 2 obtain w ws where w: "scan secrets (drop ?n (c # cs)) = join_with REDACTED (w # ws)"
      "\<forall>u \<in> set (w # ws). \<forall>s \<in> set secrets. \<not> sublist s u" by metis
    with False "2.prems" show ?thesis
      by (intro exI [of _ "[]"] exI [of _ "w # ws"]) (auto simp: Let_def simp del: drop_Cons)
  qed
qed

text \<open>Output that is ASCII stays so.\<close>

definition is_ascii :: "char \<Rightarrow> bool" where
  "is_ascii c \<longleftrightarrow> (of_char c :: nat) < 128"

lemma ascii_drop: "list_all is_ascii v \<Longrightarrow> list_all is_ascii (drop n v)"
  using set_drop_subset [of n v] by (auto simp: list_all_iff)

lemma ascii_limit: "list_all is_ascii v \<Longrightarrow> list_all is_ascii (take_limit limit v)"
  by (auto simp: take_limit_def list_all_iff dest: in_set_takeD split: option.split)

lemma ascii_redacted: "list_all is_ascii REDACTED"
  by code_simp

lemma ascii_scan: "list_all is_ascii v \<Longrightarrow> list_all is_ascii (scan secrets v)"
proof (induction secrets v rule: scan.induct)
  case (2 secrets c cs)
  have d: "list_all is_ascii (drop (longestAt secrets (c # cs)) (c # cs))" by (rule ascii_drop [OF 2(3)])
  show ?case
  proof (cases "longestAt secrets (c # cs) = 0")
    case True
    with 2 show ?thesis by simp
  next
    case False
    with 2 d ascii_redacted show ?thesis by (simp add: Let_def)
  qed
qed simp

text \<open>C27: redaction of streamed ASCII output does not depend on how the output arrives, if the secrets are
  separable: none of them occurs in another one before the end of that one (none is the beginning or the
  inside of another). However such an output is cut into chunks, the stream ends its work on every
  chunk, and what it has emitted after the last one is the output limit's worth of one redaction pass
  over the whole output; apart from the markers that pass leaves no text that contains a secret. The
  limit counts bytes, which for ASCII are characters, and the decoder of the stream has nothing to
  hold back there; outside ASCII the stream of the code also drops a replacement character at the end
  of a piece, which is not modelled.\<close>

theorem stream_redaction_exact:
  assumes "separable secrets" "list_all is_ascii (concat chunks)"
  shows "(\<exists>os. Option.bind (pushAll chunks (newStream limit secrets)) flush = Some os \<and>
      emittedText os = take_limit limit (scan secrets (concat chunks)) \<and> list_all is_ascii (emittedText os)) \<and>
    (\<exists>kept. scan secrets (concat chunks) = join_with REDACTED kept \<and>
      (\<forall>u \<in> set kept. \<forall>s \<in> set secrets. \<not> sublist s u))"
proof -
  let ?os = "newStream limit secrets"
  have new: "emits ?os []" "\<not> os_flushed ?os" "os_secrets ?os = secrets" "os_pending ?os = []" "os_limit ?os = limit"
    by (simp_all add: newStream_def emits_def emittedText_def take_limit_def split: option.split)
  obtain os1 e1 where os1: "pushAll chunks ?os = Some os1" "emits os1 e1" "os_secrets os1 = secrets"
    "os_limit os1 = limit" "\<not> os_flushed os1" "scan secrets (concat chunks) = e1 @ scan secrets (os_pending os1)"
    using pushAll_spec [of ?os "[]" chunks] assms new by auto
  obtain os2 where "flush os1 = Some os2" "emits os2 (e1 @ scan secrets (os_pending os1))" "os_limit os2 = limit"
    using drain_flush [of "os1\<lparr>os_flushed := True\<rparr>" e1] assms os1 by (auto simp: flush_def)
  then have "\<exists>os. Option.bind (pushAll chunks ?os) flush = Some os \<and>
      emittedText os = take_limit limit (scan secrets (concat chunks)) \<and> list_all is_ascii (emittedText os)"
    using os1 ascii_limit [OF ascii_scan [OF assms(2)], of limit secrets] by (auto simp: emits_def)
  moreover have "\<forall>s \<in> set secrets. s \<noteq> []" using assms by (simp add: separable_def)
  ultimately show ?thesis using scan_pieces [of secrets "concat chunks"] by metis
qed

theorem stream_redaction_exact_witness:
  "\<exists>os. Option.bind (pushAll [''x tok'', ''en-1 y tok''] (newStream (Some 14) [''token-1''])) flush = Some os \<and>
     emittedText os = ''x [redacted] y''"
proof -
  have s: "separable [''token-1'']" by code_simp
  have e: "take_limit (Some 14) (scan [''token-1''] (concat [''x tok'', ''en-1 y tok''])) = ''x [redacted] y''"
    by code_simp
  have a: "list_all is_ascii (concat [''x tok'', ''en-1 y tok''])" by code_simp
  show ?thesis
    using stream_redaction_exact [OF s a, of "Some 14", THEN conjunct1] unfolding e by blast
qed

text \<open>Where a secret begins like a longer one, the chunks matter: the rest of the longer one is emitted.\<close>

lemma stream_redaction_leaks_tail:
  "map_option emittedText (Option.bind (pushAll [''abc'', ''def''] (newStream None [''abc'', ''abcdef''])) flush) =
     Some ''[redacted]def''"
  "map_option emittedText (Option.bind (pushAll [''abcdef''] (newStream None [''abc'', ''abcdef''])) flush) =
     Some ''[redacted]''"
  "redact ''abcdef'' [''abc'', ''abcdef''] = ''[redacted]def''"
  by code_simp+

section \<open>A run\<close>

definition ACTION_CLASSES :: "string list" where
  "ACTION_CLASSES = [''read'', ''secret-read'', ''write'', ''destructive'']"

record CliExecutionResult =
  cx_exit_code :: int
  cx_stdout :: string
  cx_stderr :: string
  cx_stdout_truncated :: bool
  cx_stderr_truncated :: bool
  cx_class :: string

text \<open>\<open>CliExecutionError\<close>: code, message, captured error output and output, exit code.\<close>

record CliExecutionError =
  ce_code :: string
  ce_message :: string
  ce_stderr :: string
  ce_stdout :: string
  ce_exitCode :: "int option"

record CliRunnerConfig =
  rc_redactValues :: "string list"
  rc_defaultTimeoutSeconds :: rat
  rc_maxTimeoutSeconds :: rat
  rc_maxOutputBytes :: "nat option"

record CliExecutionOptions =
  eo_credentialEnv :: "(string \<times> string) list"
  eo_timeoutMs :: "int option"
  eo_rejectOnNonZero :: bool
  eo_aborted :: bool

datatype cli_outcome = Resolved CliExecutionResult | Rejected CliExecutionError

text \<open>The variables of the promise's executor, and the signals sent to the child.\<close>

record cli_run =
  cr_limit :: "nat option"
  cr_captureLimit :: "nat option"
  cr_redactions :: "string list"
  cr_rejectOnNonZero :: bool
  cr_hardTimeout :: bool
  cr_class :: string
  cr_stdout :: string
  cr_stderr :: string
  cr_stdoutBytes :: nat
  cr_stderrBytes :: nat
  cr_stdoutStream :: RedactedOutputStream
  cr_stderrStream :: RedactedOutputStream
  cr_settled :: "cli_outcome option"
  cr_timedOut :: bool
  cr_cancelled :: bool
  cr_signals :: "string list"

definition redactionsOf :: "CliRunnerConfig \<Rightarrow> CliExecutionOptions \<Rightarrow> string list" where
  "redactionsOf config options =
     filter (\<lambda>s. s \<noteq> []) (rc_redactValues config @ map snd (eo_credentialEnv options))"

definition configurationError :: "string \<Rightarrow> string \<Rightarrow> CliExecutionError" where
  "configurationError message code =
     \<lparr>ce_code = code, ce_message = message, ce_stderr = [], ce_stdout = [], ce_exitCode = None\<rparr>"

text \<open>\<open>executeCli\<close> up to the start of the child: an error, or a run without events.\<close>

definition executeCli ::
  "CliRunnerConfig \<Rightarrow> string \<Rightarrow> rat option \<Rightarrow> CliExecutionOptions \<Rightarrow> CliExecutionError + cli_run" where
  "executeCli config commandClass timeoutSeconds options =
     (let timeout = coalesce timeoutSeconds (rc_defaultTimeoutSeconds config) in
      if eo_timeoutMs options = None \<and> (timeout \<notin> \<int> \<or> timeout \<le> 0 \<or> timeout > rc_maxTimeoutSeconds config)
      then Inl (configurationError ''timeout_seconds is outside the allowed range'' ''configuration'')
      else if eo_aborted options then Inl (configurationError ''command cancelled'' ''cancelled'')
      else
        (let redactions = redactionsOf config options;
             limit = rc_maxOutputBytes config in
         Inr \<lparr>cr_limit = limit,
              cr_captureLimit = map_option (\<lambda>n. n + foldr max (map length redactions) 0) limit,
              cr_redactions = redactions, cr_rejectOnNonZero = eo_rejectOnNonZero options,
              cr_hardTimeout = (eo_timeoutMs options \<noteq> None), cr_class = commandClass,
              cr_stdout = [], cr_stderr = [], cr_stdoutBytes = 0, cr_stderrBytes = 0,
              cr_stdoutStream = newStream limit redactions, cr_stderrStream = newStream limit redactions,
              cr_settled = None, cr_timedOut = False, cr_cancelled = False, cr_signals = []\<rparr>))"

datatype cli_event =
  StdoutData string | StderrData string | ProcError string | ProcClose "int option" | AbortSignal | TimeoutFires

definition cli_output :: "cli_run \<Rightarrow> string \<Rightarrow> nat \<Rightarrow> bool \<Rightarrow> string \<times> bool" where
  "cli_output run v bytes alwaysRedact =
     boundOutput v bytes (cr_limit run) (cr_redactions run) (alwaysRedact \<or> cr_limit run \<noteq> None)"

definition cli_failure :: "cli_run \<Rightarrow> string \<Rightarrow> string \<Rightarrow> int option \<Rightarrow> CliExecutionError" where
  "cli_failure run code message exitCode =
     \<lparr>ce_code = code, ce_message = redact message (cr_redactions run),
      ce_stderr = fst (cli_output run (cr_stderr run) (cr_stderrBytes run) True),
      ce_stdout = fst (cli_output run (cr_stdout run) (cr_stdoutBytes run) True), ce_exitCode = exitCode\<rparr>"

text \<open>\<open>settle\<close>: the first time only, after flushing both streams.\<close>

definition settle :: "cli_outcome \<Rightarrow> cli_run \<Rightarrow> cli_run option" where
  "settle outcome run =
     (if cr_settled run \<noteq> None then Some run
      else Option.bind (flush (cr_stdoutStream run)) (\<lambda>out. Option.bind (flush (cr_stderrStream run)) (\<lambda>err.
        Some (run\<lparr>cr_stdoutStream := out, cr_stderrStream := err, cr_settled := Some outcome\<rparr>))))"

definition cli_result :: "cli_run \<Rightarrow> int option \<Rightarrow> CliExecutionResult" where
  "cli_result run exitCode =
     (let out = cli_output run (cr_stdout run) (cr_stdoutBytes run) False;
          err = cli_output run (cr_stderr run) (cr_stderrBytes run) False in
      \<lparr>cx_exit_code = (if cr_timedOut run then 124 else coalesce exitCode 1), cx_stdout = fst out,
       cx_stderr = fst err, cx_stdout_truncated = snd out, cx_stderr_truncated = snd err,
       cx_class = cr_class run\<rparr>)"

text \<open>The handlers. After the promise has settled the timer is cleared and the abort listener is gone; a
  cancellation clears the timer too.\<close>

fun cli_step :: "cli_run \<Rightarrow> cli_event \<Rightarrow> cli_run option" where
  "cli_step run (StdoutData chunk) =
     Option.bind (push chunk (cr_stdoutStream run)) (\<lambda>out.
       Some (run\<lparr>cr_stdoutBytes := cr_stdoutBytes run + length chunk,
                 cr_stdout := appendBounded (cr_stdout run) chunk (cr_captureLimit run), cr_stdoutStream := out\<rparr>))"
| "cli_step run (StderrData chunk) =
     Option.bind (push chunk (cr_stderrStream run)) (\<lambda>err.
       Some (run\<lparr>cr_stderrBytes := cr_stderrBytes run + length chunk,
                 cr_stderr := appendBounded (cr_stderr run) chunk (cr_captureLimit run), cr_stderrStream := err\<rparr>))"
| "cli_step run (ProcError message) = settle (Rejected (cli_failure run ''spawn'' message None)) run"
| "cli_step run (ProcClose exitCode) =
     (if cr_settled run \<noteq> None then Some run
      else if cr_cancelled run
      then settle (Rejected (cli_failure run ''cancelled'' ''command cancelled'' None)) run
      else if cr_rejectOnNonZero run \<and> exitCode \<noteq> Some 0
      then settle (Rejected (cli_failure run ''exit'' ''command exited unsuccessfully'' exitCode)) run
      else settle (Resolved (cli_result run exitCode)) run)"
| "cli_step run AbortSignal =
     (if cr_settled run \<noteq> None \<or> cr_cancelled run then Some run
      else Some (run\<lparr>cr_cancelled := True, cr_signals := cr_signals run @ [''SIGTERM'', ''SIGKILL after 250 ms'']\<rparr>))"
| "cli_step run TimeoutFires =
     (if cr_settled run \<noteq> None \<or> cr_cancelled run \<or> cr_timedOut run then Some run
      else let run = run\<lparr>cr_timedOut := True, cr_signals := cr_signals run @ [''SIGTERM'']\<rparr> in
        if cr_hardTimeout run
        then settle (Rejected (cli_failure run ''timeout'' ''command timed out'' None)) run
        else Some (run\<lparr>cr_signals := cr_signals run @ [''SIGKILL after 250 ms'']\<rparr>))"

fun cli_events :: "cli_run \<Rightarrow> cli_event list \<Rightarrow> cli_run option" where
  "cli_events run [] = Some run"
| "cli_events run (e # es) = Option.bind (cli_step run e) (\<lambda>run'. cli_events run' es)"

section \<open>Every run settles, once\<close>

definition nonempty_secrets :: "RedactedOutputStream \<Rightarrow> bool" where
  "nonempty_secrets os \<longleftrightarrow> [] \<notin> set (os_secrets os)"

lemma nonempty_secrets_simps [simp]:
  "nonempty_secrets (emitBounded w os) = nonempty_secrets os"
  "nonempty_secrets (os\<lparr>os_pending := p\<rparr>) = nonempty_secrets os"
  "nonempty_secrets (os\<lparr>os_flushed := f\<rparr>) = nonempty_secrets os"
  by (simp_all add: nonempty_secrets_def)

text \<open>Without an empty secret every turn of the loop consumes some of the pending text.\<close>

lemma drain_total: "nonempty_secrets os \<Longrightarrow> \<exists>os'. drain final os = Some os' \<and> nonempty_secrets os'"
proof (induction "length (os_pending os)" arbitrary: os rule: less_induct)
  case less
  let ?p = "os_pending os" and ?ss = "os_secrets os"
  consider "?p = []" | "?p \<noteq> []" "earliestSecret ?p ?ss = None"
    | i s where "?p \<noteq> []" "earliestSecret ?p ?ss = Some (i, s)" by (cases "earliestSecret ?p ?ss") auto
  then show ?case
  proof cases
    case 1
    with less.prems show ?thesis by (subst drain.simps) simp
  next
    case 2
    let ?os = "emitBounded ?p os\<lparr>os_pending := []\<rparr>"
    have "drain final ?os = Some ?os" by (subst drain.simps) simp
    with 2 less.prems show ?thesis by (subst drain.simps) (cases final; simp add: Let_def)
  next
    case (3 i s)
    let ?os = "emitBounded REDACTED (emitBounded (take i ?p) os)\<lparr>os_pending := drop (i + length s) ?p\<rparr>"
    from 3 less.prems have "s \<noteq> []"
      using earliestSecret_best [of ?p ?ss] by (auto simp: best_match_def nonempty_secrets_def)
    with 3 have "length (os_pending ?os) < length ?p" by (cases s) auto
    with less.hyps [of ?os] less.prems 3 show ?thesis by (subst drain.simps) simp
  qed
qed

lemma push_total: "nonempty_secrets os \<Longrightarrow> \<exists>os'. push c os = Some os' \<and> nonempty_secrets os'"
  using drain_total [of "os\<lparr>os_pending := os_pending os @ c\<rparr>" False] by (auto simp: push_def)

lemma flush_total: "nonempty_secrets os \<Longrightarrow> \<exists>os'. flush os = Some os' \<and> nonempty_secrets os'"
  using drain_total [of "os\<lparr>os_flushed := True\<rparr>" True] by (auto simp: flush_def)

definition cli_ready :: "cli_run \<Rightarrow> bool" where
  "cli_ready run \<longleftrightarrow> nonempty_secrets (cr_stdoutStream run) \<and> nonempty_secrets (cr_stderrStream run)"

lemma settle_total:
  assumes "cli_ready run"
  shows "\<exists>run'. settle outcome run = Some run' \<and> cli_ready run' \<and> cr_cancelled run' = cr_cancelled run \<and>
    cr_settled run' = Some (coalesce (cr_settled run) outcome)"
proof (cases "cr_settled run")
  case None
  obtain out err where "flush (cr_stdoutStream run) = Some out" "flush (cr_stderrStream run) = Some err"
    "nonempty_secrets out" "nonempty_secrets err"
    using assms flush_total unfolding cli_ready_def by metis
  with None show ?thesis by (simp add: settle_def cli_ready_def)
qed (use assms in \<open>simp add: settle_def\<close>)

text \<open>What one event does to the outcome and the cancellation.\<close>

fun ending :: "cli_event \<Rightarrow> bool" where
  "ending (ProcClose c) = True"
| "ending (ProcError m) = True"
| "ending _ = False"

definition cli_progress :: "cli_run \<Rightarrow> cli_event \<Rightarrow> cli_run \<Rightarrow> bool" where
  "cli_progress run e run' \<longleftrightarrow>
     (cr_settled run \<noteq> None \<longrightarrow> cr_settled run' = cr_settled run) \<and>
     (ending e \<longrightarrow> cr_settled run' \<noteq> None) \<and>
     (\<forall>m. e = ProcError m \<and> cr_settled run = None \<longrightarrow> cr_settled run' = Some (Rejected (cli_failure run ''spawn'' m None))) \<and>
     (cr_cancelled run \<longrightarrow> cr_cancelled run') \<and>
     (e = AbortSignal \<and> cr_settled run = None \<longrightarrow> cr_cancelled run' \<and> cr_settled run' = None) \<and>
     (cr_cancelled run \<and> cr_settled run = None \<longrightarrow> (\<forall>r. cr_settled run' \<noteq> Some (Resolved r)))"

lemma cli_step_total:
  assumes "cli_ready run"
  shows "\<exists>run'. cli_step run e = Some run' \<and> cli_ready run' \<and> cli_progress run e run'"
proof (cases e)
  case (StdoutData c)
  obtain out where "push c (cr_stdoutStream run) = Some out" "nonempty_secrets out"
    using assms push_total unfolding cli_ready_def by metis
  with assms StdoutData show ?thesis by (simp add: cli_ready_def cli_progress_def)
next
  case (StderrData c)
  obtain err where "push c (cr_stderrStream run) = Some err" "nonempty_secrets err"
    using assms push_total unfolding cli_ready_def by metis
  with assms StderrData show ?thesis by (simp add: cli_ready_def cli_progress_def)
next
  case (ProcError m)
  with settle_total [OF assms, of "Rejected (cli_failure run ''spawn'' m None)"] show ?thesis
    by (auto simp: cli_progress_def)
next
  case (ProcClose c)
  then show ?thesis
    using assms settle_total [OF assms, of "Rejected (cli_failure run ''cancelled'' ''command cancelled'' None)"]
      settle_total [OF assms, of "Rejected (cli_failure run ''exit'' ''command exited unsuccessfully'' c)"]
      settle_total [OF assms, of "Resolved (cli_result run c)"]
    by (auto simp: cli_progress_def)
next
  case AbortSignal
  with assms show ?thesis by (auto simp: cli_ready_def cli_progress_def)
next
  case TimeoutFires
  let ?r = "run\<lparr>cr_timedOut := True, cr_signals := cr_signals run @ [''SIGTERM'']\<rparr>"
  have "cli_ready ?r" using assms by (simp add: cli_ready_def)
  from settle_total [OF this, of "Rejected (cli_failure ?r ''timeout'' ''command timed out'' None)"] TimeoutFires assms
  show ?thesis by (auto simp: cli_progress_def Let_def cli_ready_def)
qed

lemma cli_events_total:
  assumes "cli_ready run"
  shows "\<exists>run'. cli_events run es = Some run' \<and> cli_ready run' \<and>
    (cr_settled run \<noteq> None \<longrightarrow> cr_settled run' = cr_settled run) \<and>
    ((\<exists>e \<in> set es. ending e) \<longrightarrow> cr_settled run' \<noteq> None) \<and>
    (cr_cancelled run \<and> cr_settled run = None \<longrightarrow> (\<forall>r. cr_settled run' \<noteq> Some (Resolved r)))"
  using assms
proof (induction es arbitrary: run)
  case (Cons e es)
  obtain r1 where r1: "cli_step run e = Some r1" "cli_ready r1" "cli_progress run e r1"
    using cli_step_total [OF Cons.prems] by blast
  obtain r2 where r2: "cli_events r1 es = Some r2" "cli_ready r2"
    "cr_settled r1 \<noteq> None \<Longrightarrow> cr_settled r2 = cr_settled r1"
    "(\<exists>e \<in> set es. ending e) \<longrightarrow> cr_settled r2 \<noteq> None"
    "cr_cancelled r1 \<Longrightarrow> cr_settled r1 = None \<Longrightarrow> \<forall>r. cr_settled r2 \<noteq> Some (Resolved r)"
    using Cons.IH [OF r1(2)] by blast
  have "cr_settled r2 = cr_settled run" if "cr_settled run \<noteq> None"
    using r1(3) r2(3) that by (simp add: cli_progress_def)
  moreover have "cr_settled r2 \<noteq> None" if "\<exists>e' \<in> set (e # es). ending e'"
    using r1(3) r2(3,4) that by (cases "ending e") (auto simp: cli_progress_def)
  moreover have "\<forall>r. cr_settled r2 \<noteq> Some (Resolved r)" if "cr_cancelled run" "cr_settled run = None"
    using r1(3) r2(3,5) that by (cases "cr_settled r1 = None") (auto simp: cli_progress_def)
  ultimately show ?case using r1(1) r2(1,2) by auto
qed simp

lemma executeCli_ready: "executeCli config cls t options = Inr run \<Longrightarrow> cli_ready run \<and> cr_settled run = None"
  by (auto simp: executeCli_def Let_def cli_ready_def nonempty_secrets_def newStream_def redactionsOf_def
      split: if_splits)

lemma cli_events_append: "cli_events run (es @ fs) = Option.bind (cli_events run es) (\<lambda>r. cli_events r fs)"
  by (induction es arbitrary: run) (auto split: bind_splits)

text \<open>C28: whatever the secrets are, and in whatever order the child's output, its failure, its end, a
  cancellation and the timer arrive, every event of a run is handled to its end; once the child has
  closed or has failed (the event \<open>error\<close>, with or without a later \<open>close\<close>) the promise is settled; a
  failure that comes before it has settled rejects it; an outcome is never replaced by a later event;
  and a run that was cancelled before it settled is never reported as a result.\<close>

theorem cli_run_settles_once:
  assumes "executeCli config cls timeoutSeconds options = Inr run"
  shows "\<exists>mid end. cli_events run es = Some mid \<and> cli_events run (es @ fs) = Some end \<and>
    ((\<exists>c. ProcClose c \<in> set es) \<or> (\<exists>m. ProcError m \<in> set es) \<longrightarrow> cr_settled mid \<noteq> None) \<and>
    (\<forall>outcome. cr_settled mid = Some outcome \<longrightarrow> cr_settled end = Some outcome) \<and>
    (\<forall>m. cr_settled mid = None \<and> fs \<noteq> [] \<and> hd fs = ProcError m \<longrightarrow>
       cr_settled end = Some (Rejected (cli_failure mid ''spawn'' m None))) \<and>
    (cr_settled mid = None \<and> fs \<noteq> [] \<and> hd fs = AbortSignal \<longrightarrow> (\<forall>r. cr_settled end \<noteq> Some (Resolved r)))"
proof -
  have ready: "cli_ready run" using executeCli_ready [OF assms] by simp
  obtain mid where mid: "cli_events run es = Some mid" "cli_ready mid"
    "(\<exists>e \<in> set es. ending e) \<longrightarrow> cr_settled mid \<noteq> None"
    using cli_events_total [OF ready] by blast
  obtain last where last: "cli_events mid fs = Some last" "cr_settled mid \<noteq> None \<longrightarrow> cr_settled last = cr_settled mid"
    using cli_events_total [OF mid(2)] by blast
  have "(\<exists>c. ProcClose c \<in> set es) \<or> (\<exists>m. ProcError m \<in> set es) \<longrightarrow> cr_settled mid \<noteq> None"
    using mid(3) ending.simps(1,2) by blast
  moreover have "\<forall>r. cr_settled last \<noteq> Some (Resolved r)" if abort: "cr_settled mid = None" "fs \<noteq> []" "hd fs = AbortSignal"
  proof -
    from abort obtain gs where fs: "fs = AbortSignal # gs" by (cases fs) auto
    obtain m where m: "cli_step mid AbortSignal = Some m" "cli_ready m" "cr_cancelled m" "cr_settled m = None"
      using cli_step_total [OF mid(2), of AbortSignal] abort(1) by (auto simp: cli_progress_def)
    with cli_events_total [OF m(2), of gs] last(1) fs show ?thesis by auto
  qed
  moreover have "cr_settled last = Some (Rejected (cli_failure mid ''spawn'' message None))"
    if failed: "cr_settled mid = None" "fs \<noteq> []" "hd fs = ProcError message" for message
  proof -
    from failed obtain gs where fs: "fs = ProcError message # gs" by (cases fs) auto
    obtain m where m: "cli_step mid (ProcError message) = Some m" "cli_ready m"
      "cr_settled m = Some (Rejected (cli_failure mid ''spawn'' message None))"
      using cli_step_total [OF mid(2), of "ProcError message"] failed(1) by (auto simp: cli_progress_def simp del: cli_step.simps)
    with cli_events_total [OF m(2), of gs] last(1) fs show ?thesis by (auto simp del: cli_step.simps)
  qed
  ultimately show ?thesis using mid last by (intro exI [of _ mid] exI [of _ last]) (auto simp: cli_events_append)
qed

definition example_config :: CliRunnerConfig where
  "example_config = \<lparr>rc_redactValues = [''0123456789abcdefghij''], rc_defaultTimeoutSeconds = 5,
     rc_maxTimeoutSeconds = 10, rc_maxOutputBytes = Some 39\<rparr>"

definition example_options :: CliExecutionOptions where
  "example_options = \<lparr>eo_credentialEnv = [], eo_timeoutMs = Some 100, eo_rejectOnNonZero = False, eo_aborted = False\<rparr>"

definition example_run :: cli_run where
  "example_run = projr (executeCli example_config ''read'' None example_options)"

lemma example_run_started: "executeCli example_config ''read'' None example_options = Inr example_run"
  by (simp add: example_run_def executeCli_def example_options_def Let_def)

theorem cli_run_settles_once_witness:
  "(\<exists>mid end. cli_events example_run [StdoutData ''a''] = Some mid \<and>
     cli_events example_run [StdoutData ''a'', AbortSignal, ProcClose (Some 0)] = Some end \<and>
     (cr_settled mid = None \<longrightarrow> (\<forall>r. cr_settled end \<noteq> Some (Resolved r)))) \<and>
   (\<exists>end. cli_events example_run [ProcError ''ENOENT''] = Some end \<and> cr_settled end \<noteq> None)"
proof
  show "\<exists>mid end. cli_events example_run [StdoutData ''a''] = Some mid \<and>
     cli_events example_run [StdoutData ''a'', AbortSignal, ProcClose (Some 0)] = Some end \<and>
     (cr_settled mid = None \<longrightarrow> (\<forall>r. cr_settled end \<noteq> Some (Resolved r)))"
    using cli_run_settles_once [OF example_run_started, of "[StdoutData ''a'']" "[AbortSignal, ProcClose (Some 0)]"]
    by auto
  show "\<exists>end. cli_events example_run [ProcError ''ENOENT''] = Some end \<and> cr_settled end \<noteq> None"
    using cli_run_settles_once [OF example_run_started, of "[ProcError ''ENOENT'']" "[]"] by auto
qed

text \<open>The captured output leaks. It is cut to the limit and the length of the longest secret, then
  redacted, then cut to the limit; redacting shortens it, so a secret that the first cut has left
  incomplete can end up below the limit. A run that prints a secret three times reports nineteen of its
  twenty characters.\<close>

lemma captured_output_leaks_secret:
  "map_option (map_option (\<lambda>out. case out of Resolved r \<Rightarrow> cx_stdout r | Rejected e \<Rightarrow> []) \<circ> cr_settled)
     (cli_events example_run [StdoutData (concat (replicate 3 ''0123456789abcdefghij'')), ProcClose (Some 0)]) =
   Some (Some ''[redacted][redacted]0123456789abcdefghi'')"
  by code_simp

end
