(* ===== verification/Governed_Cli.thy ===== *)
theory Governed_Cli
  imports Task_Authorization Command_Execution
begin

text \<open>
  The governed command line server: the pack that describes a command (\<open>pack.ts\<close>), the decision
  catalog (\<open>catalog.ts\<close>), the classifier of \<open>kubectl\<close> command lines (\<open>kubectl-classifier.ts\<close>) and the
  preparation of a run (\<open>http.ts\<close>, \<open>governed-http.ts\<close>). A thrown error is its message.
\<close>

section \<open>Properties of plain objects\<close>

text \<open>\<open>object[key]\<close> on a plain object also finds what every object inherits; such a value is truthy but is
  none of the entries of the object.\<close>

datatype 'a js_prop = Own 'a | Inherited | Absent

definition OBJECT_PROTOTYPE_KEYS :: "string list" where
  "OBJECT_PROTOTYPE_KEYS =
     [''constructor'', ''__proto__'', ''hasOwnProperty'', ''isPrototypeOf'', ''propertyIsEnumerable'',
      ''toString'', ''toLocaleString'', ''valueOf'', ''__defineGetter__'', ''__defineSetter__'',
      ''__lookupGetter__'', ''__lookupSetter__'']"

definition js_lookup :: "(string, 'a) jsmap \<Rightarrow> string \<Rightarrow> 'a js_prop" where
  "js_lookup m k = (case js_get m k of
     Some v \<Rightarrow> Own v | None \<Rightarrow> if k \<in> set OBJECT_PROTOTYPE_KEYS then Inherited else Absent)"

lemma js_lookup_Own: "js_lookup m k = Own v \<longleftrightarrow> js_get m k = Some v"
  by (auto simp: js_lookup_def split: option.splits)

section \<open>Packs\<close>

record CliPackFlags =
  fl_value :: "string list"
  fl_boolean :: "string list"
  fl_output :: "string list"

record CliPackOperation =
  po_rbacVerbs :: "string list"
  po_rbacResources :: "string list"
  po_flags :: CliPackFlags

record CliPack =
  pk_cli :: string
  pk_binaryPath :: string
  pk_binaryVersion :: string
  pk_sha256 :: "string \<times> string"
  pk_provider :: string
  pk_sourceEnv :: string
  pk_targetEnv :: string
  pk_env :: "(string, string) jsmap"
  pk_cwd :: string
  pk_timeoutSeconds :: int
  pk_maxTimeoutSeconds :: int
  pk_outputBytes :: int
  pk_maxBodyBytes :: int
  pk_maxArgs :: int
  pk_maxArgBytes :: int
  pk_maxJobs :: int
  pk_maxRunningJobsPerOwner :: int
  pk_retentionSeconds :: int
  pk_operations :: "(string, CliPackOperation) jsmap"
  pk_outputFormats :: "string list"
  pk_overlayOperations :: "string list"
  pk_overlayResources :: "string list"
  pk_commands :: "(string, string) jsmap"

definition pack_record :: "json option \<Rightarrow> string \<Rightarrow> string + (string \<times> json) list" where
  "pack_record v field =
     (case Option.bind v as_record of None \<Rightarrow> Inl (field @ '' must be a mapping'') | Some fs \<Rightarrow> Inr fs)"

text \<open>The first field that is not allowed is an error, unless its name is the empty string, which is falsy.\<close>

definition assertOnlyKeys :: "string \<Rightarrow> (string \<times> json) list \<Rightarrow> string list \<Rightarrow> string + unit" where
  "assertOnlyKeys complaint fs names =
     (case List.find (\<lambda>k. k \<notin> set names) (map fst fs) of
        Some k \<Rightarrow> (if k \<noteq> [] then Inl (complaint @ k) else Inr ())
      | None \<Rightarrow> Inr ())"

definition only :: "(string \<times> json) list \<Rightarrow> string list \<Rightarrow> string + unit" where
  "only fs names = assertOnlyKeys ''unknown pack field: '' fs names"

definition pack_text :: "json option \<Rightarrow> string \<Rightarrow> string + string" where
  "pack_text v field =
     (case nonblank v of None \<Rightarrow> Inl (field @ '' must be a non-empty string'') | Some s \<Rightarrow> Inr s)"

text \<open>\<open>/^[a-z][a-z0-9-]*$/\<close>, \<open>/^[A-Z_][A-Z0-9_]*$/\<close> and \<open>/^[a-f0-9]{64}$/\<close>.\<close>

definition namePattern :: "string \<Rightarrow> bool" where
  "namePattern s \<longleftrightarrow> s \<noteq> [] \<and> is_lower_alpha (hd s) \<and>
     list_all (\<lambda>c. is_lower_alpha c \<or> is_digit c \<or> c = CHR ''-'') s"

definition envPattern :: "string \<Rightarrow> bool" where
  "envPattern s \<longleftrightarrow> s \<noteq> [] \<and> (is_upper_alpha (hd s) \<or> hd s = CHR ''_'') \<and>
     list_all (\<lambda>c. is_upper_alpha c \<or> is_digit c \<or> c = CHR ''_'') s"

definition digestPattern :: "string \<Rightarrow> bool" where
  "digestPattern s \<longleftrightarrow> length s = 64 \<and> list_all (\<lambda>c. is_digit c \<or> c \<in> set ''abcdef'') s"

definition checked_text :: "(string \<Rightarrow> bool) \<Rightarrow> string \<Rightarrow> json option \<Rightarrow> string \<Rightarrow> string + string" where
  "checked_text ok complaint v field =
     sum_bind (pack_text v field) (\<lambda>s. if ok s then Inr s else Inl (field @ complaint))"

abbreviation pack_name :: "json option \<Rightarrow> string \<Rightarrow> string + string" where
  "pack_name \<equiv> checked_text namePattern '' is invalid''"

abbreviation absolute :: "json option \<Rightarrow> string \<Rightarrow> string + string" where
  "absolute \<equiv> checked_text (prefix ''/'') '' must be absolute''"

abbreviation envName :: "json option \<Rightarrow> string \<Rightarrow> string + string" where
  "envName \<equiv> checked_text envPattern '' is invalid''"

abbreviation pack_digest :: "json option \<Rightarrow> string \<Rightarrow> string + string" where
  "pack_digest \<equiv> checked_text digestPattern '' is invalid''"

definition positive :: "json option \<Rightarrow> string \<Rightarrow> string + int" where
  "positive v field =
     (case v of
        Some (JNum n) \<Rightarrow>
          (if n \<in> \<int> \<and> 0 < n \<and> n \<le> 9007199254740991 then Inr \<lfloor>n\<rfloor>
           else Inl (field @ '' must be a positive integer''))
      | _ \<Rightarrow> Inl (field @ '' must be a positive integer''))"

text \<open>An array of strings that are not blank.\<close>

definition text_array :: "json option \<Rightarrow> string list option" where
  "text_array v =
     (case Option.bind v as_array of
        None \<Rightarrow> None | Some xs \<Rightarrow> sequence_opt (map (\<lambda>x. nonblank (Some x)) xs))"

definition flagList :: "json option \<Rightarrow> string \<Rightarrow> string + string list" where
  "flagList v op =
     (case text_array v of
        None \<Rightarrow> Inl (op @ ''.flags must be a string array'')
      | Some flags \<Rightarrow>
          (if list_ex (\<lambda>f. \<not> prefix ''-'' f \<or> CHR ''='' \<in> set f) flags
           then Inl (''pack operation '' @ op @ '' contains an invalid flag'') else Inr flags))"

definition stringList :: "json option \<Rightarrow> string \<Rightarrow> string + string list" where
  "stringList v field =
     (case text_array v of
        Some (x # xs) \<Rightarrow> Inr (x # xs) | _ \<Rightarrow> Inl (field @ '' must be a non-empty string array''))"

fun stringRecord_from ::
  "(string, string) jsmap \<Rightarrow> string \<Rightarrow> (string \<times> json) list \<Rightarrow> string + (string, string) jsmap" where
  "stringRecord_from result field [] = Inr result"
| "stringRecord_from result field ((key, item) # fs) =
     sum_bind (envName (Some (JStr key)) (field @ '' key'')) (\<lambda>_.
     sum_bind (pack_text (Some item) (field @ ''.'' @ key)) (\<lambda>s.
     stringRecord_from (js_set key s result) field fs))"

definition stringRecord :: "json option \<Rightarrow> string \<Rightarrow> string + (string, string) jsmap" where
  "stringRecord v field = sum_bind (pack_record v field) (stringRecord_from [] field)"

definition classForRbacVerbs :: "string list \<Rightarrow> string + string" where
  "classForRbacVerbs verbs =
     (if verbs = [] \<or> list_ex (\<lambda>v. v \<noteq> ''get'' \<and> v \<noteq> ''list'') verbs
      then Inl ''kubectl pack permits only read RBAC verbs get and list'' else Inr ''read'')"

definition parseOperation :: "string \<Rightarrow> json \<Rightarrow> string + CliPackOperation" where
  "parseOperation op raw =
     sum_bind (pack_name (Some (JStr op)) ''pack operation'') (\<lambda>_.
     sum_bind (pack_record (Some raw) (''pack.operations.'' @ op)) (\<lambda>config.
     sum_bind (only config [''rbacVerbs'', ''rbacResources'', ''flags'']) (\<lambda>_.
     sum_bind (pack_record (js_get config ''flags'') (''pack.operations.'' @ op @ ''.flags'')) (\<lambda>flags.
     sum_bind (only flags [''value'', ''boolean'', ''output'']) (\<lambda>_.
     sum_bind (flagList (js_get flags ''value'') op) (\<lambda>values.
     sum_bind (flagList (js_get flags ''boolean'') op) (\<lambda>booleans.
     sum_bind (flagList (js_get flags ''output'') op) (\<lambda>outputs.
       let allFlags = values @ booleans @ outputs in
       if length (js_unique allFlags) \<noteq> length allFlags then Inl (''pack operation '' @ op @ '' repeats a flag'')
       else
         sum_bind (stringList (js_get config ''rbacVerbs'') (op @ ''.rbacVerbs'')) (\<lambda>verbs.
         sum_bind (classForRbacVerbs verbs) (\<lambda>_.
         sum_bind (stringList (js_get config ''rbacResources'') (op @ ''.rbacResources'')) (\<lambda>resources.
         Inr \<lparr>po_rbacVerbs = verbs, po_rbacResources = resources,
              po_flags = \<lparr>fl_value = values, fl_boolean = booleans, fl_output = outputs\<rparr>\<rparr>)))))))))))"

fun parseOperations_from ::
  "(string, CliPackOperation) jsmap \<Rightarrow> (string \<times> json) list \<Rightarrow> string + (string, CliPackOperation) jsmap" where
  "parseOperations_from operations [] = Inr operations"
| "parseOperations_from operations ((op, raw) # fs) =
     sum_bind (parseOperation op raw) (\<lambda>p. parseOperations_from (js_set op p operations) fs)"

definition parseOperations :: "json option \<Rightarrow> string + (string, CliPackOperation) jsmap" where
  "parseOperations v =
     sum_bind (pack_record v ''pack.operations'') (\<lambda>source.
       if source = [] then Inl ''pack.operations must not be empty'' else parseOperations_from [] source)"

text \<open>The decision catalog that a pack implies.\<close>

fun packCommands ::
  "string list \<Rightarrow> (string, string) jsmap \<Rightarrow> (string \<times> CliPackOperation) list \<Rightarrow> string + (string, string) jsmap" where
  "packCommands overlay commands [] = Inr commands"
| "packCommands overlay commands ((op, config) # ops) =
     sum_bind (classForRbacVerbs (po_rbacVerbs config)) (\<lambda>cls.
       let commands = js_set op cls commands;
           commands = (if op \<in> set overlay then js_set (op @ '':secret'') ''secret-read'' commands else commands) in
       packCommands overlay commands ops)"

definition ROOT_FIELDS :: "string list" where
  "ROOT_FIELDS = [''schemaVersion'', ''cli'', ''parser'', ''binary'', ''credential'', ''runner'', ''operations'',
     ''outputFormats'', ''secretOverlay'']"

definition LIMIT_FIELDS :: "string list" where
  "LIMIT_FIELDS = [''requestBodyBytes'', ''args'', ''argBytes'', ''timeoutSeconds'', ''maxTimeoutSeconds'',
     ''outputBytes'', ''maxJobs'', ''maxRunningJobsPerOwner'', ''jobRetentionSeconds'']"

definition require :: "bool \<Rightarrow> string \<Rightarrow> string + unit" where
  "require ok message = (if ok then Inr () else Inl message)"

text \<open>The secret overlay: its operations and resources.\<close>

definition parseOverlay ::
  "json option \<Rightarrow> (string, CliPackOperation) jsmap \<Rightarrow> string + (string list \<times> string list)" where
  "parseOverlay v operations =
     sum_bind (pack_record v ''pack.secretOverlay'') (\<lambda>overlay.
     sum_bind (only overlay [''operations'', ''resources'', ''class'']) (\<lambda>_.
     sum_bind (require (js_get overlay ''class'' = Some (JStr ''secret-read''))
                 ''pack.secretOverlay.class must be secret-read'') (\<lambda>_.
     sum_bind (stringList (js_get overlay ''operations'') ''pack.secretOverlay.operations'') (\<lambda>ops.
     sum_bind (case List.find (\<lambda>op. js_lookup operations op = Absent) (js_unique ops) of
                 Some op \<Rightarrow> Inl (''secret overlay references unknown '' @ op) | None \<Rightarrow> Inr ()) (\<lambda>_.
     sum_bind (stringList (js_get overlay ''resources'') ''pack.secretOverlay.resources'') (\<lambda>resources.
     Inr (js_unique ops, js_unique resources)))))))"

definition parseCliPack :: "(string \<Rightarrow> string + json) \<Rightarrow> string \<Rightarrow> string + CliPack" where
  "parseCliPack parseYaml source =
     sum_bind (parseYaml source) (\<lambda>doc.
     sum_bind (pack_record (Some doc) ''pack'') (\<lambda>root.
     sum_bind (only root ROOT_FIELDS) (\<lambda>_.
     sum_bind (require (js_get root ''schemaVersion'' = Some (JStr ''mcp-gateway.cli-pack/v1''))
                 ''pack.schemaVersion must be mcp-gateway.cli-pack/v1'') (\<lambda>_.
     sum_bind (pack_name (js_get root ''cli'') ''pack.cli'') (\<lambda>cli.
     sum_bind (require (js_get root ''parser'' = Some (JStr ''kubectl'')) ''pack.parser must be kubectl'') (\<lambda>_.
     sum_bind (pack_record (js_get root ''binary'') ''pack.binary'') (\<lambda>binary.
     sum_bind (only binary [''path'', ''version'', ''sha256'']) (\<lambda>_.
     sum_bind (absolute (js_get binary ''path'') ''pack.binary.path'') (\<lambda>path.
     sum_bind (pack_text (js_get binary ''version'') ''pack.binary.version'') (\<lambda>version.
     sum_bind (pack_record (js_get binary ''sha256'') ''pack.binary.sha256'') (\<lambda>sha256.
     sum_bind (only sha256 [''amd64'', ''arm64'']) (\<lambda>_.
     sum_bind (pack_digest (js_get sha256 ''amd64'') ''pack.binary.sha256.amd64'') (\<lambda>amd64.
     sum_bind (pack_digest (js_get sha256 ''arm64'') ''pack.binary.sha256.arm64'') (\<lambda>arm64.
     sum_bind (pack_record (js_get root ''credential'') ''pack.credential'') (\<lambda>credential.
     sum_bind (only credential [''provider'', ''sourceEnv'', ''targetEnv'']) (\<lambda>_.
     sum_bind (pack_name (js_get credential ''provider'') ''pack.credential.provider'') (\<lambda>provider.
     sum_bind (envName (js_get credential ''sourceEnv'') ''pack.credential.sourceEnv'') (\<lambda>sourceEnv.
     sum_bind (envName (js_get credential ''targetEnv'') ''pack.credential.targetEnv'') (\<lambda>targetEnv.
     sum_bind (pack_record (js_get root ''runner'') ''pack.runner'') (\<lambda>runner.
     sum_bind (only runner [''cwd'', ''env'', ''limits'']) (\<lambda>_.
     sum_bind (stringRecord (js_get runner ''env'') ''pack.runner.env'') (\<lambda>env.
     sum_bind (require (js_get env targetEnv = None)
                 ''credential targetEnv must not be present in runner.env'') (\<lambda>_.
     sum_bind (pack_record (js_get runner ''limits'') ''pack.runner.limits'') (\<lambda>limits.
     sum_bind (only limits LIMIT_FIELDS) (\<lambda>_.
     sum_bind (positive (js_get limits ''timeoutSeconds'') ''pack.runner.limits.timeoutSeconds'') (\<lambda>timeout.
     sum_bind (positive (js_get limits ''maxTimeoutSeconds'') ''pack.runner.limits.maxTimeoutSeconds'') (\<lambda>maxTimeout.
     sum_bind (require (timeout \<le> maxTimeout) ''pack runner timeout exceeds its maximum'') (\<lambda>_.
     sum_bind (parseOperations (js_get root ''operations'')) (\<lambda>operations.
     sum_bind (stringList (js_get root ''outputFormats'') ''pack.outputFormats'') (\<lambda>formats.
     sum_bind (parseOverlay (js_get root ''secretOverlay'') operations) (\<lambda>overlay.
     sum_bind (packCommands (fst overlay) [] operations) (\<lambda>commands.
     sum_bind (absolute (js_get runner ''cwd'') ''pack.runner.cwd'') (\<lambda>cwd.
     sum_bind (positive (js_get limits ''outputBytes'') ''pack.runner.limits.outputBytes'') (\<lambda>outputBytes.
     sum_bind (positive (js_get limits ''requestBodyBytes'') ''pack.runner.limits.requestBodyBytes'') (\<lambda>bodyBytes.
     sum_bind (positive (js_get limits ''args'') ''pack.runner.limits.args'') (\<lambda>maxArgs.
     sum_bind (positive (js_get limits ''argBytes'') ''pack.runner.limits.argBytes'') (\<lambda>argBytes.
     sum_bind (positive (js_get limits ''maxJobs'') ''pack.runner.limits.maxJobs'') (\<lambda>maxJobs.
     sum_bind (positive (js_get limits ''maxRunningJobsPerOwner'') ''pack.runner.limits.maxRunningJobsPerOwner'') (\<lambda>perOwner.
     sum_bind (positive (js_get limits ''jobRetentionSeconds'') ''pack.runner.limits.jobRetentionSeconds'') (\<lambda>retention.
     Inr \<lparr>pk_cli = cli, pk_binaryPath = path, pk_binaryVersion = version, pk_sha256 = (amd64, arm64),
          pk_provider = provider, pk_sourceEnv = sourceEnv, pk_targetEnv = targetEnv, pk_env = env, pk_cwd = cwd,
          pk_timeoutSeconds = timeout, pk_maxTimeoutSeconds = maxTimeout, pk_outputBytes = outputBytes,
          pk_maxBodyBytes = bodyBytes, pk_maxArgs = maxArgs, pk_maxArgBytes = argBytes, pk_maxJobs = maxJobs,
          pk_maxRunningJobsPerOwner = perOwner, pk_retentionSeconds = retention, pk_operations = operations,
          pk_outputFormats = js_unique formats, pk_overlayOperations = fst overlay,
          pk_overlayResources = snd overlay, pk_commands = commands\<rparr>))))))))))))))))))))))))))))))))))))))))"

section \<open>Decision catalogs\<close>

text \<open>An assignment to \<open>commands["__proto__"]\<close> adds no command.\<close>

fun parseDecisions ::
  "(string, string) jsmap \<Rightarrow> (string \<times> json) list \<Rightarrow> string + (string, string) jsmap" where
  "parseDecisions commands [] = Inr commands"
| "parseDecisions commands ((command, raw) # fs) =
     (case (trim command = [], as_record raw) of
        (False, Some r) \<Rightarrow>
          sum_bind (assertOnlyKeys (''CLI decision '' @ command @ '' contains unknown field '') r [''class'']) (\<lambda>_.
            case js_get r ''class'' of
              Some (JStr c) \<Rightarrow>
                (if c \<in> set ACTION_CLASSES
                 then parseDecisions (if command = ''__proto__'' then commands else js_set command c commands) fs
                 else Inl (''CLI decision '' @ command @ '' has an invalid class''))
            | _ \<Rightarrow> Inl (''CLI decision '' @ command @ '' has an invalid class''))
      | _ \<Rightarrow> Inl ''CLI decision command names and values must be non-empty mappings'')"

text \<open>The catalog: its command line and the class of each of its commands.\<close>

definition parseCliDecisionCatalog ::
  "(string \<Rightarrow> string + json) \<Rightarrow> string \<Rightarrow> string + (string \<times> (string, string) jsmap)" where
  "parseCliDecisionCatalog parseYaml source =
     sum_bind (parseYaml source) (\<lambda>doc.
       case as_record doc of
         None \<Rightarrow> Inl ''CLI decisions must use schemaVersion mcp-gateway.cli-decisions/v1''
       | Some fs \<Rightarrow>
           (if js_get fs ''schemaVersion'' \<noteq> Some (JStr ''mcp-gateway.cli-decisions/v1'')
            then Inl ''CLI decisions must use schemaVersion mcp-gateway.cli-decisions/v1''
            else
              sum_bind (assertOnlyKeys ''CLI decisions contains unknown field '' fs
                          [''schemaVersion'', ''cli'', ''commands'']) (\<lambda>_.
                case nonblank (js_get fs ''cli'') of
                  None \<Rightarrow> Inl ''CLI decisions cli must be a non-empty string''
                | Some cli \<Rightarrow>
                    (case Option.bind (js_get fs ''commands'') as_record of
                       Some (c # cs) \<Rightarrow> sum_bind (parseDecisions [] (c # cs)) (\<lambda>commands. Inr (cli, commands))
                     | _ \<Rightarrow> Inl ''CLI decisions commands must be a non-empty mapping''))))"

section \<open>Classification of kubectl command lines\<close>

definition FORBIDDEN_FLAGS :: "string list" where
  "FORBIDDEN_FLAGS = [''--as'', ''--as-group'', ''--as-uid'', ''--token'', ''--server'', ''--kubeconfig'',
     ''--context'', ''--cluster'', ''--user'', ''--certificate-authority'', ''--insecure-skip-tls-verify'',
     ''--raw'', ''--filename'', ''-f'']"

definition globalFlags :: "CliPack \<Rightarrow> CliPackFlags" where
  "globalFlags pack =
     (let flagSets = map (po_flags \<circ> snd) (pk_operations pack) in
      \<lparr>fl_value = js_unique (filter (\<lambda>f. f = ''--namespace'' \<or> f = ''-n'') (concat (map fl_value flagSets))),
       fl_boolean = js_unique (filter (\<lambda>f. f = ''--all-namespaces'' \<or> f = ''-A'') (concat (map fl_boolean flagSets))),
       fl_output = []\<rparr>)"

definition flagName :: "string \<Rightarrow> string" where
  "flagName argument = takeWhile (\<lambda>c. c \<noteq> CHR ''='') argument"

definition inlineValue :: "string \<Rightarrow> string option" where
  "inlineValue argument =
     (if CHR ''='' \<in> set argument then Some (tl (dropWhile (\<lambda>c. c \<noteq> CHR ''='') argument)) else None)"

text \<open>\<open>Inr True\<close>: the next argument is consumed too.\<close>

definition consumeFlag ::
  "CliPack \<Rightarrow> CliPackFlags \<Rightarrow> string \<Rightarrow> string list \<Rightarrow> string + bool" where
  "consumeFlag pack flags argument rest =
     (let flag = flagName argument; inline = inlineValue argument in
      if flag \<in> set (fl_boolean flags)
      then (if inline \<noteq> None then Inl (''kubectl flag '' @ flag @ '' does not take a value'') else Inr False)
      else if flag \<notin> set (fl_output flags) \<and> flag \<notin> set (fl_value flags)
      then Inl (''kubectl flag '' @ flag @ '' is not approved'')
      else case orelse inline (case rest of [] \<Rightarrow> None | r # rs \<Rightarrow> Some r) of
          None \<Rightarrow> Inl (''kubectl flag '' @ flag @ '' requires a value'')
        | Some v \<Rightarrow>
            (if v = [] \<or> (inline = None \<and> prefix ''-'' v)
             then Inl (''kubectl flag '' @ flag @ '' requires a value'')
             else if flag \<in> set (fl_output flags) \<and> v \<notin> set (pk_outputFormats pack)
             then Inl ''kubectl output format is not approved''
             else Inr (inline = None)))"

text \<open>The loop: the operation found so far, with its configuration, and the positional arguments.\<close>

function kubectlLoop ::
  "CliPack \<Rightarrow> (string \<times> CliPackOperation js_prop) option \<Rightarrow> string list \<Rightarrow> string list \<Rightarrow>
   string + ((string \<times> CliPackOperation js_prop) option \<times> string list)" where
  "kubectlLoop pack oper positionals [] = Inr (oper, positionals)"
| "kubectlLoop pack oper positionals (argument # rest) =
     (if argument = ''--'' then Inl ''kubectl argument separators are not approved''
      else if prefix ''-'' argument
      then (if flagName argument \<in> set FORBIDDEN_FLAGS
            then Inl (''kubectl flag '' @ flagName argument @ '' is not approved'')
            else
              (let flags = (case oper of Some (n, Own config) \<Rightarrow> po_flags config | _ \<Rightarrow> globalFlags pack) in
               case consumeFlag pack flags argument rest of
                 Inl e \<Rightarrow> Inl e
               | Inr False \<Rightarrow> kubectlLoop pack oper positionals rest
               | Inr True \<Rightarrow> kubectlLoop pack oper positionals (tl rest)))
      else case oper of
          None \<Rightarrow>
            (case js_lookup (pk_operations pack) argument of
               Absent \<Rightarrow> Inl ''kubectl subcommand is not approved''
             | p \<Rightarrow> kubectlLoop pack (Some (argument, p)) positionals rest)
        | Some c \<Rightarrow> kubectlLoop pack oper (positionals @ [argument]) rest)"
  by pat_completeness auto
termination by (relation "measure (\<lambda>(pack, oper, positionals, args). length args)") auto

definition resourceNames :: "string \<Rightarrow> string list" where
  "resourceNames v =
     map (\<lambda>r. to_lower_case (hd (split_on (CHR ''.'') (hd (split_on (CHR ''/'') r))))) (split_on (CHR '','') v)"

text \<open>A class is \<open>undefined\<close> when the decision is a value that the catalog inherits.\<close>

record ClassifiedCommand =
  cc_command :: string
  cc_class :: "string option"

definition namesSecret :: "CliPack \<Rightarrow> string list \<Rightarrow> bool" where
  "namesSecret pack positionals =
     list_ex (\<lambda>v. list_ex (\<lambda>n. n \<in> set (pk_overlayResources pack)) (resourceNames v)) positionals"

definition classifyKubectl :: "CliPack \<Rightarrow> string list \<Rightarrow> string + ClassifiedCommand" where
  "classifyKubectl pack args =
     (case kubectlLoop pack None [] args of
        Inl e \<Rightarrow> Inl e
      | Inr (None, _) \<Rightarrow> Inl ''kubectl subcommand is required''
      | Inr (Some (op, config), positionals) \<Rightarrow>
          (if positionals = [] then Inl (''kubectl '' @ op @ '' requires a resource'')
           else if op = ''logs'' \<and> length positionals \<noteq> 1 then Inl ''kubectl logs accepts one workload argument''
           else if hd positionals = [] then Inl (''kubectl '' @ op @ '' requires a resource'')
           else
             (let command = (if op \<in> set (pk_overlayOperations pack) \<and> namesSecret pack positionals
                             then op @ '':secret'' else op) in
              case js_lookup (pk_commands pack) command of
                Absent \<Rightarrow> Inl ''kubectl operation has no catalog decision''
              | Own c \<Rightarrow> Inr \<lparr>cc_command = command, cc_class = Some c\<rparr>
              | Inherited \<Rightarrow> Inr \<lparr>cc_command = command, cc_class = None\<rparr>)))"

end
