(* ===== verification/Hop1.thy ===== *)
theory Hop1
  imports Dcr
begin

text \<open>
  \<open>shared/identity/hop1.ts\<close> and \<open>packages/wrapper-kit/src/authenticator.ts\<close>: who a bearer token speaks for.
  The \<open>jose\<close> package, the keys an issuer publishes and its introspection endpoint are parameters. A
  thrown \<open>Hop1ValidationError\<close> is its message and classification.
\<close>

section \<open>Issuers, identities and failures\<close>

definition HOP1_SUPPORTED_ALGORITHMS :: "string list" where
  "HOP1_SUPPORTED_ALGORITHMS =
     [''RS256'', ''RS384'', ''RS512'', ''PS256'', ''PS384'', ''PS512'', ''ES256'', ''ES384'', ''EdDSA'']"

record IssuerProfile =
  ip_name :: string
  ip_issuer :: string
  ip_audiences :: "string list"
  ip_allowedAlgorithms :: "string list"
  ip_emailClaim :: string
  ip_subjectClaim :: "string option"

record Hop1IssuerConfig = IssuerProfile +
  ip_jwksUrl :: string
  ip_introspectionUrl :: "string option"
  ip_introspectionClientCredential :: "string option"

type_synonym claims = "(string \<times> json) list"

record Hop1Identity =
  hi_profile :: string
  hi_issuer :: string
  hi_subject :: string
  hi_email :: string
  hi_claims :: claims

datatype Hop1FailureClassification =
    missing_bearer | malformed_token | untrusted_issuer | jwks_unavailable | unknown_key
  | invalid_signature | invalid_audience | expired_token | missing_subject | missing_email
  | inactive_token | introspection_unavailable

record Hop1ValidationError =
  he_message :: string
  he_classification :: Hop1FailureClassification

definition hop1_error :: "string \<Rightarrow> Hop1FailureClassification \<Rightarrow> Hop1ValidationError" where
  "hop1_error message c = \<lparr>he_message = message, he_classification = c\<rparr>"

section \<open>Configuration of the issuers\<close>

definition requireNonEmpty :: "string \<Rightarrow> string \<Rightarrow> string + unit" where
  "requireNonEmpty v name = (if trim v = [] then Inl (name @ '' must be a non-empty string'') else Inr ())"

definition requireHttpUrl :: "web_lib \<Rightarrow> string \<Rightarrow> string \<Rightarrow> string + unit" where
  "requireHttpUrl web v name =
     (case parseURL web v of
        None \<Rightarrow> Inl (name @ '' must be an absolute HTTP(S) URL'')
      | Some url \<Rightarrow>
          (if (url_protocol url \<noteq> ''https:'' \<and> url_protocol url \<noteq> ''http:'') \<or> url_hostname url = []
           then Inl (name @ '' must be an absolute HTTP(S) URL'') else Inr ()))"

definition requireUniqueNonEmptyStrings :: "string list \<Rightarrow> string \<Rightarrow> string + unit" where
  "requireUniqueNonEmptyStrings vs name =
     (if vs = [] \<or> list_ex (\<lambda>v. trim v = []) vs
      then Inl (name @ '' must be a non-empty array of non-empty strings'')
      else if length (js_unique vs) \<noteq> length vs then Inl (name @ '' must not contain duplicates'')
      else Inr ())"

definition requireOptional :: "(string \<Rightarrow> string + unit) \<Rightarrow> string option \<Rightarrow> string + unit" where
  "requireOptional check v = (case v of None \<Rightarrow> Inr () | Some s \<Rightarrow> check s)"

definition validateProfile ::
  "web_lib \<Rightarrow> nat \<Rightarrow> string list \<Rightarrow> string list \<Rightarrow> Hop1IssuerConfig \<Rightarrow> string + unit" where
  "validateProfile web index names issuers p =
     (let pre = ''HOP-1 issuer profile '' @ nat_str index in
      sum_bind (requireNonEmpty (ip_name p) (pre @ ''.name'')) (\<lambda>_.
      sum_bind (requireHttpUrl web (ip_issuer p) (pre @ ''.issuer'')) (\<lambda>_.
      sum_bind (requireHttpUrl web (ip_jwksUrl p) (pre @ ''.jwksUrl'')) (\<lambda>_.
      sum_bind (requireUniqueNonEmptyStrings (ip_audiences p) (pre @ ''.audiences'')) (\<lambda>_.
      sum_bind (requireUniqueNonEmptyStrings (ip_allowedAlgorithms p) (pre @ ''.allowedAlgorithms'')) (\<lambda>_.
      sum_bind (requireNonEmpty (ip_emailClaim p) (pre @ ''.emailClaim'')) (\<lambda>_.
      sum_bind (requireOptional (\<lambda>s. requireNonEmpty s (pre @ ''.subjectClaim'')) (ip_subjectClaim p)) (\<lambda>_.
      sum_bind (requireOptional (\<lambda>s. requireHttpUrl web s (pre @ ''.introspectionUrl'')) (ip_introspectionUrl p)) (\<lambda>_.
        if ip_name p \<in> set names then Inl (''Duplicate HOP-1 issuer profile name: '' @ ip_name p)
        else if ip_issuer p \<in> set issuers then Inl (''Duplicate HOP-1 issuer URL: '' @ ip_issuer p)
        else Inr ())))))))))"

fun validateProfiles_from ::
  "web_lib \<Rightarrow> nat \<Rightarrow> string list \<Rightarrow> string list \<Rightarrow> Hop1IssuerConfig list \<Rightarrow> string + unit" where
  "validateProfiles_from web index names issuers [] = Inr ()"
| "validateProfiles_from web index names issuers (p # ps) =
     sum_bind (validateProfile web index names issuers p) (\<lambda>_.
       validateProfiles_from web (Suc index) (ip_name p # names) (ip_issuer p # issuers) ps)"

definition validateHop1IssuerProfiles :: "web_lib \<Rightarrow> Hop1IssuerConfig list \<Rightarrow> string + Hop1IssuerConfig list" where
  "validateHop1IssuerProfiles web ps =
     (if ps = [] then Inl ''At least one HOP-1 issuer profile is required''
      else sum_bind (validateProfiles_from web 0 [] [] ps) (\<lambda>_. Inr ps))"

section \<open>Validation of a token\<close>

text \<open>\<open>{ ...identity.claims, email, sub }\<close>.\<close>

definition normalizedHop1Claims :: "Hop1Identity \<Rightarrow> claims" where
  "normalizedHop1Claims identity =
     js_set ''sub'' (JStr (hi_subject identity)) (js_set ''email'' (JStr (hi_email identity)) (hi_claims identity))"

definition claimAsString :: "claims \<Rightarrow> string \<Rightarrow> string option" where
  "claimAsString cs claimName =
     (case js_get cs claimName of Some (JStr s) \<Rightarrow> if s \<noteq> [] then Some s else None | _ \<Rightarrow> None)"

text \<open>The errors of the \<open>jose\<close> package that the code tells apart; the last is a thrown value that is not
  an \<open>Error\<close>.\<close>

datatype jose_error =
    JWTExpired string | JWTClaimValidationFailed string string | JWKSNoMatchingKey string
  | JWSSignatureVerificationFailed string | JoseError string | NotAnError

fun jose_message :: "jose_error \<Rightarrow> string" where
  "jose_message (JWTExpired m) = m"
| "jose_message (JWTClaimValidationFailed c m) = m"
| "jose_message (JWKSNoMatchingKey m) = m"
| "jose_message (JWSSignatureVerificationFailed m) = m"
| "jose_message (JoseError m) = m"
| "jose_message NotAnError = ''JWT validation failed''"

fun classifyJoseFailure :: "jose_error \<Rightarrow> Hop1FailureClassification" where
  "classifyJoseFailure (JWTExpired m) = expired_token"
| "classifyJoseFailure (JWTClaimValidationFailed c m) =
     (if c = ''aud'' then invalid_audience else if c = ''iss'' then untrusted_issuer else malformed_token)"
| "classifyJoseFailure (JWKSNoMatchingKey m) = unknown_key"
| "classifyJoseFailure (JWSSignatureVerificationFailed m) = invalid_signature"
| "classifyJoseFailure _ = malformed_token"

text \<open>\<open>decodeJwt\<close>, and \<open>jwtVerify\<close> with \<open>createLocalJWKSet\<close>: the token, the keys, and the issuer, the
  audiences and the algorithms that are accepted.\<close>

record jose_lib =
  decodeJwt :: "string \<Rightarrow> claims option"
  jwtVerify :: "string \<Rightarrow> json list \<Rightarrow> string \<Rightarrow> string list \<Rightarrow> string list \<Rightarrow> jose_error + claims"

text \<open>A claim \<open>iss\<close> that has passed the verification is a string.\<close>

definition identityFromClaims :: "claims \<Rightarrow> 'a IssuerProfile_scheme \<Rightarrow> Hop1ValidationError + Hop1Identity" where
  "identityFromClaims cs p =
     (let subjectClaim = coalesce (ip_subjectClaim p) ''sub'' in
      if js_get cs ''exp'' = None then Inl (hop1_error ''JWT missing expiration claim: exp'' malformed_token)
      else case claimAsString cs subjectClaim of
          None \<Rightarrow> Inl (hop1_error (''JWT missing required subject claim: '' @ subjectClaim) missing_subject)
        | Some subject \<Rightarrow>
            (case claimAsString cs (ip_emailClaim p) of
               None \<Rightarrow> Inl (hop1_error (''JWT missing required email claim: '' @ ip_emailClaim p) missing_email)
             | Some email \<Rightarrow>
                 (case claimAsString cs ''iss'' of
                    None \<Rightarrow> Inl (hop1_error ''JWT missing issuer'' untrusted_issuer)
                  | Some iss \<Rightarrow>
                      Inr \<lparr>hi_profile = ip_name p, hi_issuer = iss, hi_subject = subject, hi_email = email,
                           hi_claims = cs\<rparr>)))"

definition validateHop1Jwt ::
  "jose_lib \<Rightarrow> string \<Rightarrow> 'a IssuerProfile_scheme \<Rightarrow> json list \<Rightarrow> Hop1ValidationError + Hop1Identity" where
  "validateHop1Jwt jose token p jwks =
     (case jwtVerify jose token jwks (ip_issuer p) (ip_audiences p) (ip_allowedAlgorithms p) of
        Inl e \<Rightarrow> Inl (hop1_error (jose_message e) (classifyJoseFailure e))
      | Inr payload \<Rightarrow> identityFromClaims payload p)"

fun validate_each ::
  "jose_lib \<Rightarrow> string \<Rightarrow> Hop1ValidationError list \<Rightarrow> (IssuerProfile \<times> json list) list \<Rightarrow>
   Hop1ValidationError + Hop1Identity" where
  "validate_each jose token errs [] =
     Inl (case errs of
            [] \<Rightarrow> hop1_error ''JWT did not validate against any trusted issuer: no issuers configured'' untrusted_issuer
          | e # _ \<Rightarrow> hop1_error (''JWT did not validate against any trusted issuer: '' @ he_message e) (he_classification e))"
| "validate_each jose token errs ((p, jwks) # trusted) =
     (case validateHop1Jwt jose token p jwks of
        Inr identity \<Rightarrow> Inr identity
      | Inl e \<Rightarrow> validate_each jose token (errs @ [e]) trusted)"

definition validateHop1JwtForIssuers ::
  "jose_lib \<Rightarrow> string \<Rightarrow> (IssuerProfile \<times> json list) list \<Rightarrow> Hop1ValidationError + Hop1Identity" where
  "validateHop1JwtForIssuers jose token trusted = validate_each jose token [] trusted"

section \<open>The authenticator\<close>

record IntrospectionConfig =
  ic_url :: string
  ic_clientCredential :: string
  ic_timeoutMs :: "int option"

text \<open>The request to the introspection endpoint, and its outcome: a failure of the transport, or a
  response with its \<open>ok\<close> and, unless reading it fails, its body.\<close>

record introspection_request =
  ir_url :: string
  ir_authorization :: string
  ir_token :: string
  ir_timeoutMs :: int

datatype http_reply = NoReply | Reply bool nat "json option"

definition requireActiveIntrospection ::
  "(introspection_request \<Rightarrow> http_reply) \<Rightarrow> string \<Rightarrow> IntrospectionConfig \<Rightarrow> Hop1ValidationError + unit" where
  "requireActiveIntrospection fetch token config =
     (case fetch \<lparr>ir_url = ic_url config, ir_authorization = ''Bearer '' @ ic_clientCredential config,
                  ir_token = token, ir_timeoutMs = coalesce (ic_timeoutMs config) 5000\<rparr> of
        NoReply \<Rightarrow> Inl (hop1_error ''HOP-1 introspection is unavailable'' introspection_unavailable)
      | Reply ok status body \<Rightarrow>
          (if \<not> ok then Inl (hop1_error ''HOP-1 introspection is unavailable'' introspection_unavailable)
           else case body of
               None \<Rightarrow> Inl (hop1_error ''HOP-1 introspection returned an invalid response'' introspection_unavailable)
             | Some b \<Rightarrow>
                 (if Option.bind (as_record b) (\<lambda>fs. js_get fs ''active'') = Some (JBool True) then Inr ()
                  else Inl (hop1_error ''HOP-1 token is inactive'' inactive_token))))"

text \<open>A provider of keys that fetches them once: the reply it would get, and what it has cached. The caller
  does not look at the message of a failure; keys that are not an array are outside the type of the reply.\<close>

definition remoteJwks :: "http_reply \<Rightarrow> json list option \<Rightarrow> (string + json list) \<times> json list option" where
  "remoteJwks reply cached =
     (case cached of
        Some jwks \<Rightarrow> (Inr jwks, cached)
      | None \<Rightarrow>
          (case reply of
             NoReply \<Rightarrow> (Inl ''fetch failed'', None)
           | Reply ok status body \<Rightarrow>
               (if \<not> ok then (Inl (''Failed to fetch JWKS: '' @ nat_str status), None)
                else case Option.bind (Option.bind body as_record) (\<lambda>fs. js_get fs ''keys'') of
                    Some (JArr jwks) \<Rightarrow> (Inr jwks, Some jwks)
                  | _ \<Rightarrow> (Inl ''JWKS response missing keys'', None))))"

text \<open>An issuer, what its provider of keys answers, and its introspection endpoint.\<close>

record TrustedIssuer =
  ti_profile :: IssuerProfile
  ti_jwks :: "string + json list"
  ti_introspection :: "IntrospectionConfig option"

text \<open>The loop over the candidates: the errors so far and the issuers that were unavailable.\<close>

fun authenticate_each ::
  "jose_lib \<Rightarrow> (introspection_request \<Rightarrow> http_reply) \<Rightarrow> string \<Rightarrow> nat \<Rightarrow> Hop1ValidationError list \<Rightarrow> nat \<Rightarrow>
   TrustedIssuer list \<Rightarrow> Hop1ValidationError + Hop1Identity" where
  "authenticate_each jose fetch token candidates errs unavailable [] =
     Inl (if unavailable = candidates then hop1_error ''HOP-1 issuer is unavailable'' jwks_unavailable
          else case errs of
              [] \<Rightarrow> hop1_error ''HOP-1 token validation failed: no matching issuer profile'' malformed_token
            | e # _ \<Rightarrow> hop1_error (''HOP-1 token validation failed: '' @ he_message e) (he_classification e))"
| "authenticate_each jose fetch token candidates errs unavailable (issuer # rest) =
     (case ti_jwks issuer of
        Inl _ \<Rightarrow> authenticate_each jose fetch token candidates errs (Suc unavailable) rest
      | Inr jwks \<Rightarrow>
          (case validateHop1Jwt jose token (ti_profile issuer) jwks of
             Inl e \<Rightarrow> authenticate_each jose fetch token candidates (errs @ [e]) unavailable rest
           | Inr identity \<Rightarrow>
               sum_bind (case ti_introspection issuer of
                           None \<Rightarrow> Inr () | Some config \<Rightarrow> requireActiveIntrospection fetch token config)
                 (\<lambda>_. Inr identity)))"

fun json_truthy :: "json option \<Rightarrow> bool" where
  "json_truthy None = False"
| "json_truthy (Some JNull) = False"
| "json_truthy (Some (JBool b)) = b"
| "json_truthy (Some (JNum n)) = (n \<noteq> 0)"
| "json_truthy (Some (JStr s)) = (s \<noteq> [])"
| "json_truthy (Some (JArr xs)) = True"
| "json_truthy (Some (JObj fs)) = True"

definition createAuthenticator ::
  "jose_lib \<Rightarrow> (introspection_request \<Rightarrow> http_reply) \<Rightarrow> TrustedIssuer list \<Rightarrow> string \<Rightarrow>
   Hop1ValidationError + Hop1Identity" where
  "createAuthenticator jose fetch issuers token =
     (case decodeJwt jose token of
        None \<Rightarrow> Inl (hop1_error ''HOP-1 token is malformed'' malformed_token)
      | Some cs \<Rightarrow>
          (if \<not> json_truthy (js_get cs ''iss'')
           then Inl (hop1_error ''HOP-1 token is missing its issuer'' untrusted_issuer)
           else
             (let candidates = filter (\<lambda>i. js_get cs ''iss'' = Some (JStr (ip_issuer (ti_profile i)))) issuers in
              if candidates = [] then Inl (hop1_error ''HOP-1 issuer is not trusted'' untrusted_issuer)
              else authenticate_each jose fetch token (length candidates) [] 0 candidates)))"

section \<open>Who a token speaks for\<close>

lemma identityFromClaims_Inr:
  assumes "identityFromClaims cs p = Inr identity"
  shows "hi_claims identity = cs" "hi_profile identity = ip_name p" "js_get cs ''exp'' \<noteq> None"
    "js_get cs (coalesce (ip_subjectClaim p) ''sub'') = Some (JStr (hi_subject identity))"
    "js_get cs (ip_emailClaim p) = Some (JStr (hi_email identity))"
    "js_get cs ''iss'' = Some (JStr (hi_issuer identity))"
    "hi_subject identity \<noteq> []" "hi_email identity \<noteq> []"
  using assms
  by (auto simp: identityFromClaims_def claimAsString_def Let_def split: if_splits option.splits json.splits)

lemma validateHop1Jwt_Inr:
  "validateHop1Jwt jose token p jwks = Inr identity \<longleftrightarrow>
   (\<exists>cs. jwtVerify jose token jwks (ip_issuer p) (ip_audiences p) (ip_allowedAlgorithms p) = Inr cs \<and>
         identityFromClaims cs p = Inr identity)"
  by (auto simp: validateHop1Jwt_def split: sum.splits)

definition introspected :: "(introspection_request \<Rightarrow> http_reply) \<Rightarrow> string \<Rightarrow> TrustedIssuer \<Rightarrow> bool" where
  "introspected fetch token issuer \<longleftrightarrow>
     (case ti_introspection issuer of
        None \<Rightarrow> True | Some config \<Rightarrow> requireActiveIntrospection fetch token config = Inr ())"

lemma authenticate_each_Inr:
  "authenticate_each jose fetch token n errs k issuers = Inr identity \<Longrightarrow>
   \<exists>issuer \<in> set issuers. \<exists>jwks. ti_jwks issuer = Inr jwks \<and>
     validateHop1Jwt jose token (ti_profile issuer) jwks = Inr identity \<and> introspected fetch token issuer"
proof (induction issuers arbitrary: errs k)
  case (Cons issuer rest)
  then show ?case by (fastforce simp: introspected_def split: sum.splits option.splits)
qed simp

text \<open>C29: an identity is returned only for a token of a configured issuer. The issuer that the token
  names is the issuer of the identity and of the profile it was checked against; the signature was
  verified with the keys of that issuer, for its audiences and algorithms; the token has an expiry; the
  subject and the email are not empty and come from the claims the profile names; and where the issuer
  has an introspection endpoint, the endpoint has said that the token is active. The assumption is the
  documented behaviour of the verifier: an accepted token has the issuer it was asked for.\<close>

theorem authenticated_identity_trusted:
  assumes "\<forall>jwks iss auds algs cs.
      jwtVerify jose token jwks iss auds algs = Inr cs \<longrightarrow> js_get cs ''iss'' = Some (JStr iss)"
    and "createAuthenticator jose fetch issuers token = Inr identity"
  shows "\<exists>issuer \<in> set issuers. \<exists>jwks cs.
    ti_jwks issuer = Inr jwks \<and>
    jwtVerify jose token jwks (ip_issuer (ti_profile issuer)) (ip_audiences (ti_profile issuer))
      (ip_allowedAlgorithms (ti_profile issuer)) = Inr (hi_claims identity) \<and>
    decodeJwt jose token = Some cs \<and> js_get cs ''iss'' = Some (JStr (hi_issuer identity)) \<and>
    ip_issuer (ti_profile issuer) = hi_issuer identity \<and>
    js_get (hi_claims identity) ''exp'' \<noteq> None \<and>
    js_get (hi_claims identity) (coalesce (ip_subjectClaim (ti_profile issuer)) ''sub'') = Some (JStr (hi_subject identity)) \<and>
    js_get (hi_claims identity) (ip_emailClaim (ti_profile issuer)) = Some (JStr (hi_email identity)) \<and>
    hi_subject identity \<noteq> [] \<and> hi_email identity \<noteq> [] \<and>
    (\<forall>config. ti_introspection issuer = Some config \<longrightarrow> requireActiveIntrospection fetch token config = Inr ())"
proof -
  obtain cs where cs: "decodeJwt jose token = Some cs"
    and each: "authenticate_each jose fetch token
      (length (filter (\<lambda>i. js_get cs ''iss'' = Some (JStr (ip_issuer (ti_profile i)))) issuers)) [] 0
      (filter (\<lambda>i. js_get cs ''iss'' = Some (JStr (ip_issuer (ti_profile i)))) issuers) = Inr identity"
    using assms(2) by (auto simp: createAuthenticator_def Let_def split: option.splits if_splits)
  from authenticate_each_Inr [OF each] obtain issuer jwks where i: "issuer \<in> set issuers"
    "js_get cs ''iss'' = Some (JStr (ip_issuer (ti_profile issuer)))" "ti_jwks issuer = Inr jwks"
    "validateHop1Jwt jose token (ti_profile issuer) jwks = Inr identity" "introspected fetch token issuer"
    by auto
  from i(4) obtain payload where p: "jwtVerify jose token jwks (ip_issuer (ti_profile issuer))
      (ip_audiences (ti_profile issuer)) (ip_allowedAlgorithms (ti_profile issuer)) = Inr payload"
    "identityFromClaims payload (ti_profile issuer) = Inr identity"
    by (auto simp: validateHop1Jwt_Inr)
  note idc = identityFromClaims_Inr [OF p(2)]
  have "ip_issuer (ti_profile issuer) = hi_issuer identity" using assms(1) p(1) idc(6) by auto
  with cs i p idc show ?thesis by (auto simp: introspected_def intro!: bexI [of _ issuer])
qed

definition example_issuer :: TrustedIssuer where
  "example_issuer =
     \<lparr>ti_profile = \<lparr>ip_name = ''main'', ip_issuer = ''https://i'', ip_audiences = [''gw''],
        ip_allowedAlgorithms = [''RS256''], ip_emailClaim = ''email'', ip_subjectClaim = None\<rparr>,
      ti_jwks = Inr [], ti_introspection = Some \<lparr>ic_url = ''https://i/x'', ic_clientCredential = ''c'', ic_timeoutMs = None\<rparr>\<rparr>"

definition example_token_claims :: claims where
  "example_token_claims =
     [(''iss'', JStr ''https://i''), (''sub'', JStr ''u''), (''email'', JStr ''u@a.io''), (''exp'', JNum 9),
      (''steward'', JObj
        [(''version'', JNum 3), (''runtime_uid'', JStr ''r''), (''acting_as'', JStr ''user''),
         (''tools'', JArr [JObj [(''provider'', JStr ''cli''), (''resource'', JStr ''kubectl''),
                                 (''action'', JStr ''read'')]])])]"

definition example_jose :: jose_lib where
  "example_jose =
     \<lparr>decodeJwt = (\<lambda>t. if t = ''t'' then Some example_token_claims else None),
      jwtVerify = (\<lambda>t jwks iss auds algs.
        if t = ''t'' \<and> iss = ''https://i'' then Inr example_token_claims else Inl (JoseError ''invalid''))\<rparr>"

definition example_introspection :: "introspection_request \<Rightarrow> http_reply" where
  "example_introspection rq = Reply True 200 (Some (JObj [(''active'', JBool (ir_token rq = ''t''))]))"

definition example_identity :: Hop1Identity where
  "example_identity =
     \<lparr>hi_profile = ''main'', hi_issuer = ''https://i'', hi_subject = ''u'', hi_email = ''u@a.io'',
      hi_claims = example_token_claims\<rparr>"

lemma example_authenticated:
  "createAuthenticator example_jose example_introspection [example_issuer] ''t'' = Inr example_identity"
  by (simp add: createAuthenticator_def example_jose_def example_token_claims_def example_issuer_def
      validateHop1Jwt_def identityFromClaims_def claimAsString_def requireActiveIntrospection_def
      example_introspection_def example_identity_def Let_def)

theorem authenticated_identity_trusted_witness:
  "ip_issuer (ti_profile example_issuer) = hi_issuer example_identity"
proof -
  have "\<forall>jwks iss auds algs cs.
      jwtVerify example_jose ''t'' jwks iss auds algs = Inr cs \<longrightarrow> js_get cs ''iss'' = Some (JStr iss)"
    by (simp add: example_jose_def example_token_claims_def)
  from authenticated_identity_trusted [OF this example_authenticated] show ?thesis by auto
qed

end
