(* ===== verification/Cli_Requests.thy ===== *)
theory Cli_Requests
  imports Governed_Cli Hop1
begin

text \<open>
  Requests to the governed command line: authentication of a task and bounded bodies
  (\<open>packages/wrapper-kit/src/governed-http.ts\<close>), the target of a pack (\<open>main.ts\<close>) and the preparation
  of a run (\<open>http.ts\<close>). The JSON parser, with the UTF-8 decoder before it, is a parameter.
\<close>

section \<open>Requests and responses\<close>

text \<open>The declared length is \<open>Number(content-length)\<close>, which is \<open>0\<close> without the header and \<open>None\<close> if it
  is not finite. A body comes in chunks.\<close>

record http_request =
  rq_method :: string
  rq_path :: string
  rq_wait :: "string option"
  rq_authorization :: "string option"
  rq_declaredBytes :: "rat option"
  rq_body :: "string list option"

text \<open>\<open>jsonError\<close>: status, error, message and headers.\<close>

record error_response =
  er_status :: nat
  er_error :: string
  er_message :: string
  er_headers :: "(string \<times> string) list"

definition jsonError :: "nat \<Rightarrow> string \<Rightarrow> string \<Rightarrow> (string \<times> string) list \<Rightarrow> error_response" where
  "jsonError status code message headers =
     \<lparr>er_status = status, er_error = code, er_message = message, er_headers = headers\<rparr>"

definition bearerToken :: "http_request \<Rightarrow> string option" where
  "bearerToken rq =
     (case map_option (split_on CHR '' '') (rq_authorization rq) of
        Some (scheme # token # _) \<Rightarrow> (if scheme = ''Bearer'' \<and> token \<noteq> [] then Some token else None)
      | _ \<Rightarrow> None)"

text \<open>A failed authentication reports its classification.\<close>

definition authenticateTaskRequest ::
  "(string \<Rightarrow> Hop1ValidationError + Hop1Identity) \<Rightarrow> http_request \<Rightarrow>
   Hop1FailureClassification \<times> error_response + Hop1Identity \<times> TaskToolAuthorization" where
  "authenticateTaskRequest authenticate rq =
     (case bearerToken rq of
        None \<Rightarrow> Inl (missing_bearer, jsonError 401 ''unauthorized'' ''bearer token is required''
                      [(''www-authenticate'', ''Bearer'')])
      | Some token \<Rightarrow>
          (case authenticate token of
             Inl e \<Rightarrow> Inl (he_classification e, jsonError 401 ''unauthorized'' ''invalid bearer token''
                            [(''www-authenticate'', ''Bearer error='' @ json_string ''invalid_token'')])
           | Inr identity \<Rightarrow> Inr (identity, parseTaskToolAuthorization (hi_claims identity) False)))"

definition requestTooLarge :: error_response where
  "requestTooLarge = jsonError 413 ''request_too_large'' ''Request body is too large'' []"

definition bodyNotJson :: error_response where
  "bodyNotJson = jsonError 400 ''invalid_request'' ''Request body must be JSON'' []"

fun readChunks :: "nat \<Rightarrow> nat \<Rightarrow> string \<Rightarrow> string list \<Rightarrow> string option" where
  "readChunks maxBytes bytes chunks [] = Some chunks"
| "readChunks maxBytes bytes chunks (v # vs) =
     (if bytes + length v > maxBytes then None else readChunks maxBytes (bytes + length v) (chunks @ v) vs)"

definition readBoundedJson ::
  "(string \<Rightarrow> json option) \<Rightarrow> nat \<Rightarrow> http_request \<Rightarrow> error_response + json" where
  "readBoundedJson parseJson maxBytes rq =
     (if (case rq_declaredBytes rq of Some n \<Rightarrow> n > of_nat maxBytes | None \<Rightarrow> False) then Inl requestTooLarge
      else case rq_body rq of
          None \<Rightarrow> Inl bodyNotJson
        | Some vs \<Rightarrow>
            (case readChunks maxBytes 0 [] vs of
               None \<Rightarrow> Inl requestTooLarge
             | Some s \<Rightarrow> (case parseJson s of None \<Rightarrow> Inl bodyNotJson | Some j \<Rightarrow> Inr j)))"

text \<open>The owner of the jobs of a task: \<open>JSON.stringify([issuer, subject, runtimeUid])\<close>.\<close>

definition taskOwner :: "Hop1Identity \<Rightarrow> string option" where
  "taskOwner identity =
     (case Option.bind (js_get (hi_claims identity) TASK_AUTHORITY_CLAIM) as_record of
        None \<Rightarrow> None
      | Some authority \<Rightarrow>
          (case js_get authority ''runtime_uid'' of
             Some (JStr uid) \<Rightarrow>
               (if trim uid \<noteq> [] then Some (json_string_array [hi_issuer identity, hi_subject identity, trim uid])
                else None)
           | _ \<Rightarrow> None))"

section \<open>Targets\<close>

record CliTarget =
  ct_cli :: string
  ct_commands :: "(string, string) jsmap"
  ct_classify :: "string list \<Rightarrow> string + ClassifiedCommand"
  ct_runner :: CliRunnerConfig
  ct_credentialEnv :: "Hop1Identity \<Rightarrow> string + (string \<times> string) list"

definition env_required :: "(string \<Rightarrow> string option) \<Rightarrow> string \<Rightarrow> string + string" where
  "env_required env name =
     (case map_option trim (env name) of
        Some (c # cs) \<Rightarrow> Inr (c # cs) | _ \<Rightarrow> Inl (''Missing required env var: '' @ name))"

definition packRunner :: "CliPack \<Rightarrow> CliRunnerConfig" where
  "packRunner pack =
     \<lparr>rc_redactValues = [], rc_defaultTimeoutSeconds = of_int (pk_timeoutSeconds pack),
      rc_maxTimeoutSeconds = of_int (pk_maxTimeoutSeconds pack), rc_maxOutputBytes = Some (nat (pk_outputBytes pack))\<rparr>"

definition createKubectlTarget :: "CliPack \<Rightarrow> (string \<Rightarrow> string option) \<Rightarrow> string + CliTarget" where
  "createKubectlTarget pack env =
     (if pk_provider pack \<noteq> ''kubernetes'' then Inl ''kubectl pack credential provider must be kubernetes''
      else Inr \<lparr>ct_cli = pk_cli pack, ct_commands = pk_commands pack, ct_classify = classifyKubectl pack,
                ct_runner = packRunner pack,
                ct_credentialEnv = (\<lambda>identity.
                  sum_bind (env_required env (pk_sourceEnv pack)) (\<lambda>v. Inr [(pk_targetEnv pack, v)]))\<rparr>)"

section \<open>Preparation of a run\<close>

record CreateCliRunHandlerOptions =
  ho_authenticate :: "string \<Rightarrow> Hop1ValidationError + Hop1Identity"
  ho_parseJson :: "string \<Rightarrow> json option"
  ho_targets :: "CliTarget list"
  ho_maxBodyBytes :: nat
  ho_maxArgs :: nat
  ho_maxArgBytes :: nat
  ho_maxJobs :: nat
  ho_maxRunningJobsPerOwner :: nat
  ho_retentionSeconds :: int

record PreparedRun =
  pr_identity :: Hop1Identity
  pr_target :: CliTarget
  pr_args :: "string list"
  pr_commandClass :: string
  pr_grant :: TaskToolGrant

definition taskDenied :: error_response where
  "taskDenied = jsonError 403 ''task_tool_not_approved'' ''CLI is not approved for this Task'' []"

definition invalidRequest :: "string \<Rightarrow> error_response" where
  "invalidRequest message = jsonError 400 ''invalid_request'' message []"

definition commandRefused :: "string \<Rightarrow> error_response" where
  "commandRefused message = jsonError 400 ''cli_command_refused'' message []"

definition targetsOf :: "CreateCliRunHandlerOptions \<Rightarrow> (string, CliTarget) jsmap" where
  "targetsOf opts = foldl (\<lambda>m t. js_set (ct_cli t) t m) [] (ho_targets opts)"

text \<open>The class that the catalog of a target gives a command; an inherited value has none.\<close>

definition catalogClass :: "CliTarget \<Rightarrow> string \<Rightarrow> string option" where
  "catalogClass target command =
     (case js_lookup (ct_commands target) command of Own c \<Rightarrow> Some c | _ \<Rightarrow> None)"

text \<open>The checks of the body: the command line that is called and its arguments.\<close>

definition checkedBody :: "CreateCliRunHandlerOptions \<Rightarrow> json \<Rightarrow> error_response + string \<times> string list" where
  "checkedBody opts body =
     (case as_record body of
        None \<Rightarrow> Inl (invalidRequest ''Only cli and args are supported'')
      | Some fs \<Rightarrow>
          (if list_ex (\<lambda>k. k \<notin> {''cli'', ''args''}) (map fst fs)
           then Inl (invalidRequest ''Only cli and args are supported'')
           else case (js_get fs ''cli'', Option.bind (js_get fs ''args'') as_string_array) of
               (Some (JStr cli), Some args) \<Rightarrow>
                 (if length args > ho_maxArgs opts then Inl (invalidRequest ''Too many CLI arguments'')
                  else if list_ex (\<lambda>a. length a > ho_maxArgBytes opts) args
                  then Inl (invalidRequest ''CLI argument is too long'')
                  else Inr (cli, args))
             | _ \<Rightarrow> Inl (invalidRequest ''cli and string-array args are required'')))"

text \<open>A class \<open>undefined\<close> makes a grant that no claim can spell (\<open>undefined_action_no_key\<close> below).\<close>

definition prepare :: "CreateCliRunHandlerOptions \<Rightarrow> http_request \<Rightarrow> error_response + PreparedRun" where
  "prepare opts rq =
     (case authenticateTaskRequest (ho_authenticate opts) rq of
        Inl (_, response) \<Rightarrow> Inl response
      | Inr (identity, authorization) \<Rightarrow>
          sum_bind (readBoundedJson (ho_parseJson opts) (ho_maxBodyBytes opts) rq) (\<lambda>body.
          sum_bind (checkedBody opts body) (\<lambda>(cli, args).
            case (ta_restricted authorization, js_get (targetsOf opts) cli) of
              (True, Some target) \<Rightarrow>
                (case ct_classify target args of
                   Inl message \<Rightarrow> Inl (commandRefused message)
                 | Inr classified \<Rightarrow>
                     (if catalogClass target (cc_command classified) \<noteq> cc_class classified
                      then Inl (commandRefused ''Classified command is absent from the decisions catalog'')
                      else case cc_class classified of
                          None \<Rightarrow> Inl taskDenied
                        | Some c \<Rightarrow>
                            (let grant = \<lparr>tg_provider = ''cli'', tg_resource = cli, tg_action = c\<rparr> in
                             if \<not> ta_allows authorization grant then Inl taskDenied
                             else Inr \<lparr>pr_identity = identity, pr_target = target, pr_args = args,
                                       pr_commandClass = c, pr_grant = grant\<rparr>)))
            | _ \<Rightarrow> Inl taskDenied)))"

definition credentials :: "PreparedRun \<Rightarrow> error_response + (string \<times> string) list" where
  "credentials run =
     (case ct_credentialEnv (pr_target run) (pr_identity run) of
        Inl _ \<Rightarrow> Inl (jsonError 503 ''credential_unavailable'' ''CLI credential is unavailable'' [])
      | Inr v \<Rightarrow> Inr v)"

text \<open>\<open>run\<close>: the execution of a prepared run, with the options of the request.\<close>

definition runPrepared ::
  "PreparedRun \<Rightarrow> (string \<times> string) list \<Rightarrow> bool \<Rightarrow> CliExecutionError + cli_run" where
  "runPrepared run credentialEnv aborted =
     executeCli (ct_runner (pr_target run)) (pr_commandClass run) None
       \<lparr>eo_credentialEnv = credentialEnv, eo_timeoutMs = None, eo_rejectOnNonZero = False, eo_aborted = aborted\<rparr>"

lemma authenticateTaskRequest_Inr:
  "authenticateTaskRequest authenticate rq = Inr (identity, authorization) \<longleftrightarrow>
   (\<exists>token. bearerToken rq = Some token \<and> authenticate token = Inr identity \<and>
     authorization = parseTaskToolAuthorization (hi_claims identity) False)"
  by (auto simp: authenticateTaskRequest_def split: option.splits sum.splits)

text \<open>The owner of a job tells its issuer and subject.\<close>

lemma taskOwner_inj:
  assumes "taskOwner a = Some owner" "taskOwner b = Some owner"
  shows "hi_issuer a = hi_issuer b \<and> hi_subject a = hi_subject b"
  using assms
  by (auto simp: taskOwner_def json_string_array_def json_string_append_inj split: option.splits json.splits if_splits)

text \<open>The key that \<open>JSON.stringify\<close> makes of a grant whose action is \<open>undefined\<close> is the key of no grant.\<close>

lemma undefined_action_no_key:
  "''['' @ join_with '','' [json_string p, json_string r, ''null''] @ '']'' \<noteq> grantKey g"
  by (auto simp: grantKey_def json_string_array_def json_string_append_inj) (simp add: json_string_def)

end
