(* ===== verification/Descriptor.thy ===== *)
theory Descriptor
  imports Dcr Policy
begin

text \<open>
  The configuration of the generic wrapper (\<open>servers/generic-wrapper/src/descriptor.ts\<close>): the descriptor of
  a wrapped server, its catalog of tools or its decisions about live tools, and the checks that span
  both. The files are YAML; what the parser makes of them is the JSON value the functions start from. The
  parser of URLs is a parameter.
\<close>

section \<open>Patterns\<close>

record full_url = web_url +
  url_pathname :: string
  url_search :: string
  url_origin :: string

type_synonym url_parser = "string \<Rightarrow> full_url option"

definition GENERIC_WRAPPER_SCHEMA_VERSION :: string where
  "GENERIC_WRAPPER_SCHEMA_VERSION = ''mcp-gateway.generic-wrapper/v1''"

definition GENERIC_CATALOG_SCHEMA_VERSION :: string where
  "GENERIC_CATALOG_SCHEMA_VERSION = ''mcp-gateway.generic-catalog/v1''"

definition GENERIC_TOOL_DECISIONS_SCHEMA_VERSION :: string where
  "GENERIC_TOOL_DECISIONS_SCHEMA_VERSION = ''mcp-gateway.generic-tool-decisions/v1''"

definition ATLASSIAN_ACCESSIBLE_RESOURCES_URL :: string where
  "ATLASSIAN_ACCESSIBLE_RESOURCES_URL = ''https://api.atlassian.com/oauth/token/accessible-resources''"

text \<open>\<open>/^[first][rest]{low,high}$/\<close>, without a high limit where it is \<open>None\<close>.\<close>

definition matches ::
  "(char \<Rightarrow> bool) \<Rightarrow> (char \<Rightarrow> bool) \<Rightarrow> nat \<Rightarrow> nat option \<Rightarrow> string \<Rightarrow> bool" where
  "matches first rest low high s =
     (case s of [] \<Rightarrow> False
      | c # cs \<Rightarrow> first c \<and> list_all rest cs \<and> low \<le> length cs \<and>
                  (case high of None \<Rightarrow> True | Some n \<Rightarrow> length cs \<le> n))"

definition is_alpha :: "char \<Rightarrow> bool" where
  "is_alpha c = (is_lower_alpha c \<or> is_upper_alpha c)"

text \<open>\<open>NAME_PATTERN\<close> and \<open>OAUTH_PROVIDER_ID_PATTERN\<close> are the same pattern.\<close>

definition NAME_PATTERN :: "string \<Rightarrow> bool" where
  "NAME_PATTERN = matches is_lower_alpha (\<lambda>c. is_lower_alpha c \<or> is_digit c \<or> c = CHR ''-'') 1 (Some 62)"

definition TOOL_PREFIX_PATTERN :: "string \<Rightarrow> bool" where
  "TOOL_PREFIX_PATTERN = matches is_lower_alpha (\<lambda>c. is_lower_alpha c \<or> is_digit c \<or> c = CHR ''_'') 0 (Some 31)"

definition toolNameChar :: "char \<Rightarrow> bool" where
  "toolNameChar c = (is_alpha c \<or> is_digit c \<or> c \<in> set ''_.-'')"

definition TOOL_NAME_PATTERN :: "string \<Rightarrow> bool" where
  "TOOL_NAME_PATTERN = matches toolNameChar toolNameChar 0 (Some 127)"

definition TOOL_ALIAS_PATTERN :: "string \<Rightarrow> bool" where
  "TOOL_ALIAS_PATTERN = matches is_lower_alpha (\<lambda>c. is_lower_alpha c \<or> is_digit c \<or> c = CHR ''_'') 0 (Some 63)"

definition ENV_PATTERN :: "string \<Rightarrow> bool" where
  "ENV_PATTERN =
     matches (\<lambda>c. is_upper_alpha c \<or> c = CHR ''_'') (\<lambda>c. is_upper_alpha c \<or> is_digit c \<or> c = CHR ''_'') 0 None"

definition headerChar :: "char \<Rightarrow> bool" where
  "headerChar c = (is_alpha c \<or> is_digit c \<or> c \<in> set ''!#$%&*+-.^_|~'' \<or> c = CHR 0x27 \<or> c = CHR 0x60)"

definition HEADER_PATTERN :: "string \<Rightarrow> bool" where
  "HEADER_PATTERN = matches headerChar headerChar 0 None"

definition FIELD_PATH_PATTERN :: "string \<Rightarrow> bool" where
  "FIELD_PATH_PATTERN =
     matches (\<lambda>c. is_alpha c \<or> c = CHR ''_'') (\<lambda>c. is_alpha c \<or> is_digit c \<or> c \<in> set ''_.-'') 0 None"

definition OPERATION_PATTERN :: "string \<Rightarrow> bool" where
  "OPERATION_PATTERN s =
     (case split_on CHR ''.'' s of
        [] \<Rightarrow> False
      | w # ws \<Rightarrow>
          matches is_lower_alpha (\<lambda>c. is_lower_alpha c \<or> is_digit c) 0 None w \<and> 1 \<le> length ws \<and> length ws \<le> 5 \<and>
          list_all (matches (\<lambda>c. is_lower_alpha c \<or> c = CHR ''+'') (\<lambda>c. is_alpha c \<or> is_digit c) 0 None) ws)"

section \<open>Values\<close>

text \<open>An absent field is \<open>None\<close>. Errors are messages.\<close>

definition objectValue :: "json option \<Rightarrow> string \<Rightarrow> string + (string \<times> json) list" where
  "objectValue v name =
     (case Option.bind v as_record of None \<Rightarrow> Inl (name @ '' must be an object'') | Some r \<Rightarrow> Inr r)"

definition assertAllowedFields :: "(string \<times> json) list \<Rightarrow> string \<Rightarrow> string list \<Rightarrow> string + unit" where
  "assertAllowedFields r name allowed =
     (case List.find (\<lambda>k. k \<notin> set allowed) (map fst r) of
        None \<Rightarrow> Inr ()
      | Some field \<Rightarrow>
          Inl ((if name = ''credential'' then ''Unsupported credential field'' else ''Unsupported '' @ name @ '' field'') @
               '': '' @ field))"

definition nonEmptyString :: "json option \<Rightarrow> string \<Rightarrow> string + string" where
  "nonEmptyString v name =
     (case v of
        Some (JStr s) \<Rightarrow> (if trim s = [] then Inl (name @ '' must be a non-empty string'') else Inr s)
      | _ \<Rightarrow> Inl (name @ '' must be a non-empty string''))"

text \<open>\<open>value === undefined ? undefined : f(value)\<close>.\<close>

definition optionalValue :: "(json option \<Rightarrow> string \<Rightarrow> string + 'a) \<Rightarrow> json option \<Rightarrow> string \<Rightarrow> string + 'a option" where
  "optionalValue f v name = (if v = None then Inr None else sum_bind (f v name) (\<lambda>x. Inr (Some x)))"

definition valueOrDefault :: "(json option \<Rightarrow> string \<Rightarrow> string + 'a) \<Rightarrow> json option \<Rightarrow> string \<Rightarrow> 'a \<Rightarrow> string + 'a" where
  "valueOrDefault f v name d = (if v = None then Inr d else f v name)"

definition patternString :: "(string \<Rightarrow> bool) \<Rightarrow> json option \<Rightarrow> string \<Rightarrow> string + string" where
  "patternString pattern v name =
     sum_bind (nonEmptyString v name) (\<lambda>s. if pattern s then Inr s else Inl (name @ '' has an invalid format''))"

definition booleanValue :: "json option \<Rightarrow> string \<Rightarrow> string + bool" where
  "booleanValue v name = (case v of Some (JBool b) \<Rightarrow> Inr b | _ \<Rightarrow> Inl (name @ '' must be a boolean''))"

definition requiredStringArray :: "bool \<Rightarrow> json option \<Rightarrow> string \<Rightarrow> string + string list" where
  "requiredStringArray allowEmpty v name =
     (case Option.bind v as_array of
        None \<Rightarrow> Inl (name @ '' must be '' @ (if allowEmpty then ''an'' else ''a non-empty'') @ '' array'')
      | Some xs \<Rightarrow>
          (if \<not> allowEmpty \<and> xs = [] then Inl (name @ '' must be a non-empty array'')
           else sum_bind (sum_map_from 0 (\<lambda>_ x. nonEmptyString (Some x) name) xs) (\<lambda>ss.
             if distinct ss then Inr ss else Inl (name @ '' must not contain duplicates''))))"

definition httpUrl :: "url_parser \<Rightarrow> json option \<Rightarrow> string \<Rightarrow> string + string" where
  "httpUrl parse v name =
     sum_bind (nonEmptyString v name) (\<lambda>s.
       case parse s of
         None \<Rightarrow> Inl (name @ '' must be an absolute HTTP(S) URL'')
       | Some url \<Rightarrow>
           (if (url_protocol url \<noteq> ''http:'' \<and> url_protocol url \<noteq> ''https:'') \<or> url_hostname url = []
            then Inl (name @ '' must be an absolute HTTP(S) URL'')
            else if url_username url \<noteq> [] \<or> url_password url \<noteq> [] then Inl (name @ '' must not contain credentials'')
            else if url_hash url \<noteq> [] then Inl (name @ '' must not contain a fragment'')
            else Inr s))"

text \<open>A text that passed \<open>httpUrl\<close> parses again.\<close>

definition httpsUrl :: "url_parser \<Rightarrow> json option \<Rightarrow> string \<Rightarrow> string + string" where
  "httpsUrl parse v name =
     sum_bind (httpUrl parse v name) (\<lambda>s.
       if url_protocol (the (parse s)) \<noteq> ''https:'' then Inl (name @ '' must use HTTPS'') else Inr s)"

definition httpsOrigin :: "url_parser \<Rightarrow> json option \<Rightarrow> string \<Rightarrow> string + string" where
  "httpsOrigin parse v name =
     sum_bind (httpsUrl parse v name) (\<lambda>s.
       let url = the (parse s) in
       if url_pathname url \<noteq> ''/'' \<or> url_search url \<noteq> [] \<or> url_hash url \<noteq> []
       then Inl (name @ '' must be an HTTPS origin without a path, query, or fragment'') else Inr (url_origin url))"

definition httpsOrLoopbackUrl :: "url_parser \<Rightarrow> json option \<Rightarrow> string \<Rightarrow> string + string" where
  "httpsOrLoopbackUrl parse v name =
     sum_bind (httpUrl parse v name) (\<lambda>s.
       let url = the (parse s) in
       if url_protocol url \<noteq> ''https:'' \<and>
          \<not> (url_protocol url = ''http:'' \<and> (url_hostname url = ''127.0.0.1'' \<or> url_hostname url = ''::1''))
       then Inl (name @ '' must use HTTPS or explicit loopback HTTP'') else Inr s)"

definition headerName :: "json option \<Rightarrow> string \<Rightarrow> string + string" where
  "headerName v name = sum_bind (patternString HEADER_PATTERN v name) (\<lambda>s. Inr (to_lower_case s))"

definition positiveIntegerValue :: "json option \<Rightarrow> string \<Rightarrow> string + int" where
  "positiveIntegerValue v name =
     (case v of
        Some (JNum n) \<Rightarrow>
          (if n \<in> \<int> \<and> \<bar>n\<bar> \<le> 9007199254740991 \<and> n > 0 then Inr \<lfloor>n\<rfloor>
           else Inl (name @ '' must be a positive integer''))
      | _ \<Rightarrow> Inl (name @ '' must be a positive integer''))"

definition stringRecord :: "json option \<Rightarrow> string \<Rightarrow> string + (string \<times> string) list" where
  "stringRecord v name =
     sum_bind (objectValue v name) (\<lambda>r.
       sum_map_from 0 (\<lambda>_ (k, e). sum_bind (nonEmptyString (Some e) (name @ ''.'' @ k)) (\<lambda>s. Inr (k, s))) r)"

definition nonEmptyArray :: "json option \<Rightarrow> string \<Rightarrow> string + json list" where
  "nonEmptyArray v message =
     (case Option.bind v as_array of Some (x # xs) \<Rightarrow> Inr (x # xs) | _ \<Rightarrow> Inl message)"

definition actionClassValue :: "json option \<Rightarrow> string \<Rightarrow> string + string" where
  "actionClassValue v message =
     (case v of
        Some (JStr s) \<Rightarrow> (if s = ''read'' \<or> s = ''write'' \<or> s = ''destructive'' then Inr s else Inl message)
      | _ \<Rightarrow> Inl message)"

section \<open>The descriptor\<close>

record GenericSessionLimits =
  gs_maxTotal :: int
  gs_maxPerPrincipal :: int
  gs_idleTtlMs :: int

datatype GenericUpstreamDescriptor =
  HttpUpstream (hu_url: string) (hu_timeoutMs: "int option")
| StdioUpstream (su_command: string) (su_args: "string list") (su_envAllowlist: "string list option")
    (su_credentialEnv: "string option") (su_timeoutMs: "int option")

datatype GenericOAuthIdentityDescriptor =
  VerifiedEmail (oi_idField: string) (oi_emailField: string) (oi_loginField: "string option") (oi_emailVerifiedField: string)
| AtlassianJiraAssertedEmail (oi_siteUrl: string)

record token_exchange =
  te_endpoint :: string
  te_audience :: "string option"
  te_resource :: "string option"
  te_scopes :: "string list option"
  te_clientIdEnv :: "string option"
  te_clientSecretEnv :: "string option"
  te_header :: string
  te_scheme :: string
  te_timeoutMs :: "int option"

record GenericOAuthCredentialDescriptor =
  go_providerId :: string
  go_authorizationUrl :: string
  go_tokenUrl :: string
  go_userInfoUrl :: string
  go_revocationUrl :: "string option"
  go_redirectUri :: string
  go_scopes :: "string list"
  go_clientIdEnv :: string
  go_clientSecretEnv :: string
  go_encryptionKeyEnv :: string
  go_tokenStoreDsnEnv :: string
  go_header :: string
  go_scheme :: string
  go_identity :: GenericOAuthIdentityDescriptor
  go_authorizationParams :: "(string \<times> string) list option"
  go_tokenEndpointAuthMethod :: string
  go_timeoutMs :: "int option"

datatype GenericCredentialDescriptor =
  NoCredential
| StaticSecret (ss_env: string) (ss_header: string) (ss_scheme: "string option")
| TokenExchange token_exchange
| PerUserOAuth GenericOAuthCredentialDescriptor

record GenericLifecycleToolNames =
  ln_start :: string
  ln_status :: string

record GenericWrapperDescriptor =
  gd_name :: string
  gd_toolPrefix :: string
  gd_catalogPath :: string
  gd_catalogFilter :: "string list option"
  gd_lifecycleRoutes :: bool
  gd_hideToolsUntilConnected :: bool
  gd_lifecycleToolNames :: GenericLifecycleToolNames
  gd_upstream :: GenericUpstreamDescriptor
  gd_credential :: GenericCredentialDescriptor
  gd_serverInfo :: "string \<times> string"
  gd_sessions :: GenericSessionLimits
  gd_policy :: "(string option \<times> string option) option"
  gd_audit :: "string option"

definition DEFAULT_LIFECYCLE_TOOL_NAMES :: GenericLifecycleToolNames where
  "DEFAULT_LIFECYCLE_TOOL_NAMES = \<lparr>ln_start = ''oauth_start'', ln_status = ''oauth_status''\<rparr>"

definition DEFAULT_SESSION_LIMITS :: GenericSessionLimits where
  "DEFAULT_SESSION_LIMITS = \<lparr>gs_maxTotal = 64, gs_maxPerPrincipal = 4, gs_idleTtlMs = 30 * 60 * 1000\<rparr>"

definition parseLifecycleToolNames :: "json option \<Rightarrow> string + GenericLifecycleToolNames" where
  "parseLifecycleToolNames v =
     (if v = None then Inr DEFAULT_LIFECYCLE_TOOL_NAMES
      else
        sum_bind (objectValue v ''lifecycleToolNames'') (\<lambda>r.
        sum_bind (assertAllowedFields r ''lifecycleToolNames'' [''start'', ''status'']) (\<lambda>_.
        sum_bind (valueOrDefault (patternString TOOL_NAME_PATTERN) (js_get r ''start'') ''lifecycleToolNames.start''
                    (ln_start DEFAULT_LIFECYCLE_TOOL_NAMES)) (\<lambda>start.
        sum_bind (valueOrDefault (patternString TOOL_NAME_PATTERN) (js_get r ''status'') ''lifecycleToolNames.status''
                    (ln_status DEFAULT_LIFECYCLE_TOOL_NAMES)) (\<lambda>status.
          if start = status then Inl ''lifecycleToolNames.start and status must differ''
          else Inr \<lparr>ln_start = start, ln_status = status\<rparr>)))))"

definition parseUpstream :: "url_parser \<Rightarrow> json option \<Rightarrow> string + GenericUpstreamDescriptor" where
  "parseUpstream parse v =
     sum_bind (objectValue v ''upstream'') (\<lambda>r.
       if js_get r ''transport'' = Some (JStr ''http'')
       then
         sum_bind (assertAllowedFields r ''upstream'' [''transport'', ''url'', ''timeoutMs'']) (\<lambda>_.
         sum_bind (httpUrl parse (js_get r ''url'') ''upstream.url'') (\<lambda>url.
         sum_bind (optionalValue positiveIntegerValue (js_get r ''timeoutMs'') ''upstream.timeoutMs'') (\<lambda>t.
           Inr (HttpUpstream url t))))
       else if js_get r ''transport'' = Some (JStr ''stdio'')
       then
         sum_bind (assertAllowedFields r ''upstream''
           [''transport'', ''command'', ''args'', ''envAllowlist'', ''credentialEnv'', ''timeoutMs'']) (\<lambda>_.
         sum_bind (nonEmptyString (js_get r ''command'') ''upstream.command'') (\<lambda>command.
           if \<not> prefix ''/'' command then Inl ''upstream.command must be absolute''
           else
             sum_bind (valueOrDefault (requiredStringArray True) (js_get r ''args'') ''upstream.args'' []) (\<lambda>args.
             sum_bind (optionalValue (requiredStringArray True) (js_get r ''envAllowlist'') ''upstream.envAllowlist'') (\<lambda>names.
             sum_bind (if list_all ENV_PATTERN (coalesce names []) then Inr ()
                       else Inl ''upstream.envAllowlist has an invalid format'') (\<lambda>_.
             sum_bind (optionalValue (patternString ENV_PATTERN) (js_get r ''credentialEnv'') ''upstream.credentialEnv'') (\<lambda>env.
             sum_bind (optionalValue positiveIntegerValue (js_get r ''timeoutMs'') ''upstream.timeoutMs'') (\<lambda>t.
               Inr (StdioUpstream command args names env t))))))))
       else Inl ''upstream.transport must be http or stdio'')"

definition parseOAuthIdentity :: "url_parser \<Rightarrow> json option \<Rightarrow> string + GenericOAuthIdentityDescriptor" where
  "parseOAuthIdentity parse v =
     sum_bind (objectValue v ''credential.identity'') (\<lambda>r.
       if js_get r ''mode'' = Some (JStr ''atlassian_jira_asserted_email'')
       then
         sum_bind (assertAllowedFields r ''credential.identity'' [''mode'', ''siteUrl'']) (\<lambda>_.
         sum_bind (httpsOrigin parse (js_get r ''siteUrl'') ''credential.identity.siteUrl'') (\<lambda>url.
           Inr (AtlassianJiraAssertedEmail url)))
       else if js_get r ''mode'' \<noteq> None \<and> js_get r ''mode'' \<noteq> Some (JStr ''verified_email'')
       then Inl ''credential.identity.mode is invalid''
       else
         sum_bind (assertAllowedFields r ''credential.identity''
           [''mode'', ''idField'', ''emailField'', ''loginField'', ''emailVerifiedField'']) (\<lambda>_.
         sum_bind (patternString FIELD_PATH_PATTERN (js_get r ''idField'') ''credential.identity.idField'') (\<lambda>idf.
         sum_bind (patternString FIELD_PATH_PATTERN (js_get r ''emailField'') ''credential.identity.emailField'') (\<lambda>email.
         sum_bind (optionalValue (patternString FIELD_PATH_PATTERN) (js_get r ''loginField'') ''credential.identity.loginField'') (\<lambda>login.
         sum_bind (patternString FIELD_PATH_PATTERN (js_get r ''emailVerifiedField'') ''credential.identity.emailVerifiedField'') (\<lambda>verified.
           Inr (VerifiedEmail idf email login verified)))))))"

definition isAtlassian :: "GenericOAuthIdentityDescriptor \<Rightarrow> bool" where
  "isAtlassian i = (case i of AtlassianJiraAssertedEmail _ \<Rightarrow> True | _ \<Rightarrow> False)"

definition authMethodValue :: "json option \<Rightarrow> string + string" where
  "authMethodValue v =
     (if v = None \<or> v = Some (JStr ''client_secret_basic'') then Inr ''client_secret_basic''
      else if v = Some (JStr ''client_secret_post'') then Inr ''client_secret_post''
      else Inl ''credential.tokenEndpointAuthMethod is invalid'')"

text \<open>The redirect URI: the exact path of the provider's callback, without query and fragment.\<close>

definition parseRedirectUri :: "url_parser \<Rightarrow> json option \<Rightarrow> string \<Rightarrow> string + string" where
  "parseRedirectUri parse v providerId =
     sum_bind (httpsOrLoopbackUrl parse v ''credential.redirectUri'') (\<lambda>uri.
       let url = the (parse uri); path = ''/oauth/'' @ providerId @ ''/callback'' in
       if url_pathname url \<noteq> path \<or> url_search url \<noteq> [] \<or> url_hash url \<noteq> []
       then Inl (''credential.redirectUri must use the exact callback path '' @ path @ '' without query or fragment'')
       else Inr uri)"

definition OAUTH_FIELDS :: "string list" where
  "OAUTH_FIELDS =
     [''mode'', ''providerId'', ''authorizationUrl'', ''tokenUrl'', ''userInfoUrl'', ''revocationUrl'', ''redirectUri'',
      ''scopes'', ''clientIdEnv'', ''clientSecretEnv'', ''encryptionKeyEnv'', ''tokenStoreDsnEnv'', ''header'',
      ''scheme'', ''identity'', ''authorizationParams'', ''tokenEndpointAuthMethod'', ''timeoutMs'']"

definition parseOAuthCredential ::
  "url_parser \<Rightarrow> (string \<times> json) list \<Rightarrow> string + GenericOAuthCredentialDescriptor" where
  "parseOAuthCredential parse r =
     sum_bind (assertAllowedFields r ''credential'' OAUTH_FIELDS) (\<lambda>_.
     sum_bind (parseOAuthIdentity parse (js_get r ''identity'')) (\<lambda>ident.
     sum_bind (authMethodValue (js_get r ''tokenEndpointAuthMethod'')) (\<lambda>authMethod.
     sum_bind (patternString NAME_PATTERN (js_get r ''providerId'') ''credential.providerId'') (\<lambda>providerId.
     sum_bind (if isAtlassian ident \<and> providerId \<noteq> ''jira''
               then Inl ''credential.identity mode atlassian_jira_asserted_email requires providerId jira'' else Inr ()) (\<lambda>_.
     sum_bind (httpsUrl parse (js_get r ''userInfoUrl'') ''credential.userInfoUrl'') (\<lambda>userInfoUrl.
     sum_bind (if isAtlassian ident \<and> userInfoUrl \<noteq> ATLASSIAN_ACCESSIBLE_RESOURCES_URL
               then Inl (''credential.userInfoUrl must be the pinned Atlassian accessible-resources endpoint '' @
                         ATLASSIAN_ACCESSIBLE_RESOURCES_URL) else Inr ()) (\<lambda>_.
     sum_bind (parseRedirectUri parse (js_get r ''redirectUri'') providerId) (\<lambda>redirectUri.
     sum_bind (httpsUrl parse (js_get r ''authorizationUrl'') ''credential.authorizationUrl'') (\<lambda>authorizationUrl.
     sum_bind (httpsUrl parse (js_get r ''tokenUrl'') ''credential.tokenUrl'') (\<lambda>tokenUrl.
     sum_bind (optionalValue (httpsUrl parse) (js_get r ''revocationUrl'') ''credential.revocationUrl'') (\<lambda>revocationUrl.
     sum_bind (requiredStringArray False (js_get r ''scopes'') ''credential.scopes'') (\<lambda>scopes.
     sum_bind (patternString ENV_PATTERN (js_get r ''clientIdEnv'') ''credential.clientIdEnv'') (\<lambda>clientIdEnv.
     sum_bind (patternString ENV_PATTERN (js_get r ''clientSecretEnv'') ''credential.clientSecretEnv'') (\<lambda>clientSecretEnv.
     sum_bind (patternString ENV_PATTERN (js_get r ''encryptionKeyEnv'') ''credential.encryptionKeyEnv'') (\<lambda>encryptionKeyEnv.
     sum_bind (patternString ENV_PATTERN (js_get r ''tokenStoreDsnEnv'') ''credential.tokenStoreDsnEnv'') (\<lambda>tokenStoreDsnEnv.
     sum_bind (valueOrDefault headerName (js_get r ''header'') ''credential.header'' ''authorization'') (\<lambda>header.
     sum_bind (valueOrDefault nonEmptyString (js_get r ''scheme'') ''credential.scheme'' ''Bearer'') (\<lambda>scheme.
     sum_bind (optionalValue stringRecord (js_get r ''authorizationParams'') ''credential.authorizationParams'') (\<lambda>authParams.
     sum_bind (optionalValue positiveIntegerValue (js_get r ''timeoutMs'') ''credential.timeoutMs'') (\<lambda>t.
       Inr \<lparr>go_providerId = providerId, go_authorizationUrl = authorizationUrl, go_tokenUrl = tokenUrl,
            go_userInfoUrl = userInfoUrl, go_revocationUrl = revocationUrl, go_redirectUri = redirectUri,
            go_scopes = scopes, go_clientIdEnv = clientIdEnv, go_clientSecretEnv = clientSecretEnv,
            go_encryptionKeyEnv = encryptionKeyEnv, go_tokenStoreDsnEnv = tokenStoreDsnEnv, go_header = header,
            go_scheme = scheme, go_identity = ident, go_authorizationParams = authParams,
            go_tokenEndpointAuthMethod = authMethod, go_timeoutMs = t\<rparr>))))))))))))))))))))"

definition parseTokenExchange :: "url_parser \<Rightarrow> (string \<times> json) list \<Rightarrow> string + token_exchange" where
  "parseTokenExchange parse r =
     sum_bind (assertAllowedFields r ''credential''
       [''mode'', ''endpoint'', ''audience'', ''resource'', ''scopes'', ''clientIdEnv'', ''clientSecretEnv'', ''header'',
        ''scheme'', ''timeoutMs'']) (\<lambda>_.
     sum_bind (optionalValue (patternString ENV_PATTERN) (js_get r ''clientIdEnv'') ''credential.clientIdEnv'') (\<lambda>clientIdEnv.
     sum_bind (optionalValue (patternString ENV_PATTERN) (js_get r ''clientSecretEnv'') ''credential.clientSecretEnv'') (\<lambda>clientSecretEnv.
     sum_bind (if truthy clientIdEnv \<noteq> truthy clientSecretEnv
               then Inl ''token exchange clientIdEnv and clientSecretEnv must be set together'' else Inr ()) (\<lambda>_.
     sum_bind (optionalValue nonEmptyString (js_get r ''audience'') ''credential.audience'') (\<lambda>audience.
     sum_bind (optionalValue nonEmptyString (js_get r ''resource'') ''credential.resource'') (\<lambda>res.
     sum_bind (if \<not> truthy audience \<and> \<not> truthy res
               then Inl ''token exchange requires credential.audience or credential.resource'' else Inr ()) (\<lambda>_.
     sum_bind (httpsUrl parse (js_get r ''endpoint'') ''credential.endpoint'') (\<lambda>endpoint.
     sum_bind (optionalValue (requiredStringArray True) (js_get r ''scopes'') ''credential.scopes'') (\<lambda>scopes.
     sum_bind (valueOrDefault headerName (js_get r ''header'') ''credential.header'' ''authorization'') (\<lambda>header.
     sum_bind (valueOrDefault nonEmptyString (js_get r ''scheme'') ''credential.scheme'' ''Bearer'') (\<lambda>scheme.
     sum_bind (optionalValue positiveIntegerValue (js_get r ''timeoutMs'') ''credential.timeoutMs'') (\<lambda>t.
       Inr \<lparr>te_endpoint = endpoint, te_audience = audience, te_resource = res, te_scopes = scopes,
            te_clientIdEnv = clientIdEnv, te_clientSecretEnv = clientSecretEnv, te_header = header,
            te_scheme = scheme, te_timeoutMs = t\<rparr>))))))))))))"

definition parseCredential :: "url_parser \<Rightarrow> (string \<times> json) list \<Rightarrow> string + GenericCredentialDescriptor" where
  "parseCredential parse r =
     (if js_get r ''mode'' = Some (JStr ''none'')
      then sum_bind (assertAllowedFields r ''credential'' [''mode'']) (\<lambda>_. Inr NoCredential)
      else if js_get r ''mode'' = Some (JStr ''static_secret'')
      then
        sum_bind (assertAllowedFields r ''credential'' [''mode'', ''env'', ''header'', ''scheme'']) (\<lambda>_.
        sum_bind (patternString ENV_PATTERN (js_get r ''env'') ''credential.env'') (\<lambda>env.
        sum_bind (headerName (js_get r ''header'') ''credential.header'') (\<lambda>header.
        sum_bind (optionalValue nonEmptyString (js_get r ''scheme'') ''credential.scheme'') (\<lambda>scheme.
          Inr (StaticSecret env header scheme)))))
      else if js_get r ''mode'' = Some (JStr ''token_exchange'')
      then sum_bind (parseTokenExchange parse r) (\<lambda>c. Inr (TokenExchange c))
      else if js_get r ''mode'' = Some (JStr ''per_user_oauth'')
      then sum_bind (parseOAuthCredential parse r) (\<lambda>c. Inr (PerUserOAuth c))
      else Inl ''credential.mode is unsupported'')"

definition parseCatalogFilter :: "json option \<Rightarrow> string + string list option" where
  "parseCatalogFilter v =
     (if v = None then Inr None
      else
        sum_bind (objectValue v ''catalogFilter'') (\<lambda>r.
        sum_bind (assertAllowedFields r ''catalogFilter'' [''actionClasses'']) (\<lambda>_.
        sum_bind (nonEmptyArray (js_get r ''actionClasses'') ''catalogFilter.actionClasses must be a non-empty array'') (\<lambda>xs.
        sum_bind (sum_map_from 0 (\<lambda>i x. actionClassValue (Some x)
                    (''catalogFilter.actionClasses['' @ nat_str i @ ''] is invalid'')) xs) (\<lambda>cs.
          if distinct cs then Inr (Some cs) else Inl ''catalogFilter.actionClasses must not contain duplicates'')))))"

definition parseServerInfo :: "json option \<Rightarrow> string \<Rightarrow> string + string \<times> string" where
  "parseServerInfo v name =
     (if v = None then Inr (name @ ''-wrapper'', ''1.0.0'')
      else
        sum_bind (objectValue v ''serverInfo'') (\<lambda>r.
        sum_bind (assertAllowedFields r ''serverInfo'' [''name'', ''version'']) (\<lambda>_.
        sum_bind (nonEmptyString (js_get r ''name'') ''serverInfo.name'') (\<lambda>n.
        sum_bind (nonEmptyString (js_get r ''version'') ''serverInfo.version'') (\<lambda>version. Inr (n, version))))))"

definition parseSessions :: "json option \<Rightarrow> string + GenericSessionLimits" where
  "parseSessions v =
     (if v = None then Inr DEFAULT_SESSION_LIMITS
      else
        sum_bind (objectValue v ''sessions'') (\<lambda>r.
        sum_bind (assertAllowedFields r ''sessions'' [''maxTotal'', ''maxPerPrincipal'', ''idleTtlMs'']) (\<lambda>_.
        sum_bind (valueOrDefault positiveIntegerValue (js_get r ''maxTotal'') ''sessions.maxTotal''
                    (gs_maxTotal DEFAULT_SESSION_LIMITS)) (\<lambda>maxTotal.
        sum_bind (valueOrDefault positiveIntegerValue (js_get r ''maxPerPrincipal'') ''sessions.maxPerPrincipal''
                    (gs_maxPerPrincipal DEFAULT_SESSION_LIMITS)) (\<lambda>maxPerPrincipal.
        sum_bind (if maxPerPrincipal > maxTotal
                  then Inl ''sessions.maxPerPrincipal must not exceed sessions.maxTotal'' else Inr ()) (\<lambda>_.
        sum_bind (valueOrDefault positiveIntegerValue (js_get r ''idleTtlMs'') ''sessions.idleTtlMs''
                    (gs_idleTtlMs DEFAULT_SESSION_LIMITS)) (\<lambda>idleTtlMs.
          Inr \<lparr>gs_maxTotal = maxTotal, gs_maxPerPrincipal = maxPerPrincipal, gs_idleTtlMs = idleTtlMs\<rparr>)))))))"

definition parseGenericPolicy :: "json option \<Rightarrow> string + (string option \<times> string option) option" where
  "parseGenericPolicy v =
     (if v = None then Inr None
      else
        sum_bind (objectValue v ''policy'') (\<lambda>r.
        sum_bind (assertAllowedFields r ''policy'' [''yamlFile'', ''opaUrl'']) (\<lambda>_.
        sum_bind (optionalValue nonEmptyString (js_get r ''yamlFile'') ''policy.yamlFile'') (\<lambda>yamlFile.
        sum_bind (optionalValue nonEmptyString (js_get r ''opaUrl'') ''policy.opaUrl'') (\<lambda>opaUrl.
          Inr (if truthy yamlFile \<or> truthy opaUrl then Some (yamlFile, opaUrl) else None))))))"

definition parseGenericAudit :: "json option \<Rightarrow> string + string option" where
  "parseGenericAudit v =
     (if v = None then Inr None
      else
        sum_bind (objectValue v ''audit'') (\<lambda>r.
        sum_bind (assertAllowedFields r ''audit'' [''jsonlPath'']) (\<lambda>_.
        sum_bind (optionalValue nonEmptyString (js_get r ''jsonlPath'') ''audit.jsonlPath'') (\<lambda>p.
          Inr (if truthy p then p else None)))))"

definition DESCRIPTOR_FIELDS :: "string list" where
  "DESCRIPTOR_FIELDS =
     [''schemaVersion'', ''name'', ''toolPrefix'', ''catalogPath'', ''catalogFilter'', ''lifecycleRoutes'',
      ''hideToolsUntilConnected'', ''lifecycleToolNames'', ''upstream'', ''credential'', ''serverInfo'', ''sessions'',
      ''policy'', ''audit'']"

definition parseGenericWrapperDescriptor :: "url_parser \<Rightarrow> json \<Rightarrow> string + GenericWrapperDescriptor" where
  "parseGenericWrapperDescriptor parse v =
     sum_bind (objectValue (Some v) ''descriptor'') (\<lambda>r.
     sum_bind (assertAllowedFields r ''descriptor'' DESCRIPTOR_FIELDS) (\<lambda>_.
     sum_bind (if js_get r ''schemaVersion'' \<noteq> Some (JStr GENERIC_WRAPPER_SCHEMA_VERSION)
               then Inl (''schemaVersion must be '' @ GENERIC_WRAPPER_SCHEMA_VERSION) else Inr ()) (\<lambda>_.
     sum_bind (patternString NAME_PATTERN (js_get r ''name'') ''name'') (\<lambda>name.
     sum_bind (patternString TOOL_PREFIX_PATTERN (js_get r ''toolPrefix'') ''toolPrefix'') (\<lambda>toolPrefix.
     sum_bind (nonEmptyString (js_get r ''catalogPath'') ''catalogPath'') (\<lambda>catalogPath.
     sum_bind (if prefix ''/'' catalogPath then Inr () else Inl ''catalogPath must be absolute'') (\<lambda>_.
     sum_bind (valueOrDefault booleanValue (js_get r ''lifecycleRoutes'') ''lifecycleRoutes'' False) (\<lambda>lifecycleRoutes.
     sum_bind (objectValue (js_get r ''credential'') ''credential'') (\<lambda>cr.
     sum_bind (if js_get cr ''mode'' = Some (JStr ''per_user_oauth'') \<and> \<not> lifecycleRoutes
               then Inl ''per_user_oauth requires lifecycleRoutes=true'' else Inr ()) (\<lambda>_.
     sum_bind (valueOrDefault booleanValue (js_get r ''hideToolsUntilConnected'') ''hideToolsUntilConnected'' False) (\<lambda>hide.
     sum_bind (if hide \<and> js_get cr ''mode'' \<noteq> Some (JStr ''per_user_oauth'')
               then Inl ''hideToolsUntilConnected requires credential.mode=per_user_oauth'' else Inr ()) (\<lambda>_.
     sum_bind (parseCatalogFilter (js_get r ''catalogFilter'')) (\<lambda>catalogFilter.
     sum_bind (parseLifecycleToolNames (js_get r ''lifecycleToolNames'')) (\<lambda>names.
     sum_bind (parseUpstream parse (js_get r ''upstream'')) (\<lambda>upstream.
     sum_bind (parseCredential parse cr) (\<lambda>credential.
     sum_bind (parseServerInfo (js_get r ''serverInfo'') name) (\<lambda>serverInfo.
     sum_bind (parseSessions (js_get r ''sessions'')) (\<lambda>sessions.
     sum_bind (parseGenericPolicy (js_get r ''policy'')) (\<lambda>policy.
     sum_bind (parseGenericAudit (js_get r ''audit'')) (\<lambda>audit.
       Inr \<lparr>gd_name = name, gd_toolPrefix = toolPrefix, gd_catalogPath = catalogPath, gd_catalogFilter = catalogFilter,
            gd_lifecycleRoutes = lifecycleRoutes, gd_hideToolsUntilConnected = hide, gd_lifecycleToolNames = names,
            gd_upstream = upstream, gd_credential = credential, gd_serverInfo = serverInfo, gd_sessions = sessions,
            gd_policy = policy, gd_audit = audit\<rparr>))))))))))))))))))))"

section \<open>Tools\<close>

record GenericToolGrant =
  tk_actionClass :: string
  tk_operation :: "string option"
  tk_scopes :: "string list"

record GenericGovernedTool =
  gt_exposedName :: string
  gt_upstreamName :: string
  gt_alias :: "string option"
  gt_grants :: GenericToolGrant

record GenericCatalogTool = GenericGovernedTool +
  gt_description :: string
  gt_inputSchema :: "(string \<times> json) list"
  gt_readOnlyHint :: bool
  gt_destructiveHint :: "bool option"

datatype GenericToolDecision =
  IncludedTool (td_tool: GenericGovernedTool)
| ExcludedTool (td_upstreamName: string) (td_reason: string)

text \<open>A static catalog has its tools; a live one has its decisions and the tools they select.\<close>

datatype GenericToolSource =
  StaticCatalog (gc_catalogId: string) (gc_catalogTools: "GenericCatalogTool list")
| LiveCatalog (gc_catalogId: string) (gc_decisions: "GenericToolDecision list") (gc_selected: "GenericGovernedTool list")

definition governed :: "GenericCatalogTool \<Rightarrow> GenericGovernedTool" where
  "governed t = GenericGovernedTool.truncate t"

fun sourceTools :: "GenericToolSource \<Rightarrow> GenericGovernedTool list" where
  "sourceTools (StaticCatalog _ tools) = map governed tools"
| "sourceTools (LiveCatalog _ _ tools) = tools"

fun isLiveToolCatalog :: "GenericToolSource \<Rightarrow> bool" where
  "isLiveToolCatalog (LiveCatalog _ _ _) = True"
| "isLiveToolCatalog (StaticCatalog _ _) = False"

definition parseGrant_fields ::
  "(string \<times> json) list \<Rightarrow> string \<Rightarrow> string \<Rightarrow> string + GenericToolGrant" where
  "parseGrant_fields r name actionClass =
     sum_bind (optionalValue (patternString OPERATION_PATTERN) (js_get r ''operation'') (name @ ''.operation'')) (\<lambda>operation.
     sum_bind (valueOrDefault (requiredStringArray True) (js_get r ''scopes'') (name @ ''.scopes'') []) (\<lambda>scopes.
       Inr \<lparr>tk_actionClass = actionClass, tk_operation = operation, tk_scopes = scopes\<rparr>))"

definition parseCatalogTool :: "string \<Rightarrow> nat \<Rightarrow> json \<Rightarrow> string + GenericCatalogTool" where
  "parseCatalogTool toolPrefix index v =
     (let name = ''catalog.tools['' @ nat_str index @ '']'' in
      sum_bind (objectValue (Some v) name) (\<lambda>r.
      sum_bind (assertAllowedFields r name
        [''name'', ''alias'', ''description'', ''inputSchema'', ''annotations'', ''grants'']) (\<lambda>_.
      sum_bind (patternString TOOL_NAME_PATTERN (js_get r ''name'') (name @ ''.name'')) (\<lambda>upstreamName.
      sum_bind (optionalValue (patternString TOOL_ALIAS_PATTERN) (js_get r ''alias'') (name @ ''.alias'')) (\<lambda>alias.
      sum_bind (objectValue (js_get r ''annotations'') (name @ ''.annotations'')) (\<lambda>ann.
      sum_bind (assertAllowedFields ann (name @ ''.annotations'') [''readOnlyHint'', ''destructiveHint'']) (\<lambda>_.
      sum_bind (objectValue (js_get r ''grants'') (name @ ''.grants'')) (\<lambda>grants.
      sum_bind (assertAllowedFields grants (name @ ''.grants'') [''actionClass'', ''operation'', ''scopes'']) (\<lambda>_.
      sum_bind (actionClassValue (js_get grants ''actionClass'') (name @ ''.grants.actionClass is invalid'')) (\<lambda>actionClass.
      sum_bind (nonEmptyString (js_get r ''description'') (name @ ''.description'')) (\<lambda>description.
      sum_bind (objectValue (js_get r ''inputSchema'') (name @ ''.inputSchema'')) (\<lambda>inputSchema.
      sum_bind (booleanValue (js_get ann ''readOnlyHint'') (name @ ''.annotations.readOnlyHint'')) (\<lambda>readOnly.
      sum_bind (optionalValue booleanValue (js_get ann ''destructiveHint'') (name @ ''.annotations.destructiveHint'')) (\<lambda>destructive.
      sum_bind (parseGrant_fields grants (name @ ''.grants'') actionClass) (\<lambda>g.
        Inr \<lparr>gt_exposedName = toolPrefix @ ''_'' @ coalesce alias upstreamName, gt_upstreamName = upstreamName,
             gt_alias = alias, gt_grants = g, gt_description = description, gt_inputSchema = inputSchema,
             gt_readOnlyHint = readOnly, gt_destructiveHint = destructive\<rparr>)))))))))))))))"

definition parseToolDecision :: "string \<Rightarrow> nat \<Rightarrow> json \<Rightarrow> string + GenericToolDecision" where
  "parseToolDecision toolPrefix index v =
     (let name = ''decisions.tools['' @ nat_str index @ '']'' in
      sum_bind (objectValue (Some v) name) (\<lambda>r.
      sum_bind (patternString TOOL_NAME_PATTERN (js_get r ''name'') (name @ ''.name'')) (\<lambda>upstreamName.
        if js_get r ''disposition'' = Some (JStr ''exclude'')
        then
          sum_bind (assertAllowedFields r name [''name'', ''disposition'', ''reason'']) (\<lambda>_.
          sum_bind (nonEmptyString (js_get r ''reason'') (name @ ''.reason'')) (\<lambda>reason.
            Inr (ExcludedTool upstreamName reason)))
        else if js_get r ''disposition'' \<noteq> Some (JStr ''include'')
        then Inl (name @ ''.disposition must be include or exclude'')
        else
          sum_bind (assertAllowedFields r name
            [''name'', ''disposition'', ''alias'', ''actionClass'', ''operation'', ''scopes'']) (\<lambda>_.
          sum_bind (patternString TOOL_ALIAS_PATTERN (js_get r ''alias'') (name @ ''.alias'')) (\<lambda>alias.
          sum_bind (actionClassValue (js_get r ''actionClass'') (name @ ''.actionClass is invalid'')) (\<lambda>actionClass.
          sum_bind (parseGrant_fields r name actionClass) (\<lambda>g.
            Inr (IncludedTool \<lparr>gt_exposedName = toolPrefix @ ''_'' @ alias, gt_upstreamName = upstreamName,
                               gt_alias = Some alias, gt_grants = g\<rparr>))))))))"

text \<open>The loops over the entries, with the names seen so far.\<close>

fun catalogTools :: "string \<Rightarrow> nat \<Rightarrow> string list \<Rightarrow> json list \<Rightarrow> string + GenericCatalogTool list" where
  "catalogTools toolPrefix i names [] = Inr []"
| "catalogTools toolPrefix i names (v # vs) =
     sum_bind (parseCatalogTool toolPrefix i v) (\<lambda>tool.
       if gt_exposedName tool \<in> set names then Inl (''Duplicate catalog tool: '' @ gt_exposedName tool)
       else sum_bind (catalogTools toolPrefix (Suc i) (gt_exposedName tool # names) vs) (\<lambda>tools. Inr (tool # tools)))"

fun decisionName :: "GenericToolDecision \<Rightarrow> string" where
  "decisionName (IncludedTool t) = gt_upstreamName t"
| "decisionName (ExcludedTool n _) = n"

fun toolDecisions ::
  "string \<Rightarrow> nat \<Rightarrow> string list \<Rightarrow> string list \<Rightarrow> json list \<Rightarrow> string + GenericToolDecision list" where
  "toolDecisions toolPrefix i upstreamNames exposedNames [] = Inr []"
| "toolDecisions toolPrefix i upstreamNames exposedNames (v # vs) =
     sum_bind (parseToolDecision toolPrefix i v) (\<lambda>d.
       if decisionName d \<in> set upstreamNames then Inl (''Duplicate tool decision: '' @ decisionName d)
       else case d of
           ExcludedTool _ _ \<Rightarrow>
             sum_bind (toolDecisions toolPrefix (Suc i) (decisionName d # upstreamNames) exposedNames vs) (\<lambda>ds. Inr (d # ds))
         | IncludedTool t \<Rightarrow>
             (if gt_exposedName t \<in> set exposedNames then Inl (''Duplicate exposed tool decision: '' @ gt_exposedName t)
              else
                sum_bind (toolDecisions toolPrefix (Suc i) (decisionName d # upstreamNames) (gt_exposedName t # exposedNames) vs)
                  (\<lambda>ds. Inr (d # ds))))"

definition parseGenericToolCatalog :: "json \<Rightarrow> string \<Rightarrow> string + GenericToolSource" where
  "parseGenericToolCatalog v toolPrefix =
     sum_bind (patternString TOOL_PREFIX_PATTERN (Some (JStr toolPrefix)) ''toolPrefix'') (\<lambda>_.
     sum_bind (objectValue (Some v) ''catalog'') (\<lambda>r.
     sum_bind (assertAllowedFields r ''catalog'' [''schemaVersion'', ''catalogId'', ''tools'']) (\<lambda>_.
     sum_bind (if js_get r ''schemaVersion'' \<noteq> Some (JStr GENERIC_CATALOG_SCHEMA_VERSION)
               then Inl (''catalog.schemaVersion must be '' @ GENERIC_CATALOG_SCHEMA_VERSION) else Inr ()) (\<lambda>_.
     sum_bind (nonEmptyArray (js_get r ''tools'') ''catalog.tools must be a non-empty array'') (\<lambda>vs.
     sum_bind (catalogTools toolPrefix 0 [] vs) (\<lambda>tools.
     sum_bind (nonEmptyString (js_get r ''catalogId'') ''catalog.catalogId'') (\<lambda>catalogId.
       Inr (StaticCatalog catalogId tools))))))))"

definition selectedTools :: "string list option \<Rightarrow> GenericToolDecision list \<Rightarrow> GenericGovernedTool list" where
  "selectedTools classes ds =
     concat (map (\<lambda>d. case d of
         IncludedTool t \<Rightarrow>
           (if (case classes of None \<Rightarrow> True | Some cs \<Rightarrow> tk_actionClass (gt_grants t) \<in> set cs) then [t] else [])
       | ExcludedTool _ _ \<Rightarrow> []) ds)"

definition parseGenericToolDecisions :: "json \<Rightarrow> string \<Rightarrow> string list option \<Rightarrow> string + GenericToolSource" where
  "parseGenericToolDecisions v toolPrefix classes =
     sum_bind (patternString TOOL_PREFIX_PATTERN (Some (JStr toolPrefix)) ''toolPrefix'') (\<lambda>_.
     sum_bind (objectValue (Some v) ''decisions'') (\<lambda>r.
     sum_bind (assertAllowedFields r ''decisions'' [''schemaVersion'', ''catalogId'', ''tools'']) (\<lambda>_.
     sum_bind (if js_get r ''schemaVersion'' \<noteq> Some (JStr GENERIC_TOOL_DECISIONS_SCHEMA_VERSION)
               then Inl (''decisions.schemaVersion must be '' @ GENERIC_TOOL_DECISIONS_SCHEMA_VERSION) else Inr ()) (\<lambda>_.
     sum_bind (nonEmptyArray (js_get r ''tools'') ''decisions.tools must be a non-empty array'') (\<lambda>vs.
     sum_bind (toolDecisions toolPrefix 0 [] [] vs) (\<lambda>ds.
     sum_bind (if selectedTools classes ds = [] then Inl ''live tool decisions select no tools'' else Inr ()) (\<lambda>_.
     sum_bind (nonEmptyString (js_get r ''catalogId'') ''decisions.catalogId'') (\<lambda>catalogId.
       Inr (LiveCatalog catalogId ds (selectedTools classes ds))))))))))"

text \<open>\<open>loadGenericToolSource\<close>, from the value that the file holds.\<close>

definition loadGenericToolSource :: "json \<Rightarrow> string \<Rightarrow> string list option \<Rightarrow> string + GenericToolSource" where
  "loadGenericToolSource v toolPrefix classes =
     (if Option.bind (as_record v) (\<lambda>r. js_get r ''schemaVersion'') = Some (JStr GENERIC_TOOL_DECISIONS_SCHEMA_VERSION)
      then parseGenericToolDecisions v toolPrefix classes
      else if classes \<noteq> None then Inl ''catalogFilter requires a live tool-decisions catalog''
      else parseGenericToolCatalog v toolPrefix)"

section \<open>Checks that span both\<close>

definition RESERVED_PROVIDER_IDS :: "string list" where "RESERVED_PROVIDER_IDS = [''google'', ''github'']"

definition reservedToolNames :: "GenericWrapperDescriptor \<Rightarrow> string list" where
  "reservedToolNames d =
     [gd_toolPrefix d @ ''_'' @ ln_status (gd_lifecycleToolNames d), gd_toolPrefix d @ ''_'' @ ln_start (gd_lifecycleToolNames d)]"

definition validateGenericWrapperConfiguration :: "GenericWrapperDescriptor \<Rightarrow> GenericToolSource \<Rightarrow> string + unit" where
  "validateGenericWrapperConfiguration d source =
     sum_bind
       (case gd_upstream d of
          StdioUpstream _ _ _ env _ \<Rightarrow>
            (if gd_credential d \<noteq> NoCredential \<and> \<not> truthy env
             then Inl ''A credentialed stdio upstream requires upstream.credentialEnv'' else Inr ())
        | HttpUpstream _ _ \<Rightarrow> Inr ()) (\<lambda>_.
       case gd_credential d of
         PerUserOAuth c \<Rightarrow>
           (if go_providerId c \<in> set RESERVED_PROVIDER_IDS
            then Inl (''OAuth providerId '' @ go_providerId c @ '' is reserved'')
            else case List.find (\<lambda>t. gt_exposedName t \<in> set (reservedToolNames d)) (sourceTools source) of
                Some t \<Rightarrow> Inl (''Catalog tool '' @ gt_exposedName t @ '' collides with a lifecycle helper'')
              | None \<Rightarrow>
                  (case List.find (\<lambda>(t, s). s \<notin> set (go_scopes c))
                          (concat (map (\<lambda>t. map (Pair t) (tk_scopes (gt_grants t))) (sourceTools source))) of
                     Some (t, s) \<Rightarrow>
                       Inl (''Catalog tool '' @ gt_exposedName t @ '' requires '' @ s @
                            '', which is absent from OAuth consent scopes'')
                   | None \<Rightarrow> Inr ()))
       | _ \<Rightarrow> Inr ())"

end
