(* ===== verification/Oauth_Adapters.thy ===== *)
theory Oauth_Adapters
  imports Lifecycle_Renew Workspace_Registry Descriptor
begin

text \<open>
  The provider adapters of \<open>shared/oauth/provider-adapters.ts\<close> (Google, GitHub) and of
  \<open>servers/generic-wrapper/src/oauth.ts\<close>: what they ask a provider, how they read its answers, and the adapter that
  they are for the connection lifecycle. \<open>fetch\<close> is a function from requests to replies, where \<open>None\<close> is a
  rejected promise; it takes the number of the attempt, since a renewal is asked again after a transient failure.
  A date past the range of \<open>Date\<close> is not told from others. Headers are named in the order the code sets them.
\<close>

section \<open>Requests and replies\<close>

datatype provider_payload = NoPayload | FormPayload "(string \<times> string) list" | JsonPayload json

record provider_request =
  pq_url :: string
  pq_method :: string
  pq_headers :: "(string \<times> string) list"
  pq_payload :: provider_payload

text \<open>What \<open>response.json()\<close> gives: a value, a rejection for a time-out, or another rejection.\<close>

datatype body_answer = JsonIs json | BodyTimedOut | NotJson

record provider_reply =
  rp_status :: nat
  rp_body :: body_answer

type_synonym provider_fetch = "provider_request \<Rightarrow> provider_reply option"

definition rp_ok :: "provider_reply \<Rightarrow> bool" where
  "rp_ok r \<longleftrightarrow> 200 \<le> rp_status r \<and> rp_status r \<le> 299"

definition providerFetch :: "provider_fetch \<Rightarrow> provider_request \<Rightarrow> provider_reply res" where
  "providerFetch fetch rq =
     (case fetch rq of None \<Rightarrow> Inl (ProviderLifecycleError transient_provider_failure) | Some r \<Rightarrow> Inr r)"

definition providerResponseError :: "provider_reply \<Rightarrow> lifecycle_error" where
  "providerResponseError r =
     ProviderLifecycleError
       (if rp_status r = 429 \<or> rp_status r \<ge> 500 then transient_provider_failure else invalid_active_credential)"

definition malformedResponse :: lifecycle_error where
  "malformedResponse = ProviderLifecycleError malformed_provider_response"

definition invalidRenewal :: lifecycle_error where
  "invalidRenewal = ProviderLifecycleError invalid_renewal_credential"

fun responseJson :: "body_answer \<Rightarrow> json option res" where
  "responseJson (JsonIs v) = Inr (Some v)"
| "responseJson NotJson = Inr None"
| "responseJson BodyTimedOut = Inl (ProviderLifecycleError transient_provider_failure)"

definition jsonObject :: "provider_reply \<Rightarrow> (string \<times> json) list res" where
  "jsonObject r =
     sum_bind (responseJson (rp_body r)) (\<lambda>body.
       case Option.bind body as_record of
         Some fs \<Rightarrow> Inr fs
       | None \<Rightarrow> Inl (if rp_ok r then malformedResponse else providerResponseError r))"

definition stringField :: "(string \<times> json) list \<Rightarrow> string \<Rightarrow> string option" where
  "stringField body k = Option.bind (js_get body k) as_string"

definition positiveNumber :: "json option \<Rightarrow> rat option" where
  "positiveNumber v = (case v of Some (JNum n) \<Rightarrow> (if n > 0 then Some n else None) | _ \<Rightarrow> None)"

text \<open>\<open>new Date(now + seconds * 1000)\<close> cuts the fraction off.\<close>

definition expiryAfter :: "time_ms \<Rightarrow> rat \<Rightarrow> time_ms" where
  "expiryAfter now seconds = \<lfloor>of_int now + seconds * 1000\<rfloor>"

definition positiveIntegerString :: "json option \<Rightarrow> string option" where
  "positiveIntegerString v =
     (case v of
        Some (JNum n) \<Rightarrow> (if of_int \<lfloor>n\<rfloor> = n \<and> 0 < n \<and> n \<le> 9007199254740991 then Some (nat_str (nat \<lfloor>n\<rfloor>)) else None)
      | _ \<Rightarrow> None)"

text \<open>\<open>value.split(/[,\s]+/).filter(Boolean)\<close>.\<close>

fun scope_words :: "string \<Rightarrow> string \<Rightarrow> string list" where
  "scope_words w [] = (if w = [] then [] else [w])"
| "scope_words w (c # cs) =
     (if c = CHR '','' \<or> is_space c then (if w = [] then scope_words [] cs else w # scope_words [] cs)
      else scope_words (w @ [c]) cs)"

definition splitScopes :: "string \<Rightarrow> string list" where
  "splitScopes s = scope_words [] s"

text \<open>\<open>URLSearchParams.set\<close>: the first entry of the name takes the value, the others go.\<close>

fun search_set :: "string \<Rightarrow> string \<Rightarrow> (string \<times> string) list \<Rightarrow> (string \<times> string) list" where
  "search_set k v [] = [(k, v)]"
| "search_set k v ((k', v') # ps) = (if k' = k then (k, v) # filter (\<lambda>p. fst p \<noteq> k) ps else (k', v') # search_set k v ps)"

text \<open>\<open>Buffer.from(text).toString("base64")\<close>.\<close>

definition base64_digit :: "nat \<Rightarrow> char" where
  "base64_digit n = ''ABCDEFGHIJKLMNOPQRSTUVWXYZabcdefghijklmnopqrstuvwxyz0123456789+/'' ! n"

fun base64_of :: "nat list \<Rightarrow> string" where
  "base64_of (a # b # c # ns) =
     [base64_digit (a div 4), base64_digit ((a mod 4) * 16 + b div 16), base64_digit ((b mod 16) * 4 + c div 64),
      base64_digit (c mod 64)] @ base64_of ns"
| "base64_of [a, b] =
     [base64_digit (a div 4), base64_digit ((a mod 4) * 16 + b div 16), base64_digit ((b mod 16) * 4), CHR ''='']"
| "base64_of [a] = [base64_digit (a div 4), base64_digit ((a mod 4) * 16), CHR ''='', CHR ''='']"
| "base64_of [] = []"

definition utf8_bytes :: "string \<Rightarrow> nat list" where
  "utf8_bytes s = concat (map (\<lambda>c. let n = of_char c in if n < 128 then [n] else [192 + n div 64, 128 + n mod 64]) s)"

definition basicAuthorization :: "string \<Rightarrow> string \<Rightarrow> string" where
  "basicAuthorization clientId clientSecret = ''Basic '' @ base64_of (utf8_bytes (clientId @ '':'' @ clientSecret))"

definition percent_digit :: "nat \<Rightarrow> char" where "percent_digit n = ''0123456789ABCDEF'' ! n"

definition encodeChar :: "char \<Rightarrow> string" where
  "encodeChar c =
     (if is_alpha c \<or> is_digit c \<or> c \<in> set ''-_.!~*()'' \<or> c = CHR 0x27 then [c]
      else concat (map (\<lambda>n. [CHR ''%'', percent_digit (n div 16), percent_digit (n mod 16)]) (utf8_bytes [c])))"

definition encodeURIComponent :: "string \<Rightarrow> string" where
  "encodeURIComponent s = concat (map encodeChar s)"

text \<open>The query of a URL, from the URL parser.\<close>

type_synonym query_parser = "string \<Rightarrow> (string \<times> string) list"

record AuthorizationContinuation =
  ac_url :: string
  ac_query :: "(string \<times> string) list"

definition with_query :: "query_parser \<Rightarrow> string \<Rightarrow> (string \<times> string) list \<Rightarrow> AuthorizationContinuation" where
  "with_query parseQuery url values = \<lparr>ac_url = url, ac_query = foldl (\<lambda>q (k, v). search_set k v q) (parseQuery url) values\<rparr>"

definition FORM_HEADER :: "string \<times> string" where
  "FORM_HEADER = (''content-type'', ''application/x-www-form-urlencoded'')"

definition tokenCall :: "string \<Rightarrow> (string \<times> string) list \<Rightarrow> (string \<times> string) list \<Rightarrow> provider_request" where
  "tokenCall url headers params =
     \<lparr>pq_url = url, pq_method = ''POST'', pq_headers = headers, pq_payload = FormPayload params\<rparr>"

definition readCall :: "string \<Rightarrow> (string \<times> string) list \<Rightarrow> provider_request" where
  "readCall url headers = \<lparr>pq_url = url, pq_method = ''GET'', pq_headers = headers, pq_payload = NoPayload\<rparr>"

definition bearer :: "string \<Rightarrow> string \<times> string" where "bearer token = (''authorization'', ''Bearer '' @ token)"

text \<open>The credentials of a token response.\<close>

definition tokenEnvelope :: "(string \<times> json) list \<Rightarrow> ProviderCredentialEnvelope res" where
  "tokenEnvelope body =
     (if stringField body ''access_token'' = None \<and> stringField body ''refresh_token'' = None then Inl malformedResponse
      else Inr \<lparr>activeCredential = stringField body ''access_token'', renewalCredential = stringField body ''refresh_token'',
                providerFields = []\<rparr>)"

definition grantedScopesOf :: "(string \<times> json) list \<Rightarrow> string list \<Rightarrow> string list" where
  "grantedScopesOf body fallback = (case stringField body ''scope'' of Some s \<Rightarrow> splitScopes s | None \<Rightarrow> fallback)"

section \<open>Google\<close>

record GoogleOAuthConfig =
  gc_clientId :: string
  gc_clientSecret :: string
  gc_redirectUri :: string
  gc_authorizationUrl :: "string option"
  gc_tokenUrl :: "string option"
  gc_userInfoUrl :: "string option"
  gc_revocationUrl :: "string option"

definition GOOGLE_CONNECTION_CAPABILITIES :: ProviderConnectionCapabilities where
  "GOOGLE_CONNECTION_CAPABILITIES =
     \<lparr>interactiveAuthorization = True, activeCredentialExpiry = True, automaticRenewal = True, manualRenewal = True,
      rotatingRenewalCredential = False, providerValidation = True, providerRevocation = True, scopeReporting = True,
      identityVerification = True, accountIdentityReporting = False, authorizationRequiresRenewalCredential = True\<rparr>"

definition hasGoogleScope :: "string list \<Rightarrow> string \<Rightarrow> bool" where
  "hasGoogleScope granted required \<longleftrightarrow> required \<in> set granted \<or> list_ex (\<lambda>s. googleScopeImplies s required) granted"

definition googleHasRequiredScopes :: "string list \<Rightarrow> string list \<Rightarrow> bool" where
  "googleHasRequiredScopes granted required = list_all (hasGoogleScope granted) required"

definition googleStartAuthorization ::
  "query_parser \<Rightarrow> GoogleOAuthConfig \<Rightarrow> Hop1Identity \<Rightarrow> string list \<Rightarrow> string \<Rightarrow> AuthorizationContinuation" where
  "googleStartAuthorization parseQuery cfg identity scopes state =
     with_query parseQuery (coalesce (gc_authorizationUrl cfg) ''https://accounts.google.com/o/oauth2/v2/auth'')
       [(''client_id'', gc_clientId cfg), (''redirect_uri'', gc_redirectUri cfg), (''response_type'', ''code''),
        (''scope'', join_with '' '' scopes), (''access_type'', ''offline''), (''prompt'', ''consent''), (''state'', state),
        (''login_hint'', hi_email identity)]"

definition googleTokenUrl :: "GoogleOAuthConfig \<Rightarrow> string" where
  "googleTokenUrl cfg = coalesce (gc_tokenUrl cfg) ''https://oauth2.googleapis.com/token''"

definition googleCompleteAuthorization ::
  "GoogleOAuthConfig \<Rightarrow> provider_fetch \<Rightarrow> time_ms \<Rightarrow> string \<Rightarrow> Hop1Identity \<Rightarrow> string list \<Rightarrow> IssuedCredentialGeneration res" where
  "googleCompleteAuthorization cfg fetch now code who requestedScopes =
     sum_bind (providerFetch fetch (tokenCall (googleTokenUrl cfg) [FORM_HEADER]
       [(''code'', code), (''client_id'', gc_clientId cfg), (''client_secret'', gc_clientSecret cfg),
        (''redirect_uri'', gc_redirectUri cfg), (''grant_type'', ''authorization_code'')])) (\<lambda>r.
     sum_bind (jsonObject r) (\<lambda>body.
       if \<not> rp_ok r then Inl (providerResponseError r)
       else sum_bind (tokenEnvelope body) (\<lambda>credential.
         Inr \<lparr>ig_credential = credential, ig_displayAccountIdentity = hi_email who,
              ig_grantedScopes = grantedScopesOf body requestedScopes,
              ig_activeCredentialExpiresAt = Some (expiryAfter now (coalesce (positiveNumber (js_get body ''expires_in'')) 3600)),
              ig_renewalCredentialExpiresAt = None, ig_validatedAt = None, ig_providerAccount = None\<rparr>)))"

definition googleRenew ::
  "GoogleOAuthConfig \<Rightarrow> provider_fetch \<Rightarrow> time_ms \<Rightarrow> DecryptedCredentialGeneration \<Rightarrow> RenewedCredentialGeneration res" where
  "googleRenew cfg fetch now g =
     (if \<not> truthy (renewalCredential (dg_credential g)) then Inl invalidRenewal
      else
        sum_bind (providerFetch fetch (tokenCall (googleTokenUrl cfg) [FORM_HEADER]
          [(''client_id'', gc_clientId cfg), (''client_secret'', gc_clientSecret cfg),
           (''refresh_token'', the (renewalCredential (dg_credential g))), (''grant_type'', ''refresh_token'')])) (\<lambda>r.
        sum_bind (jsonObject r) (\<lambda>body.
          if \<not> rp_ok r
          then Inl (if js_get body ''error'' = Some (JStr ''invalid_grant'') then invalidRenewal else providerResponseError r)
          else sum_bind (tokenEnvelope body) (\<lambda>credential.
            Inr \<lparr>rg_credential = credential, rg_grantedScopes = Some (grantedScopesOf body (dg_grantedScopes g)),
                 rg_activeCredentialExpiresAt = Some (expiryAfter now (coalesce (positiveNumber (js_get body ''expires_in'')) 3600)),
                 rg_renewalCredentialExpiresAt = None, rg_validatedAt = None, rg_providerAccount = None\<rparr>))))"

definition googleValidateIdentity ::
  "GoogleOAuthConfig \<Rightarrow> provider_fetch \<Rightarrow> DecryptedCredentialGeneration \<Rightarrow> Hop1Identity \<Rightarrow> ValidatedProviderIdentity res" where
  "googleValidateIdentity cfg fetch g who =
     (if \<not> truthy (activeCredential (dg_credential g)) then Inl (ProviderLifecycleError invalid_active_credential)
      else
        sum_bind (providerFetch fetch (readCall (coalesce (gc_userInfoUrl cfg) ''https://www.googleapis.com/oauth2/v3/userinfo'')
          [bearer (the (activeCredential (dg_credential g)))])) (\<lambda>r.
        sum_bind (jsonObject r) (\<lambda>body.
          case stringField body ''email'' of
            None \<Rightarrow> Inl (providerResponseError r)
          | Some email \<Rightarrow>
              (if \<not> rp_ok r then Inl (providerResponseError r)
               else if email \<noteq> hi_email who then Inl (ProviderLifecycleError identity_mismatch)
               else Inr \<lparr>vi_displayAccountIdentity = email, vi_providerAccount = None\<rparr>))))"

definition revocationOutcome :: "provider_reply \<Rightarrow> ProviderRevocationResult" where
  "revocationOutcome r =
     (if rp_ok r then Res_revoked
      else if rp_status r = 400 \<or> rp_status r = 404 then Res_already_absent
      else if rp_status r = 429 \<or> rp_status r \<ge> 500 then Res_retryable_failure else Res_permanent_failure)"

definition revocableToken :: "DecryptedCredentialGeneration \<Rightarrow> string option" where
  "revocableToken g =
     (let token = orelse (renewalCredential (dg_credential g)) (activeCredential (dg_credential g)) in
      if truthy token then token else None)"

definition googleRevoke :: "GoogleOAuthConfig \<Rightarrow> provider_fetch \<Rightarrow> DecryptedCredentialGeneration \<Rightarrow> ProviderRevocationResult res" where
  "googleRevoke cfg fetch g =
     (case revocableToken g of
        None \<Rightarrow> Inr Res_already_absent
      | Some token \<Rightarrow>
          sum_bind (providerFetch fetch (tokenCall (coalesce (gc_revocationUrl cfg) ''https://oauth2.googleapis.com/revoke'')
            [FORM_HEADER] [(''token'', token)])) (\<lambda>r. Inr (revocationOutcome r)))"

definition googleAdapter :: "GoogleOAuthConfig \<Rightarrow> (nat \<Rightarrow> provider_fetch) \<Rightarrow> (nat \<Rightarrow> time_ms) \<Rightarrow> adapter" where
  "googleAdapter cfg fetch clock =
     \<lparr>providerId = ''google'', capabilities = GOOGLE_CONNECTION_CAPABILITIES, statusActions = None,
      hasRequiredScopes = Some googleHasRequiredScopes,
      ad_renew = Some (\<lambda>g n. googleRenew cfg (fetch n) (clock n) g),
      ad_validateIdentity = Some (googleValidateIdentity cfg (fetch 0)), ad_revoke = Some (googleRevoke cfg (fetch 0))\<rparr>"

section \<open>GitHub\<close>

record GitHubOAuthConfig =
  hc_clientId :: string
  hc_clientSecret :: string
  hc_redirectUri :: string
  hc_authorizationUrl :: "string option"
  hc_tokenUrl :: "string option"
  hc_userUrl :: "string option"
  hc_userEmailsUrl :: "string option"
  hc_tokenRevocationUrl :: "string option"

definition GITHUB_CONNECTION_CAPABILITIES :: ProviderConnectionCapabilities where
  "GITHUB_CONNECTION_CAPABILITIES =
     \<lparr>interactiveAuthorization = True, activeCredentialExpiry = True, automaticRenewal = True, manualRenewal = True,
      rotatingRenewalCredential = True, providerValidation = True, providerRevocation = True, scopeReporting = True,
      identityVerification = True, accountIdentityReporting = True, authorizationRequiresRenewalCredential = False\<rparr>"

definition githubStartAuthorization ::
  "query_parser \<Rightarrow> GitHubOAuthConfig \<Rightarrow> Hop1Identity \<Rightarrow> string list \<Rightarrow> string \<Rightarrow> AuthorizationContinuation" where
  "githubStartAuthorization parseQuery cfg identity scopes state =
     with_query parseQuery (coalesce (hc_authorizationUrl cfg) ''https://github.com/login/oauth/authorize'')
       [(''client_id'', hc_clientId cfg), (''redirect_uri'', hc_redirectUri cfg), (''scope'', join_with '' '' scopes),
        (''state'', state), (''login'', hi_email identity)]"

definition githubTokenCall :: "GitHubOAuthConfig \<Rightarrow> (string \<times> string) list \<Rightarrow> provider_request" where
  "githubTokenCall cfg params =
     tokenCall (coalesce (hc_tokenUrl cfg) ''https://github.com/login/oauth/access_token'')
       [(''accept'', ''application/json''), FORM_HEADER] params"

definition expiryField :: "time_ms \<Rightarrow> (string \<times> json) list \<Rightarrow> string \<Rightarrow> time_ms option" where
  "expiryField now body k = map_option (expiryAfter now) (positiveNumber (js_get body k))"

definition githubCompleteAuthorization ::
  "GitHubOAuthConfig \<Rightarrow> provider_fetch \<Rightarrow> time_ms \<Rightarrow> string \<Rightarrow> Hop1Identity \<Rightarrow> string list \<Rightarrow> IssuedCredentialGeneration res" where
  "githubCompleteAuthorization cfg fetch now code who requestedScopes =
     sum_bind (providerFetch fetch (githubTokenCall cfg
       [(''code'', code), (''client_id'', hc_clientId cfg), (''client_secret'', hc_clientSecret cfg),
        (''redirect_uri'', hc_redirectUri cfg)])) (\<lambda>r.
     sum_bind (jsonObject r) (\<lambda>body.
       if \<not> rp_ok r then Inl (providerResponseError r)
       else sum_bind (tokenEnvelope body) (\<lambda>credential.
         Inr \<lparr>ig_credential = credential, ig_displayAccountIdentity = hi_email who,
              ig_grantedScopes = grantedScopesOf body requestedScopes,
              ig_activeCredentialExpiresAt = expiryField now body ''expires_in'',
              ig_renewalCredentialExpiresAt = expiryField now body ''refresh_token_expires_in'',
              ig_validatedAt = None, ig_providerAccount = None\<rparr>)))"

definition githubRenew ::
  "GitHubOAuthConfig \<Rightarrow> provider_fetch \<Rightarrow> time_ms \<Rightarrow> DecryptedCredentialGeneration \<Rightarrow> RenewedCredentialGeneration res" where
  "githubRenew cfg fetch now g =
     (if \<not> truthy (renewalCredential (dg_credential g)) then Inl invalidRenewal
      else
        sum_bind (providerFetch fetch (githubTokenCall cfg
          [(''client_id'', hc_clientId cfg), (''client_secret'', hc_clientSecret cfg),
           (''refresh_token'', the (renewalCredential (dg_credential g))), (''grant_type'', ''refresh_token'')])) (\<lambda>r.
        sum_bind (jsonObject r) (\<lambda>body.
          if \<not> rp_ok r
          then Inl (if js_get body ''error'' \<in> {Some (JStr ''bad_refresh_token''), Some (JStr ''invalid_grant'')}
                    then invalidRenewal else providerResponseError r)
          else sum_bind (tokenEnvelope body) (\<lambda>credential.
            Inr \<lparr>rg_credential = credential, rg_grantedScopes = Some (grantedScopesOf body (dg_grantedScopes g)),
                 rg_activeCredentialExpiresAt = expiryField now body ''expires_in'',
                 rg_renewalCredentialExpiresAt =
                   orelse (expiryField now body ''refresh_token_expires_in'') (dg_renewalCredentialExpiresAt g),
                 rg_validatedAt = None, rg_providerAccount = None\<rparr>))))"

definition githubHeaders :: "string \<Rightarrow> (string \<times> string) list" where
  "githubHeaders token = [(''accept'', ''application/vnd.github+json''), bearer token]"

definition verifiedEmail :: "string \<Rightarrow> json \<Rightarrow> bool" where
  "verifiedEmail email entry \<longleftrightarrow>
     (\<exists>e \<in> set_option (as_record entry). js_get e ''verified'' = Some (JBool True) \<and>
        map_option to_lower_case (stringField e ''email'') = Some (to_lower_case email))"

definition githubEmailsMatch :: "GitHubOAuthConfig \<Rightarrow> provider_fetch \<Rightarrow> (string \<times> string) list \<Rightarrow> string \<Rightarrow> bool res" where
  "githubEmailsMatch cfg fetch headers email =
     sum_bind (providerFetch fetch (readCall (coalesce (hc_userEmailsUrl cfg) ''https://api.github.com/user/emails'') headers)) (\<lambda>r.
     sum_bind (responseJson (rp_body r)) (\<lambda>body.
       case Option.bind body as_array of
         None \<Rightarrow> Inl (providerResponseError r)
       | Some entries \<Rightarrow> (if rp_ok r then Inr (list_ex (verifiedEmail email) entries) else Inl (providerResponseError r))))"

definition githubAccount :: "GitHubOAuthConfig \<Rightarrow> provider_fetch \<Rightarrow> (string \<times> string) list \<Rightarrow> ProviderAccountIdentity res" where
  "githubAccount cfg fetch headers =
     sum_bind (providerFetch fetch (readCall (coalesce (hc_userUrl cfg) ''https://api.github.com/user'') headers)) (\<lambda>r.
     sum_bind (jsonObject r) (\<lambda>account.
       if \<not> rp_ok r then Inl (providerResponseError r)
       else case (positiveIntegerString (js_get account ''id''), stringField account ''login'') of
           (Some i, Some (c # cs)) \<Rightarrow> Inr \<lparr>pa_id = i, pa_login = Some (c # cs)\<rparr>
         | _ \<Rightarrow> Inl malformedResponse))"

definition githubValidateIdentity ::
  "GitHubOAuthConfig \<Rightarrow> provider_fetch \<Rightarrow> DecryptedCredentialGeneration \<Rightarrow> Hop1Identity \<Rightarrow> ValidatedProviderIdentity res" where
  "githubValidateIdentity cfg fetch g who =
     (if \<not> truthy (activeCredential (dg_credential g)) then Inl (ProviderLifecycleError invalid_active_credential)
      else
        (let headers = githubHeaders (the (activeCredential (dg_credential g))) in
         sum_bind (githubAccount cfg fetch headers) (\<lambda>account.
         sum_bind (githubEmailsMatch cfg fetch headers (hi_email who)) (\<lambda>matching.
           if \<not> matching then Inl (ProviderLifecycleError identity_mismatch)
           else Inr \<lparr>vi_displayAccountIdentity = hi_email who, vi_providerAccount = Some account\<rparr>))))"

definition githubRevoke :: "GitHubOAuthConfig \<Rightarrow> provider_fetch \<Rightarrow> DecryptedCredentialGeneration \<Rightarrow> ProviderRevocationResult res" where
  "githubRevoke cfg fetch g =
     (if \<not> truthy (activeCredential (dg_credential g))
      then Inr (if truthy (renewalCredential (dg_credential g)) then Res_permanent_failure else Res_already_absent)
      else
        sum_bind (providerFetch fetch
          \<lparr>pq_url = coalesce (hc_tokenRevocationUrl cfg)
                      (''https://api.github.com/applications/'' @ encodeURIComponent (hc_clientId cfg) @ ''/token''),
           pq_method = ''DELETE'',
           pq_headers = [(''accept'', ''application/vnd.github+json''),
             (''authorization'', basicAuthorization (hc_clientId cfg) (hc_clientSecret cfg)),
             (''content-type'', ''application/json''), (''x-github-api-version'', ''2022-11-28'')],
           pq_payload = JsonPayload (JObj [(''access_token'', JStr (the (activeCredential (dg_credential g))))])\<rparr>) (\<lambda>r.
          Inr (if rp_status r = 204 then Res_revoked
               else if rp_status r = 404 \<or> rp_status r = 422 then Res_already_absent
               else if rp_status r = 429 \<or> rp_status r \<ge> 500 then Res_retryable_failure else Res_permanent_failure)))"

definition githubAdapter :: "GitHubOAuthConfig \<Rightarrow> (nat \<Rightarrow> provider_fetch) \<Rightarrow> (nat \<Rightarrow> time_ms) \<Rightarrow> adapter" where
  "githubAdapter cfg fetch clock =
     \<lparr>providerId = ''github'', capabilities = GITHUB_CONNECTION_CAPABILITIES, statusActions = None, hasRequiredScopes = None,
      ad_renew = Some (\<lambda>g n. githubRenew cfg (fetch n) (clock n) g),
      ad_validateIdentity = Some (githubValidateIdentity cfg (fetch 0)), ad_revoke = Some (githubRevoke cfg (fetch 0))\<rparr>"

section \<open>The generic wrapper\<close>

record GenericOAuthRuntimeConfig =
  gr_descriptor :: GenericOAuthCredentialDescriptor
  gr_clientId :: string
  gr_clientSecret :: string
  gr_encryptionKey :: string
  gr_tokenStoreDsn :: string
  gr_parseUrl :: url_parser

definition requiredOAuthEnv :: "(string \<Rightarrow> string option) \<Rightarrow> string \<Rightarrow> string + string" where
  "requiredOAuthEnv env name =
     (let v = map_option trim (env name) in
      if truthy v then Inr (the v) else Inl (''Missing required OAuth environment variable: '' @ name))"

definition createGenericOAuthRuntimeConfig ::
  "url_parser \<Rightarrow> GenericOAuthCredentialDescriptor \<Rightarrow> (string \<Rightarrow> string option) \<Rightarrow> string + GenericOAuthRuntimeConfig" where
  "createGenericOAuthRuntimeConfig parse d env =
     sum_bind (requiredOAuthEnv env (go_clientIdEnv d)) (\<lambda>clientId.
     sum_bind (requiredOAuthEnv env (go_clientSecretEnv d)) (\<lambda>clientSecret.
     sum_bind (requiredOAuthEnv env (go_encryptionKeyEnv d)) (\<lambda>encryptionKey.
     sum_bind (requiredOAuthEnv env (go_tokenStoreDsnEnv d)) (\<lambda>dsn.
       Inr \<lparr>gr_descriptor = d, gr_clientId = clientId, gr_clientSecret = clientSecret, gr_encryptionKey = encryptionKey,
            gr_tokenStoreDsn = dsn, gr_parseUrl = parse\<rparr>))))"

definition genericCapabilities :: "GenericOAuthRuntimeConfig \<Rightarrow> ProviderConnectionCapabilities" where
  "genericCapabilities cfg =
     \<lparr>interactiveAuthorization = True, activeCredentialExpiry = True, automaticRenewal = True, manualRenewal = True,
      rotatingRenewalCredential = True, providerValidation = True,
      providerRevocation = truthy (go_revocationUrl (gr_descriptor cfg)), scopeReporting = True,
      identityVerification = True, accountIdentityReporting = True, authorizationRequiresRenewalCredential = False\<rparr>"

definition genericHasRequiredScopes :: "string list \<Rightarrow> string list \<Rightarrow> bool" where
  "genericHasRequiredScopes granted required = list_all (\<lambda>s. s \<in> set granted) required"

definition genericStartAuthorization ::
  "query_parser \<Rightarrow> GenericOAuthRuntimeConfig \<Rightarrow> Hop1Identity \<Rightarrow> string list \<Rightarrow> string \<Rightarrow> AuthorizationContinuation" where
  "genericStartAuthorization parseQuery cfg identity scopes state =
     (let d = gr_descriptor cfg;
          u = with_query parseQuery (go_authorizationUrl d)
                [(''client_id'', gr_clientId cfg), (''redirect_uri'', go_redirectUri d), (''response_type'', ''code''),
                 (''scope'', join_with '' '' scopes), (''state'', state)] in
      u\<lparr>ac_query := foldl (\<lambda>q (k, v). if k \<in> fst ` set q then q else search_set k v q) (ac_query u)
                     (coalesce (go_authorizationParams d) [])\<rparr>)"

fun jsonValue :: "body_answer \<Rightarrow> json res" where
  "jsonValue (JsonIs v) = Inr v"
| "jsonValue NotJson = Inl malformedResponse"
| "jsonValue BodyTimedOut = Inl (ProviderLifecycleError transient_provider_failure)"

definition objectFrom :: "json \<Rightarrow> (string \<times> json) list res" where
  "objectFrom v = (case as_record v of None \<Rightarrow> Inl malformedResponse | Some fs \<Rightarrow> Inr fs)"

definition jsonObjectOf :: "provider_reply \<Rightarrow> (string \<times> json) list res" where
  "jsonObjectOf r = sum_bind (jsonValue (rp_body r)) objectFrom"

definition nonEmptyField :: "json option \<Rightarrow> string option" where
  "nonEmptyField v = (case v of Some (JStr (c # cs)) \<Rightarrow> Some (c # cs) | _ \<Rightarrow> None)"

definition valueAtPath :: "json \<Rightarrow> string \<Rightarrow> json option" where
  "valueAtPath v path =
     foldl (\<lambda>cur segment. Option.bind cur (\<lambda>c. Option.bind (as_record c) (\<lambda>r. js_get r segment))) (Some v) (split_on CHR ''.'' path)"

definition stringAtPath :: "(string \<times> json) list \<Rightarrow> string \<Rightarrow> string option" where
  "stringAtPath body path = nonEmptyField (valueAtPath (JObj body) path)"

definition normalizeEmail :: "string \<Rightarrow> string" where "normalizeEmail v = to_lower_case (trim v)"

definition normalizedOrigin :: "url_parser \<Rightarrow> string \<Rightarrow> string option" where
  "normalizedOrigin parse v =
     (case parse v of
        None \<Rightarrow> None
      | Some u \<Rightarrow>
          (if url_protocol u \<noteq> ''https:'' \<or> url_pathname u \<noteq> ''/'' \<or> url_search u \<noteq> [] \<or> url_hash u \<noteq> [] then None
           else Some (url_origin u)))"

definition siteMatches :: "url_parser \<Rightarrow> string \<Rightarrow> json \<Rightarrow> bool" where
  "siteMatches parse siteUrl entry \<longleftrightarrow>
     (case as_record entry of
        None \<Rightarrow> False
      | Some e \<Rightarrow>
          (case nonEmptyField (js_get e ''url'') of None \<Rightarrow> False | Some u \<Rightarrow> normalizedOrigin parse u = Some siteUrl))"

definition resolveAtlassianJiraSite :: "url_parser \<Rightarrow> json \<Rightarrow> string \<Rightarrow> string res" where
  "resolveAtlassianJiraSite parse v siteUrl =
     (case as_array v of
        None \<Rightarrow> Inl malformedResponse
      | Some entries \<Rightarrow>
          (case filter (siteMatches parse siteUrl) entries of
             [m] \<Rightarrow>
               (case nonEmptyField (js_get (the (as_record m)) ''id'') of
                  None \<Rightarrow> Inl malformedResponse
                | Some cloudId \<Rightarrow> Inr cloudId)
           | _ \<Rightarrow> Inl (ProviderLifecycleError identity_mismatch)))"

definition jiraProfileUrl :: "string \<Rightarrow> string" where
  "jiraProfileUrl cloudId = ''https://api.atlassian.com/ex/jira/'' @ encodeURIComponent cloudId @ ''/rest/api/3/myself''"

definition validateAtlassianJiraIdentity ::
  "GenericOAuthRuntimeConfig \<Rightarrow> provider_fetch \<Rightarrow> json \<Rightarrow> string \<Rightarrow> string \<Rightarrow> Hop1Identity \<Rightarrow> ValidatedProviderIdentity res" where
  "validateAtlassianJiraIdentity cfg fetch resources active siteUrl who =
     sum_bind (resolveAtlassianJiraSite (gr_parseUrl cfg) resources siteUrl) (\<lambda>cloudId.
     sum_bind (providerFetch fetch (readCall (jiraProfileUrl cloudId) [bearer active])) (\<lambda>r.
     sum_bind (jsonObjectOf r) (\<lambda>profile.
       if \<not> rp_ok r then Inl (providerResponseError r)
       else case (nonEmptyField (js_get profile ''accountId''), nonEmptyField (js_get profile ''emailAddress'')) of
           (Some i, Some email) \<Rightarrow>
             (if js_get profile ''active'' \<noteq> Some (JBool True) \<or> normalizeEmail email \<noteq> normalizeEmail (hi_email who)
              then Inl (ProviderLifecycleError identity_mismatch)
              else Inr \<lparr>vi_displayAccountIdentity = trim email, vi_providerAccount = Some \<lparr>pa_id = i, pa_login = None\<rparr>\<rparr>)
         | _ \<Rightarrow> Inl malformedResponse)))"

definition genericValidateIdentity ::
  "GenericOAuthRuntimeConfig \<Rightarrow> provider_fetch \<Rightarrow> DecryptedCredentialGeneration \<Rightarrow> Hop1Identity \<Rightarrow> ValidatedProviderIdentity res" where
  "genericValidateIdentity cfg fetch g who =
     (if \<not> truthy (activeCredential (dg_credential g)) then Inl (ProviderLifecycleError invalid_active_credential)
      else
        (let active = the (activeCredential (dg_credential g)) in
         sum_bind (providerFetch fetch (readCall (go_userInfoUrl (gr_descriptor cfg)) [bearer active])) (\<lambda>r.
           case go_identity (gr_descriptor cfg) of
             AtlassianJiraAssertedEmail siteUrl \<Rightarrow>
               sum_bind (jsonValue (rp_body r)) (\<lambda>resources.
                 if \<not> rp_ok r then Inl (providerResponseError r)
                 else validateAtlassianJiraIdentity cfg fetch resources active siteUrl who)
           | VerifiedEmail idField emailField loginField emailVerifiedField \<Rightarrow>
               sum_bind (jsonObjectOf r) (\<lambda>body.
                 if \<not> rp_ok r then Inl (providerResponseError r)
                 else case (stringAtPath body idField, stringAtPath body emailField,
                            valueAtPath (JObj body) emailVerifiedField = Some (JBool True)) of
                     (Some i, Some email, True) \<Rightarrow>
                       (if normalizeEmail email \<noteq> normalizeEmail (hi_email who)
                        then Inl (ProviderLifecycleError identity_mismatch)
                        else Inr \<lparr>vi_displayAccountIdentity = email,
                               vi_providerAccount = Some \<lparr>pa_id = i,
                                 pa_login = (if truthy loginField then stringAtPath body (the loginField) else None)\<rparr>\<rparr>)
                   | _ \<Rightarrow> Inl malformedResponse))))"

text \<open>Headers and parameters with the authentication of the client.\<close>

definition applyClientAuthentication ::
  "GenericOAuthRuntimeConfig \<Rightarrow> (string \<times> string) list \<Rightarrow> (string \<times> string) list \<Rightarrow>
   (string \<times> string) list \<times> (string \<times> string) list" where
  "applyClientAuthentication cfg headers params =
     (if go_tokenEndpointAuthMethod (gr_descriptor cfg) = ''client_secret_post''
      then (headers, search_set ''client_secret'' (gr_clientSecret cfg) (search_set ''client_id'' (gr_clientId cfg) params))
      else (js_set ''authorization'' (basicAuthorization (gr_clientId cfg) (gr_clientSecret cfg)) headers, params))"

definition tokenRequest ::
  "GenericOAuthRuntimeConfig \<Rightarrow> provider_fetch \<Rightarrow> (string \<times> string) list \<Rightarrow> (string \<times> json) list res" where
  "tokenRequest cfg fetch params =
     (let (hs, ps) = applyClientAuthentication cfg [(''accept'', ''application/json''), FORM_HEADER] params in
      sum_bind (providerFetch fetch (tokenCall (go_tokenUrl (gr_descriptor cfg)) hs ps)) (\<lambda>r.
      sum_bind (jsonObjectOf r) (\<lambda>body.
        if rp_ok r then Inr body
        else Inl (if js_get body ''error'' = Some (JStr ''invalid_grant'') then invalidRenewal else providerResponseError r))))"

definition scopesFrom :: "json option \<Rightarrow> string list option" where
  "scopesFrom v =
     (case v of Some (JStr s) \<Rightarrow> (if splitScopes s = [] then None else Some (splitScopes s)) | _ \<Rightarrow> None)"

definition issuedCredentials ::
  "time_ms \<Rightarrow> (string \<times> json) list \<Rightarrow> string list \<Rightarrow> RenewedCredentialGeneration res" where
  "issuedCredentials now body fallbackScopes =
     (let active = nonEmptyField (js_get body ''access_token''); renewal = nonEmptyField (js_get body ''refresh_token'') in
      if active = None \<and> renewal = None then Inl malformedResponse
      else
        Inr \<lparr>rg_credential = \<lparr>activeCredential = active, renewalCredential = renewal, providerFields = []\<rparr>,
             rg_grantedScopes = Some (coalesce (scopesFrom (js_get body ''scope'')) fallbackScopes),
             rg_activeCredentialExpiresAt = expiryField now body ''expires_in'',
             rg_renewalCredentialExpiresAt = expiryField now body ''refresh_token_expires_in'',
             rg_validatedAt = None, rg_providerAccount = None\<rparr>)"

definition genericCompleteAuthorization ::
  "GenericOAuthRuntimeConfig \<Rightarrow> provider_fetch \<Rightarrow> time_ms \<Rightarrow> string \<Rightarrow> Hop1Identity \<Rightarrow> string list \<Rightarrow> IssuedCredentialGeneration res" where
  "genericCompleteAuthorization cfg fetch now code who requestedScopes =
     sum_bind (tokenRequest cfg fetch
       [(''code'', code), (''redirect_uri'', go_redirectUri (gr_descriptor cfg)), (''grant_type'', ''authorization_code'')]) (\<lambda>body.
     sum_bind (issuedCredentials now body requestedScopes) (\<lambda>issued.
       Inr \<lparr>ig_credential = rg_credential issued, ig_displayAccountIdentity = hi_email who,
            ig_grantedScopes = the (rg_grantedScopes issued),
            ig_activeCredentialExpiresAt = rg_activeCredentialExpiresAt issued,
            ig_renewalCredentialExpiresAt = rg_renewalCredentialExpiresAt issued,
            ig_validatedAt = None, ig_providerAccount = None\<rparr>))"

definition genericRenew ::
  "GenericOAuthRuntimeConfig \<Rightarrow> provider_fetch \<Rightarrow> time_ms \<Rightarrow> DecryptedCredentialGeneration \<Rightarrow> RenewedCredentialGeneration res" where
  "genericRenew cfg fetch now g =
     (if \<not> truthy (renewalCredential (dg_credential g)) then Inl invalidRenewal
      else
        sum_bind (tokenRequest cfg fetch
          [(''refresh_token'', the (renewalCredential (dg_credential g))), (''grant_type'', ''refresh_token'')]) (\<lambda>body.
          issuedCredentials now body (dg_grantedScopes g)))"

definition genericRevoke ::
  "GenericOAuthRuntimeConfig \<Rightarrow> provider_fetch \<Rightarrow> DecryptedCredentialGeneration \<Rightarrow> ProviderRevocationResult res" where
  "genericRevoke cfg fetch g =
     (case go_revocationUrl (gr_descriptor cfg) of
        Some (c # cs) \<Rightarrow>
          (case revocableToken g of
             None \<Rightarrow> Inr Res_already_absent
           | Some token \<Rightarrow>
               (let (hs, ps) = applyClientAuthentication cfg [FORM_HEADER] [(''token'', token)] in
                case providerFetch fetch (tokenCall (c # cs) hs ps) of
                  Inl e \<Rightarrow>
                    Inr (if e = ProviderLifecycleError transient_provider_failure then Res_retryable_failure else Res_permanent_failure)
                | Inr r \<Rightarrow> Inr (revocationOutcome r)))
      | _ \<Rightarrow> Inr Res_not_supported)"

definition genericAdapter :: "GenericOAuthRuntimeConfig \<Rightarrow> (nat \<Rightarrow> provider_fetch) \<Rightarrow> (nat \<Rightarrow> time_ms) \<Rightarrow> adapter" where
  "genericAdapter cfg fetch clock =
     \<lparr>providerId = go_providerId (gr_descriptor cfg), capabilities = genericCapabilities cfg,
      statusActions = Some [''disconnect''], hasRequiredScopes = Some genericHasRequiredScopes,
      ad_renew = Some (\<lambda>g n. genericRenew cfg (fetch n) (clock n) g),
      ad_validateIdentity = Some (genericValidateIdentity cfg (fetch 0)), ad_revoke = Some (genericRevoke cfg (fetch 0))\<rparr>"

end
