(* ===== verification/Broker_Routes.thy ===== *)
theory Broker_Routes
  imports Broker_Runtime Cli_Requests Oauth_Adapters
begin

text \<open>
  The public surface of the authorization server: \<open>authorization-routes.ts\<close> of the Google Workspace wrapper, over the contract that
  it states for a broker and a registry, the documents that \<open>authorization-broker.ts\<close> publishes, and the instance that
  \<open>broker-runtime.ts\<close> makes of them: the broker, the registry and the exchange of codes with Google. The URL parser, the
  form parser and the JSON parser (with the decoders before them) and the text of a URL with parameters are arguments. A
  redirect is its target with the parameters set on it.
\<close>

section \<open>Requests and responses\<close>

text \<open>The declared length is \<open>Number(content-length ?? "0")\<close>, \<open>None\<close> if it is not finite. A body comes in chunks.\<close>

record server_request =
  sq_method :: string
  sq_pathname :: string
  sq_query :: "(string \<times> string) list"
  sq_headers :: "(string \<times> string) list"
  sq_declaredBytes :: "rat option"
  sq_body :: "string list option"

datatype server_body =
  EmptyBody
| DocumentBody "(string \<times> json) list"
| KeysBody "JWK list"
| RegisteredBody DcrRegistrationResponse
| TokenBody BrokerTokenResponse
| OAuthErrorBody string string
| PlainErrorBody string
| PageBody string

record server_response =
  sv_status :: nat
  sv_location :: "redirect option"
  sv_headers :: "(string \<times> string) list"
  sv_body :: server_body

record server_lib =
  sl_url :: url_parser
  sl_form :: "string \<Rightarrow> (string \<times> string) list"
  sl_json :: "string \<Rightarrow> json option"
  sl_withQuery :: "string \<Rightarrow> (string \<times> string) list \<Rightarrow> string"

definition NO_STORE_HEADERS :: "(string \<times> string) list" where
  "NO_STORE_HEADERS = [(''cache-control'', ''no-store''), (''pragma'', ''no-cache'')]"

definition serverJson :: "server_body \<Rightarrow> nat \<Rightarrow> (string \<times> string) list \<Rightarrow> server_response" where
  "serverJson body code headers =
     \<lparr>sv_status = code, sv_location = None, sv_headers = (''content-type'', ''application/json'') # headers, sv_body = body\<rparr>"

definition publicJson :: "server_body \<Rightarrow> server_response" where
  "publicJson body = serverJson body 200 [(''cache-control'', ''public, max-age=300'')]"

definition serverRedirect :: "redirect \<Rightarrow> server_response" where
  "serverRedirect u = \<lparr>sv_status = 302, sv_location = Some u, sv_headers = NO_STORE_HEADERS, sv_body = EmptyBody\<rparr>"

definition quoted :: "string \<Rightarrow> string" where "quoted s = CHR 0x22 # s @ [CHR 0x22]"

definition oauthError :: "string \<Rightarrow> string \<Rightarrow> nat \<Rightarrow> server_response" where
  "oauthError error description code =
     serverJson (OAuthErrorBody error description) code
       (NO_STORE_HEADERS @ [(''www-authenticate'', ''Bearer error='' @ quoted error)])"

definition tokenEndpointError :: "string \<Rightarrow> string \<Rightarrow> nat \<Rightarrow> string option \<Rightarrow> server_response" where
  "tokenEndpointError error description code challenge =
     serverJson (OAuthErrorBody error description) code
       (NO_STORE_HEADERS @ (if truthy challenge then [(''www-authenticate'', the challenge)] else []))"

section \<open>Documents\<close>

definition authorizationServerMetadata :: "broker_options \<Rightarrow> (string \<times> json) list" where
  "authorizationServerMetadata bo =
     [(''issuer'', JStr (bo_issuer bo)), (''authorization_endpoint'', JStr (bo_authorizationEndpoint bo)),
      (''token_endpoint'', JStr (bo_tokenEndpoint bo)), (''jwks_uri'', JStr (bo_jwksUri bo)),
      (''response_types_supported'', JArr [JStr ''code'']),
      (''grant_types_supported'', JArr [JStr ''authorization_code'', JStr ''refresh_token'']),
      (''code_challenge_methods_supported'', JArr [JStr ''S256'']),
      (''token_endpoint_auth_methods_supported'', JArr [JStr ''none'']),
      (''scopes_supported'', JArr (map JStr (bo_scopesSupported bo)))]"

definition protectedResourceMetadata :: "broker_options \<Rightarrow> (string \<times> json) list" where
  "protectedResourceMetadata bo =
     [(''resource'', JStr (bo_resource bo)), (''authorization_servers'', JArr [JStr (bo_issuer bo)]),
      (''bearer_methods_supported'', JArr [JStr ''header'']),
      (''scopes_supported'', JArr (map JStr (bo_scopesSupported bo)))]"

section \<open>Contracts\<close>

text \<open>What the routes ask of a broker, in a state \<open>'s\<close>.\<close>

record 's broker_contract =
  hb_serverMetadata :: "(string \<times> json) list"
  hb_resourceMetadata :: "(string \<times> json) list"
  hb_jwks :: "JWK list"
  hb_begin :: "BeginAuthorizationRequest \<Rightarrow> 's \<Rightarrow> (google_authorization_url \<times> BrokerClient) bres \<times> 's"
  hb_complete :: "string \<Rightarrow> string \<Rightarrow> 's \<Rightarrow> redirect bres \<times> 's"
  hb_deny :: "string \<Rightarrow> string \<Rightarrow> 's \<Rightarrow> redirect bres \<times> 's"
  hb_exchangeCode :: "ExchangeAuthorizationCodeRequest \<Rightarrow> 's \<Rightarrow> BrokerTokenResponse bres \<times> 's"
  hb_exchangeRefresh :: "ExchangeRefreshTokenRequest \<Rightarrow> 's \<Rightarrow> BrokerTokenResponse bres \<times> 's"

type_synonym admission_key = "server_request \<Rightarrow> string option \<Rightarrow> ConstrainedDcrError + string"

record 's server_options =
  so_broker :: "'s broker_contract"
  so_registration :: "(json \<Rightarrow> string \<Rightarrow> 's \<Rightarrow> (ConstrainedDcrError + DcrRegistrationResponse) \<times> 's) option"
  so_googleCallbackUri :: "string option"
  so_registrationRateLimitKey :: "admission_key option"
  so_authorizationRateLimitKey :: "admission_key option"
  so_consumeAuthorizationAttempt :: "(string \<Rightarrow> 's \<Rightarrow> bool \<times> 's) option"

section \<open>Public paths\<close>

record public_paths =
  pp_serverMetadata :: string
  pp_resourceMetadata :: string
  pp_authorization :: string
  pp_token :: string
  pp_registration :: string
  pp_jwks :: string
  pp_googleCallback :: string
  pp_googleCallbackUri :: string
  pp_all :: "string list"

definition parsedUrl :: "url_parser \<Rightarrow> string \<Rightarrow> string + full_url" where
  "parsedUrl parse s = (case parse s of None \<Rightarrow> Inl ''Invalid URL'' | Some u \<Rightarrow> Inr u)"

definition absoluteMetadataUrl :: "url_parser \<Rightarrow> (string \<times> json) list \<Rightarrow> string \<Rightarrow> string + full_url" where
  "absoluteMetadataUrl parse metadata field =
     (case js_get metadata field of
        Some (JStr s) \<Rightarrow>
          sum_bind (parsedUrl parse s) (\<lambda>u.
            if url_protocol u \<noteq> ''https:'' \<or> url_username u \<noteq> [] \<or> url_password u \<noteq> []
            then Inl (''OAuth metadata '' @ field @ '' must be an absolute HTTPS URL'') else Inr u)
      | _ \<Rightarrow> Inl (''OAuth metadata is missing '' @ field))"

definition wellKnownPath :: "full_url \<Rightarrow> string \<Rightarrow> string" where
  "wellKnownPath u suffix_name =
     ''/.well-known/'' @ suffix_name @ (if url_pathname u = ''/'' then [] else url_pathname u)"

text \<open>\<open>replace(/\/$/u, "")\<close>, the function that makes an issuer canonical.\<close>

abbreviation withoutSlash :: "string \<Rightarrow> string" where "withoutSlash \<equiv> canonicalAuthorizationBrokerIssuer"

definition cleanOn :: "full_url \<Rightarrow> full_url \<Rightarrow> bool" where
  "cleanOn issuer u \<longleftrightarrow> url_origin u = url_origin issuer \<and> url_search u = [] \<and> url_hash u = []"

fun requireClean :: "full_url \<Rightarrow> (string \<times> full_url) list \<Rightarrow> string + unit" where
  "requireClean issuer [] = Inr ()"
| "requireClean issuer ((name, u) # us) =
     (if \<not> cleanOn issuer u then Inl (name @ '' must be a clean URL on the authorization-server origin'') else requireClean issuer us)"

definition authorizationServerPublicPaths :: "url_parser \<Rightarrow> 's server_options \<Rightarrow> string + public_paths" where
  "authorizationServerPublicPaths parse opts =
     (let metadata = hb_serverMetadata (so_broker opts) in
      sum_bind (absoluteMetadataUrl parse metadata ''issuer'') (\<lambda>issuer.
      sum_bind (absoluteMetadataUrl parse (hb_resourceMetadata (so_broker opts)) ''resource'') (\<lambda>resource.
      sum_bind (absoluteMetadataUrl parse metadata ''authorization_endpoint'') (\<lambda>authorization.
      sum_bind (absoluteMetadataUrl parse metadata ''token_endpoint'') (\<lambda>token.
      sum_bind (absoluteMetadataUrl parse metadata ''jwks_uri'') (\<lambda>jwksUri.
      sum_bind (parsedUrl parse (withoutSlash (url_href issuer) @ ''/register'')) (\<lambda>registration.
      sum_bind (parsedUrl parse (coalesce (so_googleCallbackUri opts)
                  (withoutSlash (url_href issuer) @ ''/oauth/google/broker/callback''))) (\<lambda>callback.
      sum_bind (requireClean issuer
                  [(''authorization_endpoint'', authorization), (''token_endpoint'', token), (''jwks_uri'', jwksUri),
                   (''registration_endpoint'', registration), (''google callback'', callback)]) (\<lambda>_.
        let routePaths =
              [wellKnownPath issuer ''oauth-authorization-server'', wellKnownPath resource ''oauth-protected-resource'',
               url_pathname authorization, url_pathname token, url_pathname jwksUri, url_pathname callback] @
              (if so_registration opts \<noteq> None then [url_pathname registration] else []) in
        if \<not> distinct routePaths then Inl ''Authorization-server public routes must not overlap''
        else Inr \<lparr>pp_serverMetadata = wellKnownPath issuer ''oauth-authorization-server'',
                  pp_resourceMetadata = wellKnownPath resource ''oauth-protected-resource'',
                  pp_authorization = url_pathname authorization, pp_token = url_pathname token,
                  pp_registration = url_pathname registration, pp_jwks = url_pathname jwksUri,
                  pp_googleCallback = url_pathname callback, pp_googleCallbackUri = url_href callback,
                  pp_all = routePaths\<rparr>)))))))))"

section \<open>Failures\<close>

datatype server_failure = BrokerFailure OAuthBrokerError | DcrFailure ConstrainedDcrError | OtherServerFailure

fun dcrCodeName :: "ConstrainedDcrErrorCode \<Rightarrow> string" where
  "dcrCodeName ConstrainedDcrErrorCode.invalid_client = ''invalid_client''"
| "dcrCodeName invalid_client_metadata = ''invalid_client_metadata''"
| "dcrCodeName invalid_pkce = ''invalid_pkce''"
| "dcrCodeName invalid_redirect_uri = ''invalid_redirect_uri''"
| "dcrCodeName ConstrainedDcrErrorCode.invalid_request = ''invalid_request''"
| "dcrCodeName ConstrainedDcrErrorCode.invalid_scope = ''invalid_scope''"
| "dcrCodeName rate_limited = ''rate_limited''"
| "dcrCodeName registry_full = ''registry_full''"
| "dcrCodeName DcrTypeError = ''TypeError''"

definition requestFailed :: server_response where
  "requestFailed = oauthError ''server_error'' ''Authorization server request failed'' 500"

definition dcrFailure :: "ConstrainedDcrError \<Rightarrow> server_response" where
  "dcrFailure e =
     (if de_code e = DcrTypeError then requestFailed
      else
        (let externalCode = (if de_code e = rate_limited \<or> de_code e = registry_full then ''temporarily_unavailable''
                             else dcrCodeName (de_code e));
             response = oauthError externalCode (de_message e) (de_httpStatus e) in
         if de_code e = rate_limited then response\<lparr>sv_headers := sv_headers response @ [(''retry-after'', ''60'')]\<rparr>
         else response))"

fun serverFailure :: "server_failure \<Rightarrow> server_response" where
  "serverFailure (BrokerFailure e) =
     (case be_redirectUrl e of
        Some u \<Rightarrow> serverRedirect u
      | None \<Rightarrow> oauthError (errorCodeName (be_code e)) (be_message e)
                  (if be_code e = OAuthBrokerErrorCode.server_error then 500 else 400))"
| "serverFailure (DcrFailure e) = dcrFailure e"
| "serverFailure OtherServerFailure = requestFailed"

section \<open>Bodies\<close>

definition MAX_REGISTRATION_BODY_BYTES :: nat where "MAX_REGISTRATION_BODY_BYTES = 16 * 1024"
definition MAX_TOKEN_BODY_BYTES :: nat where "MAX_TOKEN_BODY_BYTES = 16 * 1024"

definition contentTypeHas :: "string \<Rightarrow> server_request \<Rightarrow> bool" where
  "contentTypeHas media rq \<longleftrightarrow> sublist media (to_lower_case (coalesce (js_get (sq_headers rq) ''content-type'') []))"

text \<open>\<open>None\<close> is the call of \<open>onTooLarge\<close>.\<close>

definition readTokenText :: "nat \<Rightarrow> server_request \<Rightarrow> string option" where
  "readTokenText maxBytes rq =
     (if (case sq_declaredBytes rq of Some n \<Rightarrow> n > of_nat maxBytes | None \<Rightarrow> False) then None
      else case sq_body rq of None \<Rightarrow> Some [] | Some vs \<Rightarrow> readChunks maxBytes 0 [] vs)"

definition readForm :: "server_lib \<Rightarrow> server_request \<Rightarrow> server_failure + (string \<times> string) list" where
  "readForm lib rq =
     (if \<not> contentTypeHas ''application/x-www-form-urlencoded'' rq
      then Inl (BrokerFailure (brokerError OAuthBrokerErrorCode.invalid_request ''Expected application/x-www-form-urlencoded request''))
      else case readTokenText MAX_TOKEN_BODY_BYTES rq of
          None \<Rightarrow> Inl (BrokerFailure (brokerError OAuthBrokerErrorCode.invalid_request ''Token request body is too large''))
        | Some s \<Rightarrow> Inr (sl_form lib s))"

definition metadataTooLarge :: server_failure where
  "metadataTooLarge = DcrFailure (invalidMetadata ''Registration metadata is too large'')"

definition metadataNotJson :: server_failure where
  "metadataNotJson = DcrFailure (dcrError ''Registration metadata must be valid JSON'' ConstrainedDcrErrorCode.invalid_request)"

definition readRegistrationJson :: "server_lib \<Rightarrow> server_request \<Rightarrow> server_failure + json" where
  "readRegistrationJson lib rq =
     (if \<not> contentTypeHas ''application/json'' rq
      then Inl (DcrFailure (dcrError ''Expected an application/json registration request'' ConstrainedDcrErrorCode.invalid_request))
      else if (case sq_declaredBytes rq of Some n \<Rightarrow> n > of_nat MAX_REGISTRATION_BODY_BYTES | None \<Rightarrow> False) then Inl metadataTooLarge
      else case sq_body rq of
          None \<Rightarrow> Inl metadataNotJson
        | Some vs \<Rightarrow>
            (case readChunks MAX_REGISTRATION_BODY_BYTES 0 [] vs of
               None \<Rightarrow> Inl metadataTooLarge
             | Some s \<Rightarrow> (case sl_json lib s of None \<Rightarrow> Inl metadataNotJson | Some v \<Rightarrow> Inr v)))"

section \<open>The page of consent\<close>

definition escapeChar :: "char \<Rightarrow> string" where
  "escapeChar c =
     (if c = CHR ''&'' then ''&amp;'' else if c = CHR ''<'' then ''&lt;'' else if c = CHR ''>'' then ''&gt;''
      else if c = CHR 0x22 then ''&quot;'' else if c = CHR 0x27 then ''&#39;'' else [c])"

definition escapeHtml :: "string \<Rightarrow> string" where "escapeHtml s = concat (map escapeChar s)"

text \<open>The page as its lines.\<close>

definition consentLines ::
  "string \<Rightarrow> string \<Rightarrow> string option \<Rightarrow> string \<Rightarrow> string \<Rightarrow> string \<Rightarrow> string \<Rightarrow> string list" where
  "consentLines clientDisplay clientId clientUri redirectOrigin redirectUri authorizationUrl denyUrl =
     [''<!doctype html>'', ''<html lang='' @ quoted ''en'' @ ''>'',
      ''<head><meta charset='' @ quoted ''utf-8'' @ ''><meta name='' @ quoted ''viewport'' @ '' content='' @
        quoted ''width=device-width,initial-scale=1'' @ ''><title>Authorize MCP client</title></head>'',
      ''<body>'', ''  <main>'', ''    <h1>Authorize MCP client</h1>'',
      ''    <p>Client: <code>'' @ escapeHtml clientDisplay @ ''</code></p>'',
      ''    <p>Client ID: <code>'' @ escapeHtml clientId @ ''</code></p>'',
      ''    '' @ (if truthy clientUri then ''<p>Client website: <code>'' @ escapeHtml (the clientUri) @ ''</code></p>'' else []),
      ''    <p>Redirect origin: <code>'' @ escapeHtml redirectOrigin @ ''</code></p>'',
      ''    <p>Exact redirect after sign-in: <code>'' @ escapeHtml redirectUri @ ''</code></p>'',
      ''    <p><a href='' @ quoted (escapeHtml authorizationUrl) @ ''>Continue with Google</a></p>'',
      ''    <p><a href='' @ quoted (escapeHtml denyUrl) @ ''>Deny</a></p>'',
      ''  </main>'', ''</body>'', ''</html>'']"

definition CONSENT_HEADERS :: "(string \<times> string) list" where
  "CONSENT_HEADERS =
     (let none = CHR 0x27 # ''none'' @ [CHR 0x27] in
      [(''cache-control'', ''no-store''),
       (''content-security-policy'', ''default-src '' @ none @ ''; base-uri '' @ none @ ''; frame-ancestors '' @ none),
       (''content-type'', ''text/html; charset=utf-8''), (''referrer-policy'', ''no-referrer''),
       (''x-content-type-options'', ''nosniff''), (''x-frame-options'', ''DENY'')])"

definition consentPage ::
  "server_lib \<Rightarrow> google_authorization_url \<Rightarrow> string \<Rightarrow> BrokerClient \<Rightarrow> string \<Rightarrow> server_failure + server_response" where
  "consentPage lib authorizationUrl callbackUrl client redirectUri =
     (case sl_url lib redirectUri of
        None \<Rightarrow> Inl OtherServerFailure
      | Some target \<Rightarrow>
          (let transactionState = coalesce (js_get (gu_parameters authorizationUrl) ''state'') [] in
           Inr \<lparr>sv_status = 200, sv_location = None, sv_headers = CONSENT_HEADERS,
                sv_body = PageBody (join_with [CHR 0x0A] (consentLines (coalesce (bc_clientName client) (bc_clientId client))
                  (bc_clientId client) (bc_clientUri client) (url_origin target) redirectUri
                  (sl_withQuery lib (gu_endpoint authorizationUrl) (gu_parameters authorizationUrl))
                  (sl_withQuery lib callbackUrl [(''error'', ''access_denied''), (''state'', transactionState)])))\<rparr>))"

section \<open>Client authentication\<close>

definition CLIENT_AUTHENTICATION_PARAMETERS :: "string list" where
  "CLIENT_AUTHENTICATION_PARAMETERS = [''client_secret'', ''client_assertion'', ''client_assertion_type'', ''token_endpoint_auth_method'']"

definition is_token_char :: "char \<Rightarrow> bool" where
  "is_token_char c \<longleftrightarrow> is_lower_alpha c \<or> is_upper_alpha c \<or> is_digit c \<or> c \<in> set (''!#$%&*+-.^_`|~'' @ [CHR 0x27])"

text \<open>The first group of \<open>HTTP_AUTH_SCHEME_PATTERN\<close>: no character of a token is a space.\<close>

definition authScheme :: "string \<Rightarrow> string option" where
  "authScheme s =
     (let scheme = takeWhile is_token_char s; rest = dropWhile is_token_char s in
      if scheme \<noteq> [] \<and> (rest = [] \<or> is_space (hd rest)) then Some scheme else None)"

definition publicClientsOnly :: "nat \<Rightarrow> string option \<Rightarrow> server_response" where
  "publicClientsOnly code challenge =
     tokenEndpointError ''invalid_client'' ''Only unauthenticated public clients are supported'' code challenge"

definition rejectAuthorizationClientAuthentication :: "server_request \<Rightarrow> server_response option" where
  "rejectAuthorizationClientAuthentication rq =
     (case js_get (sq_headers rq) ''authorization'' of
        None \<Rightarrow> None
      | Some h \<Rightarrow>
          Some (publicClientsOnly 401 (map_option (\<lambda>scheme. scheme @ '' realm='' @ quoted ''token'') (authScheme (trim h)))))"

definition hasFormClientAuthentication :: "(string \<times> string) list \<Rightarrow> bool" where
  "hasFormClientAuthentication params \<longleftrightarrow> list_ex (\<lambda>k. js_get params k \<noteq> None) CLIENT_AUTHENTICATION_PARAMETERS"

section \<open>Routes\<close>

definition param :: "(string \<times> string) list \<Rightarrow> string \<Rightarrow> string" where
  "param params k = coalesce (js_get params k) []"

definition authorizationRequest :: "(string \<times> string) list \<Rightarrow> BeginAuthorizationRequest" where
  "authorizationRequest params =
     \<lparr>ba_responseType = param params ''response_type'', ba_clientId = param params ''client_id'',
      ba_redirectUri = param params ''redirect_uri'', ba_resource = param params ''resource'', ba_scope = param params ''scope'',
      ba_codeChallenge = param params ''code_challenge'', ba_codeChallengeMethod = param params ''code_challenge_method'',
      ba_state = js_get params ''state''\<rparr>"

definition registrationEndpoint :: "(string \<times> json) list \<Rightarrow> server_failure + string" where
  "registrationEndpoint metadata =
     (case js_get metadata ''issuer'' of Some (JStr s) \<Rightarrow> Inr (withoutSlash s @ ''/register'') | _ \<Rightarrow> Inl OtherServerFailure)"

definition metadataRoute :: "'s server_options \<Rightarrow> server_response" where
  "metadataRoute opts =
     (let metadata = hb_serverMetadata (so_broker opts) in
      if so_registration opts = None then publicJson (DocumentBody metadata)
      else case registrationEndpoint metadata of
          Inl e \<Rightarrow> serverFailure e
        | Inr endpoint \<Rightarrow> publicJson (DocumentBody (js_set ''registration_endpoint'' (JStr endpoint) metadata)))"

definition routeNotFound :: server_response where "routeNotFound = serverJson (PlainErrorBody ''not_found'') 404 []"

definition registerRoute :: "'s server_options \<Rightarrow> server_lib \<Rightarrow> server_request \<Rightarrow> string option \<Rightarrow> 's \<Rightarrow> server_response \<times> 's" where
  "registerRoute opts lib rq remote st =
     (case so_registration opts of
        None \<Rightarrow> (routeNotFound, st)
      | Some reg \<Rightarrow>
          (case readRegistrationJson lib rq of
             Inl e \<Rightarrow> (serverFailure e, st)
           | Inr metadata \<Rightarrow>
               (case so_registrationRateLimitKey opts of
                  None \<Rightarrow> (dcrFailure (fullError ''Registration admission identity is unavailable''), st)
                | Some key \<Rightarrow>
                    (case key rq remote of
                       Inl e \<Rightarrow> (dcrFailure e, st)
                     | Inr rateLimitKey \<Rightarrow>
                         (case reg metadata rateLimitKey st of
                            (Inl e, st') \<Rightarrow> (dcrFailure e, st')
                          | (Inr registered, st') \<Rightarrow> (serverJson (RegisteredBody registered) 201 NO_STORE_HEADERS, st'))))))"

text \<open>Without an admission identity a limit that is configured refuses.\<close>

definition enforceAuthorizationRateLimit ::
  "'s server_options \<Rightarrow> server_request \<Rightarrow> string option \<Rightarrow> 's \<Rightarrow> ConstrainedDcrError option \<times> 's" where
  "enforceAuthorizationRateLimit opts rq remote st =
     (case so_consumeAuthorizationAttempt opts of
        None \<Rightarrow> (None, st)
      | Some consume \<Rightarrow>
          (case so_authorizationRateLimitKey opts of
             None \<Rightarrow> (Some (fullError ''Authorization admission identity is unavailable''), st)
           | Some key \<Rightarrow>
               (case key rq remote of
                  Inl e \<Rightarrow> (Some e, st)
                | Inr rateLimitKey \<Rightarrow>
                    (case consume rateLimitKey st of
                       (True, st') \<Rightarrow> (None, st')
                     | (False, st') \<Rightarrow>
                         (Some \<lparr>de_message = ''Authorization requests are rate limited'', de_code = rate_limited,
                               de_httpStatus = 429\<rparr>, st')))))"

definition beginRoute ::
  "'s server_options \<Rightarrow> server_lib \<Rightarrow> public_paths \<Rightarrow> server_request \<Rightarrow> string option \<Rightarrow> 's \<Rightarrow> server_response \<times> 's" where
  "beginRoute opts lib paths rq remote st =
     (case enforceAuthorizationRateLimit opts rq remote st of
        (Some e, st1) \<Rightarrow> (dcrFailure e, st1)
      | (None, st1) \<Rightarrow>
          (let authorization = authorizationRequest (sq_query rq) in
           case hb_begin (so_broker opts) authorization st1 of
             (Inl e, st2) \<Rightarrow> (serverFailure (BrokerFailure e), st2)
           | (Inr (url, client), st2) \<Rightarrow>
               (case consentPage lib url (pp_googleCallbackUri paths) client (ba_redirectUri authorization) of
                  Inl e \<Rightarrow> (serverFailure e, st2)
                | Inr page \<Rightarrow> (page, st2))))"

definition brokerCallbackRoute :: "'s server_options \<Rightarrow> server_request \<Rightarrow> 's \<Rightarrow> server_response \<times> 's" where
  "brokerCallbackRoute opts rq st =
     (let transactionState = param (sq_query rq) ''state''; error = js_get (sq_query rq) ''error'' in
      case (if truthy error then hb_deny (so_broker opts) transactionState (the error) st
            else hb_complete (so_broker opts) transactionState (param (sq_query rq) ''code'') st) of
        (Inl e, st') \<Rightarrow> (serverFailure (BrokerFailure e), st')
      | (Inr u, st') \<Rightarrow> (serverRedirect u, st'))"

definition exchangeGrant :: "'s broker_contract \<Rightarrow> (string \<times> string) list \<Rightarrow> 's \<Rightarrow> BrokerTokenResponse bres \<times> 's" where
  "exchangeGrant broker params =
     (let grantType = param params ''grant_type'' in
      if grantType = ''refresh_token''
      then hb_exchangeRefresh broker
             \<lparr>xr_grantType = grantType, xr_refreshToken = param params ''refresh_token'', xr_clientId = param params ''client_id'',
              xr_resource = param params ''resource'', xr_scope = js_get params ''scope''\<rparr>
      else hb_exchangeCode broker
             \<lparr>xc_grantType = grantType, xc_code = param params ''code'', xc_clientId = param params ''client_id'',
              xc_redirectUri = param params ''redirect_uri'', xc_resource = param params ''resource'',
              xc_codeVerifier = param params ''code_verifier''\<rparr>)"

definition tokenRoute :: "'s server_options \<Rightarrow> server_lib \<Rightarrow> server_request \<Rightarrow> 's \<Rightarrow> server_response \<times> 's" where
  "tokenRoute opts lib rq st =
     (case rejectAuthorizationClientAuthentication rq of
        Some refused \<Rightarrow> (refused, st)
      | None \<Rightarrow>
          (case readForm lib rq of
             Inl e \<Rightarrow> (serverFailure e, st)
           | Inr params \<Rightarrow>
               (if hasFormClientAuthentication params then (publicClientsOnly 400 None, st)
                else case exchangeGrant (so_broker opts) params st of
                    (Inl e, st') \<Rightarrow> (serverFailure (BrokerFailure e), st')
                  | (Inr exchanged, st') \<Rightarrow> (serverJson (TokenBody exchanged) 200 NO_STORE_HEADERS, st'))))"

definition authorizationServerHandler ::
  "'s server_options \<Rightarrow> server_lib \<Rightarrow> public_paths \<Rightarrow> server_request \<Rightarrow> string option \<Rightarrow> 's \<Rightarrow> server_response \<times> 's" where
  "authorizationServerHandler opts lib paths rq remote st =
     (let is = (\<lambda>m p. sq_method rq = m \<and> sq_pathname rq = p) in
      if is ''GET'' (pp_serverMetadata paths) then (metadataRoute opts, st)
      else if is ''GET'' (pp_resourceMetadata paths) then (publicJson (DocumentBody (hb_resourceMetadata (so_broker opts))), st)
      else if is ''GET'' (pp_jwks paths) then (publicJson (KeysBody (hb_jwks (so_broker opts))), st)
      else if is ''POST'' (pp_registration paths) then registerRoute opts lib rq remote st
      else if is ''GET'' (pp_authorization paths) then beginRoute opts lib paths rq remote st
      else if is ''GET'' (pp_googleCallback paths) then brokerCallbackRoute opts rq st
      else if is ''POST'' (pp_token paths) then tokenRoute opts lib rq st
      else (routeNotFound, st))"

section \<open>The runtime\<close>

text \<open>The exchange of a code with Google; \<open>None\<close> is an error.\<close>

definition exchangeGoogleAuthorizationCode :: "GoogleOAuthConfig \<Rightarrow> provider_fetch \<Rightarrow> GoogleTokenExchangeInput \<Rightarrow> string option" where
  "exchangeGoogleAuthorizationCode google fetch authorization =
     (case fetch (tokenCall (googleTokenUrl google) [FORM_HEADER]
        [(''grant_type'', ''authorization_code''), (''code'', gx_code authorization), (''client_id'', gc_clientId google),
         (''client_secret'', gc_clientSecret google), (''redirect_uri'', gx_redirectUri authorization),
         (''code_verifier'', gx_codeVerifier authorization)]) of
        None \<Rightarrow> None
      | Some r \<Rightarrow>
          (let body = (case rp_body r of JsonIs v \<Rightarrow> coalesce (as_record v) [] | _ \<Rightarrow> []) in
           if \<not> rp_ok r then None
           else case js_get body ''id_token'' of Some (JStr (c # cs)) \<Rightarrow> Some (c # cs) | _ \<Rightarrow> None))"

record server_state =
  ss_broker :: broker_state
  ss_registry :: dcr_store

text \<open>The broker looks clients up in the store of registrations; a lookup of the durable store changes nothing.\<close>

definition withRegistry :: "broker_options \<Rightarrow> dcr_registry \<Rightarrow> time_ms \<Rightarrow> server_state \<Rightarrow> broker_options" where
  "withRegistry bo reg now st = bo\<lparr>bo_clients := brokerClients reg now (ss_registry st)\<rparr>"

definition onBroker :: "(broker_state \<Rightarrow> 'r \<times> broker_state) \<Rightarrow> server_state \<Rightarrow> 'r \<times> server_state" where
  "onBroker f st = (case f (ss_broker st) of (r, b) \<Rightarrow> (r, st\<lparr>ss_broker := b\<rparr>))"

definition onRegistry :: "(dcr_store \<Rightarrow> 'r \<times> dcr_store) \<Rightarrow> server_state \<Rightarrow> 'r \<times> server_state" where
  "onRegistry f st = (case f (ss_registry st) of (r, d) \<Rightarrow> (r, st\<lparr>ss_registry := d\<rparr>))"

definition runtimeBroker :: "broker_options \<Rightarrow> broker_ttls \<Rightarrow> dcr_registry \<Rightarrow> time_ms \<Rightarrow> server_state broker_contract" where
  "runtimeBroker bo ttl reg now =
     \<lparr>hb_serverMetadata = authorizationServerMetadata bo, hb_resourceMetadata = protectedResourceMetadata bo, hb_jwks = jwks bo,
      hb_begin = (\<lambda>rq st. onBroker (beginAuthorization (withRegistry bo reg now st) ttl now rq) st),
      hb_complete = (\<lambda>state code st. map_prod (map_sum id snd) id
        (onBroker (completeGoogleAuthorization (withRegistry bo reg now st) ttl now state code) st)),
      hb_deny = (\<lambda>state error st. onBroker (denyGoogleAuthorization (withRegistry bo reg now st) now state error) st),
      hb_exchangeCode = (\<lambda>rq st. onBroker (exchangeAuthorizationCode (withRegistry bo reg now st) ttl now rq) st),
      hb_exchangeRefresh = (\<lambda>rq st. onBroker (exchangeRefreshToken (withRegistry bo reg now st) ttl now rq) st)\<rparr>"

record runtime_config =
  rn_broker :: broker_options
  rn_ttls :: broker_ttls
  rn_registry :: dcr_registry
  rn_web :: web_lib
  rn_dcrEnabled :: bool
  rn_trustedProxy :: "trusted_proxy option"
  rn_clientIds :: "nat \<Rightarrow> string"

text \<open>The endpoints of the broker are made from the issuer.\<close>

definition runtimeEndpoints :: "string \<Rightarrow> string \<Rightarrow> string list \<Rightarrow> broker_options \<Rightarrow> broker_options" where
  "runtimeEndpoints configuredIssuer resource scopes bo =
     (let issuer = withoutSlash configuredIssuer in
      bo\<lparr>bo_issuer := issuer, bo_resource := resource, bo_authorizationEndpoint := issuer @ ''/authorize'',
         bo_tokenEndpoint := issuer @ ''/token'', bo_jwksUri := issuer @ ''/.well-known/jwks.json'', bo_scopesSupported := scopes\<rparr>)"

text \<open>The clock is read at the admission, \<open>t 0\<close>, and at the operation, \<open>t 1\<close>.\<close>

definition runtimeOptions :: "runtime_config \<Rightarrow> (nat \<Rightarrow> time_ms) \<Rightarrow> server_state server_options" where
  "runtimeOptions cfg t =
     (let key = (\<lambda>rq remote. registrationAdmissionKey (rn_web cfg) (js_get (sq_headers rq)) remote (rn_trustedProxy cfg)) in
      \<lparr>so_broker = runtimeBroker (rn_broker cfg) (rn_ttls cfg) (rn_registry cfg) (t 1),
       so_registration =
         (if rn_dcrEnabled cfg
          then Some (\<lambda>metadata rateLimitKey. onRegistry (register (rn_web cfg) (rn_registry cfg) metadata rateLimitKey (t 0) (t 1) (rn_clientIds cfg)))
          else None),
       so_googleCallbackUri = Some (bo_googleCallbackUri (rn_broker cfg)),
       so_registrationRateLimitKey = Some key, so_authorizationRateLimitKey = Some key,
       so_consumeAuthorizationAttempt = Some (\<lambda>rateLimitKey. onRegistry (consumeAuthorizationAttempt rateLimitKey (t 0)))\<rparr>)"

end
