(* ===== verification/Broker_Route_Props.thy ===== *)
theory Broker_Route_Props
  imports Broker_Routes
begin

text \<open>
  What holds of the authorization server as it faces the network: whatever requests it has served, a browser is sent only to
  redirect URIs that registration validated; tokens go only to unauthenticated public clients over bounded forms; the page
  of consent carries no markup of a client; every public path has its own handler.
\<close>

section \<open>The page of consent\<close>

lemma escapeChar_safe: "set (escapeChar c) \<inter> {CHR ''<'', CHR ''>'', CHR 0x22, CHR 0x27} = {}"
  by (auto simp: escapeChar_def)

text \<open>No value can end the element or the attribute that it is put in, and no two values look the same.\<close>

lemma escapeHtml_safe: "set (escapeHtml s) \<inter> {CHR ''<'', CHR ''>'', CHR 0x22, CHR 0x27} = {}"
  using escapeChar_safe by (auto simp: escapeHtml_def)

lemma escapeChar_prefix: "escapeChar c @ xs = escapeChar d @ ys \<Longrightarrow> c = d \<and> xs = ys"
  by (auto simp: escapeChar_def split: if_splits)

lemma escapeChar_nonempty [simp]: "escapeChar c \<noteq> []"
  by (simp add: escapeChar_def)

lemma escapeHtml_inj: "escapeHtml s = escapeHtml s' \<Longrightarrow> s = s'"
proof (induction s arbitrary: s')
  case Nil
  then show ?case by (cases s') (auto simp: escapeHtml_def)
next
  case (Cons c s)
  then obtain d s1 where s': "s' = d # s1" by (cases s') (auto simp: escapeHtml_def)
  with Cons.prems have "escapeChar c @ escapeHtml s = escapeChar d @ escapeHtml s1" by (simp add: escapeHtml_def)
  with Cons.IH s' show ?case by (auto dest: escapeChar_prefix)
qed

section \<open>The token endpoint\<close>

lemma readChunks_bound: "readChunks maxBytes bytes chunks vs = Some s \<Longrightarrow> bytes = length chunks \<Longrightarrow> bytes \<le> maxBytes \<Longrightarrow> length s \<le> maxBytes"
  by (induction maxBytes bytes chunks vs rule: readChunks.induct) (auto split: if_splits)

lemma readTokenText_bound: "readTokenText maxBytes rq = Some s \<Longrightarrow> length s \<le> maxBytes"
  by (auto simp: readTokenText_def split: if_splits option.splits intro: readChunks_bound)

lemma failure_issues_nothing: "sv_body (serverFailure e) \<noteq> TokenBody token"
  by (cases e) (auto simp: serverRedirect_def oauthError_def serverJson_def dcrFailure_def requestFailed_def Let_def split: option.splits)

declare serverFailure.simps [simp del]

lemma dcrFailure_issues_nothing: "sv_body (dcrFailure e) \<noteq> TokenBody token"
  using failure_issues_nothing [of "DcrFailure e"] by (simp add: serverFailure.simps)

lemmas no_token_simps = failure_issues_nothing dcrFailure_issues_nothing publicJson_def serverJson_def routeNotFound_def
  publicClientsOnly_def tokenEndpointError_def serverRedirect_def

lemma other_routes_issue_nothing:
  "sv_body (metadataRoute opts) \<noteq> TokenBody token" "sv_body (fst (registerRoute opts lib rq remote st)) \<noteq> TokenBody token"
  "sv_body (fst (beginRoute opts lib paths rq remote st)) \<noteq> TokenBody token"
  "sv_body (fst (brokerCallbackRoute opts rq st)) \<noteq> TokenBody token"
  by (auto simp: metadataRoute_def registerRoute_def beginRoute_def brokerCallbackRoute_def consentPage_def no_token_simps Let_def
    split: option.splits sum.splits prod.splits)

lemma document_issues_nothing: "sv_body (publicJson body) = body" "sv_body routeNotFound = PlainErrorBody ''not_found''"
  by (simp_all add: publicJson_def serverJson_def routeNotFound_def)

text \<open>A token is answered only by the token endpoint, to a request without any form of client authentication, whose form of
  bounded length the broker has accepted; and the answer may not be stored.\<close>

lemma token_endpoint_public_clients:
  assumes "authorizationServerHandler opts lib paths rq remote st = (resp, st')" "sv_body resp = TokenBody token"
  shows "sq_method rq = ''POST'' \<and> sq_pathname rq = pp_token paths \<and> js_get (sq_headers rq) ''authorization'' = None \<and>
    (''cache-control'', ''no-store'') \<in> set (sv_headers resp) \<and>
    (\<exists>s. length s \<le> MAX_TOKEN_BODY_BYTES \<and> (\<forall>k \<in> set CLIENT_AUTHENTICATION_PARAMETERS. js_get (sl_form lib s) k = None) \<and>
       exchangeGrant (so_broker opts) (sl_form lib s) st = (Inr token, st'))"
proof -
  have others: "metadataRoute opts \<noteq> resp" "registerRoute opts lib rq remote st \<noteq> (resp, st')"
    "beginRoute opts lib paths rq remote st \<noteq> (resp, st')" "brokerCallbackRoute opts rq st \<noteq> (resp, st')"
    using assms(2) other_routes_issue_nothing by (metis fst_conv)+
  have at: "sq_method rq = ''POST'' \<and> sq_pathname rq = pp_token paths" and r: "tokenRoute opts lib rq st = (resp, st')"
    using assms others unfolding authorizationServerHandler_def Let_def by (auto simp: document_issues_nothing split: if_split_asm)
  from r assms(2) obtain s where "js_get (sq_headers rq) ''authorization'' = None" "readTokenText MAX_TOKEN_BODY_BYTES rq = Some s"
    "\<not> hasFormClientAuthentication (sl_form lib s)" "exchangeGrant (so_broker opts) (sl_form lib s) st = (Inr token, st')"
    "resp = serverJson (TokenBody token) 200 NO_STORE_HEADERS"
    by (auto simp: tokenRoute_def readForm_def rejectAuthorizationClientAuthentication_def no_token_simps
      split: option.splits if_splits sum.splits prod.splits)
  with at readTokenText_bound [of MAX_TOKEN_BODY_BYTES rq s] show ?thesis
    by (auto simp: hasFormClientAuthentication_def list_ex_iff serverJson_def NO_STORE_HEADERS_def)
qed

text \<open>A caller over its limit leaves no trace in the broker.\<close>

lemma limited_begins_nothing:
  assumes "fst (enforceAuthorizationRateLimit (runtimeOptions cfg t) rq remote st) = Some e"
  shows "fst (beginRoute (runtimeOptions cfg t) lib paths rq remote st) = dcrFailure e \<and>
    ss_broker (snd (beginRoute (runtimeOptions cfg t) lib paths rq remote st)) = ss_broker st"
proof -
  obtain st1 where l: "enforceAuthorizationRateLimit (runtimeOptions cfg t) rq remote st = (Some e, st1)"
    using assms by (metis prod.collapse)
  then have "ss_broker st1 = ss_broker st"
    by (auto simp: enforceAuthorizationRateLimit_def runtimeOptions_def onRegistry_def Let_def split: sum.splits prod.splits bool.splits)
  then show ?thesis by (simp add: beginRoute_def l)
qed

section \<open>Public paths\<close>

lemma public_paths_shape:
  assumes "authorizationServerPublicPaths parse opts = Inr p"
  shows "distinct (pp_all p) \<and> pp_all p =
    [pp_serverMetadata p, pp_resourceMetadata p, pp_authorization p, pp_token p, pp_jwks p, pp_googleCallback p] @
    (if so_registration opts \<noteq> None then [pp_registration p] else [])"
  using assms unfolding authorizationServerPublicPaths_def Let_def sum_bind_Inr
  by (elim exE conjE) (auto simp del: distinct.simps distinct_append split: if_split_asm)

text \<open>Every public path of a server with registration is served by its own handler.\<close>

lemma public_routes_served:
  assumes "authorizationServerPublicPaths parse opts = Inr p" "so_registration opts \<noteq> None"
  shows "sq_method rq = ''GET'' \<Longrightarrow> sq_pathname rq = pp_authorization p \<Longrightarrow>
      authorizationServerHandler opts lib p rq remote st = beginRoute opts lib p rq remote st"
    "sq_method rq = ''GET'' \<Longrightarrow> sq_pathname rq = pp_googleCallback p \<Longrightarrow>
      authorizationServerHandler opts lib p rq remote st = brokerCallbackRoute opts rq st"
    "sq_method rq = ''POST'' \<Longrightarrow> sq_pathname rq = pp_registration p \<Longrightarrow>
      authorizationServerHandler opts lib p rq remote st = registerRoute opts lib rq remote st"
    "sq_method rq = ''POST'' \<Longrightarrow> sq_pathname rq = pp_token p \<Longrightarrow>
      authorizationServerHandler opts lib p rq remote st = tokenRoute opts lib rq st"
  using public_paths_shape [OF assms(1)] assms(2) by (auto simp: authorizationServerHandler_def Let_def)

section \<open>Redirects of a server\<close>

text \<open>What registrations keep of the store of clients, whatever the limits count: the authorization endpoint has a limit of its
  own in the same table.\<close>

definition clients_inv :: "web_lib \<Rightarrow> dcr_registry \<Rightarrow> dcr_store \<Rightarrow> bool" where
  "clients_inv lib reg d \<longleftrightarrow> dcr_inv lib reg (d\<lparr>ds_rateWindows := []\<rparr>)"

lemma consume_clients: "ds_clients (snd (consumeRegistrationAttempt key policy d)) = ds_clients d"
  by (simp add: consumeRegistrationAttempt_def pruneRateWindows_def Let_def split: option.split)

lemma clients_inv_cong: "ds_clients d = ds_clients d' \<Longrightarrow> clients_inv lib reg d = clients_inv lib reg d'"
  by (simp add: clients_inv_def dcr_inv_def store_wf_def)

lemma get_windows:
  "(snd (getDynamicClient cid now d))\<lparr>ds_rateWindows := []\<rparr> = snd (getDynamicClient cid now (d\<lparr>ds_rateWindows := []\<rparr>))"
  by (simp add: getDynamicClient_def split: option.split)

lemma save_windows:
  "(snd (saveDynamicClient c n now d))\<lparr>ds_rateWindows := []\<rparr> = snd (saveDynamicClient c n now (d\<lparr>ds_rateWindows := []\<rparr>))"
  by (simp add: saveDynamicClient_def pruneClients_def Let_def)

lemma clients_inv_step: "dcr_step lib reg d d' \<Longrightarrow> registry_ok lib reg \<Longrightarrow> clients_inv lib reg d \<Longrightarrow> clients_inv lib reg d'"
proof (induction rule: dcr_step.induct)
  case (attempt d key nowMs)
  then show ?case using clients_inv_cong [OF consume_clients] by blast
next
  case (save metadata validated clientId d nowMs)
  from dcr_inv_step [OF dcr_step.save [OF save(1-3), of "d\<lparr>ds_rateWindows := []\<rparr>" nowMs]] save show ?case
    by (simp add: clients_inv_def save_windows)
next
  case (read d cid nowMs)
  from dcr_inv_get [of lib reg "d\<lparr>ds_rateWindows := []\<rparr>" cid nowMs] read show ?case
    by (simp add: clients_inv_def get_windows)
qed

lemma clients_inv_steps: "dcr_steps lib reg d d' \<Longrightarrow> registry_ok lib reg \<Longrightarrow> clients_inv lib reg d \<Longrightarrow> clients_inv lib reg d'"
  by (induction rule: rtranclp_induct) (auto intro: clients_inv_step)

lemma brokerClients_windows: "brokerClients reg now (d\<lparr>ds_rateWindows := []\<rparr>) = brokerClients reg now d"
  by (auto simp: brokerClients_def getClient_def getDynamicClient_def split: option.splits prod.splits)

lemma registered_redirect:
  assumes "brokerClients reg now d cid = Some client" "clients_inv lib reg d" "registry_ok lib reg" "u \<in> set (bc_redirectUris client)"
  shows "redirect_ok lib (dr_allowLoopbackRedirects reg) u"
  using brokerClients_ok [of reg now "d\<lparr>ds_rateWindows := []\<rparr>" cid client lib] assms
  by (simp add: brokerClients_windows clients_inv_def)

text \<open>Transactions under way lead to good targets only.\<close>

definition goodTransactions :: "(string \<Rightarrow> bool) \<Rightarrow> broker_state \<Rightarrow> bool" where
  "goodTransactions ok b \<longleftrightarrow> (\<forall>h tr. js_get (transactions (bs_store b)) h = Some tr \<longrightarrow> ok (tr_redirectUri tr))"

lemma begin_good:
  assumes "beginAuthorization bo ttl now rq b = (r, b')" "goodTransactions ok b"
    "\<And>client. bo_clients bo (ba_clientId rq) = Some client \<Longrightarrow> ba_redirectUri rq \<in> set (bc_redirectUris client) \<Longrightarrow> ok (ba_redirectUri rq)"
  shows "goodTransactions ok b' \<and> (\<forall>e u. r = Inl e \<and> be_redirectUrl e = Some u \<longrightarrow> ok (rd_uri u))"
proof (intro conjI allI impI)
  show "goodTransactions ok b'"
    using assms by (auto simp: goodTransactions_def beginAuthorization_def randomSecret_def saveTransaction_def Let_def js_map_simps
      split: option.splits if_splits sum.splits)
next
  fix e u assume r: "r = Inl e \<and> be_redirectUrl e = Some u"
  with beginAuthorization_client [OF assms(1)] assms(3) show "ok (rd_uri u)" by fastforce
qed

lemma consumeLive_good:
  assumes "consumeLiveTransaction bo now state b = (r, b')" "goodTransactions ok b"
  shows "goodTransactions ok b' \<and> (\<forall>tr. r = Inr tr \<longrightarrow> ok (tr_redirectUri tr)) \<and> (\<forall>e. r = Inl e \<longrightarrow> be_redirectUrl e = None)"
  using assms by (auto simp: goodTransactions_def consumeLiveTransaction_def consumeTransaction_def Let_def js_map_simps
    split: if_splits option.splits)

lemma required_no_redirect [simp]: "requireBoundedString v n m c = Some e \<Longrightarrow> be_redirectUrl e = None"
  by (metis requireBoundedString_no_redirect)

lemma complete_good:
  assumes "completeGoogleAuthorization bo ttl now state code b = (r, b')" "goodTransactions ok b"
  shows "goodTransactions ok b' \<and> (\<forall>c u. r = Inr (c, u) \<longrightarrow> ok (rd_uri u)) \<and>
    (\<forall>e u. r = Inl e \<and> be_redirectUrl e = Some u \<longrightarrow> ok (rd_uri u))"
proof -
  obtain r1 b1 where c: "consumeLiveTransaction bo now state b = (r1, b1)" by fastforce
  note good = consumeLive_good [OF c assms(2)]
  have keep: "goodTransactions ok (b1\<lparr>bs_drawn := n, bs_store := saveAuthorizationCode co (bs_store b1)\<rparr>)" for n co
    using good by (simp add: goodTransactions_def saveAuthorizationCode_def)
  show ?thesis
    using assms c good keep by (auto simp: completeGoogleAuthorization_def upstreamFailure_def clientRedirect_def randomSecret_def Let_def
      split: option.splits sum.splits if_splits)
qed

lemma deny_good:
  assumes "denyGoogleAuthorization bo now state error b = (r, b')" "goodTransactions ok b"
  shows "goodTransactions ok b' \<and> (\<forall>u. r = Inr u \<longrightarrow> ok (rd_uri u)) \<and> (\<forall>e u. r = Inl e \<and> be_redirectUrl e = Some u \<longrightarrow> ok (rd_uri u))"
proof -
  obtain r1 b1 where c: "consumeLiveTransaction bo now state b = (r1, b1)" by fastforce
  note good = consumeLive_good [OF c assms(2)]
  show ?thesis
    using assms c good by (auto simp: denyGoogleAuthorization_def clientRedirect_def split: option.splits sum.splits)
qed

lemma first_no_redirect:
  "first_error cs = Some e \<Longrightarrow> \<forall>c \<in> set cs. \<forall>e. c = Some e \<longrightarrow> be_redirectUrl e = None \<Longrightarrow> be_redirectUrl e = None"
  by (auto dest!: first_error_SomeD)

lemma checkCodeExchange_no_redirect: "checkCodeExchange rq = Some e \<Longrightarrow> be_redirectUrl e = None"
  unfolding checkCodeExchange_def by (erule first_no_redirect) auto

lemma checkRefreshExchange_no_redirect: "checkRefreshExchange bo rq = Some e \<Longrightarrow> be_redirectUrl e = None"
  unfolding checkRefreshExchange_def by (erule first_no_redirect) auto

lemma parseScopes_no_redirect: "parseAndValidateScopes scope allowed = Inl e \<Longrightarrow> be_redirectUrl e = None"
  by (auto simp: parseAndValidateScopes_def Let_def split: if_splits)

lemma refreshScopes_no_redirect: "refreshScopes bo client rq = Inl e \<Longrightarrow> be_redirectUrl e = None"
  by (cases "xr_scope rq") (auto simp: refreshScopes_def map_sum_def dest: parseScopes_no_redirect split: sum.splits)

lemma issueForCode_transactions:
  "issueForCode bo ttl now r client b = (resp, b') \<Longrightarrow> transactions (bs_store b') = transactions (bs_store b)"
  by (auto simp: issueForCode_def issueAccessToken_def randomSecret_def saveRefreshToken_def Let_def split: if_splits)

lemma exchangeCode_good:
  assumes "exchangeAuthorizationCode bo ttl now rq b = (r, b')" "goodTransactions ok b"
  shows "goodTransactions ok b' \<and> (\<forall>e. r = Inl e \<longrightarrow> be_redirectUrl e = None)"
proof -
  have "transactions (bs_store b') = transactions (bs_store b)"
    using assms(1) by (auto simp: exchangeAuthorizationCode_def consumeAuthorizationCode_def Let_def
      split: option.splits if_splits prod.splits dest: issueForCode_transactions)
  moreover have "be_redirectUrl e = None" if "r = Inl e" for e
    using assms(1) that by (auto simp: exchangeAuthorizationCode_def Let_def checkCodeExchange_no_redirect
      split: option.splits if_splits prod.splits)
  ultimately show ?thesis using assms(2) by (simp add: goodTransactions_def)
qed

lemma rotate_transactions: "rotateRefreshToken rq m = (r, m') \<Longrightarrow> transactions m' = transactions m"
  by (auto simp: rotateRefreshToken_def revokeFamily_def Let_def split: option.splits if_splits)

lemma exchangeRefresh_good:
  assumes "exchangeRefreshToken bo ttl now rq b = (r, b')" "goodTransactions ok b"
  shows "goodTransactions ok b' \<and> (\<forall>e. r = Inl e \<longrightarrow> be_redirectUrl e = None)"
proof -
  have "transactions (bs_store b') = transactions (bs_store b)"
    using assms(1) by (auto simp: exchangeRefreshToken_def issueAccessToken_def randomSecret_def Let_def
      split: option.splits if_splits prod.splits sum.splits RotateBrokerRefreshTokenResult.splits dest: rotate_transactions)
  moreover have "be_redirectUrl e = None" if "r = Inl e" for e
    using assms(1) that by (auto simp: exchangeRefreshToken_def Let_def checkRefreshExchange_no_redirect refreshScopes_no_redirect
      split: option.splits if_splits prod.splits sum.splits RotateBrokerRefreshTokenResult.splits)
  ultimately show ?thesis using assms(2) by (simp add: goodTransactions_def)
qed

definition server_inv :: "runtime_config \<Rightarrow> server_state \<Rightarrow> bool" where
  "server_inv cfg st \<longleftrightarrow> clients_inv (rn_web cfg) (rn_registry cfg) (ss_registry st) \<and>
     goodTransactions (redirect_ok (rn_web cfg) (dr_allowLoopbackRedirects (rn_registry cfg))) (ss_broker st)"

text \<open>A response sends a browser only to good targets.\<close>

definition goodResponse :: "runtime_config \<Rightarrow> server_response \<Rightarrow> bool" where
  "goodResponse cfg resp \<longleftrightarrow>
     (\<forall>u. sv_location resp = Some u \<longrightarrow> redirect_ok (rn_web cfg) (dr_allowLoopbackRedirects (rn_registry cfg)) (rd_uri u))"

lemma brokerFailure_good:
  assumes "\<And>u. be_redirectUrl e = Some u \<Longrightarrow> redirect_ok (rn_web cfg) (dr_allowLoopbackRedirects (rn_registry cfg)) (rd_uri u)"
  shows "goodResponse cfg (serverFailure (BrokerFailure e))"
  using assms by (auto simp: goodResponse_def serverFailure.simps oauthError_def serverJson_def serverRedirect_def split: option.splits)

lemma redirect_good:
  "redirect_ok (rn_web cfg) (dr_allowLoopbackRedirects (rn_registry cfg)) (rd_uri u) \<Longrightarrow> goodResponse cfg (serverRedirect u)"
  by (simp add: goodResponse_def serverRedirect_def)

lemma stays_good: "goodResponse cfg (serverJson body code headers)" "goodResponse cfg (dcrFailure e)" "goodResponse cfg requestFailed"
  by (auto simp: goodResponse_def serverJson_def dcrFailure_def oauthError_def requestFailed_def Let_def)

lemma other_failures_good:
  "readForm lib rq = Inl e \<Longrightarrow> goodResponse cfg (serverFailure e)" "readRegistrationJson lib rq = Inl e \<Longrightarrow> goodResponse cfg (serverFailure e)"
  "consentPage lib url callback client redirectUri = Inl e \<Longrightarrow> goodResponse cfg (serverFailure e)"
  "registrationEndpoint metadata = Inl e \<Longrightarrow> goodResponse cfg (serverFailure e)"
  by (auto simp: readForm_def readRegistrationJson_def consentPage_def registrationEndpoint_def metadataTooLarge_def metadataNotJson_def
    serverFailure.simps stays_good oauthError_def Let_def split: if_splits option.splits json.splits)

text \<open>A handler keeps the invariant and answers well.\<close>

definition serves :: "runtime_config \<Rightarrow> server_response \<times> server_state \<Rightarrow> bool" where
  "serves cfg out \<longleftrightarrow> server_inv cfg (snd out) \<and> goodResponse cfg (fst out)"

lemma on_broker_inv:
  assumes "onBroker f st = (r, st')" "server_inv cfg st"
  obtains b' where "f (ss_broker st) = (r, b')" "st' = st\<lparr>ss_broker := b'\<rparr>"
    "goodTransactions (redirect_ok (rn_web cfg) (dr_allowLoopbackRedirects (rn_registry cfg))) b' \<Longrightarrow> server_inv cfg st'"
  using assms by (auto simp: onBroker_def server_inv_def split: prod.splits)

lemma on_registry_inv:
  assumes "onRegistry f st = (r, st')" "server_inv cfg st"
    "clients_inv (rn_web cfg) (rn_registry cfg) (snd (f (ss_registry st)))"
  shows "server_inv cfg st'"
  using assms by (auto simp: onRegistry_def server_inv_def split: prod.splits)

lemmas runtime_simps = runtimeOptions_def runtimeBroker_def Let_def

lemma runtime_operations:
  "hb_begin (so_broker (runtimeOptions cfg t)) rq st =
     onBroker (beginAuthorization (withRegistry (rn_broker cfg) (rn_registry cfg) (t 1) st) (rn_ttls cfg) (t 1) rq) st"
  "hb_complete (so_broker (runtimeOptions cfg t)) state code st = map_prod (map_sum id snd) id
     (onBroker (completeGoogleAuthorization (withRegistry (rn_broker cfg) (rn_registry cfg) (t 1) st) (rn_ttls cfg) (t 1) state code) st)"
  "hb_deny (so_broker (runtimeOptions cfg t)) state error st =
     onBroker (denyGoogleAuthorization (withRegistry (rn_broker cfg) (rn_registry cfg) (t 1) st) (t 1) state error) st"
  "hb_exchangeCode (so_broker (runtimeOptions cfg t)) xc st =
     onBroker (exchangeAuthorizationCode (withRegistry (rn_broker cfg) (rn_registry cfg) (t 1) st) (rn_ttls cfg) (t 1) xc) st"
  "hb_exchangeRefresh (so_broker (runtimeOptions cfg t)) xr st =
     onBroker (exchangeRefreshToken (withRegistry (rn_broker cfg) (rn_registry cfg) (t 1) st) (rn_ttls cfg) (t 1) xr) st"
  by (simp_all add: runtime_simps)

lemma beginRoute_serves:
  assumes "server_inv cfg st" "registry_ok (rn_web cfg) (rn_registry cfg)"
  shows "serves cfg (beginRoute (runtimeOptions cfg t) lib paths rq remote st)"
proof -
  obtain l st1 where l: "enforceAuthorizationRateLimit (runtimeOptions cfg t) rq remote st = (l, st1)" by fastforce
  have "clients_inv (rn_web cfg) (rn_registry cfg) (snd (consumeAuthorizationAttempt k now (ss_registry st)))" for k now
    using assms(1) clients_inv_cong [OF consume_clients] by (simp add: consumeAuthorizationAttempt_def server_inv_def)
  then have inv1: "server_inv cfg st1"
    using l assms(1) by (auto simp: enforceAuthorizationRateLimit_def runtime_simps split: sum.splits prod.splits bool.splits
      intro: on_registry_inv)
  let ?rq = "authorizationRequest (sq_query rq)"
  obtain r st2 where b: "onBroker (beginAuthorization (withRegistry (rn_broker cfg) (rn_registry cfg) (t 1) st1) (rn_ttls cfg) (t 1) ?rq) st1 = (r, st2)"
    by fastforce
  then obtain b' where b': "beginAuthorization (withRegistry (rn_broker cfg) (rn_registry cfg) (t 1) st1) (rn_ttls cfg) (t 1) ?rq (ss_broker st1) = (r, b')"
    "goodTransactions (redirect_ok (rn_web cfg) (dr_allowLoopbackRedirects (rn_registry cfg))) b' \<Longrightarrow> server_inv cfg st2"
    using on_broker_inv [OF _ inv1] by metis
  from begin_good [OF b'(1), of "redirect_ok (rn_web cfg) (dr_allowLoopbackRedirects (rn_registry cfg))"] inv1
  have good: "server_inv cfg st2" "\<And>e u. r = Inl e \<Longrightarrow> be_redirectUrl e = Some u \<Longrightarrow>
      redirect_ok (rn_web cfg) (dr_allowLoopbackRedirects (rn_registry cfg)) (rd_uri u)"
    using assms(2) b'(2) by (auto simp: withRegistry_def server_inv_def intro: registered_redirect)
  have "beginRoute (runtimeOptions cfg t) lib paths rq remote st =
      (case l of Some e \<Rightarrow> (dcrFailure e, st1)
       | None \<Rightarrow> (case r of Inl e \<Rightarrow> (serverFailure (BrokerFailure e), st2)
          | Inr (url, client) \<Rightarrow> (case consentPage lib url (pp_googleCallbackUri paths) client (ba_redirectUri ?rq) of
               Inl e \<Rightarrow> (serverFailure e, st2) | Inr page \<Rightarrow> (page, st2))))"
    using b by (simp add: beginRoute_def l runtime_operations Let_def split: option.split)
  moreover have "goodResponse cfg page" if "consentPage lib url cb client u = Inr page" for url cb client u page
    using that by (auto simp: consentPage_def goodResponse_def Let_def split: option.splits)
  ultimately show ?thesis
    using inv1 good by (auto simp: serves_def stays_good other_failures_good brokerFailure_good split: option.splits sum.splits prod.splits)
qed

lemma registerRoute_serves:
  assumes "server_inv cfg st" "registry_ok (rn_web cfg) (rn_registry cfg)"
  shows "serves cfg (registerRoute (runtimeOptions cfg t) lib rq remote st)"
proof -
  have "clients_inv (rn_web cfg) (rn_registry cfg)
      (snd (register (rn_web cfg) (rn_registry cfg) metadata k now1 now2 gen (ss_registry st)))" for metadata k now1 now2 gen
    using assms by (intro clients_inv_steps [OF register_steps]) (auto simp: server_inv_def)
  then show ?thesis
    using assms(1) by (auto simp: serves_def registerRoute_def routeNotFound_def stays_good other_failures_good runtimeOptions_def Let_def
      split: option.splits sum.splits prod.splits if_splits intro: on_registry_inv)
qed

lemma callback_serves:
  assumes "server_inv cfg st"
  shows "serves cfg (brokerCallbackRoute (runtimeOptions cfg t) rq st)"
proof -
  let ?ok = "redirect_ok (rn_web cfg) (dr_allowLoopbackRedirects (rn_registry cfg))"
  have good: "goodTransactions ?ok (ss_broker st)" using assms by (simp add: server_inv_def)
  have out: "serves cfg (case r of Inl e \<Rightarrow> serverFailure (BrokerFailure e) | Inr u \<Rightarrow> serverRedirect u, st')"
    if "server_inv cfg st'" "\<And>u. r = Inr u \<Longrightarrow> ?ok (rd_uri u)" "\<And>e u. r = Inl e \<Longrightarrow> be_redirectUrl e = Some u \<Longrightarrow> ?ok (rd_uri u)" for r st'
    using that by (auto simp: serves_def redirect_good intro: brokerFailure_good split: sum.split)
  have inv: "goodTransactions ?ok b' \<Longrightarrow> server_inv cfg (st\<lparr>ss_broker := b'\<rparr>)" for b' using assms by (simp add: server_inv_def)
  show ?thesis
  proof (cases "truthy (js_get (sq_query rq) ''error'')")
    case True
    obtain r b' where r: "denyGoogleAuthorization (withRegistry (rn_broker cfg) (rn_registry cfg) (t 1) st) (t 1)
        (param (sq_query rq) ''state'') (the (js_get (sq_query rq) ''error'')) (ss_broker st) = (r, b')" by fastforce
    with deny_good [OF r good] inv True out [of "st\<lparr>ss_broker := b'\<rparr>" r] show ?thesis
      by (auto simp: brokerCallbackRoute_def runtime_operations onBroker_def split: sum.splits)
  next
    case False
    obtain r b' where r: "completeGoogleAuthorization (withRegistry (rn_broker cfg) (rn_registry cfg) (t 1) st) (rn_ttls cfg) (t 1)
        (param (sq_query rq) ''state'') (param (sq_query rq) ''code'') (ss_broker st) = (r, b')" by fastforce
    with complete_good [OF r good] inv False out [of "st\<lparr>ss_broker := b'\<rparr>" "map_sum id snd r"] show ?thesis
      by (cases r) (auto simp: brokerCallbackRoute_def runtime_operations onBroker_def)
  qed
qed

lemma tokenRoute_serves:
  assumes "server_inv cfg st"
  shows "serves cfg (tokenRoute (runtimeOptions cfg t) lib rq st)"
proof -
  let ?ok = "redirect_ok (rn_web cfg) (dr_allowLoopbackRedirects (rn_registry cfg))"
  have good: "goodTransactions ?ok (ss_broker st)" using assms by (simp add: server_inv_def)
  have x: "server_inv cfg st' \<and> (\<forall>e. r = Inl e \<longrightarrow> be_redirectUrl e = None)"
    if "exchangeGrant (so_broker (runtimeOptions cfg t)) params st = (r, st')" for params r st'
    using that assms exchangeCode_good [OF _ good] exchangeRefresh_good [OF _ good]
    by (auto simp: exchangeGrant_def runtime_operations onBroker_def server_inv_def Let_def split: if_splits prod.splits)
  have "goodResponse cfg (publicClientsOnly code challenge)" for code challenge
    by (simp add: publicClientsOnly_def tokenEndpointError_def stays_good)
  then show ?thesis
    using assms by (auto simp: serves_def tokenRoute_def rejectAuthorizationClientAuthentication_def stays_good other_failures_good
      split: option.splits sum.splits prod.splits dest!: x intro: brokerFailure_good)
qed

lemma server_serves:
  assumes "server_inv cfg st" "registry_ok (rn_web cfg) (rn_registry cfg)"
  shows "serves cfg (authorizationServerHandler (runtimeOptions cfg t) lib paths rq remote st)"
proof -
  have "goodResponse cfg (metadataRoute (runtimeOptions cfg t))"
    by (auto simp: metadataRoute_def publicJson_def stays_good other_failures_good Let_def split: sum.splits)
  with assms(1) have "serves cfg (metadataRoute (runtimeOptions cfg t), st)" "serves cfg (publicJson body, st)" "serves cfg (routeNotFound, st)" for body
    by (simp_all add: serves_def publicJson_def routeNotFound_def stays_good)
  then show ?thesis
    unfolding authorizationServerHandler_def Let_def
    by (simp add: beginRoute_serves registerRoute_serves callback_serves tokenRoute_serves assms)
qed

text \<open>The requests a server serves one after the other, at any times.\<close>

inductive server_runs :: "runtime_config \<Rightarrow> server_lib \<Rightarrow> public_paths \<Rightarrow> server_state \<Rightarrow> bool" for cfg lib paths where
  fresh: "server_runs cfg lib paths \<lparr>ss_broker = \<lparr>bs_store = empty_broker_mem, bs_drawn = 0\<rparr>, ss_registry = empty_dcr_store\<rparr>"
| serve: "server_runs cfg lib paths st \<Longrightarrow> authorizationServerHandler (runtimeOptions cfg t) lib paths rq remote st = (resp, st') \<Longrightarrow>
    server_runs cfg lib paths st'"

lemma server_runs_inv:
  assumes "server_runs cfg lib paths st" "registry_ok (rn_web cfg) (rn_registry cfg)"
  shows "server_inv cfg st"
  using assms(1)
proof (induction rule: server_runs.induct)
  case fresh
  show ?case
    by (simp add: server_inv_def clients_inv_def goodTransactions_def empty_broker_mem_def dcr_inv_def empty_dcr_store_def store_wf_def)
next
  case (serve st t rq remote resp st')
  from server_serves [OF serve.IH assms(2), of t lib paths rq remote] serve.hyps(2) show ?case by (simp add: serves_def)
qed

text \<open>C31: the authorization server is no open redirector. Whatever registrations, authorization requests, callbacks and token
  requests it has served, in any order, with any limits and any answers of Google: when it sends a browser away, the target is a
  redirect URI that registration has validated, canonical and to a public HTTPS host or an enabled loopback host.\<close>

theorem server_redirects_registered:
  assumes "makeDcrRegistry (rn_web cfg) options = Inr (rn_registry cfg)" "server_runs cfg lib paths st"
    "authorizationServerHandler (runtimeOptions cfg t) lib paths rq remote st = (resp, st')" "sv_location resp = Some u"
  shows "redirect_ok (rn_web cfg) (dr_allowLoopbackRedirects (rn_registry cfg)) (rd_uri u)"
  using server_serves [OF server_runs_inv [OF assms(2) makeDcrRegistry_ok [OF assms(1)]] makeDcrRegistry_ok [OF assms(1)], of t lib paths rq remote]
    assms(3,4) by (simp add: serves_def goodResponse_def)

section \<open>An example\<close>

definition runtime_example :: runtime_config where
  "runtime_example = \<lparr>rn_broker = demo_broker, rn_ttls = demo_ttls, rn_registry = example_dcr,
     rn_web = example_web\<lparr>isIP := (\<lambda>s. if s = ''10.0.0.1'' then 4 else 0)\<rparr>, rn_dcrEnabled = True, rn_trustedProxy = None,
     rn_clientIds = (\<lambda>i. ''client-1'')\<rparr>"

definition server_lib_example :: server_lib where
  "server_lib_example = \<lparr>sl_url = (\<lambda>s. None), sl_form = (\<lambda>s. []), sl_json = (\<lambda>s. Some example_metadata), sl_withQuery = (\<lambda>s q. s)\<rparr>"

definition paths_example :: public_paths where
  "paths_example = \<lparr>pp_serverMetadata = ''/m'', pp_resourceMetadata = ''/p'', pp_authorization = ''/authorize'', pp_token = ''/token'',
     pp_registration = ''/register'', pp_jwks = ''/j'', pp_googleCallback = ''/cb'', pp_googleCallbackUri = ''https://g/cb'', pp_all = []\<rparr>"

definition server_request_example :: "string \<Rightarrow> string \<Rightarrow> (string \<times> string) list \<Rightarrow> server_request" where
  "server_request_example verb path query = \<lparr>sq_method = verb, sq_pathname = path, sq_query = query,
     sq_headers = [(''content-type'', ''application/json'')], sq_declaredBytes = Some 0, sq_body = Some [''m'']\<rparr>"

abbreviation served :: "server_request \<Rightarrow> server_state \<Rightarrow> server_response \<times> server_state" where
  "served rq st \<equiv> authorizationServerHandler (runtimeOptions runtime_example (\<lambda>i. int i)) server_lib_example paths_example rq (Some ''10.0.0.1'') st"

definition server_registered :: "server_response \<times> server_state" where
  "server_registered = served (server_request_example ''POST'' ''/register'' [])
     \<lparr>ss_broker = \<lparr>bs_store = empty_broker_mem, bs_drawn = 0\<rparr>, ss_registry = empty_dcr_store\<rparr>"

definition server_answered :: "server_response \<times> server_state" where
  "server_answered = served (server_request_example ''GET'' ''/authorize'' [(''client_id'', ''client-1''), (''redirect_uri'', ''https://a.io/cb''),
       (''state'', ''x''), (''resource'', ''r''), (''scope'', ''mcp''), (''response_type'', ''token''), (''code_challenge'', ''c''), (''code_challenge_method'', ''S256'')])
     (snd server_registered)"

lemma example_metadata_read:
  "readRegistrationJson server_lib_example (server_request_example ''POST'' ''/register'' []) = Inr example_metadata"
proof -
  have "to_lower_case ''application/json'' = ''application/json''" by code_simp
  then have "contentTypeHas ''application/json'' (server_request_example ''POST'' ''/register'' [])"
    by (simp add: contentTypeHas_def server_request_example_def)
  then show ?thesis
    by (simp add: readRegistrationJson_def server_lib_example_def server_request_example_def MAX_REGISTRATION_BODY_BYTES_def)
qed

lemma example_admitted: "registrationAdmissionKey (rn_web runtime_example) headers (Some ''10.0.0.1'') (rn_trustedProxy runtime_example) = Inr ''ip:10.0.0.1''"
proof -
  have "normalizedIp (rn_web runtime_example) (Some ''10.0.0.1'') = Some ''10.0.0.1''" by code_simp
  then show ?thesis by (simp add: registrationAdmissionKey_def runtime_example_def)
qed

definition server_store :: dcr_store where
  "server_store = snd (register (rn_web runtime_example) (rn_registry runtime_example) example_metadata ''ip:10.0.0.1'' 0 1
     (rn_clientIds runtime_example) empty_dcr_store)"

lemma server_registered_state:
  "snd server_registered = \<lparr>ss_broker = \<lparr>bs_store = empty_broker_mem, bs_drawn = 0\<rparr>, ss_registry = server_store\<rparr>"
proof -
  have "served (server_request_example ''POST'' ''/register'' []) st = registerRoute (runtimeOptions runtime_example (\<lambda>i. int i)) server_lib_example
      (server_request_example ''POST'' ''/register'' []) (Some ''10.0.0.1'') st" for st
    by (simp add: authorizationServerHandler_def server_request_example_def paths_example_def)
  moreover have "rn_dcrEnabled runtime_example" by (simp add: runtime_example_def)
  ultimately show ?thesis
    by (simp add: server_registered_def registerRoute_def example_metadata_read runtimeOptions_def Let_def example_admitted onRegistry_def
      server_store_def split: prod.split sum.split)
qed

definition limited_store :: dcr_store where "limited_store = snd (consumeAuthorizationAttempt ''ip:10.0.0.1'' 0 server_store)"

definition refused_request :: BeginAuthorizationRequest where
  "refused_request = \<lparr>ba_responseType = ''token'', ba_clientId = ''client-1'', ba_redirectUri = ''https://a.io/cb'', ba_resource = ''r'',
     ba_scope = ''mcp'', ba_codeChallenge = ''c'', ba_codeChallengeMethod = ''S256'', ba_state = Some ''x''\<rparr>"

definition store_view :: "dcr_store \<Rightarrow> (string \<times> BrokerClient \<times> time_ms option) list \<times> string list" where
  "store_view d =
     (map (\<lambda>(k, c). (k, brokerClient \<lparr>rd_registration = sc_registration c, rd_expiresAtMs = None, rd_static = False\<rparr>, sc_expiresAtMs c))
        (ds_clients d), map fst (ds_rateWindows d))"

lemma server_store_value:
  "store_view server_store =
     ([(''client-1'', \<lparr>bc_clientId = ''client-1'', bc_redirectUris = [''https://a.io/cb''], bc_grantTypes = [''authorization_code''],
        bc_scopes = [''mcp''], bc_expiresAtMs = None, bc_clientName = None, bc_clientUri = None\<rparr>, None)], [''ip:10.0.0.1''])"
  by code_simp

lemma example_not_limited: "fst (consumeAuthorizationAttempt ''ip:10.0.0.1'' 0 server_store)"
proof -
  from server_store_value obtain w where "ds_rateWindows server_store = [(''ip:10.0.0.1'', w)]" by (auto simp: store_view_def map_eq_Cons_conv)
  then show ?thesis
    by (simp add: consumeAuthorizationAttempt_def consumeRegistrationAttempt_def pruneRateWindows_def authorizationAttemptPolicy_def Let_def)
qed

lemma example_client:
  "brokerClients example_dcr 1 limited_store ''client-1'' = Some \<lparr>bc_clientId = ''client-1'', bc_redirectUris = [''https://a.io/cb''],
     bc_grantTypes = [''authorization_code''], bc_scopes = [''mcp''], bc_expiresAtMs = None, bc_clientName = None, bc_clientUri = None\<rparr>"
proof -
  have "ds_clients limited_store = ds_clients server_store"
    by (simp add: limited_store_def consumeAuthorizationAttempt_def consume_clients)
  with server_store_value show ?thesis
    by (auto simp: store_view_def brokerClients_def getClient_def getDynamicClient_def client_alive_def example_dcr_def map_eq_Cons_conv)
qed

lemma example_refused:
  "case fst (beginAuthorization (demo_broker\<lparr>bo_clients := brokerClients example_dcr 1 limited_store\<rparr>) demo_ttls 1 refused_request
     \<lparr>bs_store = empty_broker_mem, bs_drawn = 0\<rparr>) of
   Inl e \<Rightarrow> map_option rd_uri (be_redirectUrl e) = Some ''https://a.io/cb'' | Inr x \<Rightarrow> False"
  by (simp add: beginAuthorization_def checkAuthorizationRequest_def requireBoundedString_def refused_request_def example_client clientRedirect_def
    Broker.MAX_URI_LENGTH_def MAX_CLIENT_ID_LENGTH_def MAX_SCOPE_LENGTH_def MAX_CLIENT_STATE_LENGTH_def Let_def)

lemma server_example_redirects: "map_option rd_uri (sv_location (fst server_answered)) = Some ''https://a.io/cb''"
proof -
  let ?q = "[(''client_id'', ''client-1''), (''redirect_uri'', ''https://a.io/cb''), (''state'', ''x''), (''resource'', ''r''), (''scope'', ''mcp''),
       (''response_type'', ''token''), (''code_challenge'', ''c''), (''code_challenge_method'', ''S256'')]"
  let ?st = "\<lparr>ss_broker = \<lparr>bs_store = empty_broker_mem, bs_drawn = 0\<rparr>, ss_registry = server_store\<rparr>"
  have r: "served (server_request_example ''GET'' ''/authorize'' ?q) st = beginRoute (runtimeOptions runtime_example (\<lambda>i. int i)) server_lib_example
      paths_example (server_request_example ''GET'' ''/authorize'' ?q) (Some ''10.0.0.1'') st" for st
    by (simp add: authorizationServerHandler_def server_request_example_def paths_example_def)
  have l: "enforceAuthorizationRateLimit (runtimeOptions runtime_example (\<lambda>i. int i)) rq (Some ''10.0.0.1'') ?st = (None, ?st\<lparr>ss_registry := limited_store\<rparr>)" for rq
    using example_not_limited
    by (auto simp: enforceAuthorizationRateLimit_def runtimeOptions_def Let_def example_admitted onRegistry_def limited_store_def split: prod.split bool.split)
  have q: "authorizationRequest (sq_query (server_request_example ''GET'' ''/authorize'' ?q)) = refused_request"
    by (simp add: server_request_example_def authorizationRequest_def param_def refused_request_def)
  have sel: "rn_broker runtime_example = demo_broker" "rn_ttls runtime_example = demo_ttls" "rn_registry runtime_example = example_dcr"
    by (simp_all add: runtime_example_def)
  from example_refused obtain e b u where e: "beginAuthorization (demo_broker\<lparr>bo_clients := brokerClients example_dcr 1 limited_store\<rparr>)
      demo_ttls 1 refused_request \<lparr>bs_store = empty_broker_mem, bs_drawn = 0\<rparr> = (Inl e, b)"
    "be_redirectUrl e = Some u" "rd_uri u = ''https://a.io/cb''"
    by (auto split: sum.splits simp: prod_eq_iff)
  show ?thesis
    unfolding server_answered_def server_registered_state r beginRoute_def l q
    by (simp add: runtime_operations onBroker_def withRegistry_def sel e serverFailure.simps serverRedirect_def)
qed

theorem server_redirects_registered_witness: "redirect_ok (rn_web runtime_example) False ''https://a.io/cb''"
proof -
  from server_example_redirects obtain u where u: "sv_location (fst server_answered) = Some u" "rd_uri u = ''https://a.io/cb''" by auto
  have "validateConfiguredScopes [''mcp''] = Inr [''mcp'']" by code_simp
  then have "makeDcrRegistry (rn_web runtime_example) example_dcr_options = Inr (rn_registry runtime_example)"
    by (simp add: runtime_example_def makeDcrRegistry_def example_dcr_options_def example_dcr_def positiveInteger_def)
  moreover have "server_runs runtime_example server_lib_example paths_example (snd server_registered)"
    unfolding server_registered_def by (rule server_runs.serve [OF server_runs.fresh prod.collapse [symmetric]])
  ultimately have "redirect_ok (rn_web runtime_example) (dr_allowLoopbackRedirects (rn_registry runtime_example)) (rd_uri u)"
    by (rule server_redirects_registered [OF _ _ prod.collapse [symmetric] u(1) [unfolded server_answered_def]])
  with u(2) show ?thesis by (simp add: runtime_example_def example_dcr_def)
qed

end
