(* ===== verification/Job_Table.thy ===== *)
theory Job_Table
  imports Prelude "HOL-Library.Multiset"
begin

text \<open>
  The table of jobs that the governed command line and the remote shell keep
  (\<open>servers/governed-cli/src/http.ts\<close>, \<open>servers/remote-shell/src/http.ts\<close>): retention, admission with
  reservations, and release. What a server's jobs are is given by a \<open>job_kind\<close>; the contract
  \<open>job_server\<close> is what a server promises about the jobs it starts, and inside it the limits are
  proved once for both.
\<close>

section \<open>Tables\<close>

record 'j job_table =
  sv_jobs :: "(string, 'j) jsmap"
  sv_admissions :: int
  sv_admissionsByOwner :: "(string, int) jsmap"

text \<open>The fields of a job that the table reads: \<open>jk_busy\<close> is the test of its status.\<close>

record 'j job_kind =
  jk_id :: "'j \<Rightarrow> string"
  jk_owner :: "'j \<Rightarrow> string"
  jk_busy :: "'j \<Rightarrow> bool"
  jk_completedAt :: "'j \<Rightarrow> time_ms option"

record job_limits =
  jl_maxJobs :: nat
  jl_maxRunningJobsPerOwner :: nat
  jl_retentionSeconds :: int

definition pruneJobs ::
  "'j job_kind \<Rightarrow> job_limits \<Rightarrow> time_ms \<Rightarrow> ('j, 'x) job_table_scheme \<Rightarrow> ('j, 'x) job_table_scheme" where
  "pruneJobs kind limits now sv =
     (let cutoff = now - jl_retentionSeconds limits * 1000 in
      sv\<lparr>sv_jobs := filter (\<lambda>(k, j). \<not> (case jk_completedAt kind j of Some t \<Rightarrow> t \<le> cutoff | None \<Rightarrow> False))
                     (sv_jobs sv)\<rparr>)"

definition busyOf :: "'j job_kind \<Rightarrow> string \<Rightarrow> (string, 'j) jsmap \<Rightarrow> nat" where
  "busyOf kind owner jobs = length (filter (\<lambda>j. jk_owner kind j = owner \<and> jk_busy kind j) (map snd jobs))"

definition oldestFinished :: "'j job_kind \<Rightarrow> (string, 'j) jsmap \<Rightarrow> 'j option" where
  "oldestFinished kind jobs =
     (case sort_key (\<lambda>j. coalesce (jk_completedAt kind j) 0)
             (filter (\<lambda>j. jk_completedAt kind j \<noteq> None) (map snd jobs)) of
        [] \<Rightarrow> None | j # _ \<Rightarrow> Some j)"

text \<open>The loop that makes room, \<open>None\<close> if it does not end.\<close>

partial_function (option) evict ::
  "'j job_kind \<Rightarrow> nat \<Rightarrow> int \<Rightarrow> (string, 'j) jsmap \<Rightarrow> (bool \<times> (string, 'j) jsmap) option" where
  "evict kind maxJobs admissions jobs =
     (if int (length jobs) + admissions \<ge> int maxJobs
      then (case oldestFinished kind jobs of
              None \<Rightarrow> Some (False, jobs)
            | Some j \<Rightarrow> evict kind maxJobs admissions (js_del (jk_id kind j) jobs))
      else Some (True, jobs))"

definition admitJob ::
  "'j job_kind \<Rightarrow> job_limits \<Rightarrow> time_ms \<Rightarrow> string \<Rightarrow> ('j, 'x) job_table_scheme \<Rightarrow>
   (bool \<times> ('j, 'x) job_table_scheme) option" where
  "admitJob kind limits now owner sv =
     (let sv = pruneJobs kind limits now sv;
          reserved = coalesce (js_get (sv_admissionsByOwner sv) owner) 0 in
      if int (busyOf kind owner (sv_jobs sv)) + reserved \<ge> int (jl_maxRunningJobsPerOwner limits) then Some (False, sv)
      else case evict kind (jl_maxJobs limits) (sv_admissions sv) (sv_jobs sv) of
          None \<Rightarrow> None
        | Some (False, jobs) \<Rightarrow> Some (False, sv\<lparr>sv_jobs := jobs\<rparr>)
        | Some (True, jobs) \<Rightarrow>
            Some (True, sv\<lparr>sv_jobs := jobs, sv_admissions := sv_admissions sv + 1,
                           sv_admissionsByOwner := js_set owner (reserved + 1) (sv_admissionsByOwner sv)\<rparr>))"

definition releaseAdmission :: "string \<Rightarrow> ('j, 'x) job_table_scheme \<Rightarrow> ('j, 'x) job_table_scheme" where
  "releaseAdmission owner sv =
     (let remaining = coalesce (js_get (sv_admissionsByOwner sv) owner) 1 - 1 in
      sv\<lparr>sv_admissions := sv_admissions sv - 1,
         sv_admissionsByOwner := (if remaining \<noteq> 0 then js_set owner remaining (sv_admissionsByOwner sv)
                                  else js_del owner (sv_admissionsByOwner sv))\<rparr>)"

text \<open>A job is an object that its table and the promises of its run share.\<close>

definition updateJob :: "string \<Rightarrow> ('j \<Rightarrow> 'j) \<Rightarrow> ('j, 'x) job_table_scheme \<Rightarrow> ('j, 'x) job_table_scheme" where
  "updateJob jid f sv = sv\<lparr>sv_jobs := map (\<lambda>(k, j). (k, if k = jid then f j else j)) (sv_jobs sv)\<rparr>"

section \<open>What leaves the table\<close>

text \<open>Entries are keyed by their identifiers, and a job without a completion time counts as busy.\<close>

definition jobs_wf :: "'j job_kind \<Rightarrow> (string, 'j) jsmap \<Rightarrow> bool" where
  "jobs_wf kind jobs \<longleftrightarrow> distinct (map fst jobs) \<and>
     (\<forall>(k, j) \<in> set jobs. jk_id kind j = k \<and> (jk_completedAt kind j = None \<longrightarrow> jk_busy kind j))"

text \<open>Only jobs that have completed leave it.\<close>

definition keeps_open :: "'j job_kind \<Rightarrow> (string, 'j) jsmap \<Rightarrow> (string, 'j) jsmap \<Rightarrow> bool" where
  "keeps_open kind jobs jobs' \<longleftrightarrow>
     (\<exists>P. jobs' = filter P jobs \<and> (\<forall>(k, j) \<in> set jobs. jk_completedAt kind j = None \<longrightarrow> P (k, j)))"

definition openOf :: "'j job_kind \<Rightarrow> string \<Rightarrow> (string, 'j) jsmap \<Rightarrow> nat" where
  "openOf kind owner jobs =
     length (filter (\<lambda>j. jk_owner kind j = owner \<and> jk_completedAt kind j = None) (map snd jobs))"

lemma keeps_open_refl: "keeps_open kind jobs jobs"
  unfolding keeps_open_def by (rule exI [of _ "\<lambda>_. True"]) simp

lemma keeps_open_trans: "keeps_open kind a b \<Longrightarrow> keeps_open kind b c \<Longrightarrow> keeps_open kind a c"
proof -
  assume "keeps_open kind a b" "keeps_open kind b c"
  then obtain P Q where P: "b = filter P a" "\<forall>(k, j) \<in> set a. jk_completedAt kind j = None \<longrightarrow> P (k, j)"
    and Q: "c = filter Q b" "\<forall>(k, j) \<in> set b. jk_completedAt kind j = None \<longrightarrow> Q (k, j)"
    unfolding keeps_open_def by blast
  have "c = filter (\<lambda>x. P x \<and> Q x) a" by (simp add: P(1) Q(1) conj_commute)
  moreover have "\<forall>(k, j) \<in> set a. jk_completedAt kind j = None \<longrightarrow> P (k, j) \<and> Q (k, j)" using P Q by auto
  ultimately show "keeps_open kind a c" unfolding keeps_open_def by blast
qed

lemma filter_snd: "filter Q (map snd (filter P xs)) = map snd (filter (\<lambda>x. P x \<and> Q (snd x)) xs)"
  by (induction xs) auto

lemma keeps_open_facts:
  assumes "keeps_open kind jobs jobs'"
  shows "jobs_wf kind jobs \<Longrightarrow> jobs_wf kind jobs'" "openOf kind owner jobs' = openOf kind owner jobs"
    "length jobs' \<le> length jobs" "set jobs' \<subseteq> set jobs"
    "(k, j) \<in> set jobs \<Longrightarrow> jk_completedAt kind j = None \<Longrightarrow> (k, j) \<in> set jobs'"
proof -
  from assms obtain P where P: "jobs' = filter P jobs" "\<forall>(k, j) \<in> set jobs. jk_completedAt kind j = None \<longrightarrow> P (k, j)"
    by (auto simp: keeps_open_def)
  show "jobs_wf kind jobs \<Longrightarrow> jobs_wf kind jobs'" "length jobs' \<le> length jobs" "set jobs' \<subseteq> set jobs"
    by (auto simp: jobs_wf_def P distinct_map_filter)
  show "(k, j) \<in> set jobs \<Longrightarrow> jk_completedAt kind j = None \<Longrightarrow> (k, j) \<in> set jobs'" using P by auto
  have "filter (\<lambda>x. P x \<and> jk_owner kind (snd x) = owner \<and> jk_completedAt kind (snd x) = None) jobs =
      filter (\<lambda>x. jk_owner kind (snd x) = owner \<and> jk_completedAt kind (snd x) = None) jobs"
    using P(2) by (intro filter_cong) auto
  then show "openOf kind owner jobs' = openOf kind owner jobs" by (simp add: openOf_def P(1) filter_snd filter_map comp_def)
qed

lemma js_get_keeps:
  assumes "keeps_open kind jobs jobs'" "jobs_wf kind jobs"
  shows "js_get jobs' k = Some j \<Longrightarrow> js_get jobs k = Some j"
    "js_get jobs k = Some j \<Longrightarrow> jk_completedAt kind j = None \<Longrightarrow> js_get jobs' k = Some j"
proof -
  have d: "distinct (map fst jobs)" "distinct (map fst jobs')"
    using assms keeps_open_facts(1) [OF assms(1)] by (auto simp: jobs_wf_def)
  have s: "set jobs' \<subseteq> set jobs" by (rule keeps_open_facts(4) [OF assms(1)])
  show "js_get jobs k = Some j" if "js_get jobs' k = Some j"
    using map_of_SomeD [OF that] s d(1) by auto
  show "js_get jobs' k = Some j" if "js_get jobs k = Some j" "jk_completedAt kind j = None"
    using keeps_open_facts(5) [OF assms(1) map_of_SomeD [OF that(1)] that(2)] d(2) by simp
qed

lemma openOf_le_busyOf: "jobs_wf kind jobs \<Longrightarrow> openOf kind owner jobs \<le> busyOf kind owner jobs"
  unfolding jobs_wf_def openOf_def busyOf_def by (induction jobs) auto

lemma pruneJobs_keeps: "keeps_open kind (sv_jobs sv) (sv_jobs (pruneJobs kind limits now sv))"
  unfolding keeps_open_def pruneJobs_def Let_def by (intro exI conjI) auto

lemma pruneJobs_simps [simp]:
  "sv_admissions (pruneJobs kind limits now sv) = sv_admissions sv"
  "sv_admissionsByOwner (pruneJobs kind limits now sv) = sv_admissionsByOwner sv"
  "job_table.more (pruneJobs kind limits now sv) = job_table.more sv"
  by (simp_all add: pruneJobs_def Let_def)

lemma oldestFinished_Some:
  assumes "oldestFinished kind jobs = Some j" "jobs_wf kind jobs"
  shows "(jk_id kind j, j) \<in> set jobs \<and> jk_completedAt kind j \<noteq> None"
proof -
  from assms(1) have "j \<in> set (sort_key (\<lambda>j. coalesce (jk_completedAt kind j) 0)
      (filter (\<lambda>j. jk_completedAt kind j \<noteq> None) (map snd jobs)))"
    by (auto simp: oldestFinished_def split: list.splits simp del: set_sort)
  then obtain k where "(k, j) \<in> set jobs" "jk_completedAt kind j \<noteq> None" by auto
  with assms(2) show ?thesis by (auto simp: jobs_wf_def)
qed

lemma delete_finished_keeps:
  assumes "jobs_wf kind jobs" "(k, j) \<in> set jobs" "jk_completedAt kind j \<noteq> None"
  shows "keeps_open kind jobs (js_del k jobs)" "length (js_del k jobs) < length jobs"
proof -
  have d: "js_del k jobs = filter (\<lambda>(k', _). k \<noteq> k') jobs" by (simp add: AList.delete_eq)
  have u: "j' = j" if "(k, j') \<in> set jobs" for j'
    by (rule eq_key_imp_eq_value [OF _ that assms(2)]) (use assms(1) in \<open>simp add: jobs_wf_def\<close>)
  have "\<forall>(k', j') \<in> set jobs. jk_completedAt kind j' = None \<longrightarrow> k \<noteq> k'" using u assms(3) by auto
  then show "keeps_open kind jobs (js_del k jobs)"
    unfolding d keeps_open_def by (intro exI [of _ "\<lambda>(k', _). k \<noteq> k'"]) auto
  show "length (js_del k jobs) < length jobs"
    unfolding d using assms(2) by (intro length_filter_less [of "(k, j)"]) auto
qed

text \<open>The loop that makes room ends, removes only completed jobs, and has made room if it says so.\<close>

lemma evict_ends:
  assumes "jobs_wf kind jobs"
  shows "\<exists>ok jobs'. evict kind maxJobs admissions jobs = Some (ok, jobs') \<and> keeps_open kind jobs jobs' \<and>
    (ok \<longrightarrow> int (length jobs') + admissions < int maxJobs)"
  using assms
proof (induction "length jobs" arbitrary: jobs rule: less_induct)
  case less
  show ?case
  proof (cases "int (length jobs) + admissions \<ge> int maxJobs")
    case True
    show ?thesis
    proof (cases "oldestFinished kind jobs")
      case None
      with True show ?thesis by (subst evict.simps) (auto simp: keeps_open_refl intro: exI [of _ False])
    next
      case (Some j)
      note f = oldestFinished_Some [OF Some less.prems]
      note d = delete_finished_keeps [OF less.prems f [THEN conjunct1] f [THEN conjunct2]]
      from less.hyps [OF d(2) keeps_open_facts(1) [OF d(1) less.prems]] d(1) True Some show ?thesis
        by (subst evict.simps) (auto intro: keeps_open_trans)
    qed
  next
    case False
    then show ?thesis by (subst evict.simps) (auto simp: keeps_open_refl intro: exI [of _ True])
  qed
qed

section \<open>The limits\<close>

text \<open>The owners of the requests between admission and start, each as often as it has a place reserved.\<close>

definition table_inv :: "'j job_kind \<Rightarrow> job_limits \<Rightarrow> string multiset \<Rightarrow> ('j, 'x) job_table_scheme \<Rightarrow> bool" where
  "table_inv kind limits waiting sv \<longleftrightarrow>
     jobs_wf kind (sv_jobs sv) \<and>
     sv_admissions sv = int (size waiting) \<and>
     (\<forall>owner. coalesce (js_get (sv_admissionsByOwner sv) owner) 0 = int (count waiting owner)) \<and>
     length (sv_jobs sv) + size waiting \<le> jl_maxJobs limits \<and>
     (\<forall>owner. openOf kind owner (sv_jobs sv) + count waiting owner \<le> jl_maxRunningJobsPerOwner limits)"

lemma table_inv_wf: "table_inv kind limits waiting sv \<Longrightarrow> jobs_wf kind (sv_jobs sv)"
  by (simp add: table_inv_def)

lemma table_inv_keeps:
  assumes "table_inv kind limits waiting sv" "keeps_open kind (sv_jobs sv) (sv_jobs sv')"
    "sv_admissions sv' = sv_admissions sv" "sv_admissionsByOwner sv' = sv_admissionsByOwner sv"
  shows "table_inv kind limits waiting sv'"
  using assms(1,3,4) keeps_open_facts(1-3) [OF assms(2)] by (fastforce simp: table_inv_def)

lemma table_inv_prune: "table_inv kind limits waiting sv \<Longrightarrow> table_inv kind limits waiting (pruneJobs kind limits now sv)"
  by (rule table_inv_keeps [OF _ pruneJobs_keeps]) simp_all

text \<open>An update of one job that neither opens it again nor changes its owner.\<close>

definition job_update :: "'j job_kind \<Rightarrow> ('j \<Rightarrow> 'j) \<Rightarrow> bool" where
  "job_update kind f \<longleftrightarrow> (\<forall>j. jk_id kind (f j) = jk_id kind j \<and> jk_owner kind (f j) = jk_owner kind j \<and>
     (jk_completedAt kind (f j) = None \<longrightarrow> jk_completedAt kind j = None \<and> (jk_busy kind j \<longrightarrow> jk_busy kind (f j))))"

lemma updateJob_simps [simp]:
  "sv_admissions (updateJob jid f sv) = sv_admissions sv"
  "sv_admissionsByOwner (updateJob jid f sv) = sv_admissionsByOwner sv"
  "job_table.more (updateJob jid f sv) = job_table.more sv"
  "length (sv_jobs (updateJob jid f sv)) = length (sv_jobs sv)"
  "map fst (sv_jobs (updateJob jid f sv)) = map fst (sv_jobs sv)"
  by (simp_all add: updateJob_def comp_def case_prod_beta)

lemma js_get_updateJob [js_map_simps]:
  "js_get (sv_jobs (updateJob jid f sv)) k = map_option (\<lambda>j. if k = jid then f j else j) (js_get (sv_jobs sv) k)"
proof -
  have "map_of (map (\<lambda>(k, j). (k, if k = jid then f j else j)) m) k = map_option (\<lambda>j. if k = jid then f j else j) (map_of m k)"
    for m :: "(string, 'a) jsmap"
    by (induction m) auto
  then show ?thesis by (simp add: updateJob_def)
qed

lemma openOf_update:
  assumes "job_update kind f"
  shows "openOf kind owner (map (\<lambda>(k, j). (k, if k = jid then f j else j)) jobs) \<le> openOf kind owner jobs"
  using assms unfolding openOf_def job_update_def by (induction jobs) (auto split: if_splits)

lemma table_inv_update:
  assumes "table_inv kind limits waiting sv" "job_update kind f"
  shows "table_inv kind limits waiting (updateJob jid f sv)"
proof -
  have "jobs_wf kind (sv_jobs (updateJob jid f sv))"
    using assms by (auto simp: jobs_wf_def table_inv_def job_update_def updateJob_def comp_def case_prod_beta)
  moreover have "openOf kind owner (sv_jobs (updateJob jid f sv)) \<le> openOf kind owner (sv_jobs sv)" for owner
    using openOf_update [OF assms(2)] by (simp add: updateJob_def)
  ultimately show ?thesis using assms(1) by (auto simp: table_inv_def intro: le_trans [OF add_right_mono])
qed

text \<open>Admission always returns; it removes only completed jobs, and reserves a place where it accepts.\<close>

lemma admitJob_outcome:
  fixes sv :: "('j, 'x) job_table_scheme"
  assumes "table_inv kind limits waiting sv"
  obtains ok sv' where "admitJob kind limits now owner sv = Some (ok, sv')" "keeps_open kind (sv_jobs sv) (sv_jobs sv')"
    "job_table.more sv' = job_table.more sv"
    "table_inv kind limits (if ok then add_mset owner waiting else waiting) sv'"
proof -
  let ?p = "pruneJobs kind limits now sv"
  note k = pruneJobs_keeps [of kind sv limits now]
  have p: "table_inv kind limits waiting ?p" by (rule table_inv_prune [OF assms])
  show thesis
  proof (cases "int (busyOf kind owner (sv_jobs ?p)) + coalesce (js_get (sv_admissionsByOwner ?p) owner) 0
      \<ge> int (jl_maxRunningJobsPerOwner limits)")
    case True
    then have "admitJob kind limits now owner sv = Some (False, ?p)" by (simp add: admitJob_def Let_def)
    then show ?thesis by (rule that) (use k p in simp_all)
  next
    case False
    from evict_ends [of kind "sv_jobs ?p" "jl_maxJobs limits" "sv_admissions ?p"] table_inv_wf [OF p] obtain ok jobs' where
      e: "evict kind (jl_maxJobs limits) (sv_admissions ?p) (sv_jobs ?p) = Some (ok, jobs')"
        "keeps_open kind (sv_jobs ?p) jobs'" "ok \<longrightarrow> int (length jobs') + sv_admissions ?p < int (jl_maxJobs limits)"
      by blast
    have q: "table_inv kind limits waiting (?p\<lparr>sv_jobs := jobs'\<rparr>)" by (rule table_inv_keeps [OF p]) (simp_all add: e)
    have kk: "keeps_open kind (sv_jobs sv) jobs'" by (rule keeps_open_trans [OF k e(2)])
    show ?thesis
    proof (cases ok)
      case ok: True
      let ?s = "?p\<lparr>sv_jobs := jobs', sv_admissions := sv_admissions ?p + 1,
        sv_admissionsByOwner := js_set owner (coalesce (js_get (sv_admissionsByOwner ?p) owner) 0 + 1) (sv_admissionsByOwner ?p)\<rparr>"
      have "openOf kind owner jobs' = openOf kind owner (sv_jobs ?p)" by (rule keeps_open_facts(2) [OF e(2)])
      then have r: "openOf kind owner jobs' \<le> busyOf kind owner (sv_jobs ?p)"
        using openOf_le_busyOf [OF table_inv_wf [OF p], of owner] by simp
      have "table_inv kind limits (add_mset owner waiting) ?s"
        using q e(3) ok False r p by (auto simp: table_inv_def js_map_simps)
      moreover have "admitJob kind limits now owner sv = Some (True, ?s)" using False e(1) ok by (simp add: admitJob_def Let_def)
      ultimately show ?thesis using that [of True ?s] kk by simp
    next
      case nok: False
      have "admitJob kind limits now owner sv = Some (False, ?p\<lparr>sv_jobs := jobs'\<rparr>)"
        using False e(1) nok by (simp add: admitJob_def Let_def)
      then show ?thesis by (rule that) (use kk q in simp_all)
    qed
  qed
qed

lemma table_inv_release:
  assumes "table_inv kind limits (add_mset owner waiting) sv"
  shows "table_inv kind limits waiting (releaseAdmission owner sv)"
proof -
  have g: "coalesce (js_get (sv_admissionsByOwner sv) o') 0 = int (count (add_mset owner waiting) o')" for o'
    using assms by (simp add: table_inv_def)
  have pos: "js_get (sv_admissionsByOwner sv) owner = Some (int (count waiting owner) + 1)"
    using g [of owner] by (cases "js_get (sv_admissionsByOwner sv) owner") auto
  have "coalesce (js_get (sv_admissionsByOwner (releaseAdmission owner sv)) o') 0 = int (count waiting o')" for o'
    using g [of o'] pos by (auto simp: releaseAdmission_def Let_def js_map_simps simp: not_in_iff)
  moreover have "openOf kind o' (sv_jobs sv) + count waiting o' \<le> jl_maxRunningJobsPerOwner limits" for o'
  proof -
    have "openOf kind o' (sv_jobs sv) + count (add_mset owner waiting) o' \<le> jl_maxRunningJobsPerOwner limits"
      using assms by (simp only: table_inv_def)
    then show ?thesis by (simp split: if_splits)
  qed
  moreover have "jobs_wf kind (sv_jobs sv)" "sv_admissions sv = int (size waiting) + 1"
    "length (sv_jobs sv) + size waiting < jl_maxJobs limits"
    using assms by (simp_all add: table_inv_def)
  ultimately show ?thesis by (simp add: table_inv_def) (simp add: releaseAdmission_def Let_def)
qed

lemma releaseAdmission_simps [simp]:
  "sv_jobs (releaseAdmission owner sv) = sv_jobs sv"
  "job_table.more (releaseAdmission owner sv) = job_table.more sv"
  "sv_admissions (releaseAdmission owner sv) = sv_admissions sv - 1"
  by (simp_all add: releaseAdmission_def Let_def)

lemma js_set_new: "k \<notin> fst ` set m \<Longrightarrow> js_set k v m = m @ [(k, v)]"
  by (induction m) auto

text \<open>A server that starts jobs: a new job has the identifier and the owner it was asked for, and is busy
  and not completed.\<close>

locale job_server =
  fixes kind :: "'j job_kind" and newJob :: "'r \<Rightarrow> string \<Rightarrow> string \<Rightarrow> time_ms \<Rightarrow> 'j"
  assumes new_id: "jk_id kind (newJob run owner jid now) = jid"
    and new_owner: "jk_owner kind (newJob run owner jid now) = owner"
    and new_open: "jk_completedAt kind (newJob run owner jid now) = None"
    and new_busy: "jk_busy kind (newJob run owner jid now)"
begin

lemma table_inv_start:
  assumes "table_inv kind limits (add_mset owner waiting) sv" "jid \<notin> fst ` set (sv_jobs sv)"
  shows "table_inv kind limits waiting
    (releaseAdmission owner (sv\<lparr>sv_jobs := js_set jid (newJob run owner jid now) (sv_jobs sv)\<rparr>))"
proof -
  let ?j = "newJob run owner jid now"
  note i = table_inv_release [OF assms(1)]
  have byOwner: "sv_admissionsByOwner (releaseAdmission owner (sv\<lparr>sv_jobs := x\<rparr>)) =
      sv_admissionsByOwner (releaseAdmission owner sv)" for x
    by (simp add: releaseAdmission_def Let_def)
  have "jobs_wf kind (sv_jobs sv @ [(jid, ?j)])"
    using assms new_id new_busy by (auto simp: table_inv_def jobs_wf_def)
  moreover have "openOf kind o' (sv_jobs sv @ [(jid, ?j)]) + count waiting o' \<le> jl_maxRunningJobsPerOwner limits" for o'
  proof -
    have "openOf kind o' (sv_jobs sv @ [(jid, ?j)]) = openOf kind o' (sv_jobs sv) + (if o' = owner then 1 else 0)"
      by (simp add: openOf_def new_owner new_open)
    moreover have "openOf kind o' (sv_jobs sv) + count (add_mset owner waiting) o' \<le> jl_maxRunningJobsPerOwner limits"
      using assms(1) by (simp only: table_inv_def)
    ultimately show ?thesis by (simp split: if_splits)
  qed
  moreover have "length (sv_jobs sv) + size waiting < jl_maxJobs limits" using assms(1) by (simp add: table_inv_def)
  ultimately show ?thesis using i by (simp add: table_inv_def js_set_new [OF assms(2)] byOwner)
qed

end

lemma table_inv_initial: "sv_jobs sv = [] \<Longrightarrow> sv_admissions sv = 0 \<Longrightarrow> sv_admissionsByOwner sv = [] \<Longrightarrow>
  table_inv kind limits {#} sv"
  by (simp add: table_inv_def jobs_wf_def openOf_def)

end
