(* ===== verification/Cli_Jobs.thy ===== *)
theory Cli_Jobs
  imports Cli_Requests Job_Table
begin

text \<open>
  The jobs of the governed command line (\<open>servers/governed-cli/src/http.ts\<close>): admission, start, output,
  completion, cancellation, streams of a job's events, and retention. A job is an object that the table
  of jobs, the promise of its run and its streams share; an update of it is seen by all of them. The
  sections between two \<open>await\<close>s of the handler are the operations, and the steps below interleave them.
\<close>

section \<open>Data\<close>

datatype StreamEvent = StdoutEvent string | StderrEvent string | ExitEvent int bool bool

datatype JobStatus = JobRunning | JobCompleted | JobFailed | JobCancelled

text \<open>The listeners of a job are the numbers of its open streams; \<open>jb_aborted\<close> is the signal of its
  \<open>AbortController\<close>.\<close>

record Job =
  jb_id :: string
  jb_owner :: string
  jb_grant :: TaskToolGrant
  jb_commandClass :: string
  jb_status :: JobStatus
  jb_createdAt :: time_ms
  jb_completedAt :: "time_ms option"
  jb_result :: "CliExecutionResult option"
  jb_events :: "StreamEvent list"
  jb_listeners :: "nat list"
  jb_aborted :: bool

text \<open>A stream of a job: what was written to it, whether it still writes, whether its reader has gone.\<close>

record job_stream =
  sm_job :: string
  sm_written :: "StreamEvent list"
  sm_open :: bool
  sm_cancelled :: bool

record cli_server = "Job job_table" +
  sv_streams :: "job_stream list"

section \<open>Admission\<close>

text \<open>The table of this server: what it reads of its jobs, and its limits.\<close>

definition cli_kind :: "Job job_kind" where
  "cli_kind = \<lparr>jk_id = jb_id, jk_owner = jb_owner, jk_busy = (\<lambda>j. jb_status j = JobRunning), jk_completedAt = jb_completedAt\<rparr>"

definition cli_limits :: "CreateCliRunHandlerOptions \<Rightarrow> job_limits" where
  "cli_limits opts =
     \<lparr>jl_maxJobs = ho_maxJobs opts, jl_maxRunningJobsPerOwner = ho_maxRunningJobsPerOwner opts,
      jl_retentionSeconds = ho_retentionSeconds opts\<rparr>"

definition prune :: "CreateCliRunHandlerOptions \<Rightarrow> time_ms \<Rightarrow> cli_server \<Rightarrow> cli_server" where
  "prune opts = pruneJobs cli_kind (cli_limits opts)"

definition runningOf :: "string \<Rightarrow> (string, Job) jsmap \<Rightarrow> nat" where
  "runningOf = busyOf cli_kind"

definition admit ::
  "CreateCliRunHandlerOptions \<Rightarrow> time_ms \<Rightarrow> string \<Rightarrow> cli_server \<Rightarrow> (bool \<times> cli_server) option" where
  "admit opts = admitJob cli_kind (cli_limits opts)"

section \<open>Events\<close>

text \<open>Output of the same kind as the last event is joined to it.\<close>

definition appendEvent :: "StreamEvent list \<Rightarrow> StreamEvent \<Rightarrow> StreamEvent list" where
  "appendEvent events event =
     (case (events, event) of
        ([], _) \<Rightarrow> [event]
      | (_, StdoutEvent d) \<Rightarrow>
          (case last events of StdoutEvent p \<Rightarrow> butlast events @ [StdoutEvent (p @ d)] | _ \<Rightarrow> events @ [event])
      | (_, StderrEvent d) \<Rightarrow>
          (case last events of StderrEvent p \<Rightarrow> butlast events @ [StderrEvent (p @ d)] | _ \<Rightarrow> events @ [event])
      | _ \<Rightarrow> events @ [event])"

fun isExit :: "StreamEvent \<Rightarrow> bool" where
  "isExit (ExitEvent c t x) = True"
| "isExit _ = False"

text \<open>\<open>write\<close> of a stream: enqueuing on a stream whose reader has gone throws.\<close>

definition writeStream :: "StreamEvent \<Rightarrow> job_stream \<Rightarrow> job_stream" where
  "writeStream event s =
     (if \<not> sm_open s then s
      else if sm_cancelled s then s\<lparr>sm_open := False\<rparr>
      else s\<lparr>sm_written := sm_written s @ [event], sm_open := \<not> isExit event\<rparr>)"

definition notify :: "nat list \<Rightarrow> StreamEvent \<Rightarrow> job_stream list \<Rightarrow> job_stream list" where
  "notify listeners event ss =
     map (\<lambda>i. if i \<in> set listeners then writeStream event (ss ! i) else ss ! i) [0..<length ss]"

definition emitEvent :: "string \<Rightarrow> StreamEvent \<Rightarrow> cli_server \<Rightarrow> cli_server" where
  "emitEvent jid event sv =
     (case js_get (sv_jobs sv) jid of
        None \<Rightarrow> sv
      | Some job \<Rightarrow>
          (let gone = (\<lambda>l. sm_open (sv_streams sv ! l) \<and> sm_cancelled (sv_streams sv ! l)) in
           updateJob jid (\<lambda>j. j\<lparr>jb_events := appendEvent (jb_events j) event,
                               jb_listeners := filter (\<lambda>l. \<not> gone l) (jb_listeners j)\<rparr>)
             (sv\<lparr>sv_streams := notify (jb_listeners job) event (sv_streams sv)\<rparr>)))"

definition finish ::
  "time_ms \<Rightarrow> string \<Rightarrow> JobStatus \<Rightarrow> CliExecutionResult \<Rightarrow> StreamEvent \<Rightarrow> cli_server \<Rightarrow> cli_server" where
  "finish now jid status result event sv =
     (case js_get (sv_jobs sv) jid of
        None \<Rightarrow> sv
      | Some job \<Rightarrow>
          (if jb_status job \<noteq> JobRunning then sv
           else
             (let sv = updateJob jid (\<lambda>j. j\<lparr>jb_status := status, jb_result := Some result,
                                            jb_completedAt := Some now\<rparr>) sv;
                  sv = emitEvent jid event sv in
              updateJob jid (\<lambda>j. j\<lparr>jb_listeners := []\<rparr>) sv)))"

section \<open>The life of a job\<close>

definition newJob :: "PreparedRun \<Rightarrow> string \<Rightarrow> string \<Rightarrow> time_ms \<Rightarrow> Job" where
  "newJob prepared owner jid now =
     \<lparr>jb_id = jid, jb_owner = owner, jb_grant = pr_grant prepared, jb_commandClass = pr_commandClass prepared,
      jb_status = JobRunning, jb_createdAt = now, jb_completedAt = None, jb_result = None, jb_events = [],
      jb_listeners = [], jb_aborted = False\<rparr>"

definition startJob :: "PreparedRun \<Rightarrow> string \<Rightarrow> string \<Rightarrow> time_ms \<Rightarrow> cli_server \<Rightarrow> cli_server" where
  "startJob prepared owner jid now sv = sv\<lparr>sv_jobs := js_set jid (newJob prepared owner jid now) (sv_jobs sv)\<rparr>"

text \<open>The two outcomes of the promise of a run.\<close>

definition runResolved :: "time_ms \<Rightarrow> string \<Rightarrow> CliExecutionResult \<Rightarrow> cli_server \<Rightarrow> cli_server" where
  "runResolved now jid result sv =
     finish now jid JobCompleted result
       (ExitEvent (cx_exit_code result) (cx_stdout_truncated result \<or> cx_stderr_truncated result) False) sv"

definition runRejected :: "time_ms \<Rightarrow> string \<Rightarrow> cli_server \<Rightarrow> cli_server" where
  "runRejected now jid sv =
     (case js_get (sv_jobs sv) jid of
        None \<Rightarrow> sv
      | Some job \<Rightarrow>
          (let cancelled = jb_aborted job;
               message = (if cancelled then ''CLI execution cancelled'' else ''CLI execution failed'') @ [newline];
               code = (if cancelled then 130 else 1) in
           finish now jid (if cancelled then JobCancelled else JobFailed)
             \<lparr>cx_exit_code = code, cx_stdout = [], cx_stderr = message, cx_stdout_truncated = False,
              cx_stderr_truncated = False, cx_class = jb_commandClass job\<rparr>
             (ExitEvent code False cancelled)
             (emitEvent jid (StderrEvent message) sv)))"

definition jobFor ::
  "CreateCliRunHandlerOptions \<Rightarrow> time_ms \<Rightarrow> string \<Rightarrow> Hop1Identity \<Rightarrow> TaskToolAuthorization \<Rightarrow> cli_server \<Rightarrow>
   Job option \<times> cli_server" where
  "jobFor opts now jid identity authorization sv =
     (let sv = prune opts now sv in
      case js_get (sv_jobs sv) jid of
        None \<Rightarrow> (None, sv)
      | Some job \<Rightarrow>
          (if taskOwner identity = Some (jb_owner job) \<and> ta_allows authorization (jb_grant job)
           then (Some job, sv) else (None, sv)))"

definition abortJob :: "Job \<Rightarrow> cli_server \<Rightarrow> cli_server" where
  "abortJob job sv =
     (if jb_status job = JobRunning then updateJob (jb_id job) (\<lambda>j. j\<lparr>jb_aborted := True\<rparr>) sv else sv)"

text \<open>\<open>jobStream\<close>: the events so far are written at once; a running job gets a listener.\<close>

definition jobStream :: "Job \<Rightarrow> cli_server \<Rightarrow> cli_server" where
  "jobStream job sv =
     (let s = foldl (\<lambda>s e. writeStream e s)
                \<lparr>sm_job = jb_id job, sm_written = [], sm_open = True, sm_cancelled = False\<rparr> (jb_events job);
          l = length (sv_streams sv);
          sv = sv\<lparr>sv_streams := sv_streams sv @ [s]\<rparr> in
      if jb_status job = JobRunning
      then updateJob (jb_id job) (\<lambda>j. j\<lparr>jb_listeners := jb_listeners j @ [l]\<rparr>) sv else sv)"

text \<open>\<open>cancel()\<close> of a stream by its reader.\<close>

definition cancelStream :: "nat \<Rightarrow> cli_server \<Rightarrow> cli_server" where
  "cancelStream l sv =
     (let s = sv_streams sv ! l in
      updateJob (sm_job s) (\<lambda>j. j\<lparr>jb_listeners := filter (\<lambda>m. m \<noteq> l) (jb_listeners j)\<rparr>)
        (sv\<lparr>sv_streams := (sv_streams sv)[l := s\<lparr>sm_cancelled := True\<rparr>]\<rparr>))"

section \<open>The handler\<close>

record job_view =
  jv_job_id :: string
  jv_status :: JobStatus
  jv_created_at :: time_ms
  jv_completed :: "(time_ms \<times> CliExecutionResult option) option"

definition jobView :: "Job \<Rightarrow> job_view" where
  "jobView job =
     \<lparr>jv_job_id = jb_id job, jv_status = jb_status job, jv_created_at = jb_createdAt job,
      jv_completed = map_option (\<lambda>t. (t, jb_result job)) (jb_completedAt job)\<rparr>"

datatype cli_response =
  ErrorReply error_response | JobAccepted string JobStatus | JobReport job_view | EventStream

datatype cli_route = RunRoute bool | JobsRoute | JobRoute string "string option" | Refused error_response

text \<open>The route of a request: \<open>RunRoute True\<close> waits for the whole result.\<close>

definition routeOf :: "http_request \<Rightarrow> cli_route" where
  "routeOf rq =
     (let notAllowed = (\<lambda>m. jsonError 405 ''method_not_allowed'' (m @ '' is required'') []);
          missing = jsonError 404 ''not_found'' ''Not found'' [];
          job = (\<lambda>jid action.
            let expected = (if action = Some ''cancel'' then ''POST'' else ''GET'') in
            if jid = [] then Refused missing
            else if rq_method rq \<noteq> expected then Refused (notAllowed expected) else JobRoute jid action) in
      if rq_path rq = ''/cli/run''
      then (if rq_method rq \<noteq> ''POST'' then Refused (notAllowed ''POST'')
            else case rq_wait rq of
                None \<Rightarrow> RunRoute False
              | Some w \<Rightarrow> (if w = ''full'' then RunRoute True else Refused (invalidRequest ''Only wait=full is supported'')))
      else if rq_path rq = ''/cli/jobs''
      then (if rq_method rq \<noteq> ''POST'' then Refused (notAllowed ''POST'') else JobsRoute)
      else case split_on CHR ''/'' (rq_path rq) of
          [a, b, c, jid] \<Rightarrow> (if [a, b, c] = [[], ''cli'', ''jobs''] then job jid None else Refused missing)
        | [a, b, c, jid, action] \<Rightarrow>
            (if [a, b, c] = [[], ''cli'', ''jobs''] \<and> action \<in> {''stream'', ''cancel''} then job jid (Some action)
             else Refused missing)
        | _ \<Rightarrow> Refused missing)"

text \<open>A new job up to the request for its credential: the run that was admitted, with its owner.\<close>

definition beginJob ::
  "CreateCliRunHandlerOptions \<Rightarrow> time_ms \<Rightarrow> http_request \<Rightarrow> cli_server \<Rightarrow>
   ((error_response + PreparedRun \<times> string) \<times> cli_server) option" where
  "beginJob opts now rq sv =
     (case prepare opts rq of
        Inl response \<Rightarrow> Some (Inl response, sv)
      | Inr run \<Rightarrow>
          (case taskOwner (pr_identity run) of
             None \<Rightarrow> Some (Inl taskDenied, sv)
           | Some owner \<Rightarrow>
               (case admit opts now owner sv of
                  None \<Rightarrow> None
                | Some (False, sv) \<Rightarrow>
                    Some (Inl (jsonError 503 ''job_capacity_exceeded'' ''CLI job capacity is exhausted'' []), sv)
                | Some (True, sv) \<Rightarrow> Some (Inr (run, owner), sv))))"

text \<open>The rest of it, once the credential is there or not; the admission is released either way.\<close>

definition completeJob ::
  "PreparedRun \<Rightarrow> string \<Rightarrow> string \<Rightarrow> time_ms \<Rightarrow> cli_server \<Rightarrow> cli_response \<times> cli_server" where
  "completeJob run owner jid now sv =
     (case credentials run of
        Inl response \<Rightarrow> (ErrorReply response, releaseAdmission owner sv)
      | Inr env \<Rightarrow> (JobAccepted jid JobRunning, releaseAdmission owner (startJob run owner jid now sv)))"

definition jobRequest ::
  "CreateCliRunHandlerOptions \<Rightarrow> time_ms \<Rightarrow> string \<Rightarrow> string option \<Rightarrow> http_request \<Rightarrow> cli_server \<Rightarrow>
   cli_response \<times> cli_server" where
  "jobRequest opts now jid action rq sv =
     (case authenticateTaskRequest (ho_authenticate opts) rq of
        Inl (_, response) \<Rightarrow> (ErrorReply response, sv)
      | Inr (identity, authorization) \<Rightarrow>
          (case jobFor opts now jid identity authorization sv of
             (None, sv) \<Rightarrow> (ErrorReply (jsonError 404 ''not_found'' ''Not found'' []), sv)
           | (Some job, sv) \<Rightarrow>
               (if action = Some ''stream'' then (EventStream, jobStream job sv)
                else if action = Some ''cancel'' then (JobAccepted (jb_id job) (jb_status job), abortJob job sv)
                else (JobReport (jobView job), sv))))"

section \<open>Steps of the server\<close>

text \<open>The runs that have been admitted and wait for their credential, and the server. The identifiers of
  jobs are random UUIDs: a new one belongs to no job and to no stream.\<close>

type_synonym cli_state = "(PreparedRun \<times> string) list \<times> cli_server"

inductive cli_job_step :: "CreateCliRunHandlerOptions \<Rightarrow> cli_state \<Rightarrow> cli_state \<Rightarrow> bool" for opts where
  admitted: "beginJob opts now rq sv = Some (Inr (run, owner), sv') \<Longrightarrow>
    cli_job_step opts (waiting, sv) (waiting @ [(run, owner)], sv')"
| turned_away: "beginJob opts now rq sv = Some (Inl response, sv') \<Longrightarrow>
    cli_job_step opts (waiting, sv) (waiting, sv')"
| completed: "(run, owner) \<in> set waiting \<Longrightarrow> jid \<notin> fst ` set (sv_jobs sv) \<Longrightarrow> jid \<notin> sm_job ` set (sv_streams sv) \<Longrightarrow>
    completeJob run owner jid now sv = (response, sv') \<Longrightarrow>
    cli_job_step opts (waiting, sv) (remove1 (run, owner) waiting, sv')"
| wrote: "js_get (sv_jobs sv) jid = Some job \<Longrightarrow> jb_status job = JobRunning \<Longrightarrow> \<not> isExit event \<Longrightarrow>
    cli_job_step opts (waiting, sv) (waiting, emitEvent jid event sv)"
| resolved: "js_get (sv_jobs sv) jid = Some job \<Longrightarrow> jb_status job = JobRunning \<Longrightarrow>
    cli_job_step opts (waiting, sv) (waiting, runResolved now jid result sv)"
| rejected: "js_get (sv_jobs sv) jid = Some job \<Longrightarrow> jb_status job = JobRunning \<Longrightarrow>
    cli_job_step opts (waiting, sv) (waiting, runRejected now jid sv)"
| requested: "jobRequest opts now jid action rq sv = (response, sv') \<Longrightarrow>
    cli_job_step opts (waiting, sv) (waiting, sv')"
| reader_gone: "l < length (sv_streams sv) \<Longrightarrow>
    cli_job_step opts (waiting, sv) (waiting, cancelStream l sv)"

inductive_cases cli_job_stepE: "cli_job_step opts s s'"

definition initial_cli :: cli_state where
  "initial_cli = ([], \<lparr>sv_jobs = [], sv_admissions = 0, sv_admissionsByOwner = [], sv_streams = []\<rparr>)"

definition cli_reachable :: "CreateCliRunHandlerOptions \<Rightarrow> cli_state \<Rightarrow> bool" where
  "cli_reachable opts s \<longleftrightarrow> (cli_job_step opts)\<^sup>*\<^sup>* initial_cli s"

end
