(* ===== verification/Cli_Props.thy ===== *)
theory Cli_Props
  imports Cli_Requests
begin

text \<open>
  What a governed command line lets through. The words that the classifier accepts are either flags the
  pack approves, values of such flags, the operation, or positional arguments; the classes of a parsed
  pack are those that read; and a prepared run belongs to an authenticated task that was granted its
  class.
\<close>

section \<open>Words of an accepted command line\<close>

definition loopFlags :: "CliPack \<Rightarrow> (string \<times> CliPackOperation js_prop) option \<Rightarrow> CliPackFlags" where
  "loopFlags pack oper = (case oper of Some (n, Own config) \<Rightarrow> po_flags config | _ \<Rightarrow> globalFlags pack)"

definition flagsOf :: "CliPackFlags \<Rightarrow> string set" where
  "flagsOf fl = set (fl_value fl) \<union> set (fl_boolean fl) \<union> set (fl_output fl)"

definition approvedFlags :: "CliPack \<Rightarrow> (string \<times> CliPackOperation js_prop) option \<Rightarrow> string set" where
  "approvedFlags pack oper = flagsOf (globalFlags pack) \<union> flagsOf (loopFlags pack oper)"

text \<open>A word that follows a flag and is its value.\<close>

definition flagArgument :: "string set \<Rightarrow> string list \<Rightarrow> string \<Rightarrow> bool" where
  "flagArgument flags args a \<longleftrightarrow> (\<exists>xs f ys. args = xs @ f # a # ys \<and> f \<in> flags)"

lemma flagArgument_Cons: "flagArgument F args a \<Longrightarrow> flagArgument F (b # args) a"
  unfolding flagArgument_def by (metis append_Cons)

lemma flagArgument_drop: "flagArgument F (tl args) a \<Longrightarrow> flagArgument F (b # args) a"
  by (cases args) (auto intro: flagArgument_Cons)

lemma flagName_no_eq: "inlineValue a = None \<Longrightarrow> flagName a = a"
  by (auto simp: inlineValue_def flagName_def takeWhile_eq_all_conv split: if_splits)

lemma consumeFlag_Inr:
  assumes "consumeFlag pack fl a rest = Inr b"
  shows "flagName a \<in> flagsOf fl"
    "b \<Longrightarrow> \<exists>v vs. rest = v # vs \<and> \<not> prefix ''-'' v \<and> a \<in> flagsOf fl"
  using assms flagName_no_eq [of a]
  by (auto simp: consumeFlag_def flagsOf_def orelse_def Let_def split: if_splits option.splits list.splits)

text \<open>What the words of an accepted rest of the line are, where \<open>oper\<close> is the operation found so far.\<close>

definition word_ok ::
  "CliPack \<Rightarrow> (string \<times> CliPackOperation js_prop) option \<Rightarrow> (string \<times> CliPackOperation js_prop) option \<Rightarrow>
   string list \<Rightarrow> string list \<Rightarrow> string \<Rightarrow> bool" where
  "word_ok pack oper oper' positionals args a \<longleftrightarrow>
     (if prefix ''-'' a then a \<noteq> ''--'' \<and> flagName a \<notin> set FORBIDDEN_FLAGS \<and> flagName a \<in> approvedFlags pack oper'
      else a \<in> set positionals \<or> flagArgument (approvedFlags pack oper') args a \<or>
           (oper = None \<and> map_option fst oper' = Some a))"

definition words_ok ::
  "CliPack \<Rightarrow> (string \<times> CliPackOperation js_prop) option \<Rightarrow> (string \<times> CliPackOperation js_prop) option \<Rightarrow>
   string list \<Rightarrow> string list \<Rightarrow> bool" where
  "words_ok pack oper oper' positionals args \<longleftrightarrow> (\<forall>a \<in> set args. word_ok pack oper oper' positionals args a)"

lemma word_ok_Cons:
  "word_ok pack oper oper' ps args a \<Longrightarrow> oper = oper2 \<or> oper2 = None \<Longrightarrow> word_ok pack oper2 oper' ps (b # args) a"
  unfolding word_ok_def by (metis flagArgument_Cons)

lemma words_ok_Cons:
  "word_ok pack oper2 oper' ps (a # args) a \<Longrightarrow> words_ok pack oper oper' ps args \<Longrightarrow> oper = oper2 \<or> oper2 = None \<Longrightarrow>
   words_ok pack oper2 oper' ps (a # args)"
  by (auto simp: words_ok_def intro: word_ok_Cons)

lemma words_ok_flag:
  assumes "words_ok pack oper oper' ps rest" "prefix ''-'' a" "a \<noteq> ''--''"
    "flagName a \<notin> set FORBIDDEN_FLAGS" "flagName a \<in> approvedFlags pack oper'"
  shows "words_ok pack oper oper' ps (a # rest)"
  by (rule words_ok_Cons [OF _ assms(1)]) (simp_all add: word_ok_def assms(2-))

lemma words_ok_value:
  assumes "words_ok pack oper oper' ps vs" "prefix ''-'' a" "a \<noteq> ''--''"
    "flagName a \<notin> set FORBIDDEN_FLAGS" "flagName a \<in> approvedFlags pack oper'"
    "a \<in> approvedFlags pack oper'" "\<not> prefix ''-'' v"
  shows "words_ok pack oper oper' ps (a # v # vs)"
proof -
  have "flagArgument (approvedFlags pack oper') (a # v # vs) v"
    unfolding flagArgument_def using assms(6) by (metis append_Nil)
  then have "word_ok pack oper oper' ps (a # v # vs) v" using assms(7) by (simp add: word_ok_def)
  moreover have "word_ok pack oper oper' ps (a # v # vs) a" using assms(2-5) by (simp add: word_ok_def)
  ultimately show ?thesis using assms(1) by (auto simp: words_ok_def intro!: word_ok_Cons)
qed

lemma kubectlLoop_words:
  assumes "kubectlLoop pack oper ps args = Inr (oper', ps')"
  shows "set ps \<subseteq> set ps' \<and> (oper \<noteq> None \<longrightarrow> oper' = oper) \<and>
    (oper = None \<and> oper' \<noteq> None \<longrightarrow>
      (\<exists>n p. oper' = Some (n, p) \<and> n \<in> set args \<and> p = js_lookup (pk_operations pack) n \<and> p \<noteq> Absent)) \<and>
    words_ok pack oper oper' ps' args"
  using assms
proof (induction pack oper ps args rule: kubectlLoop.induct)
  case (1 pack oper ps)
  then show ?case by (auto simp: words_ok_def)
next
  case (2 pack oper ps a rest)
  show ?case
  proof (cases "prefix ''-'' a")
    case True
    let ?fl = "loopFlags pack oper"
    have fl: "(case oper of Some (n, Own config) \<Rightarrow> po_flags config | _ \<Rightarrow> globalFlags pack) = ?fl"
      by (simp add: loopFlags_def)
    from "2.prems" True obtain b where ok: "a \<noteq> ''--''" "flagName a \<notin> set FORBIDDEN_FLAGS"
      and b: "consumeFlag pack ?fl a rest = Inr b"
      and r: "kubectlLoop pack oper ps (if b then tl rest else rest) = Inr (oper', ps')"
      by (auto simp: fl Let_def simp del: kubectlLoop.simps(1) split: if_splits sum.splits bool.splits)
    have ih: "set ps \<subseteq> set ps' \<and> (oper \<noteq> None \<longrightarrow> oper' = oper) \<and>
        (oper = None \<and> oper' \<noteq> None \<longrightarrow>
          (\<exists>n p. oper' = Some (n, p) \<and> n \<in> set (if b then tl rest else rest) \<and>
            p = js_lookup (pk_operations pack) n \<and> p \<noteq> Absent)) \<and>
        words_ok pack oper oper' ps' (if b then tl rest else rest)"
      using 2 True ok b r by (cases b) (simp_all add: fl)
    have sub: "flagsOf ?fl \<subseteq> approvedFlags pack oper'"
      using ih by (cases oper) (auto simp: approvedFlags_def loopFlags_def)
    show ?thesis
    proof (cases b)
      case False
      with ih True ok consumeFlag_Inr(1) [OF b] sub show ?thesis by (auto intro!: words_ok_flag)
    next
      case bT: True
      with consumeFlag_Inr(2) [OF b] obtain v vs where "rest = v # vs" "\<not> prefix ''-'' v" "a \<in> flagsOf ?fl" by auto
      with bT ih True ok consumeFlag_Inr(1) [OF b] sub show ?thesis by (auto intro!: words_ok_value)
    qed
  next
    case False
    then have nd: "a \<noteq> ''--''" by auto
    show ?thesis
    proof (cases oper)
      case None
      with "2.prems" False nd have p: "js_lookup (pk_operations pack) a \<noteq> Absent"
        "kubectlLoop pack (Some (a, js_lookup (pk_operations pack) a)) ps rest = Inr (oper', ps')"
        by (auto split: js_prop.splits)
      with "2.IH"(3,4) None False nd have "set ps \<subseteq> set ps' \<and> oper' = Some (a, js_lookup (pk_operations pack) a) \<and>
          words_ok pack (Some (a, js_lookup (pk_operations pack) a)) oper' ps' rest"
        by (cases "js_lookup (pk_operations pack) a") auto
      with None False p show ?thesis by (auto simp: word_ok_def intro!: words_ok_Cons)
    next
      case (Some c)
      with "2.prems" False nd have "kubectlLoop pack oper (ps @ [a]) rest = Inr (oper', ps')" by auto
      with 2 Some False nd have "set (ps @ [a]) \<subseteq> set ps' \<and> oper' = oper \<and> words_ok pack oper oper' ps' rest"
        by auto
      with Some False show ?thesis by (auto simp: word_ok_def intro!: words_ok_Cons)
    qed
  qed
qed

section \<open>Parsed packs\<close>

lemma namePattern_no_colon: "namePattern s \<Longrightarrow> CHR '':'' \<notin> set s"
  by (auto simp: namePattern_def list_all_iff char_class_defs)

definition operations_ok :: "(string, CliPackOperation) jsmap \<Rightarrow> bool" where
  "operations_ok ops \<longleftrightarrow> (\<forall>(n, c) \<in> set ops. CHR '':'' \<notin> set n \<and> set (po_rbacVerbs c) \<subseteq> {''get'', ''list''})"

lemma classForRbacVerbs_Inr:
  "classForRbacVerbs vs = Inr c \<longleftrightarrow> vs \<noteq> [] \<and> set vs \<subseteq> {''get'', ''list''} \<and> c = ''read''"
  by (auto simp: classForRbacVerbs_def list_ex_iff)

lemma parseOperation_ok:
  assumes "parseOperation op raw = Inr c"
  shows "CHR '':'' \<notin> set op \<and> set (po_rbacVerbs c) \<subseteq> {''get'', ''list''}"
  using assms namePattern_no_colon [of op]
  by (auto simp: parseOperation_def checked_text_def pack_text_def nonblank_def classForRbacVerbs_Inr Let_def
      split: if_splits)

lemma mem_js_setD: "(k', v') \<in> set (js_set k v m) \<Longrightarrow> (k', v') = (k, v) \<or> (k', v') \<in> set m"
  by (induction m) (auto split: if_splits)

lemma operations_ok_set:
  assumes "operations_ok ops" "CHR '':'' \<notin> set n" "set (po_rbacVerbs c) \<subseteq> {''get'', ''list''}"
  shows "operations_ok (js_set n c ops)"
  using assms by (auto simp: operations_ok_def dest!: mem_js_setD)

lemma parseOperations_from_ok:
  "operations_ok ops \<Longrightarrow> parseOperations_from ops fs = Inr ops' \<Longrightarrow> operations_ok ops'"
proof (induction ops fs rule: parseOperations_from.induct)
  case (2 ops op raw fs)
  then show ?case using parseOperation_ok [of op raw] by (auto intro: operations_ok_set)
qed simp

text \<open>What the catalog of a pack says: the commands are the operations, read, and the operations of the
  overlay with the suffix \<open>:secret\<close>, secret-read.\<close>

definition commands_ok :: "string list \<Rightarrow> string set \<Rightarrow> (string, string) jsmap \<Rightarrow> bool" where
  "commands_ok overlay names cmds \<longleftrightarrow>
     (\<forall>n. CHR '':'' \<notin> set n \<longrightarrow>
        js_get cmds n = (if n \<in> names then Some ''read'' else None) \<and>
        js_get cmds (n @ '':secret'') = (if n \<in> names \<and> n \<in> set overlay then Some ''secret-read'' else None))"

lemma packCommands_ok:
  assumes "commands_ok overlay names cmds" "packCommands overlay cmds ops = Inr cmds'"
    "\<forall>(n, c) \<in> set ops. CHR '':'' \<notin> set n"
  shows "commands_ok overlay (names \<union> fst ` set ops) cmds'"
  using assms
proof (induction overlay cmds ops arbitrary: names rule: packCommands.induct)
  case (2 overlay cmds op config ops)
  let ?c = "js_set op ''read'' cmds"
  let ?d = "if op \<in> set overlay then js_set (op @ '':secret'') ''secret-read'' ?c else ?c"
  from 2(3) have "packCommands overlay ?d ops = Inr cmds'" by (auto simp: classForRbacVerbs_Inr Let_def)
  moreover have "commands_ok overlay (insert op names) ?d"
    using 2(2,4) by (auto simp: commands_ok_def js_map_simps)
  ultimately have "commands_ok overlay (insert op names \<union> fst ` set ops) cmds'"
    using 2(1) [OF refl refl, of "insert op names" "''read''"] 2(4) by simp
  then show ?case by simp
qed simp

lemma parseCliPack_ok:
  assumes "parseCliPack parseYaml source = Inr pack"
  shows "operations_ok (pk_operations pack) \<and>
    commands_ok (pk_overlayOperations pack) (fst ` set (pk_operations pack)) (pk_commands pack)"
proof -
  from assms obtain ops ov where "operations_ok (pk_operations pack)"
    "packCommands (pk_overlayOperations pack) [] (pk_operations pack) = Inr (pk_commands pack)"
    unfolding parseCliPack_def parseOperations_def
    by (auto split: if_splits dest!: parseOperations_from_ok [rotated] simp: operations_ok_def)
  moreover have "commands_ok (pk_overlayOperations pack) {} []" by (simp add: commands_ok_def)
  ultimately show ?thesis
    using packCommands_ok [of "pk_overlayOperations pack" "{}" "[]" "pk_operations pack" "pk_commands pack"]
    by (fastforce simp: operations_ok_def)
qed

section \<open>Classified commands\<close>

lemma classifyKubectl_Inr:
  assumes "classifyKubectl pack args = Inr c"
  obtains op p ps where "kubectlLoop pack None [] args = Inr (Some (op, p), ps)"
    "cc_command c = (if op \<in> set (pk_overlayOperations pack) \<and> namesSecret pack ps then op @ '':secret'' else op)"
    "cc_class c = js_get (pk_commands pack) (cc_command c)"
  using assms
  by (auto simp: classifyKubectl_def js_lookup_def Let_def split: sum.splits option.splits prod.splits if_splits js_prop.splits)

definition namesSecretWord :: "CliPack \<Rightarrow> string \<Rightarrow> bool" where
  "namesSecretWord pack a = list_ex (\<lambda>n. n \<in> set (pk_overlayResources pack)) (resourceNames a)"

lemma flagsOf_globalFlags: "flagsOf (globalFlags pack) \<subseteq> {''--namespace'', ''-n'', ''--all-namespaces'', ''-A''}"
  by (auto simp: flagsOf_def globalFlags_def Let_def)

text \<open>An inherited name has no entry in the catalog of a parsed pack.\<close>

lemma inherited_no_colon: "n \<in> set OBJECT_PROTOTYPE_KEYS \<Longrightarrow> CHR '':'' \<notin> set n"
  by (auto simp: OBJECT_PROTOTYPE_KEYS_def)

lemma classified_command:
  assumes "parseCliPack parseYaml source = Inr pack" "classifyKubectl pack args = Inr c" "cc_class c = Some k"
  obtains op config ps where "kubectlLoop pack None [] args = Inr (Some (op, Own config), ps)"
    "js_get (pk_operations pack) op = Some config" "op \<in> set args" "set (po_rbacVerbs config) \<subseteq> {''get'', ''list''}"
    "k = (if op \<in> set (pk_overlayOperations pack) \<and> namesSecret pack ps then ''secret-read'' else ''read'')"
proof -
  from classifyKubectl_Inr [OF assms(2)] obtain op p ps where l: "kubectlLoop pack None [] args = Inr (Some (op, p), ps)"
    and c: "cc_command c = (if op \<in> set (pk_overlayOperations pack) \<and> namesSecret pack ps then op @ '':secret'' else op)"
    and k: "js_get (pk_commands pack) (cc_command c) = Some k"
    using assms(3) by metis
  from kubectlLoop_words [OF l] have p: "op \<in> set args" "p = js_lookup (pk_operations pack) op" "p \<noteq> Absent" by auto
  note ok = parseCliPack_ok [OF assms(1)]
  have nc: "CHR '':'' \<notin> set op"
  proof (cases p)
    case (Own config)
    with p(2) have "(op, config) \<in> set (pk_operations pack)" by (metis js_lookup_Own map_of_SomeD)
    with ok show ?thesis by (auto simp: operations_ok_def)
  qed (use p inherited_no_colon in \<open>auto simp: js_lookup_def split: option.splits if_splits\<close>)
  with ok c k have m: "op \<in> fst ` set (pk_operations pack)"
    and v: "k = (if op \<in> set (pk_overlayOperations pack) \<and> namesSecret pack ps then ''secret-read'' else ''read'')"
    by (auto simp: commands_ok_def split: if_splits)
  from m obtain config where o: "js_get (pk_operations pack) op = Some config"
    by (metis domD dom_map_of_conv_image_fst)
  with p(2) have "p = Own config" by (simp add: js_lookup_def)
  moreover from o have "set (po_rbacVerbs config) \<subseteq> {''get'', ''list''}"
    using ok map_of_SomeD by (fastforce simp: operations_ok_def)
  ultimately show ?thesis using that l o p(1) v by blast
qed

lemma checkedBody_Inr:
  assumes "checkedBody opts body = Inr (cli, args)"
  shows "length args \<le> ho_maxArgs opts \<and> (\<forall>a \<in> set args. length a \<le> ho_maxArgBytes opts)"
  using assms by (auto simp: checkedBody_def list_ex_iff not_less
      split: option.splits prod.splits if_splits json.splits)

lemma prepare_Inr:
  assumes "prepare opts rq = Inr run" "ho_targets opts = [target]"
  obtains token command where "bearerToken rq = Some token" "ho_authenticate opts token = Inr (pr_identity run)"
    "ta_restricted (parseTaskToolAuthorization (hi_claims (pr_identity run)) False)"
    "ta_allows (parseTaskToolAuthorization (hi_claims (pr_identity run)) False) (pr_grant run)"
    "pr_grant run = \<lparr>tg_provider = ''cli'', tg_resource = ct_cli target, tg_action = pr_commandClass run\<rparr>"
    "pr_target run = target" "ct_classify target (pr_args run) = Inr command"
    "cc_class command = Some (pr_commandClass run)"
    "length (pr_args run) \<le> ho_maxArgs opts" "\<forall>a \<in> set (pr_args run). length a \<le> ho_maxArgBytes opts"
proof -
  have t: "js_get (targetsOf opts) cli = Some t \<longleftrightarrow> t = target \<and> cli = ct_cli target" for cli t
    using assms(2) by (auto simp: targetsOf_def)
  from assms(1) obtain identity authorization where
    a: "authenticateTaskRequest (ho_authenticate opts) rq = Inr (identity, authorization)"
    by (auto simp: prepare_def split: sum.splits)
  with assms(1) obtain body cli args where "checkedBody opts body = Inr (cli, args)"
    and r: "(case (ta_restricted authorization, js_get (targetsOf opts) cli) of
              (True, Some target) \<Rightarrow>
                (case ct_classify target args of
                   Inl message \<Rightarrow> Inl (commandRefused message)
                 | Inr classified \<Rightarrow>
                     (if catalogClass target (cc_command classified) \<noteq> cc_class classified
                      then Inl (commandRefused ''Classified command is absent from the decisions catalog'')
                      else case cc_class classified of
                          None \<Rightarrow> Inl taskDenied
                        | Some c \<Rightarrow>
                            (let grant = \<lparr>tg_provider = ''cli'', tg_resource = cli, tg_action = c\<rparr> in
                             if \<not> ta_allows authorization grant then Inl taskDenied
                             else Inr \<lparr>pr_identity = identity, pr_target = target, pr_args = args,
                                       pr_commandClass = c, pr_grant = grant\<rparr>)))
            | _ \<Rightarrow> Inl taskDenied) = Inr run"
    by (auto simp: prepare_def)
  note lim = checkedBody_Inr [OF this(1)]
  from a obtain token where b: "bearerToken rq = Some token" "ho_authenticate opts token = Inr identity"
    "authorization = parseTaskToolAuthorization (hi_claims identity) False"
    by (auto simp: authenticateTaskRequest_Inr)
  from r obtain command where "ta_restricted authorization" "cli = ct_cli target"
    "ct_classify target args = Inr command" "cc_class command = Some (pr_commandClass run)"
    "ta_allows authorization (pr_grant run)" "pr_identity run = identity" "pr_target run = target" "pr_args run = args"
    "pr_grant run = \<lparr>tg_provider = ''cli'', tg_resource = cli, tg_action = pr_commandClass run\<rparr>"
    by (auto simp: Let_def t split: bool.splits option.splits sum.splits if_splits)
  with b lim that show ?thesis by auto
qed

text \<open>C21: a run that is prepared for execution is that of an authenticated task whose claims grant the
  command line the class of the command. The pack is one that parsed, so the command is an operation it
  lists, whose verbs only read; every word that looks like a flag is approved for the operation or is
  one of the four that may precede it, and none is forbidden; a positional word that names a secret
  resource makes the class \<open>secret-read\<close>, for the operations of the overlay; and the arguments are within
  their limits.\<close>

theorem cli_run_authorized:
  assumes "parseCliPack parseYaml source = Inr pack" "createKubectlTarget pack env = Inr target"
    "ho_targets opts = [target]" "prepare opts rq = Inr run"
  shows "\<exists>token op config.
    bearerToken rq = Some token \<and> ho_authenticate opts token = Inr (pr_identity run) \<and>
    js_get (hi_claims (pr_identity run)) ''steward'' \<noteq> None \<and>
    ta_allows (parseTaskToolAuthorization (hi_claims (pr_identity run)) False) (pr_grant run) \<and>
    pr_grant run = \<lparr>tg_provider = ''cli'', tg_resource = pk_cli pack, tg_action = pr_commandClass run\<rparr> \<and>
    pr_commandClass run \<in> {''read'', ''secret-read''} \<and>
    length (pr_args run) \<le> ho_maxArgs opts \<and> (\<forall>a \<in> set (pr_args run). length a \<le> ho_maxArgBytes opts) \<and>
    op \<in> set (pr_args run) \<and> js_get (pk_operations pack) op = Some config \<and>
    set (po_rbacVerbs config) \<subseteq> {''get'', ''list''} \<and>
    (\<forall>a \<in> set (pr_args run). prefix ''-'' a \<longrightarrow>
      a \<noteq> ''--'' \<and> flagName a \<notin> set FORBIDDEN_FLAGS \<and>
      flagName a \<in> flagsOf (po_flags config) \<union> {''--namespace'', ''-n'', ''--all-namespaces'', ''-A''}) \<and>
    (\<forall>a \<in> set (pr_args run). \<not> prefix ''-'' a \<and> a \<noteq> op \<and> namesSecretWord pack a \<and> op \<in> set (pk_overlayOperations pack) \<and>
      \<not> flagArgument (flagsOf (po_flags config) \<union> {''--namespace'', ''-n'', ''--all-namespaces'', ''-A''}) (pr_args run) a \<longrightarrow>
      pr_commandClass run = ''secret-read'')"
proof -
  let ?g = "{''--namespace'', ''-n'', ''--all-namespaces'', ''-A''}"
  from prepare_Inr [OF assms(4,3)] obtain token command where pre: "bearerToken rq = Some token"
    "ho_authenticate opts token = Inr (pr_identity run)"
    "ta_restricted (parseTaskToolAuthorization (hi_claims (pr_identity run)) False)"
    "ta_allows (parseTaskToolAuthorization (hi_claims (pr_identity run)) False) (pr_grant run)"
    "pr_grant run = \<lparr>tg_provider = ''cli'', tg_resource = ct_cli target, tg_action = pr_commandClass run\<rparr>"
    and cl: "ct_classify target (pr_args run) = Inr command" "cc_class command = Some (pr_commandClass run)"
    and lim: "length (pr_args run) \<le> ho_maxArgs opts" "\<forall>a \<in> set (pr_args run). length a \<le> ho_maxArgBytes opts"
    by metis
  have t: "ct_cli target = pk_cli pack" "ct_classify target = classifyKubectl pack"
    using assms(2) by (auto simp: createKubectlTarget_def split: if_splits)
  from classified_command [OF assms(1) cl(1) [unfolded t] cl(2)] obtain op config ps where
    l: "kubectlLoop pack None [] (pr_args run) = Inr (Some (op, Own config), ps)"
    and op: "js_get (pk_operations pack) op = Some config" "op \<in> set (pr_args run)"
      "set (po_rbacVerbs config) \<subseteq> {''get'', ''list''}"
    and k: "pr_commandClass run =
      (if op \<in> set (pk_overlayOperations pack) \<and> namesSecret pack ps then ''secret-read'' else ''read'')"
    by metis
  have fl: "approvedFlags pack (Some (op, Own config)) \<subseteq> flagsOf (po_flags config) \<union> ?g"
    using flagsOf_globalFlags by (auto simp: approvedFlags_def loopFlags_def)
  have mono: "flagArgument A args a \<Longrightarrow> A \<subseteq> B \<Longrightarrow> flagArgument B args a" for A B args a
    unfolding flagArgument_def by blast
  have w: "word_ok pack None (Some (op, Own config)) ps (pr_args run) a" if "a \<in> set (pr_args run)" for a
    using kubectlLoop_words [OF l] that by (auto simp: words_ok_def)
  have st: "js_get (hi_claims (pr_identity run)) ''steward'' \<noteq> None"
    using pre(3) by (auto simp: parseTaskToolAuthorization_def TASK_AUTHORITY_CLAIM_def UNRESTRICTED_def split: option.splits)
  have flags: "\<forall>a \<in> set (pr_args run). prefix ''-'' a \<longrightarrow> a \<noteq> ''--'' \<and> flagName a \<notin> set FORBIDDEN_FLAGS \<and>
      flagName a \<in> flagsOf (po_flags config) \<union> ?g"
  proof (intro ballI impI)
    fix a assume "a \<in> set (pr_args run)" "prefix ''-'' a"
    with w [of a] have "a \<noteq> ''--''" "flagName a \<notin> set FORBIDDEN_FLAGS"
      "flagName a \<in> approvedFlags pack (Some (op, Own config))" by (simp_all add: word_ok_def)
    with fl show "a \<noteq> ''--'' \<and> flagName a \<notin> set FORBIDDEN_FLAGS \<and> flagName a \<in> flagsOf (po_flags config) \<union> ?g"
      by blast
  qed
  have "a \<in> set ps" if "a \<in> set (pr_args run)" "\<not> prefix ''-'' a" "a \<noteq> op"
    "\<not> flagArgument (flagsOf (po_flags config) \<union> ?g) (pr_args run) a" for a
    using w [OF that(1)] that mono [OF _ fl] by (auto simp: word_ok_def)
  then have secret: "\<forall>a \<in> set (pr_args run). \<not> prefix ''-'' a \<and> a \<noteq> op \<and> namesSecretWord pack a \<and>
      op \<in> set (pk_overlayOperations pack) \<and> \<not> flagArgument (flagsOf (po_flags config) \<union> ?g) (pr_args run) a \<longrightarrow>
      pr_commandClass run = ''secret-read''"
    using k unfolding namesSecret_def namesSecretWord_def list_ex_iff by (metis (full_types))
  show ?thesis
    by (rule exI [of _ token], rule exI [of _ op], rule exI [of _ config])
      (use pre st k lim op flags secret t in \<open>simp split: if_splits\<close>)
qed

section \<open>A pack\<close>

definition example_digest :: string where "example_digest = replicate 64 CHR ''a''"

definition strs :: "string list \<Rightarrow> json" where "strs ss = JArr (map JStr ss)"

definition example_pack_json :: json where
  "example_pack_json = JObj
     [(''schemaVersion'', JStr ''mcp-gateway.cli-pack/v1''), (''cli'', JStr ''kubectl''), (''parser'', JStr ''kubectl''),
      (''binary'', JObj [(''path'', JStr ''/k''), (''version'', JStr ''1''),
         (''sha256'', JObj [(''amd64'', JStr example_digest), (''arm64'', JStr example_digest)])]),
      (''credential'', JObj [(''provider'', JStr ''kubernetes''), (''sourceEnv'', JStr ''SRC''), (''targetEnv'', JStr ''KUBECONFIG'')]),
      (''runner'', JObj [(''cwd'', JStr ''/tmp''), (''env'', JObj [(''HOME'', JStr ''/tmp'')]),
         (''limits'', JObj [(''requestBodyBytes'', JNum 99), (''args'', JNum 4), (''argBytes'', JNum 9), (''timeoutSeconds'', JNum 3),
           (''maxTimeoutSeconds'', JNum 6), (''outputBytes'', JNum 50), (''maxJobs'', JNum 3), (''maxRunningJobsPerOwner'', JNum 2),
           (''jobRetentionSeconds'', JNum 5)])]),
      (''operations'', JObj [(''get'', JObj [(''rbacVerbs'', strs [''get'', ''list'']), (''rbacResources'', strs [''*'']),
         (''flags'', JObj [(''value'', strs [''-n'']), (''boolean'', strs [''-A'']), (''output'', strs [''-o''])])])]),
      (''outputFormats'', strs [''json'']),
      (''secretOverlay'', JObj [(''operations'', strs [''get'']), (''resources'', strs [''secret'']), (''class'', JStr ''secret-read'')])]"

definition example_pack :: CliPack where
  "example_pack = (case parseCliPack (\<lambda>s. Inr example_pack_json) [] of Inr p \<Rightarrow> p | Inl e \<Rightarrow> undefined)"

lemma ints_numeral [simp]: "(numeral n :: rat) \<in> \<int>" "(1 :: rat) \<in> \<int>"
  by simp_all

lemmas pack_defs = parseCliPack_def pack_record_def only_def assertOnlyKeys_def require_def checked_text_def pack_text_def
  nonblank_def positive_def parseOperations_def parseOperation_def flagList_def stringList_def text_array_def stringRecord_def
  classForRbacVerbs_def parseOverlay_def namePattern_def envPattern_def digestPattern_def char_class_defs js_unique_def
  trim_def is_space_def js_lookup_def ROOT_FIELDS_def LIMIT_FIELDS_def strs_def Let_def

lemma example_pack_json_parses: "parseCliPack (\<lambda>s. Inr example_pack_json) [] = Inr example_pack"
proof -
  have "\<not> isl (parseCliPack (\<lambda>s. Inr example_pack_json) [])"
    by (simp add: example_pack_json_def pack_defs example_digest_def list_all_iff)
  then show ?thesis by (auto simp: example_pack_def split: sum.splits)
qed

lemma example_pack_simps:
  "pk_cli example_pack = ''kubectl''" "pk_provider example_pack = ''kubernetes''"
  "pk_commands example_pack = [(''get'', ''read''), (''get:secret'', ''secret-read'')]"
  "pk_operations example_pack =
     [(''get'', \<lparr>po_rbacVerbs = [''get'', ''list''], po_rbacResources = [''*''],
        po_flags = \<lparr>fl_value = [''-n''], fl_boolean = [''-A''], fl_output = [''-o'']\<rparr>\<rparr>)]"
  "pk_overlayOperations example_pack = [''get'']" "pk_overlayResources example_pack = [''secret'']"
  "pk_outputFormats example_pack = [''json'']"
  by (simp_all add: example_pack_def example_pack_json_def pack_defs example_digest_def list_all_iff)

definition example_target :: CliTarget where
  "example_target = (case createKubectlTarget example_pack (\<lambda>n. Some ''/k'') of Inr t \<Rightarrow> t | Inl e \<Rightarrow> undefined)"

definition example_cli :: CreateCliRunHandlerOptions where
  "example_cli =
     \<lparr>ho_authenticate = createAuthenticator example_jose example_introspection [example_issuer],
      ho_parseJson = (\<lambda>s. if s = ''B'' then Some (JObj [(''cli'', JStr ''kubectl''), (''args'', strs [''-A'', ''get'', ''pods''])]) else None),
      ho_targets = [example_target], ho_maxBodyBytes = 99, ho_maxArgs = 4, ho_maxArgBytes = 9, ho_maxJobs = 3,
      ho_maxRunningJobsPerOwner = 2, ho_retentionSeconds = 5\<rparr>"

definition example_run_request :: http_request where
  "example_run_request =
     \<lparr>rq_method = ''POST'', rq_path = ''/cli/run'', rq_wait = Some ''full'', rq_authorization = Some ''Bearer t'',
      rq_declaredBytes = Some 1, rq_body = Some [''B'']\<rparr>"

lemma example_target_made: "createKubectlTarget example_pack (\<lambda>n. Some ''/k'') = Inr example_target"
  by (simp add: example_target_def createKubectlTarget_def example_pack_simps)

lemma example_classified:
  "ct_classify example_target [''-A'', ''get'', ''pods''] = Inr \<lparr>cc_command = ''get'', cc_class = Some ''read''\<rparr>"
  by (simp add: example_target_def createKubectlTarget_def example_pack_simps classifyKubectl_def globalFlags_def
      consumeFlag_def flagName_def inlineValue_def FORBIDDEN_FLAGS_def js_lookup_def namesSecret_def resourceNames_def
      to_lower_case_def to_lower_def js_unique_def Let_def)

lemma example_grant_allowed:
  "ta_allows (parseTaskToolAuthorization (hi_claims example_identity) False)
     \<lparr>tg_provider = ''cli'', tg_resource = ''kubectl'', tg_action = ''read''\<rparr>"
  "ta_restricted (parseTaskToolAuthorization (hi_claims example_identity) False)"
  by (simp_all add: example_identity_def example_token_claims_def parseTaskToolAuthorization_def
      TASK_AUTHORITY_CLAIM_def connectionStatusAuthorityGrant_def parseGrant_def claim_def nonblank_def trim_def is_space_def
      isLegacyTaskMarker_def isCurrentTaskMarker_def CURRENT_TASK_AUTHORITY_CLAIMS_VERSION_def parseGrants_def Let_def)

definition example_prepared_run :: PreparedRun where
  "example_prepared_run =
     \<lparr>pr_identity = example_identity, pr_target = example_target, pr_args = [''-A'', ''get'', ''pods''],
      pr_commandClass = ''read'',
      pr_grant = \<lparr>tg_provider = ''cli'', tg_resource = ''kubectl'', tg_action = ''read''\<rparr>\<rparr>"

lemma example_prepared: "prepare example_cli example_run_request = Inr example_prepared_run"
proof -
  have t: "ct_cli example_target = ''kubectl''" "catalogClass example_target ''get'' = Some ''read''"
    by (simp_all add: example_target_def createKubectlTarget_def example_pack_simps catalogClass_def js_lookup_def)
  have a: "authenticateTaskRequest (ho_authenticate example_cli) example_run_request =
      Inr (example_identity, parseTaskToolAuthorization (hi_claims example_identity) False)"
    by (simp add: authenticateTaskRequest_def bearerToken_def example_run_request_def example_cli_def example_authenticated)
  have b: "readBoundedJson (ho_parseJson example_cli) (ho_maxBodyBytes example_cli) example_run_request =
      Inr (JObj [(''cli'', JStr ''kubectl''), (''args'', strs [''-A'', ''get'', ''pods''])])"
    by (simp add: readBoundedJson_def example_run_request_def example_cli_def)
  have c: "checkedBody example_cli (JObj [(''cli'', JStr ''kubectl''), (''args'', strs [''-A'', ''get'', ''pods''])]) =
      Inr (''kubectl'', [''-A'', ''get'', ''pods''])"
    by (simp add: checkedBody_def strs_def example_cli_def as_string_array_def)
  have d: "js_get (targetsOf example_cli) ''kubectl'' = Some example_target"
    by (simp add: targetsOf_def example_cli_def t)
  show ?thesis
    by (simp add: prepare_def a b c d example_classified example_grant_allowed t example_prepared_run_def)
qed

theorem cli_run_authorized_witness:
  "js_get (hi_claims (pr_identity example_prepared_run)) ''steward'' \<noteq> None \<and> pr_commandClass example_prepared_run \<in> {''read'', ''secret-read''}"
proof -
  have "ho_targets example_cli = [example_target]" by (simp add: example_cli_def)
  from cli_run_authorized [OF example_pack_json_parses example_target_made this example_prepared] show ?thesis by blast
qed

text \<open>A name that every object inherits passes for an approved operation, with a class that is not
  defined; the check of the grant refuses it afterwards.\<close>

lemma inherited_name_classified:
  "classifyKubectl example_pack [''toString'', ''pods''] = Inr \<lparr>cc_command = ''toString'', cc_class = None\<rparr>"
  by (simp add: example_pack_simps classifyKubectl_def js_lookup_def OBJECT_PROTOTYPE_KEYS_def Let_def)

end
