(* ===== verification/Cli_Job_Props.thy ===== *)
theory Cli_Job_Props
  imports Cli_Jobs Cli_Props
begin

text \<open>
  Invariants of the job table: its limits, what becomes of a running job, who sees a job, and what the
  streams of a job carry.
\<close>

section \<open>The table\<close>

lemma cli_kind_simps [simp]:
  "jk_id cli_kind = jb_id" "jk_owner cli_kind = jb_owner" "jk_completedAt cli_kind = jb_completedAt"
  "jk_busy cli_kind j \<longleftrightarrow> jb_status j = JobRunning"
  by (simp_all add: cli_kind_def)

lemma cli_limits_simps [simp]:
  "jl_maxJobs (cli_limits opts) = ho_maxJobs opts"
  "jl_maxRunningJobsPerOwner (cli_limits opts) = ho_maxRunningJobsPerOwner opts"
  by (simp_all add: cli_limits_def)

interpretation cli_jobs: job_server cli_kind newJob
  by unfold_locales (simp_all add: newJob_def)

text \<open>A job has a completion time exactly when it has finished.\<close>

definition statuses_ok :: "(string, Job) jsmap \<Rightarrow> bool" where
  "statuses_ok jobs \<longleftrightarrow> (\<forall>(k, j) \<in> set jobs. jb_completedAt j = None \<longleftrightarrow> jb_status j = JobRunning)"

lemma runningOf_open: "statuses_ok jobs \<Longrightarrow> runningOf owner jobs = openOf cli_kind owner jobs"
  unfolding runningOf_def busyOf_def openOf_def statuses_ok_def by (induction jobs) auto

lemma statuses_ok_keeps: "keeps_open cli_kind jobs jobs' \<Longrightarrow> statuses_ok jobs \<Longrightarrow> statuses_ok jobs'"
  by (auto simp: statuses_ok_def dest!: keeps_open_facts(4))

lemma prune_keeps: "keeps_open cli_kind (sv_jobs sv) (sv_jobs (prune opts now sv))"
  by (simp add: prune_def pruneJobs_keeps)

lemma prune_other [simp]: "sv_streams (prune opts now sv) = sv_streams sv"
  by (simp add: prune_def pruneJobs_def Let_def)

lemma updateJob_streams_same [simp]: "sv_streams (updateJob jid f sv) = sv_streams sv"
  by (simp add: updateJob_def)

lemma cli_server_more: "job_table.more sv' = job_table.more sv \<Longrightarrow> sv_streams sv' = sv_streams (sv :: cli_server)"
  by (cases sv; cases sv') simp

section \<open>The limits\<close>

abbreviation owners :: "(PreparedRun \<times> string) list \<Rightarrow> string multiset" where
  "owners waiting \<equiv> image_mset snd (mset waiting)"

definition jobs_inv :: "CreateCliRunHandlerOptions \<Rightarrow> cli_state \<Rightarrow> bool" where
  "jobs_inv opts s \<longleftrightarrow> (case s of (waiting, sv) \<Rightarrow>
     table_inv cli_kind (cli_limits opts) (owners waiting) sv \<and> statuses_ok (sv_jobs sv))"

lemma jobs_inv_facts:
  assumes "jobs_inv opts (waiting, sv)"
  shows "jobs_wf cli_kind (sv_jobs sv)" "statuses_ok (sv_jobs sv)"
    "table_inv cli_kind (cli_limits opts) (owners waiting) sv"
  using assms by (auto simp: jobs_inv_def intro: table_inv_wf)

text \<open>An update of one job that neither starts it again nor changes its owner.\<close>

definition job_status_update :: "(Job \<Rightarrow> Job) \<Rightarrow> bool" where
  "job_status_update f \<longleftrightarrow> job_update cli_kind f \<and>
     (\<forall>j. (jb_completedAt j = None \<longleftrightarrow> jb_status j = JobRunning) \<longrightarrow>
          (jb_completedAt (f j) = None \<longleftrightarrow> jb_status (f j) = JobRunning))"

lemma jobs_inv_updateJob:
  assumes "jobs_inv opts (waiting, sv)" "job_status_update f"
  shows "jobs_inv opts (waiting, updateJob jid f sv)"
proof -
  have "statuses_ok (sv_jobs (updateJob jid f sv))"
    using assms by (fastforce simp: jobs_inv_def statuses_ok_def job_status_update_def updateJob_def)
  with assms show ?thesis by (simp add: jobs_inv_def job_status_update_def table_inv_update)
qed

lemmas job_status_simps = job_status_update_def job_update_def

lemma jobs_inv_streams [simp]: "jobs_inv opts (waiting, sv\<lparr>sv_streams := ss\<rparr>) \<longleftrightarrow> jobs_inv opts (waiting, sv)"
  by (simp add: jobs_inv_def table_inv_def)

lemma jobs_inv_emit: "jobs_inv opts (waiting, sv) \<Longrightarrow> jobs_inv opts (waiting, emitEvent jid event sv)"
  by (auto simp: emitEvent_def Let_def job_status_simps intro!: jobs_inv_updateJob split: option.splits)

lemma jobs_inv_finish:
  "status \<noteq> JobRunning \<Longrightarrow> jobs_inv opts (waiting, sv) \<Longrightarrow> jobs_inv opts (waiting, finish now jid status result event sv)"
  by (auto simp: finish_def Let_def job_status_simps intro!: jobs_inv_updateJob jobs_inv_emit split: option.splits)

lemma admit_outcome:
  assumes "jobs_inv opts (waiting, sv)"
  obtains ok sv' where "admit opts now owner sv = Some (ok, sv')" "keeps_open cli_kind (sv_jobs sv) (sv_jobs sv')"
    "sv_streams sv' = sv_streams sv"
    "jobs_inv opts (if ok then waiting @ [(run, owner)] else waiting, sv')"
proof -
  note i = jobs_inv_facts [OF assms]
  obtain ok sv' where a: "admitJob cli_kind (cli_limits opts) now owner sv = Some (ok, sv')"
    "keeps_open cli_kind (sv_jobs sv) (sv_jobs sv')" "job_table.more sv' = job_table.more sv"
    "table_inv cli_kind (cli_limits opts) (if ok then add_mset owner (owners waiting) else owners waiting) sv'"
    by (rule admitJob_outcome [OF i(3)])
  have "jobs_inv opts (if ok then waiting @ [(run, owner)] else waiting, sv')"
    using a(4) statuses_ok_keeps [OF a(2) i(2)] by (simp add: jobs_inv_def split: if_splits)
  with that [of ok sv'] a(1,2) cli_server_more [OF a(3)] show thesis by (simp add: admit_def)
qed

lemma owners_remove1:
  assumes "(run, owner) \<in> set waiting"
  shows "owners waiting = add_mset owner (owners (remove1 (run, owner) waiting))"
proof -
  have "mset waiting = add_mset (run, owner) (mset (remove1 (run, owner) waiting))" using assms by simp
  then show ?thesis by (metis image_mset_add_mset snd_conv)
qed

lemma jobs_inv_release:
  assumes "jobs_inv opts (waiting, sv)" "(run, owner) \<in> set waiting"
  shows "jobs_inv opts (remove1 (run, owner) waiting, releaseAdmission owner sv)"
  using jobs_inv_facts(2,3) [OF assms(1)]
  by (auto simp: jobs_inv_def owners_remove1 [OF assms(2)] intro: table_inv_release)

lemma jobs_inv_start:
  assumes "jobs_inv opts (waiting, sv)" "(run, owner) \<in> set waiting" "jid \<notin> fst ` set (sv_jobs sv)"
  shows "jobs_inv opts (remove1 (run, owner) waiting, releaseAdmission owner (startJob run owner jid now sv))"
proof -
  have "statuses_ok (js_set jid (newJob run owner jid now) (sv_jobs sv))"
    using assms(1) by (auto simp: jobs_inv_def statuses_ok_def js_set_new [OF assms(3)] newJob_def)
  moreover have "table_inv cli_kind (cli_limits opts) (add_mset owner (owners (remove1 (run, owner) waiting))) sv"
    using jobs_inv_facts(3) [OF assms(1)] unfolding owners_remove1 [OF assms(2)] .
  ultimately show ?thesis
    using cli_jobs.table_inv_start [OF _ assms(3), of "cli_limits opts" owner] unfolding jobs_inv_def startJob_def by auto
qed

lemma jobFor_outcome:
  "snd (jobFor opts now jid identity authorization sv) = prune opts now sv"
  "fst (jobFor opts now jid identity authorization sv) = Some job \<Longrightarrow>
    js_get (sv_jobs (prune opts now sv)) jid = Some job \<and> taskOwner identity = Some (jb_owner job) \<and>
    ta_allows authorization (jb_grant job)"
  by (auto simp: jobFor_def Let_def split: option.splits if_splits)

lemma jobRequest_outcome:
  assumes "jobRequest opts now jid action rq sv = (response, sv')"
  shows "sv' = sv \<or> sv' = prune opts now sv \<or>
    (\<exists>job. js_get (sv_jobs (prune opts now sv)) jid = Some job \<and>
      (sv' = jobStream job (prune opts now sv) \<or> sv' = abortJob job (prune opts now sv)))"
proof (cases "authenticateTaskRequest (ho_authenticate opts) rq")
  case (Inr a)
  obtain identity authorization where a: "a = (identity, authorization)" by force
  note o = jobFor_outcome [of opts now jid identity authorization sv]
  obtain found sv2 where f: "jobFor opts now jid identity authorization sv = (found, sv2)" by force
  with o(1) have "sv2 = prune opts now sv" by simp
  with assms Inr a f o(2) show ?thesis
    by (cases found) (auto simp: jobRequest_def split: if_splits)
qed (use assms in \<open>auto simp: jobRequest_def\<close>)

lemma beginJob_outcome:
  assumes "beginJob opts now rq sv = Some (r, sv')"
  shows "sv' = sv \<and> isl r \<or> (\<exists>owner ok. admit opts now owner sv = Some (ok, sv') \<and>
    (case r of Inl _ \<Rightarrow> \<not> ok | Inr (run, o') \<Rightarrow> ok \<and> o' = owner \<and> prepare opts rq = Inr run \<and> taskOwner (pr_identity run) = Some owner))"
  using assms by (auto simp: beginJob_def split: sum.splits option.splits bool.splits prod.splits)

lemma jobs_inv_stream: "jobs_inv opts (waiting, sv) \<Longrightarrow> jobs_inv opts (waiting, jobStream job sv)"
  by (auto simp: jobStream_def Let_def job_status_simps intro!: jobs_inv_updateJob)

lemma jobs_inv_abort: "jobs_inv opts (waiting, sv) \<Longrightarrow> jobs_inv opts (waiting, abortJob job sv)"
  by (auto simp: abortJob_def job_status_simps intro!: jobs_inv_updateJob)

lemma jobs_inv_prune: "jobs_inv opts (waiting, sv) \<Longrightarrow> jobs_inv opts (waiting, prune opts now sv)"
  using statuses_ok_keeps [OF prune_keeps] by (auto simp: jobs_inv_def prune_def intro: table_inv_prune)

lemma jobs_inv_step:
  assumes "jobs_inv opts s" "cli_job_step opts s s'"
  shows "jobs_inv opts s'"
  using assms(2,1)
proof (cases rule: cli_job_step.cases)
  case (admitted now rq sv run owner sv' waiting)
  with beginJob_outcome [OF admitted(3)] have a: "admit opts now owner sv = Some (True, sv')" by auto
  obtain ok sv2 where "admit opts now owner sv = Some (ok, sv2)"
    "jobs_inv opts (if ok then waiting @ [(run, owner)] else waiting, sv2)"
    by (rule admit_outcome [of opts waiting sv now owner run]) (use assms(1) admitted in auto)
  with a admitted show ?thesis by auto
next
  case (turned_away now rq sv response sv' waiting)
  show ?thesis
  proof (cases "sv' = sv")
    case False
    with beginJob_outcome [OF turned_away(3)] obtain owner where a: "admit opts now owner sv = Some (False, sv')" by auto
    obtain ok sv2 where "admit opts now owner sv = Some (ok, sv2)"
      "jobs_inv opts (if ok then waiting @ [(undefined, owner)] else waiting, sv2)"
      by (rule admit_outcome [of opts waiting sv now owner undefined]) (use assms(1) turned_away in auto)
    with a turned_away show ?thesis by auto
  qed (use turned_away assms(1) in simp)
next
  case (completed run owner waiting jid sv now response sv')
  with assms(1) jobs_inv_start [of opts waiting sv run owner jid now] jobs_inv_release [of opts waiting sv run owner]
  show ?thesis by (auto simp: completeJob_def split: sum.splits)
next
  case (wrote sv jid job event waiting)
  with assms(1) show ?thesis by (simp add: jobs_inv_emit)
next
  case (resolved sv jid job waiting now result)
  with assms(1) show ?thesis by (simp add: runResolved_def jobs_inv_finish)
next
  case (rejected sv jid job waiting now)
  with assms(1) show ?thesis by (auto simp: runRejected_def Let_def intro!: jobs_inv_finish jobs_inv_emit)
next
  case (requested now jid action rq sv response sv' waiting)
  with jobRequest_outcome [OF requested(3)] assms(1) show ?thesis
    by (auto intro: jobs_inv_prune jobs_inv_stream jobs_inv_abort)
next
  case (reader_gone l sv waiting)
  with assms(1) show ?thesis
    by (auto simp: cancelStream_def Let_def job_status_simps intro!: jobs_inv_updateJob)
qed

lemma jobs_inv_initial: "jobs_inv opts initial_cli"
  by (simp add: initial_cli_def jobs_inv_def statuses_ok_def table_inv_initial)

section \<open>Streams\<close>

text \<open>The events of a stream, joined as the job joins them.\<close>

definition eventLog :: "StreamEvent list \<Rightarrow> StreamEvent list" where
  "eventLog es = foldl appendEvent [] es"

text \<open>While a job runs there is no exit event; afterwards there is one, the last.\<close>

definition events_ok :: "bool \<Rightarrow> StreamEvent list \<Rightarrow> bool" where
  "events_ok run es \<longleftrightarrow>
     (if run then list_all (\<lambda>e. \<not> isExit e) es
      else es \<noteq> [] \<and> isExit (last es) \<and> list_all (\<lambda>e. \<not> isExit e) (butlast es))"

lemma appendEvent_exits:
  "list_all (\<lambda>e. \<not> isExit e) es \<Longrightarrow> isExit e \<Longrightarrow> appendEvent es e = es @ [e]"
  by (cases e; cases es) (auto simp: appendEvent_def)

lemma appendEvent_no_exits:
  "list_all (\<lambda>e. \<not> isExit e) es \<Longrightarrow> \<not> isExit e \<Longrightarrow> list_all (\<lambda>e. \<not> isExit e) (appendEvent es e)"
  by (cases e; cases es) (auto simp: appendEvent_def list_all_iff dest: in_set_butlastD split: StreamEvent.splits)

lemma events_ok_append:
  "events_ok True es \<Longrightarrow> events_ok (\<not> isExit e) (appendEvent es e)"
  "events_ok True es \<Longrightarrow> events_ok (\<not> isExit e) (es @ [e])"
  by (auto simp: events_ok_def appendEvent_exits appendEvent_no_exits)

text \<open>Joined events stay as they are when they are joined again.\<close>

fun mergeable :: "StreamEvent \<Rightarrow> StreamEvent \<Rightarrow> bool" where
  "mergeable (StdoutEvent p) (StdoutEvent d) = True"
| "mergeable (StderrEvent p) (StderrEvent d) = True"
| "mergeable _ _ = False"

fun merge :: "StreamEvent \<Rightarrow> StreamEvent \<Rightarrow> StreamEvent" where
  "merge (StdoutEvent p) (StdoutEvent d) = StdoutEvent (p @ d)"
| "merge (StderrEvent p) (StderrEvent d) = StderrEvent (p @ d)"
| "merge a b = b"

lemma mergeable_merge: "mergeable a e \<Longrightarrow> mergeable x (merge a e) \<longleftrightarrow> mergeable x a"
  by (cases a; cases e; cases x) simp_all

lemma merge_assoc: "mergeable x a \<Longrightarrow> mergeable a e \<Longrightarrow> merge x (merge a e) = merge (merge x a) e"
  by (cases a; cases e; cases x) simp_all

lemma appendEvent_Nil [simp]: "appendEvent [] e = [e]"
  by (simp add: appendEvent_def)

lemma appendEvent_snoc: "appendEvent (es @ [a]) b = (if mergeable a b then es @ [merge a b] else es @ [a, b])"
  by (cases es; cases a; cases b) (simp_all add: appendEvent_def)

lemma eventLog_Nil [simp]: "eventLog [] = []"
  by (simp add: eventLog_def)

lemma eventLog_append: "eventLog (es @ [e]) = appendEvent (eventLog es) e"
  by (simp add: eventLog_def)

lemma eventLog_appendEvent:
  assumes "eventLog es = es"
  shows "eventLog (appendEvent es e) = appendEvent es e"
proof (cases es rule: rev_cases)
  case Nil
  then show ?thesis by (simp add: eventLog_def)
next
  case (snoc xs a)
  with assms have l: "appendEvent (eventLog xs) a = xs @ [a]" by (simp add: eventLog_append)
  show ?thesis
  proof (cases "mergeable a e")
    case True
    have "appendEvent (eventLog xs) (merge a e) = xs @ [merge a e]"
    proof (cases "eventLog xs" rule: rev_cases)
      case Nil
      with l show ?thesis by simp
    next
      case (snoc ys x)
      with l True show ?thesis
        by (cases "mergeable x a") (auto simp: appendEvent_snoc mergeable_merge merge_assoc)
    qed
    with True snoc show ?thesis by (simp add: appendEvent_snoc eventLog_append)
  next
    case False
    with assms snoc show ?thesis by (simp add: appendEvent_snoc) (metis append.assoc append_Cons append_Nil appendEvent_snoc eventLog_append)
  qed
qed

definition running :: "Job \<Rightarrow> bool" where
  "running j \<longleftrightarrow> jb_status j = JobRunning"

definition job_ok :: "job_stream list \<Rightarrow> string \<Rightarrow> Job \<Rightarrow> bool" where
  "job_ok ss k j \<longleftrightarrow> events_ok (running j) (jb_events j) \<and> eventLog (jb_events j) = jb_events j \<and>
     (\<not> running j \<longrightarrow> jb_listeners j = []) \<and>
     (\<forall>l \<in> set (jb_listeners j). l < length ss \<and> sm_job (ss ! l) = k \<and> \<not> sm_cancelled (ss ! l))"

text \<open>A stream whose reader is there: it carries the events of its job, and is open while the job runs.\<close>

definition stream_ok :: "(string \<Rightarrow> Job option) \<Rightarrow> nat \<Rightarrow> job_stream \<Rightarrow> bool" where
  "stream_ok m i s \<longleftrightarrow> sm_cancelled s \<or>
     events_ok (sm_open s) (sm_written s) \<and>
     (case m (sm_job s) of
        None \<Rightarrow> \<not> sm_open s
      | Some j \<Rightarrow> eventLog (sm_written s) = jb_events j \<and> (sm_open s \<longleftrightarrow> running j) \<and>
                  (running j \<longrightarrow> i \<in> set (jb_listeners j)))"

definition streams_inv :: "cli_server \<Rightarrow> bool" where
  "streams_inv sv \<longleftrightarrow>
     (\<forall>k j. js_get (sv_jobs sv) k = Some j \<longrightarrow> job_ok (sv_streams sv) k j) \<and>
     (\<forall>i < length (sv_streams sv). stream_ok (js_get (sv_jobs sv)) i (sv_streams sv ! i))"

lemma streams_inv_keeps:
  assumes "streams_inv sv" "keeps_open cli_kind (sv_jobs sv) (sv_jobs sv')" "jobs_wf cli_kind (sv_jobs sv)"
    "statuses_ok (sv_jobs sv)" "sv_streams sv' = sv_streams sv"
  shows "streams_inv sv'"
proof -
  note k = js_get_keeps(1) [OF assms(2,3)]
  have r: "js_get (sv_jobs sv') k = Some j" if "js_get (sv_jobs sv) k = Some j" "running j" for k j
    using js_get_keeps(2) [OF assms(2,3) that(1)] assms(4) map_of_SomeD [OF that(1)] that(2)
    by (fastforce simp: statuses_ok_def running_def)
  have "stream_ok (js_get (sv_jobs sv')) i (sv_streams sv ! i)" if "i < length (sv_streams sv)" for i
  proof -
    have o: "stream_ok (js_get (sv_jobs sv)) i (sv_streams sv ! i)" using assms(1) that by (simp add: streams_inv_def)
    show ?thesis
      using o k [of "sm_job (sv_streams sv ! i)"] r [of "sm_job (sv_streams sv ! i)"]
      by (cases "js_get (sv_jobs sv') (sm_job (sv_streams sv ! i))";
          cases "js_get (sv_jobs sv) (sm_job (sv_streams sv ! i))") (auto simp: stream_ok_def)
  qed
  then show ?thesis using assms(1,5) k by (auto simp: streams_inv_def)
qed

lemma streams_inv_cong:
  "sv_jobs sv' = sv_jobs sv \<Longrightarrow> sv_streams sv' = sv_streams sv \<Longrightarrow> streams_inv sv' = streams_inv sv"
  by (simp add: streams_inv_def)

text \<open>An update of a job that leaves its events, its status and its listeners alone.\<close>

lemma streams_inv_quiet:
  assumes "streams_inv sv" "\<And>j. jb_events (f j) = jb_events j \<and> jb_status (f j) = jb_status j \<and> jb_listeners (f j) = jb_listeners j"
  shows "streams_inv (updateJob jid f sv)"
proof -
  have j: "job_ok ss k (f j) = job_ok ss k j" for ss k j
    by (simp add: job_ok_def running_def assms(2))
  have s: "stream_ok (\<lambda>k. map_option (\<lambda>j. if k = jid then f j else j) (m k)) i s = stream_ok m i s" for m i s
    by (cases "m (sm_job s)") (simp_all add: stream_ok_def running_def assms(2))
  show ?thesis
    using assms(1) by (simp add: streams_inv_def js_get_updateJob s) (use j in auto)
qed

lemma nth_notify: "i < length ss \<Longrightarrow> notify ls e ss ! i = (if i \<in> set ls then writeStream e (ss ! i) else ss ! i)"
  by (simp add: notify_def)

lemma length_notify [simp]: "length (notify ls e ss) = length ss"
  by (simp add: notify_def)

text \<open>A running job gets an event: the common part of an output and of the end of a run.\<close>

lemma streams_inv_event:
  assumes inv: "streams_inv sv" and job: "js_get (sv_jobs sv) jid = Some job" "running job"
    and f: "jb_events (f job) = appendEvent (jb_events job) e" "running (f job) \<longleftrightarrow> \<not> isExit e"
      "jb_listeners (f job) = (if isExit e then [] else jb_listeners job)"
  shows "streams_inv (updateJob jid f (sv\<lparr>sv_streams := notify (jb_listeners job) e (sv_streams sv)\<rparr>))"
proof -
  let ?ss = "sv_streams sv" and ?m = "js_get (sv_jobs sv)" and ?ls = "jb_listeners job"
  have jok: "job_ok ?ss k j" if "?m k = Some j" for k j using inv that by (simp add: streams_inv_def)
  have sok: "stream_ok ?m i (?ss ! i)" if "i < length ?ss" for i using inv that by (simp add: streams_inv_def)
  have ls: "l < length ?ss" "sm_job (?ss ! l) = jid" "\<not> sm_cancelled (?ss ! l)" if "l \<in> set ?ls" for l
    using jok [OF job(1)] that by (auto simp: job_ok_def)
  have w: "sm_job (writeStream e s) = sm_job s" "sm_cancelled (writeStream e s) = sm_cancelled s" for s
    by (simp_all add: writeStream_def)
  have jn: "job_ok (notify ?ls e ?ss) k j" if "job_ok ?ss k j" for k j
    using that by (simp add: job_ok_def nth_notify w)
  have ev: "events_ok True (jb_events job)" "eventLog (jb_events job) = jb_events job"
    using jok [OF job(1)] job(2) by (simp_all add: job_ok_def)
  have fj: "job_ok (notify ?ls e ?ss) jid (f job)"
    using jn [OF jok [OF job(1)]] events_ok_append(1) [OF ev(1), of e] eventLog_appendEvent [OF ev(2)] f
    by (auto simp: job_ok_def)
  have "stream_ok (\<lambda>k. map_option (\<lambda>j. if k = jid then f j else j) (?m k)) i (notify ?ls e ?ss ! i)" if i: "i < length ?ss" for i
  proof (cases "i \<in> set ?ls")
    case True
    note li = ls [OF True]
    have s: "sm_open (?ss ! i)" "eventLog (sm_written (?ss ! i)) = jb_events job" "events_ok True (sm_written (?ss ! i))"
      using sok [OF i] li job by (auto simp: stream_ok_def)
    then have ws: "writeStream e (?ss ! i) = (?ss ! i)\<lparr>sm_written := sm_written (?ss ! i) @ [e], sm_open := \<not> isExit e\<rparr>"
      using li by (simp add: writeStream_def)
    show ?thesis
      using True i li s job f events_ok_append(2) [OF s(3), of e]
      by (auto simp: nth_notify ws stream_ok_def eventLog_append)
  next
    case False
    have "sm_cancelled (?ss ! i) \<or> sm_job (?ss ! i) \<noteq> jid" using sok [OF i] False job by (auto simp: stream_ok_def)
    with sok [OF i] False i show ?thesis by (auto simp: nth_notify stream_ok_def split: option.splits)
  qed
  moreover have "job_ok (notify ?ls e ?ss) k j'"
    if "map_option (\<lambda>j. if k = jid then f j else j) (?m k) = Some j'" for k j'
    using that fj jn [OF jok] job by (cases "?m k") (auto split: if_splits)
  ultimately show ?thesis by (simp add: streams_inv_def js_get_updateJob)
qed

lemma updateJob_twice: "updateJob jid f (updateJob jid g sv) = updateJob jid (f \<circ> g) sv"
  by (simp add: updateJob_def comp_def case_prod_beta)

lemma streams_inv_emit:
  assumes "streams_inv sv" "js_get (sv_jobs sv) jid = Some job" "running job" "\<not> isExit e"
  shows "streams_inv (emitEvent jid e sv)"
proof -
  have "filter (\<lambda>l. \<not> (sm_open (sv_streams sv ! l) \<and> sm_cancelled (sv_streams sv ! l))) (jb_listeners job) = jb_listeners job"
    using assms(1,2) by (auto simp: filter_id_conv streams_inv_def job_ok_def)
  then show ?thesis
    unfolding emitEvent_def using assms
    by (simp add: Let_def) (rule streams_inv_event [OF assms(1-3)], simp_all add: running_def)
qed

lemma js_get_updateJob_same: "js_get (sv_jobs sv) jid = Some job \<Longrightarrow> js_get (sv_jobs (updateJob jid f sv)) jid = Some (f job)"
  by (simp add: js_get_updateJob)

lemma updateJob_streams: "updateJob jid f (sv\<lparr>sv_streams := ss\<rparr>) = (updateJob jid f sv)\<lparr>sv_streams := ss\<rparr>"
  by (simp add: updateJob_def)

lemma streams_inv_finish:
  assumes "streams_inv sv" "js_get (sv_jobs sv) jid = Some job" "running job" "isExit e" "status \<noteq> JobRunning"
  shows "streams_inv (finish now jid status result e sv)"
proof -
  let ?g = "\<lambda>j. j\<lparr>jb_status := status, jb_result := Some result, jb_completedAt := Some now\<rparr>"
  have "finish now jid status result e sv =
      updateJob jid (\<lambda>j. j\<lparr>jb_status := status, jb_result := Some result, jb_completedAt := Some now,
          jb_events := appendEvent (jb_events j) e, jb_listeners := []\<rparr>)
        (sv\<lparr>sv_streams := notify (jb_listeners job) e (sv_streams sv)\<rparr>)"
    using assms(2,3) unfolding finish_def emitEvent_def
    by (simp add: Let_def running_def js_get_updateJob_same [of sv jid job] updateJob_streams updateJob_twice comp_def)
  then show ?thesis
    by (simp only:) (rule streams_inv_event [OF assms(1-3)], use assms(4,5) in \<open>simp_all add: running_def\<close>)
qed

lemma streams_inv_reject:
  assumes "streams_inv sv" "js_get (sv_jobs sv) jid = Some job" "running job"
  shows "streams_inv (runRejected now jid sv)"
proof -
  let ?m = "(if jb_aborted job then ''CLI execution cancelled'' else ''CLI execution failed'') @ [newline]"
  obtain job' where "js_get (sv_jobs (emitEvent jid (StderrEvent ?m) sv)) jid = Some job'" "running job'"
    using assms(2,3) by (auto simp: emitEvent_def Let_def js_get_updateJob running_def)
  from streams_inv_finish [OF streams_inv_emit [OF assms(1-3), of "StderrEvent ?m"] this]
  show ?thesis using assms(2) by (simp add: runRejected_def Let_def)
qed

lemma streams_inv_start:
  assumes "streams_inv sv" "jid \<notin> fst ` set (sv_jobs sv)" "jid \<notin> sm_job ` set (sv_streams sv)"
  shows "streams_inv (startJob run owner jid now sv)"
proof -
  have m: "js_get (sv_jobs (startJob run owner jid now sv)) k =
      (if k = jid then Some \<lparr>jb_id = jid, jb_owner = owner, jb_grant = pr_grant run, jb_commandClass = pr_commandClass run,
           jb_status = JobRunning, jb_createdAt = now, jb_completedAt = None, jb_result = None, jb_events = [],
           jb_listeners = [], jb_aborted = False\<rparr> else js_get (sv_jobs sv) k)" for k
    by (simp add: startJob_def newJob_def js_map_simps)
  have s: "sv_streams (startJob run owner jid now sv) = sv_streams sv" by (simp add: startJob_def)
  have "stream_ok (js_get (sv_jobs (startJob run owner jid now sv))) i (sv_streams sv ! i)" if "i < length (sv_streams sv)" for i
  proof -
    have "sm_job (sv_streams sv ! i) \<noteq> jid" using assms(3) that by (auto simp: image_iff)
    with assms(1) that show ?thesis by (simp add: streams_inv_def stream_ok_def m)
  qed
  then show ?thesis
    using assms(1) by (auto simp: streams_inv_def m s job_ok_def running_def events_ok_def)
qed

lemma writeStream_all:
  assumes "sm_open s" "\<not> sm_cancelled s" "events_ok run es"
  shows "foldl (\<lambda>s e. writeStream e s) s es = s\<lparr>sm_written := sm_written s @ es, sm_open := run\<rparr>"
proof -
  have n: "foldl (\<lambda>s e. writeStream e s) s es = s\<lparr>sm_written := sm_written s @ es, sm_open := True\<rparr>"
    if "list_all (\<lambda>e. \<not> isExit e) es" "sm_open s" "\<not> sm_cancelled s" for es and s :: job_stream
    using that by (induction es arbitrary: s) (auto simp: writeStream_def)
  show ?thesis
  proof (cases run)
    case True
    then show ?thesis using n [of es s] assms by (simp add: events_ok_def)
  next
    case False
    then obtain es' e where "es = es' @ [e]" "isExit e" "list_all (\<lambda>e. \<not> isExit e) es'"
      using assms(3) by (cases es rule: rev_cases) (auto simp: events_ok_def)
    then show ?thesis using n [of es' s] assms False by (simp add: writeStream_def)
  qed
qed

lemma job_ok_more: "job_ok ss k j \<Longrightarrow> job_ok (ss @ [s]) k j"
  by (auto simp: job_ok_def nth_append)

lemma updateJob_id: "updateJob jid (\<lambda>j. j) sv = sv"
  by (simp add: updateJob_def case_prod_beta)

lemma streams_inv_stream:
  assumes "streams_inv sv" "js_get (sv_jobs sv) jid = Some job" "jb_id job = jid"
  shows "streams_inv (jobStream job sv)"
proof -
  let ?ss = "sv_streams sv" and ?m = "js_get (sv_jobs sv)"
  let ?s = "\<lparr>sm_job = jid, sm_written = jb_events job, sm_open = running job, sm_cancelled = False\<rparr>"
  let ?f = "\<lambda>j. if running job then j\<lparr>jb_listeners := jb_listeners j @ [length ?ss]\<rparr> else j"
  have ok: "job_ok ?ss k j" if "?m k = Some j" for k j using assms(1) that by (simp add: streams_inv_def)
  have e: "events_ok (running job) (jb_events job)" "eventLog (jb_events job) = jb_events job"
    using ok [OF assms(2)] by (simp_all add: job_ok_def)
  have "jobStream job sv = updateJob jid ?f (sv\<lparr>sv_streams := ?ss @ [?s]\<rparr>)"
    using writeStream_all [OF _ _ e(1), of "\<lparr>sm_job = jid, sm_written = [], sm_open = True, sm_cancelled = False\<rparr>"] assms(3)
    by (cases "running job") (simp_all add: jobStream_def Let_def running_def updateJob_id)
  moreover have "stream_ok (\<lambda>k. map_option (\<lambda>j. if k = jid then ?f j else j) (?m k)) i ((?ss @ [?s]) ! i)"
    if "i < Suc (length ?ss)" for i
  proof (cases "i = length ?ss")
    case True
    then show ?thesis using e assms(2) by (simp add: stream_ok_def running_def)
  next
    case False
    then have "i < length ?ss" using that by simp
    then have "stream_ok ?m i (?ss ! i)" using assms(1) by (simp add: streams_inv_def)
    then show ?thesis using \<open>i < length ?ss\<close>
      by (cases "?m (sm_job (?ss ! i))") (auto simp: stream_ok_def nth_append running_def)
  qed
  moreover have "job_ok (?ss @ [?s]) k j'" if m: "map_option (\<lambda>j. if k = jid then ?f j else j) (?m k) = Some j'" for k j'
  proof (cases "k = jid")
    case True
    with m assms(2) have "j' = ?f job" by simp
    with job_ok_more [OF ok [OF assms(2)], of ?s] True show ?thesis by (auto simp: job_ok_def running_def nth_append)
  next
    case False
    with m job_ok_more [OF ok] show ?thesis by auto
  qed
  ultimately show ?thesis by (simp add: streams_inv_def js_get_updateJob)
qed

lemma streams_inv_cancel:
  assumes "streams_inv sv" "l < length (sv_streams sv)"
  shows "streams_inv (cancelStream l sv)"
proof -
  let ?ss = "sv_streams sv" and ?m = "js_get (sv_jobs sv)" and ?k = "sm_job (sv_streams sv ! l)"
  let ?f = "\<lambda>j. j\<lparr>jb_listeners := filter (\<lambda>m. m \<noteq> l) (jb_listeners j)\<rparr>"
  let ?ss' = "?ss[l := (?ss ! l)\<lparr>sm_cancelled := True\<rparr>]"
  have ok: "job_ok ?ss k j" if "?m k = Some j" for k j using assms(1) that by (simp add: streams_inv_def)
  have "stream_ok (\<lambda>k. map_option (\<lambda>j. if k = ?k then ?f j else j) (?m k)) i (?ss' ! i)" if "i < length ?ss" for i
  proof (cases "i = l")
    case True
    then show ?thesis using assms(2) by (simp add: stream_ok_def)
  next
    case False
    have "stream_ok ?m i (?ss ! i)" using assms(1) that by (simp add: streams_inv_def)
    then show ?thesis using False that
      by (cases "?m (sm_job (?ss ! i))") (auto simp: stream_ok_def running_def)
  qed
  moreover have "job_ok ?ss' k j'" if m: "map_option (\<lambda>j. if k = ?k then ?f j else j) (?m k) = Some j'" for k j'
  proof -
    from m obtain j where j: "?m k = Some j" "j' = (if k = ?k then ?f j else j)" by auto
    have l: "m < length ?ss \<and> sm_job (?ss ! m) = k \<and> \<not> sm_cancelled (?ss ! m)" if "m \<in> set (jb_listeners j)" for m
      using ok [OF j(1)] that by (simp add: job_ok_def)
    have sub: "set (jb_listeners j') \<subseteq> set (jb_listeners j)" using j(2) by auto
    have ne: "l \<notin> set (jb_listeners j')"
    proof (cases "k = ?k")
      case True
      with j(2) show ?thesis by simp
    next
      case False
      with l [of l] sub show ?thesis by auto
    qed
    have "m < length ?ss' \<and> sm_job (?ss' ! m) = k \<and> \<not> sm_cancelled (?ss' ! m)" if "m \<in> set (jb_listeners j')" for m
    proof -
      have "m \<noteq> l" using that ne by blast
      with l [of m] that sub show ?thesis by auto
    qed
    moreover have "jb_status j' = jb_status j" "jb_events j' = jb_events j" using j(2) by auto
    moreover have "jb_status j \<noteq> JobRunning \<longrightarrow> jb_listeners j' = []"
      using ok [OF j(1)] sub by (auto simp: job_ok_def running_def)
    ultimately show ?thesis using ok [OF j(1)] by (simp add: job_ok_def running_def)
  qed
  ultimately show ?thesis by (simp add: streams_inv_def js_get_updateJob cancelStream_def Let_def)
qed

lemma streams_inv_release [simp]: "streams_inv (releaseAdmission owner sv) = streams_inv sv"
  by (simp add: streams_inv_def releaseAdmission_def Let_def)

lemma streams_inv_abort: "streams_inv sv \<Longrightarrow> streams_inv (abortJob job sv)"
  by (simp add: abortJob_def streams_inv_quiet)

lemma streams_inv_step:
  assumes "jobs_inv opts s" "streams_inv (snd s)" "cli_job_step opts s s'"
  shows "streams_inv (snd s')"
  using assms(3)
proof (cases rule: cli_job_step.cases)
  case (admitted now rq sv run owner sv' waiting)
  with beginJob_outcome [OF admitted(3)] have a: "admit opts now owner sv = Some (True, sv')" by auto
  from assms(1) admitted have j: "jobs_inv opts (waiting, sv)" by simp
  from admit_outcome [OF j, of now owner run] a have "keeps_open cli_kind (sv_jobs sv) (sv_jobs sv')" "sv_streams sv' = sv_streams sv"
    by (metis Pair_inject option.inject)+
  with streams_inv_keeps [of sv sv'] assms(2) admitted jobs_inv_facts [OF j] show ?thesis by simp
next
  case (turned_away now rq sv response sv' waiting)
  show ?thesis
  proof (cases "sv' = sv")
    case False
    with beginJob_outcome [OF turned_away(3)] obtain owner where a: "admit opts now owner sv = Some (False, sv')" by auto
    from assms(1) turned_away have j: "jobs_inv opts (waiting, sv)" by simp
    from admit_outcome [OF j, of now owner undefined] a have "keeps_open cli_kind (sv_jobs sv) (sv_jobs sv')" "sv_streams sv' = sv_streams sv"
      by (metis Pair_inject option.inject)+
    with streams_inv_keeps [of sv sv'] assms(2) turned_away jobs_inv_facts [OF j] show ?thesis by simp
  qed (use turned_away assms(2) in simp)
next
  case (completed run owner waiting jid sv now response sv')
  with assms(2) streams_inv_start [of sv jid run owner now] show ?thesis
    by (auto simp: completeJob_def split: sum.splits)
next
  case (wrote sv jid job event waiting)
  with assms(2) show ?thesis by (simp add: streams_inv_emit [of sv jid job] running_def)
next
  case (resolved sv jid job waiting now result)
  with assms(2) show ?thesis by (simp add: runResolved_def streams_inv_finish [of sv jid job] running_def)
next
  case (rejected sv jid job waiting now)
  with assms(2) show ?thesis by (simp add: streams_inv_reject [of sv jid job] running_def)
next
  case (requested now jid action rq sv response sv' waiting)
  from assms(1) requested have wf: "jobs_wf cli_kind (sv_jobs sv)" "statuses_ok (sv_jobs sv)"
    using jobs_inv_facts [of opts waiting sv] by simp_all
  have p: "streams_inv (prune opts now sv)"
    by (rule streams_inv_keeps [OF _ prune_keeps wf]) (use assms(2) requested in simp_all)
  have "jb_id job = jid" if "js_get (sv_jobs (prune opts now sv)) jid = Some job" for job
    using keeps_open_facts(1) [OF prune_keeps wf(1)] map_of_SomeD [OF that] by (fastforce simp: jobs_wf_def)
  with jobRequest_outcome [OF requested(3)] p assms(2) requested show ?thesis
    by (auto intro: streams_inv_stream streams_inv_abort)
next
  case (reader_gone l sv waiting)
  with assms(2) show ?thesis by (simp add: streams_inv_cancel)
qed

section \<open>Owners\<close>

text \<open>Where the admissions and the jobs of a state come from: a property of every admission that waits for
  its credential, and a property of the identifier, the owner and the grant of every job.\<close>

definition owners_inv ::
  "(PreparedRun \<Rightarrow> string \<Rightarrow> bool) \<Rightarrow> (string \<Rightarrow> string \<Rightarrow> TaskToolGrant \<Rightarrow> bool) \<Rightarrow> cli_state \<Rightarrow> bool" where
  "owners_inv W J s \<longleftrightarrow>
     (\<forall>(run, owner) \<in> set (fst s). W run owner) \<and>
     (\<forall>(k, j) \<in> set (sv_jobs (snd s)). J k (jb_owner j) (jb_grant j))"

lemma owners_inv_updateJob:
  assumes "owners_inv W J (waiting, sv)" "\<And>j. jb_owner (f j) = jb_owner j \<and> jb_grant (f j) = jb_grant j"
  shows "owners_inv W J (waiting, updateJob jid f sv)"
  using assms by (fastforce simp: owners_inv_def updateJob_def)

lemma owners_inv_streams [simp]: "owners_inv W J (waiting, sv\<lparr>sv_streams := ss\<rparr>) = owners_inv W J (waiting, sv)"
  by (simp add: owners_inv_def)

lemma owners_inv_emit: "owners_inv W J (waiting, sv) \<Longrightarrow> owners_inv W J (waiting, emitEvent jid e sv)"
  by (auto simp: emitEvent_def Let_def intro!: owners_inv_updateJob split: option.splits)

lemma owners_inv_finish:
  "owners_inv W J (waiting, sv) \<Longrightarrow> owners_inv W J (waiting, finish now jid status result e sv)"
  by (auto simp: finish_def Let_def intro!: owners_inv_updateJob owners_inv_emit split: option.splits)

lemma owners_inv_keeps:
  "owners_inv W J (waiting, sv) \<Longrightarrow> keeps_open cli_kind (sv_jobs sv) (sv_jobs sv') \<Longrightarrow> owners_inv W J (waiting, sv')"
  using keeps_open_facts(4) [of cli_kind "sv_jobs sv" "sv_jobs sv'"] by (auto simp: owners_inv_def)

lemma owners_inv_step:
  assumes "jobs_inv opts s" "owners_inv W J s" "cli_job_step opts s s'"
    "\<And>now rq run owner sv'. beginJob opts now rq (snd s) = Some (Inr (run, owner), sv') \<Longrightarrow>
       s' = (fst s @ [(run, owner)], sv') \<Longrightarrow> W run owner"
    "\<And>run owner jid now sv'. (run, owner) \<in> set (fst s) \<Longrightarrow>
       completeJob run owner jid now (snd s) = (JobAccepted jid JobRunning, sv') \<Longrightarrow>
       s' = (remove1 (run, owner) (fst s), sv') \<Longrightarrow> J jid owner (pr_grant run)"
  shows "owners_inv W J s'"
  using assms(3)
proof (cases rule: cli_job_step.cases)
  case (admitted now rq sv run owner sv' waiting)
  with beginJob_outcome [OF admitted(3)] have a: "admit opts now owner sv = Some (True, sv')"
    "W run owner" using assms(4) by auto
  from assms(1) admitted have j: "jobs_inv opts (waiting, sv)" by simp
  from admit_outcome [OF j, of now owner run] a(1) have "keeps_open cli_kind (sv_jobs sv) (sv_jobs sv')"
    by (metis Pair_inject option.inject)
  with owners_inv_keeps [of W J waiting sv sv'] assms(2) admitted a(2) show ?thesis by (simp add: owners_inv_def)
next
  case (turned_away now rq sv response sv' waiting)
  show ?thesis
  proof (cases "sv' = sv")
    case False
    with beginJob_outcome [OF turned_away(3)] obtain owner where a: "admit opts now owner sv = Some (False, sv')" by auto
    from assms(1) turned_away have j: "jobs_inv opts (waiting, sv)" by simp
    from admit_outcome [OF j, of now owner undefined] a have "keeps_open cli_kind (sv_jobs sv) (sv_jobs sv')"
      by (metis Pair_inject option.inject)
    with owners_inv_keeps [of W J waiting sv sv'] assms(2) turned_away show ?thesis by simp
  qed (use turned_away assms(2) in simp)
next
  case (completed run owner waiting jid sv now response sv')
  have w: "\<forall>(run, owner) \<in> set (remove1 (run, owner) waiting). W run owner"
    "\<forall>(k, j) \<in> set (sv_jobs sv). J k (jb_owner j) (jb_grant j)"
    using assms(2) completed(1) set_remove1_subset [of "(run, owner)" waiting] by (auto simp: owners_inv_def)
  have r: "sv_jobs (releaseAdmission owner s) = sv_jobs s" for s by (simp add: releaseAdmission_def Let_def)
  show ?thesis
  proof (cases "credentials run")
    case (Inr env)
    have "J jid owner (pr_grant run)"
      using assms(5) [of run owner jid now sv'] completed Inr by (auto simp: completeJob_def)
    with completed w Inr show ?thesis
      by (auto simp: completeJob_def owners_inv_def r startJob_def newJob_def js_set_new)
  qed (use completed w in \<open>auto simp: completeJob_def owners_inv_def r\<close>)
next
  case (wrote sv jid job event waiting)
  with assms(2) show ?thesis by (simp add: owners_inv_emit)
next
  case (resolved sv jid job waiting now result)
  with assms(2) show ?thesis by (simp add: runResolved_def owners_inv_finish)
next
  case (rejected sv jid job waiting now)
  with assms(2) show ?thesis by (auto simp: runRejected_def Let_def intro!: owners_inv_finish owners_inv_emit)
next
  case (requested now jid action rq sv response sv' waiting)
  from assms(1) requested have wf: "jobs_wf cli_kind (sv_jobs sv)" "statuses_ok (sv_jobs sv)"
    using jobs_inv_facts [of opts waiting sv] by simp_all
  have p: "owners_inv W J (waiting, prune opts now sv)"
    by (rule owners_inv_keeps [OF _ prune_keeps]) (use assms(2) requested in simp)
  with jobRequest_outcome [OF requested(3)] assms(2) requested show ?thesis
    by (auto simp: abortJob_def jobStream_def Let_def intro!: owners_inv_updateJob)
next
  case (reader_gone l sv waiting)
  with assms(2) show ?thesis by (auto simp: cancelStream_def Let_def intro!: owners_inv_updateJob)
qed

text \<open>An admission goes back to the request that began it, and a job to the request that began it and was
  told its identifier, with the steps of the server between them.\<close>

definition begun :: "CreateCliRunHandlerOptions \<Rightarrow> http_request \<Rightarrow> PreparedRun \<Rightarrow> string \<Rightarrow> cli_state \<Rightarrow> bool" where
  "begun opts rq run owner s \<longleftrightarrow>
     (\<exists>now waiting sv sv'. cli_reachable opts (waiting, sv) \<and>
        beginJob opts now rq sv = Some (Inr (run, owner), sv') \<and>
        (cli_job_step opts)\<^sup>*\<^sup>* (waiting @ [(run, owner)], sv') s)"

definition started_by ::
  "CreateCliRunHandlerOptions \<Rightarrow> http_request \<Rightarrow> PreparedRun \<Rightarrow> string \<Rightarrow> string \<Rightarrow> cli_state \<Rightarrow> bool" where
  "started_by opts rq run owner jid s \<longleftrightarrow>
     (\<exists>now waiting sv sv'. begun opts rq run owner (waiting, sv) \<and> (run, owner) \<in> set waiting \<and>
        completeJob run owner jid now sv = (JobAccepted jid JobRunning, sv') \<and>
        (cli_job_step opts)\<^sup>*\<^sup>* (remove1 (run, owner) waiting, sv') s)"

definition origins_inv :: "CreateCliRunHandlerOptions \<Rightarrow> cli_state \<Rightarrow> bool" where
  "origins_inv opts s \<longleftrightarrow> cli_reachable opts s \<and>
     owners_inv (\<lambda>run owner. \<exists>rq. begun opts rq run owner s)
       (\<lambda>jid owner grant. \<exists>rq run. started_by opts rq run owner jid s \<and> pr_grant run = grant) s"

lemma begun_mono: "begun opts rq run owner s \<Longrightarrow> cli_job_step opts s s' \<Longrightarrow> begun opts rq run owner s'"
  unfolding begun_def by (meson rtranclp.rtrancl_into_rtrancl)

lemma started_by_mono: "started_by opts rq run owner jid s \<Longrightarrow> cli_job_step opts s s' \<Longrightarrow> started_by opts rq run owner jid s'"
  unfolding started_by_def by (meson rtranclp.rtrancl_into_rtrancl)

lemma owners_inv_mono:
  assumes "owners_inv W J s" "\<And>run owner. W run owner \<Longrightarrow> W' run owner" "\<And>jid owner grant. J jid owner grant \<Longrightarrow> J' jid owner grant"
  shows "owners_inv W' J' s"
  using assms by (fastforce simp: owners_inv_def)

lemma origins_inv_step:
  assumes "jobs_inv opts s" "origins_inv opts s" "cli_job_step opts s s'"
  shows "origins_inv opts s'"
proof -
  from assms(2) have r: "cli_reachable opts s"
    and o: "owners_inv (\<lambda>run owner. \<exists>rq. begun opts rq run owner s)
       (\<lambda>jid owner grant. \<exists>rq run. started_by opts rq run owner jid s \<and> pr_grant run = grant) s"
    by (simp_all add: origins_inv_def)
  have r': "cli_reachable opts s'" using r assms(3) unfolding cli_reachable_def by (rule rtranclp.rtrancl_into_rtrancl)
  have "owners_inv (\<lambda>run owner. \<exists>rq. begun opts rq run owner s')
       (\<lambda>jid owner grant. \<exists>rq run. started_by opts rq run owner jid s' \<and> pr_grant run = grant) s'"
  proof (rule owners_inv_step [OF assms(1) _ assms(3)])
    show "owners_inv (\<lambda>run owner. \<exists>rq. begun opts rq run owner s')
       (\<lambda>jid owner grant. \<exists>rq run. started_by opts rq run owner jid s' \<and> pr_grant run = grant) s"
      using o by (rule owners_inv_mono) (use assms(3) begun_mono started_by_mono in blast)+
  next
    fix now rq run owner sv'
    assume b: "beginJob opts now rq (snd s) = Some (Inr (run, owner), sv')" and s': "s' = (fst s @ [(run, owner)], sv')"
    from r have "cli_reachable opts (fst s, snd s)" by simp
    with b have "begun opts rq run owner s'" unfolding begun_def s' by blast
    then show "\<exists>rq. begun opts rq run owner s'" by blast
  next
    fix run owner jid now sv'
    assume w: "(run, owner) \<in> set (fst s)" and c: "completeJob run owner jid now (snd s) = (JobAccepted jid JobRunning, sv')"
      and s': "s' = (remove1 (run, owner) (fst s), sv')"
    from o w obtain rq where "begun opts rq run owner (fst s, snd s)" by (auto simp: owners_inv_def)
    with w c have "started_by opts rq run owner jid s'" unfolding started_by_def s' by blast
    then show "\<exists>rq run'. started_by opts rq run' owner jid s' \<and> pr_grant run' = pr_grant run" by blast
  qed
  with r' show ?thesis by (simp add: origins_inv_def)
qed

text \<open>The three together are an invariant of the server.\<close>

definition cli_inv :: "CreateCliRunHandlerOptions \<Rightarrow> cli_state \<Rightarrow> bool" where
  "cli_inv opts s \<longleftrightarrow> jobs_inv opts s \<and> streams_inv (snd s) \<and> origins_inv opts s"

interpretation cli: inductive_invariant initial_cli "cli_job_step opts" "cli_inv opts" for opts
proof
  have "streams_inv (snd initial_cli)" "origins_inv opts initial_cli"
    by (simp_all add: initial_cli_def streams_inv_def owners_inv_def origins_inv_def cli_reachable_def)
  then show "cli_inv opts initial_cli" by (simp add: cli_inv_def jobs_inv_initial)
  show "cli_inv opts s \<Longrightarrow> cli_job_step opts s s' \<Longrightarrow> cli_inv opts s'" for s s'
    by (auto simp: cli_inv_def intro: jobs_inv_step streams_inv_step origins_inv_step)
qed

lemma cli_inv_reachable:
  assumes "cli_reachable opts s"
  shows "jobs_inv opts s" "streams_inv (snd s)" "origins_inv opts s"
  using cli.inv_reachable [of opts s] assms by (simp_all add: cli_reachable_def cli_inv_def)

lemma origin_of_job:
  assumes "cli_reachable opts (waiting, sv)" "js_get (sv_jobs sv) jid = Some job"
  shows "\<exists>starter run. started_by opts starter run (jb_owner job) jid (waiting, sv) \<and> prepare opts starter = Inr run \<and>
    pr_grant run = jb_grant job \<and> taskOwner (pr_identity run) = Some (jb_owner job)"
proof -
  from cli_inv_reachable(3) [OF assms(1)] map_of_SomeD [OF assms(2)] obtain rq run where
    r: "started_by opts rq run (jb_owner job) jid (waiting, sv)" "pr_grant run = jb_grant job"
    by (fastforce simp: origins_inv_def owners_inv_def)
  then obtain t w s0 s1 where "beginJob opts t rq s0 = Some (Inr (run, jb_owner job), s1)"
    by (auto simp: started_by_def begun_def)
  with beginJob_outcome [OF this] r show ?thesis by fastforce
qed

section \<open>Guarantees\<close>

text \<open>C23: whatever requests, outputs and outcomes interleave, the jobs and the admissions together never
  exceed the capacity of the table, and the running jobs and admissions of one owner never exceed its
  share. Admission always returns, and the room it makes is never that of a running job: each of them
  is still there, unchanged.\<close>

theorem job_table_bounded:
  assumes "cli_reachable opts (waiting, sv)"
  shows "length (sv_jobs sv) + length waiting \<le> ho_maxJobs opts \<and>
    (\<forall>owner. runningOf owner (sv_jobs sv) + count (owners waiting) owner \<le> ho_maxRunningJobsPerOwner opts) \<and>
    (\<forall>now owner. \<exists>ok sv'. admit opts now owner sv = Some (ok, sv') \<and>
      (\<forall>jid job. js_get (sv_jobs sv) jid = Some job \<and> jb_status job = JobRunning \<longrightarrow>
        js_get (sv_jobs sv') jid = Some job))"
proof (intro conjI allI)
  note inv = cli_inv_reachable(1) [OF assms]
  note wf = jobs_inv_facts(1) [OF inv] and st = jobs_inv_facts(2) [OF inv]
  have lim: "length (sv_jobs sv) + size (owners waiting) \<le> ho_maxJobs opts"
      "\<And>owner. openOf cli_kind owner (sv_jobs sv) + count (owners waiting) owner \<le> ho_maxRunningJobsPerOwner opts"
    using jobs_inv_facts(3) [OF inv] by (simp_all add: table_inv_def)
  show "length (sv_jobs sv) + length waiting \<le> ho_maxJobs opts" using lim(1) by simp
  show "runningOf owner (sv_jobs sv) + count (owners waiting) owner \<le> ho_maxRunningJobsPerOwner opts" for owner
    unfolding runningOf_open [OF st] by (rule lim(2))
  fix now owner
  obtain ok sv' where a: "admit opts now owner sv = Some (ok, sv')" "keeps_open cli_kind (sv_jobs sv) (sv_jobs sv')"
    by (rule admit_outcome [OF inv, of now owner undefined])
  have "js_get (sv_jobs sv') jid = Some job" if "js_get (sv_jobs sv) jid = Some job" "jb_status job = JobRunning" for jid job
    using js_get_keeps(2) [OF a(2) wf that(1)] st map_of_SomeD [OF that(1)] that(2) by (fastforce simp: statuses_ok_def)
  with a(1) show "\<exists>ok sv'. admit opts now owner sv = Some (ok, sv') \<and>
      (\<forall>jid job. js_get (sv_jobs sv) jid = Some job \<and> jb_status job = JobRunning \<longrightarrow> js_get (sv_jobs sv') jid = Some job)"
    by blast
qed

text \<open>C22: a request about a job gets an answer other than an error only if its bearer is authenticated,
  the task it names (issuer, subject and task) is the owner of that very job, and it holds the grant the
  job runs under. And the owner of a job is the task of the request that started it: that request was
  authenticated as it, was admitted, and was the one told the identifier of the job when it started, in
  the run of the server that leads to the present state. The answer to a cancellation, a report and a
  stream are all covered.\<close>

theorem job_isolated:
  assumes "cli_reachable opts (waiting, sv)" "jobRequest opts now jid action rq sv = (response, sv')"
    "\<forall>e. response \<noteq> ErrorReply e"
  shows "\<exists>token identity job starter run.
    bearerToken rq = Some token \<and> ho_authenticate opts token = Inr identity \<and>
    js_get (sv_jobs sv) jid = Some job \<and> taskOwner identity = Some (jb_owner job) \<and>
    ta_allows (parseTaskToolAuthorization (hi_claims identity) False) (jb_grant job) \<and>
    started_by opts starter run (jb_owner job) jid (waiting, sv) \<and> prepare opts starter = Inr run \<and>
    pr_grant run = jb_grant job \<and> taskOwner (pr_identity run) = Some (jb_owner job) \<and>
    hi_issuer identity = hi_issuer (pr_identity run) \<and> hi_subject identity = hi_subject (pr_identity run)"
proof -
  have wf: "jobs_wf cli_kind (sv_jobs sv)" using cli_inv_reachable(1) [OF assms(1)] by (rule jobs_inv_facts(1))
  obtain identity authorization where a: "authenticateTaskRequest (ho_authenticate opts) rq = Inr (identity, authorization)"
    using assms(2,3) by (cases "authenticateTaskRequest (ho_authenticate opts) rq") (auto simp: jobRequest_def)
  then obtain token where t: "bearerToken rq = Some token" "ho_authenticate opts token = Inr identity"
    "authorization = parseTaskToolAuthorization (hi_claims identity) False"
    by (auto simp: authenticateTaskRequest_Inr)
  obtain job where "fst (jobFor opts now jid identity authorization sv) = Some job"
    using assms(2,3) a by (cases "jobFor opts now jid identity authorization sv"; cases "fst (jobFor opts now jid identity authorization sv)")
      (auto simp: jobRequest_def)
  from jobFor_outcome(2) [OF this] have j: "js_get (sv_jobs (prune opts now sv)) jid = Some job"
    "taskOwner identity = Some (jb_owner job)" "ta_allows authorization (jb_grant job)" by auto
  from j(1) have g: "js_get (sv_jobs sv) jid = Some job" by (rule js_get_keeps(1) [OF prune_keeps wf])
  from origin_of_job [OF assms(1) g] obtain starter run where
    r: "started_by opts starter run (jb_owner job) jid (waiting, sv)" "prepare opts starter = Inr run"
    "pr_grant run = jb_grant job" "taskOwner (pr_identity run) = Some (jb_owner job)" by blast
  show ?thesis
    by (rule exI [of _ token], rule exI [of _ identity], rule exI [of _ job], rule exI [of _ starter], rule exI [of _ run])
      (use t j g r taskOwner_inj [OF j(2) r(4)] in simp)
qed

text \<open>C26: as long as its reader stays, a stream of a job carries the whole output of the job. What was
  written to it, joined the way the job joins its output, is exactly the record of the job; it is open
  exactly while the job runs; and it is closed by an exit event, which is the last and the only one.\<close>

theorem job_streams_complete:
  assumes "cli_reachable opts (waiting, sv)" "i < length (sv_streams sv)" "\<not> sm_cancelled (sv_streams sv ! i)"
  shows "(case js_get (sv_jobs sv) (sm_job (sv_streams sv ! i)) of
      None \<Rightarrow> \<not> sm_open (sv_streams sv ! i)
    | Some job \<Rightarrow> eventLog (sm_written (sv_streams sv ! i)) = jb_events job \<and>
        (sm_open (sv_streams sv ! i) \<longleftrightarrow> jb_status job = JobRunning)) \<and>
    (if sm_open (sv_streams sv ! i) then list_all (\<lambda>e. \<not> isExit e) (sm_written (sv_streams sv ! i))
     else \<exists>es e. sm_written (sv_streams sv ! i) = es @ [e] \<and> isExit e \<and> list_all (\<lambda>e. \<not> isExit e) es)"
proof -
  have ok: "stream_ok (js_get (sv_jobs sv)) i (sv_streams sv ! i)"
    using cli_inv_reachable(2) [OF assms(1)] assms(2) by (simp add: streams_inv_def)
  have "events_ok (sm_open (sv_streams sv ! i)) (sm_written (sv_streams sv ! i))"
    using ok assms(3) by (simp add: stream_ok_def)
  then have "if sm_open (sv_streams sv ! i) then list_all (\<lambda>e. \<not> isExit e) (sm_written (sv_streams sv ! i))
     else \<exists>es e. sm_written (sv_streams sv ! i) = es @ [e] \<and> isExit e \<and> list_all (\<lambda>e. \<not> isExit e) es"
    by (cases "sm_written (sv_streams sv ! i)" rule: rev_cases) (auto simp: events_ok_def split: if_splits)
  with ok assms(3) show ?thesis by (simp add: stream_ok_def running_def split: option.splits)
qed

section \<open>A run of the server\<close>

definition example_owner :: string where
  "example_owner = json_string_array [''https://i'', ''u'', ''r'']"

definition example_job :: Job where
  "example_job =
     \<lparr>jb_id = ''j'', jb_owner = example_owner, jb_grant = pr_grant example_prepared_run, jb_commandClass = ''read'',
      jb_status = JobRunning, jb_createdAt = 1, jb_completedAt = None, jb_result = None, jb_events = [],
      jb_listeners = [0], jb_aborted = False\<rparr>"

definition example_server :: cli_server where
  "example_server =
     \<lparr>sv_jobs = [(''j'', example_job)], sv_admissions = 0, sv_admissionsByOwner = [],
      sv_streams = [\<lparr>sm_job = ''j'', sm_written = [], sm_open = True, sm_cancelled = False\<rparr>]\<rparr>"

lemma example_task_owner: "taskOwner example_identity = Some example_owner"
  by (simp add: taskOwner_def example_identity_def example_token_claims_def TASK_AUTHORITY_CLAIM_def example_owner_def
      trim_def is_space_def)

lemma example_limits: "ho_maxJobs example_cli = 3" "ho_maxRunningJobsPerOwner example_cli = 2"
  by (simp_all add: example_cli_def)

lemma example_run_identity: "pr_identity example_prepared_run = example_identity"
  by (simp add: example_prepared_run_def)

lemma example_started:
  "cli_job_step example_cli initial_cli ([(example_prepared_run, example_owner)],
     \<lparr>sv_jobs = [], sv_admissions = 1, sv_admissionsByOwner = [(example_owner, 1)], sv_streams = []\<rparr>)"
proof -
  have "evict cli_kind 3 0 [] = Some (True, [])" by (subst evict.simps) simp
  then have "beginJob example_cli 1 example_run_request (snd initial_cli) = Some (Inr (example_prepared_run, example_owner),
     \<lparr>sv_jobs = [], sv_admissions = 1, sv_admissionsByOwner = [(example_owner, 1)], sv_streams = []\<rparr>)"
    using example_limits
    by (simp add: beginJob_def example_prepared example_run_identity example_task_owner admit_def admitJob_def initial_cli_def pruneJobs_def
        busyOf_def Let_def)
  from cli_job_step.admitted [OF this, of "[]"] show ?thesis by (simp add: initial_cli_def)
qed

lemma example_accepted:
  "cli_job_step example_cli ([(example_prepared_run, example_owner)],
     \<lparr>sv_jobs = [], sv_admissions = 1, sv_admissionsByOwner = [(example_owner, 1)], sv_streams = []\<rparr>)
   ([], \<lparr>sv_jobs = [(''j'', example_job\<lparr>jb_listeners := []\<rparr>)], sv_admissions = 0, sv_admissionsByOwner = [], sv_streams = []\<rparr>)"
proof -
  let ?sv = "\<lparr>sv_jobs = [], sv_admissions = 1, sv_admissionsByOwner = [(example_owner, 1)], sv_streams = []\<rparr>"
  have "\<not> isl (credentials example_prepared_run)"
    by (simp add: credentials_def example_prepared_run_def example_target_def createKubectlTarget_def example_pack_simps env_required_def
        trim_def is_space_def)
  then obtain env where "credentials example_prepared_run = Inr env" by (cases "credentials example_prepared_run") auto
  then have "completeJob example_prepared_run example_owner ''j'' 1 ?sv = (JobAccepted ''j'' JobRunning,
     \<lparr>sv_jobs = [(''j'', example_job\<lparr>jb_listeners := []\<rparr>)], sv_admissions = 0, sv_admissionsByOwner = [], sv_streams = []\<rparr>)"
    by (simp add: completeJob_def releaseAdmission_def startJob_def newJob_def example_job_def example_prepared_run_def)
  from cli_job_step.completed [OF _ _ _ this, of "[(example_prepared_run, example_owner)]"] show ?thesis by simp
qed

lemma example_stream_request:
  "jobRequest example_cli 2 ''j'' (Some ''stream'') example_run_request
     \<lparr>sv_jobs = [(''j'', example_job\<lparr>jb_listeners := []\<rparr>)], sv_admissions = 0, sv_admissionsByOwner = [], sv_streams = []\<rparr> =
   (EventStream, example_server)"
proof -
  have a: "authenticateTaskRequest (ho_authenticate example_cli) example_run_request =
      Inr (example_identity, parseTaskToolAuthorization (hi_claims example_identity) False)"
    by (simp add: authenticateTaskRequest_def bearerToken_def example_run_request_def example_cli_def example_authenticated)
  show ?thesis
    by (simp add: jobRequest_def a jobFor_def prune_def pruneJobs_def example_task_owner example_job_def example_prepared_run_def
        example_grant_allowed jobStream_def updateJob_def example_server_def Let_def)
qed

lemma example_reachable: "cli_reachable example_cli ([], example_server)"
proof -
  have "cli_job_step example_cli ([],
     \<lparr>sv_jobs = [(''j'', example_job\<lparr>jb_listeners := []\<rparr>)], sv_admissions = 0, sv_admissionsByOwner = [], sv_streams = []\<rparr>)
     ([], example_server)"
    by (rule cli_job_step.requested [OF example_stream_request])
  with example_started example_accepted show ?thesis
    unfolding cli_reachable_def by (meson rtranclp.rtrancl_into_rtrancl rtranclp.rtrancl_refl)
qed

theorem job_table_bounded_witness:
  "runningOf example_owner (sv_jobs example_server) + count (owners []) example_owner \<le> ho_maxRunningJobsPerOwner example_cli"
  using job_table_bounded [OF example_reachable] by blast

theorem job_isolated_witness: "ta_allows (parseTaskToolAuthorization (hi_claims example_identity) False) (jb_grant example_job)"
proof -
  have a: "authenticateTaskRequest (ho_authenticate example_cli) example_run_request =
      Inr (example_identity, parseTaskToolAuthorization (hi_claims example_identity) False)"
    by (simp add: authenticateTaskRequest_def bearerToken_def example_run_request_def example_cli_def example_authenticated)
  have r: "jobRequest example_cli 2 ''j'' None example_run_request example_server = (JobReport (jobView example_job), example_server)"
    by (simp add: jobRequest_def a jobFor_def prune_def pruneJobs_def example_task_owner example_job_def example_prepared_run_def
        example_grant_allowed example_server_def Let_def)
  from job_isolated [OF example_reachable r] show ?thesis
    by (auto simp: example_server_def authenticateTaskRequest_Inr [symmetric] example_cli_def bearerToken_def example_run_request_def
        example_authenticated)
qed

theorem job_streams_complete_witness:
  "eventLog (sm_written (sv_streams example_server ! 0)) = jb_events example_job \<and> sm_open (sv_streams example_server ! 0)"
  using job_streams_complete [OF example_reachable, of 0] by (simp add: example_server_def example_job_def)

end
