(* ===== verification/Ssm.thy ===== *)
theory Ssm
  imports Command_Execution Task_Authorization
begin

text \<open>
  \<open>servers/remote-shell/src/ssm-run-command.ts\<close>: commands on an instance through the AWS command line.
  The command line is a child process run by \<open>executeCli\<close>; what it prints and when it ends are the
  events of that run. The parser of its JSON output is a parameter.
\<close>

section \<open>Data\<close>

definition SSM_DOCUMENT_NAME :: string where "SSM_DOCUMENT_NAME = ''AWS-RunShellScript''"

definition TERMINAL :: "string list" where
  "TERMINAL = [''Success'', ''Cancelled'', ''TimedOut'', ''Failed'', ''Cancelling'']"

text \<open>\<open>SENSITIVE_ENV_NAME\<close>, case-insensitive.\<close>

definition sensitiveEnvName :: "string \<Rightarrow> bool" where
  "sensitiveEnvName name =
     list_ex (\<lambda>w. sublist w (to_lower_case name))
       [''authorization'', ''credential'', ''password'', ''secret'', ''token'', ''access_key'']"

record SsmRunRequest =
  rr_instanceId :: string
  rr_command :: string
  rr_timeoutSeconds :: int

record SsmRunResult =
  sr_exit_code :: rat
  sr_stdout :: string
  sr_stderr :: string
  sr_stdout_bytes :: nat
  sr_stderr_bytes :: nat
  sr_stdout_truncated :: bool
  sr_stderr_truncated :: bool
  sr_duration_ms :: time_ms

record SsmCommandJob =
  sj_commandId :: string
  sj_instanceId :: string
  sj_startedAt :: time_ms
  sj_deadline :: time_ms

datatype SsmRunCommandError = aws_cli_failed | invalid_response | invocation_pending | ssm_timeout

text \<open>A runner answers the arguments of one call: the message of an error, or the output.\<close>

type_synonym aws_runner = "string list \<Rightarrow> string + string"

record ssm_options =
  so_parseJson :: "string \<Rightarrow> json option"
  so_region :: "string option"
  so_outputLimitBytes :: nat
  so_credentialValues :: "string list"
  so_pollIntervalMs :: "time_ms option"

section \<open>The child process\<close>

type_synonym process_env = "(string \<times> string option) list"

definition credentialValues :: "process_env \<Rightarrow> string list" where
  "credentialValues env =
     concat (map (\<lambda>(name, v). case v of
         Some s \<Rightarrow> (if sensitiveEnvName name \<and> length s \<ge> 4 then [s] else []) | None \<Rightarrow> []) env)"

text \<open>The environment of the child: no sensitive variable but those of AWS.\<close>

definition childEnvironment :: "process_env \<Rightarrow> (string \<times> string) list" where
  "childEnvironment env =
     concat (map (\<lambda>(name, v). case v of
         Some s \<Rightarrow> (if \<not> sensitiveEnvName name \<or> prefix ''AWS_'' name then [(name, s)] else []) | None \<Rightarrow> []) env)"

definition awsTimeoutSeconds :: "time_ms \<Rightarrow> int" where
  "awsTimeoutSeconds timeoutMs = max 1 \<lceil>of_int timeoutMs / (1000 :: rat)\<rceil>"

definition int_str :: "int \<Rightarrow> string" where
  "int_str i = (if i < 0 then CHR ''-'' # nat_str (nat (- i)) else nat_str (nat i))"

fun awsReply :: "cli_outcome \<Rightarrow> string + string" where
  "awsReply (Rejected e) = Inl (ce_message e)"
| "awsReply (Resolved r) =
     (if cx_stdout_truncated r \<or> cx_stderr_truncated r then Inl ''aws CLI response exceeded the local size limit''
      else if cx_exit_code r \<noteq> 0
      then Inl (''aws CLI exited with code '' @ int_str (cx_exit_code r) @ '': '' @ cx_stderr r)
      else Inr (cx_stdout r))"

text \<open>\<open>run\<close> of \<open>createAwsCliRunner\<close>, over the events of the child; \<open>None\<close> while the child has not ended.\<close>

definition awsRun :: "process_env \<Rightarrow> nat \<Rightarrow> time_ms \<Rightarrow> cli_event list \<Rightarrow> (string + string) option" where
  "awsRun env maxResponseBytes timeoutMs events =
     (let timeoutSeconds = of_int (awsTimeoutSeconds timeoutMs) in
      case executeCli
          \<lparr>rc_redactValues = credentialValues env, rc_defaultTimeoutSeconds = timeoutSeconds,
           rc_maxTimeoutSeconds = timeoutSeconds, rc_maxOutputBytes = Some maxResponseBytes\<rparr>
          ''read'' (Some timeoutSeconds)
          \<lparr>eo_credentialEnv = [], eo_timeoutMs = None, eo_rejectOnNonZero = False, eo_aborted = False\<rparr> of
        Inl e \<Rightarrow> Some (Inl (ce_message e))
      | Inr run \<Rightarrow> Option.bind (cli_events run events) (\<lambda>r. map_option awsReply (cr_settled r)))"

section \<open>Commands\<close>

definition runJson ::
  "(string \<Rightarrow> json option) \<Rightarrow> aws_runner \<Rightarrow> string list \<Rightarrow> SsmRunCommandError + (string \<times> json) list" where
  "runJson parseJson runner args =
     (case runner args of
        Inl message \<Rightarrow> Inl (if sublist ''InvocationDoesNotExist'' message then invocation_pending else aws_cli_failed)
      | Inr out \<Rightarrow> (case Option.bind (parseJson out) as_record of None \<Rightarrow> Inl invalid_response | Some r \<Rightarrow> Inr r))"

definition regional :: "string list \<Rightarrow> string option \<Rightarrow> string list" where
  "regional args region = (if truthy region then args @ [''--region'', the region] else args)"

definition limitedOutput :: "string \<Rightarrow> nat \<Rightarrow> string \<times> nat \<times> bool" where
  "limitedOutput v limit = (if length v > limit then take limit v else v, length v, length v > limit)"

text \<open>\<open>JSON.stringify({ commands: [command], executionTimeout: [String(timeoutSeconds)] })\<close>.\<close>

definition sendParameters :: "SsmRunRequest \<Rightarrow> string" where
  "sendParameters request =
     ''{'' @ json_string ''commands'' @ '':'' @ json_string_array [rr_command request] @ '','' @
     json_string ''executionTimeout'' @ '':'' @ json_string_array [int_str (rr_timeoutSeconds request)] @ ''}''"

definition sendArgs :: "string option \<Rightarrow> SsmRunRequest \<Rightarrow> string list" where
  "sendArgs region request =
     regional [''ssm'', ''send-command'', ''--instance-ids'', rr_instanceId request, ''--document-name'',
       SSM_DOCUMENT_NAME, ''--parameters'', sendParameters request, ''--output'', ''json'', ''--no-cli-pager''] region"

definition pollArgs :: "string option \<Rightarrow> SsmCommandJob \<Rightarrow> string list" where
  "pollArgs region job =
     regional [''ssm'', ''get-command-invocation'', ''--command-id'', sj_commandId job, ''--instance-id'',
       sj_instanceId job, ''--output'', ''json'', ''--no-cli-pager''] region"

definition cancelArgs :: "string option \<Rightarrow> SsmCommandJob \<Rightarrow> string list" where
  "cancelArgs region job =
     regional [''ssm'', ''cancel-command'', ''--command-id'', sj_commandId job, ''--instance-ids'',
       sj_instanceId job, ''--output'', ''json'', ''--no-cli-pager''] region"

definition ssmStart ::
  "ssm_options \<Rightarrow> aws_runner \<Rightarrow> time_ms \<Rightarrow> SsmRunRequest \<Rightarrow> SsmRunCommandError + SsmCommandJob" where
  "ssmStart opts runner started request =
     (case runJson (so_parseJson opts) runner (sendArgs (so_region opts) request) of
        Inl e \<Rightarrow> Inl e
      | Inr sent \<Rightarrow>
          (case Option.bind (Option.bind (js_get sent ''Command'') as_record)
                  (\<lambda>c. Option.bind (js_get c ''CommandId'') as_string) of
             Some (c # cs) \<Rightarrow>
               Inr \<lparr>sj_commandId = c # cs, sj_instanceId = rr_instanceId request, sj_startedAt = started,
                    sj_deadline = started + rr_timeoutSeconds request * 1000 + 15000\<rparr>
           | _ \<Rightarrow> Inl invalid_response))"

text \<open>The times and the answers that one turn of the loop of \<open>wait\<close> meets: the clock at its test, the
  runner at its call, and the clock when a result is made.\<close>

record poll =
  pl_now :: time_ms
  pl_runner :: aws_runner
  pl_done :: time_ms

definition jsonNumber :: "json option \<Rightarrow> rat option" where
  "jsonNumber v = (case v of Some (JNum n) \<Rightarrow> Some n | _ \<Rightarrow> None)"

definition invocationResult ::
  "ssm_options \<Rightarrow> SsmCommandJob \<Rightarrow> time_ms \<Rightarrow> (string \<times> json) list \<Rightarrow> SsmRunResult option" where
  "invocationResult opts job now invocation =
     (case Option.bind (js_get invocation ''Status'') as_string of
        None \<Rightarrow> None
      | Some status \<Rightarrow>
          (if status \<notin> set TERMINAL then None
           else
             (let content = (\<lambda>name. redact (coalesce (Option.bind (js_get invocation name) as_string) [])
                                      (so_credentialValues opts));
                  (out, outBytes, outCut) = limitedOutput (content ''StandardOutputContent'') (so_outputLimitBytes opts);
                  (err, errBytes, errCut) = limitedOutput (content ''StandardErrorContent'') (so_outputLimitBytes opts) in
              Some \<lparr>sr_exit_code = coalesce (jsonNumber (js_get invocation ''ResponseCode'')) (if status = ''Success'' then 0 else 1),
                    sr_stdout = out, sr_stderr = err, sr_stdout_bytes = outBytes, sr_stderr_bytes = errBytes,
                    sr_stdout_truncated = outCut, sr_stderr_truncated = errCut,
                    sr_duration_ms = max 0 (now - sj_startedAt job)\<rparr>)))"

text \<open>\<open>wait\<close> over the turns of its loop, \<open>None\<close> while it still waits.\<close>

fun ssmWait :: "ssm_options \<Rightarrow> SsmCommandJob \<Rightarrow> poll list \<Rightarrow> (SsmRunCommandError + SsmRunResult) option" where
  "ssmWait opts job [] = None"
| "ssmWait opts job (p # ps) =
     (if pl_now p > sj_deadline job then Some (Inl ssm_timeout)
      else case runJson (so_parseJson opts) (pl_runner p) (pollArgs (so_region opts) job) of
          Inl e \<Rightarrow> (if e \<noteq> invocation_pending then Some (Inl e) else ssmWait opts job ps)
        | Inr invocation \<Rightarrow>
            (case invocationResult opts job (pl_done p) invocation of
               Some r \<Rightarrow> Some (Inr r)
             | None \<Rightarrow> ssmWait opts job ps))"

definition ssmCancel :: "ssm_options \<Rightarrow> aws_runner \<Rightarrow> SsmCommandJob \<Rightarrow> SsmRunCommandError + unit" where
  "ssmCancel opts runner job =
     (case runner (cancelArgs (so_region opts) job) of Inl _ \<Rightarrow> Inl aws_cli_failed | Inr _ \<Rightarrow> Inr ())"

section \<open>The end of a wait\<close>

text \<open>Between two turns the loop sleeps: the clock has moved on by the interval at least.\<close>

definition clock_advances :: "time_ms \<Rightarrow> poll list \<Rightarrow> bool" where
  "clock_advances interval ps \<longleftrightarrow>
     (\<forall>i. Suc i < length ps \<longrightarrow> pl_now (ps ! i) + interval \<le> pl_now (ps ! Suc i))"

lemma clock_advances_Cons:
  "clock_advances interval (p # ps) \<Longrightarrow> clock_advances interval ps \<and> (ps \<noteq> [] \<longrightarrow> pl_now p + interval \<le> pl_now (hd ps))"
  unfolding clock_advances_def by (cases ps) fastforce+

lemma ssmWait_ends:
  assumes "clock_advances interval ps" "interval > 0" "ps \<noteq> []"
    "sj_deadline job < pl_now (hd ps) + interval * int (length ps - 1)"
  shows "ssmWait opts job ps \<noteq> None"
  using assms
proof (induction ps)
  case (Cons p ps)
  show ?case
  proof (cases "pl_now p > sj_deadline job")
    case False
    with Cons.prems have "ps \<noteq> []" by auto
    moreover note c = clock_advances_Cons [OF Cons.prems(1)]
    moreover have "sj_deadline job < pl_now (hd ps) + interval * int (length ps - 1)"
    proof -
      obtain n where n: "length ps = Suc n" using \<open>ps \<noteq> []\<close> by (cases ps) auto
      have "sj_deadline job < pl_now p + interval * (int n + 1)" using Cons.prems(4) n by (simp add: add.commute)
      also have "\<dots> = (pl_now p + interval) + interval * int n" by (simp add: algebra_simps)
      also have "\<dots> \<le> pl_now (hd ps) + interval * int n" using c \<open>ps \<noteq> []\<close> by simp
      finally show ?thesis using n by simp
    qed
    ultimately have "ssmWait opts job ps \<noteq> None" using Cons.IH Cons.prems(2) by blast
    then show ?thesis by (auto split: sum.splits option.splits)
  qed simp
qed simp

text \<open>What a turn learns of the command: its report once the status is final, and no report before.\<close>

definition finalReport :: "ssm_options \<Rightarrow> SsmCommandJob \<Rightarrow> poll \<Rightarrow> (string \<times> json) list option" where
  "finalReport opts job p =
     (case runJson (so_parseJson opts) (pl_runner p) (pollArgs (so_region opts) job) of
        Inl _ \<Rightarrow> None
      | Inr invocation \<Rightarrow>
          (if list_ex (\<lambda>s. js_get invocation ''Status'' = Some (JStr s)) TERMINAL then Some invocation else None))"

text \<open>A stream of a report: the secrets are taken out first, then it is cut.\<close>

definition reportedText :: "ssm_options \<Rightarrow> (string \<times> json) list \<Rightarrow> string \<Rightarrow> string" where
  "reportedText opts invocation name = redact (coalesce (Option.bind (js_get invocation name) as_string) []) (so_credentialValues opts)"

definition resultOf :: "ssm_options \<Rightarrow> SsmCommandJob \<Rightarrow> time_ms \<Rightarrow> (string \<times> json) list \<Rightarrow> SsmRunResult \<Rightarrow> bool" where
  "resultOf opts job now invocation r \<longleftrightarrow>
     (let limit = so_outputLimitBytes opts; out = reportedText opts invocation ''StandardOutputContent'';
          err = reportedText opts invocation ''StandardErrorContent'' in
      sr_stdout r = take limit out \<and> sr_stderr r = take limit err \<and>
      sr_stdout_bytes r = length out \<and> sr_stderr_bytes r = length err \<and>
      sr_stdout_truncated r = (length out > limit) \<and> sr_stderr_truncated r = (length err > limit) \<and>
      sr_exit_code r = (case js_get invocation ''ResponseCode'' of
          Some (JNum n) \<Rightarrow> n | _ \<Rightarrow> (if js_get invocation ''Status'' = Some (JStr ''Success'') then 0 else 1)) \<and>
      sr_duration_ms r = max 0 (now - sj_startedAt job))"

lemma invocationResult_Some:
  assumes "invocationResult opts job now invocation = Some r"
  shows "list_ex (\<lambda>s. js_get invocation ''Status'' = Some (JStr s)) TERMINAL" "resultOf opts job now invocation r"
proof -
  have take: "limitedOutput v n = (take n v, length v, length v > n)" for v n by (simp add: limitedOutput_def)
  obtain s where s: "js_get invocation ''Status'' = Some (JStr s)" "s \<in> set TERMINAL"
    using assms by (auto simp: invocationResult_def split: option.splits if_splits bind_splits)
  then show "list_ex (\<lambda>s. js_get invocation ''Status'' = Some (JStr s)) TERMINAL" by (auto simp: list_ex_iff)
  have c: "coalesce (jsonNumber (js_get invocation ''ResponseCode'')) d =
      (case js_get invocation ''ResponseCode'' of Some (JNum n) \<Rightarrow> n | _ \<Rightarrow> d)" for d
    by (simp add: jsonNumber_def split: option.split json.split)
  from assms s show "resultOf opts job now invocation r"
    by (auto simp: invocationResult_def take resultOf_def reportedText_def c Let_def)
qed

lemma invocationResult_None:
  assumes "invocationResult opts job now invocation = None"
  shows "\<not> list_ex (\<lambda>s. js_get invocation ''Status'' = Some (JStr s)) TERMINAL"
  using assms by (auto simp: invocationResult_def list_ex_iff Let_def split: option.splits if_splits prod.splits)

text \<open>The turn that decides: no turn before it has a final report or is late.\<close>

definition decides :: "ssm_options \<Rightarrow> SsmCommandJob \<Rightarrow> poll list \<Rightarrow> nat \<Rightarrow> bool" where
  "decides opts job ps i \<longleftrightarrow>
     i < length ps \<and> (\<forall>j < i. finalReport opts job (ps ! j) = None \<and> pl_now (ps ! j) \<le> sj_deadline job)"

lemma decides_Cons:
  "finalReport opts job p = None \<Longrightarrow> pl_now p \<le> sj_deadline job \<Longrightarrow> decides opts job ps i \<Longrightarrow> decides opts job (p # ps) (Suc i)"
  by (auto simp: decides_def less_Suc_eq_0_disj)

lemma decides_0: "decides opts job (p # ps) 0"
  by (simp add: decides_def)

text \<open>The outcome of the turn that decides.\<close>

definition outcomeOf :: "ssm_options \<Rightarrow> SsmCommandJob \<Rightarrow> poll \<Rightarrow> (SsmRunCommandError + SsmRunResult) \<Rightarrow> bool" where
  "outcomeOf opts job p outcome \<longleftrightarrow>
     (case outcome of
        Inr r \<Rightarrow> pl_now p \<le> sj_deadline job \<and> (\<exists>invocation. finalReport opts job p = Some invocation \<and> resultOf opts job (pl_done p) invocation r)
      | Inl e \<Rightarrow>
          (if e = ssm_timeout then pl_now p > sj_deadline job
           else e \<noteq> invocation_pending \<and> runJson (so_parseJson opts) (pl_runner p) (pollArgs (so_region opts) job) = Inl e))"

lemma runJson_error: "runJson parseJson runner args = Inl e \<Longrightarrow> e \<noteq> ssm_timeout"
  by (auto simp: runJson_def split: sum.splits option.splits if_splits)

lemma ssmWait_outcome:
  assumes "ssmWait opts job ps = Some outcome"
  shows "\<exists>i. decides opts job ps i \<and> outcomeOf opts job (ps ! i) outcome"
  using assms
proof (induction ps)
  case (Cons p ps)
  let ?j = "runJson (so_parseJson opts) (pl_runner p) (pollArgs (so_region opts) job)"
  have later: ?case if "finalReport opts job p = None" "pl_now p \<le> sj_deadline job" "ssmWait opts job ps = Some outcome"
    using Cons.IH [OF that(3)] decides_Cons [OF that(1,2)] by fastforce
  have now: ?case if "outcomeOf opts job p outcome"
    using that decides_0 [of opts job p ps] by (intro exI [of _ 0]) simp
  show ?case
  proof (cases "pl_now p > sj_deadline job")
    case True
    with Cons.prems show ?thesis by (intro now) (auto simp: outcomeOf_def)
  next
    case time: False
    show ?thesis
    proof (cases ?j)
      case (Inl e)
      show ?thesis
      proof (cases "e = invocation_pending")
        case True
        with Inl time Cons.prems show ?thesis by (intro later) (simp_all add: finalReport_def)
      next
        case False
        with Inl time Cons.prems show ?thesis
          by (intro now) (auto simp: outcomeOf_def dest: runJson_error)
      qed
    next
      case (Inr invocation)
      show ?thesis
      proof (cases "invocationResult opts job (pl_done p) invocation")
        case None
        with Inr time Cons.prems show ?thesis
          by (intro later) (simp_all add: finalReport_def invocationResult_None [OF None])
      next
        case (Some r)
        with Inr time Cons.prems have "outcome = Inr r" by simp
        with Inr time invocationResult_Some [OF Some] show ?thesis by (intro now) (simp add: outcomeOf_def finalReport_def)
      qed
    qed
  qed
qed simp

lemma ssmStart_facts:
  assumes "ssmStart opts runner started request = Inr job"
  shows "sj_instanceId job = rr_instanceId request" "sj_startedAt job = started"
    "sj_deadline job = started + rr_timeoutSeconds request * 1000 + 15000" "sj_commandId job \<noteq> []"
    "\<exists>out. runner (sendArgs (so_region opts) request) = Inr out"
  using assms by (auto simp: ssmStart_def runJson_def split: sum.splits option.splits list.splits)

text \<open>C25: the wait for a command that was started ends. If every sleep takes its interval, at the
  latest after the turns that fit between the start and the deadline, fifteen seconds past the time
  limit of the command, there is an outcome. One turn decides it, and no turn before it had a final
  report. A result is that of the first final report, in time: its standard output and its standard
  error are those reported, with the secrets taken out before they are cut at the limit; the numbers of
  bytes and the marks are those of the redacted texts. A timeout is given only past the deadline, and
  any other error only when the AWS command line failed or answered with something that is not an
  object.\<close>

theorem ssm_wait_settles:
  assumes "ssmStart opts runner started request = Inr job"
    "clock_advances interval ps" "interval > 0" "ps \<noteq> []" "started \<le> pl_now (hd ps)"
    "rr_timeoutSeconds request * 1000 + 15000 < interval * int (length ps - 1)"
  shows "\<exists>outcome i. ssmWait opts job ps = Some outcome \<and> i < length ps \<and>
    (\<forall>j < i. finalReport opts job (ps ! j) = None \<and> pl_now (ps ! j) \<le> started + rr_timeoutSeconds request * 1000 + 15000) \<and>
    (case outcome of
       Inr r \<Rightarrow>
         pl_now (ps ! i) \<le> started + rr_timeoutSeconds request * 1000 + 15000 \<and>
         (\<exists>invocation. finalReport opts job (ps ! i) = Some invocation \<and>
            sr_stdout r = take (so_outputLimitBytes opts) (reportedText opts invocation ''StandardOutputContent'') \<and>
            sr_stderr r = take (so_outputLimitBytes opts) (reportedText opts invocation ''StandardErrorContent'') \<and>
            resultOf opts job (pl_done (ps ! i)) invocation r)
     | Inl e \<Rightarrow>
         (if e = ssm_timeout then pl_now (ps ! i) > started + rr_timeoutSeconds request * 1000 + 15000
          else e \<noteq> invocation_pending \<and>
            runJson (so_parseJson opts) (pl_runner (ps ! i)) (pollArgs (so_region opts) job) = Inl e))"
proof -
  note s = ssmStart_facts [OF assms(1)]
  have "sj_deadline job < pl_now (hd ps) + interval * int (length ps - 1)" using assms(5,6) s(3) by simp
  then obtain outcome where o: "ssmWait opts job ps = Some outcome" using ssmWait_ends [OF assms(2-4)] by blast
  from ssmWait_outcome [OF this] obtain i where i: "decides opts job ps i" "outcomeOf opts job (ps ! i) outcome" by blast
  show ?thesis
  proof (intro exI conjI)
    show "ssmWait opts job ps = Some outcome" by (rule o)
    show "i < length ps" "\<forall>j < i. finalReport opts job (ps ! j) = None \<and> pl_now (ps ! j) \<le> started + rr_timeoutSeconds request * 1000 + 15000"
      using i(1) s(3) by (simp_all add: decides_def)
  qed (use i(2) s(3) in \<open>cases outcome; auto simp: outcomeOf_def resultOf_def Let_def\<close>)
qed

section \<open>A command\<close>

definition example_ssm :: ssm_options where
  "example_ssm =
     \<lparr>so_parseJson = (\<lambda>s. if s = ''sent'' then Some (JObj [(''Command'', JObj [(''CommandId'', JStr ''c'')])])
                         else if s = ''done'' then Some (JObj [(''Status'', JStr ''Success''), (''StandardOutputContent'', JStr ''hello'')])
                         else Some (JObj [(''Status'', JStr ''InProgress'')])),
      so_region = Some ''eu'', so_outputLimitBytes = 4, so_credentialValues = [''hunter2''], so_pollIntervalMs = Some 13000\<rparr>"

definition example_shell_request :: SsmRunRequest where
  "example_shell_request = \<lparr>rr_instanceId = ''i-0123abcd'', rr_command = ''uptime'', rr_timeoutSeconds = 10\<rparr>"

definition example_ssm_job :: SsmCommandJob where
  "example_ssm_job = \<lparr>sj_commandId = ''c'', sj_instanceId = ''i-0123abcd'', sj_startedAt = 0, sj_deadline = 25000\<rparr>"

definition example_polls :: "poll list" where
  "example_polls =
     [\<lparr>pl_now = 0, pl_runner = (\<lambda>args. Inl ''InvocationDoesNotExist''), pl_done = 0\<rparr>,
      \<lparr>pl_now = 13000, pl_runner = (\<lambda>args. Inr ''done''), pl_done = 13000\<rparr>,
      \<lparr>pl_now = 26000, pl_runner = (\<lambda>args. Inr ''later''), pl_done = 26000\<rparr>]"

lemma example_ssm_started: "ssmStart example_ssm (\<lambda>args. Inr ''sent'') 0 example_shell_request = Inr example_ssm_job"
  by (simp add: ssmStart_def runJson_def example_ssm_def example_shell_request_def example_ssm_job_def)

theorem ssm_wait_settles_witness:
  "\<exists>r. ssmWait example_ssm example_ssm_job example_polls = Some (Inr r) \<and>
     sr_stdout r = take 4 (reportedText example_ssm
       [(''Status'', JStr ''Success''), (''StandardOutputContent'', JStr ''hello'')] ''StandardOutputContent'')"
proof -
  let ?inv = "[(''Status'', JStr ''Success''), (''StandardOutputContent'', JStr ''hello'')]"
  have c: "clock_advances 13000 example_polls" by (simp add: clock_advances_def example_polls_def less_Suc_eq)
  have "\<exists>r. ssmWait example_ssm example_ssm_job example_polls = Some (Inr r)"
    by (simp add: example_polls_def example_ssm_job_def example_ssm_def runJson_def sublist_def invocationResult_def TERMINAL_def Let_def
        limitedOutput_def)
  then obtain r where r: "ssmWait example_ssm example_ssm_job example_polls = Some (Inr r)" by blast
  have f: "finalReport example_ssm example_ssm_job (example_polls ! i) = Some inv \<Longrightarrow> i < 3 \<Longrightarrow> inv = ?inv" for i inv
    by (auto simp: finalReport_def example_polls_def example_ssm_def runJson_def TERMINAL_def less_Suc_eq numeral_3_eq_3 split: if_splits)
  from ssm_wait_settles [OF example_ssm_started c] obtain i inv where
    "i < length example_polls" "finalReport example_ssm example_ssm_job (example_polls ! i) = Some inv"
    "sr_stdout r = take (so_outputLimitBytes example_ssm) (reportedText example_ssm inv ''StandardOutputContent'')"
    unfolding r by (auto simp: example_polls_def example_shell_request_def)
  with r f [of i inv] show ?thesis by (simp add: example_polls_def example_ssm_def)
qed

end
