(* ===== verification/Remote_Shell.thy ===== *)
theory Remote_Shell
  imports Cli_Requests Job_Table Ssm
begin

text \<open>
  The remote shell (\<open>servers/remote-shell/src/http.ts\<close> and the limits of \<open>main.ts\<close>): a task runs a command
  on the instance that its claims bind to a role, at once or as a job. The sections between two
  \<open>await\<close>s of the handler are the operations, and the steps below interleave them. The digest of a command
  is a parameter; the time stamp of an audit event is left out.
\<close>

section \<open>Data\<close>

definition REMOTE_SHELL_GRANT :: TaskToolGrant where
  "REMOTE_SHELL_GRANT = \<lparr>tg_provider = ''remote-shell'', tg_resource = ''remote_shell_run'', tg_action = ''write''\<rparr>"

text \<open>\<open>ROLE_PATTERN\<close> and \<open>INSTANCE_ID_PATTERN\<close>.\<close>

definition isRole :: "string \<Rightarrow> bool" where
  "isRole s =
     (case s of [] \<Rightarrow> False
      | c # cs \<Rightarrow> is_lower_alpha c \<and> length cs \<le> 62 \<and>
                  list_all (\<lambda>c. is_lower_alpha c \<or> is_digit c \<or> c = CHR ''-'') cs)"

definition isHex :: "char \<Rightarrow> bool" where
  "isHex c = (is_digit c \<or> c \<in> set ''abcdef'')"

definition isInstanceId :: "string \<Rightarrow> bool" where
  "isInstanceId s = (take 2 s = ''i-'' \<and> list_all isHex (drop 2 s) \<and> length s \<in> {10, 19})"

definition MIN_TIMEOUT_SECONDS :: int where "MIN_TIMEOUT_SECONDS = 10"

datatype audit_status = AuditAllow | AuditDeny | AuditError

record RemoteShellAuditEvent =
  ae_status :: audit_status
  ae_principal :: string
  ae_runtime_uid :: "string option"
  ae_target_role :: "string option"
  ae_command_digest :: "string option"
  ae_error :: "string option"
  ae_exit_code :: "rat option"

record CreateRemoteShellHttpHandlerOptions =
  rs_authenticate :: "string \<Rightarrow> Hop1ValidationError + Hop1Identity"
  rs_parseJson :: "string \<Rightarrow> json option"
  rs_sha256 :: "string \<Rightarrow> string"
  rs_maxTimeoutSeconds :: int
  rs_maxBodyBytes :: nat
  rs_maxCommandBytes :: nat
  rs_jobLimits :: job_limits
  rs_ssm :: ssm_options

record ShellRun =
  sh_identity :: Hop1Identity
  sh_owner :: string
  sh_runtimeUid :: string
  sh_targetRole :: string
  sh_command :: string
  sh_request :: SsmRunRequest

datatype ShellJobStatus = ShellRunning | ShellCancelling | ShellCompleted | ShellFailed | ShellCancelled

record RemoteShellJob =
  rj_id :: string
  rj_owner :: string
  rj_prepared :: ShellRun
  rj_ssm :: SsmCommandJob
  rj_status :: ShellJobStatus
  rj_createdAt :: time_ms
  rj_completedAt :: "time_ms option"
  rj_result :: "SsmRunResult option"

type_synonym shell_server = "RemoteShellJob job_table"

section \<open>Limits of the configuration\<close>

definition isSafeInteger :: "rat \<Rightarrow> bool" where
  "isSafeInteger r = (r \<in> \<int> \<and> \<bar>r\<bar> \<le> 9007199254740991)"

text \<open>\<open>integer\<close>, over \<open>Number\<close>, which is \<open>None\<close> where it is not a finite number.\<close>

definition configInteger ::
  "(string \<Rightarrow> rat option) \<Rightarrow> string option \<Rightarrow> int \<Rightarrow> int \<Rightarrow> int \<Rightarrow> string + int" where
  "configInteger toNumber v fallback low high =
     (let parsed = (case v of None \<Rightarrow> Some (of_int fallback) | Some s \<Rightarrow> toNumber s) in
      case parsed of
        None \<Rightarrow> Inl ''Remote-shell numeric configuration is invalid''
      | Some r \<Rightarrow>
          (if \<not> isSafeInteger r \<or> r < of_int low \<or> r > of_int high
           then Inl ''Remote-shell numeric configuration is invalid'' else Inr \<lfloor>r\<rfloor>))"

record shell_limits =
  sl_maxTimeoutSeconds :: int
  sl_maxOutputBytes :: nat
  sl_maxBodyBytes :: nat
  sl_maxCommandBytes :: nat
  sl_jobLimits :: job_limits

text \<open>The numbers of \<open>loadRemoteShellConfig\<close>, but the port; the errors have one message, so their order
  does not show.\<close>

definition loadShellLimits :: "(string \<Rightarrow> rat option) \<Rightarrow> (string \<Rightarrow> string option) \<Rightarrow> string + shell_limits" where
  "loadShellLimits toNumber env =
     sum_bind (configInteger toNumber (env ''REMOTE_SHELL_MAX_COMMAND_BYTES'') (16 * 1024) 1 (1024 * 1024)) (\<lambda>maxCommandBytes.
     sum_bind (configInteger toNumber (env ''REMOTE_SHELL_MAX_BODY_BYTES'') (17 * 1024) maxCommandBytes (2 * 1024 * 1024)) (\<lambda>maxBodyBytes.
     sum_bind (configInteger toNumber (env ''REMOTE_SHELL_MAX_JOBS'') 64 1 4096) (\<lambda>maxJobs.
     sum_bind (configInteger toNumber (env ''REMOTE_SHELL_MAX_TIMEOUT_SECONDS'') 60 10 3600) (\<lambda>maxTimeoutSeconds.
     sum_bind (configInteger toNumber (env ''REMOTE_SHELL_MAX_OUTPUT_BYTES'') (24 * 1024) 1 (1024 * 1024)) (\<lambda>maxOutputBytes.
     sum_bind (configInteger toNumber (env ''REMOTE_SHELL_MAX_RUNNING_JOBS_PER_OWNER'') 4 1 maxJobs) (\<lambda>perOwner.
     sum_bind (configInteger toNumber (env ''REMOTE_SHELL_JOB_RETENTION_SECONDS'') (30 * 60) 1 86400) (\<lambda>retention.
       Inr \<lparr>sl_maxTimeoutSeconds = maxTimeoutSeconds, sl_maxOutputBytes = nat maxOutputBytes,
            sl_maxBodyBytes = nat maxBodyBytes, sl_maxCommandBytes = nat maxCommandBytes,
            sl_jobLimits = \<lparr>jl_maxJobs = nat maxJobs, jl_maxRunningJobsPerOwner = nat perOwner,
                            jl_retentionSeconds = retention\<rparr>\<rparr>)))))))"

section \<open>Preparation of a run\<close>

text \<open>An error, with the target and the command as far as they are strings.\<close>

definition parseRunRequest ::
  "json \<Rightarrow> int \<Rightarrow> nat \<Rightarrow> (string \<times> string option \<times> string option) + (string \<times> string \<times> int)" where
  "parseRunRequest v maxTimeoutSeconds maxCommandBytes =
     (case as_record v of
        None \<Rightarrow> Inl (''Request body must be an object'', None, None)
      | Some fs \<Rightarrow>
          (let target = Option.bind (js_get fs ''target'') as_string;
               command = Option.bind (js_get fs ''command'') as_string in
           if list_ex (\<lambda>k. k \<notin> {''target'', ''command'', ''timeout_seconds''}) (map fst fs)
           then Inl (''Unsupported argument'', target, command)
           else case target of
               None \<Rightarrow> Inl (''Target must be a platform-defined role'', target, command)
             | Some role \<Rightarrow>
                 (if role = [] \<or> \<not> isRole role
                  then Inl (''Target must be a platform-defined role'', target, command)
                  else case command of
                      None \<Rightarrow> Inl (''Command must be non-empty and within the size limit'', target, None)
                    | Some c \<Rightarrow>
                        (if c = [] \<or> length c > maxCommandBytes
                         then Inl (''Command must be non-empty and within the size limit'', target, None)
                         else
                           (let timeout = (case js_get fs ''timeout_seconds'' of
                                None \<Rightarrow> Some (of_int maxTimeoutSeconds) | Some JNull \<Rightarrow> Some (of_int maxTimeoutSeconds)
                              | Some (JNum n) \<Rightarrow> Some n | Some _ \<Rightarrow> None) in
                            case timeout of
                              None \<Rightarrow> Inl (''Timeout is outside the configured limit'', target, command)
                            | Some n \<Rightarrow>
                                (if \<not> isSafeInteger n \<or> n < of_int MIN_TIMEOUT_SECONDS \<or> n > of_int maxTimeoutSeconds
                                 then Inl (''Timeout is outside the configured limit'', target, command)
                                 else Inr (role, c, \<lfloor>n\<rfloor>)))))))"

definition taskAuthority :: "Hop1Identity \<Rightarrow> (string \<times> json) list option" where
  "taskAuthority identity = Option.bind (js_get (hi_claims identity) TASK_AUTHORITY_CLAIM) as_record"

definition taskRuntimeUid :: "Hop1Identity \<Rightarrow> string option" where
  "taskRuntimeUid identity =
     (case Option.bind (taskAuthority identity) (\<lambda>a. Option.bind (js_get a ''runtime_uid'') as_string) of
        None \<Rightarrow> None
      | Some uid \<Rightarrow> (if trim uid \<noteq> [] then Some (trim uid) else None))"

definition taskRemoteShellTargets :: "Hop1Identity \<Rightarrow> (string, string) jsmap option" where
  "taskRemoteShellTargets identity =
     (case Option.bind (taskAuthority identity) (\<lambda>a. Option.bind (js_get a ''remote_shell_targets'') as_record) of
        None \<Rightarrow> None
      | Some targets \<Rightarrow>
          (if targets = [] \<or>
              list_ex (\<lambda>(role, v). \<not> isRole role \<or> (case v of JStr s \<Rightarrow> \<not> isInstanceId s | _ \<Rightarrow> True)) targets
           then None
           else Some (map (\<lambda>(role, v). (role, case v of JStr s \<Rightarrow> s | _ \<Rightarrow> [])) targets)))"

definition principal :: "Hop1Identity \<Rightarrow> string" where
  "principal identity = hi_issuer identity @ ''#'' @ hi_subject identity"

definition shellAuditEvent ::
  "(string \<Rightarrow> string) \<Rightarrow> audit_status \<Rightarrow> Hop1Identity \<Rightarrow> string option \<Rightarrow> string option \<Rightarrow> rat option \<Rightarrow>
   string option \<Rightarrow> string option \<Rightarrow> RemoteShellAuditEvent" where
  "shellAuditEvent sha256 status identity runtimeUid err exitCode target command =
     \<lparr>ae_status = status, ae_principal = principal identity,
      ae_runtime_uid = (if truthy runtimeUid then runtimeUid else None),
      ae_target_role = (if truthy target then Some (if isRole (the target) then the target else ''invalid'') else None),
      ae_command_digest = (if truthy command then Some (sha256 (the command)) else None),
      ae_error = err, ae_exit_code = exitCode\<rparr>"

definition runEvent ::
  "(string \<Rightarrow> string) \<Rightarrow> audit_status \<Rightarrow> ShellRun \<Rightarrow> rat option \<Rightarrow> RemoteShellAuditEvent" where
  "runEvent sha256 status run exitCode =
     shellAuditEvent sha256 status (sh_identity run) (Some (sh_runtimeUid run))
       (if status = AuditError then Some ''remote_shell_execution_failed'' else None) exitCode
       (Some (sh_targetRole run)) (Some (sh_command run))"

definition shellDenied :: error_response where
  "shellDenied = jsonError 403 ''task_tool_not_approved'' ''Remote shell is not approved for this Task'' []"

definition executionFailed :: error_response where
  "executionFailed = jsonError 502 ''remote_shell_execution_failed'' ''Remote command execution failed'' []"

text \<open>\<open>prepare\<close>: the audit events it emits, and a response or the run.\<close>

definition prepareShell ::
  "CreateRemoteShellHttpHandlerOptions \<Rightarrow> http_request \<Rightarrow> RemoteShellAuditEvent list \<times> (error_response + ShellRun)" where
  "prepareShell opts rq =
     (case authenticateTaskRequest (rs_authenticate opts) rq of
        Inl (_, response) \<Rightarrow> ([], Inl response)
      | Inr (identity, authorization) \<Rightarrow>
          (let runtimeUid = taskRuntimeUid identity;
               deny = (\<lambda>err target command. shellAuditEvent (rs_sha256 opts) AuditDeny identity runtimeUid (Some err) None target command) in
           case (runtimeUid, taskOwner identity) of
             (Some uid, Some owner) \<Rightarrow>
               (if \<not> ta_restricted authorization \<or> \<not> ta_allows authorization REMOTE_SHELL_GRANT
                then ([deny ''task_tool_not_approved'' None None], Inl shellDenied)
                else case readBoundedJson (rs_parseJson opts) (rs_maxBodyBytes opts) rq of
                    Inl response \<Rightarrow> ([], Inl response)
                  | Inr body \<Rightarrow>
                      (case parseRunRequest body (rs_maxTimeoutSeconds opts) (rs_maxCommandBytes opts) of
                         Inl (err, target, command) \<Rightarrow>
                           ([deny err target command], Inl (jsonError 400 ''remote_shell_invalid_arguments'' err []))
                       | Inr (role, command, timeoutSeconds) \<Rightarrow>
                           (case Option.bind (taskRemoteShellTargets identity) (\<lambda>ts. js_get ts role) of
                              Some instanceId \<Rightarrow>
                                (if isInstanceId instanceId
                                 then ([], Inr \<lparr>sh_identity = identity, sh_owner = owner, sh_runtimeUid = uid,
                                                sh_targetRole = role, sh_command = command,
                                                sh_request = \<lparr>rr_instanceId = instanceId, rr_command = command,
                                                              rr_timeoutSeconds = timeoutSeconds\<rparr>\<rparr>)
                                 else ([deny ''target_not_bound'' (Some role) (Some command)],
                                       Inl (jsonError 403 ''remote_shell_target_not_bound'' ''Target role is not bound'' [])))
                            | None \<Rightarrow>
                                ([deny ''target_not_bound'' (Some role) (Some command)],
                                 Inl (jsonError 403 ''remote_shell_target_not_bound'' ''Target role is not bound'' [])))))
           | _ \<Rightarrow> ([deny ''task_tool_not_approved'' None None], Inl shellDenied)))"

section \<open>The table of jobs\<close>

definition shell_kind :: "RemoteShellJob job_kind" where
  "shell_kind =
     \<lparr>jk_id = rj_id, jk_owner = rj_owner,
      jk_busy = (\<lambda>j. rj_status j = ShellRunning \<or> rj_status j = ShellCancelling), jk_completedAt = rj_completedAt\<rparr>"

definition pruneShell :: "CreateRemoteShellHttpHandlerOptions \<Rightarrow> time_ms \<Rightarrow> shell_server \<Rightarrow> shell_server" where
  "pruneShell opts = pruneJobs shell_kind (rs_jobLimits opts)"

definition admitShell ::
  "CreateRemoteShellHttpHandlerOptions \<Rightarrow> time_ms \<Rightarrow> string \<Rightarrow> shell_server \<Rightarrow> (bool \<times> shell_server) option" where
  "admitShell opts = admitJob shell_kind (rs_jobLimits opts)"

definition completeShell ::
  "CreateRemoteShellHttpHandlerOptions \<Rightarrow> time_ms \<Rightarrow> string \<Rightarrow> SsmRunResult \<Rightarrow> shell_server \<Rightarrow>
   RemoteShellAuditEvent list \<times> shell_server" where
  "completeShell opts now jid result sv =
     (case js_get (sv_jobs sv) jid of
        None \<Rightarrow> ([], sv)
      | Some job \<Rightarrow>
          (if rj_status job \<noteq> ShellRunning \<and> rj_status job \<noteq> ShellCancelling then ([], sv)
           else
             ([runEvent (rs_sha256 opts) AuditAllow (rj_prepared job) (Some (sr_exit_code result))],
              updateJob jid (\<lambda>j. j\<lparr>rj_status := (if rj_status j = ShellCancelling then ShellCancelled else ShellCompleted),
                                  rj_result := Some result, rj_completedAt := Some now\<rparr>) sv)))"

definition failShell ::
  "CreateRemoteShellHttpHandlerOptions \<Rightarrow> time_ms \<Rightarrow> string \<Rightarrow> shell_server \<Rightarrow>
   RemoteShellAuditEvent list \<times> shell_server" where
  "failShell opts now jid sv =
     (case js_get (sv_jobs sv) jid of
        None \<Rightarrow> ([], sv)
      | Some job \<Rightarrow>
          (if rj_status job \<noteq> ShellRunning \<and> rj_status job \<noteq> ShellCancelling then ([], sv)
           else
             ([runEvent (rs_sha256 opts) AuditError (rj_prepared job) None],
              updateJob jid (\<lambda>j. j\<lparr>rj_status := (if rj_status j = ShellCancelling then ShellCancelled else ShellFailed),
                                  rj_completedAt := Some now\<rparr>) sv)))"

definition findJob ::
  "CreateRemoteShellHttpHandlerOptions \<Rightarrow> time_ms \<Rightarrow> string \<Rightarrow> Hop1Identity \<Rightarrow> TaskToolAuthorization \<Rightarrow> shell_server \<Rightarrow>
   RemoteShellJob option \<times> shell_server" where
  "findJob opts now jid identity authorization sv =
     (let sv = pruneShell opts now sv in
      case (taskOwner identity, js_get (sv_jobs sv) jid) of
        (Some owner, Some job) \<Rightarrow>
          (if ta_restricted authorization \<and> ta_allows authorization REMOTE_SHELL_GRANT \<and> rj_owner job = owner
           then (Some job, sv) else (None, sv))
      | _ \<Rightarrow> (None, sv))"

section \<open>The handler\<close>

record shell_job_view =
  sw_job_id :: string
  sw_status :: ShellJobStatus
  sw_created_at :: time_ms
  sw_completed :: "(time_ms \<times> (rat \<times> string \<times> string) option) option"

definition publicResult :: "SsmRunResult \<Rightarrow> rat \<times> string \<times> string" where
  "publicResult r = (sr_exit_code r, sr_stdout r, sr_stderr r)"

definition shellJobView :: "RemoteShellJob \<Rightarrow> shell_job_view" where
  "shellJobView job =
     \<lparr>sw_job_id = rj_id job, sw_status = rj_status job, sw_created_at = rj_createdAt job,
      sw_completed = map_option (\<lambda>t. (t, map_option publicResult (rj_result job))) (rj_completedAt job)\<rparr>"

datatype shell_event = ShellStdout string | ShellStderr string | ShellExit rat bool

definition resultNdjson :: "SsmRunResult \<Rightarrow> shell_event list" where
  "resultNdjson r =
     (if sr_stdout r \<noteq> [] then [ShellStdout (sr_stdout r)] else []) @
     (if sr_stderr r \<noteq> [] then [ShellStderr (sr_stderr r)] else []) @
     [ShellExit (sr_exit_code r) (sr_stdout_truncated r \<or> sr_stderr_truncated r)]"

datatype shell_response =
  ShellError error_response | ShellAccepted string ShellJobStatus | ShellReport shell_job_view
| ShellResult "rat \<times> string \<times> string" | ShellEvents "shell_event list"

datatype shell_route = ShellRunRoute bool | ShellJobsRoute | ShellJobRoute string bool | ShellRefused error_response

definition shellRoute :: "http_request \<Rightarrow> shell_route" where
  "shellRoute rq =
     (let notAllowed = (\<lambda>m. jsonError 405 ''method_not_allowed'' (m @ '' is required'') []);
          missing = jsonError 404 ''not_found'' ''Not found'' [];
          job = (\<lambda>jid cancelling.
            let expected = (if cancelling then ''POST'' else ''GET'') in
            if jid = [] then ShellRefused missing
            else if rq_method rq \<noteq> expected then ShellRefused (notAllowed expected) else ShellJobRoute jid cancelling) in
      if rq_path rq = ''/shell/run''
      then (if rq_method rq \<noteq> ''POST'' then ShellRefused (notAllowed ''POST'')
            else case rq_wait rq of
                None \<Rightarrow> ShellRunRoute False
              | Some w \<Rightarrow> (if w = ''full'' then ShellRunRoute True
                          else ShellRefused (jsonError 400 ''invalid_request'' ''Only wait=full is supported'' [])))
      else if rq_path rq = ''/shell/jobs''
      then (if rq_method rq \<noteq> ''POST'' then ShellRefused (notAllowed ''POST'') else ShellJobsRoute)
      else case split_on CHR ''/'' (rq_path rq) of
          [a, b, c, jid] \<Rightarrow> (if [a, b, c] = [[], ''shell'', ''jobs''] then job jid False else ShellRefused missing)
        | [a, b, c, jid, action] \<Rightarrow>
            (if [a, b, c] = [[], ''shell'', ''jobs''] \<and> action = ''cancel'' then job jid True else ShellRefused missing)
        | _ \<Rightarrow> ShellRefused missing)"

text \<open>\<open>/shell/run\<close>, once the command has an outcome.\<close>

definition runShell ::
  "CreateRemoteShellHttpHandlerOptions \<Rightarrow> bool \<Rightarrow> ShellRun \<Rightarrow> SsmRunCommandError + SsmRunResult \<Rightarrow>
   RemoteShellAuditEvent list \<times> shell_response" where
  "runShell opts full run outcome =
     (case outcome of
        Inl _ \<Rightarrow> ([runEvent (rs_sha256 opts) AuditError run None], ShellError executionFailed)
      | Inr r \<Rightarrow>
          ([runEvent (rs_sha256 opts) AuditAllow run (Some (sr_exit_code r))],
           if full then ShellResult (publicResult r) else ShellEvents (resultNdjson r)))"

text \<open>A new job up to the call of \<open>ssm.start\<close>.\<close>

definition beginShellJob ::
  "CreateRemoteShellHttpHandlerOptions \<Rightarrow> time_ms \<Rightarrow> http_request \<Rightarrow> shell_server \<Rightarrow>
   (RemoteShellAuditEvent list \<times> (error_response + ShellRun) \<times> shell_server) option" where
  "beginShellJob opts now rq sv =
     (case prepareShell opts rq of
        (events, Inl response) \<Rightarrow> Some (events, Inl response, sv)
      | (events, Inr run) \<Rightarrow>
          (case admitShell opts now (sh_owner run) sv of
             None \<Rightarrow> None
           | Some (False, sv) \<Rightarrow>
               Some (events, Inl (jsonError 503 ''job_capacity_exceeded'' ''Remote shell job capacity is exhausted'' []), sv)
           | Some (True, sv) \<Rightarrow> Some (events, Inr run, sv)))"

definition newShellJob :: "ShellRun \<times> SsmCommandJob \<Rightarrow> string \<Rightarrow> string \<Rightarrow> time_ms \<Rightarrow> RemoteShellJob" where
  "newShellJob p owner jid now =
     \<lparr>rj_id = jid, rj_owner = owner, rj_prepared = fst p, rj_ssm = snd p, rj_status = ShellRunning, rj_createdAt = now,
      rj_completedAt = None, rj_result = None\<rparr>"

text \<open>The rest of it, once \<open>ssm.start\<close> has returned; the admission is released on every path.\<close>

definition startShellJob ::
  "CreateRemoteShellHttpHandlerOptions \<Rightarrow> ShellRun \<Rightarrow> SsmRunCommandError + SsmCommandJob \<Rightarrow> time_ms \<Rightarrow> shell_server \<Rightarrow>
   RemoteShellAuditEvent list \<times> shell_response \<times> shell_server" where
  "startShellJob opts run started now sv =
     (case started of
        Inl _ \<Rightarrow> ([runEvent (rs_sha256 opts) AuditError run None], ShellError executionFailed, releaseAdmission (sh_owner run) sv)
      | Inr ssm \<Rightarrow>
          (if js_get (sv_jobs sv) (sj_commandId ssm) \<noteq> None
           then ([], ShellError executionFailed, releaseAdmission (sh_owner run) sv)
           else ([], ShellAccepted (sj_commandId ssm) ShellRunning,
                 releaseAdmission (sh_owner run)
                   (sv\<lparr>sv_jobs := js_set (sj_commandId ssm) (newShellJob (run, ssm) (sh_owner run) (sj_commandId ssm) now)
                                   (sv_jobs sv)\<rparr>))))"

text \<open>A request about a job: an answer, or a job whose cancellation is now asked for.\<close>

definition shellJobRequest ::
  "CreateRemoteShellHttpHandlerOptions \<Rightarrow> time_ms \<Rightarrow> string \<Rightarrow> bool \<Rightarrow> http_request \<Rightarrow> shell_server \<Rightarrow>
   (shell_response + RemoteShellJob) \<times> shell_server" where
  "shellJobRequest opts now jid cancelling rq sv =
     (case authenticateTaskRequest (rs_authenticate opts) rq of
        Inl (_, response) \<Rightarrow> (Inl (ShellError response), sv)
      | Inr (identity, authorization) \<Rightarrow>
          (case findJob opts now jid identity authorization sv of
             (None, sv) \<Rightarrow> (Inl (ShellError (jsonError 404 ''not_found'' ''Not found'' [])), sv)
           | (Some job, sv) \<Rightarrow>
               (if cancelling
                then (if rj_status job = ShellRunning then (Inr job, sv) else (Inl (ShellAccepted (rj_id job) (rj_status job)), sv))
                else (Inl (ShellReport (shellJobView job)), sv))))"

text \<open>The rest of a cancellation, once \<open>ssm.cancel\<close> has returned.\<close>

definition cancelledShellJob ::
  "string \<Rightarrow> SsmRunCommandError + unit \<Rightarrow> shell_server \<Rightarrow> shell_response \<times> shell_server" where
  "cancelledShellJob jid outcome sv =
     (case outcome of
        Inl _ \<Rightarrow> (ShellError executionFailed, sv)
      | Inr _ \<Rightarrow> (ShellAccepted jid ShellCancelling, updateJob jid (\<lambda>j. j\<lparr>rj_status := ShellCancelling\<rparr>) sv))"

section \<open>Steps of the server\<close>

text \<open>The runs that have been admitted and wait for \<open>ssm.start\<close>, the jobs whose cancellation is under way,
  and the table. A new command has an identifier that no job under cancellation has. The wait for
  a job is under way exactly as long as the job has not completed.\<close>

record shell_state =
  ss_waiting :: "ShellRun list"
  ss_cancels :: "RemoteShellJob list"
  ss_server :: shell_server

inductive shell_step :: "CreateRemoteShellHttpHandlerOptions \<Rightarrow> shell_state \<Rightarrow> shell_state \<Rightarrow> bool" for opts where
  admitted: "beginShellJob opts now rq (ss_server s) = Some (events, Inr run, sv) \<Longrightarrow>
    shell_step opts s (s\<lparr>ss_waiting := ss_waiting s @ [run], ss_server := sv\<rparr>)"
| turned_away: "beginShellJob opts now rq (ss_server s) = Some (events, Inl response, sv) \<Longrightarrow>
    shell_step opts s (s\<lparr>ss_server := sv\<rparr>)"
| started: "run \<in> set (ss_waiting s) \<Longrightarrow> reply = ssmStart (rs_ssm opts) runner before (sh_request run) \<Longrightarrow>
    (\<forall>ssm. reply = Inr ssm \<longrightarrow> sj_commandId ssm \<notin> rj_id ` set (ss_cancels s)) \<Longrightarrow>
    startShellJob opts run reply now (ss_server s) = (events, response, sv) \<Longrightarrow>
    shell_step opts s (s\<lparr>ss_waiting := remove1 run (ss_waiting s), ss_server := sv\<rparr>)"
| resolved: "js_get (sv_jobs (ss_server s)) jid = Some job \<Longrightarrow> rj_completedAt job = None \<Longrightarrow>
    ssmWait (rs_ssm opts) (rj_ssm job) polls = Some (Inr result) \<Longrightarrow>
    completeShell opts now jid result (ss_server s) = (events, sv) \<Longrightarrow>
    shell_step opts s (s\<lparr>ss_server := sv\<rparr>)"
| rejected: "js_get (sv_jobs (ss_server s)) jid = Some job \<Longrightarrow> rj_completedAt job = None \<Longrightarrow>
    ssmWait (rs_ssm opts) (rj_ssm job) polls = Some (Inl e) \<Longrightarrow>
    failShell opts now jid (ss_server s) = (events, sv) \<Longrightarrow>
    shell_step opts s (s\<lparr>ss_server := sv\<rparr>)"
| answered: "shellJobRequest opts now jid cancelling rq (ss_server s) = (Inl response, sv) \<Longrightarrow>
    shell_step opts s (s\<lparr>ss_server := sv\<rparr>)"
| cancel_begins: "shellJobRequest opts now jid cancelling rq (ss_server s) = (Inr job, sv) \<Longrightarrow>
    shell_step opts s (s\<lparr>ss_cancels := ss_cancels s @ [job], ss_server := sv\<rparr>)"
| cancel_ends: "job \<in> set (ss_cancels s) \<Longrightarrow>
    cancelledShellJob (rj_id job) (ssmCancel (rs_ssm opts) runner (rj_ssm job)) (ss_server s) = (response, sv) \<Longrightarrow>
    shell_step opts s (s\<lparr>ss_cancels := remove1 job (ss_cancels s), ss_server := sv\<rparr>)"

inductive_cases shell_stepE: "shell_step opts s s'"

definition initial_shell :: shell_state where
  "initial_shell =
     \<lparr>ss_waiting = [], ss_cancels = [],
      ss_server = \<lparr>sv_jobs = [], sv_admissions = 0, sv_admissionsByOwner = []\<rparr>\<rparr>"

definition shell_reachable :: "CreateRemoteShellHttpHandlerOptions \<Rightarrow> shell_state \<Rightarrow> bool" where
  "shell_reachable opts s \<longleftrightarrow> (shell_step opts)\<^sup>*\<^sup>* initial_shell s"

end
