(* ===== verification/Remote_Shell_Props.thy ===== *)
theory Remote_Shell_Props
  imports Remote_Shell
begin

text \<open>
  Guarantees of the remote shell: where a command may run, the limits of its table of jobs, who sees a job,
  and what a late cancellation does to a job that has completed.
\<close>

section \<open>Preparation\<close>

lemma rat_floor_bounds:
  assumes "isSafeInteger n" "of_int a \<le> n" "n \<le> of_int b"
  shows "a \<le> \<lfloor>n\<rfloor> \<and> \<lfloor>n\<rfloor> \<le> b"
  using assms by (auto simp: isSafeInteger_def le_floor_iff floor_le_iff elim!: Ints_cases)

lemma parseRunRequest_Inr:
  assumes "parseRunRequest v maxTimeout maxBytes = Inr (role, command, timeout)"
  shows "isRole role \<and> command \<noteq> [] \<and> length command \<le> maxBytes \<and> MIN_TIMEOUT_SECONDS \<le> timeout \<and> timeout \<le> maxTimeout"
  using assms rat_floor_bounds
  by (auto simp: parseRunRequest_def Let_def not_less split: option.splits if_splits json.splits)

lemma taskRemoteShellTargets_Some:
  assumes "taskRemoteShellTargets identity = Some ts" "js_get ts role = Some i"
  shows "\<exists>authority targets. js_get (hi_claims identity) TASK_AUTHORITY_CLAIM = Some (JObj authority) \<and>
    js_get authority ''remote_shell_targets'' = Some (JObj targets) \<and> js_get targets role = Some (JStr i) \<and>
    isRole role \<and> isInstanceId i"
proof -
  from assms(1) obtain authority targets where a:
    "js_get (hi_claims identity) TASK_AUTHORITY_CLAIM = Some (JObj authority)"
    "js_get authority ''remote_shell_targets'' = Some (JObj targets)"
    and ok: "\<not> list_ex (\<lambda>(role, v). \<not> isRole role \<or> (case v of JStr s \<Rightarrow> \<not> isInstanceId s | _ \<Rightarrow> True)) targets"
    and ts: "ts = map (\<lambda>(role, v). (role, case v of JStr s \<Rightarrow> s | _ \<Rightarrow> [])) targets"
    by (auto simp: taskRemoteShellTargets_def taskAuthority_def split: option.splits if_splits bind_splits)
  have "\<exists>v. js_get targets role = Some v \<and> i = (case v of JStr s \<Rightarrow> s | _ \<Rightarrow> [])"
    using assms(2) unfolding ts by (auto simp: map_of_map)
  then obtain v where v: "js_get targets role = Some v" "i = (case v of JStr s \<Rightarrow> s | _ \<Rightarrow> [])" by blast
  with ok map_of_SomeD [OF v(1)] have "isRole role" "v = JStr i" "isInstanceId i"
    by (auto simp: list_ex_iff split: json.splits)
  moreover have "js_get targets role = Some (JStr i)" using v(1) \<open>v = JStr i\<close> by simp
  ultimately show ?thesis using a by blast
qed

definition bound_run :: "CreateRemoteShellHttpHandlerOptions \<Rightarrow> http_request \<Rightarrow> ShellRun \<Rightarrow> bool" where
  "bound_run opts rq run \<longleftrightarrow>
     (\<exists>token authority targets.
        bearerToken rq = Some token \<and> rs_authenticate opts token = Inr (sh_identity run) \<and>
        ta_restricted (parseTaskToolAuthorization (hi_claims (sh_identity run)) False) \<and>
        ta_allows (parseTaskToolAuthorization (hi_claims (sh_identity run)) False) REMOTE_SHELL_GRANT \<and>
        taskOwner (sh_identity run) = Some (sh_owner run) \<and>
        js_get (hi_claims (sh_identity run)) TASK_AUTHORITY_CLAIM = Some (JObj authority) \<and>
        js_get authority ''remote_shell_targets'' = Some (JObj targets) \<and>
        js_get targets (sh_targetRole run) = Some (JStr (rr_instanceId (sh_request run)))) \<and>
     isRole (sh_targetRole run) \<and> isInstanceId (rr_instanceId (sh_request run)) \<and>
     rr_command (sh_request run) = sh_command run \<and> sh_command run \<noteq> [] \<and>
     length (sh_command run) \<le> rs_maxCommandBytes opts \<and>
     MIN_TIMEOUT_SECONDS \<le> rr_timeoutSeconds (sh_request run) \<and>
     rr_timeoutSeconds (sh_request run) \<le> rs_maxTimeoutSeconds opts"

lemma prepareShell_bound:
  assumes "prepareShell opts rq = (events, Inr run)"
  shows "bound_run opts rq run"
proof -
  from assms obtain identity authorization where a:
    "authenticateTaskRequest (rs_authenticate opts) rq = Inr (identity, authorization)"
    by (cases "authenticateTaskRequest (rs_authenticate opts) rq") (auto simp: prepareShell_def)
  then obtain token where t: "bearerToken rq = Some token" "rs_authenticate opts token = Inr identity"
    "authorization = parseTaskToolAuthorization (hi_claims identity) False"
    by (auto simp: authenticateTaskRequest_Inr)
  from assms a obtain uid owner where u: "taskRuntimeUid identity = Some uid" "taskOwner identity = Some owner"
    by (cases "taskRuntimeUid identity"; cases "taskOwner identity") (auto simp: prepareShell_def Let_def)
  with assms a have g: "ta_restricted authorization" "ta_allows authorization REMOTE_SHELL_GRANT"
    by (auto simp: prepareShell_def Let_def split: if_splits)
  from assms a u g obtain body where b: "readBoundedJson (rs_parseJson opts) (rs_maxBodyBytes opts) rq = Inr body"
    by (cases "readBoundedJson (rs_parseJson opts) (rs_maxBodyBytes opts) rq") (auto simp: prepareShell_def Let_def)
  with assms a u g obtain role command timeout where
    p: "parseRunRequest body (rs_maxTimeoutSeconds opts) (rs_maxCommandBytes opts) = Inr (role, command, timeout)"
    by (cases "parseRunRequest body (rs_maxTimeoutSeconds opts) (rs_maxCommandBytes opts)")
      (auto simp: prepareShell_def Let_def)
  with assms a u g b obtain ts i where ts: "taskRemoteShellTargets identity = Some ts" "js_get ts role = Some i"
    and run: "run = \<lparr>sh_identity = identity, sh_owner = owner, sh_runtimeUid = uid, sh_targetRole = role,
      sh_command = command, sh_request = \<lparr>rr_instanceId = i, rr_command = command, rr_timeoutSeconds = timeout\<rparr>\<rparr>"
    by (auto simp: prepareShell_def Let_def split: option.splits if_splits bind_splits)
  note parseRunRequest_Inr [OF p]
  moreover from taskRemoteShellTargets_Some [OF ts] obtain authority targets where
    "js_get (hi_claims identity) TASK_AUTHORITY_CLAIM = Some (JObj authority)"
    "js_get authority ''remote_shell_targets'' = Some (JObj targets)" "js_get targets role = Some (JStr i)"
    "isInstanceId i" by blast
  ultimately show ?thesis
    unfolding bound_run_def run using t u(2) g by (auto intro!: exI [of _ token])
qed

section \<open>The table\<close>

lemma shell_kind_simps [simp]:
  "jk_id shell_kind = rj_id" "jk_owner shell_kind = rj_owner" "jk_completedAt shell_kind = rj_completedAt"
  "jk_busy shell_kind j \<longleftrightarrow> rj_status j = ShellRunning \<or> rj_status j = ShellCancelling"
  by (simp_all add: shell_kind_def)

interpretation shell_jobs: job_server shell_kind newShellJob
  by unfold_locales (simp_all add: newShellJob_def)

definition runs_ok :: "CreateRemoteShellHttpHandlerOptions \<Rightarrow> shell_state \<Rightarrow> bool" where
  "runs_ok opts s \<longleftrightarrow>
     (\<forall>run \<in> set (ss_waiting s). \<exists>rq. bound_run opts rq run) \<and>
     (\<forall>(k, j) \<in> set (sv_jobs (ss_server s)).
        (\<exists>rq. bound_run opts rq (rj_prepared j)) \<and> rj_owner j = sh_owner (rj_prepared j) \<and>
        sj_instanceId (rj_ssm j) = rr_instanceId (sh_request (rj_prepared j)) \<and> sj_commandId (rj_ssm j) = k)"

definition shell_inv :: "CreateRemoteShellHttpHandlerOptions \<Rightarrow> shell_state \<Rightarrow> bool" where
  "shell_inv opts s \<longleftrightarrow>
     table_inv shell_kind (rs_jobLimits opts) (mset (map sh_owner (ss_waiting s))) (ss_server s) \<and> runs_ok opts s"

lemma runs_ok_keeps:
  "runs_ok opts s \<Longrightarrow> keeps_open shell_kind (sv_jobs (ss_server s)) (sv_jobs sv) \<Longrightarrow> runs_ok opts (s\<lparr>ss_server := sv\<rparr>)"
  unfolding runs_ok_def by (auto dest!: keeps_open_facts(4))

lemma runs_ok_update:
  assumes "runs_ok opts s" "\<And>j. rj_prepared (f j) = rj_prepared j \<and> rj_owner (f j) = rj_owner j \<and> rj_ssm (f j) = rj_ssm j"
  shows "runs_ok opts (s\<lparr>ss_server := updateJob jid f (ss_server s)\<rparr>)"
  using assms unfolding runs_ok_def updateJob_def by fastforce

lemma shell_inv_update:
  assumes "shell_inv opts s" "job_update shell_kind f"
    "\<And>j. rj_prepared (f j) = rj_prepared j \<and> rj_owner (f j) = rj_owner j \<and> rj_ssm (f j) = rj_ssm j"
  shows "shell_inv opts (s\<lparr>ss_server := updateJob jid f (ss_server s)\<rparr>)"
  using assms(1) runs_ok_update [OF _ assms(3)] table_inv_update [OF _ assms(2)] by (auto simp: shell_inv_def)

lemma shell_inv_prune: "shell_inv opts s \<Longrightarrow> shell_inv opts (s\<lparr>ss_server := pruneShell opts now (ss_server s)\<rparr>)"
  by (auto simp: shell_inv_def pruneShell_def intro: table_inv_prune runs_ok_keeps pruneJobs_keeps)

lemma shell_inv_self [simp]: "shell_inv opts (s\<lparr>ss_server := ss_server s\<rparr>) = shell_inv opts s"
  by simp

lemma shell_inv_cancels [simp]: "shell_inv opts (s\<lparr>ss_cancels := c, ss_server := sv\<rparr>) = shell_inv opts (s\<lparr>ss_server := sv\<rparr>)"
  by (simp add: shell_inv_def runs_ok_def)

lemma admitShell_outcome:
  assumes "shell_inv opts s"
  obtains ok sv where "admitShell opts now owner (ss_server s) = Some (ok, sv)"
    "keeps_open shell_kind (sv_jobs (ss_server s)) (sv_jobs sv)"
    "table_inv shell_kind (rs_jobLimits opts)
       (if ok then add_mset owner (mset (map sh_owner (ss_waiting s))) else mset (map sh_owner (ss_waiting s))) sv"
  using admitJob_outcome [of shell_kind "rs_jobLimits opts" "mset (map sh_owner (ss_waiting s))" "ss_server s" now owner] assms
  unfolding shell_inv_def admitShell_def by metis

lemma beginShellJob_outcome:
  assumes "beginShellJob opts now rq sv = Some (events, r, sv')"
  shows "isl r \<and> sv' = sv \<or>
    (\<exists>run ok. prepareShell opts rq = (events, Inr run) \<and> admitShell opts now (sh_owner run) sv = Some (ok, sv') \<and>
      (if ok then r = Inr run else isl r))"
proof -
  obtain es q where p: "prepareShell opts rq = (es, q)" by force
  show ?thesis
  proof (cases q)
    case (Inr run)
    obtain ok sv2 where "admitShell opts now (sh_owner run) sv = Some (ok, sv2)"
      using assms p Inr by (cases "admitShell opts now (sh_owner run) sv") (auto simp: beginShellJob_def)
    with assms p Inr show ?thesis
      by (intro disjI2 exI [of _ run] exI [of _ ok]) (cases ok; clarsimp simp: beginShellJob_def; fastforce?)
  qed (use assms p in \<open>auto simp: beginShellJob_def\<close>)
qed

lemma findJob_outcome:
  "snd (findJob opts now jid identity authorization sv) = pruneShell opts now sv"
  "fst (findJob opts now jid identity authorization sv) = Some job \<Longrightarrow>
    js_get (sv_jobs (pruneShell opts now sv)) jid = Some job \<and> taskOwner identity = Some (rj_owner job) \<and>
    ta_restricted authorization \<and> ta_allows authorization REMOTE_SHELL_GRANT"
  by (auto simp: findJob_def Let_def split: option.splits if_splits)

lemma shellJobRequest_server:
  "shellJobRequest opts now jid cancelling rq sv = (r, sv') \<Longrightarrow> sv' = sv \<or> sv' = pruneShell opts now sv"
  using findJob_outcome(1) [of opts now jid _ _ sv]
  by (auto simp: shellJobRequest_def split: sum.splits prod.splits option.splits if_splits) (metis snd_conv)+

lemma shell_inv_start:
  assumes "shell_inv opts s" "run \<in> set (ss_waiting s)" "reply = ssmStart (rs_ssm opts) runner before (sh_request run)"
    "startShellJob opts run reply now (ss_server s) = (events, response, sv)"
  shows "shell_inv opts (s\<lparr>ss_waiting := remove1 run (ss_waiting s), ss_server := sv\<rparr>)"
proof -
  let ?w = "remove1 run (ss_waiting s)"
  have "mset (ss_waiting s) = add_mset run (mset ?w)" using assms(2) by simp
  then have w: "mset (map sh_owner (ss_waiting s)) = add_mset (sh_owner run) (mset (map sh_owner ?w))"
    by (metis image_mset_add_mset mset_map)
  have i: "table_inv shell_kind (rs_jobLimits opts) (add_mset (sh_owner run) (mset (map sh_owner ?w))) (ss_server s)"
    "runs_ok opts s" using assms(1) unfolding shell_inv_def w by auto
  have sub: "set ?w \<subseteq> set (ss_waiting s)" by (rule set_remove1_subset)
  consider "sv = releaseAdmission (sh_owner run) (ss_server s)"
    | ssm where "reply = Inr ssm" "js_get (sv_jobs (ss_server s)) (sj_commandId ssm) = None"
      "sv = releaseAdmission (sh_owner run) ((ss_server s)\<lparr>sv_jobs := js_set (sj_commandId ssm)
         (newShellJob (run, ssm) (sh_owner run) (sj_commandId ssm) now) (sv_jobs (ss_server s))\<rparr>)"
    using assms(4) by (auto simp: startShellJob_def split: sum.splits if_splits)
  then show ?thesis
  proof cases
    case 1
    with i sub show ?thesis by (auto simp: shell_inv_def runs_ok_def table_inv_release)
  next
    case (2 ssm)
    then have new: "sj_commandId ssm \<notin> fst ` set (sv_jobs (ss_server s))" by (simp add: map_of_eq_None_iff)
    obtain rq where "bound_run opts rq run" using i(2) assms(2) by (auto simp: runs_ok_def)
    then have "runs_ok opts (s\<lparr>ss_waiting := ?w, ss_server := sv\<rparr>)"
      using i(2) sub ssmStart_facts(1) [of "rs_ssm opts" runner before "sh_request run" ssm] 2 assms(3)
      by (auto simp: runs_ok_def js_set_new [OF new] newShellJob_def)
    with shell_jobs.table_inv_start [OF i(1) new, of "(run, ssm)" now] 2 show ?thesis by (simp add: shell_inv_def)
  qed
qed

lemma shell_inv_step:
  assumes "shell_inv opts s" "shell_step opts s s'"
  shows "shell_inv opts s'"
  using assms(2)
proof (cases rule: shell_step.cases)
  case (admitted now rq events run sv)
  with beginShellJob_outcome [OF admitted(2)] have a: "prepareShell opts rq = (events, Inr run)"
    "admitShell opts now (sh_owner run) (ss_server s) = Some (True, sv)" by (auto split: if_splits)
  obtain k: "keeps_open shell_kind (sv_jobs (ss_server s)) (sv_jobs sv)"
    and t: "table_inv shell_kind (rs_jobLimits opts) (add_mset (sh_owner run) (mset (map sh_owner (ss_waiting s)))) sv"
    by (rule admitShell_outcome [OF assms(1), of now "sh_owner run"]) (use a(2) in auto)
  have "runs_ok opts (s\<lparr>ss_server := sv\<rparr>)" using runs_ok_keeps [OF _ k] assms(1) by (simp add: shell_inv_def)
  with t prepareShell_bound [OF a(1)] admitted(1) show ?thesis by (auto simp: shell_inv_def runs_ok_def)
next
  case (turned_away now rq events response sv)
  show ?thesis
  proof (cases "sv = ss_server s")
    case False
    with beginShellJob_outcome [OF turned_away(2)] obtain run :: ShellRun where
      a: "admitShell opts now (sh_owner run) (ss_server s) = Some (False, sv)" by (auto split: if_splits)
    obtain k: "keeps_open shell_kind (sv_jobs (ss_server s)) (sv_jobs sv)"
      and t: "table_inv shell_kind (rs_jobLimits opts) (mset (map sh_owner (ss_waiting s))) sv"
      by (rule admitShell_outcome [OF assms(1), of now "sh_owner run"]) (use a in auto)
    with runs_ok_keeps [OF _ k] assms(1) turned_away(1) show ?thesis by (simp add: shell_inv_def)
  qed (use turned_away assms(1) in simp)
next
  case (started run reply runner before now events response sv)
  with shell_inv_start [OF assms(1) started(2,3) started(5)] show ?thesis by simp
next
  case (resolved jid job polls result now events sv)
  with assms(1) show ?thesis
    by (auto simp: completeShell_def job_update_def intro!: shell_inv_update split: option.splits if_splits)
next
  case (rejected jid job polls e now events sv)
  with assms(1) show ?thesis
    by (auto simp: failShell_def job_update_def intro!: shell_inv_update split: option.splits if_splits)
next
  case (answered now jid cancelling rq response sv)
  with shellJobRequest_server [OF answered(2)] assms(1) shell_inv_prune [OF assms(1)] show ?thesis by auto
next
  case (cancel_begins now jid cancelling rq job sv)
  with shellJobRequest_server [OF cancel_begins(2)] assms(1) shell_inv_prune [OF assms(1)] show ?thesis by auto
next
  case (cancel_ends job runner response sv)
  with assms(1) show ?thesis
    by (auto simp: cancelledShellJob_def job_update_def intro!: shell_inv_update split: sum.splits)
qed

interpretation shell: inductive_invariant initial_shell "shell_step opts" "shell_inv opts" for opts
proof
  show "shell_inv opts initial_shell"
    by (simp add: initial_shell_def shell_inv_def runs_ok_def table_inv_initial)
qed (rule shell_inv_step)

lemma shell_inv_reachable:
  assumes "shell_reachable opts s"
  shows "shell_inv opts s"
    "table_inv shell_kind (rs_jobLimits opts) (mset (map sh_owner (ss_waiting s))) (ss_server s)" "runs_ok opts s"
  using shell.inv_reachable [of opts s] assms by (simp_all add: shell_reachable_def shell_inv_def)

section \<open>Guarantees\<close>

text \<open>C24: a command runs on an instance only for a task. The bearer is authenticated, its claims restrict
  it and grant it the remote shell, they bind the role that the request names to the instance, and the
  command and its time limit are within their bounds. The job that \<open>ssm.start\<close> makes of the run names
  that instance, and its deadline is fifteen seconds past the time limit.\<close>

theorem remote_run_bound:
  assumes "prepareShell opts rq = (events, Inr run)"
  shows "bound_run opts rq run \<and>
    (\<forall>runner now ssm. ssmStart (rs_ssm opts) runner now (sh_request run) = Inr ssm \<longrightarrow>
      sj_instanceId ssm = rr_instanceId (sh_request run) \<and>
      sj_deadline ssm \<le> now + rs_maxTimeoutSeconds opts * 1000 + 15000 \<and>
      (\<exists>out. runner (sendArgs (so_region (rs_ssm opts)) (sh_request run)) = Inr out))"
proof -
  note b = prepareShell_bound [OF assms]
  have "sj_deadline ssm \<le> now + rs_maxTimeoutSeconds opts * 1000 + 15000"
    if "ssmStart (rs_ssm opts) runner now (sh_request run) = Inr ssm" for runner now ssm
    using ssmStart_facts(3) [OF that] b by (simp add: bound_run_def)
  with b ssmStart_facts(1,5) show ?thesis by blast
qed

text \<open>Whatever requests, outcomes and cancellations interleave, the jobs and the admissions together
  never exceed the capacity of the table, and the jobs of one owner that have not completed, with its
  admissions, never exceed its share. Admission always returns, and never removes a job that has not
  completed. Every job in the table runs on the instance that the claims of its task bind.\<close>

lemma shell_table_bounded:
  assumes "shell_reachable opts s"
  shows "length (sv_jobs (ss_server s)) + length (ss_waiting s) \<le> jl_maxJobs (rs_jobLimits opts) \<and>
    (\<forall>owner. openOf shell_kind owner (sv_jobs (ss_server s)) + count (mset (map sh_owner (ss_waiting s))) owner
       \<le> jl_maxRunningJobsPerOwner (rs_jobLimits opts)) \<and>
    (\<forall>now owner. \<exists>ok sv. admitShell opts now owner (ss_server s) = Some (ok, sv) \<and>
      (\<forall>jid job. js_get (sv_jobs (ss_server s)) jid = Some job \<and> rj_completedAt job = None \<longrightarrow>
        js_get (sv_jobs sv) jid = Some job)) \<and>
    (\<forall>jid job. js_get (sv_jobs (ss_server s)) jid = Some job \<longrightarrow>
      (\<exists>rq. bound_run opts rq (rj_prepared job)) \<and>
      sj_instanceId (rj_ssm job) = rr_instanceId (sh_request (rj_prepared job)))"
proof (intro conjI allI)
  note inv = shell_inv_reachable [OF assms]
  note wf = table_inv_wf [OF inv(2)]
  show "length (sv_jobs (ss_server s)) + length (ss_waiting s) \<le> jl_maxJobs (rs_jobLimits opts)"
    "openOf shell_kind owner (sv_jobs (ss_server s)) + count (mset (map sh_owner (ss_waiting s))) owner
       \<le> jl_maxRunningJobsPerOwner (rs_jobLimits opts)" for owner
    using inv(2) by (simp_all add: table_inv_def)
  show "\<exists>ok sv. admitShell opts now owner (ss_server s) = Some (ok, sv) \<and>
      (\<forall>jid job. js_get (sv_jobs (ss_server s)) jid = Some job \<and> rj_completedAt job = None \<longrightarrow>
        js_get (sv_jobs sv) jid = Some job)" for now owner
    by (rule admitShell_outcome [OF inv(1), of now owner]) (use js_get_keeps(2) [OF _ wf] in auto)
  show "js_get (sv_jobs (ss_server s)) jid = Some job \<longrightarrow>
      (\<exists>rq. bound_run opts rq (rj_prepared job)) \<and>
      sj_instanceId (rj_ssm job) = rr_instanceId (sh_request (rj_prepared job))" for jid job
    using inv(3) by (fastforce simp: runs_ok_def dest: map_of_SomeD)
qed

text \<open>A request about a job gets an answer other than an error only from the task that started it.\<close>

lemma shell_job_isolated:
  assumes "shell_reachable opts s" "shellJobRequest opts now jid cancelling rq (ss_server s) = (r, sv)"
    "\<forall>e. r \<noteq> Inl (ShellError e)"
  shows "\<exists>token identity job starter.
    bearerToken rq = Some token \<and> rs_authenticate opts token = Inr identity \<and>
    ta_allows (parseTaskToolAuthorization (hi_claims identity) False) REMOTE_SHELL_GRANT \<and>
    js_get (sv_jobs (ss_server s)) jid = Some job \<and> bound_run opts starter (rj_prepared job) \<and>
    taskOwner identity = taskOwner (sh_identity (rj_prepared job)) \<and>
    hi_issuer identity = hi_issuer (sh_identity (rj_prepared job)) \<and>
    hi_subject identity = hi_subject (sh_identity (rj_prepared job))"
proof -
  note inv = shell_inv_reachable [OF assms(1)]
  obtain identity authorization where a: "authenticateTaskRequest (rs_authenticate opts) rq = Inr (identity, authorization)"
    using assms(2,3) by (cases "authenticateTaskRequest (rs_authenticate opts) rq") (auto simp: shellJobRequest_def)
  then obtain token where t: "bearerToken rq = Some token" "rs_authenticate opts token = Inr identity"
    "authorization = parseTaskToolAuthorization (hi_claims identity) False" by (auto simp: authenticateTaskRequest_Inr)
  obtain job where "fst (findJob opts now jid identity authorization (ss_server s)) = Some job"
    using assms(2,3) a
    by (cases "findJob opts now jid identity authorization (ss_server s)";
        cases "fst (findJob opts now jid identity authorization (ss_server s))") (auto simp: shellJobRequest_def)
  from findJob_outcome(2) [OF this] have j: "js_get (sv_jobs (pruneShell opts now (ss_server s))) jid = Some job"
    "taskOwner identity = Some (rj_owner job)" "ta_allows authorization REMOTE_SHELL_GRANT" by auto
  from j(1) have g: "js_get (sv_jobs (ss_server s)) jid = Some job"
    unfolding pruneShell_def by (rule js_get_keeps(1) [OF pruneJobs_keeps table_inv_wf [OF inv(2)]])
  then obtain starter where b: "bound_run opts starter (rj_prepared job)" "rj_owner job = sh_owner (rj_prepared job)"
    using inv(3) map_of_SomeD [OF g] by (fastforce simp: runs_ok_def)
  then have o: "taskOwner (sh_identity (rj_prepared job)) = Some (rj_owner job)" by (auto simp: bound_run_def)
  show ?thesis
    by (intro exI [of _ token] exI [of _ identity] exI [of _ job] exI [of _ starter] conjI)
      (use taskOwner_inj [OF j(2) o] o t j g b(1) in simp_all)
qed

text \<open>The limits that the configuration yields.\<close>

lemma configInteger_Inr:
  "configInteger toNumber v fallback low high = Inr i \<Longrightarrow> low \<le> i \<and> i \<le> high"
  using rat_floor_bounds by (auto simp: configInteger_def Let_def not_less split: option.splits if_splits)

lemma shell_limits_sound:
  assumes "loadShellLimits toNumber env = Inr l"
  shows "10 \<le> sl_maxTimeoutSeconds l" "0 < sl_maxCommandBytes l" "sl_maxCommandBytes l \<le> sl_maxBodyBytes l"
    "0 < jl_maxRunningJobsPerOwner (sl_jobLimits l)"
    "jl_maxRunningJobsPerOwner (sl_jobLimits l) \<le> jl_maxJobs (sl_jobLimits l)"
    "0 < jl_retentionSeconds (sl_jobLimits l)"
  using assms by (auto simp: loadShellLimits_def sum_bind_Inr dest!: configInteger_Inr)

section \<open>A run of the server\<close>

definition example_shell_identity :: Hop1Identity where
  "example_shell_identity =
     \<lparr>hi_profile = ''main'', hi_issuer = ''https://i'', hi_subject = ''u'', hi_email = ''u@a.io'',
      hi_claims = [(''steward'', JObj
        [(''version'', JNum 3), (''runtime_uid'', JStr ''r''), (''acting_as'', JStr ''user''),
         (''remote_shell_targets'', JObj [(''web'', JStr ''i-0123abcd'')]),
         (''tools'', JArr [JObj [(''provider'', JStr ''remote-shell''), (''resource'', JStr ''remote_shell_run''),
                                 (''action'', JStr ''write'')]])])]\<rparr>"

definition example_shell :: CreateRemoteShellHttpHandlerOptions where
  "example_shell =
     \<lparr>rs_authenticate = (\<lambda>t. if t = ''t'' then Inr example_shell_identity else Inl (hop1_error ''invalid'' invalid_signature)),
      rs_parseJson = (\<lambda>s. if s = ''B'' then Some (JObj [(''target'', JStr ''web''), (''command'', JStr ''uptime''), (''timeout_seconds'', JNum 10)])
                         else None),
      rs_sha256 = (\<lambda>s. s), rs_maxTimeoutSeconds = 60, rs_maxBodyBytes = 99, rs_maxCommandBytes = 9,
      rs_jobLimits = \<lparr>jl_maxJobs = 3, jl_maxRunningJobsPerOwner = 1, jl_retentionSeconds = 1800\<rparr>, rs_ssm = example_ssm\<rparr>"

definition example_shell_post :: http_request where
  "example_shell_post =
     \<lparr>rq_method = ''POST'', rq_path = ''/shell/jobs'', rq_wait = None, rq_authorization = Some ''Bearer t'',
      rq_declaredBytes = Some 1, rq_body = Some [''B'']\<rparr>"

definition example_shell_owner :: string where
  "example_shell_owner = json_string_array [''https://i'', ''u'', ''r'']"

definition example_shell_run :: ShellRun where
  "example_shell_run =
     \<lparr>sh_identity = example_shell_identity, sh_owner = example_shell_owner, sh_runtimeUid = ''r'', sh_targetRole = ''web'',
      sh_command = ''uptime'', sh_request = example_shell_request\<rparr>"

lemma example_shell_limits: "rs_jobLimits example_shell = \<lparr>jl_maxJobs = 3, jl_maxRunningJobsPerOwner = 1, jl_retentionSeconds = 1800\<rparr>"
  "rs_ssm example_shell = example_ssm"
  by (simp_all add: example_shell_def)

lemma example_shell_authenticated:
  "authenticateTaskRequest (rs_authenticate example_shell) example_shell_post =
     Inr (example_shell_identity, parseTaskToolAuthorization (hi_claims example_shell_identity) False)"
  by (simp add: authenticateTaskRequest_def bearerToken_def example_shell_post_def example_shell_def)

lemma example_shell_granted:
  "ta_allows (parseTaskToolAuthorization (hi_claims example_shell_identity) False) REMOTE_SHELL_GRANT"
  "ta_restricted (parseTaskToolAuthorization (hi_claims example_shell_identity) False)"
  by (simp_all add: example_shell_identity_def parseTaskToolAuthorization_def REMOTE_SHELL_GRANT_def
      TASK_AUTHORITY_CLAIM_def connectionStatusAuthorityGrant_def parseGrant_def claim_def nonblank_def trim_def is_space_def
      isLegacyTaskMarker_def isCurrentTaskMarker_def CURRENT_TASK_AUTHORITY_CLAIMS_VERSION_def parseGrants_def Let_def)

lemma example_shell_task: "taskOwner example_shell_identity = Some example_shell_owner"
  "taskRuntimeUid example_shell_identity = Some ''r''"
  "taskRemoteShellTargets example_shell_identity = Some [(''web'', ''i-0123abcd'')]"
  by (simp_all add: taskOwner_def example_shell_identity_def TASK_AUTHORITY_CLAIM_def example_shell_owner_def
      trim_def is_space_def taskRuntimeUid_def taskAuthority_def taskRemoteShellTargets_def isRole_def isInstanceId_def isHex_def
      is_lower_alpha_def is_digit_def)

lemma example_shell_parsed:
  "parseRunRequest (JObj [(''target'', JStr ''web''), (''command'', JStr ''uptime''), (''timeout_seconds'', JNum 10)]) 60 9 =
     Inr (''web'', ''uptime'', 10)"
  by (simp add: parseRunRequest_def isRole_def is_lower_alpha_def isSafeInteger_def MIN_TIMEOUT_SECONDS_def Let_def)

lemma example_shell_prepared: "prepareShell example_shell example_shell_post = ([], Inr example_shell_run)"
proof -
  have b: "readBoundedJson (rs_parseJson example_shell) (rs_maxBodyBytes example_shell) example_shell_post =
      Inr (JObj [(''target'', JStr ''web''), (''command'', JStr ''uptime''), (''timeout_seconds'', JNum 10)])"
    by (simp add: readBoundedJson_def example_shell_post_def example_shell_def)
  have l: "rs_maxTimeoutSeconds example_shell = 60" "rs_maxCommandBytes example_shell = 9" by (simp_all add: example_shell_def)
  have "isInstanceId ''i-0123abcd''" by (simp add: isInstanceId_def isHex_def is_digit_def)
  then show ?thesis
    by (simp add: prepareShell_def example_shell_authenticated example_shell_task example_shell_granted b l example_shell_parsed
        example_shell_run_def example_shell_request_def Let_def)
qed

definition example_shell_job :: RemoteShellJob where
  "example_shell_job = newShellJob (example_shell_run, example_ssm_job) example_shell_owner ''c'' 1"

definition example_shell_server :: "RemoteShellJob \<Rightarrow> shell_server" where
  "example_shell_server job = \<lparr>sv_jobs = [(''c'', job)], sv_admissions = 0, sv_admissionsByOwner = []\<rparr>"

lemma example_shell_admitted:
  "shell_step example_shell initial_shell
     \<lparr>ss_waiting = [example_shell_run], ss_cancels = [],
      ss_server = \<lparr>sv_jobs = [], sv_admissions = 1, sv_admissionsByOwner = [(example_shell_owner, 1)]\<rparr>\<rparr>"
proof -
  have "evict shell_kind 3 0 [] = Some (True, [])" by (subst evict.simps) simp
  then have "beginShellJob example_shell 0 example_shell_post (ss_server initial_shell) = Some ([], Inr example_shell_run,
      \<lparr>sv_jobs = [], sv_admissions = 1, sv_admissionsByOwner = [(example_shell_owner, 1)]\<rparr>)"
    by (simp add: beginShellJob_def example_shell_prepared admitShell_def admitJob_def pruneJobs_def busyOf_def example_shell_limits
        initial_shell_def example_shell_run_def Let_def)
  from shell_step.admitted [OF this] show ?thesis by (simp add: initial_shell_def)
qed

lemma example_shell_started:
  "shell_step example_shell
     \<lparr>ss_waiting = [example_shell_run], ss_cancels = [],
      ss_server = \<lparr>sv_jobs = [], sv_admissions = 1, sv_admissionsByOwner = [(example_shell_owner, 1)]\<rparr>\<rparr>
     \<lparr>ss_waiting = [], ss_cancels = [], ss_server = example_shell_server example_shell_job\<rparr>" (is "shell_step _ ?s _")
proof -
  have r: "Inr example_ssm_job = ssmStart (rs_ssm example_shell) (\<lambda>args. Inr ''sent'') 0 (sh_request example_shell_run)"
    using example_ssm_started by (simp add: example_shell_limits example_shell_run_def)
  have "startShellJob example_shell example_shell_run (Inr example_ssm_job) 1 (ss_server ?s) =
      ([], ShellAccepted ''c'' ShellRunning, example_shell_server example_shell_job)"
    by (simp add: startShellJob_def example_ssm_job_def example_shell_run_def releaseAdmission_def example_shell_server_def
        example_shell_job_def Let_def)
  from shell_step.started [of example_shell_run ?s, OF _ r _ this] show ?thesis by simp
qed

lemma example_shell_reachable:
  "shell_reachable example_shell \<lparr>ss_waiting = [], ss_cancels = [], ss_server = example_shell_server example_shell_job\<rparr>"
  unfolding shell_reachable_def using example_shell_admitted example_shell_started
  by (meson rtranclp.rtrancl_into_rtrancl rtranclp.rtrancl_refl)

theorem remote_run_bound_witness: "isInstanceId (rr_instanceId (sh_request example_shell_run))"
  using remote_run_bound [OF example_shell_prepared] by (simp add: bound_run_def)

lemma shell_table_bounded_example:
  "openOf shell_kind example_shell_owner [(''c'', example_shell_job)] \<le> 1 \<and> sj_instanceId (rj_ssm example_shell_job) = ''i-0123abcd''"
proof -
  note b = shell_table_bounded [OF example_shell_reachable]
  from b have "openOf shell_kind example_shell_owner [(''c'', example_shell_job)] \<le> 1"
    by (simp add: example_shell_server_def example_shell_limits)
  moreover have "sj_instanceId (rj_ssm example_shell_job) = rr_instanceId (sh_request (rj_prepared example_shell_job))"
    using b by (simp add: example_shell_server_def)
  ultimately show ?thesis
    by (simp add: example_shell_job_def newShellJob_def example_shell_run_def example_shell_request_def)
qed

section \<open>A cancellation that comes late\<close>

text \<open>A job that completes while its cancellation is under way becomes one that is being cancelled, for
  good: it has a result and a time of completion, but counts as running. Its owner, who has no job
  that has not completed, gets no other admitted, and a second cancellation changes nothing.\<close>

definition example_shell_result :: SsmRunResult where
  "example_shell_result =
     \<lparr>sr_exit_code = 0, sr_stdout = ''hell'', sr_stderr = [], sr_stdout_bytes = 5, sr_stderr_bytes = 0,
      sr_stdout_truncated = True, sr_stderr_truncated = False, sr_duration_ms = 13000\<rparr>"

definition example_late_job :: RemoteShellJob where
  "example_late_job = example_shell_job\<lparr>rj_status := ShellCancelling, rj_result := Some example_shell_result, rj_completedAt := Some 13000\<rparr>"

lemma example_shell_waited: "ssmWait example_ssm example_ssm_job example_polls = Some (Inr example_shell_result)"
  by code_simp

lemma example_cancel_begins:
  "shell_step example_shell \<lparr>ss_waiting = [], ss_cancels = [], ss_server = example_shell_server example_shell_job\<rparr>
     \<lparr>ss_waiting = [], ss_cancels = [example_shell_job], ss_server = example_shell_server example_shell_job\<rparr>"
    (is "shell_step _ ?s _")
proof -
  have "shellJobRequest example_shell 2 ''c'' True example_shell_post (ss_server ?s) =
      (Inr example_shell_job, example_shell_server example_shell_job)"
    by (simp add: shellJobRequest_def example_shell_authenticated findJob_def example_shell_task example_shell_granted
        pruneShell_def pruneJobs_def example_shell_server_def example_shell_job_def newShellJob_def Let_def)
  from shell_step.cancel_begins [of _ 2, OF this] show ?thesis by simp
qed

lemma example_completes:
  "shell_step example_shell \<lparr>ss_waiting = [], ss_cancels = [example_shell_job], ss_server = example_shell_server example_shell_job\<rparr>
     \<lparr>ss_waiting = [], ss_cancels = [example_shell_job],
      ss_server = example_shell_server (example_late_job\<lparr>rj_status := ShellCompleted\<rparr>)\<rparr>" (is "shell_step _ ?s _")
proof -
  have g: "js_get (sv_jobs (ss_server ?s)) ''c'' = Some example_shell_job" "rj_completedAt example_shell_job = None"
    "ssmWait (rs_ssm example_shell) (rj_ssm example_shell_job) example_polls = Some (Inr example_shell_result)"
    using example_shell_waited
    by (simp_all add: example_shell_server_def example_shell_job_def newShellJob_def example_shell_limits)
  obtain events where "completeShell example_shell 13000 ''c'' example_shell_result (ss_server ?s) =
      (events, example_shell_server (example_late_job\<lparr>rj_status := ShellCompleted\<rparr>))"
    by (simp add: completeShell_def example_shell_server_def updateJob_def example_late_job_def example_shell_job_def newShellJob_def)
  from shell_step.resolved [OF g this] show ?thesis by simp
qed

lemma example_cancel_ends:
  "shell_step example_shell
     \<lparr>ss_waiting = [], ss_cancels = [example_shell_job],
      ss_server = example_shell_server (example_late_job\<lparr>rj_status := ShellCompleted\<rparr>)\<rparr>
     \<lparr>ss_waiting = [], ss_cancels = [], ss_server = example_shell_server example_late_job\<rparr>" (is "shell_step _ ?s _")
proof -
  have "cancelledShellJob (rj_id example_shell_job) (ssmCancel (rs_ssm example_shell) (\<lambda>args. Inr []) (rj_ssm example_shell_job))
      (ss_server ?s) = (ShellAccepted ''c'' ShellCancelling, example_shell_server example_late_job)"
    by (simp add: cancelledShellJob_def ssmCancel_def example_shell_server_def updateJob_def example_late_job_def
        example_shell_job_def newShellJob_def)
  from shell_step.cancel_ends [OF _ this] show ?thesis by simp
qed

lemma late_cancellation_blocks_owner:
  "shell_reachable example_shell \<lparr>ss_waiting = [], ss_cancels = [], ss_server = example_shell_server example_late_job\<rparr>"
  "rj_completedAt example_late_job = Some 13000" "rj_status example_late_job = ShellCancelling"
  "admitShell example_shell 14000 example_shell_owner (example_shell_server example_late_job) =
     Some (False, example_shell_server example_late_job)"
proof -
  show "shell_reachable example_shell \<lparr>ss_waiting = [], ss_cancels = [], ss_server = example_shell_server example_late_job\<rparr>"
    using example_shell_reachable example_cancel_begins example_completes example_cancel_ends
    unfolding shell_reachable_def by (meson rtranclp.rtrancl_into_rtrancl)
qed (simp_all add: example_late_job_def admitShell_def admitJob_def pruneJobs_def busyOf_def example_shell_limits
    example_shell_server_def example_shell_job_def newShellJob_def Let_def)

end
