(* ===== verification/Descriptor_Props.thy ===== *)
theory Descriptor_Props
  imports Descriptor
begin

text \<open>
  What a descriptor and a source of tools guarantee once they have been read: the types that the rest of the
  wrapper relies on.
\<close>

section \<open>Values\<close>

lemma check_Inr [simp]:
  fixes u :: unit
  shows "(if P then Inl e else Inr ()) = Inr u \<longleftrightarrow> \<not> P" "(if P then Inr () else Inl e) = Inr u \<longleftrightarrow> P"
  by simp_all

lemma valueOrDefault_Inr: "valueOrDefault f v name d = Inr x \<Longrightarrow> x = d \<or> f v name = Inr x"
  by (simp add: valueOrDefault_def split: if_splits)

lemma optionalValue_Inr: "optionalValue f v name = Inr (Some x) \<Longrightarrow> f v name = Inr x"
  by (auto simp: optionalValue_def split: if_splits)

lemma nonEmptyString_Inr: "nonEmptyString v name = Inr s \<Longrightarrow> v = Some (JStr s) \<and> s \<noteq> []"
  by (auto simp: nonEmptyString_def trim_def split: option.splits json.splits if_splits)

lemma patternString_Inr: "patternString pattern v name = Inr s \<Longrightarrow> v = Some (JStr s) \<and> pattern s \<and> s \<noteq> []"
  by (auto simp: patternString_def dest: nonEmptyString_Inr split: if_splits)

text \<open>A text that is more than spaces; an integer that JavaScript represents exactly.\<close>

definition spelled :: "string \<Rightarrow> bool" where
  "spelled s \<longleftrightarrow> trim s \<noteq> []"

definition timeout_ok :: "int option \<Rightarrow> bool" where
  "timeout_ok t \<longleftrightarrow> (\<forall>n. t = Some n \<longrightarrow> 0 < n \<and> n \<le> 9007199254740991)"

definition header_ok :: "string \<Rightarrow> bool" where
  "header_ok h \<longleftrightarrow> (\<exists>s. HEADER_PATTERN s \<and> h = to_lower_case s)"

lemma nonEmptyString_spelled: "nonEmptyString v name = Inr s \<Longrightarrow> spelled s"
  by (auto simp: nonEmptyString_def spelled_def split: option.splits json.splits if_splits)

lemma optional_spelled: "optionalValue nonEmptyString v name = Inr (Some s) \<Longrightarrow> spelled s"
  by (auto dest!: optionalValue_Inr nonEmptyString_spelled)

lemma bearer_spelled: "spelled ''Bearer''"
  by code_simp

lemma scheme_spelled: "valueOrDefault nonEmptyString v name ''Bearer'' = Inr s \<Longrightarrow> spelled s"
  using bearer_spelled nonEmptyString_spelled valueOrDefault_Inr by metis

lemma positiveIntegerValue_Inr: "positiveIntegerValue v name = Inr i \<Longrightarrow> 0 < i \<and> i \<le> 9007199254740991"
  by (auto simp: positiveIntegerValue_def elim!: Ints_cases split: option.splits json.splits if_splits)

lemma timeout_Inr: "optionalValue positiveIntegerValue v name = Inr t \<Longrightarrow> timeout_ok t"
  by (auto simp: timeout_ok_def dest!: optionalValue_Inr positiveIntegerValue_Inr)

lemma optional_pattern: "optionalValue (patternString p) v name = Inr (Some s) \<Longrightarrow> p s"
  by (auto dest!: optionalValue_Inr patternString_Inr)

lemma headerName_Inr: "headerName v name = Inr h \<Longrightarrow> header_ok h"
  by (auto simp: headerName_def header_ok_def dest!: patternString_Inr)

lemma authorization_header: "header_ok ''authorization''"
  unfolding header_ok_def by (rule exI [of _ "''authorization''"]) code_simp

lemma header_Inr: "valueOrDefault headerName v name ''authorization'' = Inr h \<Longrightarrow> header_ok h"
  using authorization_header by (auto dest!: valueOrDefault_Inr headerName_Inr)

lemma sum_map_from_all:
  assumes "sum_map_from i f xs = Inr ys" "\<And>j x y. f j x = Inr y \<Longrightarrow> P y"
  shows "list_all P ys"
  using assms by (induction xs arbitrary: i ys) auto

definition strings_ok :: "string list \<Rightarrow> bool" where
  "strings_ok ss \<longleftrightarrow> distinct ss \<and> list_all spelled ss"

lemma requiredStringArray_Inr:
  "requiredStringArray allowEmpty v name = Inr ss \<Longrightarrow> strings_ok ss \<and> (allowEmpty \<or> ss \<noteq> [])"
proof -
  assume r: "requiredStringArray allowEmpty v name = Inr ss"
  then obtain xs where x: "\<not> (\<not> allowEmpty \<and> xs = [])" "sum_map_from 0 (\<lambda>_ x. nonEmptyString (Some x) name) xs = Inr ss" "distinct ss"
    by (auto simp: requiredStringArray_def split: option.splits if_splits)
  have "list_all spelled ss" using x(2) by (rule sum_map_from_all) (rule nonEmptyString_spelled)
  with x show ?thesis by (cases xs) (auto simp: strings_ok_def)
qed

text \<open>The fields of an object are among those that are allowed.\<close>

definition only_fields :: "json option \<Rightarrow> string list \<Rightarrow> bool" where
  "only_fields v allowed \<longleftrightarrow> (\<forall>r. v = Some (JObj r) \<longrightarrow> fst ` set r \<subseteq> set allowed)"

lemma objectValue_Inr: "objectValue v name = Inr r \<longleftrightarrow> v = Some (JObj r)"
  by (cases v) (auto simp: objectValue_def split: option.splits json.splits elim: as_record.elims)

lemma assertAllowedFields_Inr: "assertAllowedFields r name allowed = Inr u \<longleftrightarrow> fst ` set r \<subseteq> set allowed"
proof -
  have "List.find (\<lambda>k. k \<notin> set allowed) (map fst r) = None \<longleftrightarrow> fst ` set r \<subseteq> set allowed" by (auto simp: find_None_iff)
  then show ?thesis by (cases "List.find (\<lambda>k. k \<notin> set allowed) (map fst r)") (simp_all add: assertAllowedFields_def)
qed

lemma nonEmptyArray_Inr: "nonEmptyArray v m = Inr xs \<longleftrightarrow> xs \<noteq> [] \<and> v = Some (JArr xs)"
  by (cases xs) (auto simp: nonEmptyArray_def split: option.splits list.splits bind_splits)

lemma actionClassValue_Inr: "actionClassValue v m = Inr s \<Longrightarrow> s \<in> {''read'', ''write'', ''destructive''}"
  by (auto simp: actionClassValue_def split: option.splits json.splits if_splits)

definition http_ok :: "full_url \<Rightarrow> bool" where
  "http_ok url \<longleftrightarrow> (url_protocol url = ''http:'' \<or> url_protocol url = ''https:'') \<and> url_hostname url \<noteq> [] \<and>
     url_username url = [] \<and> url_password url = [] \<and> url_hash url = []"

definition https_ok :: "url_parser \<Rightarrow> string \<Rightarrow> bool" where
  "https_ok parse s \<longleftrightarrow> (\<exists>url. parse s = Some url \<and> http_ok url \<and> url_protocol url = ''https:'')"

lemma httpUrl_Inr: "httpUrl parse v name = Inr s \<Longrightarrow> \<exists>url. parse s = Some url \<and> http_ok url"
  by (auto simp: httpUrl_def http_ok_def split: option.splits if_splits)

lemma httpsUrl_Inr: "httpsUrl parse v name = Inr s \<Longrightarrow> https_ok parse s"
  by (auto simp: httpsUrl_def https_ok_def dest!: httpUrl_Inr split: if_splits)

section \<open>Credentials\<close>

definition redirect_ok :: "url_parser \<Rightarrow> string \<Rightarrow> string \<Rightarrow> bool" where
  "redirect_ok parse providerId uri \<longleftrightarrow>
     (\<exists>url. parse uri = Some url \<and> http_ok url \<and>
        (url_protocol url = ''https:'' \<or> url_hostname url \<in> {''127.0.0.1'', ''::1''}) \<and>
        url_pathname url = ''/oauth/'' @ providerId @ ''/callback'' \<and> url_search url = [])"

lemma parseRedirectUri_Inr: "parseRedirectUri parse v providerId = Inr uri \<Longrightarrow> redirect_ok parse providerId uri"
  by (auto simp: parseRedirectUri_def httpsOrLoopbackUrl_def redirect_ok_def Let_def dest!: httpUrl_Inr split: if_splits)

text \<open>The identity: paths of fields, or the origin of the site.\<close>

definition identity_ok :: "url_parser \<Rightarrow> GenericOAuthIdentityDescriptor \<Rightarrow> bool" where
  "identity_ok parse i \<longleftrightarrow>
     (case i of
        VerifiedEmail idf email login verified \<Rightarrow>
          FIELD_PATH_PATTERN idf \<and> FIELD_PATH_PATTERN email \<and> (\<forall>l. login = Some l \<longrightarrow> FIELD_PATH_PATTERN l) \<and>
          FIELD_PATH_PATTERN verified
      | AtlassianJiraAssertedEmail site \<Rightarrow>
          (\<exists>s url. parse s = Some url \<and> http_ok url \<and> url_protocol url = ''https:'' \<and> url_pathname url = ''/'' \<and>
             url_search url = [] \<and> site = url_origin url))"

lemma httpsOrigin_Inr:
  "httpsOrigin parse v name = Inr site \<Longrightarrow>
    \<exists>s url. parse s = Some url \<and> http_ok url \<and> url_protocol url = ''https:'' \<and> url_pathname url = ''/'' \<and> url_search url = [] \<and>
      site = url_origin url"
  by (auto simp: httpsOrigin_def https_ok_def Let_def dest!: httpsUrl_Inr split: if_splits) metis

definition IDENTITY_FIELDS :: "GenericOAuthIdentityDescriptor \<Rightarrow> string list" where
  "IDENTITY_FIELDS i =
     (if isAtlassian i then [''mode'', ''siteUrl'']
      else [''mode'', ''idField'', ''emailField'', ''loginField'', ''emailVerifiedField''])"

lemma parseOAuthIdentity_Inr:
  assumes "parseOAuthIdentity parse v = Inr i"
  shows "identity_ok parse i \<and> only_fields v (IDENTITY_FIELDS i)"
proof -
  from assms obtain r where r: "v = Some (JObj r)" by (auto simp: parseOAuthIdentity_def objectValue_Inr)
  show ?thesis
  proof (cases "js_get r ''mode'' = Some (JStr ''atlassian_jira_asserted_email'')")
    case True
    with assms r obtain site where "fst ` set r \<subseteq> set [''mode'', ''siteUrl'']" "i = AtlassianJiraAssertedEmail site"
      "httpsOrigin parse (js_get r ''siteUrl'') ''credential.identity.siteUrl'' = Inr site"
      by (auto simp: parseOAuthIdentity_def objectValue_Inr assertAllowedFields_Inr)
    with r httpsOrigin_Inr show ?thesis by (simp add: identity_ok_def only_fields_def IDENTITY_FIELDS_def isAtlassian_def)
  next
    case False
    with assms r obtain idf email login verified where f:
      "fst ` set r \<subseteq> set [''mode'', ''idField'', ''emailField'', ''loginField'', ''emailVerifiedField'']"
      "patternString FIELD_PATH_PATTERN (js_get r ''idField'') ''credential.identity.idField'' = Inr idf"
      "patternString FIELD_PATH_PATTERN (js_get r ''emailField'') ''credential.identity.emailField'' = Inr email"
      "optionalValue (patternString FIELD_PATH_PATTERN) (js_get r ''loginField'') ''credential.identity.loginField'' = Inr login"
      "patternString FIELD_PATH_PATTERN (js_get r ''emailVerifiedField'') ''credential.identity.emailVerifiedField'' = Inr verified"
      "i = VerifiedEmail idf email login verified"
      unfolding parseOAuthIdentity_def objectValue_Inr assertAllowedFields_Inr by (simp add: objectValue_Inr assertAllowedFields_Inr split: if_splits) blast
    have "\<forall>l. login = Some l \<longrightarrow> FIELD_PATH_PATTERN l" using f(4) by (auto dest: optional_pattern)
    with r f patternString_Inr show ?thesis
      by (simp add: identity_ok_def only_fields_def IDENTITY_FIELDS_def isAtlassian_def) blast
  qed
qed

definition oauth_ok :: "url_parser \<Rightarrow> GenericOAuthCredentialDescriptor \<Rightarrow> bool" where
  "oauth_ok parse c \<longleftrightarrow>
     NAME_PATTERN (go_providerId c) \<and> https_ok parse (go_authorizationUrl c) \<and> https_ok parse (go_tokenUrl c) \<and>
     https_ok parse (go_userInfoUrl c) \<and> (\<forall>u. go_revocationUrl c = Some u \<longrightarrow> https_ok parse u) \<and>
     redirect_ok parse (go_providerId c) (go_redirectUri c) \<and> strings_ok (go_scopes c) \<and> go_scopes c \<noteq> [] \<and>
     ENV_PATTERN (go_clientIdEnv c) \<and> ENV_PATTERN (go_clientSecretEnv c) \<and> ENV_PATTERN (go_encryptionKeyEnv c) \<and>
     ENV_PATTERN (go_tokenStoreDsnEnv c) \<and> header_ok (go_header c) \<and> spelled (go_scheme c) \<and>
     (\<forall>ps. go_authorizationParams c = Some ps \<longrightarrow> list_all (\<lambda>(k, s). spelled s) ps) \<and> timeout_ok (go_timeoutMs c) \<and>
     go_tokenEndpointAuthMethod c \<in> {''client_secret_basic'', ''client_secret_post''} \<and>
     identity_ok parse (go_identity c) \<and>
     (isAtlassian (go_identity c) \<longrightarrow>
        go_providerId c = ''jira'' \<and> go_userInfoUrl c = ATLASSIAN_ACCESSIBLE_RESOURCES_URL)"

lemma authMethodValue_Inr: "authMethodValue v = Inr m \<Longrightarrow> m = ''client_secret_basic'' \<or> m = ''client_secret_post''"
  by (auto simp: authMethodValue_def split: if_splits)

lemma stringRecord_Inr: "stringRecord v name = Inr ps \<Longrightarrow> list_all (\<lambda>(k, s). spelled s) ps"
  by (auto simp: stringRecord_def dest!: nonEmptyString_spelled elim!: sum_map_from_all)

lemma oauth_patterns:
  assumes "parseOAuthCredential parse r = Inr c"
  shows "patternString NAME_PATTERN (js_get r ''providerId'') ''credential.providerId'' = Inr (go_providerId c)"
    "patternString ENV_PATTERN (js_get r ''clientIdEnv'') ''credential.clientIdEnv'' = Inr (go_clientIdEnv c)"
    "patternString ENV_PATTERN (js_get r ''clientSecretEnv'') ''credential.clientSecretEnv'' = Inr (go_clientSecretEnv c)"
    "patternString ENV_PATTERN (js_get r ''encryptionKeyEnv'') ''credential.encryptionKeyEnv'' = Inr (go_encryptionKeyEnv c)"
    "patternString ENV_PATTERN (js_get r ''tokenStoreDsnEnv'') ''credential.tokenStoreDsnEnv'' = Inr (go_tokenStoreDsnEnv c)"
    "valueOrDefault headerName (js_get r ''header'') ''credential.header'' ''authorization'' = Inr (go_header c)"
    "valueOrDefault nonEmptyString (js_get r ''scheme'') ''credential.scheme'' ''Bearer'' = Inr (go_scheme c)"
    "optionalValue stringRecord (js_get r ''authorizationParams'') ''credential.authorizationParams'' = Inr (go_authorizationParams c)"
    "optionalValue positiveIntegerValue (js_get r ''timeoutMs'') ''credential.timeoutMs'' = Inr (go_timeoutMs c)"
  using assms unfolding parseOAuthCredential_def by clarsimp+

lemma oauth_endpoints:
  assumes "parseOAuthCredential parse r = Inr c"
  shows "assertAllowedFields r ''credential'' OAUTH_FIELDS = Inr ()"
    "parseOAuthIdentity parse (js_get r ''identity'') = Inr (go_identity c)"
    "httpsUrl parse (js_get r ''userInfoUrl'') ''credential.userInfoUrl'' = Inr (go_userInfoUrl c)"
    "isAtlassian (go_identity c) \<longrightarrow> go_providerId c = ''jira'' \<and> go_userInfoUrl c = ATLASSIAN_ACCESSIBLE_RESOURCES_URL"
    "authMethodValue (js_get r ''tokenEndpointAuthMethod'') = Inr (go_tokenEndpointAuthMethod c)"
    "parseRedirectUri parse (js_get r ''redirectUri'') (go_providerId c) = Inr (go_redirectUri c)"
    "httpsUrl parse (js_get r ''authorizationUrl'') ''credential.authorizationUrl'' = Inr (go_authorizationUrl c)"
    "httpsUrl parse (js_get r ''tokenUrl'') ''credential.tokenUrl'' = Inr (go_tokenUrl c)"
    "optionalValue (httpsUrl parse) (js_get r ''revocationUrl'') ''credential.revocationUrl'' = Inr (go_revocationUrl c)"
    "requiredStringArray False (js_get r ''scopes'') ''credential.scopes'' = Inr (go_scopes c)"
  using assms unfolding parseOAuthCredential_def by clarsimp+

lemma parseOAuthCredential_Inr:
  assumes "parseOAuthCredential parse r = Inr c"
  shows "oauth_ok parse c \<and> fst ` set r \<subseteq> set OAUTH_FIELDS \<and> only_fields (js_get r ''identity'') (IDENTITY_FIELDS (go_identity c))"
proof -
  note p = oauth_patterns [OF assms] and e = oauth_endpoints [OF assms]
  have "\<forall>u. go_revocationUrl c = Some u \<longrightarrow> https_ok parse u" using e(9) by (auto dest!: optionalValue_Inr httpsUrl_Inr)
  moreover have "\<forall>ps. go_authorizationParams c = Some ps \<longrightarrow> list_all (\<lambda>(k, s). spelled s) ps"
    using p(8) by (auto dest!: optionalValue_Inr stringRecord_Inr)
  ultimately have "oauth_ok parse c"
    using p(1-5) [THEN patternString_Inr] header_Inr [OF p(6)] scheme_spelled [OF p(7)] timeout_Inr [OF p(9)]
      parseOAuthIdentity_Inr [OF e(2)] httpsUrl_Inr [OF e(3)] e(4) authMethodValue_Inr [OF e(5)] parseRedirectUri_Inr [OF e(6)]
      httpsUrl_Inr [OF e(7)] httpsUrl_Inr [OF e(8)] requiredStringArray_Inr [OF e(10)]
    unfolding oauth_ok_def by simp
  with e(1) parseOAuthIdentity_Inr [OF e(2)] show ?thesis by (simp add: assertAllowedFields_Inr)
qed

definition EXCHANGE_FIELDS :: "string list" where
  "EXCHANGE_FIELDS = [''mode'', ''endpoint'', ''audience'', ''resource'', ''scopes'', ''clientIdEnv'', ''clientSecretEnv'', ''header'',
     ''scheme'', ''timeoutMs'']"

definition exchange_ok :: "url_parser \<Rightarrow> token_exchange \<Rightarrow> bool" where
  "exchange_ok parse c \<longleftrightarrow>
     https_ok parse (te_endpoint c) \<and> (te_clientIdEnv c = None \<longleftrightarrow> te_clientSecretEnv c = None) \<and>
     (\<forall>e. te_clientIdEnv c = Some e \<longrightarrow> ENV_PATTERN e) \<and> (\<forall>e. te_clientSecretEnv c = Some e \<longrightarrow> ENV_PATTERN e) \<and>
     (te_audience c \<noteq> None \<or> te_resource c \<noteq> None) \<and>
     (\<forall>s. te_audience c = Some s \<longrightarrow> spelled s) \<and> (\<forall>s. te_resource c = Some s \<longrightarrow> spelled s) \<and>
     (\<forall>ss. te_scopes c = Some ss \<longrightarrow> strings_ok ss) \<and> header_ok (te_header c) \<and> spelled (te_scheme c) \<and> timeout_ok (te_timeoutMs c)"

lemma optional_truthy:
  "optionalValue (patternString p) v name = Inr x \<Longrightarrow> truthy x \<longleftrightarrow> x \<noteq> None"
  "optionalValue nonEmptyString v name = Inr x \<Longrightarrow> truthy x \<longleftrightarrow> x \<noteq> None"
  by (cases x; auto dest!: optionalValue_Inr patternString_Inr nonEmptyString_Inr)+

lemma exchange_parts:
  assumes "parseTokenExchange parse r = Inr c"
  shows "assertAllowedFields r ''credential'' EXCHANGE_FIELDS = Inr ()"
    "optionalValue (patternString ENV_PATTERN) (js_get r ''clientIdEnv'') ''credential.clientIdEnv'' = Inr (te_clientIdEnv c)"
    "optionalValue (patternString ENV_PATTERN) (js_get r ''clientSecretEnv'') ''credential.clientSecretEnv'' = Inr (te_clientSecretEnv c)"
    "truthy (te_clientIdEnv c) = truthy (te_clientSecretEnv c)"
    "optionalValue nonEmptyString (js_get r ''audience'') ''credential.audience'' = Inr (te_audience c)"
    "optionalValue nonEmptyString (js_get r ''resource'') ''credential.resource'' = Inr (te_resource c)"
    "truthy (te_audience c) \<or> truthy (te_resource c)"
    "httpsUrl parse (js_get r ''endpoint'') ''credential.endpoint'' = Inr (te_endpoint c)"
    "optionalValue (requiredStringArray True) (js_get r ''scopes'') ''credential.scopes'' = Inr (te_scopes c)"
    "valueOrDefault headerName (js_get r ''header'') ''credential.header'' ''authorization'' = Inr (te_header c)"
    "valueOrDefault nonEmptyString (js_get r ''scheme'') ''credential.scheme'' ''Bearer'' = Inr (te_scheme c)"
    "optionalValue positiveIntegerValue (js_get r ''timeoutMs'') ''credential.timeoutMs'' = Inr (te_timeoutMs c)"
  using assms unfolding parseTokenExchange_def EXCHANGE_FIELDS_def by clarsimp+

lemma parseTokenExchange_Inr:
  assumes "parseTokenExchange parse r = Inr c"
  shows "exchange_ok parse c \<and> fst ` set r \<subseteq> set EXCHANGE_FIELDS"
proof -
  note e = exchange_parts [OF assms]
  have "\<forall>s. te_clientIdEnv c = Some s \<longrightarrow> ENV_PATTERN s" "\<forall>s. te_clientSecretEnv c = Some s \<longrightarrow> ENV_PATTERN s"
    "\<forall>s. te_audience c = Some s \<longrightarrow> spelled s" "\<forall>s. te_resource c = Some s \<longrightarrow> spelled s"
    using e(2,3,5,6) by (auto dest: optional_pattern optional_spelled)
  moreover have "\<forall>ss. te_scopes c = Some ss \<longrightarrow> strings_ok ss"
    using e(9) by (auto dest!: optionalValue_Inr requiredStringArray_Inr)
  moreover have "te_clientIdEnv c = None \<longleftrightarrow> te_clientSecretEnv c = None"
    using e(4) optional_truthy(1) [OF e(2)] optional_truthy(1) [OF e(3)] by blast
  ultimately show ?thesis
    using e(7) optional_truthy(2) [OF e(5)] optional_truthy(2) [OF e(6)]
      httpsUrl_Inr [OF e(8)] header_Inr [OF e(10)] scheme_spelled [OF e(11)] timeout_Inr [OF e(12)] e(1)
    unfolding exchange_ok_def assertAllowedFields_Inr by simp
qed

section \<open>The descriptor\<close>

text \<open>The fields that the document may have for an upstream and a credential.\<close>

definition UPSTREAM_FIELDS :: "GenericUpstreamDescriptor \<Rightarrow> string list" where
  "UPSTREAM_FIELDS u =
     (case u of
        HttpUpstream _ _ \<Rightarrow> [''transport'', ''url'', ''timeoutMs'']
      | StdioUpstream _ _ _ _ _ \<Rightarrow> [''transport'', ''command'', ''args'', ''envAllowlist'', ''credentialEnv'', ''timeoutMs''])"

definition upstream_ok :: "url_parser \<Rightarrow> GenericUpstreamDescriptor \<Rightarrow> bool" where
  "upstream_ok parse u \<longleftrightarrow>
     (case u of
        HttpUpstream url t \<Rightarrow> (\<exists>p. parse url = Some p \<and> http_ok p) \<and> timeout_ok t
      | StdioUpstream command args names env t \<Rightarrow>
          prefix ''/'' command \<and> strings_ok args \<and> strings_ok (coalesce names []) \<and> list_all ENV_PATTERN (coalesce names []) \<and>
          (\<forall>e. env = Some e \<longrightarrow> ENV_PATTERN e) \<and> timeout_ok t)"

lemma optional_strings: "optionalValue (requiredStringArray True) v name = Inr x \<Longrightarrow> strings_ok (coalesce x [])"
  by (cases x) (auto simp: strings_ok_def dest!: optionalValue_Inr requiredStringArray_Inr)

lemma default_strings: "valueOrDefault (requiredStringArray True) v name [] = Inr ss \<Longrightarrow> strings_ok ss"
  by (auto simp: strings_ok_def dest!: valueOrDefault_Inr requiredStringArray_Inr)

lemma parseUpstream_Inr: "parseUpstream parse v = Inr u \<Longrightarrow> upstream_ok parse u \<and> only_fields v (UPSTREAM_FIELDS u)"
  unfolding parseUpstream_def upstream_ok_def UPSTREAM_FIELDS_def only_fields_def
  by (auto simp: objectValue_Inr assertAllowedFields_Inr
      dest!: httpUrl_Inr timeout_Inr optional_strings default_strings dest: optional_pattern split: if_splits)

definition CREDENTIAL_FIELDS :: "GenericCredentialDescriptor \<Rightarrow> string list" where
  "CREDENTIAL_FIELDS c =
     (case c of
        NoCredential \<Rightarrow> [''mode'']
      | StaticSecret _ _ _ \<Rightarrow> [''mode'', ''env'', ''header'', ''scheme'']
      | TokenExchange _ \<Rightarrow> EXCHANGE_FIELDS
      | PerUserOAuth _ \<Rightarrow> OAUTH_FIELDS)"

definition credential_ok :: "url_parser \<Rightarrow> bool \<Rightarrow> bool \<Rightarrow> GenericCredentialDescriptor \<Rightarrow> bool" where
  "credential_ok parse routes hide c \<longleftrightarrow>
     (case c of
        PerUserOAuth o' \<Rightarrow> routes \<and> oauth_ok parse o'
      | TokenExchange t \<Rightarrow> \<not> hide \<and> exchange_ok parse t
      | StaticSecret env header scheme \<Rightarrow>
          \<not> hide \<and> ENV_PATTERN env \<and> header_ok header \<and> (\<forall>s. scheme = Some s \<longrightarrow> spelled s)
      | NoCredential \<Rightarrow> \<not> hide)"

definition identity_fields_ok :: "(string \<times> json) list \<Rightarrow> GenericCredentialDescriptor \<Rightarrow> bool" where
  "identity_fields_ok r c \<longleftrightarrow>
     (\<forall>o'. c = PerUserOAuth o' \<longrightarrow> only_fields (js_get r ''identity'') (IDENTITY_FIELDS (go_identity o')))"

lemma parseCredential_Inr:
  assumes "parseCredential parse r = Inr c"
    "\<not> (js_get r ''mode'' = Some (JStr ''per_user_oauth'') \<and> \<not> routes)"
    "\<not> (hide \<and> js_get r ''mode'' \<noteq> Some (JStr ''per_user_oauth''))"
  shows "credential_ok parse routes hide c \<and> fst ` set r \<subseteq> set (CREDENTIAL_FIELDS c) \<and> identity_fields_ok r c"
  using assms unfolding parseCredential_def credential_ok_def CREDENTIAL_FIELDS_def identity_fields_ok_def
  by (auto simp: assertAllowedFields_Inr dest!: parseOAuthCredential_Inr parseTokenExchange_Inr patternString_Inr headerName_Inr
      dest: optional_spelled split: if_splits)

definition SESSION_FIELDS :: "string list" where "SESSION_FIELDS = [''maxTotal'', ''maxPerPrincipal'', ''idleTtlMs'']"

lemma parseSessions_Inr:
  "parseSessions v = Inr s \<Longrightarrow> 0 < gs_maxPerPrincipal s \<and> gs_maxPerPrincipal s \<le> gs_maxTotal s \<and> 0 < gs_idleTtlMs s \<and>
    only_fields v SESSION_FIELDS"
  unfolding parseSessions_def only_fields_def SESSION_FIELDS_def
  by (auto simp: DEFAULT_SESSION_LIMITS_def not_less objectValue_Inr assertAllowedFields_Inr
      dest!: valueOrDefault_Inr positiveIntegerValue_Inr split: if_splits)

definition LIFECYCLE_FIELDS :: "string list" where "LIFECYCLE_FIELDS = [''start'', ''status'']"

lemma default_tool_names: "TOOL_NAME_PATTERN ''oauth_start''" "TOOL_NAME_PATTERN ''oauth_status''"
  by code_simp+

lemma parseLifecycleToolNames_Inr:
  "parseLifecycleToolNames v = Inr n \<Longrightarrow>
    TOOL_NAME_PATTERN (ln_start n) \<and> TOOL_NAME_PATTERN (ln_status n) \<and> ln_start n \<noteq> ln_status n \<and> only_fields v LIFECYCLE_FIELDS"
  unfolding parseLifecycleToolNames_def only_fields_def LIFECYCLE_FIELDS_def
  by (auto simp: DEFAULT_LIFECYCLE_TOOL_NAMES_def default_tool_names objectValue_Inr assertAllowedFields_Inr
      dest!: valueOrDefault_Inr patternString_Inr split: if_splits)

definition filter_ok :: "string list option \<Rightarrow> bool" where
  "filter_ok classes \<longleftrightarrow>
     (\<forall>cs. classes = Some cs \<longrightarrow> cs \<noteq> [] \<and> distinct cs \<and> set cs \<subseteq> {''read'', ''write'', ''destructive''})"

lemma parseCatalogFilter_Inr:
  assumes "parseCatalogFilter v = Inr classes"
  shows "filter_ok classes \<and> only_fields v [''actionClasses'']"
proof (cases "v = None")
  case False
  with assms obtain r xs cs where f: "v = Some (JObj r)" "fst ` set r \<subseteq> {''actionClasses''}" "xs \<noteq> []"
    "sum_map_from 0 (\<lambda>i x. actionClassValue (Some x) (''catalogFilter.actionClasses['' @ nat_str i @ ''] is invalid'')) xs = Inr cs"
    "distinct cs" "classes = Some cs"
    unfolding parseCatalogFilter_def
    by (auto simp: objectValue_Inr assertAllowedFields_Inr nonEmptyArray_Inr split: if_splits)
  have "list_all (\<lambda>s. s \<in> {''read'', ''write'', ''destructive''}) cs" using f(4) by (rule sum_map_from_all) (rule actionClassValue_Inr)
  moreover have "cs \<noteq> []" using f(3,4) by (cases xs) auto
  ultimately show ?thesis using f by (auto simp: filter_ok_def only_fields_def list_all_iff)
qed (use assms in \<open>simp add: parseCatalogFilter_def filter_ok_def only_fields_def\<close>)

lemma parseServerInfo_Inr:
  "parseServerInfo v name = Inr i \<Longrightarrow> (i = (name @ ''-wrapper'', ''1.0.0'') \<or> spelled (fst i) \<and> spelled (snd i)) \<and>
    only_fields v [''name'', ''version'']"
  unfolding parseServerInfo_def only_fields_def
  by (auto simp: objectValue_Inr assertAllowedFields_Inr dest!: nonEmptyString_spelled split: if_splits)

definition policy_ok :: "(string option \<times> string option) option \<Rightarrow> bool" where
  "policy_ok policy \<longleftrightarrow>
     (\<forall>y o'. policy = Some (y, o') \<longrightarrow> (y \<noteq> None \<or> o' \<noteq> None) \<and> (\<forall>s. y = Some s \<or> o' = Some s \<longrightarrow> spelled s))"

lemma parseGenericPolicy_Inr: "parseGenericPolicy v = Inr policy \<Longrightarrow> policy_ok policy \<and> only_fields v [''yamlFile'', ''opaUrl'']"
  unfolding parseGenericPolicy_def policy_ok_def only_fields_def
  by (auto simp: objectValue_Inr assertAllowedFields_Inr dest: optional_spelled split: if_splits)

lemma parseGenericAudit_Inr:
  "parseGenericAudit v = Inr audit \<Longrightarrow> (\<forall>p. audit = Some p \<longrightarrow> spelled p) \<and> only_fields v [''jsonlPath'']"
  unfolding parseGenericAudit_def only_fields_def
  by (auto simp: objectValue_Inr assertAllowedFields_Inr dest: optional_spelled split: if_splits)

text \<open>The document of a descriptor: its version, its fields, and the fields of the objects in it.\<close>

definition document_ok :: "json \<Rightarrow> GenericWrapperDescriptor \<Rightarrow> bool" where
  "document_ok v d \<longleftrightarrow>
     (\<exists>r. v = JObj r \<and> js_get r ''schemaVersion'' = Some (JStr GENERIC_WRAPPER_SCHEMA_VERSION) \<and>
        fst ` set r \<subseteq> set DESCRIPTOR_FIELDS \<and>
        js_get r ''name'' = Some (JStr (gd_name d)) \<and> js_get r ''toolPrefix'' = Some (JStr (gd_toolPrefix d)) \<and>
        js_get r ''catalogPath'' = Some (JStr (gd_catalogPath d)) \<and>
        only_fields (js_get r ''upstream'') (UPSTREAM_FIELDS (gd_upstream d)) \<and>
        (\<exists>cr. js_get r ''credential'' = Some (JObj cr) \<and> fst ` set cr \<subseteq> set (CREDENTIAL_FIELDS (gd_credential d)) \<and>
           identity_fields_ok cr (gd_credential d)) \<and>
        only_fields (js_get r ''catalogFilter'') [''actionClasses''] \<and>
        only_fields (js_get r ''lifecycleToolNames'') LIFECYCLE_FIELDS \<and>
        only_fields (js_get r ''serverInfo'') [''name'', ''version''] \<and> only_fields (js_get r ''sessions'') SESSION_FIELDS \<and>
        only_fields (js_get r ''policy'') [''yamlFile'', ''opaUrl''] \<and> only_fields (js_get r ''audit'') [''jsonlPath''])"

lemma descriptor_parts:
  assumes "parseGenericWrapperDescriptor parse v = Inr d"
  obtains r cr where "v = JObj r" "fst ` set r \<subseteq> set DESCRIPTOR_FIELDS"
    "js_get r ''schemaVersion'' = Some (JStr GENERIC_WRAPPER_SCHEMA_VERSION)"
    "patternString NAME_PATTERN (js_get r ''name'') ''name'' = Inr (gd_name d)"
    "patternString TOOL_PREFIX_PATTERN (js_get r ''toolPrefix'') ''toolPrefix'' = Inr (gd_toolPrefix d)"
    "nonEmptyString (js_get r ''catalogPath'') ''catalogPath'' = Inr (gd_catalogPath d)" "prefix ''/'' (gd_catalogPath d)"
    "js_get r ''credential'' = Some (JObj cr)"
    "\<not> (js_get cr ''mode'' = Some (JStr ''per_user_oauth'') \<and> \<not> gd_lifecycleRoutes d)"
    "\<not> (gd_hideToolsUntilConnected d \<and> js_get cr ''mode'' \<noteq> Some (JStr ''per_user_oauth''))"
    "parseCatalogFilter (js_get r ''catalogFilter'') = Inr (gd_catalogFilter d)"
    "parseLifecycleToolNames (js_get r ''lifecycleToolNames'') = Inr (gd_lifecycleToolNames d)"
    "parseUpstream parse (js_get r ''upstream'') = Inr (gd_upstream d)"
    "parseCredential parse cr = Inr (gd_credential d)"
    "parseServerInfo (js_get r ''serverInfo'') (gd_name d) = Inr (gd_serverInfo d)"
    "parseSessions (js_get r ''sessions'') = Inr (gd_sessions d)"
    "parseGenericPolicy (js_get r ''policy'') = Inr (gd_policy d)"
    "parseGenericAudit (js_get r ''audit'') = Inr (gd_audit d)"
  using assms unfolding parseGenericWrapperDescriptor_def
  by (clarsimp simp: objectValue_Inr assertAllowedFields_Inr)

text \<open>C40: a descriptor that was read is well-formed, and so is the document it was read from. The document
  has the version of the schema and no fields but those allowed, in every object of it. The names have
  their patterns, those of the two lifecycle tools included, which differ; the paths are absolute; the
  filter names action classes, none twice; the limits of the sessions are positive and that of one
  principal is within the total; timeouts are positive. Environment variables and headers, of a static
  secret, of a token exchange and of an authorization per user, have their patterns. Every OAuth endpoint
  is an HTTPS URL without credentials; the redirect URI is the callback of the provider, over HTTPS or
  on a loopback address; the fields of a verified identity are paths, and the site of an asserted
  Atlassian identity is an HTTPS origin, bound to Jira and its pinned endpoint; an authorization per
  user comes with its routes, and only with it may tools be hidden.\<close>

theorem descriptor_wellformed:
  assumes "parseGenericWrapperDescriptor parse v = Inr d"
  shows "document_ok v d \<and>
    NAME_PATTERN (gd_name d) \<and> TOOL_PREFIX_PATTERN (gd_toolPrefix d) \<and> prefix ''/'' (gd_catalogPath d) \<and>
    filter_ok (gd_catalogFilter d) \<and>
    TOOL_NAME_PATTERN (ln_start (gd_lifecycleToolNames d)) \<and> TOOL_NAME_PATTERN (ln_status (gd_lifecycleToolNames d)) \<and>
    ln_start (gd_lifecycleToolNames d) \<noteq> ln_status (gd_lifecycleToolNames d) \<and>
    0 < gs_maxPerPrincipal (gd_sessions d) \<and> gs_maxPerPrincipal (gd_sessions d) \<le> gs_maxTotal (gd_sessions d) \<and>
    0 < gs_idleTtlMs (gd_sessions d) \<and>
    (gd_serverInfo d = (gd_name d @ ''-wrapper'', ''1.0.0'') \<or> spelled (fst (gd_serverInfo d)) \<and> spelled (snd (gd_serverInfo d))) \<and>
    policy_ok (gd_policy d) \<and> (\<forall>p. gd_audit d = Some p \<longrightarrow> spelled p) \<and>
    upstream_ok parse (gd_upstream d) \<and>
    credential_ok parse (gd_lifecycleRoutes d) (gd_hideToolsUntilConnected d) (gd_credential d)"
  using assms
proof (rule descriptor_parts)
  fix r cr
  assume p: "v = JObj r" "fst ` set r \<subseteq> set DESCRIPTOR_FIELDS"
    "js_get r ''schemaVersion'' = Some (JStr GENERIC_WRAPPER_SCHEMA_VERSION)"
    "patternString NAME_PATTERN (js_get r ''name'') ''name'' = Inr (gd_name d)"
    "patternString TOOL_PREFIX_PATTERN (js_get r ''toolPrefix'') ''toolPrefix'' = Inr (gd_toolPrefix d)"
    "nonEmptyString (js_get r ''catalogPath'') ''catalogPath'' = Inr (gd_catalogPath d)" "prefix ''/'' (gd_catalogPath d)"
    "js_get r ''credential'' = Some (JObj cr)"
    "\<not> (js_get cr ''mode'' = Some (JStr ''per_user_oauth'') \<and> \<not> gd_lifecycleRoutes d)"
    "\<not> (gd_hideToolsUntilConnected d \<and> js_get cr ''mode'' \<noteq> Some (JStr ''per_user_oauth''))"
    "parseCatalogFilter (js_get r ''catalogFilter'') = Inr (gd_catalogFilter d)"
    "parseLifecycleToolNames (js_get r ''lifecycleToolNames'') = Inr (gd_lifecycleToolNames d)"
    "parseUpstream parse (js_get r ''upstream'') = Inr (gd_upstream d)"
    "parseCredential parse cr = Inr (gd_credential d)"
    "parseServerInfo (js_get r ''serverInfo'') (gd_name d) = Inr (gd_serverInfo d)"
    "parseSessions (js_get r ''sessions'') = Inr (gd_sessions d)"
    "parseGenericPolicy (js_get r ''policy'') = Inr (gd_policy d)"
    "parseGenericAudit (js_get r ''audit'') = Inr (gd_audit d)"
  note f = patternString_Inr [OF p(4)] patternString_Inr [OF p(5)] nonEmptyString_Inr [OF p(6)] parseCatalogFilter_Inr [OF p(11)]
    parseLifecycleToolNames_Inr [OF p(12)] parseUpstream_Inr [OF p(13)] parseCredential_Inr [OF p(14,9,10)]
    parseServerInfo_Inr [OF p(15)] parseSessions_Inr [OF p(16)] parseGenericPolicy_Inr [OF p(17)] parseGenericAudit_Inr [OF p(18)]
  from p(1-3,8) f have "document_ok v d" unfolding document_ok_def by simp
  with p(7) f show ?thesis by simp
qed

section \<open>Tools\<close>

definition tool_ok :: "string \<Rightarrow> 'a GenericGovernedTool_scheme \<Rightarrow> bool" where
  "tool_ok toolPrefix t \<longleftrightarrow>
     prefix (toolPrefix @ ''_'') (gt_exposedName t) \<and>
     tk_actionClass (gt_grants t) \<in> {''read'', ''write'', ''destructive''}"

lemma parseGrant_fields_class: "parseGrant_fields r name c = Inr g \<Longrightarrow> tk_actionClass g = c"
  by (auto simp: parseGrant_fields_def)

lemma parseCatalogTool_Inr: "parseCatalogTool toolPrefix i v = Inr t \<Longrightarrow> tool_ok toolPrefix t"
  unfolding parseCatalogTool_def tool_ok_def Let_def
  by (auto dest!: actionClassValue_Inr parseGrant_fields_class)

lemma parseToolDecision_Inr: "parseToolDecision toolPrefix i v = Inr (IncludedTool t) \<Longrightarrow> tool_ok toolPrefix t"
  unfolding parseToolDecision_def tool_ok_def Let_def
  by (auto dest!: actionClassValue_Inr parseGrant_fields_class split: if_splits)

lemma catalogTools_Inr:
  assumes "catalogTools toolPrefix i names vs = Inr tools"
  shows "distinct (map gt_exposedName tools) \<and> gt_exposedName ` set tools \<inter> set names = {} \<and>
    list_all (tool_ok toolPrefix) tools \<and> (tools = [] \<longleftrightarrow> vs = [])"
  using assms
proof (induction toolPrefix i names vs arbitrary: tools rule: catalogTools.induct)
  case (2 toolPrefix i names v vs)
  from "2.prems" obtain tool rest where t: "parseCatalogTool toolPrefix i v = Inr tool" "gt_exposedName tool \<notin> set names"
    "catalogTools toolPrefix (Suc i) (gt_exposedName tool # names) vs = Inr rest" "tools = tool # rest"
    by (auto split: if_splits)
  from "2.IH" [OF t(2,3)] parseCatalogTool_Inr [OF t(1)] t(2,4) show ?case by auto
qed simp

definition included :: "GenericToolDecision list \<Rightarrow> GenericGovernedTool list" where
  "included ds = concat (map (\<lambda>d. case d of IncludedTool t \<Rightarrow> [t] | _ \<Rightarrow> []) ds)"

lemma toolDecisions_Inr:
  assumes "toolDecisions toolPrefix i up ex vs = Inr ds"
  shows "distinct (map decisionName ds) \<and> decisionName ` set ds \<inter> set up = {} \<and>
    distinct (map gt_exposedName (included ds)) \<and> gt_exposedName ` set (included ds) \<inter> set ex = {} \<and>
    list_all (tool_ok toolPrefix) (included ds)"
  using assms
proof (induction toolPrefix i up ex vs arbitrary: ds rule: toolDecisions.induct)
  case (2 toolPrefix i up ex v vs)
  from "2.prems" obtain d where d: "parseToolDecision toolPrefix i v = Inr d" "decisionName d \<notin> set up"
    by (auto split: if_splits)
  show ?case
  proof (cases d)
    case (ExcludedTool n reason)
    with "2.prems" d obtain rest where r: "toolDecisions toolPrefix (Suc i) (decisionName d # up) ex vs = Inr rest" "ds = d # rest"
      by (auto split: if_splits)
    from "2.IH"(2) [OF d(2) ExcludedTool r(1)] d(2) ExcludedTool r(2) show ?thesis by (auto simp: included_def)
  next
    case (IncludedTool t)
    with "2.prems" d obtain rest where r: "gt_exposedName t \<notin> set ex"
      "toolDecisions toolPrefix (Suc i) (decisionName d # up) (gt_exposedName t # ex) vs = Inr rest" "ds = d # rest"
      by (auto split: if_splits)
    from "2.IH"(1) [OF d(2) IncludedTool r(1,2)] parseToolDecision_Inr [of toolPrefix i v t] d IncludedTool r(1,3) show ?thesis
      by (auto simp: included_def)
  qed
qed (simp add: included_def)

lemma selectedTools_included:
  "selectedTools classes ds =
     filter (\<lambda>t. case classes of None \<Rightarrow> True | Some cs \<Rightarrow> tk_actionClass (gt_grants t) \<in> set cs) (included ds)"
  unfolding selectedTools_def included_def by (induction ds) (auto split: GenericToolDecision.splits)

text \<open>The tools of a source: names that are distinct and have the prefix, classes within the filter.\<close>

definition source_ok :: "string \<Rightarrow> string list option \<Rightarrow> GenericToolSource \<Rightarrow> bool" where
  "source_ok toolPrefix classes source \<longleftrightarrow>
     sourceTools source \<noteq> [] \<and> distinct (map gt_exposedName (sourceTools source)) \<and>
     (\<forall>t \<in> set (sourceTools source). tool_ok toolPrefix t \<and>
        (\<forall>cs. classes = Some cs \<longrightarrow> tk_actionClass (gt_grants t) \<in> set cs)) \<and>
     (case source of
        LiveCatalog _ ds tools \<Rightarrow> distinct (map decisionName ds) \<and> (\<forall>t \<in> set tools. IncludedTool t \<in> set ds)
      | StaticCatalog _ _ \<Rightarrow> classes = None)"

lemma governed_simps [simp]:
  "gt_exposedName (governed t) = gt_exposedName t" "gt_upstreamName (governed t) = gt_upstreamName t"
  "gt_grants (governed t) = gt_grants t" "tool_ok toolPrefix (governed t) = tool_ok toolPrefix t"
  by (simp_all add: governed_def GenericGovernedTool.truncate_def tool_ok_def)

lemma included_mem: "t \<in> set (included ds) \<longleftrightarrow> IncludedTool t \<in> set ds"
  unfolding included_def by (induction ds) (auto split: GenericToolDecision.splits)

lemma parseGenericToolDecisions_ok:
  assumes "parseGenericToolDecisions v toolPrefix classes = Inr source"
  shows "source_ok toolPrefix classes source"
proof -
  from assms obtain ds vs catalogId where d: "toolDecisions toolPrefix 0 [] [] vs = Inr ds" "selectedTools classes ds \<noteq> []"
    "source = LiveCatalog catalogId ds (selectedTools classes ds)"
    unfolding parseGenericToolDecisions_def by clarsimp
  note f = toolDecisions_Inr [OF d(1)]
  have "distinct (map gt_exposedName (selectedTools classes ds))"
    using f by (simp add: selectedTools_included distinct_map_filter)
  moreover have "tool_ok toolPrefix t \<and> IncludedTool t \<in> set ds \<and> (\<forall>cs. classes = Some cs \<longrightarrow> tk_actionClass (gt_grants t) \<in> set cs)"
    if "t \<in> set (selectedTools classes ds)" for t
    using that f by (auto simp: selectedTools_included included_mem list_all_iff split: option.splits)
  ultimately show ?thesis using f d(2,3) by (auto simp: source_ok_def)
qed

lemma parseGenericToolCatalog_ok:
  assumes "parseGenericToolCatalog v toolPrefix = Inr source"
  shows "source_ok toolPrefix None source"
proof -
  from assms obtain vs tools catalogId where c: "catalogTools toolPrefix 0 [] vs = Inr tools" "vs \<noteq> []"
    "source = StaticCatalog catalogId tools"
    unfolding parseGenericToolCatalog_def by (clarsimp simp: nonEmptyArray_Inr)
  from catalogTools_Inr [OF c(1)] c(2,3) show ?thesis
    by (auto simp: source_ok_def list_all_iff comp_def)
qed

lemma validated_oauth:
  assumes "validateGenericWrapperConfiguration d source = Inr ()" "gd_credential d = PerUserOAuth c" "t \<in> set (sourceTools source)"
  shows "gt_exposedName t \<notin> set (reservedToolNames d)" "set (tk_scopes (gt_grants t)) \<subseteq> set (go_scopes c)"
  using assms
  by (fastforce simp: validateGenericWrapperConfiguration_def find_None_iff split: if_splits option.splits
      GenericUpstreamDescriptor.splits)+

text \<open>The tools a wrapper serves, from a catalog or from decisions about live tools that passed
  the checks: there is one at least, their exposed names are distinct and carry the prefix of the
  wrapper, their classes are within the filter of the descriptor, a live tool is one that a decision
  includes and no upstream tool has two decisions; and under an authorization per user no tool hides
  a lifecycle helper, and the scopes a tool needs are within those the user consents to.\<close>

lemma tool_source_wellformed:
  assumes "loadGenericToolSource v (gd_toolPrefix d) classes = Inr source"
    "validateGenericWrapperConfiguration d source = Inr ()"
  shows "source_ok (gd_toolPrefix d) classes source \<and>
    (\<forall>c. gd_credential d = PerUserOAuth c \<longrightarrow> go_providerId c \<notin> set RESERVED_PROVIDER_IDS \<and>
      (\<forall>t \<in> set (sourceTools source).
        gt_exposedName t \<notin> set (reservedToolNames d) \<and> set (tk_scopes (gt_grants t)) \<subseteq> set (go_scopes c)))"
proof -
  have "source_ok (gd_toolPrefix d) classes source"
    using assms(1) parseGenericToolDecisions_ok parseGenericToolCatalog_ok
    by (fastforce simp: loadGenericToolSource_def split: if_splits)
  moreover have "go_providerId c \<notin> set RESERVED_PROVIDER_IDS" if "gd_credential d = PerUserOAuth c" for c
    using assms(2) that
    by (auto simp: validateGenericWrapperConfiguration_def split: if_splits GenericUpstreamDescriptor.splits)
  ultimately show ?thesis using validated_oauth [OF assms(2)] by blast
qed

section \<open>Loopback addresses\<close>

text \<open>The parser of URLs keeps the brackets of an IPv6 address in the host name, so the loopback address
  \<open>::1\<close> that the check means to admit is refused.\<close>

lemma ipv6_loopback_refused:
  assumes "parse s = Some url" "url_protocol url = ''http:''" "url_hostname url = ''[::1]''"
  shows "isl (httpsOrLoopbackUrl parse (Some (JStr s)) name)"
  using assms by (auto simp: httpsOrLoopbackUrl_def httpUrl_def nonEmptyString_def Let_def)

section \<open>An example\<close>

definition example_url :: "string \<Rightarrow> string \<Rightarrow> full_url" where
  "example_url host path =
     \<lparr>url_protocol = ''https:'', url_hostname = host, url_username = [], url_password = [], url_hash = [],
      url_href = ''https://'' @ host @ path, url_pathname = path, url_search = [], url_origin = ''https://'' @ host\<rparr>"

text \<open>A parser for the few URLs of the example: a host and a path after \<open>https://\<close>.\<close>

definition example_parser :: url_parser where
  "example_parser s =
     (if prefix ''https://'' s \<and> CHR ''/'' \<in> set (drop 8 s)
      then let rest = drop 8 s; host = takeWhile (\<lambda>c. c \<noteq> CHR ''/'') rest in
        Some (example_url host (drop (length host) rest))
      else None)"

definition example_oauth_json :: json where
  "example_oauth_json =
     JObj [(''mode'', JStr ''per_user_oauth''), (''providerId'', JStr ''acme''),
       (''authorizationUrl'', JStr ''https://a/auth''), (''tokenUrl'', JStr ''https://a/token''),
       (''userInfoUrl'', JStr ''https://a/me''), (''redirectUri'', JStr ''https://gw/oauth/acme/callback''),
       (''scopes'', JArr [JStr ''read'']), (''clientIdEnv'', JStr ''ID''), (''clientSecretEnv'', JStr ''SECRET''),
       (''encryptionKeyEnv'', JStr ''KEY''), (''tokenStoreDsnEnv'', JStr ''DSN''),
       (''identity'', JObj [(''idField'', JStr ''sub''), (''emailField'', JStr ''email''), (''emailVerifiedField'', JStr ''ok'')])]"

definition example_descriptor_json :: json where
  "example_descriptor_json =
     JObj [(''schemaVersion'', JStr GENERIC_WRAPPER_SCHEMA_VERSION), (''name'', JStr ''acme''), (''toolPrefix'', JStr ''acme''),
       (''catalogPath'', JStr ''/c.yaml''), (''lifecycleRoutes'', JBool True), (''hideToolsUntilConnected'', JBool True),
       (''upstream'', JObj [(''transport'', JStr ''http''), (''url'', JStr ''https://up/mcp'')]),
       (''credential'', example_oauth_json)]"

definition example_descriptor :: GenericWrapperDescriptor where
  "example_descriptor =
     \<lparr>gd_name = ''acme'', gd_toolPrefix = ''acme'', gd_catalogPath = ''/c.yaml'', gd_catalogFilter = None,
      gd_lifecycleRoutes = True, gd_hideToolsUntilConnected = True, gd_lifecycleToolNames = DEFAULT_LIFECYCLE_TOOL_NAMES,
      gd_upstream = HttpUpstream ''https://up/mcp'' None,
      gd_credential = PerUserOAuth
        \<lparr>go_providerId = ''acme'', go_authorizationUrl = ''https://a/auth'', go_tokenUrl = ''https://a/token'',
         go_userInfoUrl = ''https://a/me'', go_revocationUrl = None, go_redirectUri = ''https://gw/oauth/acme/callback'',
         go_scopes = [''read''], go_clientIdEnv = ''ID'', go_clientSecretEnv = ''SECRET'', go_encryptionKeyEnv = ''KEY'',
         go_tokenStoreDsnEnv = ''DSN'', go_header = ''authorization'', go_scheme = ''Bearer'',
         go_identity = VerifiedEmail ''sub'' ''email'' None ''ok'', go_authorizationParams = None,
         go_tokenEndpointAuthMethod = ''client_secret_basic'', go_timeoutMs = None\<rparr>,
      gd_serverInfo = (''acme-wrapper'', ''1.0.0''), gd_sessions = DEFAULT_SESSION_LIMITS, gd_policy = None, gd_audit = None\<rparr>"

definition example_decisions_json :: json where
  "example_decisions_json =
     JObj [(''schemaVersion'', JStr GENERIC_TOOL_DECISIONS_SCHEMA_VERSION), (''catalogId'', JStr ''c''),
       (''tools'', JArr
         [JObj [(''name'', JStr ''list''), (''disposition'', JStr ''include''), (''alias'', JStr ''list''),
                (''actionClass'', JStr ''read''), (''scopes'', JArr [JStr ''read''])],
          JObj [(''name'', JStr ''drop''), (''disposition'', JStr ''exclude''), (''reason'', JStr ''unsafe'')]])]"

definition example_listed_tool :: GenericGovernedTool where
  "example_listed_tool =
     \<lparr>gt_exposedName = ''acme_list'', gt_upstreamName = ''list'', gt_alias = Some ''list'',
      gt_grants = \<lparr>tk_actionClass = ''read'', tk_operation = None, tk_scopes = [''read'']\<rparr>\<rparr>"

definition example_source :: GenericToolSource where
  "example_source = LiveCatalog ''c'' [IncludedTool example_listed_tool, ExcludedTool ''drop'' ''unsafe''] [example_listed_tool]"

lemma example_descriptor_parsed:
  "parseGenericWrapperDescriptor example_parser example_descriptor_json = Inr example_descriptor"
  by code_simp

lemma example_source_loaded:
  "loadGenericToolSource example_decisions_json (gd_toolPrefix example_descriptor) None = Inr example_source"
  "validateGenericWrapperConfiguration example_descriptor example_source = Inr ()"
  by code_simp+

theorem descriptor_wellformed_witness:
  "credential_ok example_parser True True (gd_credential example_descriptor) \<and> 0 < gs_idleTtlMs (gd_sessions example_descriptor)"
  using descriptor_wellformed [OF example_descriptor_parsed] by (simp add: example_descriptor_def)

lemma tool_source_wellformed_example:
  "source_ok (gd_toolPrefix example_descriptor) None example_source \<and>
   set (tk_scopes (gt_grants example_listed_tool)) \<subseteq> set [''read'']"
  using tool_source_wellformed [OF example_source_loaded] by (simp add: example_descriptor_def example_source_def)

end
