(* ===== verification/Generic_Transport.thy ===== *)
theory Generic_Transport
  imports Descriptor
begin

text \<open>
  The upstream of the generic wrapper (\<open>servers/generic-wrapper/src/transport.ts\<close> and \<open>catalog-capture.ts\<close>):
  the sessions of the clients, what is sent to an HTTP upstream, the framing of a stdio upstream, and the
  pages of an upstream's catalog. The network, the child process and the parser of JSON are parameters:
  a request is an output of these functions, and its reply is an argument.
\<close>

section \<open>Sessions\<close>

record GenericUpstreamCredential =
  uc_header :: string
  uc_value :: string
  uc_rawValue :: "string option"

record session =
  sn_principalKey :: string
  sn_lastUsedAt :: time_ms
  sn_busy :: bool

record HttpSession = session +
  hs_upstreamSessionId :: "string option"
  hs_initialized :: bool
  hs_credential :: "GenericUpstreamCredential option"

record StdioSession = session +
  st_child :: bool
  st_credentialDigest :: "string option"
  st_buffer :: string

record session_limits =
  sl_maxSessions :: nat
  sl_maxSessionsPerPrincipal :: nat
  sl_idleTtlMs :: time_ms

definition positiveLimit :: "rat option \<Rightarrow> int \<Rightarrow> string \<Rightarrow> string + int" where
  "positiveLimit v fallback name =
     (let r = coalesce v (of_int fallback) in
      if r \<in> \<int> \<and> r \<ge> 1 then Inr \<lfloor>r\<rfloor> else Inl (name @ '' must be a positive integer''))"

text \<open>The limits of a transport, from the options it is created with.\<close>

definition sessionLimits :: "rat option \<Rightarrow> rat option \<Rightarrow> rat option \<Rightarrow> int \<Rightarrow> string + session_limits" where
  "sessionLimits maxSessions perPrincipal idle defaultMax =
     sum_bind (positiveLimit maxSessions defaultMax ''maxSessions'') (\<lambda>m.
     sum_bind (positiveLimit perPrincipal 4 ''maxSessionsPerPrincipal'') (\<lambda>p.
     sum_bind (if p > m then Inl ''maxSessionsPerPrincipal must not exceed maxSessions'' else Inr ()) (\<lambda>_.
     sum_bind (positiveLimit idle (30 * 60 * 1000) ''sessionIdleTtlMs'') (\<lambda>t.
       Inr \<lparr>sl_maxSessions = nat m, sl_maxSessionsPerPrincipal = nat p, sl_idleTtlMs = t\<rparr>))))"

type_synonym 'x sessions = "(string, 'x session_scheme) jsmap"

definition pruneIdle :: "session_limits \<Rightarrow> time_ms \<Rightarrow> 'x sessions \<Rightarrow> 'x sessions" where
  "pruneIdle limits now ss = filter (\<lambda>(k, s). \<not> (\<not> sn_busy s \<and> now - sn_lastUsedAt s \<ge> sl_idleTtlMs limits)) ss"

definition ownSessions :: "string \<Rightarrow> 'x sessions \<Rightarrow> 'x sessions" where
  "ownSessions who ss = filter (\<lambda>(k, s). sn_principalKey s = who) ss"

text \<open>The loop of \<open>makeRoomForSession\<close>: of the sessions that are not busy, the first with the least time.\<close>

fun leastRecentlyUsed ::
  "(string \<times> 'x session_scheme) option \<Rightarrow> 'x sessions \<Rightarrow> (string \<times> 'x session_scheme) option" where
  "leastRecentlyUsed best [] = best"
| "leastRecentlyUsed best ((k, s) # ss) =
     leastRecentlyUsed
       (if \<not> sn_busy s \<and> (case best of None \<Rightarrow> True | Some (_, b) \<Rightarrow> sn_lastUsedAt s < sn_lastUsedAt b)
        then Some (k, s) else best) ss"

text \<open>An error, or the session that was evicted and the sessions that are left.\<close>

definition makeRoomForSession ::
  "session_limits \<Rightarrow> string \<Rightarrow> string \<Rightarrow> 'x sessions \<Rightarrow>
   string + ((string \<times> 'x session_scheme) option \<times> 'x sessions)" where
  "makeRoomForSession limits sid who ss =
     (let own = ownSessions who ss; n = length own; lru = leastRecentlyUsed None own in
      if js_get ss sid \<noteq> None then Inl ''MCP session ID is already issued''
      else if n \<ge> sl_maxSessionsPerPrincipal limits \<and> lru \<noteq> None
      then Inr (lru, js_del (fst (the lru)) ss)
      else if length ss \<ge> sl_maxSessions limits then Inl ''MCP global session limit reached''
      else if n \<ge> sl_maxSessionsPerPrincipal limits then Inl ''MCP per-principal session limit reached''
      else Inr (None, ss))"

definition issueWith ::
  "(string \<Rightarrow> time_ms \<Rightarrow> 'x session_scheme) \<Rightarrow> session_limits \<Rightarrow> time_ms \<Rightarrow> string \<Rightarrow> string \<Rightarrow> 'x sessions \<Rightarrow>
   (string + (string \<times> 'x session_scheme) option) \<times> 'x sessions" where
  "issueWith new limits now sid who ss =
     (let ss = pruneIdle limits now ss in
      case makeRoomForSession limits sid who ss of
        Inl e \<Rightarrow> (Inl e, ss)
      | Inr (evicted, ss) \<Rightarrow> (Inr evicted, js_set sid (new who now) ss))"

definition newHttpSession :: "string \<Rightarrow> time_ms \<Rightarrow> HttpSession" where
  "newHttpSession who now =
     \<lparr>sn_principalKey = who, sn_lastUsedAt = now, sn_busy = False, hs_upstreamSessionId = None,
      hs_initialized = False, hs_credential = None\<rparr>"

definition newStdioSession :: "string \<Rightarrow> time_ms \<Rightarrow> StdioSession" where
  "newStdioSession who now =
     \<lparr>sn_principalKey = who, sn_lastUsedAt = now, sn_busy = False, st_child = False,
      st_credentialDigest = None, st_buffer = []\<rparr>"

definition issueHttpSession where "issueHttpSession = issueWith newHttpSession"

definition issueStdioSession where "issueStdioSession = issueWith newStdioSession"

definition assertIssuedSession :: "'x sessions \<Rightarrow> string \<Rightarrow> string \<Rightarrow> string + 'x session_scheme" where
  "assertIssuedSession ss sid who =
     (case js_get ss sid of
        None \<Rightarrow> Inl ''MCP session is unknown or expired''
      | Some s \<Rightarrow> (if sn_principalKey s \<noteq> who then Inl ''MCP session does not belong to this principal'' else Inr s))"

text \<open>A session is an object that the map and the operations under way share.\<close>

definition updateSession :: "string \<Rightarrow> ('x session_scheme \<Rightarrow> 'x session_scheme) \<Rightarrow> 'x sessions \<Rightarrow> 'x sessions" where
  "updateSession sid f ss = map (\<lambda>(k, s). (k, if k = sid then f s else s)) ss"

definition assertSession :: "time_ms \<Rightarrow> string \<Rightarrow> string \<Rightarrow> 'x sessions \<Rightarrow> (string + unit) \<times> 'x sessions" where
  "assertSession now sid who ss =
     (case assertIssuedSession ss sid who of
        Inl e \<Rightarrow> (Inl e, ss)
      | Inr _ \<Rightarrow> (Inr (), updateSession sid (\<lambda>s. s\<lparr>sn_lastUsedAt := now\<rparr>) ss))"

text \<open>\<open>close\<close>: the session that was removed, with its credential in place of one that is missing.\<close>

definition closeSession :: "string option \<Rightarrow> string \<Rightarrow> 'x sessions \<Rightarrow> (string + 'x session_scheme option) \<times> 'x sessions" where
  "closeSession sid who ss =
     (case sid of
        None \<Rightarrow> (Inr None, ss)
      | Some k \<Rightarrow>
          (if k = [] then (Inr None, ss)
           else case js_get ss k of
               None \<Rightarrow> (Inr None, ss)
             | Some s \<Rightarrow>
                 (if sn_principalKey s \<noteq> who then (Inl ''MCP session does not belong to this principal'', ss)
                  else (Inr (Some s), js_del k ss))))"

section \<open>Requests to an HTTP upstream\<close>

text \<open>Header names are in lower case. The text that is sent is the JSON value or the text of the client.\<close>

datatype upstream_body = RawBody string | JsonBody json | NoBody

record incoming_request =
  iq_method :: string
  iq_path :: string
  iq_headers :: "(string \<times> string) list"
  iq_body :: string

record upstream_call =
  ca_url :: string
  ca_method :: string
  ca_headers :: "(string \<times> string) list"
  ca_body :: upstream_body

record upstream_reply =
  re_status :: nat
  re_headers :: "(string \<times> string) list"
  re_body :: "string list"

definition reply_ok :: "upstream_reply \<Rightarrow> bool" where
  "reply_ok r \<longleftrightarrow> 200 \<le> re_status r \<and> re_status r < 300"

text \<open>\<open>headers.get(name)\<close> where an empty value counts as none.\<close>

definition header_of :: "(string \<times> string) list \<Rightarrow> string \<Rightarrow> string option" where
  "header_of hs name = (case js_get hs name of Some (c # cs) \<Rightarrow> Some (c # cs) | _ \<Rightarrow> None)"

definition FORWARDED_HEADERS :: "string list" where
  "FORWARDED_HEADERS = [''accept'', ''content-type'', ''mcp-protocol-version'', ''mcp-session-id'']"

definition set_header :: "string \<Rightarrow> string option \<Rightarrow> (string \<times> string) list \<Rightarrow> (string \<times> string) list" where
  "set_header name v hs = (case v of None \<Rightarrow> hs | Some s \<Rightarrow> js_set name s hs)"

definition forwardedHeaders :: "incoming_request \<Rightarrow> (string \<times> string) list" where
  "forwardedHeaders rq =
     foldl (\<lambda>hs name. if name = ''mcp-session-id'' then hs else set_header name (header_of (iq_headers rq) name) hs)
       [] FORWARDED_HEADERS"

definition sendHttpRequest ::
  "string \<Rightarrow> incoming_request \<Rightarrow> upstream_body \<Rightarrow> GenericUpstreamCredential option \<Rightarrow> string option \<Rightarrow> upstream_call" where
  "sendHttpRequest url rq body credential upstreamSessionId =
     (let hs = forwardedHeaders rq;
          hs = set_header ''last-event-id'' (header_of (iq_headers rq) ''last-event-id'') hs;
          hs = set_header ''mcp-session-id'' (if truthy upstreamSessionId then upstreamSessionId else None) hs;
          hs = (case credential of None \<Rightarrow> hs | Some c \<Rightarrow> js_set (uc_header c) (uc_value c) hs) in
      \<lparr>ca_url = url, ca_method = iq_method rq, ca_headers = hs,
       ca_body = (if iq_method rq = ''GET'' \<or> iq_method rq = ''HEAD'' then NoBody else body)\<rparr>)"

definition requestWithMethod :: "incoming_request \<Rightarrow> string \<Rightarrow> incoming_request" where
  "requestWithMethod rq m = rq\<lparr>iq_method := m, iq_headers := filter (\<lambda>(k, v). k \<noteq> ''mcp-session-id'') (iq_headers rq)\<rparr>"

definition initializeBody :: "string \<Rightarrow> string \<Rightarrow> string \<times> string \<Rightarrow> json" where
  "initializeBody requestId protocolVersion serverInfo =
     JObj [(''jsonrpc'', JStr ''2.0''), (''id'', JStr (''generic-wrapper-'' @ requestId)), (''method'', JStr ''initialize''),
       (''params'', JObj [(''protocolVersion'', JStr protocolVersion), (''capabilities'', JObj []),
          (''clientInfo'', JObj [(''name'', JStr (fst serverInfo)), (''version'', JStr (snd serverInfo))])])]"

definition initializedBody :: json where
  "initializedBody =
     JObj [(''jsonrpc'', JStr ''2.0''), (''method'', JStr ''notifications/initialized''), (''params'', JObj [])]"

text \<open>The network: the reply to the n-th call, or a failure. \<open>http_run\<close> are the calls made, the session
  and the outcome.\<close>

type_synonym network = "nat \<Rightarrow> upstream_call \<Rightarrow> upstream_reply option"
type_synonym 'a http_run = "upstream_call list \<times> HttpSession \<times> (string + 'a)"

definition initializeHttpSession ::
  "string \<Rightarrow> string \<times> string \<Rightarrow> string \<Rightarrow> network \<Rightarrow> incoming_request \<Rightarrow> GenericUpstreamCredential option \<Rightarrow>
   HttpSession \<Rightarrow> unit http_run" where
  "initializeHttpSession url serverInfo requestId net rq credential s =
     (let post = requestWithMethod rq ''POST'';
          version = coalesce (js_get (iq_headers rq) ''mcp-protocol-version'') ''2025-06-18'';
          c0 = sendHttpRequest url post (JsonBody (initializeBody requestId version serverInfo)) credential None in
      case net 0 c0 of
        None \<Rightarrow> ([c0], s, Inl ''fetch failed'')
      | Some r0 \<Rightarrow>
          (if \<not> reply_ok r0 then ([c0], s, Inl ''MCP upstream initialization failed'')
           else
             (let s = s\<lparr>hs_upstreamSessionId := js_get (re_headers r0) ''mcp-session-id''\<rparr>;
                  c1 = sendHttpRequest url post (JsonBody initializedBody) credential (hs_upstreamSessionId s) in
              case net 1 c1 of
                None \<Rightarrow> ([c0, c1], s, Inl ''fetch failed'')
              | Some r1 \<Rightarrow>
                  (if \<not> reply_ok r1 then ([c0, c1], s, Inl ''MCP upstream initialization notification failed'')
                   else ([c0, c1], s\<lparr>hs_initialized := True\<rparr>, Inr ())))))"

definition mapHttpSessionResponse :: "upstream_reply \<Rightarrow> string \<Rightarrow> HttpSession \<Rightarrow> upstream_reply \<times> HttpSession" where
  "mapHttpSessionResponse r localSessionId s =
     (r\<lparr>re_headers := js_set ''mcp-session-id'' localSessionId (re_headers r)\<rparr>,
      (case header_of (re_headers r) ''mcp-session-id'' of
         None \<Rightarrow> s | Some sid \<Rightarrow> s\<lparr>hs_upstreamSessionId := Some sid\<rparr>))"

text \<open>The operation that \<open>send\<close> runs under the lock of the session.\<close>

definition httpSendOperation ::
  "string \<Rightarrow> string \<times> string \<Rightarrow> string \<Rightarrow> network \<Rightarrow> incoming_request \<Rightarrow> upstream_body \<Rightarrow> bool \<Rightarrow>
   GenericUpstreamCredential option \<Rightarrow> string \<Rightarrow> HttpSession \<Rightarrow> upstream_reply http_run" where
  "httpSendOperation url serverInfo requestId net rq body initializing credential localSessionId s =
     (case (if \<not> hs_initialized s \<and> \<not> initializing
            then initializeHttpSession url serverInfo requestId net rq credential s else ([], s, Inr ())) of
        (calls, s, Inl e) \<Rightarrow> (calls, s, Inl e)
      | (calls, s, Inr _) \<Rightarrow>
          (let c = sendHttpRequest url rq body credential (hs_upstreamSessionId s) in
           case net (length calls) c of
             None \<Rightarrow> (calls @ [c], s, Inl ''fetch failed'')
           | Some r \<Rightarrow>
               (let (mapped, s) = mapHttpSessionResponse r localSessionId s in
                (calls @ [c], if initializing \<and> reply_ok r then s\<lparr>hs_initialized := True\<rparr> else s, Inr mapped))))"

text \<open>The JSON value of a body, and what the transport reads of it.\<close>

fun body_value :: "(string \<Rightarrow> json option) \<Rightarrow> upstream_body \<Rightarrow> json option" where
  "body_value parseJson (RawBody s) = parseJson s"
| "body_value parseJson (JsonBody j) = Some j"
| "body_value parseJson NoBody = None"

record parsed_rpc =
  pq_method :: "string option"
  pq_hasId :: bool
  pq_id :: "json option"

definition rpc_id :: "json option \<Rightarrow> json option" where
  "rpc_id v = (case v of Some (JStr s) \<Rightarrow> v | Some (JNum n) \<Rightarrow> v | Some JNull \<Rightarrow> v | _ \<Rightarrow> None)"

definition parseMessage :: "(string \<Rightarrow> json option) \<Rightarrow> upstream_body \<Rightarrow> parsed_rpc option" where
  "parseMessage parseJson body =
     (case Option.bind (body_value parseJson body) as_record of
        None \<Rightarrow> None
      | Some r \<Rightarrow>
          Some \<lparr>pq_method = Option.bind (js_get r ''method'') as_string, pq_hasId = (js_get r ''id'' \<noteq> None),
                pq_id = rpc_id (js_get r ''id'')\<rparr>)"

definition requiredSessionId :: "incoming_request \<Rightarrow> string + string" where
  "requiredSessionId rq =
     (case map_option trim (js_get (iq_headers rq) ''mcp-session-id'') of
        Some (c # cs) \<Rightarrow> Inr (c # cs)
      | _ \<Rightarrow> Inl ''MCP session ID is required'')"

text \<open>\<open>send\<close> of a transport over HTTP up to the lock of the session: the session, which keeps the
  credential. Then the whole \<open>send\<close>, with the lock at once: the calls, the sessions and the reply.\<close>

definition httpSendEntry ::
  "time_ms \<Rightarrow> incoming_request \<Rightarrow> GenericUpstreamCredential option \<Rightarrow> string \<Rightarrow> (string, HttpSession) jsmap \<Rightarrow>
   string + string \<times> (string, HttpSession) jsmap" where
  "httpSendEntry now rq credential who ss =
     sum_bind (requiredSessionId rq) (\<lambda>sid.
     sum_bind (assertIssuedSession ss sid who) (\<lambda>_.
       Inr (sid, updateSession sid (\<lambda>s. s\<lparr>hs_credential := credential, sn_lastUsedAt := now\<rparr>) ss)))"

definition isInitialize :: "(string \<Rightarrow> json option) \<Rightarrow> upstream_body \<Rightarrow> bool" where
  "isInitialize parseJson body \<longleftrightarrow> Option.bind (parseMessage parseJson body) pq_method = Some ''initialize''"

definition httpSend ::
  "(string \<Rightarrow> json option) \<Rightarrow> string \<Rightarrow> string \<times> string \<Rightarrow> string \<Rightarrow> network \<Rightarrow> time_ms \<Rightarrow> incoming_request \<Rightarrow> upstream_body \<Rightarrow>
   GenericUpstreamCredential option \<Rightarrow> string \<Rightarrow> (string, HttpSession) jsmap \<Rightarrow>
   upstream_call list \<times> (string, HttpSession) jsmap \<times> (string + upstream_reply)" where
  "httpSend parseJson url serverInfo requestId net now rq body credential who ss =
     (case httpSendEntry now rq credential who ss of
        Inl e \<Rightarrow> ([], ss, Inl e)
      | Inr (sid, ss) \<Rightarrow>
          (let (calls, s, out) = httpSendOperation url serverInfo requestId net rq body (isInitialize parseJson body) credential sid
                 (the (js_get ss sid)) in
           (calls, updateSession sid (\<lambda>_. s) ss, out)))"

text \<open>\<open>close\<close>: an upstream that was initialized is told, with the last credential if there is none now. The
  operation under the lock, and the whole \<open>close\<close>.\<close>

definition httpCloseOperation ::
  "string \<Rightarrow> network \<Rightarrow> incoming_request \<Rightarrow> GenericUpstreamCredential option \<Rightarrow> string \<Rightarrow> HttpSession \<Rightarrow>
   upstream_reply option http_run" where
  "httpCloseOperation url net rq credential localSessionId s =
     (if \<not> hs_initialized s then ([], s, Inr None)
      else
        (let c = sendHttpRequest url rq (RawBody []) (orelse credential (hs_credential s)) (hs_upstreamSessionId s) in
         case net 0 c of
           None \<Rightarrow> ([c], s, Inl ''fetch failed'')
         | Some r \<Rightarrow> (let (mapped, s) = mapHttpSessionResponse r localSessionId s in ([c], s, Inr (Some mapped)))))"

definition httpClose ::
  "string \<Rightarrow> network \<Rightarrow> incoming_request \<Rightarrow> GenericUpstreamCredential option \<Rightarrow> string \<Rightarrow> (string, HttpSession) jsmap \<Rightarrow>
   upstream_call list \<times> (string, HttpSession) jsmap \<times> (string + upstream_reply option)" where
  "httpClose url net rq credential who ss =
     (let local = js_get (iq_headers rq) ''mcp-session-id'' in
      case closeSession local who ss of
        (Inl e, ss) \<Rightarrow> ([], ss, Inl e)
      | (Inr None, ss) \<Rightarrow> ([], ss, Inr None)
      | (Inr (Some s), ss) \<Rightarrow>
          (let (calls, _, out) = httpCloseOperation url net rq credential (the local) s in (calls, ss, out)))"

section \<open>The framing of a stdio upstream\<close>

text \<open>What is read of the child's output: the chunks still to come. A line or an error, and the rest.\<close>

definition MAX_LINE_BYTES :: nat where "MAX_LINE_BYTES = 1048576"

function readLine :: "string \<Rightarrow> string list \<Rightarrow> (string + string) \<times> string \<times> string list" where
  "readLine buffer chunks =
     (case index_of newline buffer of
        Some i \<Rightarrow>
          (let line = trim (take i buffer); rest = drop (Suc i) buffer in
           if line \<noteq> [] then (Inr line, rest, chunks) else readLine rest chunks)
      | None \<Rightarrow>
          (case chunks of
             [] \<Rightarrow> (Inl ''stdio MCP upstream exited before responding'', buffer, [])
           | c # cs \<Rightarrow>
               (if length (buffer @ c) > MAX_LINE_BYTES
                then (Inl ''stdio MCP upstream response exceeded the size limit'', buffer @ c, cs)
                else readLine (buffer @ c) cs)))"
  by pat_completeness auto
termination
proof (relation "measures [\<lambda>(b, cs). length cs, \<lambda>(b, cs). length b]")
  show "wf (measures [\<lambda>(b :: string, cs :: string list). length cs, \<lambda>(b, cs). length b])" by simp
next
  fix buffer :: string and chunks :: "string list" and i line rest
  assume "index_of newline buffer = Some i" "line = trim (take i buffer)" "rest = drop (Suc i) buffer" "\<not> line \<noteq> []"
  then show "((rest, chunks), buffer, chunks) \<in> measures [\<lambda>(b, cs). length cs, \<lambda>(b, cs). length b]"
    using index_of_SomeD [of newline buffer i] by auto
qed simp

declare readLine.simps [simp del]

lemma readLine_shorter:
  "readLine buffer chunks = (Inr l, b, cs) \<Longrightarrow> length b + length (concat cs) < length buffer + length (concat chunks)"
proof (induction buffer chunks arbitrary: l b cs rule: readLine.induct)
  case (1 buffer chunks)
  show ?case
  proof (cases "index_of newline buffer")
    case (Some i)
    then have i: "i < length buffer" using index_of_SomeD [OF Some] by simp
    show ?thesis
    proof (cases "trim (take i buffer) = []")
      case True
      with "1.prems" Some have "readLine (drop (Suc i) buffer) chunks = (Inr l, b, cs)"
        by (subst (asm) readLine.simps) (simp add: Let_def)
      from "1.IH"(2) [OF Some refl refl _ this] True i show ?thesis by simp
    next
      case False
      with "1.prems" Some i show ?thesis by (subst (asm) readLine.simps) (auto simp: Let_def)
    qed
  next
    case None
    obtain d ds where d: "chunks = d # ds" "\<not> length (buffer @ d) > MAX_LINE_BYTES" "readLine (buffer @ d) ds = (Inr l, b, cs)"
      using "1.prems" unfolding readLine.simps [of buffer chunks] None option.case
      by (cases chunks) (simp_all split: if_splits)
    from "1.IH"(1) [OF None d(1,2,3)] show ?thesis by (simp add: d(1))
  qed
qed

text \<open>\<open>readResponseForId\<close>, over the same input: lines without an \<open>id\<close> are passed over. A line or an error, and
  what is left of the input.\<close>

function readResponseForId ::
  "(string \<Rightarrow> json option) \<Rightarrow> json option \<Rightarrow> string \<Rightarrow> string list \<Rightarrow> (string + string) \<times> string \<times> string list" where
  "readResponseForId parseJson expected buffer chunks =
     (case readLine buffer chunks of
        (Inl e, buffer, chunks) \<Rightarrow> (Inl e, buffer, chunks)
      | (Inr line, buffer, chunks) \<Rightarrow>
          (case parseJson line of
             None \<Rightarrow> (Inl ''stdio MCP upstream returned malformed JSON'', buffer, chunks)
           | Some v \<Rightarrow>
               (case Option.bind (as_record v) (\<lambda>r. js_get r ''id'') of
                  None \<Rightarrow> readResponseForId parseJson expected buffer chunks
                | Some i \<Rightarrow>
                    (if Some i \<noteq> expected then (Inl ''stdio MCP upstream returned a mismatched response ID'', buffer, chunks)
                     else (Inr line, buffer, chunks)))))"
  by pat_completeness auto
termination
  by (relation "measure (\<lambda>(p, e, b, cs). length b + length (concat cs))") (auto dest!: readLine_shorter [OF sym])

declare readResponseForId.simps [simp del]

text \<open>The environment of a child: the allowed variables, and the credential.\<close>

definition stdioEnvironment ::
  "string list \<Rightarrow> string option \<Rightarrow> (string \<Rightarrow> string option) \<Rightarrow> GenericUpstreamCredential option \<Rightarrow> (string \<times> string) list" where
  "stdioEnvironment names credentialEnv source credential =
     (let env = foldl (\<lambda>e name. set_header name (source name) e) [] names in
      case (credentialEnv, Option.bind credential uc_rawValue) of
        (Some (c # cs), Some (v # vs)) \<Rightarrow> js_set (c # cs) (v # vs) env
      | _ \<Rightarrow> env)"

text \<open>The digest of the credential a child was started with.\<close>

definition credentialDigest :: "(string \<Rightarrow> string) \<Rightarrow> GenericUpstreamCredential option \<Rightarrow> string" where
  "credentialDigest sha256 credential =
     sha256 (coalesce (orelse (Option.bind credential uc_rawValue) (map_option uc_value credential)) [])"

text \<open>\<open>send\<close> of a stdio transport, up to the lock: the session with its child, and whether the child has to be
  initialized first.\<close>

definition stdioAdmit ::
  "(string \<Rightarrow> string) \<Rightarrow> parsed_rpc option \<Rightarrow> GenericUpstreamCredential option \<Rightarrow> time_ms \<Rightarrow> StdioSession \<Rightarrow>
   string + StdioSession \<times> bool" where
  "stdioAdmit sha256 message credential now s =
     (if \<not> st_child s
      then Inr (s\<lparr>st_child := True, st_credentialDigest := Some (credentialDigest sha256 credential), sn_lastUsedAt := now\<rparr>,
                Option.bind message pq_method \<noteq> Some ''initialize'')
      else if st_credentialDigest s \<noteq> Some (credentialDigest sha256 credential)
      then Inl ''stdio MCP credential changed; initialize a new session''
      else Inr (s\<lparr>sn_lastUsedAt := now\<rparr>, False))"

text \<open>What is written to the child, its output as it comes, and the line that answers, if one is awaited.\<close>

definition initializeStdioSession ::
  "(string \<Rightarrow> json option) \<Rightarrow> string \<times> string \<Rightarrow> string \<Rightarrow> incoming_request \<Rightarrow> string \<Rightarrow> string list \<Rightarrow>
   json list \<times> (string + unit) \<times> string \<times> string list" where
  "initializeStdioSession parseJson serverInfo requestId rq buffer chunks =
     (let version = coalesce (js_get (iq_headers rq) ''mcp-protocol-version'') ''2025-06-18'';
          hello = initializeBody requestId version serverInfo in
      case readResponseForId parseJson (Some (JStr (''generic-wrapper-'' @ requestId))) buffer chunks of
        (Inl e, buffer, chunks) \<Rightarrow> ([hello], Inl e, buffer, chunks)
      | (Inr _, buffer, chunks) \<Rightarrow> ([hello, initializedBody], Inr (), buffer, chunks))"

definition stdioOperation ::
  "(string \<Rightarrow> json option) \<Rightarrow> string \<times> string \<Rightarrow> string \<Rightarrow> incoming_request \<Rightarrow> upstream_body \<Rightarrow> parsed_rpc option \<Rightarrow> bool \<Rightarrow>
   string list \<Rightarrow> StdioSession \<Rightarrow> upstream_body list \<times> StdioSession \<times> (string + string option)" where
  "stdioOperation parseJson serverInfo requestId rq body message needsInitialization chunks s =
     (case (if needsInitialization then initializeStdioSession parseJson serverInfo requestId rq (st_buffer s) chunks
            else ([], Inr (), st_buffer s, chunks)) of
        (written, Inl e, buffer, chunks) \<Rightarrow> (map JsonBody written, s\<lparr>st_buffer := buffer\<rparr>, Inl e)
      | (written, Inr _, buffer, chunks) \<Rightarrow>
          (if message = None \<or> \<not> pq_hasId (the message) then (map JsonBody written @ [body], s\<lparr>st_buffer := buffer\<rparr>, Inr None)
           else case readResponseForId parseJson (pq_id (the message)) buffer chunks of
               (Inl e, buffer, _) \<Rightarrow> (map JsonBody written @ [body], s\<lparr>st_buffer := buffer\<rparr>, Inl e)
             | (Inr line, buffer, _) \<Rightarrow> (map JsonBody written @ [body], s\<lparr>st_buffer := buffer\<rparr>, Inr (Some line))))"

text \<open>The whole \<open>send\<close>, with the lock at once: a failed operation ends the session and its child.\<close>

definition stdioSend ::
  "(string \<Rightarrow> json option) \<Rightarrow> (string \<Rightarrow> string) \<Rightarrow> string \<times> string \<Rightarrow> string \<Rightarrow> string list \<Rightarrow> time_ms \<Rightarrow> incoming_request \<Rightarrow>
   upstream_body \<Rightarrow> GenericUpstreamCredential option \<Rightarrow> string \<Rightarrow> (string, StdioSession) jsmap \<Rightarrow>
   upstream_body list \<times> (string, StdioSession) jsmap \<times> (string + upstream_reply)" where
  "stdioSend parseJson sha256 serverInfo requestId chunks now rq body credential who ss =
     (let message = parseMessage parseJson body in
      case sum_bind (requiredSessionId rq) (\<lambda>sid. sum_bind (assertIssuedSession ss sid who) (\<lambda>s.
             sum_bind (stdioAdmit sha256 message credential now s) (\<lambda>(s, fresh). Inr (sid, s, fresh)))) of
        Inl e \<Rightarrow> ([], ss, Inl e)
      | Inr (sid, s, fresh) \<Rightarrow>
          (case stdioOperation parseJson serverInfo requestId rq body message fresh chunks s of
             (written, s, Inl e) \<Rightarrow> (written, js_del sid ss, Inl e)
           | (written, s, Inr answer) \<Rightarrow>
               (written, updateSession sid (\<lambda>_. s) ss,
                Inr (case answer of
                       None \<Rightarrow> \<lparr>re_status = 202, re_headers = [(''mcp-session-id'', sid)], re_body = []\<rparr>
                     | Some line \<Rightarrow>
                         \<lparr>re_status = 200, re_headers = [(''content-type'', ''application/json''), (''mcp-session-id'', sid)],
                          re_body = [line]\<rparr>))))"

section \<open>The catalog of an upstream\<close>

record captured_tool =
  ct_name :: string
  ct_fields :: "(string \<times> json) list"

fun captureTools ::
  "nat \<Rightarrow> captured_tool list \<Rightarrow> json list \<Rightarrow> string + captured_tool list" where
  "captureTools maxTools tools [] = Inr tools"
| "captureTools maxTools tools (v # vs) =
     (case Option.bind (as_record v) (\<lambda>r. Option.bind (js_get r ''name'') as_string) of
        Some (c # cs) \<Rightarrow>
          (if (c # cs) \<in> ct_name ` set tools then Inl (''Upstream catalog contains duplicate tool name '' @ c # cs)
           else
             (let tools = tools @ [\<lparr>ct_name = c # cs, ct_fields = the (as_record v)\<rparr>] in
              if length tools > maxTools then Inl ''Upstream catalog exceeded the tool limit''
              else captureTools maxTools tools vs))
      | _ \<Rightarrow> Inl ''Upstream tools/list returned a malformed tool'')"

definition tools_list_body :: "string \<Rightarrow> string option \<Rightarrow> json" where
  "tools_list_body requestId cursor =
     JObj [(''jsonrpc'', JStr ''2.0''), (''id'', JStr (''generic-live-tools-'' @ requestId)), (''method'', JStr ''tools/list''),
       (''params'', JObj (case cursor of Some c \<Rightarrow> [(''cursor'', JStr c)] | None \<Rightarrow> []))]"

text \<open>One page, from the envelope of a reply: the tools so far and the cursor of the next page.\<close>

definition capturePage ::
  "nat \<Rightarrow> captured_tool list \<Rightarrow> (string \<times> json) list \<Rightarrow> string + captured_tool list \<times> string option" where
  "capturePage maxTools tools envelope =
     (if Option.bind (js_get envelope ''error'') as_record \<noteq> None then Inl ''Upstream tools/list returned an MCP error''
      else case Option.bind (js_get envelope ''result'') as_record of
          None \<Rightarrow> Inl ''Upstream tools/list response is malformed''
        | Some r \<Rightarrow>
            (case Option.bind (js_get r ''tools'') as_array of
               None \<Rightarrow> Inl ''Upstream tools/list response is malformed''
             | Some vs \<Rightarrow>
                 sum_bind (captureTools maxTools tools vs) (\<lambda>tools.
                   Inr (tools, case Option.bind (js_get r ''nextCursor'') as_string of
                                 Some (c # cs) \<Rightarrow> Some (c # cs) | _ \<Rightarrow> None))))"

fun readBoundedText_from :: "nat \<Rightarrow> nat \<Rightarrow> string \<Rightarrow> string list \<Rightarrow> string option" where
  "readBoundedText_from maxBytes seen body [] = Some body"
| "readBoundedText_from maxBytes seen body (c # cs) =
     (if seen + length c > maxBytes then None
      else readBoundedText_from maxBytes (seen + length c) (body @ c) cs)"

definition readBoundedText :: "upstream_reply \<Rightarrow> nat \<Rightarrow> string option" where
  "readBoundedText r maxBytes = readBoundedText_from maxBytes 0 [] (re_body r)"

definition MAX_RESPONSE_BYTES :: nat where "MAX_RESPONSE_BYTES = 8388608"

text \<open>The first \<open>data:\<close> line of a stream of events; the lines end in \<open>\r?\n\<close>.\<close>

definition eventPayload :: "string \<Rightarrow> string option" where
  "eventPayload body =
     map_option (\<lambda>l. trim (drop 5 l)) (List.find (\<lambda>l. prefix ''data:'' l) (split_on newline body))"

definition decodeEnvelope :: "(string \<Rightarrow> json option) \<Rightarrow> upstream_reply \<Rightarrow> string + (string \<times> json) list" where
  "decodeEnvelope parseJson r =
     (case readBoundedText r MAX_RESPONSE_BYTES of
        None \<Rightarrow> Inl ''Upstream tools/list response exceeded the size limit''
      | Some body \<Rightarrow>
          (case (if find_text ''text/event-stream'' (coalesce (js_get (re_headers r) ''content-type'') []) \<noteq> None
                 then eventPayload body else Some body) of
             Some (c # cs) \<Rightarrow>
               (case parseJson (c # cs) of
                  None \<Rightarrow> Inl ''Upstream tools/list response is not valid JSON''
                | Some v \<Rightarrow> (case as_record v of None \<Rightarrow> Inl ''Upstream tools/list response is malformed'' | Some e \<Rightarrow> Inr e))
           | _ \<Rightarrow> Inl ''Upstream tools/list response is empty''))"

text \<open>One request for a page: \<open>ask\<close> is the reply of the upstream to the n-th request with a cursor.\<close>

definition askPage ::
  "(string \<Rightarrow> json option) \<Rightarrow> (nat \<Rightarrow> string option \<Rightarrow> upstream_reply option) \<Rightarrow> nat \<Rightarrow> string option \<Rightarrow>
   string + (string \<times> json) list" where
  "askPage parseJson ask n cursor =
     (case ask n cursor of
        None \<Rightarrow> Inl ''fetch failed''
      | Some r \<Rightarrow>
          (if \<not> reply_ok r then Inl (''Upstream tools/list failed with HTTP '' @ nat_str (re_status r))
           else decodeEnvelope parseJson r))"

text \<open>The loop of \<open>listUpstreamCatalog\<close>, with the number of pages that may still be asked for.\<close>

fun listPages ::
  "(nat \<Rightarrow> string option \<Rightarrow> string + (string \<times> json) list) \<Rightarrow> nat \<Rightarrow> nat \<Rightarrow> nat \<Rightarrow> captured_tool list \<Rightarrow> string option \<Rightarrow>
   string + nat \<times> captured_tool list" where
  "listPages ask maxTools done 0 tools cursor = Inl ''Upstream catalog exceeded the page limit''"
| "listPages ask maxTools done (Suc n) tools cursor =
     sum_bind (ask done cursor) (\<lambda>envelope.
     sum_bind (capturePage maxTools tools envelope) (\<lambda>(tools, next).
       case next of
         None \<Rightarrow> Inr (Suc done, tools)
       | Some c \<Rightarrow> listPages ask maxTools (Suc done) n tools (Some c)))"

definition catalogLimit :: "rat option \<Rightarrow> int \<Rightarrow> string \<Rightarrow> string + nat" where
  "catalogLimit v fallback name =
     (let r = coalesce v (of_int fallback) in
      if r \<in> \<int> \<and> r \<ge> 1 then Inr (nat \<lfloor>r\<rfloor>) else Inl (name @ '' must be positive''))"

definition listUpstreamCatalog ::
  "(string \<Rightarrow> json option) \<Rightarrow> (nat \<Rightarrow> string option \<Rightarrow> upstream_reply option) \<Rightarrow> rat option \<Rightarrow> rat option \<Rightarrow>
   string + nat \<times> captured_tool list" where
  "listUpstreamCatalog parseJson ask maxPages maxTools =
     sum_bind (catalogLimit maxPages 100 ''maxPages'') (\<lambda>pages.
     sum_bind (catalogLimit maxTools 5000 ''maxTools'') (\<lambda>limit.
       listPages (askPage parseJson ask) limit 0 pages [] None))"

text \<open>The checks of \<open>captureUpstreamCatalog\<close> on what was listed.\<close>

definition captureUpstreamCatalog ::
  "(string \<Rightarrow> json option) \<Rightarrow> (nat \<Rightarrow> string option \<Rightarrow> upstream_reply option) \<Rightarrow> rat option \<Rightarrow> rat option \<Rightarrow>
   string + nat \<times> captured_tool list" where
  "captureUpstreamCatalog parseJson ask maxPages maxTools =
     sum_bind (listUpstreamCatalog parseJson ask maxPages maxTools) (\<lambda>(pages, tools).
       if map ct_name tools = [''search'']
       then Inl ''Atlassian exposed only the credit-bearing search tool; do not pin this catalog''
       else if tools = [] then Inl ''Upstream catalog is empty''
       else Inr (pages, tools))"

end
