(* ===== verification/Generic_Transport_Props.thy ===== *)
theory Generic_Transport_Props
  imports Generic_Transport
begin

text \<open>
  Guarantees of the transport: the limits of the sessions and their separation by principal, what an
  upstream is sent, and the framing of a stdio upstream. What an HTTP and a stdio transport have in
  common is proved once, in the contract \<open>session_kind\<close>.
\<close>

section \<open>Limits of the sessions\<close>

definition sessions_inv :: "session_limits \<Rightarrow> 'x sessions \<Rightarrow> bool" where
  "sessions_inv limits ss \<longleftrightarrow>
     distinct (map fst ss) \<and> length ss \<le> sl_maxSessions limits \<and>
     (\<forall>who. length (ownSessions who ss) \<le> sl_maxSessionsPerPrincipal limits)"

text \<open>What an issued session takes away: sessions that are idle, and one of the same principal.\<close>

definition spares :: "session_limits \<Rightarrow> time_ms \<Rightarrow> string \<Rightarrow> 'x sessions \<Rightarrow> 'x sessions \<Rightarrow> bool" where
  "spares limits now who ss ss' \<longleftrightarrow>
     (\<forall>k s. js_get ss k = Some s \<and> (sn_busy s \<or> now - sn_lastUsedAt s < sl_idleTtlMs limits \<and> sn_principalKey s \<noteq> who) \<longrightarrow>
        js_get ss' k = Some s)"

lemma sessions_inv_filter: "sessions_inv limits ss \<Longrightarrow> sessions_inv limits (filter P ss)"
proof -
  assume i: "sessions_inv limits ss"
  have "length (ownSessions who (filter P ss)) \<le> length (ownSessions who ss)" for who
    unfolding ownSessions_def by (induction ss) auto
  with i show ?thesis
    by (auto simp: sessions_inv_def distinct_map_filter intro: order_trans [OF length_filter_le] order_trans)
qed

lemma js_del_filter: "js_del k ss = filter (\<lambda>(k', s). k \<noteq> k') ss"
  by (simp add: AList.delete_eq)

lemma pruneIdle_inv: "sessions_inv limits ss \<Longrightarrow> sessions_inv limits (pruneIdle limits now ss)"
  unfolding pruneIdle_def by (rule sessions_inv_filter)

lemma js_get_filter_keep:
  assumes "distinct (map fst ss)" "js_get ss k = Some s" "P (k, s)"
  shows "js_get (filter P ss) k = Some s"
  using assms map_of_SomeD [OF assms(2)] by (intro map_of_is_SomeI) (auto simp: distinct_map_filter)

lemma leastRecentlyUsed_Some:
  assumes "leastRecentlyUsed best ss = Some (k, s)"
  shows "best = Some (k, s) \<or> (k, s) \<in> set ss \<and> \<not> sn_busy s"
    "\<forall>(k', t) \<in> set ss. \<not> sn_busy t \<longrightarrow> sn_lastUsedAt s \<le> sn_lastUsedAt t"
    "\<forall>k' b. best = Some (k', b) \<longrightarrow> sn_lastUsedAt s \<le> sn_lastUsedAt b"
proof -
  have "(best = Some (k, s) \<or> (k, s) \<in> set ss \<and> \<not> sn_busy s) \<and>
    (\<forall>(k', t) \<in> set ss. \<not> sn_busy t \<longrightarrow> sn_lastUsedAt s \<le> sn_lastUsedAt t) \<and>
    (\<forall>k' b. best = Some (k', b) \<longrightarrow> sn_lastUsedAt s \<le> sn_lastUsedAt b)"
    using assms
  proof (induction best ss rule: leastRecentlyUsed.induct)
    case (2 best k' t ss)
    let ?c = "\<not> sn_busy t \<and> (case best of None \<Rightarrow> True | Some (_, b) \<Rightarrow> sn_lastUsedAt t < sn_lastUsedAt b)"
    note ih = "2.IH" [OF "2.prems" [unfolded leastRecentlyUsed.simps]]
    show ?case
    proof (cases ?c)
      case True
      then have i: "Some (k', t) = Some (k, s) \<or> (k, s) \<in> set ss \<and> \<not> sn_busy s" "sn_lastUsedAt s \<le> sn_lastUsedAt t"
        "\<forall>(k', t) \<in> set ss. \<not> sn_busy t \<longrightarrow> sn_lastUsedAt s \<le> sn_lastUsedAt t" using ih by simp_all
      have "sn_lastUsedAt s \<le> sn_lastUsedAt b" if "best = Some (k'', b)" for k'' b using True i(2) that by simp
      with True i show ?thesis by auto
    next
      case False
      then have i: "best = Some (k, s) \<or> (k, s) \<in> set ss \<and> \<not> sn_busy s"
        "\<forall>(k', t) \<in> set ss. \<not> sn_busy t \<longrightarrow> sn_lastUsedAt s \<le> sn_lastUsedAt t"
        "\<forall>k' b. best = Some (k', b) \<longrightarrow> sn_lastUsedAt s \<le> sn_lastUsedAt b"
        using ih unfolding if_not_P [OF False] by blast+
      have "sn_lastUsedAt s \<le> sn_lastUsedAt t" if "\<not> sn_busy t"
        using False that i(3) by (cases best) fastforce+
      with i show ?thesis by auto
    qed
  qed auto
  then show "best = Some (k, s) \<or> (k, s) \<in> set ss \<and> \<not> sn_busy s"
    "\<forall>(k', t) \<in> set ss. \<not> sn_busy t \<longrightarrow> sn_lastUsedAt s \<le> sn_lastUsedAt t"
    "\<forall>k' b. best = Some (k', b) \<longrightarrow> sn_lastUsedAt s \<le> sn_lastUsedAt b" by blast+
qed

lemma fst_mem: "(k, s) \<in> set ss \<Longrightarrow> k \<in> fst ` set ss"
  by force

lemma length_ownSessions_del:
  assumes "distinct (map fst ss)" "(k, s) \<in> set ss"
  shows "length (ownSessions who ss) = length (ownSessions who (js_del k ss)) + (if sn_principalKey s = who then 1 else 0)"
    "length ss = Suc (length (js_del k ss))"
proof -
  have id: "js_del k ss = ss" if "k \<notin> fst ` set ss" for ss :: "'a sessions"
    using that by (simp add: delete_id)
  show "length (ownSessions who ss) = length (ownSessions who (js_del k ss)) + (if sn_principalKey s = who then 1 else 0)"
    using assms unfolding ownSessions_def by (induction ss) (auto simp: id dest: fst_mem)
  show "length ss = Suc (length (js_del k ss))" using assms by (induction ss) (auto simp: id dest: fst_mem)
qed

lemma ownSessions_append: "ownSessions who (ss @ [(k, s)]) = ownSessions who ss @ (if sn_principalKey s = who then [(k, s)] else [])"
  by (simp add: ownSessions_def)

text \<open>Room for a session: one of the principal's own that was not busy, the one used longest ago, or none.\<close>

lemma makeRoomForSession_Inr:
  assumes "makeRoomForSession limits sid who ss = Inr (evicted, ss')" "sessions_inv limits ss"
    "0 < sl_maxSessionsPerPrincipal limits" "sl_maxSessionsPerPrincipal limits \<le> sl_maxSessions limits"
  shows "sid \<notin> fst ` set ss'" "sessions_inv limits ss'" "length ss' < sl_maxSessions limits"
    "length (ownSessions who ss') < sl_maxSessionsPerPrincipal limits"
    "case evicted of None \<Rightarrow> ss' = ss
     | Some (k, s) \<Rightarrow> ss' = js_del k ss \<and> (k, s) \<in> set ss \<and> sn_principalKey s = who \<and> \<not> sn_busy s \<and>
         (\<forall>(k', t) \<in> set (ownSessions who ss). \<not> sn_busy t \<longrightarrow> sn_lastUsedAt s \<le> sn_lastUsedAt t)"
proof -
  have d: "distinct (map fst ss)" and l: "length ss \<le> sl_maxSessions limits"
    "length (ownSessions who ss) \<le> sl_maxSessionsPerPrincipal limits"
    using assms(2) by (simp_all add: sessions_inv_def)
  have new: "sid \<notin> fst ` set ss" using assms(1)
    by (auto simp: makeRoomForSession_def Let_def map_of_eq_None_iff split: if_splits)
  consider k s where "leastRecentlyUsed None (ownSessions who ss) = Some (k, s)" "evicted = Some (k, s)" "ss' = js_del k ss"
    | "evicted = None" "ss' = ss" "length ss < sl_maxSessions limits" "length (ownSessions who ss) < sl_maxSessionsPerPrincipal limits"
    using assms(1) unfolding makeRoomForSession_def Let_def
    by (cases "leastRecentlyUsed None (ownSessions who ss)") (auto split: if_splits)
  then have "sid \<notin> fst ` set ss' \<and> sessions_inv limits ss' \<and> length ss' < sl_maxSessions limits \<and>
    length (ownSessions who ss') < sl_maxSessionsPerPrincipal limits \<and>
    (case evicted of None \<Rightarrow> ss' = ss
     | Some (k, s) \<Rightarrow> ss' = js_del k ss \<and> (k, s) \<in> set ss \<and> sn_principalKey s = who \<and> \<not> sn_busy s \<and>
         (\<forall>(k', t) \<in> set (ownSessions who ss). \<not> sn_busy t \<longrightarrow> sn_lastUsedAt s \<le> sn_lastUsedAt t))"
  proof cases
    case (1 k s)
    note f = leastRecentlyUsed_Some [OF 1(1)]
    from f(1) have s: "(k, s) \<in> set ss" "sn_principalKey s = who" "\<not> sn_busy s" by (auto simp: ownSessions_def)
    note n = length_ownSessions_del [OF d s(1)]
    have "sessions_inv limits ss'" unfolding 1(3) js_del_filter by (rule sessions_inv_filter [OF assms(2)])
    moreover have "sid \<notin> fst ` set ss'" using new unfolding 1(3) js_del_filter by auto
    moreover have "length ss' < sl_maxSessions limits" "length (ownSessions who ss') < sl_maxSessionsPerPrincipal limits"
      using n(1) [of who] n(2) l s(2) 1(3) by simp_all
    ultimately show ?thesis using 1 s f(2) by simp
  next
    case 2
    then show ?thesis using new assms(2) by simp
  qed
  then show "sid \<notin> fst ` set ss'" "sessions_inv limits ss'" "length ss' < sl_maxSessions limits"
    "length (ownSessions who ss') < sl_maxSessionsPerPrincipal limits"
    "case evicted of None \<Rightarrow> ss' = ss
     | Some (k, s) \<Rightarrow> ss' = js_del k ss \<and> (k, s) \<in> set ss \<and> sn_principalKey s = who \<and> \<not> sn_busy s \<and>
         (\<forall>(k', t) \<in> set (ownSessions who ss). \<not> sn_busy t \<longrightarrow> sn_lastUsedAt s \<le> sn_lastUsedAt t)" by blast+
qed

lemma js_set_append: "k \<notin> fst ` set m \<Longrightarrow> js_set k v m = m @ [(k, v)]"
  by (induction m) auto

lemma updateSession_inv:
  assumes "sessions_inv limits ss" "\<And>s. sn_principalKey (f s) = sn_principalKey s"
  shows "sessions_inv limits (updateSession sid f ss)"
proof -
  have "map fst (updateSession sid f ss) = map fst ss" by (simp add: updateSession_def comp_def case_prod_beta)
  moreover have "length (ownSessions who (updateSession sid f ss)) = length (ownSessions who ss)" for who
    unfolding ownSessions_def updateSession_def using assms(2) by (induction ss) (auto split: if_splits)
  ultimately show ?thesis using assms(1) unfolding sessions_inv_def by (metis length_map)
qed

lemma assertSession_inv: "sessions_inv limits ss \<Longrightarrow> sessions_inv limits (snd (assertSession now sid who ss))"
  by (auto simp: assertSession_def intro!: updateSession_inv split: sum.splits)

lemma closeSession_inv: "sessions_inv limits ss \<Longrightarrow> sessions_inv limits (snd (closeSession sid who ss))"
  by (auto simp: closeSession_def js_del_filter intro: sessions_inv_filter split: option.splits)

locale session_kind =
  fixes new :: "string \<Rightarrow> time_ms \<Rightarrow> 'x session_scheme"
  assumes new_principal: "sn_principalKey (new who now) = who"
begin

lemma issue_inv:
  assumes "sessions_inv limits ss" "0 < sl_maxSessionsPerPrincipal limits"
    "sl_maxSessionsPerPrincipal limits \<le> sl_maxSessions limits"
  shows "sessions_inv limits (snd (issueWith new limits now sid who ss))"
proof (cases "makeRoomForSession limits sid who (pruneIdle limits now ss)")
  case (Inl e)
  with pruneIdle_inv [OF assms(1)] show ?thesis by (simp add: issueWith_def Let_def)
next
  case (Inr p)
  then obtain evicted ss' where m: "makeRoomForSession limits sid who (pruneIdle limits now ss) = Inr (evicted, ss')"
    by (cases p) simp
  note r = makeRoomForSession_Inr [OF m pruneIdle_inv [OF assms(1)] assms(2,3)]
  have "sessions_inv limits (ss' @ [(sid, new who now)])"
    using r(1-4) by (auto simp: sessions_inv_def ownSessions_append new_principal less_Suc_eq_le [symmetric])
  then show ?thesis by (simp add: issueWith_def Let_def m js_set_append [OF r(1)])
qed

text \<open>A session that is busy, and one of another principal that is not idle, are left as they are.\<close>

lemma issue_spares:
  assumes "sessions_inv limits ss" "0 < sl_maxSessionsPerPrincipal limits"
    "sl_maxSessionsPerPrincipal limits \<le> sl_maxSessions limits"
  shows "spares limits now who ss (snd (issueWith new limits now sid who ss))"
  unfolding spares_def
proof (intro allI impI)
  fix k s
  assume a: "js_get ss k = Some s \<and> (sn_busy s \<or> now - sn_lastUsedAt s < sl_idleTtlMs limits \<and> sn_principalKey s \<noteq> who)"
  let ?p = "pruneIdle limits now ss"
  have d: "distinct (map fst ss)" using assms(1) by (simp add: sessions_inv_def)
  have p: "js_get ?p k = Some s"
    unfolding pruneIdle_def by (rule js_get_filter_keep [OF d]) (use a in auto)
  show "js_get (snd (issueWith new limits now sid who ss)) k = Some s"
  proof (cases "makeRoomForSession limits sid who ?p")
    case (Inl e)
    with p show ?thesis by (simp add: issueWith_def Let_def)
  next
    case (Inr q)
    then obtain evicted ss' where m: "makeRoomForSession limits sid who ?p = Inr (evicted, ss')" by (cases q) simp
    note r = makeRoomForSession_Inr [OF m pruneIdle_inv [OF assms(1)] assms(2,3)]
    have dp: "distinct (map fst ?p)" using pruneIdle_inv [OF assms(1)] by (simp add: sessions_inv_def)
    have "js_get ss' k = Some s"
    proof (cases evicted)
      case None
      with r(5) p show ?thesis by simp
    next
      case (Some e)
      obtain k' t where e: "e = (k', t)" by force
      with r(5) Some have t: "ss' = js_del k' ?p" "(k', t) \<in> set ?p" "sn_principalKey t = who" "\<not> sn_busy t" by auto
      have "k' \<noteq> k"
      proof
        assume "k' = k"
        with t(2) p dp have "t = s" by (metis map_of_is_SomeI option.inject)
        with a t(3,4) show False by auto
      qed
      with p t(1) show ?thesis by (simp add: js_map_simps)
    qed
    moreover have "k \<noteq> sid" using calculation r(1) by (auto simp: map_of_eq_None_iff [symmetric])
    ultimately show ?thesis by (simp add: issueWith_def Let_def m js_map_simps)
  qed
qed

end

interpretation http_sessions: session_kind newHttpSession
  by unfold_locales (simp add: newHttpSession_def)

interpretation stdio_sessions: session_kind newStdioSession
  by unfold_locales (simp add: newStdioSession_def)

section \<open>Steps\<close>

text \<open>The operations on the sessions, in any order: the busy mark and the fields of a session change as its
  requests go on, its principal never does.\<close>

inductive http_session_step :: "session_limits \<Rightarrow> (string, HttpSession) jsmap \<Rightarrow> (string, HttpSession) jsmap \<Rightarrow> bool" for limits where
  issued: "issueHttpSession limits now sid who ss = (r, ss') \<Longrightarrow> http_session_step limits ss ss'"
| asserted: "assertSession now sid who ss = (r, ss') \<Longrightarrow> http_session_step limits ss ss'"
| sent: "assertIssuedSession ss sid who = Inr s \<Longrightarrow>
    http_session_step limits ss (updateSession sid (\<lambda>s. s\<lparr>hs_credential := credential, sn_lastUsedAt := now\<rparr>) ss)"
| locked: "http_session_step limits ss (updateSession sid (\<lambda>s. s\<lparr>sn_busy := True\<rparr>) ss)"
| operated: "http_session_step limits ss
    (updateSession sid (\<lambda>s. s\<lparr>hs_upstreamSessionId := upstream, hs_initialized := initialized, sn_busy := False\<rparr>) ss)"
| closed: "closeSession key who ss = (r, ss') \<Longrightarrow> http_session_step limits ss ss'"
| reaped: "http_session_step limits ss (pruneIdle limits now ss)"

lemma http_session_step_inv:
  assumes "0 < sl_maxSessionsPerPrincipal limits" "sl_maxSessionsPerPrincipal limits \<le> sl_maxSessions limits"
    "sessions_inv limits ss" "http_session_step limits ss ss'"
  shows "sessions_inv limits ss'"
  using assms(4)
proof (cases rule: http_session_step.cases)
  case (issued now sid who r)
  then show ?thesis using http_sessions.issue_inv [OF assms(3,1,2), of now sid who] by (simp add: issueHttpSession_def)
next
  case (asserted now sid who r)
  then show ?thesis using assertSession_inv [OF assms(3), of now sid who] by simp
next
  case (closed key who r)
  then show ?thesis using closeSession_inv [OF assms(3), of key who] by simp
qed (use assms(3) in \<open>auto intro!: updateSession_inv pruneIdle_inv\<close>)

lemma sessionLimits_Inr:
  assumes "sessionLimits m p t d = Inr limits"
  shows "0 < sl_maxSessionsPerPrincipal limits" "sl_maxSessionsPerPrincipal limits \<le> sl_maxSessions limits" "0 < sl_idleTtlMs limits"
  using assms
  by (auto simp: sessionLimits_def positiveLimit_def Let_def elim!: Ints_cases split: if_splits)

text \<open>C38: the sessions of a transport whose limits were accepted: whatever requests come in whatever
  order, there are never more than the limit, nor more of one principal than its share. To issue a
  session never touches one that has a request under way, nor one of another principal that has been
  used within the idle time; and a session is only ever confirmed to the principal it was issued to.\<close>

theorem http_sessions_bounded:
  assumes "sessionLimits m p t d = Inr limits" "(http_session_step limits)\<^sup>*\<^sup>* [] ss"
  shows "length ss \<le> sl_maxSessions limits \<and>
    (\<forall>who. length (ownSessions who ss) \<le> sl_maxSessionsPerPrincipal limits) \<and>
    (\<forall>now sid who r ss'. issueHttpSession limits now sid who ss = (r, ss') \<longrightarrow>
      length ss' \<le> sl_maxSessions limits \<and> spares limits now who ss ss' \<and>
      (\<forall>e. r = Inr e \<longrightarrow> (\<exists>s. js_get ss' sid = Some s \<and> sn_principalKey s = who))) \<and>
    (\<forall>now sid who ss'. assertSession now sid who ss = (Inr (), ss') \<longrightarrow>
      (\<exists>s. js_get ss sid = Some s \<and> sn_principalKey s = who))"
proof -
  note l = sessionLimits_Inr [OF assms(1)]
  have inv: "sessions_inv limits ss"
    using assms(2)
  proof (induction rule: rtranclp_induct)
    case base
    show ?case by (simp add: sessions_inv_def ownSessions_def)
  qed (rule http_session_step_inv [OF l(1,2)])
  have "length ss' \<le> sl_maxSessions limits \<and> spares limits now who ss ss' \<and>
      (\<forall>e. r = Inr e \<longrightarrow> (\<exists>s. js_get ss' sid = Some s \<and> sn_principalKey s = who))"
    if "issueHttpSession limits now sid who ss = (r, ss')" for now sid who r ss'
  proof -
    have "sessions_inv limits ss'" "spares limits now who ss ss'"
      using http_sessions.issue_inv [OF inv l(1,2), of now sid who] http_sessions.issue_spares [OF inv l(1,2), of now who sid] that
      by (simp_all add: issueHttpSession_def)
    moreover have "\<exists>s. js_get ss' sid = Some s \<and> sn_principalKey s = who" if "r = Inr e" for e
      using that \<open>issueHttpSession limits now sid who ss = (r, ss')\<close>
      by (auto simp: issueHttpSession_def issueWith_def Let_def newHttpSession_def js_map_simps split: sum.splits)
    ultimately show ?thesis by (simp add: sessions_inv_def)
  qed
  moreover have "\<exists>s. js_get ss sid = Some s \<and> sn_principalKey s = who" if "assertSession now sid who ss = (Inr (), ss')" for now sid who ss'
    using that by (auto simp: assertSession_def assertIssuedSession_def split: option.splits if_splits sum.splits)
  ultimately show ?thesis using inv by (simp add: sessions_inv_def)
qed

definition example_limits :: session_limits where
  "example_limits = \<lparr>sl_maxSessions = 2, sl_maxSessionsPerPrincipal = 1, sl_idleTtlMs = 1800000\<rparr>"

theorem http_sessions_bounded_witness:
  "\<exists>ss. ss = [(''s1'', newHttpSession ''alice'' 5)] \<and> length ss \<le> 2 \<and>
     (\<forall>now sid who r ss'. issueHttpSession example_limits now sid who ss = (r, ss') \<longrightarrow> length ss' \<le> 2)"
proof -
  have l: "sessionLimits (Some 2) (Some 1) None 64 = Inr example_limits"
    by (simp add: sessionLimits_def positiveLimit_def example_limits_def)
  have "issueHttpSession example_limits 5 ''s1'' ''alice'' [] = (Inr None, [(''s1'', newHttpSession ''alice'' 5)])"
    by (simp add: issueHttpSession_def issueWith_def makeRoomForSession_def pruneIdle_def ownSessions_def example_limits_def)
  then have "http_session_step example_limits [] [(''s1'', newHttpSession ''alice'' 5)]" by (rule issued)
  then have "(http_session_step example_limits)\<^sup>*\<^sup>* [] [(''s1'', newHttpSession ''alice'' 5)]" by (rule r_into_rtranclp)
  from http_sessions_bounded [OF l this] show ?thesis by (simp add: example_limits_def)
qed

lemma stdio_issue_bounded:
  assumes "sessionLimits m p t d = Inr limits" "sessions_inv limits ss"
  shows "sessions_inv limits (snd (issueStdioSession limits now sid who ss))"
    "spares limits now who ss (snd (issueStdioSession limits now sid who ss))"
  using stdio_sessions.issue_inv [OF assms(2)] stdio_sessions.issue_spares [OF assms(2)] sessionLimits_Inr [OF assms(1)]
  by (simp_all add: issueStdioSession_def)

section \<open>What an upstream is sent\<close>

lemma all_js_set: "list_all P m \<Longrightarrow> P (k, v) \<Longrightarrow> list_all P (js_set k v m)"
  by (induction m) auto

lemma all_set_header:
  "list_all P hs \<Longrightarrow> (\<And>s. v = Some s \<Longrightarrow> P (name, s)) \<Longrightarrow> list_all P (set_header name v hs)"
  by (cases v) (simp_all add: set_header_def all_js_set)

lemma header_of_Some: "header_of hs name = Some v \<Longrightarrow> js_get hs name = Some v"
  by (auto simp: header_of_def split: option.splits list.splits)

text \<open>Where the headers of a call come from: the client, the upstream itself, or the credential.\<close>

definition header_source ::
  "incoming_request \<Rightarrow> GenericUpstreamCredential option \<Rightarrow> string set \<Rightarrow> string \<times> string \<Rightarrow> bool" where
  "header_source rq credential issued h \<longleftrightarrow>
     fst h \<in> {''accept'', ''content-type'', ''mcp-protocol-version'', ''last-event-id''} \<and>
       js_get (iq_headers rq) (fst h) = Some (snd h) \<or>
     fst h = ''mcp-session-id'' \<and> snd h \<in> issued \<or>
     (\<exists>c. credential = Some c \<and> h = (uc_header c, uc_value c))"

lemma source_client:
  assumes "name \<in> {''accept'', ''content-type'', ''mcp-protocol-version'', ''last-event-id''}"
    "header_of (iq_headers rq) name = Some v"
  shows "header_source rq credential issued (name, v)"
  using assms header_of_Some [OF assms(2)] by (simp add: header_source_def)

lemma forwarded_source: "list_all (header_source rq credential issued) (forwardedHeaders rq)"
proof -
  have e: "forwardedHeaders rq =
      set_header ''mcp-protocol-version'' (header_of (iq_headers rq) ''mcp-protocol-version'')
        (set_header ''content-type'' (header_of (iq_headers rq) ''content-type'')
          (set_header ''accept'' (header_of (iq_headers rq) ''accept'') []))"
    by (simp add: forwardedHeaders_def FORWARDED_HEADERS_def)
  show ?thesis unfolding e by (intro all_set_header source_client) simp_all
qed

lemma sendHttpRequest_source:
  assumes "\<And>v. sid = Some v \<Longrightarrow> v \<in> issued"
  shows "list_all (header_source rq credential issued) (ca_headers (sendHttpRequest url rq body credential sid))"
proof -
  let ?h1 = "set_header ''last-event-id'' (header_of (iq_headers rq) ''last-event-id'') (forwardedHeaders rq)"
  let ?h2 = "set_header ''mcp-session-id'' (if truthy sid then sid else None) ?h1"
  have "list_all (header_source rq credential issued) ?h1"
    by (intro all_set_header forwarded_source source_client) simp_all
  then have h2: "list_all (header_source rq credential issued) ?h2"
    by (rule all_set_header) (use assms in \<open>simp add: header_source_def split: if_splits\<close>)
  show ?thesis
  proof (cases credential)
    case None
    then show ?thesis using h2 by (simp add: sendHttpRequest_def Let_def)
  next
    case (Some c)
    have "list_all (header_source rq credential issued) (js_set (uc_header c) (uc_value c) ?h2)"
      by (rule all_js_set [OF h2]) (simp add: header_source_def Some)
    then show ?thesis by (simp add: sendHttpRequest_def Let_def Some)
  qed
qed

lemma js_get_without: "n \<noteq> k \<Longrightarrow> js_get (filter (\<lambda>(j, v). j \<noteq> k) hs) n = js_get hs n"
  by (induction hs) auto

lemma requestWithMethod_source:
  assumes "header_source (requestWithMethod rq m) credential issued h"
  shows "header_source rq credential issued h"
proof -
  have "js_get (iq_headers (requestWithMethod rq m)) n = js_get (iq_headers rq) n"
    if "n \<in> {''accept'', ''content-type'', ''mcp-protocol-version'', ''last-event-id''}" for n
    unfolding requestWithMethod_def by simp (rule js_get_without, use that in auto)
  with assms show ?thesis unfolding header_source_def by metis
qed

text \<open>The calls of a run: their address and the sources of their headers.\<close>

definition confined ::
  "string \<Rightarrow> incoming_request \<Rightarrow> GenericUpstreamCredential option \<Rightarrow> string set \<Rightarrow> upstream_call \<Rightarrow> bool" where
  "confined url rq credential issued c \<longleftrightarrow> ca_url c = url \<and> list_all (header_source rq credential issued) (ca_headers c)"

lemma send_confined:
  "(\<And>v. sid = Some v \<Longrightarrow> v \<in> issued) \<Longrightarrow> confined url rq credential issued (sendHttpRequest url rq body credential sid)"
  using sendHttpRequest_source by (simp add: confined_def) (simp add: sendHttpRequest_def Let_def)

lemma send_post_confined:
  assumes "\<And>v. sid = Some v \<Longrightarrow> v \<in> issued"
  shows "confined url rq credential issued (sendHttpRequest url (requestWithMethod rq m) body credential sid)"
proof -
  have "list_all (header_source rq credential issued) (ca_headers c)"
    if "list_all (header_source (requestWithMethod rq m) credential issued) (ca_headers c)" for c
    using that requestWithMethod_source by (auto simp: list_all_iff)
  moreover have "confined url (requestWithMethod rq m) credential issued (sendHttpRequest url (requestWithMethod rq m) body credential sid)"
    by (rule send_confined) (rule assms)
  ultimately show ?thesis unfolding confined_def by blast
qed

text \<open>The identifiers that the upstream issues in the first replies to a run of calls.\<close>

definition replied_ids :: "network \<Rightarrow> upstream_call list \<Rightarrow> nat \<Rightarrow> string set" where
  "replied_ids net calls n =
     {v. \<exists>j r. j < n \<and> net j (calls ! j) = Some r \<and> js_get (re_headers r) ''mcp-session-id'' = Some v}"

text \<open>A run of calls for a session: each call carries, as the upstream's session, only what the session had or
  what the upstream issued before in this run; and this is so of what the session has in the end.\<close>

definition run_confined ::
  "string \<Rightarrow> incoming_request \<Rightarrow> GenericUpstreamCredential option \<Rightarrow> network \<Rightarrow> HttpSession \<Rightarrow> upstream_call list \<Rightarrow> HttpSession \<Rightarrow> bool" where
  "run_confined url rq credential net s calls s' \<longleftrightarrow>
     (\<forall>i < length calls. confined url rq credential (set_option (hs_upstreamSessionId s) \<union> replied_ids net calls i) (calls ! i)) \<and>
     set_option (hs_upstreamSessionId s') \<subseteq> set_option (hs_upstreamSessionId s) \<union> replied_ids net calls (length calls) \<and>
     hs_credential s' = hs_credential s \<and> sn_principalKey s' = sn_principalKey s"

lemma replied_ids_append: "i \<le> length calls \<Longrightarrow> replied_ids net (calls @ cs) i = replied_ids net calls i"
proof -
  assume "i \<le> length calls"
  then have "(calls @ cs) ! j = calls ! j" if "j < i" for j using that by (simp add: nth_append)
  then show ?thesis unfolding replied_ids_def by (simp cong: conj_cong)
qed

lemma run_confined_nil: "run_confined url rq credential net s [] s"
  by (auto simp: run_confined_def)

lemma run_confined_snoc:
  assumes "run_confined url rq credential net s calls s0"
    "confined url rq credential (set_option (hs_upstreamSessionId s) \<union> replied_ids net calls (length calls)) c"
    "set_option (hs_upstreamSessionId s') \<subseteq> set_option (hs_upstreamSessionId s) \<union> replied_ids net (calls @ [c]) (Suc (length calls))"
    "hs_credential s' = hs_credential s0" "sn_principalKey s' = sn_principalKey s0"
  shows "run_confined url rq credential net s (calls @ [c]) s'"
proof -
  have "confined url rq credential (set_option (hs_upstreamSessionId s) \<union> replied_ids net (calls @ [c]) i) ((calls @ [c]) ! i)"
    if "i < length (calls @ [c])" for i
  proof (cases "i = length calls")
    case True
    with assms(2) show ?thesis by (simp add: replied_ids_append)
  next
    case False
    with that have i: "i < length calls" by simp
    with assms(1) show ?thesis by (simp add: run_confined_def nth_append replied_ids_append)
  qed
  with assms(1,3-5) show ?thesis by (simp add: run_confined_def)
qed

lemma replied_ids_mono: "m \<le> n \<Longrightarrow> replied_ids net calls m \<subseteq> replied_ids net calls n"
  unfolding replied_ids_def by (blast intro: order.strict_trans2)

lemma replied_last:
  assumes "net (length calls) c = Some r" "js_get (re_headers r) ''mcp-session-id'' = Some v"
  shows "v \<in> replied_ids net (calls @ [c]) (Suc (length calls))"
  using assms unfolding replied_ids_def by (auto intro!: exI [of _ "length calls"])

lemma replied_keep: "v \<in> replied_ids net calls (length calls) \<Longrightarrow> v \<in> replied_ids net (calls @ [c]) (Suc (length calls))"
  using replied_ids_append [of "length calls" calls net "[c]"] replied_ids_mono [of "length calls" "Suc (length calls)" net "calls @ [c]"]
  by auto

lemma run_confined_same:
  assumes "run_confined url rq credential net s calls s0"
    "confined url rq credential (set_option (hs_upstreamSessionId s) \<union> replied_ids net calls (length calls)) c"
    "hs_upstreamSessionId s' = hs_upstreamSessionId s0" "hs_credential s' = hs_credential s0" "sn_principalKey s' = sn_principalKey s0"
  shows "run_confined url rq credential net s (calls @ [c]) s'"
proof (rule run_confined_snoc [OF assms(1,2) _ assms(4,5)])
  have "set_option (hs_upstreamSessionId s0) \<subseteq> set_option (hs_upstreamSessionId s) \<union> replied_ids net calls (length calls)"
    using assms(1) by (simp add: run_confined_def)
  moreover have "replied_ids net calls (length calls) \<subseteq> replied_ids net (calls @ [c]) (Suc (length calls))"
    using replied_keep by (intro subsetI)
  ultimately show "set_option (hs_upstreamSessionId s') \<subseteq> set_option (hs_upstreamSessionId s) \<union> replied_ids net (calls @ [c]) (Suc (length calls))"
    unfolding assms(3) by (meson Un_mono order_refl order_trans)
qed

text \<open>One more call of the same session, whose reply may name a new session of the upstream.\<close>

lemma run_confined_send:
  assumes "run_confined url rq credential net s calls s0"
    "c = sendHttpRequest url rq body credential (hs_upstreamSessionId s0)"
    "s' = s0 \<or> (\<exists>r localId. net (length calls) c = Some r \<and> s' = snd (mapHttpSessionResponse r localId s0))"
  shows "run_confined url rq credential net s (calls @ [c]) s'"
proof (rule run_confined_snoc [OF assms(1)])
  have ids: "set_option (hs_upstreamSessionId s0) \<subseteq> set_option (hs_upstreamSessionId s) \<union> replied_ids net calls (length calls)"
    using assms(1) by (simp add: run_confined_def)
  show "confined url rq credential (set_option (hs_upstreamSessionId s) \<union> replied_ids net calls (length calls)) c"
    unfolding assms(2) by (rule send_confined) (use ids in auto)
  have "v \<in> set_option (hs_upstreamSessionId s) \<union> replied_ids net (calls @ [c]) (Suc (length calls))"
    if "v \<in> set_option (hs_upstreamSessionId s')" for v
    using assms(3)
  proof (elim disjE exE conjE)
    assume "s' = s0"
    with that ids replied_keep show ?thesis by blast
  next
    fix r localId
    assume r: "net (length calls) c = Some r" "s' = snd (mapHttpSessionResponse r localId s0)"
    show ?thesis
    proof (cases "header_of (re_headers r) ''mcp-session-id''")
      case None
      with r that ids replied_keep show ?thesis by (auto simp: mapHttpSessionResponse_def)
    next
      case (Some w)
      with r that have "js_get (re_headers r) ''mcp-session-id'' = Some v"
        using header_of_Some [OF Some] by (simp add: mapHttpSessionResponse_def)
      with replied_last r(1) show ?thesis by blast
    qed
  qed
  then show "set_option (hs_upstreamSessionId s') \<subseteq> set_option (hs_upstreamSessionId s) \<union> replied_ids net (calls @ [c]) (Suc (length calls))"
    by blast
  show "hs_credential s' = hs_credential s0" "sn_principalKey s' = sn_principalKey s0"
    using assms(3) by (auto simp: mapHttpSessionResponse_def split: option.splits)
qed

lemma initialize_confined:
  assumes "initializeHttpSession url serverInfo requestId net rq credential s = (calls, s', out)"
  shows "run_confined url rq credential net s calls s'"
proof -
  let ?post = "requestWithMethod rq ''POST''"
  let ?c0 = "sendHttpRequest url ?post (JsonBody (initializeBody requestId
    (coalesce (js_get (iq_headers rq) ''mcp-protocol-version'') ''2025-06-18'') serverInfo)) credential None"
  let ?c1 = "\<lambda>sid. sendHttpRequest url ?post (JsonBody initializedBody) credential sid"
  have first: "run_confined url rq credential net s ([] @ [?c0]) s0"
    if "set_option (hs_upstreamSessionId s0) \<subseteq> set_option (hs_upstreamSessionId s) \<union> replied_ids net ([] @ [?c0]) (Suc (length ([] :: upstream_call list)))"
      "hs_credential s0 = hs_credential s" "sn_principalKey s0 = sn_principalKey s" for s0
    by (rule run_confined_snoc [OF run_confined_nil]) (use that send_post_confined [of None] in auto)
  show ?thesis
  proof (cases "net 0 ?c0")
    case None
    with assms have "calls = [?c0]" "s' = s" by (simp_all add: initializeHttpSession_def Let_def)
    with first [of s] show ?thesis by simp
  next
    case (Some r0)
    let ?sid = "js_get (re_headers r0) ''mcp-session-id''"
    let ?s = "s\<lparr>hs_upstreamSessionId := ?sid\<rparr>"
    have f: "run_confined url rq credential net s [?c0] ?s"
      using first [of ?s] replied_last [of net "[]" ?c0 r0] Some by auto
    have "calls = [?c0] \<and> s' = s \<or> calls = [?c0] @ [?c1 ?sid] \<and> (s' = ?s \<or> s' = ?s\<lparr>hs_initialized := True\<rparr>)"
      using assms Some by (cases "net 1 (?c1 ?sid)") (auto simp: initializeHttpSession_def Let_def split: if_splits)
    moreover have "run_confined url rq credential net s ([?c0] @ [?c1 ?sid]) s1"
      if "s1 = ?s \<or> s1 = ?s\<lparr>hs_initialized := True\<rparr>" for s1
      by (rule run_confined_same [OF f]) (use that f in \<open>auto intro!: send_post_confined simp: run_confined_def\<close>)
    ultimately show ?thesis using first [of s] by auto
  qed
qed

lemma run_confined_initialized:
  "run_confined url rq credential net s calls (s'\<lparr>hs_initialized := i\<rparr>) = run_confined url rq credential net s calls s'"
  by (simp add: run_confined_def)

lemma send_operation_confined:
  assumes "httpSendOperation url serverInfo requestId net rq body initializing credential localId s = (calls, s', out)"
  shows "run_confined url rq credential net s calls s'"
proof -
  obtain calls0 s0 out0 where i: "(if \<not> hs_initialized s \<and> \<not> initializing
      then initializeHttpSession url serverInfo requestId net rq credential s else ([], s, Inr ())) = (calls0, s0, out0)"
    by (metis prod_cases3)
  have f: "run_confined url rq credential net s calls0 s0"
    using i initialize_confined run_confined_nil by (auto split: if_splits)
  let ?c = "sendHttpRequest url rq body credential (hs_upstreamSessionId s0)"
  consider e where "out0 = Inl e" | "out0 = Inr ()" "net (length calls0) ?c = None" | r where "out0 = Inr ()" "net (length calls0) ?c = Some r"
    by (cases out0; cases "net (length calls0) ?c") auto
  then show ?thesis
  proof cases
    case 1
    with assms f show ?thesis unfolding httpSendOperation_def i by simp
  next
    case 2
    with assms have "calls = calls0 @ [?c]" "s' = s0" unfolding httpSendOperation_def i by (auto simp: Let_def)
    with run_confined_send [OF f refl] show ?thesis by simp
  next
    case 3
    let ?s = "snd (mapHttpSessionResponse r localId s0)"
    from 3 assms have c: "calls = calls0 @ [?c]" "s' = ?s \<or> s' = ?s\<lparr>hs_initialized := True\<rparr>"
      unfolding httpSendOperation_def i by (auto simp: Let_def split: prod.splits if_splits)
    have "run_confined url rq credential net s (calls0 @ [?c]) ?s"
      by (rule run_confined_send [OF f refl]) (use 3 in blast)
    with c run_confined_initialized show ?thesis by metis
  qed
qed

lemma close_operation_confined:
  assumes "httpCloseOperation url net rq credential localId s = (calls, s', out)"
  shows "run_confined url rq (orelse credential (hs_credential s)) net s calls s'"
proof (cases "hs_initialized s")
  case False
  with assms show ?thesis by (simp add: httpCloseOperation_def run_confined_nil)
next
  case True
  let ?c = "sendHttpRequest url rq (RawBody []) (orelse credential (hs_credential s)) (hs_upstreamSessionId s)"
  from True assms have "calls = [] @ [?c]"
    "s' = s \<or> (\<exists>r localId. net (length ([] :: upstream_call list)) ?c = Some r \<and> s' = snd (mapHttpSessionResponse r localId s))"
    by (auto simp: httpCloseOperation_def Let_def split: option.splits prod.splits) (metis snd_conv)
  with run_confined_send [OF run_confined_nil refl] show ?thesis by blast
qed

section \<open>The calls of a transport\<close>

text \<open>What happens on a transport over HTTP: a request for a session is taken in, and calls are made for it.\<close>

record upstream_request =
  ur_session :: string
  ur_principal :: string
  ur_incoming :: incoming_request
  ur_body :: upstream_body
  ur_credential :: "GenericUpstreamCredential option"
  ur_closing :: bool

datatype transport_event = Asked upstream_request | Called upstream_request upstream_call "upstream_reply option"

definition exchanges :: "upstream_request \<Rightarrow> network \<Rightarrow> upstream_call list \<Rightarrow> transport_event list" where
  "exchanges a net calls = map (\<lambda>i. Called a (calls ! i) (net i (calls ! i))) [0..<length calls]"

text \<open>A session that was removed is an object that the requests taken in before still hold.\<close>

record http_transport =
  ht_sessions :: "(string, HttpSession) jsmap"
  ht_removed :: "(string \<times> HttpSession) list"
  ht_log :: "transport_event list"

definition retain :: "(string, HttpSession) jsmap \<Rightarrow> http_transport \<Rightarrow> http_transport" where
  "retain ss h = h\<lparr>ht_sessions := ss, ht_removed := ht_removed h @ filter (\<lambda>(k, s). k \<notin> fst ` set ss) (ht_sessions h)\<rparr>"

definition logged :: "transport_event list \<Rightarrow> http_transport \<Rightarrow> http_transport" where
  "logged es h = h\<lparr>ht_log := ht_log h @ es\<rparr>"

inductive transport_step ::
  "(string \<Rightarrow> json option) \<Rightarrow> string \<Rightarrow> string \<times> string \<Rightarrow> session_limits \<Rightarrow> http_transport \<Rightarrow> http_transport \<Rightarrow> bool"
  for parseJson url serverInfo limits where
  issues: "issueHttpSession limits now sid who (ht_sessions h) = (r, ss) \<Longrightarrow>
    transport_step parseJson url serverInfo limits h (retain ss h)"
| reaps: "transport_step parseJson url serverInfo limits h (retain (pruneIdle limits now (ht_sessions h)) h)"
| asserts: "assertSession now sid who (ht_sessions h) = (r, ss) \<Longrightarrow>
    transport_step parseJson url serverInfo limits h (h\<lparr>ht_sessions := ss\<rparr>)"
| enters: "httpSendEntry now rq credential who (ht_sessions h) = Inr (sid, ss) \<Longrightarrow>
    a = \<lparr>ur_session = sid, ur_principal = who, ur_incoming = rq, ur_body = body, ur_credential = credential, ur_closing = False\<rparr> \<Longrightarrow>
    transport_step parseJson url serverInfo limits h (logged [Asked a] (h\<lparr>ht_sessions := ss\<rparr>))"
| locks: "transport_step parseJson url serverInfo limits h
    (h\<lparr>ht_sessions := updateSession sid (\<lambda>s. s\<lparr>sn_busy := True\<rparr>) (ht_sessions h)\<rparr>)"
| sends: "Asked a \<in> set (ht_log h) \<Longrightarrow> \<not> ur_closing a \<Longrightarrow>
    js_get (ht_sessions h) (ur_session a) = Some s \<Longrightarrow> sn_principalKey s = ur_principal a \<Longrightarrow>
    httpSendOperation url serverInfo requestId net (ur_incoming a) (ur_body a) (isInitialize parseJson (ur_body a))
      (ur_credential a) (ur_session a) s = (calls, s', out) \<Longrightarrow>
    transport_step parseJson url serverInfo limits h (logged (exchanges a net calls)
      (h\<lparr>ht_sessions := updateSession (ur_session a) (\<lambda>_. s'\<lparr>sn_busy := False\<rparr>) (ht_sessions h)\<rparr>))"
| sends_removed: "Asked a \<in> set (ht_log h) \<Longrightarrow> \<not> ur_closing a \<Longrightarrow>
    i < length (ht_removed h) \<Longrightarrow> ht_removed h ! i = (ur_session a, s) \<Longrightarrow> sn_principalKey s = ur_principal a \<Longrightarrow>
    httpSendOperation url serverInfo requestId net (ur_incoming a) (ur_body a) (isInitialize parseJson (ur_body a))
      (ur_credential a) (ur_session a) s = (calls, s', out) \<Longrightarrow>
    transport_step parseJson url serverInfo limits h (logged (exchanges a net calls)
      (h\<lparr>ht_removed := (ht_removed h)[i := (ur_session a, s')]\<rparr>))"
| closes: "js_get (iq_headers rq) ''mcp-session-id'' = Some sid \<Longrightarrow>
    closeSession (Some sid) who (ht_sessions h) = (Inr (Some s), ss) \<Longrightarrow>
    a = \<lparr>ur_session = sid, ur_principal = who, ur_incoming = rq, ur_body = RawBody [], ur_credential = credential, ur_closing = True\<rparr> \<Longrightarrow>
    transport_step parseJson url serverInfo limits h (logged [Asked a] (retain ss h))"
| tells: "Asked a \<in> set (ht_log h) \<Longrightarrow> ur_closing a \<Longrightarrow>
    i < length (ht_removed h) \<Longrightarrow> ht_removed h ! i = (ur_session a, s) \<Longrightarrow> sn_principalKey s = ur_principal a \<Longrightarrow>
    httpCloseOperation url net (ur_incoming a) (ur_credential a) (ur_session a) s = (calls, s', out) \<Longrightarrow>
    transport_step parseJson url serverInfo limits h (logged (exchanges a net calls)
      (h\<lparr>ht_removed := (ht_removed h)[i := (ur_session a, s')]\<rparr>))"

definition new_transport :: http_transport where
  "new_transport = \<lparr>ht_sessions = [], ht_removed = [], ht_log = []\<rparr>"

text \<open>What was issued by the upstream to a session, and the credentials that came with requests for it.\<close>

definition upstream_issued :: "transport_event list \<Rightarrow> string \<Rightarrow> string \<Rightarrow> string set" where
  "upstream_issued es sid who =
     {v. \<exists>a c r. Called a c (Some r) \<in> set es \<and> ur_session a = sid \<and> ur_principal a = who \<and>
        js_get (re_headers r) ''mcp-session-id'' = Some v}"

definition came_with :: "transport_event list \<Rightarrow> string \<Rightarrow> string \<Rightarrow> GenericUpstreamCredential set" where
  "came_with es sid who =
     {k. \<exists>a. Asked a \<in> set es \<and> ur_session a = sid \<and> ur_principal a = who \<and> ur_credential a = Some k}"

definition session_traced :: "transport_event list \<Rightarrow> string \<times> HttpSession \<Rightarrow> bool" where
  "session_traced es p \<longleftrightarrow>
     set_option (hs_upstreamSessionId (snd p)) \<subseteq> upstream_issued es (fst p) (sn_principalKey (snd p)) \<and>
     set_option (hs_credential (snd p)) \<subseteq> came_with es (fst p) (sn_principalKey (snd p))"

text \<open>A call is accounted for by the events before it.\<close>

definition call_traced :: "string \<Rightarrow> transport_event list \<Rightarrow> upstream_request \<Rightarrow> upstream_call \<Rightarrow> bool" where
  "call_traced url es a c \<longleftrightarrow>
     Asked a \<in> set es \<and>
     (\<exists>credential. confined url (ur_incoming a) credential (upstream_issued es (ur_session a) (ur_principal a)) c \<and>
        (credential = ur_credential a \<or>
         ur_closing a \<and> ur_credential a = None \<and> set_option credential \<subseteq> came_with es (ur_session a) (ur_principal a)))"

definition log_traced :: "string \<Rightarrow> transport_event list \<Rightarrow> bool" where
  "log_traced url es \<longleftrightarrow> (\<forall>j < length es. \<forall>a c r. es ! j = Called a c r \<longrightarrow> call_traced url (take j es) a c)"

definition transport_inv :: "string \<Rightarrow> http_transport \<Rightarrow> bool" where
  "transport_inv url h \<longleftrightarrow> log_traced url (ht_log h) \<and> distinct (map fst (ht_sessions h)) \<and>
     list_all (session_traced (ht_log h)) (ht_sessions h) \<and> list_all (session_traced (ht_log h)) (ht_removed h)"

lemma confined_mono: "confined url rq credential A c \<Longrightarrow> A \<subseteq> B \<Longrightarrow> confined url rq credential B c"
  by (auto simp: confined_def list_all_iff header_source_def)

lemma traced_mono:
  "set es \<subseteq> set fs \<Longrightarrow> upstream_issued es sid who \<subseteq> upstream_issued fs sid who"
  "set es \<subseteq> set fs \<Longrightarrow> came_with es sid who \<subseteq> came_with fs sid who"
  by (auto simp: upstream_issued_def came_with_def)

lemma session_traced_mono: "session_traced es p \<Longrightarrow> set es \<subseteq> set fs \<Longrightarrow> session_traced fs p"
  unfolding session_traced_def using traced_mono by blast

lemma sessions_traced_mono: "list_all (session_traced es) ps \<Longrightarrow> set es \<subseteq> set fs \<Longrightarrow> list_all (session_traced fs) ps"
  by (auto simp: list_all_iff intro: session_traced_mono)

lemma exchanges_nth:
  "length (exchanges a net calls) = length calls"
  "i < length calls \<Longrightarrow> exchanges a net calls ! i = Called a (calls ! i) (net i (calls ! i))"
  by (simp_all add: exchanges_def)

lemma replied_issued:
  assumes "i \<le> length calls"
  shows "replied_ids net calls i \<subseteq> upstream_issued (take i (exchanges a net calls)) (ur_session a) (ur_principal a)"
proof
  fix v assume "v \<in> replied_ids net calls i"
  then obtain j r where j: "j < i" "net j (calls ! j) = Some r" "js_get (re_headers r) ''mcp-session-id'' = Some v"
    by (auto simp: replied_ids_def)
  from j(1) assms have "take i (exchanges a net calls) ! j = Called a (calls ! j) (Some r)" "j < length (take i (exchanges a net calls))"
    by (simp_all add: exchanges_nth j(2))
  then have "Called a (calls ! j) (Some r) \<in> set (take i (exchanges a net calls))" using nth_mem by metis
  with j(3) show "v \<in> upstream_issued (take i (exchanges a net calls)) (ur_session a) (ur_principal a)"
    unfolding upstream_issued_def by blast
qed

text \<open>The calls of an operation extend the log by calls that are accounted for.\<close>

lemma exchanges_traced:
  assumes "log_traced url es" "Asked a \<in> set es" "session_traced es (ur_session a, s)" "sn_principalKey s = ur_principal a"
    "run_confined url (ur_incoming a) credential net s calls s'"
    "credential = ur_credential a \<or>
     ur_closing a \<and> ur_credential a = None \<and> set_option credential \<subseteq> came_with es (ur_session a) (ur_principal a)"
  shows "log_traced url (es @ exchanges a net calls)" "session_traced (es @ exchanges a net calls) (ur_session a, s')"
proof -
  let ?x = "exchanges a net calls"
  have had: "set_option (hs_upstreamSessionId s) \<union> replied_ids net calls i \<subseteq>
      upstream_issued (es @ take i ?x) (ur_session a) (ur_principal a)" if "i \<le> length calls" for i
  proof (rule Un_least)
    have "set_option (hs_upstreamSessionId s) \<subseteq> upstream_issued es (ur_session a) (ur_principal a)"
      using assms(3,4) by (simp add: session_traced_def)
    also have "\<dots> \<subseteq> upstream_issued (es @ take i ?x) (ur_session a) (ur_principal a)" by (rule traced_mono(1)) simp
    finally show "set_option (hs_upstreamSessionId s) \<subseteq> upstream_issued (es @ take i ?x) (ur_session a) (ur_principal a)" .
    have "replied_ids net calls i \<subseteq> upstream_issued (take i ?x) (ur_session a) (ur_principal a)"
      by (rule replied_issued [OF that])
    also have "\<dots> \<subseteq> upstream_issued (es @ take i ?x) (ur_session a) (ur_principal a)" by (rule traced_mono(1)) simp
    finally show "replied_ids net calls i \<subseteq> upstream_issued (es @ take i ?x) (ur_session a) (ur_principal a)" .
  qed
  have kept: "came_with es (ur_session a) (ur_principal a) \<subseteq> came_with (es @ fs) (ur_session a) (ur_principal a)" for fs
    by (rule traced_mono(2)) simp
  have call: "call_traced url (es @ take i ?x) a (calls ! i)" if "i < length calls" for i
  proof -
    have "confined url (ur_incoming a) credential (upstream_issued (es @ take i ?x) (ur_session a) (ur_principal a)) (calls ! i)"
      by (rule confined_mono [OF _ had]) (use assms(5) that in \<open>simp_all add: run_confined_def\<close>)
    moreover have "credential = ur_credential a \<or> ur_closing a \<and> ur_credential a = None \<and>
        set_option credential \<subseteq> came_with (es @ take i ?x) (ur_session a) (ur_principal a)"
      using assms(6) kept [of "take i ?x"] by (elim disjE) (simp, blast)
    ultimately show ?thesis using assms(2) unfolding call_traced_def by auto
  qed
  have l: "length ?x = length calls" by (simp add: exchanges_def)
  show "log_traced url (es @ ?x)"
    unfolding log_traced_def
  proof (intro allI impI)
    fix j a' c r assume j: "j < length (es @ ?x)" "(es @ ?x) ! j = Called a' c r"
    show "call_traced url (take j (es @ ?x)) a' c"
    proof (cases "j < length es")
      case True
      with assms(1) j show ?thesis by (simp add: log_traced_def nth_append)
    next
      case False
      with j l have i: "j - length es < length calls" "a' = a" "c = calls ! (j - length es)"
        by (auto simp: nth_append exchanges_nth)
      with call [OF i(1)] False show ?thesis by simp
    qed
  qed
  have "take (length calls) ?x = ?x" using l by simp
  then have "set_option (hs_upstreamSessionId s') \<subseteq> upstream_issued (es @ ?x) (ur_session a) (ur_principal a)"
    using had [of "length calls"] assms(5) unfolding run_confined_def by (metis le_refl order_trans)
  moreover have "set_option (hs_credential s') \<subseteq> came_with (es @ ?x) (ur_session a) (ur_principal a)"
  proof -
    have "set_option (hs_credential s') \<subseteq> came_with es (ur_session a) (ur_principal a)"
      using assms(3-5) by (simp add: session_traced_def run_confined_def)
    then show ?thesis using kept by (rule order_trans)
  qed
  ultimately show "session_traced (es @ ?x) (ur_session a, s')"
    using assms(4,5) by (simp add: session_traced_def run_confined_def)
qed

lemma log_traced_asked: "log_traced url es \<Longrightarrow> log_traced url (es @ [Asked a])"
  by (auto simp: log_traced_def nth_append less_Suc_eq)

lemma map_fst_update [simp]: "map fst (updateSession sid f ss) = map fst ss"
  by (simp add: updateSession_def comp_def case_prod_beta)

lemma distinct_issue:
  assumes "distinct (map fst ss)"
  shows "distinct (map fst (snd (issueWith new limits now sid who ss)))"
  using assms
  by (auto simp: issueWith_def makeRoomForSession_def pruneIdle_def Let_def distinct_map_filter js_del_filter
      intro!: distinct_update split: sum.split if_splits)

lemma all_update: "list_all P ss \<Longrightarrow> (\<And>s. P (sid, s) \<Longrightarrow> P (sid, f s)) \<Longrightarrow> list_all P (updateSession sid f ss)"
  by (auto simp: list_all_iff updateSession_def)

lemma all_issue:
  assumes "list_all P ss" "P (sid, new who now)"
  shows "list_all P (snd (issueWith new limits now sid who ss))"
proof -
  have f: "list_all P (filter Q ss)" for Q using assms(1) by (auto simp: list_all_iff)
  have "list_all P ss'" if "makeRoomForSession limits sid who (pruneIdle limits now ss) = Inr (evicted, ss')" for evicted ss'
    using that f by (auto simp: makeRoomForSession_def pruneIdle_def Let_def js_del_filter filter_filter list_all_iff split: if_splits)
  then show ?thesis using assms f
    by (auto simp: issueWith_def Let_def pruneIdle_def intro!: all_js_set split: sum.split)
qed

lemma transport_inv_retain:
  assumes "transport_inv url h" "list_all (session_traced (ht_log h)) ss" "distinct (map fst ss)"
  shows "transport_inv url (retain ss h)"
  using assms by (auto simp: transport_inv_def retain_def list_all_iff)

lemma transport_inv_asked:
  assumes "transport_inv url h"
  shows "transport_inv url (logged [Asked a] h)"
  using assms by (auto simp: transport_inv_def logged_def log_traced_asked intro: sessions_traced_mono)

lemma transport_inv_operated:
  assumes "transport_inv url h" "Asked a \<in> set (ht_log h)" "session_traced (ht_log h) (ur_session a, s)" "sn_principalKey s = ur_principal a"
    "run_confined url (ur_incoming a) credential net s calls s'"
    "credential = ur_credential a \<or>
     ur_closing a \<and> ur_credential a = None \<and> set_option credential \<subseteq> came_with (ht_log h) (ur_session a) (ur_principal a)"
  shows "transport_inv url (logged (exchanges a net calls) (h\<lparr>ht_sessions := updateSession (ur_session a) (\<lambda>_. s'\<lparr>sn_busy := b\<rparr>) (ht_sessions h)\<rparr>))"
    "transport_inv url (logged (exchanges a net calls) (h\<lparr>ht_removed := (ht_removed h)[i := (ur_session a, s')]\<rparr>))"
proof -
  note x = exchanges_traced [OF _ assms(2-6)]
  from assms(1) have l: "log_traced url (ht_log h)" by (simp add: transport_inv_def)
  let ?es = "ht_log h @ exchanges a net calls"
  have s': "session_traced ?es (ur_session a, s'\<lparr>sn_busy := b\<rparr>)" using x(2) [OF l] by (simp add: session_traced_def)
  have o: "list_all (session_traced ?es) (ht_sessions h)" "list_all (session_traced ?es) (ht_removed h)"
    using assms(1) by (auto simp: transport_inv_def intro: sessions_traced_mono)
  show "transport_inv url (logged (exchanges a net calls) (h\<lparr>ht_sessions := updateSession (ur_session a) (\<lambda>_. s'\<lparr>sn_busy := b\<rparr>) (ht_sessions h)\<rparr>))"
    using x(1) [OF l] o s' assms(1) by (simp add: transport_inv_def logged_def all_update)
  show "transport_inv url (logged (exchanges a net calls) (h\<lparr>ht_removed := (ht_removed h)[i := (ur_session a, s')]\<rparr>))"
    using x [OF l] o assms(1) set_update_subset_insert [of "ht_removed h" i "(ur_session a, s')"]
    by (fastforce simp: transport_inv_def logged_def list_all_iff)
qed

lemma transport_inv_step:
  assumes "transport_inv url h" "transport_step parseJson url serverInfo limits h h'"
  shows "transport_inv url h'"
  using assms(2)
proof (cases rule: transport_step.cases)
  note inv = assms(1) [unfolded transport_inv_def]
  have get: "session_traced (ht_log h) (k, s)" if "js_get (ht_sessions h) k = Some s" for k s
    using inv map_of_SomeD [OF that] by (auto simp: list_all_iff)
  have gone: "session_traced (ht_log h) (k, s)" if "i < length (ht_removed h)" "ht_removed h ! i = (k, s)" for i k s
    using inv nth_mem [OF that(1)] that(2) by (auto simp: list_all_iff)
  {
    case (issues now sid who r ss)
    have "list_all (session_traced (ht_log h)) ss"
      using all_issue [of "session_traced (ht_log h)" "ht_sessions h" sid newHttpSession who now limits] inv issues(2)
      by (simp add: issueHttpSession_def session_traced_def newHttpSession_def)
    moreover have "distinct (map fst ss)"
      using distinct_issue [of "ht_sessions h" newHttpSession limits now sid who] inv issues(2) by (simp add: issueHttpSession_def)
    ultimately show ?thesis using assms(1) issues(1) by (simp add: transport_inv_retain)
  next
    case (reaps now)
    have "list_all (session_traced (ht_log h)) (pruneIdle limits now (ht_sessions h))"
      using inv by (auto simp: list_all_iff pruneIdle_def)
    moreover have "distinct (map fst (pruneIdle limits now (ht_sessions h)))"
      using inv by (simp add: pruneIdle_def distinct_map_filter)
    ultimately show ?thesis using assms(1) reaps(1) by (simp add: transport_inv_retain)
  next
    case (asserts now sid who r ss)
    have "list_all (session_traced (ht_log h)) ss"
      using asserts(2) inv by (auto simp: assertSession_def session_traced_def intro!: all_update split: sum.splits)
    moreover have "map fst ss = map fst (ht_sessions h)" using asserts(2) by (auto simp: assertSession_def split: sum.splits)
    ultimately show ?thesis using assms(1) asserts(1) by (simp add: transport_inv_def)
  next
    case (enters now rq credential who sid ss a body)
    obtain s where s: "js_get (ht_sessions h) sid = Some s" "sn_principalKey s = who"
      "ss = updateSession sid (\<lambda>s. s\<lparr>hs_credential := credential, sn_lastUsedAt := now\<rparr>) (ht_sessions h)"
      using enters(2) by (auto simp: httpSendEntry_def sum_bind_Inr assertIssuedSession_def split: option.splits if_splits)
    let ?es = "ht_log h @ [Asked a]"
    have "session_traced ?es p" if "p \<in> set ss" for p
    proof -
      from that s(3) obtain k t where t: "(k, t) \<in> set (ht_sessions h)"
        "p = (k, if k = sid then t\<lparr>hs_credential := credential, sn_lastUsedAt := now\<rparr> else t)"
        by (auto simp: updateSession_def)
      have old: "session_traced ?es (k, t)"
        using inv t(1) session_traced_mono [of "ht_log h" "(k, t)" ?es] by (auto simp: list_all_iff)
      show ?thesis
      proof (cases "k = sid")
        case True
        have "js_get (ht_sessions h) sid = Some t" using t(1) True inv by (intro map_of_is_SomeI) auto
        with s have who: "sn_principalKey t = who" by simp
        have "Asked a \<in> set ?es" "ur_session a = sid" "ur_principal a = who" "ur_credential a = credential"
          by (simp_all add: enters(3))
        then have "set_option credential \<subseteq> came_with ?es sid who" unfolding came_with_def by force
        with old True t(2) who show ?thesis by (simp add: session_traced_def)
      qed (use old t(2) in simp)
    qed
    moreover have "list_all (session_traced ?es) (ht_removed h)" using inv by (auto intro: sessions_traced_mono)
    ultimately show ?thesis
      using inv s(3) enters(1) by (simp add: transport_inv_def logged_def log_traced_asked list_all_iff)
  next
    case (locks sid)
    have "list_all (session_traced (ht_log h)) (updateSession sid (\<lambda>s. s\<lparr>sn_busy := True\<rparr>) (ht_sessions h))"
      using inv by (auto simp: session_traced_def intro!: all_update)
    with assms(1) locks show ?thesis by (simp add: transport_inv_def)
  next
    case (sends a s requestId net calls s' out)
    show ?thesis
      unfolding sends(1) by (rule transport_inv_operated(1) [OF assms(1) sends(2) get [OF sends(4)] sends(5) send_operation_confined [OF sends(6)]]) simp
  next
    case (sends_removed a i s requestId net calls s' out)
    show ?thesis
      unfolding sends_removed(1)
      by (rule transport_inv_operated(2) [OF assms(1) sends_removed(2) gone [OF sends_removed(4,5)] sends_removed(6)
            send_operation_confined [OF sends_removed(7)]]) simp
  next
    case (closes rq sid who s ss a credential)
    have "list_all (session_traced (ht_log h)) ss"
      using closes(3) inv by (auto simp: closeSession_def js_del_filter list_all_iff split: option.splits if_splits)
    moreover have "distinct (map fst ss)"
      using closes(3) inv by (auto simp: closeSession_def js_del_filter distinct_map_filter split: option.splits if_splits)
    ultimately show ?thesis using assms(1) closes(1) by (simp add: transport_inv_asked transport_inv_retain)
  next
    case (tells a i s net calls s' out)
    have k: "set_option (hs_credential s) \<subseteq> came_with (ht_log h) (ur_session a) (ur_principal a)"
      using gone [OF tells(4,5)] tells(6) by (simp add: session_traced_def)
    show ?thesis
      unfolding tells(1)
      by (rule transport_inv_operated(2) [OF assms(1) tells(2) gone [OF tells(4,5)] tells(6) close_operation_confined [OF tells(7)]])
        (use k tells(3) in \<open>cases "ur_credential a"; simp\<close>)
  }
qed

interpretation transport: inductive_invariant new_transport "transport_step parseJson url serverInfo limits" "transport_inv url"
  for parseJson url serverInfo limits
  by unfold_locales (simp add: new_transport_def transport_inv_def log_traced_def, rule transport_inv_step)

text \<open>C39: whatever sessions are issued, used, closed and reaped on a transport over HTTP, and in whatever
  order their requests are taken in and carried out: every call to the upstream, that of a closing
  session included, goes to the configured URL for a request that was taken in before. Each header of
  it is one of the four that are forwarded, with the value of that request; or the session identifier
  that the upstream itself gave in an earlier reply to the same session of the same principal; or the
  credential of the request, where a closing request without one uses a credential that came with an
  earlier request for the session. So the identifier of the client's own session and its authorization
  stay with the gateway.\<close>

theorem upstream_calls_confined:
  assumes "(transport_step parseJson url serverInfo limits)\<^sup>*\<^sup>* new_transport h"
    "j < length (ht_log h)" "ht_log h ! j = Called a c reply"
  shows "Asked a \<in> set (take j (ht_log h)) \<and> ca_url c = url \<and> (\<forall>n v. (n, v) \<in> set (ca_headers c) \<longrightarrow>
    n \<in> {''accept'', ''content-type'', ''mcp-protocol-version'', ''last-event-id''} \<and> js_get (iq_headers (ur_incoming a)) n = Some v \<or>
    n = ''mcp-session-id'' \<and>
      (\<exists>a0 c0 r0. Called a0 c0 (Some r0) \<in> set (take j (ht_log h)) \<and> ur_session a0 = ur_session a \<and>
         ur_principal a0 = ur_principal a \<and> js_get (re_headers r0) ''mcp-session-id'' = Some v) \<or>
    (\<exists>k. n = uc_header k \<and> v = uc_value k \<and>
      (ur_credential a = Some k \<or> ur_closing a \<and> ur_credential a = None \<and>
        (\<exists>a0. Asked a0 \<in> set (take j (ht_log h)) \<and> ur_session a0 = ur_session a \<and> ur_principal a0 = ur_principal a \<and>
           ur_credential a0 = Some k))))"
proof -
  let ?es = "take j (ht_log h)"
  have "call_traced url ?es a c"
    using transport.inv_reachable [OF assms(1)] assms(2,3) by (simp add: transport_inv_def log_traced_def)
  then obtain credential where c: "Asked a \<in> set ?es"
    "confined url (ur_incoming a) credential (upstream_issued ?es (ur_session a) (ur_principal a)) c"
    "credential = ur_credential a \<or>
     ur_closing a \<and> ur_credential a = None \<and> set_option credential \<subseteq> came_with ?es (ur_session a) (ur_principal a)"
    by (auto simp: call_traced_def)
  from c(2) have u: "ca_url c = url" and hs: "\<And>n v. (n, v) \<in> set (ca_headers c) \<Longrightarrow>
      header_source (ur_incoming a) credential (upstream_issued ?es (ur_session a) (ur_principal a)) (n, v)"
    by (auto simp: confined_def list_all_iff)
  show ?thesis
    by (intro conjI c(1) u allI impI, drule hs, use c(3) in \<open>unfold header_source_def upstream_issued_def came_with_def\<close>) force
qed

text \<open>A client whose session the upstream has named \<open>up-1\<close>: its own identifier and token stay behind.\<close>

definition example_net :: network where
  "example_net i c = Some \<lparr>re_status = 200, re_headers = [(''mcp-session-id'', ''up-1'')], re_body = []\<rparr>"

definition example_asked :: upstream_request where
  "example_asked =
     \<lparr>ur_session = ''local'', ur_principal = ''alice'',
      ur_incoming = \<lparr>iq_method = ''GET'', iq_path = ''/mcp'',
        iq_headers = [(''accept'', ''*/*''), (''authorization'', ''Bearer t''), (''mcp-session-id'', ''local'')], iq_body = []\<rparr>,
      ur_body = NoBody, ur_credential = None, ur_closing = False\<rparr>"

definition example_calls :: "upstream_call list \<times> HttpSession \<times> (string + upstream_reply)" where
  "example_calls = httpSendOperation ''https://up'' (''gw'', ''1'') ''r1'' example_net (ur_incoming example_asked) NoBody False None ''local''
     (newHttpSession ''alice'' 0)"

lemma example_sent_calls:
  "length (fst example_calls) = 3 \<and> ca_headers (fst example_calls ! 2) = [(''accept'', ''*/*''), (''mcp-session-id'', ''up-1'')]"
  by (simp add: example_calls_def example_asked_def httpSendOperation_def initializeHttpSession_def newHttpSession_def example_net_def
      reply_ok_def sendHttpRequest_def requestWithMethod_def forwardedHeaders_def FORWARDED_HEADERS_def set_header_def header_of_def
      mapHttpSessionResponse_def Let_def)

lemma example_transport:
  "\<exists>h. (transport_step (\<lambda>s. None) ''https://up'' (''gw'', ''1'') example_limits)\<^sup>*\<^sup>* new_transport h \<and>
     ht_log h = Asked example_asked # exchanges example_asked example_net (fst example_calls)"
proof -
  let ?step = "transport_step (\<lambda>s. None) ''https://up'' (''gw'', ''1'') example_limits"
  let ?ss = "[(''local'', newHttpSession ''alice'' 0)]"
  let ?h1 = "retain ?ss new_transport"
  let ?h2 = "logged [Asked example_asked] (?h1\<lparr>ht_sessions := ?ss\<rparr>)"
  obtain calls s' out where c: "example_calls = (calls, s', out)" by (metis prod_cases3)
  let ?h3 = "logged (exchanges example_asked example_net calls)
    (?h2\<lparr>ht_sessions := updateSession (ur_session example_asked) (\<lambda>_. s'\<lparr>sn_busy := False\<rparr>) (ht_sessions ?h2)\<rparr>)"
  have "issueHttpSession example_limits 0 ''local'' ''alice'' (ht_sessions new_transport) = (Inr None, ?ss)"
    by (simp add: issueHttpSession_def issueWith_def makeRoomForSession_def pruneIdle_def ownSessions_def example_limits_def new_transport_def)
  then have 1: "?step new_transport ?h1" by (rule transport_step.issues)
  have e: "httpSendEntry 0 (ur_incoming example_asked) None ''alice'' (ht_sessions ?h1) = Inr (''local'', ?ss)"
    by (simp add: httpSendEntry_def requiredSessionId_def assertIssuedSession_def example_asked_def retain_def new_transport_def
        newHttpSession_def updateSession_def trim_def is_space_def)
  have 2: "?step ?h1 ?h2"
    by (rule transport_step.enters [OF e, of example_asked NoBody]) (simp add: example_asked_def)
  have 3: "?step ?h2 ?h3"
  proof (rule transport_step.sends)
    show "httpSendOperation ''https://up'' (''gw'', ''1'') ''r1'' example_net (ur_incoming example_asked) (ur_body example_asked)
        (isInitialize (\<lambda>s. None) (ur_body example_asked)) (ur_credential example_asked) (ur_session example_asked)
        (newHttpSession ''alice'' 0) = (calls, s', out)"
      using c by (simp add: example_calls_def example_asked_def isInitialize_def parseMessage_def)
  qed (simp_all add: logged_def example_asked_def newHttpSession_def)
  from 1 2 3 have "?step\<^sup>*\<^sup>* new_transport ?h3" by (meson r_into_rtranclp rtranclp_trans)
  moreover have "ht_log ?h3 = Asked example_asked # exchanges example_asked example_net (fst example_calls)"
    unfolding c by (simp add: logged_def retain_def new_transport_def)
  ultimately show ?thesis by blast
qed

theorem upstream_calls_confined_witness:
  "\<exists>h c reply. (transport_step (\<lambda>s. None) ''https://up'' (''gw'', ''1'') example_limits)\<^sup>*\<^sup>* new_transport h \<and>
     ht_log h ! 3 = Called example_asked c reply \<and> ca_headers c = [(''accept'', ''*/*''), (''mcp-session-id'', ''up-1'')] \<and>
     ca_url c = ''https://up'' \<and>
     (\<exists>a0 c0 r0. Called a0 c0 (Some r0) \<in> set (take 3 (ht_log h)) \<and> ur_session a0 = ''local'' \<and>
        js_get (re_headers r0) ''mcp-session-id'' = Some ''up-1'')"
proof -
  obtain h where h: "(transport_step (\<lambda>s. None) ''https://up'' (''gw'', ''1'') example_limits)\<^sup>*\<^sup>* new_transport h"
    "ht_log h = Asked example_asked # exchanges example_asked example_net (fst example_calls)"
    using example_transport by blast
  let ?c = "fst example_calls ! 2"
  have l: "3 < length (ht_log h)" and e: "ht_log h ! 3 = Called example_asked ?c (example_net 2 ?c)"
    using h(2) example_sent_calls by (simp_all add: exchanges_nth numeral_3_eq_3 numeral_2_eq_2)
  have u: "ur_session example_asked = ''local''" "ur_credential example_asked = None" "\<not> ur_closing example_asked"
    by (simp_all add: example_asked_def)
  have "(''mcp-session-id'', ''up-1'') \<in> set (ca_headers ?c)" using example_sent_calls by simp
  with upstream_calls_confined [OF h(1) l e] u have "ca_url ?c = ''https://up'' \<and>
     (\<exists>a0 c0 r0. Called a0 c0 (Some r0) \<in> set (take 3 (ht_log h)) \<and> ur_session a0 = ''local'' \<and>
        js_get (re_headers r0) ''mcp-session-id'' = Some ''up-1'')" by fastforce
  with h(1) e example_sent_calls show ?thesis by blast
qed

section \<open>Lines of a stdio upstream\<close>

lemma index_of_buffer: "index_of c b = Some i \<Longrightarrow> index_of c (b @ x) = Some i"
  by (induction b arbitrary: i) (auto split: if_splits)

text \<open>However the output of the child is cut into chunks, its next line is read, and the rest is kept.\<close>

lemma readLine_framing:
  assumes "buffer @ concat chunks = l @ newline # after" "newline \<notin> set l" "trim l \<noteq> []"
    "length (buffer @ concat chunks) \<le> MAX_LINE_BYTES"
  shows "\<exists>b cs. readLine buffer chunks = (Inr (trim l), b, cs) \<and> b @ concat cs = after"
  using assms
proof (induction chunks arbitrary: buffer)
  case Nil
  then have b: "buffer = l @ newline # after" by simp
  then have "index_of newline buffer = Some (length l)" using Nil.prems(2) by (simp add: index_of_append)
  then show ?case using Nil.prems(3) b by (subst readLine.simps) (simp add: Let_def)
next
  case (Cons c cs)
  show ?case
  proof (cases "index_of newline buffer")
    case (Some i)
    have "index_of newline (l @ newline # after) = Some i" using index_of_buffer [OF Some, of "concat (c # cs)"] Cons.prems(1) by simp
    then have i: "i = length l" using Cons.prems(2) by (simp add: index_of_append)
    have lt: "length l < length buffer" using index_of_SomeD [OF Some] i by simp
    have "take (length l) (buffer @ concat (c # cs)) = l" "drop (Suc (length l)) (buffer @ concat (c # cs)) = after"
      by (simp_all only: Cons.prems(1)) simp_all
    with lt have "take (length l) buffer = l" "drop (Suc (length l)) buffer @ concat (c # cs) = after" by simp_all
    with Some i Cons.prems(3) show ?thesis by (subst readLine.simps) (simp add: Let_def)
  next
    case None
    have "\<exists>b cs'. readLine (buffer @ c) cs = (Inr (trim l), b, cs') \<and> b @ concat cs' = after"
      by (rule Cons.IH) (use Cons.prems in auto)
    moreover have "readLine buffer (c # cs) = readLine (buffer @ c) cs"
      using Cons.prems(4) by (subst readLine.simps) (simp only: None option.case list.case, simp)
    ultimately show ?thesis by simp
  qed
qed

section \<open>Answers of a stdio upstream\<close>

lemma readResponse_matches:
  "readResponseForId parseJson expected buffer chunks = (Inr line, b, cs) \<Longrightarrow>
    \<exists>r. parseJson line = Some (JObj r) \<and> js_get r ''id'' = expected"
proof (induction parseJson expected buffer chunks arbitrary: line b cs rule: readResponseForId.induct)
  case (1 parseJson expected buffer chunks)
  obtain l b' cs' where l: "readLine buffer chunks = (Inr l, b', cs')"
    using "1.prems" unfolding readResponseForId.simps [of parseJson expected buffer chunks]
    by (cases "readLine buffer chunks"; cases "fst (readLine buffer chunks)") auto
  obtain v where v: "parseJson l = Some v"
    using "1.prems" unfolding readResponseForId.simps [of parseJson expected buffer chunks] l by (cases "parseJson l") auto
  note e = "1.prems" [unfolded readResponseForId.simps [of parseJson expected buffer chunks] l prod.case sum.case v option.case]
  show ?case
  proof (cases "Option.bind (as_record v) (\<lambda>r. js_get r ''id'')")
    case None
    with e have "readResponseForId parseJson expected b' cs' = (Inr line, b, cs)" by simp
    from "1.IH" [OF l [symmetric] refl refl v None this] show ?thesis .
  next
    case (Some i)
    then obtain r where r: "v = JObj r" "js_get r ''id'' = Some i" by (cases v) auto
    with e Some v show ?thesis by (auto split: if_splits)
  qed
qed

lemma stdioOperation_answer:
  assumes "stdioOperation parseJson serverInfo requestId rq body message fresh chunks s = (written, s', Inr (Some line))"
  shows "\<exists>m r. message = Some m \<and> parseJson line = Some (JObj r) \<and> js_get r ''id'' = pq_id m"
proof -
  obtain w o1 b cs where i: "(if fresh then initializeStdioSession parseJson serverInfo requestId rq (st_buffer s) chunks
      else ([], Inr (), st_buffer s, chunks)) = (w, o1, b, cs)" by (metis prod_cases4)
  note e = assms [unfolded stdioOperation_def i prod.case]
  obtain u where o1: "o1 = Inr u" using e by (cases o1) auto
  obtain m where m: "message = Some m" "pq_hasId m" using e o1 by (cases message) (auto split: if_splits)
  obtain b' cs' where "readResponseForId parseJson (pq_id m) b cs = (Inr line, b', cs')"
    using e o1 m by (auto split: prod.splits sum.splits)
  from readResponse_matches [OF this] m show ?thesis by blast
qed

text \<open>What a stdio upstream is given and what it answers. A child is written to only for a session of the
  very principal, and one that runs only with the credential it was started with; and a line that is
  returned as the answer is a JSON object with the identifier of the request.\<close>

lemma stdio_send_confined:
  assumes "stdioSend parseJson sha256 serverInfo requestId chunks now rq body credential who ss = (written, ss', out)"
  shows "(written \<noteq> [] \<longrightarrow> (\<exists>sid s. requiredSessionId rq = Inr sid \<and> js_get ss sid = Some s \<and> sn_principalKey s = who \<and>
      (st_child s \<longrightarrow> st_credentialDigest s = Some (credentialDigest sha256 credential)))) \<and>
    (\<forall>r line. out = Inr r \<and> re_body r = [line] \<longrightarrow>
      (\<exists>m v. parseMessage parseJson body = Some m \<and> parseJson line = Some (JObj v) \<and> js_get v ''id'' = pq_id m))"
proof -
  let ?message = "parseMessage parseJson body"
  let ?admitted = "sum_bind (requiredSessionId rq) (\<lambda>sid. sum_bind (assertIssuedSession ss sid who) (\<lambda>s.
     sum_bind (stdioAdmit sha256 ?message credential now s) (\<lambda>(s, fresh). Inr (sid, s, fresh))))"
  note e = assms [unfolded stdioSend_def Let_def]
  show ?thesis
  proof (cases ?admitted)
    case (Inl er)
    with e have "written = []" "out = Inl er" by simp_all
    then show ?thesis by simp
  next
    case (Inr x)
    obtain sid s' fresh where x: "x = (sid, s', fresh)" by (cases x) auto
    obtain s where s: "requiredSessionId rq = Inr sid" "assertIssuedSession ss sid who = Inr s"
      "stdioAdmit sha256 ?message credential now s = Inr (s', fresh)"
      using Inr x by (auto simp: sum_bind_Inr split: prod.splits)
    have own: "js_get ss sid = Some s" "sn_principalKey s = who"
      using s(2) by (auto simp: assertIssuedSession_def split: option.splits if_splits)
    have digest: "st_child s \<longrightarrow> st_credentialDigest s = Some (credentialDigest sha256 credential)"
      using s(3) by (auto simp: stdioAdmit_def split: if_splits)
    have "\<exists>m v. ?message = Some m \<and> parseJson line = Some (JObj v) \<and> js_get v ''id'' = pq_id m"
      if out: "out = Inr r" and line: "re_body r = [line]" for r line
    proof -
      obtain w s'' answer where o: "stdioOperation parseJson serverInfo requestId rq body ?message fresh chunks s' = (w, s'', Inr answer)"
        using e out unfolding Inr x by (auto split: prod.splits sum.splits)
      have "answer = Some line" using e out line unfolding Inr x by (cases answer) (auto simp: o)
      with stdioOperation_answer o show ?thesis by metis
    qed
    with s(1) own digest show ?thesis by blast
  qed
qed

definition example_reply_line :: string where "example_reply_line = ''{}''"

lemma stdio_send_confined_example:
  "\<exists>written ss' out.
     stdioSend (\<lambda>s. Some (JObj [(''id'', JStr ''1'')])) (\<lambda>s. s) (''gw'', ''1'') ''r'' [example_reply_line @ [newline]] 9
       \<lparr>iq_method = ''POST'', iq_path = ''/mcp'', iq_headers = [(''mcp-session-id'', ''s1'')], iq_body = []\<rparr>
       (JsonBody (JObj [(''id'', JStr ''1''), (''method'', JStr ''tools/call'')])) None ''alice''
       [(''s1'', (newStdioSession ''alice'' 0)\<lparr>st_child := True, st_credentialDigest := Some []\<rparr>)] = (written, ss', out) \<and>
     written \<noteq> [] \<and> out = Inr \<lparr>re_status = 200, re_headers = [(''content-type'', ''application/json''), (''mcp-session-id'', ''s1'')],
       re_body = [example_reply_line]\<rparr> \<and>
     (\<exists>m. parseMessage (\<lambda>s. Some (JObj [(''id'', JStr ''1'')])) (JsonBody (JObj [(''id'', JStr ''1''), (''method'', JStr ''tools/call'')])) = Some m \<and>
        pq_id m = Some (JStr ''1''))"
proof -
  let ?run = "stdioSend (\<lambda>s. Some (JObj [(''id'', JStr ''1'')])) (\<lambda>s. s) (''gw'', ''1'') ''r'' [example_reply_line @ [newline]] 9
       \<lparr>iq_method = ''POST'', iq_path = ''/mcp'', iq_headers = [(''mcp-session-id'', ''s1'')], iq_body = []\<rparr>
       (JsonBody (JObj [(''id'', JStr ''1''), (''method'', JStr ''tools/call'')])) None ''alice''
       [(''s1'', (newStdioSession ''alice'' 0)\<lparr>st_child := True, st_credentialDigest := Some []\<rparr>)]"
  let ?reply = "\<lparr>re_status = 200, re_headers = [(''content-type'', ''application/json''), (''mcp-session-id'', ''s1'')],
       re_body = [example_reply_line]\<rparr>"
  have line: "readLine [] [example_reply_line @ [newline]] = (Inr example_reply_line, [], [])"
    by (subst readLine.simps, simp, subst readLine.simps)
      (simp add: example_reply_line_def newline_def MAX_LINE_BYTES_def Let_def trim_def is_space_def)
  have r: "fst ?run \<noteq> []" "snd (snd ?run) = Inr ?reply"
    by (simp_all add: stdioSend_def requiredSessionId_def assertIssuedSession_def stdioAdmit_def stdioOperation_def newStdioSession_def
        credentialDigest_def parseMessage_def rpc_id_def trim_def is_space_def readResponseForId.simps line coalesce_def orelse_def)
  obtain written ss' out where e: "?run = (written, ss', out)" by (metis prod_cases3)
  with r have o: "written \<noteq> []" "out = Inr ?reply" by simp_all
  from stdio_send_confined [OF e] o e show ?thesis by auto
qed

section \<open>The catalog of an upstream\<close>

lemma captureTools_bounded:
  assumes "captureTools limit tools vs = Inr tools'" "distinct (map ct_name tools)" "length tools \<le> limit"
  shows "distinct (map ct_name tools') \<and> length tools' \<le> limit"
  using assms
proof (induction vs arbitrary: tools)
  case (Cons v vs)
  obtain c cs where n: "Option.bind (as_record v) (\<lambda>r. Option.bind (js_get r ''name'') as_string) = Some (c # cs)"
    using Cons.prems(1) by (auto split: option.splits list.splits)
  let ?t = "tools @ [\<lparr>ct_name = c # cs, ct_fields = the (as_record v)\<rparr>]"
  have f: "(c # cs) \<notin> ct_name ` set tools" "length ?t \<le> limit" "captureTools limit ?t vs = Inr tools'"
    using Cons.prems(1) n by (auto simp: Let_def split: if_splits)
  show ?case by (rule Cons.IH [OF f(3)]) (use f Cons.prems in auto)
qed simp

lemma capturePage_bounded:
  assumes "capturePage limit tools envelope = Inr (tools', cursor)" "distinct (map ct_name tools)" "length tools \<le> limit"
  shows "distinct (map ct_name tools') \<and> length tools' \<le> limit"
proof -
  obtain r vs where "captureTools limit tools vs = Inr tools'"
    using assms(1) by (auto simp: capturePage_def sum_bind_Inr split: if_splits option.splits)
  then show ?thesis using captureTools_bounded assms(2,3) by blast
qed

lemma listPages_bounded:
  assumes "listPages ask limit asked n tools cursor = Inr (pages, tools')" "distinct (map ct_name tools)" "length tools \<le> limit"
  shows "pages \<le> asked + n \<and> distinct (map ct_name tools') \<and> length tools' \<le> limit"
  using assms
proof (induction n arbitrary: asked tools cursor)
  case (Suc n)
  obtain envelope ts next_cursor where p: "capturePage limit tools envelope = Inr (ts, next_cursor)"
    and k: "(case next_cursor of None \<Rightarrow> Inr (Suc asked, ts) | Some c \<Rightarrow> listPages ask limit (Suc asked) n ts (Some c)) = Inr (pages, tools')"
    using Suc.prems(1) by (auto simp: sum_bind_Inr)
  have b: "distinct (map ct_name ts)" "length ts \<le> limit" using capturePage_bounded [OF p Suc.prems(2,3)] by auto
  show ?case
  proof (cases next_cursor)
    case (Some c)
    with k have "listPages ask limit (Suc asked) n ts (Some c) = Inr (pages, tools')" by simp
    from Suc.IH [OF this b] show ?thesis by simp
  qed (use k b in auto)
qed simp

text \<open>Whatever the upstream answers, a catalog that is listed has at most the pages and the tools allowed, with
  no name twice.\<close>

lemma catalog_bounded:
  assumes "listUpstreamCatalog parseJson ask (Some (of_nat m)) (Some (of_nat k)) = Inr (pages, tools)"
  shows "pages \<le> m \<and> length tools \<le> k \<and> distinct (map ct_name tools)"
proof -
  have "listPages (askPage parseJson ask) k 0 m [] None = Inr (pages, tools)"
    using assms by (auto simp: listUpstreamCatalog_def catalogLimit_def Let_def sum_bind_Inr split: if_splits)
  from listPages_bounded [OF this] show ?thesis by simp
qed

end
