(* ===== verification/Handler_Steps.thy ===== *)
theory Handler_Steps
  imports Json Task_Authorization
begin

text \<open>
  Request handlers as sequences of awaited calls, for the proxies of MCP servers: a step is the list of
  its effects and its outcome; a \<open>return\<close> out of the handler and a thrown error end it. The responses that the
  proxies share are here too.
\<close>

section \<open>Responses\<close>

datatype proxy_body = NullBody | JsonText json | TextBody string | StreamBody "string list"

record proxy_response =
  pr_status :: nat
  pr_headers :: "(string \<times> string) list"
  pr_body :: proxy_body

definition JSON_HEADERS :: "(string \<times> string) list" where
  "JSON_HEADERS = [(''content-type'', ''application/json'')]"

definition mcpResult :: "json \<Rightarrow> json \<Rightarrow> proxy_response" where
  "mcpResult rid result =
     \<lparr>pr_status = 200, pr_headers = JSON_HEADERS,
      pr_body = JsonText (JObj [(''jsonrpc'', JStr ''2.0''), (''id'', rid), (''result'', result)])\<rparr>"

definition mcpError :: "json \<Rightarrow> int \<Rightarrow> string \<Rightarrow> nat \<Rightarrow> proxy_response" where
  "mcpError rid code message status =
     \<lparr>pr_status = status, pr_headers = JSON_HEADERS,
      pr_body = JsonText (JObj [(''jsonrpc'', JStr ''2.0''), (''id'', rid),
        (''error'', JObj [(''code'', JNum (of_int code)), (''message'', JStr message)])])\<rparr>"

definition invalidTokenChallenge :: string where
  "invalidTokenChallenge = ''Bearer error='' @ json_string ''invalid_token''"

definition mcpUnauthorized :: "string \<Rightarrow> string \<Rightarrow> proxy_response" where
  "mcpUnauthorized message challenge =
     (let r = mcpError JNull (-32001) (''Unauthorized: '' @ message) 401 in
      r\<lparr>pr_headers := js_set ''www-authenticate'' challenge (pr_headers r)\<rparr>)"

definition text_content :: "string \<Rightarrow> json" where
  "text_content message = JArr [JObj [(''type'', JStr ''text''), (''text'', JStr message)]]"

definition errorResult :: "json \<Rightarrow> string \<Rightarrow> (string \<times> json) list \<Rightarrow> proxy_response" where
  "errorResult rid message structured =
     mcpResult rid (JObj [(''isError'', JBool True), (''content'', text_content message), (''structuredContent'', JObj structured)])"

definition taskToolDenied :: "json \<Rightarrow> proxy_response" where
  "taskToolDenied rid = errorResult rid ''Tool is not approved for this Task'' [(''error'', JStr ''task_tool_not_approved'')]"

fun jsonRpcId :: "json option \<Rightarrow> json" where
  "jsonRpcId (Some (JStr s)) = JStr s"
| "jsonRpcId (Some (JNum n)) = JNum n"
| "jsonRpcId _ = JNull"

definition record_or_empty :: "json option \<Rightarrow> (string \<times> json) list" where
  "record_or_empty v = coalesce (Option.bind v as_record) []"

section \<open>Steps\<close>

datatype proxy_exit = Returned proxy_response | Thrown

type_synonym ('e, 'a) step = "'e list \<times> (proxy_exit + 'a)"

definition pure_step :: "'a \<Rightarrow> ('e, 'a) step" where "pure_step x = ([], Inr x)"
definition perform :: "'e list \<Rightarrow> ('e, unit) step" where "perform es = (es, Inr ())"
definition return_response :: "proxy_response \<Rightarrow> ('e, 'a) step" where "return_response r = ([], Inl (Returned r))"
definition throw_error :: "('e, 'a) step" where "throw_error = ([], Inl Thrown)"

text \<open>A call and its answer: \<open>None\<close> is a rejected promise.\<close>

definition awaited :: "'e list \<Rightarrow> 'a option \<Rightarrow> ('e, 'a) step" where
  "awaited es answer = (es, case answer of None \<Rightarrow> Inl Thrown | Some x \<Rightarrow> Inr x)"

definition seq :: "('e, 'a) step \<Rightarrow> ('a \<Rightarrow> ('e, 'b) step) \<Rightarrow> ('e, 'b) step" where
  "seq m f =
     (case m of
        (es, Inl e) \<Rightarrow> (es, Inl e)
      | (es, Inr x) \<Rightarrow> (es @ fst (f x), snd (f x)))"

text \<open>\<open>try { m } catch { h }\<close>: a return inside the \<open>try\<close> is not caught.\<close>

definition catching :: "('e, 'a) step \<Rightarrow> ('e, 'a) step \<Rightarrow> ('e, 'a) step" where
  "catching m h = (case m of (es, Inl Thrown) \<Rightarrow> (es @ fst h, snd h) | _ \<Rightarrow> m)"

section \<open>Outcomes of steps\<close>

lemma snd_awaited: "snd (awaited es y) = Inr x \<longleftrightarrow> y = Some x"
  by (cases y) (simp_all add: awaited_def)

lemma snd_seq: "snd (seq m f) = Inr y \<longleftrightarrow> (\<exists>x. snd m = Inr x \<and> snd (f x) = Inr y)"
  by (cases m; cases "snd m") (simp_all add: seq_def)

lemma snd_base [simp]: "snd (pure_step x) = Inr y \<longleftrightarrow> y = x" "snd (return_response r) \<noteq> Inr z" "snd throw_error \<noteq> Inr z"
  "snd (perform es) = Inr u"
  by (auto simp: pure_step_def return_response_def throw_error_def perform_def)

lemma snd_catching: "snd (catching m h) = Inr x \<Longrightarrow> snd m = Inr x \<or> snd h = Inr x"
  by (auto simp: catching_def split: prod.splits sum.splits proxy_exit.splits)

section \<open>Effects of steps\<close>

text \<open>Rules for a property of all effects of a step, along its structure. What follows a step may use how
  that step has ended.\<close>

named_theorems step_rules

definition effects_ok :: "('e \<Rightarrow> bool) \<Rightarrow> ('e, 'a) step \<Rightarrow> bool" where
  "effects_ok Q m \<longleftrightarrow> list_all Q (fst m)"

lemma effects_ok_seq: "effects_ok Q m \<Longrightarrow> (\<And>x. snd m = Inr x \<Longrightarrow> effects_ok Q (f x)) \<Longrightarrow> effects_ok Q (seq m f)"
  by (cases m; cases "snd m") (auto simp: effects_ok_def seq_def)

lemma effects_ok_catching: "effects_ok Q m \<Longrightarrow> effects_ok Q h \<Longrightarrow> effects_ok Q (catching m h)"
  by (auto simp: effects_ok_def catching_def split: prod.splits sum.splits proxy_exit.splits)

lemma effects_ok_awaited: "list_all Q es \<Longrightarrow> effects_ok Q (awaited es y)"
  by (simp add: effects_ok_def awaited_def)

lemma effects_ok_perform: "list_all Q es \<Longrightarrow> effects_ok Q (perform es)"
  by (simp add: effects_ok_def perform_def)

lemma effects_ok_base [step_rules]: "effects_ok Q (pure_step x)" "effects_ok Q (return_response r)" "effects_ok Q throw_error"
  by (simp_all add: effects_ok_def pure_step_def return_response_def throw_error_def)

lemma effects_ok_mono: "effects_ok P m \<Longrightarrow> (\<And>e. P e \<Longrightarrow> Q e) \<Longrightarrow> effects_ok Q m"
  by (auto simp: effects_ok_def list_all_iff)

lemma effects_okD: "effects_ok Q m \<Longrightarrow> e \<in> set (fst m) \<Longrightarrow> Q e"
  by (simp add: effects_ok_def list_all_iff)

end
