(* ===== verification/Generic_Proxy.thy ===== *)
theory Generic_Proxy
  imports Generic_Transport Hop1 Handler_Steps
begin

text \<open>
  The request handler of the generic wrapper (\<open>servers/generic-wrapper/src/proxy.ts\<close>). The handler is one
  sequence of awaited calls: what it asks of the transport, the policy, the credential store, the OAuth
  provider and the audit sink is a list of effects, and what they answer is an argument, the \<open>world\<close>. Sends
  and recoveries are numbered in their order, so that each has its own answer. A step that ends the handler, with a
  response or an exception, is the left summand of its outcome.
\<close>

section \<open>Options, effects and answers\<close>

record CredentialRequest =
  cr_identity :: Hop1Identity
  cr_hop1Token :: string
  cr_scopes :: "string list"

datatype validation = Valid | Invalid | Unavailable

record GenericProxyOptions =
  gp_descriptor :: GenericWrapperDescriptor
  gp_catalog :: GenericToolSource
  gp_authenticate :: "string \<Rightarrow> Hop1ValidationError + Hop1Identity"
  gp_policy :: "ToolPolicy option"
  gp_audit :: bool
  gp_oauth :: "string option"
  gp_requireCredential :: bool
  gp_canRecover :: bool
  gp_canValidate :: bool
  gp_executeJiraRestTool :: bool
  gp_allowLegacyUnscopedTaskTokens :: bool
  gp_parseJson :: "string \<Rightarrow> json option"
  gp_stringify :: "json \<Rightarrow> string"
  gp_digestArgs :: "(string \<times> json) list \<Rightarrow> string"

datatype proxy_effect =
  ReportedFailure Hop1FailureClassification
| AssertedSession string string
| IssuedSession string string
| ClosedSession "GenericUpstreamCredential option" string
| Decided ToolPolicyInput
| ResolvedCredential CredentialRequest
| RecoveredCredential CredentialRequest string
| ValidatedCredential CredentialRequest string
| Sent upstream_body "GenericUpstreamCredential option" string
| Executed json GenericGovernedTool "(string \<times> json) list" GenericUpstreamCredential
| ListedCatalog GenericUpstreamCredential string
| OAuthStatus Hop1Identity
| OAuthStart Hop1Identity "string option"
| Audited AuditEvent

text \<open>The answers: \<open>None\<close> where a promise is rejected. The sessions are those of the transport when the request
  checks its session, and \<open>pw_sessionId\<close> is the random identifier of a session that is issued.\<close>

record 'x proxy_world =
  pw_now :: time_ms
  pw_ts :: string
  pw_latencyMs :: int
  pw_sessions :: "'x sessions"
  pw_limits :: session_limits
  pw_newSession :: "string \<Rightarrow> time_ms \<Rightarrow> 'x session_scheme"
  pw_sessionId :: string
  pw_resolve :: "CredentialRequest \<Rightarrow> GenericUpstreamCredential option option"
  pw_recover :: "nat \<Rightarrow> CredentialRequest \<Rightarrow> string \<Rightarrow> GenericUpstreamCredential option option"
  pw_validate :: "CredentialRequest \<Rightarrow> string \<Rightarrow> validation option"
  pw_send :: "nat \<Rightarrow> upstream_body \<Rightarrow> GenericUpstreamCredential option \<Rightarrow> string \<Rightarrow> upstream_reply option"
  pw_execute :: "nat \<Rightarrow> json \<Rightarrow> GenericGovernedTool \<Rightarrow> (string \<times> json) list \<Rightarrow> GenericUpstreamCredential \<Rightarrow> upstream_reply option"
  pw_ask :: "GenericUpstreamCredential \<Rightarrow> nat \<Rightarrow> string option \<Rightarrow> upstream_reply option"
  pw_close :: "GenericUpstreamCredential option \<Rightarrow> string \<Rightarrow> upstream_reply option option"
  pw_oauthStatus :: "Hop1Identity \<Rightarrow> (string \<times> json) list option"
  pw_oauthStart :: "Hop1Identity \<Rightarrow> string option \<Rightarrow> string option"

type_synonym 'a proxy_step = "(proxy_effect, 'a) step"

section \<open>Responses\<close>

definition MAX_UPSTREAM_RESPONSE_BYTES :: nat where "MAX_UPSTREAM_RESPONSE_BYTES = 4194304"

definition forwardedResponseHeaders :: "upstream_reply \<Rightarrow> (string \<times> string) list" where
  "forwardedResponseHeaders r =
     foldl (\<lambda>hs name. set_header name (header_of (re_headers r) name) hs) [] [''content-type'', ''mcp-session-id'']"

definition safeStreamingResponse :: "upstream_reply \<Rightarrow> proxy_response" where
  "safeStreamingResponse r =
     \<lparr>pr_status = re_status r, pr_headers = forwardedResponseHeaders r, pr_body = StreamBody (re_body r)\<rparr>"

definition liveCatalogUnavailable :: "json \<Rightarrow> json list \<Rightarrow> string \<Rightarrow> (string \<times> json) list \<Rightarrow> proxy_response" where
  "liveCatalogUnavailable rid tools message details =
     mcpResult rid (JObj [(''tools'', JArr tools), (''_meta'', JObj [(''mcp-gw/catalog'',
       JObj ([(''status'', JStr ''unavailable''), (''error'', JStr message)] @ details))])])"

section \<open>Messages\<close>

record ParsedMessage =
  pm_id :: json
  pm_method :: string
  pm_toolName :: "string option"
  pm_protocolVersion :: "string option"
  pm_arguments :: "(string \<times> json) list"

definition parseJsonRpcMessage :: "(string \<Rightarrow> json option) \<Rightarrow> string \<Rightarrow> ParsedMessage option" where
  "parseJsonRpcMessage parseJson body =
     (case Option.bind (parseJson body) as_record of
        None \<Rightarrow> None
      | Some value \<Rightarrow>
          (if js_get value ''jsonrpc'' \<noteq> Some (JStr ''2.0'') then None
           else case Option.bind (js_get value ''method'') as_string of
               None \<Rightarrow> None
             | Some method \<Rightarrow>
                 (let params = record_or_empty (js_get value ''params'') in
                  Some \<lparr>pm_id = jsonRpcId (js_get value ''id''), pm_method = method,
                        pm_toolName = Option.bind (js_get params ''name'') as_string,
                        pm_protocolVersion = Option.bind (js_get params ''protocolVersion'') as_string,
                        pm_arguments = record_or_empty (js_get params ''arguments'')\<rparr>)))"

text \<open>The text that is sent, as the value whose \<open>JSON.stringify\<close> it is.\<close>

definition rewriteToolCall :: "(string \<Rightarrow> json option) \<Rightarrow> string \<Rightarrow> string \<Rightarrow> (string \<times> json) list \<Rightarrow> json" where
  "rewriteToolCall parseJson body upstreamName args =
     (let value = record_or_empty (parseJson body); params = record_or_empty (js_get value ''params'') in
      JObj (js_set ''params'' (JObj (js_set ''arguments'' (JObj args) (js_set ''name'' (JStr upstreamName) params))) value))"

definition isJiraProvider :: "GenericWrapperDescriptor \<Rightarrow> bool" where
  "isJiraProvider d = (case gd_credential d of PerUserOAuth c \<Rightarrow> go_providerId c = ''jira'' | _ \<Rightarrow> False)"

definition effectiveToolArguments ::
  "GenericWrapperDescriptor \<Rightarrow> (string \<times> json) list \<Rightarrow> bool \<Rightarrow> (string \<times> json) list" where
  "effectiveToolArguments d args jiraRest =
     (case gd_credential d of
        PerUserOAuth c \<Rightarrow>
          (case go_identity c of
             AtlassianJiraAssertedEmail siteUrl \<Rightarrow>
               (if go_providerId c = ''jira'' \<and> \<not> jiraRest then js_set ''cloudId'' (JStr siteUrl) args else args)
           | _ \<Rightarrow> args)
      | _ \<Rightarrow> args)"

definition genericBearerToken :: "incoming_request \<Rightarrow> string option" where
  "genericBearerToken rq =
     (case map_option (split_on CHR '' '') (header_of (iq_headers rq) ''authorization'') of
        Some (scheme # token # rest) \<Rightarrow>
          (if scheme = ''Bearer'' \<and> token \<noteq> [] \<and> (rest = [] \<or> hd rest = []) then Some token else None)
      | _ \<Rightarrow> None)"

definition genericPrincipalKey :: "Hop1Identity \<Rightarrow> string" where
  "genericPrincipalKey identity = hi_issuer identity @ newline # hi_subject identity"

section \<open>Tools\<close>

definition toolsByName :: "GenericToolSource \<Rightarrow> (string, GenericGovernedTool) jsmap" where
  "toolsByName catalog = foldl (\<lambda>m t. js_set (gt_exposedName t) t m) [] (sourceTools catalog)"

definition genericTaskToolGrant :: "GenericWrapperDescriptor \<Rightarrow> GenericGovernedTool \<Rightarrow> TaskToolGrant" where
  "genericTaskToolGrant d tool =
     \<lparr>tg_provider = (case gd_credential d of PerUserOAuth c \<Rightarrow> go_providerId c | _ \<Rightarrow> gd_name d),
      tg_resource = gt_exposedName tool, tg_action = tk_actionClass (gt_grants tool)\<rparr>"

datatype oauth_tool = StatusTool | StartTool

fun oauthToolName :: "oauth_tool \<Rightarrow> string" where
  "oauthToolName StatusTool = ''status''"
| "oauthToolName StartTool = ''start''"

definition lifecycleToolName :: "GenericWrapperDescriptor \<Rightarrow> oauth_tool \<Rightarrow> string" where
  "lifecycleToolName d kind =
     gd_toolPrefix d @ ''_'' @
     (case kind of StartTool \<Rightarrow> ln_start (gd_lifecycleToolNames d) | StatusTool \<Rightarrow> ln_status (gd_lifecycleToolNames d))"

definition oauthToolKind :: "GenericProxyOptions \<Rightarrow> string option \<Rightarrow> oauth_tool option" where
  "oauthToolKind opts name =
     (if gp_oauth opts = None \<or> \<not> gd_lifecycleRoutes (gp_descriptor opts) then None
      else if name = Some (lifecycleToolName (gp_descriptor opts) StatusTool) then Some StatusTool
      else if name = Some (lifecycleToolName (gp_descriptor opts) StartTool) then Some StartTool
      else None)"

definition oauthToolDefinition :: "string \<Rightarrow> string \<Rightarrow> (string \<times> json) list \<Rightarrow> bool \<Rightarrow> json" where
  "oauthToolDefinition name description props readOnly =
     JObj [(''name'', JStr name), (''description'', JStr description),
       (''inputSchema'', JObj [(''type'', JStr ''object''), (''properties'', JObj props), (''required'', JArr []),
          (''additionalProperties'', JBool False)]),
       (''annotations'', JObj [(''readOnlyHint'', JBool readOnly)])]"

definition oauthToolDefinitions :: "GenericProxyOptions \<Rightarrow> json list" where
  "oauthToolDefinitions opts =
     (case gp_oauth opts of
        None \<Rightarrow> []
      | Some providerId \<Rightarrow>
          (if \<not> gd_lifecycleRoutes (gp_descriptor opts) then []
           else
             [oauthToolDefinition (lifecycleToolName (gp_descriptor opts) StatusTool)
                (''Check the '' @ providerId @ '' connection for the current user.'') [] True,
              oauthToolDefinition (lifecycleToolName (gp_descriptor opts) StartTool)
                (''Start '' @ providerId @ '' authorization for the current user.'')
                [(''redirectAfter'', JObj [(''type'', JStr ''string'')])] False]))"

definition publicToolDefinition :: "GenericCatalogTool \<Rightarrow> json" where
  "publicToolDefinition t =
     JObj [(''name'', JStr (gt_exposedName t)), (''description'', JStr (gt_description t)),
       (''inputSchema'', JObj (gt_inputSchema t)),
       (''annotations'', JObj ((''readOnlyHint'', JBool (gt_readOnlyHint t)) #
          (case gt_destructiveHint t of None \<Rightarrow> [] | Some b \<Rightarrow> [(''destructiveHint'', JBool b)])))]"

definition publicLiveInputSchema :: "GenericWrapperDescriptor \<Rightarrow> (string \<times> json) list \<Rightarrow> (string \<times> json) list" where
  "publicLiveInputSchema d schema =
     (if \<not> isJiraProvider d then schema
      else
        (let schema = (case Option.bind (js_get schema ''properties'') as_record of
                         None \<Rightarrow> schema
                       | Some ps \<Rightarrow> js_set ''properties'' (JObj (js_del ''cloudId'' ps)) schema) in
         case Option.bind (js_get schema ''required'') as_array of
           None \<Rightarrow> schema
         | Some names \<Rightarrow>
             (let required = filter (\<lambda>n. n \<noteq> JStr ''cloudId'') names in
              if required \<noteq> [] then js_set ''required'' (JArr required) schema else js_del ''required'' schema)))"

text \<open>\<open>None\<close> where it throws.\<close>

definition publicLiveToolDefinition ::
  "GenericWrapperDescriptor \<Rightarrow> GenericGovernedTool \<Rightarrow> captured_tool \<Rightarrow> json option" where
  "publicLiveToolDefinition d decision upstream =
     (case (Option.bind (js_get (ct_fields upstream) ''description'') as_string,
            Option.bind (js_get (ct_fields upstream) ''inputSchema'') as_record) of
        (Some (c # cs), Some schema) \<Rightarrow>
          Some (JObj [(''name'', JStr (gt_exposedName decision)), (''description'', JStr (c # cs)),
            (''inputSchema'', JObj (publicLiveInputSchema d schema)),
            (''annotations'', JObj ((''readOnlyHint'', JBool (tk_actionClass (gt_grants decision) = ''read'')) #
               (if tk_actionClass (gt_grants decision) = ''destructive'' then [(''destructiveHint'', JBool True)] else [])))])
      | _ \<Rightarrow> None)"

section \<open>Failures of a provider\<close>

datatype opaque_failure = Transient | AccessVerification

fun opaqueItem :: "json list \<Rightarrow> opaque_failure option" where
  "opaqueItem [] = None"
| "opaqueItem (item # items) =
     (case as_record item of
        None \<Rightarrow> opaqueItem items
      | Some r \<Rightarrow>
          (case (js_get r ''type'', Option.bind (js_get r ''text'') as_string) of
             (Some (JStr type), Some t) \<Rightarrow>
               (let normalized = to_lower_case (dropWhile is_space t) in
                if type \<noteq> ''text'' then opaqueItem items
                else if prefix ''we are having trouble completing this action'' normalized then Some Transient
                else if prefix (''we couldn'' @ CHR 0x27 # ''t verify your access'') normalized then Some AccessVerification
                else opaqueItem items)
           | _ \<Rightarrow> opaqueItem items))"

definition atlassianOpaqueFailure :: "(string \<Rightarrow> json option) \<Rightarrow> string \<Rightarrow> opaque_failure option" where
  "atlassianOpaqueFailure parseJson body =
     (case Option.bind (Option.bind (parseJson body) as_record) (\<lambda>e. Option.bind (js_get e ''result'') as_record) of
        None \<Rightarrow> None
      | Some result \<Rightarrow>
          (if js_get result ''isError'' \<noteq> Some (JBool True) then None
           else case Option.bind (js_get result ''content'') as_array of
               None \<Rightarrow> None
             | Some items \<Rightarrow> opaqueItem items))"

text \<open>The error, its message and the \<open>retry-after\<close> of a failed reply.\<close>

definition jiraHttpFailure :: "upstream_reply \<Rightarrow> (string \<times> string \<times> string option) option" where
  "jiraHttpFailure r =
     (if re_status r = 401 then Some (''provider_oauth_required'', ''Provider authorization is required'', None)
      else if re_status r = 403 then Some (''provider_permission_denied'', ''Provider permission was denied'', None)
      else if re_status r = 429
      then Some (''provider_rate_limited'', ''Provider rate limit exceeded'',
             (case map_option trim (js_get (re_headers r) ''retry-after'') of Some (c # cs) \<Rightarrow> Some (c # cs) | _ \<Rightarrow> None))
      else if re_status r \<ge> 500 then Some (''provider_unavailable'', ''Provider is temporarily unavailable'', None)
      else None)"

definition optional_field :: "string \<Rightarrow> string option \<Rightarrow> (string \<times> json) list" where
  "optional_field name v = (case v of None \<Rightarrow> [] | Some s \<Rightarrow> [(name, JStr s)])"

definition providerFailure ::
  "GenericProxyOptions \<Rightarrow> json \<Rightarrow> string \<Rightarrow> string \<Rightarrow> string option \<Rightarrow> proxy_response" where
  "providerFailure opts rid error message retryAfter =
     errorResult rid message
       ([(''error'', JStr error)] @
        optional_field ''provider''
          (orelse (gp_oauth opts) (case gd_credential (gp_descriptor opts) of PerUserOAuth c \<Rightarrow> Some (go_providerId c) | _ \<Rightarrow> None)) @
        (if error = ''provider_oauth_required''
         then [(''connectionHelper'', JStr (lifecycleToolName (gp_descriptor opts) StartTool))] else []) @
        optional_field ''retryAfter'' retryAfter)"

definition opaqueFailureAnswer :: "validation \<Rightarrow> opaque_failure \<Rightarrow> string \<times> string" where
  "opaqueFailureAnswer v failure =
     (if v = Invalid then (''provider_oauth_required'', ''Provider authorization is required'')
      else if v = Valid \<and> failure = AccessVerification then (''provider_permission_denied'', ''Provider permission was denied'')
      else (''provider_unavailable'', ''Provider is temporarily unavailable''))"

section \<open>The session and the audit\<close>

definition emitSafely :: "GenericProxyOptions \<Rightarrow> AuditEvent \<Rightarrow> unit proxy_step" where
  "emitSafely opts event = perform (if gp_audit opts then [Audited event] else [])"

definition toolAudit ::
  "GenericProxyOptions \<Rightarrow> 'x proxy_world \<Rightarrow> Hop1Identity \<Rightarrow> string \<Rightarrow> string option \<Rightarrow> string option \<Rightarrow>
   (string \<times> json) list \<Rightarrow> int option \<Rightarrow> string option \<Rightarrow> unit proxy_step" where
  "toolAudit opts w identity status event tool args resultSize error =
     emitSafely opts
       \<lparr>ae_ts = pw_ts w, ae_category = ''tool_call'', ae_principal = hi_email identity, ae_status = status, ae_event = event,
        ae_tool = tool, ae_argDigest = Some (gp_digestArgs opts args), ae_latencyMs = Some (pw_latencyMs w),
        ae_resultSize = resultSize, ae_error = error\<rparr>"

definition validateRequestSession :: "'x proxy_world \<Rightarrow> incoming_request \<Rightarrow> Hop1Identity \<Rightarrow> unit proxy_step" where
  "validateRequestSession w rq identity =
     (case map_option trim (js_get (iq_headers rq) ''mcp-session-id'') of
        Some (c # cs) \<Rightarrow>
          seq (perform [AssertedSession (c # cs) (genericPrincipalKey identity)]) (\<lambda>_.
            case fst (assertSession (pw_now w) (c # cs) (genericPrincipalKey identity) (pw_sessions w)) of
              Inl _ \<Rightarrow> return_response (mcpError JNull (-32000) ''MCP session expired; re-initialize'' 200)
            | Inr _ \<Rightarrow> pure_step ())
      | _ \<Rightarrow> return_response (mcpError JNull (-32000) ''MCP session ID is required'' 200))"

definition resolveCredential ::
  "'x proxy_world \<Rightarrow> CredentialRequest \<Rightarrow> GenericUpstreamCredential option proxy_step" where
  "resolveCredential w cr = awaited [ResolvedCredential cr] (pw_resolve w cr)"

section \<open>Streams and the end of a session\<close>

definition handleDelete ::
  "'x proxy_world \<Rightarrow> incoming_request \<Rightarrow> Hop1Identity \<Rightarrow> string \<Rightarrow> proxy_response proxy_step" where
  "handleDelete w rq identity token =
     seq (validateRequestSession w rq identity) (\<lambda>_.
     seq (catching (resolveCredential w \<lparr>cr_identity = identity, cr_hop1Token = token, cr_scopes = []\<rparr>) (pure_step None)) (\<lambda>credential.
       catching
         (seq (awaited [ClosedSession credential (genericPrincipalKey identity)] (pw_close w credential (genericPrincipalKey identity))) (\<lambda>closed.
            pure_step (case closed of
                      Some r \<Rightarrow> safeStreamingResponse r
                    | None \<Rightarrow> \<lparr>pr_status = 204, pr_headers = [], pr_body = NullBody\<rparr>)))
         (pure_step (mcpError JNull (-32000) ''MCP upstream session cleanup failed'' 200))))"

definition handleGet ::
  "GenericProxyOptions \<Rightarrow> 'x proxy_world \<Rightarrow> incoming_request \<Rightarrow> Hop1Identity \<Rightarrow> string \<Rightarrow> proxy_response proxy_step" where
  "handleGet opts w rq identity token =
     (case gd_upstream (gp_descriptor opts) of
        StdioUpstream _ _ _ _ _ \<Rightarrow> pure_step (mcpError JNull (-32600) ''Streaming GET is unavailable for a stdio upstream'' 405)
      | HttpUpstream _ _ \<Rightarrow>
          seq (validateRequestSession w rq identity) (\<lambda>_.
          catching
            (seq (resolveCredential w \<lparr>cr_identity = identity, cr_hop1Token = token, cr_scopes = []\<rparr>) (\<lambda>credential.
               if credential = None \<and> gp_requireCredential opts
               then pure_step (mcpUnauthorized ''provider authorization is required'' invalidTokenChallenge)
               else
                 seq (awaited [Sent (RawBody []) credential (genericPrincipalKey identity)]
                        (pw_send w 0 (RawBody []) credential (genericPrincipalKey identity))) (\<lambda>r.
                   pure_step (safeStreamingResponse r))))
            (pure_step (mcpError JNull (-32000) ''MCP upstream request failed'' 200))))"

section \<open>Lists of tools\<close>

definition helpersFor :: "GenericProxyOptions \<Rightarrow> TaskToolAuthorization \<Rightarrow> json list" where
  "helpersFor opts task = (if ta_allowsConnectionHelpers task then oauthToolDefinitions opts else [])"

definition connectionHelper :: "GenericProxyOptions \<Rightarrow> (string \<times> json) list" where
  "connectionHelper opts = [(''connectionHelper'', JStr (lifecycleToolName (gp_descriptor opts) StartTool))]"

text \<open>\<open>resolved\<close> is the credential that was resolved before, if it was: \<open>None\<close> is \<open>undefined\<close>.\<close>

definition liveToolsList ::
  "GenericProxyOptions \<Rightarrow> 'x proxy_world \<Rightarrow> json \<Rightarrow> Hop1Identity \<Rightarrow> string \<Rightarrow> TaskToolAuthorization \<Rightarrow>
   GenericUpstreamCredential option option \<Rightarrow> proxy_response proxy_step" where
  "liveToolsList opts w rid identity token task resolved =
     (let d = gp_descriptor opts; helpers = helpersFor opts task;
          approved = filter (\<lambda>t. ta_allows task (genericTaskToolGrant d t)) (sourceTools (gp_catalog opts));
          unavailable = pure_step (liveCatalogUnavailable rid helpers ''Upstream tool discovery is unavailable'' []) in
      if approved = [] then pure_step (mcpResult rid (JObj [(''tools'', JArr helpers)]))
      else
        catching
          (seq (case resolved of
                  Some c \<Rightarrow> pure_step c
                | None \<Rightarrow> resolveCredential w \<lparr>cr_identity = identity, cr_hop1Token = token, cr_scopes = []\<rparr>) (\<lambda>credential.
             case credential of
               None \<Rightarrow> pure_step (liveCatalogUnavailable rid helpers ''Provider authorization is required'' (connectionHelper opts))
             | Some c \<Rightarrow>
                 seq (awaited [ListedCatalog c (genericPrincipalKey identity)]
                        (case listUpstreamCatalog (gp_parseJson opts) (pw_ask w c) None None of Inl _ \<Rightarrow> None | Inr (_, tools) \<Rightarrow> Some tools)) (\<lambda>tools.
                   let decisions = foldl (\<lambda>m t. js_set (gt_upstreamName t) t m) [] approved in
                   case sequence_opt
                          (concat (map (\<lambda>t. case js_get decisions (ct_name t) of
                                              None \<Rightarrow> []
                                            | Some decision \<Rightarrow> [publicLiveToolDefinition d decision t]) tools)) of
                     None \<Rightarrow> throw_error
                   | Some definitions \<Rightarrow> pure_step (mcpResult rid (JObj [(''tools'', JArr (helpers @ definitions))])))))
          unavailable)"

fun catalogDefinitions :: "GenericWrapperDescriptor \<Rightarrow> TaskToolAuthorization \<Rightarrow> GenericToolSource \<Rightarrow> json list" where
  "catalogDefinitions d task (StaticCatalog _ tools) =
     map publicToolDefinition (filter (\<lambda>t. ta_allows task (genericTaskToolGrant d (governed t))) tools)"
| "catalogDefinitions d task (LiveCatalog _ _ _) = []"

text \<open>With \<open>hideToolsUntilConnected\<close> only a resolved credential reveals the catalog.\<close>

definition revealCredential ::
  "GenericProxyOptions \<Rightarrow> 'x proxy_world \<Rightarrow> Hop1Identity \<Rightarrow> string \<Rightarrow> TaskToolAuthorization \<Rightarrow> ParsedMessage \<Rightarrow>
   GenericUpstreamCredential option option proxy_step" where
  "revealCredential opts w identity token task message =
     (if gd_hideToolsUntilConnected (gp_descriptor opts)
      then
        seq (catching
               (resolveCredential w \<lparr>cr_identity = identity, cr_hop1Token = token, cr_scopes = []\<rparr>)
               (seq (emitSafely opts
                      \<lparr>ae_ts = pw_ts w, ae_category = ''tool_call'', ae_principal = hi_email identity, ae_status = ''error'',
                       ae_event = Some ''tools_list_credential_unavailable'', ae_tool = None, ae_argDigest = None,
                       ae_latencyMs = None, ae_resultSize = None, ae_error = Some ''credential_resolution_failed''\<rparr>) (\<lambda>_.
                 return_response (liveCatalogUnavailable (pm_id message) (helpersFor opts task)
                   ''Upstream tool discovery is unavailable'' []))))
          (\<lambda>credential.
             case credential of
               None \<Rightarrow> return_response (liveCatalogUnavailable (pm_id message) (helpersFor opts task)
                         ''Provider authorization is required'' (connectionHelper opts))
             | Some c \<Rightarrow> pure_step (Some (Some c)))
      else pure_step None)"

definition handleToolsList ::
  "GenericProxyOptions \<Rightarrow> 'x proxy_world \<Rightarrow> incoming_request \<Rightarrow> Hop1Identity \<Rightarrow> string \<Rightarrow> TaskToolAuthorization \<Rightarrow>
   ParsedMessage \<Rightarrow> proxy_response proxy_step" where
  "handleToolsList opts w rq identity token task message =
     (let d = gp_descriptor opts; live = isLiveToolCatalog (gp_catalog opts) in
      seq (if gd_hideToolsUntilConnected d \<or> live then validateRequestSession w rq identity else pure_step ()) (\<lambda>_.
      seq (revealCredential opts w identity token task message) (\<lambda>resolved.
        if live then liveToolsList opts w (pm_id message) identity token task resolved
        else pure_step (mcpResult (pm_id message)
               (JObj [(''tools'', JArr (helpersFor opts task @ catalogDefinitions d task (gp_catalog opts)))])))))"

section \<open>Calls of tools\<close>

definition policyDenied :: "json \<Rightarrow> PolicyDecision \<Rightarrow> proxy_response" where
  "policyDenied rid decision =
     errorResult rid ''Tool call denied by policy''
       ([(''error'', JStr ''policy_denied'')] @
        optional_field ''ruleId'' (case decision of
            Deny _ rule \<Rightarrow> (if truthy rule then rule else None)
          | ApprovalRequired _ rule \<Rightarrow> (if truthy rule then rule else None)
          | Allow \<Rightarrow> None))"

fun decisionKind :: "PolicyDecision \<Rightarrow> string" where
  "decisionKind Allow = ''allow''"
| "decisionKind (Deny _ _) = ''deny''"
| "decisionKind (ApprovalRequired _ _) = ''approval_required''"

text \<open>A decision that is not to allow is audited and ends the request.\<close>

definition decidePolicy ::
  "GenericProxyOptions \<Rightarrow> 'x proxy_world \<Rightarrow> Hop1Identity \<Rightarrow> json \<Rightarrow> ToolPolicyInput \<Rightarrow> (string \<times> json) list \<Rightarrow> unit proxy_step" where
  "decidePolicy opts w identity rid input args =
     seq (awaited [Decided input] (tp_decide (coalesce (gp_policy opts) AllowAllPolicy) input)) (\<lambda>decision.
       if decision = Allow then pure_step ()
       else
         seq (toolAudit opts w identity ''deny'' (Some ''policy_denied'') (Some (ti_tool input)) args None (Some (decisionKind decision))) (\<lambda>_.
           return_response (policyDenied rid decision)))"

definition oauthPolicyInput :: "GenericProxyOptions \<Rightarrow> Hop1Identity \<Rightarrow> ParsedMessage \<Rightarrow> oauth_tool \<Rightarrow> ToolPolicyInput" where
  "oauthPolicyInput opts identity message kind =
     \<lparr>ti_principal = hi_email identity, ti_tokenClaims = JObj (normalizedHop1Claims identity),
      ti_tool = coalesce (pm_toolName message) [],
      ti_operation = Some (gd_name (gp_descriptor opts) @ ''.oauth.'' @ oauthToolName kind),
      ti_service = gd_name (gp_descriptor opts), ti_actionClass = ''read'', ti_scopes = [], ti_scopeRequirement = None,
      ti_outboundEmail = None, ti_args = JObj (pm_arguments message)\<rparr>"

definition oauthCall ::
  "GenericProxyOptions \<Rightarrow> 'x proxy_world \<Rightarrow> Hop1Identity \<Rightarrow> ParsedMessage \<Rightarrow> oauth_tool \<Rightarrow> proxy_response proxy_step" where
  "oauthCall opts w identity message kind =
     (let args = pm_arguments message;
          redirect = Option.bind (js_get args ''redirectAfter'') as_string in
      seq (decidePolicy opts w identity (pm_id message) (oauthPolicyInput opts identity message kind) args) (\<lambda>_.
        catching
          (seq (case kind of
                  StatusTool \<Rightarrow> awaited [OAuthStatus identity] (map_option JObj (pw_oauthStatus w identity))
                | StartTool \<Rightarrow> awaited [OAuthStart identity redirect]
                    (map_option (\<lambda>u. JObj [(''authorizationUrl'', JStr u)]) (pw_oauthStart w identity redirect))) (\<lambda>value.
           seq (toolAudit opts w identity ''allow'' None (pm_toolName message) args None None) (\<lambda>_.
             pure_step (mcpResult (pm_id message)
               (JObj [(''content'', text_content (gp_stringify opts value)), (''structuredContent'', value)])))))
          (seq (toolAudit opts w identity ''error'' None (pm_toolName message) args None (Some ''oauth_operation_failed'')) (\<lambda>_.
             pure_step (errorResult (pm_id message) ''Provider authorization operation failed''
               [(''error'', JStr ''provider_oauth_failure'')])))))"

definition toolPolicyInput ::
  "GenericProxyOptions \<Rightarrow> Hop1Identity \<Rightarrow> GenericGovernedTool \<Rightarrow> (string \<times> json) list \<Rightarrow> ToolPolicyInput" where
  "toolPolicyInput opts identity tool args =
     \<lparr>ti_principal = hi_email identity, ti_tokenClaims = JObj (normalizedHop1Claims identity), ti_tool = gt_exposedName tool,
      ti_operation = tk_operation (gt_grants tool), ti_service = gd_name (gp_descriptor opts),
      ti_actionClass = tk_actionClass (gt_grants tool), ti_scopes = tk_scopes (gt_grants tool), ti_scopeRequirement = None,
      ti_outboundEmail = None, ti_args = JObj args\<rparr>"

text \<open>\<open>send\<close> and the bounded reading of its reply, for the n-th time.\<close>

definition exchange ::
  "GenericProxyOptions \<Rightarrow> 'x proxy_world \<Rightarrow> Hop1Identity \<Rightarrow> incoming_request \<Rightarrow> ParsedMessage \<Rightarrow> GenericGovernedTool \<Rightarrow>
   (string \<times> json) list \<Rightarrow> nat \<Rightarrow> GenericUpstreamCredential option \<Rightarrow> (upstream_reply \<times> string) proxy_step" where
  "exchange opts w identity rq message tool args n credential =
     (let body = JsonBody (rewriteToolCall (gp_parseJson opts) (iq_body rq) (gt_upstreamName tool) args) in
      seq (if gp_executeJiraRestTool opts
           then (case credential of
                   None \<Rightarrow> throw_error
                 | Some c \<Rightarrow> awaited [Executed (pm_id message) tool args c] (pw_execute w n (pm_id message) tool args c))
           else awaited [Sent body credential (genericPrincipalKey identity)] (pw_send w n body credential (genericPrincipalKey identity))) (\<lambda>r.
      seq (awaited [] (readBoundedText r MAX_UPSTREAM_RESPONSE_BYTES)) (\<lambda>t.
        pure_step (r, t))))"

definition rawCredential :: "GenericUpstreamCredential option \<Rightarrow> string option" where
  "rawCredential c = (let v = Option.bind c uc_rawValue in if truthy v then v else None)"

text \<open>A replaced credential: a read is sent again, anything else has to be asked for again.\<close>

definition replaySend ::
  "GenericProxyOptions \<Rightarrow> 'x proxy_world \<Rightarrow> Hop1Identity \<Rightarrow> incoming_request \<Rightarrow> ParsedMessage \<Rightarrow> GenericGovernedTool \<Rightarrow>
   (string \<times> json) list \<Rightarrow> nat \<Rightarrow> GenericUpstreamCredential \<Rightarrow> (upstream_reply \<times> string) proxy_step" where
  "replaySend opts w identity rq message tool args n replacement =
     (if tk_actionClass (gt_grants tool) \<noteq> ''read''
      then
        seq (toolAudit opts w identity ''error'' (Some ''provider_failure'') (Some (gt_exposedName tool)) args None
               (Some ''provider_retry_required'')) (\<lambda>_.
          return_response (providerFailure opts (pm_id message) ''provider_retry_required''
            ''Provider credential was renewed; retry the request'' None))
      else exchange opts w identity rq message tool args n (Some replacement))"

definition providerError ::
  "GenericProxyOptions \<Rightarrow> 'x proxy_world \<Rightarrow> Hop1Identity \<Rightarrow> ParsedMessage \<Rightarrow> GenericGovernedTool \<Rightarrow> (string \<times> json) list \<Rightarrow>
   string \<Rightarrow> string \<Rightarrow> string option \<Rightarrow> 'a proxy_step" where
  "providerError opts w identity message tool args error explanation retryAfter =
     seq (toolAudit opts w identity ''error'' (Some ''provider_failure'') (Some (gt_exposedName tool)) args None (Some error)) (\<lambda>_.
       let r = providerFailure opts (pm_id message) error explanation retryAfter in
       return_response (case retryAfter of None \<Rightarrow> r | Some s \<Rightarrow> r\<lparr>pr_headers := js_set ''retry-after'' s (pr_headers r)\<rparr>))"

text \<open>An attempt is the number of sends so far, the credential in use, the reply and its text.\<close>

type_synonym attempt = "nat \<times> GenericUpstreamCredential option \<times> upstream_reply \<times> string"

text \<open>The i-th recovery of a rejected credential; with a replacement the call may be sent again.\<close>

definition recoverCredential ::
  "GenericProxyOptions \<Rightarrow> 'x proxy_world \<Rightarrow> Hop1Identity \<Rightarrow> incoming_request \<Rightarrow> ParsedMessage \<Rightarrow> GenericGovernedTool \<Rightarrow>
   (string \<times> json) list \<Rightarrow> CredentialRequest \<Rightarrow> nat \<Rightarrow> string \<Rightarrow> attempt \<Rightarrow> attempt proxy_step" where
  "recoverCredential opts w identity rq message tool args cr i raw a =
     seq (awaited [RecoveredCredential cr raw] (pw_recover w i cr raw)) (\<lambda>replacement.
       case replacement of
         None \<Rightarrow> pure_step a
       | Some c \<Rightarrow>
           seq (replaySend opts w identity rq message tool args (fst a) c) (\<lambda>(r, t). pure_step (Suc (fst a), Some c, r, t)))"

text \<open>A first reply 401: the credential may be recovered and the call sent again.\<close>

definition recoverUnauthorized ::
  "GenericProxyOptions \<Rightarrow> 'x proxy_world \<Rightarrow> Hop1Identity \<Rightarrow> incoming_request \<Rightarrow> ParsedMessage \<Rightarrow> GenericGovernedTool \<Rightarrow>
   (string \<times> json) list \<Rightarrow> CredentialRequest \<Rightarrow> attempt \<Rightarrow> attempt proxy_step" where
  "recoverUnauthorized opts w identity rq message tool args cr a =
     (case a of (n, credential, r, t) \<Rightarrow>
      case rawCredential credential of
        None \<Rightarrow> pure_step a
      | Some raw \<Rightarrow>
          (if re_status r = 401 \<and> gp_canRecover opts
           then recoverCredential opts w identity rq message tool args cr 0 raw a
           else pure_step a))"

text \<open>A reply that hides why it failed: the credential is validated, and may be recovered.\<close>

definition recoverOpaque ::
  "GenericProxyOptions \<Rightarrow> 'x proxy_world \<Rightarrow> Hop1Identity \<Rightarrow> incoming_request \<Rightarrow> ParsedMessage \<Rightarrow> GenericGovernedTool \<Rightarrow>
   (string \<times> json) list \<Rightarrow> CredentialRequest \<Rightarrow> attempt \<Rightarrow> attempt proxy_step" where
  "recoverOpaque opts w identity rq message tool args cr a =
     (case a of (n, credential, r, t) \<Rightarrow>
      case (atlassianOpaqueFailure (gp_parseJson opts) t, rawCredential credential) of
        (Some failure, Some raw) \<Rightarrow>
          (if \<not> gp_canValidate opts then pure_step a
           else
             seq (catching (awaited [ValidatedCredential cr raw] (pw_validate w cr raw)) (pure_step Unavailable)) (\<lambda>v.
             seq (if v = Invalid \<and> gp_canRecover opts
                  then recoverCredential opts w identity rq message tool args cr 1 raw a
                  else pure_step a) (\<lambda>a.
               case atlassianOpaqueFailure (gp_parseJson opts) (snd (snd (snd a))) of
                 None \<Rightarrow> pure_step a
               | Some failure \<Rightarrow>
                   (case opaqueFailureAnswer v failure of (error, explanation) \<Rightarrow>
                      providerError opts w identity message tool args error explanation None))))
      | _ \<Rightarrow> pure_step a)"

definition refuseHttpFailure ::
  "GenericProxyOptions \<Rightarrow> 'x proxy_world \<Rightarrow> Hop1Identity \<Rightarrow> ParsedMessage \<Rightarrow> GenericGovernedTool \<Rightarrow> (string \<times> json) list \<Rightarrow>
   attempt \<Rightarrow> attempt proxy_step" where
  "refuseHttpFailure opts w identity message tool args a =
     (case jiraHttpFailure (fst (snd (snd a))) of
        None \<Rightarrow> pure_step a
      | Some (error, explanation, retryAfter) \<Rightarrow> providerError opts w identity message tool args error explanation retryAfter)"

definition forwardToolCall ::
  "GenericProxyOptions \<Rightarrow> 'x proxy_world \<Rightarrow> incoming_request \<Rightarrow> Hop1Identity \<Rightarrow> string \<Rightarrow> ParsedMessage \<Rightarrow>
   GenericGovernedTool \<Rightarrow> (string \<times> json) list \<Rightarrow> proxy_response proxy_step" where
  "forwardToolCall opts w rq identity token message tool args =
     (let cr = \<lparr>cr_identity = identity, cr_hop1Token = token, cr_scopes = tk_scopes (gt_grants tool)\<rparr>;
          jira = isJiraProvider (gp_descriptor opts); name = Some (gt_exposedName tool) in
      catching
        (seq (resolveCredential w cr) (\<lambda>credential.
         seq (if credential = None \<and> gp_requireCredential opts
              then
                seq (toolAudit opts w identity ''deny'' (Some ''provider_authorization_required'') name args None
                       (Some ''provider_oauth_required'')) (\<lambda>_.
                  return_response (errorResult (pm_id message)
                    (''Provider authorization is required. Call '' @ lifecycleToolName (gp_descriptor opts) StartTool @ ''.'')
                    ([(''error'', JStr ''provider_oauth_required'')] @ optional_field ''provider'' (gp_oauth opts) @ connectionHelper opts)))
              else pure_step ()) (\<lambda>_.
         seq (exchange opts w identity rq message tool args 0 credential) (\<lambda>(r, t).
         seq (if jira then recoverUnauthorized opts w identity rq message tool args cr (1, credential, r, t)
              else pure_step (1, credential, r, t)) (\<lambda>a.
         seq (if jira then recoverOpaque opts w identity rq message tool args cr a else pure_step a) (\<lambda>a.
         seq (if jira then refuseHttpFailure opts w identity message tool args a else pure_step a) (\<lambda>(n, c, r, t).
         seq (toolAudit opts w identity (if reply_ok r then ''allow'' else ''error'') None name args (Some (int (length t)))
                (if reply_ok r then None else Some (''upstream_'' @ nat_str (re_status r)))) (\<lambda>_.
           pure_step \<lparr>pr_status = re_status r, pr_headers = forwardedResponseHeaders r, pr_body = TextBody t\<rparr>))))))))
        (seq (toolAudit opts w identity ''error'' None name args None (Some ''upstream_failure'')) (\<lambda>_.
           pure_step (mcpError (pm_id message) (-32000) ''MCP upstream request failed'' 200))))"

definition handleToolsCall ::
  "GenericProxyOptions \<Rightarrow> 'x proxy_world \<Rightarrow> incoming_request \<Rightarrow> Hop1Identity \<Rightarrow> string \<Rightarrow> TaskToolAuthorization \<Rightarrow>
   ParsedMessage \<Rightarrow> proxy_response proxy_step" where
  "handleToolsCall opts w rq identity token task message =
     seq (validateRequestSession w rq identity) (\<lambda>_.
       case oauthToolKind opts (pm_toolName message) of
         Some kind \<Rightarrow>
           (if \<not> ta_allowsConnectionHelpers task then pure_step (taskToolDenied (pm_id message))
            else oauthCall opts w identity message kind)
       | None \<Rightarrow>
           (case js_get (toolsByName (gp_catalog opts)) (coalesce (pm_toolName message) []) of
              None \<Rightarrow>
                seq (toolAudit opts w identity ''deny'' (Some ''unsupported_tool'') (pm_toolName message) (pm_arguments message) None
                       (Some ''unsupported_tool'')) (\<lambda>_.
                  pure_step (mcpError (pm_id message) (-32601)
                    (''Unsupported MCP tool: '' @ coalesce (pm_toolName message) ''<missing>'') 200))
            | Some tool \<Rightarrow>
                (if \<not> ta_allows task (genericTaskToolGrant (gp_descriptor opts) tool)
                 then
                   seq (toolAudit opts w identity ''deny'' (Some ''task_tool_not_approved'') (Some (gt_exposedName tool))
                          (pm_arguments message) None (Some ''task_tool_not_approved'')) (\<lambda>_.
                     pure_step (taskToolDenied (pm_id message)))
                 else
                   (let args = effectiveToolArguments (gp_descriptor opts) (pm_arguments message) (gp_executeJiraRestTool opts) in
                    seq (decidePolicy opts w identity (pm_id message) (toolPolicyInput opts identity tool args) args) (\<lambda>_.
                      forwardToolCall opts w rq identity token message tool args)))))"

section \<open>The handler\<close>

definition initializeResponse :: "GenericProxyOptions \<Rightarrow> ParsedMessage \<Rightarrow> string \<Rightarrow> proxy_response" where
  "initializeResponse opts message sessionId =
     \<lparr>pr_status = 200, pr_headers = js_set ''mcp-session-id'' sessionId JSON_HEADERS,
      pr_body = JsonText (JObj [(''jsonrpc'', JStr ''2.0''), (''id'', pm_id message),
        (''result'', JObj [(''protocolVersion'', JStr (coalesce (pm_protocolVersion message) ''2025-06-18'')),
          (''capabilities'', JObj [(''tools'', JObj [])]),
          (''serverInfo'', JObj [(''name'', JStr (fst (gd_serverInfo (gp_descriptor opts)))),
             (''version'', JStr (snd (gd_serverInfo (gp_descriptor opts))))])])])\<rparr>"

definition handleInitialize ::
  "GenericProxyOptions \<Rightarrow> 'x proxy_world \<Rightarrow> Hop1Identity \<Rightarrow> ParsedMessage \<Rightarrow> proxy_response proxy_step" where
  "handleInitialize opts w identity message =
     (case fst (issueWith (pw_newSession w) (pw_limits w) (pw_now w) (pw_sessionId w) (genericPrincipalKey identity) (pw_sessions w)) of
        Inl _ \<Rightarrow> pure_step (mcpError (pm_id message) (-32000) ''MCP session capacity is unavailable'' 200)
      | Inr _ \<Rightarrow>
          seq (perform [IssuedSession (pw_sessionId w) (genericPrincipalKey identity)]) (\<lambda>_.
            pure_step (initializeResponse opts message (pw_sessionId w))))"

definition handlePost ::
  "GenericProxyOptions \<Rightarrow> 'x proxy_world \<Rightarrow> incoming_request \<Rightarrow> Hop1Identity \<Rightarrow> string \<Rightarrow> TaskToolAuthorization \<Rightarrow>
   proxy_response proxy_step" where
  "handlePost opts w rq identity token task =
     (case parseJsonRpcMessage (gp_parseJson opts) (iq_body rq) of
        None \<Rightarrow> pure_step (mcpError JNull (-32700) ''Parse error'' 200)
      | Some message \<Rightarrow>
          (if pm_method message = ''initialize'' then handleInitialize opts w identity message
           else if pm_method message = ''notifications/initialized''
           then seq (validateRequestSession w rq identity) (\<lambda>_. pure_step \<lparr>pr_status = 202, pr_headers = [], pr_body = NullBody\<rparr>)
           else if pm_method message = ''tools/list'' then handleToolsList opts w rq identity token task message
           else if pm_method message \<noteq> ''tools/call''
           then pure_step (mcpError (pm_id message) (-32601) (''Unsupported MCP method: '' @ pm_method message) 200)
           else handleToolsCall opts w rq identity token task message))"

definition handleGeneric :: "GenericProxyOptions \<Rightarrow> 'x proxy_world \<Rightarrow> incoming_request \<Rightarrow> proxy_response proxy_step" where
  "handleGeneric opts w rq =
     (if iq_path rq \<noteq> ''/mcp'' then pure_step (mcpError JNull (-32601) ''Not found'' 404)
      else case genericBearerToken rq of
          None \<Rightarrow>
            seq (perform [ReportedFailure missing_bearer]) (\<lambda>_. pure_step (mcpUnauthorized ''bearer token is required'' ''Bearer''))
        | Some token \<Rightarrow>
            (case gp_authenticate opts token of
               Inl e \<Rightarrow>
                 seq (perform [ReportedFailure (he_classification e)]) (\<lambda>_.
                   pure_step (mcpUnauthorized ''invalid bearer token'' invalidTokenChallenge))
             | Inr identity \<Rightarrow>
                 (let task = parseTaskToolAuthorization (hi_claims identity) (gp_allowLegacyUnscopedTaskTokens opts) in
                  if iq_method rq = ''DELETE'' then handleDelete w rq identity token
                  else if iq_method rq = ''GET'' then handleGet opts w rq identity token
                  else if iq_method rq \<noteq> ''POST'' then pure_step (mcpError JNull (-32600) ''Invalid request'' 405)
                  else handlePost opts w rq identity token task)))"

end
