(* ===== verification/Generic_Proxy_Props.thy ===== *)
theory Generic_Proxy_Props
  imports Generic_Proxy
begin

text \<open>
  What the handler of the generic wrapper lets through (\<open>proxy.ts\<close>): nothing reaches the upstream but for an
  authenticated caller with a session of its own; a call of a tool only with the grant of the task, the
  consent of the policy to the very arguments that are sent, and a credential for the scopes of the tool;
  and only a call that reads is ever sent again.
\<close>

section \<open>Effects of steps\<close>

text \<open>The effects that reach the upstream, and a property of those of a step.\<close>

fun forwards :: "proxy_effect \<Rightarrow> bool" where
  "forwards (Sent _ _ _) = True"
| "forwards (Executed _ _ _ _) = True"
| "forwards (ListedCatalog _ _) = True"
| "forwards (ClosedSession _ _) = True"
| "forwards _ = False"

definition confines :: "(proxy_effect \<Rightarrow> bool) \<Rightarrow> 'a proxy_step \<Rightarrow> bool" where
  "confines P m \<longleftrightarrow> effects_ok (\<lambda>e. forwards e \<longrightarrow> P e) m"

lemma confines_seq: "confines P m \<Longrightarrow> (\<And>x. snd m = Inr x \<Longrightarrow> confines P (f x)) \<Longrightarrow> confines P (seq m f)"
  unfolding confines_def by (rule effects_ok_seq)

lemma confines_catching [step_rules]: "confines P m \<Longrightarrow> confines P h \<Longrightarrow> confines P (catching m h)"
  unfolding confines_def by (rule effects_ok_catching)

lemma confines_base [step_rules]:
  "confines P (pure_step x)" "confines P (return_response r)" "confines P throw_error" "confines P (toolAudit opts w i s ev t args z er)"
  "confines P (emitSafely opts event)" "confines P (resolveCredential w cr)" "confines P (awaited [] y)"
  "confines P (awaited [Decided input] d)" "confines P (awaited [RecoveredCredential cr raw] c)"
  "confines P (awaited [ValidatedCredential cr raw] v)"
  "confines P (awaited [OAuthStatus identity] u)" "confines P (awaited [OAuthStart identity redirect] u)"
  by (simp_all add: confines_def effects_ok_def pure_step_def return_response_def throw_error_def toolAudit_def emitSafely_def perform_def
      resolveCredential_def awaited_def)

lemma confines_awaited: "P e \<Longrightarrow> confines P (awaited [e] y)"
  by (simp add: confines_def effects_ok_def awaited_def)

lemma confines_validate [step_rules]: "confines P (validateRequestSession w rq identity)"
  by (simp add: validateRequestSession_def confines_def effects_ok_def seq_def perform_def pure_step_def return_response_def split: option.splits list.splits sum.splits)

section \<open>The caller\<close>

definition ownSession :: "'x proxy_world \<Rightarrow> incoming_request \<Rightarrow> Hop1Identity \<Rightarrow> bool" where
  "ownSession w rq identity \<longleftrightarrow>
     (\<exists>sid s. map_option trim (js_get (iq_headers rq) ''mcp-session-id'') = Some sid \<and>
        js_get (pw_sessions w) sid = Some s \<and> sn_principalKey s = genericPrincipalKey identity)"

lemma assertSession_own:
  assumes "fst (assertSession now sid who ss) = Inr u"
  shows "\<exists>s. js_get ss sid = Some s \<and> sn_principalKey s = who"
  using assms by (auto simp: assertSession_def assertIssuedSession_def split: option.splits if_splits sum.splits)

lemma validated_session:
  assumes "snd (validateRequestSession w rq identity) = Inr u"
  shows "ownSession w rq identity"
proof -
  let ?h = "map_option trim (js_get (iq_headers rq) ''mcp-session-id'')"
  obtain c cs where h: "?h = Some (c # cs)"
    using assms by (cases ?h) (auto simp: validateRequestSession_def split: list.splits)
  obtain v where "fst (assertSession (pw_now w) (c # cs) (genericPrincipalKey identity) (pw_sessions w)) = Inr v"
    using assms unfolding validateRequestSession_def h
    by (cases "fst (assertSession (pw_now w) (c # cs) (genericPrincipalKey identity) (pw_sessions w))") (simp_all add: snd_seq)
  from assertSession_own [OF this] h show ?thesis unfolding ownSession_def by blast
qed

text \<open>What follows the check of the session is confined if it is so with a session of the caller.\<close>

lemma confines_session:
  assumes "ownSession w rq identity \<Longrightarrow> confines P (f ())"
  shows "confines P (seq (validateRequestSession w rq identity) f)"
  by (rule confines_seq [OF confines_validate]) (use assms validated_session in auto)

section \<open>The call of a tool\<close>

text \<open>The credential that was resolved for the scopes, or one that was recovered for them. Only an upstream
  that requires no credential is called without one.\<close>

definition credentialFor ::
  "GenericProxyOptions \<Rightarrow> 'x proxy_world \<Rightarrow> CredentialRequest \<Rightarrow> GenericUpstreamCredential option \<Rightarrow> bool" where
  "credentialFor opts w cr c \<longleftrightarrow>
     (pw_resolve w cr = Some c \<or> (\<exists>i raw k. pw_recover w i cr raw = Some (Some k) \<and> c = Some k)) \<and>
     (gp_requireCredential opts \<longrightarrow> c \<noteq> None)"

definition toolForward ::
  "GenericProxyOptions \<Rightarrow> 'x proxy_world \<Rightarrow> incoming_request \<Rightarrow> Hop1Identity \<Rightarrow> string \<Rightarrow> ParsedMessage \<Rightarrow> GenericGovernedTool \<Rightarrow>
   (string \<times> json) list \<Rightarrow> proxy_effect \<Rightarrow> bool" where
  "toolForward opts w rq identity token message tool args e \<longleftrightarrow>
     (\<exists>c. credentialFor opts w \<lparr>cr_identity = identity, cr_hop1Token = token, cr_scopes = tk_scopes (gt_grants tool)\<rparr> c \<and>
        (e = Sent (JsonBody (rewriteToolCall (gp_parseJson opts) (iq_body rq) (gt_upstreamName tool) args)) c
               (genericPrincipalKey identity) \<or>
         (\<exists>k. c = Some k \<and> e = Executed (pm_id message) tool args k)))"

abbreviation toolRequest :: "Hop1Identity \<Rightarrow> string \<Rightarrow> GenericGovernedTool \<Rightarrow> CredentialRequest" where
  "toolRequest identity token tool \<equiv>
     \<lparr>cr_identity = identity, cr_hop1Token = token, cr_scopes = tk_scopes (gt_grants tool)\<rparr>"

lemma confines_exchange:
  assumes "credentialFor opts w (toolRequest identity token tool) c"
  shows "confines (toolForward opts w rq identity token message tool args) (exchange opts w identity rq message tool args n c)"
proof -
  let ?P = "toolForward opts w rq identity token message tool args"
  have sent: "?P (Sent (JsonBody (rewriteToolCall (gp_parseJson opts) (iq_body rq) (gt_upstreamName tool) args)) c (genericPrincipalKey identity))"
    using assms by (auto simp: toolForward_def)
  have executed: "?P (Executed (pm_id message) tool args k)" if "c = Some k" for k
    using assms that by (auto simp: toolForward_def)
  show ?thesis
    unfolding exchange_def Let_def
  proof (rule confines_seq)
    show "confines ?P (if gp_executeJiraRestTool opts
           then (case c of None \<Rightarrow> throw_error
                 | Some c \<Rightarrow> awaited [Executed (pm_id message) tool args c] (pw_execute w n (pm_id message) tool args c))
           else awaited [Sent (JsonBody (rewriteToolCall (gp_parseJson opts) (iq_body rq) (gt_upstreamName tool) args)) c (genericPrincipalKey identity)]
             (pw_send w n (JsonBody (rewriteToolCall (gp_parseJson opts) (iq_body rq) (gt_upstreamName tool) args)) c (genericPrincipalKey identity)))"
      using sent executed by (cases c) (simp_all add: step_rules confines_awaited)
  qed (intro confines_seq step_rules)
qed

lemma recovered_credential: "pw_recover w i cr raw = Some (Some k) \<Longrightarrow> credentialFor opts w cr (Some k)"
  unfolding credentialFor_def by blast

lemma confines_replay:
  assumes "credentialFor opts w (toolRequest identity token tool) (Some k)"
  shows "confines (toolForward opts w rq identity token message tool args) (replaySend opts w identity rq message tool args n k)"
  unfolding replaySend_def using confines_exchange [OF assms] by (auto intro!: confines_seq step_rules)

lemma confines_recovery:
  assumes "cr = toolRequest identity token tool"
  shows "confines (toolForward opts w rq identity token message tool args) (recoverCredential opts w identity rq message tool args cr i raw a)"
  unfolding recoverCredential_def
  by (rule confines_seq, rule step_rules)
    (auto simp: snd_awaited assms split: option.splits intro!: confines_seq confines_replay step_rules dest: recovered_credential)

lemma confines_providerError [step_rules]: "confines P (providerError opts w identity message tool args er ex ra)"
  unfolding providerError_def Let_def by (intro confines_seq step_rules)

lemma confines_recoverUnauthorized:
  assumes "cr = toolRequest identity token tool"
  shows "confines (toolForward opts w rq identity token message tool args) (recoverUnauthorized opts w identity rq message tool args cr a)"
  unfolding recoverUnauthorized_def by (cases a) (simp split: option.split, intro conjI allI impI step_rules confines_recovery assms)

lemma confines_recoverOpaque:
  assumes "cr = toolRequest identity token tool"
  shows "confines (toolForward opts w rq identity token message tool args) (recoverOpaque opts w identity rq message tool args cr a)"
proof -
  obtain n c r t where a: "a = (n, c, r, t)" by (cases a) auto
  show ?thesis
  proof (cases "atlassianOpaqueFailure (gp_parseJson opts) t"; cases "rawCredential c")
    fix failure raw
    assume "atlassianOpaqueFailure (gp_parseJson opts) t = Some failure" "rawCredential c = Some raw"
    then show ?thesis
      unfolding recoverOpaque_def a
      by (simp, intro conjI impI confines_seq step_rules)
        (auto simp: confines_recovery [OF assms] split: option.splits prod.splits intro!: step_rules)
  qed (simp_all add: recoverOpaque_def a step_rules)
qed

lemma confines_refuseHttpFailure [step_rules]: "confines P (refuseHttpFailure opts w identity message tool args a)"
  by (cases "jiraHttpFailure (fst (snd (snd a)))") (auto simp: refuseHttpFailure_def intro!: step_rules)

lemma confines_forward:
  "confines (toolForward opts w rq identity token message tool args) (forwardToolCall opts w rq identity token message tool args)"
proof -
  let ?cr = "toolRequest identity token tool"
  have resolved: "credentialFor opts w ?cr c"
    if "snd (resolveCredential w ?cr) = Inr c" "\<not> (c = None \<and> gp_requireCredential opts)" for c
    using that by (auto simp: resolveCredential_def snd_awaited credentialFor_def)
  show ?thesis
    unfolding forwardToolCall_def Let_def
    by (rule confines_catching)
      (auto simp: snd_seq intro!: confines_seq confines_exchange step_rules confines_recoverUnauthorized
        confines_recoverOpaque resolved split: if_splits)
qed

section \<open>The handler\<close>

definition toolCallGranted ::
  "GenericProxyOptions \<Rightarrow> Hop1Identity \<Rightarrow> ParsedMessage \<Rightarrow> GenericGovernedTool \<Rightarrow> (string \<times> json) list \<Rightarrow> bool" where
  "toolCallGranted opts identity message tool args \<longleftrightarrow>
     js_get (toolsByName (gp_catalog opts)) (coalesce (pm_toolName message) []) = Some tool \<and>
     ta_allows (parseTaskToolAuthorization (hi_claims identity) (gp_allowLegacyUnscopedTaskTokens opts))
       (genericTaskToolGrant (gp_descriptor opts) tool) \<and>
     args = effectiveToolArguments (gp_descriptor opts) (pm_arguments message) (gp_executeJiraRestTool opts) \<and>
     tp_decide (coalesce (gp_policy opts) AllowAllPolicy) (toolPolicyInput opts identity tool args) = Some Allow"

text \<open>What may reach the upstream for an authenticated caller.\<close>

definition permitted ::
  "GenericProxyOptions \<Rightarrow> 'x proxy_world \<Rightarrow> incoming_request \<Rightarrow> string \<Rightarrow> Hop1Identity \<Rightarrow> proxy_effect \<Rightarrow> bool" where
  "permitted opts w rq token identity e \<longleftrightarrow>
     ownSession w rq identity \<and>
     (case e of
        ClosedSession c key \<Rightarrow>
          iq_method rq = ''DELETE'' \<and> key = genericPrincipalKey identity \<and>
          (c \<noteq> None \<longrightarrow> pw_resolve w \<lparr>cr_identity = identity, cr_hop1Token = token, cr_scopes = []\<rparr> = Some c)
      | ListedCatalog c key \<Rightarrow>
          key = genericPrincipalKey identity \<and>
          pw_resolve w \<lparr>cr_identity = identity, cr_hop1Token = token, cr_scopes = []\<rparr> = Some (Some c)
      | _ \<Rightarrow>
          (\<exists>c. iq_method rq = ''GET'' \<and> e = Sent (RawBody []) c (genericPrincipalKey identity) \<and>
             pw_resolve w \<lparr>cr_identity = identity, cr_hop1Token = token, cr_scopes = []\<rparr> = Some c \<and>
             (gp_requireCredential opts \<longrightarrow> c \<noteq> None)) \<or>
          (\<exists>message tool args. iq_method rq = ''POST'' \<and>
             parseJsonRpcMessage (gp_parseJson opts) (iq_body rq) = Some message \<and> pm_method message = ''tools/call'' \<and>
             toolCallGranted opts identity message tool args \<and> toolForward opts w rq identity token message tool args e))"

lemma confines_mono: "confines P m \<Longrightarrow> (\<And>e. P e \<Longrightarrow> Q e) \<Longrightarrow> confines Q m"
  by (auto simp: confines_def effects_ok_def list_all_iff)

lemma confines_delete:
  assumes "iq_method rq = ''DELETE''"
  shows "confines (permitted opts w rq token identity) (handleDelete w rq identity token)"
  unfolding handleDelete_def
  by (rule confines_session, intro confines_seq confines_catching confines_awaited step_rules)
    (auto simp: permitted_def assms resolveCredential_def snd_awaited dest!: snd_catching)

lemma confines_get:
  assumes "iq_method rq = ''GET''"
  shows "confines (permitted opts w rq token identity) (handleGet opts w rq identity token)"
proof (cases "gd_upstream (gp_descriptor opts)")
  case (HttpUpstream url timeout)
  have p: "permitted opts w rq token identity (Sent (RawBody []) c (genericPrincipalKey identity))"
    if "ownSession w rq identity"
      "snd (resolveCredential w \<lparr>cr_identity = identity, cr_hop1Token = token, cr_scopes = []\<rparr>) = Inr c"
      "\<not> (c = None \<and> gp_requireCredential opts)" for c
    using that assms by (auto simp: permitted_def resolveCredential_def snd_awaited)
  show ?thesis
    unfolding handleGet_def HttpUpstream
    by simp (rule confines_session, auto intro!: confines_seq confines_awaited step_rules p)
qed (simp add: handleGet_def step_rules)

lemma confines_liveToolsList:
  assumes "ownSession w rq identity"
    "\<And>c. resolved = Some (Some c) \<Longrightarrow> pw_resolve w \<lparr>cr_identity = identity, cr_hop1Token = token, cr_scopes = []\<rparr> = Some (Some c)"
  shows "confines (permitted opts w rq token identity) (liveToolsList opts w rid identity token task resolved)"
proof -
  let ?r = "case resolved of Some c \<Rightarrow> pure_step c
    | None \<Rightarrow> resolveCredential w \<lparr>cr_identity = identity, cr_hop1Token = token, cr_scopes = []\<rparr>"
  have r: "confines (permitted opts w rq token identity) ?r" by (cases resolved) (simp_all add: step_rules)
  have p: "permitted opts w rq token identity (ListedCatalog c (genericPrincipalKey identity))" if "snd ?r = Inr (Some c)" for c
    using that assms by (cases resolved) (auto simp: permitted_def resolveCredential_def snd_awaited)
  show ?thesis
    unfolding liveToolsList_def Let_def
    by (auto intro!: confines_seq confines_awaited step_rules r p split: option.split)
qed

lemma revealed:
  assumes "snd (revealCredential opts w identity token task message) = Inr (Some (Some c))"
  shows "pw_resolve w \<lparr>cr_identity = identity, cr_hop1Token = token, cr_scopes = []\<rparr> = Some (Some c)"
proof (cases "gd_hideToolsUntilConnected (gp_descriptor opts)")
  case True
  obtain x where x: "snd (catching (resolveCredential w \<lparr>cr_identity = identity, cr_hop1Token = token, cr_scopes = []\<rparr>)
      (seq (emitSafely opts
             \<lparr>ae_ts = pw_ts w, ae_category = ''tool_call'', ae_principal = hi_email identity, ae_status = ''error'',
              ae_event = Some ''tools_list_credential_unavailable'', ae_tool = None, ae_argDigest = None,
              ae_latencyMs = None, ae_resultSize = None, ae_error = Some ''credential_resolution_failed''\<rparr>) (\<lambda>_.
        return_response (liveCatalogUnavailable (pm_id message) (helpersFor opts task)
          ''Upstream tool discovery is unavailable'' [])))) = Inr x"
    and f: "snd (case x of
        None \<Rightarrow> return_response (liveCatalogUnavailable (pm_id message) (helpersFor opts task)
                  ''Provider authorization is required'' (connectionHelper opts))
      | Some c \<Rightarrow> (pure_step (Some (Some c)) :: GenericUpstreamCredential option option proxy_step)) = Inr (Some (Some c))"
    using assms unfolding revealCredential_def if_P [OF True] snd_seq by (elim exE conjE)
  have "x = Some c" using f by (cases x) simp_all
  with snd_catching [OF x] show ?thesis by (simp add: snd_seq resolveCredential_def snd_awaited)
qed (use assms in \<open>simp add: revealCredential_def\<close>)

lemma confines_reveal [step_rules]: "confines P (revealCredential opts w identity token task message)"
  by (auto simp: revealCredential_def intro!: confines_seq step_rules split: option.split)

lemma confines_toolsList:
  "confines (permitted opts w rq token identity) (handleToolsList opts w rq identity token task message)"
proof (cases "isLiveToolCatalog (gp_catalog opts)")
  case True
  show ?thesis
    unfolding handleToolsList_def Let_def
    by (simp add: True, rule confines_session, rule confines_seq [OF confines_reveal], rule confines_liveToolsList)
      (auto dest: revealed)
next
  case False
  then show ?thesis by (auto simp: handleToolsList_def Let_def intro!: confines_seq step_rules)
qed

lemma confines_decide [step_rules]: "confines P (decidePolicy opts w identity rid input args)"
  by (auto simp: decidePolicy_def intro!: confines_seq step_rules)

lemma decided: "snd (decidePolicy opts w identity rid input args) = Inr u \<Longrightarrow>
    tp_decide (coalesce (gp_policy opts) AllowAllPolicy) input = Some Allow"
  by (auto simp: decidePolicy_def snd_seq snd_awaited split: if_splits)

lemma confines_oauthCall [step_rules]: "confines P (oauthCall opts w identity message kind)"
  unfolding oauthCall_def Let_def by (cases kind) (simp_all, (intro confines_seq step_rules)+)

lemma confines_toolsCall:
  assumes "iq_method rq = ''POST''" "parseJsonRpcMessage (gp_parseJson opts) (iq_body rq) = Some message"
    "pm_method message = ''tools/call''"
    "task = parseTaskToolAuthorization (hi_claims identity) (gp_allowLegacyUnscopedTaskTokens opts)"
  shows "confines (permitted opts w rq token identity) (handleToolsCall opts w rq identity token task message)"
  unfolding handleToolsCall_def
proof (rule confines_session)
  assume own: "ownSession w rq identity"
  have forwarded: "confines (permitted opts w rq token identity) (forwardToolCall opts w rq identity token message tool args)"
    if "toolCallGranted opts identity message tool args" for tool args
  proof (rule confines_mono [OF confines_forward])
    fix e assume e: "toolForward opts w rq identity token message tool args e"
    then have "\<exists>b c k. e = Sent b c k \<or> (\<exists>i t a c. e = Executed i t a c)" by (auto simp: toolForward_def)
    with e own that assms(1-3) show "permitted opts w rq token identity e"
      by (elim exE disjE) (simp_all add: permitted_def, blast+)
  qed
  show "confines (permitted opts w rq token identity)
    (case oauthToolKind opts (pm_toolName message) of
         Some kind \<Rightarrow>
           (if \<not> ta_allowsConnectionHelpers task then pure_step (taskToolDenied (pm_id message))
            else oauthCall opts w identity message kind)
       | None \<Rightarrow>
           (case js_get (toolsByName (gp_catalog opts)) (coalesce (pm_toolName message) []) of
              None \<Rightarrow>
                seq (toolAudit opts w identity ''deny'' (Some ''unsupported_tool'') (pm_toolName message) (pm_arguments message) None
                       (Some ''unsupported_tool'')) (\<lambda>_.
                  pure_step (mcpError (pm_id message) (-32601)
                    (''Unsupported MCP tool: '' @ coalesce (pm_toolName message) ''<missing>'') 200))
            | Some tool \<Rightarrow>
                (if \<not> ta_allows task (genericTaskToolGrant (gp_descriptor opts) tool)
                 then
                   seq (toolAudit opts w identity ''deny'' (Some ''task_tool_not_approved'') (Some (gt_exposedName tool))
                          (pm_arguments message) None (Some ''task_tool_not_approved'')) (\<lambda>_.
                     pure_step (taskToolDenied (pm_id message)))
                 else
                   (let args = effectiveToolArguments (gp_descriptor opts) (pm_arguments message) (gp_executeJiraRestTool opts) in
                    seq (decidePolicy opts w identity (pm_id message) (toolPolicyInput opts identity tool args) args) (\<lambda>_.
                      forwardToolCall opts w rq identity token message tool args)))))"
    by (auto simp: Let_def toolCallGranted_def assms(4) split: option.split dest!: decided
        intro!: confines_seq step_rules forwarded)
qed

lemma confines_initialize [step_rules]: "confines P (handleInitialize opts w identity message)"
  by (auto simp: handleInitialize_def confines_def effects_ok_def seq_def perform_def pure_step_def split: sum.split)

lemma confines_post:
  assumes "iq_method rq = ''POST''"
    "task = parseTaskToolAuthorization (hi_claims identity) (gp_allowLegacyUnscopedTaskTokens opts)"
  shows "confines (permitted opts w rq token identity) (handlePost opts w rq identity token task)"
proof (cases "parseJsonRpcMessage (gp_parseJson opts) (iq_body rq)")
  case (Some message)
  show ?thesis
    unfolding handlePost_def Some
    using confines_toolsCall [OF assms(1) Some _ assms(2)]
    by (auto intro!: step_rules confines_seq confines_toolsList)
qed (simp add: handlePost_def step_rules)

text \<open>C35: whatever reaches the upstream for a request, through the transport, the Jira executor, the listing
  of its catalog or the end of a session: the bearer token of the request was authenticated, and the
  request names a session that was issued to this very principal. A tool is called only for a call of
  a tool of the catalog, approved for the task of the token, that the policy has allowed with exactly
  the arguments that are sent; it goes under the upstream's own name, with what was resolved or
  recovered for this caller and the scopes of the tool, and that is a credential, never its absence,
  when the wrapper requires one (as it does for an upstream with a sign-in of each user). The stream
  and the closing of a session carry nothing but the credential resolved for this caller either.\<close>

theorem generic_call_authorized:
  assumes "e \<in> set (fst (handleGeneric opts w rq))" "forwards e"
  shows "\<exists>token identity. genericBearerToken rq = Some token \<and> gp_authenticate opts token = Inr identity \<and>
    permitted opts w rq token identity e"
proof -
  have "confines (\<lambda>e. \<exists>token identity. genericBearerToken rq = Some token \<and> gp_authenticate opts token = Inr identity \<and>
    permitted opts w rq token identity e) (handleGeneric opts w rq)"
  proof (cases "genericBearerToken rq")
    case None
    then show ?thesis by (simp add: handleGeneric_def confines_def effects_ok_def seq_def perform_def pure_step_def)
  next
    case token: (Some token)
    show ?thesis
    proof (cases "gp_authenticate opts token")
      case (Inl e)
      with token show ?thesis by (simp add: handleGeneric_def confines_def effects_ok_def seq_def perform_def pure_step_def)
    next
      case (Inr identity)
      have "confines (permitted opts w rq token identity) (handleGeneric opts w rq)"
        unfolding handleGeneric_def token
        by (simp add: Inr Let_def step_rules confines_delete confines_get confines_post)
      then show ?thesis by (rule confines_mono) (use token Inr in simp)
    qed
  qed
  with assms show ?thesis by (auto simp: confines_def effects_ok_def list_all_iff)
qed

definition proxy_options :: GenericProxyOptions where
  "proxy_options =
     \<lparr>gp_descriptor =
        \<lparr>gd_name = ''acme'', gd_toolPrefix = ''acme'', gd_catalogPath = ''catalog.yaml'', gd_catalogFilter = None,
         gd_lifecycleRoutes = False, gd_hideToolsUntilConnected = False,
         gd_lifecycleToolNames = \<lparr>ln_start = ''connect'', ln_status = ''status''\<rparr>,
         gd_upstream = HttpUpstream ''https://up.example/mcp'' None, gd_credential = NoCredential,
         gd_serverInfo = (''acme'', ''1''), gd_sessions = \<lparr>gs_maxTotal = 2, gs_maxPerPrincipal = 1, gs_idleTtlMs = 1000\<rparr>,
         gd_policy = None, gd_audit = None\<rparr>,
      gp_catalog = LiveCatalog ''acme'' []
        [\<lparr>gt_exposedName = ''acme_find'', gt_upstreamName = ''find'', gt_alias = None,
          gt_grants = \<lparr>tk_actionClass = ''read'', tk_operation = None, tk_scopes = []\<rparr>\<rparr>],
      gp_authenticate = (\<lambda>token. Inr \<lparr>hi_profile = ''p'', hi_issuer = ''iss'', hi_subject = token, hi_email = ''a@b'', hi_claims = []\<rparr>),
      gp_policy = None, gp_audit = False, gp_oauth = None, gp_requireCredential = True, gp_canRecover = False,
      gp_canValidate = False, gp_executeJiraRestTool = False, gp_allowLegacyUnscopedTaskTokens = False,
      gp_parseJson = (\<lambda>body. Some (JObj [(''jsonrpc'', JStr ''2.0''), (''method'', JStr ''tools/call''),
        (''params'', JObj [(''name'', JStr ''acme_find''), (''arguments'', JObj [(''q'', JStr body)])])])),
      gp_stringify = (\<lambda>v. []), gp_digestArgs = (\<lambda>args. [])\<rparr>"

definition example_credential :: GenericUpstreamCredential where
  "example_credential = \<lparr>uc_header = ''authorization'', uc_value = ''Bearer up'', uc_rawValue = Some ''up''\<rparr>"

definition proxy_answers :: "unit proxy_world" where
  "proxy_answers =
     \<lparr>pw_now = 7, pw_ts = ''t'', pw_latencyMs = 1,
      pw_sessions = [(''s1'', \<lparr>sn_principalKey = ''iss'' @ newline # ''alice'', sn_lastUsedAt = 0, sn_busy = False\<rparr>)],
      pw_limits = \<lparr>sl_maxSessions = 2, sl_maxSessionsPerPrincipal = 1, sl_idleTtlMs = 1000\<rparr>,
      pw_newSession = (\<lambda>who now. \<lparr>sn_principalKey = who, sn_lastUsedAt = now, sn_busy = False\<rparr>), pw_sessionId = ''s2'',
      pw_resolve = (\<lambda>cr. Some (Some example_credential)), pw_recover = (\<lambda>i cr raw. None), pw_validate = (\<lambda>cr raw. None),
      pw_send = (\<lambda>i body c key. None), pw_execute = (\<lambda>i rid tool args c. None), pw_ask = (\<lambda>c i cursor. None),
      pw_close = (\<lambda>c key. None), pw_oauthStatus = (\<lambda>i. None), pw_oauthStart = (\<lambda>i redirect. None)\<rparr>"

definition proxy_request :: incoming_request where
  "proxy_request =
     \<lparr>iq_method = ''POST'', iq_path = ''/mcp'',
      iq_headers = [(''authorization'', ''Bearer alice''), (''mcp-session-id'', ''s1'')], iq_body = ''hello''\<rparr>"

definition example_sent :: proxy_effect where
  "example_sent = Sent (JsonBody (JObj [(''jsonrpc'', JStr ''2.0''), (''method'', JStr ''tools/call''),
     (''params'', JObj [(''name'', JStr ''find''), (''arguments'', JObj [(''q'', JStr ''hello'')])])])) (Some example_credential) (''iss'' @ newline # ''alice'')"

lemmas example_simps = proxy_options_def proxy_answers_def proxy_request_def seq_def perform_def pure_step_def awaited_def
  catching_def Let_def

definition proxy_identity :: Hop1Identity where
  "proxy_identity = \<lparr>hi_profile = ''p'', hi_issuer = ''iss'', hi_subject = ''alice'', hi_email = ''a@b'', hi_claims = []\<rparr>"

lemma example_caller:
  "genericBearerToken proxy_request = Some ''alice''" "gp_authenticate proxy_options ''alice'' = Inr proxy_identity"
  by (simp_all add: genericBearerToken_def header_of_def proxy_request_def proxy_options_def proxy_identity_def)

lemma example_session:
  "validateRequestSession proxy_answers proxy_request proxy_identity =
     ([AssertedSession ''s1'' (''iss'' @ newline # ''alice'')], Inr ())"
  by (simp add: validateRequestSession_def example_simps genericPrincipalKey_def proxy_identity_def assertSession_def
      assertIssuedSession_def trim_def is_space_def)

definition example_message :: ParsedMessage where
  "example_message = \<lparr>pm_id = JNull, pm_method = ''tools/call'', pm_toolName = Some ''acme_find'', pm_protocolVersion = None,
     pm_arguments = [(''q'', JStr ''hello'')]\<rparr>"

lemma example_parsed: "parseJsonRpcMessage (gp_parseJson proxy_options) (iq_body proxy_request) = Some example_message"
  by (simp add: parseJsonRpcMessage_def proxy_options_def proxy_request_def record_or_empty_def Let_def example_message_def)

lemma example_forwarded:
  "example_sent \<in> set (fst (forwardToolCall proxy_options proxy_answers proxy_request proxy_identity ''alice'' example_message
     (hd (sourceTools (gp_catalog proxy_options))) [(''q'', JStr ''hello'')]))"
  by (simp add: forwardToolCall_def resolveCredential_def exchange_def example_simps rewriteToolCall_def record_or_empty_def
      genericPrincipalKey_def proxy_identity_def example_sent_def toolAudit_def emitSafely_def)

lemma example_granted:
  "handleToolsCall proxy_options proxy_answers proxy_request proxy_identity ''alice''
     (parseTaskToolAuthorization (hi_claims proxy_identity) (gp_allowLegacyUnscopedTaskTokens proxy_options)) example_message =
   seq ([AssertedSession ''s1'' (''iss'' @ newline # ''alice''), Decided (toolPolicyInput proxy_options proxy_identity
      (hd (sourceTools (gp_catalog proxy_options))) [(''q'', JStr ''hello'')])], Inr ()) (\<lambda>_.
     forwardToolCall proxy_options proxy_answers proxy_request proxy_identity ''alice'' example_message
     (hd (sourceTools (gp_catalog proxy_options))) [(''q'', JStr ''hello'')])"
  unfolding handleToolsCall_def example_session
  by (simp add: proxy_options_def example_message_def proxy_identity_def oauthToolKind_def toolsByName_def
      parseTaskToolAuthorization_def UNRESTRICTED_def decidePolicy_def AllowAllPolicy_def effectiveToolArguments_def
      seq_def awaited_def pure_step_def Let_def)

lemma example_call: "example_sent \<in> set (fst (handleGeneric proxy_options proxy_answers proxy_request))"
proof -
  have e: "handleGeneric proxy_options proxy_answers proxy_request =
    handleToolsCall proxy_options proxy_answers proxy_request proxy_identity ''alice''
      (parseTaskToolAuthorization (hi_claims proxy_identity) (gp_allowLegacyUnscopedTaskTokens proxy_options)) example_message"
    by (simp add: handleGeneric_def handlePost_def example_caller example_parsed)
      (simp add: proxy_request_def example_message_def)
  show ?thesis unfolding e example_granted using example_forwarded by (simp add: seq_def)
qed

theorem generic_call_authorized_witness:
  "\<exists>token identity. genericBearerToken proxy_request = Some token \<and> gp_authenticate proxy_options token = Inr identity \<and>
     permitted proxy_options proxy_answers proxy_request token identity example_sent"
  by (rule generic_call_authorized [OF example_call]) (simp add: example_sent_def)

section \<open>How often a call is sent\<close>

fun toolSend :: "proxy_effect \<Rightarrow> bool" where
  "toolSend (Sent _ _ _) = True"
| "toolSend (Executed _ _ _ _) = True"
| "toolSend _ = False"

definition sends :: "'a proxy_step \<Rightarrow> nat" where
  "sends m = length (filter toolSend (fst m))"

lemma sends_seq: "sends m \<le> a \<Longrightarrow> (\<And>x. sends (f x) \<le> b) \<Longrightarrow> sends (seq m f) \<le> a + b"
  by (cases m; cases "snd m") (auto simp: sends_def seq_def intro: add_mono trans_le_add1)

text \<open>A step without sends may stand before or after the others.\<close>

lemma sends_seq_quiet: "sends m = 0 \<Longrightarrow> (\<And>x. sends (f x) \<le> b) \<Longrightarrow> sends (seq m f) \<le> b"
  using sends_seq [of m 0 f b] by simp

lemma sends_seq_then: "sends m \<le> a \<Longrightarrow> (\<And>x. sends (f x) = 0) \<Longrightarrow> sends (seq m f) \<le> a"
  using sends_seq [of m a f 0] by simp

lemma sends_seq_0 [simp]: "sends m = 0 \<Longrightarrow> (\<And>x. sends (f x) = 0) \<Longrightarrow> sends (seq m f) = 0"
  using sends_seq [of m 0 f 0] by simp

lemma sends_catching: "sends m \<le> a \<Longrightarrow> sends h = 0 \<Longrightarrow> sends (catching m h) \<le> a"
  by (auto simp: sends_def catching_def split: prod.splits sum.splits proxy_exit.splits)

lemma sends_catching_0 [simp]: "sends m = 0 \<Longrightarrow> sends h = 0 \<Longrightarrow> sends (catching m h) = 0"
  using sends_catching [of m 0 h] by simp

lemma sends_base [simp]:
  "sends (pure_step x) = 0" "sends (return_response r) = 0" "sends throw_error = 0" "sends (toolAudit opts w i s ev t args z er) = 0"
  "sends (emitSafely opts event) = 0" "sends (resolveCredential w cr) = 0" "sends (perform [e]) = (if toolSend e then 1 else 0)"
  "sends (awaited [] y) = 0" "sends (awaited [e] d) = (if toolSend e then 1 else 0)"
  by (simp_all add: sends_def pure_step_def return_response_def throw_error_def toolAudit_def emitSafely_def perform_def
      resolveCredential_def awaited_def)

lemma sends_validate [simp]: "sends (validateRequestSession w rq identity) = 0"
  by (auto simp: validateRequestSession_def split: option.split list.split sum.split intro!: sends_seq_0)

lemma sends_providerError [simp]: "sends (providerError opts w identity message tool args er ex ra) = 0"
  unfolding providerError_def Let_def by simp

lemma sends_decide [simp]: "sends (decidePolicy opts w identity rid input args) = 0"
  unfolding decidePolicy_def by (rule sends_seq_0) simp_all

lemma sends_oauthCall [simp]: "sends (oauthCall opts w identity message kind) = 0"
  unfolding oauthCall_def Let_def by (cases kind) simp_all

lemma sends_reveal [simp]: "sends (revealCredential opts w identity token task message) = 0"
  by (auto simp: revealCredential_def split: option.split intro!: sends_seq_0)

lemma sends_live [simp]: "sends (liveToolsList opts w rid identity token task resolved) = 0"
  by (auto simp: liveToolsList_def Let_def split: option.split intro!: sends_seq_0 sends_catching_0)

lemma sends_list [simp]: "sends (handleToolsList opts w rq identity token task message) = 0"
  unfolding handleToolsList_def Let_def by (auto intro!: sends_seq_0)

lemma sends_exchange: "sends (exchange opts w identity rq message tool args n c) \<le> 1"
  unfolding exchange_def Let_def by (rule sends_seq_then) (cases c, simp_all)

definition replays :: "GenericGovernedTool \<Rightarrow> nat" where
  "replays tool = (if tk_actionClass (gt_grants tool) = ''read'' then 1 else 0)"

lemma sends_replay: "sends (replaySend opts w identity rq message tool args n c) \<le> replays tool"
  unfolding replaySend_def replays_def using sends_exchange [of opts w identity rq message tool args n "Some c"] by simp

lemma sends_recovery: "sends (recoverCredential opts w identity rq message tool args cr i raw a) \<le> replays tool"
  unfolding recoverCredential_def
  by (rule sends_seq_quiet) (simp_all split: option.split, intro allI impI sends_seq_then [OF sends_replay], simp split: prod.split)

lemma sends_recoverUnauthorized: "sends (recoverUnauthorized opts w identity rq message tool args cr a) \<le> replays tool"
  unfolding recoverUnauthorized_def by (cases a) (simp split: option.split add: sends_recovery)

lemma sends_recoverOpaque: "sends (recoverOpaque opts w identity rq message tool args cr a) \<le> replays tool"
proof -
  obtain n c r t where a: "a = (n, c, r, t)" by (cases a) auto
  have last: "sends (case atlassianOpaqueFailure (gp_parseJson opts) (snd (snd (snd a))) of
      None \<Rightarrow> pure_step a
    | Some failure \<Rightarrow> (case opaqueFailureAnswer v failure of (error, explanation) \<Rightarrow>
        providerError opts w identity message tool args error explanation None)) = 0" for a :: attempt and v
    by (simp split: option.split prod.split)
  have stage: "sends (if v = Invalid \<and> gp_canRecover opts then recoverCredential opts w identity rq message tool args cr 1 raw a
    else pure_step a) \<le> replays tool" for v raw
    by (simp add: sends_recovery)
  show ?thesis
  proof (cases "atlassianOpaqueFailure (gp_parseJson opts) t"; cases "rawCredential c")
    fix failure raw
    assume "atlassianOpaqueFailure (gp_parseJson opts) t = Some failure" "rawCredential c = Some raw"
    then show ?thesis
      unfolding recoverOpaque_def
      by (simp add: a del: One_nat_def) (rule impI, rule sends_seq_quiet, simp, rule sends_seq_then, rule stage, rule last)
  qed (simp_all add: recoverOpaque_def a)
qed

lemma sends_refuse [simp]: "sends (refuseHttpFailure opts w identity message tool args a) = 0"
  by (cases "jiraHttpFailure (fst (snd (snd a)))") (auto simp: refuseHttpFailure_def)

lemma sends_forward: "sends (forwardToolCall opts w rq identity token message tool args) \<le> 1 + 2 * replays tool"
proof -
  let ?cr = "toolRequest identity token tool" and ?jira = "isJiraProvider (gp_descriptor opts)"
  have split: "1 + 2 * replays tool = 1 + (replays tool + replays tool)" by simp
  have first: "sends (if ?jira then recoverUnauthorized opts w identity rq message tool args ?cr a else pure_step a) \<le> replays tool"
    and second: "sends (if ?jira then recoverOpaque opts w identity rq message tool args ?cr a else pure_step a) \<le> replays tool" for a
    by (simp_all add: sends_recoverUnauthorized sends_recoverOpaque)
  show ?thesis
    unfolding forwardToolCall_def Let_def split
    apply (rule sends_catching)
     apply (rule sends_seq_quiet, simp)
     apply (rule sends_seq_quiet, simp)
     apply (rule sends_seq [OF sends_exchange])
     apply (simp only: split_beta)
     apply (rule sends_seq [OF first])
     apply (rule sends_seq_then [OF second])
     apply (simp_all split: prod.split)
    done
qed

text \<open>The limit for a request: three sends for a call of a tool that reads, one for any other.\<close>

definition sendLimit :: "GenericProxyOptions \<Rightarrow> incoming_request \<Rightarrow> nat" where
  "sendLimit opts rq =
     (case parseJsonRpcMessage (gp_parseJson opts) (iq_body rq) of
        None \<Rightarrow> 1
      | Some message \<Rightarrow>
          (case js_get (toolsByName (gp_catalog opts)) (coalesce (pm_toolName message) []) of
             None \<Rightarrow> 1
           | Some tool \<Rightarrow> if tk_actionClass (gt_grants tool) = ''read'' then 3 else 1))"

lemma sendLimit_1: "1 \<le> sendLimit opts rq"
  by (simp add: sendLimit_def split: option.split)

lemma sends_post: "sends (handlePost opts w rq identity token task) \<le> sendLimit opts rq"
proof (cases "parseJsonRpcMessage (gp_parseJson opts) (iq_body rq)")
  case (Some message)
  have "sends (handleToolsCall opts w rq identity token task message) \<le> sendLimit opts rq"
  proof (cases "js_get (toolsByName (gp_catalog opts)) (coalesce (pm_toolName message) [])")
    case None
    show ?thesis
      unfolding handleToolsCall_def by (rule sends_seq_quiet) (simp_all add: None split: option.split)
  next
    case tool: (Some tool)
    have l: "sendLimit opts rq = 1 + 2 * replays tool" by (simp add: sendLimit_def Some tool replays_def)
    have f: "sends (seq (decidePolicy opts w identity rid input args) (\<lambda>_. forwardToolCall opts w rq identity token message tool args'))
      \<le> 1 + 2 * replays tool" for rid input args args'
      by (rule sends_seq_quiet) (simp, rule sends_forward)
    show ?thesis
      unfolding handleToolsCall_def l
      by (rule sends_seq_quiet) (simp_all add: tool Let_def f [simplified] split: option.split)
  qed
  moreover have "sends (handleInitialize opts w identity message) = 0" by (simp add: handleInitialize_def split: sum.split)
  ultimately show ?thesis by (simp add: handlePost_def Some)
qed (simp add: handlePost_def)

text \<open>C37: a call is sent to the upstream, or to the Jira executor, at most once, unless its tool reads: then
  at most three times, once more for each of the two ways in which a rejected credential can be
  recovered. A write whose credential was renewed is never replayed.\<close>

theorem writes_not_replayed: "sends (handleGeneric opts w rq) \<le> sendLimit opts rq"
proof -
  have "sends (handleDelete w rq identity token) = 0" for identity token
    unfolding handleDelete_def by simp
  moreover have "sends (handleGet opts w rq identity token) \<le> sendLimit opts rq" for identity token
  proof -
    have "sends (handleGet opts w rq identity token) \<le> 1"
    proof (cases "gd_upstream (gp_descriptor opts)")
      case (HttpUpstream url timeout)
      have s: "sends (seq (awaited [Sent (RawBody []) c key] y) (\<lambda>r. pure_step (safeStreamingResponse r))) \<le> 1" for c key y
        by (rule sends_seq_then) simp_all
      show ?thesis
        unfolding handleGet_def HttpUpstream
        by simp (rule sends_seq_quiet, simp, rule sends_catching, rule sends_seq_quiet, simp_all add: s [simplified])
    qed (simp add: handleGet_def)
    with sendLimit_1 [of opts rq] show ?thesis by linarith
  qed
  ultimately show ?thesis
    unfolding handleGeneric_def using sends_post by (auto simp: Let_def split: option.split sum.split)
qed

end
