(* ===== verification/Github_Catalog.thy ===== *)
theory Github_Catalog
  imports Governed_Cli Task_Authorization
begin

text \<open>
  The pinned catalog of the GitHub wrapper (\<open>servers/github-mcp/wrapper/src/catalog/github-mcp.ts\<close> and its table of
  toolsets): the tools, how a call of one is classified, the grants for them and the toolsets. The table
  of the definitions of the tools, which the upstream's image generates, is a parameter.

  A property of an object that is read by a name the caller chooses may be inherited (\<open>toString\<close>); the value
  is then no string, and only its text is kept.
\<close>

section \<open>Tables\<close>

definition GITHUB_MCP_CATALOG_ID :: string where "GITHUB_MCP_CATALOG_ID = ''github-mcp-server@1.6.0/all''"

definition GITHUB_MCP_TOOL_NAMES :: "string list" where
  "GITHUB_MCP_TOOL_NAMES =
     [''actions_get'', ''actions_list'', ''actions_run_trigger'', ''add_comment_to_pending_review'',
      ''add_issue_comment'', ''add_reply_to_pull_request_comment'', ''assign_copilot_to_issue'',
      ''create_branch'', ''create_gist'', ''create_or_update_file'', ''create_pull_request'',
      ''create_repository'', ''delete_file'', ''discussion_comment_write'', ''dismiss_notification'',
      ''fork_repository'', ''get_code_quality_finding'', ''get_code_scanning_alert'', ''get_commit'',
      ''get_dependabot_alert'', ''get_discussion'', ''get_discussion_comments'', ''get_file_contents'',
      ''get_gist'', ''get_global_security_advisory'', ''get_job_logs'', ''get_label'', ''get_latest_release'',
      ''get_me'', ''get_notification_details'', ''get_release_by_tag'', ''get_repository_tree'',
      ''get_secret_scanning_alert'', ''get_tag'', ''get_team_members'', ''get_teams'', ''issue_read'',
      ''issue_write'', ''label_write'', ''list_branches'', ''list_code_scanning_alerts'', ''list_commits'',
      ''list_dependabot_alerts'', ''list_discussion_categories'', ''list_discussions'', ''list_gists'',
      ''list_global_security_advisories'', ''list_issue_fields'', ''list_issue_types'', ''list_issues'',
      ''list_label'', ''list_notifications'', ''list_org_repository_security_advisories'',
      ''list_pull_requests'', ''list_releases'', ''list_repository_collaborators'',
      ''list_repository_security_advisories'', ''list_secret_scanning_alerts'', ''list_starred_repositories'',
      ''list_tags'', ''manage_notification_subscription'', ''manage_repository_notification_subscription'',
      ''mark_all_notifications_read'', ''merge_pull_request'', ''projects_get'', ''projects_list'',
      ''projects_write'', ''pull_request_read'', ''pull_request_review_write'', ''push_files'',
      ''request_copilot_review'', ''search_code'', ''search_commits'', ''search_issues'', ''search_orgs'',
      ''search_pull_requests'', ''search_repositories'', ''search_users'', ''star_repository'',
      ''sub_issue_write'', ''unstar_repository'', ''update_gist'', ''update_pull_request'',
      ''update_pull_request_branch'']"

definition GITHUB_MCP_READ_ONLY_TOOL_NAMES :: "string list" where
  "GITHUB_MCP_READ_ONLY_TOOL_NAMES =
     [''actions_get'', ''actions_list'', ''get_code_quality_finding'', ''get_code_scanning_alert'',
      ''get_commit'', ''get_dependabot_alert'', ''get_discussion'', ''get_discussion_comments'',
      ''get_file_contents'', ''get_gist'', ''get_global_security_advisory'', ''get_job_logs'', ''get_label'',
      ''get_latest_release'', ''get_me'', ''get_notification_details'', ''get_release_by_tag'',
      ''get_repository_tree'', ''get_secret_scanning_alert'', ''get_tag'', ''get_team_members'', ''get_teams'',
      ''issue_read'', ''list_branches'', ''list_code_scanning_alerts'', ''list_commits'',
      ''list_dependabot_alerts'', ''list_discussion_categories'', ''list_discussions'', ''list_gists'',
      ''list_global_security_advisories'', ''list_issue_fields'', ''list_issue_types'', ''list_issues'',
      ''list_label'', ''list_notifications'', ''list_org_repository_security_advisories'',
      ''list_pull_requests'', ''list_releases'', ''list_repository_collaborators'',
      ''list_repository_security_advisories'', ''list_secret_scanning_alerts'', ''list_starred_repositories'',
      ''list_tags'', ''projects_get'', ''projects_list'', ''pull_request_read'', ''search_code'',
      ''search_commits'', ''search_issues'', ''search_orgs'', ''search_pull_requests'', ''search_repositories'',
      ''search_users'']"

definition WRITE_ONLY_TOOL_NAMES :: "string list" where
  "WRITE_ONLY_TOOL_NAMES =
     [''add_comment_to_pending_review'', ''add_issue_comment'', ''add_reply_to_pull_request_comment'',
      ''assign_copilot_to_issue'', ''create_branch'', ''create_gist'', ''create_or_update_file'',
      ''create_pull_request'', ''create_repository'', ''dismiss_notification'', ''fork_repository'',
      ''issue_write'', ''mark_all_notifications_read'', ''merge_pull_request'', ''push_files'',
      ''request_copilot_review'', ''star_repository'', ''unstar_repository'', ''update_gist'',
      ''update_pull_request'', ''update_pull_request_branch'']"

record DynamicActionRule =
  dr_selector :: string
  dr_values :: "(string, string) jsmap"

definition DYNAMIC_ACTION_RULES :: "(string, DynamicActionRule) jsmap" where
  "DYNAMIC_ACTION_RULES =
     [(''actions_run_trigger'', \<lparr>dr_selector = ''method'',
        dr_values = [(''run_workflow'', ''write''), (''rerun_workflow_run'', ''write''), (''rerun_failed_jobs'', ''write''), (''cancel_workflow_run'', ''destructive''), (''delete_workflow_run_logs'', ''destructive'')]\<rparr>),
      (''discussion_comment_write'', \<lparr>dr_selector = ''method'',
        dr_values = [(''add'', ''write''), (''reply'', ''write''), (''update'', ''write''), (''delete'', ''destructive''), (''mark_answer'', ''write''), (''unmark_answer'', ''write'')]\<rparr>),
      (''label_write'', \<lparr>dr_selector = ''method'',
        dr_values = [(''create'', ''write''), (''update'', ''write''), (''delete'', ''destructive'')]\<rparr>),
      (''manage_notification_subscription'', \<lparr>dr_selector = ''action'',
        dr_values = [(''ignore'', ''write''), (''watch'', ''write''), (''delete'', ''destructive'')]\<rparr>),
      (''manage_repository_notification_subscription'', \<lparr>dr_selector = ''action'',
        dr_values = [(''ignore'', ''write''), (''watch'', ''write''), (''delete'', ''destructive'')]\<rparr>),
      (''projects_write'', \<lparr>dr_selector = ''method'',
        dr_values = [(''add_project_item'', ''write''), (''update_project_item'', ''write''), (''delete_project_item'', ''destructive''), (''create_project_status_update'', ''write''), (''create_project'', ''write''), (''create_iteration_field'', ''write'')]\<rparr>),
      (''pull_request_review_write'', \<lparr>dr_selector = ''method'',
        dr_values = [(''create'', ''write''), (''submit_pending'', ''write''), (''delete_pending'', ''destructive''), (''resolve_thread'', ''write''), (''unresolve_thread'', ''write'')]\<rparr>),
      (''sub_issue_write'', \<lparr>dr_selector = ''method'',
        dr_values = [(''add'', ''write''), (''remove'', ''destructive''), (''reprioritize'', ''write'')]\<rparr>)]"

definition UPSTREAM_DESTRUCTIVE_HINT_TOOLS :: "string list" where
  "UPSTREAM_DESTRUCTIVE_HINT_TOOLS =
     [''actions_run_trigger'', ''delete_file'', ''discussion_comment_write'', ''projects_write'']"

definition LOCAL_TOOL_ACTIONS :: "(string, string) jsmap" where
  "LOCAL_TOOL_ACTIONS = [(''github_oauth_status'', ''read''), (''github_oauth_start'', ''write'')]"

definition GITHUB_MCP_DEFAULT_TOOLSETS :: "string list" where
  "GITHUB_MCP_DEFAULT_TOOLSETS = [''context'', ''copilot'', ''issues'', ''pull_requests'', ''repos'', ''users'']"

definition GITHUB_MCP_TOOLSET_TOOL_NAMES :: "(string, string list) jsmap" where
  "GITHUB_MCP_TOOLSET_TOOL_NAMES =
     [(''actions'', [''actions_get'', ''actions_list'', ''actions_run_trigger'', ''get_job_logs'']),
      (''code_quality'', [''get_code_quality_finding'']),
      (''code_security'', [''get_code_scanning_alert'', ''list_code_scanning_alerts'']),
      (''context'', [''get_me'', ''get_team_members'', ''get_teams'']),
      (''copilot'', [''assign_copilot_to_issue'', ''request_copilot_review'']),
      (''dependabot'', [''get_dependabot_alert'', ''list_dependabot_alerts'']),
      (''discussions'', [''discussion_comment_write'', ''get_discussion'', ''get_discussion_comments'',
         ''list_discussion_categories'', ''list_discussions'']),
      (''gists'', [''create_gist'', ''get_gist'', ''list_gists'', ''update_gist'']),
      (''git'', [''get_repository_tree'']),
      (''issues'', [''add_issue_comment'', ''get_label'', ''issue_read'', ''issue_write'', ''list_issue_fields'',
         ''list_issue_types'', ''list_issues'', ''search_issues'', ''sub_issue_write'']),
      (''labels'', [''get_label'', ''label_write'', ''list_label'']),
      (''notifications'', [''dismiss_notification'', ''get_notification_details'', ''list_notifications'',
         ''manage_notification_subscription'', ''manage_repository_notification_subscription'',
         ''mark_all_notifications_read'']),
      (''orgs'', [''search_orgs'']),
      (''projects'', [''projects_get'', ''projects_list'', ''projects_write'']),
      (''pull_requests'', [''add_comment_to_pending_review'', ''add_reply_to_pull_request_comment'', ''create_pull_request'',
         ''list_pull_requests'', ''merge_pull_request'', ''pull_request_read'', ''pull_request_review_write'',
         ''search_pull_requests'', ''update_pull_request'', ''update_pull_request_branch'']),
      (''repos'', [''create_branch'', ''create_or_update_file'', ''create_repository'', ''delete_file'', ''fork_repository'',
         ''get_commit'', ''get_file_contents'', ''get_latest_release'', ''get_release_by_tag'', ''get_tag'',
         ''list_branches'', ''list_commits'', ''list_releases'', ''list_repository_collaborators'', ''list_tags'',
         ''push_files'', ''search_code'', ''search_commits'', ''search_repositories'']),
      (''secret_protection'', [''get_secret_scanning_alert'', ''list_secret_scanning_alerts'']),
      (''security_advisories'', [''get_global_security_advisory'', ''list_global_security_advisories'',
         ''list_org_repository_security_advisories'', ''list_repository_security_advisories'']),
      (''stargazers'', [''list_starred_repositories'', ''star_repository'', ''unstar_repository'']),
      (''users'', [''search_users''])]"

definition GITHUB_MCP_TOOLSET_NAMES :: "string list" where
  "GITHUB_MCP_TOOLSET_NAMES = map fst GITHUB_MCP_TOOLSET_TOOL_NAMES"

definition GITHUB_MCP_SHIPPED_TOOLSETS :: "string list" where
  "GITHUB_MCP_SHIPPED_TOOLSETS =
     GITHUB_MCP_DEFAULT_TOOLSETS @ [''actions'', ''code_security'', ''discussions'', ''notifications'', ''orgs'', ''projects'']"

section \<open>Toolsets\<close>

text \<open>The loop of \<open>parseGithubMcpToolsets\<close>: the toolsets so far, in the order of insertion.\<close>

fun expandToolsets :: "string list \<Rightarrow> string list \<Rightarrow> string + string list" where
  "expandToolsets expanded [] =
     (if expanded = [] then Inl ''GITHUB_MCP_TOOLSETS must enable at least one pinned v1.6.0 toolset'' else Inr expanded)"
| "expandToolsets expanded (entry # entries) =
     (if entry = [] then expandToolsets expanded entries
      else if entry = ''all'' then Inr GITHUB_MCP_TOOLSET_NAMES
      else if entry = ''default'' then expandToolsets (js_unique (expanded @ GITHUB_MCP_DEFAULT_TOOLSETS)) entries
      else if entry \<notin> set GITHUB_MCP_TOOLSET_NAMES
      then Inl (''GITHUB_MCP_TOOLSETS contains unsupported toolset '' @ entry @
                ''; expected default, all, or a pinned v1.6.0 toolset'')
      else expandToolsets (js_unique (expanded @ [entry])) entries)"

definition parseGithubMcpToolsets :: "string option \<Rightarrow> string + string list" where
  "parseGithubMcpToolsets v =
     (case v of
        None \<Rightarrow> Inr GITHUB_MCP_SHIPPED_TOOLSETS
      | Some s \<Rightarrow> expandToolsets [] (if trim s \<noteq> [] then map trim (split_on CHR '','' s) else []))"

definition isPinnedGithubTool :: "string \<Rightarrow> bool" where
  "isPinnedGithubTool name \<longleftrightarrow> name \<in> set GITHUB_MCP_TOOL_NAMES"

text \<open>The generated definitions of the tools are named JSON values; the type of a toolset is one of the names.\<close>

definition listStableGithubTools ::
  "(string \<times> json) list \<Rightarrow> string list \<Rightarrow> string option \<Rightarrow> (string \<times> json) list" where
  "listStableGithubTools definitions toolsets catalogId =
     (let enabled = concat (map (\<lambda>s. coalesce (js_get GITHUB_MCP_TOOLSET_TOOL_NAMES s) []) toolsets) in
      filter (\<lambda>(name, _). name \<in> set enabled \<and>
                (catalogId \<noteq> Some GITHUB_MCP_CATALOG_ID \<or> isPinnedGithubTool name)) definitions)"

section \<open>Classes\<close>

datatype action_class = ActionClass string | ForeignClass string

definition grantActionsForTool :: "string \<Rightarrow> string list option" where
  "grantActionsForTool name =
     (if name \<in> set GITHUB_MCP_READ_ONLY_TOOL_NAMES then Some [''read'']
      else if name \<in> set WRITE_ONLY_TOOL_NAMES then Some [''write'']
      else if name = ''delete_file'' then Some [''destructive'']
      else if name \<in> set (map fst DYNAMIC_ACTION_RULES) then Some [''write'', ''destructive'']
      else None)"

definition github_grant :: "string \<Rightarrow> string \<Rightarrow> TaskToolGrant" where
  "github_grant action name = \<lparr>tg_provider = ''github'', tg_resource = name, tg_action = action\<rparr>"

definition GITHUB_MCP_TOOL_GRANTS :: "TaskToolGrant list" where
  "GITHUB_MCP_TOOL_GRANTS =
     map (github_grant ''read'') GITHUB_MCP_READ_ONLY_TOOL_NAMES @ map (github_grant ''write'') WRITE_ONLY_TOOL_NAMES @
     [github_grant ''destructive'' ''delete_file''] @
     concat (map (\<lambda>(name, _). [github_grant ''write'' name, github_grant ''destructive'' name]) DYNAMIC_ACTION_RULES)"

definition classifyGithubToolAction :: "string \<Rightarrow> (string \<times> json) list \<Rightarrow> action_class option" where
  "classifyGithubToolAction name args =
     (case js_lookup LOCAL_TOOL_ACTIONS name of
        Own a \<Rightarrow> Some (ActionClass a)
      | Inherited \<Rightarrow> Some (ForeignClass name)
      | Absent \<Rightarrow>
          (if name \<in> set GITHUB_MCP_READ_ONLY_TOOL_NAMES then Some (ActionClass ''read'')
           else if name \<in> set WRITE_ONLY_TOOL_NAMES then Some (ActionClass ''write'')
           else if name = ''delete_file'' then Some (ActionClass ''destructive'')
           else case js_get DYNAMIC_ACTION_RULES name of
               None \<Rightarrow> None
             | Some rule \<Rightarrow>
                 (case js_get args (dr_selector rule) of
                    Some (JStr selector) \<Rightarrow>
                      (case js_lookup (dr_values rule) selector of
                         Own a \<Rightarrow> Some (ActionClass a) | Inherited \<Rightarrow> Some (ForeignClass selector) | Absent \<Rightarrow> None)
                  | _ \<Rightarrow> None)))"

definition pinnedGithubToolAnnotationsMatch :: "string \<Rightarrow> json option \<Rightarrow> bool" where
  "pinnedGithubToolAnnotationsMatch name annotations =
     (case Option.bind annotations as_record of
        None \<Rightarrow> False
      | Some a \<Rightarrow>
          isPinnedGithubTool name \<and>
          js_get a ''readOnlyHint'' = Some (JBool (name \<in> set GITHUB_MCP_READ_ONLY_TOOL_NAMES)) \<and>
          js_get a ''destructiveHint'' = (if name \<in> set UPSTREAM_DESTRUCTIVE_HINT_TOOLS then Some (JBool True) else None) \<and>
          js_get a ''idempotentHint'' = Some (JBool (name = ''assign_copilot_to_issue'')))"

text \<open>The classification by name of a wrapper without the pinned catalog.\<close>

definition mentions :: "string list \<Rightarrow> string \<Rightarrow> bool" where
  "mentions words name \<longleftrightarrow> list_ex (\<lambda>w. sublist w (to_lower_case name)) words"

definition classifyLegacyGithubToolAction :: "string \<Rightarrow> string" where
  "classifyLegacyGithubToolAction name =
     (if name = ''github_oauth_start'' then ''write''
      else if mentions [''delete'', ''remove'', ''destroy''] name then ''destructive''
      else if mentions [''create'', ''update'', ''edit'', ''merge'', ''close'', ''reopen'', ''add'', ''set'', ''request'', ''review'', ''comment''] name
      then ''write'' else ''read'')"

definition githubToolGrants :: "string \<Rightarrow> TaskToolGrant list" where
  "githubToolGrants name =
     (if isPinnedGithubTool name then filter (\<lambda>g. tg_resource g = name) GITHUB_MCP_TOOL_GRANTS
      else [github_grant (classifyLegacyGithubToolAction name) name])"

section \<open>The tables agree\<close>

text \<open>Every tool of the catalog has a kind, so that the module loads.\<close>

lemma catalog_classified: "list_all (\<lambda>name. grantActionsForTool name \<noteq> None) GITHUB_MCP_TOOL_NAMES"
  by code_simp

lemma dynamic_classes:
  "list_all (\<lambda>(name, rule). list_all (\<lambda>(v, a). a \<in> {''write'', ''destructive''}) (dr_values rule)) DYNAMIC_ACTION_RULES"
  by code_simp

lemma dynamic_class:
  assumes "js_get DYNAMIC_ACTION_RULES name = Some rule" "js_get (dr_values rule) v = Some a"
  shows "a = ''write'' \<or> a = ''destructive''"
proof -
  have "(name, rule) \<in> set DYNAMIC_ACTION_RULES" "(v, a) \<in> set (dr_values rule)" using assms by (auto dest: map_of_SomeD)
  with dynamic_classes show ?thesis by (auto simp: list_all_iff)
qed

lemma local_not_pinned: "list_all (\<lambda>(name, _). \<not> isPinnedGithubTool name) LOCAL_TOOL_ACTIONS"
  "list_all (\<lambda>name. \<not> isPinnedGithubTool name) OBJECT_PROTOTYPE_KEYS"
  by code_simp+

text \<open>What a call of a pinned tool is classified as is one of the grants for the tool: the list of tools, which
  asks for any of the grants, and the call, which asks for its own, agree.\<close>

lemma classification_granted:
  assumes "isPinnedGithubTool name" "classifyGithubToolAction name args = Some (ActionClass a)"
  shows "github_grant a name \<in> set (githubToolGrants name)"
proof -
  have absent: "js_lookup LOCAL_TOOL_ACTIONS name = Absent"
  proof -
    have "name \<notin> fst ` set LOCAL_TOOL_ACTIONS" "name \<notin> set OBJECT_PROTOTYPE_KEYS"
      using assms(1) local_not_pinned by (auto simp: list_all_iff)
    then have "js_get LOCAL_TOOL_ACTIONS name = None" by (simp add: map_of_eq_None_iff)
    then show ?thesis using \<open>name \<notin> set OBJECT_PROTOTYPE_KEYS\<close> by (simp add: js_lookup_def)
  qed
  consider "name \<in> set GITHUB_MCP_READ_ONLY_TOOL_NAMES" "a = ''read''" | "name \<in> set WRITE_ONLY_TOOL_NAMES" "a = ''write''"
    | "name = ''delete_file''" "a = ''destructive''"
    | rule where "(name, rule) \<in> set DYNAMIC_ACTION_RULES" "a = ''write'' \<or> a = ''destructive''"
    using assms(2) unfolding classifyGithubToolAction_def absent
    by (auto split: if_splits option.splits json.splits js_prop.splits simp: js_lookup_Own dest: map_of_SomeD dynamic_class)
  then have "github_grant a name \<in> set GITHUB_MCP_TOOL_GRANTS"
  proof cases
    case (4 rule)
    then have "\<exists>x \<in> set DYNAMIC_ACTION_RULES. github_grant a name \<in> set [github_grant ''write'' (fst x), github_grant ''destructive'' (fst x)]"
      by (intro bexI [of _ "(name, rule)"]) auto
    then show ?thesis by (simp add: GITHUB_MCP_TOOL_GRANTS_def split_beta)
  qed (auto simp: GITHUB_MCP_TOOL_GRANTS_def)
  then show ?thesis using assms(1) by (simp add: githubToolGrants_def github_grant_def)
qed

text \<open>A selector that names a property of every object is taken for a class.\<close>

lemma inherited_selector_classified:
  "classifyGithubToolAction ''label_write'' [(''method'', JStr ''toString'')] = Some (ForeignClass ''toString'')"
  "classifyGithubToolAction ''label_write'' [(''method'', JStr ''erase'')] = None"
  by code_simp+

text \<open>A configuration of toolsets that is accepted names pinned toolsets, each once, and at least one.\<close>

lemma toolsets_data: "set GITHUB_MCP_DEFAULT_TOOLSETS \<subseteq> set GITHUB_MCP_TOOLSET_NAMES" "distinct GITHUB_MCP_TOOLSET_NAMES"
  "GITHUB_MCP_TOOLSET_NAMES \<noteq> []" "set GITHUB_MCP_SHIPPED_TOOLSETS \<subseteq> set GITHUB_MCP_TOOLSET_NAMES" "distinct GITHUB_MCP_SHIPPED_TOOLSETS"
  "GITHUB_MCP_SHIPPED_TOOLSETS \<noteq> []"
  by code_simp+

lemma expandToolsets_ok:
  assumes "expandToolsets expanded entries = Inr ts" "set expanded \<subseteq> set GITHUB_MCP_TOOLSET_NAMES" "distinct expanded"
  shows "set ts \<subseteq> set GITHUB_MCP_TOOLSET_NAMES \<and> distinct ts \<and> ts \<noteq> []"
  using assms toolsets_data(1-3)
proof (induction expanded entries rule: expandToolsets.induct)
  case (2 expanded entry entries)
  then show ?case by (auto split: if_splits)
qed (auto split: if_splits)

lemma toolsets_wellformed:
  assumes "parseGithubMcpToolsets v = Inr ts"
  shows "set ts \<subseteq> set GITHUB_MCP_TOOLSET_NAMES \<and> distinct ts \<and> ts \<noteq> []"
  using assms expandToolsets_ok [of "[]"] toolsets_data by (auto simp: parseGithubMcpToolsets_def split: option.splits)

end
