(* ===== verification/Github_Proxy.thy ===== *)
theory Github_Proxy
  imports Generic_Transport Hop1 Handler_Steps Github_Catalog
begin

text \<open>
  The request handler of the GitHub wrapper (\<open>servers/github-mcp/wrapper/src/proxy.ts\<close>) and the forwarding of MCP
  requests that it shares (\<open>packages/wrapper-kit/src/mcp/proxy.ts\<close>). As in \<open>Generic_Proxy\<close>, the handler is a
  sequence of steps with effects; the answers of its environment are an argument.
\<close>

section \<open>Forwarding\<close>

definition FORWARDED_REQUEST_HEADERS :: "string list" where
  "FORWARDED_REQUEST_HEADERS = [''content-type'', ''mcp-protocol-version'']"

definition FORWARDED_RESPONSE_HEADERS :: "string list" where
  "FORWARDED_RESPONSE_HEADERS = [''content-type'', ''mcp-session-id'']"

record method_metadata =
  mm_method :: string
  mm_requestName :: "string option"
  mm_requestArguments :: "(string \<times> json) list option"

definition requestNameOf :: "(string \<times> json) list option \<Rightarrow> string option" where
  "requestNameOf params =
     orelse (Option.bind params (\<lambda>p. Option.bind (js_get p ''name'') as_string))
       (Option.bind params (\<lambda>p. Option.bind (js_get p ''uri'') as_string))"

definition methodMetadata :: "(string \<Rightarrow> json option) \<Rightarrow> upstream_body \<Rightarrow> method_metadata option" where
  "methodMetadata parseJson body =
     (case Option.bind (body_value parseJson body) as_record of
        None \<Rightarrow> None
      | Some payload \<Rightarrow>
          (case Option.bind (js_get payload ''method'') as_string of
             None \<Rightarrow> None
           | Some method \<Rightarrow>
               (let params = Option.bind (js_get payload ''params'') as_record; name = requestNameOf params in
                Some \<lparr>mm_method = method, mm_requestName = (if truthy name then name else None),
                      mm_requestArguments = Option.bind params (\<lambda>p. Option.bind (js_get p ''arguments'') as_record)\<rparr>)))"

definition int_str :: "int \<Rightarrow> string" where
  "int_str i = (if i < 0 then CHR ''-'' # nat_str (nat (- i)) else nat_str (nat i))"

text \<open>\<open>Number.isSafeInteger\<close>: at most \<open>2^53 - 1\<close> in size.\<close>

fun mcpParamHeaderValue :: "json \<Rightarrow> string option" where
  "mcpParamHeaderValue (JStr s) = (if CHR 0x0A \<in> set s \<or> CHR 0x0D \<in> set s then None else Some s)"
| "mcpParamHeaderValue (JBool b) = Some (if b then ''true'' else ''false'')"
| "mcpParamHeaderValue (JNum n) = (if of_int \<lfloor>n\<rfloor> = n \<and> \<bar>n\<bar> \<le> 9007199254740991 then Some (int_str \<lfloor>n\<rfloor>) else None)"
| "mcpParamHeaderValue _ = None"

text \<open>\<open>Headers.set\<close>: the value loses white space at its ends, and a value with a zero byte or a line break is refused
  with an exception. The names of headers are compared in lower case.\<close>

definition http_trim :: "string \<Rightarrow> string" where
  "http_trim v = (let w = (\<lambda>c. c \<in> {CHR 0x09, CHR 0x0A, CHR 0x0D, CHR '' ''}) in rev (dropWhile w (rev (dropWhile w v))))"

definition put_header :: "string \<Rightarrow> string option \<Rightarrow> (string \<times> string) list \<Rightarrow> (string \<times> string) list option" where
  "put_header name v hs =
     (case map_option http_trim v of
        None \<Rightarrow> Some hs
      | Some s \<Rightarrow> (if list_ex (\<lambda>c. c \<in> {CHR 0x00, CHR 0x0A, CHR 0x0D}) s then None else Some (js_set (to_lower_case name) s hs)))"

fun paramHeaders :: "(string \<times> json) list \<Rightarrow> (string \<times> string) list \<Rightarrow> (string \<times> string) list option" where
  "paramHeaders [] hs = Some hs"
| "paramHeaders ((name, v) # args) hs =
     (let headerName = ''mcp-param-'' @ name in
      if HEADER_PATTERN headerName
      then Option.bind (put_header headerName (mcpParamHeaderValue v) hs) (paramHeaders args)
      else paramHeaders args hs)"

definition upstreamMcpHeaders ::
  "(string \<Rightarrow> json option) \<Rightarrow> incoming_request \<Rightarrow> string \<Rightarrow> upstream_body \<Rightarrow> (string \<times> string) list option" where
  "upstreamMcpHeaders parseJson rq credential body =
     (let hs = foldl (\<lambda>hs name. set_header name (header_of (iq_headers rq) name) hs) [] FORWARDED_REQUEST_HEADERS in
      Option.bind (put_header ''authorization'' (Some (''Bearer '' @ credential)) hs) (\<lambda>hs.
        case methodMetadata parseJson body of
          None \<Rightarrow> Some hs
        | Some m \<Rightarrow>
            Option.bind (put_header ''mcp-method'' (if mm_method m \<noteq> [] then Some (mm_method m) else None) hs) (\<lambda>hs.
            Option.bind (put_header ''mcp-name'' (mm_requestName m) hs)
              (paramHeaders (coalesce (mm_requestArguments m) [])))))"

definition forwardMcpRequest ::
  "(string \<Rightarrow> json option) \<Rightarrow> string \<Rightarrow> incoming_request \<Rightarrow> string \<Rightarrow> upstream_body \<Rightarrow> upstream_call option" where
  "forwardMcpRequest parseJson url rq credential body =
     map_option (\<lambda>hs. \<lparr>ca_url = url, ca_method = iq_method rq, ca_headers = hs, ca_body = body\<rparr>)
       (upstreamMcpHeaders parseJson rq credential body)"

definition withUpstreamProtocolMetadata ::
  "(string \<Rightarrow> json option) \<Rightarrow> incoming_request \<Rightarrow> upstream_body \<Rightarrow> string \<times> string \<Rightarrow> upstream_body" where
  "withUpstreamProtocolMetadata parseJson rq body serverInfo =
     (case Option.bind (body_value parseJson body) as_record of
        None \<Rightarrow> body
      | Some payload \<Rightarrow>
          (let params = record_or_empty (js_get payload ''params''); meta = record_or_empty (js_get params ''_meta'');
               meta = js_set ''io.modelcontextprotocol/protocolVersion''
                        (JStr (coalesce (js_get (iq_headers rq) ''mcp-protocol-version'') ''2025-06-18'')) meta;
               meta = js_set ''io.modelcontextprotocol/clientInfo''
                        (JObj [(''name'', JStr (fst serverInfo)), (''version'', JStr (snd serverInfo))]) meta;
               meta = js_set ''io.modelcontextprotocol/clientCapabilities'' (JObj []) meta in
           JsonBody (JObj (js_set ''params'' (JObj (js_set ''_meta'' (JObj meta) params)) payload))))"

definition forwardedMcpResponseHeaders :: "upstream_reply \<Rightarrow> (string \<times> string) list" where
  "forwardedMcpResponseHeaders r =
     foldl (\<lambda>hs name. set_header name (header_of (re_headers r) name) hs) [] FORWARDED_RESPONSE_HEADERS"

section \<open>Options, effects and answers\<close>

record GithubProxyOptions =
  gh_upstreamUrl :: string
  gh_governanceCatalogId :: "string option"
  gh_githubToolsets :: "string list option"
  gh_stableTools :: "(string \<times> json) list"
  gh_authenticate :: "string \<Rightarrow> Hop1ValidationError + Hop1Identity"
  gh_canRecover :: bool
  gh_hasOAuthStatus :: bool
  gh_hasStartOAuth :: bool
  gh_githubScopes :: "string list option"
  gh_aliases :: "(string, string) jsmap option"
  gh_audit :: bool
  gh_policy :: "ToolPolicy option"
  gh_allowLegacyUnscopedTaskTokens :: bool
  gh_parseJson :: "string \<Rightarrow> json option"
  gh_stringify :: "json \<Rightarrow> string"
  gh_digestArgs :: "(string \<times> json) list \<Rightarrow> string"

datatype github_effect =
  GhReported Hop1FailureClassification
| GhDecided ToolPolicyInput
| GhResolved Hop1Identity
| GhRecovered Hop1Identity string
| GhForwarded upstream_call
| GhStatus Hop1Identity
| GhStart Hop1Identity "string option"
| GhAudited AuditEvent

text \<open>A token that cannot be resolved because the user has to authorize again is told from other failures.\<close>

datatype token_answer = TokenIs "string option" | ReauthRequired | ResolveFailed

record github_world =
  hw_ts :: string
  hw_latencyMs :: int
  hw_resolve :: "Hop1Identity \<Rightarrow> token_answer"
  hw_recover :: "Hop1Identity \<Rightarrow> string \<Rightarrow> string option option"
  hw_send :: "nat \<Rightarrow> upstream_call \<Rightarrow> upstream_reply option"
  hw_status :: "Hop1Identity \<Rightarrow> (bool \<times> json) option"
  hw_start :: "Hop1Identity \<Rightarrow> string option \<Rightarrow> json option"
  hw_auditOk :: "AuditEvent \<Rightarrow> bool"
  hw_errorText :: string

type_synonym 'a github_step = "(github_effect, 'a) step"

definition SERVER_INFO :: "string \<times> string" where "SERVER_INFO = (''github-mcp-wrapper'', ''0.1.0'')"

definition local_schema :: "(string \<times> json) list \<Rightarrow> json" where
  "local_schema props =
     JObj [(''type'', JStr ''object''), (''additionalProperties'', JBool False), (''properties'', JObj props), (''required'', JArr [])]"

definition LOCAL_TOOLS :: "(string \<times> json) list" where
  "LOCAL_TOOLS =
     [(''github_oauth_status'',
       JObj [(''name'', JStr ''github_oauth_status''),
         (''description'', JStr ''Check whether the current MCP-GW user has connected a GitHub account for GitHub MCP tools.''),
         (''inputSchema'', local_schema [])]),
      (''github_oauth_start'',
       JObj [(''name'', JStr ''github_oauth_start''),
         (''description'',
           JStr ''Start GitHub OAuth connection for the current MCP-GW user and return a browser authorization URL.''),
         (''inputSchema'', local_schema [(''redirectAfter'', JObj [(''type'', JStr ''string''),
            (''description'', JStr ''Optional URL to return to after GitHub OAuth completes.'')])]),
         (''annotations'', JObj [(''readOnlyHint'', JBool False)])])]"

section \<open>Messages\<close>

definition githubBearerToken :: "incoming_request \<Rightarrow> string option" where
  "githubBearerToken rq =
     (case map_option (split_on CHR '' '') (header_of (iq_headers rq) ''authorization'') of
        Some (scheme # token # _) \<Rightarrow> (if scheme = ''Bearer'' \<and> token \<noteq> [] then Some token else None)
      | _ \<Rightarrow> None)"

definition singleJsonRpcObject :: "(string \<Rightarrow> json option) \<Rightarrow> string \<Rightarrow> bool" where
  "singleJsonRpcObject parseJson body \<longleftrightarrow> Option.bind (parseJson body) as_record \<noteq> None"

record parsed_method =
  gm_id :: json
  gm_method :: string
  gm_isNotification :: bool

definition parseMethod :: "(string \<Rightarrow> json option) \<Rightarrow> string \<Rightarrow> parsed_method option" where
  "parseMethod parseJson body =
     (case Option.bind (parseJson body) as_record of
        None \<Rightarrow> None
      | Some payload \<Rightarrow>
          map_option (\<lambda>method. \<lparr>gm_id = jsonRpcId (js_get payload ''id''), gm_method = method,
                                gm_isNotification = (js_get payload ''id'' = None)\<rparr>)
            (Option.bind (js_get payload ''method'') as_string))"

text \<open>The name of a tool, or a value that an alias has inherited, known by its text.\<close>

datatype tool_name = ToolName string | ForeignName string

fun toolText :: "tool_name \<Rightarrow> string" where
  "toolText (ToolName s) = s"
| "toolText (ForeignName s) =
     (if s = ''__proto__'' then ''[object Object]''
      else ''function '' @ (if s = ''constructor'' then ''Object'' else s) @ ''() { [native code] }'')"

fun nameField :: "tool_name \<Rightarrow> (string \<times> json) list" where
  "nameField (ToolName s) = [(''name'', JStr s)]"
| "nameField (ForeignName s) = (if s = ''__proto__'' then [(''name'', JObj [])] else [])"

record ToolCallContext =
  tc_id :: json
  tc_originalName :: string
  tc_toolName :: tool_name
  tc_args :: "(string \<times> json) list"
  tc_actionClass :: "action_class option"
  tc_body :: json

definition aliasedName :: "(string, string) jsmap \<Rightarrow> string \<Rightarrow> tool_name" where
  "aliasedName aliases name =
     (case js_lookup aliases name of Own s \<Rightarrow> ToolName s | Inherited \<Rightarrow> ForeignName name | Absent \<Rightarrow> ToolName name)"

fun isPinnedName :: "tool_name \<Rightarrow> bool" where
  "isPinnedName (ToolName s) = isPinnedGithubTool s"
| "isPinnedName (ForeignName _) = False"

fun classifyPinned :: "tool_name \<Rightarrow> (string \<times> json) list \<Rightarrow> action_class option" where
  "classifyPinned (ToolName s) args = classifyGithubToolAction s args"
| "classifyPinned (ForeignName _) args = None"

definition parseToolCall ::
  "(string \<Rightarrow> json option) \<Rightarrow> (string, string) jsmap \<Rightarrow> string option \<Rightarrow> string \<Rightarrow> ToolCallContext option" where
  "parseToolCall parseJson aliases catalogId body =
     (case Option.bind (parseJson body) as_record of
        None \<Rightarrow> None
      | Some payload \<Rightarrow>
          (if js_get payload ''method'' \<noteq> Some (JStr ''tools/call'') then None
           else case Option.bind (js_get payload ''params'') as_record of
               None \<Rightarrow> None
             | Some params \<Rightarrow>
                 (case js_get params ''name'' of
                    Some (JStr (c # cs)) \<Rightarrow>
                      (let name = aliasedName aliases (c # cs); args = record_or_empty (js_get params ''arguments'');
                           rid = jsonRpcId (js_get payload ''id'') in
                       Some \<lparr>tc_id = rid, tc_originalName = c # cs, tc_toolName = name, tc_args = args,
                             tc_actionClass =
                               (if catalogId = Some GITHUB_MCP_CATALOG_ID \<or> isPinnedName name then classifyPinned name args
                                else Some (ActionClass (classifyLegacyGithubToolAction (toolText name)))),
                             tc_body = JObj [(''jsonrpc'', JStr ''2.0''), (''id'', rid), (''method'', JStr ''tools/call''),
                               (''params'', JObj (nameField name @ [(''arguments'', JObj args)]))]\<rparr>)
                  | _ \<Rightarrow> None)))"

definition canonicalToolsListBody :: "(string \<Rightarrow> json option) \<Rightarrow> string \<Rightarrow> json option" where
  "canonicalToolsListBody parseJson body =
     (case Option.bind (parseJson body) as_record of
        None \<Rightarrow> None
      | Some payload \<Rightarrow>
          (if js_get payload ''method'' \<noteq> Some (JStr ''tools/list'') then None
           else if js_get payload ''params'' \<noteq> None \<and> Option.bind (js_get payload ''params'') as_record = None then None
           else
             (let cursor = js_get (record_or_empty (js_get payload ''params'')) ''cursor'' in
              if cursor \<noteq> None \<and> Option.bind cursor as_string = None then None
              else
                Some (JObj [(''jsonrpc'', JStr ''2.0''), (''id'', jsonRpcId (js_get payload ''id'')), (''method'', JStr ''tools/list''),
                  (''params'', JObj (case cursor of Some c \<Rightarrow> [(''cursor'', c)] | None \<Rightarrow> []))]))))"

definition isLocalTool :: "tool_name \<Rightarrow> bool" where
  "isLocalTool name \<longleftrightarrow> name = ToolName ''github_oauth_status'' \<or> name = ToolName ''github_oauth_start''"

definition isResourceDiscoveryMethod :: "string \<Rightarrow> bool" where
  "isResourceDiscoveryMethod method \<longleftrightarrow> method = ''resources/list'' \<or> method = ''resources/templates/list''"

definition hasJsonContentType :: "incoming_request \<Rightarrow> bool" where
  "hasJsonContentType rq =
     (case js_get (iq_headers rq) ''content-type'' of
        None \<Rightarrow> False
      | Some v \<Rightarrow> to_lower_case (trim (hd (split_on CHR '';'' v))) = ''application/json'')"

definition isValidResourceDiscoveryRequest :: "(string \<Rightarrow> json option) \<Rightarrow> incoming_request \<Rightarrow> bool" where
  "isValidResourceDiscoveryRequest parseJson rq =
     (if iq_method rq \<noteq> ''POST'' \<or> \<not> hasJsonContentType rq then False
      else case Option.bind (parseJson (iq_body rq)) as_record of
          None \<Rightarrow> False
        | Some payload \<Rightarrow>
            js_get payload ''jsonrpc'' = Some (JStr ''2.0'') \<and>
            (case js_get payload ''id'' of Some (JStr _) \<Rightarrow> True | Some (JNum _) \<Rightarrow> True | _ \<Rightarrow> False) \<and>
            (case js_get payload ''method'' of Some (JStr method) \<Rightarrow> isResourceDiscoveryMethod method | _ \<Rightarrow> False) \<and>
            (case js_get payload ''params'' of
               None \<Rightarrow> True
             | Some v \<Rightarrow>
                 (case as_record v of
                    None \<Rightarrow> False
                  | Some params \<Rightarrow>
                      (case js_get params ''cursor'' of None \<Rightarrow> True | Some c \<Rightarrow> as_string c \<noteq> None) \<and>
                      (case js_get params ''_meta'' of None \<Rightarrow> True | Some m \<Rightarrow> as_record m \<noteq> None))))"

definition requestTargetChar :: "char \<Rightarrow> bool" where
  "requestTargetChar c = (is_alpha c \<or> is_digit c \<or> c \<in> set ''._:/-'')"

definition boundedRequestTarget :: "string option \<Rightarrow> string" where
  "boundedRequestTarget v =
     (case v of
        Some s \<Rightarrow> (if matches requestTargetChar requestTargetChar 0 (Some 95) s then s else ''unclassified'')
      | None \<Rightarrow> ''unclassified'')"

section \<open>Lists of tools\<close>

definition isSupportedUpstreamTool :: "json \<Rightarrow> bool" where
  "isSupportedUpstreamTool tool =
     (case Option.bind (as_record tool) (\<lambda>r. Option.bind (js_get r ''name'') as_string) of
        None \<Rightarrow> False
      | Some name \<Rightarrow>
          isPinnedGithubTool name \<and> pinnedGithubToolAnnotationsMatch name (js_get (the (as_record tool)) ''annotations''))"

definition json_name :: "json \<Rightarrow> string option" where
  "json_name tool = Option.bind (as_record tool) (\<lambda>r. Option.bind (js_get r ''name'') as_string)"

definition toolsFromPayload :: "bool \<Rightarrow> TaskToolAuthorization \<Rightarrow> json \<Rightarrow> json list option" where
  "toolsFromPayload enforceCatalog task payload =
     (case Option.bind (as_record payload) (\<lambda>p. Option.bind (js_get p ''result'') (\<lambda>r.
             Option.bind (as_record r) (\<lambda>r. Option.bind (js_get r ''tools'') as_array))) of
        None \<Rightarrow> None
      | Some tools \<Rightarrow>
          (let upstream = (if enforceCatalog then filter isSupportedUpstreamTool tools else tools);
               approved = filter (\<lambda>t. case json_name t of None \<Rightarrow> False | Some n \<Rightarrow> ta_allowsAny task (githubToolGrants n)) upstream;
               names = map (\<lambda>t. the (json_name t)) approved;
               local = (if ta_allowsConnectionHelpers task
                        then map snd (filter (\<lambda>(n, _). n \<notin> set names) LOCAL_TOOLS) else []) in
           Some (local @ approved)))"

definition mergeToolPayload :: "bool \<Rightarrow> TaskToolAuthorization \<Rightarrow> json \<Rightarrow> json option" where
  "mergeToolPayload enforceCatalog task payload =
     (case toolsFromPayload enforceCatalog task payload of
        None \<Rightarrow> None
      | Some tools \<Rightarrow>
          (let p = the (as_record payload); r = the (as_record (the (js_get p ''result''))) in
           Some (JObj (js_set ''result'' (JObj (js_set ''tools'' (JArr tools) r)) p))))"

text \<open>\<open>body.split(/\r?\n/)\<close>.\<close>

definition strip_cr :: "string \<Rightarrow> string" where
  "strip_cr s = (if s \<noteq> [] \<and> last s = CHR 0x0D then butlast s else s)"

definition split_lines :: "string \<Rightarrow> string list" where
  "split_lines s = (let ws = split_on newline s in map strip_cr (butlast ws) @ [last ws])"

text \<open>The lines so far, and whether one of them was changed.\<close>

fun mergeSseLines ::
  "(string \<Rightarrow> json option) \<Rightarrow> (json \<Rightarrow> string) \<Rightarrow> bool \<Rightarrow> TaskToolAuthorization \<Rightarrow> bool \<Rightarrow> string list \<Rightarrow> string list \<Rightarrow>
   (bool \<times> string list) option" where
  "mergeSseLines parseJson stringify enforce task changed done [] = Some (changed, done)"
| "mergeSseLines parseJson stringify enforce task changed done (l # ls) =
     (let data = dropWhile is_space (drop 5 l) in
      if \<not> prefix ''data:'' l \<or> data = [] \<or> data = ''[DONE]''
      then mergeSseLines parseJson stringify enforce task changed (done @ [l]) ls
      else case Option.bind (parseJson data) (mergeToolPayload enforce task) of
          None \<Rightarrow> None
        | Some merged \<Rightarrow> mergeSseLines parseJson stringify enforce task True (done @ [''data: '' @ stringify merged]) ls)"

definition mergeToolsList ::
  "(string \<Rightarrow> json option) \<Rightarrow> (json \<Rightarrow> string) \<Rightarrow> bool \<Rightarrow> TaskToolAuthorization \<Rightarrow> string \<Rightarrow> string option" where
  "mergeToolsList parseJson stringify enforce task body =
     (case parseJson body of
        Some payload \<Rightarrow> map_option stringify (mergeToolPayload enforce task payload)
      | None \<Rightarrow>
          (case mergeSseLines parseJson stringify enforce task False [] (split_lines body) of
             Some (True, ls) \<Rightarrow> Some (join_with [newline] ls)
           | _ \<Rightarrow> None))"

section \<open>Audit\<close>

definition githubEvent ::
  "GithubProxyOptions \<Rightarrow> github_world \<Rightarrow> Hop1Identity \<Rightarrow> string \<Rightarrow> string option \<Rightarrow> string \<Rightarrow> (string \<times> json) list option \<Rightarrow>
   int option \<Rightarrow> string option \<Rightarrow> AuditEvent" where
  "githubEvent opts w identity status event tool args resultSize error =
     \<lparr>ae_ts = hw_ts w, ae_category = ''tool_call'', ae_principal = hi_email identity, ae_status = status, ae_event = event,
      ae_tool = Some tool, ae_argDigest = map_option (gh_digestArgs opts) args, ae_latencyMs = Some (hw_latencyMs w),
      ae_resultSize = resultSize, ae_error = error\<rparr>"

definition emitGithub :: "GithubProxyOptions \<Rightarrow> github_world \<Rightarrow> AuditEvent \<Rightarrow> unit github_step" where
  "emitGithub opts w event =
     (if gh_audit opts then awaited [GhAudited event] (if hw_auditOk w event then Some () else None) else pure_step ())"

definition emitGithubSafely :: "GithubProxyOptions \<Rightarrow> github_world \<Rightarrow> AuditEvent \<Rightarrow> unit github_step" where
  "emitGithubSafely opts w event = catching (emitGithub opts w event) (pure_step ())"

text \<open>An audited refusal ends the request.\<close>

definition refuseRequest ::
  "GithubProxyOptions \<Rightarrow> github_world \<Rightarrow> Hop1Identity \<Rightarrow> string \<Rightarrow> string \<Rightarrow> proxy_response \<Rightarrow> 'a github_step" where
  "refuseRequest opts w identity target classification response =
     seq (emitGithubSafely opts w
            (githubEvent opts w identity ''deny'' (Some ''mcp_request_refused'') (boundedRequestTarget (Some target)) None None
              (Some classification))) (\<lambda>_.
       return_response response)"

section \<open>Credentials\<close>

definition resolveGithubTokenOrUndefined :: "github_world \<Rightarrow> Hop1Identity \<Rightarrow> string option github_step" where
  "resolveGithubTokenOrUndefined w identity =
     awaited [GhResolved identity]
       (case hw_resolve w identity of
          TokenIs t \<Rightarrow> Some (if truthy t then t else None)
        | ReauthRequired \<Rightarrow> Some None
        | ResolveFailed \<Rightarrow> None)"

definition providerOAuthRequired :: "json \<Rightarrow> proxy_response" where
  "providerOAuthRequired rid =
     errorResult rid ''GitHub authorization is required. Call github_oauth_start to connect the provider.''
       [(''error'', JStr ''provider_oauth_required''), (''provider'', JStr ''github''),
        (''connectionHelper'', JStr ''github_oauth_start'')]"

section \<open>The tools of the wrapper itself\<close>

definition githubStatus :: "GithubProxyOptions \<Rightarrow> github_world \<Rightarrow> Hop1Identity \<Rightarrow> (bool \<times> json) github_step" where
  "githubStatus opts w identity = awaited [GhStatus identity] (hw_status w identity)"

definition unconnectedStatus :: "GithubProxyOptions \<Rightarrow> json" where
  "unconnectedStatus opts =
     (let scopes = JArr (map JStr (coalesce (gh_githubScopes opts) [])) in
      JObj [(''connected'', JBool False), (''scopesRequired'', scopes), (''scopesGranted'', JArr []), (''missingScopes'', scopes)])"

definition textResult :: "GithubProxyOptions \<Rightarrow> json \<Rightarrow> json \<Rightarrow> proxy_response" where
  "textResult opts rid value = mcpResult rid (JObj [(''content'', text_content (gh_stringify opts value))])"

definition handleLocalToolCall ::
  "GithubProxyOptions \<Rightarrow> github_world \<Rightarrow> Hop1Identity \<Rightarrow> ToolCallContext \<Rightarrow> unit github_step" where
  "handleLocalToolCall opts w identity tc =
     (if tc_toolName tc = ToolName ''github_oauth_status''
      then
        seq (if gh_hasOAuthStatus opts then seq (githubStatus opts w identity) (\<lambda>(_, v). pure_step v)
             else pure_step (unconnectedStatus opts)) (\<lambda>v.
          return_response (textResult opts (tc_id tc) v))
      else if tc_toolName tc = ToolName ''github_oauth_start''
      then
        (if \<not> gh_hasStartOAuth opts then return_response (mcpError (tc_id tc) (-32000) ''GitHub OAuth is not configured'' 200)
         else
           (let redirect = Option.bind (js_get (tc_args tc) ''redirectAfter'') as_string;
                redirect = (if truthy redirect then redirect else None) in
            seq (awaited [GhStart identity redirect] (hw_start w identity redirect)) (\<lambda>v.
              return_response (textResult opts (tc_id tc) v))))
      else pure_step ())"

section \<open>Lists\<close>

definition oauthCatalog :: "GithubProxyOptions \<Rightarrow> (string \<times> json) list option" where
  "oauthCatalog opts =
     (if gh_hasOAuthStatus opts
      then Some (listStableGithubTools (gh_stableTools opts) (coalesce (gh_githubToolsets opts) GITHUB_MCP_SHIPPED_TOOLSETS)
             (gh_governanceCatalogId opts))
      else None)"

definition sendGithub ::
  "GithubProxyOptions \<Rightarrow> github_world \<Rightarrow> incoming_request \<Rightarrow> nat \<Rightarrow> string \<Rightarrow> upstream_body \<Rightarrow> upstream_reply github_step" where
  "sendGithub opts w rq n credential body =
     (case forwardMcpRequest (gh_parseJson opts) (gh_upstreamUrl opts) rq credential body of
        None \<Rightarrow> throw_error
      | Some call \<Rightarrow> awaited [GhForwarded call] (hw_send w n call))"

definition upstreamListedTools ::
  "GithubProxyOptions \<Rightarrow> github_world \<Rightarrow> incoming_request \<Rightarrow> Hop1Identity \<Rightarrow> TaskToolAuthorization \<Rightarrow> json \<Rightarrow> json \<Rightarrow>
   proxy_response github_step" where
  "upstreamListedTools opts w rq identity task rid body =
     seq (resolveGithubTokenOrUndefined w identity) (\<lambda>token.
       case token of
         None \<Rightarrow> pure_step (mcpResult rid (JObj [(''tools'', JArr (map snd LOCAL_TOOLS))]))
       | Some k \<Rightarrow>
           seq (sendGithub opts w rq 0 k (withUpstreamProtocolMetadata (gh_parseJson opts) rq (JsonBody body) SERVER_INFO)) (\<lambda>r.
             case mergeToolsList (gh_parseJson opts) (gh_stringify opts) (gh_governanceCatalogId opts = Some GITHUB_MCP_CATALOG_ID) task
                    (concat (re_body r)) of
               None \<Rightarrow> pure_step (mcpError rid (-32000) ''GitHub MCP tool discovery failed'' 200)
             | Some merged \<Rightarrow>
                 pure_step \<lparr>pr_status = re_status r, pr_headers = forwardedMcpResponseHeaders r, pr_body = TextBody merged\<rparr>))"

definition githubToolsList ::
  "GithubProxyOptions \<Rightarrow> github_world \<Rightarrow> incoming_request \<Rightarrow> Hop1Identity \<Rightarrow> TaskToolAuthorization \<Rightarrow> json \<Rightarrow> proxy_response github_step" where
  "githubToolsList opts w rq identity task rid =
     (case canonicalToolsListBody (gh_parseJson opts) (iq_body rq) of
        None \<Rightarrow> refuseRequest opts w identity ''tools/list'' ''invalid_tool_list'' (mcpError rid (-32600) ''Invalid Request'' 200)
      | Some body \<Rightarrow>
          (if ta_restricted task \<and> \<not> ta_allowsConnectionHelpers task then pure_step (mcpResult rid (JObj [(''tools'', JArr [])]))
           else case oauthCatalog opts of
               Some catalog \<Rightarrow>
                 pure_step (mcpResult rid (JObj [(''tools'', JArr
                   ((if ta_allowsConnectionHelpers task then map snd LOCAL_TOOLS else []) @
                    map snd (filter (\<lambda>(name, _). ta_allowsAny task (githubToolGrants name)) catalog)))]))
             | None \<Rightarrow> upstreamListedTools opts w rq identity task rid body))"

section \<open>Calls\<close>

definition allowsCall :: "TaskToolAuthorization \<Rightarrow> tool_name \<Rightarrow> action_class \<Rightarrow> bool" where
  "allowsCall task name action =
     (case (name, action) of
        (ToolName n, ActionClass a) \<Rightarrow> ta_allows task (github_grant a n)
      | _ \<Rightarrow> \<not> ta_restricted task)"

fun classText :: "action_class \<Rightarrow> string" where
  "classText (ActionClass a) = a"
| "classText (ForeignClass s) = toolText (ForeignName s)"

definition githubPolicyInput :: "GithubProxyOptions \<Rightarrow> Hop1Identity \<Rightarrow> ToolCallContext \<Rightarrow> action_class \<Rightarrow> ToolPolicyInput" where
  "githubPolicyInput opts identity tc action =
     \<lparr>ti_principal = hi_email identity, ti_tokenClaims = JObj (normalizedHop1Claims identity), ti_tool = toolText (tc_toolName tc),
      ti_operation = None, ti_service = ''github'', ti_actionClass = classText action,
      ti_scopes = coalesce (gh_githubScopes opts) [], ti_scopeRequirement = None, ti_outboundEmail = None,
      ti_args = JObj (tc_args tc)\<rparr>"

definition denyIfNeeded ::
  "GithubProxyOptions \<Rightarrow> github_world \<Rightarrow> Hop1Identity \<Rightarrow> ToolCallContext \<Rightarrow> PolicyDecision \<Rightarrow> unit github_step" where
  "denyIfNeeded opts w identity tc decision =
     (let name = toolText (tc_toolName tc);
          refuse = (\<lambda>event reason message.
            seq (emitGithub opts w (githubEvent opts w identity ''deny'' (Some event) name (Some (tc_args tc)) None (Some reason))) (\<lambda>_.
              return_response (mcpError (tc_id tc) (-32003) (message @ name @ '': '' @ reason) 200))) in
      case decision of
        Allow \<Rightarrow> pure_step ()
      | Deny reason _ \<Rightarrow> refuse ''deny'' reason ''Policy denied ''
      | ApprovalRequired reason _ \<Rightarrow> refuse ''approval_required'' reason ''Policy requires approval for '')"

text \<open>Which tools are supported; a tool of the wrapper itself always is.\<close>

definition supportedCall :: "GithubProxyOptions \<Rightarrow> ToolCallContext \<Rightarrow> bool" where
  "supportedCall opts tc \<longleftrightarrow>
     tc_actionClass tc \<noteq> None \<and>
     (case oauthCatalog opts of
        None \<Rightarrow> True
      | Some catalog \<Rightarrow> isLocalTool (tc_toolName tc) \<or> tc_toolName tc \<in> ToolName ` set (map fst catalog))"

definition checkCall ::
  "GithubProxyOptions \<Rightarrow> github_world \<Rightarrow> Hop1Identity \<Rightarrow> TaskToolAuthorization \<Rightarrow> ToolCallContext \<Rightarrow> unit github_step" where
  "checkCall opts w identity task tc =
     (let name = toolText (tc_toolName tc); local = isLocalTool (tc_toolName tc) in
      if \<not> supportedCall opts tc
      then
        seq (emitGithubSafely opts w (githubEvent opts w identity ''deny'' (Some ''deny'') name (Some (tc_args tc)) None
               (Some ''unsupported GitHub MCP tool''))) (\<lambda>_.
          return_response (mcpError (tc_id tc) (-32601) (''GitHub MCP tool is not supported: '' @ name) 200))
      else
        (let action = the (tc_actionClass tc) in
         if (local \<and> \<not> ta_allowsConnectionHelpers task) \<or> (\<not> local \<and> \<not> allowsCall task (tc_toolName tc) action)
         then
           seq (emitGithubSafely opts w (githubEvent opts w identity ''deny'' (Some ''task_tool_not_approved'') name (Some (tc_args tc)) None
                  (Some ''task_tool_not_approved''))) (\<lambda>_.
             return_response (taskToolDenied (tc_id tc)))
         else
           seq (if tc_toolName tc = ToolName ''github_oauth_status'' then pure_step ()
                else
                  (let input = githubPolicyInput opts identity tc action in
                   seq (awaited [GhDecided input] (tp_decide (coalesce (gh_policy opts) AllowAllPolicy) input)) (\<lambda>decision.
                     denyIfNeeded opts w identity tc decision))) (\<lambda>_.
           if \<not> local \<and> gh_hasOAuthStatus opts
           then seq (githubStatus opts w identity) (\<lambda>(connected, _).
                  if connected then pure_step () else return_response (providerOAuthRequired (tc_id tc)))
           else pure_step ())))"

text \<open>The send, the second one with a recovered token, and the audit of a call.\<close>

definition forwardGithub ::
  "GithubProxyOptions \<Rightarrow> github_world \<Rightarrow> incoming_request \<Rightarrow> Hop1Identity \<Rightarrow> ToolCallContext option \<Rightarrow> string \<Rightarrow> proxy_response github_step" where
  "forwardGithub opts w rq identity call token =
     (let body = withUpstreamProtocolMetadata (gh_parseJson opts) rq
                   (case call of Some tc \<Rightarrow> JsonBody (tc_body tc) | None \<Rightarrow> RawBody (iq_body rq)) SERVER_INFO;
          audit = (\<lambda>status resultSize error. case call of
                     None \<Rightarrow> pure_step ()
                   | Some tc \<Rightarrow> emitGithub opts w (githubEvent opts w identity status None (toolText (tc_toolName tc)) (Some (tc_args tc)) resultSize error)) in
      catching
        (seq (sendGithub opts w rq 0 token body) (\<lambda>r0.
         seq (if re_status r0 = 401 \<and> gh_canRecover opts
              then
                seq (awaited [GhRecovered identity token] (hw_recover w identity token)) (\<lambda>replacement.
                  case replacement of
                    Some (c # cs) \<Rightarrow> sendGithub opts w rq 1 (c # cs) body
                  | _ \<Rightarrow> pure_step r0)
              else pure_step r0) (\<lambda>r.
         seq (audit (if reply_ok r then ''allow'' else ''error'') (Some (int (length (concat (re_body r)))))
                (if reply_ok r then None else Some (hw_errorText w))) (\<lambda>_.
           pure_step \<lparr>pr_status = re_status r, pr_headers = forwardedMcpResponseHeaders r, pr_body = TextBody (concat (re_body r))\<rparr>))))
        (seq (audit ''error'' None (Some (hw_errorText w))) (\<lambda>_.
           pure_step (mcpError (case call of Some tc \<Rightarrow> tc_id tc | None \<Rightarrow> JNull) (-32000) ''GitHub MCP upstream request failed'' 200))))"

section \<open>The handler\<close>

text \<open>The tokens of a discovery of resources are resolved at once.\<close>

definition discoveryToken ::
  "GithubProxyOptions \<Rightarrow> github_world \<Rightarrow> incoming_request \<Rightarrow> Hop1Identity \<Rightarrow> parsed_method option \<Rightarrow> string option github_step" where
  "discoveryToken opts w rq identity method =
     (case method of
        None \<Rightarrow> pure_step None
      | Some m \<Rightarrow>
          (if \<not> isResourceDiscoveryMethod (gm_method m) \<or> \<not> isValidResourceDiscoveryRequest (gh_parseJson opts) rq then pure_step None
           else
             seq (resolveGithubTokenOrUndefined w identity) (\<lambda>token.
               case token of
                 Some k \<Rightarrow> pure_step (Some k)
               | None \<Rightarrow> return_response (mcpResult (gm_id m) (JObj
                   [(if gm_method m = ''resources/templates/list'' then ''resourceTemplates'' else ''resources'', JArr [])])))))"

definition githubMessage ::
  "GithubProxyOptions \<Rightarrow> github_world \<Rightarrow> incoming_request \<Rightarrow> Hop1Identity \<Rightarrow> TaskToolAuthorization \<Rightarrow> parsed_method option \<Rightarrow>
   proxy_response github_step" where
  "githubMessage opts w rq identity task method =
     seq (discoveryToken opts w rq identity method) (\<lambda>discovered.
       let call = parseToolCall (gh_parseJson opts) (coalesce (gh_aliases opts) []) (gh_governanceCatalogId opts) (iq_body rq) in
       if map_option gm_method method = Some ''tools/call'' \<and> call = None
       then refuseRequest opts w identity ''tools/call'' ''invalid_tool_call''
              (mcpError (gm_id (the method)) (-32600) ''Invalid Request'' 200)
       else
         seq (case call of None \<Rightarrow> pure_step () | Some tc \<Rightarrow> checkCall opts w identity task tc) (\<lambda>_.
         seq (case call of None \<Rightarrow> pure_step () | Some tc \<Rightarrow> handleLocalToolCall opts w identity tc) (\<lambda>_.
         seq (case discovered of Some k \<Rightarrow> pure_step (Some k) | None \<Rightarrow> resolveGithubTokenOrUndefined w identity) (\<lambda>token.
           case token of
             Some k \<Rightarrow> forwardGithub opts w rq identity call k
           | None \<Rightarrow>
               pure_step (case call of
                            Some tc \<Rightarrow> providerOAuthRequired (tc_id tc)
                          | None \<Rightarrow> mcpUnauthorized ''GitHub account is not connected'' invalidTokenChallenge)))))"

definition githubDispatch ::
  "GithubProxyOptions \<Rightarrow> github_world \<Rightarrow> incoming_request \<Rightarrow> Hop1Identity \<Rightarrow> TaskToolAuthorization \<Rightarrow> parsed_method option \<Rightarrow>
   proxy_response github_step" where
  "githubDispatch opts w rq identity task method =
     (let is = (\<lambda>s. map_option gm_method method = Some s); rid = (case method of Some m \<Rightarrow> gm_id m | None \<Rightarrow> JNull) in
      if (case method of Some m \<Rightarrow> gm_isNotification m | None \<Rightarrow> False)
      then pure_step \<lparr>pr_status = 202, pr_headers = [], pr_body = NullBody\<rparr>
      else if is ''initialize''
      then pure_step (mcpResult rid (JObj [(''protocolVersion'', JStr ''2025-06-18''), (''capabilities'', JObj [(''tools'', JObj [])]),
             (''serverInfo'', JObj [(''name'', JStr (fst SERVER_INFO)), (''version'', JStr (snd SERVER_INFO))])]))
      else if is ''ping'' then pure_step (mcpResult rid (JObj []))
      else if ta_restricted task \<and> \<not> is ''tools/list'' \<and> \<not> is ''tools/call''
      then refuseRequest opts w identity (boundedRequestTarget (map_option gm_method method)) ''unsupported_mcp_method''
             (mcpError rid (-32601) (''Unsupported MCP method: '' @ coalesce (map_option gm_method method) ''<missing>'') 200)
      else if is ''tools/list'' then githubToolsList opts w rq identity task rid
      else githubMessage opts w rq identity task method)"

definition handleGithub :: "GithubProxyOptions \<Rightarrow> github_world \<Rightarrow> incoming_request \<Rightarrow> proxy_response github_step" where
  "handleGithub opts w rq =
     (case githubBearerToken rq of
        None \<Rightarrow> seq (perform [GhReported missing_bearer]) (\<lambda>_. pure_step (mcpUnauthorized ''bearer token is required'' ''Bearer''))
      | Some token \<Rightarrow>
          (case gh_authenticate opts token of
             Inl e \<Rightarrow> seq (perform [GhReported (he_classification e)]) (\<lambda>_.
                        pure_step (mcpUnauthorized ''invalid bearer token'' invalidTokenChallenge))
           | Inr identity \<Rightarrow>
               (let task = parseTaskToolAuthorization (hi_claims identity) (gh_allowLegacyUnscopedTaskTokens opts);
                    post = (iq_method rq = ''POST'');
                    method = (if post then parseMethod (gh_parseJson opts) (iq_body rq) else None) in
                if ta_restricted task \<and> \<not> post
                then refuseRequest opts w identity (''http:'' @ iq_method rq) ''unsupported_http_method''
                       (mcpError JNull (-32601) (''Unsupported MCP method: '' @ iq_method rq) 200)
                else if post \<and> \<not> singleJsonRpcObject (gh_parseJson opts) (iq_body rq)
                then refuseRequest opts w identity ''request'' ''invalid_body'' (mcpError JNull (-32600) ''Invalid Request'' 200)
                else if ta_restricted task \<and> method = None
                then refuseRequest opts w identity ''request'' ''invalid_message'' (mcpError JNull (-32600) ''Invalid Request'' 200)
                else githubDispatch opts w rq identity task method)))"

end
