(* ===== verification/Github_Proxy_Props.thy ===== *)
theory Github_Proxy_Props
  imports Github_Proxy
begin

text \<open>
  What the handler of the GitHub wrapper lets through: every request that reaches the upstream belongs to an
  authenticated caller, with a GitHub token of that caller; a call of a tool is supported, approved for the
  task and allowed by the policy with the very arguments that are sent; and the token of a task reaches
  the upstream with nothing but lists and calls of tools.
\<close>

section \<open>Effects that reach the upstream\<close>

definition reaches :: "(upstream_call \<Rightarrow> bool) \<Rightarrow> github_effect \<Rightarrow> bool" where
  "reaches P e = (case e of GhForwarded c \<Rightarrow> P c | _ \<Rightarrow> True)"

lemma reaches_simps [simp]: "reaches P (GhForwarded c) = P c" "reaches P (GhReported f)" "reaches P (GhDecided i)"
  "reaches P (GhResolved identity)" "reaches P (GhRecovered identity k)" "reaches P (GhStatus identity)"
  "reaches P (GhStart identity r)" "reaches P (GhAudited ev)"
  by (simp_all add: reaches_def)

abbreviation sends_only :: "(upstream_call \<Rightarrow> bool) \<Rightarrow> 'a github_step \<Rightarrow> bool" where
  "sends_only P m \<equiv> effects_ok (reaches P) m"

lemma quiet_steps [step_rules]:
  "sends_only P (emitGithub opts w event)" "sends_only P (emitGithubSafely opts w event)"
  "sends_only P (refuseRequest opts w identity target c r)" "sends_only P (resolveGithubTokenOrUndefined w identity)"
  "sends_only P (githubStatus opts w identity)"
proof -
  have e: "sends_only P (emitGithub opts w ev)" for ev by (simp add: emitGithub_def effects_ok_awaited step_rules)
  then have s: "sends_only P (emitGithubSafely opts w ev)" for ev
    by (simp add: emitGithubSafely_def effects_ok_catching step_rules)
  show "sends_only P (emitGithub opts w event)" "sends_only P (emitGithubSafely opts w event)" by (rule e, rule s)
  show "sends_only P (refuseRequest opts w identity target c r)"
    unfolding refuseRequest_def by (intro effects_ok_seq s step_rules)
qed (simp_all add: resolveGithubTokenOrUndefined_def githubStatus_def effects_ok_awaited)

lemma quiet_local [step_rules]: "sends_only P (handleLocalToolCall opts w identity tc)"
  unfolding handleLocalToolCall_def Let_def
  by (auto intro!: effects_ok_seq effects_ok_awaited step_rules split: prod.split)

lemma quiet_deny [step_rules]: "sends_only P (denyIfNeeded opts w identity tc d)"
  by (cases d) (auto simp: denyIfNeeded_def Let_def intro!: effects_ok_seq step_rules)

lemma quiet_check [step_rules]: "sends_only P (checkCall opts w identity task tc)"
  unfolding checkCall_def Let_def
  by (auto intro!: effects_ok_seq effects_ok_awaited step_rules split: prod.split)

lemma quiet_discovery [step_rules]: "sends_only P (discoveryToken opts w rq identity method)"
  unfolding discoveryToken_def by (auto intro!: effects_ok_seq step_rules split: option.split)

section \<open>Tokens\<close>

definition tokenOf :: "github_world \<Rightarrow> Hop1Identity \<Rightarrow> string \<Rightarrow> bool" where
  "tokenOf w identity k \<longleftrightarrow> hw_resolve w identity = TokenIs (Some k) \<or> (\<exists>old. hw_recover w identity old = Some (Some k))"

lemma resolved_token: "snd (resolveGithubTokenOrUndefined w identity) = Inr (Some k) \<Longrightarrow> tokenOf w identity k"
  by (auto simp: resolveGithubTokenOrUndefined_def snd_awaited tokenOf_def split: token_answer.splits if_splits)

lemma discovered_token:
  assumes "snd (discoveryToken opts w rq identity method) = Inr (Some k)"
  shows "tokenOf w identity k"
  using assms unfolding discoveryToken_def
  by (auto simp: snd_seq split: option.splits if_splits dest: resolved_token)

text \<open>A call with a body, under a token of the caller.\<close>

definition sentFor :: "GithubProxyOptions \<Rightarrow> github_world \<Rightarrow> incoming_request \<Rightarrow> Hop1Identity \<Rightarrow> upstream_body \<Rightarrow> upstream_call \<Rightarrow> bool" where
  "sentFor opts w rq identity body c \<longleftrightarrow>
     (\<exists>k. tokenOf w identity k \<and>
        forwardMcpRequest (gh_parseJson opts) (gh_upstreamUrl opts) rq k
          (withUpstreamProtocolMetadata (gh_parseJson opts) rq body SERVER_INFO) = Some c)"

lemma sent_for:
  assumes "tokenOf w identity k"
  shows "sends_only (sentFor opts w rq identity body)
    (sendGithub opts w rq n k (withUpstreamProtocolMetadata (gh_parseJson opts) rq body SERVER_INFO))"
  using assms by (auto simp: sendGithub_def sentFor_def intro!: effects_ok_awaited step_rules split: option.split)

lemma forwarded_for:
  assumes "tokenOf w identity k"
  shows "sends_only (sentFor opts w rq identity (case call of Some tc \<Rightarrow> JsonBody (tc_body tc) | None \<Rightarrow> RawBody (iq_body rq)))
    (forwardGithub opts w rq identity call k)"
proof -
  let ?P = "sentFor opts w rq identity (case call of Some tc \<Rightarrow> JsonBody (tc_body tc) | None \<Rightarrow> RawBody (iq_body rq))"
  have r: "tokenOf w identity k'" if "hw_recover w identity k = Some (Some k')" for k'
    using that by (auto simp: tokenOf_def)
  have s: "sends_only ?P (sendGithub opts w rq n k' (withUpstreamProtocolMetadata (gh_parseJson opts) rq
      (case call of Some tc \<Rightarrow> JsonBody (tc_body tc) | None \<Rightarrow> RawBody (iq_body rq)) SERVER_INFO))"
    if "tokenOf w identity k'" for n k' by (rule sent_for [OF that])
  have a: "sends_only ?P (case call of None \<Rightarrow> pure_step () | Some tc \<Rightarrow> emitGithub opts w (f tc))" for f
    by (cases call) (simp_all add: step_rules)
  show ?thesis
    unfolding forwardGithub_def Let_def
    by (intro effects_ok_catching effects_ok_seq a s assms step_rules)
      (auto intro!: effects_ok_seq effects_ok_awaited sent_for r step_rules simp: snd_awaited split: option.split list.split)
qed

section \<open>Checked calls\<close>

definition callGranted ::
  "GithubProxyOptions \<Rightarrow> github_world \<Rightarrow> Hop1Identity \<Rightarrow> TaskToolAuthorization \<Rightarrow> ToolCallContext \<Rightarrow> bool" where
  "callGranted opts w identity task tc \<longleftrightarrow>
     (\<exists>a. tc_actionClass tc = Some a \<and> allowsCall task (tc_toolName tc) a \<and>
        tp_decide (coalesce (gh_policy opts) AllowAllPolicy) (githubPolicyInput opts identity tc a) = Some Allow) \<and>
     (gh_hasOAuthStatus opts \<longrightarrow>
        (\<exists>v. hw_status w identity = Some (True, v)) \<and>
        tc_toolName tc \<in> ToolName ` set (map fst (the (oauthCatalog opts))))"

lemma denied_not: "snd (denyIfNeeded opts w identity tc d) = Inr u \<Longrightarrow> d = Allow"
  by (cases d) (auto simp: denyIfNeeded_def Let_def snd_seq)

lemma checked_granted:
  assumes "snd (checkCall opts w identity task tc) = Inr u" "\<not> isLocalTool (tc_toolName tc)"
  shows "callGranted opts w identity task tc"
proof -
  have sup: "supportedCall opts tc"
    using assms(1) by (auto simp: checkCall_def Let_def snd_seq split: if_splits)
  then obtain a where a: "tc_actionClass tc = Some a" by (auto simp: supportedCall_def)
  have status: "tc_toolName tc \<noteq> ToolName ''github_oauth_status''" using assms(2) by (auto simp: isLocalTool_def)
  note c = assms(1) [unfolded checkCall_def Let_def if_not_P [OF assms(2)]]
  have allowed: "allowsCall task (tc_toolName tc) a"
    using assms sup a by (auto simp: checkCall_def Let_def snd_seq split: if_splits)
  have rest: "snd (seq (seq (awaited [GhDecided (githubPolicyInput opts identity tc a)]
        (tp_decide (coalesce (gh_policy opts) AllowAllPolicy) (githubPolicyInput opts identity tc a))) (denyIfNeeded opts w identity tc)) (\<lambda>_.
      if gh_hasOAuthStatus opts then seq (githubStatus opts w identity) (\<lambda>(connected, _).
        if connected then pure_step () else return_response (providerOAuthRequired (tc_id tc)))
      else pure_step ())) = Inr u"
    using assms sup a allowed status by (simp add: checkCall_def Let_def)
  have policy: "tp_decide (coalesce (gh_policy opts) AllowAllPolicy) (githubPolicyInput opts identity tc a) = Some Allow"
    using rest by (auto simp: snd_seq snd_awaited dest: denied_not)
  have connected: "\<exists>v. hw_status w identity = Some (True, v)" if "gh_hasOAuthStatus opts"
    using rest that by (auto simp: snd_seq snd_awaited githubStatus_def split: if_splits)
  have listed: "tc_toolName tc \<in> ToolName ` set (map fst (the (oauthCatalog opts)))" if "gh_hasOAuthStatus opts"
    using sup that assms(2) by (auto simp: supportedCall_def oauthCatalog_def)
  show ?thesis using a allowed policy connected listed by (auto simp: callGranted_def)
qed

lemma local_ends: "snd (handleLocalToolCall opts w identity tc) = Inr u \<Longrightarrow> \<not> isLocalTool (tc_toolName tc)"
  by (auto simp: handleLocalToolCall_def isLocalTool_def Let_def snd_seq split: if_splits)

section \<open>The handler\<close>

definition parsedCall :: "GithubProxyOptions \<Rightarrow> incoming_request \<Rightarrow> ToolCallContext option" where
  "parsedCall opts rq = parseToolCall (gh_parseJson opts) (coalesce (gh_aliases opts) []) (gh_governanceCatalogId opts) (iq_body rq)"

definition githubPermitted ::
  "GithubProxyOptions \<Rightarrow> github_world \<Rightarrow> incoming_request \<Rightarrow> Hop1Identity \<Rightarrow> TaskToolAuthorization \<Rightarrow> upstream_call \<Rightarrow> bool" where
  "githubPermitted opts w rq identity task c \<longleftrightarrow>
     (\<exists>body. canonicalToolsListBody (gh_parseJson opts) (iq_body rq) = Some body \<and> sentFor opts w rq identity (JsonBody body) c) \<or>
     (\<exists>tc. parsedCall opts rq = Some tc \<and> callGranted opts w identity task tc \<and> sentFor opts w rq identity (JsonBody (tc_body tc)) c) \<or>
     (\<not> ta_restricted task \<and> parsedCall opts rq = None \<and> sentFor opts w rq identity (RawBody (iq_body rq)) c)"

lemma list_permitted: "sends_only (githubPermitted opts w rq identity task) (githubToolsList opts w rq identity task rid)"
proof (cases "canonicalToolsListBody (gh_parseJson opts) (iq_body rq)")
  case (Some body)
  have p: "sends_only (githubPermitted opts w rq identity task)
      (sendGithub opts w rq 0 k (withUpstreamProtocolMetadata (gh_parseJson opts) rq (JsonBody body) SERVER_INFO))"
    if "tokenOf w identity k" for k
    by (rule effects_ok_mono [OF sent_for [OF that]]) (use Some in \<open>auto simp: reaches_def githubPermitted_def split: github_effect.splits\<close>)
  show ?thesis
    unfolding githubToolsList_def Some upstreamListedTools_def
    by (auto intro!: effects_ok_seq step_rules p dest: resolved_token split: option.split)
qed (simp add: githubToolsList_def step_rules)

lemma message_token:
  assumes "snd (discoveryToken opts w rq identity method) = Inr d"
    "snd (case d of Some k \<Rightarrow> pure_step (Some k) | None \<Rightarrow> resolveGithubTokenOrUndefined w identity) = Inr (Some k)"
  shows "tokenOf w identity k"
  using assms by (cases d) (auto intro: discovered_token resolved_token)

lemma message_permitted:
  assumes "parsedCall opts rq = None \<Longrightarrow> ta_restricted task \<Longrightarrow> map_option gm_method method = Some ''tools/call''"
  shows "sends_only (githubPermitted opts w rq identity task) (githubMessage opts w rq identity task method)"
proof -
  let ?P = "githubPermitted opts w rq identity task"
  have f: "sends_only ?P (forwardGithub opts w rq identity (parsedCall opts rq) k)"
    if "tokenOf w identity k" "\<And>tc. parsedCall opts rq = Some tc \<Longrightarrow> callGranted opts w identity task tc"
      "parsedCall opts rq = None \<Longrightarrow> \<not> ta_restricted task" for k
    by (rule effects_ok_mono [OF forwarded_for [OF that(1)]])
      (use that(2,3) in \<open>cases "parsedCall opts rq"; auto simp: reaches_def githubPermitted_def split: github_effect.splits\<close>)
  show ?thesis
  proof (cases "parsedCall opts rq")
    case None
    have u: "\<not> ta_restricted task" if "\<forall>m. method = Some m \<longrightarrow> gm_method m \<noteq> ''tools/call''" using assms None that by auto
    have g: "sends_only ?P (forwardGithub opts w rq identity None k)"
      if "tokenOf w identity k" "\<not> ta_restricted task" for k using f [OF that(1)] that(2) None by simp
    show ?thesis
      unfolding githubMessage_def parsedCall_def [symmetric] None Let_def
      by (auto intro!: effects_ok_seq step_rules g split: option.split) (blast intro: discovered_token resolved_token dest: u)+
  next
    case (Some tc)
    have g: "sends_only ?P (forwardGithub opts w rq identity (Some tc) k)"
      if "tokenOf w identity k" "callGranted opts w identity task tc" for k using f [OF that(1)] that(2) Some by simp
    show ?thesis
      unfolding githubMessage_def parsedCall_def [symmetric] Some Let_def
      by (auto intro!: effects_ok_seq step_rules split: option.split) (rule g; blast intro: message_token checked_granted dest: local_ends)
  qed
qed

lemma dispatch_permitted:
  "sends_only (githubPermitted opts w rq identity task) (githubDispatch opts w rq identity task method)"
proof -
  have m: "sends_only (githubPermitted opts w rq identity task) (githubMessage opts w rq identity task m)"
    if "ta_restricted task \<longrightarrow> map_option gm_method m = Some ''tools/call''" for m
    by (rule message_permitted) (use that in simp)
  show ?thesis
    unfolding githubDispatch_def Let_def by (auto intro!: step_rules list_permitted m)
qed

text \<open>C36: whatever reaches GitHub's server: the bearer token of the request was authenticated, and the request is
  sent to the configured URL with a GitHub token of this very user. It is the canonical form of a list of
  tools; or the canonical form of a call that is classified, approved for the task, allowed by the policy
  with the arguments that are sent, and, where connections are tracked, made while the user is connected
  and to a tool of an enabled toolset; or, only for a token that is not restricted to a task, another
  message that is no call of a tool.\<close>

theorem github_call_authorized:
  assumes "GhForwarded c \<in> set (fst (handleGithub opts w rq))"
  shows "\<exists>token identity task. githubBearerToken rq = Some token \<and> gh_authenticate opts token = Inr identity \<and>
    task = parseTaskToolAuthorization (hi_claims identity) (gh_allowLegacyUnscopedTaskTokens opts) \<and>
    ca_url c = gh_upstreamUrl opts \<and> (ta_restricted task \<longrightarrow> iq_method rq = ''POST'') \<and>
    githubPermitted opts w rq identity task c"
proof (cases "githubBearerToken rq")
  case None
  with assms show ?thesis by (auto simp: handleGithub_def seq_def perform_def pure_step_def)
next
  case token: (Some token)
  show ?thesis
  proof (cases "gh_authenticate opts token")
    case (Inl e)
    with assms token show ?thesis by (auto simp: handleGithub_def seq_def perform_def pure_step_def)
  next
    case (Inr identity)
    let ?task = "parseTaskToolAuthorization (hi_claims identity) (gh_allowLegacyUnscopedTaskTokens opts)"
    let ?P = "\<lambda>c. githubPermitted opts w rq identity ?task c \<and> (ta_restricted ?task \<longrightarrow> iq_method rq = ''POST'')"
    have d: "sends_only ?P (githubDispatch opts w rq identity ?task m)"
      if "ta_restricted ?task \<longrightarrow> iq_method rq = ''POST''" for m
      by (rule effects_ok_mono [OF dispatch_permitted [where task = ?task]]) (use that in \<open>auto simp: reaches_def split: github_effect.splits\<close>)
    have "sends_only ?P (handleGithub opts w rq)"
      unfolding handleGithub_def token by (simp add: Inr Let_def step_rules d dispatch_permitted)
    from effects_okD [OF this assms] have p: "?P c" by simp
    then have "ca_url c = gh_upstreamUrl opts" by (auto simp: githubPermitted_def sentFor_def forwardMcpRequest_def)
    with p token Inr show ?thesis by blast
  qed
qed

section \<open>Lists of tools\<close>

text \<open>A list that comes from the upstream shows the tools of the wrapper, where the task may use them, and tools that
  the task has a grant for and, under the pinned catalog, that are in it with the annotations it expects.\<close>

lemma listed_tools:
  assumes "toolsFromPayload enforceCatalog task payload = Some ts" "t \<in> set ts"
  shows "(t \<in> snd ` set LOCAL_TOOLS \<and> ta_allowsConnectionHelpers task) \<or>
    (\<exists>n. json_name t = Some n \<and> ta_allowsAny task (githubToolGrants n) \<and> (enforceCatalog \<longrightarrow> isSupportedUpstreamTool t))"
  using assms by (auto simp: toolsFromPayload_def Let_def split: option.splits if_splits) (metis imageI snd_conv)+

section \<open>An example\<close>

definition github_identity :: Hop1Identity where
  "github_identity = \<lparr>hi_profile = ''p'', hi_issuer = ''iss'', hi_subject = ''alice'', hi_email = ''a@b'', hi_claims = []\<rparr>"

definition github_options :: GithubProxyOptions where
  "github_options =
     \<lparr>gh_upstreamUrl = ''u'', gh_governanceCatalogId = None, gh_githubToolsets = None, gh_stableTools = [],
      gh_authenticate = (\<lambda>token. Inr github_identity), gh_canRecover = True, gh_hasOAuthStatus = False, gh_hasStartOAuth = False,
      gh_githubScopes = None, gh_aliases = Some [(''me'', ''get_me'')], gh_audit = False, gh_policy = None,
      gh_allowLegacyUnscopedTaskTokens = False,
      gh_parseJson = (\<lambda>body. Some (JObj [(''jsonrpc'', JStr ''2.0''), (''id'', JNum 1), (''method'', JStr ''tools/call''),
        (''params'', JObj [(''name'', JStr ''me''), (''arguments'', JObj [(''q'', JStr body)])])])),
      gh_stringify = (\<lambda>v. []), gh_digestArgs = (\<lambda>args. [])\<rparr>"

definition github_answers :: github_world where
  "github_answers =
     \<lparr>hw_ts = ''t'', hw_latencyMs = 1, hw_resolve = (\<lambda>i. TokenIs (Some ''k1'')), hw_recover = (\<lambda>i old. Some (Some ''k2'')),
      hw_send = (\<lambda>n c. Some \<lparr>re_status = 401, re_headers = [], re_body = []\<rparr>), hw_status = (\<lambda>i. None), hw_start = (\<lambda>i r. None),
      hw_auditOk = (\<lambda>e. True), hw_errorText = ''e''\<rparr>"

definition github_request :: incoming_request where
  "github_request = \<lparr>iq_method = ''POST'', iq_path = ''/mcp'', iq_headers = [(''authorization'', ''Bearer alice'')], iq_body = ''hello''\<rparr>"

definition github_tool_call :: ToolCallContext where
  "github_tool_call =
     \<lparr>tc_id = JNum 1, tc_originalName = ''me'', tc_toolName = ToolName ''get_me'', tc_args = [(''q'', JStr ''hello'')],
      tc_actionClass = Some (ActionClass ''read''),
      tc_body = JObj [(''jsonrpc'', JStr ''2.0''), (''id'', JNum 1), (''method'', JStr ''tools/call''),
        (''params'', JObj [(''name'', JStr ''get_me''), (''arguments'', JObj [(''q'', JStr ''hello'')])])]\<rparr>"

text \<open>The call that is sent again, with the recovered token.\<close>

definition github_body :: upstream_body where
  "github_body =
     withUpstreamProtocolMetadata (gh_parseJson github_options) github_request (JsonBody (tc_body github_tool_call)) SERVER_INFO"

definition github_sent :: "string \<Rightarrow> upstream_call" where
  "github_sent k =
     \<lparr>ca_url = ''u'', ca_method = ''POST'',
      ca_headers = [(''authorization'', ''Bearer '' @ k), (''mcp-method'', ''tools/call''), (''mcp-name'', ''get_me''), (''mcp-param-q'', ''hello'')],
      ca_body = github_body\<rparr>"

lemma github_example_task:
  "parseTaskToolAuthorization (hi_claims github_identity) (gh_allowLegacyUnscopedTaskTokens github_options) = UNRESTRICTED"
  by (simp add: parseTaskToolAuthorization_def github_identity_def)

lemma github_example_class:
  "classifyGithubToolAction ''get_me'' [(''q'', JStr ''hello'')] = Some (ActionClass ''read'')" "isPinnedGithubTool ''get_me''"
  by code_simp+

lemma github_example_call: "parsedCall github_options github_request = Some github_tool_call"
  by (simp add: parsedCall_def parseToolCall_def github_options_def github_request_def github_tool_call_def aliasedName_def
      js_lookup_def record_or_empty_def github_example_class Let_def)

lemma github_example_method:
  "parseMethod (gh_parseJson github_options) (iq_body github_request) = Some \<lparr>gm_id = JNum 1, gm_method = ''tools/call'', gm_isNotification = False\<rparr>"
  by (simp add: parseMethod_def github_options_def github_request_def)

lemma github_example_checked:
  "snd (checkCall github_options github_answers github_identity UNRESTRICTED github_tool_call) = Inr ()"
  by (simp add: checkCall_def supportedCall_def oauthCatalog_def github_tool_call_def github_options_def isLocalTool_def
      allowsCall_def UNRESTRICTED_def AllowAllPolicy_def denyIfNeeded_def seq_def pure_step_def awaited_def Let_def)

lemma github_example_metadata:
  "methodMetadata (gh_parseJson github_options) github_body =
     Some \<lparr>mm_method = ''tools/call'', mm_requestName = Some ''get_me'', mm_requestArguments = Some [(''q'', JStr ''hello'')]\<rparr>"
  by (simp add: methodMetadata_def requestNameOf_def github_body_def withUpstreamProtocolMetadata_def github_tool_call_def Let_def
      record_or_empty_def)

lemma github_example_headers:
  "put_header ''authorization'' (Some ''Bearer k1'') [] = Some [(''authorization'', ''Bearer k1'')]"
  "put_header ''authorization'' (Some ''Bearer k2'') [] = Some [(''authorization'', ''Bearer k2'')]"
  "put_header ''mcp-method'' (Some ''tools/call'') [(''authorization'', v)] = Some [(''authorization'', v), (''mcp-method'', ''tools/call'')]"
  "put_header ''mcp-name'' (Some ''get_me'') [(''authorization'', v), (''mcp-method'', ''tools/call'')] =
     Some [(''authorization'', v), (''mcp-method'', ''tools/call''), (''mcp-name'', ''get_me'')]"
  "paramHeaders [(''q'', JStr ''hello'')] [(''authorization'', v), (''mcp-method'', ''tools/call''), (''mcp-name'', ''get_me'')] =
     Some [(''authorization'', v), (''mcp-method'', ''tools/call''), (''mcp-name'', ''get_me''), (''mcp-param-q'', ''hello'')]"
  by code_simp+

lemma github_example_request:
  "forwardMcpRequest (gh_parseJson github_options) ''u'' github_request ''k1'' github_body = Some (github_sent ''k1'')"
  "forwardMcpRequest (gh_parseJson github_options) ''u'' github_request ''k2'' github_body = Some (github_sent ''k2'')"
proof -
  have "header_of (iq_headers github_request) ''content-type'' = None" "header_of (iq_headers github_request) ''mcp-protocol-version'' = None"
    "iq_method github_request = ''POST''"
    by (simp_all add: github_request_def header_of_def)
  then show "forwardMcpRequest (gh_parseJson github_options) ''u'' github_request ''k1'' github_body = Some (github_sent ''k1'')"
    "forwardMcpRequest (gh_parseJson github_options) ''u'' github_request ''k2'' github_body = Some (github_sent ''k2'')"
    by (simp_all add: forwardMcpRequest_def upstreamMcpHeaders_def github_example_metadata github_example_headers
        FORWARDED_REQUEST_HEADERS_def set_header_def github_sent_def del: paramHeaders.simps)
qed

lemma github_example_send:
  "sendGithub github_options github_answers github_request n ''k1'' github_body =
     ([GhForwarded (github_sent ''k1'')], Inr \<lparr>re_status = 401, re_headers = [], re_body = []\<rparr>)"
  "sendGithub github_options github_answers github_request n ''k2'' github_body =
     ([GhForwarded (github_sent ''k2'')], Inr \<lparr>re_status = 401, re_headers = [], re_body = []\<rparr>)"
proof -
  have "gh_upstreamUrl github_options = ''u''" by (simp add: github_options_def)
  then show "sendGithub github_options github_answers github_request n ''k1'' github_body =
     ([GhForwarded (github_sent ''k1'')], Inr \<lparr>re_status = 401, re_headers = [], re_body = []\<rparr>)"
    "sendGithub github_options github_answers github_request n ''k2'' github_body =
     ([GhForwarded (github_sent ''k2'')], Inr \<lparr>re_status = 401, re_headers = [], re_body = []\<rparr>)"
    by (simp_all add: sendGithub_def github_example_request awaited_def) (simp_all add: github_answers_def)
qed

lemma github_example_forwarded:
  "GhForwarded (github_sent ''k2'') \<in> set (fst (forwardGithub github_options github_answers github_request github_identity (Some github_tool_call) ''k1''))"
proof -
  have "gh_canRecover github_options" "\<not> gh_audit github_options" by (simp_all add: github_options_def)
  moreover have "hw_recover github_answers github_identity ''k1'' = Some (Some ''k2'')" by (simp add: github_answers_def)
  ultimately show ?thesis
    by (simp add: forwardGithub_def github_body_def [symmetric] github_example_send Let_def seq_def awaited_def pure_step_def
        catching_def emitGithub_def)
qed

lemma github_example_sent: "GhForwarded (github_sent ''k2'') \<in> set (fst (handleGithub github_options github_answers github_request))"
proof -
  have m: "handleGithub github_options github_answers github_request =
      githubMessage github_options github_answers github_request github_identity UNRESTRICTED
        (Some \<lparr>gm_id = JNum 1, gm_method = ''tools/call'', gm_isNotification = False\<rparr>)"
  proof -
    have "githubBearerToken github_request = Some ''alice''" "gh_authenticate github_options ''alice'' = Inr github_identity"
      "singleJsonRpcObject (gh_parseJson github_options) (iq_body github_request)" "iq_method github_request = ''POST''"
      "\<not> ta_restricted UNRESTRICTED"
      by (simp_all add: githubBearerToken_def header_of_def github_request_def github_options_def singleJsonRpcObject_def UNRESTRICTED_def)
    then show ?thesis by (simp add: handleGithub_def github_example_task github_example_method githubDispatch_def)
  qed
  have l: "handleLocalToolCall github_options github_answers github_identity github_tool_call = pure_step ()"
    by (simp add: handleLocalToolCall_def github_tool_call_def)
  have r: "resolveGithubTokenOrUndefined github_answers github_identity = ([GhResolved github_identity], Inr (Some ''k1''))"
    by (simp add: resolveGithubTokenOrUndefined_def github_answers_def awaited_def)
  obtain es where c: "checkCall github_options github_answers github_identity UNRESTRICTED github_tool_call = (es, Inr ())"
    using github_example_checked by (metis prod.collapse)
  show ?thesis
    unfolding m githubMessage_def parsedCall_def [symmetric] github_example_call
    using github_example_forwarded
    by (simp add: discoveryToken_def isResourceDiscoveryMethod_def l r c) (simp add: seq_def pure_step_def r)
qed

theorem github_call_authorized_witness:
  "\<exists>token identity task. githubBearerToken github_request = Some token \<and> gh_authenticate github_options token = Inr identity \<and>
    task = parseTaskToolAuthorization (hi_claims identity) (gh_allowLegacyUnscopedTaskTokens github_options) \<and>
    ca_url (github_sent ''k2'') = gh_upstreamUrl github_options \<and> (ta_restricted task \<longrightarrow> iq_method github_request = ''POST'') \<and>
    githubPermitted github_options github_answers github_request identity task (github_sent ''k2'')"
  by (rule github_call_authorized [OF github_example_sent])

end
