(* ===== verification/Oauth_Flows.thy ===== *)
theory Oauth_Flows
  imports Oauth_Adapters
begin

text \<open>
  The sign-in with a provider: the one-time states of \<open>shared/oauth/memory-store.ts\<close>, and the start, the callback and
  the cancellation of \<open>shared/oauth/google.ts\<close>, \<open>shared/oauth/github.ts\<close> and \<open>servers/generic-wrapper/src/oauth.ts\<close>, which
  differ in the adapter, in the comparison of mail addresses and in the codes of their errors. The token brokers
  of \<open>token-broker.ts\<close> and \<open>github.ts\<close> are here too. A callback calls the lifecycle; the times of its clock readings are
  an argument. The random source is a sequence, SHA-256 in base64url an argument.
\<close>

section \<open>States\<close>

type_synonym state_records = "(string, OAuthStateRecord) jsmap"

definition saveState :: "OAuthStateRecord \<Rightarrow> state_records \<Rightarrow> state_records" where
  "saveState r m = js_set (os_stateHash r) r m"

definition consumable :: "time_ms \<Rightarrow> string \<Rightarrow> OAuthStateRecord \<Rightarrow> bool" where
  "consumable now provider r \<longleftrightarrow>
     (os_provider r = None \<or> os_provider r = Some provider) \<and> os_consumedAt r = None \<and> now < os_expiresAt r"

definition consumeState :: "(string \<Rightarrow> string) \<Rightarrow> time_ms \<Rightarrow> string \<Rightarrow> string \<Rightarrow> state_records \<Rightarrow> OAuthStateRecord option \<times> state_records" where
  "consumeState hash now provider state m =
     (case js_get m (hash state) of
        None \<Rightarrow> (None, m)
      | Some r \<Rightarrow>
          (if \<not> consumable now provider r then (None, m)
           else (let r' = r\<lparr>os_consumedAt := Some now\<rparr> in (Some r', js_set (hash state) r' m))))"

definition invalidatePrincipal :: "time_ms \<Rightarrow> string \<Rightarrow> string \<Rightarrow> string \<Rightarrow> state_records \<Rightarrow> state_records" where
  "invalidatePrincipal now provider issuer subject m =
     map (\<lambda>(k, r). (k, if os_consumedAt r = None \<and> (os_provider r = Some provider \<or> os_provider r = None) \<and>
                          os_hop1Issuer r = issuer \<and> os_hop1Subject r = subject
                       then r\<lparr>os_consumedAt := Some now\<rparr> else r)) m"

section \<open>Flows\<close>

text \<open>What the three modules have of their own: the lifecycle options with the adapter, the adapter's
  \<open>startAuthorization\<close> and \<open>completeAuthorization\<close>, the comparison of mail addresses, the code of an identity that
  does not match, and whether a conflict of generations is a stale state.\<close>

record oauth_flow =
  fl_options :: options
  fl_continue :: "Hop1Identity \<Rightarrow> string list \<Rightarrow> string \<Rightarrow> AuthorizationContinuation"
  fl_issue :: "time_ms \<Rightarrow> string \<Rightarrow> Hop1Identity \<Rightarrow> string list \<Rightarrow> IssuedCredentialGeneration res"
  fl_sameEmail :: "string \<Rightarrow> string \<Rightarrow> bool"
  fl_mismatch :: string
  fl_conflictIsStale :: bool
  fl_random :: "nat \<Rightarrow> string"
  fl_hash :: "string \<Rightarrow> string"

record flow_state =
  fs_states :: state_records
  fs_life :: lstate
  fs_drawn :: nat

abbreviation fl_provider :: "oauth_flow \<Rightarrow> string" where "fl_provider f \<equiv> op_provider (fl_options f)"

text \<open>An error of the module with its code, or an error of the lifecycle that is thrown on.\<close>

datatype flow_error = FlowError string | LifecycleFailure lifecycle_error

definition STATE_TTL_MS :: time_ms where "STATE_TTL_MS = 10 * 60 * 1000"

definition stateRecordFor ::
  "oauth_flow \<Rightarrow> Hop1Identity \<Rightarrow> string list \<Rightarrow> string option \<Rightarrow> string \<Rightarrow> time_ms \<Rightarrow> ConnectionRecord option \<Rightarrow> OAuthStateRecord" where
  "stateRecordFor f identity scopes redirectAfter state expiresAt observed =
     (let guard = snapshotAuthorizationGuard observed in
      \<lparr>os_provider = Some (fl_provider f), os_stateHash = fl_hash f state, os_hop1Issuer = hi_issuer identity,
       os_hop1Subject = hi_subject identity, os_email = hi_email identity, os_requestedScopes = scopes,
       os_redirectAfter = redirectAfter, os_expiresAt = expiresAt, os_consumedAt = None,
       os_connectionGeneration = ag_generation guard, os_connectionLocallyDisabled = ag_locallyDisabled guard,
       os_connectionUpdatedAt = ag_updatedAt guard\<rparr>)"

definition startOAuth ::
  "oauth_flow \<Rightarrow> (nat \<Rightarrow> time_ms) \<Rightarrow> Hop1Identity \<Rightarrow> string list \<Rightarrow> string option \<Rightarrow> flow_state \<Rightarrow>
   (AuthorizationContinuation \<times> string) \<times> flow_state" where
  "startOAuth f t identity scopes redirectAfter st =
     (let state = fl_random f (fs_drawn st);
          expiresAt = t 0 + STATE_TTL_MS;
          observed = get_conn (fl_options f) (t 1) identity (fs_life st) in
      ((fl_continue f identity scopes state, state),
       st\<lparr>fs_drawn := Suc (fs_drawn st),
          fs_states := saveState (stateRecordFor f identity scopes redirectAfter state expiresAt observed) (fs_states st),
          fs_life := markAuthorizationStarted (fl_options f) (t 2) identity scopes expiresAt (fs_life st)\<rparr>))"

definition identityFromState :: "OAuthStateRecord \<Rightarrow> Hop1Identity" where
  "identityFromState r =
     \<lparr>hi_profile = ''oauth-state'', hi_issuer = os_hop1Issuer r, hi_subject = os_hop1Subject r, hi_email = os_email r\<rparr>"

definition stateGuard :: "OAuthStateRecord \<Rightarrow> AuthorizationActivationGuard" where
  "stateGuard r =
     \<lparr>ag_generation = os_connectionGeneration r, ag_locallyDisabled = os_connectionLocallyDisabled r,
      ag_updatedAt = os_connectionUpdatedAt r\<rparr>"

definition clearFor :: "oauth_flow \<Rightarrow> OAuthStateRecord \<Rightarrow> lstate \<Rightarrow> lstate" where
  "clearFor f r = with_store (clearAuthorizing (fl_provider f) (os_hop1Issuer r) (os_hop1Subject r))"

definition boundToState :: "oauth_flow \<Rightarrow> OAuthStateRecord \<Rightarrow> Hop1Identity \<Rightarrow> bool" where
  "boundToState f r identity \<longleftrightarrow>
     hi_issuer identity = os_hop1Issuer r \<and> hi_subject identity = os_hop1Subject r \<and> fl_sameEmail f (hi_email identity) (os_email r)"

definition issueError :: "oauth_flow \<Rightarrow> lifecycle_error \<Rightarrow> flow_error" where
  "issueError f e =
     FlowError (if e = ProviderLifecycleError identity_mismatch then fl_mismatch f else ''token_exchange_failed'')"

definition activationError :: "oauth_flow \<Rightarrow> lifecycle_error \<Rightarrow> flow_error" where
  "activationError f e =
     (if fl_conflictIsStale f \<and> e = ProviderLifecycleError generation_conflict then FlowError ''invalid_state''
      else if e = ProviderLifecycleError identity_mismatch then FlowError (fl_mismatch f)
      else LifecycleFailure e)"

text \<open>The callback, after its state was consumed. Every failure clears the marker of the authorization.\<close>

definition completeConsumed ::
  "oauth_flow \<Rightarrow> (nat \<Rightarrow> time_ms) \<Rightarrow> Hop1Identity option \<Rightarrow> string \<Rightarrow> OAuthStateRecord \<Rightarrow> lstate \<Rightarrow>
   (flow_error + Hop1Identity \<times> string option) \<times> lstate" where
  "completeConsumed f t caller code r life =
     (let identity = coalesce caller (identityFromState r) in
      if \<not> boundToState f r identity then (Inl (FlowError (fl_mismatch f)), clearFor f r life)
      else if os_provider r \<noteq> Some (fl_provider f) \<or> \<not> isCompleteAuthorizationActivationGuard (stateGuard r)
      then (Inl (FlowError ''invalid_state''), clearFor f r life)
      else case fl_issue f (t 1) code identity (os_requestedScopes r) of
          Inl e \<Rightarrow> (Inl (issueError f e), clearFor f r life)
        | Inr issued \<Rightarrow>
            (case activateAuthorizedGeneration (fl_options f) (\<lambda>i. t (i + 2)) identity (os_requestedScopes r) issued
                    (Some (stateGuard r)) life of
               (Inl e, life') \<Rightarrow> (Inl (activationError f e), clearFor f r life')
             | (Inr _, life') \<Rightarrow> (Inr (identity, os_redirectAfter r), life')))"

definition completeOAuth ::
  "oauth_flow \<Rightarrow> (nat \<Rightarrow> time_ms) \<Rightarrow> Hop1Identity option \<Rightarrow> string \<Rightarrow> string \<Rightarrow> flow_state \<Rightarrow>
   (flow_error + Hop1Identity \<times> string option) \<times> flow_state" where
  "completeOAuth f t caller code state st =
     (case consumeState (fl_hash f) (t 0) (fl_provider f) state (fs_states st) of
        (None, m) \<Rightarrow> (Inl (FlowError ''invalid_state''), st\<lparr>fs_states := m\<rparr>)
      | (Some r, m) \<Rightarrow>
          (case completeConsumed f t caller code r (fs_life st) of
             (result, life) \<Rightarrow> (result, st\<lparr>fs_states := m, fs_life := life\<rparr>)))"

definition cancelOAuth :: "oauth_flow \<Rightarrow> time_ms \<Rightarrow> string \<Rightarrow> flow_state \<Rightarrow> (flow_error + Hop1Identity) \<times> flow_state" where
  "cancelOAuth f now state st =
     (case consumeState (fl_hash f) now (fl_provider f) state (fs_states st) of
        (None, m) \<Rightarrow> (Inl (FlowError ''invalid_state''), st\<lparr>fs_states := m\<rparr>)
      | (Some r, m) \<Rightarrow> (Inr (identityFromState r), st\<lparr>fs_states := m, fs_life := clearFor f r (fs_life st)\<rparr>))"

section \<open>The three modules\<close>

text \<open>Key, codec and random source, which the modules share.\<close>

record flow_env =
  fe_encrypt :: "string \<Rightarrow> string"
  fe_decrypt :: "string \<Rightarrow> string option"
  fe_stringify :: "ProviderCredentialEnvelope \<Rightarrow> string"
  fe_parse :: "string \<Rightarrow> ProviderCredentialEnvelope option"
  fe_uuid :: "nat \<Rightarrow> string"
  fe_random :: "nat \<Rightarrow> string"
  fe_hash :: "string \<Rightarrow> string"
  fe_fetch :: "nat \<Rightarrow> provider_fetch"
  fe_clock :: "nat \<Rightarrow> time_ms"
  fe_parseQuery :: query_parser

definition lifecycleOptions :: "flow_env \<Rightarrow> adapter \<Rightarrow> string list option \<Rightarrow> options" where
  "lifecycleOptions env ad consent =
     \<lparr>op_adapter = ad, op_encrypt = fe_encrypt env, op_decrypt = fe_decrypt env, op_stringify = fe_stringify env,
      op_parse = fe_parse env, consentScopes = consent, renewalSafetyWindowMs = 300000, transientRetries = 1,
      accountIdentityBackfillRetryMs = 30000, op_uuid = fe_uuid env\<rparr>"

definition googleFlow :: "flow_env \<Rightarrow> GoogleOAuthConfig \<Rightarrow> oauth_flow" where
  "googleFlow env cfg =
     \<lparr>fl_options = lifecycleOptions env (googleAdapter cfg (fe_fetch env) (fe_clock env)) None,
      fl_continue = googleStartAuthorization (fe_parseQuery env) cfg,
      fl_issue = googleCompleteAuthorization cfg (fe_fetch env 0), fl_sameEmail = (=), fl_mismatch = ''email_mismatch'',
      fl_conflictIsStale = True, fl_random = fe_random env, fl_hash = fe_hash env\<rparr>"

definition githubFlow :: "flow_env \<Rightarrow> GitHubOAuthConfig \<Rightarrow> oauth_flow" where
  "githubFlow env cfg =
     \<lparr>fl_options = lifecycleOptions env (githubAdapter cfg (fe_fetch env) (fe_clock env)) None,
      fl_continue = githubStartAuthorization (fe_parseQuery env) cfg,
      fl_issue = githubCompleteAuthorization cfg (fe_fetch env 0),
      fl_sameEmail = (\<lambda>a b. to_lower_case a = to_lower_case b), fl_mismatch = ''email_mismatch'',
      fl_conflictIsStale = True, fl_random = fe_random env, fl_hash = fe_hash env\<rparr>"

definition genericFlow :: "flow_env \<Rightarrow> GenericOAuthRuntimeConfig \<Rightarrow> oauth_flow" where
  "genericFlow env cfg =
     \<lparr>fl_options = lifecycleOptions env (genericAdapter cfg (fe_fetch env) (fe_clock env)) None,
      fl_continue = genericStartAuthorization (fe_parseQuery env) cfg,
      fl_issue = genericCompleteAuthorization cfg (fe_fetch env 0),
      fl_sameEmail = (\<lambda>a b. to_lower_case a = to_lower_case b), fl_mismatch = ''identity_mismatch'',
      fl_conflictIsStale = False, fl_random = fe_random env, fl_hash = fe_hash env\<rparr>"

definition startGoogleOAuth where "startGoogleOAuth env cfg = startOAuth (googleFlow env cfg)"
definition startGithubOAuth where "startGithubOAuth env cfg = startOAuth (githubFlow env cfg)"

definition startGenericOAuth where
  "startGenericOAuth env cfg t identity redirectAfter =
     startOAuth (genericFlow env cfg) t identity (go_scopes (gr_descriptor cfg)) redirectAfter"

definition completeGoogleOAuth where "completeGoogleOAuth env cfg = completeOAuth (googleFlow env cfg)"
definition completeGithubOAuth where "completeGithubOAuth env cfg = completeOAuth (githubFlow env cfg)"

text \<open>The generic module leaves an empty target of the redirect out.\<close>

definition completeGenericOAuth where
  "completeGenericOAuth env cfg t caller code state st =
     map_prod (map_sum id (map_prod id (\<lambda>r. if truthy r then r else None))) id
       (completeOAuth (genericFlow env cfg) t caller code state st)"

definition cancelGoogleOAuth where "cancelGoogleOAuth env cfg = cancelOAuth (googleFlow env cfg)"
definition cancelGithubOAuth where "cancelGithubOAuth env cfg = cancelOAuth (githubFlow env cfg)"
definition cancelGenericOAuth where "cancelGenericOAuth env cfg = cancelOAuth (genericFlow env cfg)"

section \<open>Token brokers\<close>

definition tokenError :: "lifecycle_error \<Rightarrow> flow_error" where
  "tokenError e =
     (if lifecycleErrorRequiresReauthorization e then FlowError ''reauth_required''
      else if e = OtherError then LifecycleFailure (ProviderLifecycleError persistence_failure) else LifecycleFailure e)"

definition googleGrantedScopes :: "flow_env \<Rightarrow> GoogleOAuthConfig \<Rightarrow> time_ms \<Rightarrow> Hop1Identity \<Rightarrow> lstate \<Rightarrow> string list" where
  "googleGrantedScopes env cfg now identity st =
     (case get_conn (fl_options (googleFlow env cfg)) now identity st of None \<Rightarrow> [] | Some r \<Rightarrow> cr_grantedScopes r)"

definition googleAccessToken where
  "googleAccessToken env cfg consent t polls identity requiredScopes expectedGrant st =
     map_prod (map_sum tokenError id) id
       (getActiveCredential (lifecycleOptions env (googleAdapter cfg (fe_fetch env) (fe_clock env)) consent)
          t polls identity requiredScopes expectedGrant st)"

definition githubAccessToken where
  "githubAccessToken env cfg t polls identity requiredScopes st =
     map_prod (map_sum tokenError id) id
       (getActiveCredential (fl_options (githubFlow env cfg)) t polls identity (FlatScopes requiredScopes) None st)"

definition revokeGithubOAuth where
  "revokeGithubOAuth env cfg t identity st = disconnect (fl_options (githubFlow env cfg)) t identity [] st"

end
