(* ===== verification/Oauth_Routes.thy ===== *)
theory Oauth_Routes
  imports Oauth_Flows
begin

text \<open>
  The HTTP routes of connections and sign-ins: \<open>shared/oauth/connection-routes.ts\<close> with the negotiation of
  \<open>connection-status.ts\<close>, and the route handlers of the generic wrapper, the Google Workspace wrapper and the GitHub wrapper
  (\<open>oauth-routes.ts\<close> of each), over the in-memory states and the connection lifecycle. The URL parser, the JSON parser and
  the authentication are arguments; audit and log lines, which never change a response, are left out, and a status
  document is shown as the record it is made from.
\<close>

section \<open>Requests and responses\<close>

record route_request =
  rt_method :: string
  rt_pathname :: string
  rt_query :: "(string \<times> string) list"
  rt_origin :: string
  rt_headers :: "(string \<times> string) list"
  rt_body :: string

datatype connection_status = StatusV1 ConnectionStatusV2 | StatusV2 ConnectionStatusV2

datatype route_body =
  NoContent
| ErrorBody string "string option"
| StatusBody connection_status
| RefreshBody RefreshResult connection_status
| ContinuationBody AuthorizationContinuation "string option"
| GoogleStatusBody ConnectionStatusV2
| GithubStatusBody bool ConnectionStatusV2
| NotConnectedBody
| SuccessPage string

record route_response =
  rr_status :: nat
  rr_location :: "string option"
  rr_body :: route_body

definition respond :: "nat \<Rightarrow> route_body \<Rightarrow> route_response" where
  "respond code body = \<lparr>rr_status = code, rr_location = None, rr_body = body\<rparr>"

definition redirectTo :: "string \<Rightarrow> route_response" where
  "redirectTo target = \<lparr>rr_status = 302, rr_location = Some target, rr_body = NoContent\<rparr>"

text \<open>The first version of the document shows no more of the account than its name.\<close>

definition connectionStatusV1 :: "ConnectionStatusV2 \<Rightarrow> ConnectionStatusV2" where
  "connectionStatusV1 s =
     s\<lparr>st_account := (case st_account s of
        Some a \<Rightarrow> (if truthy (sa_displayName a) then Some (a\<lparr>sa_provider := [], sa_id := None, sa_login := None\<rparr>) else None)
      | None \<Rightarrow> None)\<rparr>"

definition CONNECTION_STATUS_V2_MEDIA_TYPE :: string where
  "CONNECTION_STATUS_V2_MEDIA_TYPE = ''application/vnd.apelogic.connection-status.v2+json''"

definition acceptsConnectionStatusV2 :: "route_request \<Rightarrow> bool" where
  "acceptsConnectionStatusV2 rq \<longleftrightarrow>
     CONNECTION_STATUS_V2_MEDIA_TYPE \<in>
       set (map (\<lambda>v. to_lower_case (trim (hd (split_on CHR '';'' v)))) (split_on CHR '','' (coalesce (js_get (rt_headers rq) ''accept'') [])))"

definition negotiatedConnectionStatus :: "route_request \<Rightarrow> ConnectionStatusV2 \<Rightarrow> connection_status" where
  "negotiatedConnectionStatus rq s = (if acceptsConnectionStatusV2 rq then StatusV2 s else StatusV1 (connectionStatusV1 s))"

section \<open>Errors\<close>

text \<open>What a handler may throw: an error of the JSON parser, a route error with its own code, or another error.\<close>

datatype route_failure = SyntaxFailure | RouteFailure LifecycleErrorCategory string | OtherFailure flow_error

fun categoryName :: "LifecycleErrorCategory \<Rightarrow> string" where
  "categoryName transient_provider_failure = ''transient_provider_failure''"
| "categoryName invalid_active_credential = ''invalid_active_credential''"
| "categoryName invalid_renewal_credential = ''invalid_renewal_credential''"
| "categoryName renewal_expired = ''renewal_expired''"
| "categoryName authorization_denied = ''authorization_denied''"
| "categoryName identity_mismatch = ''identity_mismatch''"
| "categoryName insufficient_scope = ''insufficient_scope''"
| "categoryName provider_configuration_error = ''provider_configuration_error''"
| "categoryName malformed_provider_response = ''malformed_provider_response''"
| "categoryName persistence_failure = ''persistence_failure''"
| "categoryName generation_conflict = ''generation_conflict''"

fun lifecycleErrorCode :: "LifecycleErrorCategory \<Rightarrow> string" where
  "lifecycleErrorCode authorization_denied = ''oauth_authorization_denied''"
| "lifecycleErrorCode identity_mismatch = ''oauth_identity_mismatch''"
| "lifecycleErrorCode generation_conflict = ''oauth_generation_conflict''"
| "lifecycleErrorCode invalid_active_credential = ''oauth_invalid_active_credential''"
| "lifecycleErrorCode invalid_renewal_credential = ''oauth_invalid_renewal_credential''"
| "lifecycleErrorCode renewal_expired = ''oauth_renewal_expired''"
| "lifecycleErrorCode insufficient_scope = ''oauth_insufficient_scope''"
| "lifecycleErrorCode transient_provider_failure = ''oauth_provider_unavailable''"
| "lifecycleErrorCode provider_configuration_error = ''oauth_provider_configuration_error''"
| "lifecycleErrorCode malformed_provider_response = ''oauth_provider_response_malformed''"
| "lifecycleErrorCode persistence_failure = ''oauth_persistence_failure''"

definition lifecycleHttpStatus :: "LifecycleErrorCategory \<Rightarrow> nat" where
  "lifecycleHttpStatus c =
     (if c = authorization_denied \<or> c = identity_mismatch then 400
      else if c \<in> {generation_conflict, invalid_active_credential, invalid_renewal_credential, renewal_expired, insufficient_scope}
      then 409 else 503)"

fun connectionErrorDetails :: "route_failure \<Rightarrow> nat \<times> string \<times> string" where
  "connectionErrorDetails SyntaxFailure = (400, ''invalid_request'', ''oauth_invalid_request'')"
| "connectionErrorDetails (RouteFailure c code) = (lifecycleHttpStatus c, categoryName c, code)"
| "connectionErrorDetails (OtherFailure (LifecycleFailure (ProviderLifecycleError c))) =
     (lifecycleHttpStatus c, categoryName c, lifecycleErrorCode c)"
| "connectionErrorDetails (OtherFailure _) = (503, ''persistence_failure'', ''oauth_persistence_failure'')"

definition connectionErrorResponse :: "route_failure \<Rightarrow> route_response" where
  "connectionErrorResponse e = (case connectionErrorDetails e of (code, error, name) \<Rightarrow> respond code (ErrorBody error (Some name)))"

section \<open>Callers\<close>

type_synonym caller = "Hop1Identity \<times> (string \<times> json) list"

definition authorizationParts :: "route_request \<Rightarrow> string list" where
  "authorizationParts rq = (case js_get (rt_headers rq) ''authorization'' of None \<Rightarrow> [] | Some h \<Rightarrow> split_on CHR '' '' h)"

definition authenticateRequest :: "(string \<Rightarrow> caller option) \<Rightarrow> route_request \<Rightarrow> caller option" where
  "authenticateRequest authenticate rq =
     (case authorizationParts rq of
        scheme # token # _ \<Rightarrow> (if scheme = ''Bearer'' \<and> token \<noteq> [] then authenticate token else None)
      | _ \<Rightarrow> None)"

text \<open>A token that is present and not valid is an error here: the left summand.\<close>

definition authenticateIfPresent :: "(string \<Rightarrow> caller option) \<Rightarrow> route_request \<Rightarrow> unit + caller option" where
  "authenticateIfPresent authenticate rq =
     (let present = (\<lambda>scheme token extra. scheme = ''Bearer'' \<and> token \<noteq> [] \<and> extra = []);
          ask = (\<lambda>token. case authenticate token of None \<Rightarrow> Inl () | Some c \<Rightarrow> Inr (Some c)) in
      case authorizationParts rq of
        [scheme, token] \<Rightarrow> (if present scheme token [] then ask token else Inr None)
      | scheme # token # extra # _ \<Rightarrow> (if present scheme token extra then ask token else Inr None)
      | _ \<Rightarrow> Inr None)"

text \<open>A token for one purpose may start a connection only if it was issued for that.\<close>

definition allowsConnectionStart :: "(string \<times> json) list \<Rightarrow> string \<Rightarrow> bool" where
  "allowsConnectionStart claims provider =
     (let authority = Option.bind (js_get claims TASK_AUTHORITY_CLAIM) as_record;
          field = (\<lambda>k. claim authority k) in
      if field ''purpose'' = None then True
      else
        (let grant = (case field ''tools'' of Some (JArr [g]) \<Rightarrow> as_record g | _ \<Rightarrow> None) in
         field ''acting_as'' = Some (JStr ''service_for_user'') \<and> field ''service'' = Some (JStr ''steward-apiserver'') \<and>
         field ''purpose'' = Some (JStr ''provider_connection_start'') \<and> field ''runtime_uid'' = None \<and>
         field ''version'' = Some (JNum CURRENT_TASK_AUTHORITY_CLAIMS_VERSION) \<and>
         (case grant of
            None \<Rightarrow> False
          | Some g \<Rightarrow>
              length g = 3 \<and> js_get g ''provider'' = Some (JStr provider) \<and> js_get g ''resource'' = Some (JStr ''provider-control'') \<and>
              js_get g ''action'' = Some (JStr ''start''))))"

definition readJsonObject :: "(string \<Rightarrow> json option) \<Rightarrow> route_request \<Rightarrow> route_failure + (string \<times> json) list" where
  "readJsonObject parseJson rq =
     (if \<not> sublist ''application/json'' (to_lower_case (coalesce (js_get (rt_headers rq) ''content-type'') [])) \<or> rt_body rq = [] then Inr []
      else case parseJson (rt_body rq) of
          None \<Rightarrow> Inl SyntaxFailure
        | Some v \<Rightarrow> Inr (coalesce (as_record v) []))"

definition requestedRedirect :: "(string \<times> json) list \<Rightarrow> string option" where
  "requestedRedirect body = nonEmptyField (js_get body ''redirectAfter'')"

section \<open>Connections\<close>

record route_config =
  rc_authenticate :: "string \<Rightarrow> caller option"
  rc_flow :: oauth_flow
  rc_scopes :: "string list"
  rc_parseJson :: "string \<Rightarrow> json option"
  rc_checkRedirect :: "string option \<Rightarrow> route_failure + string option"
  rc_urlText :: "AuthorizationContinuation \<Rightarrow> string"

text \<open>A disconnect voids the states of the user whatever becomes of it.\<close>

definition disconnectAndVoid ::
  "route_config \<Rightarrow> (nat \<Rightarrow> time_ms) \<Rightarrow> Hop1Identity \<Rightarrow> flow_state \<Rightarrow> ConnectionStatusV2 res \<times> flow_state" where
  "disconnectAndVoid cfg t identity st =
     (let (result, life) = disconnect (fl_options (rc_flow cfg)) t identity (rc_scopes cfg) (fs_life st) in
      (result, st\<lparr>fs_life := life,
         fs_states := invalidatePrincipal (t 3) (fl_provider (rc_flow cfg)) (hi_issuer identity) (hi_subject identity) (fs_states st)\<rparr>))"

text \<open>The start of a sign-in for a target that was asked for.\<close>

definition startChecked ::
  "route_config \<Rightarrow> (nat \<Rightarrow> time_ms) \<Rightarrow> Hop1Identity \<Rightarrow> string option \<Rightarrow> flow_state \<Rightarrow>
   (route_failure + AuthorizationContinuation \<times> string) \<times> flow_state" where
  "startChecked cfg t identity target st =
     (case rc_checkRedirect cfg target of
        Inl e \<Rightarrow> (Inl e, st)
      | Inr redirectAfter \<Rightarrow>
          (case startOAuth (rc_flow cfg) t identity (rc_scopes cfg) redirectAfter st of (c, st') \<Rightarrow> (Inr c, st')))"

definition authorizeRoute ::
  "route_config \<Rightarrow> (nat \<Rightarrow> time_ms) \<Rightarrow> route_request \<Rightarrow> caller \<Rightarrow> flow_state \<Rightarrow> route_response \<times> flow_state" where
  "authorizeRoute cfg t rq who st =
     (if \<not> allowsConnectionStart (snd who) (fl_provider (rc_flow cfg))
      then (respond 403 (ErrorBody ''authorization_denied'' (Some ''oauth_authorization_denied'')), st)
      else case readJsonObject (rc_parseJson cfg) rq of
          Inl e \<Rightarrow> (connectionErrorResponse e, st)
        | Inr body \<Rightarrow>
            (case startChecked cfg t (fst who) (requestedRedirect body) st of
               (Inl e, st') \<Rightarrow> (connectionErrorResponse e, st')
             | (Inr (continuation, state), st') \<Rightarrow>
                 (respond 200 (ContinuationBody continuation (Some state)),
                  st'\<lparr>fs_life := markAuthorizationStarted (fl_options (rc_flow cfg)) (t 3) (fst who) (rc_scopes cfg)
                                  (t 3 + 10 * 60 * 1000) (fs_life st')\<rparr>)))"

definition thrown :: "lifecycle_error \<Rightarrow> route_failure" where "thrown e = OtherFailure (LifecycleFailure e)"

definition connectionRoutes ::
  "route_config \<Rightarrow> (nat \<Rightarrow> time_ms) \<Rightarrow> (time_ms \<times> lstate) list \<Rightarrow> route_request \<Rightarrow> flow_state \<Rightarrow> route_response \<times> flow_state" where
  "connectionRoutes cfg t polls rq st =
     (case authenticateRequest (rc_authenticate cfg) rq of
        None \<Rightarrow> (respond 401 (ErrorBody ''Unauthorized'' (Some ''oauth_unauthorized'')), st)
      | Some who \<Rightarrow>
          (let opt = fl_options (rc_flow cfg); pre = ''/connections/'' @ op_provider opt;
               is = (\<lambda>m p. rt_method rq = m \<and> rt_pathname rq = pre @ p) in
           if is ''GET'' ''/status''
           then (let (s, life) = status opt (t 0) (fst who) (rc_scopes cfg) (fs_life st) in
                 (respond 200 (StatusBody (negotiatedConnectionStatus rq s)), st\<lparr>fs_life := life\<rparr>))
           else if is ''POST'' ''/refresh''
           then (case refresh opt t polls (fst who) (rc_scopes cfg) (fs_life st) of
                   (Inl e, life) \<Rightarrow> (connectionErrorResponse (thrown e), st\<lparr>fs_life := life\<rparr>)
                 | (Inr (result, s), life) \<Rightarrow>
                     (respond 200 (RefreshBody result (negotiatedConnectionStatus rq s)), st\<lparr>fs_life := life\<rparr>))
           else if is ''POST'' ''/disconnect''
           then (case disconnectAndVoid cfg t (fst who) st of
                   (Inl e, st') \<Rightarrow> (connectionErrorResponse (thrown e), st')
                 | (Inr s, st') \<Rightarrow> (respond 200 (StatusBody (negotiatedConnectionStatus rq s)), st'))
           else if is ''POST'' ''/authorize'' then authorizeRoute cfg t rq who st
           else (respond 404 (ErrorBody ''Not found'' (Some ''oauth_route_not_found'')), st)))"

section \<open>Targets of redirects\<close>

text \<open>\<open>new URL(value, base)\<close>; \<open>None\<close> where it throws.\<close>

type_synonym url_resolver = "string \<Rightarrow> string \<Rightarrow> full_url option"

definition LOCAL_ORIGIN :: string where "LOCAL_ORIGIN = ''https://mcp-gw.invalid''"

definition localPart :: "full_url \<Rightarrow> string" where
  "localPart u = url_pathname u @ url_search u @ url_hash u"

definition redirectTargetError :: route_failure where
  "redirectTargetError = RouteFailure authorization_denied ''oauth_redirect_target_not_allowed''"

definition validateGenericRedirectAfter :: "url_resolver \<Rightarrow> string option \<Rightarrow> route_failure + string option" where
  "validateGenericRedirectAfter resolve v =
     (case v of
        None \<Rightarrow> Inr None
      | Some s \<Rightarrow>
          (case resolve s LOCAL_ORIGIN of
             None \<Rightarrow> Inl redirectTargetError
           | Some u \<Rightarrow>
               (if \<not> prefix ''/'' s \<or> url_origin u \<noteq> LOCAL_ORIGIN then Inl redirectTargetError else Inr (Some (localPart u)))))"

text \<open>The check of the GitHub wrapper accepts, refuses, or throws.\<close>

datatype redirect_check = RedirectOk "string option" | RedirectRefused | RedirectThrows

definition validateRedirectAfter :: "url_resolver \<Rightarrow> url_parser \<Rightarrow> string list \<Rightarrow> string option \<Rightarrow> redirect_check" where
  "validateRedirectAfter resolve parse allowedOrigins v =
     (case v of
        Some (c # cs) \<Rightarrow>
          (let s = c # cs in
           if c = CHR ''/''
           then (case resolve s LOCAL_ORIGIN of
                   None \<Rightarrow> RedirectThrows
                 | Some u \<Rightarrow> (if url_origin u = LOCAL_ORIGIN then RedirectOk (Some (localPart u)) else RedirectRefused))
           else (case parse s of
                   None \<Rightarrow> RedirectRefused
                 | Some u \<Rightarrow>
                     (if (url_protocol u \<noteq> ''https:'' \<and>
                          \<not> (url_protocol u = ''http:'' \<and> (url_hostname u = ''127.0.0.1'' \<or> url_hostname u = ''::1''))) \<or>
                         url_username u \<noteq> [] \<or> url_password u \<noteq> [] \<or> url_origin u \<notin> set allowedOrigins
                      then RedirectRefused else RedirectOk (Some (url_href u)))))
      | _ \<Rightarrow> RedirectOk None)"

definition githubCheckRedirect :: "url_resolver \<Rightarrow> url_parser \<Rightarrow> string list \<Rightarrow> string option \<Rightarrow> route_failure + string option" where
  "githubCheckRedirect resolve parse allowedOrigins v =
     (case validateRedirectAfter resolve parse allowedOrigins v of
        RedirectOk target \<Rightarrow> Inr target
      | RedirectRefused \<Rightarrow> Inl redirectTargetError
      | RedirectThrows \<Rightarrow> Inl (thrown OtherError))"

section \<open>The generic wrapper\<close>

definition truthyParam :: "route_request \<Rightarrow> string \<Rightarrow> string option" where
  "truthyParam rq k = (case js_get (rt_query rq) k of Some (c # cs) \<Rightarrow> Some (c # cs) | _ \<Rightarrow> None)"

definition genericRouteConfig where
  "genericRouteConfig env ocfg authenticate parseJson resolve urlText =
     \<lparr>rc_authenticate = authenticate, rc_flow = genericFlow env ocfg, rc_scopes = go_scopes (gr_descriptor ocfg),
      rc_parseJson = parseJson, rc_checkRedirect = validateGenericRedirectAfter resolve, rc_urlText = urlText\<rparr>"

definition parametersMissing :: route_response where
  "parametersMissing = respond 400 (ErrorBody ''invalid_request'' (Some ''oauth_callback_parameters_missing''))"

definition callbackFailed :: route_response where
  "callbackFailed = respond 502 (ErrorBody ''callback_failed'' (Some ''oauth_callback_failed''))"

definition genericFailure :: "flow_error \<Rightarrow> route_response" where
  "genericFailure e =
     (if e = FlowError ''invalid_state'' then respond 400 (ErrorBody ''invalid_state'' (Some ''oauth_state_invalid''))
      else if e = FlowError ''identity_mismatch'' then respond 400 (ErrorBody ''identity_mismatch'' (Some ''oauth_identity_mismatch''))
      else callbackFailed)"

definition genericCallback ::
  "flow_env \<Rightarrow> GenericOAuthRuntimeConfig \<Rightarrow> (string \<Rightarrow> caller option) \<Rightarrow> url_resolver \<Rightarrow> (nat \<Rightarrow> time_ms) \<Rightarrow> route_request \<Rightarrow>
   flow_state \<Rightarrow> route_response \<times> flow_state" where
  "genericCallback env ocfg authenticate resolve t rq st =
     (case truthyParam rq ''state'' of
        None \<Rightarrow> (parametersMissing, st)
      | Some state \<Rightarrow>
          (if js_get (rt_query rq) ''error'' \<noteq> None
           then (case cancelGenericOAuth env ocfg (t 0) state st of
                   (Inr _, st') \<Rightarrow> (respond 400 (ErrorBody ''authorization_denied'' (Some ''oauth_authorization_denied'')), st')
                 | (Inl e, st') \<Rightarrow> (if e = FlowError ''invalid_state'' then genericFailure e else callbackFailed, st'))
           else case truthyParam rq ''code'' of
               None \<Rightarrow> (parametersMissing, st)
             | Some code \<Rightarrow>
                 (case authenticateIfPresent authenticate rq of
                    Inl () \<Rightarrow> (callbackFailed, st)
                  | Inr who \<Rightarrow>
                      (case completeGenericOAuth env ocfg t (map_option fst who) code state st of
                         (Inl e, st') \<Rightarrow> (genericFailure e, st')
                       | (Inr (_, None), st') \<Rightarrow> (respond 200 (SuccessPage (go_providerId (gr_descriptor ocfg))), st')
                       | (Inr (_, Some target), st') \<Rightarrow>
                           (case resolve target (rt_origin rq) of
                              None \<Rightarrow> (callbackFailed, st')
                            | Some u \<Rightarrow> (redirectTo (url_href u), st'))))))"

definition genericOAuthRoutes where
  "genericOAuthRoutes env ocfg authenticate parseJson resolve urlText t polls rq st =
     (let provider = go_providerId (gr_descriptor ocfg) in
      if prefix (''/connections/'' @ provider @ ''/'') (rt_pathname rq)
      then connectionRoutes (genericRouteConfig env ocfg authenticate parseJson resolve urlText) t polls rq st
      else if rt_method rq \<noteq> ''GET'' \<or> rt_pathname rq \<noteq> ''/oauth/'' @ provider @ ''/callback''
      then (respond 404 (ErrorBody ''not_found'' (Some ''oauth_route_not_found'')), st)
      else genericCallback env ocfg authenticate resolve t rq st)"

section \<open>Google\<close>

definition googleRouteConfig where
  "googleRouteConfig env gcfg scopes authenticate parseJson urlText =
     \<lparr>rc_authenticate = authenticate, rc_flow = googleFlow env gcfg, rc_scopes = scopes, rc_parseJson = parseJson,
      rc_checkRedirect = Inr, rc_urlText = urlText\<rparr>"

definition plainError :: "nat \<Rightarrow> string \<Rightarrow> route_response" where
  "plainError code message = respond code (ErrorBody message None)"

fun googleFailure :: "flow_error \<Rightarrow> route_response" where
  "googleFailure (FlowError code) =
     (if code = ''invalid_state'' then plainError 400 ''OAuth state is invalid, stale, or expired''
      else if code = ''email_mismatch'' then plainError 400 ''Google account identity does not match authenticated user''
      else plainError 502 ''Google OAuth callback could not be completed'')"
| "googleFailure (LifecycleFailure e) = connectionErrorResponse (OtherFailure (LifecycleFailure e))"

text \<open>The callback of a module: its answers to missing parameters, a denial, an error and success are arguments.\<close>

definition callbackRoute ::
  "oauth_flow \<Rightarrow> (string \<Rightarrow> caller option) \<Rightarrow> route_response \<Rightarrow> route_response \<Rightarrow> (flow_error \<Rightarrow> route_response) \<Rightarrow> string \<Rightarrow>
   (nat \<Rightarrow> time_ms) \<Rightarrow> route_request \<Rightarrow> flow_state \<Rightarrow> route_response \<times> flow_state" where
  "callbackRoute f authenticate missing denied failure page t rq st =
     (case truthyParam rq ''state'' of
        None \<Rightarrow> (missing, st)
      | Some state \<Rightarrow>
          (if js_get (rt_query rq) ''error'' \<noteq> None
           then (case cancelOAuth f (t 0) state st of
                   (Inr _, st') \<Rightarrow> (denied, st')
                 | (Inl e, st') \<Rightarrow> (failure e, st'))
           else case truthyParam rq ''code'' of
               None \<Rightarrow> (missing, st)
             | Some code \<Rightarrow>
                 (case completeOAuth f t (map_option fst (authenticateRequest authenticate rq)) code state st of
                    (Inl e, st') \<Rightarrow> (failure e, st')
                  | (Inr (_, target), st') \<Rightarrow>
                      ((if truthy target then redirectTo (the target) else respond 200 (SuccessPage page)), st'))))"

definition googleCallback where
  "googleCallback cfg =
     callbackRoute (rc_flow cfg) (rc_authenticate cfg) (plainError 400 ''Missing OAuth code or state'')
       (plainError 400 ''Google authorization was not completed'') googleFailure ''Google Workspace''"

definition googleStart ::
  "route_config \<Rightarrow> (nat \<Rightarrow> time_ms) \<Rightarrow> route_request \<Rightarrow> Hop1Identity \<Rightarrow> flow_state \<Rightarrow> route_response \<times> flow_state" where
  "googleStart cfg t rq identity st =
     (if rt_method rq = ''GET''
      then (case startOAuth (rc_flow cfg) t identity (rc_scopes cfg) (js_get (rt_query rq) ''redirect_after'') st of
              ((continuation, _), st') \<Rightarrow> (redirectTo (rc_urlText cfg continuation), st'))
      else case readJsonObject (rc_parseJson cfg) rq of
          Inl e \<Rightarrow> (connectionErrorResponse e, st)
        | Inr body \<Rightarrow>
            (case startOAuth (rc_flow cfg) t identity (rc_scopes cfg) (requestedRedirect body) st of
               ((continuation, _), st') \<Rightarrow> (respond 200 (ContinuationBody continuation None), st')))"

text \<open>The older routes, which the Google and the GitHub wrapper have beside those of connections.\<close>

definition legacyRoutes ::
  "route_config \<Rightarrow> (route_config \<Rightarrow> (nat \<Rightarrow> time_ms) \<Rightarrow> route_request \<Rightarrow> Hop1Identity \<Rightarrow> flow_state \<Rightarrow> route_response \<times> flow_state) \<Rightarrow>
   (route_request \<Rightarrow> ConnectionStatusV2 \<Rightarrow> route_body) \<Rightarrow> (route_request \<Rightarrow> ConnectionStatusV2 \<Rightarrow> connection_status) \<Rightarrow> route_response \<Rightarrow>
   (nat \<Rightarrow> time_ms) \<Rightarrow> (time_ms \<times> lstate) list \<Rightarrow> route_request \<Rightarrow> Hop1Identity \<Rightarrow> flow_state \<Rightarrow> route_response \<times> flow_state" where
  "legacyRoutes cfg startRoute statusBody refreshStatus notFound t polls rq identity st =
     (let opt = fl_options (rc_flow cfg);
          is = (\<lambda>m p. rt_method rq = m \<and> rt_pathname rq = ''/oauth/'' @ op_provider opt @ p) in
      if is ''GET'' ''/start'' \<or> is ''POST'' ''/start'' then startRoute cfg t rq identity st
      else if is ''GET'' ''/status''
      then (let (s, life) = status opt (t 0) identity (rc_scopes cfg) (fs_life st) in
            (respond 200 (statusBody rq s), st\<lparr>fs_life := life\<rparr>))
      else if is ''POST'' ''/refresh''
      then (case refresh opt t polls identity (rc_scopes cfg) (fs_life st) of
              (Inl e, life) \<Rightarrow> (connectionErrorResponse (thrown e), st\<lparr>fs_life := life\<rparr>)
            | (Inr (result, s), life) \<Rightarrow> (respond 200 (RefreshBody result (refreshStatus rq s)), st\<lparr>fs_life := life\<rparr>))
      else if is ''POST'' ''/disconnect''
      then (case disconnectAndVoid cfg t identity st of
              (Inl e, st') \<Rightarrow> (connectionErrorResponse (thrown e), st')
            | (Inr _, st') \<Rightarrow> (respond 204 NoContent, st'))
      else (notFound, st))"

definition googleOAuthRoutes ::
  "route_config \<Rightarrow> (nat \<Rightarrow> time_ms) \<Rightarrow> (time_ms \<times> lstate) list \<Rightarrow> route_request \<Rightarrow> flow_state \<Rightarrow> route_response \<times> flow_state" where
  "googleOAuthRoutes cfg t polls rq st =
     (if prefix ''/connections/google/'' (rt_pathname rq) then connectionRoutes cfg t polls rq st
      else if rt_method rq = ''GET'' \<and> rt_pathname rq = ''/oauth/google/callback'' then googleCallback cfg t rq st
      else case authenticateRequest (rc_authenticate cfg) rq of
          None \<Rightarrow> (plainError 401 ''Unauthorized'', st)
        | Some who \<Rightarrow>
            legacyRoutes cfg googleStart (\<lambda>_. GoogleStatusBody) (\<lambda>_. StatusV2) (plainError 404 ''Not found'') t polls rq (fst who) st)"

section \<open>GitHub\<close>

definition githubRouteConfig where
  "githubRouteConfig env hcfg scopes authenticate parseJson resolve parse allowedOrigins urlText =
     \<lparr>rc_authenticate = authenticate, rc_flow = githubFlow env hcfg, rc_scopes = scopes, rc_parseJson = parseJson,
      rc_checkRedirect = githubCheckRedirect resolve parse allowedOrigins, rc_urlText = urlText\<rparr>"

definition githubError :: "nat \<Rightarrow> string \<Rightarrow> string \<Rightarrow> route_response" where
  "githubError code message name = respond code (ErrorBody message (Some name))"

fun githubFailure :: "flow_error \<Rightarrow> route_response" where
  "githubFailure (FlowError code) =
     (if code = ''email_mismatch'' then githubError 400 ''GitHub account identity does not match authenticated user'' ''oauth_identity_mismatch''
      else if code = ''invalid_state'' then githubError 400 ''OAuth state is invalid or expired'' ''oauth_state_invalid''
      else githubError 502 ''GitHub OAuth callback could not be completed'' ''oauth_callback_failed'')"
| "githubFailure (LifecycleFailure e) = connectionErrorResponse (OtherFailure (LifecycleFailure e))"

definition githubCallback where
  "githubCallback cfg =
     callbackRoute (rc_flow cfg) (rc_authenticate cfg)
       (githubError 400 ''Missing OAuth code or state'' ''oauth_callback_parameters_missing'')
       (githubError 400 ''GitHub authorization was not completed'' ''oauth_authorization_denied'') githubFailure ''GitHub''"

text \<open>A target that is refused is reported here with a text of its own.\<close>

definition githubRefusal :: "route_failure \<Rightarrow> route_response" where
  "githubRefusal e =
     (if e = redirectTargetError then githubError 400 ''OAuth redirect target is not allowed'' ''oauth_redirect_target_not_allowed''
      else connectionErrorResponse e)"

definition githubStart ::
  "route_config \<Rightarrow> (nat \<Rightarrow> time_ms) \<Rightarrow> route_request \<Rightarrow> Hop1Identity \<Rightarrow> flow_state \<Rightarrow> route_response \<times> flow_state" where
  "githubStart cfg t rq identity st =
     (if rt_method rq = ''GET''
      then (case startChecked cfg t identity (js_get (rt_query rq) ''redirect_after'') st of
              (Inl e, st') \<Rightarrow> (githubRefusal e, st')
            | (Inr (continuation, _), st') \<Rightarrow> (redirectTo (rc_urlText cfg continuation), st'))
      else case readJsonObject (rc_parseJson cfg) rq of
          Inl e \<Rightarrow> (connectionErrorResponse e, st)
        | Inr body \<Rightarrow>
            (case startChecked cfg t identity (requestedRedirect body) st of
               (Inl e, st') \<Rightarrow> (githubRefusal e, st')
             | (Inr (continuation, _), st') \<Rightarrow> (respond 200 (ContinuationBody continuation None), st')))"

definition githubStatusBody :: "route_request \<Rightarrow> ConnectionStatusV2 \<Rightarrow> route_body" where
  "githubStatusBody rq s =
     (if st_phase s = Ph_disconnected then NotConnectedBody else GithubStatusBody (acceptsConnectionStatusV2 rq) s)"

definition githubOAuthRoutes ::
  "route_config \<Rightarrow> (nat \<Rightarrow> time_ms) \<Rightarrow> (time_ms \<times> lstate) list \<Rightarrow> route_request \<Rightarrow> flow_state \<Rightarrow> route_response \<times> flow_state" where
  "githubOAuthRoutes cfg t polls rq st =
     (if prefix ''/connections/github/'' (rt_pathname rq) then connectionRoutes cfg t polls rq st
      else if rt_method rq = ''GET'' \<and> rt_pathname rq = ''/oauth/github/callback'' then githubCallback cfg t rq st
      else case authenticateRequest (rc_authenticate cfg) rq of
          None \<Rightarrow> (githubError 401 ''Unauthorized'' ''oauth_unauthorized'', st)
        | Some who \<Rightarrow>
            legacyRoutes cfg githubStart githubStatusBody negotiatedConnectionStatus
              (githubError 404 ''Not found'' ''oauth_route_not_found'') t polls rq (fst who) st)"

end
