(* ===== verification/Oauth_Props.thy ===== *)
theory Oauth_Props
  imports Oauth_Flows Lifecycle_Fixture
begin

text \<open>
  What a completed sign-in with a provider establishes, for the three modules at once through the contract
  \<open>attesting_flow\<close> of their adapters: the callback belongs to a sign-in that was started for this very user, its state is
  used up, and the provider has attested with the new token that the account has the mail address of the user.
  A state is good for one callback or cancellation, whatever happens in between.
\<close>

section \<open>Attestation\<close>

text \<open>The replies on which an identity is accepted.\<close>

definition repliedObject :: "provider_fetch \<Rightarrow> provider_request \<Rightarrow> (string \<times> json) list \<Rightarrow> bool" where
  "repliedObject fetch rq body \<longleftrightarrow> (\<exists>r. fetch rq = Some r \<and> rp_ok r \<and> rp_body r = JsonIs (JObj body))"

definition repliedArray :: "provider_fetch \<Rightarrow> provider_request \<Rightarrow> json list \<Rightarrow> bool" where
  "repliedArray fetch rq xs \<longleftrightarrow> (\<exists>r. fetch rq = Some r \<and> rp_ok r \<and> rp_body r = JsonIs (JArr xs))"

definition googleAttested :: "GoogleOAuthConfig \<Rightarrow> provider_fetch \<Rightarrow> string \<Rightarrow> string \<Rightarrow> bool" where
  "googleAttested cfg fetch token email \<longleftrightarrow>
     (\<exists>body. repliedObject fetch (readCall (coalesce (gc_userInfoUrl cfg) ''https://www.googleapis.com/oauth2/v3/userinfo'')
        [bearer token]) body \<and> stringField body ''email'' = Some email)"

definition githubAttested :: "GitHubOAuthConfig \<Rightarrow> provider_fetch \<Rightarrow> string \<Rightarrow> string \<Rightarrow> bool" where
  "githubAttested cfg fetch token email \<longleftrightarrow>
     (\<exists>entries. repliedArray fetch (readCall (coalesce (hc_userEmailsUrl cfg) ''https://api.github.com/user/emails'')
        (githubHeaders token)) entries \<and> list_ex (verifiedEmail email) entries)"

definition genericAttested :: "GenericOAuthRuntimeConfig \<Rightarrow> provider_fetch \<Rightarrow> string \<Rightarrow> string \<Rightarrow> bool" where
  "genericAttested cfg fetch token email \<longleftrightarrow>
     (case go_identity (gr_descriptor cfg) of
        VerifiedEmail idField emailField loginField emailVerifiedField \<Rightarrow>
          (\<exists>body e. repliedObject fetch (readCall (go_userInfoUrl (gr_descriptor cfg)) [bearer token]) body \<and>
             stringAtPath body emailField = Some e \<and> normalizeEmail e = normalizeEmail email \<and>
             valueAtPath (JObj body) emailVerifiedField = Some (JBool True))
      | AtlassianJiraAssertedEmail siteUrl \<Rightarrow>
          (\<exists>sites cloudId profile e.
             repliedArray fetch (readCall (go_userInfoUrl (gr_descriptor cfg)) [bearer token]) sites \<and>
             resolveAtlassianJiraSite (gr_parseUrl cfg) (JArr sites) siteUrl = Inr cloudId \<and>
             repliedObject fetch (readCall (jiraProfileUrl cloudId) [bearer token]) profile \<and>
             js_get profile ''active'' = Some (JBool True) \<and>
             nonEmptyField (js_get profile ''emailAddress'') = Some e \<and> normalizeEmail e = normalizeEmail email))"

lemma providerFetch_Inr: "providerFetch fetch rq = Inr r \<longleftrightarrow> fetch rq = Some r"
  by (simp add: providerFetch_def split: option.split)

lemma responseJson_Inr: "responseJson b = Inr (Some v) \<longleftrightarrow> b = JsonIs v"
  by (cases b) auto

lemma jsonValue_Inr: "jsonValue b = Inr v \<longleftrightarrow> b = JsonIs v"
  by (cases b) (auto simp: malformedResponse_def)

lemma jsonObject_Inr: "jsonObject r = Inr body \<longleftrightarrow> rp_body r = JsonIs (JObj body)"
  by (cases "rp_body r") (auto simp: jsonObject_def sum_bind_def split: option.splits json.splits)

lemma jsonObjectOf_Inr: "jsonObjectOf r = Inr body \<longleftrightarrow> rp_body r = JsonIs (JObj body)"
  by (auto simp: jsonObjectOf_def sum_bind_Inr jsonValue_Inr objectFrom_def split: option.splits)

lemmas reply_rules = sum_bind_Inr providerFetch_Inr responseJson_Inr jsonValue_Inr jsonObject_Inr jsonObjectOf_Inr

lemma googleValidate_attested:
  assumes "googleValidateIdentity cfg fetch g who = Inr v"
  shows "googleAttested cfg fetch (the (activeCredential (dg_credential g))) (hi_email who)"
  using assms unfolding googleValidateIdentity_def googleAttested_def repliedObject_def
  by (auto simp: reply_rules split: if_splits option.splits)

lemma githubValidate_attested:
  assumes "githubValidateIdentity cfg fetch g who = Inr v"
  shows "githubAttested cfg fetch (the (activeCredential (dg_credential g))) (hi_email who)"
proof -
  have "githubEmailsMatch cfg fetch (githubHeaders (the (activeCredential (dg_credential g)))) (hi_email who) = Inr True"
    using assms by (auto simp: githubValidateIdentity_def reply_rules Let_def split: if_splits)
  then obtain r body where r: "fetch (readCall (coalesce (hc_userEmailsUrl cfg) ''https://api.github.com/user/emails'')
      (githubHeaders (the (activeCredential (dg_credential g))))) = Some r" "responseJson (rp_body r) = Inr body"
    "(case Option.bind body as_array of
         None \<Rightarrow> Inl (providerResponseError r)
       | Some entries \<Rightarrow> (if rp_ok r then Inr (list_ex (verifiedEmail (hi_email who)) entries) else Inl (providerResponseError r))) = Inr True"
    by (auto simp: githubEmailsMatch_def reply_rules)
  then obtain entries where e: "Option.bind body as_array = Some entries" by (cases "Option.bind body as_array") auto
  then have "body = Some (JArr entries)" by (cases body) auto
  with r e show ?thesis by (auto simp: githubAttested_def repliedArray_def reply_rules split: if_splits)
qed

lemma resolved_array: "resolveAtlassianJiraSite parse v siteUrl = Inr c \<Longrightarrow> \<exists>sites. v = JArr sites"
  by (cases v) (auto simp: resolveAtlassianJiraSite_def)

definition jiraAttested :: "GenericOAuthRuntimeConfig \<Rightarrow> provider_fetch \<Rightarrow> json \<Rightarrow> string \<Rightarrow> string \<Rightarrow> string \<Rightarrow> bool" where
  "jiraAttested cfg fetch resources siteUrl token email \<longleftrightarrow>
     (\<exists>cloudId profile e. resolveAtlassianJiraSite (gr_parseUrl cfg) resources siteUrl = Inr cloudId \<and>
        repliedObject fetch (readCall (jiraProfileUrl cloudId) [bearer token]) profile \<and>
        js_get profile ''active'' = Some (JBool True) \<and>
        nonEmptyField (js_get profile ''emailAddress'') = Some e \<and> normalizeEmail e = normalizeEmail email)"

lemma validateAtlassianJiraIdentity_attested:
  assumes "validateAtlassianJiraIdentity cfg fetch resources active siteUrl who = Inr v"
  shows "jiraAttested cfg fetch resources siteUrl active (hi_email who)"
  using assms unfolding validateAtlassianJiraIdentity_def jiraAttested_def repliedObject_def
  by (auto simp: reply_rules split: if_splits option.splits)

lemma genericValidate_attested:
  assumes "genericValidateIdentity cfg fetch g who = Inr v"
  shows "genericAttested cfg fetch (the (activeCredential (dg_credential g))) (hi_email who)"
proof (cases "go_identity (gr_descriptor cfg)")
  case (VerifiedEmail idField emailField loginField emailVerifiedField)
  then show ?thesis
    using assms unfolding genericValidateIdentity_def genericAttested_def repliedObject_def Let_def
    by (auto simp: reply_rules split: if_splits option.splits bool.splits)
next
  case (AtlassianJiraAssertedEmail siteUrl)
  let ?token = "the (activeCredential (dg_credential g))"
  from assms AtlassianJiraAssertedEmail obtain r v' where
    r: "fetch (readCall (go_userInfoUrl (gr_descriptor cfg)) [bearer ?token]) = Some r" "rp_ok r" "rp_body r = JsonIs v'"
    and j: "validateAtlassianJiraIdentity cfg fetch v' ?token siteUrl who = Inr v"
    by (auto simp: genericValidateIdentity_def reply_rules Let_def split: if_splits)
  from validateAtlassianJiraIdentity_attested [OF j] obtain cloudId profile e where
    a: "resolveAtlassianJiraSite (gr_parseUrl cfg) v' siteUrl = Inr cloudId"
      "repliedObject fetch (readCall (jiraProfileUrl cloudId) [bearer ?token]) profile"
      "js_get profile ''active'' = Some (JBool True)"
      "nonEmptyField (js_get profile ''emailAddress'') = Some e" "normalizeEmail e = normalizeEmail (hi_email who)"
    by (auto simp: jiraAttested_def)
  from resolved_array [OF a(1)] obtain sites where "v' = JArr sites" by blast
  with r a have "repliedArray fetch (readCall (go_userInfoUrl (gr_descriptor cfg)) [bearer ?token]) sites"
    by (auto simp: repliedArray_def)
  with a \<open>v' = JArr sites\<close> show ?thesis unfolding genericAttested_def AtlassianJiraAssertedEmail by auto
qed

section \<open>The contract of the flows\<close>

text \<open>An adapter that asks the provider who the new token belongs to.\<close>

locale attesting_flow =
  fixes f :: oauth_flow and attested :: "string \<Rightarrow> string \<Rightarrow> bool"
  assumes verifies: "identityVerification (caps (fl_options f))"
    and issue_unverified: "fl_issue f now code who scopes = Inr issued \<Longrightarrow> ig_validatedAt issued = None"
    and validator: "\<exists>v. ad_validateIdentity (op_adapter (fl_options f)) = Some v \<and>
      (\<forall>g who x. v g who = Inr x \<longrightarrow> attested (the (activeCredential (dg_credential g))) (hi_email who))"
begin

lemma validated_attested:
  assumes "validateIssuedGeneration (fl_options f) now who scopes issued candidate = Inr a" "ig_validatedAt issued = None"
    "decryptCredentialCustody (fl_options f) candidate = Inr g" "dg_credential g = ig_credential issued"
  shows "\<exists>token. activeCredential (ig_credential issued) = Some token \<and> token \<noteq> [] \<and> attested token (hi_email who) \<and>
    scopesSatisfied (op_adapter (fl_options f)) (ig_grantedScopes issued) scopes"
proof -
  obtain v where v: "ad_validateIdentity (op_adapter (fl_options f)) = Some v"
    "\<And>g who x. v g who = Inr x \<Longrightarrow> attested (the (activeCredential (dg_credential g))) (hi_email who)"
    using validator by blast
  from assms have t: "truthy (activeCredential (ig_credential issued))"
    by (auto simp: validateIssuedGeneration_def split: if_splits)
  have s: "requireScopes (op_adapter (fl_options f)) (ig_grantedScopes issued) scopes = None"
    using assms(1) by (auto simp: validateIssuedGeneration_def split: if_splits option.splits)
  have "\<exists>x. v g who = Inr x"
    using assms t s v(1) verifies unfolding validateIssuedGeneration_def
    by (auto simp: Let_def split: if_splits sum.splits)
  then have "attested (the (activeCredential (ig_credential issued))) (hi_email who)" using v(2) [of g who] assms(4) by auto
  with t s show ?thesis
    by (cases "activeCredential (ig_credential issued)") (auto simp: requireScopes_def split: if_splits)
qed

end

lemma candidate_opens:
  assumes "sealing_laws opt"
  shows "\<exists>g'. decryptCredentialCustody opt (credentialCustodyRecord opt now who g i) = Inr g' \<and> dg_credential g' = dg_credential g"
  using assms by (auto simp: decryptCredentialCustody_def credentialCustodyRecord_def custodyCredential_def openEnvelope_def
      encryptEnvelope_def sealing_laws_def truthy_def split: option.splits)

lemma activation_validated:
  assumes "activateAuthorizedGeneration opt t who scopes issued guard st = (Inr s, st')" "sealing_laws opt"
  shows "\<exists>now candidate g a. validateIssuedGeneration opt now who scopes issued candidate = Inr a \<and>
    decryptCredentialCustody opt candidate = Inr g \<and> dg_credential g = ig_credential issued"
proof -
  obtain i st1 where i: "randomUUID opt st = (i, st1)" by fastforce
  define q where "q = credentialCustodyRecord opt (t 0) who
            \<lparr>dg_provider = op_provider opt,
             dg_generation = coalesce (Option.bind guard ag_generation) 0 + 1,
             dg_credential = ig_credential issued,
             dg_activeCredentialExpiresAt = ig_activeCredentialExpiresAt issued,
             dg_renewalCredentialExpiresAt = ig_renewalCredentialExpiresAt issued,
             dg_grantedScopes = ig_grantedScopes issued\<rparr> i"
  have "\<exists>a. validateIssuedGeneration opt (t 1) who scopes issued q = Inr a"
    using assms(1) unfolding activateAuthorizedGeneration_def i Let_def prod.case q_def [symmetric]
    by (auto split: sum.splits prod.splits)
  moreover have "\<exists>g. decryptCredentialCustody opt q = Inr g \<and> dg_credential g = ig_credential issued"
    unfolding q_def using candidate_opens [OF assms(2)] by force
  ultimately show ?thesis by blast
qed

lemma consumed:
  assumes "consumeState hash now provider state m = (Some r, m')"
  shows "\<exists>r0. js_get m (hash state) = Some r0 \<and> consumable now provider r0 \<and> r = r0\<lparr>os_consumedAt := Some now\<rparr> \<and>
    js_get m' (hash state) = Some r"
  using assms by (auto simp: consumeState_def Let_def js_map_simps split: option.splits if_splits)

lemma completed_activation:
  assumes "completeConsumed f t caller code r life = (Inr (identity, redirect), life')"
  shows "boundToState f r identity \<and> os_provider r = Some (fl_provider f) \<and> redirect = os_redirectAfter r \<and>
    identity = coalesce caller (identityFromState r) \<and>
    (\<exists>issued s. fl_issue f (t 1) code identity (os_requestedScopes r) = Inr issued \<and>
       activateAuthorizedGeneration (fl_options f) (\<lambda>i. t (i + 2)) identity (os_requestedScopes r) issued
         (Some (stateGuard r)) life = (Inr s, life'))"
  using assms by (auto simp: completeConsumed_def Let_def split: if_splits sum.splits prod.splits)

text \<open>A callback that ends well.\<close>

definition boundCallback ::
  "oauth_flow \<Rightarrow> (string \<Rightarrow> string \<Rightarrow> bool) \<Rightarrow> (nat \<Rightarrow> time_ms) \<Rightarrow> string \<Rightarrow> string \<Rightarrow> flow_state \<Rightarrow> flow_state \<Rightarrow> Hop1Identity \<Rightarrow>
   OAuthStateRecord \<Rightarrow> IssuedCredentialGeneration \<Rightarrow> string \<Rightarrow> bool" where
  "boundCallback f attested t code state st st' identity r issued token \<longleftrightarrow>
     js_get (fs_states st) (fl_hash f state) = Some r \<and> consumable (t 0) (fl_provider f) r \<and> os_provider r = Some (fl_provider f) \<and>
     js_get (fs_states st') (fl_hash f state) = Some (r\<lparr>os_consumedAt := Some (t 0)\<rparr>) \<and>
     boundToState f r identity \<and>
     fl_issue f (t 1) code identity (os_requestedScopes r) = Inr issued \<and>
     scopesSatisfied (op_adapter (fl_options f)) (ig_grantedScopes issued) (os_requestedScopes r) \<and>
     activeCredential (ig_credential issued) = Some token \<and> token \<noteq> [] \<and> attested token (hi_email identity)"

context attesting_flow
begin

lemma callback_bound:
  assumes "completeOAuth f t caller code state st = (Inr (identity, redirect), st')" "sealing_laws (fl_options f)"
  shows "\<exists>r issued token. boundCallback f attested t code state st st' identity r issued token"
proof -
  obtain r m life where c: "consumeState (fl_hash f) (t 0) (fl_provider f) state (fs_states st) = (Some r, m)"
    "completeConsumed f t caller code r (fs_life st) = (Inr (identity, redirect), life)"
    "st' = st\<lparr>fs_states := m, fs_life := life\<rparr>"
    using assms(1) by (auto simp: completeOAuth_def split: prod.splits option.splits)
  from consumed [OF c(1)] obtain r0 where r0: "js_get (fs_states st) (fl_hash f state) = Some r0" "consumable (t 0) (fl_provider f) r0"
    "r = r0\<lparr>os_consumedAt := Some (t 0)\<rparr>" "js_get m (fl_hash f state) = Some r" by blast
  from completed_activation [OF c(2)] obtain issued s where b: "boundToState f r identity" "os_provider r = Some (fl_provider f)"
    "fl_issue f (t 1) code identity (os_requestedScopes r) = Inr issued"
    "activateAuthorizedGeneration (fl_options f) (\<lambda>i. t (i + 2)) identity (os_requestedScopes r) issued
       (Some (stateGuard r)) (fs_life st) = (Inr s, life)" by blast
  from activation_validated [OF b(4) assms(2)] obtain now q g a where
    v: "validateIssuedGeneration (fl_options f) now identity (os_requestedScopes r) issued q = Inr a"
      "decryptCredentialCustody (fl_options f) q = Inr g" "dg_credential g = ig_credential issued" by blast
  from validated_attested [OF v(1) issue_unverified [OF b(3)] v(2,3)] b r0 c(3) show ?thesis
    unfolding boundCallback_def by (auto simp: boundToState_def)
qed

end

section \<open>The three modules\<close>

datatype oauth_module = Google GoogleOAuthConfig | GitHub GitHubOAuthConfig | Generic GenericOAuthRuntimeConfig

fun moduleFlow :: "flow_env \<Rightarrow> oauth_module \<Rightarrow> oauth_flow" where
  "moduleFlow env (Google cfg) = googleFlow env cfg"
| "moduleFlow env (GitHub cfg) = githubFlow env cfg"
| "moduleFlow env (Generic cfg) = genericFlow env cfg"

fun moduleAttested :: "flow_env \<Rightarrow> oauth_module \<Rightarrow> string \<Rightarrow> string \<Rightarrow> bool" where
  "moduleAttested env (Google cfg) = googleAttested cfg (fe_fetch env 0)"
| "moduleAttested env (GitHub cfg) = githubAttested cfg (fe_fetch env 0)"
| "moduleAttested env (Generic cfg) = genericAttested cfg (fe_fetch env 0)"

lemma issued_unverified:
  "googleCompleteAuthorization cfg fetch now code who scopes = Inr issued \<Longrightarrow> ig_validatedAt issued = None"
  "githubCompleteAuthorization hcfg fetch now code who scopes = Inr issued \<Longrightarrow> ig_validatedAt issued = None"
  "genericCompleteAuthorization gcfg fetch now code who scopes = Inr issued \<Longrightarrow> ig_validatedAt issued = None"
  by (auto simp: googleCompleteAuthorization_def githubCompleteAuthorization_def genericCompleteAuthorization_def reply_rules
      split: if_splits)

interpretation module: attesting_flow "moduleFlow env p" "moduleAttested env p" for env p
proof unfold_locales
  show "identityVerification (caps (fl_options (moduleFlow env p)))"
    by (cases p) (simp_all add: googleFlow_def githubFlow_def genericFlow_def lifecycleOptions_def googleAdapter_def githubAdapter_def
        genericAdapter_def GOOGLE_CONNECTION_CAPABILITIES_def GITHUB_CONNECTION_CAPABILITIES_def genericCapabilities_def)
  show "ig_validatedAt issued = None" if "fl_issue (moduleFlow env p) now code who scopes = Inr issued" for now code who scopes issued
    using that by (cases p) (auto simp: googleFlow_def githubFlow_def genericFlow_def dest: issued_unverified)
  show "\<exists>v. ad_validateIdentity (op_adapter (fl_options (moduleFlow env p))) = Some v \<and>
      (\<forall>g who x. v g who = Inr x \<longrightarrow> moduleAttested env p (the (activeCredential (dg_credential g))) (hi_email who))"
    by (cases p) (auto simp: googleFlow_def githubFlow_def genericFlow_def lifecycleOptions_def googleAdapter_def githubAdapter_def
        genericAdapter_def dest: googleValidate_attested githubValidate_attested genericValidate_attested)
qed

text \<open>C32: a callback that ends well in any of the three modules: its state was issued for this provider, was not
  used and not expired, and is used up now; the user of the callback is the one who started the sign-in; the provider
  has issued a token for the code, with the scopes that were asked for, and has attested with that very token that the
  account belongs to the mail address of the user.\<close>

theorem oauth_account_bound:
  assumes "completeOAuth (moduleFlow env p) t caller code state st = (Inr (identity, redirect), st')"
    "sealing_laws (fl_options (moduleFlow env p))"
  shows "\<exists>r issued token. boundCallback (moduleFlow env p) (moduleAttested env p) t code state st st' identity r issued token"
  by (rule module.callback_bound [OF assms])

section \<open>States are used once\<close>

text \<open>The operations on the states, between which the lifecycle may do anything. A start that draws a state with the
  hash \<open>h\<close> again is left out.\<close>

inductive flow_step :: "(string \<Rightarrow> string) \<Rightarrow> string \<Rightarrow> flow_state \<Rightarrow> flow_state \<Rightarrow> bool" for hash h where
  start: "startOAuth f t identity scopes redirectAfter st = (out, st') \<Longrightarrow> fl_hash f = hash \<Longrightarrow> hash (snd out) \<noteq> h
     \<Longrightarrow> flow_step hash h st st'"
| callback: "completeOAuth f t caller code state st = (res, st') \<Longrightarrow> fl_hash f = hash \<Longrightarrow> flow_step hash h st st'"
| cancel: "cancelOAuth f now state st = (res', st') \<Longrightarrow> fl_hash f = hash \<Longrightarrow> flow_step hash h st st'"
| invalidate: "flow_step hash h st (st\<lparr>fs_states := invalidatePrincipal now provider issuer subject (fs_states st)\<rparr>)"
| elsewhere: "flow_step hash h st (st\<lparr>fs_life := life\<rparr>)"

definition usedUp :: "string \<Rightarrow> flow_state \<Rightarrow> bool" where
  "usedUp h st \<longleftrightarrow> (\<exists>r. js_get (fs_states st) h = Some r \<and> os_consumedAt r \<noteq> None)"

lemma consumeState_used:
  "consumeState hash now provider state m = (out, m') \<Longrightarrow> js_get m h = Some r \<Longrightarrow> os_consumedAt r \<noteq> None \<Longrightarrow> js_get m' h = Some r"
  by (auto simp: consumeState_def consumable_def Let_def js_map_simps split: option.splits if_splits)

lemma invalidatePrincipal_used:
  "js_get m h = Some r \<Longrightarrow> os_consumedAt r \<noteq> None \<Longrightarrow> js_get (invalidatePrincipal now provider issuer subject m) h = Some r"
  by (induction m) (auto simp: invalidatePrincipal_def split: if_splits)

lemma flow_step_used: "flow_step hash h st st' \<Longrightarrow> usedUp h st \<Longrightarrow> usedUp h st'"
proof (induction rule: flow_step.induct)
  case (start f t identity scopes redirectAfter st out st')
  then show ?case
    by (auto simp: usedUp_def startOAuth_def saveState_def stateRecordFor_def Let_def js_map_simps)
next
  case (callback f t caller code state st res st')
  then show ?case
    by (auto simp: usedUp_def completeOAuth_def split: prod.splits option.splits dest: consumeState_used)
next
  case (cancel f now state st res' st')
  then show ?case
    by (auto simp: usedUp_def cancelOAuth_def split: prod.splits option.splits dest: consumeState_used)
next
  case (invalidate st now provider issuer subject)
  then show ?case by (auto simp: usedUp_def dest: invalidatePrincipal_used)
qed (auto simp: usedUp_def)

lemma flow_steps_used: "(flow_step hash h)\<^sup>*\<^sup>* st st' \<Longrightarrow> usedUp h st \<Longrightarrow> usedUp h st'"
  by (induction rule: rtranclp_induct) (auto intro: flow_step_used)

lemma used_refused:
  assumes "usedUp (fl_hash f state) st"
  shows "completeOAuth f t caller code state st = (Inl (FlowError ''invalid_state''), st)"
    "cancelOAuth f now state st = (Inl (FlowError ''invalid_state''), st)"
  using assms by (auto simp: usedUp_def completeOAuth_def cancelOAuth_def consumeState_def consumable_def)

lemma consumable_used:
  assumes "js_get m (hash state) = Some r" "consumable now provider r"
  shows "\<exists>r' m'. consumeState hash now provider state m = (Some r', m') \<and> js_get m' (hash state) = Some r' \<and> os_consumedAt r' \<noteq> None"
  using assms by (simp add: consumeState_def Let_def js_map_simps)

text \<open>C33: a state is good for one callback or cancellation: once it was consumed by either, whatever came of it, every later
  callback or cancellation with the state is refused and changes nothing, in each of the modules and after any sequence of starts
  (of other states), callbacks, cancellations, invalidations and lifecycle operations.\<close>

theorem oauth_state_single_use:
  assumes "js_get (fs_states st) (fl_hash f state) = Some r" "consumable (t 0) (fl_provider f) r"
    "st1 = snd (completeOAuth f t caller code state st) \<or> st1 = snd (cancelOAuth f (t 0) state st)"
    "(flow_step (fl_hash f) (fl_hash f state))\<^sup>*\<^sup>* st1 st2" "fl_hash f' = fl_hash f"
  shows "completeOAuth f' t' caller' code' state st2 = (Inl (FlowError ''invalid_state''), st2) \<and>
    cancelOAuth f' now' state st2 = (Inl (FlowError ''invalid_state''), st2)"
proof -
  from consumable_used [of "fs_states st" "fl_hash f", OF assms(1,2)] have "usedUp (fl_hash f state) st1"
    using assms(3) by (auto simp: usedUp_def completeOAuth_def cancelOAuth_def split: prod.splits)
  from flow_steps_used [OF assms(4) this] have "usedUp (fl_hash f' state) st2" using assms(5) by simp
  then show ?thesis by (simp add: used_refused)
qed

section \<open>An example\<close>

definition oauth_env :: flow_env where
  "oauth_env =
     \<lparr>fe_encrypt = op_encrypt demo_options, fe_decrypt = op_decrypt demo_options, fe_stringify = demo_stringify,
      fe_parse = demo_parse, fe_uuid = demo_uuid, fe_random = demo_uuid, fe_hash = Cons (CHR ''h''),
      fe_fetch = (\<lambda>n rq. Some \<lparr>rp_status = 200, rp_body = JsonIs (JObj
        (if pq_method rq = ''POST'' then [(''access_token'', JStr ''a1''), (''scope'', JStr ''read,write'')]
         else [(''id'', JStr ''7''), (''email'', JStr ''M''), (''verified'', JBool True)]))\<rparr>),
      fe_clock = (\<lambda>n. 0), fe_parseQuery = (\<lambda>u. [])\<rparr>"

definition oauth_descriptor :: GenericOAuthCredentialDescriptor where
  "oauth_descriptor =
     \<lparr>go_providerId = ''p'', go_authorizationUrl = ''https://p/a'', go_tokenUrl = ''https://p/t'', go_userInfoUrl = ''https://p/u'',
      go_revocationUrl = None, go_redirectUri = ''https://g/c'', go_scopes = [''read''], go_clientIdEnv = ''I'', go_clientSecretEnv = ''S'',
      go_encryptionKeyEnv = ''K'', go_tokenStoreDsnEnv = ''D'', go_header = ''authorization'', go_scheme = ''Bearer'',
      go_identity = VerifiedEmail ''id'' ''email'' None ''verified'', go_authorizationParams = None,
      go_tokenEndpointAuthMethod = ''client_secret_post'', go_timeoutMs = None\<rparr>"

definition oauth_config :: GenericOAuthRuntimeConfig where
  "oauth_config = \<lparr>gr_descriptor = oauth_descriptor, gr_clientId = ''c'', gr_clientSecret = ''x'', gr_encryptionKey = ''k'', gr_tokenStoreDsn = ''d'',
      gr_parseUrl = (\<lambda>u. None)\<rparr>"

abbreviation oauth_example :: oauth_flow where "oauth_example \<equiv> moduleFlow oauth_env (Generic oauth_config)"

definition oauth_started :: flow_state where
  "oauth_started =
     snd (startOAuth oauth_example (\<lambda>i. 1000 + int i) alice [''read''] None \<lparr>fs_states = [], fs_life = empty_state, fs_drawn = 0\<rparr>)"

definition oauth_callback :: "(flow_error + Hop1Identity \<times> string option) \<times> flow_state" where
  "oauth_callback = completeOAuth oauth_example (\<lambda>i. 2000 + int i) None ''code'' ''g'' oauth_started"

lemma oauth_example_connects:
  "fst oauth_callback = Inr (\<lparr>hi_profile = ''oauth-state'', hi_issuer = ''i'', hi_subject = ''s'', hi_email = ''m''\<rparr>, None)"
  by code_simp

lemma oauth_example_seals: "sealing_laws (fl_options oauth_example)"
  by (simp add: sealing_laws_def genericFlow_def lifecycleOptions_def oauth_env_def demo_options_def demo_codec)

theorem oauth_account_bound_witness:
  "\<exists>r issued token. boundCallback oauth_example (moduleAttested oauth_env (Generic oauth_config)) (\<lambda>i. 2000 + int i) ''code'' ''g''
     oauth_started (snd oauth_callback) \<lparr>hi_profile = ''oauth-state'', hi_issuer = ''i'', hi_subject = ''s'', hi_email = ''m''\<rparr> r issued token"
proof -
  have "completeOAuth oauth_example (\<lambda>i. 2000 + int i) None ''code'' ''g'' oauth_started =
      (Inr (\<lparr>hi_profile = ''oauth-state'', hi_issuer = ''i'', hi_subject = ''s'', hi_email = ''m''\<rparr>, None), snd oauth_callback)"
    using oauth_example_connects by (metis oauth_callback_def prod.collapse)
  from oauth_account_bound [OF this oauth_example_seals] show ?thesis .
qed

theorem oauth_state_single_use_witness:
  "completeOAuth oauth_example (\<lambda>i. 3000 + int i) None ''code'' ''g'' (snd oauth_callback) =
     (Inl (FlowError ''invalid_state''), snd oauth_callback) \<and>
   cancelOAuth oauth_example 3000 ''g'' (snd oauth_callback) = (Inl (FlowError ''invalid_state''), snd oauth_callback)"
proof (rule oauth_state_single_use [where f = oauth_example and ?st1.0 = "snd oauth_callback" and t = "\<lambda>i. 2000 + int i" and caller = None and code = "''code''"])
  show "js_get (fs_states oauth_started) (fl_hash oauth_example ''g'') =
      Some (the (js_get (fs_states oauth_started) (fl_hash oauth_example ''g'')))"
    "consumable (2000 + int 0) (fl_provider oauth_example) (the (js_get (fs_states oauth_started) (fl_hash oauth_example ''g'')))"
    by code_simp+
qed (simp_all add: oauth_callback_def)

end
