(* ===== verification/Oauth_Route_Props.thy ===== *)
theory Oauth_Route_Props
  imports Oauth_Routes Oauth_Props
begin

text \<open>
  What the routes make of sign-ins: a disconnect ends every sign-in of the user that was started before, and the GitHub
  wrapper sends a browser, after a callback, only to a path of its own or to an origin on its list. The Google Workspace
  wrapper does not check where it sends a browser.
\<close>

section \<open>A disconnect ends the sign-ins\<close>

lemma invalidatePrincipal_voids:
  assumes "js_get m h = Some r" "os_provider r = Some provider" "os_hop1Issuer r = issuer" "os_hop1Subject r = subject"
  shows "\<exists>r'. js_get (invalidatePrincipal now provider issuer subject m) h = Some r' \<and> os_consumedAt r' \<noteq> None"
  using assms by (induction m) (auto simp: invalidatePrincipal_def split: if_splits)

lemma disconnectAndVoid_used:
  assumes "disconnectAndVoid cfg t identity st = (result, st1)" "js_get (fs_states st) h = Some r"
    "os_provider r = Some (fl_provider (rc_flow cfg))" "os_hop1Issuer r = hi_issuer identity" "os_hop1Subject r = hi_subject identity"
  shows "usedUp h st1"
  using assms(1) invalidatePrincipal_voids [OF assms(2-5)] by (auto simp: disconnectAndVoid_def usedUp_def split: prod.splits)

text \<open>C34: once a disconnect was asked for, and whatever comes of it, no sign-in with the provider that the user had started
  before can be completed any more: every later callback with its state is refused and changes nothing.\<close>

theorem disconnect_ends_signins:
  assumes "authenticateRequest (rc_authenticate cfg) rq = Some who" "rt_method rq = ''POST''"
    "rt_pathname rq = ''/connections/'' @ fl_provider (rc_flow cfg) @ ''/disconnect''"
    "js_get (fs_states st) (fl_hash (rc_flow cfg) state) = Some r" "os_provider r = Some (fl_provider (rc_flow cfg))"
    "os_hop1Issuer r = hi_issuer (fst who)" "os_hop1Subject r = hi_subject (fst who)"
    "(flow_step (fl_hash (rc_flow cfg)) (fl_hash (rc_flow cfg) state))\<^sup>*\<^sup>* (snd (connectionRoutes cfg t polls rq st)) st2"
  shows "completeOAuth (rc_flow cfg) t' caller code state st2 = (Inl (FlowError ''invalid_state''), st2)"
proof -
  have "snd (connectionRoutes cfg t polls rq st) = snd (disconnectAndVoid cfg t (fst who) st)"
    using assms(1-3) by (simp add: connectionRoutes_def Let_def split: prod.splits sum.splits)
  moreover have "usedUp (fl_hash (rc_flow cfg) state) (snd (disconnectAndVoid cfg t (fst who) st))"
    by (rule disconnectAndVoid_used [OF prod.collapse [symmetric] assms(4-7)])
  ultimately have "usedUp (fl_hash (rc_flow cfg) state) st2" using flow_steps_used [OF assms(8)] by simp
  then show ?thesis by (rule used_refused)
qed

definition route_example :: route_config where
  "route_example = genericRouteConfig oauth_env oauth_config (\<lambda>token. Some (alice, [])) (\<lambda>s. None) (\<lambda>s b. None) (\<lambda>c. [])"

definition disconnect_request :: route_request where
  "disconnect_request = \<lparr>rt_method = ''POST'', rt_pathname = ''/connections/p/disconnect'', rt_query = [], rt_origin = ''https://g'',
     rt_headers = [(''authorization'', ''Bearer x'')], rt_body = []\<rparr>"

definition after_disconnect :: flow_state where
  "after_disconnect = snd (connectionRoutes route_example (\<lambda>i. 2000 + int i) [] disconnect_request oauth_started)"

theorem disconnect_ends_signins_witness:
  "completeOAuth (rc_flow route_example) (\<lambda>i. 3000 + int i) None ''code'' ''g'' after_disconnect =
     (Inl (FlowError ''invalid_state''), after_disconnect)"
proof (rule disconnect_ends_signins [where who = "(alice, [])" and rq = disconnect_request and st = oauth_started and t = "\<lambda>i. 2000 + int i" and polls = "[]"
    and r = "the (js_get (fs_states oauth_started) (fl_hash (rc_flow route_example) ''g''))"])
  show "authenticateRequest (rc_authenticate route_example) disconnect_request = Some (alice, [])"
    by (simp add: authenticateRequest_def authorizationParts_def route_example_def genericRouteConfig_def disconnect_request_def)
  show "rt_method disconnect_request = ''POST''"
    "rt_pathname disconnect_request = ''/connections/'' @ fl_provider (rc_flow route_example) @ ''/disconnect''"
    "js_get (fs_states oauth_started) (fl_hash (rc_flow route_example) ''g'') =
       Some (the (js_get (fs_states oauth_started) (fl_hash (rc_flow route_example) ''g'')))"
    "os_provider (the (js_get (fs_states oauth_started) (fl_hash (rc_flow route_example) ''g''))) = Some (fl_provider (rc_flow route_example))"
    "os_hop1Issuer (the (js_get (fs_states oauth_started) (fl_hash (rc_flow route_example) ''g''))) = hi_issuer (fst (alice, []))"
    "os_hop1Subject (the (js_get (fs_states oauth_started) (fl_hash (rc_flow route_example) ''g''))) = hi_subject (fst (alice, []))"
    by code_simp+
qed (simp add: after_disconnect_def)

section \<open>Targets of redirects\<close>

definition checkedTargets :: "route_config \<Rightarrow> flow_state \<Rightarrow> bool" where
  "checkedTargets cfg st \<longleftrightarrow> (\<forall>(k, r) \<in> set (fs_states st). \<exists>v. rc_checkRedirect cfg v = Inr (os_redirectAfter r))"

lemma checkedTargets_save:
  assumes "checkedTargets cfg st" "rc_checkRedirect cfg v = Inr (os_redirectAfter r)"
  shows "checkedTargets cfg (st\<lparr>fs_states := js_set k r (fs_states st)\<rparr>)"
proof -
  have "set (js_set k r m) \<subseteq> insert (k, r) (set m)" for m by (induction m) auto
  then show ?thesis using assms unfolding checkedTargets_def by fastforce
qed

lemma checkedTargets_states: "fs_states st' = fs_states st \<Longrightarrow> checkedTargets cfg st' = checkedTargets cfg st"
  by (simp add: checkedTargets_def)

lemma checkedTargets_invalidate:
  "checkedTargets cfg st \<Longrightarrow> fs_states st' = invalidatePrincipal now provider issuer subject (fs_states st) \<Longrightarrow> checkedTargets cfg st'"
  by (fastforce simp: checkedTargets_def invalidatePrincipal_def)

lemma consumeState_checked:
  assumes "consumeState hash now provider state (fs_states st) = (out, m)" "checkedTargets cfg st" "fs_states st' = m"
  shows "checkedTargets cfg st' \<and> (\<forall>r. out = Some r \<longrightarrow> (\<exists>v. rc_checkRedirect cfg v = Inr (os_redirectAfter r)))"
proof (cases out)
  case None
  then have "m = fs_states st" using assms(1) by (auto simp: consumeState_def Let_def split: option.splits if_splits)
  with None assms show ?thesis by (simp add: checkedTargets_def)
next
  case (Some r)
  then obtain r0 where r0: "js_get (fs_states st) (hash state) = Some r0" "r = r0\<lparr>os_consumedAt := Some now\<rparr>"
    "m = js_set (hash state) r (fs_states st)"
    using assms(1) by (auto simp: consumeState_def Let_def split: option.splits if_splits)
  from map_of_SomeD [OF r0(1)] assms(2) obtain v where "rc_checkRedirect cfg v = Inr (os_redirectAfter r0)"
    by (auto simp: checkedTargets_def)
  with r0 have "rc_checkRedirect cfg v = Inr (os_redirectAfter r)" by simp
  with checkedTargets_save [OF assms(2) this, of "hash state"] Some r0(3) assms(3) show ?thesis
    by (auto simp: checkedTargets_def)
qed

lemma startOAuth_checked:
  assumes "startOAuth f t identity scopes redirectAfter st = (out, st')" "checkedTargets cfg st" "rc_checkRedirect cfg v = Inr redirectAfter"
  shows "checkedTargets cfg st'"
proof -
  let ?r = "stateRecordFor f identity scopes redirectAfter (fl_random f (fs_drawn st)) (t 0 + STATE_TTL_MS) (get_conn (fl_options f) (t 1) identity (fs_life st))"
  have "checkedTargets cfg (st\<lparr>fs_states := js_set (os_stateHash ?r) ?r (fs_states st)\<rparr>)"
    by (rule checkedTargets_save [OF assms(2), of v]) (simp add: assms(3) stateRecordFor_def Let_def)
  moreover have "fs_states st' = js_set (os_stateHash ?r) ?r (fs_states st)" using assms(1) by (auto simp: startOAuth_def Let_def saveState_def)
  ultimately show ?thesis by (simp add: checkedTargets_def)
qed

lemma startChecked_checked: "startChecked cfg t identity target st = (out, st') \<Longrightarrow> checkedTargets cfg st \<Longrightarrow> checkedTargets cfg st'"
  by (auto simp: startChecked_def split: sum.splits prod.splits intro: startOAuth_checked)

lemma completeConsumed_target: "completeConsumed f t caller code r life = (Inr (identity, target), life') \<Longrightarrow> target = os_redirectAfter r"
  by (auto simp: completeConsumed_def Let_def split: if_splits sum.splits prod.splits)

lemma completeOAuth_checked:
  assumes "completeOAuth f t caller code state st = (out, st')" "checkedTargets cfg st"
  shows "checkedTargets cfg st' \<and> (\<forall>identity target. out = Inr (identity, target) \<longrightarrow> (\<exists>v. rc_checkRedirect cfg v = Inr target))"
proof -
  obtain o1 m where "consumeState (fl_hash f) (t 0) (fl_provider f) state (fs_states st) = (o1, m)" by fastforce
  moreover from this assms(1) have "fs_states st' = m" by (auto simp: completeOAuth_def split: option.splits prod.splits)
  ultimately show ?thesis using assms consumeState_checked [of _ _ _ _ st o1 m cfg st']
    by (auto simp: completeOAuth_def split: option.splits prod.splits dest!: completeConsumed_target)
qed

lemma cancelOAuth_checked:
  assumes "cancelOAuth f now state st = (out, st')" "checkedTargets cfg st"
  shows "checkedTargets cfg st'"
proof -
  obtain o1 m where "consumeState (fl_hash f) now (fl_provider f) state (fs_states st) = (o1, m)" by fastforce
  moreover from this assms(1) have "fs_states st' = m" by (auto simp: cancelOAuth_def split: option.splits prod.splits)
  ultimately show ?thesis using assms consumeState_checked [of _ _ _ _ st o1 m cfg st'] by simp
qed

lemma disconnectAndVoid_checked: "disconnectAndVoid cfg t identity st = (out, st') \<Longrightarrow> checkedTargets cfg st \<Longrightarrow> checkedTargets cfg st'"
  by (rule checkedTargets_invalidate [of cfg st st']) (auto simp: disconnectAndVoid_def split: prod.splits)

lemma checkedTargets_life [simp]: "checkedTargets cfg (st\<lparr>fs_life := life\<rparr>) = checkedTargets cfg st"
  by (simp add: checkedTargets_def)

lemmas checked_rules = startChecked_checked disconnectAndVoid_checked cancelOAuth_checked

lemma callbackRoute_checked:
  assumes "callbackRoute f authenticate missing denied failure page t rq st = (resp, st')" "checkedTargets cfg st"
  shows "checkedTargets cfg st'"
  using assms by (auto simp: callbackRoute_def split: option.splits if_splits prod.splits sum.splits
    dest: cancelOAuth_checked completeOAuth_checked)

lemma connectionRoutes_checked:
  assumes "connectionRoutes cfg t polls rq st = (resp, st')" "checkedTargets cfg st"
  shows "checkedTargets cfg st'"
  using assms by (auto simp: connectionRoutes_def authorizeRoute_def Let_def split: option.splits if_splits prod.splits sum.splits
    dest: checked_rules)

lemma githubStart_checked:
  assumes "githubStart cfg t rq identity st = (resp, st')" "checkedTargets cfg st"
  shows "checkedTargets cfg st'"
  using assms by (auto simp: githubStart_def split: if_splits prod.splits sum.splits dest: checked_rules)

lemma legacyRoutes_checked:
  assumes "legacyRoutes cfg githubStart statusBody refreshStatus notFound t polls rq identity st = (resp, st')" "checkedTargets cfg st"
  shows "checkedTargets cfg st'"
  using assms by (auto simp: legacyRoutes_def Let_def split: if_splits prod.splits sum.splits dest: checked_rules githubStart_checked)

lemma githubOAuthRoutes_checked:
  assumes "githubOAuthRoutes cfg t polls rq st = (resp, st')" "checkedTargets cfg st"
  shows "checkedTargets cfg st'"
  using assms by (auto simp: githubOAuthRoutes_def githubCallback_def split: if_splits option.splits
    dest: connectionRoutes_checked callbackRoute_checked legacyRoutes_checked)

text \<open>The requests a GitHub wrapper serves one after the other.\<close>

inductive github_serves :: "route_config \<Rightarrow> flow_state \<Rightarrow> bool" for cfg where
  fresh: "fs_states st = [] \<Longrightarrow> github_serves cfg st"
| serve: "github_serves cfg st \<Longrightarrow> githubOAuthRoutes cfg t polls rq st = (resp, st') \<Longrightarrow> github_serves cfg st'"

lemma github_serves_checked: "github_serves cfg st \<Longrightarrow> checkedTargets cfg st"
  by (induction rule: github_serves.induct) (auto simp: checkedTargets_def dest: githubOAuthRoutes_checked [unfolded checkedTargets_def])

definition permittedTarget :: "url_resolver \<Rightarrow> url_parser \<Rightarrow> string list \<Rightarrow> string \<Rightarrow> bool" where
  "permittedTarget resolve parse allowedOrigins target \<longleftrightarrow>
     (\<exists>s u. resolve s LOCAL_ORIGIN = Some u \<and> url_origin u = LOCAL_ORIGIN \<and> target = localPart u) \<or>
     (\<exists>s u. parse s = Some u \<and> target = url_href u \<and> url_origin u \<in> set allowedOrigins \<and> url_username u = [] \<and> url_password u = [] \<and>
        (url_protocol u = ''https:'' \<or> url_protocol u = ''http:'' \<and> url_hostname u \<in> {''127.0.0.1'', ''::1''}))"

lemma githubCheckRedirect_permitted:
  "githubCheckRedirect resolve parse allowedOrigins v = Inr (Some target) \<Longrightarrow> permittedTarget resolve parse allowedOrigins target"
  unfolding permittedTarget_def
  by (cases v) (auto simp: githubCheckRedirect_def validateRedirectAfter_def Let_def
    split: redirect_check.splits list.splits if_splits option.splits)

lemma callbackRoute_target:
  assumes "callbackRoute f authenticate missing denied failure page t rq st = (resp, st')" "rr_location resp = Some target"
    "rr_location missing = None" "rr_location denied = None" "\<And>e. rr_location (failure e) = None" "checkedTargets cfg st"
  shows "\<exists>v. rc_checkRedirect cfg v = Inr (Some target)"
  using assms by (auto simp: callbackRoute_def redirectTo_def respond_def truthy_def split: option.splits if_splits prod.splits sum.splits
    dest!: completeOAuth_checked)

lemma githubFailure_stays: "rr_location (githubFailure e) = None"
  by (cases e) (auto simp: githubError_def respond_def connectionErrorResponse_def split: prod.splits)

text \<open>After any sequence of requests, a callback of the GitHub wrapper sends the browser only to the path, query and
  fragment of a URL of the wrapper's own origin, or to a URL whose origin is on the list, without credentials, over
  TLS or to the loopback address. The path can begin with two slashes, which a browser reads as another host: see
  \<open>redirect_scheme_relative\<close> below.\<close>

lemma github_redirects_confined:
  assumes "cfg = githubRouteConfig env hcfg scopes authenticate parseJson resolve parse allowedOrigins urlText"
    "github_serves cfg st" "rt_pathname rq = ''/oauth/github/callback''" "rt_method rq = ''GET''"
    "githubOAuthRoutes cfg t polls rq st = (resp, st')" "rr_location resp = Some target"
  shows "permittedTarget resolve parse allowedOrigins target"
proof -
  have "githubCallback cfg t rq st = (resp, st')" using assms(3-5) by (simp add: githubOAuthRoutes_def)
  then have "\<exists>v. rc_checkRedirect cfg v = Inr (Some target)"
    unfolding githubCallback_def
    by (rule callbackRoute_target [OF _ assms(6) _ _ githubFailure_stays github_serves_checked [OF assms(2)]])
      (simp_all add: githubError_def respond_def)
  then show ?thesis using assms(1) by (auto simp: githubRouteConfig_def intro: githubCheckRedirect_permitted)
qed

definition github_env :: flow_env where
  "github_env = oauth_env\<lparr>fe_fetch := (\<lambda>n rq. Some \<lparr>rp_status = 200, rp_body = JsonIs
     (if pq_method rq = ''POST'' then JObj [(''access_token'', JStr ''a1''), (''scope'', JStr ''repo'')]
      else if pq_url rq = ''https://api.github.com/user'' then JObj [(''id'', JNum 7), (''login'', JStr ''al'')]
      else JArr [JObj [(''email'', JStr ''M''), (''verified'', JBool True)]])\<rparr>)\<rparr>"

definition github_config :: GitHubOAuthConfig where
  "github_config = \<lparr>hc_clientId = ''c'', hc_clientSecret = ''x'', hc_redirectUri = ''https://g/c'', hc_authorizationUrl = None,
     hc_tokenUrl = None, hc_userUrl = None, hc_userEmailsUrl = None, hc_tokenRevocationUrl = None\<rparr>"

definition local_url :: "string \<Rightarrow> full_url" where
  "local_url path = \<lparr>url_protocol = ''https:'', url_hostname = ''mcp-gw.invalid'', url_username = [], url_password = [], url_hash = [],
     url_href = LOCAL_ORIGIN @ path, url_pathname = path, url_search = [], url_origin = LOCAL_ORIGIN\<rparr>"

abbreviation local_resolver :: url_resolver where
  "local_resolver \<equiv> (\<lambda>s base. if s = ''/done'' then Some (local_url ''/done'') else None)"

definition github_routes :: route_config where
  "github_routes = githubRouteConfig github_env github_config [''repo''] (\<lambda>token. Some (alice, [])) (\<lambda>s. None) local_resolver (\<lambda>s. None)
     [''https://app''] (\<lambda>c. [])"

definition get_request :: "string \<Rightarrow> (string \<times> string) list \<Rightarrow> route_request" where
  "get_request path query = \<lparr>rt_method = ''GET'', rt_pathname = path, rt_query = query, rt_origin = ''https://g'',
     rt_headers = [(''authorization'', ''Bearer x'')], rt_body = []\<rparr>"

abbreviation no_states :: flow_state where "no_states \<equiv> \<lparr>fs_states = [], fs_life = empty_state, fs_drawn = 0\<rparr>"

definition github_started :: "route_response \<times> flow_state" where
  "github_started = githubOAuthRoutes github_routes (\<lambda>i. 1000 + int i) [] (get_request ''/oauth/github/start'' [(''redirect_after'', ''/done'')]) no_states"

definition github_called_back :: "route_response \<times> flow_state" where
  "github_called_back = githubOAuthRoutes github_routes (\<lambda>i. 2000 + int i) []
     (get_request ''/oauth/github/callback'' [(''state'', ''g''), (''code'', ''c'')]) (snd github_started)"

lemma github_example_redirects: "rr_location (fst github_called_back) = Some ''/done''"
  by code_simp

lemma github_redirects_confined_example: "permittedTarget local_resolver (\<lambda>s. None) [''https://app''] ''/done''"
proof (rule github_redirects_confined [OF github_routes_def])
  show "github_serves github_routes (snd github_started)"
    by (rule github_serves.serve [OF github_serves.fresh]) (auto simp: github_started_def intro: prod.collapse [symmetric])
  show "githubOAuthRoutes github_routes (\<lambda>i. 2000 + int i) [] (get_request ''/oauth/github/callback'' [(''state'', ''g''), (''code'', ''c'')])
     (snd github_started) = (fst github_called_back, snd github_called_back)"
    by (simp add: github_called_back_def)
qed (simp_all add: get_request_def github_example_redirects)

section \<open>Where the checks fall short\<close>

text \<open>A target may be local as a URL while its path begins with two slashes: the URL parser drops the segment
  \<open>.\<close> of \<open>/.//host\<close>. The check then answers a target that a browser reads as another host.\<close>

lemma redirect_scheme_relative:
  assumes "resolve ''/.//host'' LOCAL_ORIGIN = Some u" "url_origin u = LOCAL_ORIGIN" "url_pathname u = ''//host''" "url_search u = []" "url_hash u = []"
  shows "validateGenericRedirectAfter resolve (Some ''/.//host'') = Inr (Some ''//host'')"
    "validateRedirectAfter resolve parse allowedOrigins (Some ''/.//host'') = RedirectOk (Some ''//host'')"
  using assms by (simp_all add: validateGenericRedirectAfter_def validateRedirectAfter_def localPart_def Let_def)

text \<open>The Google Workspace wrapper stores any target, and its callback sends the browser there.\<close>

lemma google_redirect_unchecked:
  assumes "googleStart cfg t rq identity st = (resp, st')" "rt_method rq = ''GET''" "js_get (rt_query rq) ''redirect_after'' = Some target"
  shows "\<exists>r. js_get (fs_states st') (fl_hash (rc_flow cfg) (fl_random (rc_flow cfg) (fs_drawn st))) = Some r \<and> os_redirectAfter r = Some target"
  using assms by (auto simp: googleStart_def startOAuth_def saveState_def stateRecordFor_def Let_def js_map_simps)

end
