(* ===== verification/Generic_Credentials.thy ===== *)
theory Generic_Credentials
  imports Generic_Proxy Oauth_Adapters "HOL-Library.List_Lexorder" "HOL-Library.Char_ord"
begin

text \<open>
  The credentials that the generic wrapper sends upstream (\<open>servers/generic-wrapper/src/credentials.ts\<close>): none, a secret of the
  environment, a token of the user's connection, or a token exchanged for the hop-1 token and kept in a bounded cache.
  The exchange awaits an HTTP call between looking into the cache and storing in it, so these are two steps, and other
  requests may come between them. SHA-256 is an argument.
\<close>

section \<open>Resolvers\<close>

definition requiredEnv :: "(string \<Rightarrow> string option) \<Rightarrow> string \<Rightarrow> string + string" where
  "requiredEnv env name =
     (let v = map_option trim (env name) in
      if truthy v then Inr (the v) else Inl (''Missing required credential environment variable: '' @ name))"

definition optionalEnv :: "(string \<Rightarrow> string option) \<Rightarrow> string option \<Rightarrow> string + string option" where
  "optionalEnv env name = (if truthy name then map_sum id Some (requiredEnv env (the name)) else Inr None)"

record exchange_client =
  xc_descriptor :: token_exchange
  xc_clientId :: "string option"
  xc_clientSecret :: "string option"
  xc_maxCacheEntries :: nat

datatype credential_resolver =
  ResolvesNothing
| ResolvesSecret GenericUpstreamCredential
| ResolvesOAuth string string
| ResolvesExchange exchange_client

definition createGenericCredentialResolver ::
  "GenericCredentialDescriptor \<Rightarrow> (string \<Rightarrow> string option) \<Rightarrow> bool \<Rightarrow> rat option \<Rightarrow> string + credential_resolver" where
  "createGenericCredentialResolver descriptor env hasOAuthResolver maxCacheEntries =
     (case descriptor of
        NoCredential \<Rightarrow> Inr ResolvesNothing
      | StaticSecret name header scheme \<Rightarrow>
          sum_bind (requiredEnv env name) (\<lambda>secret.
            Inr (ResolvesSecret \<lparr>uc_header = header,
                   uc_value = (if truthy scheme then the scheme @ '' '' @ secret else secret), uc_rawValue = Some secret\<rparr>))
      | PerUserOAuth d \<Rightarrow>
          (if hasOAuthResolver then Inr (ResolvesOAuth (go_header d) (go_scheme d))
           else Inl ''per_user_oauth requires an OAuth credential resolver'')
      | TokenExchange d \<Rightarrow>
          sum_bind (optionalEnv env (te_clientIdEnv d)) (\<lambda>clientId.
          sum_bind (optionalEnv env (te_clientSecretEnv d)) (\<lambda>clientSecret.
            (let n = coalesce maxCacheEntries 1024 in
             if of_int \<lfloor>n\<rfloor> = n \<and> 1 \<le> n
             then Inr (ResolvesExchange \<lparr>xc_descriptor = d, xc_clientId = clientId, xc_clientSecret = clientSecret, xc_maxCacheEntries = nat \<lfloor>n\<rfloor>\<rparr>)
             else Inl ''maxCacheEntries must be a positive integer''))))"

text \<open>The token of the user's connection; the answer of the connection is an argument.\<close>

definition oauthCredential :: "string \<Rightarrow> string \<Rightarrow> string option \<Rightarrow> GenericUpstreamCredential option" where
  "oauthCredential header scheme token =
     (case token of
        Some (c # cs) \<Rightarrow> Some \<lparr>uc_header = header, uc_value = scheme @ '' '' @ c # cs, uc_rawValue = Some (c # cs)\<rparr>
      | _ \<Rightarrow> None)"

section \<open>The exchange\<close>

record CachedExchange =
  ce_credential :: GenericUpstreamCredential
  ce_expiresAt :: rat

type_synonym exchange_cache = "(string, CachedExchange) jsmap"

definition exchangeScopes :: "exchange_client \<Rightarrow> CredentialRequest \<Rightarrow> string list" where
  "exchangeScopes x cr = coalesce (te_scopes (xc_descriptor x)) (cr_scopes cr)"

definition cacheKeyText :: "CredentialRequest \<Rightarrow> string list \<Rightarrow> string" where
  "cacheKeyText cr scopes =
     Hop1.hi_issuer (cr_identity cr) @ CHR 0x00 # Hop1.hi_subject (cr_identity cr) @ CHR 0x00 # cr_hop1Token cr @ CHR 0x00 #
     join_with '' '' (sort scopes)"

definition exchangeCacheKey :: "(string \<Rightarrow> string) \<Rightarrow> CredentialRequest \<Rightarrow> string list \<Rightarrow> string" where
  "exchangeCacheKey sha cr scopes = sha (cacheKeyText cr scopes)"

definition pruneExchangeCache :: "rat \<Rightarrow> exchange_cache \<Rightarrow> exchange_cache" where
  "pruneExchangeCache now cache = filter (\<lambda>(_, e). \<not> ce_expiresAt e \<le> now + 5000) cache"

definition lookupExchange :: "rat \<Rightarrow> rat \<Rightarrow> string \<Rightarrow> exchange_cache \<Rightarrow> GenericUpstreamCredential option \<times> exchange_cache" where
  "lookupExchange now now' key cache =
     (case js_get cache key of
        Some e \<Rightarrow> (if ce_expiresAt e > now + 5000 then (Some (ce_credential e), cache) else (None, pruneExchangeCache now' cache))
      | None \<Rightarrow> (None, pruneExchangeCache now' cache))"

definition exchangeParams :: "exchange_client \<Rightarrow> CredentialRequest \<Rightarrow> (string \<times> string) list" where
  "exchangeParams x cr =
     (let d = xc_descriptor x; scopes = exchangeScopes x cr;
          put = (\<lambda>k v ps. if truthy v then search_set k (the v) ps else ps) in
      put ''scope'' (if scopes = [] then None else Some (join_with '' '' scopes))
        (put ''resource'' (te_resource d)
          (put ''audience'' (te_audience d)
            [(''grant_type'', ''urn:ietf:params:oauth:grant-type:token-exchange''), (''subject_token'', cr_hop1Token cr),
             (''subject_token_type'', ''urn:ietf:params:oauth:token-type:access_token''),
             (''requested_token_type'', ''urn:ietf:params:oauth:token-type:access_token'')])))"

definition exchangeRequest :: "exchange_client \<Rightarrow> CredentialRequest \<Rightarrow> provider_request" where
  "exchangeRequest x cr =
     tokenCall (te_endpoint (xc_descriptor x))
       (if truthy (xc_clientId x) \<and> truthy (xc_clientSecret x)
        then js_set ''authorization'' (basicAuthorization (the (xc_clientId x)) (the (xc_clientSecret x))) [FORM_HEADER]
        else [FORM_HEADER]) (exchangeParams x cr)"

text \<open>The credential of a reply and the seconds it is good for.\<close>

definition exchangedCredential :: "token_exchange \<Rightarrow> provider_reply \<Rightarrow> string + GenericUpstreamCredential \<times> rat" where
  "exchangedCredential d r =
     (let body = (case rp_body r of JsonIs v \<Rightarrow> as_record v | _ \<Rightarrow> None) in
      if \<not> rp_ok r then Inl ''Token exchange failed''
      else case body of
          None \<Rightarrow> Inl ''Token exchange response is malformed''
        | Some b \<Rightarrow>
            (case nonEmptyField (js_get b ''access_token'') of
               None \<Rightarrow> Inl ''Token exchange response is malformed''
             | Some token \<Rightarrow>
                 (if js_get b ''issued_token_type'' \<noteq> Some (JStr ''urn:ietf:params:oauth:token-type:access_token'')
                  then Inl ''Token exchange response is malformed''
                  else
                    Inr (\<lparr>uc_header = te_header d,
                          uc_value = coalesce (nonEmptyField (js_get b ''token_type'')) (te_scheme d) @ '' '' @ token,
                          uc_rawValue = Some token\<rparr>,
                         coalesce (positiveNumber (js_get b ''expires_in'')) 60))))"

definition askExchange :: "exchange_client \<Rightarrow> provider_fetch \<Rightarrow> CredentialRequest \<Rightarrow> string + GenericUpstreamCredential \<times> rat" where
  "askExchange x fetch cr =
     (case fetch (exchangeRequest x cr) of
        None \<Rightarrow> Inl ''Token exchange is temporarily unavailable''
      | Some r \<Rightarrow> exchangedCredential (xc_descriptor x) r)"

text \<open>\<open>while (cache.size >= maxCacheEntries)\<close>: the entries that came first go.\<close>

fun makeRoom :: "nat \<Rightarrow> exchange_cache \<Rightarrow> exchange_cache" where
  "makeRoom n [] = []"
| "makeRoom n (e # cache) = (if length (e # cache) \<ge> n then makeRoom n cache else e # cache)"

definition storeExchange :: "exchange_client \<Rightarrow> rat \<Rightarrow> string \<Rightarrow> GenericUpstreamCredential \<times> rat \<Rightarrow> exchange_cache \<Rightarrow> exchange_cache" where
  "storeExchange x now key answer cache =
     js_set key \<lparr>ce_credential = fst answer, ce_expiresAt = now + snd answer * 1000\<rparr> (makeRoom (xc_maxCacheEntries x) cache)"

section \<open>Runs\<close>

text \<open>A request looks its key up; a request that found nothing asks, and stores what it was told.\<close>

inductive exchange_step :: "(string \<Rightarrow> string) \<Rightarrow> exchange_client \<Rightarrow> exchange_cache \<Rightarrow> exchange_cache \<Rightarrow> bool" for sha x where
  look: "exchange_step sha x cache (snd (lookupExchange now now' (exchangeCacheKey sha cr (exchangeScopes x cr)) cache))"
| store: "askExchange x fetch cr = Inr answer \<Longrightarrow>
    exchange_step sha x cache (storeExchange x now (exchangeCacheKey sha cr (exchangeScopes x cr)) answer cache)"

definition exchangedFor :: "(string \<Rightarrow> string) \<Rightarrow> exchange_client \<Rightarrow> string \<Rightarrow> GenericUpstreamCredential \<Rightarrow> bool" where
  "exchangedFor sha x key c \<longleftrightarrow>
     (\<exists>cr fetch seconds. key = exchangeCacheKey sha cr (exchangeScopes x cr) \<and> askExchange x fetch cr = Inr (c, seconds))"

definition cache_ok :: "(string \<Rightarrow> string) \<Rightarrow> exchange_client \<Rightarrow> exchange_cache \<Rightarrow> bool" where
  "cache_ok sha x cache \<longleftrightarrow>
     length cache \<le> xc_maxCacheEntries x \<and> list_all (\<lambda>(k, e). exchangedFor sha x k (ce_credential e)) cache"

lemma makeRoom_fits: "1 \<le> n \<Longrightarrow> length (makeRoom n cache) < n"
  by (induction cache) auto

lemma makeRoom_subset: "set (makeRoom n cache) \<subseteq> set cache"
  by (induction cache) auto

lemma set_js_set_subset: "set (js_set k v m) \<subseteq> insert (k, v) (set m)"
  by (induction m) auto

lemma exchange_step_ok:
  assumes "exchange_step sha x cache cache'" "cache_ok sha x cache" "1 \<le> xc_maxCacheEntries x"
  shows "cache_ok sha x cache'"
  using assms
proof cases
  case (look now now' cr)
  have f: "cache_ok sha x (filter P cache)" for P
    using assms(2) by (auto simp: cache_ok_def list_all_iff intro: le_trans [OF length_filter_le])
  show ?thesis unfolding look lookupExchange_def pruneExchangeCache_def
    using assms(2) f by (auto split: option.split)
next
  case (store fetch cr answer now)
  let ?m = "makeRoom (xc_maxCacheEntries x) cache"
  have l: "length (js_set k v ?m) \<le> xc_maxCacheEntries x" for k v
    using makeRoom_fits [OF assms(3), of cache] by (auto simp: length_js_set)
  have "exchangedFor sha x (exchangeCacheKey sha cr (exchangeScopes x cr)) (fst answer)"
    unfolding exchangedFor_def using store(2) by (metis prod.collapse)
  with l show ?thesis unfolding store(1) storeExchange_def cache_ok_def
    using set_js_set_subset [of "exchangeCacheKey sha cr (exchangeScopes x cr)" _ ?m] makeRoom_subset [of "xc_maxCacheEntries x" cache]
      assms(2) by (fastforce simp: list_all_iff cache_ok_def)
qed

lemma reachable_cache:
  assumes "(exchange_step sha x)\<^sup>*\<^sup>* [] cache" "1 \<le> xc_maxCacheEntries x"
  shows "cache_ok sha x cache"
  using assms(1) by (induction rule: rtranclp_induct) (auto simp: cache_ok_def [of _ _ "[]"] intro: exchange_step_ok [OF _ _ assms(2)])

lemma resolver_capacity:
  "createGenericCredentialResolver descriptor env has limit = Inr (ResolvesExchange x) \<Longrightarrow> 1 \<le> xc_maxCacheEntries x"
  by (auto simp: createGenericCredentialResolver_def sum_bind_def Let_def le_nat_iff split: GenericCredentialDescriptor.splits sum.splits if_splits)

section \<open>Isolation\<close>

definition plain :: "CredentialRequest \<Rightarrow> bool" where
  "plain cr \<longleftrightarrow> CHR 0x00 \<notin> set (Hop1.hi_issuer (cr_identity cr)) \<union> set (Hop1.hi_subject (cr_identity cr)) \<union> set (cr_hop1Token cr)"

lemma separated: "a @ c # b = a' @ c # b' \<Longrightarrow> c \<notin> set a \<Longrightarrow> c \<notin> set a' \<Longrightarrow> a = a' \<and> b = b'"
proof (induction a arbitrary: a')
  case Nil
  then show ?case by (cases a') auto
next
  case (Cons y a)
  then show ?case by (cases a') auto
qed

definition sameCaller :: "exchange_client \<Rightarrow> CredentialRequest \<Rightarrow> CredentialRequest \<Rightarrow> bool" where
  "sameCaller x cr cr' \<longleftrightarrow>
     Hop1.hi_issuer (cr_identity cr') = Hop1.hi_issuer (cr_identity cr) \<and> Hop1.hi_subject (cr_identity cr') = Hop1.hi_subject (cr_identity cr) \<and>
     cr_hop1Token cr' = cr_hop1Token cr \<and>
     join_with '' '' (sort (exchangeScopes x cr')) = join_with '' '' (sort (exchangeScopes x cr))"

lemma same_key_same_caller:
  assumes "cacheKeyText cr' (exchangeScopes x cr') = cacheKeyText cr (exchangeScopes x cr)" "plain cr'" "plain cr"
  shows "sameCaller x cr cr'"
  using assms unfolding cacheKeyText_def plain_def sameCaller_def by (auto dest!: separated)

definition servedFrom :: "exchange_client \<Rightarrow> rat \<Rightarrow> CachedExchange \<Rightarrow> CredentialRequest \<Rightarrow> GenericUpstreamCredential \<Rightarrow> bool" where
  "servedFrom x now e cr c \<longleftrightarrow>
     ce_credential e = c \<and> ce_expiresAt e > now + 5000 \<and>
     (\<exists>cr' fetch seconds. askExchange x fetch cr' = Inr (c, seconds) \<and> (plain cr' \<longrightarrow> sameCaller x cr cr'))"

text \<open>Under a hash without collisions, a credential that is served from the cache was exchanged for the same user, the
  same hop-1 token and the same scopes, and is good for five more seconds; the cache never exceeds its limit. This holds
  whatever requests interleave.\<close>

lemma exchanged_credential_isolated:
  assumes "createGenericCredentialResolver descriptor env has limit = Inr (ResolvesExchange x)" "inj sha"
    "(exchange_step sha x)\<^sup>*\<^sup>* [] cache" "plain cr"
    "fst (lookupExchange now now' (exchangeCacheKey sha cr (exchangeScopes x cr)) cache) = Some c"
  shows "length cache \<le> xc_maxCacheEntries x \<and>
    (\<exists>e. js_get cache (exchangeCacheKey sha cr (exchangeScopes x cr)) = Some e \<and> servedFrom x now e cr c)"
proof -
  have ok: "cache_ok sha x cache" by (rule reachable_cache [OF assms(3) resolver_capacity [OF assms(1)]])
  from assms(5) obtain e where e: "js_get cache (exchangeCacheKey sha cr (exchangeScopes x cr)) = Some e" "ce_credential e = c"
    "ce_expiresAt e > now + 5000" by (auto simp: lookupExchange_def split: option.splits if_splits)
  then have "exchangedFor sha x (exchangeCacheKey sha cr (exchangeScopes x cr)) c"
    using ok map_of_SomeD [OF e(1)] by (auto simp: cache_ok_def list_all_iff)
  then obtain cr' fetch seconds where a: "askExchange x fetch cr' = Inr (c, seconds)"
    "exchangeCacheKey sha cr' (exchangeScopes x cr') = exchangeCacheKey sha cr (exchangeScopes x cr)"
    by (auto simp: exchangedFor_def)
  from injD [OF assms(2) a(2) [unfolded exchangeCacheKey_def]] same_key_same_caller assms(4)
  have "plain cr' \<longrightarrow> sameCaller x cr cr'" by blast
  with e a(1) have "servedFrom x now e cr c" unfolding servedFrom_def by blast
  with e(1) ok show ?thesis unfolding cache_ok_def by blast
qed

end
