(* ===== verification/Jira_Rest.thy ===== *)
theory Jira_Rest
  imports Oauth_Adapters Generic_Transport Handler_Steps
begin

text \<open>
  The tools of the generic wrapper that call Jira's REST interface (\<open>servers/generic-wrapper/src/jira-rest.ts\<close>): the arguments
  that are accepted, the requests that are made for them, and the part of the answers that is passed on. The serializer of
  JSON and the URL parser are arguments; a URL is its text and the query that is set on it.
\<close>

section \<open>Arguments\<close>

definition issueNumber :: "string \<Rightarrow> bool" where
  "issueNumber = matches (\<lambda>c. is_digit c \<and> c \<noteq> CHR ''0'') is_digit 0 (Some 17)"

definition projectKey :: "string \<Rightarrow> bool" where
  "projectKey = matches is_upper_alpha (\<lambda>c. is_upper_alpha c \<or> is_digit c \<or> c = CHR ''_'') 0 (Some 63)"

definition JIRA_ISSUE_KEY_OR_ID :: "string \<Rightarrow> bool" where
  "JIRA_ISSUE_KEY_OR_ID s \<longleftrightarrow>
     issueNumber s \<or> (case split_on CHR ''-'' s of [p, n] \<Rightarrow> projectKey p \<and> issueNumber n | _ \<Rightarrow> False)"

definition exactKeys :: "(string \<times> json) list \<Rightarrow> string list \<Rightarrow> bool" where
  "exactKeys args allowed = list_all (\<lambda>(k, _). k \<in> set allowed) args"

definition boundedString :: "json option \<Rightarrow> nat \<Rightarrow> string option" where
  "boundedString v maximum =
     (case v of Some (JStr s) \<Rightarrow> (if trim s \<noteq> [] \<and> length s \<le> maximum then Some s else None) | _ \<Rightarrow> None)"

text \<open>\<open>jql.replace(/\border\s+by\b[\s\S]*$/i, "")\<close>: what stands before the first \<open>order by\<close>.\<close>

definition word_char :: "char \<Rightarrow> bool" where "word_char c \<longleftrightarrow> is_alpha c \<or> is_digit c \<or> c = CHR ''_''"

definition orderByAt :: "string \<Rightarrow> bool" where
  "orderByAt s \<longleftrightarrow>
     (let rest = drop 5 s; by_rest = dropWhile is_space rest in
      to_lower_case (take 5 s) = ''order'' \<and> takeWhile is_space rest \<noteq> [] \<and> to_lower_case (take 2 by_rest) = ''by'' \<and>
      (drop 2 by_rest = [] \<or> \<not> word_char (hd (drop 2 by_rest))))"

fun beforeOrderBy :: "char option \<Rightarrow> string \<Rightarrow> string" where
  "beforeOrderBy prev [] = []"
| "beforeOrderBy prev (c # cs) =
     (if \<not> (case prev of Some p \<Rightarrow> word_char p | None \<Rightarrow> False) \<and> orderByAt (c # cs) then []
      else c # beforeOrderBy (Some c) cs)"

definition invalidArguments :: "json \<Rightarrow> proxy_response" where
  "invalidArguments rid = errorResult rid ''Invalid tool arguments'' [(''error'', JStr ''invalid_arguments'')]"

text \<open>What a tool asks for, under the base of the site.\<close>

datatype jira_target = JiraRefused proxy_response | JiraTarget string "(string \<times> string) list"

definition resultLimit :: "(string \<times> json) list \<Rightarrow> nat option" where
  "resultLimit args =
     (case js_get args ''maxResults'' of
        None \<Rightarrow> Some 25
      | Some JNull \<Rightarrow> Some 25
      | Some (JNum n) \<Rightarrow> (if of_int \<lfloor>n\<rfloor> = n \<and> 1 \<le> n \<and> n \<le> 50 then Some (nat \<lfloor>n\<rfloor>) else None)
      | _ \<Rightarrow> None)"

definition jiraTarget :: "string \<Rightarrow> (string \<times> json) list \<Rightarrow> json \<Rightarrow> jira_target" where
  "jiraTarget name args rid =
     (if name = ''getJiraCurrentUser'' \<and> exactKeys args [] then JiraTarget ''/myself'' []
      else if name = ''searchJiraIssuesUsingJql'' \<and> exactKeys args [''jql'', ''maxResults'']
      then case (boundedString (js_get args ''jql'') 4000, resultLimit args) of
          (Some jql, Some n) \<Rightarrow>
            (if trim (beforeOrderBy None jql) = []
             then JiraRefused (errorResult rid ''JQL must include a search restriction'' [(''error'', JStr ''unbounded_jql'')])
             else JiraTarget ''/search/jql'' [(''jql'', jql), (''maxResults'', nat_str n), (''fields'', ''summary,status'')])
        | _ \<Rightarrow> JiraRefused (invalidArguments rid)
      else if name = ''getJiraIssue'' \<and> exactKeys args [''issueKey'']
      then case boundedString (js_get args ''issueKey'') 128 of
          Some key \<Rightarrow>
            (if JIRA_ISSUE_KEY_OR_ID key then JiraTarget (''/issue/'' @ encodeURIComponent key) [(''fields'', ''summary,status'')]
             else JiraRefused (invalidArguments rid))
        | None \<Rightarrow> JiraRefused (invalidArguments rid)
      else JiraRefused (invalidArguments rid))"

section \<open>Answers\<close>

record jira_reply = provider_reply +
  jr_retryAfter :: "string option"

definition jiraErrorClass :: "jira_reply \<Rightarrow> string" where
  "jiraErrorClass r =
     (let s = rp_status r in
      if 200 \<le> s \<and> s \<le> 299 then ''none''
      else if s = 401 then ''provider_oauth_required'' else if s = 403 then ''provider_permission_denied''
      else if s = 429 then ''provider_rate_limited'' else if s \<ge> 500 then ''provider_unavailable'' else ''provider_rejected'')"

definition sanitizedFailure :: "jira_reply \<Rightarrow> proxy_response" where
  "sanitizedFailure r =
     \<lparr>pr_status = rp_status r,
      pr_headers = (if truthy (jr_retryAfter r) then [(''retry-after'', the (jr_retryAfter r))] else []), pr_body = NullBody\<rparr>"

definition pick :: "(string \<times> json) list \<Rightarrow> string list \<Rightarrow> (string \<times> json) list" where
  "pick v keys = concat (map (\<lambda>k. case js_get v k of None \<Rightarrow> [] | Some x \<Rightarrow> [(k, x)]) keys)"

definition trimIssue :: "json \<Rightarrow> (string \<times> json) list" where
  "trimIssue v =
     (let issue = record_or_empty (Some v); fs = record_or_empty (js_get issue ''fields'') in
      pick issue [''id'', ''key''] @
      [(''fields'', JObj (pick fs [''summary''] @
         [(''status'', JObj (pick (record_or_empty (js_get fs ''status'')) [''id'', ''name'']))]))])"

definition trimResult :: "string \<Rightarrow> json \<Rightarrow> (string \<times> json) list" where
  "trimResult name v =
     (let body = record_or_empty (Some v) in
      if name = ''getJiraCurrentUser'' then pick body [''accountId'', ''displayName'', ''emailAddress'', ''active'']
      else if name = ''searchJiraIssuesUsingJql''
      then [(''issues'', JArr (case Option.bind (js_get body ''issues'') as_array of
              Some xs \<Rightarrow> map (\<lambda>i. JObj (trimIssue i)) xs | None \<Rightarrow> []))]
      else trimIssue (JObj body))"

section \<open>The executor\<close>

record jira_call =
  jc_url :: string
  jc_query :: "(string \<times> string) list"
  jc_headers :: "(string \<times> string) list"

record jira_log =
  jl_tool :: string
  jl_status :: "nat option"
  jl_errorClass :: string

datatype jira_effect = JiraCalled jira_call | JiraLogged jira_log

record jira_config =
  jx_userInfoUrl :: string
  jx_siteUrl :: string
  jx_parseUrl :: url_parser
  jx_stringify :: "json \<Rightarrow> string"

definition createJiraRestToolExecutor ::
  "GenericCredentialDescriptor \<Rightarrow> url_parser \<Rightarrow> (json \<Rightarrow> string) \<Rightarrow> jira_config option" where
  "createJiraRestToolExecutor credential parse stringify =
     (case credential of
        PerUserOAuth d \<Rightarrow>
          (if go_providerId d \<noteq> ''jira'' then None
           else case go_identity d of
               AtlassianJiraAssertedEmail siteUrl \<Rightarrow>
                 Some \<lparr>jx_userInfoUrl = go_userInfoUrl d, jx_siteUrl = siteUrl, jx_parseUrl = parse, jx_stringify = stringify\<rparr>
             | _ \<Rightarrow> None)
      | _ \<Rightarrow> None)"

definition jiraCall :: "string \<Rightarrow> (string \<times> string) list \<Rightarrow> string \<Rightarrow> jira_call" where
  "jiraCall url query token = \<lparr>jc_url = url, jc_query = query, jc_headers = [(''accept'', ''application/json''), bearer token]\<rparr>"

definition jiraBase :: "string \<Rightarrow> string" where
  "jiraBase cloudId = ''https://api.atlassian.com/ex/jira/'' @ encodeURIComponent cloudId @ ''/rest/api/3''"

text \<open>The outcome of the \<open>try\<close> block with what its \<open>finally\<close> reports: status and class of error.\<close>

type_synonym jira_attempt = "jira_effect list \<times> (proxy_exit + proxy_response) \<times> nat option \<times> string"

definition jiraAnswer :: "jira_config \<Rightarrow> string \<Rightarrow> json \<Rightarrow> jira_reply \<Rightarrow> jira_effect list \<Rightarrow> jira_attempt" where
  "jiraAnswer cfg name rid r calls =
     (if jiraErrorClass r \<noteq> ''none'' then (calls, Inr (sanitizedFailure r), Some (rp_status r), jiraErrorClass r)
      else case rp_body r of
          JsonIs body \<Rightarrow>
            (let result = JObj (trimResult name body) in
             (calls, Inr (mcpResult rid (JObj [(''content'', text_content (jx_stringify cfg result)), (''structuredContent'', result)])),
              Some (rp_status r), ''none''))
        | _ \<Rightarrow> (calls, Inl Thrown, Some (rp_status r), ''invalid_response''))"

definition jiraAttempt ::
  "jira_config \<Rightarrow> (nat \<Rightarrow> jira_call \<Rightarrow> jira_reply option) \<Rightarrow> string \<Rightarrow> json \<Rightarrow> string \<Rightarrow> string \<Rightarrow> (string \<times> string) list \<Rightarrow> jira_attempt" where
  "jiraAttempt cfg fetch name rid token path query =
     (let c0 = jiraCall (jx_userInfoUrl cfg) [] token in
      case fetch 0 c0 of
        None \<Rightarrow> ([JiraCalled c0], Inl Thrown, None, ''transport_error'')
      | Some r0 \<Rightarrow>
          (if jiraErrorClass r0 \<noteq> ''none'' then ([JiraCalled c0], Inr (sanitizedFailure r0), Some (rp_status r0), jiraErrorClass r0)
           else case sum_bind (jsonValue (rp_body r0)) (\<lambda>v. resolveAtlassianJiraSite (jx_parseUrl cfg) v (jx_siteUrl cfg)) of
               Inl _ \<Rightarrow> ([JiraCalled c0], Inl Thrown, Some (rp_status r0), ''site_resolution_error'')
             | Inr cloudId \<Rightarrow>
                 (let c1 = jiraCall (jiraBase cloudId @ path) query token in
                  case fetch 1 c1 of
                    None \<Rightarrow> ([JiraCalled c0, JiraCalled c1], Inl Thrown, None, ''transport_error'')
                  | Some r1 \<Rightarrow> jiraAnswer cfg name rid r1 [JiraCalled c0, JiraCalled c1])))"

definition executeJiraTool ::
  "jira_config \<Rightarrow> (nat \<Rightarrow> jira_call \<Rightarrow> jira_reply option) \<Rightarrow> GenericGovernedTool \<Rightarrow> json \<Rightarrow> (string \<times> json) list \<Rightarrow>
   GenericUpstreamCredential \<Rightarrow> (jira_effect, proxy_response) step" where
  "executeJiraTool cfg fetch tool rid args credential =
     (case jiraTarget (gt_upstreamName tool) args rid of
        JiraRefused response \<Rightarrow> pure_step response
      | JiraTarget path query \<Rightarrow>
          (case uc_rawValue credential of
             Some (c # cs) \<Rightarrow>
               (case jiraAttempt cfg fetch (gt_upstreamName tool) rid (c # cs) path query of
                  (calls, outcome, replied, errorClass) \<Rightarrow>
                    (calls @ [JiraLogged \<lparr>jl_tool = gt_exposedName tool, jl_status = replied, jl_errorClass = errorClass\<rparr>], outcome))
           | _ \<Rightarrow> throw_error))"

section \<open>Requests and answers are confined\<close>

lemma percent_digit_no_slash:
  assumes "n < 16"
  shows "percent_digit n \<noteq> CHR ''/''"
proof -
  have "percent_digit n \<in> set ''0123456789ABCDEF''" unfolding percent_digit_def using assms by (intro nth_mem) simp
  then show ?thesis by auto
qed

lemma utf8_bytes_bound:
  assumes "n \<in> set (utf8_bytes s)"
  shows "n < 256"
proof -
  have "(of_char c :: nat) < 2 ^ 8" for c :: char by (cases c) (simp add: of_char_def horner_sum_of_bool_2_less [of "[_, _, _, _, _, _, _, _]", simplified])
  then have "(of_char c :: nat) div 64 < 64" for c :: char by (rule less_mult_imp_div_less [OF less_le_trans]) simp
  then have "192 + (of_char c :: nat) div 64 < 256" "128 + (of_char c :: nat) mod 64 < 256" for c :: char by auto
  with assms show ?thesis by (auto simp: utf8_bytes_def Let_def split: if_splits)
qed

lemma encodeChar_no_slash: "CHR ''/'' \<notin> set (encodeChar c)"
proof (cases "is_alpha c \<or> is_digit c \<or> c \<in> set ''-_.!~*()'' \<or> c = CHR 0x27")
  case True
  then show ?thesis by (auto simp: encodeChar_def is_alpha_def char_class_defs)
next
  case False
  have "percent_digit (n div 16) \<noteq> CHR ''/'' \<and> percent_digit (n mod 16) \<noteq> CHR ''/''" if "n \<in> set (utf8_bytes [c])" for n
    using utf8_bytes_bound [OF that] by (simp add: percent_digit_no_slash less_mult_imp_div_less)
  with False show ?thesis by (auto simp: encodeChar_def) metis+
qed

lemma encoded_no_slash: "CHR ''/'' \<notin> set (encodeURIComponent s)"
  by (simp add: encodeURIComponent_def encodeChar_no_slash)

text \<open>The places a tool may ask for.\<close>

definition jiraPath :: "string \<Rightarrow> bool" where
  "jiraPath path \<longleftrightarrow>
     path = ''/myself'' \<or> path = ''/search/jql'' \<or>
     (\<exists>key. JIRA_ISSUE_KEY_OR_ID key \<and> path = ''/issue/'' @ encodeURIComponent key)"

lemma target_path: "jiraTarget name args rid = JiraTarget path query \<Longrightarrow> jiraPath path"
  by (auto simp: jiraTarget_def jiraPath_def split: if_splits option.splits)

definition jiraPermitted :: "jira_config \<Rightarrow> string \<Rightarrow> jira_effect \<Rightarrow> bool" where
  "jiraPermitted cfg token e =
     (case e of
        JiraLogged _ \<Rightarrow> True
      | JiraCalled c \<Rightarrow>
          jc_headers c = [(''accept'', ''application/json''), bearer token] \<and>
          (jc_url c = jx_userInfoUrl cfg \<and> jc_query c = [] \<or>
           (\<exists>v cloudId path. resolveAtlassianJiraSite (jx_parseUrl cfg) v (jx_siteUrl cfg) = Inr cloudId \<and> jiraPath path \<and>
              jc_url c = jiraBase cloudId @ path)))"

text \<open>Whatever a tool is called with, the token goes only to the list of sites and to one of three places of the configured
  site, in at most two requests; a failure of the provider is passed on without its body.\<close>

lemma jira_calls_confined:
  assumes "e \<in> set (fst (executeJiraTool cfg fetch tool rid args credential))"
  shows "\<exists>token. uc_rawValue credential = Some token \<and> jiraPermitted cfg token e"
proof -
  obtain path query where t: "jiraTarget (gt_upstreamName tool) args rid = JiraTarget path query"
    using assms by (auto simp: executeJiraTool_def pure_step_def split: jira_target.splits)
  obtain c cs where k: "uc_rawValue credential = Some (c # cs)"
    using assms t by (auto simp: executeJiraTool_def throw_error_def split: option.splits list.splits)
  have a: "list_all (jiraPermitted cfg (c # cs)) (fst (jiraAttempt cfg fetch (gt_upstreamName tool) rid (c # cs) path query))"
    using target_path [OF t] unfolding jiraAttempt_def Let_def
    by (auto simp: jiraPermitted_def jiraCall_def jiraAnswer_def sum_bind_def Let_def split: option.splits sum.splits body_answer.splits)
  obtain calls out where "jiraAttempt cfg fetch (gt_upstreamName tool) rid (c # cs) path query = (calls, out)"
    by (rule prod.exhaust)
  with a assms t k show ?thesis
    by (auto simp: executeJiraTool_def list_all_iff jiraPermitted_def [of _ _ "JiraLogged _"] split: prod.splits)
qed

lemma jira_calls_bounded: "length (filter (\<lambda>e. case e of JiraCalled _ \<Rightarrow> True | _ \<Rightarrow> False) (fst (executeJiraTool cfg fetch tool rid args credential))) \<le> 2"
  by (auto simp: executeJiraTool_def jiraAttempt_def jiraAnswer_def Let_def pure_step_def throw_error_def
      split: jira_target.split option.split list.split sum.split body_answer.split)

lemma pick_keys: "fst ` set (pick v keys) \<subseteq> set keys"
  by (auto simp: pick_def split: option.splits)

text \<open>Of an issue, only these properties are passed on.\<close>

lemma trimIssue_keys: "fst ` set (trimIssue v) \<subseteq> {''id'', ''key'', ''fields''}"
  using pick_keys [of "record_or_empty (Some v)" "[''id'', ''key'']"] by (auto simp: trimIssue_def Let_def image_Un)

end
