(* ===== verification/Spec2Isabelle.thy ===== *)
theory Spec2Isabelle
  imports Secret_Crypto Lifecycle_Reports Workspace_Props Broker_Route_Props Cli_Job_Props Remote_Shell_Props
    Descriptor_Props Generic_Transport_Props Generic_Proxy_Props Github_Proxy_Props Oauth_Route_Props Generic_Credentials Jira_Rest
begin

text \<open>
  A verification development for the MCP gateway in \<open>src/\<close>.

  \<^bold>\<open>The program.\<close> The gateway puts governed tool servers behind one authorization server. A user
  signs in once (hop 1) and then connects provider accounts (Google, GitHub, any OAuth provider of
  the generic wrapper); the gateway keeps the provider credentials encrypted, hands the active one
  to a tool call, renews it, and revokes it on disconnect. \<open>src/shared/oauth/\<close> holds the connection
  lifecycle with its store, the secret encryption, the authorization broker that issues the hop-1
  tokens, and the registration of its clients. A request to a tool server carries a hop-1 token
  (\<open>shared/identity\<close>, \<open>packages/wrapper-kit\<close>); its claims may restrict it to the tools granted to a task; the
  policy of the operator (\<open>shared/policy\<close>) decides about the operation; then the Google Workspace
  server builds and runs a command, the governed command line (\<open>servers/governed-cli\<close>) classifies and
  runs one (\<open>shared/cli\<close>), directly or as a job, the remote shell (\<open>servers/remote-shell\<close>) runs one on an
  instance the task is bound to, and two wrappers pass the call on to another MCP server: the generic
  wrapper (\<open>servers/generic-wrapper\<close>), configured by a descriptor and a tool catalog, and the GitHub wrapper
  (\<open>servers/github-mcp\<close>) with its pinned catalog.

  \<^bold>\<open>The library.\<close>

  \<^item> \<open>Prelude\<close>: JavaScript's \<open>Map\<close> as an association list in insertion order, \<open>??\<close>,
    \<open>||\<close>, truthiness, \<open>Set\<close> deduplication, string helpers, and the lemmas the components
    share.
  \<^item> \<open>Secret_Crypto\<close> (\<open>crypto.ts\<close>): the encrypted format \<open>v1.iv.tag.ciphertext\<close> over a crypto
    library given as a parameter, and its round trip.
  \<^item> \<open>Connection_Types\<close> (\<open>connection-types.ts\<close>, \<open>store.ts\<close>): records, enumerations, errors
    and write guards.
  \<^item> \<open>Connection_Store\<close> (\<open>memory-store.ts\<close>): the in-memory store, one definition per method; the
    invariant that legacy account rows and connection rows agree; the contract \<open>connection_store\<close>
    of the interface \<open>OAuthConnectionStore\<close>, interpreted on the model.
  \<^item> \<open>Lifecycle_Core\<close>, \<open>Lifecycle\<close>, \<open>Lifecycle_Ops\<close>, \<open>Lifecycle_Renew\<close>
    (\<open>connection-lifecycle.ts\<close>): pure helpers; cleanup, status and identity backfill;
    authorization, disconnect and the revocation worker; renewal and credential lookup.
  \<^item> \<open>Custody\<close>, \<open>Lifecycle_Steps\<close>, \<open>Lifecycle_Runs\<close>: the abstract machine of a credential in
    custody and of a connection row, the proof that every critical section of the lifecycle is a step
    of it, and that every operation is a run of its sections.
  \<^item> \<open>Lifecycle_Fixture\<close>, \<open>Lifecycle_Safety\<close>, \<open>Lifecycle_Progress\<close>,
    \<open>Lifecycle_Reports\<close>: a concrete configuration for the witnesses, and the properties of the
    lifecycle.
  \<^item> \<open>Broker_Store\<close>, \<open>Broker\<close>, \<open>Broker_Props\<close> (\<open>authorization-broker.ts\<close>): the broker's
    in-memory store with refresh token families, the contract \<open>one_time_store\<close> interpreted for
    transactions and codes, the broker's operations and their properties.
  \<^item> \<open>Dcr\<close>, \<open>Dcr_Props\<close> (\<open>dcr.ts\<close>, \<open>public-host.ts\<close>): registration of clients with constrained metadata,
    its store and rate limits; the contract \<open>expiring\<close> of tables whose entries lapse, interpreted for
    clients and for rate windows; the store refines a map of live entries and stays within its bounds.
    \<open>Broker_Runtime\<close> (\<open>broker-runtime.ts\<close>): the registry as the client registry of the broker.
    \<open>Broker_Routes\<close>, \<open>Broker_Route_Props\<close> (\<open>authorization-routes.ts\<close>): the routes of the authorization server over the contract of
    a broker, their instance with broker and registry, and the requests it serves as an inductive set of states.
  \<^item> \<open>Json\<close>, \<open>Audit_Log\<close> (\<open>audit.ts\<close>), \<open>Outbound_Email\<close> (\<open>outbound-email.ts\<close>), \<open>Policy\<close>,
    \<open>Policy_Props\<close> (\<open>policy.ts\<close>): JSON values, redaction, recipient domains of mail, and the policies with
    their parsers.
  \<^item> \<open>Hop1\<close> (\<open>hop1.ts\<close>, \<open>authenticator.ts\<close>) and \<open>Task_Authorization\<close> (\<open>task-tool-authorization.ts\<close>): who a
    token speaks for, and what it may call.
  \<^item> \<open>Operation_Resolver\<close>, \<open>Workspace_Registry\<close>, \<open>Workspace_Props\<close> (the \<open>catalog\<close>,
    \<open>google-workspace\<close> and \<open>executor\<close> directories of the Google Workspace wrapper): tools, the operation a
    call means, the arguments of the child process, and the registry that enforces grants and policy.
  \<^item> \<open>Command_Execution\<close> (\<open>command-execution.ts\<close>): the run of a child process as a machine over its
    events, with bounded capture and streamed redaction.
  \<^item> \<open>Governed_Cli\<close>, \<open>Cli_Requests\<close>, \<open>Cli_Props\<close>, \<open>Cli_Jobs\<close>, \<open>Cli_Job_Props\<close>
    (\<open>servers/governed-cli\<close>, \<open>governed-http.ts\<close>): packs, classification of command lines, preparation of a
    run, and the job table as a step relation whose invariant is an interpretation of
    \<open>inductive_invariant\<close> of the prelude. \<open>Job_Table\<close>: the admission to a table of jobs, which the remote shell
    shares.
  \<^item> \<open>Ssm\<close> (\<open>ssm-run-command.ts\<close>), \<open>Remote_Shell\<close>, \<open>Remote_Shell_Props\<close> (\<open>servers/remote-shell\<close>): a command on an
    instance and the wait for it, the preparation of a run, and the jobs as a step relation in which the
    awaited calls of different requests interleave.
  \<^item> \<open>Descriptor\<close>, \<open>Descriptor_Props\<close> (\<open>descriptor.ts\<close>): descriptor, catalog and decisions of a generic wrapper,
    parsed from JSON values.
  \<^item> \<open>Generic_Transport\<close>, \<open>Generic_Transport_Props\<close> (\<open>transport.ts\<close>, \<open>catalog-capture.ts\<close>): sessions, the HTTP and
    stdio upstreams as the calls they make for given answers, and the listing of an upstream catalog; a transport with
    the log of the requests it took in and the calls it made, as a step relation (\<open>transport_step\<close>).
  \<^item> \<open>Handler_Steps\<close>: a request handler as a sequence of awaited calls, the list of its effects and its outcome, with
    rules for what holds of all effects. On it rest \<open>Generic_Proxy\<close>, \<open>Generic_Proxy_Props\<close> (\<open>proxy.ts\<close> of the generic
    wrapper) and \<open>Github_Catalog\<close>, \<open>Github_Proxy\<close>, \<open>Github_Proxy_Props\<close> (\<open>catalog/github-mcp.ts\<close>, \<open>proxy.ts\<close> of the
    GitHub wrapper, \<open>mcp/proxy.ts\<close> of the wrapper kit).
  \<^item> \<open>Oauth_Adapters\<close> (\<open>provider-adapters.ts\<close>, the adapter of \<open>oauth.ts\<close> of the generic wrapper): the requests to Google, GitHub or a
    described provider and the reading of the replies, as adapters of the connection lifecycle. \<open>Oauth_Flows\<close>, \<open>Oauth_Props\<close>
    (\<open>google.ts\<close>, \<open>github.ts\<close>, \<open>oauth.ts\<close>, \<open>token-broker.ts\<close>): the sign-in with a provider over that lifecycle; the contract
    \<open>attesting_flow\<close>, interpreted for the three modules. \<open>Oauth_Routes\<close>, \<open>Oauth_Route_Props\<close> (\<open>connection-routes.ts\<close>,
    \<open>connection-status.ts\<close>, \<open>oauth-routes.ts\<close> of the three wrappers): the routes of connections and sign-ins, with the checks of
    redirect targets, and the requests of a GitHub wrapper as an inductive set of states.
  \<^item> \<open>Generic_Credentials\<close> (\<open>credentials.ts\<close>): credential resolution and the cache of exchanged tokens, as a step relation.
    \<open>Jira_Rest\<close> (\<open>jira-rest.ts\<close>): the tools that call Jira's REST interface.

  \<^bold>\<open>State and operations.\<close> A class instance is a record with one field per private field; a method is
  a function from the state to its result and the new state, with the error as the left summand of
  the result. Dates are integers in milliseconds. The time of each clock reading is an argument: an
  operation made of several sections takes a function \<open>t\<close> from section numbers to times. Random
  identifiers and secrets come from a sequence with a counter in the state, so that a freshness assumption
  names the value it is about.

  \<^bold>\<open>Concurrency.\<close> The store's locks make the body of \<open>withConnectionLock\<close> and
  \<open>withConnectionIssuanceLock\<close> atomic, and a single store call is atomic; everything between two of
  them may interleave with other requests. \<open>lifecycle_step\<close> has one rule per atomic section, with
  arbitrary arguments, and \<open>lifecycle_run\<close> is its closure, so a statement about a run is one about
  every interleaving of every number of callers. The in-memory store does not roll a failed
  section back, and neither does the model.

  \<^bold>\<open>Lemma groups.\<close> Safety: nothing but a new authorization reconnects a disconnected principal, an
  authorization started without a connection or on an enabled one cannot complete once that was
  disconnected, custody records only move
  forward and lose their material when finished, a renewal replaces only the version it started from.
  Progress: a disconnect goes through if the credential can be read, a lapsed credential is renewed on lookup if the
  provider renews it, and what a lookup hands out is the stored credential of an enabled connection with the scopes
  asked for. Broker: codes,
  callbacks and refresh tokens are used once, a replay ends the family, rotation never widens a grant, exchange
  answers are bound to client, target and PKCE verifier, a well-formed sign-in ends with a token.
  Reports: the status document, backoff and retry, and two defects of the code. Registration: the
  store is a map of live entries within its limits, and the authorization server, whatever it has
  served, redirects only to validated URIs.
  Policy: guardrails fail closed, the composite is the strictest decision. Workspace: a command runs
  only if granted and allowed, and of the commands that can send mail only the helper and the raw send run, to
  allowed domains. Commands: streamed redaction of ASCII output is independent of chunking for separable secrets, a run settles once. Governed command line: a prepared run is authenticated,
  granted and approved, jobs stay within their limits, belong to their task, and their streams are
  complete. Remote shell: a command runs on the instance its task is bound to, the table of jobs stays within its
  limits whatever interleaves, the wait ends with the first final report, redacted and cut. Wrappers: what a descriptor or catalog guarantees once it parses,
  sessions within their limits, every request that reaches an upstream authenticated, granted and allowed, with a
  credential of its caller and only the headers meant for it, a write never sent twice. Sign-in: a callback ends well only
  for the user who started it and an account the provider attests to be that user's, and a state is used once; a
  disconnect ends the sign-ins under way, a GitHub callback redirects only to targets that passed the check (which
  lets a scheme-relative path through); an exchanged
  token is served only to the caller it was exchanged for, and Jira tools reach only the configured site.

  \<^bold>\<open>Parameters.\<close> The provider adapter, the JSON codec, the AES-GCM and base64 primitives, SHA-256, the JWT
  library, Google's token endpoint, the client registry, the random source, the URL parser and IP test,
  the YAML and JSON parsers, \<open>domainToASCII\<close>, the UTF-8 decoder, the generated catalog tables, the digest
  of arguments, the events of a child process and the replies of HTTP endpoints are fields of the option records or arguments; what a property needs of them is a named hypothesis (\<open>sealing_laws\<close>,
  \<open>aead_laws\<close>, \<open>base64_laws\<close>, \<open>fresh_hash\<close>), shown satisfiable by its witness.

  \<^bold>\<open>Bounds.\<close> No recursion has fuel. The retry loop ends by its attempt count; the wait for a concurrent
  renewal is a recursion over the store states seen at its polls, of which the 20 s deadline allows
  finitely many; an identity backfill retries once. The drain of a redacted stream and the loop that
  makes room for a job are partial functions, proved to return where they are used. The stream of an HTTP answer is
  the finite list of its chunks.

  \<^bold>\<open>Approximations.\<close> Text is a list of characters: UTF-8 encoding and decoding is the identity, in the sealing
  of secrets, in the reading of HTTP bodies and in the output of commands, where byte limits are therefore exact for
  ASCII only and the removal of a replacement character at the end of a streamed piece is absent. A caller that
  waited for another renewal goes on from the state before its polls, and the store calls inside a section are
  taken together. The broker and its registry run on the in-memory stores, with the fixed list of
  client identifiers. A \<open>GET\<close> request with a body, which \<open>fetch\<close> would refuse, counts as forwarded by the GitHub wrapper.

  \<^bold>\<open>Not modelled.\<close> The SQL stores (their SQL text is executed by a database), the MCP endpoint of the Google Workspace
  wrapper, the literal data of the generated tool catalogs, metrics, timers, the broker's check of its public
  configuration and the loading of its keys, the direct stream of a run, the client side of the governed
  command line, start-up wiring, and the deployment and release scripts.
\<close>

end
